(* ===== verification/Errors.thy ===== *)
theory Errors
  imports Prelude
begin

text \<open>
  The exceptions of the SDK (\<open>sdk/node/src/errors.ts\<close>): the class hierarchy below
  \<open>MetaError\<close>, the message each constructor builds, and the mapping of gRPC client errors
  that the client middleware applies.  The values other code may throw at the SDK (errors
  of the JavaScript library, of nice-grpc, of user callbacks) are constructors of the same
  type, so that a thrown value is one HOL value everywhere.
\<close>

text \<open>
  \<open>Status\<close> is nice-grpc's enumeration of gRPC status codes; the SDK only passes codes on and
  renders their names through \<open>Status[code]\<close>, which is a parameter of the message.
\<close>

type_synonym status = nat

datatype js_error =
    JsError string
  | JsTypeError string
  | JsRangeError string
  | JsSyntaxError string
  | LibError string
  | ClientError string status string
  | CodedError string
  | ThrownFalsy
  | MetaError string
  | MetaRpcError string status string
  | UnsupportedCapabilityError string
  | RuntimeLaunchError string "js_error option"
  | ProtocolMismatchError int int
  | EventBufferOverflowError int

text \<open>\<open>ThrownFalsy\<close> is any thrown value that converts to false (\<open>undefined\<close>, \<open>0\<close>, \<open>""\<close>).\<close>

definition truthy :: "js_error \<Rightarrow> bool" where
  "truthy e = (e \<noteq> ThrownFalsy)"

text \<open>\<open>instanceof MetaError\<close>: the class and its subclasses.\<close>

fun is_meta_error :: "js_error \<Rightarrow> bool" where
  "is_meta_error (MetaError _) = True"
| "is_meta_error (MetaRpcError _ _ _) = True"
| "is_meta_error (UnsupportedCapabilityError _) = True"
| "is_meta_error (RuntimeLaunchError _ _) = True"
| "is_meta_error (ProtocolMismatchError _ _) = True"
| "is_meta_error (EventBufferOverflowError _) = True"
| "is_meta_error _ = False"

text \<open>\<open>this.name = new.target.name\<close>: the name property of an instance of each class.\<close>

fun error_name :: "js_error \<Rightarrow> string" where
  "error_name (MetaError _) = ''MetaError''"
| "error_name (MetaRpcError _ _ _) = ''MetaRpcError''"
| "error_name (UnsupportedCapabilityError _) = ''UnsupportedCapabilityError''"
| "error_name (RuntimeLaunchError _ _) = ''RuntimeLaunchError''"
| "error_name (ProtocolMismatchError _ _) = ''ProtocolMismatchError''"
| "error_name (EventBufferOverflowError _) = ''EventBufferOverflowError''"
| "error_name (JsTypeError _) = ''TypeError''"
| "error_name (JsRangeError _) = ''RangeError''"
| "error_name (JsSyntaxError _) = ''SyntaxError''"
| "error_name (ClientError _ _ _) = ''ClientError''"
| "error_name _ = ''Error''"

text \<open>
  The message each constructor of the hierarchy passes to \<open>super\<close> (\<open>names\<close> is \<open>Status[code]\<close>);
  \<open>None\<close> for errors of other classes, whose message this code does not build.
\<close>

fun sdk_message :: "(status \<Rightarrow> string) \<Rightarrow> js_error \<Rightarrow> string option" where
  "sdk_message names (MetaError msg) = Some msg"
| "sdk_message names (MetaRpcError path code details) =
     Some (path @ '' '' @ names code @ '': '' @ details)"
| "sdk_message names (UnsupportedCapabilityError cap) =
     Some (''runtime does not support capability '' @ cap)"
| "sdk_message names (RuntimeLaunchError msg cause) = Some msg"
| "sdk_message names (ProtocolMismatchError expected actual) =
     Some (''runtime protocol major '' @ string_of_int actual @
     '' is incompatible with SDK protocol major '' @ string_of_int expected)"
| "sdk_message names (EventBufferOverflowError limit) =
     Some (''event iterator exceeded its local buffer limit of '' @ string_of_int limit)"
| "sdk_message names _ = None"

lemma sdk_message_Some_iff: "(\<exists>m. sdk_message names e = Some m) \<longleftrightarrow> is_meta_error e"
  by (cases e) simp_all

fun mapRpcError :: "js_error \<Rightarrow> js_error" where
  "mapRpcError (ClientError path code details) = MetaRpcError path code details"
| "mapRpcError e = e"

text \<open>The middleware: the response of the call, its exceptions mapped.\<close>

definition errorMiddleware :: "('req \<Rightarrow> (js_error, 'resp) result) \<Rightarrow> 'req \<Rightarrow> (js_error, 'resp) result" where
  "errorMiddleware call request =
     (case call request of Inl e \<Rightarrow> Inl (mapRpcError e) | Inr resp \<Rightarrow> Inr resp)"

lemma mapRpcError_no_client_error: "mapRpcError e \<noteq> ClientError path code details"
  by (cases e) simp_all

lemma mapRpcError_idem: "mapRpcError (mapRpcError e) = mapRpcError e"
  by (cases e) simp_all

end
