(* ===== verification/Event_Queue.thy ===== *)
theory Event_Queue
  imports Errors
begin

text \<open>
  \<open>EventQueue\<close> of \<open>sdk/node/src/events.ts\<close>: the bounded buffer between the pump of an event
  stream and one asynchronous iterator.  A promise returned by \<open>next()\<close> is a number; an
  operation returns the new queue and the promises it settles, in order.

  The contract is an abstract queue that keeps the whole history: the accepted events, how many
  results were requested and how the queue ended.  The locale \<open>delivery\<close> states it as an
  interface and derives what a consumer relies on; the queue interprets it.
\<close>

section \<open>The queue\<close>

datatype 'e q_result = Value 'e | Done | Rejected js_error

type_synonym 'e settlement = "nat \<times> 'e q_result"

record 'e event_queue =
  q_limit :: int
  q_values :: "'e list"
  q_waiters :: "nat list"
  q_error :: "js_error option"
  q_ended :: bool

definition new_queue :: "int \<Rightarrow> 'e event_queue" where
  "new_queue limit = \<lparr>q_limit = limit, q_values = [], q_waiters = [], q_error = None, q_ended = False\<rparr>"

definition q_close :: "'e event_queue \<Rightarrow> 'e event_queue \<times> 'e settlement list" where
  "q_close q = (if q_ended q then (q, [])
     else (q\<lparr>q_ended := True, q_waiters := []\<rparr>, map (\<lambda>w. (w, Done)) (q_waiters q)))"

definition q_fail :: "'e event_queue \<Rightarrow> js_error \<Rightarrow> 'e event_queue \<times> 'e settlement list" where
  "q_fail q e = (if q_ended q then (q, [])
     else (q\<lparr>q_error := Some e, q_ended := True, q_waiters := []\<rparr>, map (\<lambda>w. (w, Rejected e)) (q_waiters q)))"

definition q_push :: "'e event_queue \<Rightarrow> 'e \<Rightarrow> 'e event_queue \<times> 'e settlement list" where
  "q_push q v =
     (if q_ended q then (q, [])
      else (case q_waiters q of
              w # ws \<Rightarrow> (q\<lparr>q_waiters := ws\<rparr>, [(w, Value v)])
            | [] \<Rightarrow> (if int (length (q_values q)) \<ge> q_limit q
                    then q_fail q (EventBufferOverflowError (q_limit q))
                    else (q\<lparr>q_values := q_values q @ [v]\<rparr>, []))))"

text \<open>\<open>next()\<close>; \<open>p\<close> is the promise it returns.\<close>

definition q_next :: "'e event_queue \<Rightarrow> nat \<Rightarrow> 'e event_queue \<times> 'e settlement list" where
  "q_next q p =
     (case q_values q of
        v # vs \<Rightarrow> (q\<lparr>q_values := vs\<rparr>, [(p, Value v)])
      | [] \<Rightarrow> (case q_error q of
                Some e \<Rightarrow> (if truthy e then (q, [(p, Rejected e)])
                           else if q_ended q then (q, [(p, Done)])
                           else (q\<lparr>q_waiters := q_waiters q @ [p]\<rparr>, []))
              | None \<Rightarrow> (if q_ended q then (q, [(p, Done)])
                         else (q\<lparr>q_waiters := q_waiters q @ [p]\<rparr>, []))))"

section \<open>Runs\<close>

datatype 'e q_op = Push 'e | Next | Close | Fail js_error

text \<open>The state of a run: the queue, the number of promises made, the settlements so far.\<close>

type_synonym 'e q_run = "'e event_queue \<times> nat \<times> 'e settlement list"

fun q_step :: "'e q_run \<Rightarrow> 'e q_op \<Rightarrow> 'e q_run" where
  "q_step (q, n, S) (Push v) = (let (q', s) = q_push q v in (q', n, S @ s))"
| "q_step (q, n, S) Next = (let (q', s) = q_next q n in (q', Suc n, S @ s))"
| "q_step (q, n, S) Close = (let (q', s) = q_close q in (q', n, S @ s))"
| "q_step (q, n, S) (Fail e) = (let (q', s) = q_fail q e in (q', n, S @ s))"

definition q_run :: "int \<Rightarrow> 'e q_op list \<Rightarrow> 'e q_run" where
  "q_run limit ops = foldl q_step (new_queue limit, 0, []) ops"

section \<open>The abstract queue\<close>

text \<open>
  \<open>accepted\<close>: every event taken so far; \<open>asked\<close>: the number of \<open>next()\<close> calls; \<open>fin\<close>: the
  number of calls made when the queue ended and the error it ended with, if any.
\<close>

record 'e abs_queue =
  accepted :: "'e list"
  asked :: nat
  fin :: "(nat \<times> js_error option) option"

definition abs_new :: "'e abs_queue" where
  "abs_new = \<lparr>accepted = [], asked = 0, fin = None\<rparr>"

fun abs_step :: "int \<Rightarrow> 'e abs_queue \<Rightarrow> 'e q_op \<Rightarrow> 'e abs_queue" where
  "abs_step limit a (Push v) =
     (if fin a \<noteq> None then a
      else if asked a \<le> length (accepted a) \<and> limit \<le> int (length (accepted a) - asked a)
      then a\<lparr>fin := Some (asked a, Some (EventBufferOverflowError limit))\<rparr>
      else a\<lparr>accepted := accepted a @ [v]\<rparr>)"
| "abs_step limit a Next = a\<lparr>asked := Suc (asked a)\<rparr>"
| "abs_step limit a Close = (if fin a \<noteq> None then a else a\<lparr>fin := Some (asked a, None)\<rparr>)"
| "abs_step limit a (Fail e) = (if fin a \<noteq> None then a else a\<lparr>fin := Some (asked a, Some e)\<rparr>)"

definition abs_run :: "int \<Rightarrow> 'e q_op list \<Rightarrow> 'e abs_queue" where
  "abs_run limit ops = foldl (abs_step limit) abs_new ops"

text \<open>
  What the \<open>k\<close>-th call of \<open>next()\<close> receives: the \<open>k\<close>-th accepted event, or how the queue ended.
  A falsy error only reaches the calls that were waiting for it.
\<close>

definition abs_result :: "'e abs_queue \<Rightarrow> nat \<Rightarrow> 'e q_result option" where
  "abs_result a k =
     (if asked a \<le> k then None
      else if k < length (accepted a) then Some (Value (accepted a ! k))
      else (case fin a of
              None \<Rightarrow> None
            | Some (n, None) \<Rightarrow> Some Done
            | Some (n, Some e) \<Rightarrow> (if k < n \<or> truthy e then Some (Rejected e) else Some Done)))"

text \<open>The simulation relation.\<close>

definition q_sim :: "int \<Rightarrow> 'e abs_queue \<Rightarrow> 'e q_run \<Rightarrow> bool" where
  "q_sim limit a = (\<lambda>(q, n, S).
     q_limit q = limit \<and> n = asked a \<and> q_values q = drop (asked a) (accepted a) \<and>
     q_waiters q = (if fin a = None then [length (accepted a)..<asked a] else []) \<and>
     q_ended q = (fin a \<noteq> None) \<and>
     q_error q = (case fin a of None \<Rightarrow> None | Some (n, e) \<Rightarrow> e) \<and>
     (case fin a of None \<Rightarrow> True | Some (n, e) \<Rightarrow> n \<le> asked a) \<and>
     distinct (map fst S) \<and> (\<forall>k. map_of S k = abs_result a k))"

lemma map_of_const: "map_of (map (\<lambda>w. (w, r)) ws) k = (if k \<in> set ws then Some r else None)"
  by (simp add: map_of_map_restrict restrict_map_def)

lemma map_of_append_fresh:
  "map_of (S @ s) k = (case map_of S k of Some x \<Rightarrow> Some x | None \<Rightarrow> map_of s k)"
  by (simp add: map_add_def split: option.split)

lemma map_of_None_fst: "map_of S k = None \<Longrightarrow> k \<notin> fst ` set S"
  by (simp add: map_of_eq_None_iff)

lemma q_sim_new: "q_sim limit abs_new (new_queue limit, 0, [])"
  by (simp add: q_sim_def abs_new_def new_queue_def abs_result_def)

text \<open>Ending the queue settles every waiter; used for \<open>close\<close>, \<open>fail\<close> and overflow.\<close>

lemma q_sim_end:
  assumes sim: "q_sim limit a (q, n, S)" and open': "fin a = None"
    and r: "r = (case e of None \<Rightarrow> Done | Some x \<Rightarrow> Rejected x)"
  shows "q_sim limit (a\<lparr>fin := Some (asked a, e)\<rparr>)
    (q\<lparr>q_error := e, q_ended := True, q_waiters := []\<rparr>, n, S @ map (\<lambda>w. (w, r)) (q_waiters q))"
proof -
  have ws: "q_waiters q = [length (accepted a)..<asked a]" using sim open' by (simp add: q_sim_def)
  have res: "map_of S k = abs_result a k" for k using sim by (simp add: q_sim_def)
  have "map_of S k = None" if "k \<in> set (q_waiters q)" for k
    using that by (simp add: ws res abs_result_def open')
  then have "fst ` set S \<inter> set (q_waiters q) = {}"
    using map_of_None_fst [of S] by blast
  moreover have "distinct (map fst S)" using sim by (simp add: q_sim_def)
  ultimately have "distinct (map fst (S @ map (\<lambda>w. (w, r)) (q_waiters q)))"
    by (simp add: comp_def ws)
  moreover have "map_of (S @ map (\<lambda>w. (w, r)) (q_waiters q)) k =
      abs_result (a\<lparr>fin := Some (asked a, e)\<rparr>) k" for k
    unfolding map_of_append_fresh map_of_const res ws
    by (cases e) (auto simp: abs_result_def open' r)
  ultimately show ?thesis
    using sim by (simp add: q_sim_def)
qed

lemma q_sim_push:
  assumes sim: "q_sim limit a (q, n, S)"
  shows "q_sim limit (abs_step limit a (Push v)) (q_step (q, n, S) (Push v))"
proof (cases "fin a")
  case (Some x)
  then show ?thesis using sim by (simp add: q_sim_def q_push_def)
next
  case None
  note open' = this
  have ws: "q_waiters q = [length (accepted a)..<asked a]"
    and vs: "q_values q = drop (asked a) (accepted a)" and lim: "q_limit q = limit"
    and ended: "\<not> q_ended q" and err: "q_error q = None" and n: "n = asked a"
    and res: "map_of S k = abs_result a k" and dist: "distinct (map fst S)" for k
    using sim None by (simp_all add: q_sim_def)
  show ?thesis
  proof (cases "length (accepted a) < asked a")
    case True
    then have w: "q_waiters q = length (accepted a) # [Suc (length (accepted a))..<asked a]"
      by (simp add: ws upt_conv_Cons)
    have "map_of S (length (accepted a)) = None" by (simp add: res abs_result_def open')
    then have fresh: "length (accepted a) \<notin> fst ` set S" by (rule map_of_None_fst)
    have "map_of (S @ [(length (accepted a), Value v)]) k =
        abs_result (a\<lparr>accepted := accepted a @ [v]\<rparr>) k" for k
      unfolding map_of_append_fresh res using True by (auto simp: abs_result_def open' nth_append)
    then show ?thesis
      using True w ended lim err n dist fresh open' vs
      by (simp add: q_sim_def q_push_def)
  next
    case False
    then have w: "q_waiters q = []" by (simp add: ws)
    show ?thesis
    proof (cases "limit \<le> int (length (accepted a) - asked a)")
      case True
      then show ?thesis
        using q_sim_end [OF sim open', of _ "Some (EventBufferOverflowError limit)"] False ended w lim vs open'
        by (simp add: q_push_def q_fail_def)
    next
      case small: False
      have "abs_result (a\<lparr>accepted := accepted a @ [v]\<rparr>) k = abs_result a k" for k
        using False by (auto simp: abs_result_def nth_append)
      then show ?thesis
        using small False w ended lim err n dist open' vs res
        by (simp add: q_sim_def q_push_def)
    qed
  qed
qed

lemma q_sim_next:
  assumes sim: "q_sim limit a (q, n, S)"
  shows "q_sim limit (abs_step limit a Next) (q_step (q, n, S) Next)"
proof -
  have vs: "q_values q = drop (asked a) (accepted a)" and n: "n = asked a"
    and res: "map_of S k = abs_result a k" and dist: "distinct (map fst S)" for k
    using sim by (simp_all add: q_sim_def)
  have none: "map_of S (asked a) = None" by (simp add: res abs_result_def)
  then have fresh: "asked a \<notin> fst ` set S" by (rule map_of_None_fst)
  have other: "abs_result (a\<lparr>asked := Suc (asked a)\<rparr>) k = abs_result a k" if "k \<noteq> asked a" for k
    using that by (simp add: abs_result_def)
  have settled: "map_of (S @ [(asked a, r)]) k = abs_result (a\<lparr>asked := Suc (asked a)\<rparr>) k"
    if "abs_result (a\<lparr>asked := Suc (asked a)\<rparr>) (asked a) = Some r" for r k
  proof (cases "k = asked a")
    case True
    then show ?thesis using that by (simp only: map_of_append_fresh none) simp
  next
    case False
    then show ?thesis by (simp only: map_of_append_fresh other [OF False] res) (simp split: option.split)
  qed
  have waiting: "map_of S k = abs_result (a\<lparr>asked := Suc (asked a)\<rparr>) k"
    if "abs_result (a\<lparr>asked := Suc (asked a)\<rparr>) (asked a) = None" for k
    using that other [of k] none by (cases "k = asked a") (simp_all add: res)
  show ?thesis
  proof (cases "asked a < length (accepted a)")
    case True
    then have v: "q_values q = accepted a ! asked a # drop (Suc (asked a)) (accepted a)"
      by (simp add: vs Cons_nth_drop_Suc)
    have "abs_result (a\<lparr>asked := Suc (asked a)\<rparr>) (asked a) = Some (Value (accepted a ! asked a))"
      using True by (simp add: abs_result_def)
    note settled [OF this]
    moreover have "q_step (q, n, S) Next =
        (q\<lparr>q_values := drop (Suc (asked a)) (accepted a)\<rparr>, Suc (asked a), S @ [(asked a, Value (accepted a ! asked a))])"
      by (simp add: q_next_def v n)
    ultimately show ?thesis
      using sim fresh True by (auto simp: q_sim_def simp del: map_of_append split: option.splits)
  next
    case False
    then have v: "q_values q = []" by (simp add: vs)
    show ?thesis
    proof (cases "fin a")
      case None
      then have "abs_result (a\<lparr>asked := Suc (asked a)\<rparr>) (asked a) = None"
        using False by (simp add: abs_result_def)
      from waiting [OF this] show ?thesis
        using sim v None False by (simp add: q_sim_def q_next_def n)
    next
      case (Some ne)
      obtain m e where ne: "ne = (m, e)" by (cases ne)
      have m: "m \<le> asked a" using sim Some ne by (simp add: q_sim_def)
      let ?r = "case e of None \<Rightarrow> Done | Some x \<Rightarrow> if truthy x then Rejected x else Done"
      have "abs_result (a\<lparr>asked := Suc (asked a)\<rparr>) (asked a) = Some ?r"
        using False Some ne m by (simp add: abs_result_def split: option.split)
      note settled [OF this]
      moreover have "q_step (q, n, S) Next = (q, Suc (asked a), S @ [(asked a, ?r)])"
        using sim Some ne by (simp add: q_sim_def q_next_def v split: option.split)
      ultimately show ?thesis
        using sim fresh False Some ne m by (simp add: q_sim_def v del: map_of_append)
    qed
  qed
qed

lemma q_sim_close:
  assumes "q_sim limit a (q, n, S)"
  shows "q_sim limit (abs_step limit a Close) (q_step (q, n, S) Close)"
proof (cases "fin a")
  case None
  then have "\<not> q_ended q" "q_error q = None" using assms by (simp_all add: q_sim_def)
  then have "q\<lparr>q_error := None, q_ended := True, q_waiters := []\<rparr> = q\<lparr>q_ended := True, q_waiters := []\<rparr>"
    by (cases q) simp
  with \<open>\<not> q_ended q\<close> show ?thesis
    using q_sim_end [OF assms None, of Done None] None by (simp add: q_close_def)
next
  case Some
  then show ?thesis using assms by (simp add: q_sim_def q_close_def)
qed

lemma q_sim_fail:
  assumes "q_sim limit a (q, n, S)"
  shows "q_sim limit (abs_step limit a (Fail e)) (q_step (q, n, S) (Fail e))"
proof (cases "fin a")
  case None
  then have "\<not> q_ended q" using assms by (simp add: q_sim_def)
  then show ?thesis
    using q_sim_end [OF assms None, of "Rejected e" "Some e"] None by (simp add: q_fail_def)
next
  case Some
  then show ?thesis using assms by (simp add: q_sim_def q_fail_def)
qed

lemma q_sim_step:
  assumes "q_sim limit a st"
  shows "q_sim limit (abs_step limit a op) (q_step st op)"
proof (cases st)
  case (fields q n S)
  then show ?thesis
    using assms q_sim_push q_sim_next q_sim_close q_sim_fail by (cases op) (simp_all only:)
qed

lemma q_sim_run: "q_sim limit (abs_run limit ops) (q_run limit ops)"
proof (induction ops rule: rev_induct)
  case Nil
  show ?case by (simp add: abs_run_def q_run_def q_sim_new)
next
  case (snoc op ops)
  then show ?case using q_sim_step by (simp add: abs_run_def q_run_def)
qed

section \<open>The delivery interface\<close>

text \<open>Facts of the abstract queue.\<close>

fun pushes :: "'e q_op list \<Rightarrow> 'e list" where
  "pushes [] = []"
| "pushes (Push v # ops) = v # pushes ops"
| "pushes (_ # ops) = pushes ops"

lemma pushes_append [simp]: "pushes (ops @ ops') = pushes ops @ pushes ops'"
  by (induction ops rule: pushes.induct) simp_all

lemma pushes_map_Push [simp]: "pushes (map Push es) = es"
  by (induction es) simp_all

lemma pushes_replicate_Next [simp]: "pushes (replicate n Next) = []"
  by (induction n) simp_all

definition abs_mono :: "'e abs_queue \<Rightarrow> 'e abs_queue \<Rightarrow> bool" where
  "abs_mono a b = ((\<exists>xs. accepted b = accepted a @ xs \<and> (fin a \<noteq> None \<longrightarrow> xs = [])) \<and> asked a \<le> asked b \<and>
     (fin a \<noteq> None \<longrightarrow> fin b = fin a))"

lemma abs_mono_refl: "abs_mono a a" by (simp add: abs_mono_def)

lemma abs_mono_trans: "abs_mono a b \<Longrightarrow> abs_mono b c \<Longrightarrow> abs_mono a c"
  by (auto simp: abs_mono_def)

lemma abs_mono_step: "abs_mono a (abs_step limit a op)"
  by (cases op) (auto simp: abs_mono_def)

lemma abs_mono_fold: "abs_mono a (foldl (abs_step limit) a ops)"
  by (induction ops arbitrary: a) (auto intro: abs_mono_refl abs_mono_trans abs_mono_step)

lemma abs_result_mono: "abs_mono a b \<Longrightarrow> abs_result a k = Some r \<Longrightarrow> abs_result b k = Some r"
  by (fastforce simp: abs_mono_def abs_result_def nth_append split: if_splits option.splits)

lemma abs_accepted_open:
  "fin (foldl (abs_step limit) a ops) = None \<Longrightarrow>
   fin a = None \<and> accepted (foldl (abs_step limit) a ops) = accepted a @ pushes ops"
proof (induction ops arbitrary: a)
  case (Cons op ops)
  let ?a = "abs_step limit a op"
  have "fin ?a = None \<and> accepted (foldl (abs_step limit) ?a ops) = accepted ?a @ pushes ops"
    using Cons.IH [of ?a] Cons.prems by simp
  moreover from this have "fin a = None \<and> accepted ?a = accepted a @ pushes [op]"
    by (cases op) (simp_all split: if_splits)
  ultimately show ?case using pushes_append [of "[op]" ops] by simp
qed simp

lemma abs_accepted_prefix:
  "\<exists>rest. accepted a @ pushes ops = accepted (foldl (abs_step limit) a ops) @ rest"
proof (induction ops arbitrary: a)
  case Nil
  then show ?case by simp
next
  case (Cons op ops)
  show ?case
  proof (cases "fin (abs_step limit a op) = None")
    case True
    then have "accepted (abs_step limit a op) = accepted a @ pushes [op]"
      using abs_accepted_open [of limit a "[op]"] by simp
    moreover have "pushes (op # ops) = pushes [op] @ pushes ops"
      using pushes_append [of "[op]" ops] by simp
    ultimately show ?thesis using Cons.IH [of "abs_step limit a op"] by simp
  next
    case False
    then have "accepted (foldl (abs_step limit) (abs_step limit a op) ops) = accepted (abs_step limit a op)"
      using abs_mono_fold [of "abs_step limit a op" limit ops] by (auto simp: abs_mono_def)
    moreover have "\<exists>rest. accepted a @ pushes (op # ops) = accepted (abs_step limit a op) @ rest"
      by (cases op) simp_all
    ultimately show ?thesis by simp
  qed
qed

text \<open>
  The interface between a consumer and a bounded event buffer: the buffer may be any machine
  related to the abstract queue.
\<close>

locale delivery =
  fixes start :: 's
    and stp :: "'s \<Rightarrow> 'e q_op \<Rightarrow> 's"
    and out :: "'s \<Rightarrow> 'e settlement list"
    and limit :: int
    and rel :: "'e abs_queue \<Rightarrow> 's \<Rightarrow> bool"
  assumes rel_start: "rel abs_new start"
    and rel_step: "rel a s \<Longrightarrow> rel (abs_step limit a op) (stp s op)"
    and rel_out: "rel a s \<Longrightarrow> map_of (out s) k = abs_result a k"
    and rel_once: "rel a s \<Longrightarrow> distinct (map fst (out s))"
begin

lemma rel_run: "rel (abs_run limit ops) (foldl stp start ops)"
proof (induction ops rule: rev_induct)
  case Nil
  then show ?case by (simp add: abs_run_def rel_start)
next
  case (snoc op ops)
  then show ?case using rel_step by (simp add: abs_run_def)
qed

lemma refines: "map_of (out (foldl stp start ops)) k = abs_result (abs_run limit ops) k"
  by (rule rel_out [OF rel_run])

lemma settled_once: "distinct (map fst (out (foldl stp start ops)))"
  by (rule rel_once [OF rel_run])

lemma settled_for_ever:
  assumes "map_of (out (foldl stp start ops)) k = Some r"
  shows "map_of (out (foldl stp start (ops @ ops'))) k = Some r"
proof -
  have "abs_mono (abs_run limit ops) (abs_run limit (ops @ ops'))"
    by (simp add: abs_run_def abs_mono_fold)
  then show ?thesis using assms by (simp only: refines abs_result_mono)
qed

lemma in_order:
  assumes "map_of (out (foldl stp start ops)) k = Some (Value v)"
  shows "k < length (pushes ops) \<and> pushes ops ! k = v"
proof -
  obtain rest where "pushes ops = accepted (abs_run limit ops) @ rest"
    using abs_accepted_prefix [of abs_new ops limit] by (auto simp: abs_run_def abs_new_def)
  then show ?thesis
    using assms by (auto simp: refines abs_result_def nth_append split: if_splits option.splits)
qed

lemma nothing_pending_after_end:
  assumes "fin (abs_run limit ops) \<noteq> None" "k < asked (abs_run limit ops)"
  shows "map_of (out (foldl stp start ops)) k \<noteq> None"
  using assms by (auto simp: refines abs_result_def split: option.split)

end

interpretation eq: delivery "(new_queue limit, 0, [])" q_step "\<lambda>(q, n, S). S" limit "q_sim limit"
  for limit :: int
proof
  show "q_sim limit abs_new (new_queue limit, 0, [])" by (rule q_sim_new)
  fix a and s :: "'a q_run" and op k
  assume sim: "q_sim limit a s"
  show "q_sim limit (abs_step limit a op) (q_step s op)" by (rule q_sim_step [OF sim])
  show "map_of (case s of (q, n, S) \<Rightarrow> S) k = abs_result a k" using sim by (cases s) (simp add: q_sim_def)
  show "distinct (map fst (case s of (q, n, S) \<Rightarrow> S))" using sim by (cases s) (simp add: q_sim_def)
qed

definition settlements :: "int \<Rightarrow> 'e q_op list \<Rightarrow> 'e settlement list" where
  "settlements limit ops = snd (snd (q_run limit ops))"

definition final_queue :: "int \<Rightarrow> 'e q_op list \<Rightarrow> 'e event_queue" where
  "final_queue limit ops = fst (q_run limit ops)"

lemma settlements_run: "settlements limit ops = (\<lambda>(q, n, S). S) (foldl q_step (new_queue limit, 0, []) ops)"
  by (simp add: settlements_def q_run_def split_beta)

lemma q_sim_final:
  "q_sim limit (abs_run limit ops) (final_queue limit ops, fst (snd (q_run limit ops)), settlements limit ops)"
  using q_sim_run [of limit ops] by (simp add: final_queue_def settlements_def)

section \<open>What a consumer observes\<close>

text \<open>C1: the queue implements its abstract specification.  After any sequence of pushes, reads,
closes and failures the promise of the k-th \<open>next()\<close> has exactly the result the abstract queue
gives it (the k-th accepted event, else the way the queue ended, else pending), and no promise is
settled twice.\<close>

theorem queue_refines_history:
  "map_of (settlements limit ops) k = abs_result (abs_run limit ops) k \<and>
   distinct (map fst (settlements limit ops))"
  unfolding settlements_run by (intro conjI eq.refines eq.settled_once)

text \<open>C28: events arrive in order, without loss or duplication: a promise that is fulfilled with a
value, the k-th of the run, carries the k-th event pushed; and a settled promise keeps its result
whatever happens later.\<close>

theorem queue_delivers_in_order:
  assumes "map_of (settlements limit ops) k = Some (Value v)"
  shows "k < length (pushes ops) \<and> pushes ops ! k = v \<and>
    map_of (settlements limit (ops @ ops')) k = Some (Value v)"
  using eq.in_order [OF assms [unfolded settlements_run]]
    eq.settled_for_ever [OF assms [unfolded settlements_run], of ops']
  by (simp only: settlements_run simp_thms)

lemma queue_delivers_in_order_witness:
  "map_of (settlements 2 [Push (5 :: int), Next, Push 6, Close, Next]) 1 = Some (Value 6) \<and>
   1 < length (pushes [Push (5 :: int), Next, Push 6, Close, Next]) \<and>
   map_of (settlements 2 ([Push (5 :: int), Next, Push 6, Close, Next] @ [Next, Push 7])) 1 = Some (Value 6)"
proof -
  have "map_of (settlements 2 [Push (5 :: int), Next, Push 6, Close, Next]) 1 = Some (Value 6)"
    by code_simp
  from this queue_delivers_in_order [OF this, of "[Next, Push 7]"] show ?thesis by blast
qed

text \<open>C27: the buffer is bounded and the two lists of the queue exclude each other: never more than
\<open>limit\<close> values are held, promises wait only while no value is held and the queue is open, and a
queue is ended exactly when the abstract queue is.\<close>

theorem queue_bounded:
  "int (length (q_values (final_queue limit ops))) \<le> max 0 limit \<and>
   (q_waiters (final_queue limit ops) \<noteq> [] \<longrightarrow>
      q_values (final_queue limit ops) = [] \<and> \<not> q_ended (final_queue limit ops)) \<and>
   (q_ended (final_queue limit ops) \<longleftrightarrow> fin (abs_run limit ops) \<noteq> None)"
proof -
  have cap: "int (length (q_values (fst (q_run limit ops)))) \<le> max 0 limit \<and> q_limit (fst (q_run limit ops)) = limit"
  proof (induction ops rule: rev_induct)
    case Nil
    then show ?case by (simp add: q_run_def new_queue_def)
  next
    case (snoc op ops)
    obtain q n S where st: "q_run limit ops = (q, n, S)" by (cases "q_run limit ops")
    moreover have "q_run limit (ops @ [op]) = q_step (q, n, S) op" using st by (simp add: q_run_def)
    ultimately show ?case using snoc
      by (cases op) (auto simp: q_push_def q_fail_def q_next_def q_close_def Let_def split: list.splits option.splits if_splits)
  qed
  then show ?thesis using q_sim_final [of limit ops] by (auto simp: q_sim_def final_queue_def)
qed

lemma queue_bounded_witness:
  "length (q_values (final_queue 1 [Push (5 :: int), Push 6])) \<le> 1 \<and>
   q_ended (final_queue 1 [Push (5 :: int), Push 6])"
proof -
  have "fin (abs_run 1 [Push (5 :: int), Push 6]) \<noteq> None" by code_simp
  then show ?thesis using queue_bounded [of 1 "[Push (5 :: int), Push 6]"] by simp
qed

text \<open>C29: nothing hangs on an ended queue: once the queue is closed or failed every \<open>next()\<close>,
earlier or later, has a result.\<close>

theorem queue_end_settles_all:
  assumes "q_ended (final_queue limit ops)" and "k < asked (abs_run limit ops)"
  shows "map_of (settlements limit ops) k \<noteq> None"
proof -
  have "fin (abs_run limit ops) \<noteq> None" using q_sim_final [of limit ops] assms by (simp add: q_sim_def)
  then show ?thesis
    unfolding settlements_run by (rule eq.nothing_pending_after_end [OF _ assms(2)])
qed

lemma queue_end_settles_all_witness:
  "map_of (settlements 4 [Next, Next, Push (5 :: int), Fail ThrownFalsy]) 1 \<noteq> None"
  by (rule queue_end_settles_all) code_simp+

lemma abs_run_pushes:
  "int (length es) \<le> limit \<Longrightarrow>
   foldl (abs_step limit) abs_new (map Push es) = \<lparr>accepted = es, asked = 0, fin = None\<rparr>"
  by (induction es rule: rev_induct) (simp_all add: abs_new_def)

lemma abs_run_ended_push:
  "fin a \<noteq> None \<Longrightarrow> foldl (abs_step limit) a (map Push es) = a"
  by (induction es) simp_all

lemma abs_run_nexts:
  "foldl (abs_step limit) a (replicate m Next) = a\<lparr>asked := asked a + m\<rparr>"
  by (induction m arbitrary: a) simp_all

text \<open>C15: overflow loses no accepted event.  When more than \<open>limit\<close> events arrive before the
iterator asks, the iterator still receives the first \<open>limit\<close> of them, in order, and every later
request is rejected with \<open>EventBufferOverflowError\<close>.\<close>

theorem queue_overflow_drains_then_rejects:
  assumes "n < length es" and "k < m"
  shows "map_of (settlements (int n) (map Push es @ replicate m Next)) k =
    Some (if k < n then Value (es ! k) else Rejected (EventBufferOverflowError (int n)))"
proof -
  have split: "map Push es = map Push (take n es) @ Push (es ! n) # map Push (drop (Suc n) es)"
    using assms(1) by (metis id_take_nth_drop list.map(2) map_append)
  have "foldl (abs_step (int n)) abs_new (map Push (take n es)) = \<lparr>accepted = take n es, asked = 0, fin = None\<rparr>"
    by (rule abs_run_pushes) simp
  then have "abs_run (int n) (map Push es @ replicate m Next) =
      \<lparr>accepted = take n es, asked = m, fin = Some (0, Some (EventBufferOverflowError (int n)))\<rparr>"
    using assms(1) by (simp add: abs_run_def split abs_run_ended_push abs_run_nexts min_absorb2)
  then show ?thesis
    using eq.refines [of "int n" "map Push es @ replicate m Next" k] assms
    by (simp add: settlements_run abs_result_def truthy_def)
qed

lemma queue_overflow_drains_then_rejects_witness:
  "map_of (settlements 1 (map Push [5, 6 :: int] @ replicate 2 Next)) 0 = Some (Value 5) \<and>
   map_of (settlements 1 (map Push [5, 6 :: int] @ replicate 2 Next)) 1 = Some (Rejected (EventBufferOverflowError 1))"
  using queue_overflow_drains_then_rejects [of 1 "[5, 6 :: int]" 0 2]
    queue_overflow_drains_then_rejects [of 1 "[5, 6 :: int]" 1 2] by simp

end
