(* ===== verification/Wire.thy ===== *)
theory Wire
  imports Errors
begin

text \<open>
  The interface between the message codecs and \<open>@bufbuild/protobuf/wire\<close>, the package that
  owns \<open>BinaryWriter\<close> and \<open>BinaryReader\<close>.  The package is not part of the repository: the
  codecs take its operations as one argument, the record \<open>wire\<close>.  What the codecs rely on is
  the documented protobuf wire format, stated once in the locale \<open>wire_lib\<close>: each writer method
  appends the wire form of its argument or throws when the argument is out of range, each
  reader method returns what stands at its position, and \<open>fork\<close>/\<open>join\<close> nest a
  length-delimited run of bytes.
\<close>

section \<open>The operations of the package\<close>

text \<open>
  A number of a \<open>double\<close> field by its bits in the IEEE 754 format of 64 bits.  Comparison with \<open>0\<close>
  does not see the sign of zero; the bits of a NaN are not observable.
\<close>

type_synonym double = "64 word"

definition double_is_zero :: "double \<Rightarrow> bool" where
  "double_is_zero d \<longleftrightarrow> unat d mod 2 ^ 63 = 0"

definition double_is_nan :: "double \<Rightarrow> bool" where
  "double_is_nan d \<longleftrightarrow> 2047 * 2 ^ 52 < unat d mod 2 ^ 63"

record ('w, 'r) wire =
  w_new :: 'w
  w_finish :: "'w \<Rightarrow> byte list"
  w_fork :: "'w \<Rightarrow> 'w"
  w_join :: "'w \<Rightarrow> (js_error, 'w) result"
  w_uint32 :: "int \<Rightarrow> 'w \<Rightarrow> (js_error, 'w) result"
  w_int32 :: "int \<Rightarrow> 'w \<Rightarrow> (js_error, 'w) result"
  w_int64 :: "int \<Rightarrow> 'w \<Rightarrow> (js_error, 'w) result"
  w_uint64 :: "int \<Rightarrow> 'w \<Rightarrow> (js_error, 'w) result"
  w_bool :: "bool \<Rightarrow> 'w \<Rightarrow> (js_error, 'w) result"
  w_double :: "double \<Rightarrow> 'w \<Rightarrow> (js_error, 'w) result"
  w_string :: "string \<Rightarrow> 'w \<Rightarrow> (js_error, 'w) result"
  w_bytes :: "byte list \<Rightarrow> 'w \<Rightarrow> (js_error, 'w) result"
  r_new :: "byte list \<Rightarrow> 'r"
  r_pos :: "'r \<Rightarrow> nat"
  r_len :: "'r \<Rightarrow> nat"
  r_uint32 :: "'r \<Rightarrow> (js_error, nat \<times> 'r) result"
  r_int32 :: "'r \<Rightarrow> (js_error, int \<times> 'r) result"
  r_int64 :: "'r \<Rightarrow> (js_error, int \<times> 'r) result"
  r_uint64 :: "'r \<Rightarrow> (js_error, int \<times> 'r) result"
  r_bool :: "'r \<Rightarrow> (js_error, bool \<times> 'r) result"
  r_double :: "'r \<Rightarrow> (js_error, double \<times> 'r) result"
  r_string :: "'r \<Rightarrow> (js_error, string \<times> 'r) result"
  r_bytes :: "'r \<Rightarrow> (js_error, byte list \<times> 'r) result"
  r_skip :: "nat \<Rightarrow> 'r \<Rightarrow> (js_error, 'r) result"

section \<open>The protobuf wire format\<close>

fun varint :: "nat \<Rightarrow> byte list" where
  "varint n = (if n < 128 then [of_nat n] else of_nat (n mod 128 + 128) # varint (n div 128))"

declare varint.simps [simp del]

definition lenpref :: "byte list \<Rightarrow> byte list" where
  "lenpref bs = varint (length bs) @ bs"

text \<open>UTF-8 of the code units of the model's alphabet.\<close>

definition utf8_char :: "char \<Rightarrow> byte list" where
  "utf8_char c = (let n = of_char c :: nat in
     if n < 128 then [of_nat n] else [of_nat (192 + n div 64), of_nat (128 + n mod 64)])"

definition utf8 :: "string \<Rightarrow> byte list" where
  "utf8 s = concat (map utf8_char s)"

text \<open>The wire form of each scalar, \<open>None\<close> where the writer throws.\<close>

definition pb_uint32 :: "int \<Rightarrow> byte list option" where
  "pb_uint32 n = (if 0 \<le> n \<and> n < 2 ^ 32 then Some (varint (nat n)) else None)"

definition pb_int32 :: "int \<Rightarrow> byte list option" where
  "pb_int32 n = (if - (2 ^ 31) \<le> n \<and> n < 2 ^ 31 then Some (varint (nat (n mod 2 ^ 64))) else None)"

definition pb_int64 :: "int \<Rightarrow> byte list option" where
  "pb_int64 n = (if - (2 ^ 63) \<le> n \<and> n < 2 ^ 63 then Some (varint (nat (n mod 2 ^ 64))) else None)"

definition pb_uint64 :: "int \<Rightarrow> byte list option" where
  "pb_uint64 n = (if 0 \<le> n \<and> n < 2 ^ 64 then Some (varint (nat n)) else None)"

definition pb_bool :: "bool \<Rightarrow> byte list option" where
  "pb_bool b = Some [if b then 1 else 0]"

fun le_bytes :: "nat \<Rightarrow> nat \<Rightarrow> byte list" where
  "le_bytes 0 n = []"
| "le_bytes (Suc k) n = of_nat (n mod 256) # le_bytes k (n div 256)"

definition pb_double :: "double \<Rightarrow> byte list option" where
  "pb_double d = Some (le_bytes 8 (unat d))"

definition pb_bytes :: "byte list \<Rightarrow> byte list option" where
  "pb_bytes bs = (if length bs < 2 ^ 32 then Some (lenpref bs) else None)"

definition pb_string :: "string \<Rightarrow> byte list option" where
  "pb_string s = pb_bytes (utf8 s)"

text \<open>The payload of a field of wire type \<open>wt\<close>, as a reader skips it.\<close>

definition pb_payload :: "nat \<Rightarrow> byte list \<Rightarrow> bool" where
  "pb_payload wt bs \<longleftrightarrow>
     (wt = 0 \<and> (\<exists>n < 2 ^ 64. bs = varint n)) \<or> (wt = 1 \<and> length bs = 8) \<or>
     (wt = 2 \<and> (\<exists>c. length c < 2 ^ 32 \<and> bs = lenpref c)) \<or> (wt = 5 \<and> length bs = 4)"

lemma varint_not_Nil [simp]: "varint n \<noteq> []"
  by (subst varint.simps) simp

section \<open>The interface\<close>

text \<open>
  \<open>appends\<close>: a writer method extends the innermost open buffer by the given bytes, or throws.
  \<open>yields\<close>: a reader method returns a value and consumes exactly the given bytes.
\<close>

definition appends :: "('w \<Rightarrow> byte list list) \<Rightarrow> ('w \<Rightarrow> (js_error, 'w) result) \<Rightarrow> byte list option \<Rightarrow> bool" where
  "appends stk f bs \<longleftrightarrow> (\<forall>w b s. stk w = b # s \<longrightarrow>
     (case bs of None \<Rightarrow> (\<exists>e. f w = Inl e) | Some x \<Rightarrow> (\<exists>w'. f w = Inr w' \<and> stk w' = (b @ x) # s)))"

definition yields :: "('w, 'r) wire \<Rightarrow> ('r \<Rightarrow> byte list) \<Rightarrow> ('r \<Rightarrow> (js_error, 'a \<times> 'r) result) \<Rightarrow>
    'a \<Rightarrow> byte list \<Rightarrow> bool" where
  "yields W rem f v bs \<longleftrightarrow> (\<forall>r t. rem r = bs @ t \<longrightarrow>
     (\<exists>r'. f r = Inr (v, r') \<and> rem r' = t \<and> r_len W r' = r_len W r))"

text \<open>
  \<open>stk w\<close> is the stack of open buffers of a writer, innermost first; \<open>rem r\<close> the bytes a reader
  has not consumed.
\<close>

locale wire_lib =
  fixes W :: "('w, 'r) wire"
    and stk :: "'w \<Rightarrow> byte list list"
    and rem :: "'r \<Rightarrow> byte list"
  assumes stk_new: "stk (w_new W) = [[]]"
    and finish: "stk w = [b] \<Longrightarrow> w_finish W w = b"
    and fork: "stk (w_fork W w) = [] # stk w"
    and join: "stk w = b # p # s \<Longrightarrow> length b < 2 ^ 32 \<Longrightarrow>
      \<exists>w'. w_join W w = Inr w' \<and> stk w' = (p @ lenpref b) # s"
    and join_too_large: "stk w = b # p # s \<Longrightarrow> \<not> length b < 2 ^ 32 \<Longrightarrow> \<exists>e. w_join W w = Inl e"
    and put_uint32: "appends stk (w_uint32 W n) (pb_uint32 n)"
    and put_int32: "appends stk (w_int32 W n) (pb_int32 n)"
    and put_int64: "appends stk (w_int64 W n) (pb_int64 n)"
    and put_uint64: "appends stk (w_uint64 W n) (pb_uint64 n)"
    and put_bool: "appends stk (w_bool W c) (pb_bool c)"
    and put_double: "\<not> double_is_nan d \<Longrightarrow> appends stk (w_double W d) (pb_double d)"
    and put_string: "appends stk (w_string W u) (pb_string u)"
    and put_bytes: "appends stk (w_bytes W x) (pb_bytes x)"
    and rem_new: "rem (r_new W bs) = bs"
    and len_new: "r_len W (r_new W bs) = length bs"
    and pos_rem: "r_pos W r + length (rem r) = r_len W r"
    and get_uint32: "pb_uint32 n = Some bs \<Longrightarrow> yields W rem (r_uint32 W) (nat n) bs"
    and get_int32: "pb_int32 n = Some bs \<Longrightarrow> yields W rem (r_int32 W) n bs"
    and get_int64: "pb_int64 n = Some bs \<Longrightarrow> yields W rem (r_int64 W) n bs"
    and get_uint64: "pb_uint64 n = Some bs \<Longrightarrow> yields W rem (r_uint64 W) n bs"
    and get_bool: "pb_bool c = Some bs \<Longrightarrow> yields W rem (r_bool W) c bs"
    and get_double: "\<not> double_is_nan d \<Longrightarrow> pb_double d = Some bs \<Longrightarrow> yields W rem (r_double W) d bs"
    and get_string: "pb_string u = Some bs \<Longrightarrow> yields W rem (r_string W) u bs"
    and get_bytes: "pb_bytes x = Some bs \<Longrightarrow> yields W rem (r_bytes W) x bs"
    and skip_payload: "pb_payload wt bs \<Longrightarrow> rem r = bs @ t \<Longrightarrow>
      \<exists>r'. r_skip W wt r = Inr r' \<and> rem r' = t \<and> r_len W r' = r_len W r"

text \<open>
  The reader alone, on arbitrary input: a method that returns does not move backwards, and
  reading a varint moves forward.  This is what makes the decode loops stop.
\<close>

definition advances :: "('w, 'r) wire \<Rightarrow> ('r \<Rightarrow> (js_error, 'a \<times> 'r) result) \<Rightarrow> bool" where
  "advances W f \<longleftrightarrow> (\<forall>r v r'. f r = Inr (v, r') \<longrightarrow>
     r_pos W r \<le> r_pos W r' \<and> r_pos W r' \<le> r_len W r' \<and> r_len W r' = r_len W r)"

locale wire_reader =
  fixes W :: "('w, 'r) wire"
  assumes tag_progress: "r_uint32 W r = Inr (v, r') \<Longrightarrow> r_pos W r < r_pos W r'"
    and adv_uint32: "advances W (r_uint32 W)"
    and adv_int32: "advances W (r_int32 W)"
    and adv_int64: "advances W (r_int64 W)"
    and adv_uint64: "advances W (r_uint64 W)"
    and adv_bool: "advances W (r_bool W)"
    and adv_double: "advances W (r_double W)"
    and adv_string: "advances W (r_string W)"
    and adv_bytes: "advances W (r_bytes W)"
    and adv_skip: "r_skip W wt r = Inr r' \<Longrightarrow>
      r_pos W r \<le> r_pos W r' \<and> r_pos W r' \<le> r_len W r' \<and> r_len W r' = r_len W r"

locale wire_format = wire_lib W stk rem + wire_reader W
  for W :: "('w, 'r) wire" and stk rem

end
