(* ===== verification/Codec.thy ===== *)
theory Codec
  imports Wire
begin

text \<open>
  The skeleton shared by every generated message codec (\<open>sdk/node/src/gen/**.ts\<close>).  An
  \<open>encode\<close> is a sequence of writer calls; the combinators below are its statements: a
  guarded block, a loop over a repeated field, a nested message between \<open>fork\<close> and \<open>join\<close>.  A
  \<open>decode\<close> is the loop \<open>while (reader.pos < end)\<close> around a \<open>switch\<close> on the field number,
  given as the list of its cases.
  The theory \<open>Codec_Laws\<close> holds what is proved about it once for all messages.
\<close>

section \<open>Statements of an encoder\<close>

type_synonym 'w writer = "'w \<Rightarrow> (js_error, 'w) result"

fun w_seq :: "'w writer list \<Rightarrow> 'w writer" where
  "w_seq [] w = Inr w"
| "w_seq (f # fs) w = (case f w of Inl e \<Rightarrow> Inl e | Inr w' \<Rightarrow> w_seq fs w')"

text \<open>\<open>if (c) { ... }\<close>\<close>

definition w_if :: "bool \<Rightarrow> 'w writer list \<Rightarrow> 'w writer" where
  "w_if c fs = (if c then w_seq fs else Inr)"

text \<open>\<open>if (x !== undefined) { ... x ... }\<close>\<close>

definition w_some :: "'a option \<Rightarrow> ('a \<Rightarrow> 'w writer list) \<Rightarrow> 'w writer" where
  "w_some x f = (case x of None \<Rightarrow> Inr | Some v \<Rightarrow> w_seq (f v))"

text \<open>\<open>for (const v of xs) { ... v ... }\<close>\<close>

definition w_for :: "'a list \<Rightarrow> ('a \<Rightarrow> 'w writer list) \<Rightarrow> 'w writer" where
  "w_for xs f = w_seq (map (\<lambda>v. w_seq (f v)) xs)"

text \<open>\<open>if (!c) throw e\<close>\<close>

definition w_check :: "bool \<Rightarrow> js_error \<Rightarrow> 'w writer" where
  "w_check c e = (\<lambda>w. if c then Inr w else Inl e)"

text \<open>\<open>writer.uint32(tag).fork()\<close>, whose \<open>fork\<close> cannot fail, and a conversion that may throw.\<close>

definition w_open :: "('w, 'r) wire \<Rightarrow> 'w writer" where
  "w_open W = (\<lambda>w. Inr (w_fork W w))"

definition w_try :: "(js_error, 'a) result \<Rightarrow> ('a \<Rightarrow> 'w writer list) \<Rightarrow> 'w writer" where
  "w_try x f = (case x of Inl e \<Rightarrow> (\<lambda>w. Inl e) | Inr v \<Rightarrow> w_seq (f v))"

text \<open>\<open>BigInt.asIntN(64, n)\<close> and \<open>BigInt.asUintN(64, n)\<close>, and the error of a failed check.\<close>

definition asIntN64 :: "int \<Rightarrow> int" where
  "asIntN64 n = (n + 2 ^ 63) mod 2 ^ 64 - 2 ^ 63"

definition asUintN64 :: "int \<Rightarrow> int" where
  "asUintN64 n = n mod 2 ^ 64"

definition too_large :: "string \<Rightarrow> string \<Rightarrow> js_error" where
  "too_large field ty = JsError (''value provided for field '' @ field @ '' of type '' @ ty @ '' too large'')"

section \<open>Statements of a decoder\<close>

text \<open>
  A reader with the property \<open>__tsProtoDecodeDepth\<close> that the generated code keeps on it.  A
  decoder step returns \<open>None\<close> when it never returns, otherwise a result.
\<close>

record 'r rstate =
  rd :: 'r
  decode_depth :: nat

type_synonym ('r, 'm) dres = "(js_error, 'm \<times> 'r rstate) result option"
type_synonym ('r, 'm) action = "'r rstate \<Rightarrow> 'm \<Rightarrow> ('r, 'm) dres"
type_synonym ('r, 'm) cases = "(nat \<times> nat \<times> ('r, 'm) action) list"
type_synonym ('r, 'm) decoder = "'r rstate \<Rightarrow> nat option \<Rightarrow> ('r, 'm) dres"

text \<open>\<open>message.field = reader.method()\<close>: \<open>k\<close> stores the value.\<close>

definition d_val :: "('r \<Rightarrow> (js_error, 'a \<times> 'r) result) \<Rightarrow> ('a \<Rightarrow> 'm \<Rightarrow> 'm) \<Rightarrow> ('r, 'm) action" where
  "d_val f k r m = (case f (rd r) of
     Inl e \<Rightarrow> Some (Inl e)
   | Inr (v, r') \<Rightarrow> Some (Inr (k v m, r\<lparr>rd := r'\<rparr>)))"

text \<open>\<open>Sub.decode(reader, reader.uint32())\<close> and what is done with the message.\<close>

definition d_msg :: "('w, 'r) wire \<Rightarrow> ('r, 's) decoder \<Rightarrow> ('s \<Rightarrow> 'm \<Rightarrow> 'm) \<Rightarrow> ('r, 'm) action" where
  "d_msg W dec k r m = (case r_uint32 W (rd r) of
     Inl e \<Rightarrow> Some (Inl e)
   | Inr (n, r') \<Rightarrow> (case dec (r\<lparr>rd := r'\<rparr>) (Some n) of
       None \<Rightarrow> None
     | Some (Inl e) \<Rightarrow> Some (Inl e)
     | Some (Inr (v, r'')) \<Rightarrow> Some (Inr (k v m, r''))))"

text \<open>
  \<open>switch (tag >>> 3) { case n: if (tag !== t) break; ...; continue }\<close>: \<open>None\<close> when control
  leaves the switch by \<open>break\<close> or without a matching case.
\<close>

fun d_switch :: "(nat \<times> nat \<times> 'a) list \<Rightarrow> nat \<Rightarrow> 'a option" where
  "d_switch [] tag = None"
| "d_switch ((n, t, a) # cs) tag =
     (if tag div 8 = n then (if tag \<noteq> t then None else Some a) else d_switch cs tag)"

text \<open>The loop of a decoder up to position \<open>end\<close>.\<close>

partial_function (option) d_loop ::
  "('w, 'r) wire \<Rightarrow> ('r, 'm) cases \<Rightarrow> nat \<Rightarrow> 'r rstate \<Rightarrow> 'm \<Rightarrow> ('r, 'm) dres" where
  "d_loop W cs end r m =
     (if r_pos W (rd r) < end then
        (case r_uint32 W (rd r) of
           Inl e \<Rightarrow> Some (Inl e)
         | Inr (tag, r1) \<Rightarrow>
             (case d_switch cs tag of
                Some a \<Rightarrow>
                  (case a (r\<lparr>rd := r1\<rparr>) m of
                     None \<Rightarrow> None
                   | Some (Inl e) \<Rightarrow> Some (Inl e)
                   | Some (Inr (m', r')) \<Rightarrow> d_loop W cs end r' m')
              | None \<Rightarrow>
                  (if tag mod 8 = 4 \<or> tag = 0 then Some (Inr (m, r\<lparr>rd := r1\<rparr>))
                   else (case r_skip W (tag mod 8) r1 of
                           Inl e \<Rightarrow> Some (Inl e)
                         | Inr r2 \<Rightarrow> d_loop W cs end (r\<lparr>rd := r2\<rparr>) m))))
      else Some (Inr (m, r)))"

definition recursion_limit :: nat where "recursion_limit = 100"

text \<open>
  \<open>decode(input, length)\<close> on a reader: the recursion limit, the end position, the loop on the
  base message, the depth restored.
\<close>

definition d_message :: "('w, 'r) wire \<Rightarrow> ('r, 'm) cases \<Rightarrow> 'm \<Rightarrow> ('r, 'm) decoder" where
  "d_message W cs base r len =
     (let previous = decode_depth r in
      if recursion_limit \<le> previous then Some (Inl (JsError ''protobuf decode recursion limit exceeded''))
      else
        (let r1 = r\<lparr>decode_depth := previous + 1\<rparr>;
             end = (case len of None \<Rightarrow> r_len W (rd r1) | Some n \<Rightarrow> r_pos W (rd r1) + n)
         in case d_loop W cs end r1 base of
              None \<Rightarrow> None
            | Some (Inl e) \<Rightarrow> Some (Inl e)
            | Some (Inr (m, r2)) \<Rightarrow> Some (Inr (m, r2\<lparr>decode_depth := previous\<rparr>))))"

text \<open>\<open>decode(bytes)\<close>: a fresh reader over a byte array, whose depth property is not set.\<close>

definition decode_bytes :: "('w, 'r) wire \<Rightarrow> ('r, 'm) decoder \<Rightarrow> byte list \<Rightarrow> (js_error, 'm) result option" where
  "decode_bytes W dec bs =
     (case dec \<lparr>rd = r_new W bs, decode_depth = 0\<rparr> None of
        None \<Rightarrow> None
      | Some (Inl e) \<Rightarrow> Some (Inl e)
      | Some (Inr (m, r)) \<Rightarrow> Some (Inr m))"

text \<open>\<open>encode(message).finish()\<close> on a fresh writer.\<close>

definition encode_bytes :: "('w, 'r) wire \<Rightarrow> ('m \<Rightarrow> 'w writer) \<Rightarrow> 'm \<Rightarrow> (js_error, byte list) result" where
  "encode_bytes W enc m =
     (case enc m (w_new W) of Inl e \<Rightarrow> Inl e | Inr w \<Rightarrow> Inr (w_finish W w))"

section \<open>Equations\<close>

lemma w_seq_append: "w_seq (fs @ gs) w = (case w_seq fs w of Inl e \<Rightarrow> Inl e | Inr w' \<Rightarrow> w_seq gs w')"
  by (induction fs arbitrary: w) (auto split: sum.splits)

lemma w_seq_Cons_Inr:
  "w_seq (f # fs) w = Inr w'' \<longleftrightarrow> (\<exists>w'. f w = Inr w' \<and> w_seq fs w' = Inr w'')"
  by (auto split: sum.splits)

lemma asIntN64_eq_iff: "asIntN64 n = n \<longleftrightarrow> - (2 ^ 63) \<le> n \<and> n < 2 ^ 63"
proof -
  have "asIntN64 n = n \<longleftrightarrow> (n + 2 ^ 63) mod 2 ^ 64 = n + 2 ^ 63"
    by (auto simp: asIntN64_def)
  also have "\<dots> \<longleftrightarrow> 0 \<le> n + 2 ^ 63 \<and> n + 2 ^ 63 < 2 ^ 64"
    by (metis mod_pos_pos_trivial pos_mod_bound pos_mod_sign zero_less_numeral zero_less_power)
  finally show ?thesis by auto
qed

lemma asUintN64_eq_iff: "asUintN64 n = n \<longleftrightarrow> 0 \<le> n \<and> n < 2 ^ 64"
  unfolding asUintN64_def by (metis mod_pos_pos_trivial pos_mod_bound pos_mod_sign zero_less_numeral zero_less_power)

declare d_loop.simps [code]

lemma d_loop_done: "\<not> r_pos W (rd r) < end \<Longrightarrow> d_loop W cs end r m = Some (Inr (m, r))"
  by (simp add: d_loop.simps)

end
