(* ===== verification/Js_Values.thy ===== *)
theory Js_Values
  imports Complex_Main Errors "HOL-Library.Log_Nat"
begin

text \<open>
  The parts of the JavaScript language and library whose exact behaviour the SDK's results
  depend on: double arithmetic (\<open>number\<close>), integer-keyed property order and the special key
  \<open>__proto__\<close> of plain objects, dates with \<open>TimeClip\<close>, and \<open>String.prototype.trim\<close>.
\<close>

section \<open>Doubles\<close>

text \<open>
  A finite double is its rational value; the sign of zero is not represented, which no code
  of the SDK observes.  \<open>fl\<close> rounds a rational to the nearest double, ties to even, for the
  magnitudes between the smallest normal double and the largest one.
\<close>

datatype js_number = Fin rat | NaN | PosInf | NegInf

definition round_even :: "rat \<Rightarrow> int" where
  "round_even q = (let f = \<lfloor>q\<rfloor>; d = q - of_int f in
     if d < 1 / 2 then f else if d > 1 / 2 then f + 1 else if even f then f else f + 1)"

text \<open>\<open>fl_exp q\<close> is the power of two that scales a positive \<open>q\<close> into \<open>[2^52, 2^53)\<close>.\<close>

definition fl_bits :: nat where "fl_bits = 1100"

definition fl_exp :: "rat \<Rightarrow> int" where
  "fl_exp q = 53 + int fl_bits - int (floorlog 2 (nat \<lfloor>q * 2 ^ fl_bits\<rfloor>))"

definition pow2 :: "int \<Rightarrow> rat" where
  "pow2 k = (if 0 \<le> k then 2 ^ nat k else 1 / 2 ^ nat (- k))"

definition fl :: "rat \<Rightarrow> rat" where
  "fl q = (if q = 0 then 0
           else sgn q * (of_int (round_even (\<bar>q\<bar> * pow2 (fl_exp \<bar>q\<bar>))) / pow2 (fl_exp \<bar>q\<bar>)))"

text \<open>\<open>Math.trunc\<close>, and the remainder \<open>%\<close> of two integers.\<close>

definition trunc :: "rat \<Rightarrow> int" where
  "trunc q = (if 0 \<le> q then \<lfloor>q\<rfloor> else \<lceil>q\<rceil>)"

definition quot_int :: "int \<Rightarrow> int \<Rightarrow> int" where
  "quot_int a b = sgn a * sgn b * (\<bar>a\<bar> div \<bar>b\<bar>)"

definition rem_int :: "int \<Rightarrow> int \<Rightarrow> int" where
  "rem_int a b = sgn a * (\<bar>a\<bar> mod \<bar>b\<bar>)"

lemma quot_rem_int: "0 < b \<Longrightarrow> quot_int a b * b + rem_int a b = a"
proof -
  assume b: "0 < b"
  have "quot_int a b * b + rem_int a b = sgn a * (\<bar>a\<bar> div b * b + \<bar>a\<bar> mod b)"
    using b by (simp only: quot_int_def rem_int_def sgn_pos abs_of_pos distrib_left mult_1_right mult.assoc)
  also have "\<dots> = a" by (simp only: div_mult_mod_eq sgn_mult_abs)
  finally show ?thesis .
qed

lemma rem_int_bounds: "0 < b \<Longrightarrow> \<bar>rem_int a b\<bar> < b"
  by (simp add: rem_int_def abs_mult abs_sgn_eq)

lemma round_even_int [simp]: "round_even (of_int n) = n"
  by (simp add: round_even_def)

lemma round_even_error: "\<bar>of_int (round_even q) - q\<bar> \<le> 1 / 2"
proof -
  obtain f where f: "f = \<lfloor>q\<rfloor>" by simp
  then have "of_int f \<le> q" "q < of_int f + 1" by linarith+
  then show ?thesis
    unfolding round_even_def Let_def f [symmetric] by (auto simp: abs_le_iff)
qed

lemma pow2_pos [simp]: "0 < pow2 k"
  by (simp add: pow2_def)

lemma abs_pow2 [simp]: "\<bar>pow2 k\<bar> = pow2 k"
  by (simp add: abs_of_pos)

lemma pow2_add_nat: "pow2 (k + int n) = pow2 k * 2 ^ n"
proof (induction n)
  case 0
  then show ?case by simp
next
  case (Suc n)
  have "pow2 (j + 1) = pow2 j * 2" for j :: int
  proof (cases "0 \<le> j")
    case True
    then show ?thesis by (simp add: pow2_def nat_add_distrib)
  next
    case False
    then have "nat (- j) = Suc (nat (- (j + 1)))" by linarith
    then show ?thesis using False by (auto simp: pow2_def)
  qed
  from this [of "k + int n"] Suc show ?case by (simp add: ac_simps)
qed

lemma pow2_53: "pow2 53 = 2 ^ 53"
  by (simp add: pow2_def)

text \<open>For positive rationals above \<open>2^-1100\<close> the scaled value has 53 bits.\<close>

lemma fl_exp_range:
  assumes "1 \<le> q * 2 ^ fl_bits"
  shows "2 ^ 52 \<le> q * pow2 (fl_exp q)" "q * pow2 (fl_exp q) < 2 ^ 53"
proof -
  define n where "n = nat \<lfloor>q * 2 ^ fl_bits\<rfloor>"
  define l where "l = floorlog 2 n"
  have n0: "1 \<le> n" using assms by (simp add: n_def le_nat_iff)
  then have l2: "2 ^ (l - 1) \<le> n" "n < 2 ^ l"
    using floorlog_bounds [of n 2] by (auto simp: l_def)
  with n0 have l: "0 < l" "2 ^ (l - 1) \<le> n" "n < 2 ^ l" by (cases l; simp)+
  have n: "of_nat n = (of_int \<lfloor>q * 2 ^ fl_bits\<rfloor> :: rat)"
    using n0 by (simp add: n_def)
  have fin: "(of_nat n :: rat) \<le> q * 2 ^ fl_bits" "q * 2 ^ fl_bits < of_nat n + 1"
    unfolding n by (rule of_int_floor_le, rule floor_correct [THEN conjunct2, unfolded of_int_add of_int_1])
  have lo: "2 ^ (l - 1) \<le> q * 2 ^ fl_bits"
  proof -
    have "(of_nat (2 ^ (l - 1)) :: rat) \<le> of_nat n" using l(2) by (simp only: of_nat_le_iff)
    with fin(1) show ?thesis by (simp only: of_nat_power of_nat_numeral)
  qed
  have hi: "q * 2 ^ fl_bits < 2 ^ l"
  proof -
    have "n + 1 \<le> 2 ^ l" using l(3) by simp
    then have "(of_nat (n + 1) :: rat) \<le> of_nat (2 ^ l)" by (simp only: of_nat_le_iff)
    with fin(2) show ?thesis by (simp only: of_nat_power of_nat_numeral of_nat_add of_nat_1)
  qed
  have e: "fl_exp q + int l = 53 + int fl_bits" by (simp add: fl_exp_def l_def n_def)
  have "pow2 (fl_exp q) * 2 ^ l = pow2 53 * 2 ^ fl_bits"
    by (simp only: pow2_add_nat [symmetric] e)
  then have p: "pow2 (fl_exp q) * 2 ^ l = 2 ^ 53 * 2 ^ fl_bits"
    by (simp only: pow2_53)
  have eq: "q * pow2 (fl_exp q) * 2 ^ l = (q * 2 ^ fl_bits) * 2 ^ 53" using p by (simp only: ac_simps)
  have half: "(2 ^ 52 :: rat) * 2 ^ l = 2 ^ (l - 1) * 2 ^ 53"
    using l(1) by (cases l) simp_all
  have "2 ^ 52 * 2 ^ l \<le> q * pow2 (fl_exp q) * 2 ^ l"
    unfolding eq half by (rule mult_right_mono [OF lo]) simp
  then show "2 ^ 52 \<le> q * pow2 (fl_exp q)"
    by (rule mult_right_le_imp_le) simp
  have "q * pow2 (fl_exp q) * 2 ^ l < 2 ^ l * 2 ^ 53"
    unfolding eq by (rule mult_strict_right_mono [OF hi]) simp
  then have "q * pow2 (fl_exp q) * 2 ^ l < 2 ^ 53 * 2 ^ l"
    by (simp only: mult.commute [of "2 ^ l"])
  then show "q * pow2 (fl_exp q) < 2 ^ 53"
    by (rule mult_right_less_imp_less) simp
qed

lemma fl_0 [simp]: "fl 0 = 0"
  by (simp add: fl_def)

lemma fl_minus: "fl (- q) = - fl q"
  by (auto simp: fl_def sgn_minus)

lemma fl_error:
  assumes "1 \<le> \<bar>q\<bar> * 2 ^ fl_bits"
  shows "\<bar>fl q - q\<bar> \<le> \<bar>q\<bar> / 2 ^ 53"
proof -
  let ?p = "pow2 (fl_exp \<bar>q\<bar>)" and ?r = "of_int (round_even (\<bar>q\<bar> * pow2 (fl_exp \<bar>q\<bar>))) :: rat"
  have q: "q \<noteq> 0" using assms by auto
  have "\<bar>fl q - q\<bar> = \<bar>?r / ?p - \<bar>q\<bar>\<bar>"
  proof (cases "0 \<le> q")
    case True
    then show ?thesis using q by (simp add: fl_def)
  next
    case False
    then show ?thesis using q by (simp add: fl_def abs_minus_commute)
  qed
  also have "?r / ?p - \<bar>q\<bar> = (?r - \<bar>q\<bar> * ?p) / ?p"
    by (simp add: diff_divide_distrib less_imp_neq [OF pow2_pos, symmetric])
  also have "\<bar>(?r - \<bar>q\<bar> * ?p) / ?p\<bar> = \<bar>?r - \<bar>q\<bar> * ?p\<bar> / ?p"
    by (simp add: abs_divide)
  also have "\<dots> \<le> (1 / 2) / ?p"
    using round_even_error [of "\<bar>q\<bar> * ?p"] by (intro divide_right_mono) (simp_all add: less_imp_le)
  also have "\<dots> \<le> \<bar>q\<bar> / 2 ^ 53"
    using fl_exp_range(1) [OF assms] by (simp add: field_simps)
  finally show ?thesis .
qed

lemma one_le_two_power: "(1 :: rat) \<le> 2 ^ n"
  by simp

lemma fl_of_int:
  assumes "\<bar>n\<bar> \<le> 2 ^ 53"
  shows "fl (of_int n) = of_int n"
proof (cases "n = 0")
  case False
  define m where "m = \<bar>n\<bar>"
  define k where "k = fl_exp (of_int m)"
  have m: "1 \<le> m" "m \<le> 2 ^ 53" using False assms by (auto simp: m_def)
  then have m1: "(1 :: rat) \<le> of_int m" by simp
  have "1 \<le> of_int m * (2 ^ fl_bits :: rat)"
    using mult_mono [OF m1 one_le_two_power [of fl_bits]] m by simp
  note rng = fl_exp_range [OF this, folded k_def]
  have "\<exists>i. of_int m * pow2 k = of_int i"
  proof (cases "0 \<le> k")
    case True
    then show ?thesis by (intro exI [of _ "m * 2 ^ nat k"]) (simp add: pow2_def)
  next
    case neg: False
    then have two: "(2 :: rat) \<le> 2 ^ nat (- k)"
      using power_increasing [of 1 "nat (- k)" "2 :: rat"] by simp
    have e: "of_int m * pow2 k = of_int m / 2 ^ nat (- k)" using neg by (simp add: pow2_def)
    have "2 ^ 52 * 2 ^ nat (- k) \<le> (of_int m :: rat)"
      using rng(1) unfolding e by (simp add: field_simps)
    moreover have "(2 ^ 52 * 2 :: rat) \<le> 2 ^ 52 * 2 ^ nat (- k)"
      using two by (intro mult_left_mono) simp_all
    moreover have "(of_int m :: rat) \<le> of_int (2 ^ 53)"
      using m(2) by (simp only: of_int_le_iff)
    then have "(of_int m :: rat) \<le> 2 ^ 52 * 2" by simp
    ultimately have "(2 ^ 52 * 2 ^ nat (- k) :: rat) = of_int m" by linarith
    then have "of_int m / 2 ^ nat (- k) = (2 ^ 52 :: rat)"
      by (metis nonzero_mult_div_cancel_right power_not_zero zero_neq_numeral)
    then show ?thesis unfolding e by (intro exI [of _ "2 ^ 52"]) simp
  qed
  then obtain i where i: "of_int m * pow2 k = of_int i" by blast
  have abs: "\<bar>of_int n\<bar> = (of_int m :: rat)" by (simp add: m_def)
  have nz: "pow2 k \<noteq> 0" by (metis less_irrefl pow2_pos)
  have "fl (of_int n) = sgn (of_int n) * (of_int i / pow2 k)"
    using False by (simp only: fl_def abs k_def [symmetric] i round_even_int of_int_eq_0_iff if_False)
  also have "of_int i / pow2 k = of_int m" using nz by (simp add: i [symmetric])
  also have "sgn (of_int n) * of_int m = (of_int n :: rat)"
    by (simp add: m_def sgn_mult_abs)
  finally show ?thesis .
qed simp

lemma trunc_of_int [simp]: "trunc (of_int n) = n"
  by (simp add: trunc_def)

lemma trunc_minus: "trunc (- q) = - trunc q"
  by (auto simp: trunc_def ceiling_def)

lemma trunc_eqI: "of_int d \<le> q \<Longrightarrow> q < of_int d + 1 \<Longrightarrow> 0 \<le> d \<Longrightarrow> trunc q = d"
  by (simp add: trunc_def floor_eq_iff)

text \<open>
  \<open>Math.trunc(a / 1000)\<close> is exact below \<open>2^53\<close>: the rounding error of the quotient is less than
  its distance to the next integer.
\<close>

lemma trunc_fl_div_nonneg:
  assumes "0 \<le> a" "a < 2 ^ 53"
  shows "trunc (fl (of_int a / 1000)) = a div 1000"
proof -
  define d r where "d = a div 1000" and "r = a mod 1000"
  have r: "0 \<le> r" "r < 1000" and d: "0 \<le> d" "d \<le> 2 ^ 53"
    using assms by (auto simp: d_def r_def)
  have a: "a = d * 1000 + r" by (simp add: d_def r_def)
  then have q: "of_int a / 1000 = (of_int d + of_int r / 1000 :: rat)"
    by (simp add: add_divide_distrib)
  have "trunc (fl (of_int a / 1000)) = d"
  proof (cases "r = 0")
    case True
    then show ?thesis using d fl_of_int [of d] by (simp add: q)
  next
    case False
    have "(1000 :: rat) \<le> 2 ^ fl_bits" by (simp add: fl_bits_def)
    moreover have "1 \<le> of_int a / (1000 :: rat) * 1000" using a r d False by simp
    moreover have "0 \<le> of_int a / (1000 :: rat)" using assms by simp
    ultimately have big: "1 \<le> \<bar>of_int a / (1000 :: rat)\<bar> * 2 ^ fl_bits"
      by (metis abs_of_nonneg mult_left_mono order_trans)
    have "of_int a < (of_int (2 ^ 53) :: rat)" using assms(2) by (simp only: of_int_less_iff)
    then have "\<bar>of_int a / (1000 :: rat)\<bar> / 2 ^ 53 < 1 / 1000"
      using assms(1) by simp
    with fl_error [OF big] have "\<bar>fl (of_int a / 1000) - of_int a / 1000\<bar> < 1 / 1000" by linarith
    moreover have "1 / 1000 \<le> (of_int r / 1000 :: rat)" "of_int r / 1000 \<le> (999 / 1000 :: rat)"
      using False r by simp_all
    ultimately have "of_int d \<le> fl (of_int a / 1000)" "fl (of_int a / 1000) < of_int d + 1"
      unfolding q by linarith+
    then show ?thesis using d(1) by (rule trunc_eqI)
  qed
  then show ?thesis by (simp add: d_def)
qed

lemma trunc_fl_div:
  assumes "\<bar>a\<bar> < 2 ^ 53"
  shows "trunc (fl (of_int a / 1000)) = quot_int a 1000"
proof (cases "0 \<le> a")
  case True
  then show ?thesis
    using assms trunc_fl_div_nonneg [of a] by (auto simp: quot_int_def sgn_if)
next
  case False
  have "fl (of_int a / 1000) = - fl (of_int (- a) / 1000)"
    by (simp add: fl_minus [symmetric])
  then show ?thesis
    using False assms trunc_fl_div_nonneg [of "- a"] by (simp add: trunc_minus quot_int_def sgn_if)
qed

section \<open>Plain objects with string values\<close>

text \<open>
  A plain object is the list of its own enumerable properties in enumeration order: array
  indices first, ascending, then the other keys as they were added.  \<open>js_set o k v\<close> is
  \<open>o[k] = v\<close>: an existing key keeps its place, and assigning a string to \<open>__proto__\<close> calls the
  inherited setter, which ignores it.
\<close>

type_synonym js_object = "(string \<times> string) list"

definition is_index :: "string \<Rightarrow> bool" where
  "is_index s \<longleftrightarrow> s \<noteq> [] \<and> list_all (\<lambda>c. 48 \<le> (of_char c :: nat) \<and> (of_char c :: nat) \<le> 57) s \<and>
     (length s = 1 \<or> hd s \<noteq> CHR ''0'') \<and> nat_of_digits s < 2 ^ 32 - 1"

definition key_before :: "string \<Rightarrow> string \<Rightarrow> bool" where
  "key_before a b \<longleftrightarrow> (if is_index a then is_index b \<longrightarrow> nat_of_digits a < nat_of_digits b
     else \<not> is_index b)"

fun js_update :: "js_object \<Rightarrow> string \<Rightarrow> string \<Rightarrow> js_object" where
  "js_update [] k v = []"
| "js_update ((k', v') # o') k v = (if k' = k then (k, v) # o' else (k', v') # js_update o' k v)"

fun js_insert :: "js_object \<Rightarrow> string \<Rightarrow> string \<Rightarrow> js_object" where
  "js_insert [] k v = [(k, v)]"
| "js_insert ((k', v') # o') k v =
     (if key_before k' k then (k', v') # js_insert o' k v else (k, v) # (k', v') # o')"

definition proto_key :: string where "proto_key = ''__proto__''"

definition js_set :: "js_object \<Rightarrow> string \<Rightarrow> string \<Rightarrow> js_object" where
  "js_set o' k v =
     (if k = proto_key then o'
      else if k \<in> fst ` set o' then js_update o' k v
      else js_insert o' k v)"

text \<open>The objects that assignment builds: no key twice, no \<open>__proto__\<close>, keys in order.\<close>

definition js_object_ok :: "js_object \<Rightarrow> bool" where
  "js_object_ok o' \<longleftrightarrow> distinct (map fst o') \<and> proto_key \<notin> fst ` set o' \<and>
     sorted_wrt (\<lambda>a b. key_before (fst a) (fst b)) o'"

lemma js_object_ok_Nil [simp]: "js_object_ok []"
  by (simp add: js_object_ok_def)

lemma js_insert_last:
  "(\<forall>p \<in> set o'. key_before (fst p) k) \<Longrightarrow> js_insert o' k v = o' @ [(k, v)]"
  by (induction o' k v rule: js_insert.induct) auto

lemma js_set_snoc:
  assumes "js_object_ok (o' @ [(k, v)])"
  shows "js_set o' k v = o' @ [(k, v)]"
proof -
  have "k \<noteq> proto_key" "k \<notin> fst ` set o'" "\<forall>p \<in> set o'. key_before (fst p) k"
    using assms by (auto simp: js_object_ok_def sorted_wrt_append)
  then show ?thesis by (simp add: js_set_def js_insert_last)
qed

lemma js_object_ok_append: "js_object_ok (o' @ o'') \<Longrightarrow> js_object_ok o'"
  by (auto simp: js_object_ok_def sorted_wrt_append)

text \<open>Assigning the entries of such an object one after the other to \<open>{}\<close> rebuilds it.\<close>

lemma js_set_entries:
  "js_object_ok o' \<Longrightarrow> foldl (\<lambda>acc p. js_set acc (fst p) (snd p)) [] o' = o'"
proof (induction o' rule: rev_induct)
  case (snoc p o')
  then show ?case
    using js_object_ok_append [OF snoc.prems] js_set_snoc [of o' "fst p" "snd p"] by simp
qed simp

text \<open>
  The properties of any plain object in enumeration order; one may be an own property \<open>__proto__\<close>, which
  only a definition creates.  Assigning them one after the other to \<open>{}\<close> loses that one.
\<close>

definition js_own :: "js_object \<Rightarrow> bool" where
  "js_own o' \<longleftrightarrow> distinct (map fst o') \<and> sorted_wrt (\<lambda>a b. key_before (fst a) (fst b)) o'"

definition without_proto :: "js_object \<Rightarrow> js_object" where
  "without_proto o' = filter (\<lambda>p. fst p \<noteq> ''__proto__'') o'"

lemma js_own_without: "js_own o' \<Longrightarrow> js_object_ok (without_proto o')"
  by (auto simp: js_object_ok_def js_own_def without_proto_def proto_key_def distinct_map_filter sorted_wrt_filter)

lemma js_set_own:
  assumes "js_own o'"
  shows "foldl (\<lambda>acc p. js_set acc (fst p) (snd p)) [] o' = without_proto o'"
proof -
  have "foldl (\<lambda>acc p. js_set acc (fst p) (snd p)) a o' = foldl (\<lambda>acc p. js_set acc (fst p) (snd p)) a (without_proto o')" for a
    by (induction o' arbitrary: a) (auto simp: without_proto_def js_set_def proto_key_def)
  then show ?thesis using js_set_entries [OF js_own_without [OF assms]] by simp
qed

lemma map_of_js_insert: "k \<notin> fst ` set o' \<Longrightarrow> map_of (js_insert o' k v) = (map_of o')(k \<mapsto> v)"
  by (induction o' k v rule: js_insert.induct) (auto simp: fun_upd_twist)

lemma map_of_js_update: "k \<in> fst ` set o' \<Longrightarrow> map_of (js_update o' k v) = (map_of o')(k \<mapsto> v)"
  by (induction o' k v rule: js_update.induct) (force simp: fun_upd_twist)+

lemma map_of_js_set: "map_of (js_set o' k v) = (if k = proto_key then map_of o' else (map_of o')(k \<mapsto> v))"
  by (simp add: js_set_def map_of_js_insert map_of_js_update)

section \<open>Dates\<close>

text \<open>
  A \<open>Date\<close> holds an integral number of milliseconds of magnitude at most \<open>8.64e15\<close>, or is
  invalid (its time value is NaN).  \<open>date_of q\<close> is \<open>new Date(q)\<close> for a finite number.
\<close>

datatype js_date = ValidDate int | InvalidDate

definition max_time :: int where "max_time = 8640000000000000"

fun js_date_ok :: "js_date \<Rightarrow> bool" where
  "js_date_ok (ValidDate ms) = (\<bar>ms\<bar> \<le> max_time)"
| "js_date_ok InvalidDate = True"

definition date_of :: "rat \<Rightarrow> js_date" where
  "date_of q = (if \<bar>q\<bar> \<le> of_int max_time then ValidDate (trunc q) else InvalidDate)"

section \<open>Strings\<close>

text \<open>White space and line terminators of the language, within the model's alphabet.\<close>

definition is_space :: "char \<Rightarrow> bool" where
  "is_space c \<longleftrightarrow> (let n = of_char c :: nat in (9 \<le> n \<and> n \<le> 13) \<or> n = 32 \<or> n = 160)"

definition js_trim :: "string \<Rightarrow> string" where
  "js_trim s = rev (dropWhile is_space (rev (dropWhile is_space s)))"

lemma js_trim_eq_Nil: "js_trim s = [] \<longleftrightarrow> (\<forall>c \<in> set s. is_space c)"
proof
  assume "js_trim s = []"
  then have "\<forall>c \<in> set (dropWhile is_space s). is_space c"
    by (simp add: js_trim_def dropWhile_eq_Nil_conv)
  then have "dropWhile is_space s = []"
    by (metis hd_dropWhile hd_in_set)
  then show "\<forall>c \<in> set s. is_space c" by (simp add: dropWhile_eq_Nil_conv)
next
  assume "\<forall>c \<in> set s. is_space c"
  then have "dropWhile is_space s = []" by (simp only: dropWhile_eq_Nil_conv)
  then show "js_trim s = []" unfolding js_trim_def by (simp only: rev.simps dropWhile.simps)
qed

text \<open>\<open>value || undefined\<close> on a string.\<close>

definition or_undefined :: "string \<Rightarrow> string option" where
  "or_undefined s = (if s = [] then None else Some s)"

end
