(* ===== verification/Codec_Laws.thy ===== *)
theory Codec_Laws
  imports Codec Js_Values
begin

text \<open>
  What is proved once for all message codecs, over any lawful wire library.

  Round trip: \<open>consumes\<close> says that a decode loop reads a run of bytes and turns one partial
  message into another; \<open>matched\<close> that whatever a run of encoder statements writes is consumed
  in that way; \<open>codec_rt\<close> that \<open>decode\<close> undoes \<open>encode\<close> on one message.  There is one rule per
  kind of field, collected in \<open>codec_rules\<close>, so that the round trip of a message is the list
  of its fields.

  Totality: \<open>d_total\<close> and \<open>dec_total\<close> say that a decoder step and a decoder return, with a
  value or an exception, on every reader; the rules are collected in \<open>total_rules\<close>.
\<close>

section \<open>Round trip\<close>

text \<open>The doubles that survive: no negative zero, which is not written, and no NaN, which has no
  unique bits.\<close>

definition double_ok :: "double \<Rightarrow> bool" where
  "double_ok d \<longleftrightarrow> \<not> double_is_nan d \<and> (double_is_zero d \<longrightarrow> d = 0)"

definition consumes :: "('w, 'r) wire \<Rightarrow> ('r \<Rightarrow> byte list) \<Rightarrow> nat \<Rightarrow> ('r, 'm) cases \<Rightarrow>
    byte list \<Rightarrow> 'm \<Rightarrow> 'm \<Rightarrow> bool" where
  "consumes W rem d cs bs m m' \<longleftrightarrow>
     (\<forall>r t stop. rem (rd r) = bs @ t \<longrightarrow> r_pos W (rd r) + length bs \<le> stop \<longrightarrow>
        decode_depth r + d \<le> recursion_limit \<longrightarrow>
        (\<exists>r'. d_loop W cs stop r m = d_loop W cs stop r' m' \<and> rem (rd r') = t \<and>
              r_len W (rd r') = r_len W (rd r) \<and> decode_depth r' = decode_depth r))"

definition matched :: "('w, 'r) wire \<Rightarrow> ('w \<Rightarrow> byte list list) \<Rightarrow> ('r \<Rightarrow> byte list) \<Rightarrow> nat \<Rightarrow>
    ('r, 'm) cases \<Rightarrow> 'w writer list \<Rightarrow> 'm \<Rightarrow> 'm \<Rightarrow> bool" where
  "matched W stk rem d cs fs m m' \<longleftrightarrow>
     (\<forall>w w' b s. stk w = b # s \<longrightarrow> w_seq fs w = Inr w' \<longrightarrow>
        (\<exists>bs. stk w' = (b @ bs) # s \<and> consumes W rem d cs bs m m'))"

definition codec_rt :: "('w, 'r) wire \<Rightarrow> ('w \<Rightarrow> byte list list) \<Rightarrow> ('r \<Rightarrow> byte list) \<Rightarrow> nat \<Rightarrow>
    ('m \<Rightarrow> 'w writer) \<Rightarrow> ('r, 'm) decoder \<Rightarrow> 'm \<Rightarrow> bool" where
  "codec_rt W stk rem d enc dec m \<longleftrightarrow>
     (\<forall>w w' b s. stk w = b # s \<longrightarrow> enc m w = Inr w' \<longrightarrow>
        (\<exists>bs. stk w' = (b @ bs) # s \<and>
           (\<forall>r t. rem (rd r) = bs @ t \<longrightarrow> decode_depth r + d \<le> recursion_limit \<longrightarrow>
              (\<exists>r'. dec r (Some (length bs)) = Some (Inr (m, r')) \<and> rem (rd r') = t \<and>
                    r_len W (rd r') = r_len W (rd r) \<and> decode_depth r' = decode_depth r))))"

lemma consumesI:
  assumes "\<And>r t stop. rem (rd r) = bs @ t \<Longrightarrow> r_pos W (rd r) + length bs \<le> stop \<Longrightarrow>
      decode_depth r + d \<le> recursion_limit \<Longrightarrow>
      \<exists>r'. d_loop W cs stop r m = d_loop W cs stop r' m' \<and> rem (rd r') = t \<and>
           r_len W (rd r') = r_len W (rd r) \<and> decode_depth r' = decode_depth r"
  shows "consumes W rem d cs bs m m'"
  using assms by (auto simp: consumes_def)

lemma consumesD:
  assumes "consumes W rem d cs bs m m'" "rem (rd r) = bs @ t" "r_pos W (rd r) + length bs \<le> stop"
    "decode_depth r + d \<le> recursion_limit"
  obtains r' where "d_loop W cs stop r m = d_loop W cs stop r' m'" "rem (rd r') = t"
    "r_len W (rd r') = r_len W (rd r)" "decode_depth r' = decode_depth r"
  using assms unfolding consumes_def by blast

lemma consumes_Nil: "consumes W rem d cs [] m m"
  by (rule consumesI) auto

lemma codec_rtD:
  assumes "codec_rt W stk rem d enc dec m" "stk w = b # s" "enc m w = Inr w'"
  obtains bs where "stk w' = (b @ bs) # s"
    "\<And>r t. rem (rd r) = bs @ t \<Longrightarrow> decode_depth r + d \<le> recursion_limit \<Longrightarrow>
       \<exists>r'. dec r (Some (length bs)) = Some (Inr (m, r')) \<and> rem (rd r') = t \<and>
            r_len W (rd r') = r_len W (rd r) \<and> decode_depth r' = decode_depth r"
  using assms unfolding codec_rt_def by metis

lemma matchedD:
  assumes "matched W stk rem d cs fs m m'" "stk w = b # s" "w_seq fs w = Inr w'"
  obtains bs where "stk w' = (b @ bs) # s" "consumes W rem d cs bs m m'"
  using assms unfolding matched_def by metis

lemma matched_Nil [codec_rules]: "m = m' \<Longrightarrow> matched W stk rem d cs [] m m'"
  by (auto simp: matched_def intro: consumes_Nil)

text \<open>Unfolding the loop once, with the tag read.\<close>

lemma d_loop_step:
  assumes "r_pos W (rd r) < stop" "r_uint32 W (rd r) = Inr (tag, r1)" "d_switch cs tag = Some a"
    "a (r\<lparr>rd := r1\<rparr>) m = Some (Inr (m', r'))"
  shows "d_loop W cs stop r m = d_loop W cs stop r' m'"
  using assms by (simp add: d_loop.simps [of W cs stop r m])

lemma d_loop_skip:
  assumes "r_pos W (rd r) < stop" "r_uint32 W (rd r) = Inr (tag, r1)" "d_switch cs tag = None"
    "tag mod 8 \<noteq> 4" "tag \<noteq> 0" "r_skip W (tag mod 8) r1 = Inr r2"
  shows "d_loop W cs stop r m = d_loop W cs stop (r\<lparr>rd := r2\<rparr>) m"
  using assms by (simp add: d_loop.simps [of W cs stop r m])

context wire_lib
begin

lemma pos_after:
  assumes "rem r = bs @ t" "rem r' = t" "r_len W r' = r_len W r"
  shows "r_pos W r' = r_pos W r + length bs"
  using pos_rem [of r] pos_rem [of r'] assms by simp

lemma consumes_trans:
  assumes 1: "consumes W rem d cs bs m m'" and 2: "consumes W rem d cs bs' m' m''"
  shows "consumes W rem d cs (bs @ bs') m m''"
proof (rule consumesI)
  fix r :: "'r rstate" and t stop
  assume r: "rem (rd r) = (bs @ bs') @ t" "r_pos W (rd r) + length (bs @ bs') \<le> stop"
    "decode_depth r + d \<le> recursion_limit"
  obtain r1 where r1: "d_loop W cs stop r m = d_loop W cs stop r1 m'" "rem (rd r1) = bs' @ t"
      "r_len W (rd r1) = r_len W (rd r)" "decode_depth r1 = decode_depth r"
    using r by (auto intro: consumesD [OF 1, of r "bs' @ t" stop])
  have "r_pos W (rd r1) = r_pos W (rd r) + length bs"
    using r(1) r1(2,3) by (intro pos_after) auto
  then obtain r2 where "d_loop W cs stop r1 m' = d_loop W cs stop r2 m''" "rem (rd r2) = t"
      "r_len W (rd r2) = r_len W (rd r1)" "decode_depth r2 = decode_depth r1"
    using r r1 by (auto intro: consumesD [OF 2, of r1 t stop])
  then show "\<exists>r'. d_loop W cs stop r m = d_loop W cs stop r' m'' \<and> rem (rd r') = t \<and>
      r_len W (rd r') = r_len W (rd r) \<and> decode_depth r' = decode_depth r"
    using r1 by auto
qed

lemma matched_Cons [codec_rules]:
  assumes 1: "matched W stk rem d cs [f] m m'" and 2: "matched W stk rem d cs fs m' m''"
  shows "matched W stk rem d cs (f # fs) m m''"
  unfolding matched_def
proof (intro allI impI)
  fix w w'' b s
  assume w: "stk w = b # s" "w_seq (f # fs) w = Inr w''"
  then obtain w' where w': "w_seq [f] w = Inr w'" "w_seq fs w' = Inr w''"
    by (auto split: sum.splits)
  obtain bs where bs: "stk w' = (b @ bs) # s" "consumes W rem d cs bs m m'"
    using matchedD [OF 1 w(1) w'(1)] by metis
  obtain bs' where "stk w'' = ((b @ bs) @ bs') # s" "consumes W rem d cs bs' m' m''"
    using matchedD [OF 2 bs(1) w'(2)] by metis
  then show "\<exists>bs. stk w'' = (b @ bs) # s \<and> consumes W rem d cs bs m m''"
    using consumes_trans [OF bs(2)] by (intro exI [of _ "bs @ bs'"]) simp
qed

lemma matched_if [codec_rules]:
  assumes "c \<Longrightarrow> matched W stk rem d cs fs m m'" and "\<not> c \<Longrightarrow> m = m'"
  shows "matched W stk rem d cs [w_if c fs] m m'"
  using assms by (cases c) (auto simp: w_if_def matched_def consumes_Nil split: sum.splits)

lemma matched_some [codec_rules]:
  assumes "\<And>v. x = Some v \<Longrightarrow> matched W stk rem d cs (f v) m m'" and "x = None \<Longrightarrow> m = m'"
  shows "matched W stk rem d cs [w_some x f] m m'"
  using assms by (cases x) (auto simp: w_some_def matched_def consumes_Nil split: sum.splits)

lemma matched_try [codec_rules]:
  assumes "\<And>v. x = Inr v \<Longrightarrow> matched W stk rem d cs (f v) m m'"
  shows "matched W stk rem d cs [w_try x f] m m'"
  using assms by (cases x) (auto simp: w_try_def matched_def split: sum.splits)

lemma matched_check [codec_rules]:
  assumes "c \<Longrightarrow> matched W stk rem d cs fs m m'"
  shows "matched W stk rem d cs (w_check c e # fs) m m'"
  using assms by (cases c) (auto simp: w_check_def matched_def)

text \<open>A tag and a value: the loop reads the tag, the switch finds the case.\<close>

lemma appendsD:
  assumes "appends stk f x" "stk w = b # s" "f w = Inr w'"
  obtains bs where "x = Some bs" "stk w' = (b @ bs) # s"
  using assms by (cases x) (force simp: appends_def)+

lemma consumes_field:
  assumes tag: "pb_uint32 t = Some tb" and sw: "d_switch cs (nat t) = Some a"
    and act: "\<And>r u. rem (rd r) = bs @ u \<Longrightarrow> decode_depth r + d \<le> recursion_limit \<Longrightarrow>
       \<exists>r'. a r m = Some (Inr (m', r')) \<and> rem (rd r') = u \<and> r_len W (rd r') = r_len W (rd r) \<and>
            decode_depth r' = decode_depth r"
  shows "consumes W rem d cs (tb @ bs) m m'"
proof (rule consumesI)
  fix r :: "'r rstate" and u stop
  assume r: "rem (rd r) = (tb @ bs) @ u" "r_pos W (rd r) + length (tb @ bs) \<le> stop"
    "decode_depth r + d \<le> recursion_limit"
  have "0 < length tb" using tag by (auto simp: pb_uint32_def split: if_splits)
  then have lt: "r_pos W (rd r) < stop" using r(2) by (cases tb) simp_all
  obtain r1 where r1: "r_uint32 W (rd r) = Inr (nat t, r1)" "rem r1 = bs @ u"
      "r_len W r1 = r_len W (rd r)"
    using get_uint32 [OF tag] r(1) by (auto simp: yields_def)
  obtain r' where r': "a (r\<lparr>rd := r1\<rparr>) m = Some (Inr (m', r'))" "rem (rd r') = u"
      "r_len W (rd r') = r_len W r1" "decode_depth r' = decode_depth r"
    using act [of "r\<lparr>rd := r1\<rparr>" u] r1(2) r(3) by auto
  show "\<exists>r'. d_loop W cs stop r m = d_loop W cs stop r' m' \<and> rem (rd r') = u \<and>
      r_len W (rd r') = r_len W (rd r) \<and> decode_depth r' = decode_depth r"
    using d_loop_step [OF lt r1(1) sw r'(1)] r' r1(3) by auto
qed

lemma matched_val:
  assumes wr: "appends stk wr x" and rd: "\<And>bs. x = Some bs \<Longrightarrow> yields W rem rop v bs"
    and sw: "d_switch cs (nat t) = Some (d_val rop k)" and m': "x \<noteq> None \<Longrightarrow> k v m = m'"
  shows "matched W stk rem d cs [w_uint32 W t, wr] m m'"
  unfolding matched_def
proof (intro allI impI)
  fix w w'' b s
  assume w: "stk w = b # s" "w_seq [w_uint32 W t, wr] w = Inr w''"
  then obtain w' where w': "w_uint32 W t w = Inr w'" "wr w' = Inr w''"
    by (auto split: sum.splits)
  obtain tb where tb: "pb_uint32 t = Some tb" "stk w' = (b @ tb) # s"
    using appendsD [OF put_uint32 w(1) w'(1)] by metis
  obtain bs where bs: "x = Some bs" "stk w'' = ((b @ tb) @ bs) # s"
    using appendsD [OF wr tb(2) w'(2)] by metis
  have "consumes W rem d cs (tb @ bs) m m'"
  proof (rule consumes_field [OF tb(1) sw])
    fix r :: "'r rstate" and u
    assume "rem (rd r) = bs @ u"
    then obtain r' where "rop (rd r) = Inr (v, r')" "rem r' = u" "r_len W r' = r_len W (rd r)"
      using rd [OF bs(1)] by (auto simp: yields_def)
    then show "\<exists>r'. d_val rop k r m = Some (Inr (m', r')) \<and> rem (rd r') = u \<and>
        r_len W (rd r') = r_len W (rd r) \<and> decode_depth r' = decode_depth r"
      by (simp add: d_val_def m' bs(1))
  qed
  with bs(2) show "\<exists>bs. stk w'' = (b @ bs) # s \<and> consumes W rem d cs bs m m'"
    by (intro exI [of _ "tb @ bs"]) simp
qed

text \<open>One rule per scalar kind; \<open>v\<close> is stored by the case that the switch finds for the tag.\<close>

lemma matched_uint32 [codec_rules]:
  assumes "d_switch cs (nat t) = Some (d_val (r_uint32 W) k)" "0 \<le> v \<Longrightarrow> k (nat v) m = m'"
  shows "matched W stk rem d cs [w_uint32 W t, w_uint32 W v] m m'"
  by (rule matched_val [OF put_uint32 get_uint32 assms(1)])
    (use assms(2) in \<open>auto simp: pb_uint32_def split: if_splits\<close>)

lemma matched_int32 [codec_rules]:
  assumes "d_switch cs (nat t) = Some (d_val (r_int32 W) k)" "k v m = m'"
  shows "matched W stk rem d cs [w_uint32 W t, w_int32 W v] m m'"
  by (rule matched_val [OF put_int32 get_int32 assms])

lemma matched_int64 [codec_rules]:
  assumes "d_switch cs (nat t) = Some (d_val (r_int64 W) k)" "k v m = m'"
  shows "matched W stk rem d cs [w_uint32 W t, w_int64 W v] m m'"
  by (rule matched_val [OF put_int64 get_int64 assms])

lemma matched_uint64 [codec_rules]:
  assumes "d_switch cs (nat t) = Some (d_val (r_uint64 W) k)" "k v m = m'"
  shows "matched W stk rem d cs [w_uint32 W t, w_uint64 W v] m m'"
  by (rule matched_val [OF put_uint64 get_uint64 assms])

lemma matched_bool [codec_rules]:
  assumes "d_switch cs (nat t) = Some (d_val (r_bool W) k)" "k v m = m'"
  shows "matched W stk rem d cs [w_uint32 W t, w_bool W v] m m'"
  by (rule matched_val [OF put_bool get_bool assms])

lemma matched_double:
  assumes "\<not> double_is_nan v" "d_switch cs (nat t) = Some (d_val (r_double W) k)" "k v m = m'"
  shows "matched W stk rem d cs [w_uint32 W t, w_double W v] m m'"
  by (rule matched_val [OF put_double [OF assms(1)] get_double [OF assms(1)] assms(2,3)])

lemma matched_string [codec_rules]:
  assumes "d_switch cs (nat t) = Some (d_val (r_string W) k)" "k v m = m'"
  shows "matched W stk rem d cs [w_uint32 W t, w_string W v] m m'"
  by (rule matched_val [OF put_string get_string assms])

lemma matched_bytes [codec_rules]:
  assumes "d_switch cs (nat t) = Some (d_val (r_bytes W) k)" "k v m = m'"
  shows "matched W stk rem d cs [w_uint32 W t, w_bytes W v] m m'"
  by (rule matched_val [OF put_bytes get_bytes assms])

text \<open>A nested message between \<open>fork\<close> and \<open>join\<close>.\<close>

lemma matched_msg [codec_rules]:
  assumes rt: "codec_rt W stk rem d enc dec v"
    and sw: "d_switch cs (nat t) = Some (d_msg W dec k)" and m': "k v m = m'"
  shows "matched W stk rem d cs [w_uint32 W t, w_open W, enc v, w_join W] m m'"
  unfolding matched_def
proof (intro allI impI)
  fix w w4 b s
  assume w: "stk w = b # s" "w_seq [w_uint32 W t, w_open W, enc v, w_join W] w = Inr w4"
  then obtain w1 w3 where w': "w_uint32 W t w = Inr w1" "enc v (w_fork W w1) = Inr w3"
      "w_join W w3 = Inr w4"
    by (auto simp: w_open_def split: sum.splits)
  obtain tb where tb: "pb_uint32 t = Some tb" "stk w1 = (b @ tb) # s"
    using appendsD [OF put_uint32 w(1) w'(1)] by metis
  have "stk (w_fork W w1) = [] # (b @ tb) # s" using tb by (simp add: fork)
  from codec_rtD [OF rt this w'(2)] obtain bs where
    bs: "stk w3 = bs # (b @ tb) # s"
      "\<And>r u. rem (rd r) = bs @ u \<Longrightarrow> decode_depth r + d \<le> recursion_limit \<Longrightarrow>
         \<exists>r'. dec r (Some (length bs)) = Some (Inr (v, r')) \<and> rem (rd r') = u \<and>
              r_len W (rd r') = r_len W (rd r) \<and> decode_depth r' = decode_depth r"
    by auto
  have small: "length bs < 2 ^ 32"
    using join_too_large [OF bs(1)] w'(3) by auto
  then have w4: "stk w4 = ((b @ tb) @ lenpref bs) # s"
    using join [OF bs(1)] w'(3) by auto
  have "consumes W rem d cs (tb @ lenpref bs) m m'"
  proof (rule consumes_field [OF tb(1) sw])
    fix r :: "'r rstate" and u
    assume r: "rem (rd r) = lenpref bs @ u" "decode_depth r + d \<le> recursion_limit"
    have "pb_uint32 (int (length bs)) = Some (varint (length bs))"
      using small by (simp add: pb_uint32_def)
    then obtain r1 where r1: "r_uint32 W (rd r) = Inr (length bs, r1)" "rem r1 = bs @ u"
        "r_len W r1 = r_len W (rd r)"
      using get_uint32 [of "int (length bs)"] r(1) by (auto simp: yields_def lenpref_def)
    obtain r' where "dec (r\<lparr>rd := r1\<rparr>) (Some (length bs)) = Some (Inr (v, r'))"
        "rem (rd r') = u" "r_len W (rd r') = r_len W r1" "decode_depth r' = decode_depth r"
      using bs(2) [of "r\<lparr>rd := r1\<rparr>" u] r1 r(2) by auto
    then show "\<exists>r'. d_msg W dec k r m = Some (Inr (m', r')) \<and> rem (rd r') = u \<and>
        r_len W (rd r') = r_len W (rd r) \<and> decode_depth r' = decode_depth r"
      using r1 m' by (auto simp: d_msg_def)
  qed
  with w4 show "\<exists>bs. stk w4 = (b @ bs) # s \<and> consumes W rem d cs bs m m'"
    by (intro exI [of _ "tb @ lenpref bs"]) simp
qed

text \<open>
  A repeated field: the message seen as a function \<open>st\<close> of the field's content so far, which
  each element extends by \<open>g\<close>.
\<close>

lemma matched_for:
  assumes "\<And>v l. v \<in> set xs \<Longrightarrow> matched W stk rem d cs (f v) (st l) (st (g l v))"
  shows "matched W stk rem d cs [w_for xs f] (st l0) (st (foldl g l0 xs))"
  using assms
proof (induction xs arbitrary: l0)
  case Nil
  then show ?case by (auto simp: matched_def w_for_def consumes_Nil)
next
  case (Cons v xs)
  have 1: "matched W stk rem d cs [w_seq (f v)] (st l0) (st (g l0 v))"
    using Cons.prems [of v l0] by (auto simp: matched_def split: sum.splits)
  have 2: "matched W stk rem d cs [w_for xs f] (st (g l0 v)) (st (foldl g (g l0 v) xs))"
    using Cons by simp
  have "w_seq [w_for (v # xs) f] w = w_seq [w_seq (f v), w_for xs f] w" for w
    by (auto simp: w_for_def split: sum.splits)
  then show ?case
    using matched_Cons [OF 1 2] by (simp only: matched_def foldl_Cons)
qed

lemma matched_repeated:
  assumes "st l0 = m"
    and "\<And>v l. v \<in> set xs \<Longrightarrow> matched W stk rem d cs (f v) (st l) (st (g l v))"
    and "st (foldl g l0 xs) = m'"
  shows "matched W stk rem d cs [w_for xs f] m m'"
  using matched_for [of xs d cs f st g l0] assms by simp

text \<open>
  The same by field of a message: \<open>upd\<close> is the field's update function.  Each rule consumes the
  first statement of an encoder and leaves the rest.
\<close>

lemma field_string:
  assumes "d_switch cs (nat t) = Some (d_val (r_string W) (\<lambda>v. upd (\<lambda>_. v)))" "upd (\<lambda>_. []) m = m"
    and "matched W stk rem d cs fs (upd (\<lambda>_. x) m) m'"
  shows "matched W stk rem d cs (w_if (x \<noteq> []) [w_uint32 W t, w_string W x] # fs) m m'"
  by (rule matched_Cons [OF matched_if assms(3)], rule matched_string [OF assms(1)]) (use assms(2) in auto)

lemma field_bytes:
  assumes "d_switch cs (nat t) = Some (d_val (r_bytes W) (\<lambda>v. upd (\<lambda>_. v)))" "upd (\<lambda>_. []) m = m"
    and "matched W stk rem d cs fs (upd (\<lambda>_. x) m) m'"
  shows "matched W stk rem d cs (w_if (x \<noteq> []) [w_uint32 W t, w_bytes W x] # fs) m m'"
  by (rule matched_Cons [OF matched_if assms(3)], rule matched_bytes [OF assms(1)]) (use assms(2) in auto)

lemma field_bool:
  assumes "d_switch cs (nat t) = Some (d_val (r_bool W) (\<lambda>v. upd (\<lambda>_. v)))" "upd (\<lambda>_. False) m = m"
    and "matched W stk rem d cs fs (upd (\<lambda>_. x) m) m'"
  shows "matched W stk rem d cs (w_if (x \<noteq> False) [w_uint32 W t, w_bool W x] # fs) m m'"
  by (rule matched_Cons [OF matched_if assms(3)], rule matched_bool [OF assms(1)]) (use assms(2) in auto)

lemma field_int32:
  assumes "d_switch cs (nat t) = Some (d_val (r_int32 W) (\<lambda>v. upd (\<lambda>_. v)))" "upd (\<lambda>_. 0) m = m"
    and "matched W stk rem d cs fs (upd (\<lambda>_. x) m) m'"
  shows "matched W stk rem d cs (w_if (x \<noteq> 0) [w_uint32 W t, w_int32 W x] # fs) m m'"
  by (rule matched_Cons [OF matched_if assms(3)], rule matched_int32 [OF assms(1)]) (use assms(2) in auto)

lemma field_uint32:
  assumes "d_switch cs (nat t) = Some (d_val (r_uint32 W) (\<lambda>v. upd (\<lambda>_. int v)))" "upd (\<lambda>_. 0) m = m"
    and "matched W stk rem d cs fs (upd (\<lambda>_. x) m) m'"
  shows "matched W stk rem d cs (w_if (x \<noteq> 0) [w_uint32 W t, w_uint32 W x] # fs) m m'"
  by (rule matched_Cons [OF matched_if assms(3)], rule matched_uint32 [OF assms(1)]) (use assms(2) in auto)

lemma field_int64:
  assumes "d_switch cs (nat t) = Some (d_val (r_int64 W) (\<lambda>v. upd (\<lambda>_. v)))" "upd (\<lambda>_. 0) m = m"
    and "matched W stk rem d cs fs (upd (\<lambda>_. x) m) m'"
  shows "matched W stk rem d cs (w_if (x \<noteq> 0) [w_check c e, w_uint32 W t, w_int64 W x] # fs) m m'"
  by (rule matched_Cons [OF matched_if assms(3)], rule matched_check, rule matched_int64 [OF assms(1)])
    (use assms(2) in auto)

lemma field_uint64:
  assumes "d_switch cs (nat t) = Some (d_val (r_uint64 W) (\<lambda>v. upd (\<lambda>_. v)))" "upd (\<lambda>_. 0) m = m"
    and "matched W stk rem d cs fs (upd (\<lambda>_. x) m) m'"
  shows "matched W stk rem d cs (w_if (x \<noteq> 0) [w_check c e, w_uint32 W t, w_uint64 W x] # fs) m m'"
  by (rule matched_Cons [OF matched_if assms(3)], rule matched_check, rule matched_uint64 [OF assms(1)])
    (use assms(2) in auto)

lemma field_double:
  assumes "double_ok x"
    and "d_switch cs (nat t) = Some (d_val (r_double W) (\<lambda>v. upd (\<lambda>_. v)))" "upd (\<lambda>_. 0) m = m"
    and "matched W stk rem d cs fs (upd (\<lambda>_. x) m) m'"
  shows "matched W stk rem d cs (w_if (\<not> double_is_zero x) [w_uint32 W t, w_double W x] # fs) m m'"
  by (rule matched_Cons [OF matched_if assms(4)], rule matched_double [OF _ assms(2)])
    (use assms(1,3) in \<open>auto simp: double_ok_def\<close>)

lemma field_some:
  assumes "\<And>v. x = Some v \<Longrightarrow> matched W stk rem d cs (f v) m (upd (\<lambda>_. Some v) m)" "upd (\<lambda>_. None) m = m"
    and "matched W stk rem d cs fs (upd (\<lambda>_. x) m) m'"
  shows "matched W stk rem d cs (w_some x f # fs) m m'"
  by (rule matched_Cons [OF matched_some assms(3)]) (use assms(1,2) in auto)

lemma field_msg:
  assumes "\<And>v. x = Some v \<Longrightarrow> codec_rt W stk rem d enc dec v"
    and "d_switch cs (nat t) = Some (d_msg W dec (\<lambda>v. upd (\<lambda>_. Some v)))" "upd (\<lambda>_. None) m = m"
    and "matched W stk rem d cs fs (upd (\<lambda>_. x) m) m'"
  shows "matched W stk rem d cs (w_some x (\<lambda>v. [w_uint32 W t, w_open W, enc v, w_join W]) # fs) m m'"
  by (rule field_some [where upd = upd, OF _ assms(3,4)], rule matched_msg [OF assms(1,2)]) auto

lemma field_opt_string:
  assumes "d_switch cs (nat t) = Some (d_val (r_string W) (\<lambda>v. upd (\<lambda>_. Some v)))" "upd (\<lambda>_. None) m = m"
    and "matched W stk rem d cs fs (upd (\<lambda>_. x) m) m'"
  shows "matched W stk rem d cs (w_some x (\<lambda>v. [w_uint32 W t, w_string W v]) # fs) m m'"
  by (rule field_some [where upd = upd, OF _ assms(2,3)], rule matched_string [OF assms(1)]) auto

text \<open>A field that is converted before it is encoded and after it is decoded, as dates are.\<close>

lemma field_conv:
  assumes "\<And>v y. x = Some v \<Longrightarrow> conv v = Inr y \<Longrightarrow> codec_rt W stk rem d enc dec y \<and> unconv y = v"
    and "d_switch cs (nat t) = Some (d_msg W dec (\<lambda>y. upd (\<lambda>_. Some (unconv y))))" "upd (\<lambda>_. None) m = m"
    and "matched W stk rem d cs fs (upd (\<lambda>_. x) m) m'"
  shows "matched W stk rem d cs
    (w_some x (\<lambda>v. [w_try (conv v) (\<lambda>y. [w_uint32 W t, w_open W, enc y, w_join W])]) # fs) m m'"
  by (rule field_some [where upd = upd, OF _ assms(3,4)], rule matched_try, rule matched_msg [OF _ assms(2)])
    (use assms(1) in auto)

lemma foldl_snoc: "foldl (\<lambda>l v. l @ [v]) l0 xs = l0 @ xs"
  by (induction xs arbitrary: l0) simp_all

lemma field_push:
  assumes "\<And>v l. v \<in> set xs \<Longrightarrow> matched W stk rem d cs (f v) (upd (\<lambda>_. l) m) (upd (\<lambda>_. l @ [v]) m)"
    and "upd (\<lambda>_. []) m = m" and "matched W stk rem d cs fs (upd (\<lambda>_. xs) m) m'"
  shows "matched W stk rem d cs (w_for xs f # fs) m m'"
  by (rule matched_Cons [OF matched_repeated [where st = "\<lambda>l. upd (\<lambda>_. l) m" and g = "\<lambda>l v. l @ [v]"] assms(3)])
    (use assms(1,2) in \<open>auto simp: foldl_snoc\<close>)

lemma field_push_msg:
  assumes "\<And>v. v \<in> set xs \<Longrightarrow> codec_rt W stk rem d enc dec v"
    and "d_switch cs (nat t) = Some (d_msg W dec (\<lambda>v m. upd (\<lambda>_. sel m @ [v]) m))"
    and "\<And>l v. upd (\<lambda>_. sel (upd (\<lambda>_. l) m) @ [v]) (upd (\<lambda>_. l) m) = upd (\<lambda>_. l @ [v]) m"
    and "upd (\<lambda>_. []) m = m" and "matched W stk rem d cs fs (upd (\<lambda>_. xs) m) m'"
  shows "matched W stk rem d cs (w_for xs (\<lambda>v. [w_uint32 W t, w_open W, enc v, w_join W]) # fs) m m'"
  by (rule field_push [where upd = upd, OF _ assms(4,5)], rule matched_msg [OF assms(1,2)]) (use assms(3) in auto)

lemma field_push_string:
  assumes "d_switch cs (nat t) = Some (d_val (r_string W) (\<lambda>v m. upd (\<lambda>_. sel m @ [v]) m))"
    and "\<And>l v. upd (\<lambda>_. sel (upd (\<lambda>_. l) m) @ [v]) (upd (\<lambda>_. l) m) = upd (\<lambda>_. l @ [v]) m"
    and "upd (\<lambda>_. []) m = m" and "matched W stk rem d cs fs (upd (\<lambda>_. xs) m) m'"
  shows "matched W stk rem d cs (w_for xs (\<lambda>v. [w_uint32 W t, w_string W v]) # fs) m m'"
  by (rule field_push [where upd = upd, OF _ assms(3,4)], rule matched_string [OF assms(1)]) (use assms(2) in auto)

text \<open>
  A map field: the entries of the object, each an entry message built by \<open>mk\<close>, assigned one by
  one to the object of the decoded message.
\<close>

lemma field_entries_assigned:
  assumes "\<And>k v. (k, v) \<in> set xs \<Longrightarrow> codec_rt W stk rem d enc dec (mk k v)"
    and "d_switch cs (nat t) = Some (d_msg W dec (\<lambda>e m. upd (\<lambda>_. js_set (sel m) (key e) (val e)) m))"
    and "\<And>k v. key (mk k v) = k \<and> val (mk k v) = v"
    and "\<And>l k v. upd (\<lambda>_. js_set (sel (upd (\<lambda>_. l) m)) k v) (upd (\<lambda>_. l) m) = upd (\<lambda>_. js_set l k v) m"
    and "upd (\<lambda>_. []) m = m"
    and "matched W stk rem d cs fs (upd (\<lambda>_. foldl (\<lambda>acc p. js_set acc (fst p) (snd p)) [] xs) m) m'"
  shows "matched W stk rem d cs
    (w_for xs (\<lambda>(k, v). [w_uint32 W t, w_open W, enc (mk k v), w_join W]) # fs) m m'"
proof (rule matched_Cons [OF matched_repeated [where st = "\<lambda>l. upd (\<lambda>_. l) m" and
        ?l0.0 = "[]" and g = "\<lambda>l p. js_set l (fst p) (snd p)"] assms(6)])
  fix p l assume p: "p \<in> set xs"
  obtain k v where kv: "p = (k, v)" by (cases p)
  have "codec_rt W stk rem d enc dec (mk k v)" using p kv by (intro assms(1)) simp
  from matched_msg [OF this assms(2) refl, of "upd (\<lambda>_. l) m"]
  show "matched W stk rem d cs (case p of (k, v) \<Rightarrow> [w_uint32 W t, w_open W, enc (mk k v), w_join W])
      (upd (\<lambda>_. l) m) (upd (\<lambda>_. js_set l (fst p) (snd p)) m)"
    by (simp add: kv assms(3,4))
qed (simp_all add: assms(5))

lemma field_entries:
  assumes "\<And>k v. (k, v) \<in> set xs \<Longrightarrow> codec_rt W stk rem d enc dec (mk k v)"
    and "d_switch cs (nat t) = Some (d_msg W dec (\<lambda>e m. upd (\<lambda>_. js_set (sel m) (key e) (val e)) m))"
    and "\<And>k v. key (mk k v) = k \<and> val (mk k v) = v"
    and "\<And>l k v. upd (\<lambda>_. js_set (sel (upd (\<lambda>_. l) m)) k v) (upd (\<lambda>_. l) m) = upd (\<lambda>_. js_set l k v) m"
    and "upd (\<lambda>_. []) m = m" and "js_object_ok xs"
    and "matched W stk rem d cs fs (upd (\<lambda>_. xs) m) m'"
  shows "matched W stk rem d cs
    (w_for xs (\<lambda>(k, v). [w_uint32 W t, w_open W, enc (mk k v), w_join W]) # fs) m m'"
  by (rule field_entries_assigned [where upd = upd and sel = sel and key = key and val = val and dec = dec])
    (use assms js_set_entries [OF assms(6)] in simp_all)

end

section \<open>From the fields to the message\<close>

definition codec :: "('w, 'r) wire \<Rightarrow> ('w \<Rightarrow> byte list list) \<Rightarrow> ('r \<Rightarrow> byte list) \<Rightarrow> nat \<Rightarrow>
    ('m \<Rightarrow> 'w writer) \<Rightarrow> ('r, 'm) cases \<Rightarrow> 'm \<Rightarrow> 'm \<Rightarrow> bool" where
  "codec W stk rem d enc cs base m \<longleftrightarrow>
     (\<exists>fs. enc m = w_seq fs \<and> matched W stk rem d cs fs base m)"

lemma codecI: "enc m = w_seq fs \<Longrightarrow> matched W stk rem d cs fs base m \<Longrightarrow> codec W stk rem d enc cs base m"
  by (auto simp: codec_def)

lemma consumes_mono: "consumes W rem d cs bs m m' \<Longrightarrow> d \<le> d' \<Longrightarrow> consumes W rem d' cs bs m m'"
  by (auto simp: consumes_def)

lemma codec_rt_mono: "codec_rt W stk rem d enc dec m \<Longrightarrow> d \<le> d' \<Longrightarrow> codec_rt W stk rem d' enc dec m"
  unfolding codec_rt_def by (meson add_le_mono le_refl le_trans)

context wire_lib
begin

text \<open>The decoder of a message on a run of bytes that its loop consumes.\<close>

lemma d_message_consumes:
  assumes "consumes W rem d cs bs base m" "rem (rd r) = bs @ t" "decode_depth r + Suc d \<le> recursion_limit"
  shows "\<exists>r'. d_message W cs base r (Some (length bs)) = Some (Inr (m, r')) \<and> rem (rd r') = t \<and>
              r_len W (rd r') = r_len W (rd r) \<and> decode_depth r' = decode_depth r"
proof -
  let ?r1 = "r\<lparr>decode_depth := decode_depth r + 1\<rparr>"
  let ?stop = "r_pos W (rd r) + length bs"
  obtain r' where r': "d_loop W cs ?stop ?r1 base = d_loop W cs ?stop r' m" "rem (rd r') = t"
      "r_len W (rd r') = r_len W (rd r)" "decode_depth r' = decode_depth r + 1"
    using consumesD [OF assms(1), of ?r1 t ?stop] assms(2,3) by auto
  have "r_pos W (rd r') = ?stop"
    using assms(2) r'(2,3) by (rule pos_after)
  then have "d_loop W cs ?stop ?r1 base = Some (Inr (m, r'))"
    using r'(1) by (simp add: d_loop_done)
  then have "d_message W cs base r (Some (length bs)) =
      Some (Inr (m, r'\<lparr>decode_depth := decode_depth r\<rparr>))"
    using assms(3) by (simp add: d_message_def Let_def)
  then show ?thesis using r' by auto
qed

lemma codec_rt_of_codec:
  assumes "codec W stk rem d enc cs base m"
  shows "codec_rt W stk rem (Suc d) enc (d_message W cs base) m"
proof -
  obtain fs where fs: "enc m = w_seq fs" "matched W stk rem d cs fs base m"
    using assms by (auto simp: codec_def)
  show ?thesis
    unfolding codec_rt_def
  proof (intro allI impI)
    fix w w' b s
    assume w: "stk w = b # s" "enc m w = Inr w'"
    obtain bs where bs: "stk w' = (b @ bs) # s" "consumes W rem d cs bs base m"
      using matchedD [OF fs(2) w(1)] w(2) fs(1) by metis
    show "\<exists>bs. stk w' = (b @ bs) # s \<and>
        (\<forall>r t. rem (rd r) = bs @ t \<longrightarrow> decode_depth r + Suc d \<le> recursion_limit \<longrightarrow>
          (\<exists>r'. d_message W cs base r (Some (length bs)) = Some (Inr (m, r')) \<and> rem (rd r') = t \<and>
               r_len W (rd r') = r_len W (rd r) \<and> decode_depth r' = decode_depth r))"
      using bs(1) d_message_consumes [OF bs(2)] by blast
  qed
qed

lemma d_message_bytes:
  assumes "consumes W rem d cs bs base m" "Suc d \<le> recursion_limit"
  shows "decode_bytes W (d_message W cs base) bs = Some (Inr m)"
proof -
  let ?r = "\<lparr>rd = r_new W bs, decode_depth = 0\<rparr>"
  have "r_pos W (r_new W bs) = 0"
    using pos_rem [of "r_new W bs"] by (simp add: rem_new len_new)
  then have "d_message W cs base ?r None = d_message W cs base ?r (Some (length bs))"
    by (simp add: d_message_def len_new Let_def)
  moreover obtain r' where "d_message W cs base ?r (Some (length bs)) = Some (Inr (m, r'))"
    using d_message_consumes [OF assms(1), of ?r "[]"] assms(2) by (auto simp: rem_new)
  ultimately show ?thesis by (simp add: decode_bytes_def)
qed

lemma encode_bytes_consumes:
  assumes "codec W stk rem d enc cs base m" "encode_bytes W enc m = Inr bs"
  shows "consumes W rem d cs bs base m"
proof -
  obtain fs where fs: "enc m = w_seq fs" "matched W stk rem d cs fs base m"
    using assms(1) by (auto simp: codec_def)
  obtain w where w: "enc m (w_new W) = Inr w" "bs = w_finish W w"
    using assms(2) by (auto simp: encode_bytes_def split: sum.splits)
  obtain bs' where "stk w = [[] @ bs']" "consumes W rem d cs bs' base m"
    using matchedD [OF fs(2) stk_new] w(1) fs(1) by metis
  then show ?thesis using w(2) finish by auto
qed

lemma roundtrip:
  assumes "codec W stk rem d enc cs base m" "Suc d \<le> recursion_limit" "encode_bytes W enc m = Inr bs"
  shows "decode_bytes W (d_message W cs base) bs = Some (Inr m)"
  using encode_bytes_consumes [OF assms(1,3)] assms(2) by (rule d_message_bytes)

end

section \<open>Unknown fields\<close>

text \<open>
  \<open>unknown cs us\<close>: \<open>us\<close> is a run of well-formed fields that the cases \<open>cs\<close> do not handle.
\<close>

inductive unknown :: "('r, 'm) cases \<Rightarrow> byte list \<Rightarrow> bool" for cs where
  unknown_Nil: "unknown cs []"
| unknown_field: "pb_uint32 (int tag) = Some tb \<Longrightarrow> d_switch cs tag = None \<Longrightarrow> tag \<noteq> 0 \<Longrightarrow>
    pb_payload (tag mod 8) p \<Longrightarrow> unknown cs us \<Longrightarrow> unknown cs (tb @ p @ us)"

lemma pb_payload_not_group: "pb_payload (tag mod 8) p \<Longrightarrow> tag mod 8 \<noteq> 4"
  by (auto simp: pb_payload_def)

context wire_lib
begin

lemma consumes_unknown_field:
  assumes "pb_uint32 (int tag) = Some tb" "d_switch cs tag = None" "tag \<noteq> 0" "pb_payload (tag mod 8) p"
  shows "consumes W rem d cs (tb @ p) m m"
proof (rule consumesI)
  fix r :: "'r rstate" and t stop
  assume r: "rem (rd r) = (tb @ p) @ t" "r_pos W (rd r) + length (tb @ p) \<le> stop"
  have "tb \<noteq> []" using assms(1) by (auto simp: pb_uint32_def split: if_splits)
  then have lt: "r_pos W (rd r) < stop" using r(2) by (cases tb) simp_all
  obtain r1 where r1: "r_uint32 W (rd r) = Inr (tag, r1)" "rem r1 = p @ t" "r_len W r1 = r_len W (rd r)"
    using get_uint32 [OF assms(1)] r(1) by (auto simp: yields_def)
  obtain r2 where r2: "r_skip W (tag mod 8) r1 = Inr r2" "rem r2 = t" "r_len W r2 = r_len W r1"
    using skip_payload [OF assms(4) r1(2)] by auto
  show "\<exists>r'. d_loop W cs stop r m = d_loop W cs stop r' m \<and> rem (rd r') = t \<and>
      r_len W (rd r') = r_len W (rd r) \<and> decode_depth r' = decode_depth r"
    using d_loop_skip [OF lt r1(1) assms(2) pb_payload_not_group [OF assms(4)] assms(3) r2(1)] r1 r2
    by auto
qed

lemma consumes_unknown: "unknown cs us \<Longrightarrow> consumes W rem d cs us m m"
proof (induction rule: unknown.induct)
  case unknown_Nil
  show ?case by (rule consumes_Nil)
next
  case (unknown_field tag tb p us)
  then show ?case
    using consumes_trans [OF consumes_unknown_field] by (metis append_assoc)
qed

lemma roundtrip_unknown:
  assumes "codec W stk rem d enc cs base m" "Suc d \<le> recursion_limit" "encode_bytes W enc m = Inr bs"
    and "unknown cs us" "unknown cs vs"
  shows "decode_bytes W (d_message W cs base) (us @ bs @ vs) = Some (Inr m)"
  using consumes_trans [OF consumes_unknown [OF assms(4)]
      consumes_trans [OF encode_bytes_consumes [OF assms(1,3)] consumes_unknown [OF assms(5)]]] assms(2)
  by (rule d_message_bytes)

end

section \<open>Totality\<close>

text \<open>
  \<open>safe_res\<close>: the call returns; when it returns a value the reader has not moved backwards or
  beyond its bytes, and its depth is as before.
\<close>

definition safe_res :: "('w, 'r) wire \<Rightarrow> 'r rstate \<Rightarrow> ('r, 'm) dres \<Rightarrow> bool" where
  "safe_res W r x \<longleftrightarrow> (case x of None \<Rightarrow> False | Some (Inl e) \<Rightarrow> True
     | Some (Inr (m, r')) \<Rightarrow> r_pos W (rd r) \<le> r_pos W (rd r') \<and> r_pos W (rd r') \<le> r_len W (rd r') \<and>
         r_len W (rd r') = r_len W (rd r) \<and> decode_depth r' = decode_depth r)"

definition d_total :: "('w, 'r) wire \<Rightarrow> ('r, 'm) action \<Rightarrow> bool" where
  "d_total W a \<longleftrightarrow> (\<forall>r m. safe_res W r (a r m))"

definition dec_total :: "('w, 'r) wire \<Rightarrow> ('r, 'm) decoder \<Rightarrow> bool" where
  "dec_total W dec \<longleftrightarrow> (\<forall>r n. r_pos W (rd r) \<le> r_len W (rd r) \<longrightarrow> safe_res W r (dec r n))"

fun cases_total :: "('w, 'r) wire \<Rightarrow> ('r, 'm) cases \<Rightarrow> bool" where
  "cases_total W [] = True"
| "cases_total W ((n, t, a) # cs) = (d_total W a \<and> cases_total W cs)"

lemma safe_res_simps [simp]:
  "\<not> safe_res W r None"
  "safe_res W r (Some (Inl e))"
  "safe_res W r (Some (Inr (m, r'))) \<longleftrightarrow> r_pos W (rd r) \<le> r_pos W (rd r') \<and>
     r_pos W (rd r') \<le> r_len W (rd r') \<and> r_len W (rd r') = r_len W (rd r) \<and>
     decode_depth r' = decode_depth r"
  by (simp_all add: safe_res_def)

lemma safe_resE:
  assumes "safe_res W r x"
  obtains e where "x = Some (Inl e)"
  | m r' where "x = Some (Inr (m, r'))" "r_pos W (rd r) \<le> r_pos W (rd r')"
      "r_pos W (rd r') \<le> r_len W (rd r)" "r_len W (rd r') = r_len W (rd r)"
      "decode_depth r' = decode_depth r"
  using assms by (auto simp: safe_res_def split: option.splits sum.splits prod.splits)

lemma advancesD:
  assumes "advances W f" "f r = Inr (v, r')"
  shows "r_pos W r \<le> r_pos W r' \<and> r_pos W r' \<le> r_len W r \<and> r_len W r' = r_len W r"
  using assms unfolding advances_def by metis

lemma safe_res_trans:
  assumes "r_pos W (rd r) \<le> r_pos W (rd r1)" "r_len W (rd r1) = r_len W (rd r)"
    "decode_depth r1 = decode_depth r" "safe_res W r1 x"
  shows "safe_res W r x"
  using assms by (auto simp: safe_res_def split: option.splits sum.splits)

lemma d_switch_total: "cases_total W cs \<Longrightarrow> d_switch cs tag = Some a \<Longrightarrow> d_total W a"
  by (induction cs tag rule: d_switch.induct) (auto split: if_splits)

lemma total_val: "advances W f \<Longrightarrow> d_total W (d_val f k)"
  by (auto simp: d_total_def d_val_def split: sum.splits dest: advancesD)

lemma cases_total_Nil [total_rules]: "cases_total W []"
  by simp

lemma cases_total_Cons [total_rules]: "d_total W a \<Longrightarrow> cases_total W cs \<Longrightarrow> cases_total W ((n, t, a) # cs)"
  by simp

context wire_reader
begin

lemma total_uint32 [total_rules]: "d_total W (d_val (r_uint32 W) k)"
  by (rule total_val [OF adv_uint32])

lemma total_int32 [total_rules]: "d_total W (d_val (r_int32 W) k)"
  by (rule total_val [OF adv_int32])

lemma total_int64 [total_rules]: "d_total W (d_val (r_int64 W) k)"
  by (rule total_val [OF adv_int64])

lemma total_uint64 [total_rules]: "d_total W (d_val (r_uint64 W) k)"
  by (rule total_val [OF adv_uint64])

lemma total_bool [total_rules]: "d_total W (d_val (r_bool W) k)"
  by (rule total_val [OF adv_bool])

lemma total_double [total_rules]: "d_total W (d_val (r_double W) k)"
  by (rule total_val [OF adv_double])

lemma total_string [total_rules]: "d_total W (d_val (r_string W) k)"
  by (rule total_val [OF adv_string])

lemma total_bytes [total_rules]: "d_total W (d_val (r_bytes W) k)"
  by (rule total_val [OF adv_bytes])

lemma total_msg [total_rules]:
  assumes dec: "dec_total W dec"
  shows "d_total W (d_msg W dec k)"
  unfolding d_total_def
proof (intro allI)
  fix r :: "'r rstate" and m
  show "safe_res W r (d_msg W dec k r m)"
  proof (cases "r_uint32 W (rd r)")
    case (Inl e)
    then show ?thesis by (simp add: d_msg_def)
  next
    case (Inr nr)
    obtain n r1 where nr: "nr = (n, r1)" by (cases nr)
    have r1: "r_pos W (rd r) \<le> r_pos W r1" "r_pos W r1 \<le> r_len W r1" "r_len W r1 = r_len W (rd r)"
      using advancesD [OF adv_uint32] Inr nr by fastforce+
    let ?x = "dec (r\<lparr>rd := r1\<rparr>) (Some n)"
    have "safe_res W (r\<lparr>rd := r1\<rparr>) ?x"
      using dec r1(2) by (simp add: dec_total_def)
    then have "safe_res W r ?x"
      by (rule safe_res_trans [rotated 3]) (use r1 in auto)
    then show ?thesis
      using Inr nr by (auto simp: d_msg_def safe_res_def split: option.splits sum.splits)
  qed
qed

lemma d_loop_total:
  assumes "cases_total W cs" "r_pos W (rd r) \<le> r_len W (rd r)"
  shows "safe_res W r (d_loop W cs stop r m)"
  using assms(2)
proof (induction "r_len W (rd r) - r_pos W (rd r)" arbitrary: r m rule: less_induct)
  case less
  have continue: "safe_res W r (d_loop W cs stop r' m')"
    if "r_pos W (rd r) < r_pos W (rd r')" "r_pos W (rd r') \<le> r_len W (rd r')"
      "r_len W (rd r') = r_len W (rd r)" "decode_depth r' = decode_depth r" for r' m'
    by (rule safe_res_trans [of W r r']) (use that less in auto)
  show ?case
  proof (cases "r_pos W (rd r) < stop")
    case False
    then show ?thesis using less.prems by (simp add: d_loop_done)
  next
    case lt: True
    show ?thesis
    proof (cases "r_uint32 W (rd r)")
      case (Inl e)
      then show ?thesis using lt by (simp add: d_loop.simps [of W cs stop r m])
    next
      case (Inr tr)
      obtain tag r1 where tr: "r_uint32 W (rd r) = Inr (tag, r1)" using Inr by (cases tr) auto
      have r1: "r_pos W (rd r) < r_pos W r1" "r_pos W r1 \<le> r_len W r1" "r_len W r1 = r_len W (rd r)"
        using tag_progress [OF tr] advancesD [OF adv_uint32 tr] by auto
      show ?thesis
      proof (cases "d_switch cs tag")
        case None
        have skip: "safe_res W r (d_loop W cs stop (r\<lparr>rd := r2\<rparr>) m)" if "r_skip W (tag mod 8) r1 = Inr r2" for r2
          using adv_skip [OF that] r1 by (intro continue) auto
        show ?thesis
          using lt tr None r1 skip by (auto simp: d_loop.simps [of W cs stop r m] split: sum.splits)
      next
        case (Some a)
        have "safe_res W (r\<lparr>rd := r1\<rparr>) (a (r\<lparr>rd := r1\<rparr>) m)"
          using d_switch_total [OF assms(1) Some] by (simp add: d_total_def)
        moreover have "safe_res W r (d_loop W cs stop r' m')"
          if "a (r\<lparr>rd := r1\<rparr>) m = Some (Inr (m', r'))" "safe_res W (r\<lparr>rd := r1\<rparr>) (Some (Inr (m', r')))"
          for r' m'
          using that r1 by (intro continue) auto
        ultimately show ?thesis
          using lt tr Some
          by (auto simp: d_loop.simps [of W cs stop r m] safe_res_def [of W "r\<lparr>rd := r1\<rparr>"]
              split: option.splits sum.splits)
      qed
    qed
  qed
qed

lemma dec_total_message [total_rules]:
  assumes "cases_total W cs"
  shows "dec_total W (d_message W cs base)"
  unfolding dec_total_def
proof (intro allI impI)
  fix r :: "'r rstate" and n
  assume r: "r_pos W (rd r) \<le> r_len W (rd r)"
  let ?r1 = "r\<lparr>decode_depth := decode_depth r + 1\<rparr>"
  let ?stop = "case n of None \<Rightarrow> r_len W (rd r) | Some k \<Rightarrow> r_pos W (rd r) + k"
  have "safe_res W ?r1 (d_loop W cs ?stop ?r1 base)"
    using r by (intro d_loop_total [OF assms]) simp
  then show "safe_res W r (d_message W cs base r n)"
    by (rule safe_resE) (cases n; simp add: d_message_def Let_def)+
qed

end

context wire_format
begin

lemma decode_bytes_total:
  assumes "dec_total W dec"
  shows "\<exists>x. decode_bytes W dec bs = Some x"
proof -
  let ?r = "\<lparr>rd = r_new W bs, decode_depth = 0\<rparr>"
  have "r_pos W (rd ?r) \<le> r_len W (rd ?r)"
    using pos_rem [of "r_new W bs"] by simp
  then have "safe_res W ?r (dec ?r None)"
    using assms by (simp add: dec_total_def)
  then show ?thesis
    by (auto simp: decode_bytes_def safe_res_def split: option.splits sum.splits)
qed

end

end
