(* ===== verification/Wire_Instance.thy ===== *)
theory Wire_Instance
  imports Codec_Laws
begin

text \<open>
  A byte-level implementation of the wire interface that follows the protobuf encoding
  specification literally: a writer is its stack of open buffers, a reader the number of
  bytes consumed and the bytes left.  It interprets the locales of \<open>Wire\<close>, which shows that
  the contract can be met, and it is what the witnesses of the round-trip theorems run on.
  No property of the SDK is about this implementation.
\<close>

section \<open>Writing\<close>

fun pb_put :: "byte list option \<Rightarrow> byte list list \<Rightarrow> (js_error, byte list list) result" where
  "pb_put (Some bs) (b # s) = Inr ((b @ bs) # s)"
| "pb_put _ _ = Inl (LibError ''invalid value'')"

fun pb_join :: "byte list list \<Rightarrow> (js_error, byte list list) result" where
  "pb_join (b # p # s) = (if length b < 2 ^ 32 then Inr ((p @ lenpref b) # s) else Inl (LibError ''too large''))"
| "pb_join _ = Inl (LibError ''invalid state, fork stack empty'')"

section \<open>Reading\<close>

type_synonym pb_reader = "nat \<times> byte list"

fun get_varint :: "nat \<Rightarrow> byte list \<Rightarrow> (nat \<times> nat) option" where
  "get_varint k [] = None"
| "get_varint k (b # bs) =
     (if k = 0 then None
      else if unat b < 128 then Some (unat b, 1)
      else (case get_varint (k - 1) bs of None \<Rightarrow> None | Some (n, l) \<Rightarrow> Some (unat b - 128 + 128 * n, Suc l)))"

definition pb_eof :: js_error where "pb_eof = JsRangeError ''premature EOF''"

definition pb_take :: "nat \<Rightarrow> pb_reader \<Rightarrow> (js_error, byte list \<times> pb_reader) result" where
  "pb_take n = (\<lambda>(p, bs). if n \<le> length bs then Inr (take n bs, (p + n, drop n bs)) else Inl pb_eof)"

definition pb_varint :: "(nat \<Rightarrow> 'a) \<Rightarrow> pb_reader \<Rightarrow> (js_error, 'a \<times> pb_reader) result" where
  "pb_varint f = (\<lambda>(p, bs). case get_varint 10 bs of None \<Rightarrow> Inl pb_eof
     | Some (n, l) \<Rightarrow> Inr (f n, (p + l, drop l bs)))"

definition signed_of :: "nat \<Rightarrow> nat \<Rightarrow> int" where
  "signed_of k n = (let m = int n mod 2 ^ k in if m < 2 ^ (k - 1) then m else m - 2 ^ k)"

definition pb_read_bytes :: "pb_reader \<Rightarrow> (js_error, byte list \<times> pb_reader) result" where
  "pb_read_bytes r = (case pb_varint (\<lambda>n. n mod 2 ^ 32) r of Inl e \<Rightarrow> Inl e | Inr (n, r') \<Rightarrow> pb_take n r')"

fun utf8_decode :: "byte list \<Rightarrow> string" where
  "utf8_decode [] = []"
| "utf8_decode [b] = [char_of (unat b)]"
| "utf8_decode (b # c # bs) =
     (if unat b < 128 then char_of (unat b) # utf8_decode (c # bs)
      else char_of ((unat b - 192) * 64 + (unat c - 128)) # utf8_decode bs)"

definition pb_read_string :: "pb_reader \<Rightarrow> (js_error, string \<times> pb_reader) result" where
  "pb_read_string r = (case pb_read_bytes r of Inl e \<Rightarrow> Inl e | Inr (bs, r') \<Rightarrow> Inr (utf8_decode bs, r'))"

fun of_le :: "byte list \<Rightarrow> nat" where
  "of_le [] = 0"
| "of_le (b # bs) = unat b + 256 * of_le bs"

definition pb_read_double :: "pb_reader \<Rightarrow> (js_error, double \<times> pb_reader) result" where
  "pb_read_double r = (case pb_take 8 r of Inl e \<Rightarrow> Inl e | Inr (bs, r') \<Rightarrow> Inr (of_nat (of_le bs), r'))"

definition pb_skip :: "nat \<Rightarrow> pb_reader \<Rightarrow> (js_error, pb_reader) result" where
  "pb_skip wt r =
     (if wt = 0 then map_sum id snd (pb_varint id r)
      else if wt = 1 then map_sum id snd (pb_take 8 r)
      else if wt = 2 then map_sum id snd (pb_read_bytes r)
      else if wt = 5 then map_sum id snd (pb_take 4 r)
      else Inl (LibError ''cant skip wire type''))"

definition pb_wire :: "(byte list list, pb_reader) wire" where
  "pb_wire = \<lparr>w_new = [[]], w_finish = (\<lambda>s. case s of [] \<Rightarrow> [] | b # _ \<Rightarrow> b),
     w_fork = (\<lambda>s. [] # s), w_join = pb_join,
     w_uint32 = (\<lambda>n. pb_put (pb_uint32 n)), w_int32 = (\<lambda>n. pb_put (pb_int32 n)),
     w_int64 = (\<lambda>n. pb_put (pb_int64 n)), w_uint64 = (\<lambda>n. pb_put (pb_uint64 n)),
     w_bool = (\<lambda>c. pb_put (pb_bool c)), w_double = (\<lambda>d. pb_put (pb_double d)),
     w_string = (\<lambda>u. pb_put (pb_string u)),
     w_bytes = (\<lambda>x. pb_put (pb_bytes x)),
     r_new = (\<lambda>bs. (0, bs)), r_pos = fst, r_len = (\<lambda>(p, bs). p + length bs),
     r_uint32 = pb_varint (\<lambda>n. n mod 2 ^ 32), r_int32 = pb_varint (signed_of 32),
     r_int64 = pb_varint (signed_of 64), r_uint64 = pb_varint (\<lambda>n. int (n mod 2 ^ 64)),
     r_bool = pb_varint (\<lambda>n. n \<noteq> 0), r_double = pb_read_double,
     r_string = pb_read_string, r_bytes = pb_read_bytes,
     r_skip = pb_skip\<rparr>"

section \<open>The contract is met\<close>

lemma unat_of_nat_byte: "n < 256 \<Longrightarrow> unat (of_nat n :: byte) = n"
  by (simp add: unat_of_nat)

lemma get_varint_varint:
  "n < 128 ^ k \<Longrightarrow> 0 < k \<Longrightarrow> get_varint k (varint n @ t) = Some (n, length (varint n))"
proof (induction n arbitrary: k rule: varint.induct)
  case (1 n)
  obtain k' where k: "k = Suc k'" using 1 by (cases k) auto
  show ?case
  proof (cases "n < 128")
    case True
    then show ?thesis by (simp add: k varint.simps [of n] unat_of_nat_byte)
  next
    case False
    have "n div 128 < 128 ^ k'" using 1(2) k by (simp add: less_mult_imp_div_less mult.commute)
    moreover from this False have "0 < k'" by (cases k') auto
    ultimately have IH: "get_varint k' (varint (n div 128) @ t) = Some (n div 128, length (varint (n div 128)))"
      using 1(1) False by blast
    have u: "unat (of_nat (n mod 128 + 128) :: byte) = n mod 128 + 128"
      by (rule unat_of_nat_byte) simp
    show ?thesis
      using False IH u by (simp add: k varint.simps [of n] del: of_nat_add)
  qed
qed

lemma get_varint_bounds: "get_varint k bs = Some (n, l) \<Longrightarrow> 0 < l \<and> l \<le> length bs"
  by (induction k bs arbitrary: n l rule: get_varint.induct)
    (fastforce split: if_splits option.splits)+

lemma pb_varint_yields:
  assumes "n < 2 ^ 64" "f n = v"
  shows "yields pb_wire snd (pb_varint f) v (varint n)"
proof -
  have "(2::nat) ^ 64 \<le> 128 ^ 10" by simp
  then have "n < 128 ^ 10" using assms(1) by linarith
  then have "get_varint 10 (varint n @ t) = Some (n, length (varint n))" for t
    by (intro get_varint_varint) simp_all
  then show ?thesis
    using assms(2) by (auto simp: yields_def pb_varint_def pb_wire_def)
qed

lemma pb_take_yields: "yields pb_wire snd (pb_take (length bs)) bs bs"
  by (auto simp: yields_def pb_take_def pb_wire_def)

lemma yieldsD:
  assumes "yields W rem f v bs" "rem r = bs @ t"
  obtains r' where "f r = Inr (v, r')" "rem r' = t" "r_len W r' = r_len W r"
  using assms unfolding yields_def by blast

lemma pb_read_bytes_yields:
  assumes "length bs < 2 ^ 32"
  shows "yields pb_wire snd pb_read_bytes bs (lenpref bs)"
  unfolding yields_def
proof (intro allI impI)
  fix r :: pb_reader and t
  assume r: "snd r = lenpref bs @ t"
  have "yields pb_wire snd (pb_varint (\<lambda>n. n mod 2 ^ 32)) (length bs) (varint (length bs))"
    using assms by (intro pb_varint_yields) simp_all
  from yieldsD [OF this r [unfolded lenpref_def append_assoc]] obtain r1 where
    r1: "pb_varint (\<lambda>n. n mod 2 ^ 32) r = Inr (length bs, r1)" "snd r1 = bs @ t"
      "r_len pb_wire r1 = r_len pb_wire r" .
  from pb_take_yields r1(2) obtain r2 where "pb_take (length bs) r1 = Inr (bs, r2)" "snd r2 = t"
      "r_len pb_wire r2 = r_len pb_wire r1"
    by (rule yieldsD)
  then show "\<exists>r'. pb_read_bytes r = Inr (bs, r') \<and> snd r' = t \<and> r_len pb_wire r' = r_len pb_wire r"
    using r1 by (simp add: pb_read_bytes_def)
qed

lemma of_le_le_bytes: "n < 256 ^ k \<Longrightarrow> of_le (le_bytes k n) = n"
proof (induction k arbitrary: n)
  case (Suc k)
  then have "n div 256 < 256 ^ k" by (simp add: less_mult_imp_div_less mult.commute)
  then show ?case using Suc.IH by (simp add: unat_of_nat_byte del: of_nat_mod)
qed simp

lemma length_le_bytes [simp]: "length (le_bytes k n) = k"
  by (induction k arbitrary: n) simp_all

lemma pb_read_double_yields: "pb_double d = Some bs \<Longrightarrow> yields pb_wire snd pb_read_double d bs"
  unfolding yields_def
proof (intro allI impI)
  fix r :: pb_reader and t
  assume d: "pb_double d = Some bs" and r: "snd r = bs @ t"
  have len: "length bs = 8" and bs: "of_le bs = unat d"
    using d of_le_le_bytes [of "unat d" 8] unsigned_less [of d, where ?'a = nat] by (auto simp: pb_double_def)
  from pb_take_yields r obtain r' where "pb_take (length bs) r = Inr (bs, r')" "snd r' = t"
      "r_len pb_wire r' = r_len pb_wire r"
    by (rule yieldsD)
  then show "\<exists>r'. pb_read_double r = Inr (d, r') \<and> snd r' = t \<and> r_len pb_wire r' = r_len pb_wire r"
    by (simp add: pb_read_double_def len bs)
qed

lemma utf8_decode_char: "utf8_decode (utf8_char c @ bs) = c # utf8_decode bs"
proof (cases "(of_char c :: nat) < 128")
  case True
  then show ?thesis
    by (cases bs) (simp_all add: utf8_char_def unat_of_nat_byte)
next
  case False
  have c: "(of_char c :: nat) < 256" using nat_of_char_less_256 [of c] by simp
  then have "(192 + of_char c div 64 :: nat) < 256" "(128 + of_char c mod 64 :: nat) < 256" by linarith+
  then have "unat (of_nat (192 + of_char c div 64) :: byte) = 192 + of_char c div 64"
    "unat (of_nat (128 + of_char c mod 64) :: byte) = 128 + of_char c mod 64"
    by (simp_all only: unat_of_nat_byte)
  moreover have "(of_char c div 64) * 64 + of_char c mod 64 = (of_char c :: nat)" by simp
  ultimately show ?thesis
    using False by (simp add: utf8_char_def Let_def del: of_nat_add)
qed

lemma utf8_decode_utf8: "utf8_decode (utf8 s) = s"
  by (induction s) (simp_all add: utf8_def utf8_decode_char)

lemma signed_of_id: "0 < k \<Longrightarrow> - (2 ^ (k - 1)) \<le> n \<Longrightarrow> n < 2 ^ (k - 1) \<Longrightarrow>
    signed_of k (nat (n mod 2 ^ (k + j))) = n"
proof -
  assume k: "0 < k" and lo: "- (2 ^ (k - 1)) \<le> n" and hi: "n < 2 ^ (k - 1)"
  have p: "(2::int) ^ k = 2 * 2 ^ (k - 1)" using k by (cases k) simp_all
  have "n mod 2 ^ (k + j) mod 2 ^ k = n mod 2 ^ k" by (simp add: mod_mod_cancel le_imp_power_dvd)
  moreover have "n mod 2 ^ k = (if 0 \<le> n then n else n + 2 ^ k)"
  proof (cases "0 \<le> n")
    case True
    then show ?thesis using hi p by simp
  next
    case False
    have "n mod 2 ^ k = (n + 2 ^ k) mod 2 ^ k" by simp
    also have "\<dots> = n + 2 ^ k" using False lo hi p by (intro mod_pos_pos_trivial) simp_all
    finally show ?thesis using False by simp
  qed
  ultimately show ?thesis using lo hi p by (auto simp: signed_of_def Let_def)
qed

lemma pb_varint_advances: "advances pb_wire (pb_varint f)"
  by (auto simp: advances_def pb_varint_def pb_wire_def split: option.splits dest: get_varint_bounds)

lemma pb_take_advances: "advances pb_wire (pb_take n)"
  by (auto simp: advances_def pb_take_def pb_wire_def split: if_splits)

lemma pb_read_double_advances: "advances pb_wire pb_read_double"
  unfolding advances_def
proof (intro allI impI)
  fix r r' :: pb_reader and v
  assume "pb_read_double r = Inr (v, r')"
  then obtain bs where "pb_take 8 r = Inr (bs, r')"
    by (auto simp: pb_read_double_def split: sum.splits)
  from advancesD [OF pb_take_advances this]
  show "r_pos pb_wire r \<le> r_pos pb_wire r' \<and> r_pos pb_wire r' \<le> r_len pb_wire r' \<and>
      r_len pb_wire r' = r_len pb_wire r" by simp
qed

lemma pb_read_bytes_advances: "advances pb_wire pb_read_bytes"
  unfolding advances_def
proof (intro allI impI)
  fix r r' :: pb_reader and v
  assume "pb_read_bytes r = Inr (v, r')"
  then obtain n r1 where "pb_varint (\<lambda>n. n mod 2 ^ 32) r = Inr (n, r1)" "pb_take n r1 = Inr (v, r')"
    by (auto simp: pb_read_bytes_def split: sum.splits)
  with advancesD [OF pb_varint_advances, of _ r n r1] advancesD [OF pb_take_advances, of n r1 v r']
  show "r_pos pb_wire r \<le> r_pos pb_wire r' \<and> r_pos pb_wire r' \<le> r_len pb_wire r' \<and>
      r_len pb_wire r' = r_len pb_wire r"
    by fastforce
qed

lemma pb_put_appends: "appends id (pb_put x) x"
  by (auto simp: appends_def split: option.splits)

lemma pb_read_string_yields:
  assumes "pb_string u = Some bs"
  shows "yields pb_wire snd pb_read_string u bs"
  unfolding yields_def
proof (intro allI impI)
  fix r :: pb_reader and t
  assume r: "snd r = bs @ t"
  have "length (utf8 u) < 2 ^ 32" "bs = lenpref (utf8 u)"
    using assms by (auto simp: pb_string_def pb_bytes_def split: if_splits)
  with pb_read_bytes_yields r obtain r' where
    "pb_read_bytes r = Inr (utf8 u, r')" "snd r' = t" "r_len pb_wire r' = r_len pb_wire r"
    by (metis yieldsD)
  then show "\<exists>r'. pb_read_string r = Inr (u, r') \<and> snd r' = t \<and> r_len pb_wire r' = r_len pb_wire r"
    by (simp add: pb_read_string_def utf8_decode_utf8)
qed

lemma pb_read_string_advances: "advances pb_wire pb_read_string"
  unfolding advances_def
proof (intro allI impI)
  fix r r' :: pb_reader and v
  assume "pb_read_string r = Inr (v, r')"
  then obtain bs where "pb_read_bytes r = Inr (bs, r')"
    by (auto simp: pb_read_string_def split: sum.splits)
  from advancesD [OF pb_read_bytes_advances this]
  show "r_pos pb_wire r \<le> r_pos pb_wire r' \<and> r_pos pb_wire r' \<le> r_len pb_wire r' \<and>
      r_len pb_wire r' = r_len pb_wire r" by simp
qed

lemma map_sum_yields:
  assumes "yields pb_wire snd f x bs" "snd r = bs @ t"
  shows "\<exists>r'. map_sum id snd (f r) = Inr r' \<and> snd r' = t \<and> r_len pb_wire r' = r_len pb_wire r"
  by (rule yieldsD [OF assms]) simp

lemma pb_skip_payload:
  assumes "pb_payload wt bs" "snd r = bs @ t"
  shows "\<exists>r'. pb_skip wt r = Inr r' \<and> snd r' = t \<and> r_len pb_wire r' = r_len pb_wire r"
proof -
  consider (var) n where "wt = 0" "n < 2 ^ 64" "bs = varint n" | (fix64) "wt = 1" "length bs = 8"
    | (len) c where "wt = 2" "length c < 2 ^ 32" "bs = lenpref c" | (fix32) "wt = 5" "length bs = 4"
    using assms(1) by (auto simp: pb_payload_def)
  then show ?thesis
  proof cases
    case var
    have "yields pb_wire snd (pb_varint id) n bs"
      using pb_varint_yields [OF var(2), of id n] var(3) by simp
    from map_sum_yields [OF this assms(2)] show ?thesis using var(1) by (simp add: pb_skip_def)
  next
    case fix64
    from map_sum_yields [OF pb_take_yields assms(2)] fix64 show ?thesis by (simp add: pb_skip_def)
  next
    case len
    from map_sum_yields [OF pb_read_bytes_yields [OF len(2)]] assms(2) len(1,3) show ?thesis
      by (simp add: pb_skip_def)
  next
    case fix32
    from map_sum_yields [OF pb_take_yields assms(2)] fix32 show ?thesis by (simp add: pb_skip_def)
  qed
qed

lemma map_sum_advances:
  assumes "advances pb_wire f" "map_sum id snd (f r) = Inr r'"
  shows "r_pos pb_wire r \<le> r_pos pb_wire r' \<and> r_pos pb_wire r' \<le> r_len pb_wire r' \<and>
    r_len pb_wire r' = r_len pb_wire r"
proof -
  obtain v where "f r = Inr (v, r')" using assms(2) by (cases "f r") auto
  from advancesD [OF assms(1) this] show ?thesis by simp
qed

lemma pb_skip_advances:
  assumes "pb_skip wt r = Inr r'"
  shows "r_pos pb_wire r \<le> r_pos pb_wire r' \<and> r_pos pb_wire r' \<le> r_len pb_wire r' \<and>
    r_len pb_wire r' = r_len pb_wire r"
proof -
  consider "map_sum id snd (pb_varint id r) = Inr r'" | "map_sum id snd (pb_take 8 r) = Inr r'"
    | "map_sum id snd (pb_read_bytes r) = Inr r'" | "map_sum id snd (pb_take 4 r) = Inr r'"
    using assms by (auto simp: pb_skip_def split: if_splits)
  then show ?thesis
    by cases (rule map_sum_advances, rule pb_varint_advances pb_take_advances pb_read_bytes_advances, assumption)+
qed

lemma pb_wire_yields:
  "pb_uint32 n = Some bs \<Longrightarrow> yields pb_wire snd (pb_varint (\<lambda>n. n mod 2 ^ 32)) (nat n) bs"
  "pb_int32 n = Some bs \<Longrightarrow> yields pb_wire snd (pb_varint (signed_of 32)) n bs"
  "pb_int64 n = Some bs \<Longrightarrow> yields pb_wire snd (pb_varint (signed_of 64)) n bs"
  "pb_uint64 n = Some bs \<Longrightarrow> yields pb_wire snd (pb_varint (\<lambda>n. int (n mod 2 ^ 64))) n bs"
  "pb_bool c = Some bs \<Longrightarrow> yields pb_wire snd (pb_varint (\<lambda>n. n \<noteq> 0)) c bs"
proof -
  have u64: "nat (n mod 2 ^ 64) < 2 ^ 64" for n :: int
    by (simp add: nat_less_iff)
  show "yields pb_wire snd (pb_varint (\<lambda>n. n mod 2 ^ 32)) (nat n) bs" if "pb_uint32 n = Some bs"
  proof -
    have n: "0 \<le> n" "n < 2 ^ 32" "bs = varint (nat n)"
      using that by (auto simp: pb_uint32_def split: if_splits)
    have "nat n < 2 ^ 32" using n(1,2) by (simp add: nat_less_iff)
    then show ?thesis unfolding n(3) by (intro pb_varint_yields) simp_all
  qed
  show "yields pb_wire snd (pb_varint (signed_of 32)) n bs" if "pb_int32 n = Some bs"
  proof -
    have n: "- (2 ^ 31) \<le> n" "n < 2 ^ 31" "bs = varint (nat (n mod 2 ^ 64))"
      using that by (auto simp: pb_int32_def split: if_splits)
    have "signed_of 32 (nat (n mod 2 ^ 64)) = n"
      using signed_of_id [of 32 n 32] n(1,2) by simp
    then show ?thesis unfolding n(3) by (intro pb_varint_yields u64)
  qed
  show "yields pb_wire snd (pb_varint (signed_of 64)) n bs" if "pb_int64 n = Some bs"
  proof -
    have n: "- (2 ^ 63) \<le> n" "n < 2 ^ 63" "bs = varint (nat (n mod 2 ^ 64))"
      using that by (auto simp: pb_int64_def split: if_splits)
    have "signed_of 64 (nat (n mod 2 ^ 64)) = n"
      using signed_of_id [of 64 n 0] n(1,2) by simp
    then show ?thesis unfolding n(3) by (intro pb_varint_yields u64)
  qed
  show "yields pb_wire snd (pb_varint (\<lambda>n. int (n mod 2 ^ 64))) n bs" if "pb_uint64 n = Some bs"
  proof -
    have n: "0 \<le> n" "n < 2 ^ 64" "bs = varint (nat n)"
      using that by (auto simp: pb_uint64_def split: if_splits)
    have "nat n < 2 ^ 64" using n(1,2) by (simp add: nat_less_iff)
    then show ?thesis unfolding n(3) using n(1) by (intro pb_varint_yields) simp_all
  qed
  show "yields pb_wire snd (pb_varint (\<lambda>n. n \<noteq> 0)) c bs" if "pb_bool c = Some bs"
  proof -
    have bs: "bs = varint (if c then 1 else 0)"
      using that by (auto simp: pb_bool_def varint.simps)
    show ?thesis unfolding bs by (intro pb_varint_yields) simp_all
  qed
qed

lemma pb_varint_progress: "pb_varint f r = Inr (v, r') \<Longrightarrow> fst r < fst r'"
  by (auto simp: pb_varint_def split: option.splits prod.splits dest: get_varint_bounds)

interpretation pb: wire_format pb_wire id snd
proof unfold_locales
  fix bs n show "pb_uint32 n = Some bs \<Longrightarrow> yields pb_wire snd (r_uint32 pb_wire) (nat n) bs"
    using pb_wire_yields(1) [of n bs] by (simp add: pb_wire_def)
next
  fix bs n show "pb_int32 n = Some bs \<Longrightarrow> yields pb_wire snd (r_int32 pb_wire) n bs"
    using pb_wire_yields(2) [of n bs] by (simp add: pb_wire_def)
next
  fix bs n show "pb_int64 n = Some bs \<Longrightarrow> yields pb_wire snd (r_int64 pb_wire) n bs"
    using pb_wire_yields(3) [of n bs] by (simp add: pb_wire_def)
next
  fix bs n show "pb_uint64 n = Some bs \<Longrightarrow> yields pb_wire snd (r_uint64 pb_wire) n bs"
    using pb_wire_yields(4) [of n bs] by (simp add: pb_wire_def)
next
  fix bs c show "pb_bool c = Some bs \<Longrightarrow> yields pb_wire snd (r_bool pb_wire) c bs"
    using pb_wire_yields(5) [of c bs] by (simp add: pb_wire_def)
next
  fix bs d show "pb_double d = Some bs \<Longrightarrow> yields pb_wire snd (r_double pb_wire) d bs"
    using pb_read_double_yields [of d bs] by (simp add: pb_wire_def)
next
  fix bs u show "pb_string u = Some bs \<Longrightarrow> yields pb_wire snd (r_string pb_wire) u bs"
    using pb_read_string_yields [of u bs] by (simp add: pb_wire_def)
next
  fix bs x assume "pb_bytes x = Some bs"
  then show "yields pb_wire snd (r_bytes pb_wire) x bs"
    using pb_read_bytes_yields [of x] by (auto simp: pb_wire_def pb_bytes_def split: if_splits)
next
  fix wt bs and r :: pb_reader and t assume "pb_payload wt bs" "snd r = bs @ t"
  then show "\<exists>r'. r_skip pb_wire wt r = Inr r' \<and> snd r' = t \<and> r_len pb_wire r' = r_len pb_wire r"
    using pb_skip_payload [of wt bs r t] by (simp add: pb_wire_def)
next
  fix wt and r r' :: pb_reader assume "r_skip pb_wire wt r = Inr r'"
  then show "r_pos pb_wire r \<le> r_pos pb_wire r' \<and> r_pos pb_wire r' \<le> r_len pb_wire r' \<and>
      r_len pb_wire r' = r_len pb_wire r"
    using pb_skip_advances [of wt r r'] by (simp add: pb_wire_def)
next
  fix v and r r' :: pb_reader assume "r_uint32 pb_wire r = Inr (v, r')"
  then show "r_pos pb_wire r < r_pos pb_wire r'"
    using pb_varint_progress [of _ r v r'] by (simp add: pb_wire_def)
qed (use pb_varint_advances pb_read_string_advances pb_read_bytes_advances pb_read_double_advances
      pb_put_appends in
      \<open>auto simp: pb_wire_def\<close>)

end
