(* ===== verification/Gen_Google.thy ===== *)
theory Gen_Google
  imports Wire_Instance
begin

text \<open>
  Messages of \<open>sdk/node/src/gen/google/protobuf/timestamp.ts\<close>, \<open>sdk/node/src/gen/google/protobuf/duration.ts\<close>: the well-known types \<open>Timestamp\<close> and \<open>Duration\<close> and the conversions between \<open>Timestamp\<close> and \<open>Date\<close>.
  For every message: its interface as a record (or a datatype without fields), \<open>createBase\<close>,
  \<open>encode\<close> as the sequence of its writer calls, and \<open>decode\<close> as the cases of its
  switch; a union field is a datatype with one constructor per \<open>$case\<close>.  \<open>_ok\<close> holds of
  the values a TypeScript program can build: objects built by assignment and dates in range.
  Then the round trip of the message and the totality of its decoder.
\<close>

subsection \<open>Timestamp\<close>

record Timestamp =
  Timestamp_seconds :: int
  Timestamp_nanos :: int

definition createBaseTimestamp :: Timestamp where
  "createBaseTimestamp = \<lparr>Timestamp_seconds = 0,
     Timestamp_nanos = 0\<rparr>"

definition Timestamp_encode :: "('w, 'r) wire \<Rightarrow> Timestamp \<Rightarrow> 'w writer" where
  "Timestamp_encode W m = w_seq [
     w_if (Timestamp_seconds m \<noteq> 0) [w_check (asIntN64 (Timestamp_seconds m) = Timestamp_seconds m) (too_large ''message.seconds'' ''int64''),
         w_uint32 W 8, w_int64 W (Timestamp_seconds m)],
     w_if (Timestamp_nanos m \<noteq> 0) [w_uint32 W 16, w_int32 W (Timestamp_nanos m)]]"

definition Timestamp_cases :: "('w, 'r) wire \<Rightarrow> ('r, Timestamp) cases" where
  "Timestamp_cases W = [
     (1, 8, d_val (r_int64 W) (\<lambda>v m. m\<lparr>Timestamp_seconds := v\<rparr>)),
     (2, 16, d_val (r_int32 W) (\<lambda>v m. m\<lparr>Timestamp_nanos := v\<rparr>))]"

definition Timestamp_decode :: "('w, 'r) wire \<Rightarrow> ('r, Timestamp) decoder" where
  "Timestamp_decode W = d_message W (Timestamp_cases W) createBaseTimestamp"

lemmas Timestamp_defs = Timestamp_cases_def createBaseTimestamp_def

context wire_lib
begin

lemma Timestamp_codec:
  "codec W stk rem 0 (Timestamp_encode W) (Timestamp_cases W) createBaseTimestamp m"
  by (rule codecI [OF Timestamp_encode_def],
      rule field_int64 [where upd = Timestamp_seconds_update], simp add: Timestamp_defs, simp add: Timestamp_defs,
      rule field_int32 [where upd = Timestamp_nanos_update], simp add: Timestamp_defs, simp add: Timestamp_defs,
      rule matched_Nil, cases m, simp add: Timestamp_defs)

lemma Timestamp_rt: "1 \<le> d \<Longrightarrow> codec_rt W stk rem d (Timestamp_encode W) (Timestamp_decode W) m"
  unfolding Timestamp_decode_def
  by (rule codec_rt_mono [OF codec_rt_of_codec [OF Timestamp_codec]]) simp_all

end

context wire_reader
begin

lemma Timestamp_total [total_rules]: "dec_total W (Timestamp_decode W)"
  unfolding Timestamp_decode_def Timestamp_cases_def by (intro total_rules)

end

subsection \<open>Dates\<close>

text \<open>
  \<open>toTimestamp\<close> and \<open>fromTimestamp\<close>, emitted into every generated file that has a date field.
  \<open>BigInt(NaN)\<close> of an invalid date throws.  The sums and quotients of \<open>fromTimestamp\<close> are double
  operations.
\<close>

definition toTimestamp :: "js_date \<Rightarrow> (js_error, Timestamp) result" where
  "toTimestamp date = (case date of
       InvalidDate \<Rightarrow> Inl (JsRangeError ''The number NaN cannot be converted to a BigInt because it is not an integer'')
     | ValidDate ms \<Rightarrow> Inr \<lparr>Timestamp_seconds = trunc (fl (of_int ms / 1000)),
         Timestamp_nanos = rem_int ms 1000 * 1000000\<rparr>)"

definition fromTimestamp :: "Timestamp \<Rightarrow> js_date" where
  "fromTimestamp t =
     (let millis = fl (fl (of_int (Timestamp_seconds t)) * 1000);
          millis' = fl (millis + fl (of_int (Timestamp_nanos t) / 1000000))
      in date_of millis')"

lemma fl_of_int_mult_add:
  assumes "\<bar>a\<bar> \<le> 2 ^ 53" "\<bar>a * b\<bar> \<le> 2 ^ 53" "\<bar>c\<bar> \<le> 2 ^ 53" "\<bar>a * b + c\<bar> \<le> 2 ^ 53"
  shows "fl (fl (fl (of_int a) * of_int b) + fl (of_int c)) = of_int (a * b + c)"
proof -
  have "fl (of_int a) = of_int a" "fl (of_int (a * b)) = of_int (a * b)"
    "fl (of_int c) = of_int c" "fl (of_int (a * b + c)) = of_int (a * b + c)"
    using assms by (simp_all only: fl_of_int)
  then show ?thesis by simp
qed

lemma fromTimestamp_toTimestamp:
  assumes "js_date_ok date" "toTimestamp date = Inr t"
  shows "fromTimestamp t = date"
proof (cases date)
  case InvalidDate
  then show ?thesis using assms(2) by (simp add: toTimestamp_def)
next
  case (ValidDate ms)
  define s r where "s = quot_int ms 1000" and "r = rem_int ms 1000"
  have ms: "\<bar>ms\<bar> \<le> max_time" using assms(1) ValidDate by simp
  then have "trunc (fl (of_int ms / 1000)) = s"
    unfolding s_def by (intro trunc_fl_div) (simp add: max_time_def)
  then have t: "t = \<lparr>Timestamp_seconds = s, Timestamp_nanos = r * 1000000\<rparr>"
    using assms(2) ValidDate by (simp add: toTimestamp_def r_def)
  have sr: "s * 1000 + r = ms" "\<bar>r\<bar> < 1000"
    unfolding s_def r_def by (simp_all add: quot_rem_int rem_int_bounds)
  have "\<bar>s * 1000\<bar> \<le> max_time + 1000" "\<bar>s\<bar> \<le> max_time + 1000" using ms sr by linarith+
  then have bounds: "\<bar>s\<bar> \<le> 2 ^ 53" "\<bar>s * 1000\<bar> \<le> 2 ^ 53" "\<bar>r\<bar> \<le> 2 ^ 53" "\<bar>s * 1000 + r\<bar> \<le> 2 ^ 53"
    using ms sr by (simp_all add: max_time_def)
  have "fl (fl (fl (of_int s) * 1000) + fl (of_int r)) = of_int ms"
    using fl_of_int_mult_add [OF bounds] by (simp add: sr(1))
  then have "fromTimestamp t = date_of (of_int ms)"
    by (simp add: fromTimestamp_def t Let_def)
  also have "\<dots> = ValidDate ms"
    using ms by (simp add: date_of_def flip: of_int_abs)
  finally show ?thesis by (simp add: ValidDate)
qed

context wire_lib
begin

lemma date_rt:
  "1 \<le> d \<Longrightarrow> js_date_ok v \<Longrightarrow> toTimestamp v = Inr y \<Longrightarrow>
   codec_rt W stk rem d (Timestamp_encode W) (Timestamp_decode W) y \<and> fromTimestamp y = v"
  by (simp add: Timestamp_rt fromTimestamp_toTimestamp)

end

subsection \<open>Duration\<close>

record Duration =
  Duration_seconds :: int
  Duration_nanos :: int

definition createBaseDuration :: Duration where
  "createBaseDuration = \<lparr>Duration_seconds = 0,
     Duration_nanos = 0\<rparr>"

definition Duration_encode :: "('w, 'r) wire \<Rightarrow> Duration \<Rightarrow> 'w writer" where
  "Duration_encode W m = w_seq [
     w_if (Duration_seconds m \<noteq> 0) [w_check (asIntN64 (Duration_seconds m) = Duration_seconds m) (too_large ''message.seconds'' ''int64''),
         w_uint32 W 8, w_int64 W (Duration_seconds m)],
     w_if (Duration_nanos m \<noteq> 0) [w_uint32 W 16, w_int32 W (Duration_nanos m)]]"

definition Duration_cases :: "('w, 'r) wire \<Rightarrow> ('r, Duration) cases" where
  "Duration_cases W = [
     (1, 8, d_val (r_int64 W) (\<lambda>v m. m\<lparr>Duration_seconds := v\<rparr>)),
     (2, 16, d_val (r_int32 W) (\<lambda>v m. m\<lparr>Duration_nanos := v\<rparr>))]"

definition Duration_decode :: "('w, 'r) wire \<Rightarrow> ('r, Duration) decoder" where
  "Duration_decode W = d_message W (Duration_cases W) createBaseDuration"

lemmas Duration_defs = Duration_cases_def createBaseDuration_def

context wire_lib
begin

lemma Duration_codec:
  "codec W stk rem 0 (Duration_encode W) (Duration_cases W) createBaseDuration m"
  by (rule codecI [OF Duration_encode_def],
      rule field_int64 [where upd = Duration_seconds_update], simp add: Duration_defs, simp add: Duration_defs,
      rule field_int32 [where upd = Duration_nanos_update], simp add: Duration_defs, simp add: Duration_defs,
      rule matched_Nil, cases m, simp add: Duration_defs)

lemma Duration_rt: "1 \<le> d \<Longrightarrow> codec_rt W stk rem d (Duration_encode W) (Duration_decode W) m"
  unfolding Duration_decode_def
  by (rule codec_rt_mono [OF codec_rt_of_codec [OF Duration_codec]]) simp_all

end

context wire_reader
begin

lemma Duration_total [total_rules]: "dec_total W (Duration_decode W)"
  unfolding Duration_decode_def Duration_cases_def by (intro total_rules)

end

end
