(* ===== verification/Gen_Common.thy ===== *)
theory Gen_Common
  imports Gen_Google
begin

text \<open>
  Messages of \<open>sdk/node/src/gen/meta/v1/common.ts\<close>: the messages shared by all services.
  For every message: its interface as a record (or a datatype without fields), \<open>createBase\<close>,
  \<open>encode\<close> as the sequence of its writer calls, and \<open>decode\<close> as the cases of its
  switch; a union field is a datatype with one constructor per \<open>$case\<close>.  \<open>_ok\<close> holds of
  the values a TypeScript program can build: objects built by assignment and dates in range.
  Then the round trip of the message and the totality of its decoder.
\<close>

subsection \<open>ProtocolVersion\<close>

record ProtocolVersion =
  ProtocolVersion_major :: int
  ProtocolVersion_minor :: int

definition createBaseProtocolVersion :: ProtocolVersion where
  "createBaseProtocolVersion = \<lparr>ProtocolVersion_major = 0,
     ProtocolVersion_minor = 0\<rparr>"

definition ProtocolVersion_encode :: "('w, 'r) wire \<Rightarrow> ProtocolVersion \<Rightarrow> 'w writer" where
  "ProtocolVersion_encode W m = w_seq [
     w_if (ProtocolVersion_major m \<noteq> 0) [w_uint32 W 8, w_uint32 W (ProtocolVersion_major m)],
     w_if (ProtocolVersion_minor m \<noteq> 0) [w_uint32 W 16, w_uint32 W (ProtocolVersion_minor m)]]"

definition ProtocolVersion_cases :: "('w, 'r) wire \<Rightarrow> ('r, ProtocolVersion) cases" where
  "ProtocolVersion_cases W = [
     (1, 8, d_val (r_uint32 W) (\<lambda>v m. m\<lparr>ProtocolVersion_major := int v\<rparr>)),
     (2, 16, d_val (r_uint32 W) (\<lambda>v m. m\<lparr>ProtocolVersion_minor := int v\<rparr>))]"

definition ProtocolVersion_decode :: "('w, 'r) wire \<Rightarrow> ('r, ProtocolVersion) decoder" where
  "ProtocolVersion_decode W = d_message W (ProtocolVersion_cases W) createBaseProtocolVersion"

lemmas ProtocolVersion_defs = ProtocolVersion_cases_def createBaseProtocolVersion_def

context wire_lib
begin

lemma ProtocolVersion_codec:
  "codec W stk rem 0 (ProtocolVersion_encode W) (ProtocolVersion_cases W) createBaseProtocolVersion m"
  by (rule codecI [OF ProtocolVersion_encode_def],
      rule field_uint32 [where upd = ProtocolVersion_major_update], simp add: ProtocolVersion_defs, simp add: ProtocolVersion_defs,
      rule field_uint32 [where upd = ProtocolVersion_minor_update], simp add: ProtocolVersion_defs, simp add: ProtocolVersion_defs,
      rule matched_Nil, cases m, simp add: ProtocolVersion_defs)

lemma ProtocolVersion_rt: "1 \<le> d \<Longrightarrow> codec_rt W stk rem d (ProtocolVersion_encode W) (ProtocolVersion_decode W) m"
  unfolding ProtocolVersion_decode_def
  by (rule codec_rt_mono [OF codec_rt_of_codec [OF ProtocolVersion_codec]]) simp_all

end

context wire_reader
begin

lemma ProtocolVersion_total [total_rules]: "dec_total W (ProtocolVersion_decode W)"
  unfolding ProtocolVersion_decode_def ProtocolVersion_cases_def by (intro total_rules)

end

subsection \<open>BuildInfo\<close>

record BuildInfo =
  BuildInfo_version :: string
  BuildInfo_commit :: string
  BuildInfo_goVersion :: string
  BuildInfo_os :: string
  BuildInfo_arch :: string

definition createBaseBuildInfo :: BuildInfo where
  "createBaseBuildInfo = \<lparr>BuildInfo_version = '''',
     BuildInfo_commit = '''',
     BuildInfo_goVersion = '''',
     BuildInfo_os = '''',
     BuildInfo_arch = ''''\<rparr>"

definition BuildInfo_encode :: "('w, 'r) wire \<Rightarrow> BuildInfo \<Rightarrow> 'w writer" where
  "BuildInfo_encode W m = w_seq [
     w_if (BuildInfo_version m \<noteq> '''') [w_uint32 W 10, w_string W (BuildInfo_version m)],
     w_if (BuildInfo_commit m \<noteq> '''') [w_uint32 W 18, w_string W (BuildInfo_commit m)],
     w_if (BuildInfo_goVersion m \<noteq> '''') [w_uint32 W 26, w_string W (BuildInfo_goVersion m)],
     w_if (BuildInfo_os m \<noteq> '''') [w_uint32 W 34, w_string W (BuildInfo_os m)],
     w_if (BuildInfo_arch m \<noteq> '''') [w_uint32 W 42, w_string W (BuildInfo_arch m)]]"

definition BuildInfo_cases :: "('w, 'r) wire \<Rightarrow> ('r, BuildInfo) cases" where
  "BuildInfo_cases W = [
     (1, 10, d_val (r_string W) (\<lambda>v m. m\<lparr>BuildInfo_version := v\<rparr>)),
     (2, 18, d_val (r_string W) (\<lambda>v m. m\<lparr>BuildInfo_commit := v\<rparr>)),
     (3, 26, d_val (r_string W) (\<lambda>v m. m\<lparr>BuildInfo_goVersion := v\<rparr>)),
     (4, 34, d_val (r_string W) (\<lambda>v m. m\<lparr>BuildInfo_os := v\<rparr>)),
     (5, 42, d_val (r_string W) (\<lambda>v m. m\<lparr>BuildInfo_arch := v\<rparr>))]"

definition BuildInfo_decode :: "('w, 'r) wire \<Rightarrow> ('r, BuildInfo) decoder" where
  "BuildInfo_decode W = d_message W (BuildInfo_cases W) createBaseBuildInfo"

lemmas BuildInfo_defs = BuildInfo_cases_def createBaseBuildInfo_def

context wire_lib
begin

lemma BuildInfo_codec:
  "codec W stk rem 0 (BuildInfo_encode W) (BuildInfo_cases W) createBaseBuildInfo m"
  by (rule codecI [OF BuildInfo_encode_def],
      rule field_string [where upd = BuildInfo_version_update], simp add: BuildInfo_defs, simp add: BuildInfo_defs,
      rule field_string [where upd = BuildInfo_commit_update], simp add: BuildInfo_defs, simp add: BuildInfo_defs,
      rule field_string [where upd = BuildInfo_goVersion_update], simp add: BuildInfo_defs, simp add: BuildInfo_defs,
      rule field_string [where upd = BuildInfo_os_update], simp add: BuildInfo_defs, simp add: BuildInfo_defs,
      rule field_string [where upd = BuildInfo_arch_update], simp add: BuildInfo_defs, simp add: BuildInfo_defs,
      rule matched_Nil, cases m, simp add: BuildInfo_defs)

lemma BuildInfo_rt: "1 \<le> d \<Longrightarrow> codec_rt W stk rem d (BuildInfo_encode W) (BuildInfo_decode W) m"
  unfolding BuildInfo_decode_def
  by (rule codec_rt_mono [OF codec_rt_of_codec [OF BuildInfo_codec]]) simp_all

end

context wire_reader
begin

lemma BuildInfo_total [total_rules]: "dec_total W (BuildInfo_decode W)"
  unfolding BuildInfo_decode_def BuildInfo_cases_def by (intro total_rules)

end

subsection \<open>ErrorDetail_DetailsEntry\<close>

record ErrorDetail_DetailsEntry =
  ErrorDetail_DetailsEntry_key :: string
  ErrorDetail_DetailsEntry_value :: string

definition createBaseErrorDetail_DetailsEntry :: ErrorDetail_DetailsEntry where
  "createBaseErrorDetail_DetailsEntry = \<lparr>ErrorDetail_DetailsEntry_key = '''',
     ErrorDetail_DetailsEntry_value = ''''\<rparr>"

definition ErrorDetail_DetailsEntry_encode :: "('w, 'r) wire \<Rightarrow> ErrorDetail_DetailsEntry \<Rightarrow> 'w writer" where
  "ErrorDetail_DetailsEntry_encode W m = w_seq [
     w_if (ErrorDetail_DetailsEntry_key m \<noteq> '''') [w_uint32 W 10, w_string W (ErrorDetail_DetailsEntry_key m)],
     w_if (ErrorDetail_DetailsEntry_value m \<noteq> '''') [w_uint32 W 18, w_string W (ErrorDetail_DetailsEntry_value m)]]"

definition ErrorDetail_DetailsEntry_cases :: "('w, 'r) wire \<Rightarrow> ('r, ErrorDetail_DetailsEntry) cases" where
  "ErrorDetail_DetailsEntry_cases W = [
     (1, 10, d_val (r_string W) (\<lambda>v m. m\<lparr>ErrorDetail_DetailsEntry_key := v\<rparr>)),
     (2, 18, d_val (r_string W) (\<lambda>v m. m\<lparr>ErrorDetail_DetailsEntry_value := v\<rparr>))]"

definition ErrorDetail_DetailsEntry_decode :: "('w, 'r) wire \<Rightarrow> ('r, ErrorDetail_DetailsEntry) decoder" where
  "ErrorDetail_DetailsEntry_decode W = d_message W (ErrorDetail_DetailsEntry_cases W) createBaseErrorDetail_DetailsEntry"

lemmas ErrorDetail_DetailsEntry_defs = ErrorDetail_DetailsEntry_cases_def createBaseErrorDetail_DetailsEntry_def

context wire_lib
begin

lemma ErrorDetail_DetailsEntry_codec:
  "codec W stk rem 0 (ErrorDetail_DetailsEntry_encode W) (ErrorDetail_DetailsEntry_cases W) createBaseErrorDetail_DetailsEntry m"
  by (rule codecI [OF ErrorDetail_DetailsEntry_encode_def],
      rule field_string [where upd = ErrorDetail_DetailsEntry_key_update], simp add: ErrorDetail_DetailsEntry_defs, simp add: ErrorDetail_DetailsEntry_defs,
      rule field_string [where upd = ErrorDetail_DetailsEntry_value_update], simp add: ErrorDetail_DetailsEntry_defs, simp add: ErrorDetail_DetailsEntry_defs,
      rule matched_Nil, cases m, simp add: ErrorDetail_DetailsEntry_defs)

lemma ErrorDetail_DetailsEntry_rt: "1 \<le> d \<Longrightarrow> codec_rt W stk rem d (ErrorDetail_DetailsEntry_encode W) (ErrorDetail_DetailsEntry_decode W) m"
  unfolding ErrorDetail_DetailsEntry_decode_def
  by (rule codec_rt_mono [OF codec_rt_of_codec [OF ErrorDetail_DetailsEntry_codec]]) simp_all

end

context wire_reader
begin

lemma ErrorDetail_DetailsEntry_total [total_rules]: "dec_total W (ErrorDetail_DetailsEntry_decode W)"
  unfolding ErrorDetail_DetailsEntry_decode_def ErrorDetail_DetailsEntry_cases_def by (intro total_rules)

end

subsection \<open>ErrorDetail\<close>

record ErrorDetail =
  ErrorDetail_category :: int
  ErrorDetail_code :: string
  ErrorDetail_message :: string
  ErrorDetail_retryable :: bool
  ErrorDetail_details :: js_object

definition createBaseErrorDetail :: ErrorDetail where
  "createBaseErrorDetail = \<lparr>ErrorDetail_category = 0,
     ErrorDetail_code = '''',
     ErrorDetail_message = '''',
     ErrorDetail_retryable = False,
     ErrorDetail_details = []\<rparr>"

definition ErrorDetail_encode :: "('w, 'r) wire \<Rightarrow> ErrorDetail \<Rightarrow> 'w writer" where
  "ErrorDetail_encode W m = w_seq [
     w_if (ErrorDetail_category m \<noteq> 0) [w_uint32 W 8, w_int32 W (ErrorDetail_category m)],
     w_if (ErrorDetail_code m \<noteq> '''') [w_uint32 W 18, w_string W (ErrorDetail_code m)],
     w_if (ErrorDetail_message m \<noteq> '''') [w_uint32 W 26, w_string W (ErrorDetail_message m)],
     w_if (ErrorDetail_retryable m \<noteq> False) [w_uint32 W 32, w_bool W (ErrorDetail_retryable m)],
     w_for (ErrorDetail_details m) (\<lambda>(key, value). [w_uint32 W 42, w_open W,
         ErrorDetail_DetailsEntry_encode W \<lparr>ErrorDetail_DetailsEntry_key = key, ErrorDetail_DetailsEntry_value = value\<rparr>, w_join W])]"

definition ErrorDetail_cases :: "('w, 'r) wire \<Rightarrow> ('r, ErrorDetail) cases" where
  "ErrorDetail_cases W = [
     (1, 8, d_val (r_int32 W) (\<lambda>v m. m\<lparr>ErrorDetail_category := v\<rparr>)),
     (2, 18, d_val (r_string W) (\<lambda>v m. m\<lparr>ErrorDetail_code := v\<rparr>)),
     (3, 26, d_val (r_string W) (\<lambda>v m. m\<lparr>ErrorDetail_message := v\<rparr>)),
     (4, 32, d_val (r_bool W) (\<lambda>v m. m\<lparr>ErrorDetail_retryable := v\<rparr>)),
     (5, 42, d_msg W (ErrorDetail_DetailsEntry_decode W)
        (\<lambda>e m. m\<lparr>ErrorDetail_details := js_set (ErrorDetail_details m) (ErrorDetail_DetailsEntry_key e) (ErrorDetail_DetailsEntry_value e)\<rparr>))]"

definition ErrorDetail_decode :: "('w, 'r) wire \<Rightarrow> ('r, ErrorDetail) decoder" where
  "ErrorDetail_decode W = d_message W (ErrorDetail_cases W) createBaseErrorDetail"

definition ErrorDetail_ok :: "ErrorDetail \<Rightarrow> bool" where
  "ErrorDetail_ok m \<longleftrightarrow> js_object_ok (ErrorDetail_details m)"

lemmas ErrorDetail_defs = ErrorDetail_cases_def createBaseErrorDetail_def

context wire_lib
begin

lemma ErrorDetail_codec:
  assumes ok: "ErrorDetail_ok m"
  shows "codec W stk rem 1 (ErrorDetail_encode W) (ErrorDetail_cases W) createBaseErrorDetail m"
  by (rule codecI [OF ErrorDetail_encode_def],
      rule field_int32 [where upd = ErrorDetail_category_update], simp add: ErrorDetail_defs, simp add: ErrorDetail_defs,
      rule field_string [where upd = ErrorDetail_code_update], simp add: ErrorDetail_defs, simp add: ErrorDetail_defs,
      rule field_string [where upd = ErrorDetail_message_update], simp add: ErrorDetail_defs, simp add: ErrorDetail_defs,
      rule field_bool [where upd = ErrorDetail_retryable_update], simp add: ErrorDetail_defs, simp add: ErrorDetail_defs,
      rule field_entries [where upd = ErrorDetail_details_update and sel = ErrorDetail_details and key = ErrorDetail_DetailsEntry_key and val = ErrorDetail_DetailsEntry_value],
      rule ErrorDetail_DetailsEntry_rt, simp, simp add: ErrorDetail_defs, simp, simp add: ErrorDetail_defs, simp add: ErrorDetail_defs, (use ok in \<open>fastforce simp: ErrorDetail_ok_def list_all_iff\<close>),
      rule matched_Nil, cases m, simp add: ErrorDetail_defs)

lemma ErrorDetail_rt: "2 \<le> d \<Longrightarrow> ErrorDetail_ok m \<Longrightarrow> codec_rt W stk rem d (ErrorDetail_encode W) (ErrorDetail_decode W) m"
  unfolding ErrorDetail_decode_def
  by (rule codec_rt_mono [OF codec_rt_of_codec [OF ErrorDetail_codec]]) simp_all

end

context wire_reader
begin

lemma ErrorDetail_total [total_rules]: "dec_total W (ErrorDetail_decode W)"
  unfolding ErrorDetail_decode_def ErrorDetail_cases_def by (intro total_rules)

end

subsection \<open>Account\<close>

record Account =
  Account_id :: string
  Account_name :: string
  Account_username :: string

definition createBaseAccount :: Account where
  "createBaseAccount = \<lparr>Account_id = '''',
     Account_name = '''',
     Account_username = ''''\<rparr>"

definition Account_encode :: "('w, 'r) wire \<Rightarrow> Account \<Rightarrow> 'w writer" where
  "Account_encode W m = w_seq [
     w_if (Account_id m \<noteq> '''') [w_uint32 W 10, w_string W (Account_id m)],
     w_if (Account_name m \<noteq> '''') [w_uint32 W 18, w_string W (Account_name m)],
     w_if (Account_username m \<noteq> '''') [w_uint32 W 26, w_string W (Account_username m)]]"

definition Account_cases :: "('w, 'r) wire \<Rightarrow> ('r, Account) cases" where
  "Account_cases W = [
     (1, 10, d_val (r_string W) (\<lambda>v m. m\<lparr>Account_id := v\<rparr>)),
     (2, 18, d_val (r_string W) (\<lambda>v m. m\<lparr>Account_name := v\<rparr>)),
     (3, 26, d_val (r_string W) (\<lambda>v m. m\<lparr>Account_username := v\<rparr>))]"

definition Account_decode :: "('w, 'r) wire \<Rightarrow> ('r, Account) decoder" where
  "Account_decode W = d_message W (Account_cases W) createBaseAccount"

lemmas Account_defs = Account_cases_def createBaseAccount_def

context wire_lib
begin

lemma Account_codec:
  "codec W stk rem 0 (Account_encode W) (Account_cases W) createBaseAccount m"
  by (rule codecI [OF Account_encode_def],
      rule field_string [where upd = Account_id_update], simp add: Account_defs, simp add: Account_defs,
      rule field_string [where upd = Account_name_update], simp add: Account_defs, simp add: Account_defs,
      rule field_string [where upd = Account_username_update], simp add: Account_defs, simp add: Account_defs,
      rule matched_Nil, cases m, simp add: Account_defs)

lemma Account_rt: "1 \<le> d \<Longrightarrow> codec_rt W stk rem d (Account_encode W) (Account_decode W) m"
  unfolding Account_decode_def
  by (rule codec_rt_mono [OF codec_rt_of_codec [OF Account_codec]]) simp_all

end

context wire_reader
begin

lemma Account_total [total_rules]: "dec_total W (Account_decode W)"
  unfolding Account_decode_def Account_cases_def by (intro total_rules)

end

subsection \<open>ReplyReference\<close>

record ReplyReference =
  ReplyReference_messageId :: string
  ReplyReference_senderId :: string

definition createBaseReplyReference :: ReplyReference where
  "createBaseReplyReference = \<lparr>ReplyReference_messageId = '''',
     ReplyReference_senderId = ''''\<rparr>"

definition ReplyReference_encode :: "('w, 'r) wire \<Rightarrow> ReplyReference \<Rightarrow> 'w writer" where
  "ReplyReference_encode W m = w_seq [
     w_if (ReplyReference_messageId m \<noteq> '''') [w_uint32 W 10, w_string W (ReplyReference_messageId m)],
     w_if (ReplyReference_senderId m \<noteq> '''') [w_uint32 W 18, w_string W (ReplyReference_senderId m)]]"

definition ReplyReference_cases :: "('w, 'r) wire \<Rightarrow> ('r, ReplyReference) cases" where
  "ReplyReference_cases W = [
     (1, 10, d_val (r_string W) (\<lambda>v m. m\<lparr>ReplyReference_messageId := v\<rparr>)),
     (2, 18, d_val (r_string W) (\<lambda>v m. m\<lparr>ReplyReference_senderId := v\<rparr>))]"

definition ReplyReference_decode :: "('w, 'r) wire \<Rightarrow> ('r, ReplyReference) decoder" where
  "ReplyReference_decode W = d_message W (ReplyReference_cases W) createBaseReplyReference"

lemmas ReplyReference_defs = ReplyReference_cases_def createBaseReplyReference_def

context wire_lib
begin

lemma ReplyReference_codec:
  "codec W stk rem 0 (ReplyReference_encode W) (ReplyReference_cases W) createBaseReplyReference m"
  by (rule codecI [OF ReplyReference_encode_def],
      rule field_string [where upd = ReplyReference_messageId_update], simp add: ReplyReference_defs, simp add: ReplyReference_defs,
      rule field_string [where upd = ReplyReference_senderId_update], simp add: ReplyReference_defs, simp add: ReplyReference_defs,
      rule matched_Nil, cases m, simp add: ReplyReference_defs)

lemma ReplyReference_rt: "1 \<le> d \<Longrightarrow> codec_rt W stk rem d (ReplyReference_encode W) (ReplyReference_decode W) m"
  unfolding ReplyReference_decode_def
  by (rule codec_rt_mono [OF codec_rt_of_codec [OF ReplyReference_codec]]) simp_all

end

context wire_reader
begin

lemma ReplyReference_total [total_rules]: "dec_total W (ReplyReference_decode W)"
  unfolding ReplyReference_decode_def ReplyReference_cases_def by (intro total_rules)

end

subsection \<open>Mention\<close>

record Mention =
  Mention_userId :: string
  Mention_offset :: int
  Mention_length :: int

definition createBaseMention :: Mention where
  "createBaseMention = \<lparr>Mention_userId = '''',
     Mention_offset = 0,
     Mention_length = 0\<rparr>"

definition Mention_encode :: "('w, 'r) wire \<Rightarrow> Mention \<Rightarrow> 'w writer" where
  "Mention_encode W m = w_seq [
     w_if (Mention_userId m \<noteq> '''') [w_uint32 W 10, w_string W (Mention_userId m)],
     w_if (Mention_offset m \<noteq> 0) [w_uint32 W 16, w_int32 W (Mention_offset m)],
     w_if (Mention_length m \<noteq> 0) [w_uint32 W 24, w_int32 W (Mention_length m)]]"

definition Mention_cases :: "('w, 'r) wire \<Rightarrow> ('r, Mention) cases" where
  "Mention_cases W = [
     (1, 10, d_val (r_string W) (\<lambda>v m. m\<lparr>Mention_userId := v\<rparr>)),
     (2, 16, d_val (r_int32 W) (\<lambda>v m. m\<lparr>Mention_offset := v\<rparr>)),
     (3, 24, d_val (r_int32 W) (\<lambda>v m. m\<lparr>Mention_length := v\<rparr>))]"

definition Mention_decode :: "('w, 'r) wire \<Rightarrow> ('r, Mention) decoder" where
  "Mention_decode W = d_message W (Mention_cases W) createBaseMention"

lemmas Mention_defs = Mention_cases_def createBaseMention_def

context wire_lib
begin

lemma Mention_codec:
  "codec W stk rem 0 (Mention_encode W) (Mention_cases W) createBaseMention m"
  by (rule codecI [OF Mention_encode_def],
      rule field_string [where upd = Mention_userId_update], simp add: Mention_defs, simp add: Mention_defs,
      rule field_int32 [where upd = Mention_offset_update], simp add: Mention_defs, simp add: Mention_defs,
      rule field_int32 [where upd = Mention_length_update], simp add: Mention_defs, simp add: Mention_defs,
      rule matched_Nil, cases m, simp add: Mention_defs)

lemma Mention_rt: "1 \<le> d \<Longrightarrow> codec_rt W stk rem d (Mention_encode W) (Mention_decode W) m"
  unfolding Mention_decode_def
  by (rule codec_rt_mono [OF codec_rt_of_codec [OF Mention_codec]]) simp_all

end

context wire_reader
begin

lemma Mention_total [total_rules]: "dec_total W (Mention_decode W)"
  unfolding Mention_decode_def Mention_cases_def by (intro total_rules)

end

subsection \<open>E2EEMediaReference\<close>

record E2EEMediaReference =
  E2EEMediaReference_kind :: string
  E2EEMediaReference_directPath :: string
  E2EEMediaReference_mediaKey :: "byte list"
  E2EEMediaReference_fileSha256 :: "byte list"
  E2EEMediaReference_fileEncSha256 :: "byte list"
  E2EEMediaReference_contentType :: string
  E2EEMediaReference_size :: int

definition createBaseE2EEMediaReference :: E2EEMediaReference where
  "createBaseE2EEMediaReference = \<lparr>E2EEMediaReference_kind = '''',
     E2EEMediaReference_directPath = '''',
     E2EEMediaReference_mediaKey = [],
     E2EEMediaReference_fileSha256 = [],
     E2EEMediaReference_fileEncSha256 = [],
     E2EEMediaReference_contentType = '''',
     E2EEMediaReference_size = 0\<rparr>"

definition E2EEMediaReference_encode :: "('w, 'r) wire \<Rightarrow> E2EEMediaReference \<Rightarrow> 'w writer" where
  "E2EEMediaReference_encode W m = w_seq [
     w_if (E2EEMediaReference_kind m \<noteq> '''') [w_uint32 W 10, w_string W (E2EEMediaReference_kind m)],
     w_if (E2EEMediaReference_directPath m \<noteq> '''') [w_uint32 W 18, w_string W (E2EEMediaReference_directPath m)],
     w_if (E2EEMediaReference_mediaKey m \<noteq> []) [w_uint32 W 26, w_bytes W (E2EEMediaReference_mediaKey m)],
     w_if (E2EEMediaReference_fileSha256 m \<noteq> []) [w_uint32 W 34, w_bytes W (E2EEMediaReference_fileSha256 m)],
     w_if (E2EEMediaReference_fileEncSha256 m \<noteq> []) [w_uint32 W 42, w_bytes W (E2EEMediaReference_fileEncSha256 m)],
     w_if (E2EEMediaReference_contentType m \<noteq> '''') [w_uint32 W 50, w_string W (E2EEMediaReference_contentType m)],
     w_if (E2EEMediaReference_size m \<noteq> 0) [w_check (asIntN64 (E2EEMediaReference_size m) = E2EEMediaReference_size m) (too_large ''message.size'' ''int64''),
         w_uint32 W 56, w_int64 W (E2EEMediaReference_size m)]]"

definition E2EEMediaReference_cases :: "('w, 'r) wire \<Rightarrow> ('r, E2EEMediaReference) cases" where
  "E2EEMediaReference_cases W = [
     (1, 10, d_val (r_string W) (\<lambda>v m. m\<lparr>E2EEMediaReference_kind := v\<rparr>)),
     (2, 18, d_val (r_string W) (\<lambda>v m. m\<lparr>E2EEMediaReference_directPath := v\<rparr>)),
     (3, 26, d_val (r_bytes W) (\<lambda>v m. m\<lparr>E2EEMediaReference_mediaKey := v\<rparr>)),
     (4, 34, d_val (r_bytes W) (\<lambda>v m. m\<lparr>E2EEMediaReference_fileSha256 := v\<rparr>)),
     (5, 42, d_val (r_bytes W) (\<lambda>v m. m\<lparr>E2EEMediaReference_fileEncSha256 := v\<rparr>)),
     (6, 50, d_val (r_string W) (\<lambda>v m. m\<lparr>E2EEMediaReference_contentType := v\<rparr>)),
     (7, 56, d_val (r_int64 W) (\<lambda>v m. m\<lparr>E2EEMediaReference_size := v\<rparr>))]"

definition E2EEMediaReference_decode :: "('w, 'r) wire \<Rightarrow> ('r, E2EEMediaReference) decoder" where
  "E2EEMediaReference_decode W = d_message W (E2EEMediaReference_cases W) createBaseE2EEMediaReference"

lemmas E2EEMediaReference_defs = E2EEMediaReference_cases_def createBaseE2EEMediaReference_def

context wire_lib
begin

lemma E2EEMediaReference_codec:
  "codec W stk rem 0 (E2EEMediaReference_encode W) (E2EEMediaReference_cases W) createBaseE2EEMediaReference m"
  by (rule codecI [OF E2EEMediaReference_encode_def],
      rule field_string [where upd = E2EEMediaReference_kind_update], simp add: E2EEMediaReference_defs, simp add: E2EEMediaReference_defs,
      rule field_string [where upd = E2EEMediaReference_directPath_update], simp add: E2EEMediaReference_defs, simp add: E2EEMediaReference_defs,
      rule field_bytes [where upd = E2EEMediaReference_mediaKey_update], simp add: E2EEMediaReference_defs, simp add: E2EEMediaReference_defs,
      rule field_bytes [where upd = E2EEMediaReference_fileSha256_update], simp add: E2EEMediaReference_defs, simp add: E2EEMediaReference_defs,
      rule field_bytes [where upd = E2EEMediaReference_fileEncSha256_update], simp add: E2EEMediaReference_defs, simp add: E2EEMediaReference_defs,
      rule field_string [where upd = E2EEMediaReference_contentType_update], simp add: E2EEMediaReference_defs, simp add: E2EEMediaReference_defs,
      rule field_int64 [where upd = E2EEMediaReference_size_update], simp add: E2EEMediaReference_defs, simp add: E2EEMediaReference_defs,
      rule matched_Nil, cases m, simp add: E2EEMediaReference_defs)

lemma E2EEMediaReference_rt: "1 \<le> d \<Longrightarrow> codec_rt W stk rem d (E2EEMediaReference_encode W) (E2EEMediaReference_decode W) m"
  unfolding E2EEMediaReference_decode_def
  by (rule codec_rt_mono [OF codec_rt_of_codec [OF E2EEMediaReference_codec]]) simp_all

end

context wire_reader
begin

lemma E2EEMediaReference_total [total_rules]: "dec_total W (E2EEMediaReference_decode W)"
  unfolding E2EEMediaReference_decode_def E2EEMediaReference_cases_def by (intro total_rules)

end

subsection \<open>Attachment\<close>

record Attachment =
  Attachment_id :: string
  Attachment_type :: string
  Attachment_url :: string
  Attachment_previewUrl :: string
  Attachment_fileName :: string
  Attachment_contentType :: string
  Attachment_size :: int
  Attachment_width :: int
  Attachment_height :: int
  Attachment_duration :: int
  Attachment_e2ee :: "E2EEMediaReference option"

definition createBaseAttachment :: Attachment where
  "createBaseAttachment = \<lparr>Attachment_id = '''',
     Attachment_type = '''',
     Attachment_url = '''',
     Attachment_previewUrl = '''',
     Attachment_fileName = '''',
     Attachment_contentType = '''',
     Attachment_size = 0,
     Attachment_width = 0,
     Attachment_height = 0,
     Attachment_duration = 0,
     Attachment_e2ee = None\<rparr>"

definition Attachment_encode :: "('w, 'r) wire \<Rightarrow> Attachment \<Rightarrow> 'w writer" where
  "Attachment_encode W m = w_seq [
     w_if (Attachment_id m \<noteq> '''') [w_uint32 W 10, w_string W (Attachment_id m)],
     w_if (Attachment_type m \<noteq> '''') [w_uint32 W 18, w_string W (Attachment_type m)],
     w_if (Attachment_url m \<noteq> '''') [w_uint32 W 26, w_string W (Attachment_url m)],
     w_if (Attachment_previewUrl m \<noteq> '''') [w_uint32 W 34, w_string W (Attachment_previewUrl m)],
     w_if (Attachment_fileName m \<noteq> '''') [w_uint32 W 42, w_string W (Attachment_fileName m)],
     w_if (Attachment_contentType m \<noteq> '''') [w_uint32 W 50, w_string W (Attachment_contentType m)],
     w_if (Attachment_size m \<noteq> 0) [w_check (asIntN64 (Attachment_size m) = Attachment_size m) (too_large ''message.size'' ''int64''),
         w_uint32 W 56, w_int64 W (Attachment_size m)],
     w_if (Attachment_width m \<noteq> 0) [w_uint32 W 64, w_int32 W (Attachment_width m)],
     w_if (Attachment_height m \<noteq> 0) [w_uint32 W 72, w_int32 W (Attachment_height m)],
     w_if (Attachment_duration m \<noteq> 0) [w_uint32 W 80, w_int32 W (Attachment_duration m)],
     w_some (Attachment_e2ee m) (\<lambda>v. [w_uint32 W 90, w_open W, E2EEMediaReference_encode W v, w_join W])]"

definition Attachment_cases :: "('w, 'r) wire \<Rightarrow> ('r, Attachment) cases" where
  "Attachment_cases W = [
     (1, 10, d_val (r_string W) (\<lambda>v m. m\<lparr>Attachment_id := v\<rparr>)),
     (2, 18, d_val (r_string W) (\<lambda>v m. m\<lparr>Attachment_type := v\<rparr>)),
     (3, 26, d_val (r_string W) (\<lambda>v m. m\<lparr>Attachment_url := v\<rparr>)),
     (4, 34, d_val (r_string W) (\<lambda>v m. m\<lparr>Attachment_previewUrl := v\<rparr>)),
     (5, 42, d_val (r_string W) (\<lambda>v m. m\<lparr>Attachment_fileName := v\<rparr>)),
     (6, 50, d_val (r_string W) (\<lambda>v m. m\<lparr>Attachment_contentType := v\<rparr>)),
     (7, 56, d_val (r_int64 W) (\<lambda>v m. m\<lparr>Attachment_size := v\<rparr>)),
     (8, 64, d_val (r_int32 W) (\<lambda>v m. m\<lparr>Attachment_width := v\<rparr>)),
     (9, 72, d_val (r_int32 W) (\<lambda>v m. m\<lparr>Attachment_height := v\<rparr>)),
     (10, 80, d_val (r_int32 W) (\<lambda>v m. m\<lparr>Attachment_duration := v\<rparr>)),
     (11, 90, d_msg W (E2EEMediaReference_decode W) (\<lambda>v m. m\<lparr>Attachment_e2ee := Some v\<rparr>))]"

definition Attachment_decode :: "('w, 'r) wire \<Rightarrow> ('r, Attachment) decoder" where
  "Attachment_decode W = d_message W (Attachment_cases W) createBaseAttachment"

lemmas Attachment_defs = Attachment_cases_def createBaseAttachment_def

context wire_lib
begin

lemma Attachment_codec:
  "codec W stk rem 1 (Attachment_encode W) (Attachment_cases W) createBaseAttachment m"
  by (rule codecI [OF Attachment_encode_def],
      rule field_string [where upd = Attachment_id_update], simp add: Attachment_defs, simp add: Attachment_defs,
      rule field_string [where upd = Attachment_type_update], simp add: Attachment_defs, simp add: Attachment_defs,
      rule field_string [where upd = Attachment_url_update], simp add: Attachment_defs, simp add: Attachment_defs,
      rule field_string [where upd = Attachment_previewUrl_update], simp add: Attachment_defs, simp add: Attachment_defs,
      rule field_string [where upd = Attachment_fileName_update], simp add: Attachment_defs, simp add: Attachment_defs,
      rule field_string [where upd = Attachment_contentType_update], simp add: Attachment_defs, simp add: Attachment_defs,
      rule field_int64 [where upd = Attachment_size_update], simp add: Attachment_defs, simp add: Attachment_defs,
      rule field_int32 [where upd = Attachment_width_update], simp add: Attachment_defs, simp add: Attachment_defs,
      rule field_int32 [where upd = Attachment_height_update], simp add: Attachment_defs, simp add: Attachment_defs,
      rule field_int32 [where upd = Attachment_duration_update], simp add: Attachment_defs, simp add: Attachment_defs,
      rule field_msg [where upd = Attachment_e2ee_update], rule E2EEMediaReference_rt, simp, simp add: Attachment_defs, simp add: Attachment_defs,
      rule matched_Nil, cases m, simp add: Attachment_defs)

lemma Attachment_rt: "2 \<le> d \<Longrightarrow> codec_rt W stk rem d (Attachment_encode W) (Attachment_decode W) m"
  unfolding Attachment_decode_def
  by (rule codec_rt_mono [OF codec_rt_of_codec [OF Attachment_codec]]) simp_all

end

context wire_reader
begin

lemma Attachment_total [total_rules]: "dec_total W (Attachment_decode W)"
  unfolding Attachment_decode_def Attachment_cases_def by (intro total_rules)

end

subsection \<open>Message\<close>

record Message =
  Message_id :: string
  Message_threadId :: string
  Message_senderId :: string
  Message_text :: string
  Message_timestamp :: "js_date option"
  Message_replyTo :: "ReplyReference option"
  Message_mentions :: "Mention list"
  Message_attachments :: "Attachment list"
  Message_encryption :: int
  Message_transport :: int

definition createBaseMessage :: Message where
  "createBaseMessage = \<lparr>Message_id = '''',
     Message_threadId = '''',
     Message_senderId = '''',
     Message_text = '''',
     Message_timestamp = None,
     Message_replyTo = None,
     Message_mentions = [],
     Message_attachments = [],
     Message_encryption = 0,
     Message_transport = 0\<rparr>"

definition Message_encode :: "('w, 'r) wire \<Rightarrow> Message \<Rightarrow> 'w writer" where
  "Message_encode W m = w_seq [
     w_if (Message_id m \<noteq> '''') [w_uint32 W 10, w_string W (Message_id m)],
     w_if (Message_threadId m \<noteq> '''') [w_uint32 W 18, w_string W (Message_threadId m)],
     w_if (Message_senderId m \<noteq> '''') [w_uint32 W 26, w_string W (Message_senderId m)],
     w_if (Message_text m \<noteq> '''') [w_uint32 W 34, w_string W (Message_text m)],
     w_some (Message_timestamp m) (\<lambda>v. [w_try (toTimestamp v) (\<lambda>t. [w_uint32 W 42, w_open W, Timestamp_encode W t, w_join W])]),
     w_some (Message_replyTo m) (\<lambda>v. [w_uint32 W 50, w_open W, ReplyReference_encode W v, w_join W]),
     w_for (Message_mentions m) (\<lambda>v. [w_uint32 W 58, w_open W, Mention_encode W v, w_join W]),
     w_for (Message_attachments m) (\<lambda>v. [w_uint32 W 66, w_open W, Attachment_encode W v, w_join W]),
     w_if (Message_encryption m \<noteq> 0) [w_uint32 W 72, w_int32 W (Message_encryption m)],
     w_if (Message_transport m \<noteq> 0) [w_uint32 W 80, w_int32 W (Message_transport m)]]"

definition Message_cases :: "('w, 'r) wire \<Rightarrow> ('r, Message) cases" where
  "Message_cases W = [
     (1, 10, d_val (r_string W) (\<lambda>v m. m\<lparr>Message_id := v\<rparr>)),
     (2, 18, d_val (r_string W) (\<lambda>v m. m\<lparr>Message_threadId := v\<rparr>)),
     (3, 26, d_val (r_string W) (\<lambda>v m. m\<lparr>Message_senderId := v\<rparr>)),
     (4, 34, d_val (r_string W) (\<lambda>v m. m\<lparr>Message_text := v\<rparr>)),
     (5, 42, d_msg W (Timestamp_decode W) (\<lambda>v m. m\<lparr>Message_timestamp := Some (fromTimestamp v)\<rparr>)),
     (6, 50, d_msg W (ReplyReference_decode W) (\<lambda>v m. m\<lparr>Message_replyTo := Some v\<rparr>)),
     (7, 58, d_msg W (Mention_decode W) (\<lambda>v m. m\<lparr>Message_mentions := Message_mentions m @ [v]\<rparr>)),
     (8, 66, d_msg W (Attachment_decode W) (\<lambda>v m. m\<lparr>Message_attachments := Message_attachments m @ [v]\<rparr>)),
     (9, 72, d_val (r_int32 W) (\<lambda>v m. m\<lparr>Message_encryption := v\<rparr>)),
     (10, 80, d_val (r_int32 W) (\<lambda>v m. m\<lparr>Message_transport := v\<rparr>))]"

definition Message_decode :: "('w, 'r) wire \<Rightarrow> ('r, Message) decoder" where
  "Message_decode W = d_message W (Message_cases W) createBaseMessage"

definition Message_ok :: "Message \<Rightarrow> bool" where
  "Message_ok m \<longleftrightarrow> pred_option js_date_ok (Message_timestamp m)"

lemmas Message_defs = Message_cases_def createBaseMessage_def

context wire_lib
begin

lemma Message_codec:
  assumes ok: "Message_ok m"
  shows "codec W stk rem 2 (Message_encode W) (Message_cases W) createBaseMessage m"
  by (rule codecI [OF Message_encode_def],
      rule field_string [where upd = Message_id_update], simp add: Message_defs, simp add: Message_defs,
      rule field_string [where upd = Message_threadId_update], simp add: Message_defs, simp add: Message_defs,
      rule field_string [where upd = Message_senderId_update], simp add: Message_defs, simp add: Message_defs,
      rule field_string [where upd = Message_text_update], simp add: Message_defs, simp add: Message_defs,
      rule field_conv [where upd = Message_timestamp_update and unconv = fromTimestamp], rule date_rt, simp, (use ok in \<open>fastforce simp: Message_ok_def list_all_iff\<close>), assumption, simp add: Message_defs, simp add: Message_defs,
      rule field_msg [where upd = Message_replyTo_update], rule ReplyReference_rt, simp, simp add: Message_defs, simp add: Message_defs,
      rule field_push_msg [where upd = Message_mentions_update and sel = Message_mentions], rule Mention_rt, simp, simp add: Message_defs, simp add: Message_defs, simp add: Message_defs,
      rule field_push_msg [where upd = Message_attachments_update and sel = Message_attachments], rule Attachment_rt, simp, simp add: Message_defs, simp add: Message_defs, simp add: Message_defs,
      rule field_int32 [where upd = Message_encryption_update], simp add: Message_defs, simp add: Message_defs,
      rule field_int32 [where upd = Message_transport_update], simp add: Message_defs, simp add: Message_defs,
      rule matched_Nil, cases m, simp add: Message_defs)

lemma Message_rt: "3 \<le> d \<Longrightarrow> Message_ok m \<Longrightarrow> codec_rt W stk rem d (Message_encode W) (Message_decode W) m"
  unfolding Message_decode_def
  by (rule codec_rt_mono [OF codec_rt_of_codec [OF Message_codec]]) simp_all

end

context wire_reader
begin

lemma Message_total [total_rules]: "dec_total W (Message_decode W)"
  unfolding Message_decode_def Message_cases_def by (intro total_rules)

end

subsection \<open>MediaChunk\<close>

record MediaChunk =
  MediaChunk_data :: "byte list"

definition createBaseMediaChunk :: MediaChunk where
  "createBaseMediaChunk = \<lparr>MediaChunk_data = []\<rparr>"

definition MediaChunk_encode :: "('w, 'r) wire \<Rightarrow> MediaChunk \<Rightarrow> 'w writer" where
  "MediaChunk_encode W m = w_seq [
     w_if (MediaChunk_data m \<noteq> []) [w_uint32 W 10, w_bytes W (MediaChunk_data m)]]"

definition MediaChunk_cases :: "('w, 'r) wire \<Rightarrow> ('r, MediaChunk) cases" where
  "MediaChunk_cases W = [
     (1, 10, d_val (r_bytes W) (\<lambda>v m. m\<lparr>MediaChunk_data := v\<rparr>))]"

definition MediaChunk_decode :: "('w, 'r) wire \<Rightarrow> ('r, MediaChunk) decoder" where
  "MediaChunk_decode W = d_message W (MediaChunk_cases W) createBaseMediaChunk"

lemmas MediaChunk_defs = MediaChunk_cases_def createBaseMediaChunk_def

context wire_lib
begin

lemma MediaChunk_codec:
  "codec W stk rem 0 (MediaChunk_encode W) (MediaChunk_cases W) createBaseMediaChunk m"
  by (rule codecI [OF MediaChunk_encode_def],
      rule field_bytes [where upd = MediaChunk_data_update], simp add: MediaChunk_defs, simp add: MediaChunk_defs,
      rule matched_Nil, cases m, simp add: MediaChunk_defs)

lemma MediaChunk_rt: "1 \<le> d \<Longrightarrow> codec_rt W stk rem d (MediaChunk_encode W) (MediaChunk_decode W) m"
  unfolding MediaChunk_decode_def
  by (rule codec_rt_mono [OF codec_rt_of_codec [OF MediaChunk_codec]]) simp_all

end

context wire_reader
begin

lemma MediaChunk_total [total_rules]: "dec_total W (MediaChunk_decode W)"
  unfolding MediaChunk_decode_def MediaChunk_cases_def by (intro total_rules)

end

end
