(* ===== verification/Gen_Health.thy ===== *)
theory Gen_Health
  imports Gen_Common
begin

text \<open>
  Messages of \<open>sdk/node/src/gen/meta/v1/health.ts\<close>: the health snapshot of a session.
  For every message: its interface as a record (or a datatype without fields), \<open>createBase\<close>,
  \<open>encode\<close> as the sequence of its writer calls, and \<open>decode\<close> as the cases of its
  switch; a union field is a datatype with one constructor per \<open>$case\<close>.  \<open>_ok\<close> holds of
  the values a TypeScript program can build: objects built by assignment and dates in range.
  Then the round trip of the message and the totality of its decoder.
\<close>

subsection \<open>HealthSnapshot\<close>

record HealthSnapshot =
  HealthSnapshot_regular :: int
  HealthSnapshot_e2ee :: int
  HealthSnapshot_reconnectCount :: int
  HealthSnapshot_engineDroppedEventCount :: int
  HealthSnapshot_subscriberDroppedEventCount :: int
  HealthSnapshot_lastSuccessfulSend :: "js_date option"
  HealthSnapshot_lastReceive :: "js_date option"
  HealthSnapshot_lastErrorCategory :: string

definition createBaseHealthSnapshot :: HealthSnapshot where
  "createBaseHealthSnapshot = \<lparr>HealthSnapshot_regular = 0,
     HealthSnapshot_e2ee = 0,
     HealthSnapshot_reconnectCount = 0,
     HealthSnapshot_engineDroppedEventCount = 0,
     HealthSnapshot_subscriberDroppedEventCount = 0,
     HealthSnapshot_lastSuccessfulSend = None,
     HealthSnapshot_lastReceive = None,
     HealthSnapshot_lastErrorCategory = ''''\<rparr>"

definition HealthSnapshot_encode :: "('w, 'r) wire \<Rightarrow> HealthSnapshot \<Rightarrow> 'w writer" where
  "HealthSnapshot_encode W m = w_seq [
     w_if (HealthSnapshot_regular m \<noteq> 0) [w_uint32 W 8, w_int32 W (HealthSnapshot_regular m)],
     w_if (HealthSnapshot_e2ee m \<noteq> 0) [w_uint32 W 16, w_int32 W (HealthSnapshot_e2ee m)],
     w_if (HealthSnapshot_reconnectCount m \<noteq> 0) [w_check (asUintN64 (HealthSnapshot_reconnectCount m) = HealthSnapshot_reconnectCount m) (too_large ''message.reconnectCount'' ''uint64''),
         w_uint32 W 24, w_uint64 W (HealthSnapshot_reconnectCount m)],
     w_if (HealthSnapshot_engineDroppedEventCount m \<noteq> 0) [w_check (asUintN64 (HealthSnapshot_engineDroppedEventCount m) = HealthSnapshot_engineDroppedEventCount m) (too_large ''message.engineDroppedEventCount'' ''uint64''),
         w_uint32 W 32, w_uint64 W (HealthSnapshot_engineDroppedEventCount m)],
     w_if (HealthSnapshot_subscriberDroppedEventCount m \<noteq> 0) [w_check (asUintN64 (HealthSnapshot_subscriberDroppedEventCount m) = HealthSnapshot_subscriberDroppedEventCount m) (too_large ''message.subscriberDroppedEventCount'' ''uint64''),
         w_uint32 W 40, w_uint64 W (HealthSnapshot_subscriberDroppedEventCount m)],
     w_some (HealthSnapshot_lastSuccessfulSend m) (\<lambda>v. [w_try (toTimestamp v) (\<lambda>t. [w_uint32 W 50, w_open W, Timestamp_encode W t, w_join W])]),
     w_some (HealthSnapshot_lastReceive m) (\<lambda>v. [w_try (toTimestamp v) (\<lambda>t. [w_uint32 W 58, w_open W, Timestamp_encode W t, w_join W])]),
     w_if (HealthSnapshot_lastErrorCategory m \<noteq> '''') [w_uint32 W 66, w_string W (HealthSnapshot_lastErrorCategory m)]]"

definition HealthSnapshot_cases :: "('w, 'r) wire \<Rightarrow> ('r, HealthSnapshot) cases" where
  "HealthSnapshot_cases W = [
     (1, 8, d_val (r_int32 W) (\<lambda>v m. m\<lparr>HealthSnapshot_regular := v\<rparr>)),
     (2, 16, d_val (r_int32 W) (\<lambda>v m. m\<lparr>HealthSnapshot_e2ee := v\<rparr>)),
     (3, 24, d_val (r_uint64 W) (\<lambda>v m. m\<lparr>HealthSnapshot_reconnectCount := v\<rparr>)),
     (4, 32, d_val (r_uint64 W) (\<lambda>v m. m\<lparr>HealthSnapshot_engineDroppedEventCount := v\<rparr>)),
     (5, 40, d_val (r_uint64 W) (\<lambda>v m. m\<lparr>HealthSnapshot_subscriberDroppedEventCount := v\<rparr>)),
     (6, 50, d_msg W (Timestamp_decode W) (\<lambda>v m. m\<lparr>HealthSnapshot_lastSuccessfulSend := Some (fromTimestamp v)\<rparr>)),
     (7, 58, d_msg W (Timestamp_decode W) (\<lambda>v m. m\<lparr>HealthSnapshot_lastReceive := Some (fromTimestamp v)\<rparr>)),
     (8, 66, d_val (r_string W) (\<lambda>v m. m\<lparr>HealthSnapshot_lastErrorCategory := v\<rparr>))]"

definition HealthSnapshot_decode :: "('w, 'r) wire \<Rightarrow> ('r, HealthSnapshot) decoder" where
  "HealthSnapshot_decode W = d_message W (HealthSnapshot_cases W) createBaseHealthSnapshot"

definition HealthSnapshot_ok :: "HealthSnapshot \<Rightarrow> bool" where
  "HealthSnapshot_ok m \<longleftrightarrow> pred_option js_date_ok (HealthSnapshot_lastSuccessfulSend m) \<and>
     pred_option js_date_ok (HealthSnapshot_lastReceive m)"

lemmas HealthSnapshot_defs = HealthSnapshot_cases_def createBaseHealthSnapshot_def

context wire_lib
begin

lemma HealthSnapshot_codec:
  assumes ok: "HealthSnapshot_ok m"
  shows "codec W stk rem 1 (HealthSnapshot_encode W) (HealthSnapshot_cases W) createBaseHealthSnapshot m"
  by (rule codecI [OF HealthSnapshot_encode_def],
      rule field_int32 [where upd = HealthSnapshot_regular_update], simp add: HealthSnapshot_defs, simp add: HealthSnapshot_defs,
      rule field_int32 [where upd = HealthSnapshot_e2ee_update], simp add: HealthSnapshot_defs, simp add: HealthSnapshot_defs,
      rule field_uint64 [where upd = HealthSnapshot_reconnectCount_update], simp add: HealthSnapshot_defs, simp add: HealthSnapshot_defs,
      rule field_uint64 [where upd = HealthSnapshot_engineDroppedEventCount_update], simp add: HealthSnapshot_defs, simp add: HealthSnapshot_defs,
      rule field_uint64 [where upd = HealthSnapshot_subscriberDroppedEventCount_update], simp add: HealthSnapshot_defs, simp add: HealthSnapshot_defs,
      rule field_conv [where upd = HealthSnapshot_lastSuccessfulSend_update and unconv = fromTimestamp], rule date_rt, simp, (use ok in \<open>fastforce simp: HealthSnapshot_ok_def list_all_iff\<close>), assumption, simp add: HealthSnapshot_defs, simp add: HealthSnapshot_defs,
      rule field_conv [where upd = HealthSnapshot_lastReceive_update and unconv = fromTimestamp], rule date_rt, simp, (use ok in \<open>fastforce simp: HealthSnapshot_ok_def list_all_iff\<close>), assumption, simp add: HealthSnapshot_defs, simp add: HealthSnapshot_defs,
      rule field_string [where upd = HealthSnapshot_lastErrorCategory_update], simp add: HealthSnapshot_defs, simp add: HealthSnapshot_defs,
      rule matched_Nil, cases m, simp add: HealthSnapshot_defs)

lemma HealthSnapshot_rt: "2 \<le> d \<Longrightarrow> HealthSnapshot_ok m \<Longrightarrow> codec_rt W stk rem d (HealthSnapshot_encode W) (HealthSnapshot_decode W) m"
  unfolding HealthSnapshot_decode_def
  by (rule codec_rt_mono [OF codec_rt_of_codec [OF HealthSnapshot_codec]]) simp_all

end

context wire_reader
begin

lemma HealthSnapshot_total [total_rules]: "dec_total W (HealthSnapshot_decode W)"
  unfolding HealthSnapshot_decode_def HealthSnapshot_cases_def by (intro total_rules)

end

end
