(* ===== verification/Gen_Events.thy ===== *)
theory Gen_Events
  imports Gen_Common
begin

text \<open>
  Messages of \<open>sdk/node/src/gen/meta/v1/events.ts\<close>: the events a session emits.
  For every message: its interface as a record (or a datatype without fields), \<open>createBase\<close>,
  \<open>encode\<close> as the sequence of its writer calls, and \<open>decode\<close> as the cases of its
  switch; a union field is a datatype with one constructor per \<open>$case\<close>.  \<open>_ok\<close> holds of
  the values a TypeScript program can build: objects built by assignment and dates in range.
  Then the round trip of the message and the totality of its decoder.
\<close>

subsection \<open>ReadyEvent\<close>

record ReadyEvent =
  ReadyEvent_isNewSession :: bool

definition createBaseReadyEvent :: ReadyEvent where
  "createBaseReadyEvent = \<lparr>ReadyEvent_isNewSession = False\<rparr>"

definition ReadyEvent_encode :: "('w, 'r) wire \<Rightarrow> ReadyEvent \<Rightarrow> 'w writer" where
  "ReadyEvent_encode W m = w_seq [
     w_if (ReadyEvent_isNewSession m \<noteq> False) [w_uint32 W 8, w_bool W (ReadyEvent_isNewSession m)]]"

definition ReadyEvent_cases :: "('w, 'r) wire \<Rightarrow> ('r, ReadyEvent) cases" where
  "ReadyEvent_cases W = [
     (1, 8, d_val (r_bool W) (\<lambda>v m. m\<lparr>ReadyEvent_isNewSession := v\<rparr>))]"

definition ReadyEvent_decode :: "('w, 'r) wire \<Rightarrow> ('r, ReadyEvent) decoder" where
  "ReadyEvent_decode W = d_message W (ReadyEvent_cases W) createBaseReadyEvent"

lemmas ReadyEvent_defs = ReadyEvent_cases_def createBaseReadyEvent_def

context wire_lib
begin

lemma ReadyEvent_codec:
  "codec W stk rem 0 (ReadyEvent_encode W) (ReadyEvent_cases W) createBaseReadyEvent m"
  by (rule codecI [OF ReadyEvent_encode_def],
      rule field_bool [where upd = ReadyEvent_isNewSession_update], simp add: ReadyEvent_defs, simp add: ReadyEvent_defs,
      rule matched_Nil, cases m, simp add: ReadyEvent_defs)

lemma ReadyEvent_rt: "1 \<le> d \<Longrightarrow> codec_rt W stk rem d (ReadyEvent_encode W) (ReadyEvent_decode W) m"
  unfolding ReadyEvent_decode_def
  by (rule codec_rt_mono [OF codec_rt_of_codec [OF ReadyEvent_codec]]) simp_all

end

context wire_reader
begin

lemma ReadyEvent_total [total_rules]: "dec_total W (ReadyEvent_decode W)"
  unfolding ReadyEvent_decode_def ReadyEvent_cases_def by (intro total_rules)

end

subsection \<open>ReconnectedEvent\<close>

datatype ReconnectedEvent = ReconnectedEvent

definition createBaseReconnectedEvent :: ReconnectedEvent where
  "createBaseReconnectedEvent = ReconnectedEvent"

definition ReconnectedEvent_encode :: "('w, 'r) wire \<Rightarrow> ReconnectedEvent \<Rightarrow> 'w writer" where
  "ReconnectedEvent_encode W m = w_seq []"

definition ReconnectedEvent_cases :: "('w, 'r) wire \<Rightarrow> ('r, ReconnectedEvent) cases" where
  "ReconnectedEvent_cases W = []"

definition ReconnectedEvent_decode :: "('w, 'r) wire \<Rightarrow> ('r, ReconnectedEvent) decoder" where
  "ReconnectedEvent_decode W = d_message W (ReconnectedEvent_cases W) createBaseReconnectedEvent"

lemmas ReconnectedEvent_defs = ReconnectedEvent_cases_def createBaseReconnectedEvent_def

context wire_lib
begin

lemma ReconnectedEvent_codec:
  "codec W stk rem 0 (ReconnectedEvent_encode W) (ReconnectedEvent_cases W) createBaseReconnectedEvent m"
  by (rule codecI [OF ReconnectedEvent_encode_def],
      rule matched_Nil, cases m, simp add: ReconnectedEvent_defs)

lemma ReconnectedEvent_rt: "1 \<le> d \<Longrightarrow> codec_rt W stk rem d (ReconnectedEvent_encode W) (ReconnectedEvent_decode W) m"
  unfolding ReconnectedEvent_decode_def
  by (rule codec_rt_mono [OF codec_rt_of_codec [OF ReconnectedEvent_codec]]) simp_all

end

context wire_reader
begin

lemma ReconnectedEvent_total [total_rules]: "dec_total W (ReconnectedEvent_decode W)"
  unfolding ReconnectedEvent_decode_def ReconnectedEvent_cases_def by (intro total_rules)

end

subsection \<open>DisconnectedEvent\<close>

record DisconnectedEvent =
  DisconnectedEvent_transport :: int

definition createBaseDisconnectedEvent :: DisconnectedEvent where
  "createBaseDisconnectedEvent = \<lparr>DisconnectedEvent_transport = 0\<rparr>"

definition DisconnectedEvent_encode :: "('w, 'r) wire \<Rightarrow> DisconnectedEvent \<Rightarrow> 'w writer" where
  "DisconnectedEvent_encode W m = w_seq [
     w_if (DisconnectedEvent_transport m \<noteq> 0) [w_uint32 W 8, w_int32 W (DisconnectedEvent_transport m)]]"

definition DisconnectedEvent_cases :: "('w, 'r) wire \<Rightarrow> ('r, DisconnectedEvent) cases" where
  "DisconnectedEvent_cases W = [
     (1, 8, d_val (r_int32 W) (\<lambda>v m. m\<lparr>DisconnectedEvent_transport := v\<rparr>))]"

definition DisconnectedEvent_decode :: "('w, 'r) wire \<Rightarrow> ('r, DisconnectedEvent) decoder" where
  "DisconnectedEvent_decode W = d_message W (DisconnectedEvent_cases W) createBaseDisconnectedEvent"

lemmas DisconnectedEvent_defs = DisconnectedEvent_cases_def createBaseDisconnectedEvent_def

context wire_lib
begin

lemma DisconnectedEvent_codec:
  "codec W stk rem 0 (DisconnectedEvent_encode W) (DisconnectedEvent_cases W) createBaseDisconnectedEvent m"
  by (rule codecI [OF DisconnectedEvent_encode_def],
      rule field_int32 [where upd = DisconnectedEvent_transport_update], simp add: DisconnectedEvent_defs, simp add: DisconnectedEvent_defs,
      rule matched_Nil, cases m, simp add: DisconnectedEvent_defs)

lemma DisconnectedEvent_rt: "1 \<le> d \<Longrightarrow> codec_rt W stk rem d (DisconnectedEvent_encode W) (DisconnectedEvent_decode W) m"
  unfolding DisconnectedEvent_decode_def
  by (rule codec_rt_mono [OF codec_rt_of_codec [OF DisconnectedEvent_codec]]) simp_all

end

context wire_reader
begin

lemma DisconnectedEvent_total [total_rules]: "dec_total W (DisconnectedEvent_decode W)"
  unfolding DisconnectedEvent_decode_def DisconnectedEvent_cases_def by (intro total_rules)

end

subsection \<open>ErrorEvent\<close>

record ErrorEvent =
  ErrorEvent_error :: "ErrorDetail option"

definition createBaseErrorEvent :: ErrorEvent where
  "createBaseErrorEvent = \<lparr>ErrorEvent_error = None\<rparr>"

definition ErrorEvent_encode :: "('w, 'r) wire \<Rightarrow> ErrorEvent \<Rightarrow> 'w writer" where
  "ErrorEvent_encode W m = w_seq [
     w_some (ErrorEvent_error m) (\<lambda>v. [w_uint32 W 10, w_open W, ErrorDetail_encode W v, w_join W])]"

definition ErrorEvent_cases :: "('w, 'r) wire \<Rightarrow> ('r, ErrorEvent) cases" where
  "ErrorEvent_cases W = [
     (1, 10, d_msg W (ErrorDetail_decode W) (\<lambda>v m. m\<lparr>ErrorEvent_error := Some v\<rparr>))]"

definition ErrorEvent_decode :: "('w, 'r) wire \<Rightarrow> ('r, ErrorEvent) decoder" where
  "ErrorEvent_decode W = d_message W (ErrorEvent_cases W) createBaseErrorEvent"

definition ErrorEvent_ok :: "ErrorEvent \<Rightarrow> bool" where
  "ErrorEvent_ok m \<longleftrightarrow> pred_option ErrorDetail_ok (ErrorEvent_error m)"

lemmas ErrorEvent_defs = ErrorEvent_cases_def createBaseErrorEvent_def

context wire_lib
begin

lemma ErrorEvent_codec:
  assumes ok: "ErrorEvent_ok m"
  shows "codec W stk rem 2 (ErrorEvent_encode W) (ErrorEvent_cases W) createBaseErrorEvent m"
  by (rule codecI [OF ErrorEvent_encode_def],
      rule field_msg [where upd = ErrorEvent_error_update], rule ErrorDetail_rt, simp, (use ok in \<open>fastforce simp: ErrorEvent_ok_def list_all_iff\<close>), simp add: ErrorEvent_defs, simp add: ErrorEvent_defs,
      rule matched_Nil, cases m, simp add: ErrorEvent_defs)

lemma ErrorEvent_rt: "3 \<le> d \<Longrightarrow> ErrorEvent_ok m \<Longrightarrow> codec_rt W stk rem d (ErrorEvent_encode W) (ErrorEvent_decode W) m"
  unfolding ErrorEvent_decode_def
  by (rule codec_rt_mono [OF codec_rt_of_codec [OF ErrorEvent_codec]]) simp_all

end

context wire_reader
begin

lemma ErrorEvent_total [total_rules]: "dec_total W (ErrorEvent_decode W)"
  unfolding ErrorEvent_decode_def ErrorEvent_cases_def by (intro total_rules)

end

subsection \<open>MessageEvent\<close>

record MessageEvent =
  MessageEvent_message :: "Message option"

definition createBaseMessageEvent :: MessageEvent where
  "createBaseMessageEvent = \<lparr>MessageEvent_message = None\<rparr>"

definition MessageEvent_encode :: "('w, 'r) wire \<Rightarrow> MessageEvent \<Rightarrow> 'w writer" where
  "MessageEvent_encode W m = w_seq [
     w_some (MessageEvent_message m) (\<lambda>v. [w_uint32 W 10, w_open W, Message_encode W v, w_join W])]"

definition MessageEvent_cases :: "('w, 'r) wire \<Rightarrow> ('r, MessageEvent) cases" where
  "MessageEvent_cases W = [
     (1, 10, d_msg W (Message_decode W) (\<lambda>v m. m\<lparr>MessageEvent_message := Some v\<rparr>))]"

definition MessageEvent_decode :: "('w, 'r) wire \<Rightarrow> ('r, MessageEvent) decoder" where
  "MessageEvent_decode W = d_message W (MessageEvent_cases W) createBaseMessageEvent"

definition MessageEvent_ok :: "MessageEvent \<Rightarrow> bool" where
  "MessageEvent_ok m \<longleftrightarrow> pred_option Message_ok (MessageEvent_message m)"

lemmas MessageEvent_defs = MessageEvent_cases_def createBaseMessageEvent_def

context wire_lib
begin

lemma MessageEvent_codec:
  assumes ok: "MessageEvent_ok m"
  shows "codec W stk rem 3 (MessageEvent_encode W) (MessageEvent_cases W) createBaseMessageEvent m"
  by (rule codecI [OF MessageEvent_encode_def],
      rule field_msg [where upd = MessageEvent_message_update], rule Message_rt, simp, (use ok in \<open>fastforce simp: MessageEvent_ok_def list_all_iff\<close>), simp add: MessageEvent_defs, simp add: MessageEvent_defs,
      rule matched_Nil, cases m, simp add: MessageEvent_defs)

lemma MessageEvent_rt: "4 \<le> d \<Longrightarrow> MessageEvent_ok m \<Longrightarrow> codec_rt W stk rem d (MessageEvent_encode W) (MessageEvent_decode W) m"
  unfolding MessageEvent_decode_def
  by (rule codec_rt_mono [OF codec_rt_of_codec [OF MessageEvent_codec]]) simp_all

end

context wire_reader
begin

lemma MessageEvent_total [total_rules]: "dec_total W (MessageEvent_decode W)"
  unfolding MessageEvent_decode_def MessageEvent_cases_def by (intro total_rules)

end

subsection \<open>ReactionEvent\<close>

record ReactionEvent =
  ReactionEvent_messageId :: string
  ReactionEvent_threadId :: string
  ReactionEvent_actorId :: string
  ReactionEvent_reaction :: string

definition createBaseReactionEvent :: ReactionEvent where
  "createBaseReactionEvent = \<lparr>ReactionEvent_messageId = '''',
     ReactionEvent_threadId = '''',
     ReactionEvent_actorId = '''',
     ReactionEvent_reaction = ''''\<rparr>"

definition ReactionEvent_encode :: "('w, 'r) wire \<Rightarrow> ReactionEvent \<Rightarrow> 'w writer" where
  "ReactionEvent_encode W m = w_seq [
     w_if (ReactionEvent_messageId m \<noteq> '''') [w_uint32 W 10, w_string W (ReactionEvent_messageId m)],
     w_if (ReactionEvent_threadId m \<noteq> '''') [w_uint32 W 18, w_string W (ReactionEvent_threadId m)],
     w_if (ReactionEvent_actorId m \<noteq> '''') [w_uint32 W 26, w_string W (ReactionEvent_actorId m)],
     w_if (ReactionEvent_reaction m \<noteq> '''') [w_uint32 W 34, w_string W (ReactionEvent_reaction m)]]"

definition ReactionEvent_cases :: "('w, 'r) wire \<Rightarrow> ('r, ReactionEvent) cases" where
  "ReactionEvent_cases W = [
     (1, 10, d_val (r_string W) (\<lambda>v m. m\<lparr>ReactionEvent_messageId := v\<rparr>)),
     (2, 18, d_val (r_string W) (\<lambda>v m. m\<lparr>ReactionEvent_threadId := v\<rparr>)),
     (3, 26, d_val (r_string W) (\<lambda>v m. m\<lparr>ReactionEvent_actorId := v\<rparr>)),
     (4, 34, d_val (r_string W) (\<lambda>v m. m\<lparr>ReactionEvent_reaction := v\<rparr>))]"

definition ReactionEvent_decode :: "('w, 'r) wire \<Rightarrow> ('r, ReactionEvent) decoder" where
  "ReactionEvent_decode W = d_message W (ReactionEvent_cases W) createBaseReactionEvent"

lemmas ReactionEvent_defs = ReactionEvent_cases_def createBaseReactionEvent_def

context wire_lib
begin

lemma ReactionEvent_codec:
  "codec W stk rem 0 (ReactionEvent_encode W) (ReactionEvent_cases W) createBaseReactionEvent m"
  by (rule codecI [OF ReactionEvent_encode_def],
      rule field_string [where upd = ReactionEvent_messageId_update], simp add: ReactionEvent_defs, simp add: ReactionEvent_defs,
      rule field_string [where upd = ReactionEvent_threadId_update], simp add: ReactionEvent_defs, simp add: ReactionEvent_defs,
      rule field_string [where upd = ReactionEvent_actorId_update], simp add: ReactionEvent_defs, simp add: ReactionEvent_defs,
      rule field_string [where upd = ReactionEvent_reaction_update], simp add: ReactionEvent_defs, simp add: ReactionEvent_defs,
      rule matched_Nil, cases m, simp add: ReactionEvent_defs)

lemma ReactionEvent_rt: "1 \<le> d \<Longrightarrow> codec_rt W stk rem d (ReactionEvent_encode W) (ReactionEvent_decode W) m"
  unfolding ReactionEvent_decode_def
  by (rule codec_rt_mono [OF codec_rt_of_codec [OF ReactionEvent_codec]]) simp_all

end

context wire_reader
begin

lemma ReactionEvent_total [total_rules]: "dec_total W (ReactionEvent_decode W)"
  unfolding ReactionEvent_decode_def ReactionEvent_cases_def by (intro total_rules)

end

subsection \<open>TypingEvent\<close>

record TypingEvent =
  TypingEvent_threadId :: string
  TypingEvent_senderId :: string
  TypingEvent_typing :: bool

definition createBaseTypingEvent :: TypingEvent where
  "createBaseTypingEvent = \<lparr>TypingEvent_threadId = '''',
     TypingEvent_senderId = '''',
     TypingEvent_typing = False\<rparr>"

definition TypingEvent_encode :: "('w, 'r) wire \<Rightarrow> TypingEvent \<Rightarrow> 'w writer" where
  "TypingEvent_encode W m = w_seq [
     w_if (TypingEvent_threadId m \<noteq> '''') [w_uint32 W 10, w_string W (TypingEvent_threadId m)],
     w_if (TypingEvent_senderId m \<noteq> '''') [w_uint32 W 18, w_string W (TypingEvent_senderId m)],
     w_if (TypingEvent_typing m \<noteq> False) [w_uint32 W 24, w_bool W (TypingEvent_typing m)]]"

definition TypingEvent_cases :: "('w, 'r) wire \<Rightarrow> ('r, TypingEvent) cases" where
  "TypingEvent_cases W = [
     (1, 10, d_val (r_string W) (\<lambda>v m. m\<lparr>TypingEvent_threadId := v\<rparr>)),
     (2, 18, d_val (r_string W) (\<lambda>v m. m\<lparr>TypingEvent_senderId := v\<rparr>)),
     (3, 24, d_val (r_bool W) (\<lambda>v m. m\<lparr>TypingEvent_typing := v\<rparr>))]"

definition TypingEvent_decode :: "('w, 'r) wire \<Rightarrow> ('r, TypingEvent) decoder" where
  "TypingEvent_decode W = d_message W (TypingEvent_cases W) createBaseTypingEvent"

lemmas TypingEvent_defs = TypingEvent_cases_def createBaseTypingEvent_def

context wire_lib
begin

lemma TypingEvent_codec:
  "codec W stk rem 0 (TypingEvent_encode W) (TypingEvent_cases W) createBaseTypingEvent m"
  by (rule codecI [OF TypingEvent_encode_def],
      rule field_string [where upd = TypingEvent_threadId_update], simp add: TypingEvent_defs, simp add: TypingEvent_defs,
      rule field_string [where upd = TypingEvent_senderId_update], simp add: TypingEvent_defs, simp add: TypingEvent_defs,
      rule field_bool [where upd = TypingEvent_typing_update], simp add: TypingEvent_defs, simp add: TypingEvent_defs,
      rule matched_Nil, cases m, simp add: TypingEvent_defs)

lemma TypingEvent_rt: "1 \<le> d \<Longrightarrow> codec_rt W stk rem d (TypingEvent_encode W) (TypingEvent_decode W) m"
  unfolding TypingEvent_decode_def
  by (rule codec_rt_mono [OF codec_rt_of_codec [OF TypingEvent_codec]]) simp_all

end

context wire_reader
begin

lemma TypingEvent_total [total_rules]: "dec_total W (TypingEvent_decode W)"
  unfolding TypingEvent_decode_def TypingEvent_cases_def by (intro total_rules)

end

subsection \<open>ReadReceiptEvent\<close>

record ReadReceiptEvent =
  ReadReceiptEvent_threadId :: string
  ReadReceiptEvent_readerId :: string
  ReadReceiptEvent_watermark :: "js_date option"

definition createBaseReadReceiptEvent :: ReadReceiptEvent where
  "createBaseReadReceiptEvent = \<lparr>ReadReceiptEvent_threadId = '''',
     ReadReceiptEvent_readerId = '''',
     ReadReceiptEvent_watermark = None\<rparr>"

definition ReadReceiptEvent_encode :: "('w, 'r) wire \<Rightarrow> ReadReceiptEvent \<Rightarrow> 'w writer" where
  "ReadReceiptEvent_encode W m = w_seq [
     w_if (ReadReceiptEvent_threadId m \<noteq> '''') [w_uint32 W 10, w_string W (ReadReceiptEvent_threadId m)],
     w_if (ReadReceiptEvent_readerId m \<noteq> '''') [w_uint32 W 18, w_string W (ReadReceiptEvent_readerId m)],
     w_some (ReadReceiptEvent_watermark m) (\<lambda>v. [w_try (toTimestamp v) (\<lambda>t. [w_uint32 W 26, w_open W, Timestamp_encode W t, w_join W])])]"

definition ReadReceiptEvent_cases :: "('w, 'r) wire \<Rightarrow> ('r, ReadReceiptEvent) cases" where
  "ReadReceiptEvent_cases W = [
     (1, 10, d_val (r_string W) (\<lambda>v m. m\<lparr>ReadReceiptEvent_threadId := v\<rparr>)),
     (2, 18, d_val (r_string W) (\<lambda>v m. m\<lparr>ReadReceiptEvent_readerId := v\<rparr>)),
     (3, 26, d_msg W (Timestamp_decode W) (\<lambda>v m. m\<lparr>ReadReceiptEvent_watermark := Some (fromTimestamp v)\<rparr>))]"

definition ReadReceiptEvent_decode :: "('w, 'r) wire \<Rightarrow> ('r, ReadReceiptEvent) decoder" where
  "ReadReceiptEvent_decode W = d_message W (ReadReceiptEvent_cases W) createBaseReadReceiptEvent"

definition ReadReceiptEvent_ok :: "ReadReceiptEvent \<Rightarrow> bool" where
  "ReadReceiptEvent_ok m \<longleftrightarrow> pred_option js_date_ok (ReadReceiptEvent_watermark m)"

lemmas ReadReceiptEvent_defs = ReadReceiptEvent_cases_def createBaseReadReceiptEvent_def

context wire_lib
begin

lemma ReadReceiptEvent_codec:
  assumes ok: "ReadReceiptEvent_ok m"
  shows "codec W stk rem 1 (ReadReceiptEvent_encode W) (ReadReceiptEvent_cases W) createBaseReadReceiptEvent m"
  by (rule codecI [OF ReadReceiptEvent_encode_def],
      rule field_string [where upd = ReadReceiptEvent_threadId_update], simp add: ReadReceiptEvent_defs, simp add: ReadReceiptEvent_defs,
      rule field_string [where upd = ReadReceiptEvent_readerId_update], simp add: ReadReceiptEvent_defs, simp add: ReadReceiptEvent_defs,
      rule field_conv [where upd = ReadReceiptEvent_watermark_update and unconv = fromTimestamp], rule date_rt, simp, (use ok in \<open>fastforce simp: ReadReceiptEvent_ok_def list_all_iff\<close>), assumption, simp add: ReadReceiptEvent_defs, simp add: ReadReceiptEvent_defs,
      rule matched_Nil, cases m, simp add: ReadReceiptEvent_defs)

lemma ReadReceiptEvent_rt: "2 \<le> d \<Longrightarrow> ReadReceiptEvent_ok m \<Longrightarrow> codec_rt W stk rem d (ReadReceiptEvent_encode W) (ReadReceiptEvent_decode W) m"
  unfolding ReadReceiptEvent_decode_def
  by (rule codec_rt_mono [OF codec_rt_of_codec [OF ReadReceiptEvent_codec]]) simp_all

end

context wire_reader
begin

lemma ReadReceiptEvent_total [total_rules]: "dec_total W (ReadReceiptEvent_decode W)"
  unfolding ReadReceiptEvent_decode_def ReadReceiptEvent_cases_def by (intro total_rules)

end

subsection \<open>DeliveryReceiptEvent\<close>

record DeliveryReceiptEvent =
  DeliveryReceiptEvent_threadId :: string
  DeliveryReceiptEvent_recipientId :: string
  DeliveryReceiptEvent_watermark :: "js_date option"

definition createBaseDeliveryReceiptEvent :: DeliveryReceiptEvent where
  "createBaseDeliveryReceiptEvent = \<lparr>DeliveryReceiptEvent_threadId = '''',
     DeliveryReceiptEvent_recipientId = '''',
     DeliveryReceiptEvent_watermark = None\<rparr>"

definition DeliveryReceiptEvent_encode :: "('w, 'r) wire \<Rightarrow> DeliveryReceiptEvent \<Rightarrow> 'w writer" where
  "DeliveryReceiptEvent_encode W m = w_seq [
     w_if (DeliveryReceiptEvent_threadId m \<noteq> '''') [w_uint32 W 10, w_string W (DeliveryReceiptEvent_threadId m)],
     w_if (DeliveryReceiptEvent_recipientId m \<noteq> '''') [w_uint32 W 18, w_string W (DeliveryReceiptEvent_recipientId m)],
     w_some (DeliveryReceiptEvent_watermark m) (\<lambda>v. [w_try (toTimestamp v) (\<lambda>t. [w_uint32 W 26, w_open W, Timestamp_encode W t, w_join W])])]"

definition DeliveryReceiptEvent_cases :: "('w, 'r) wire \<Rightarrow> ('r, DeliveryReceiptEvent) cases" where
  "DeliveryReceiptEvent_cases W = [
     (1, 10, d_val (r_string W) (\<lambda>v m. m\<lparr>DeliveryReceiptEvent_threadId := v\<rparr>)),
     (2, 18, d_val (r_string W) (\<lambda>v m. m\<lparr>DeliveryReceiptEvent_recipientId := v\<rparr>)),
     (3, 26, d_msg W (Timestamp_decode W) (\<lambda>v m. m\<lparr>DeliveryReceiptEvent_watermark := Some (fromTimestamp v)\<rparr>))]"

definition DeliveryReceiptEvent_decode :: "('w, 'r) wire \<Rightarrow> ('r, DeliveryReceiptEvent) decoder" where
  "DeliveryReceiptEvent_decode W = d_message W (DeliveryReceiptEvent_cases W) createBaseDeliveryReceiptEvent"

definition DeliveryReceiptEvent_ok :: "DeliveryReceiptEvent \<Rightarrow> bool" where
  "DeliveryReceiptEvent_ok m \<longleftrightarrow> pred_option js_date_ok (DeliveryReceiptEvent_watermark m)"

lemmas DeliveryReceiptEvent_defs = DeliveryReceiptEvent_cases_def createBaseDeliveryReceiptEvent_def

context wire_lib
begin

lemma DeliveryReceiptEvent_codec:
  assumes ok: "DeliveryReceiptEvent_ok m"
  shows "codec W stk rem 1 (DeliveryReceiptEvent_encode W) (DeliveryReceiptEvent_cases W) createBaseDeliveryReceiptEvent m"
  by (rule codecI [OF DeliveryReceiptEvent_encode_def],
      rule field_string [where upd = DeliveryReceiptEvent_threadId_update], simp add: DeliveryReceiptEvent_defs, simp add: DeliveryReceiptEvent_defs,
      rule field_string [where upd = DeliveryReceiptEvent_recipientId_update], simp add: DeliveryReceiptEvent_defs, simp add: DeliveryReceiptEvent_defs,
      rule field_conv [where upd = DeliveryReceiptEvent_watermark_update and unconv = fromTimestamp], rule date_rt, simp, (use ok in \<open>fastforce simp: DeliveryReceiptEvent_ok_def list_all_iff\<close>), assumption, simp add: DeliveryReceiptEvent_defs, simp add: DeliveryReceiptEvent_defs,
      rule matched_Nil, cases m, simp add: DeliveryReceiptEvent_defs)

lemma DeliveryReceiptEvent_rt: "2 \<le> d \<Longrightarrow> DeliveryReceiptEvent_ok m \<Longrightarrow> codec_rt W stk rem d (DeliveryReceiptEvent_encode W) (DeliveryReceiptEvent_decode W) m"
  unfolding DeliveryReceiptEvent_decode_def
  by (rule codec_rt_mono [OF codec_rt_of_codec [OF DeliveryReceiptEvent_codec]]) simp_all

end

context wire_reader
begin

lemma DeliveryReceiptEvent_total [total_rules]: "dec_total W (DeliveryReceiptEvent_decode W)"
  unfolding DeliveryReceiptEvent_decode_def DeliveryReceiptEvent_cases_def by (intro total_rules)

end

subsection \<open>MessageEditEvent\<close>

record MessageEditEvent =
  MessageEditEvent_messageId :: string
  MessageEditEvent_text :: string
  MessageEditEvent_editCount :: int

definition createBaseMessageEditEvent :: MessageEditEvent where
  "createBaseMessageEditEvent = \<lparr>MessageEditEvent_messageId = '''',
     MessageEditEvent_text = '''',
     MessageEditEvent_editCount = 0\<rparr>"

definition MessageEditEvent_encode :: "('w, 'r) wire \<Rightarrow> MessageEditEvent \<Rightarrow> 'w writer" where
  "MessageEditEvent_encode W m = w_seq [
     w_if (MessageEditEvent_messageId m \<noteq> '''') [w_uint32 W 10, w_string W (MessageEditEvent_messageId m)],
     w_if (MessageEditEvent_text m \<noteq> '''') [w_uint32 W 18, w_string W (MessageEditEvent_text m)],
     w_if (MessageEditEvent_editCount m \<noteq> 0) [w_check (asIntN64 (MessageEditEvent_editCount m) = MessageEditEvent_editCount m) (too_large ''message.editCount'' ''int64''),
         w_uint32 W 24, w_int64 W (MessageEditEvent_editCount m)]]"

definition MessageEditEvent_cases :: "('w, 'r) wire \<Rightarrow> ('r, MessageEditEvent) cases" where
  "MessageEditEvent_cases W = [
     (1, 10, d_val (r_string W) (\<lambda>v m. m\<lparr>MessageEditEvent_messageId := v\<rparr>)),
     (2, 18, d_val (r_string W) (\<lambda>v m. m\<lparr>MessageEditEvent_text := v\<rparr>)),
     (3, 24, d_val (r_int64 W) (\<lambda>v m. m\<lparr>MessageEditEvent_editCount := v\<rparr>))]"

definition MessageEditEvent_decode :: "('w, 'r) wire \<Rightarrow> ('r, MessageEditEvent) decoder" where
  "MessageEditEvent_decode W = d_message W (MessageEditEvent_cases W) createBaseMessageEditEvent"

lemmas MessageEditEvent_defs = MessageEditEvent_cases_def createBaseMessageEditEvent_def

context wire_lib
begin

lemma MessageEditEvent_codec:
  "codec W stk rem 0 (MessageEditEvent_encode W) (MessageEditEvent_cases W) createBaseMessageEditEvent m"
  by (rule codecI [OF MessageEditEvent_encode_def],
      rule field_string [where upd = MessageEditEvent_messageId_update], simp add: MessageEditEvent_defs, simp add: MessageEditEvent_defs,
      rule field_string [where upd = MessageEditEvent_text_update], simp add: MessageEditEvent_defs, simp add: MessageEditEvent_defs,
      rule field_int64 [where upd = MessageEditEvent_editCount_update], simp add: MessageEditEvent_defs, simp add: MessageEditEvent_defs,
      rule matched_Nil, cases m, simp add: MessageEditEvent_defs)

lemma MessageEditEvent_rt: "1 \<le> d \<Longrightarrow> codec_rt W stk rem d (MessageEditEvent_encode W) (MessageEditEvent_decode W) m"
  unfolding MessageEditEvent_decode_def
  by (rule codec_rt_mono [OF codec_rt_of_codec [OF MessageEditEvent_codec]]) simp_all

end

context wire_reader
begin

lemma MessageEditEvent_total [total_rules]: "dec_total W (MessageEditEvent_decode W)"
  unfolding MessageEditEvent_decode_def MessageEditEvent_cases_def by (intro total_rules)

end

subsection \<open>MessageUnsendEvent\<close>

record MessageUnsendEvent =
  MessageUnsendEvent_messageId :: string
  MessageUnsendEvent_threadId :: string

definition createBaseMessageUnsendEvent :: MessageUnsendEvent where
  "createBaseMessageUnsendEvent = \<lparr>MessageUnsendEvent_messageId = '''',
     MessageUnsendEvent_threadId = ''''\<rparr>"

definition MessageUnsendEvent_encode :: "('w, 'r) wire \<Rightarrow> MessageUnsendEvent \<Rightarrow> 'w writer" where
  "MessageUnsendEvent_encode W m = w_seq [
     w_if (MessageUnsendEvent_messageId m \<noteq> '''') [w_uint32 W 10, w_string W (MessageUnsendEvent_messageId m)],
     w_if (MessageUnsendEvent_threadId m \<noteq> '''') [w_uint32 W 18, w_string W (MessageUnsendEvent_threadId m)]]"

definition MessageUnsendEvent_cases :: "('w, 'r) wire \<Rightarrow> ('r, MessageUnsendEvent) cases" where
  "MessageUnsendEvent_cases W = [
     (1, 10, d_val (r_string W) (\<lambda>v m. m\<lparr>MessageUnsendEvent_messageId := v\<rparr>)),
     (2, 18, d_val (r_string W) (\<lambda>v m. m\<lparr>MessageUnsendEvent_threadId := v\<rparr>))]"

definition MessageUnsendEvent_decode :: "('w, 'r) wire \<Rightarrow> ('r, MessageUnsendEvent) decoder" where
  "MessageUnsendEvent_decode W = d_message W (MessageUnsendEvent_cases W) createBaseMessageUnsendEvent"

lemmas MessageUnsendEvent_defs = MessageUnsendEvent_cases_def createBaseMessageUnsendEvent_def

context wire_lib
begin

lemma MessageUnsendEvent_codec:
  "codec W stk rem 0 (MessageUnsendEvent_encode W) (MessageUnsendEvent_cases W) createBaseMessageUnsendEvent m"
  by (rule codecI [OF MessageUnsendEvent_encode_def],
      rule field_string [where upd = MessageUnsendEvent_messageId_update], simp add: MessageUnsendEvent_defs, simp add: MessageUnsendEvent_defs,
      rule field_string [where upd = MessageUnsendEvent_threadId_update], simp add: MessageUnsendEvent_defs, simp add: MessageUnsendEvent_defs,
      rule matched_Nil, cases m, simp add: MessageUnsendEvent_defs)

lemma MessageUnsendEvent_rt: "1 \<le> d \<Longrightarrow> codec_rt W stk rem d (MessageUnsendEvent_encode W) (MessageUnsendEvent_decode W) m"
  unfolding MessageUnsendEvent_decode_def
  by (rule codec_rt_mono [OF codec_rt_of_codec [OF MessageUnsendEvent_codec]]) simp_all

end

context wire_reader
begin

lemma MessageUnsendEvent_total [total_rules]: "dec_total W (MessageUnsendEvent_decode W)"
  unfolding MessageUnsendEvent_decode_def MessageUnsendEvent_cases_def by (intro total_rules)

end

subsection \<open>ThreadUpdateEvent\<close>

record ThreadUpdateEvent =
  ThreadUpdateEvent_threadId :: string
  ThreadUpdateEvent_field :: string
  ThreadUpdateEvent_value :: string

definition createBaseThreadUpdateEvent :: ThreadUpdateEvent where
  "createBaseThreadUpdateEvent = \<lparr>ThreadUpdateEvent_threadId = '''',
     ThreadUpdateEvent_field = '''',
     ThreadUpdateEvent_value = ''''\<rparr>"

definition ThreadUpdateEvent_encode :: "('w, 'r) wire \<Rightarrow> ThreadUpdateEvent \<Rightarrow> 'w writer" where
  "ThreadUpdateEvent_encode W m = w_seq [
     w_if (ThreadUpdateEvent_threadId m \<noteq> '''') [w_uint32 W 10, w_string W (ThreadUpdateEvent_threadId m)],
     w_if (ThreadUpdateEvent_field m \<noteq> '''') [w_uint32 W 18, w_string W (ThreadUpdateEvent_field m)],
     w_if (ThreadUpdateEvent_value m \<noteq> '''') [w_uint32 W 26, w_string W (ThreadUpdateEvent_value m)]]"

definition ThreadUpdateEvent_cases :: "('w, 'r) wire \<Rightarrow> ('r, ThreadUpdateEvent) cases" where
  "ThreadUpdateEvent_cases W = [
     (1, 10, d_val (r_string W) (\<lambda>v m. m\<lparr>ThreadUpdateEvent_threadId := v\<rparr>)),
     (2, 18, d_val (r_string W) (\<lambda>v m. m\<lparr>ThreadUpdateEvent_field := v\<rparr>)),
     (3, 26, d_val (r_string W) (\<lambda>v m. m\<lparr>ThreadUpdateEvent_value := v\<rparr>))]"

definition ThreadUpdateEvent_decode :: "('w, 'r) wire \<Rightarrow> ('r, ThreadUpdateEvent) decoder" where
  "ThreadUpdateEvent_decode W = d_message W (ThreadUpdateEvent_cases W) createBaseThreadUpdateEvent"

lemmas ThreadUpdateEvent_defs = ThreadUpdateEvent_cases_def createBaseThreadUpdateEvent_def

context wire_lib
begin

lemma ThreadUpdateEvent_codec:
  "codec W stk rem 0 (ThreadUpdateEvent_encode W) (ThreadUpdateEvent_cases W) createBaseThreadUpdateEvent m"
  by (rule codecI [OF ThreadUpdateEvent_encode_def],
      rule field_string [where upd = ThreadUpdateEvent_threadId_update], simp add: ThreadUpdateEvent_defs, simp add: ThreadUpdateEvent_defs,
      rule field_string [where upd = ThreadUpdateEvent_field_update], simp add: ThreadUpdateEvent_defs, simp add: ThreadUpdateEvent_defs,
      rule field_string [where upd = ThreadUpdateEvent_value_update], simp add: ThreadUpdateEvent_defs, simp add: ThreadUpdateEvent_defs,
      rule matched_Nil, cases m, simp add: ThreadUpdateEvent_defs)

lemma ThreadUpdateEvent_rt: "1 \<le> d \<Longrightarrow> codec_rt W stk rem d (ThreadUpdateEvent_encode W) (ThreadUpdateEvent_decode W) m"
  unfolding ThreadUpdateEvent_decode_def
  by (rule codec_rt_mono [OF codec_rt_of_codec [OF ThreadUpdateEvent_codec]]) simp_all

end

context wire_reader
begin

lemma ThreadUpdateEvent_total [total_rules]: "dec_total W (ThreadUpdateEvent_decode W)"
  unfolding ThreadUpdateEvent_decode_def ThreadUpdateEvent_cases_def by (intro total_rules)

end

subsection \<open>E2EEReadyEvent\<close>

datatype E2EEReadyEvent = E2EEReadyEvent

definition createBaseE2EEReadyEvent :: E2EEReadyEvent where
  "createBaseE2EEReadyEvent = E2EEReadyEvent"

definition E2EEReadyEvent_encode :: "('w, 'r) wire \<Rightarrow> E2EEReadyEvent \<Rightarrow> 'w writer" where
  "E2EEReadyEvent_encode W m = w_seq []"

definition E2EEReadyEvent_cases :: "('w, 'r) wire \<Rightarrow> ('r, E2EEReadyEvent) cases" where
  "E2EEReadyEvent_cases W = []"

definition E2EEReadyEvent_decode :: "('w, 'r) wire \<Rightarrow> ('r, E2EEReadyEvent) decoder" where
  "E2EEReadyEvent_decode W = d_message W (E2EEReadyEvent_cases W) createBaseE2EEReadyEvent"

lemmas E2EEReadyEvent_defs = E2EEReadyEvent_cases_def createBaseE2EEReadyEvent_def

context wire_lib
begin

lemma E2EEReadyEvent_codec:
  "codec W stk rem 0 (E2EEReadyEvent_encode W) (E2EEReadyEvent_cases W) createBaseE2EEReadyEvent m"
  by (rule codecI [OF E2EEReadyEvent_encode_def],
      rule matched_Nil, cases m, simp add: E2EEReadyEvent_defs)

lemma E2EEReadyEvent_rt: "1 \<le> d \<Longrightarrow> codec_rt W stk rem d (E2EEReadyEvent_encode W) (E2EEReadyEvent_decode W) m"
  unfolding E2EEReadyEvent_decode_def
  by (rule codec_rt_mono [OF codec_rt_of_codec [OF E2EEReadyEvent_codec]]) simp_all

end

context wire_reader
begin

lemma E2EEReadyEvent_total [total_rules]: "dec_total W (E2EEReadyEvent_decode W)"
  unfolding E2EEReadyEvent_decode_def E2EEReadyEvent_cases_def by (intro total_rules)

end

subsection \<open>E2EEReceiptEvent\<close>

record E2EEReceiptEvent =
  E2EEReceiptEvent_type :: string
  E2EEReceiptEvent_chatJid :: string
  E2EEReceiptEvent_senderJid :: string
  E2EEReceiptEvent_messageIds :: "string list"

definition createBaseE2EEReceiptEvent :: E2EEReceiptEvent where
  "createBaseE2EEReceiptEvent = \<lparr>E2EEReceiptEvent_type = '''',
     E2EEReceiptEvent_chatJid = '''',
     E2EEReceiptEvent_senderJid = '''',
     E2EEReceiptEvent_messageIds = []\<rparr>"

definition E2EEReceiptEvent_encode :: "('w, 'r) wire \<Rightarrow> E2EEReceiptEvent \<Rightarrow> 'w writer" where
  "E2EEReceiptEvent_encode W m = w_seq [
     w_if (E2EEReceiptEvent_type m \<noteq> '''') [w_uint32 W 10, w_string W (E2EEReceiptEvent_type m)],
     w_if (E2EEReceiptEvent_chatJid m \<noteq> '''') [w_uint32 W 18, w_string W (E2EEReceiptEvent_chatJid m)],
     w_if (E2EEReceiptEvent_senderJid m \<noteq> '''') [w_uint32 W 26, w_string W (E2EEReceiptEvent_senderJid m)],
     w_for (E2EEReceiptEvent_messageIds m) (\<lambda>v. [w_uint32 W 34, w_string W v])]"

definition E2EEReceiptEvent_cases :: "('w, 'r) wire \<Rightarrow> ('r, E2EEReceiptEvent) cases" where
  "E2EEReceiptEvent_cases W = [
     (1, 10, d_val (r_string W) (\<lambda>v m. m\<lparr>E2EEReceiptEvent_type := v\<rparr>)),
     (2, 18, d_val (r_string W) (\<lambda>v m. m\<lparr>E2EEReceiptEvent_chatJid := v\<rparr>)),
     (3, 26, d_val (r_string W) (\<lambda>v m. m\<lparr>E2EEReceiptEvent_senderJid := v\<rparr>)),
     (4, 34, d_val (r_string W) (\<lambda>v m. m\<lparr>E2EEReceiptEvent_messageIds := E2EEReceiptEvent_messageIds m @ [v]\<rparr>))]"

definition E2EEReceiptEvent_decode :: "('w, 'r) wire \<Rightarrow> ('r, E2EEReceiptEvent) decoder" where
  "E2EEReceiptEvent_decode W = d_message W (E2EEReceiptEvent_cases W) createBaseE2EEReceiptEvent"

lemmas E2EEReceiptEvent_defs = E2EEReceiptEvent_cases_def createBaseE2EEReceiptEvent_def

context wire_lib
begin

lemma E2EEReceiptEvent_codec:
  "codec W stk rem 0 (E2EEReceiptEvent_encode W) (E2EEReceiptEvent_cases W) createBaseE2EEReceiptEvent m"
  by (rule codecI [OF E2EEReceiptEvent_encode_def],
      rule field_string [where upd = E2EEReceiptEvent_type_update], simp add: E2EEReceiptEvent_defs, simp add: E2EEReceiptEvent_defs,
      rule field_string [where upd = E2EEReceiptEvent_chatJid_update], simp add: E2EEReceiptEvent_defs, simp add: E2EEReceiptEvent_defs,
      rule field_string [where upd = E2EEReceiptEvent_senderJid_update], simp add: E2EEReceiptEvent_defs, simp add: E2EEReceiptEvent_defs,
      rule field_push_string [where upd = E2EEReceiptEvent_messageIds_update and sel = E2EEReceiptEvent_messageIds], simp add: E2EEReceiptEvent_defs, simp add: E2EEReceiptEvent_defs, simp add: E2EEReceiptEvent_defs,
      rule matched_Nil, cases m, simp add: E2EEReceiptEvent_defs)

lemma E2EEReceiptEvent_rt: "1 \<le> d \<Longrightarrow> codec_rt W stk rem d (E2EEReceiptEvent_encode W) (E2EEReceiptEvent_decode W) m"
  unfolding E2EEReceiptEvent_decode_def
  by (rule codec_rt_mono [OF codec_rt_of_codec [OF E2EEReceiptEvent_codec]]) simp_all

end

context wire_reader
begin

lemma E2EEReceiptEvent_total [total_rules]: "dec_total W (E2EEReceiptEvent_decode W)"
  unfolding E2EEReceiptEvent_decode_def E2EEReceiptEvent_cases_def by (intro total_rules)

end

subsection \<open>ThreadSystemEvent\<close>

record ThreadSystemEvent =
  ThreadSystemEvent_kind :: int
  ThreadSystemEvent_threadId :: string
  ThreadSystemEvent_participantId :: string
  ThreadSystemEvent_messageId :: string
  ThreadSystemEvent_pollId :: string
  ThreadSystemEvent_nickname :: string
  ThreadSystemEvent_emoji :: string
  ThreadSystemEvent_enabled :: bool
  ThreadSystemEvent_pinned :: bool
  ThreadSystemEvent_isAdmin :: bool

definition createBaseThreadSystemEvent :: ThreadSystemEvent where
  "createBaseThreadSystemEvent = \<lparr>ThreadSystemEvent_kind = 0,
     ThreadSystemEvent_threadId = '''',
     ThreadSystemEvent_participantId = '''',
     ThreadSystemEvent_messageId = '''',
     ThreadSystemEvent_pollId = '''',
     ThreadSystemEvent_nickname = '''',
     ThreadSystemEvent_emoji = '''',
     ThreadSystemEvent_enabled = False,
     ThreadSystemEvent_pinned = False,
     ThreadSystemEvent_isAdmin = False\<rparr>"

definition ThreadSystemEvent_encode :: "('w, 'r) wire \<Rightarrow> ThreadSystemEvent \<Rightarrow> 'w writer" where
  "ThreadSystemEvent_encode W m = w_seq [
     w_if (ThreadSystemEvent_kind m \<noteq> 0) [w_uint32 W 8, w_int32 W (ThreadSystemEvent_kind m)],
     w_if (ThreadSystemEvent_threadId m \<noteq> '''') [w_uint32 W 18, w_string W (ThreadSystemEvent_threadId m)],
     w_if (ThreadSystemEvent_participantId m \<noteq> '''') [w_uint32 W 26, w_string W (ThreadSystemEvent_participantId m)],
     w_if (ThreadSystemEvent_messageId m \<noteq> '''') [w_uint32 W 34, w_string W (ThreadSystemEvent_messageId m)],
     w_if (ThreadSystemEvent_pollId m \<noteq> '''') [w_uint32 W 42, w_string W (ThreadSystemEvent_pollId m)],
     w_if (ThreadSystemEvent_nickname m \<noteq> '''') [w_uint32 W 50, w_string W (ThreadSystemEvent_nickname m)],
     w_if (ThreadSystemEvent_emoji m \<noteq> '''') [w_uint32 W 58, w_string W (ThreadSystemEvent_emoji m)],
     w_if (ThreadSystemEvent_enabled m \<noteq> False) [w_uint32 W 64, w_bool W (ThreadSystemEvent_enabled m)],
     w_if (ThreadSystemEvent_pinned m \<noteq> False) [w_uint32 W 72, w_bool W (ThreadSystemEvent_pinned m)],
     w_if (ThreadSystemEvent_isAdmin m \<noteq> False) [w_uint32 W 80, w_bool W (ThreadSystemEvent_isAdmin m)]]"

definition ThreadSystemEvent_cases :: "('w, 'r) wire \<Rightarrow> ('r, ThreadSystemEvent) cases" where
  "ThreadSystemEvent_cases W = [
     (1, 8, d_val (r_int32 W) (\<lambda>v m. m\<lparr>ThreadSystemEvent_kind := v\<rparr>)),
     (2, 18, d_val (r_string W) (\<lambda>v m. m\<lparr>ThreadSystemEvent_threadId := v\<rparr>)),
     (3, 26, d_val (r_string W) (\<lambda>v m. m\<lparr>ThreadSystemEvent_participantId := v\<rparr>)),
     (4, 34, d_val (r_string W) (\<lambda>v m. m\<lparr>ThreadSystemEvent_messageId := v\<rparr>)),
     (5, 42, d_val (r_string W) (\<lambda>v m. m\<lparr>ThreadSystemEvent_pollId := v\<rparr>)),
     (6, 50, d_val (r_string W) (\<lambda>v m. m\<lparr>ThreadSystemEvent_nickname := v\<rparr>)),
     (7, 58, d_val (r_string W) (\<lambda>v m. m\<lparr>ThreadSystemEvent_emoji := v\<rparr>)),
     (8, 64, d_val (r_bool W) (\<lambda>v m. m\<lparr>ThreadSystemEvent_enabled := v\<rparr>)),
     (9, 72, d_val (r_bool W) (\<lambda>v m. m\<lparr>ThreadSystemEvent_pinned := v\<rparr>)),
     (10, 80, d_val (r_bool W) (\<lambda>v m. m\<lparr>ThreadSystemEvent_isAdmin := v\<rparr>))]"

definition ThreadSystemEvent_decode :: "('w, 'r) wire \<Rightarrow> ('r, ThreadSystemEvent) decoder" where
  "ThreadSystemEvent_decode W = d_message W (ThreadSystemEvent_cases W) createBaseThreadSystemEvent"

lemmas ThreadSystemEvent_defs = ThreadSystemEvent_cases_def createBaseThreadSystemEvent_def

context wire_lib
begin

lemma ThreadSystemEvent_codec:
  "codec W stk rem 0 (ThreadSystemEvent_encode W) (ThreadSystemEvent_cases W) createBaseThreadSystemEvent m"
  by (rule codecI [OF ThreadSystemEvent_encode_def],
      rule field_int32 [where upd = ThreadSystemEvent_kind_update], simp add: ThreadSystemEvent_defs, simp add: ThreadSystemEvent_defs,
      rule field_string [where upd = ThreadSystemEvent_threadId_update], simp add: ThreadSystemEvent_defs, simp add: ThreadSystemEvent_defs,
      rule field_string [where upd = ThreadSystemEvent_participantId_update], simp add: ThreadSystemEvent_defs, simp add: ThreadSystemEvent_defs,
      rule field_string [where upd = ThreadSystemEvent_messageId_update], simp add: ThreadSystemEvent_defs, simp add: ThreadSystemEvent_defs,
      rule field_string [where upd = ThreadSystemEvent_pollId_update], simp add: ThreadSystemEvent_defs, simp add: ThreadSystemEvent_defs,
      rule field_string [where upd = ThreadSystemEvent_nickname_update], simp add: ThreadSystemEvent_defs, simp add: ThreadSystemEvent_defs,
      rule field_string [where upd = ThreadSystemEvent_emoji_update], simp add: ThreadSystemEvent_defs, simp add: ThreadSystemEvent_defs,
      rule field_bool [where upd = ThreadSystemEvent_enabled_update], simp add: ThreadSystemEvent_defs, simp add: ThreadSystemEvent_defs,
      rule field_bool [where upd = ThreadSystemEvent_pinned_update], simp add: ThreadSystemEvent_defs, simp add: ThreadSystemEvent_defs,
      rule field_bool [where upd = ThreadSystemEvent_isAdmin_update], simp add: ThreadSystemEvent_defs, simp add: ThreadSystemEvent_defs,
      rule matched_Nil, cases m, simp add: ThreadSystemEvent_defs)

lemma ThreadSystemEvent_rt: "1 \<le> d \<Longrightarrow> codec_rt W stk rem d (ThreadSystemEvent_encode W) (ThreadSystemEvent_decode W) m"
  unfolding ThreadSystemEvent_decode_def
  by (rule codec_rt_mono [OF codec_rt_of_codec [OF ThreadSystemEvent_codec]]) simp_all

end

context wire_reader
begin

lemma ThreadSystemEvent_total [total_rules]: "dec_total W (ThreadSystemEvent_decode W)"
  unfolding ThreadSystemEvent_decode_def ThreadSystemEvent_cases_def by (intro total_rules)

end

subsection \<open>Event\<close>

datatype Event_payload_case =
    Event_payload_ready ReadyEvent
  | Event_payload_reconnected ReconnectedEvent
  | Event_payload_disconnected DisconnectedEvent
  | Event_payload_error ErrorEvent
  | Event_payload_message MessageEvent
  | Event_payload_reaction ReactionEvent
  | Event_payload_typing TypingEvent
  | Event_payload_readReceipt ReadReceiptEvent
  | Event_payload_deliveryReceipt DeliveryReceiptEvent
  | Event_payload_messageEdit MessageEditEvent
  | Event_payload_messageUnsend MessageUnsendEvent
  | Event_payload_threadUpdate ThreadUpdateEvent
  | Event_payload_e2eeReady E2EEReadyEvent
  | Event_payload_e2eeReceipt E2EEReceiptEvent
  | Event_payload_threadSystem ThreadSystemEvent

record Event =
  Event_sessionId :: string
  Event_sequence :: int
  Event_emittedAt :: "js_date option"
  Event_payload :: "Event_payload_case option"

definition createBaseEvent :: Event where
  "createBaseEvent = \<lparr>Event_sessionId = '''',
     Event_sequence = 0,
     Event_emittedAt = None,
     Event_payload = None\<rparr>"

definition Event_payload_encode :: "('w, 'r) wire \<Rightarrow> Event_payload_case \<Rightarrow> 'w writer list" where
  "Event_payload_encode W c = (case c of
       Event_payload_ready v \<Rightarrow> [w_uint32 W 82, w_open W, ReadyEvent_encode W v, w_join W]
     | Event_payload_reconnected v \<Rightarrow> [w_uint32 W 90, w_open W, ReconnectedEvent_encode W v, w_join W]
     | Event_payload_disconnected v \<Rightarrow> [w_uint32 W 98, w_open W, DisconnectedEvent_encode W v, w_join W]
     | Event_payload_error v \<Rightarrow> [w_uint32 W 106, w_open W, ErrorEvent_encode W v, w_join W]
     | Event_payload_message v \<Rightarrow> [w_uint32 W 114, w_open W, MessageEvent_encode W v, w_join W]
     | Event_payload_reaction v \<Rightarrow> [w_uint32 W 122, w_open W, ReactionEvent_encode W v, w_join W]
     | Event_payload_typing v \<Rightarrow> [w_uint32 W 130, w_open W, TypingEvent_encode W v, w_join W]
     | Event_payload_readReceipt v \<Rightarrow> [w_uint32 W 138, w_open W, ReadReceiptEvent_encode W v, w_join W]
     | Event_payload_deliveryReceipt v \<Rightarrow> [w_uint32 W 146, w_open W, DeliveryReceiptEvent_encode W v, w_join W]
     | Event_payload_messageEdit v \<Rightarrow> [w_uint32 W 154, w_open W, MessageEditEvent_encode W v, w_join W]
     | Event_payload_messageUnsend v \<Rightarrow> [w_uint32 W 162, w_open W, MessageUnsendEvent_encode W v, w_join W]
     | Event_payload_threadUpdate v \<Rightarrow> [w_uint32 W 170, w_open W, ThreadUpdateEvent_encode W v, w_join W]
     | Event_payload_e2eeReady v \<Rightarrow> [w_uint32 W 178, w_open W, E2EEReadyEvent_encode W v, w_join W]
     | Event_payload_e2eeReceipt v \<Rightarrow> [w_uint32 W 186, w_open W, E2EEReceiptEvent_encode W v, w_join W]
     | Event_payload_threadSystem v \<Rightarrow> [w_uint32 W 194, w_open W, ThreadSystemEvent_encode W v, w_join W])"

definition Event_encode :: "('w, 'r) wire \<Rightarrow> Event \<Rightarrow> 'w writer" where
  "Event_encode W m = w_seq [
     w_if (Event_sessionId m \<noteq> '''') [w_uint32 W 10, w_string W (Event_sessionId m)],
     w_if (Event_sequence m \<noteq> 0) [w_check (asUintN64 (Event_sequence m) = Event_sequence m) (too_large ''message.sequence'' ''uint64''),
         w_uint32 W 16, w_uint64 W (Event_sequence m)],
     w_some (Event_emittedAt m) (\<lambda>v. [w_try (toTimestamp v) (\<lambda>t. [w_uint32 W 26, w_open W, Timestamp_encode W t, w_join W])]),
     w_some (Event_payload m) (Event_payload_encode W)]"

definition Event_cases :: "('w, 'r) wire \<Rightarrow> ('r, Event) cases" where
  "Event_cases W = [
     (1, 10, d_val (r_string W) (\<lambda>v m. m\<lparr>Event_sessionId := v\<rparr>)),
     (2, 16, d_val (r_uint64 W) (\<lambda>v m. m\<lparr>Event_sequence := v\<rparr>)),
     (3, 26, d_msg W (Timestamp_decode W) (\<lambda>v m. m\<lparr>Event_emittedAt := Some (fromTimestamp v)\<rparr>)),
     (10, 82, d_msg W (ReadyEvent_decode W)
        (\<lambda>v m. m\<lparr>Event_payload := Some (Event_payload_ready v)\<rparr>)),
     (11, 90, d_msg W (ReconnectedEvent_decode W)
        (\<lambda>v m. m\<lparr>Event_payload := Some (Event_payload_reconnected v)\<rparr>)),
     (12, 98, d_msg W (DisconnectedEvent_decode W)
        (\<lambda>v m. m\<lparr>Event_payload := Some (Event_payload_disconnected v)\<rparr>)),
     (13, 106, d_msg W (ErrorEvent_decode W)
        (\<lambda>v m. m\<lparr>Event_payload := Some (Event_payload_error v)\<rparr>)),
     (14, 114, d_msg W (MessageEvent_decode W)
        (\<lambda>v m. m\<lparr>Event_payload := Some (Event_payload_message v)\<rparr>)),
     (15, 122, d_msg W (ReactionEvent_decode W)
        (\<lambda>v m. m\<lparr>Event_payload := Some (Event_payload_reaction v)\<rparr>)),
     (16, 130, d_msg W (TypingEvent_decode W)
        (\<lambda>v m. m\<lparr>Event_payload := Some (Event_payload_typing v)\<rparr>)),
     (17, 138, d_msg W (ReadReceiptEvent_decode W)
        (\<lambda>v m. m\<lparr>Event_payload := Some (Event_payload_readReceipt v)\<rparr>)),
     (18, 146, d_msg W (DeliveryReceiptEvent_decode W)
        (\<lambda>v m. m\<lparr>Event_payload := Some (Event_payload_deliveryReceipt v)\<rparr>)),
     (19, 154, d_msg W (MessageEditEvent_decode W)
        (\<lambda>v m. m\<lparr>Event_payload := Some (Event_payload_messageEdit v)\<rparr>)),
     (20, 162, d_msg W (MessageUnsendEvent_decode W)
        (\<lambda>v m. m\<lparr>Event_payload := Some (Event_payload_messageUnsend v)\<rparr>)),
     (21, 170, d_msg W (ThreadUpdateEvent_decode W)
        (\<lambda>v m. m\<lparr>Event_payload := Some (Event_payload_threadUpdate v)\<rparr>)),
     (22, 178, d_msg W (E2EEReadyEvent_decode W)
        (\<lambda>v m. m\<lparr>Event_payload := Some (Event_payload_e2eeReady v)\<rparr>)),
     (23, 186, d_msg W (E2EEReceiptEvent_decode W)
        (\<lambda>v m. m\<lparr>Event_payload := Some (Event_payload_e2eeReceipt v)\<rparr>)),
     (24, 194, d_msg W (ThreadSystemEvent_decode W)
        (\<lambda>v m. m\<lparr>Event_payload := Some (Event_payload_threadSystem v)\<rparr>))]"

definition Event_decode :: "('w, 'r) wire \<Rightarrow> ('r, Event) decoder" where
  "Event_decode W = d_message W (Event_cases W) createBaseEvent"

definition Event_payload_case_ok :: "Event_payload_case \<Rightarrow> bool" where
  "Event_payload_case_ok c = (case c of
       Event_payload_ready v \<Rightarrow> True
     | Event_payload_reconnected v \<Rightarrow> True
     | Event_payload_disconnected v \<Rightarrow> True
     | Event_payload_error v \<Rightarrow> ErrorEvent_ok v
     | Event_payload_message v \<Rightarrow> MessageEvent_ok v
     | Event_payload_reaction v \<Rightarrow> True
     | Event_payload_typing v \<Rightarrow> True
     | Event_payload_readReceipt v \<Rightarrow> ReadReceiptEvent_ok v
     | Event_payload_deliveryReceipt v \<Rightarrow> DeliveryReceiptEvent_ok v
     | Event_payload_messageEdit v \<Rightarrow> True
     | Event_payload_messageUnsend v \<Rightarrow> True
     | Event_payload_threadUpdate v \<Rightarrow> True
     | Event_payload_e2eeReady v \<Rightarrow> True
     | Event_payload_e2eeReceipt v \<Rightarrow> True
     | Event_payload_threadSystem v \<Rightarrow> True)"

definition Event_ok :: "Event \<Rightarrow> bool" where
  "Event_ok m \<longleftrightarrow> pred_option js_date_ok (Event_emittedAt m) \<and>
     pred_option Event_payload_case_ok (Event_payload m)"

lemmas Event_defs = Event_cases_def createBaseEvent_def

context wire_lib
begin

lemma Event_payload_matched:
    assumes ok: "Event_payload_case_ok c"
  shows "matched W stk rem 4 (Event_cases W) (Event_payload_encode W c) m (m\<lparr>Event_payload := Some c\<rparr>)"
proof (cases c)
  case (Event_payload_ready v)
  show ?thesis
    by (simp add: Event_payload_ready Event_payload_encode_def, rule matched_msg, rule ReadyEvent_rt, simp, simp add: Event_defs, simp)
next
  case (Event_payload_reconnected v)
  show ?thesis
    by (simp add: Event_payload_reconnected Event_payload_encode_def, rule matched_msg, rule ReconnectedEvent_rt, simp, simp add: Event_defs, simp)
next
  case (Event_payload_disconnected v)
  show ?thesis
    by (simp add: Event_payload_disconnected Event_payload_encode_def, rule matched_msg, rule DisconnectedEvent_rt, simp, simp add: Event_defs, simp)
next
  case (Event_payload_error v)
  show ?thesis
    by (simp add: Event_payload_error Event_payload_encode_def, rule matched_msg, rule ErrorEvent_rt, simp, (use ok in \<open>simp add: Event_payload_error Event_payload_case_ok_def\<close>), simp add: Event_defs, simp)
next
  case (Event_payload_message v)
  show ?thesis
    by (simp add: Event_payload_message Event_payload_encode_def, rule matched_msg, rule MessageEvent_rt, simp, (use ok in \<open>simp add: Event_payload_message Event_payload_case_ok_def\<close>), simp add: Event_defs, simp)
next
  case (Event_payload_reaction v)
  show ?thesis
    by (simp add: Event_payload_reaction Event_payload_encode_def, rule matched_msg, rule ReactionEvent_rt, simp, simp add: Event_defs, simp)
next
  case (Event_payload_typing v)
  show ?thesis
    by (simp add: Event_payload_typing Event_payload_encode_def, rule matched_msg, rule TypingEvent_rt, simp, simp add: Event_defs, simp)
next
  case (Event_payload_readReceipt v)
  show ?thesis
    by (simp add: Event_payload_readReceipt Event_payload_encode_def, rule matched_msg, rule ReadReceiptEvent_rt, simp, (use ok in \<open>simp add: Event_payload_readReceipt Event_payload_case_ok_def\<close>), simp add: Event_defs, simp)
next
  case (Event_payload_deliveryReceipt v)
  show ?thesis
    by (simp add: Event_payload_deliveryReceipt Event_payload_encode_def, rule matched_msg, rule DeliveryReceiptEvent_rt, simp, (use ok in \<open>simp add: Event_payload_deliveryReceipt Event_payload_case_ok_def\<close>), simp add: Event_defs, simp)
next
  case (Event_payload_messageEdit v)
  show ?thesis
    by (simp add: Event_payload_messageEdit Event_payload_encode_def, rule matched_msg, rule MessageEditEvent_rt, simp, simp add: Event_defs, simp)
next
  case (Event_payload_messageUnsend v)
  show ?thesis
    by (simp add: Event_payload_messageUnsend Event_payload_encode_def, rule matched_msg, rule MessageUnsendEvent_rt, simp, simp add: Event_defs, simp)
next
  case (Event_payload_threadUpdate v)
  show ?thesis
    by (simp add: Event_payload_threadUpdate Event_payload_encode_def, rule matched_msg, rule ThreadUpdateEvent_rt, simp, simp add: Event_defs, simp)
next
  case (Event_payload_e2eeReady v)
  show ?thesis
    by (simp add: Event_payload_e2eeReady Event_payload_encode_def, rule matched_msg, rule E2EEReadyEvent_rt, simp, simp add: Event_defs, simp)
next
  case (Event_payload_e2eeReceipt v)
  show ?thesis
    by (simp add: Event_payload_e2eeReceipt Event_payload_encode_def, rule matched_msg, rule E2EEReceiptEvent_rt, simp, simp add: Event_defs, simp)
next
  case (Event_payload_threadSystem v)
  show ?thesis
    by (simp add: Event_payload_threadSystem Event_payload_encode_def, rule matched_msg, rule ThreadSystemEvent_rt, simp, simp add: Event_defs, simp)
qed

lemma Event_codec:
  assumes ok: "Event_ok m"
  shows "codec W stk rem 4 (Event_encode W) (Event_cases W) createBaseEvent m"
  by (rule codecI [OF Event_encode_def],
      rule field_string [where upd = Event_sessionId_update], simp add: Event_defs, simp add: Event_defs,
      rule field_uint64 [where upd = Event_sequence_update], simp add: Event_defs, simp add: Event_defs,
      rule field_conv [where upd = Event_emittedAt_update and unconv = fromTimestamp], rule date_rt, simp, (use ok in \<open>fastforce simp: Event_ok_def list_all_iff\<close>), assumption, simp add: Event_defs, simp add: Event_defs,
      rule field_some [where upd = Event_payload_update], rule Event_payload_matched, (use ok in \<open>fastforce simp: Event_ok_def list_all_iff\<close>), simp add: Event_defs,
      rule matched_Nil, cases m, simp add: Event_defs)

lemma Event_rt: "5 \<le> d \<Longrightarrow> Event_ok m \<Longrightarrow> codec_rt W stk rem d (Event_encode W) (Event_decode W) m"
  unfolding Event_decode_def
  by (rule codec_rt_mono [OF codec_rt_of_codec [OF Event_codec]]) simp_all

end

context wire_reader
begin

lemma Event_total [total_rules]: "dec_total W (Event_decode W)"
  unfolding Event_decode_def Event_cases_def by (intro total_rules)

end

end
