(* ===== verification/Gen_Session.thy ===== *)
theory Gen_Session
  imports Gen_Health Gen_Events
begin

text \<open>
  Messages of \<open>sdk/node/src/gen/meta/v1/session.ts\<close>: the session service: authentication, health, event subscription.
  For every message: its interface as a record (or a datatype without fields), \<open>createBase\<close>,
  \<open>encode\<close> as the sequence of its writer calls, and \<open>decode\<close> as the cases of its
  switch; a union field is a datatype with one constructor per \<open>$case\<close>.  \<open>_ok\<close> holds of
  the values a TypeScript program can build: objects built by assignment and dates in range.
  Then the round trip of the message and the totality of its decoder.
\<close>

subsection \<open>CreateSessionRequest_CookiesEntry\<close>

record CreateSessionRequest_CookiesEntry =
  CreateSessionRequest_CookiesEntry_key :: string
  CreateSessionRequest_CookiesEntry_value :: string

definition createBaseCreateSessionRequest_CookiesEntry :: CreateSessionRequest_CookiesEntry where
  "createBaseCreateSessionRequest_CookiesEntry = \<lparr>CreateSessionRequest_CookiesEntry_key = '''',
     CreateSessionRequest_CookiesEntry_value = ''''\<rparr>"

definition CreateSessionRequest_CookiesEntry_encode :: "('w, 'r) wire \<Rightarrow> CreateSessionRequest_CookiesEntry \<Rightarrow> 'w writer" where
  "CreateSessionRequest_CookiesEntry_encode W m = w_seq [
     w_if (CreateSessionRequest_CookiesEntry_key m \<noteq> '''') [w_uint32 W 10, w_string W (CreateSessionRequest_CookiesEntry_key m)],
     w_if (CreateSessionRequest_CookiesEntry_value m \<noteq> '''') [w_uint32 W 18, w_string W (CreateSessionRequest_CookiesEntry_value m)]]"

definition CreateSessionRequest_CookiesEntry_cases :: "('w, 'r) wire \<Rightarrow> ('r, CreateSessionRequest_CookiesEntry) cases" where
  "CreateSessionRequest_CookiesEntry_cases W = [
     (1, 10, d_val (r_string W) (\<lambda>v m. m\<lparr>CreateSessionRequest_CookiesEntry_key := v\<rparr>)),
     (2, 18, d_val (r_string W) (\<lambda>v m. m\<lparr>CreateSessionRequest_CookiesEntry_value := v\<rparr>))]"

definition CreateSessionRequest_CookiesEntry_decode :: "('w, 'r) wire \<Rightarrow> ('r, CreateSessionRequest_CookiesEntry) decoder" where
  "CreateSessionRequest_CookiesEntry_decode W = d_message W (CreateSessionRequest_CookiesEntry_cases W) createBaseCreateSessionRequest_CookiesEntry"

lemmas CreateSessionRequest_CookiesEntry_defs = CreateSessionRequest_CookiesEntry_cases_def createBaseCreateSessionRequest_CookiesEntry_def

context wire_lib
begin

lemma CreateSessionRequest_CookiesEntry_codec:
  "codec W stk rem 0 (CreateSessionRequest_CookiesEntry_encode W) (CreateSessionRequest_CookiesEntry_cases W) createBaseCreateSessionRequest_CookiesEntry m"
  by (rule codecI [OF CreateSessionRequest_CookiesEntry_encode_def],
      rule field_string [where upd = CreateSessionRequest_CookiesEntry_key_update], simp add: CreateSessionRequest_CookiesEntry_defs, simp add: CreateSessionRequest_CookiesEntry_defs,
      rule field_string [where upd = CreateSessionRequest_CookiesEntry_value_update], simp add: CreateSessionRequest_CookiesEntry_defs, simp add: CreateSessionRequest_CookiesEntry_defs,
      rule matched_Nil, cases m, simp add: CreateSessionRequest_CookiesEntry_defs)

lemma CreateSessionRequest_CookiesEntry_rt: "1 \<le> d \<Longrightarrow> codec_rt W stk rem d (CreateSessionRequest_CookiesEntry_encode W) (CreateSessionRequest_CookiesEntry_decode W) m"
  unfolding CreateSessionRequest_CookiesEntry_decode_def
  by (rule codec_rt_mono [OF codec_rt_of_codec [OF CreateSessionRequest_CookiesEntry_codec]]) simp_all

end

context wire_reader
begin

lemma CreateSessionRequest_CookiesEntry_total [total_rules]: "dec_total W (CreateSessionRequest_CookiesEntry_decode W)"
  unfolding CreateSessionRequest_CookiesEntry_decode_def CreateSessionRequest_CookiesEntry_cases_def by (intro total_rules)

end

subsection \<open>CookieMap_ValuesEntry\<close>

record CookieMap_ValuesEntry =
  CookieMap_ValuesEntry_key :: string
  CookieMap_ValuesEntry_value :: string

definition createBaseCookieMap_ValuesEntry :: CookieMap_ValuesEntry where
  "createBaseCookieMap_ValuesEntry = \<lparr>CookieMap_ValuesEntry_key = '''',
     CookieMap_ValuesEntry_value = ''''\<rparr>"

definition CookieMap_ValuesEntry_encode :: "('w, 'r) wire \<Rightarrow> CookieMap_ValuesEntry \<Rightarrow> 'w writer" where
  "CookieMap_ValuesEntry_encode W m = w_seq [
     w_if (CookieMap_ValuesEntry_key m \<noteq> '''') [w_uint32 W 10, w_string W (CookieMap_ValuesEntry_key m)],
     w_if (CookieMap_ValuesEntry_value m \<noteq> '''') [w_uint32 W 18, w_string W (CookieMap_ValuesEntry_value m)]]"

definition CookieMap_ValuesEntry_cases :: "('w, 'r) wire \<Rightarrow> ('r, CookieMap_ValuesEntry) cases" where
  "CookieMap_ValuesEntry_cases W = [
     (1, 10, d_val (r_string W) (\<lambda>v m. m\<lparr>CookieMap_ValuesEntry_key := v\<rparr>)),
     (2, 18, d_val (r_string W) (\<lambda>v m. m\<lparr>CookieMap_ValuesEntry_value := v\<rparr>))]"

definition CookieMap_ValuesEntry_decode :: "('w, 'r) wire \<Rightarrow> ('r, CookieMap_ValuesEntry) decoder" where
  "CookieMap_ValuesEntry_decode W = d_message W (CookieMap_ValuesEntry_cases W) createBaseCookieMap_ValuesEntry"

lemmas CookieMap_ValuesEntry_defs = CookieMap_ValuesEntry_cases_def createBaseCookieMap_ValuesEntry_def

context wire_lib
begin

lemma CookieMap_ValuesEntry_codec:
  "codec W stk rem 0 (CookieMap_ValuesEntry_encode W) (CookieMap_ValuesEntry_cases W) createBaseCookieMap_ValuesEntry m"
  by (rule codecI [OF CookieMap_ValuesEntry_encode_def],
      rule field_string [where upd = CookieMap_ValuesEntry_key_update], simp add: CookieMap_ValuesEntry_defs, simp add: CookieMap_ValuesEntry_defs,
      rule field_string [where upd = CookieMap_ValuesEntry_value_update], simp add: CookieMap_ValuesEntry_defs, simp add: CookieMap_ValuesEntry_defs,
      rule matched_Nil, cases m, simp add: CookieMap_ValuesEntry_defs)

lemma CookieMap_ValuesEntry_rt: "1 \<le> d \<Longrightarrow> codec_rt W stk rem d (CookieMap_ValuesEntry_encode W) (CookieMap_ValuesEntry_decode W) m"
  unfolding CookieMap_ValuesEntry_decode_def
  by (rule codec_rt_mono [OF codec_rt_of_codec [OF CookieMap_ValuesEntry_codec]]) simp_all

end

context wire_reader
begin

lemma CookieMap_ValuesEntry_total [total_rules]: "dec_total W (CookieMap_ValuesEntry_decode W)"
  unfolding CookieMap_ValuesEntry_decode_def CookieMap_ValuesEntry_cases_def by (intro total_rules)

end

subsection \<open>CookieMap\<close>

record CookieMap =
  CookieMap_values :: js_object

definition createBaseCookieMap :: CookieMap where
  "createBaseCookieMap = \<lparr>CookieMap_values = []\<rparr>"

definition CookieMap_encode :: "('w, 'r) wire \<Rightarrow> CookieMap \<Rightarrow> 'w writer" where
  "CookieMap_encode W m = w_seq [
     w_for (CookieMap_values m) (\<lambda>(key, value). [w_uint32 W 10, w_open W,
         CookieMap_ValuesEntry_encode W \<lparr>CookieMap_ValuesEntry_key = key, CookieMap_ValuesEntry_value = value\<rparr>, w_join W])]"

definition CookieMap_cases :: "('w, 'r) wire \<Rightarrow> ('r, CookieMap) cases" where
  "CookieMap_cases W = [
     (1, 10, d_msg W (CookieMap_ValuesEntry_decode W)
        (\<lambda>e m. m\<lparr>CookieMap_values := js_set (CookieMap_values m) (CookieMap_ValuesEntry_key e) (CookieMap_ValuesEntry_value e)\<rparr>))]"

definition CookieMap_decode :: "('w, 'r) wire \<Rightarrow> ('r, CookieMap) decoder" where
  "CookieMap_decode W = d_message W (CookieMap_cases W) createBaseCookieMap"

definition CookieMap_ok :: "CookieMap \<Rightarrow> bool" where
  "CookieMap_ok m \<longleftrightarrow> js_object_ok (CookieMap_values m)"

lemmas CookieMap_defs = CookieMap_cases_def createBaseCookieMap_def

context wire_lib
begin

lemma CookieMap_codec:
  assumes ok: "CookieMap_ok m"
  shows "codec W stk rem 1 (CookieMap_encode W) (CookieMap_cases W) createBaseCookieMap m"
  by (rule codecI [OF CookieMap_encode_def],
      rule field_entries [where upd = CookieMap_values_update and sel = CookieMap_values and key = CookieMap_ValuesEntry_key and val = CookieMap_ValuesEntry_value],
      rule CookieMap_ValuesEntry_rt, simp, simp add: CookieMap_defs, simp, simp add: CookieMap_defs, simp add: CookieMap_defs, (use ok in \<open>fastforce simp: CookieMap_ok_def list_all_iff\<close>),
      rule matched_Nil, cases m, simp add: CookieMap_defs)

lemma CookieMap_rt: "2 \<le> d \<Longrightarrow> CookieMap_ok m \<Longrightarrow> codec_rt W stk rem d (CookieMap_encode W) (CookieMap_decode W) m"
  unfolding CookieMap_decode_def
  by (rule codec_rt_mono [OF codec_rt_of_codec [OF CookieMap_codec]]) simp_all

end

context wire_reader
begin

lemma CookieMap_total [total_rules]: "dec_total W (CookieMap_decode W)"
  unfolding CookieMap_decode_def CookieMap_cases_def by (intro total_rules)

end

subsection \<open>AppStateCookie\<close>

record AppStateCookie =
  AppStateCookie_key :: string
  AppStateCookie_value :: string
  AppStateCookie_domain :: string
  AppStateCookie_path :: string
  AppStateCookie_hostOnly :: bool
  AppStateCookie_secure :: bool
  AppStateCookie_httpOnly :: bool

definition createBaseAppStateCookie :: AppStateCookie where
  "createBaseAppStateCookie = \<lparr>AppStateCookie_key = '''',
     AppStateCookie_value = '''',
     AppStateCookie_domain = '''',
     AppStateCookie_path = '''',
     AppStateCookie_hostOnly = False,
     AppStateCookie_secure = False,
     AppStateCookie_httpOnly = False\<rparr>"

definition AppStateCookie_encode :: "('w, 'r) wire \<Rightarrow> AppStateCookie \<Rightarrow> 'w writer" where
  "AppStateCookie_encode W m = w_seq [
     w_if (AppStateCookie_key m \<noteq> '''') [w_uint32 W 10, w_string W (AppStateCookie_key m)],
     w_if (AppStateCookie_value m \<noteq> '''') [w_uint32 W 18, w_string W (AppStateCookie_value m)],
     w_if (AppStateCookie_domain m \<noteq> '''') [w_uint32 W 26, w_string W (AppStateCookie_domain m)],
     w_if (AppStateCookie_path m \<noteq> '''') [w_uint32 W 34, w_string W (AppStateCookie_path m)],
     w_if (AppStateCookie_hostOnly m \<noteq> False) [w_uint32 W 40, w_bool W (AppStateCookie_hostOnly m)],
     w_if (AppStateCookie_secure m \<noteq> False) [w_uint32 W 48, w_bool W (AppStateCookie_secure m)],
     w_if (AppStateCookie_httpOnly m \<noteq> False) [w_uint32 W 56, w_bool W (AppStateCookie_httpOnly m)]]"

definition AppStateCookie_cases :: "('w, 'r) wire \<Rightarrow> ('r, AppStateCookie) cases" where
  "AppStateCookie_cases W = [
     (1, 10, d_val (r_string W) (\<lambda>v m. m\<lparr>AppStateCookie_key := v\<rparr>)),
     (2, 18, d_val (r_string W) (\<lambda>v m. m\<lparr>AppStateCookie_value := v\<rparr>)),
     (3, 26, d_val (r_string W) (\<lambda>v m. m\<lparr>AppStateCookie_domain := v\<rparr>)),
     (4, 34, d_val (r_string W) (\<lambda>v m. m\<lparr>AppStateCookie_path := v\<rparr>)),
     (5, 40, d_val (r_bool W) (\<lambda>v m. m\<lparr>AppStateCookie_hostOnly := v\<rparr>)),
     (6, 48, d_val (r_bool W) (\<lambda>v m. m\<lparr>AppStateCookie_secure := v\<rparr>)),
     (7, 56, d_val (r_bool W) (\<lambda>v m. m\<lparr>AppStateCookie_httpOnly := v\<rparr>))]"

definition AppStateCookie_decode :: "('w, 'r) wire \<Rightarrow> ('r, AppStateCookie) decoder" where
  "AppStateCookie_decode W = d_message W (AppStateCookie_cases W) createBaseAppStateCookie"

lemmas AppStateCookie_defs = AppStateCookie_cases_def createBaseAppStateCookie_def

context wire_lib
begin

lemma AppStateCookie_codec:
  "codec W stk rem 0 (AppStateCookie_encode W) (AppStateCookie_cases W) createBaseAppStateCookie m"
  by (rule codecI [OF AppStateCookie_encode_def],
      rule field_string [where upd = AppStateCookie_key_update], simp add: AppStateCookie_defs, simp add: AppStateCookie_defs,
      rule field_string [where upd = AppStateCookie_value_update], simp add: AppStateCookie_defs, simp add: AppStateCookie_defs,
      rule field_string [where upd = AppStateCookie_domain_update], simp add: AppStateCookie_defs, simp add: AppStateCookie_defs,
      rule field_string [where upd = AppStateCookie_path_update], simp add: AppStateCookie_defs, simp add: AppStateCookie_defs,
      rule field_bool [where upd = AppStateCookie_hostOnly_update], simp add: AppStateCookie_defs, simp add: AppStateCookie_defs,
      rule field_bool [where upd = AppStateCookie_secure_update], simp add: AppStateCookie_defs, simp add: AppStateCookie_defs,
      rule field_bool [where upd = AppStateCookie_httpOnly_update], simp add: AppStateCookie_defs, simp add: AppStateCookie_defs,
      rule matched_Nil, cases m, simp add: AppStateCookie_defs)

lemma AppStateCookie_rt: "1 \<le> d \<Longrightarrow> codec_rt W stk rem d (AppStateCookie_encode W) (AppStateCookie_decode W) m"
  unfolding AppStateCookie_decode_def
  by (rule codec_rt_mono [OF codec_rt_of_codec [OF AppStateCookie_codec]]) simp_all

end

context wire_reader
begin

lemma AppStateCookie_total [total_rules]: "dec_total W (AppStateCookie_decode W)"
  unfolding AppStateCookie_decode_def AppStateCookie_cases_def by (intro total_rules)

end

subsection \<open>AppState\<close>

record AppState =
  AppState_cookies :: "AppStateCookie list"

definition createBaseAppState :: AppState where
  "createBaseAppState = \<lparr>AppState_cookies = []\<rparr>"

definition AppState_encode :: "('w, 'r) wire \<Rightarrow> AppState \<Rightarrow> 'w writer" where
  "AppState_encode W m = w_seq [
     w_for (AppState_cookies m) (\<lambda>v. [w_uint32 W 10, w_open W, AppStateCookie_encode W v, w_join W])]"

definition AppState_cases :: "('w, 'r) wire \<Rightarrow> ('r, AppState) cases" where
  "AppState_cases W = [
     (1, 10, d_msg W (AppStateCookie_decode W) (\<lambda>v m. m\<lparr>AppState_cookies := AppState_cookies m @ [v]\<rparr>))]"

definition AppState_decode :: "('w, 'r) wire \<Rightarrow> ('r, AppState) decoder" where
  "AppState_decode W = d_message W (AppState_cases W) createBaseAppState"

lemmas AppState_defs = AppState_cases_def createBaseAppState_def

context wire_lib
begin

lemma AppState_codec:
  "codec W stk rem 1 (AppState_encode W) (AppState_cases W) createBaseAppState m"
  by (rule codecI [OF AppState_encode_def],
      rule field_push_msg [where upd = AppState_cookies_update and sel = AppState_cookies], rule AppStateCookie_rt, simp, simp add: AppState_defs, simp add: AppState_defs, simp add: AppState_defs,
      rule matched_Nil, cases m, simp add: AppState_defs)

lemma AppState_rt: "2 \<le> d \<Longrightarrow> codec_rt W stk rem d (AppState_encode W) (AppState_decode W) m"
  unfolding AppState_decode_def
  by (rule codec_rt_mono [OF codec_rt_of_codec [OF AppState_codec]]) simp_all

end

context wire_reader
begin

lemma AppState_total [total_rules]: "dec_total W (AppState_decode W)"
  unfolding AppState_decode_def AppState_cases_def by (intro total_rules)

end

subsection \<open>Credentials\<close>

datatype Credentials_secondFactor_case =
    Credentials_secondFactor_totp string
  | Credentials_secondFactor_otp string

record Credentials =
  Credentials_identifier :: string
  Credentials_password :: string
  Credentials_secondFactor :: "Credentials_secondFactor_case option"

definition createBaseCredentials :: Credentials where
  "createBaseCredentials = \<lparr>Credentials_identifier = '''',
     Credentials_password = '''',
     Credentials_secondFactor = None\<rparr>"

definition Credentials_secondFactor_encode :: "('w, 'r) wire \<Rightarrow> Credentials_secondFactor_case \<Rightarrow> 'w writer list" where
  "Credentials_secondFactor_encode W c = (case c of
       Credentials_secondFactor_totp v \<Rightarrow> [w_uint32 W 26, w_string W v]
     | Credentials_secondFactor_otp v \<Rightarrow> [w_uint32 W 34, w_string W v])"

definition Credentials_encode :: "('w, 'r) wire \<Rightarrow> Credentials \<Rightarrow> 'w writer" where
  "Credentials_encode W m = w_seq [
     w_if (Credentials_identifier m \<noteq> '''') [w_uint32 W 10, w_string W (Credentials_identifier m)],
     w_if (Credentials_password m \<noteq> '''') [w_uint32 W 18, w_string W (Credentials_password m)],
     w_some (Credentials_secondFactor m) (Credentials_secondFactor_encode W)]"

definition Credentials_cases :: "('w, 'r) wire \<Rightarrow> ('r, Credentials) cases" where
  "Credentials_cases W = [
     (1, 10, d_val (r_string W) (\<lambda>v m. m\<lparr>Credentials_identifier := v\<rparr>)),
     (2, 18, d_val (r_string W) (\<lambda>v m. m\<lparr>Credentials_password := v\<rparr>)),
     (3, 26, d_val (r_string W) (\<lambda>v m. m\<lparr>Credentials_secondFactor := Some (Credentials_secondFactor_totp v)\<rparr>)),
     (4, 34, d_val (r_string W) (\<lambda>v m. m\<lparr>Credentials_secondFactor := Some (Credentials_secondFactor_otp v)\<rparr>))]"

definition Credentials_decode :: "('w, 'r) wire \<Rightarrow> ('r, Credentials) decoder" where
  "Credentials_decode W = d_message W (Credentials_cases W) createBaseCredentials"

lemmas Credentials_defs = Credentials_cases_def createBaseCredentials_def

context wire_lib
begin

lemma Credentials_secondFactor_matched:
  "matched W stk rem 0 (Credentials_cases W) (Credentials_secondFactor_encode W c) m (m\<lparr>Credentials_secondFactor := Some c\<rparr>)"
proof (cases c)
  case (Credentials_secondFactor_totp v)
  show ?thesis
    by (simp add: Credentials_secondFactor_totp Credentials_secondFactor_encode_def, rule matched_string, simp add: Credentials_defs, simp)
next
  case (Credentials_secondFactor_otp v)
  show ?thesis
    by (simp add: Credentials_secondFactor_otp Credentials_secondFactor_encode_def, rule matched_string, simp add: Credentials_defs, simp)
qed

lemma Credentials_codec:
  "codec W stk rem 0 (Credentials_encode W) (Credentials_cases W) createBaseCredentials m"
  by (rule codecI [OF Credentials_encode_def],
      rule field_string [where upd = Credentials_identifier_update], simp add: Credentials_defs, simp add: Credentials_defs,
      rule field_string [where upd = Credentials_password_update], simp add: Credentials_defs, simp add: Credentials_defs,
      rule field_some [where upd = Credentials_secondFactor_update], rule Credentials_secondFactor_matched, simp add: Credentials_defs,
      rule matched_Nil, cases m, simp add: Credentials_defs)

lemma Credentials_rt: "1 \<le> d \<Longrightarrow> codec_rt W stk rem d (Credentials_encode W) (Credentials_decode W) m"
  unfolding Credentials_decode_def
  by (rule codec_rt_mono [OF codec_rt_of_codec [OF Credentials_codec]]) simp_all

end

context wire_reader
begin

lemma Credentials_total [total_rules]: "dec_total W (Credentials_decode W)"
  unfolding Credentials_decode_def Credentials_cases_def by (intro total_rules)

end

subsection \<open>SessionAuth\<close>

datatype SessionAuth_source_case =
    SessionAuth_source_cookies CookieMap
  | SessionAuth_source_appState AppState
  | SessionAuth_source_credentials Credentials

record SessionAuth =
  SessionAuth_source :: "SessionAuth_source_case option"

definition createBaseSessionAuth :: SessionAuth where
  "createBaseSessionAuth = \<lparr>SessionAuth_source = None\<rparr>"

definition SessionAuth_source_encode :: "('w, 'r) wire \<Rightarrow> SessionAuth_source_case \<Rightarrow> 'w writer list" where
  "SessionAuth_source_encode W c = (case c of
       SessionAuth_source_cookies v \<Rightarrow> [w_uint32 W 10, w_open W, CookieMap_encode W v, w_join W]
     | SessionAuth_source_appState v \<Rightarrow> [w_uint32 W 18, w_open W, AppState_encode W v, w_join W]
     | SessionAuth_source_credentials v \<Rightarrow> [w_uint32 W 26, w_open W, Credentials_encode W v, w_join W])"

definition SessionAuth_encode :: "('w, 'r) wire \<Rightarrow> SessionAuth \<Rightarrow> 'w writer" where
  "SessionAuth_encode W m = w_seq [
     w_some (SessionAuth_source m) (SessionAuth_source_encode W)]"

definition SessionAuth_cases :: "('w, 'r) wire \<Rightarrow> ('r, SessionAuth) cases" where
  "SessionAuth_cases W = [
     (1, 10, d_msg W (CookieMap_decode W)
        (\<lambda>v m. m\<lparr>SessionAuth_source := Some (SessionAuth_source_cookies v)\<rparr>)),
     (2, 18, d_msg W (AppState_decode W)
        (\<lambda>v m. m\<lparr>SessionAuth_source := Some (SessionAuth_source_appState v)\<rparr>)),
     (3, 26, d_msg W (Credentials_decode W)
        (\<lambda>v m. m\<lparr>SessionAuth_source := Some (SessionAuth_source_credentials v)\<rparr>))]"

definition SessionAuth_decode :: "('w, 'r) wire \<Rightarrow> ('r, SessionAuth) decoder" where
  "SessionAuth_decode W = d_message W (SessionAuth_cases W) createBaseSessionAuth"

definition SessionAuth_source_case_ok :: "SessionAuth_source_case \<Rightarrow> bool" where
  "SessionAuth_source_case_ok c = (case c of
       SessionAuth_source_cookies v \<Rightarrow> CookieMap_ok v
     | SessionAuth_source_appState v \<Rightarrow> True
     | SessionAuth_source_credentials v \<Rightarrow> True)"

definition SessionAuth_ok :: "SessionAuth \<Rightarrow> bool" where
  "SessionAuth_ok m \<longleftrightarrow> pred_option SessionAuth_source_case_ok (SessionAuth_source m)"

lemmas SessionAuth_defs = SessionAuth_cases_def createBaseSessionAuth_def

context wire_lib
begin

lemma SessionAuth_source_matched:
    assumes ok: "SessionAuth_source_case_ok c"
  shows "matched W stk rem 2 (SessionAuth_cases W) (SessionAuth_source_encode W c) m (m\<lparr>SessionAuth_source := Some c\<rparr>)"
proof (cases c)
  case (SessionAuth_source_cookies v)
  show ?thesis
    by (simp add: SessionAuth_source_cookies SessionAuth_source_encode_def, rule matched_msg, rule CookieMap_rt, simp, (use ok in \<open>simp add: SessionAuth_source_cookies SessionAuth_source_case_ok_def\<close>), simp add: SessionAuth_defs, simp)
next
  case (SessionAuth_source_appState v)
  show ?thesis
    by (simp add: SessionAuth_source_appState SessionAuth_source_encode_def, rule matched_msg, rule AppState_rt, simp, simp add: SessionAuth_defs, simp)
next
  case (SessionAuth_source_credentials v)
  show ?thesis
    by (simp add: SessionAuth_source_credentials SessionAuth_source_encode_def, rule matched_msg, rule Credentials_rt, simp, simp add: SessionAuth_defs, simp)
qed

lemma SessionAuth_codec:
  assumes ok: "SessionAuth_ok m"
  shows "codec W stk rem 2 (SessionAuth_encode W) (SessionAuth_cases W) createBaseSessionAuth m"
  by (rule codecI [OF SessionAuth_encode_def],
      rule field_some [where upd = SessionAuth_source_update], rule SessionAuth_source_matched, (use ok in \<open>fastforce simp: SessionAuth_ok_def list_all_iff\<close>), simp add: SessionAuth_defs,
      rule matched_Nil, cases m, simp add: SessionAuth_defs)

lemma SessionAuth_rt: "3 \<le> d \<Longrightarrow> SessionAuth_ok m \<Longrightarrow> codec_rt W stk rem d (SessionAuth_encode W) (SessionAuth_decode W) m"
  unfolding SessionAuth_decode_def
  by (rule codec_rt_mono [OF codec_rt_of_codec [OF SessionAuth_codec]]) simp_all

end

context wire_reader
begin

lemma SessionAuth_total [total_rules]: "dec_total W (SessionAuth_decode W)"
  unfolding SessionAuth_decode_def SessionAuth_cases_def by (intro total_rules)

end

subsection \<open>CreateSessionRequest\<close>

record CreateSessionRequest =
  CreateSessionRequest_cookies :: js_object
  CreateSessionRequest_e2ee :: bool
  CreateSessionRequest_eventBuffer :: int
  CreateSessionRequest_timeout :: "Duration option"
  CreateSessionRequest_auth :: "SessionAuth option"

definition createBaseCreateSessionRequest :: CreateSessionRequest where
  "createBaseCreateSessionRequest = \<lparr>CreateSessionRequest_cookies = [],
     CreateSessionRequest_e2ee = False,
     CreateSessionRequest_eventBuffer = 0,
     CreateSessionRequest_timeout = None,
     CreateSessionRequest_auth = None\<rparr>"

definition CreateSessionRequest_encode :: "('w, 'r) wire \<Rightarrow> CreateSessionRequest \<Rightarrow> 'w writer" where
  "CreateSessionRequest_encode W m = w_seq [
     w_for (CreateSessionRequest_cookies m) (\<lambda>(key, value). [w_uint32 W 10, w_open W,
         CreateSessionRequest_CookiesEntry_encode W \<lparr>CreateSessionRequest_CookiesEntry_key = key, CreateSessionRequest_CookiesEntry_value = value\<rparr>, w_join W]),
     w_if (CreateSessionRequest_e2ee m \<noteq> False) [w_uint32 W 16, w_bool W (CreateSessionRequest_e2ee m)],
     w_if (CreateSessionRequest_eventBuffer m \<noteq> 0) [w_uint32 W 24, w_uint32 W (CreateSessionRequest_eventBuffer m)],
     w_some (CreateSessionRequest_timeout m) (\<lambda>v. [w_uint32 W 34, w_open W, Duration_encode W v, w_join W]),
     w_some (CreateSessionRequest_auth m) (\<lambda>v. [w_uint32 W 42, w_open W, SessionAuth_encode W v, w_join W])]"

definition CreateSessionRequest_cases :: "('w, 'r) wire \<Rightarrow> ('r, CreateSessionRequest) cases" where
  "CreateSessionRequest_cases W = [
     (1, 10, d_msg W (CreateSessionRequest_CookiesEntry_decode W)
        (\<lambda>e m. m\<lparr>CreateSessionRequest_cookies := js_set (CreateSessionRequest_cookies m) (CreateSessionRequest_CookiesEntry_key e) (CreateSessionRequest_CookiesEntry_value e)\<rparr>)),
     (2, 16, d_val (r_bool W) (\<lambda>v m. m\<lparr>CreateSessionRequest_e2ee := v\<rparr>)),
     (3, 24, d_val (r_uint32 W) (\<lambda>v m. m\<lparr>CreateSessionRequest_eventBuffer := int v\<rparr>)),
     (4, 34, d_msg W (Duration_decode W) (\<lambda>v m. m\<lparr>CreateSessionRequest_timeout := Some v\<rparr>)),
     (5, 42, d_msg W (SessionAuth_decode W) (\<lambda>v m. m\<lparr>CreateSessionRequest_auth := Some v\<rparr>))]"

definition CreateSessionRequest_decode :: "('w, 'r) wire \<Rightarrow> ('r, CreateSessionRequest) decoder" where
  "CreateSessionRequest_decode W = d_message W (CreateSessionRequest_cases W) createBaseCreateSessionRequest"

definition CreateSessionRequest_ok :: "CreateSessionRequest \<Rightarrow> bool" where
  "CreateSessionRequest_ok m \<longleftrightarrow> js_object_ok (CreateSessionRequest_cookies m) \<and>
     pred_option SessionAuth_ok (CreateSessionRequest_auth m)"

lemmas CreateSessionRequest_defs = CreateSessionRequest_cases_def createBaseCreateSessionRequest_def

context wire_lib
begin

lemma CreateSessionRequest_codec:
  assumes ok: "CreateSessionRequest_ok m"
  shows "codec W stk rem 3 (CreateSessionRequest_encode W) (CreateSessionRequest_cases W) createBaseCreateSessionRequest m"
  by (rule codecI [OF CreateSessionRequest_encode_def],
      rule field_entries [where upd = CreateSessionRequest_cookies_update and sel = CreateSessionRequest_cookies and key = CreateSessionRequest_CookiesEntry_key and val = CreateSessionRequest_CookiesEntry_value],
      rule CreateSessionRequest_CookiesEntry_rt, simp, simp add: CreateSessionRequest_defs, simp, simp add: CreateSessionRequest_defs, simp add: CreateSessionRequest_defs, (use ok in \<open>fastforce simp: CreateSessionRequest_ok_def list_all_iff\<close>),
      rule field_bool [where upd = CreateSessionRequest_e2ee_update], simp add: CreateSessionRequest_defs, simp add: CreateSessionRequest_defs,
      rule field_uint32 [where upd = CreateSessionRequest_eventBuffer_update], simp add: CreateSessionRequest_defs, simp add: CreateSessionRequest_defs,
      rule field_msg [where upd = CreateSessionRequest_timeout_update], rule Duration_rt, simp, simp add: CreateSessionRequest_defs, simp add: CreateSessionRequest_defs,
      rule field_msg [where upd = CreateSessionRequest_auth_update], rule SessionAuth_rt, simp, (use ok in \<open>fastforce simp: CreateSessionRequest_ok_def list_all_iff\<close>), simp add: CreateSessionRequest_defs, simp add: CreateSessionRequest_defs,
      rule matched_Nil, cases m, simp add: CreateSessionRequest_defs)

lemma CreateSessionRequest_rt: "4 \<le> d \<Longrightarrow> CreateSessionRequest_ok m \<Longrightarrow> codec_rt W stk rem d (CreateSessionRequest_encode W) (CreateSessionRequest_decode W) m"
  unfolding CreateSessionRequest_decode_def
  by (rule codec_rt_mono [OF codec_rt_of_codec [OF CreateSessionRequest_codec]]) simp_all

end

context wire_reader
begin

lemma CreateSessionRequest_total [total_rules]: "dec_total W (CreateSessionRequest_decode W)"
  unfolding CreateSessionRequest_decode_def CreateSessionRequest_cases_def by (intro total_rules)

end

subsection \<open>CreateSessionResponse\<close>

record CreateSessionResponse =
  CreateSessionResponse_sessionId :: string

definition createBaseCreateSessionResponse :: CreateSessionResponse where
  "createBaseCreateSessionResponse = \<lparr>CreateSessionResponse_sessionId = ''''\<rparr>"

definition CreateSessionResponse_encode :: "('w, 'r) wire \<Rightarrow> CreateSessionResponse \<Rightarrow> 'w writer" where
  "CreateSessionResponse_encode W m = w_seq [
     w_if (CreateSessionResponse_sessionId m \<noteq> '''') [w_uint32 W 10, w_string W (CreateSessionResponse_sessionId m)]]"

definition CreateSessionResponse_cases :: "('w, 'r) wire \<Rightarrow> ('r, CreateSessionResponse) cases" where
  "CreateSessionResponse_cases W = [
     (1, 10, d_val (r_string W) (\<lambda>v m. m\<lparr>CreateSessionResponse_sessionId := v\<rparr>))]"

definition CreateSessionResponse_decode :: "('w, 'r) wire \<Rightarrow> ('r, CreateSessionResponse) decoder" where
  "CreateSessionResponse_decode W = d_message W (CreateSessionResponse_cases W) createBaseCreateSessionResponse"

lemmas CreateSessionResponse_defs = CreateSessionResponse_cases_def createBaseCreateSessionResponse_def

context wire_lib
begin

lemma CreateSessionResponse_codec:
  "codec W stk rem 0 (CreateSessionResponse_encode W) (CreateSessionResponse_cases W) createBaseCreateSessionResponse m"
  by (rule codecI [OF CreateSessionResponse_encode_def],
      rule field_string [where upd = CreateSessionResponse_sessionId_update], simp add: CreateSessionResponse_defs, simp add: CreateSessionResponse_defs,
      rule matched_Nil, cases m, simp add: CreateSessionResponse_defs)

lemma CreateSessionResponse_rt: "1 \<le> d \<Longrightarrow> codec_rt W stk rem d (CreateSessionResponse_encode W) (CreateSessionResponse_decode W) m"
  unfolding CreateSessionResponse_decode_def
  by (rule codec_rt_mono [OF codec_rt_of_codec [OF CreateSessionResponse_codec]]) simp_all

end

context wire_reader
begin

lemma CreateSessionResponse_total [total_rules]: "dec_total W (CreateSessionResponse_decode W)"
  unfolding CreateSessionResponse_decode_def CreateSessionResponse_cases_def by (intro total_rules)

end

subsection \<open>ConnectRequest\<close>

record ConnectRequest =
  ConnectRequest_sessionId :: string

definition createBaseConnectRequest :: ConnectRequest where
  "createBaseConnectRequest = \<lparr>ConnectRequest_sessionId = ''''\<rparr>"

definition ConnectRequest_encode :: "('w, 'r) wire \<Rightarrow> ConnectRequest \<Rightarrow> 'w writer" where
  "ConnectRequest_encode W m = w_seq [
     w_if (ConnectRequest_sessionId m \<noteq> '''') [w_uint32 W 10, w_string W (ConnectRequest_sessionId m)]]"

definition ConnectRequest_cases :: "('w, 'r) wire \<Rightarrow> ('r, ConnectRequest) cases" where
  "ConnectRequest_cases W = [
     (1, 10, d_val (r_string W) (\<lambda>v m. m\<lparr>ConnectRequest_sessionId := v\<rparr>))]"

definition ConnectRequest_decode :: "('w, 'r) wire \<Rightarrow> ('r, ConnectRequest) decoder" where
  "ConnectRequest_decode W = d_message W (ConnectRequest_cases W) createBaseConnectRequest"

lemmas ConnectRequest_defs = ConnectRequest_cases_def createBaseConnectRequest_def

context wire_lib
begin

lemma ConnectRequest_codec:
  "codec W stk rem 0 (ConnectRequest_encode W) (ConnectRequest_cases W) createBaseConnectRequest m"
  by (rule codecI [OF ConnectRequest_encode_def],
      rule field_string [where upd = ConnectRequest_sessionId_update], simp add: ConnectRequest_defs, simp add: ConnectRequest_defs,
      rule matched_Nil, cases m, simp add: ConnectRequest_defs)

lemma ConnectRequest_rt: "1 \<le> d \<Longrightarrow> codec_rt W stk rem d (ConnectRequest_encode W) (ConnectRequest_decode W) m"
  unfolding ConnectRequest_decode_def
  by (rule codec_rt_mono [OF codec_rt_of_codec [OF ConnectRequest_codec]]) simp_all

end

context wire_reader
begin

lemma ConnectRequest_total [total_rules]: "dec_total W (ConnectRequest_decode W)"
  unfolding ConnectRequest_decode_def ConnectRequest_cases_def by (intro total_rules)

end

subsection \<open>ConnectResponse\<close>

record ConnectResponse =
  ConnectResponse_account :: "Account option"

definition createBaseConnectResponse :: ConnectResponse where
  "createBaseConnectResponse = \<lparr>ConnectResponse_account = None\<rparr>"

definition ConnectResponse_encode :: "('w, 'r) wire \<Rightarrow> ConnectResponse \<Rightarrow> 'w writer" where
  "ConnectResponse_encode W m = w_seq [
     w_some (ConnectResponse_account m) (\<lambda>v. [w_uint32 W 10, w_open W, Account_encode W v, w_join W])]"

definition ConnectResponse_cases :: "('w, 'r) wire \<Rightarrow> ('r, ConnectResponse) cases" where
  "ConnectResponse_cases W = [
     (1, 10, d_msg W (Account_decode W) (\<lambda>v m. m\<lparr>ConnectResponse_account := Some v\<rparr>))]"

definition ConnectResponse_decode :: "('w, 'r) wire \<Rightarrow> ('r, ConnectResponse) decoder" where
  "ConnectResponse_decode W = d_message W (ConnectResponse_cases W) createBaseConnectResponse"

lemmas ConnectResponse_defs = ConnectResponse_cases_def createBaseConnectResponse_def

context wire_lib
begin

lemma ConnectResponse_codec:
  "codec W stk rem 1 (ConnectResponse_encode W) (ConnectResponse_cases W) createBaseConnectResponse m"
  by (rule codecI [OF ConnectResponse_encode_def],
      rule field_msg [where upd = ConnectResponse_account_update], rule Account_rt, simp, simp add: ConnectResponse_defs, simp add: ConnectResponse_defs,
      rule matched_Nil, cases m, simp add: ConnectResponse_defs)

lemma ConnectResponse_rt: "2 \<le> d \<Longrightarrow> codec_rt W stk rem d (ConnectResponse_encode W) (ConnectResponse_decode W) m"
  unfolding ConnectResponse_decode_def
  by (rule codec_rt_mono [OF codec_rt_of_codec [OF ConnectResponse_codec]]) simp_all

end

context wire_reader
begin

lemma ConnectResponse_total [total_rules]: "dec_total W (ConnectResponse_decode W)"
  unfolding ConnectResponse_decode_def ConnectResponse_cases_def by (intro total_rules)

end

subsection \<open>FacebookSession\<close>

record FacebookSession =
  FacebookSession_accountId :: string
  FacebookSession_name :: string
  FacebookSession_username :: string
  FacebookSession_dtsg :: string
  FacebookSession_jazoest :: string
  FacebookSession_lsd :: string
  FacebookSession_sessionId :: string
  FacebookSession_clientRevision :: int
  FacebookSession_refreshedAt :: "js_date option"

definition createBaseFacebookSession :: FacebookSession where
  "createBaseFacebookSession = \<lparr>FacebookSession_accountId = '''',
     FacebookSession_name = '''',
     FacebookSession_username = '''',
     FacebookSession_dtsg = '''',
     FacebookSession_jazoest = '''',
     FacebookSession_lsd = '''',
     FacebookSession_sessionId = '''',
     FacebookSession_clientRevision = 0,
     FacebookSession_refreshedAt = None\<rparr>"

definition FacebookSession_encode :: "('w, 'r) wire \<Rightarrow> FacebookSession \<Rightarrow> 'w writer" where
  "FacebookSession_encode W m = w_seq [
     w_if (FacebookSession_accountId m \<noteq> '''') [w_uint32 W 10, w_string W (FacebookSession_accountId m)],
     w_if (FacebookSession_name m \<noteq> '''') [w_uint32 W 18, w_string W (FacebookSession_name m)],
     w_if (FacebookSession_username m \<noteq> '''') [w_uint32 W 26, w_string W (FacebookSession_username m)],
     w_if (FacebookSession_dtsg m \<noteq> '''') [w_uint32 W 34, w_string W (FacebookSession_dtsg m)],
     w_if (FacebookSession_jazoest m \<noteq> '''') [w_uint32 W 42, w_string W (FacebookSession_jazoest m)],
     w_if (FacebookSession_lsd m \<noteq> '''') [w_uint32 W 50, w_string W (FacebookSession_lsd m)],
     w_if (FacebookSession_sessionId m \<noteq> '''') [w_uint32 W 58, w_string W (FacebookSession_sessionId m)],
     w_if (FacebookSession_clientRevision m \<noteq> 0) [w_check (asIntN64 (FacebookSession_clientRevision m) = FacebookSession_clientRevision m) (too_large ''message.clientRevision'' ''int64''),
         w_uint32 W 64, w_int64 W (FacebookSession_clientRevision m)],
     w_some (FacebookSession_refreshedAt m) (\<lambda>v. [w_try (toTimestamp v) (\<lambda>t. [w_uint32 W 74, w_open W, Timestamp_encode W t, w_join W])])]"

definition FacebookSession_cases :: "('w, 'r) wire \<Rightarrow> ('r, FacebookSession) cases" where
  "FacebookSession_cases W = [
     (1, 10, d_val (r_string W) (\<lambda>v m. m\<lparr>FacebookSession_accountId := v\<rparr>)),
     (2, 18, d_val (r_string W) (\<lambda>v m. m\<lparr>FacebookSession_name := v\<rparr>)),
     (3, 26, d_val (r_string W) (\<lambda>v m. m\<lparr>FacebookSession_username := v\<rparr>)),
     (4, 34, d_val (r_string W) (\<lambda>v m. m\<lparr>FacebookSession_dtsg := v\<rparr>)),
     (5, 42, d_val (r_string W) (\<lambda>v m. m\<lparr>FacebookSession_jazoest := v\<rparr>)),
     (6, 50, d_val (r_string W) (\<lambda>v m. m\<lparr>FacebookSession_lsd := v\<rparr>)),
     (7, 58, d_val (r_string W) (\<lambda>v m. m\<lparr>FacebookSession_sessionId := v\<rparr>)),
     (8, 64, d_val (r_int64 W) (\<lambda>v m. m\<lparr>FacebookSession_clientRevision := v\<rparr>)),
     (9, 74, d_msg W (Timestamp_decode W) (\<lambda>v m. m\<lparr>FacebookSession_refreshedAt := Some (fromTimestamp v)\<rparr>))]"

definition FacebookSession_decode :: "('w, 'r) wire \<Rightarrow> ('r, FacebookSession) decoder" where
  "FacebookSession_decode W = d_message W (FacebookSession_cases W) createBaseFacebookSession"

definition FacebookSession_ok :: "FacebookSession \<Rightarrow> bool" where
  "FacebookSession_ok m \<longleftrightarrow> pred_option js_date_ok (FacebookSession_refreshedAt m)"

lemmas FacebookSession_defs = FacebookSession_cases_def createBaseFacebookSession_def

context wire_lib
begin

lemma FacebookSession_codec:
  assumes ok: "FacebookSession_ok m"
  shows "codec W stk rem 1 (FacebookSession_encode W) (FacebookSession_cases W) createBaseFacebookSession m"
  by (rule codecI [OF FacebookSession_encode_def],
      rule field_string [where upd = FacebookSession_accountId_update], simp add: FacebookSession_defs, simp add: FacebookSession_defs,
      rule field_string [where upd = FacebookSession_name_update], simp add: FacebookSession_defs, simp add: FacebookSession_defs,
      rule field_string [where upd = FacebookSession_username_update], simp add: FacebookSession_defs, simp add: FacebookSession_defs,
      rule field_string [where upd = FacebookSession_dtsg_update], simp add: FacebookSession_defs, simp add: FacebookSession_defs,
      rule field_string [where upd = FacebookSession_jazoest_update], simp add: FacebookSession_defs, simp add: FacebookSession_defs,
      rule field_string [where upd = FacebookSession_lsd_update], simp add: FacebookSession_defs, simp add: FacebookSession_defs,
      rule field_string [where upd = FacebookSession_sessionId_update], simp add: FacebookSession_defs, simp add: FacebookSession_defs,
      rule field_int64 [where upd = FacebookSession_clientRevision_update], simp add: FacebookSession_defs, simp add: FacebookSession_defs,
      rule field_conv [where upd = FacebookSession_refreshedAt_update and unconv = fromTimestamp], rule date_rt, simp, (use ok in \<open>fastforce simp: FacebookSession_ok_def list_all_iff\<close>), assumption, simp add: FacebookSession_defs, simp add: FacebookSession_defs,
      rule matched_Nil, cases m, simp add: FacebookSession_defs)

lemma FacebookSession_rt: "2 \<le> d \<Longrightarrow> FacebookSession_ok m \<Longrightarrow> codec_rt W stk rem d (FacebookSession_encode W) (FacebookSession_decode W) m"
  unfolding FacebookSession_decode_def
  by (rule codec_rt_mono [OF codec_rt_of_codec [OF FacebookSession_codec]]) simp_all

end

context wire_reader
begin

lemma FacebookSession_total [total_rules]: "dec_total W (FacebookSession_decode W)"
  unfolding FacebookSession_decode_def FacebookSession_cases_def by (intro total_rules)

end

subsection \<open>AuthSnapshot\<close>

record AuthSnapshot =
  AuthSnapshot_cookies :: "CookieMap option"
  AuthSnapshot_appState :: "AppState option"
  AuthSnapshot_session :: "FacebookSession option"

definition createBaseAuthSnapshot :: AuthSnapshot where
  "createBaseAuthSnapshot = \<lparr>AuthSnapshot_cookies = None,
     AuthSnapshot_appState = None,
     AuthSnapshot_session = None\<rparr>"

definition AuthSnapshot_encode :: "('w, 'r) wire \<Rightarrow> AuthSnapshot \<Rightarrow> 'w writer" where
  "AuthSnapshot_encode W m = w_seq [
     w_some (AuthSnapshot_cookies m) (\<lambda>v. [w_uint32 W 10, w_open W, CookieMap_encode W v, w_join W]),
     w_some (AuthSnapshot_appState m) (\<lambda>v. [w_uint32 W 18, w_open W, AppState_encode W v, w_join W]),
     w_some (AuthSnapshot_session m) (\<lambda>v. [w_uint32 W 26, w_open W, FacebookSession_encode W v, w_join W])]"

definition AuthSnapshot_cases :: "('w, 'r) wire \<Rightarrow> ('r, AuthSnapshot) cases" where
  "AuthSnapshot_cases W = [
     (1, 10, d_msg W (CookieMap_decode W) (\<lambda>v m. m\<lparr>AuthSnapshot_cookies := Some v\<rparr>)),
     (2, 18, d_msg W (AppState_decode W) (\<lambda>v m. m\<lparr>AuthSnapshot_appState := Some v\<rparr>)),
     (3, 26, d_msg W (FacebookSession_decode W) (\<lambda>v m. m\<lparr>AuthSnapshot_session := Some v\<rparr>))]"

definition AuthSnapshot_decode :: "('w, 'r) wire \<Rightarrow> ('r, AuthSnapshot) decoder" where
  "AuthSnapshot_decode W = d_message W (AuthSnapshot_cases W) createBaseAuthSnapshot"

definition AuthSnapshot_ok :: "AuthSnapshot \<Rightarrow> bool" where
  "AuthSnapshot_ok m \<longleftrightarrow> pred_option CookieMap_ok (AuthSnapshot_cookies m) \<and>
     pred_option FacebookSession_ok (AuthSnapshot_session m)"

lemmas AuthSnapshot_defs = AuthSnapshot_cases_def createBaseAuthSnapshot_def

context wire_lib
begin

lemma AuthSnapshot_codec:
  assumes ok: "AuthSnapshot_ok m"
  shows "codec W stk rem 2 (AuthSnapshot_encode W) (AuthSnapshot_cases W) createBaseAuthSnapshot m"
  by (rule codecI [OF AuthSnapshot_encode_def],
      rule field_msg [where upd = AuthSnapshot_cookies_update], rule CookieMap_rt, simp, (use ok in \<open>fastforce simp: AuthSnapshot_ok_def list_all_iff\<close>), simp add: AuthSnapshot_defs, simp add: AuthSnapshot_defs,
      rule field_msg [where upd = AuthSnapshot_appState_update], rule AppState_rt, simp, simp add: AuthSnapshot_defs, simp add: AuthSnapshot_defs,
      rule field_msg [where upd = AuthSnapshot_session_update], rule FacebookSession_rt, simp, (use ok in \<open>fastforce simp: AuthSnapshot_ok_def list_all_iff\<close>), simp add: AuthSnapshot_defs, simp add: AuthSnapshot_defs,
      rule matched_Nil, cases m, simp add: AuthSnapshot_defs)

lemma AuthSnapshot_rt: "3 \<le> d \<Longrightarrow> AuthSnapshot_ok m \<Longrightarrow> codec_rt W stk rem d (AuthSnapshot_encode W) (AuthSnapshot_decode W) m"
  unfolding AuthSnapshot_decode_def
  by (rule codec_rt_mono [OF codec_rt_of_codec [OF AuthSnapshot_codec]]) simp_all

end

context wire_reader
begin

lemma AuthSnapshot_total [total_rules]: "dec_total W (AuthSnapshot_decode W)"
  unfolding AuthSnapshot_decode_def AuthSnapshot_cases_def by (intro total_rules)

end

subsection \<open>RefreshAuthRequest\<close>

record RefreshAuthRequest =
  RefreshAuthRequest_sessionId :: string
  RefreshAuthRequest_auth :: "SessionAuth option"

definition createBaseRefreshAuthRequest :: RefreshAuthRequest where
  "createBaseRefreshAuthRequest = \<lparr>RefreshAuthRequest_sessionId = '''',
     RefreshAuthRequest_auth = None\<rparr>"

definition RefreshAuthRequest_encode :: "('w, 'r) wire \<Rightarrow> RefreshAuthRequest \<Rightarrow> 'w writer" where
  "RefreshAuthRequest_encode W m = w_seq [
     w_if (RefreshAuthRequest_sessionId m \<noteq> '''') [w_uint32 W 10, w_string W (RefreshAuthRequest_sessionId m)],
     w_some (RefreshAuthRequest_auth m) (\<lambda>v. [w_uint32 W 18, w_open W, SessionAuth_encode W v, w_join W])]"

definition RefreshAuthRequest_cases :: "('w, 'r) wire \<Rightarrow> ('r, RefreshAuthRequest) cases" where
  "RefreshAuthRequest_cases W = [
     (1, 10, d_val (r_string W) (\<lambda>v m. m\<lparr>RefreshAuthRequest_sessionId := v\<rparr>)),
     (2, 18, d_msg W (SessionAuth_decode W) (\<lambda>v m. m\<lparr>RefreshAuthRequest_auth := Some v\<rparr>))]"

definition RefreshAuthRequest_decode :: "('w, 'r) wire \<Rightarrow> ('r, RefreshAuthRequest) decoder" where
  "RefreshAuthRequest_decode W = d_message W (RefreshAuthRequest_cases W) createBaseRefreshAuthRequest"

definition RefreshAuthRequest_ok :: "RefreshAuthRequest \<Rightarrow> bool" where
  "RefreshAuthRequest_ok m \<longleftrightarrow> pred_option SessionAuth_ok (RefreshAuthRequest_auth m)"

lemmas RefreshAuthRequest_defs = RefreshAuthRequest_cases_def createBaseRefreshAuthRequest_def

context wire_lib
begin

lemma RefreshAuthRequest_codec:
  assumes ok: "RefreshAuthRequest_ok m"
  shows "codec W stk rem 3 (RefreshAuthRequest_encode W) (RefreshAuthRequest_cases W) createBaseRefreshAuthRequest m"
  by (rule codecI [OF RefreshAuthRequest_encode_def],
      rule field_string [where upd = RefreshAuthRequest_sessionId_update], simp add: RefreshAuthRequest_defs, simp add: RefreshAuthRequest_defs,
      rule field_msg [where upd = RefreshAuthRequest_auth_update], rule SessionAuth_rt, simp, (use ok in \<open>fastforce simp: RefreshAuthRequest_ok_def list_all_iff\<close>), simp add: RefreshAuthRequest_defs, simp add: RefreshAuthRequest_defs,
      rule matched_Nil, cases m, simp add: RefreshAuthRequest_defs)

lemma RefreshAuthRequest_rt: "4 \<le> d \<Longrightarrow> RefreshAuthRequest_ok m \<Longrightarrow> codec_rt W stk rem d (RefreshAuthRequest_encode W) (RefreshAuthRequest_decode W) m"
  unfolding RefreshAuthRequest_decode_def
  by (rule codec_rt_mono [OF codec_rt_of_codec [OF RefreshAuthRequest_codec]]) simp_all

end

context wire_reader
begin

lemma RefreshAuthRequest_total [total_rules]: "dec_total W (RefreshAuthRequest_decode W)"
  unfolding RefreshAuthRequest_decode_def RefreshAuthRequest_cases_def by (intro total_rules)

end

subsection \<open>RefreshAuthResponse\<close>

record RefreshAuthResponse =
  RefreshAuthResponse_snapshot :: "AuthSnapshot option"

definition createBaseRefreshAuthResponse :: RefreshAuthResponse where
  "createBaseRefreshAuthResponse = \<lparr>RefreshAuthResponse_snapshot = None\<rparr>"

definition RefreshAuthResponse_encode :: "('w, 'r) wire \<Rightarrow> RefreshAuthResponse \<Rightarrow> 'w writer" where
  "RefreshAuthResponse_encode W m = w_seq [
     w_some (RefreshAuthResponse_snapshot m) (\<lambda>v. [w_uint32 W 10, w_open W, AuthSnapshot_encode W v, w_join W])]"

definition RefreshAuthResponse_cases :: "('w, 'r) wire \<Rightarrow> ('r, RefreshAuthResponse) cases" where
  "RefreshAuthResponse_cases W = [
     (1, 10, d_msg W (AuthSnapshot_decode W) (\<lambda>v m. m\<lparr>RefreshAuthResponse_snapshot := Some v\<rparr>))]"

definition RefreshAuthResponse_decode :: "('w, 'r) wire \<Rightarrow> ('r, RefreshAuthResponse) decoder" where
  "RefreshAuthResponse_decode W = d_message W (RefreshAuthResponse_cases W) createBaseRefreshAuthResponse"

definition RefreshAuthResponse_ok :: "RefreshAuthResponse \<Rightarrow> bool" where
  "RefreshAuthResponse_ok m \<longleftrightarrow> pred_option AuthSnapshot_ok (RefreshAuthResponse_snapshot m)"

lemmas RefreshAuthResponse_defs = RefreshAuthResponse_cases_def createBaseRefreshAuthResponse_def

context wire_lib
begin

lemma RefreshAuthResponse_codec:
  assumes ok: "RefreshAuthResponse_ok m"
  shows "codec W stk rem 3 (RefreshAuthResponse_encode W) (RefreshAuthResponse_cases W) createBaseRefreshAuthResponse m"
  by (rule codecI [OF RefreshAuthResponse_encode_def],
      rule field_msg [where upd = RefreshAuthResponse_snapshot_update], rule AuthSnapshot_rt, simp, (use ok in \<open>fastforce simp: RefreshAuthResponse_ok_def list_all_iff\<close>), simp add: RefreshAuthResponse_defs, simp add: RefreshAuthResponse_defs,
      rule matched_Nil, cases m, simp add: RefreshAuthResponse_defs)

lemma RefreshAuthResponse_rt: "4 \<le> d \<Longrightarrow> RefreshAuthResponse_ok m \<Longrightarrow> codec_rt W stk rem d (RefreshAuthResponse_encode W) (RefreshAuthResponse_decode W) m"
  unfolding RefreshAuthResponse_decode_def
  by (rule codec_rt_mono [OF codec_rt_of_codec [OF RefreshAuthResponse_codec]]) simp_all

end

context wire_reader
begin

lemma RefreshAuthResponse_total [total_rules]: "dec_total W (RefreshAuthResponse_decode W)"
  unfolding RefreshAuthResponse_decode_def RefreshAuthResponse_cases_def by (intro total_rules)

end

subsection \<open>GetAuthSnapshotRequest\<close>

record GetAuthSnapshotRequest =
  GetAuthSnapshotRequest_sessionId :: string

definition createBaseGetAuthSnapshotRequest :: GetAuthSnapshotRequest where
  "createBaseGetAuthSnapshotRequest = \<lparr>GetAuthSnapshotRequest_sessionId = ''''\<rparr>"

definition GetAuthSnapshotRequest_encode :: "('w, 'r) wire \<Rightarrow> GetAuthSnapshotRequest \<Rightarrow> 'w writer" where
  "GetAuthSnapshotRequest_encode W m = w_seq [
     w_if (GetAuthSnapshotRequest_sessionId m \<noteq> '''') [w_uint32 W 10, w_string W (GetAuthSnapshotRequest_sessionId m)]]"

definition GetAuthSnapshotRequest_cases :: "('w, 'r) wire \<Rightarrow> ('r, GetAuthSnapshotRequest) cases" where
  "GetAuthSnapshotRequest_cases W = [
     (1, 10, d_val (r_string W) (\<lambda>v m. m\<lparr>GetAuthSnapshotRequest_sessionId := v\<rparr>))]"

definition GetAuthSnapshotRequest_decode :: "('w, 'r) wire \<Rightarrow> ('r, GetAuthSnapshotRequest) decoder" where
  "GetAuthSnapshotRequest_decode W = d_message W (GetAuthSnapshotRequest_cases W) createBaseGetAuthSnapshotRequest"

lemmas GetAuthSnapshotRequest_defs = GetAuthSnapshotRequest_cases_def createBaseGetAuthSnapshotRequest_def

context wire_lib
begin

lemma GetAuthSnapshotRequest_codec:
  "codec W stk rem 0 (GetAuthSnapshotRequest_encode W) (GetAuthSnapshotRequest_cases W) createBaseGetAuthSnapshotRequest m"
  by (rule codecI [OF GetAuthSnapshotRequest_encode_def],
      rule field_string [where upd = GetAuthSnapshotRequest_sessionId_update], simp add: GetAuthSnapshotRequest_defs, simp add: GetAuthSnapshotRequest_defs,
      rule matched_Nil, cases m, simp add: GetAuthSnapshotRequest_defs)

lemma GetAuthSnapshotRequest_rt: "1 \<le> d \<Longrightarrow> codec_rt W stk rem d (GetAuthSnapshotRequest_encode W) (GetAuthSnapshotRequest_decode W) m"
  unfolding GetAuthSnapshotRequest_decode_def
  by (rule codec_rt_mono [OF codec_rt_of_codec [OF GetAuthSnapshotRequest_codec]]) simp_all

end

context wire_reader
begin

lemma GetAuthSnapshotRequest_total [total_rules]: "dec_total W (GetAuthSnapshotRequest_decode W)"
  unfolding GetAuthSnapshotRequest_decode_def GetAuthSnapshotRequest_cases_def by (intro total_rules)

end

subsection \<open>GetAuthSnapshotResponse\<close>

record GetAuthSnapshotResponse =
  GetAuthSnapshotResponse_snapshot :: "AuthSnapshot option"

definition createBaseGetAuthSnapshotResponse :: GetAuthSnapshotResponse where
  "createBaseGetAuthSnapshotResponse = \<lparr>GetAuthSnapshotResponse_snapshot = None\<rparr>"

definition GetAuthSnapshotResponse_encode :: "('w, 'r) wire \<Rightarrow> GetAuthSnapshotResponse \<Rightarrow> 'w writer" where
  "GetAuthSnapshotResponse_encode W m = w_seq [
     w_some (GetAuthSnapshotResponse_snapshot m) (\<lambda>v. [w_uint32 W 10, w_open W, AuthSnapshot_encode W v, w_join W])]"

definition GetAuthSnapshotResponse_cases :: "('w, 'r) wire \<Rightarrow> ('r, GetAuthSnapshotResponse) cases" where
  "GetAuthSnapshotResponse_cases W = [
     (1, 10, d_msg W (AuthSnapshot_decode W) (\<lambda>v m. m\<lparr>GetAuthSnapshotResponse_snapshot := Some v\<rparr>))]"

definition GetAuthSnapshotResponse_decode :: "('w, 'r) wire \<Rightarrow> ('r, GetAuthSnapshotResponse) decoder" where
  "GetAuthSnapshotResponse_decode W = d_message W (GetAuthSnapshotResponse_cases W) createBaseGetAuthSnapshotResponse"

definition GetAuthSnapshotResponse_ok :: "GetAuthSnapshotResponse \<Rightarrow> bool" where
  "GetAuthSnapshotResponse_ok m \<longleftrightarrow> pred_option AuthSnapshot_ok (GetAuthSnapshotResponse_snapshot m)"

lemmas GetAuthSnapshotResponse_defs = GetAuthSnapshotResponse_cases_def createBaseGetAuthSnapshotResponse_def

context wire_lib
begin

lemma GetAuthSnapshotResponse_codec:
  assumes ok: "GetAuthSnapshotResponse_ok m"
  shows "codec W stk rem 3 (GetAuthSnapshotResponse_encode W) (GetAuthSnapshotResponse_cases W) createBaseGetAuthSnapshotResponse m"
  by (rule codecI [OF GetAuthSnapshotResponse_encode_def],
      rule field_msg [where upd = GetAuthSnapshotResponse_snapshot_update], rule AuthSnapshot_rt, simp, (use ok in \<open>fastforce simp: GetAuthSnapshotResponse_ok_def list_all_iff\<close>), simp add: GetAuthSnapshotResponse_defs, simp add: GetAuthSnapshotResponse_defs,
      rule matched_Nil, cases m, simp add: GetAuthSnapshotResponse_defs)

lemma GetAuthSnapshotResponse_rt: "4 \<le> d \<Longrightarrow> GetAuthSnapshotResponse_ok m \<Longrightarrow> codec_rt W stk rem d (GetAuthSnapshotResponse_encode W) (GetAuthSnapshotResponse_decode W) m"
  unfolding GetAuthSnapshotResponse_decode_def
  by (rule codec_rt_mono [OF codec_rt_of_codec [OF GetAuthSnapshotResponse_codec]]) simp_all

end

context wire_reader
begin

lemma GetAuthSnapshotResponse_total [total_rules]: "dec_total W (GetAuthSnapshotResponse_decode W)"
  unfolding GetAuthSnapshotResponse_decode_def GetAuthSnapshotResponse_cases_def by (intro total_rules)

end

subsection \<open>CloseSessionRequest\<close>

record CloseSessionRequest =
  CloseSessionRequest_sessionId :: string

definition createBaseCloseSessionRequest :: CloseSessionRequest where
  "createBaseCloseSessionRequest = \<lparr>CloseSessionRequest_sessionId = ''''\<rparr>"

definition CloseSessionRequest_encode :: "('w, 'r) wire \<Rightarrow> CloseSessionRequest \<Rightarrow> 'w writer" where
  "CloseSessionRequest_encode W m = w_seq [
     w_if (CloseSessionRequest_sessionId m \<noteq> '''') [w_uint32 W 10, w_string W (CloseSessionRequest_sessionId m)]]"

definition CloseSessionRequest_cases :: "('w, 'r) wire \<Rightarrow> ('r, CloseSessionRequest) cases" where
  "CloseSessionRequest_cases W = [
     (1, 10, d_val (r_string W) (\<lambda>v m. m\<lparr>CloseSessionRequest_sessionId := v\<rparr>))]"

definition CloseSessionRequest_decode :: "('w, 'r) wire \<Rightarrow> ('r, CloseSessionRequest) decoder" where
  "CloseSessionRequest_decode W = d_message W (CloseSessionRequest_cases W) createBaseCloseSessionRequest"

lemmas CloseSessionRequest_defs = CloseSessionRequest_cases_def createBaseCloseSessionRequest_def

context wire_lib
begin

lemma CloseSessionRequest_codec:
  "codec W stk rem 0 (CloseSessionRequest_encode W) (CloseSessionRequest_cases W) createBaseCloseSessionRequest m"
  by (rule codecI [OF CloseSessionRequest_encode_def],
      rule field_string [where upd = CloseSessionRequest_sessionId_update], simp add: CloseSessionRequest_defs, simp add: CloseSessionRequest_defs,
      rule matched_Nil, cases m, simp add: CloseSessionRequest_defs)

lemma CloseSessionRequest_rt: "1 \<le> d \<Longrightarrow> codec_rt W stk rem d (CloseSessionRequest_encode W) (CloseSessionRequest_decode W) m"
  unfolding CloseSessionRequest_decode_def
  by (rule codec_rt_mono [OF codec_rt_of_codec [OF CloseSessionRequest_codec]]) simp_all

end

context wire_reader
begin

lemma CloseSessionRequest_total [total_rules]: "dec_total W (CloseSessionRequest_decode W)"
  unfolding CloseSessionRequest_decode_def CloseSessionRequest_cases_def by (intro total_rules)

end

subsection \<open>CloseSessionResponse\<close>

datatype CloseSessionResponse = CloseSessionResponse

definition createBaseCloseSessionResponse :: CloseSessionResponse where
  "createBaseCloseSessionResponse = CloseSessionResponse"

definition CloseSessionResponse_encode :: "('w, 'r) wire \<Rightarrow> CloseSessionResponse \<Rightarrow> 'w writer" where
  "CloseSessionResponse_encode W m = w_seq []"

definition CloseSessionResponse_cases :: "('w, 'r) wire \<Rightarrow> ('r, CloseSessionResponse) cases" where
  "CloseSessionResponse_cases W = []"

definition CloseSessionResponse_decode :: "('w, 'r) wire \<Rightarrow> ('r, CloseSessionResponse) decoder" where
  "CloseSessionResponse_decode W = d_message W (CloseSessionResponse_cases W) createBaseCloseSessionResponse"

lemmas CloseSessionResponse_defs = CloseSessionResponse_cases_def createBaseCloseSessionResponse_def

context wire_lib
begin

lemma CloseSessionResponse_codec:
  "codec W stk rem 0 (CloseSessionResponse_encode W) (CloseSessionResponse_cases W) createBaseCloseSessionResponse m"
  by (rule codecI [OF CloseSessionResponse_encode_def],
      rule matched_Nil, cases m, simp add: CloseSessionResponse_defs)

lemma CloseSessionResponse_rt: "1 \<le> d \<Longrightarrow> codec_rt W stk rem d (CloseSessionResponse_encode W) (CloseSessionResponse_decode W) m"
  unfolding CloseSessionResponse_decode_def
  by (rule codec_rt_mono [OF codec_rt_of_codec [OF CloseSessionResponse_codec]]) simp_all

end

context wire_reader
begin

lemma CloseSessionResponse_total [total_rules]: "dec_total W (CloseSessionResponse_decode W)"
  unfolding CloseSessionResponse_decode_def CloseSessionResponse_cases_def by (intro total_rules)

end

subsection \<open>GetHealthRequest\<close>

record GetHealthRequest =
  GetHealthRequest_sessionId :: string

definition createBaseGetHealthRequest :: GetHealthRequest where
  "createBaseGetHealthRequest = \<lparr>GetHealthRequest_sessionId = ''''\<rparr>"

definition GetHealthRequest_encode :: "('w, 'r) wire \<Rightarrow> GetHealthRequest \<Rightarrow> 'w writer" where
  "GetHealthRequest_encode W m = w_seq [
     w_if (GetHealthRequest_sessionId m \<noteq> '''') [w_uint32 W 10, w_string W (GetHealthRequest_sessionId m)]]"

definition GetHealthRequest_cases :: "('w, 'r) wire \<Rightarrow> ('r, GetHealthRequest) cases" where
  "GetHealthRequest_cases W = [
     (1, 10, d_val (r_string W) (\<lambda>v m. m\<lparr>GetHealthRequest_sessionId := v\<rparr>))]"

definition GetHealthRequest_decode :: "('w, 'r) wire \<Rightarrow> ('r, GetHealthRequest) decoder" where
  "GetHealthRequest_decode W = d_message W (GetHealthRequest_cases W) createBaseGetHealthRequest"

lemmas GetHealthRequest_defs = GetHealthRequest_cases_def createBaseGetHealthRequest_def

context wire_lib
begin

lemma GetHealthRequest_codec:
  "codec W stk rem 0 (GetHealthRequest_encode W) (GetHealthRequest_cases W) createBaseGetHealthRequest m"
  by (rule codecI [OF GetHealthRequest_encode_def],
      rule field_string [where upd = GetHealthRequest_sessionId_update], simp add: GetHealthRequest_defs, simp add: GetHealthRequest_defs,
      rule matched_Nil, cases m, simp add: GetHealthRequest_defs)

lemma GetHealthRequest_rt: "1 \<le> d \<Longrightarrow> codec_rt W stk rem d (GetHealthRequest_encode W) (GetHealthRequest_decode W) m"
  unfolding GetHealthRequest_decode_def
  by (rule codec_rt_mono [OF codec_rt_of_codec [OF GetHealthRequest_codec]]) simp_all

end

context wire_reader
begin

lemma GetHealthRequest_total [total_rules]: "dec_total W (GetHealthRequest_decode W)"
  unfolding GetHealthRequest_decode_def GetHealthRequest_cases_def by (intro total_rules)

end

subsection \<open>GetHealthResponse\<close>

record GetHealthResponse =
  GetHealthResponse_health :: "HealthSnapshot option"

definition createBaseGetHealthResponse :: GetHealthResponse where
  "createBaseGetHealthResponse = \<lparr>GetHealthResponse_health = None\<rparr>"

definition GetHealthResponse_encode :: "('w, 'r) wire \<Rightarrow> GetHealthResponse \<Rightarrow> 'w writer" where
  "GetHealthResponse_encode W m = w_seq [
     w_some (GetHealthResponse_health m) (\<lambda>v. [w_uint32 W 10, w_open W, HealthSnapshot_encode W v, w_join W])]"

definition GetHealthResponse_cases :: "('w, 'r) wire \<Rightarrow> ('r, GetHealthResponse) cases" where
  "GetHealthResponse_cases W = [
     (1, 10, d_msg W (HealthSnapshot_decode W) (\<lambda>v m. m\<lparr>GetHealthResponse_health := Some v\<rparr>))]"

definition GetHealthResponse_decode :: "('w, 'r) wire \<Rightarrow> ('r, GetHealthResponse) decoder" where
  "GetHealthResponse_decode W = d_message W (GetHealthResponse_cases W) createBaseGetHealthResponse"

definition GetHealthResponse_ok :: "GetHealthResponse \<Rightarrow> bool" where
  "GetHealthResponse_ok m \<longleftrightarrow> pred_option HealthSnapshot_ok (GetHealthResponse_health m)"

lemmas GetHealthResponse_defs = GetHealthResponse_cases_def createBaseGetHealthResponse_def

context wire_lib
begin

lemma GetHealthResponse_codec:
  assumes ok: "GetHealthResponse_ok m"
  shows "codec W stk rem 2 (GetHealthResponse_encode W) (GetHealthResponse_cases W) createBaseGetHealthResponse m"
  by (rule codecI [OF GetHealthResponse_encode_def],
      rule field_msg [where upd = GetHealthResponse_health_update], rule HealthSnapshot_rt, simp, (use ok in \<open>fastforce simp: GetHealthResponse_ok_def list_all_iff\<close>), simp add: GetHealthResponse_defs, simp add: GetHealthResponse_defs,
      rule matched_Nil, cases m, simp add: GetHealthResponse_defs)

lemma GetHealthResponse_rt: "3 \<le> d \<Longrightarrow> GetHealthResponse_ok m \<Longrightarrow> codec_rt W stk rem d (GetHealthResponse_encode W) (GetHealthResponse_decode W) m"
  unfolding GetHealthResponse_decode_def
  by (rule codec_rt_mono [OF codec_rt_of_codec [OF GetHealthResponse_codec]]) simp_all

end

context wire_reader
begin

lemma GetHealthResponse_total [total_rules]: "dec_total W (GetHealthResponse_decode W)"
  unfolding GetHealthResponse_decode_def GetHealthResponse_cases_def by (intro total_rules)

end

subsection \<open>SubscribeEventsRequest\<close>

record SubscribeEventsRequest =
  SubscribeEventsRequest_sessionId :: string
  SubscribeEventsRequest_buffer :: int

definition createBaseSubscribeEventsRequest :: SubscribeEventsRequest where
  "createBaseSubscribeEventsRequest = \<lparr>SubscribeEventsRequest_sessionId = '''',
     SubscribeEventsRequest_buffer = 0\<rparr>"

definition SubscribeEventsRequest_encode :: "('w, 'r) wire \<Rightarrow> SubscribeEventsRequest \<Rightarrow> 'w writer" where
  "SubscribeEventsRequest_encode W m = w_seq [
     w_if (SubscribeEventsRequest_sessionId m \<noteq> '''') [w_uint32 W 10, w_string W (SubscribeEventsRequest_sessionId m)],
     w_if (SubscribeEventsRequest_buffer m \<noteq> 0) [w_uint32 W 16, w_uint32 W (SubscribeEventsRequest_buffer m)]]"

definition SubscribeEventsRequest_cases :: "('w, 'r) wire \<Rightarrow> ('r, SubscribeEventsRequest) cases" where
  "SubscribeEventsRequest_cases W = [
     (1, 10, d_val (r_string W) (\<lambda>v m. m\<lparr>SubscribeEventsRequest_sessionId := v\<rparr>)),
     (2, 16, d_val (r_uint32 W) (\<lambda>v m. m\<lparr>SubscribeEventsRequest_buffer := int v\<rparr>))]"

definition SubscribeEventsRequest_decode :: "('w, 'r) wire \<Rightarrow> ('r, SubscribeEventsRequest) decoder" where
  "SubscribeEventsRequest_decode W = d_message W (SubscribeEventsRequest_cases W) createBaseSubscribeEventsRequest"

lemmas SubscribeEventsRequest_defs = SubscribeEventsRequest_cases_def createBaseSubscribeEventsRequest_def

context wire_lib
begin

lemma SubscribeEventsRequest_codec:
  "codec W stk rem 0 (SubscribeEventsRequest_encode W) (SubscribeEventsRequest_cases W) createBaseSubscribeEventsRequest m"
  by (rule codecI [OF SubscribeEventsRequest_encode_def],
      rule field_string [where upd = SubscribeEventsRequest_sessionId_update], simp add: SubscribeEventsRequest_defs, simp add: SubscribeEventsRequest_defs,
      rule field_uint32 [where upd = SubscribeEventsRequest_buffer_update], simp add: SubscribeEventsRequest_defs, simp add: SubscribeEventsRequest_defs,
      rule matched_Nil, cases m, simp add: SubscribeEventsRequest_defs)

lemma SubscribeEventsRequest_rt: "1 \<le> d \<Longrightarrow> codec_rt W stk rem d (SubscribeEventsRequest_encode W) (SubscribeEventsRequest_decode W) m"
  unfolding SubscribeEventsRequest_decode_def
  by (rule codec_rt_mono [OF codec_rt_of_codec [OF SubscribeEventsRequest_codec]]) simp_all

end

context wire_reader
begin

lemma SubscribeEventsRequest_total [total_rules]: "dec_total W (SubscribeEventsRequest_decode W)"
  unfolding SubscribeEventsRequest_decode_def SubscribeEventsRequest_cases_def by (intro total_rules)

end

subsection \<open>SubscribeEventsResponse\<close>

record SubscribeEventsResponse =
  SubscribeEventsResponse_event :: "Event option"

definition createBaseSubscribeEventsResponse :: SubscribeEventsResponse where
  "createBaseSubscribeEventsResponse = \<lparr>SubscribeEventsResponse_event = None\<rparr>"

definition SubscribeEventsResponse_encode :: "('w, 'r) wire \<Rightarrow> SubscribeEventsResponse \<Rightarrow> 'w writer" where
  "SubscribeEventsResponse_encode W m = w_seq [
     w_some (SubscribeEventsResponse_event m) (\<lambda>v. [w_uint32 W 10, w_open W, Event_encode W v, w_join W])]"

definition SubscribeEventsResponse_cases :: "('w, 'r) wire \<Rightarrow> ('r, SubscribeEventsResponse) cases" where
  "SubscribeEventsResponse_cases W = [
     (1, 10, d_msg W (Event_decode W) (\<lambda>v m. m\<lparr>SubscribeEventsResponse_event := Some v\<rparr>))]"

definition SubscribeEventsResponse_decode :: "('w, 'r) wire \<Rightarrow> ('r, SubscribeEventsResponse) decoder" where
  "SubscribeEventsResponse_decode W = d_message W (SubscribeEventsResponse_cases W) createBaseSubscribeEventsResponse"

definition SubscribeEventsResponse_ok :: "SubscribeEventsResponse \<Rightarrow> bool" where
  "SubscribeEventsResponse_ok m \<longleftrightarrow> pred_option Event_ok (SubscribeEventsResponse_event m)"

lemmas SubscribeEventsResponse_defs = SubscribeEventsResponse_cases_def createBaseSubscribeEventsResponse_def

context wire_lib
begin

lemma SubscribeEventsResponse_codec:
  assumes ok: "SubscribeEventsResponse_ok m"
  shows "codec W stk rem 5 (SubscribeEventsResponse_encode W) (SubscribeEventsResponse_cases W) createBaseSubscribeEventsResponse m"
  by (rule codecI [OF SubscribeEventsResponse_encode_def],
      rule field_msg [where upd = SubscribeEventsResponse_event_update], rule Event_rt, simp, (use ok in \<open>fastforce simp: SubscribeEventsResponse_ok_def list_all_iff\<close>), simp add: SubscribeEventsResponse_defs, simp add: SubscribeEventsResponse_defs,
      rule matched_Nil, cases m, simp add: SubscribeEventsResponse_defs)

lemma SubscribeEventsResponse_rt: "6 \<le> d \<Longrightarrow> SubscribeEventsResponse_ok m \<Longrightarrow> codec_rt W stk rem d (SubscribeEventsResponse_encode W) (SubscribeEventsResponse_decode W) m"
  unfolding SubscribeEventsResponse_decode_def
  by (rule codec_rt_mono [OF codec_rt_of_codec [OF SubscribeEventsResponse_codec]]) simp_all

end

context wire_reader
begin

lemma SubscribeEventsResponse_total [total_rules]: "dec_total W (SubscribeEventsResponse_decode W)"
  unfolding SubscribeEventsResponse_decode_def SubscribeEventsResponse_cases_def by (intro total_rules)

end

end
