(* ===== verification/Event_Stream.thy ===== *)
theory Event_Stream
  imports Event_Queue Gen_Session
begin

text \<open>
  \<open>EventStream\<close> of \<open>sdk/node/src/events.ts\<close>: callbacks registered per event name, asynchronous
  iterators with a bounded queue each, and one pump that reads the gRPC response stream.

  A JavaScript turn is one step: a call of the public interface, a result of the source the pump
  waits for, or the continuation of an iterator whose promise is settled.  Listeners run inside
  the pump's turn and may call the interface again; what a listener does is the parameter \<open>beh\<close>.
  \<open>Set\<close> objects are entries of a heap, because the unsubscribe function and the running loop of
  the pump keep the \<open>Set\<close> they saw; their iteration is live: a member that is deleted before the
  loop reaches it is skipped, one that is added is visited.  Members carry the time stamp of their
  insertion.  The source and the \<open>AbortController\<close> are not part of the SDK; calls to them and to
  \<open>onClose\<close> are entries of a log.
\<close>

section \<open>State\<close>

definition event_name :: "Event_payload_case \<Rightarrow> string" where
  "event_name p = (case p of
       Event_payload_ready _ \<Rightarrow> ''ready''
     | Event_payload_reconnected _ \<Rightarrow> ''reconnected''
     | Event_payload_disconnected _ \<Rightarrow> ''disconnected''
     | Event_payload_error _ \<Rightarrow> ''error''
     | Event_payload_message _ \<Rightarrow> ''message''
     | Event_payload_reaction _ \<Rightarrow> ''reaction''
     | Event_payload_typing _ \<Rightarrow> ''typing''
     | Event_payload_readReceipt _ \<Rightarrow> ''readReceipt''
     | Event_payload_deliveryReceipt _ \<Rightarrow> ''deliveryReceipt''
     | Event_payload_messageEdit _ \<Rightarrow> ''messageEdit''
     | Event_payload_messageUnsend _ \<Rightarrow> ''messageUnsend''
     | Event_payload_threadUpdate _ \<Rightarrow> ''threadUpdate''
     | Event_payload_e2eeReady _ \<Rightarrow> ''e2eeReady''
     | Event_payload_e2eeReceipt _ \<Rightarrow> ''e2eeReceipt''
     | Event_payload_threadSystem _ \<Rightarrow> ''threadSystem'')"

type_synonym listener = nat

text \<open>Requests to the iterator's generator object and where its body stands.\<close>

datatype req = ReqNext | ReqReturn | ReqThrow js_error

datatype phase = Fresh | Running nat nat | AtYield nat | Returning nat | Complete

record iter =
  it_phase :: phase
  it_reqs :: "req list"

datatype eff =
    Pull
  | SourceReturn
  | Abort
  | OnClose
  | Called listener Event
  | IterResult nat "Event q_result"

datatype pump = NotStarted | Waiting | Unwinding js_error | Finished

record stream =
  s_buffer :: int
  s_sets :: "(nat \<times> listener) list list"
  s_stamp :: nat
  s_listeners :: "string \<Rightarrow> nat option"
  s_queues :: "nat list"
  s_store :: "Event q_run list"
  s_iters :: "iter list"
  s_started :: bool
  s_closed :: bool
  s_pump :: pump
  s_log :: "eff list"

definition new_stream :: "int \<Rightarrow> stream" where
  "new_stream buffer = \<lparr>s_buffer = buffer, s_sets = [], s_stamp = 0, s_listeners = Map.empty,
     s_queues = [], s_store = [], s_iters = [], s_started = False, s_closed = False,
     s_pump = NotStarted, s_log = []\<rparr>"

definition emit :: "eff \<Rightarrow> stream \<Rightarrow> stream" where
  "emit x s = s\<lparr>s_log := s_log s @ [x]\<rparr>"

section \<open>Operations\<close>

definition st_start :: "stream \<Rightarrow> stream" where
  "st_start s = (if s_started s \<or> s_closed s then s
     else emit Pull (s\<lparr>s_started := True, s_pump := Waiting\<rparr>))"

definition listener_set :: "stream \<Rightarrow> string \<Rightarrow> stream \<times> nat" where
  "listener_set s name = (case s_listeners s name of
       Some sid \<Rightarrow> (s, sid)
     | None \<Rightarrow> (s\<lparr>s_sets := s_sets s @ [[]], s_listeners := (s_listeners s)(name \<mapsto> length (s_sets s))\<rparr>,
               length (s_sets s)))"

definition set_put :: "nat \<Rightarrow> listener \<Rightarrow> stream \<Rightarrow> stream" where
  "set_put sid l s = (if l \<in> snd ` set (s_sets s ! sid) then s
     else s\<lparr>s_sets := (s_sets s)[sid := s_sets s ! sid @ [(s_stamp s, l)]], s_stamp := Suc (s_stamp s)\<rparr>)"

text \<open>\<open>on\<close>; the unsubscribe function it returns is the pair of the set and the listener.\<close>

definition st_on :: "stream \<Rightarrow> string \<Rightarrow> listener \<Rightarrow> stream" where
  "st_on s name l = (let (s1, sid) = listener_set s name in st_start (set_put sid l s1))"

definition st_off :: "stream \<Rightarrow> nat \<Rightarrow> listener \<Rightarrow> stream" where
  "st_off s sid l = (if sid < length (s_sets s)
     then s\<lparr>s_sets := (s_sets s)[sid := filter (\<lambda>(t, l'). l' \<noteq> l) (s_sets s ! sid)]\<rparr> else s)"

definition q_apply :: "Event q_op \<Rightarrow> nat \<Rightarrow> stream \<Rightarrow> stream" where
  "q_apply op qid s = s\<lparr>s_store := (s_store s)[qid := q_step (s_store s ! qid) op]\<rparr>"

definition for_queues :: "Event q_op \<Rightarrow> stream \<Rightarrow> stream" where
  "for_queues op s = fold (q_apply op) (s_queues s) s"

definition st_close :: "stream \<Rightarrow> stream" where
  "st_close s = (if s_closed s then s
     else emit OnClose ((for_queues Close (emit Abort (s\<lparr>s_closed := True\<rparr>)))
       \<lparr>s_queues := [], s_listeners := Map.empty\<rparr>))"

section \<open>Iterators\<close>

fun req_final :: "req \<Rightarrow> Event q_result" where
  "req_final ReqNext = Done"
| "req_final ReqReturn = Done"
| "req_final (ReqThrow e) = Rejected e"

definition set_phase :: "nat \<Rightarrow> phase \<Rightarrow> stream \<Rightarrow> stream" where
  "set_phase i ph s = s\<lparr>s_iters := (s_iters s)[i := (s_iters s ! i)\<lparr>it_phase := ph\<rparr>]\<rparr>"

text \<open>
  The body ends: the request it was serving gets \<open>r\<close>, the requests queued behind it get what a
  finished generator answers.
\<close>

definition it_complete :: "nat \<Rightarrow> Event q_result \<Rightarrow> stream \<Rightarrow> stream" where
  "it_complete i r s = s\<lparr>s_iters := (s_iters s)[i := \<lparr>it_phase = Complete, it_reqs = []\<rparr>],
     s_log := s_log s @ IterResult i r # map (\<lambda>x. IterResult i (req_final x)) (tl (it_reqs (s_iters s ! i)))\<rparr>"

text \<open>The \<open>finally\<close> clause.\<close>

definition drop_queue :: "nat \<Rightarrow> stream \<Rightarrow> stream" where
  "drop_queue qid s = s\<lparr>s_queues := set_delete qid (s_queues s)\<rparr>"

text \<open>\<open>await queue.next()\<close>\<close>

definition it_ask :: "nat \<Rightarrow> nat \<Rightarrow> stream \<Rightarrow> stream" where
  "it_ask i qid s = set_phase i (Running qid (fst (snd (s_store s ! qid)))) (q_apply Next qid s)"

definition it_open :: "nat \<Rightarrow> stream \<Rightarrow> stream" where
  "it_open i s = it_ask i (length (s_store s)) (st_start (s\<lparr>
     s_store := s_store s @ [(new_queue (s_buffer s), 0, [])],
     s_queues := set_add (length (s_store s)) (s_queues s)\<rparr>))"

definition it_resume :: "nat \<Rightarrow> stream \<Rightarrow> stream" where
  "it_resume i s = (case it_reqs (s_iters s ! i) of
       [] \<Rightarrow> s
     | r # rs \<Rightarrow> (case it_phase (s_iters s ! i) of
           Fresh \<Rightarrow> (if r = ReqNext then (if s_closed s then it_complete i Done s else it_open i s)
                     else it_complete i (req_final r) s)
         | AtYield q \<Rightarrow> (case r of
               ReqNext \<Rightarrow> it_ask i q s
             | ReqReturn \<Rightarrow> set_phase i (Returning q) s
             | ReqThrow e \<Rightarrow> it_complete i (Rejected e) (drop_queue q s))
         | Complete \<Rightarrow> it_complete i (req_final r) s
         | Running q p \<Rightarrow> s
         | Returning q \<Rightarrow> s))"

definition it_request :: "nat \<Rightarrow> req \<Rightarrow> stream \<Rightarrow> stream" where
  "it_request i r s = (if i < length (s_iters s)
     then it_resume i (s\<lparr>s_iters := (s_iters s)[i := (s_iters s ! i)\<lparr>it_reqs := it_reqs (s_iters s ! i) @ [r]\<rparr>]\<rparr>)
     else s)"

text \<open>The continuation after an \<open>await\<close>; \<open>None\<close> while nothing is settled.\<close>

definition it_wake :: "nat \<Rightarrow> stream \<Rightarrow> stream option" where
  "it_wake i s = (if i < length (s_iters s) then
     (case it_phase (s_iters s ! i) of
        Running q p \<Rightarrow> (case map_of (snd (snd (s_store s ! q))) p of
            None \<Rightarrow> None
          | Some (Value v) \<Rightarrow> Some (it_resume i (emit (IterResult i (Value v)) (s\<lparr>s_iters := (s_iters s)[i :=
              \<lparr>it_phase = AtYield q, it_reqs = tl (it_reqs (s_iters s ! i))\<rparr>]\<rparr>)))
          | Some r \<Rightarrow> Some (it_complete i r (drop_queue q s)))
      | Returning q \<Rightarrow> Some (it_complete i Done (drop_queue q s))
      | _ \<Rightarrow> None) else None)"

section \<open>The pump\<close>

datatype act = On string listener | Off nat listener | CloseStream | NewIter | IterReq nat req

fun do_act :: "stream \<Rightarrow> act \<Rightarrow> stream" where
  "do_act s (On name l) = st_on s name l"
| "do_act s (Off sid l) = st_off s sid l"
| "do_act s CloseStream = st_close s"
| "do_act s NewIter = s\<lparr>s_iters := s_iters s @ [\<lparr>it_phase = Fresh, it_reqs = []\<rparr>]\<rparr>"
| "do_act s (IterReq i r) = it_request i r s"

text \<open>What a listener does when it is called: the interface calls it makes, and what it throws.\<close>

type_synonym behaviour = "listener \<Rightarrow> Event \<Rightarrow> stream \<Rightarrow> act list \<times> js_error option"

text \<open>
  The loop over the members of a live \<open>Set\<close>; \<open>from\<close> is the stamp after the last member visited.
  Listeners that keep adding listeners make it run for ever, which is \<open>None\<close>.
\<close>

partial_function (option) call_listeners ::
    "behaviour \<Rightarrow> nat \<Rightarrow> nat \<Rightarrow> Event \<Rightarrow> stream \<Rightarrow> (stream \<times> js_error option) option" where
  "call_listeners beh sid start e s =
     (case find (\<lambda>(t, l). start \<le> t) (s_sets s ! sid) of
        None \<Rightarrow> Some (s, None)
      | Some m \<Rightarrow>
          (let s1 = emit (Called (snd m) e) s;
               r = beh (snd m) e s1;
               s2 = foldl do_act s1 (fst r)
           in if snd r = None then call_listeners beh sid (Suc (fst m)) e s2 else Some (s2, snd r)))"

declare call_listeners.simps [code]

definition dispatch :: "behaviour \<Rightarrow> Event \<Rightarrow> stream \<Rightarrow> (stream \<times> js_error option) option" where
  "dispatch beh e s = (case Event_payload e of
       None \<Rightarrow> Some (s, None)
     | Some p \<Rightarrow> (case s_listeners s (event_name p) of
           None \<Rightarrow> Some (s, None)
         | Some sid \<Rightarrow> call_listeners beh sid 0 e s))"

definition pump_response :: "behaviour \<Rightarrow> SubscribeEventsResponse \<Rightarrow> stream \<Rightarrow> stream option" where
  "pump_response beh r s =
     (if s_closed s then Some (emit SourceReturn (s\<lparr>s_pump := Finished\<rparr>))
      else (case SubscribeEventsResponse_event r of
          None \<Rightarrow> Some s
        | Some e \<Rightarrow> (case dispatch beh e s of
              None \<Rightarrow> None
            | Some (s1, None) \<Rightarrow> Some (for_queues (Push e) s1)
            | Some (s1, Some x) \<Rightarrow> Some (emit SourceReturn (s1\<lparr>s_pump := Unwinding x\<rparr>)))))"

definition pump_end :: "stream \<Rightarrow> stream" where
  "pump_end s = emit OnClose ((for_queues Close (s\<lparr>s_closed := True\<rparr>))
     \<lparr>s_listeners := Map.empty, s_pump := Finished\<rparr>)"

definition pump_catch :: "js_error \<Rightarrow> stream \<Rightarrow> stream" where
  "pump_catch x s = (if s_closed s then s\<lparr>s_pump := Finished\<rparr>
     else emit OnClose ((for_queues (Fail x) (s\<lparr>s_closed := True\<rparr>))
       \<lparr>s_listeners := Map.empty, s_pump := Finished\<rparr>))"

section \<open>Steps\<close>

datatype input =
    User act
  | Response SubscribeEventsResponse
  | SourceEnd
  | SourceError js_error
  | Unwound
  | Wake nat

inductive stream_step :: "behaviour \<Rightarrow> stream \<Rightarrow> input \<Rightarrow> stream \<Rightarrow> bool" for beh where
  user: "stream_step beh s (User a) (do_act s a)"
| response: "s_pump s = Waiting \<Longrightarrow> pump_response beh r s = Some s' \<Longrightarrow> stream_step beh s (Response r) s'"
| source_end: "s_pump s = Waiting \<Longrightarrow> stream_step beh s SourceEnd (pump_end s)"
| source_error: "s_pump s = Waiting \<Longrightarrow> stream_step beh s (SourceError x) (pump_catch x s)"
| unwound: "s_pump s = Unwinding x \<Longrightarrow> stream_step beh s Unwound (pump_catch x s)"
| wake: "it_wake i s = Some s' \<Longrightarrow> stream_step beh s (Wake i) s'"

inductive_cases stream_stepE: "stream_step beh s x s'"

inductive stream_reach :: "behaviour \<Rightarrow> int \<Rightarrow> stream \<Rightarrow> bool" for beh buffer where
  initial: "stream_reach beh buffer (new_stream buffer)"
| later: "stream_reach beh buffer s \<Longrightarrow> stream_step beh s x s' \<Longrightarrow> stream_reach beh buffer s'"

section \<open>The queues of a stream\<close>

lemma for_queues_frame [simp]:
  "s_buffer (for_queues op s) = s_buffer s"
  "s_sets (for_queues op s) = s_sets s"
  "s_stamp (for_queues op s) = s_stamp s"
  "s_listeners (for_queues op s) = s_listeners s"
  "s_queues (for_queues op s) = s_queues s"
  "s_iters (for_queues op s) = s_iters s"
  "s_started (for_queues op s) = s_started s"
  "s_closed (for_queues op s) = s_closed s"
  "s_pump (for_queues op s) = s_pump s"
  "s_log (for_queues op s) = s_log s"
proof -
  have "s_buffer (fold (q_apply op) qs s) = s_buffer s \<and> s_sets (fold (q_apply op) qs s) = s_sets s \<and>
    s_stamp (fold (q_apply op) qs s) = s_stamp s \<and> s_listeners (fold (q_apply op) qs s) = s_listeners s \<and>
    s_queues (fold (q_apply op) qs s) = s_queues s \<and> s_iters (fold (q_apply op) qs s) = s_iters s \<and>
    s_started (fold (q_apply op) qs s) = s_started s \<and> s_closed (fold (q_apply op) qs s) = s_closed s \<and>
    s_pump (fold (q_apply op) qs s) = s_pump s \<and> s_log (fold (q_apply op) qs s) = s_log s" for qs
    by (induction qs arbitrary: s) (simp_all add: q_apply_def)
  then show "s_buffer (for_queues op s) = s_buffer s"
    "s_sets (for_queues op s) = s_sets s"
    "s_stamp (for_queues op s) = s_stamp s"
    "s_listeners (for_queues op s) = s_listeners s"
    "s_queues (for_queues op s) = s_queues s"
    "s_iters (for_queues op s) = s_iters s"
    "s_started (for_queues op s) = s_started s"
    "s_closed (for_queues op s) = s_closed s"
    "s_pump (for_queues op s) = s_pump s"
    "s_log (for_queues op s) = s_log s"
    by (simp_all add: for_queues_def)
qed

lemma fold_q_apply_store:
  "distinct qs \<Longrightarrow> set qs \<subseteq> {..<length (s_store s)} \<Longrightarrow>
   s_store (fold (q_apply op) qs s) =
     map (\<lambda>q. if q \<in> set qs then q_step (s_store s ! q) op else s_store s ! q) [0..<length (s_store s)]"
proof (induction qs arbitrary: s)
  case Nil
  then show ?case by (simp add: map_nth)
next
  case (Cons q qs)
  then show ?case
    by (auto simp: q_apply_def nth_list_update intro!: nth_equalityI)
qed

definition queues_ok :: "stream \<Rightarrow> bool" where
  "queues_ok s = (distinct (s_queues s) \<and> set (s_queues s) \<subseteq> {..<length (s_store s)})"

lemma for_queues_store:
  assumes "queues_ok s"
  shows "length (s_store (for_queues op s)) = length (s_store s)"
    and "q < length (s_store s) \<Longrightarrow> s_store (for_queues op s) ! q =
      (if q \<in> set (s_queues s) then q_step (s_store s ! q) op else s_store s ! q)"
  using assms by (simp_all add: for_queues_def queues_ok_def fold_q_apply_store)

abbreviation queue_at :: "stream \<Rightarrow> nat \<Rightarrow> Event event_queue" where
  "queue_at s q \<equiv> fst (s_store s ! q)"

abbreviation promises_at :: "stream \<Rightarrow> nat \<Rightarrow> nat" where
  "promises_at s q \<equiv> fst (snd (s_store s ! q))"

abbreviation settled_at :: "stream \<Rightarrow> nat \<Rightarrow> Event settlement list" where
  "settled_at s q \<equiv> snd (snd (s_store s ! q))"

lemma q_step_ended: "q_ended (fst st) \<Longrightarrow> q_ended (fst (q_step st op))"
  by (cases "(st, op)" rule: q_step.cases)
    (auto simp: q_push_def q_next_def q_close_def q_fail_def Let_def split: list.splits option.splits)

lemma q_step_Close_ended: "q_ended (fst (q_step st Close))"
  by (cases st) (simp add: q_close_def)

lemma q_step_Fail_ended: "q_ended (fst (q_step st (Fail e)))"
  by (cases st) (simp add: q_fail_def)

lemma q_step_promises:
  "fst (snd (q_step st op)) = (if op = Next then Suc (fst (snd st)) else fst (snd st))"
  by (cases "(st, op)" rule: q_step.cases) (simp_all add: Let_def split_beta)

lemma q_run_snoc: "q_step (q_run limit ops) op = q_run limit (ops @ [op])"
  by (simp add: q_run_def)

section \<open>Invariants\<close>

primrec values_of :: "nat \<Rightarrow> eff list \<Rightarrow> Event list" where
  "values_of i [] = []"
| "values_of i (x # xs) = (case x of
       IterResult j r \<Rightarrow> (case r of Value v \<Rightarrow> if j = i then v # values_of i xs else values_of i xs
                          | _ \<Rightarrow> values_of i xs)
     | _ \<Rightarrow> values_of i xs)"

lemma values_of_append [simp]: "values_of i (xs @ ys) = values_of i xs @ values_of i ys"
  by (induction xs) (simp_all split: eff.split q_result.split)

lemma values_of_finals [simp]: "values_of i (map (\<lambda>x. IterResult j (req_final x)) rs) = []"
proof (induction rs)
  case (Cons r rs)
  then show ?case by (cases r) simp_all
qed simp

text \<open>
  An iterator that owns a queue: while the stream is open the pump still feeds the queue, when the
  stream is closed the queue has ended; and the values handed out so far are the first ones pushed.
\<close>

definition linked :: "stream \<Rightarrow> nat \<Rightarrow> Event list \<Rightarrow> bool" where
  "linked s q vs = (q < length (s_store s) \<and>
     (if s_closed s then q_ended (queue_at s q) else q \<in> set (s_queues s)) \<and>
     (\<exists>ops rest. s_store s ! q = q_run (s_buffer s) ops \<and> pushes ops = vs @ rest))"

definition phase_ok :: "stream \<Rightarrow> phase \<Rightarrow> Event list \<Rightarrow> bool" where
  "phase_ok s ph vs = (case ph of
       Fresh \<Rightarrow> vs = []
     | Running q p \<Rightarrow> linked s q vs \<and> p = length vs \<and> promises_at s q = Suc p
     | AtYield q \<Rightarrow> linked s q vs \<and> promises_at s q = length vs
     | Returning q \<Rightarrow> linked s q vs
     | Complete \<Rightarrow> True)"

fun owned :: "phase \<Rightarrow> nat option" where
  "owned (Running q p) = Some q"
| "owned (AtYield q) = Some q"
| "owned (Returning q) = Some q"
| "owned _ = None"

definition iters_ok :: "stream \<Rightarrow> bool" where
  "iters_ok s = (queues_ok s \<and>
     (\<forall>i < length (s_iters s). phase_ok s (it_phase (s_iters s ! i)) (values_of i (s_log s))) \<and>
     (\<forall>i < length (s_iters s). \<forall>j < length (s_iters s). i \<noteq> j \<longrightarrow>
        owned (it_phase (s_iters s ! i)) \<noteq> None \<longrightarrow>
        owned (it_phase (s_iters s ! i)) \<noteq> owned (it_phase (s_iters s ! j))) \<and>
     (\<forall>i. length (s_iters s) \<le> i \<longrightarrow> values_of i (s_log s) = []))"

lemma iters_okI:
  assumes "queues_ok s"
    and "\<And>i. i < length (s_iters s) \<Longrightarrow> phase_ok s (it_phase (s_iters s ! i)) (values_of i (s_log s))"
    and "\<And>i j. i < length (s_iters s) \<Longrightarrow> j < length (s_iters s) \<Longrightarrow> i \<noteq> j \<Longrightarrow>
        owned (it_phase (s_iters s ! i)) \<noteq> None \<Longrightarrow>
        owned (it_phase (s_iters s ! i)) \<noteq> owned (it_phase (s_iters s ! j))"
    and "\<And>i. length (s_iters s) \<le> i \<Longrightarrow> values_of i (s_log s) = []"
  shows "iters_ok s"
  using assms by (simp add: iters_ok_def)

lemma iters_okD:
  assumes "iters_ok s"
  shows "queues_ok s"
    and "i < length (s_iters s) \<Longrightarrow> phase_ok s (it_phase (s_iters s ! i)) (values_of i (s_log s))"
    and "i < length (s_iters s) \<Longrightarrow> j < length (s_iters s) \<Longrightarrow> i \<noteq> j \<Longrightarrow>
        owned (it_phase (s_iters s ! i)) \<noteq> None \<Longrightarrow>
        owned (it_phase (s_iters s ! i)) \<noteq> owned (it_phase (s_iters s ! j))"
    and "length (s_iters s) \<le> i \<Longrightarrow> values_of i (s_log s) = []"
  using assms by (simp_all add: iters_ok_def)

text \<open>States that agree on what the invariant reads.\<close>

lemma phase_ok_mono:
  assumes "phase_ok s ph vs"
    and "\<And>q. owned ph = Some q \<Longrightarrow> linked s q vs \<Longrightarrow> linked s' q vs \<and> promises_at s' q = promises_at s q"
  shows "phase_ok s' ph vs"
  using assms by (auto simp: phase_ok_def split: phase.splits)

lemma phase_ok_frame:
  assumes "s_buffer s' = s_buffer s" "s_queues s' = s_queues s" "s_store s' = s_store s" "s_closed s' = s_closed s"
  shows "phase_ok s' ph vs = phase_ok s ph vs"
  using assms by (simp add: phase_ok_def linked_def split: phase.split)

lemma iters_ok_frame:
  assumes "iters_ok s" and "s_buffer s' = s_buffer s" "s_queues s' = s_queues s" "s_store s' = s_store s"
    "s_iters s' = s_iters s" "s_closed s' = s_closed s" and "\<And>i. values_of i (s_log s') = values_of i (s_log s)"
  shows "iters_ok s'"
  using assms phase_ok_frame [of s' s] by (simp add: iters_ok_def queues_ok_def)

text \<open>Pushing to, closing or failing every open queue.\<close>

lemma linked_for_queues:
  assumes ok: "queues_ok s" and link: "linked s q vs" and op: "op \<noteq> Next"
    and same: "s_buffer s' = s_buffer s" "s_store s' = s_store (for_queues op s)"
    and closed: "s_closed s' \<longrightarrow> s_closed s \<or> (\<exists>e. op = Close \<or> op = Fail e)"
    and qs: "\<not> s_closed s' \<longrightarrow> \<not> s_closed s \<and> s_queues s' = s_queues s"
  shows "linked s' q vs \<and> promises_at s' q = promises_at s q"
proof -
  obtain ops rest where q: "q < length (s_store s)" and run: "s_store s ! q = q_run (s_buffer s) ops"
    and rest: "pushes ops = vs @ rest"
    using link by (auto simp: linked_def)
  have store: "s_store s' ! q = (if q \<in> set (s_queues s) then q_step (s_store s ! q) op else s_store s ! q)"
    using for_queues_store(2) [OF ok q] same by simp
  have "\<exists>ops rest. s_store s' ! q = q_run (s_buffer s) ops \<and> pushes ops = vs @ rest"
    using run rest by (cases "q \<in> set (s_queues s)") (auto simp: store q_run_snoc)
  moreover have "q_ended (fst (s_store s' ! q))" if "s_closed s'"
    using that closed link
    by (auto simp: store linked_def q_step_ended q_step_Close_ended q_step_Fail_ended split: if_splits)
  ultimately show ?thesis
    using q link op same qs by (auto simp: linked_def for_queues_store [OF ok] q_step_promises store split: if_splits)
qed

lemma iters_ok_for_queues:
  assumes ok: "iters_ok s" and op: "op \<noteq> Next"
    and same: "s_buffer s' = s_buffer s" "s_store s' = s_store (for_queues op s)" "s_iters s' = s_iters s"
      "s_queues s' = s_queues s \<or> s_queues s' = []"
    and vals: "\<And>i. values_of i (s_log s') = values_of i (s_log s)"
    and closed: "s_closed s' \<longrightarrow> s_closed s \<or> (\<exists>e. op = Close \<or> op = Fail e)"
    and qs: "\<not> s_closed s' \<longrightarrow> \<not> s_closed s \<and> s_queues s' = s_queues s"
  shows "iters_ok s'"
proof (rule iters_okI)
  note D = iters_okD [OF ok]
  show "queues_ok s'" using D(1) same by (auto simp: queues_ok_def for_queues_store [OF D(1)])
  show "phase_ok s' (it_phase (s_iters s' ! i)) (values_of i (s_log s'))" if "i < length (s_iters s')" for i
    unfolding same vals
    by (rule phase_ok_mono [OF D(2)])
      (use that same in simp, rule linked_for_queues [OF D(1) _ op same(1,2) closed qs])
qed (use iters_okD(3,4) [OF ok] same vals in auto)

text \<open>A step that only concerns iterator \<open>i\<close> and the queue it owns.\<close>

lemma iters_ok_update:
  assumes ok: "iters_ok s" and i: "i < length (s_iters s)"
    and it: "s_iters s' = (s_iters s)[i := it]"
    and same: "s_buffer s' = s_buffer s" "s_closed s' = s_closed s"
    and vals: "\<And>j. j \<noteq> i \<Longrightarrow> values_of j (s_log s') = values_of j (s_log s)"
    and qs: "queues_ok s'"
    and own: "phase_ok s' (it_phase it) (values_of i (s_log s'))"
    and store: "\<And>q. q < length (s_store s) \<Longrightarrow> owned (it_phase (s_iters s ! i)) \<noteq> Some q \<Longrightarrow>
        q < length (s_store s') \<and> s_store s' ! q = s_store s ! q \<and>
        (q \<in> set (s_queues s) \<longrightarrow> q \<in> set (s_queues s'))"
    and new: "\<And>q. owned (it_phase it) = Some q \<Longrightarrow>
        owned (it_phase (s_iters s ! i)) = Some q \<or> length (s_store s) \<le> q"
  shows "iters_ok s'"
proof (rule iters_okI)
  note D = iters_okD [OF ok]
  have range: "q < length (s_store s)" if "j < length (s_iters s)" "owned (it_phase (s_iters s ! j)) = Some q" for j q
    using D(2) [OF that(1)] that(2) by (auto simp: phase_ok_def linked_def split: phase.splits)
  have apart: "owned (it_phase it) \<noteq> owned (it_phase (s_iters s ! j))"
    if j: "j < length (s_iters s)" "j \<noteq> i" "owned (it_phase (s_iters s ! j)) \<noteq> None" for j
  proof
    assume eq: "owned (it_phase it) = owned (it_phase (s_iters s ! j))"
    then obtain q where "owned (it_phase it) = Some q" "owned (it_phase (s_iters s ! j)) = Some q"
      using j(3) by auto
    with new range [OF j(1)] D(3) [OF j(1) i j(2,3)] show False by fastforce
  qed
  show "queues_ok s'" by (rule qs)
  show "phase_ok s' (it_phase (s_iters s' ! j)) (values_of j (s_log s'))" if j: "j < length (s_iters s')" for j
  proof (cases "j = i")
    case True
    then show ?thesis using own i by (simp add: it)
  next
    case False
    have "phase_ok s' (it_phase (s_iters s ! j)) (values_of j (s_log s))"
    proof (rule phase_ok_mono [OF D(2)])
      show "j < length (s_iters s)" using j it by simp
      fix q
      assume q: "owned (it_phase (s_iters s ! j)) = Some q" and link: "linked s q (values_of j (s_log s))"
      have "owned (it_phase (s_iters s ! i)) \<noteq> Some q"
        using D(3) [of j i] False j i it q by auto
      then show "linked s' q (values_of j (s_log s)) \<and> promises_at s' q = promises_at s q"
        using store [of q] link same by (auto simp: linked_def split: if_splits)
    qed
    then show ?thesis using False by (simp add: it vals)
  qed
  show "owned (it_phase (s_iters s' ! j)) \<noteq> owned (it_phase (s_iters s' ! k))"
    if "j < length (s_iters s')" "k < length (s_iters s')" "j \<noteq> k" "owned (it_phase (s_iters s' ! j)) \<noteq> None" for j k
    using that D(3) [of j k] apart [of j] apart [of k] i
    by (cases "j = i"; cases "k = i"; cases "owned (it_phase (s_iters s ! k)) = None")
      (simp_all add: it del: not_None_eq)
  show "values_of j (s_log s') = []" if "length (s_iters s') \<le> j" for j
    using that D(4) [of j] vals [of j] i it by simp
qed

lemma iters_ok_complete: "iters_ok s \<Longrightarrow> i < length (s_iters s) \<Longrightarrow> iters_ok (it_complete i r s)"
  by (rule iters_ok_update [where i = i and s = s])
    (auto simp: it_complete_def queues_ok_def phase_ok_def iters_ok_def split: q_result.split)

lemma iters_ok_complete_drop:
  "iters_ok s \<Longrightarrow> i < length (s_iters s) \<Longrightarrow> owned (it_phase (s_iters s ! i)) = Some q \<Longrightarrow>
   iters_ok (it_complete i r (drop_queue q s))"
  by (rule iters_ok_update [where i = i and s = s])
    (auto simp: it_complete_def drop_queue_def queues_ok_def phase_ok_def iters_ok_def split: q_result.split)

lemma linked_Next:
  assumes "linked s q vs" and "s_buffer s' = s_buffer s" "s_closed s' = s_closed s" "s_queues s' = s_queues s"
    and "s_store s' = (s_store s)[q := q_step (s_store s ! q) Next]"
  shows "linked s' q vs"
proof -
  obtain ops rest where "q < length (s_store s)" "s_store s ! q = q_run (s_buffer s) ops" "pushes ops = vs @ rest"
    using assms by (auto simp: linked_def)
  then have "q < length (s_store s') \<and> s_store s' ! q = q_run (s_buffer s') (ops @ [Next])
      \<and> pushes (ops @ [Next]) = vs @ rest"
    using assms by (simp add: q_run_snoc)
  then have "\<exists>ops rest. s_store s' ! q = q_run (s_buffer s') ops \<and> pushes ops = vs @ rest" by blast
  then show ?thesis using assms by (auto simp: linked_def q_step_ended split: if_splits)
qed

lemma iters_ok_ask:
  assumes ok: "iters_ok s" and i: "i < length (s_iters s)" and ph: "it_phase (s_iters s ! i) = AtYield q"
  shows "iters_ok (it_ask i q s)"
proof -
  note D = iters_okD [OF ok]
  let ?s' = "it_ask i q s"
  have link: "linked s q (values_of i (s_log s))" and n: "promises_at s q = length (values_of i (s_log s))"
    using D(2) [OF i] by (simp_all add: ph phase_ok_def)
  have q: "q < length (s_store s)" using link by (simp add: linked_def)
  have "linked ?s' q (values_of i (s_log s))"
    by (rule linked_Next [OF link]) (simp_all add: it_ask_def set_phase_def q_apply_def)
  then have own: "phase_ok ?s' (Running q (promises_at s q)) (values_of i (s_log s))"
    using q n by (simp add: phase_ok_def it_ask_def set_phase_def q_apply_def q_step_promises)
  show ?thesis
    by (rule iters_ok_update [OF ok i, where it = "(s_iters s ! i)\<lparr>it_phase := Running q (promises_at s q)\<rparr>"])
      (use own ph D(1) in \<open>auto simp: it_ask_def set_phase_def q_apply_def queues_ok_def\<close>)
qed

lemma st_start_frame [simp]:
  "s_buffer (st_start s) = s_buffer s"
  "s_sets (st_start s) = s_sets s"
  "s_stamp (st_start s) = s_stamp s"
  "s_listeners (st_start s) = s_listeners s"
  "s_queues (st_start s) = s_queues s"
  "s_store (st_start s) = s_store s"
  "s_iters (st_start s) = s_iters s"
  "s_closed (st_start s) = s_closed s"
  "values_of i (s_log (st_start s)) = values_of i (s_log s)"
  by (simp_all add: st_start_def emit_def)

lemma q_run_Nil: "q_run limit [] = (new_queue limit, 0, [])"
  by (simp add: q_run_def)

lemma iters_ok_open:
  assumes ok: "iters_ok s" and i: "i < length (s_iters s)" and ph: "it_phase (s_iters s ! i) = Fresh"
    and open': "\<not> s_closed s"
  shows "iters_ok (it_open i s)"
proof -
  note D = iters_okD [OF ok]
  let ?q = "length (s_store s)"
  let ?s' = "it_open i s"
  let ?it = "(s_iters s ! i)\<lparr>it_phase := Running ?q 0\<rparr>"
  have vs: "values_of i (s_log s) = []" using D(2) [OF i] by (simp add: ph phase_ok_def)
  have fresh: "?q \<notin> set (s_queues s)" using D(1) by (auto simp: queues_ok_def)
  have store: "s_store ?s' = s_store s @ [q_run (s_buffer s) [Next]]"
    by (simp add: it_open_def it_ask_def set_phase_def q_apply_def q_run_def)
  have "linked ?s' ?q []"
  proof -
    have "s_store ?s' ! ?q = q_run (s_buffer ?s') [Next] \<and> pushes [Next] = [] @ []"
      by (simp add: store) (simp add: it_open_def it_ask_def set_phase_def q_apply_def)
    moreover have "?q \<in> set (s_queues ?s')" "\<not> s_closed ?s'" "?q < length (s_store ?s')"
      using open' by (simp_all add: it_open_def it_ask_def set_phase_def q_apply_def)
    ultimately show ?thesis unfolding linked_def by metis
  qed
  then have own: "phase_ok ?s' (it_phase ?it) []"
    by (simp add: phase_ok_def store) (simp add: q_run_def Let_def split_beta)
  have it: "s_iters ?s' = (s_iters s)[i := ?it]"
    by (simp add: it_open_def it_ask_def set_phase_def q_apply_def)
  show ?thesis
  proof (rule iters_ok_update [OF ok i it])
    show "queues_ok ?s'" using D(1) fresh
      by (auto simp: queues_ok_def store) (auto simp: it_open_def it_ask_def set_phase_def q_apply_def set_add_def)
    show "phase_ok ?s' (it_phase ?it) (values_of i (s_log ?s'))"
      using own vs by (simp add: it_open_def it_ask_def set_phase_def q_apply_def)
  qed (simp_all add: store nth_append, simp_all add: it_open_def it_ask_def set_phase_def q_apply_def)
qed

lemma iters_ok_set_phase:
  assumes ok: "iters_ok s" and i: "i < length (s_iters s)" and ph: "it_phase (s_iters s ! i) = AtYield q"
  shows "iters_ok (set_phase i (Returning q) s)"
proof -
  have "phase_ok (set_phase i (Returning q) s) (Returning q) (values_of i (s_log s))"
    using iters_okD(2) [OF ok i] by (simp add: ph phase_ok_def linked_def set_phase_def)
  then show ?thesis
    by (intro iters_ok_update [OF ok i, where it = "(s_iters s ! i)\<lparr>it_phase := Returning q\<rparr>"])
      (use ph iters_okD(1) [OF ok] in \<open>auto simp: set_phase_def queues_ok_def\<close>)
qed

lemma iters_ok_resume: "iters_ok s \<Longrightarrow> i < length (s_iters s) \<Longrightarrow> iters_ok (it_resume i s)"
  by (simp add: it_resume_def iters_ok_complete iters_ok_complete_drop iters_ok_ask iters_ok_open
      iters_ok_set_phase split: list.split phase.split req.split)

lemma iters_ok_request:
  assumes ok: "iters_ok s"
  shows "iters_ok (it_request i r s)"
proof (cases "i < length (s_iters s)")
  case True
  let ?it = "(s_iters s ! i)\<lparr>it_reqs := it_reqs (s_iters s ! i) @ [r]\<rparr>"
  let ?s' = "s\<lparr>s_iters := (s_iters s)[i := ?it]\<rparr>"
  have "phase_ok ?s' (it_phase ?it) (values_of i (s_log ?s'))"
    using iters_okD(2) [OF ok True] phase_ok_frame [of ?s' s] by simp
  then have "iters_ok ?s'"
    by (intro iters_ok_update [OF ok True, where it = ?it])
      (use iters_okD(1) [OF ok] in \<open>auto simp: queues_ok_def\<close>)
  then show ?thesis using True by (simp add: it_request_def iters_ok_resume)
qed (simp add: it_request_def ok)

lemma iters_ok_wake:
  assumes ok: "iters_ok s" and wake: "it_wake i s = Some s'"
  shows "iters_ok s'"
proof -
  have i: "i < length (s_iters s)" using wake by (simp add: it_wake_def split: if_splits)
  note D = iters_okD [OF ok]
  consider (val) q p v where "it_phase (s_iters s ! i) = Running q p" "map_of (settled_at s q) p = Some (Value v)"
        "s' = it_resume i (emit (IterResult i (Value v)) (s\<lparr>s_iters := (s_iters s)[i :=
              \<lparr>it_phase = AtYield q, it_reqs = tl (it_reqs (s_iters s ! i))\<rparr>]\<rparr>))"
    | (final) q r where "owned (it_phase (s_iters s ! i)) = Some q" "s' = it_complete i r (drop_queue q s)"
    using wake i by (auto simp: it_wake_def split: phase.splits option.splits q_result.splits)
  then show ?thesis
  proof cases
    case val
    let ?it = "\<lparr>it_phase = AtYield q, it_reqs = tl (it_reqs (s_iters s ! i))\<rparr>"
    let ?s1 = "emit (IterResult i (Value v)) (s\<lparr>s_iters := (s_iters s)[i := ?it]\<rparr>)"
    let ?vs = "values_of i (s_log s)"
    have link: "linked s q ?vs" and p: "p = length ?vs" and n: "promises_at s q = Suc p"
      using D(2) [OF i] val(1) by (simp_all add: phase_ok_def)
    obtain ops rest where run: "s_store s ! q = q_run (s_buffer s) ops" and rest: "pushes ops = ?vs @ rest"
      using link by (auto simp: linked_def)
    have "map_of (settlements (s_buffer s) ops) p = Some (Value v)"
      using val(2) run by (simp add: settlements_def)
    from eq.in_order [OF this [unfolded settlements_run]]
    have "rest = v # tl rest" using rest p by (cases rest) auto
    with rest have "pushes ops = (?vs @ [v]) @ tl rest" by simp
    with run have "\<exists>ops rest. s_store s ! q = q_run (s_buffer s) ops \<and> pushes ops = (?vs @ [v]) @ rest" by blast
    with link have "linked ?s1 q (?vs @ [v])" by (simp add: linked_def emit_def)
    then have "phase_ok ?s1 (it_phase ?it) (values_of i (s_log ?s1))"
      using n p by (simp add: phase_ok_def emit_def)
    then have "iters_ok ?s1"
      by (intro iters_ok_update [OF ok i, where it = ?it]) (use D(1) val(1) in \<open>auto simp: emit_def queues_ok_def\<close>)
    then show ?thesis using i by (simp add: val(3) iters_ok_resume emit_def)
  next
    case final
    then show ?thesis using ok i by (simp add: iters_ok_complete_drop)
  qed
qed

lemma iters_ok_emit: "iters_ok s \<Longrightarrow> (\<And>j v. x \<noteq> IterResult j (Value v)) \<Longrightarrow> iters_ok (emit x s)"
  by (erule iters_ok_frame) (auto simp: emit_def split: eff.split q_result.split)

lemma iters_ok_start: "iters_ok s \<Longrightarrow> iters_ok (st_start s)"
  by (erule iters_ok_frame) simp_all

lemma iters_ok_on: "iters_ok s \<Longrightarrow> iters_ok (st_on s name l)"
  by (erule iters_ok_frame) (simp_all add: st_on_def listener_set_def set_put_def split: option.split)

lemma iters_ok_off: "iters_ok s \<Longrightarrow> iters_ok (st_off s sid l)"
  by (erule iters_ok_frame) (simp_all add: st_off_def)

lemma iters_ok_close:
  assumes ok: "iters_ok s"
  shows "iters_ok (st_close s)"
proof (cases "s_closed s")
  case False
  have "s_store (for_queues Close (emit Abort (s\<lparr>s_closed := True\<rparr>))) = s_store (for_queues Close s)"
    using iters_okD(1) [OF ok] by (simp add: for_queues_def fold_q_apply_store queues_ok_def emit_def)
  then show ?thesis
    using False by (intro iters_ok_for_queues [OF ok, of Close]) (simp_all add: st_close_def emit_def)
qed (simp add: st_close_def ok)

lemma iters_ok_act: "iters_ok s \<Longrightarrow> iters_ok (do_act s a)"
proof (cases a)
  case NewIter
  assume ok: "iters_ok s"
  let ?s' = "do_act s NewIter"
  have eq: "phase_ok ?s' ph vs = phase_ok s ph vs" for ph vs by (rule phase_ok_frame) simp_all
  note D = iters_okD [OF ok]
  have "iters_ok ?s'"
  proof (rule iters_okI)
    show "queues_ok ?s'" using D(1) by (simp add: queues_ok_def)
    fix i
    show "phase_ok ?s' (it_phase (s_iters ?s' ! i)) (values_of i (s_log ?s'))" if "i < length (s_iters ?s')"
      unfolding eq using that D(2) [of i] D(4) [of i]
      by (cases "i < length (s_iters s)") (simp_all add: nth_append phase_ok_def)
    show "values_of i (s_log ?s') = []" if "length (s_iters ?s') \<le> i" using that D(4) [of i] by simp
    fix j
    show "owned (it_phase (s_iters ?s' ! i)) \<noteq> owned (it_phase (s_iters ?s' ! j))"
      if "i < length (s_iters ?s')" "j < length (s_iters ?s')" "i \<noteq> j" "owned (it_phase (s_iters ?s' ! i)) \<noteq> None"
      using that D(3) [of i j]
      by (cases "i < length (s_iters s)"; cases "j < length (s_iters s)")
        (simp_all add: nth_append less_Suc_eq del: not_None_eq)
  qed
  then show ?thesis by (simp only: NewIter)
qed (simp_all add: iters_ok_on iters_ok_off iters_ok_close iters_ok_request)

text \<open>Induction over the calls of listeners: what the interface and the log preserve, they preserve.\<close>

lemma call_listeners_induct:
  assumes "call_listeners beh sid n e s = Some res"
    and act: "\<And>s a. P s \<Longrightarrow> P (do_act s a)" and log: "\<And>s l. P s \<Longrightarrow> P (emit (Called l e) s)"
    and "P s"
  shows "P (fst res)"
proof -
  have acts: "P s \<Longrightarrow> P (foldl do_act s as)" for s as
    by (induction as arbitrary: s) (simp_all add: act)
  have step: "x = e \<longrightarrow> P s \<longrightarrow> P (fst res)"
    if "call_listeners beh sid n x s = Some res" for beh sid n x s res
    by (rule call_listeners.raw_induct [OF _ that, where P = "\<lambda>beh sid n x s res. x = e \<longrightarrow> P s \<longrightarrow> P (fst res)"])
      (auto simp: Let_def acts log split: option.splits if_splits)
  from step [OF assms(1)] show ?thesis using \<open>P s\<close> by blast
qed

lemma dispatch_induct:
  assumes "dispatch beh e s = Some res"
    and act: "\<And>s a. P s \<Longrightarrow> P (do_act s a)" and log: "\<And>s l. P s \<Longrightarrow> P (emit (Called l e) s)"
    and "P s"
  shows "P (fst res)"
  using assms(1) \<open>P s\<close>
  by (auto simp: dispatch_def split: option.splits intro: call_listeners_induct [of _ _ _ _ _ _ P] act log)

lemmas it_defs = it_request_def it_resume_def it_open_def it_ask_def it_complete_def drop_queue_def
  set_phase_def q_apply_def emit_def

lemma act_started:
  assumes "s_started s"
  shows "s_started (do_act s a) \<and> s_pump (do_act s a) = s_pump s"
proof (cases a)
  case (On name l)
  then show ?thesis using assms
    by (simp add: st_on_def listener_set_def set_put_def st_start_def split: option.split)
next
  case (IterReq i r)
  then show ?thesis using assms
    by (simp add: it_defs st_start_def split: list.split phase.split req.split)
qed (simp_all add: assms st_off_def st_close_def emit_def)

lemma act_pump_started:
  assumes "s_started s = (s_pump s \<noteq> NotStarted)"
  shows "s_started (do_act s a) = (s_pump (do_act s a) \<noteq> NotStarted)"
proof (cases a)
  case (On name l)
  then show ?thesis using assms
    by (simp add: st_on_def listener_set_def set_put_def st_start_def emit_def split: option.split)
next
  case (IterReq i r)
  then show ?thesis using assms
    by (simp add: it_defs st_start_def split: list.split phase.split req.split)
qed (simp_all add: assms st_off_def st_close_def emit_def)

text \<open>What every operation of the interface and of the pump preserves holds in every reachable state.\<close>

lemma stream_invariant [consumes 1, case_names init act log push unwind ret fin err wake]:
  assumes reach: "stream_reach beh buffer s"
    and init: "P (new_stream buffer)"
    and act: "\<And>s a. P s \<Longrightarrow> P (do_act s a)"
    and log: "\<And>s l e. P s \<Longrightarrow> P (emit (Called l e) s)"
    and push: "\<And>s e. P s \<Longrightarrow> s_pump s = Waiting \<Longrightarrow> P (for_queues (Push e) s)"
    and unwind: "\<And>s x. P s \<Longrightarrow> s_pump s = Waiting \<Longrightarrow> P (emit SourceReturn (s\<lparr>s_pump := Unwinding x\<rparr>))"
    and ret: "\<And>s. P s \<Longrightarrow> s_closed s \<Longrightarrow> s_pump s = Waiting \<Longrightarrow> P (emit SourceReturn (s\<lparr>s_pump := Finished\<rparr>))"
    and fin: "\<And>s. P s \<Longrightarrow> s_pump s = Waiting \<Longrightarrow> P (pump_end s)"
    and err: "\<And>s x. P s \<Longrightarrow> s_pump s = Waiting \<or> s_pump s = Unwinding x \<Longrightarrow> P (pump_catch x s)"
    and wake: "\<And>s i s'. P s \<Longrightarrow> it_wake i s = Some s' \<Longrightarrow> P s'"
  shows "P s"
proof -
  let ?I = "\<lambda>s. P s \<and> s_started s = (s_pump s \<noteq> NotStarted)"
  have disp: "?I (fst res) \<and> s_pump (fst res) = Waiting"
    if "dispatch beh e s = Some res" "?I s" "s_pump s = Waiting" for e s res
  proof -
    have "?I (fst res)"
      by (rule dispatch_induct [OF that(1), of ?I])
        (use that(2) act log act_pump_started in \<open>auto simp: emit_def\<close>)
    moreover have "s_started (fst res) \<and> s_pump (fst res) = Waiting"
      by (rule dispatch_induct [OF that(1), of "\<lambda>s. s_started s \<and> s_pump s = Waiting"])
        (use that(2,3) act_started in \<open>auto simp: emit_def\<close>)
    ultimately show ?thesis by blast
  qed
  have resp: "?I s'" if r: "pump_response beh r s = Some s'" and I: "?I s" "s_pump s = Waiting" for r s s'
  proof (cases "s_closed s")
    case True
    then show ?thesis using that ret [of s] by (auto simp: pump_response_def emit_def)
  next
    case open': False
    show ?thesis
    proof (cases "SubscribeEventsResponse_event r")
      case None
      then show ?thesis using that open' by (simp add: pump_response_def)
    next
      case (Some e)
      then obtain s1 t where d: "dispatch beh e s = Some (s1, t)"
        and s': "s' = (case t of None \<Rightarrow> for_queues (Push e) s1 | Some x \<Rightarrow> emit SourceReturn (s1\<lparr>s_pump := Unwinding x\<rparr>))"
        using r open' by (auto simp: pump_response_def split: option.splits)
      have "P s1" "s_started s1" "s_pump s1 = Waiting" using disp [OF d I] by simp_all
      then show ?thesis
        using push [of s1 e] unwind [of s1] by (cases t) (simp_all add: s' emit_def)
    qed
  qed
  have resume: "s_started (it_resume i s) = (s_pump (it_resume i s) \<noteq> NotStarted)"
    if "s_started s = (s_pump s \<noteq> NotStarted)" for i s
    using that by (simp add: it_defs st_start_def split: list.split phase.split req.split)
  have "?I s" using reach
  proof induction
    case initial
    show ?case using init by (simp add: new_stream_def)
  next
    case (later s x s')
    from later(2,3) show ?case
    proof (cases rule: stream_step.cases)
      case (response r)
      then show ?thesis using resp later(3) by blast
    next
      case (wake i)
      moreover have "s_started s' = (s_pump s' \<noteq> NotStarted)"
        using wake later(3) resume
        by (auto simp: it_wake_def it_complete_def drop_queue_def emit_def
            split: if_splits phase.splits option.splits q_result.splits)
      ultimately show ?thesis using later(3) assms(10) by blast
    qed (use later(3) act act_pump_started fin err in \<open>auto simp: pump_end_def pump_catch_def emit_def\<close>)
  qed
  then show ?thesis by blast
qed

lemma for_queues_closed [simp]: "for_queues op (s\<lparr>s_closed := b\<rparr>) = (for_queues op s)\<lparr>s_closed := b\<rparr>"
proof -
  have "q_apply op q (t\<lparr>s_closed := b\<rparr>) = (q_apply op q t)\<lparr>s_closed := b\<rparr>" for q t
    by (cases t) (simp add: q_apply_def)
  then have "fold (q_apply op) qs (s\<lparr>s_closed := b\<rparr>) = (fold (q_apply op) qs s)\<lparr>s_closed := b\<rparr>" for qs
    by (induction qs arbitrary: s) simp_all
  then show ?thesis by (simp add: for_queues_def)
qed

lemma iters_ok_reach: "stream_reach beh buffer s \<Longrightarrow> iters_ok s \<and> s_buffer s = buffer"
proof (induction rule: stream_invariant)
  case init
  show ?case by (simp add: new_stream_def iters_ok_def queues_ok_def)
next
  case (act s a)
  have "s_buffer (do_act s a) = s_buffer s"
    by (cases a) (simp_all add: st_on_def listener_set_def set_put_def st_off_def st_close_def it_defs
        split: option.split list.split phase.split req.split)
  then show ?case using act by (simp add: iters_ok_act)
next
  case (log s l e)
  then show ?case by (auto intro: iters_ok_frame simp: emit_def)
next
  case (push s e)
  then show ?case
    by (auto intro!: iters_ok_for_queues [of s "Push e" "for_queues (Push e) s"] split: if_splits)
next
  case (unwind s x)
  then show ?case by (auto intro: iters_ok_frame simp: emit_def)
next
  case (ret s)
  then show ?case by (auto intro: iters_ok_frame simp: emit_def)
next
  case (fin s)
  then have "iters_ok (pump_end s)"
    by (intro iters_ok_for_queues [of s Close "pump_end s"]) (simp_all add: pump_end_def emit_def)
  then show ?case using fin by (simp add: pump_end_def emit_def)
next
  case (err s x)
  show ?case
  proof (cases "s_closed s")
    case True
    then show ?thesis using err by (auto intro: iters_ok_frame simp: pump_catch_def)
  next
    case False
    with err have "iters_ok (pump_catch x s)"
      by (intro iters_ok_for_queues [of s "Fail x" "pump_catch x s"]) (simp_all add: pump_catch_def emit_def)
    then show ?thesis using err False by (simp add: pump_catch_def emit_def)
  qed
next
  case (wake s i s')
  then have "s_buffer s' = s_buffer s"
    by (auto simp: it_wake_def it_defs split: if_splits phase.splits option.splits q_result.splits list.splits req.splits)
  then show ?case using wake iters_ok_wake [of s i s'] by simp
qed

end
