(* ===== verification/Event_Stream_Laws.thy ===== *)
theory Event_Stream_Laws
  imports Event_Stream
begin

text \<open>
  What the event stream guarantees in every reachable state, for any behaviour of the listeners:
  the life cycle (one subscription to the source, the close callback, the end of every queue), the
  order in which listeners and iterators receive events, and that nothing waits for ever once the
  stream is closed.
\<close>

section \<open>Life cycle\<close>

text \<open>
  \<open>control_ok\<close>: the source is read by one pump; before the stream is closed neither the abort
  controller nor \<open>onClose\<close> was called.
\<close>

definition control_ok :: "stream \<Rightarrow> bool" where
  "control_ok s = (s_started s = (s_pump s \<noteq> NotStarted) \<and>
     count_list (s_log s) Pull = (if s_started s then 1 else 0) \<and>
     count_list (s_log s) Abort \<le> (if s_closed s then 1 else 0) \<and>
     (OnClose \<in> set (s_log s)) = s_closed s \<and>
     count_list (s_log s) OnClose \<le> (if s_pump s = Finished then 2 else 1))"

lemma count_list_finals [simp]:
  "x \<notin> range (\<lambda>(j, r). IterResult j r) \<Longrightarrow> count_list (map (\<lambda>y. IterResult i (req_final y)) ys) x = 0"
  by (induction ys) auto

lemma count_0: "x \<notin> set xs \<Longrightarrow> count_list xs x = 0"
  by (simp add: count_list_0_iff)

lemma finals_no [simp]:
  "Pull \<notin> (\<lambda>x. IterResult i (req_final x)) ` A" "Abort \<notin> (\<lambda>x. IterResult i (req_final x)) ` A"
  "OnClose \<notin> (\<lambda>x. IterResult i (req_final x)) ` A"
  by auto

lemma control_ok_start: "control_ok s \<Longrightarrow> control_ok (st_start s)"
  by (auto simp: control_ok_def st_start_def emit_def)

text \<open>Changes that keep the control state and add no control entry to the log.\<close>

lemma control_ok_frame:
  assumes "control_ok s" and "s_started s' = s_started s" "s_pump s' = s_pump s" "s_closed s' = s_closed s"
    and "s_log s' = s_log s @ xs" "set xs \<inter> {Pull, Abort, OnClose} = {}"
  shows "control_ok s'"
  using assms by (simp add: control_ok_def count_0)

lemma control_ok_complete: "control_ok s \<Longrightarrow> control_ok (it_complete i r s)"
  by (erule control_ok_frame [where xs = "IterResult i r # map (\<lambda>x. IterResult i (req_final x)) (tl (it_reqs (s_iters s ! i)))"])
    (auto simp: it_complete_def)

lemma control_ok_drop: "control_ok (drop_queue q s) = control_ok s"
  by (simp add: control_ok_def drop_queue_def)

lemma control_ok_ask: "control_ok (it_ask i q s) = control_ok s"
  by (simp add: control_ok_def it_ask_def set_phase_def q_apply_def)

lemma control_ok_open: "control_ok s \<Longrightarrow> control_ok (it_open i s)"
  unfolding it_open_def control_ok_ask
  by (rule control_ok_start, erule control_ok_frame [where xs = "[]"]) simp_all

lemma control_ok_resume: "control_ok s \<Longrightarrow> control_ok (it_resume i s)"
  by (simp add: it_resume_def control_ok_complete control_ok_ask control_ok_open control_ok_drop
      split: list.split phase.split req.split)
    (simp add: set_phase_def control_ok_def)

lemma control_ok_act: "control_ok s \<Longrightarrow> control_ok (do_act s a)"
proof (cases a)
  case (On name l)
  assume ok: "control_ok s"
  have "control_ok (set_put (snd (listener_set s name)) l (fst (listener_set s name)))"
    by (rule control_ok_frame [OF ok, where xs = "[]"])
      (simp_all add: set_put_def listener_set_def split: option.split)
  then show ?thesis by (simp add: On st_on_def split_beta control_ok_start)
next
  case CloseStream
  assume ok: "control_ok s"
  then show ?thesis
    by (auto simp: CloseStream st_close_def control_ok_def emit_def count_0)
next
  case (IterReq i r)
  assume ok: "control_ok s"
  have "control_ok (s\<lparr>s_iters := its\<rparr>)" for its
    by (rule control_ok_frame [OF ok, where xs = "[]"]) simp_all
  then show ?thesis using ok by (simp add: IterReq it_request_def control_ok_resume)
qed (auto simp: control_ok_def st_off_def)

lemma control_ok_wake:
  assumes ok: "control_ok s" and w: "it_wake i s = Some s'"
  shows "control_ok s'"
proof -
  have "control_ok (emit (IterResult i r) (s\<lparr>s_iters := its\<rparr>))" for r its
    by (rule control_ok_frame [OF ok, where xs = "[IterResult i r]"]) (simp_all add: emit_def)
  then show ?thesis using ok w
    by (auto simp: it_wake_def control_ok_complete control_ok_drop control_ok_resume
        split: if_splits phase.splits option.splits q_result.splits)
qed

lemma control_ok_reach: "stream_reach beh buffer s \<Longrightarrow> control_ok s"
proof (induction rule: stream_invariant)
  case init
  show ?case by (simp add: new_stream_def control_ok_def)
next
  case (act s a)
  then show ?case by (rule control_ok_act)
next
  case (log s l e)
  then show ?case by (auto simp: control_ok_def emit_def)
next
  case (push s e)
  then show ?case by (simp add: control_ok_def)
next
  case (unwind s x)
  then show ?case by (auto simp: control_ok_def emit_def)
next
  case (ret s)
  then show ?case by (auto simp: control_ok_def emit_def)
next
  case (fin s)
  then show ?case by (auto simp: control_ok_def pump_end_def emit_def)
next
  case (err s x)
  then show ?case by (auto simp: control_ok_def pump_catch_def emit_def count_0)
next
  case (wake s i s')
  then show ?case by (rule control_ok_wake)
qed

section \<open>Pending requests\<close>

text \<open>An iterator has unanswered requests exactly while its body is waiting for something.\<close>

definition waiting :: "phase \<Rightarrow> bool" where
  "waiting ph = (case ph of Running _ _ \<Rightarrow> True | Returning _ \<Rightarrow> True | _ \<Rightarrow> False)"

definition pending_ok :: "stream \<Rightarrow> bool" where
  "pending_ok s = (\<forall>i < length (s_iters s). (it_reqs (s_iters s ! i) \<noteq> []) = waiting (it_phase (s_iters s ! i)))"

definition pending_but :: "nat \<Rightarrow> stream \<Rightarrow> bool" where
  "pending_but i s = (\<forall>j < length (s_iters s). j \<noteq> i \<longrightarrow>
     (it_reqs (s_iters s ! j) \<noteq> []) = waiting (it_phase (s_iters s ! j)))"

lemma pending_ok_but: "pending_ok s \<Longrightarrow> pending_but i s"
  by (simp add: pending_ok_def pending_but_def)

lemma resume_iters:
  "length (s_iters (it_resume i s)) = length (s_iters s)"
  "j \<noteq> i \<Longrightarrow> s_iters (it_resume i s) ! j = s_iters s ! j"
  by (simp_all add: it_defs split: list.split phase.split req.split)

lemma resume_self:
  "i < length (s_iters s) \<Longrightarrow> (it_reqs (s_iters s ! i) = [] \<longrightarrow> \<not> waiting (it_phase (s_iters s ! i))) \<Longrightarrow>
   (it_reqs (s_iters (it_resume i s) ! i) \<noteq> []) = waiting (it_phase (s_iters (it_resume i s) ! i)) \<and>
   length (it_reqs (s_iters (it_resume i s) ! i)) \<le> length (it_reqs (s_iters s ! i))"
  by (simp add: it_defs waiting_def split: list.split phase.split req.split)

lemma pending_ok_resume:
  assumes "pending_but i s" "i < length (s_iters s)"
    and "it_reqs (s_iters s ! i) = [] \<longrightarrow> \<not> waiting (it_phase (s_iters s ! i))"
  shows "pending_ok (it_resume i s)"
  unfolding pending_ok_def resume_iters
proof (intro allI impI)
  fix j
  assume j: "j < length (s_iters s)"
  show "(it_reqs (s_iters (it_resume i s) ! j) \<noteq> []) = waiting (it_phase (s_iters (it_resume i s) ! j))"
    using resume_self [OF assms(2,3)] assms(1) j by (cases "j = i") (simp_all add: resume_iters(2) pending_but_def)
qed

lemma pending_ok_complete:
  assumes "pending_ok s"
  shows "pending_ok (it_complete i r s)"
  unfolding pending_ok_def
proof (intro allI impI)
  fix j
  assume "j < length (s_iters (it_complete i r s))"
  then show "(it_reqs (s_iters (it_complete i r s) ! j) \<noteq> []) = waiting (it_phase (s_iters (it_complete i r s) ! j))"
    using assms by (cases "j = i") (simp_all add: pending_ok_def it_complete_def waiting_def [of Complete])
qed

lemma pending_ok_frame: "pending_ok s \<Longrightarrow> s_iters s' = s_iters s \<Longrightarrow> pending_ok s'"
  by (simp add: pending_ok_def)

lemma pending_ok_act: "pending_ok s \<Longrightarrow> pending_ok (do_act s a)"
proof (cases a)
  case (On name l)
  assume ok: "pending_ok s"
  then show ?thesis unfolding On
    by (rule pending_ok_frame) (simp add: st_on_def listener_set_def set_put_def split: option.split)
next
  case (Off sid l)
  assume ok: "pending_ok s"
  then show ?thesis unfolding Off by (rule pending_ok_frame) (simp add: st_off_def)
next
  case CloseStream
  assume ok: "pending_ok s"
  then show ?thesis unfolding CloseStream by (rule pending_ok_frame) (simp add: st_close_def emit_def)
next
  case NewIter
  assume ok: "pending_ok s"
  then show ?thesis unfolding NewIter by (simp add: pending_ok_def nth_append less_Suc_eq waiting_def)
next
  case (IterReq i r)
  assume ok: "pending_ok s"
  let ?t = "s\<lparr>s_iters := (s_iters s)[i := (s_iters s ! i)\<lparr>it_reqs := it_reqs (s_iters s ! i) @ [r]\<rparr>]\<rparr>"
  have "i < length (s_iters s) \<Longrightarrow> pending_ok (it_resume i ?t)"
    by (rule pending_ok_resume) (use ok in \<open>simp_all add: pending_but_def pending_ok_def\<close>)
  then show ?thesis using ok by (simp add: IterReq it_request_def)
qed

lemma pending_ok_wake:
  assumes ok: "pending_ok s" and w: "it_wake i s = Some s'"
  shows "pending_ok s' \<and> length (it_reqs (s_iters s' ! i)) < length (it_reqs (s_iters s ! i))"
proof -
  have i: "i < length (s_iters s)" and wait: "waiting (it_phase (s_iters s ! i))"
    using w by (auto simp: it_wake_def waiting_def split: if_splits phase.splits)
  then have reqs: "it_reqs (s_iters s ! i) \<noteq> []" using ok by (simp add: pending_ok_def)
  have "pending_ok (it_complete i r (drop_queue q s)) \<and>
      length (it_reqs (s_iters (it_complete i r (drop_queue q s)) ! i)) < length (it_reqs (s_iters s ! i))" for r q
    using pending_ok_complete [OF pending_ok_frame [OF ok], of "drop_queue q s"] i reqs
    by (simp add: drop_queue_def it_complete_def)
  moreover have "pending_ok (it_resume i t) \<and>
      length (it_reqs (s_iters (it_resume i t) ! i)) < length (it_reqs (s_iters s ! i))"
    if t: "t = emit x (s\<lparr>s_iters := (s_iters s)[i := \<lparr>it_phase = AtYield q, it_reqs = tl (it_reqs (s_iters s ! i))\<rparr>]\<rparr>)" for t x q
  proof -
    have "it_reqs (s_iters t ! i) = [] \<longrightarrow> \<not> waiting (it_phase (s_iters t ! i))"
      using i by (simp add: t emit_def waiting_def)
    moreover have "pending_but i t" using ok by (simp add: t pending_but_def pending_ok_def emit_def)
    moreover have "length (it_reqs (s_iters t ! i)) < length (it_reqs (s_iters s ! i))"
      using reqs i by (simp add: t emit_def)
    ultimately show ?thesis
      using pending_ok_resume [of i t] resume_self [of i t] i by (simp add: t emit_def)
  qed
  ultimately show ?thesis
    using w by (auto simp: it_wake_def split: if_splits phase.splits option.splits q_result.splits)
qed

lemma pending_ok_reach: "stream_reach beh buffer s \<Longrightarrow> pending_ok s"
proof (induction rule: stream_invariant)
  case init
  show ?case by (simp add: new_stream_def pending_ok_def)
next
  case (act s a)
  then show ?case by (rule pending_ok_act)
next
  case (wake s i s')
  then show ?case using pending_ok_wake by blast
qed (simp_all add: pending_ok_def emit_def pump_end_def pump_catch_def)

text \<open>In a closed stream every waiting body can continue.\<close>

lemma closed_wake:
  assumes "iters_ok s" "s_closed s" "i < length (s_iters s)" "waiting (it_phase (s_iters s ! i))"
  shows "it_wake i s \<noteq> None"
proof (cases "it_phase (s_iters s ! i)")
  case (Running q p)
  then obtain ops where ended: "q_ended (queue_at s q)" and run: "s_store s ! q = q_run (s_buffer s) ops"
    and p: "promises_at s q = Suc p"
    using iters_okD(2) [OF assms(1,3)] assms(2) by (auto simp: phase_ok_def linked_def)
  have "fin (abs_run (s_buffer s) ops) \<noteq> None" "p < asked (abs_run (s_buffer s) ops)"
    using q_sim_run [of "s_buffer s" ops] ended run p
    by (cases "q_run (s_buffer s) ops"; simp add: q_sim_def)+
  from eq.nothing_pending_after_end [OF this] have "map_of (settled_at s q) p \<noteq> None"
    using run by (simp add: q_run_def split_beta)
  then show ?thesis using Running assms(3) by (auto simp: it_wake_def split: q_result.split)
qed (use assms in \<open>simp_all add: waiting_def it_wake_def\<close>)

section \<open>Listener sets\<close>

text \<open>Members are in the order of their insertion and occur once.\<close>

definition set_ok :: "nat \<Rightarrow> (nat \<times> listener) list \<Rightarrow> bool" where
  "set_ok n S = (sorted_wrt (<) (map fst S) \<and> (\<forall>m \<in> set S. fst m < n) \<and> distinct (map snd S))"

definition sets_ok :: "stream \<Rightarrow> bool" where
  "sets_ok s = ((\<forall>S \<in> set (s_sets s). set_ok (s_stamp s) S) \<and>
     (\<forall>name sid. s_listeners s name = Some sid \<longrightarrow> sid < length (s_sets s)))"

lemma sets_ok_frame:
  "sets_ok s \<Longrightarrow> s_sets s' = s_sets s \<Longrightarrow> s_stamp s' = s_stamp s \<Longrightarrow>
   s_listeners s' = s_listeners s \<or> s_listeners s' = Map.empty \<Longrightarrow> sets_ok s'"
  by (auto simp: sets_ok_def)

lemma set_ok_Nil: "set_ok n []"
  by (simp add: set_ok_def)

lemma set_ok_Suc: "set_ok n S \<Longrightarrow> set_ok (Suc n) S"
  by (auto simp: set_ok_def)

lemma set_ok_snoc: "set_ok n S \<Longrightarrow> l \<notin> snd ` set S \<Longrightarrow> set_ok (Suc n) (S @ [(n, l)])"
  by (auto simp: set_ok_def sorted_wrt_append)

lemma set_ok_filter: "set_ok n S \<Longrightarrow> set_ok n (filter P S)"
  by (auto simp: set_ok_def distinct_map_filter sorted_wrt_map sorted_wrt_filter)

lemma sets_ok_act: "sets_ok s \<Longrightarrow> sets_ok (do_act s a)"
proof (cases a)
  case (On name l)
  assume ok: "sets_ok s"
  obtain s1 sid where s1: "listener_set s name = (s1, sid)" by fastforce
  then have ok1: "sets_ok s1" and sid: "sid < length (s_sets s1)"
    using ok by (auto simp: listener_set_def sets_ok_def less_Suc_eq set_ok_Nil split: option.splits if_splits)
  have "sets_ok (set_put sid l s1)"
  proof (cases "l \<in> snd ` set (s_sets s1 ! sid)")
    case True
    then show ?thesis using ok1 by (simp add: set_put_def)
  next
    case False
    have "set_ok (Suc (s_stamp s1)) (s_sets s1 ! sid @ [(s_stamp s1, l)])"
      using ok1 sid False by (intro set_ok_snoc) (simp_all add: sets_ok_def)
    then show ?thesis
      using ok1 False by (auto simp: set_put_def sets_ok_def intro: set_ok_Suc dest!: set_update_subset_insert [THEN subsetD])
  qed
  then show ?thesis by (simp add: On st_on_def s1, elim sets_ok_frame) simp_all
next
  case (Off sid l)
  assume ok: "sets_ok s"
  then show ?thesis
    by (auto simp: Off st_off_def sets_ok_def intro: set_ok_filter dest!: set_update_subset_insert [THEN subsetD])
next
  case CloseStream
  assume ok: "sets_ok s"
  then show ?thesis unfolding CloseStream by (rule sets_ok_frame) (simp_all add: st_close_def emit_def)
next
  case NewIter
  assume ok: "sets_ok s"
  then show ?thesis unfolding NewIter by (rule sets_ok_frame) simp_all
next
  case (IterReq i r)
  assume ok: "sets_ok s"
  then show ?thesis unfolding IterReq
    by (rule sets_ok_frame) (simp_all add: it_defs split: list.split phase.split req.split)
qed

lemma sets_ok_reach: "stream_reach beh buffer s \<Longrightarrow> sets_ok s"
proof (induction rule: stream_invariant)
  case init
  show ?case by (simp add: new_stream_def sets_ok_def)
next
  case (act s a)
  then show ?case by (rule sets_ok_act)
next
  case (wake s i s')
  from wake(1) show ?case
    by (rule sets_ok_frame) (use wake(2) in \<open>auto simp: it_wake_def it_defs split: if_splits phase.splits option.splits
        q_result.splits list.splits req.splits\<close>)
qed (simp_all add: sets_ok_def emit_def pump_end_def pump_catch_def)

section \<open>Listeners that do not call back\<close>

definition log_calls :: "(nat \<times> listener) list \<Rightarrow> Event \<Rightarrow> stream \<Rightarrow> stream" where
  "log_calls ms e s = s\<lparr>s_log := s_log s @ map (\<lambda>m. Called (snd m) e) ms\<rparr>"

lemma log_calls_simps [simp]:
  "s_sets (log_calls ms e s) = s_sets s" "s_queues (log_calls ms e s) = s_queues s"
  "s_store (log_calls ms e s) = s_store s" "s_closed (log_calls ms e s) = s_closed s"
  "s_pump (log_calls ms e s) = s_pump s" "s_listeners (log_calls ms e s) = s_listeners s"
  "log_calls [] e s = s"
  by (simp_all add: log_calls_def)

lemma emit_log_calls: "log_calls ms e (emit (Called (snd m) e) s) = log_calls (m # ms) e s"
  by (simp add: log_calls_def emit_def)

lemma find_first:
  "\<forall>x \<in> set xs. \<not> P x \<Longrightarrow> P y \<Longrightarrow> find P (xs @ y # ys) = Some y"
  by (induction xs) auto

definition silent :: "behaviour \<Rightarrow> Event \<Rightarrow> (nat \<times> listener) list \<Rightarrow> bool" where
  "silent beh e ms = (\<forall>m \<in> set ms. \<forall>s. beh (snd m) e s = ([], None))"

text \<open>The loop runs over a prefix of silent members and goes on behind it.\<close>

lemma call_listeners_silent:
  assumes "sorted_wrt (<) (map fst (done @ ms @ rest))" "\<forall>m \<in> set done. fst m < n" "\<forall>m \<in> set (ms @ rest). n \<le> fst m"
    and "s_sets s ! sid = done @ ms @ rest" "silent beh e ms"
  shows "\<exists>n'. call_listeners beh sid n e s = call_listeners beh sid n' e (log_calls ms e s) \<and>
    (\<forall>m \<in> set (done @ ms). fst m < n') \<and> (\<forall>m \<in> set rest. n' \<le> fst m)"
  using assms
proof (induction ms arbitrary: "done" n s)
  case Nil
  then show ?case by (intro exI [of _ n]) simp
next
  case (Cons m ms)
  have "find (\<lambda>(t, l). n \<le> t) (s_sets s ! sid) = Some m"
    using Cons.prems by (auto intro!: find_first)
  moreover have "beh (snd m) e t = ([], None)" for t using Cons.prems(5) by (simp add: silent_def)
  ultimately have "call_listeners beh sid n e s =
      call_listeners beh sid (Suc (fst m)) e (emit (Called (snd m) e) s)"
    by (subst call_listeners.simps) (simp add: Let_def)
  moreover have "\<exists>n'. call_listeners beh sid (Suc (fst m)) e (emit (Called (snd m) e) s) =
      call_listeners beh sid n' e (log_calls ms e (emit (Called (snd m) e) s)) \<and>
    (\<forall>x \<in> set ((done @ [m]) @ ms). fst x < n') \<and> (\<forall>x \<in> set rest. n' \<le> fst x)"
  proof (rule Cons.IH)
    have sorted: "sorted_wrt (<) (map fst done @ fst m # map fst (ms @ rest))" using Cons.prems(1) by simp
    show "sorted_wrt (<) (map fst ((done @ [m]) @ ms @ rest))" using sorted by simp
    show "\<forall>x \<in> set (done @ [m]). fst x < Suc (fst m)"
      using sorted unfolding sorted_wrt_append by (auto intro: less_SucI)
    show "\<forall>x \<in> set (ms @ rest). Suc (fst m) \<le> fst x"
      using sorted unfolding sorted_wrt_append by (auto simp: Suc_le_eq)
    show "s_sets (emit (Called (snd m) e) s) ! sid = (done @ [m]) @ ms @ rest"
      using Cons.prems(4) by (simp add: emit_def)
    show "silent beh e ms" using Cons.prems(5) by (simp add: silent_def)
  qed
  ultimately show ?case by (simp add: emit_log_calls)
qed

lemma call_listeners_end:
  assumes "\<forall>m \<in> set (s_sets s ! sid). fst m < n"
  shows "call_listeners beh sid n e s = Some (s, None)"
proof -
  have "find (\<lambda>(t, l). n \<le> t) (s_sets s ! sid) = None"
    using assms by (fastforce simp: find_None_iff)
  then show ?thesis by (subst call_listeners.simps) simp
qed

lemma call_listeners_all_silent:
  assumes "set_ok k (s_sets s ! sid)" "silent beh e (s_sets s ! sid)"
  shows "call_listeners beh sid 0 e s = Some (log_calls (s_sets s ! sid) e s, None)"
proof -
  obtain n where "call_listeners beh sid 0 e s = call_listeners beh sid n e (log_calls (s_sets s ! sid) e s)"
    "\<forall>m \<in> set (s_sets s ! sid). fst m < n"
    using call_listeners_silent [of "[]" "s_sets s ! sid" "[]" 0 s sid beh e] assms by (auto simp: set_ok_def)
  then show ?thesis using call_listeners_end [of "log_calls (s_sets s ! sid) e s" sid n] by simp
qed

text \<open>The members of the set registered for the name of an event; none when the event has no payload.\<close>

definition listeners_for :: "stream \<Rightarrow> Event \<Rightarrow> (nat \<times> listener) list" where
  "listeners_for s e = (case Event_payload e of
       None \<Rightarrow> []
     | Some p \<Rightarrow> (case s_listeners s (event_name p) of None \<Rightarrow> [] | Some sid \<Rightarrow> s_sets s ! sid))"

lemma dispatch_silent:
  assumes "sets_ok s" "silent beh e (listeners_for s e)"
  shows "dispatch beh e s = Some (log_calls (listeners_for s e) e s, None) \<and> distinct (map snd (listeners_for s e))"
proof (cases "\<exists>p sid. Event_payload e = Some p \<and> s_listeners s (event_name p) = Some sid")
  case True
  then obtain p sid where p: "Event_payload e = Some p" "s_listeners s (event_name p) = Some sid" by blast
  then have ok: "set_ok (s_stamp s) (s_sets s ! sid)" using assms(1) by (auto simp: sets_ok_def)
  then show ?thesis using call_listeners_all_silent [OF ok, of beh e] assms(2) p
    by (simp add: dispatch_def listeners_for_def set_ok_def)
next
  case False
  then show ?thesis by (auto simp: dispatch_def listeners_for_def split: option.split)
qed

lemma call_listeners_next:
  assumes "sorted_wrt (<) (map fst (ms @ m # rest))" "s_sets s ! sid = ms @ m # rest" "silent beh e ms"
  shows "\<exists>n. call_listeners beh sid 0 e s =
    (let s1 = emit (Called (snd m) e) (log_calls ms e s); r = beh (snd m) e s1; s2 = foldl do_act s1 (fst r)
     in if snd r = None then call_listeners beh sid (Suc (fst m)) e s2 else Some (s2, snd r))"
proof -
  obtain n where n: "call_listeners beh sid 0 e s = call_listeners beh sid n e (log_calls ms e s)"
    "\<forall>x \<in> set ms. fst x < n" "n \<le> fst m"
    using call_listeners_silent [of "[]" ms "m # rest" 0 s sid beh e] assms by auto
  have "find (\<lambda>(t, l). n \<le> t) (s_sets (log_calls ms e s) ! sid) = Some m"
    using n assms(2) by (auto intro!: find_first)
  then show ?thesis unfolding n(1) by (subst call_listeners.simps) (simp add: Let_def)
qed

section \<open>What the users of a stream observe\<close>

lemma reach_acts: "stream_reach beh buffer (foldl do_act (new_stream buffer) as)"
proof (induction as rule: rev_induct)
  case Nil
  then show ?case by (simp add: stream_reach.initial)
next
  case (snoc a as)
  then show ?case using stream_reach.later [OF snoc stream_step.user] by simp
qed

lemma count_list_pos: "count_list xs x \<noteq> 0 \<longleftrightarrow> x \<in> set xs"
  by (simp add: count_list_0_iff)

text \<open>C2: the life cycle of a stream, whatever its users, listeners and source do: the source is read
at most once, the abort controller is used at most once, \<open>onClose\<close> has been called exactly when the
stream is closed, and at most once as long as the pump has not finished.\<close>

theorem stream_life_cycle:
  assumes "stream_reach beh buffer s"
  shows "count_list (s_log s) Pull \<le> 1 \<and> (s_started s \<longleftrightarrow> Pull \<in> set (s_log s)) \<and>
    count_list (s_log s) Abort \<le> 1 \<and> (Abort \<in> set (s_log s) \<longrightarrow> s_closed s) \<and>
    (s_closed s \<longleftrightarrow> OnClose \<in> set (s_log s)) \<and>
    (s_pump s \<noteq> Finished \<longrightarrow> count_list (s_log s) OnClose \<le> 1)"
  using control_ok_reach [OF assms] count_list_pos [of "s_log s" Pull] count_list_pos [of "s_log s" Abort]
  by (auto simp: control_ok_def split: if_splits)

lemma stream_life_cycle_witness:
  "count_list (s_log (foldl do_act (new_stream 4) [NewIter, IterReq 0 ReqNext, On ''message'' 7, CloseStream])) Pull \<le> 1"
  using stream_life_cycle [OF reach_acts [of "\<lambda>l e s. ([], None)" 4 "[NewIter, IterReq 0 ReqNext, On ''message'' 7, CloseStream]"]]
  by (rule conjunct1)

text \<open>C3: nothing waits for ever on a closed stream.  In every reachable closed state, however it was
closed, an iterator with unanswered requests can take a step, and that step answers at least one of
them.\<close>

theorem stream_close_wakes_iterators:
  assumes "stream_reach beh buffer s" and "s_closed s" and "i < length (s_iters s)"
    and "it_reqs (s_iters s ! i) \<noteq> []"
  shows "\<exists>s'. stream_step beh s (Wake i) s' \<and>
    length (it_reqs (s_iters s' ! i)) < length (it_reqs (s_iters s ! i))"
proof -
  have "waiting (it_phase (s_iters s ! i))"
    using pending_ok_reach [OF assms(1)] assms(3,4) by (simp add: pending_ok_def)
  then obtain s' where "it_wake i s = Some s'"
    using closed_wake [OF _ assms(2,3)] iters_ok_reach [OF assms(1)] by auto
  then show ?thesis
    using pending_ok_wake [OF pending_ok_reach [OF assms(1)]] stream_step.wake by blast
qed

lemma stream_close_wakes_iterators_witness:
  "\<exists>s'. stream_step (\<lambda>l e s. ([], None))
    (foldl do_act (new_stream 4) [NewIter, IterReq 0 ReqNext, IterReq 0 ReqNext, CloseStream]) (Wake 0) s'"
proof -
  let ?s = "foldl do_act (new_stream 4) [NewIter, IterReq 0 ReqNext, IterReq 0 ReqNext, CloseStream]"
  have "s_closed ?s \<and> 0 < length (s_iters ?s) \<and> it_reqs (s_iters ?s ! 0) \<noteq> []" by code_simp
  then show ?thesis
    using stream_close_wakes_iterators [OF reach_acts [of "\<lambda>l e s. ([], None)" 4
      "[NewIter, IterReq 0 ReqNext, IterReq 0 ReqNext, CloseStream]"]] by blast
qed

text \<open>C9: an iterator yields events in order, without loss or duplication: while it owns a queue, the
values it has handed out are the first events pushed to that queue since it was created, and no other
iterator owns the queue.\<close>

theorem iterator_yields_in_order:
  assumes "stream_reach beh buffer s" and "i < length (s_iters s)"
    and "owned (it_phase (s_iters s ! i)) = Some q"
  shows "(\<exists>ops rest. s_store s ! q = q_run buffer ops \<and> pushes ops = values_of i (s_log s) @ rest) \<and>
    (\<forall>j < length (s_iters s). j \<noteq> i \<longrightarrow> owned (it_phase (s_iters s ! j)) \<noteq> Some q)"
proof -
  have ok: "iters_ok s" and b: "s_buffer s = buffer" using iters_ok_reach [OF assms(1)] by simp_all
  have "linked s q (values_of i (s_log s))"
    using iters_okD(2) [OF ok assms(2)] assms(3) by (auto simp: phase_ok_def split: phase.splits)
  then show ?thesis
    using iters_okD(3) [OF ok assms(2)] assms(3) b by (fastforce simp: linked_def)
qed

lemma iterator_yields_in_order_witness:
  "\<exists>ops rest. s_store (foldl do_act (new_stream 4) [NewIter, IterReq 0 ReqNext]) ! 0 = q_run 4 ops \<and>
    pushes ops = values_of 0 (s_log (foldl do_act (new_stream 4) [NewIter, IterReq 0 ReqNext])) @ rest"
proof -
  let ?s = "foldl do_act (new_stream 4) [NewIter, IterReq 0 ReqNext]"
  have "0 < length (s_iters ?s) \<and> owned (it_phase (s_iters ?s ! 0)) = Some 0" by code_simp
  then show ?thesis
    using iterator_yields_in_order [OF reach_acts [of "\<lambda>l e s. ([], None)" 4 "[NewIter, IterReq 0 ReqNext]"]] by blast
qed

text \<open>C10: an event of the source reaches every consumer.  If none of the listeners registered for its name
throws or calls back, each of them, and no other, is called exactly once, in the order of registration,
and then the event is pushed to the queue of every iterator and to no other queue.  An event without a payload,
or without a listener for its name, is pushed to the same queues and no listener is called; a response without
an event changes nothing.\<close>

theorem stream_broadcasts:
  assumes "stream_reach beh buffer s" and "\<not> s_closed s"
    and "SubscribeEventsResponse_event r = Some e" and "silent beh e (listeners_for s e)"
  shows "(\<exists>s'. pump_response beh r s = Some s' \<and>
    s_log s' = s_log s @ map (\<lambda>m. Called (snd m) e) (listeners_for s e) \<and>
    distinct (map snd (listeners_for s e)) \<and> s_pump s' = s_pump s \<and> length (s_store s') = length (s_store s) \<and>
    (\<forall>q < length (s_store s). s_store s' ! q =
       (if q \<in> set (s_queues s) then q_step (s_store s ! q) (Push e) else s_store s ! q))) \<and>
    (Event_payload e = None \<longrightarrow> listeners_for s e = []) \<and>
    (\<forall>p. Event_payload e = Some p \<longrightarrow> listeners_for s e =
       (case s_listeners s (event_name p) of None \<Rightarrow> [] | Some sid \<Rightarrow> s_sets s ! sid)) \<and>
    (\<forall>r'. SubscribeEventsResponse_event r' = None \<longrightarrow> pump_response beh r' s = Some s)"
proof -
  note d = dispatch_silent [OF sets_ok_reach [OF assms(1)] assms(4)]
  have resp: "pump_response beh r s = Some (for_queues (Push e) (log_calls (listeners_for s e) e s))"
    using assms(2,3) d by (simp add: pump_response_def)
  have "queues_ok (log_calls (listeners_for s e) e s)"
    using iters_ok_reach [OF assms(1)] by (simp add: iters_ok_def queues_ok_def)
  from for_queues_store(1) [OF this, of "Push e"] for_queues_store(2) [OF this, of _ "Push e"] d
  have "\<exists>s'. pump_response beh r s = Some s' \<and>
    s_log s' = s_log s @ map (\<lambda>m. Called (snd m) e) (listeners_for s e) \<and>
    distinct (map snd (listeners_for s e)) \<and> s_pump s' = s_pump s \<and> length (s_store s') = length (s_store s) \<and>
    (\<forall>q < length (s_store s). s_store s' ! q =
       (if q \<in> set (s_queues s) then q_step (s_store s ! q) (Push e) else s_store s ! q))"
    by (intro exI [of _ "for_queues (Push e) (log_calls (listeners_for s e) e s)"])
      (simp add: resp, simp add: log_calls_def)
  then show ?thesis using assms(2) by (auto simp: listeners_for_def pump_response_def)
qed

definition demo_event :: Event where
  "demo_event = createBaseEvent\<lparr>Event_payload := Some (Event_payload_e2eeReady E2EEReadyEvent)\<rparr>"

lemma stream_broadcasts_witness:
  "\<exists>s'. pump_response (\<lambda>l e s. ([], None)) \<lparr>SubscribeEventsResponse_event = Some demo_event\<rparr>
      (foldl do_act (new_stream 4) [On ''e2eeReady'' 7, NewIter, IterReq 0 ReqNext]) = Some s' \<and>
    s_log s' = [Pull, Called 7 demo_event]"
proof -
  let ?as = "[On ''e2eeReady'' 7, NewIter, IterReq 0 ReqNext]"
  let ?s = "foldl do_act (new_stream 4) ?as"
  have eval: "\<not> s_closed ?s \<and> s_listeners ?s ''e2eeReady'' = Some 0 \<and> s_sets ?s ! 0 = [(0, 7)] \<and> s_log ?s = [Pull]"
    by code_simp
  have "listeners_for ?s demo_event = [(0, 7)]"
    using eval by (simp add: listeners_for_def demo_event_def event_name_def)
  then show ?thesis
    using stream_broadcasts [OF reach_acts [of "\<lambda>l e s. ([], None)" 4 ?as],
      of "\<lparr>SubscribeEventsResponse_event = Some demo_event\<rparr>" demo_event] eval
    by (auto simp: silent_def)
qed

text \<open>C18: a listener that throws ends the stream: the listeners before it have run, the ones after it are
not called, no queue receives the event, and when the pump's catch clause runs (if nobody closed the
stream in between) every open queue fails with the thrown value and \<open>onClose\<close> is called; the abort
controller is not used.\<close>

theorem listener_throw_ends_stream:
  assumes "stream_reach beh buffer s" and "\<not> s_closed s"
    and "SubscribeEventsResponse_event r = Some e" and "Event_payload e = Some p"
    and "s_listeners s (event_name p) = Some sid" and "s_sets s ! sid = before @ m # after"
    and "silent beh e before" and "\<And>t. beh (snd m) e t = ([], Some x)"
  shows "\<exists>s'. pump_response beh r s = Some s' \<and> s_pump s' = Unwinding x \<and>
    s_log s' = s_log s @ map (\<lambda>m. Called (snd m) e) before @ [Called (snd m) e, SourceReturn] \<and>
    s_store s' = s_store s \<and>
    s_closed (pump_catch x s') \<and> s_log (pump_catch x s') = s_log s' @ [OnClose] \<and>
    (\<forall>q \<in> set (s_queues s). s_store (pump_catch x s') ! q = q_step (s_store s ! q) (Fail x))"
proof -
  have "sid < length (s_sets s)" and "\<forall>S \<in> set (s_sets s). set_ok (s_stamp s) S"
    using sets_ok_reach [OF assms(1)] assms(5) by (auto simp: sets_ok_def)
  then have "set_ok (s_stamp s) (s_sets s ! sid)" by simp
  then have "sorted_wrt (<) (map fst (before @ m # after))" by (simp only: assms(6) set_ok_def)
  from call_listeners_next [OF this assms(6,7)]
  have call: "call_listeners beh sid 0 e s = Some (emit (Called (snd m) e) (log_calls before e s), Some x)"
    by (simp add: assms(8) Let_def)
  let ?s' = "emit SourceReturn ((emit (Called (snd m) e) (log_calls before e s))\<lparr>s_pump := Unwinding x\<rparr>)"
  have resp: "pump_response beh r s = Some ?s'"
    using assms(2-5) by (simp add: pump_response_def dispatch_def call)
  have q: "queues_ok ?s'" and qs: "s_queues ?s' = s_queues s" and st: "s_store ?s' = s_store s"
    using iters_ok_reach [OF assms(1)] by (simp_all add: iters_ok_def queues_ok_def emit_def)
  have "s_store (pump_catch x ?s') ! q = q_step (s_store s ! q) (Fail x)" if "q \<in> set (s_queues s)" for q
  proof -
    have "s_store (pump_catch x ?s') = s_store (for_queues (Fail x) ?s')"
      using assms(2) by (simp add: pump_catch_def emit_def)
    then show ?thesis using for_queues_store(2) [OF q, of q "Fail x"] q that
      by (auto simp: qs st queues_ok_def)
  qed
  then show ?thesis using assms(2)
    by (intro exI [of _ ?s'] conjI ballI) (simp_all add: resp st, simp_all add: emit_def log_calls_def pump_catch_def)
qed

lemma listener_throw_ends_stream_witness:
  "\<exists>s'. pump_response (\<lambda>l e s. ([], if l = 7 then Some (JsError ''boom'') else None))
      \<lparr>SubscribeEventsResponse_event = Some demo_event\<rparr>
      (foldl do_act (new_stream 4) [On ''e2eeReady'' 5, On ''e2eeReady'' 7, On ''e2eeReady'' 6]) = Some s' \<and>
    s_log s' = [Pull, Called 5 demo_event, Called 7 demo_event, SourceReturn]"
proof -
  let ?as = "[On ''e2eeReady'' 5, On ''e2eeReady'' 7, On ''e2eeReady'' 6]"
  let ?s = "foldl do_act (new_stream 4) ?as"
  have eval: "\<not> s_closed ?s \<and> s_listeners ?s ''e2eeReady'' = Some 0 \<and>
      s_sets ?s ! 0 = [(0, 5)] @ (1, 7) # [(2, 6)] \<and> s_log ?s = [Pull]"
    by code_simp
  have "Event_payload demo_event = Some (Event_payload_e2eeReady E2EEReadyEvent)" by (simp add: demo_event_def)
  then show ?thesis
    using listener_throw_ends_stream [OF reach_acts [of "\<lambda>l e s. ([], if l = 7 then Some (JsError ''boom'') else None)" 4 ?as],
      of "\<lparr>SubscribeEventsResponse_event = Some demo_event\<rparr>" demo_event "Event_payload_e2eeReady E2EEReadyEvent" 0
        "[(0, 5)]" "(1, 7)" "[(2, 6)]" "JsError ''boom''"] eval
    by (auto simp: event_name_def silent_def)
qed

lemma st_close_twice: "st_close (st_close s) = st_close s"
  by (simp add: st_close_def emit_def)

text \<open>Closing a queue answers the requests that have no answer yet, and only those.\<close>

lemma q_close_answers:
  assumes "p < fst (snd (q_run limit ops))"
  shows "map_of (snd (snd (q_step (q_run limit ops) Close))) p =
    Some (case map_of (snd (snd (q_run limit ops))) p of None \<Rightarrow> Done | Some r \<Rightarrow> r)"
proof -
  obtain q n S where run: "q_run limit ops = (q, n, S)" by (cases "q_run limit ops") auto
  let ?a = "abs_run limit ops"
  have sim: "q_sim limit ?a (q, n, S)" using q_sim_run [of limit ops] run by simp
  then have p: "p < asked ?a" using assms run by (simp add: q_sim_def)
  obtain q' S' where step: "q_step (q, n, S) Close = (q', n, S')" by (simp add: Let_def split_beta)
  have "map_of S' p = abs_result (abs_step limit ?a Close) p" "map_of S p = abs_result ?a p"
    using q_sim_close [OF sim] sim by (simp_all only: step) (simp_all add: q_sim_def)
  then have "map_of S' p = Some (case map_of S p of None \<Rightarrow> Done | Some r \<Rightarrow> r)"
    using p by (auto simp: abs_result_def split: option.split)
  then show ?thesis by (simp only: run step snd_conv)
qed

text \<open>C19: \<open>close()\<close> on an open stream answers every request that an iterator is waiting for: an answer that
had already arrived is kept, every other request is told that the iteration is done.  It uses the abort
controller and then \<open>onClose\<close>, once each, and forgets queues and listeners.  Afterwards the stream is dead: a
response that still arrives calls no listener, reaches no queue and ends the pump, a new registration does not
start it again, and a second \<open>close()\<close> does nothing.\<close>

theorem stream_close:
  assumes "stream_reach beh buffer s" and "\<not> s_closed s"
  shows "(\<forall>i < length (s_iters s). \<forall>q p. it_phase (s_iters s ! i) = Running q p \<longrightarrow>
      map_of (settled_at (st_close s) q) p =
        Some (case map_of (settled_at s q) p of None \<Rightarrow> Done | Some r \<Rightarrow> r)) \<and>
    s_log (st_close s) = s_log s @ [Abort, OnClose] \<and> s_queues (st_close s) = [] \<and> s_listeners (st_close s) = Map.empty \<and>
    (\<forall>r. pump_response beh r (st_close s) =
      Some ((st_close s)\<lparr>s_pump := Finished, s_log := s_log s @ [Abort, OnClose, SourceReturn]\<rparr>)) \<and>
    (\<forall>name l. s_log (st_on (st_close s) name l) = s_log (st_close s) \<and> s_pump (st_on (st_close s) name l) = s_pump s) \<and>
    st_close (st_close s) = st_close s"
proof -
  have q: "queues_ok (emit Abort (s\<lparr>s_closed := True\<rparr>))"
    using iters_ok_reach [OF assms(1)] by (simp add: iters_ok_def queues_ok_def emit_def)
  have "s_store (st_close s) = s_store (for_queues Close (emit Abort (s\<lparr>s_closed := True\<rparr>)))"
    using assms(2) by (simp add: st_close_def emit_def)
  then have store: "\<forall>q \<in> set (s_queues s). s_store (st_close s) ! q = q_step (s_store s ! q) Close"
    using for_queues_store(2) [OF q, of _ Close] q by (auto simp: queues_ok_def emit_def)
  have answers: "map_of (settled_at (st_close s) q) p = Some (case map_of (settled_at s q) p of None \<Rightarrow> Done | Some r \<Rightarrow> r)"
    if i: "i < length (s_iters s)" and ph: "it_phase (s_iters s ! i) = Running q p" for i q p
  proof -
    have "phase_ok s (Running q p) (values_of i (s_log s))"
      using iters_okD(2) [of s i] iters_ok_reach [OF assms(1)] i ph by simp
    then obtain ops where "q \<in> set (s_queues s)" "s_store s ! q = q_run (s_buffer s) ops" "promises_at s q = Suc p"
      using assms(2) by (auto simp: phase_ok_def linked_def)
    then show ?thesis using q_close_answers [of p "s_buffer s" ops] store by simp
  qed
  have "s_listeners (st_close s) = Map.empty" "s_closed (st_close s)" "s_pump (st_close s) = s_pump s"
    using assms(2) by (simp_all add: st_close_def emit_def)
  then show ?thesis using assms(2) st_close_twice answers
    by (simp add: pump_response_def st_on_def listener_set_def set_put_def st_start_def)
      (simp add: st_close_def emit_def)
qed

lemma stream_close_witness:
  "s_log (st_close (foldl do_act (new_stream 4) [NewIter, IterReq 0 ReqNext])) = [Pull, Abort, OnClose] \<and>
   map_of (settled_at (st_close (foldl do_act (new_stream 4) [NewIter, IterReq 0 ReqNext])) 0) 0 = Some Done"
proof -
  define s where "s = foldl do_act (new_stream 4) [NewIter, IterReq 0 ReqNext]"
  have e: "\<not> s_closed s" "s_log s = [Pull]" "0 < length (s_iters s)" "it_phase (s_iters s ! 0) = Running 0 0"
      "map_of (settled_at s 0) 0 = None"
    unfolding s_def by code_simp+
  have "stream_reach (\<lambda>l e s. ([], None)) 4 s" unfolding s_def by (rule reach_acts)
  note C = stream_close [OF this e(1)]
  have "map_of (settled_at (st_close s) 0) 0 = Some Done"
    using C [THEN conjunct1, rule_format, OF e(3,4)] e(5) by simp
  moreover have "s_log (st_close s) = [Pull, Abort, OnClose]"
    using C [THEN conjunct2, THEN conjunct1] e(2) by simp
  ultimately show ?thesis unfolding s_def by blast
qed

lemma log_calls_st_close: "log_calls ms e (st_close s) = (st_close s)\<lparr>s_log := s_log (st_close s) @ map (\<lambda>m. Called (snd m) e) ms\<rparr>"
  by (simp add: log_calls_def)

text \<open>C38: a listener that closes the stream does not stop the delivery in progress: the listeners
registered after it for the same event name are still called, after \<open>onClose\<close>; the queues of the
iterators have ended and do not receive the event.\<close>

theorem close_inside_listener:
  assumes "stream_reach beh buffer s" and "\<not> s_closed s"
    and "SubscribeEventsResponse_event r = Some e" and "Event_payload e = Some p"
    and "s_listeners s (event_name p) = Some sid" and "s_sets s ! sid = m # after"
    and "\<And>t. beh (snd m) e t = ([CloseStream], None)" and "silent beh e after"
  shows "\<exists>s'. pump_response beh r s = Some s' \<and>
    s_log s' = s_log s @ [Called (snd m) e, Abort, OnClose] @ map (\<lambda>m. Called (snd m) e) after \<and>
    s_store s' = s_store (st_close s)"
proof -
  have "sid < length (s_sets s)" and "\<forall>S \<in> set (s_sets s). set_ok (s_stamp s) S"
    using sets_ok_reach [OF assms(1)] assms(5) by (auto simp: sets_ok_def)
  then have "set_ok (s_stamp s) (s_sets s ! sid)" by simp
  then have sorted: "sorted_wrt (<) (map fst ([m] @ after @ []))" by (simp add: assms(6) set_ok_def)
  let ?s1 = "st_close (emit (Called (snd m) e) s)"
  have sets: "s_sets ?s1 ! sid = [m] @ after @ []" using assms(6) by (simp add: st_close_def emit_def)
  obtain n where n: "call_listeners beh sid 0 e s = call_listeners beh sid (Suc (fst m)) e ?s1"
    using call_listeners_next [of "[]" m after s sid beh e] sorted assms(6,7)
    by (auto simp: silent_def Let_def)
  obtain n' where n': "call_listeners beh sid (Suc (fst m)) e ?s1 = call_listeners beh sid n' e (log_calls after e ?s1)"
      "\<forall>x \<in> set ([m] @ after). fst x < n'"
    using call_listeners_silent [OF sorted _ _ sets assms(8), of "Suc (fst m)"] sorted by (auto simp: Suc_le_eq)
  have "call_listeners beh sid 0 e s = Some (log_calls after e ?s1, None)"
    unfolding n n'(1) by (rule call_listeners_end) (use n'(2) sets in simp)
  then have "pump_response beh r s = Some (for_queues (Push e) (log_calls after e ?s1))"
    using assms(2-5) by (simp add: pump_response_def dispatch_def)
  moreover have "for_queues (Push e) (log_calls after e ?s1) = log_calls after e ?s1"
    using assms(2) by (simp add: for_queues_def st_close_def emit_def)
  moreover have "s_store ?s1 = s_store (st_close s)"
    using iters_ok_reach [OF assms(1)] assms(2)
    by (simp add: st_close_def emit_def for_queues_def fold_q_apply_store iters_ok_def queues_ok_def)
  ultimately show ?thesis using assms(2)
    by (simp add: log_calls_st_close) (simp add: st_close_def emit_def)
qed

lemma close_inside_listener_witness:
  "\<exists>s'. pump_response (\<lambda>l e s. (if l = 7 then [CloseStream] else [], None))
      \<lparr>SubscribeEventsResponse_event = Some demo_event\<rparr>
      (foldl do_act (new_stream 4) [On ''e2eeReady'' 7, On ''e2eeReady'' 6]) = Some s' \<and>
    s_log s' = [Pull, Called 7 demo_event, Abort, OnClose, Called 6 demo_event]"
proof -
  let ?as = "[On ''e2eeReady'' 7, On ''e2eeReady'' 6]"
  let ?s = "foldl do_act (new_stream 4) ?as"
  have eval: "\<not> s_closed ?s \<and> s_listeners ?s ''e2eeReady'' = Some 0 \<and>
      s_sets ?s ! 0 = (0, 7) # [(1, 6)] \<and> s_log ?s = [Pull]"
    by code_simp
  have "Event_payload demo_event = Some (Event_payload_e2eeReady E2EEReadyEvent)" by (simp add: demo_event_def)
  then show ?thesis
    using close_inside_listener [OF reach_acts [of "\<lambda>l e s. (if l = 7 then [CloseStream] else [], None)" 4 ?as],
      of "\<lparr>SubscribeEventsResponse_event = Some demo_event\<rparr>" demo_event "Event_payload_e2eeReady E2EEReadyEvent" 0
        "(0, 7)" "[(1, 6)]"] eval
    by (auto simp: event_name_def silent_def)
qed

end
