(* ===== verification/Auth.thy ===== *)
theory Auth
  imports Gen_Session
begin

text \<open>
  The conversions of \<open>sdk/node/src/client.ts\<close> between the SDK's authentication types and the
  generated protocol types: \<open>sessionAuthToProto\<close>, \<open>authSnapshotFromProto\<close> and
  \<open>durationFromMilliseconds\<close>.  An optional property is an option, so that the values a JavaScript
  caller can pass in spite of the declared types (no source, two sources, both factors) are covered.
\<close>

section \<open>Types\<close>

record credentials =
  cr_identifier :: string
  cr_password :: string
  cr_totp :: "string option"
  cr_otp :: "string option"

record app_state_cookie =
  ck_key :: string
  ck_value :: string
  ck_domain :: "string option"
  ck_path :: "string option"
  ck_hostOnly :: "bool option"
  ck_secure :: "bool option"
  ck_httpOnly :: "bool option"

record session_auth =
  au_cookies :: "js_object option"
  au_appState :: "app_state_cookie list option"
  au_credentials :: "credentials option"

record facebook_session =
  fs_accountId :: string
  fs_name :: string
  fs_username :: string
  fs_dtsg :: string
  fs_jazoest :: string
  fs_lsd :: string
  fs_sessionId :: string
  fs_clientRevision :: int
  fs_refreshedAt :: "js_date option"

record auth_snapshot =
  as_cookies :: js_object
  as_appState :: "app_state_cookie list"
  as_session :: "facebook_session option"

text \<open>\<open>a ?? b\<close>\<close>

fun or_else :: "'a option \<Rightarrow> 'a \<Rightarrow> 'a" where
  "or_else None b = b"
| "or_else (Some a) b = a"

section \<open>Conversions\<close>

text \<open>The body of the callback of \<open>auth.appState.map\<close>, and \<open>map\<close> with a callback that may throw.\<close>

definition cookieToProto :: "app_state_cookie \<Rightarrow> (js_error, AppStateCookie) result" where
  "cookieToProto cookie =
     (if js_trim (ck_key cookie) = '''' \<or> ck_value cookie = ''''
      then Inl (JsTypeError ''appState cookies require key and value'')
      else Inr \<lparr>AppStateCookie_key = ck_key cookie, AppStateCookie_value = ck_value cookie,
        AppStateCookie_domain = or_else (ck_domain cookie) '''',
        AppStateCookie_path = or_else (ck_path cookie) '''',
        AppStateCookie_hostOnly = or_else (ck_hostOnly cookie) False,
        AppStateCookie_secure = or_else (ck_secure cookie) False,
        AppStateCookie_httpOnly = or_else (ck_httpOnly cookie) False\<rparr>)"

fun map_throwing :: "('a \<Rightarrow> ('e, 'b) result) \<Rightarrow> 'a list \<Rightarrow> ('e, 'b list) result" where
  "map_throwing f [] = Inr []"
| "map_throwing f (x # xs) = bind_result (f x) (\<lambda>y. bind_result (map_throwing f xs) (\<lambda>ys. Inr (y # ys)))"

definition present :: "string option \<Rightarrow> bool" where
  "present x = (case x of None \<Rightarrow> False | Some s \<Rightarrow> js_trim s \<noteq> '''')"

definition credentialsToProto :: "credentials \<Rightarrow> (js_error, Credentials) result" where
  "credentialsToProto credentials =
     (if js_trim (cr_identifier credentials) = '''' then Inl (JsTypeError ''credentials.identifier is required'')
      else if cr_password credentials = '''' then Inl (JsTypeError ''credentials.password is required'')
      else let hasTotp = present (cr_totp credentials); hasOtp = present (cr_otp credentials) in
        if hasTotp = hasOtp then Inl (JsTypeError ''credentials require exactly one of totp or otp'')
        else Inr \<lparr>Credentials_identifier = cr_identifier credentials,
          Credentials_password = cr_password credentials,
          Credentials_secondFactor = Some (if hasTotp
            then Credentials_secondFactor_totp (the (cr_totp credentials))
            else Credentials_secondFactor_otp (the (cr_otp credentials)))\<rparr>)"

definition sessionAuthToProto :: "session_auth \<Rightarrow> (js_error, SessionAuth) result" where
  "sessionAuthToProto auth = (case au_cookies auth of
       Some cookies \<Rightarrow> Inr \<lparr>SessionAuth_source = Some (SessionAuth_source_cookies \<lparr>CookieMap_values = cookies\<rparr>)\<rparr>
     | None \<Rightarrow> (case au_appState auth of
         Some appState \<Rightarrow>
           (if length appState = 0 then Inl (JsTypeError ''appState must contain at least one cookie'')
            else bind_result (map_throwing cookieToProto appState)
              (\<lambda>cookies. Inr \<lparr>SessionAuth_source = Some (SessionAuth_source_appState \<lparr>AppState_cookies = cookies\<rparr>)\<rparr>))
       | None \<Rightarrow> (case au_credentials auth of
           None \<Rightarrow> Inl (JsTypeError ''exactly one authentication source is required'')
         | Some credentials \<Rightarrow> bind_result (credentialsToProto credentials)
             (\<lambda>c. Inr \<lparr>SessionAuth_source = Some (SessionAuth_source_credentials c)\<rparr>))))"

definition cookieFromProto :: "AppStateCookie \<Rightarrow> app_state_cookie" where
  "cookieFromProto cookie = \<lparr>ck_key = AppStateCookie_key cookie, ck_value = AppStateCookie_value cookie,
     ck_domain = or_undefined (AppStateCookie_domain cookie), ck_path = or_undefined (AppStateCookie_path cookie),
     ck_hostOnly = Some (AppStateCookie_hostOnly cookie), ck_secure = Some (AppStateCookie_secure cookie),
     ck_httpOnly = Some (AppStateCookie_httpOnly cookie)\<rparr>"

definition sessionFromProto :: "FacebookSession \<Rightarrow> facebook_session" where
  "sessionFromProto session = \<lparr>fs_accountId = FacebookSession_accountId session,
     fs_name = FacebookSession_name session, fs_username = FacebookSession_username session,
     fs_dtsg = FacebookSession_dtsg session, fs_jazoest = FacebookSession_jazoest session,
     fs_lsd = FacebookSession_lsd session, fs_sessionId = FacebookSession_sessionId session,
     fs_clientRevision = FacebookSession_clientRevision session,
     fs_refreshedAt = FacebookSession_refreshedAt session\<rparr>"

definition authSnapshotFromProto :: "AuthSnapshot option \<Rightarrow> (js_error, auth_snapshot) result" where
  "authSnapshotFromProto snapshot = (case snapshot of
       None \<Rightarrow> Inl (MetaError ''runtime returned no authentication snapshot'')
     | Some s \<Rightarrow> Inr \<lparr>
         as_cookies = (case AuthSnapshot_cookies s of None \<Rightarrow> [] | Some c \<Rightarrow> CookieMap_values c),
         as_appState = map cookieFromProto (case AuthSnapshot_appState s of None \<Rightarrow> [] | Some a \<Rightarrow> AppState_cookies a),
         as_session = map_option sessionFromProto (AuthSnapshot_session s)\<rparr>)"

definition durationFromMilliseconds :: "js_number \<Rightarrow> (js_error, Duration) result" where
  "durationFromMilliseconds v = (case v of
       Fin q \<Rightarrow> (if q \<le> 0 then Inl (JsRangeError ''timeoutMs must be positive'')
         else let milliseconds = trunc q in
           Inr \<lparr>Duration_seconds = trunc (fl (of_int milliseconds / 1000)),
                Duration_nanos = rem_int milliseconds 1000 * 1000000\<rparr>)
     | _ \<Rightarrow> Inl (JsRangeError ''timeoutMs must be positive''))"

section \<open>Lemmas\<close>

lemma map_throwing_Inr_iff:
  "map_throwing f xs = Inr ys \<longleftrightarrow> length ys = length xs \<and> (\<forall>i < length xs. f (xs ! i) = Inr (ys ! i))"
proof (induction xs arbitrary: ys)
  case (Cons x xs)
  show ?case
    by (cases ys) (auto simp: Cons.IH nth_Cons split: nat.splits)
qed auto

lemma map_throwing_ok_iff: "(\<exists>ys. map_throwing f xs = Inr ys) \<longleftrightarrow> (\<forall>x \<in> set xs. \<exists>y. f x = Inr y)"
  by (induction xs) auto

lemma cookieToProto_ok_iff:
  "(\<exists>y. cookieToProto c = Inr y) \<longleftrightarrow> js_trim (ck_key c) \<noteq> '''' \<and> ck_value c \<noteq> ''''"
  by (simp add: cookieToProto_def)

lemma credentialsToProto_ok_iff:
  "(\<exists>y. credentialsToProto c = Inr y) \<longleftrightarrow>
   js_trim (cr_identifier c) \<noteq> '''' \<and> cr_password c \<noteq> '''' \<and> present (cr_totp c) \<noteq> present (cr_otp c)"
  by (simp add: credentialsToProto_def Let_def)

lemma rem_int_nonneg: "0 \<le> a \<Longrightarrow> rem_int a 1000 = a mod 1000"
  by (cases "a = 0") (simp_all add: rem_int_def)

text \<open>
  The documented contract (\<open>sdk/node/README.md\<close>): exactly one source, complete in itself.  The code does
  not count the sources: it looks at the first one only, \<open>first_source\<close>.
\<close>

definition auth_valid :: "session_auth \<Rightarrow> bool" where
  "auth_valid auth = (case (au_cookies auth, au_appState auth, au_credentials auth) of
       (Some cookies, None, None) \<Rightarrow> True
     | (None, Some cs, None) \<Rightarrow> cs \<noteq> [] \<and> (\<forall>c \<in> set cs. js_trim (ck_key c) \<noteq> '''' \<and> ck_value c \<noteq> '''')
     | (None, None, Some c) \<Rightarrow> js_trim (cr_identifier c) \<noteq> '''' \<and> cr_password c \<noteq> '''' \<and>
         present (cr_totp c) \<noteq> present (cr_otp c)
     | _ \<Rightarrow> False)"

definition first_source :: "session_auth \<Rightarrow> session_auth" where
  "first_source auth =
     (if au_cookies auth \<noteq> None then auth\<lparr>au_appState := None, au_credentials := None\<rparr>
      else if au_appState auth \<noteq> None then auth\<lparr>au_credentials := None\<rparr> else auth)"

lemma first_source_valid: "auth_valid auth \<Longrightarrow> first_source auth = auth"
  by (cases auth) (auto simp: auth_valid_def first_source_def split: option.splits)

lemma sessionAuthToProto_first: "sessionAuthToProto auth = sessionAuthToProto (first_source auth)"
  by (auto simp: sessionAuthToProto_def first_source_def split: option.split)

lemma sessionAuthToProto_ok_iff: "(\<exists>p. sessionAuthToProto auth = Inr p) \<longleftrightarrow> auth_valid (first_source auth)"
proof (cases "au_cookies auth")
  case None
  note no_cookies = this
  show ?thesis
  proof (cases "au_appState auth")
    case no_state: None
    show ?thesis
      using credentialsToProto_ok_iff
      by (cases "au_credentials auth")
        (auto simp: sessionAuthToProto_def auth_valid_def first_source_def no_cookies no_state)
  next
    case (Some cs)
    have "(\<exists>ys. map_throwing cookieToProto cs = Inr ys) \<longleftrightarrow>
        (\<forall>c \<in> set cs. js_trim (ck_key c) \<noteq> '''' \<and> ck_value c \<noteq> '''')"
      by (simp only: map_throwing_ok_iff cookieToProto_ok_iff)
    then show ?thesis by (auto simp: sessionAuthToProto_def auth_valid_def first_source_def no_cookies Some)
  qed
qed (simp add: sessionAuthToProto_def auth_valid_def first_source_def)

text \<open>A cookie of the caller and its protocol message: an absent property is the protocol's default.\<close>

definition same_cookie :: "app_state_cookie \<Rightarrow> AppStateCookie \<Rightarrow> bool" where
  "same_cookie c y = (AppStateCookie_key y = ck_key c \<and> AppStateCookie_value y = ck_value c \<and>
     (case ck_domain c of None \<Rightarrow> AppStateCookie_domain y = '''' | Some d \<Rightarrow> AppStateCookie_domain y = d) \<and>
     (case ck_path c of None \<Rightarrow> AppStateCookie_path y = '''' | Some d \<Rightarrow> AppStateCookie_path y = d) \<and>
     AppStateCookie_hostOnly y = (ck_hostOnly c = Some True) \<and>
     AppStateCookie_secure y = (ck_secure c = Some True) \<and>
     AppStateCookie_httpOnly y = (ck_httpOnly c = Some True))"

lemma or_else_False: "or_else b False = (b = Some True)"
  by (cases b) simp_all

lemma cookieToProto_same: "cookieToProto c = Inr y \<Longrightarrow> same_cookie c y"
  by (auto simp: cookieToProto_def same_cookie_def or_else_False split: option.split if_splits)

lemma map_throwing_same: "map_throwing cookieToProto cs = Inr ys \<Longrightarrow> list_all2 same_cookie cs ys"
  by (simp add: map_throwing_Inr_iff list_all2_conv_all_nth cookieToProto_same)

lemma map_throwing_Inl: "map_throwing f xs = Inl e \<Longrightarrow> \<exists>x \<in> set xs. f x = Inl e"
  by (induction xs) (auto simp: bind_result_eq_Inl)

lemma session_auth_error: "sessionAuthToProto auth = Inl e \<Longrightarrow> \<exists>msg. e = JsTypeError msg"
  by (auto simp: sessionAuthToProto_def bind_result_eq_Inl credentialsToProto_def Let_def cookieToProto_def
      dest!: map_throwing_Inl split: option.splits if_splits)

section \<open>Properties\<close>

text \<open>C17: \<open>sessionAuthToProto\<close> accepts every authentication value that is valid, that is, has exactly one
source and that one complete, and converts its source faithfully: the cookies unchanged; every AppState
cookie in order with its key, value, domain, path and three flags, an absent one being the empty string or
false; or the credentials with exactly the second factor that is present.  Every value whose first source is
missing or not complete is rejected with a \<open>TypeError\<close>.  A value with several sources, which the types and
the documentation exclude, is not rejected: the first of cookies, AppState and credentials is used and
the others are ignored.\<close>

theorem session_auth_to_proto:
  "(auth_valid auth \<longrightarrow> (\<exists>p. sessionAuthToProto auth = Inr p)) \<and>
   (case sessionAuthToProto auth of
      Inl e \<Rightarrow> \<not> auth_valid (first_source auth) \<and> (\<exists>msg. e = JsTypeError msg)
    | Inr p \<Rightarrow> auth_valid (first_source auth) \<and> (case SessionAuth_source p of
        None \<Rightarrow> False
      | Some (SessionAuth_source_cookies c) \<Rightarrow> au_cookies auth = Some (CookieMap_values c)
      | Some (SessionAuth_source_appState a) \<Rightarrow> au_cookies auth = None \<and> (case au_appState auth of None \<Rightarrow> False
          | Some cs \<Rightarrow> list_all2 same_cookie cs (AppState_cookies a))
      | Some (SessionAuth_source_credentials c) \<Rightarrow> au_cookies auth = None \<and> au_appState auth = None \<and>
          (case au_credentials auth of None \<Rightarrow> False | Some d \<Rightarrow>
          Credentials_identifier c = cr_identifier d \<and> Credentials_password c = cr_password d \<and>
          Credentials_secondFactor c = (if present (cr_totp d)
            then map_option Credentials_secondFactor_totp (cr_totp d)
            else map_option Credentials_secondFactor_otp (cr_otp d))))) \<and>
   (au_cookies auth = Some cookies \<longrightarrow>
      sessionAuthToProto auth = Inr \<lparr>SessionAuth_source = Some (SessionAuth_source_cookies \<lparr>CookieMap_values = cookies\<rparr>)\<rparr>)"
proof (intro conjI impI)
  assume "auth_valid auth"
  then show "\<exists>p. sessionAuthToProto auth = Inr p"
    using sessionAuthToProto_ok_iff [of auth] first_source_valid by simp
next
  show "case sessionAuthToProto auth of
      Inl e \<Rightarrow> \<not> auth_valid (first_source auth) \<and> (\<exists>msg. e = JsTypeError msg)
    | Inr p \<Rightarrow> auth_valid (first_source auth) \<and> (case SessionAuth_source p of
        None \<Rightarrow> False
      | Some (SessionAuth_source_cookies c) \<Rightarrow> au_cookies auth = Some (CookieMap_values c)
      | Some (SessionAuth_source_appState a) \<Rightarrow> au_cookies auth = None \<and> (case au_appState auth of None \<Rightarrow> False
          | Some cs \<Rightarrow> list_all2 same_cookie cs (AppState_cookies a))
      | Some (SessionAuth_source_credentials c) \<Rightarrow> au_cookies auth = None \<and> au_appState auth = None \<and>
          (case au_credentials auth of None \<Rightarrow> False | Some d \<Rightarrow>
          Credentials_identifier c = cr_identifier d \<and> Credentials_password c = cr_password d \<and>
          Credentials_secondFactor c = (if present (cr_totp d)
            then map_option Credentials_secondFactor_totp (cr_totp d)
            else map_option Credentials_secondFactor_otp (cr_otp d))))"
  proof (cases "sessionAuthToProto auth")
    case (Inl e)
    then have "\<not> auth_valid (first_source auth)" using sessionAuthToProto_ok_iff [of auth] by auto
    then show ?thesis using Inl session_auth_error [OF Inl] by simp
  next
    case (Inr p)
    have "auth_valid (first_source auth)" using sessionAuthToProto_ok_iff [of auth] Inr by auto
    then show ?thesis using Inr map_throwing_same
      by (auto simp: sessionAuthToProto_def credentialsToProto_def Let_def present_def
          split: option.splits if_splits)
  qed
qed (simp add: sessionAuthToProto_def)

text \<open>Cookies together with an empty AppState: a value that is not valid, and is accepted.\<close>

lemma session_auth_to_proto_witness:
  "(\<exists>p. sessionAuthToProto \<lparr>au_cookies = Some [(''xs'', ''k'')], au_appState = None, au_credentials = None\<rparr> = Inr p) \<and>
   \<not> auth_valid \<lparr>au_cookies = Some [(''xs'', ''k'')], au_appState = Some [], au_credentials = None\<rparr> \<and>
   sessionAuthToProto \<lparr>au_cookies = Some [(''xs'', ''k'')], au_appState = Some [], au_credentials = None\<rparr> =
     Inr \<lparr>SessionAuth_source = Some (SessionAuth_source_cookies \<lparr>CookieMap_values = [(''xs'', ''k'')]\<rparr>)\<rparr>"
  using session_auth_to_proto [of "\<lparr>au_cookies = Some [(''xs'', ''k'')], au_appState = None, au_credentials = None\<rparr>"]
    session_auth_to_proto [of "\<lparr>au_cookies = Some [(''xs'', ''k'')], au_appState = Some [], au_credentials = None\<rparr>"]
  by (simp add: auth_valid_def)

lemma submillisecond_timeout:
  assumes "0 < q" and "q < 1"
  shows "durationFromMilliseconds (Fin q) = Inr \<lparr>Duration_seconds = 0, Duration_nanos = 0\<rparr>"
proof -
  have "\<lfloor>q\<rfloor> = 0" using assms by (intro floor_unique) simp_all
  then have "trunc q = 0" using assms by (simp add: trunc_def)
  then show ?thesis using assms fl_of_int [of 0] trunc_of_int [of 0] by (simp add: durationFromMilliseconds_def rem_int_def)
qed

text \<open>C26: the timeout conversion rejects exactly the numbers that are not finite and positive, and for
every timeout below \<open>2^53\<close> milliseconds the protocol duration is the timeout cut to whole milliseconds,
split into seconds and non-negative nanoseconds below one second.  A positive timeout below one millisecond
passes the check "timeoutMs must be positive" and is sent as the zero duration.\<close>

theorem duration_exact:
  "(case durationFromMilliseconds v of
      Inl e \<Rightarrow> e = JsRangeError ''timeoutMs must be positive'' \<and> (\<forall>q. v = Fin q \<longrightarrow> q \<le> 0)
    | Inr d \<Rightarrow> \<exists>q. v = Fin q \<and> 0 < q \<and>
        (q < 2 ^ 53 \<longrightarrow> 0 \<le> Duration_seconds d \<and> 0 \<le> Duration_nanos d \<and> Duration_nanos d < 1000000000 \<and>
          Duration_seconds d * 1000 * 1000000 + Duration_nanos d = \<lfloor>q\<rfloor> * 1000000) \<and>
        (q < 1 \<longrightarrow> d = \<lparr>Duration_seconds = 0, Duration_nanos = 0\<rparr>))"
proof (cases v)
  case (Fin q)
  show ?thesis
  proof (cases "q \<le> 0")
    case True
    then show ?thesis by (simp add: Fin durationFromMilliseconds_def)
  next
    case False
    have t: "trunc q = \<lfloor>q\<rfloor>" "0 \<le> \<lfloor>q\<rfloor>" using False by (simp_all add: trunc_def)
    have "trunc (fl (of_int \<lfloor>q\<rfloor> / 1000)) = \<lfloor>q\<rfloor> div 1000" if "q < 2 ^ 53"
      using that t(2) by (intro trunc_fl_div_nonneg) (simp_all add: floor_less_iff)
    moreover have "rem_int \<lfloor>q\<rfloor> 1000 = \<lfloor>q\<rfloor> mod 1000" by (rule rem_int_nonneg [OF t(2)])
    moreover have "0 \<le> \<lfloor>q\<rfloor> mod 1000" "\<lfloor>q\<rfloor> mod 1000 < 1000" "0 \<le> \<lfloor>q\<rfloor> div 1000"
      using t(2) by (simp_all only: pos_imp_zdiv_nonneg_iff pos_mod_sign pos_mod_bound zero_less_numeral)
    moreover have "\<lfloor>q\<rfloor> div 1000 * 1000 * 1000000 + \<lfloor>q\<rfloor> mod 1000 * 1000000 = \<lfloor>q\<rfloor> * 1000000"
      by (metis div_mult_mod_eq distrib_right)
    ultimately show ?thesis using False submillisecond_timeout [of q]
      by (auto simp: Fin durationFromMilliseconds_def t Let_def mult.commute)
  qed
qed (simp_all add: durationFromMilliseconds_def)

lemma duration_exact_witness:
  "(\<exists>d. durationFromMilliseconds (Fin 1500) = Inr d \<and> Duration_seconds d * 1000000000 + Duration_nanos d = 1500000000) \<and>
   durationFromMilliseconds (Fin (1 / 2)) = Inr \<lparr>Duration_seconds = 0, Duration_nanos = 0\<rparr>"
proof -
  have "\<exists>d. durationFromMilliseconds (Fin 1500) = Inr d" "\<exists>d. durationFromMilliseconds (Fin (1 / 2)) = Inr d"
    by (simp_all add: durationFromMilliseconds_def Let_def)
  then show ?thesis using duration_exact [of "Fin 1500"] duration_exact [of "Fin (1 / 2)"] by auto
qed

text \<open>C35: a snapshot can be fed back: converting the AppState of an authentication snapshot to the protocol
again gives the cookies the runtime sent, provided each has a key and a value and there is one at all.\<close>

theorem snapshot_app_state_round_trip:
  assumes "authSnapshotFromProto (Some s) = Inr snap" and "AuthSnapshot_appState s = Some a"
    and "AppState_cookies a \<noteq> []"
    and "\<forall>c \<in> set (AppState_cookies a). js_trim (AppStateCookie_key c) \<noteq> '''' \<and> AppStateCookie_value c \<noteq> ''''"
  shows "sessionAuthToProto \<lparr>au_cookies = None, au_appState = Some (as_appState snap), au_credentials = None\<rparr> =
    Inr \<lparr>SessionAuth_source = Some (SessionAuth_source_appState a)\<rparr>"
proof -
  have undo: "cookieToProto (cookieFromProto c) = Inr c"
    if "js_trim (AppStateCookie_key c) \<noteq> ''''" "AppStateCookie_value c \<noteq> ''''" for c
    using that by (cases c) (simp add: cookieToProto_def cookieFromProto_def or_undefined_def)
  have "as_appState snap = map cookieFromProto (AppState_cookies a)"
    using assms(1,2) by (auto simp: authSnapshotFromProto_def)
  moreover have "map_throwing cookieToProto (map cookieFromProto (AppState_cookies a)) = Inr (AppState_cookies a)"
    using assms(4) undo by (simp add: map_throwing_Inr_iff)
  ultimately show ?thesis using assms(3) by (simp add: sessionAuthToProto_def)
qed

lemma snapshot_app_state_round_trip_witness:
  "\<exists>snap. authSnapshotFromProto (Some (createBaseAuthSnapshot\<lparr>AuthSnapshot_appState := Some
      \<lparr>AppState_cookies = [createBaseAppStateCookie\<lparr>AppStateCookie_key := ''xs'', AppStateCookie_value := ''1''\<rparr>]\<rparr>\<rparr>)) = Inr snap \<and>
    sessionAuthToProto \<lparr>au_cookies = None, au_appState = Some (as_appState snap), au_credentials = None\<rparr> =
    Inr \<lparr>SessionAuth_source = Some (SessionAuth_source_appState
      \<lparr>AppState_cookies = [createBaseAppStateCookie\<lparr>AppStateCookie_key := ''xs'', AppStateCookie_value := ''1''\<rparr>]\<rparr>)\<rparr>"
proof -
  let ?a = "\<lparr>AppState_cookies = [createBaseAppStateCookie\<lparr>AppStateCookie_key := ''xs'', AppStateCookie_value := ''1''\<rparr>]\<rparr>"
  let ?s = "createBaseAuthSnapshot\<lparr>AuthSnapshot_appState := Some ?a\<rparr>"
  obtain snap where snap: "authSnapshotFromProto (Some ?s) = Inr snap" by (simp add: authSnapshotFromProto_def)
  have "js_trim ''xs'' \<noteq> ''''" by code_simp
  then show ?thesis
    using snap snapshot_app_state_round_trip [OF snap, of ?a] by (simp add: createBaseAppStateCookie_def)
qed

end
