(* ===== verification/Distribution.thy ===== *)
theory Distribution
  imports Errors
begin

text \<open>
  Locating the runtime binary: \<open>sdk/node/src/runtime-package.ts\<close> (the target of this machine, the
  bundled package) and \<open>sdk/node/src/distribution.ts\<close> (the resolution order).  The operating system
  is a parameter: \<open>access\<close> gives the error of \<open>access(path, X_OK)\<close> if there is one, \<open>resolve\<close> is the
  module resolver, \<open>join\<close> and \<open>delimiter\<close> are those of \<open>node:path\<close>.  The environment is a finite map.
\<close>

section \<open>The runtime package\<close>

record runtime_target =
  rt_platform :: string
  rt_arch :: string
  rt_filename :: string

definition runtimeTarget :: "string \<Rightarrow> string \<Rightarrow> (js_error, runtime_target) result" where
  "runtimeTarget platform arch =
     (if platform \<noteq> ''linux'' \<and> platform \<noteq> ''darwin'' \<and> platform \<noteq> ''win32''
      then Inl (RuntimeLaunchError (''unsupported runtime platform '' @ platform) None)
      else if arch \<noteq> ''x64'' \<and> arch \<noteq> ''arm64''
      then Inl (RuntimeLaunchError (''unsupported runtime architecture '' @ arch) None)
      else Inr \<lparr>rt_platform = platform, rt_arch = arch,
        rt_filename = (if platform = ''win32'' then ''meta-runtime.exe'' else ''meta-runtime'')\<rparr>)"

definition runtimePackageName :: "runtime_target \<Rightarrow> string" where
  "runtimePackageName target = ''@meewmeew/meta-runtime-'' @ rt_platform target @ ''-'' @ rt_arch target"

text \<open>An error without a \<open>code\<close> property, or with another code, is not a missing module.\<close>

fun moduleMissing :: "js_error \<Rightarrow> bool" where
  "moduleMissing (CodedError code) = (code = ''MODULE_NOT_FOUND'' \<or> code = ''ERR_MODULE_NOT_FOUND'')"
| "moduleMissing _ = False"

definition resolveBundledRuntime ::
    "(string \<Rightarrow> (js_error, string) result) \<Rightarrow> (string \<Rightarrow> js_error option) \<Rightarrow> runtime_target \<Rightarrow>
     (js_error, string option) result" where
  "resolveBundledRuntime resolve access target =
     (let packageName = runtimePackageName target in
      case resolve (packageName @ ''/runtime'') of
        Inl e \<Rightarrow> (if moduleMissing e then Inr None
          else Inl (RuntimeLaunchError (''failed to resolve bundled runtime package '' @ packageName) (Some e)))
      | Inr runtimePath \<Rightarrow> (case access runtimePath of
            Some e \<Rightarrow> Inl (RuntimeLaunchError (''bundled runtime package '' @ packageName @
              '' does not contain an executable runtime'') (Some e))
          | None \<Rightarrow> Inr (Some runtimePath)))"

section \<open>The search path\<close>

text \<open>\<open>String.prototype.split\<close> with a one-character separator.\<close>

fun js_split :: "char \<Rightarrow> string \<Rightarrow> string list" where
  "js_split c [] = [[]]"
| "js_split c (x # xs) = (if x = c then [] # js_split c xs
     else (case js_split c xs of [] \<Rightarrow> [[x]] | w # ws \<Rightarrow> (x # w) # ws))"

fun first_executable :: "(string \<Rightarrow> js_error option) \<Rightarrow> string list \<Rightarrow> string option" where
  "first_executable access [] = None"
| "first_executable access (c # cs) = (case access c of None \<Rightarrow> Some c | Some e \<Rightarrow> first_executable access cs)"

definition findOnPath ::
    "(string \<Rightarrow> string \<Rightarrow> string) \<Rightarrow> char \<Rightarrow> (string \<Rightarrow> js_error option) \<Rightarrow> string \<Rightarrow> string option \<Rightarrow> string option" where
  "findOnPath join delimiter access filename pathValue = (case pathValue of
       None \<Rightarrow> None
     | Some p \<Rightarrow> (if p = '''' then None
         else first_executable access
           (map (\<lambda>entry. join entry filename) (filter (\<lambda>entry. entry \<noteq> '''') (js_split delimiter p)))))"

section \<open>The resolution order\<close>

text \<open>\<open>{...process.env, ...options.env}\<close>: a property of the options that is \<open>undefined\<close> still overrides.\<close>

type_synonym env = "string \<Rightarrow> string option"

definition merge_env :: "env \<Rightarrow> (string \<times> string option) list \<Rightarrow> env" where
  "merge_env base over = foldl (\<lambda>e (k, v). e(k := v)) base over"

record distribution_options =
  do_runtimePath :: "string option"
  do_env :: "(string \<times> string option) list"

record system =
  sy_env :: env
  sy_platform :: string
  sy_arch :: string
  sy_resolve :: "string \<Rightarrow> (js_error, string) result"
  sy_access :: "string \<Rightarrow> js_error option"
  sy_join :: "string \<Rightarrow> string \<Rightarrow> string"
  sy_delimiter :: char

definition truthy_string :: "string option \<Rightarrow> bool" where
  "truthy_string s = (s \<noteq> None \<and> s \<noteq> Some '''')"

definition resolveRuntimePath :: "system \<Rightarrow> 'a distribution_options_scheme \<Rightarrow> (js_error, string) result" where
  "resolveRuntimePath sys options =
     (if truthy_string (do_runtimePath options) then Inr (the (do_runtimePath options))
      else let env = merge_env (sy_env sys) (do_env options) in
        if truthy_string (env ''META_RUNTIME_PATH'') then Inr (the (env ''META_RUNTIME_PATH''))
        else (case runtimeTarget (sy_platform sys) (sy_arch sys) of
            Inl e \<Rightarrow> Inl e
          | Inr target \<Rightarrow> (case resolveBundledRuntime (sy_resolve sys) (sy_access sys) target of
                Inl e \<Rightarrow> Inl e
              | Inr bundled \<Rightarrow> (if truthy_string bundled then Inr (the bundled)
                  else (let installed = findOnPath (sy_join sys) (sy_delimiter sys) (sy_access sys)
                          (rt_filename target) (env ''PATH'') in
                    if truthy_string installed then Inr (the installed)
                    else Inl (RuntimeLaunchError (rt_filename target @
                      '' was not found in the bundled runtime package or on PATH'') None))))))"

section \<open>Lemmas\<close>

lemma first_executable_Some_iff:
  "first_executable access cs = Some p \<longleftrightarrow>
   (\<exists>before after. cs = before @ p # after \<and> access p = None \<and> (\<forall>c \<in> set before. access c \<noteq> None))"
proof (induction cs)
  case (Cons c cs)
  show ?case
  proof (cases "access c")
    case None
    then show ?thesis by (auto simp: Cons_eq_append_conv)
  next
    case (Some e)
    show ?thesis
    proof
      assume "first_executable access (c # cs) = Some p"
      then obtain before after where "cs = before @ p # after" "access p = None" "\<forall>c \<in> set before. access c \<noteq> None"
        using Cons Some by auto
      then show "\<exists>before after. c # cs = before @ p # after \<and> access p = None \<and> (\<forall>c \<in> set before. access c \<noteq> None)"
        using Some by (intro exI [of _ "c # before"] exI [of _ after]) simp
    next
      assume "\<exists>before after. c # cs = before @ p # after \<and> access p = None \<and> (\<forall>c \<in> set before. access c \<noteq> None)"
      then obtain before after where b: "c # cs = before @ p # after" "access p = None" "\<forall>c \<in> set before. access c \<noteq> None"
        by blast
      then obtain before' where "before = c # before'" using Some by (cases before) auto
      then have "\<exists>before after. cs = before @ p # after \<and> access p = None \<and> (\<forall>c \<in> set before. access c \<noteq> None)"
        using b by auto
      then show "first_executable access (c # cs) = Some p" using Cons Some by simp
    qed
  qed
qed simp

lemma first_executable_None_iff: "first_executable access cs = None \<longleftrightarrow> (\<forall>c \<in> set cs. access c \<noteq> None)"
  by (induction cs) (auto split: option.split)

text \<open>Splitting loses nothing: joining the parts with the separator gives the string back.\<close>

fun js_join :: "char \<Rightarrow> string list \<Rightarrow> string" where
  "js_join c [] = []"
| "js_join c [w] = w"
| "js_join c (w # v # ws) = w @ c # js_join c (v # ws)"

lemma js_split_nonempty: "js_split c s \<noteq> []"
  by (induction s) (auto split: list.split)

lemma js_join_split: "js_join c (js_split c s) = s \<and> (\<forall>w \<in> set (js_split c s). c \<notin> set w)"
proof (induction s)
  case (Cons x s)
  obtain w ws where "js_split c s = w # ws" using js_split_nonempty [of c s] by (cases "js_split c s") auto
  then show ?case using Cons by (cases ws) auto
qed simp

lemma checks_Inr: "(if b then Inl x else if c then Inl y else Inr z) = Inr t \<longleftrightarrow> \<not> b \<and> \<not> c \<and> t = z"
  by auto

lemma checks_Inl: "(if b then Inl x else if c then Inl y else Inr z) = Inl e \<Longrightarrow> e = x \<or> e = y"
  by (auto split: if_splits)

lemma runtimeTarget_Inr_iff:
  "runtimeTarget p a = Inr t \<longleftrightarrow> (p \<in> {''linux'', ''darwin'', ''win32''} \<and> a \<in> {''x64'', ''arm64''}) \<and>
   t = \<lparr>rt_platform = p, rt_arch = a, rt_filename = (if p = ''win32'' then ''meta-runtime.exe'' else ''meta-runtime'')\<rparr>"
  unfolding runtimeTarget_def checks_Inr insert_iff empty_iff by blast

lemma runtimeTarget_unsupported:
  "p \<notin> {''linux'', ''darwin'', ''win32''} \<or> a \<notin> {''x64'', ''arm64''} \<Longrightarrow>
   \<exists>m. runtimeTarget p a = Inl (RuntimeLaunchError m None)"
  unfolding runtimeTarget_def insert_iff empty_iff by (auto split: if_split)

lemma runtimeTarget_Inl: "runtimeTarget p a = Inl e \<Longrightarrow> \<exists>m c. e = RuntimeLaunchError m c"
  unfolding runtimeTarget_def by (drule checks_Inl) blast

lemma resolveBundledRuntime_Inl: "resolveBundledRuntime resolve access t = Inl e \<Longrightarrow> \<exists>m c. e = RuntimeLaunchError m c"
  by (auto simp: resolveBundledRuntime_def Let_def split: sum.splits option.splits if_splits)

lemma findOnPath_None_iff:
  "findOnPath join d access f pathValue = None \<longleftrightarrow>
   (\<forall>p w. pathValue = Some p \<longrightarrow> w \<in> set (js_split d p) \<longrightarrow> w \<noteq> '''' \<longrightarrow> access (join w f) \<noteq> None)"
  by (cases pathValue) (auto simp: findOnPath_def first_executable_None_iff)

text \<open>Without a path in the options or the environment: the bundled package, then the search path.\<close>

lemma resolve_default:
  assumes "\<not> truthy_string (do_runtimePath opts)"
    and "\<not> truthy_string (merge_env (sy_env sys) (do_env opts) ''META_RUNTIME_PATH'')"
    and "runtimeTarget (sy_platform sys) (sy_arch sys) = Inr t"
  shows "resolveRuntimePath sys opts = (case resolveBundledRuntime (sy_resolve sys) (sy_access sys) t of
       Inl e \<Rightarrow> Inl e
     | Inr bundled \<Rightarrow> (if truthy_string bundled then Inr (the bundled)
         else (let installed = findOnPath (sy_join sys) (sy_delimiter sys) (sy_access sys)
                 (rt_filename t) (merge_env (sy_env sys) (do_env opts) ''PATH'') in
           if truthy_string installed then Inr (the installed)
           else Inl (RuntimeLaunchError (rt_filename t @
             '' was not found in the bundled runtime package or on PATH'') None))))"
  by (simp only: resolveRuntimePath_def assms if_False Let_def sum.case)

lemma resolve_without_bundled:
  assumes "\<not> truthy_string (do_runtimePath opts)"
    and "\<not> truthy_string (merge_env (sy_env sys) (do_env opts) ''META_RUNTIME_PATH'')"
    and "runtimeTarget (sy_platform sys) (sy_arch sys) = Inr t"
    and "\<exists>e. sy_resolve sys (runtimePackageName t @ ''/runtime'') = Inl e \<and> moduleMissing e"
  shows "resolveRuntimePath sys opts =
    (let installed = findOnPath (sy_join sys) (sy_delimiter sys) (sy_access sys)
        (rt_filename t) (merge_env (sy_env sys) (do_env opts) ''PATH'') in
      if truthy_string installed then Inr (the installed)
      else Inl (RuntimeLaunchError (rt_filename t @
        '' was not found in the bundled runtime package or on PATH'') None))"
proof -
  have "resolveBundledRuntime (sy_resolve sys) (sy_access sys) t = Inr None"
    using assms(4) by (auto simp: resolveBundledRuntime_def Let_def)
  then show ?thesis by (simp add: resolve_default [OF assms(1-3)] truthy_string_def [of None])
qed

lemma resolveRuntimePath_Inl: "resolveRuntimePath sys opts = Inl e \<Longrightarrow> \<exists>m c. e = RuntimeLaunchError m c"
  by (auto simp: resolveRuntimePath_def Let_def
      dest: runtimeTarget_Inl resolveBundledRuntime_Inl split: sum.splits if_splits)

section \<open>Properties\<close>

text \<open>C37: the platforms and architectures of the runtime packages are exactly those the SDK supports,
and different targets have different packages.\<close>

theorem runtime_targets:
  "((\<exists>t. runtimeTarget p a = Inr t) \<longleftrightarrow> p \<in> {''linux'', ''darwin'', ''win32''} \<and> a \<in> {''x64'', ''arm64''}) \<and>
   (\<forall>t t' p' a'. runtimeTarget p a = Inr t \<longrightarrow> runtimeTarget p' a' = Inr t' \<longrightarrow>
      runtimePackageName t = runtimePackageName t' \<longrightarrow> p = p' \<and> a = a')"
proof (intro conjI allI impI)
  show "(\<exists>t. runtimeTarget p a = Inr t) \<longleftrightarrow> p \<in> {''linux'', ''darwin'', ''win32''} \<and> a \<in> {''x64'', ''arm64''}"
    unfolding runtimeTarget_Inr_iff by blast
  fix t t' p' a'
  assume "runtimeTarget p a = Inr t" "runtimeTarget p' a' = Inr t'" "runtimePackageName t = runtimePackageName t'"
  then show "p = p'" "a = a'"
    unfolding runtimeTarget_Inr_iff runtimePackageName_def
    by (elim conjE insertE emptyE; simp)+
qed

lemma runtime_targets_witness:
  "\<exists>t t'. runtimeTarget ''linux'' ''x64'' = Inr t \<and> runtimeTarget ''win32'' ''x64'' = Inr t' \<and>
    runtimePackageName t \<noteq> runtimePackageName t'"
proof -
  obtain t t' where t: "runtimeTarget ''linux'' ''x64'' = Inr t" "runtimeTarget ''win32'' ''x64'' = Inr t'"
    unfolding runtimeTarget_Inr_iff by blast
  moreover have "runtimePackageName t \<noteq> runtimePackageName t'"
  proof
    assume "runtimePackageName t = runtimePackageName t'"
    from runtime_targets [THEN conjunct2, rule_format, OF t this] show False by simp
  qed
  ultimately show ?thesis by blast
qed

text \<open>C31: the search on \<open>PATH\<close> returns the first executable candidate: the result comes from an entry
of the path that is executable while no non-empty entry before it is, and it is undefined only when
there is no executable candidate at all.\<close>

theorem find_on_path_first:
  assumes "p \<noteq> ''''"
  shows "(\<forall>r. findOnPath join d access f (Some p) = Some r \<longrightarrow>
      (\<exists>before entry after. filter (\<lambda>w. w \<noteq> '''') (js_split d p) = before @ entry # after \<and>
         r = join entry f \<and> access r = None \<and> (\<forall>w \<in> set before. access (join w f) \<noteq> None))) \<and>
    (findOnPath join d access f (Some p) = None \<longleftrightarrow>
      (\<forall>w \<in> set (js_split d p). w \<noteq> '''' \<longrightarrow> access (join w f) \<noteq> None)) \<and>
    js_join d (js_split d p) = p"
proof (intro conjI allI impI)
  let ?es = "filter (\<lambda>w. w \<noteq> '''') (js_split d p)"
  fix r
  assume "findOnPath join d access f (Some p) = Some r"
  then have "first_executable access (map (\<lambda>w. join w f) ?es) = Some r"
    using assms by (simp add: findOnPath_def)
  then obtain us z zs where "?es = us @ z # zs" "r = join z f" "access r = None"
      "\<forall>w \<in> set us. access (join w f) \<noteq> None"
    unfolding first_executable_Some_iff map_eq_append_conv map_eq_Cons_conv by fastforce
  then show "\<exists>before entry after. ?es = before @ entry # after \<and>
      r = join entry f \<and> access r = None \<and> (\<forall>w \<in> set before. access (join w f) \<noteq> None)"
    by blast
qed (use assms js_join_split in \<open>auto simp: findOnPath_def first_executable_None_iff\<close>)

lemma find_on_path_first_witness:
  "\<exists>entry. findOnPath (\<lambda>a b. a @ ''/'' @ b) CHR '':'' (\<lambda>c. if c = ''/b/m'' then None else Some (CodedError ''ENOENT''))
      ''m'' (Some ''/a:/b'') = Some (entry @ ''/m'')"
proof -
  let ?f = "findOnPath (\<lambda>a b. a @ ''/'' @ b) CHR '':'' (\<lambda>c. if c = ''/b/m'' then None else Some (CodedError ''ENOENT''))
      ''m'' (Some ''/a:/b'')"
  have "?f = Some ''/b/m''" by code_simp
  then show ?thesis
    using find_on_path_first [of "''/a:/b''" "\<lambda>a b. a @ ''/'' @ b" "CHR '':''"
      "\<lambda>c. if c = ''/b/m'' then None else Some (CodedError ''ENOENT'')" "''m''"] by fastforce
qed

text \<open>C24: the resolution order of the runtime binary: the path of the options, else the environment
variable (the options' environment before the process's), else, on a supported target, the bundled package,
else the search on \<open>PATH\<close>.  A bundled package that is missing is skipped, one that cannot be resolved or
is not executable is an error.  When the package is missing and no entry of \<open>PATH\<close> has an executable
candidate, or \<open>PATH\<close> is not set, the call fails with the \<open>RuntimeLaunchError\<close> that names the binary; a
platform or architecture outside the supported ones fails too.  Every failure is a \<open>RuntimeLaunchError\<close>.\<close>

theorem resolution_order:
  "(do_runtimePath opts = Some p \<longrightarrow> p \<noteq> '''' \<longrightarrow> resolveRuntimePath sys opts = Inr p) \<and>
   (\<not> truthy_string (do_runtimePath opts) \<longrightarrow>
    merge_env (sy_env sys) (do_env opts) ''META_RUNTIME_PATH'' = Some p \<longrightarrow> p \<noteq> '''' \<longrightarrow>
      resolveRuntimePath sys opts = Inr p) \<and>
   (\<not> truthy_string (do_runtimePath opts) \<longrightarrow>
    \<not> truthy_string (merge_env (sy_env sys) (do_env opts) ''META_RUNTIME_PATH'') \<longrightarrow>
      (sy_platform sys \<notin> {''linux'', ''darwin'', ''win32''} \<or> sy_arch sys \<notin> {''x64'', ''arm64''} \<longrightarrow>
        (\<exists>m. resolveRuntimePath sys opts = Inl (RuntimeLaunchError m None))) \<and>
      (\<forall>t. runtimeTarget (sy_platform sys) (sy_arch sys) = Inr t \<longrightarrow>
        (case sy_resolve sys (runtimePackageName t @ ''/runtime'') of
           Inr b \<Rightarrow> (b \<noteq> '''' \<longrightarrow> sy_access sys b = None \<longrightarrow> resolveRuntimePath sys opts = Inr b) \<and>
             (\<forall>e. sy_access sys b = Some e \<longrightarrow> resolveRuntimePath sys opts = Inl (RuntimeLaunchError
               (''bundled runtime package '' @ runtimePackageName t @ '' does not contain an executable runtime'') (Some e)))
         | Inl e \<Rightarrow> (if moduleMissing e
             then (\<forall>r. r \<noteq> '''' \<longrightarrow> findOnPath (sy_join sys) (sy_delimiter sys) (sy_access sys) (rt_filename t)
                    (merge_env (sy_env sys) (do_env opts) ''PATH'') = Some r \<longrightarrow> resolveRuntimePath sys opts = Inr r) \<and>
               ((\<forall>path w. merge_env (sy_env sys) (do_env opts) ''PATH'' = Some path \<longrightarrow>
                   w \<in> set (js_split (sy_delimiter sys) path) \<longrightarrow> w \<noteq> '''' \<longrightarrow>
                   sy_access sys (sy_join sys w (rt_filename t)) \<noteq> None) \<longrightarrow>
                 resolveRuntimePath sys opts = Inl (RuntimeLaunchError
                   (rt_filename t @ '' was not found in the bundled runtime package or on PATH'') None))
             else resolveRuntimePath sys opts = Inl (RuntimeLaunchError
               (''failed to resolve bundled runtime package '' @ runtimePackageName t) (Some e)))))) \<and>
   (\<forall>e. resolveRuntimePath sys opts = Inl e \<longrightarrow> (\<exists>m c. e = RuntimeLaunchError m c))"
proof (intro conjI impI allI)
  let ?env = "merge_env (sy_env sys) (do_env opts)"
  assume no: "\<not> truthy_string (do_runtimePath opts)" "\<not> truthy_string (?env ''META_RUNTIME_PATH'')"
  { assume "sy_platform sys \<notin> {''linux'', ''darwin'', ''win32''} \<or> sy_arch sys \<notin> {''x64'', ''arm64''}"
    then obtain m where "runtimeTarget (sy_platform sys) (sy_arch sys) = Inl (RuntimeLaunchError m None)"
      using runtimeTarget_unsupported by blast
    then show "\<exists>m. resolveRuntimePath sys opts = Inl (RuntimeLaunchError m None)"
      by (simp add: resolveRuntimePath_def no Let_def) }
  fix t
  assume t: "runtimeTarget (sy_platform sys) (sy_arch sys) = Inr t"
  show "case sy_resolve sys (runtimePackageName t @ ''/runtime'') of
           Inr b \<Rightarrow> (b \<noteq> '''' \<longrightarrow> sy_access sys b = None \<longrightarrow> resolveRuntimePath sys opts = Inr b) \<and>
             (\<forall>e. sy_access sys b = Some e \<longrightarrow> resolveRuntimePath sys opts = Inl (RuntimeLaunchError
               (''bundled runtime package '' @ runtimePackageName t @ '' does not contain an executable runtime'') (Some e)))
         | Inl e \<Rightarrow> (if moduleMissing e
             then (\<forall>r. r \<noteq> '''' \<longrightarrow> findOnPath (sy_join sys) (sy_delimiter sys) (sy_access sys) (rt_filename t)
                    (?env ''PATH'') = Some r \<longrightarrow> resolveRuntimePath sys opts = Inr r) \<and>
               ((\<forall>path w. ?env ''PATH'' = Some path \<longrightarrow>
                   w \<in> set (js_split (sy_delimiter sys) path) \<longrightarrow> w \<noteq> '''' \<longrightarrow>
                   sy_access sys (sy_join sys w (rt_filename t)) \<noteq> None) \<longrightarrow>
                 resolveRuntimePath sys opts = Inl (RuntimeLaunchError
                   (rt_filename t @ '' was not found in the bundled runtime package or on PATH'') None))
             else resolveRuntimePath sys opts = Inl (RuntimeLaunchError
               (''failed to resolve bundled runtime package '' @ runtimePackageName t) (Some e)))"
  proof (cases "sy_resolve sys (runtimePackageName t @ ''/runtime'')")
    case (Inr b)
    then show ?thesis
      by (auto simp: resolve_default [OF no t] resolveBundledRuntime_def Let_def truthy_string_def)
  next
    case (Inl e)
    show ?thesis
    proof (cases "moduleMissing e")
      case True
      have r: "resolveRuntimePath sys opts = (let installed = findOnPath (sy_join sys) (sy_delimiter sys) (sy_access sys)
            (rt_filename t) (?env ''PATH'') in if truthy_string installed then Inr (the installed)
          else Inl (RuntimeLaunchError (rt_filename t @ '' was not found in the bundled runtime package or on PATH'') None))"
        by (rule resolve_without_bundled [OF no t]) (use Inl True in blast)
      show ?thesis unfolding Inl sum.case findOnPath_None_iff [symmetric] if_P [OF True] r
        by (simp add: truthy_string_def)
    next
      case False
      then show ?thesis
        by (simp add: Inl resolve_default [OF no t] resolveBundledRuntime_def Let_def)
    qed
  qed
next
  show "\<exists>m c. e = RuntimeLaunchError m c" if "resolveRuntimePath sys opts = Inl e" for e
    using resolveRuntimePath_Inl [OF that] .
qed (auto simp: resolveRuntimePath_def truthy_string_def)

text \<open>A Linux machine without the bundled package and without \<open>PATH\<close>, as in a test of the SDK.\<close>

lemma resolution_order_witness:
  "resolveRuntimePath \<lparr>sy_env = Map.empty, sy_platform = ''linux'', sy_arch = ''x64'',
     sy_resolve = (\<lambda>s. Inl (CodedError ''MODULE_NOT_FOUND'')), sy_access = (\<lambda>c. None),
     sy_join = (\<lambda>a b. a @ ''/'' @ b), sy_delimiter = CHR '':''\<rparr> \<lparr>do_runtimePath = None, do_env = []\<rparr> =
   Inl (RuntimeLaunchError ''meta-runtime was not found in the bundled runtime package or on PATH'' None)"
proof -
  let ?sys = "\<lparr>sy_env = Map.empty, sy_platform = ''linux'', sy_arch = ''x64'',
     sy_resolve = (\<lambda>s. Inl (CodedError ''MODULE_NOT_FOUND'')), sy_access = (\<lambda>c. None),
     sy_join = (\<lambda>a b. a @ ''/'' @ b), sy_delimiter = CHR '':''\<rparr>"
  let ?opts = "\<lparr>do_runtimePath = None, do_env = []\<rparr> :: distribution_options"
  let ?t = "\<lparr>rt_platform = ''linux'', rt_arch = ''x64'', rt_filename = ''meta-runtime''\<rparr>"
  have t: "runtimeTarget (sy_platform ?sys) (sy_arch ?sys) = Inr ?t" by (simp add: runtimeTarget_def)
  have no: "\<not> truthy_string (do_runtimePath ?opts)"
    "\<not> truthy_string (merge_env (sy_env ?sys) (do_env ?opts) ''META_RUNTIME_PATH'')"
    by (simp_all add: truthy_string_def merge_env_def)
  from resolution_order [THEN conjunct2, THEN conjunct2, THEN conjunct1, rule_format, OF no, THEN conjunct2, rule_format, OF t]
  show ?thesis by (simp add: merge_env_def)
qed

end
