(* ===== verification/Runtime.thy ===== *)
theory Runtime
  imports Distribution Js_Values
begin

text \<open>
  \<open>ManagedRuntime\<close> of \<open>sdk/node/src/runtime.ts\<close>: starting the runtime process, reading its bootstrap
  line and stopping it.  What the child process does is a list of events; the byte-to-text conversion,
  \<open>JSON.parse\<close> and the \<open>message\<close> of a foreign error are parameters (\<open>host\<close>), and every theorem holds
  for any of them.
\<close>

definition PROTOCOL_MAJOR :: int where "PROTOCOL_MAJOR = 1"
definition maxBootstrapBytes :: nat where "maxBootstrapBytes = 65536"
definition maxStderrBytes :: nat where "maxStderrBytes = 16384"

section \<open>The bootstrap line\<close>

datatype json =
    JNull
  | JBool bool
  | JNum js_number
  | JStr string
  | JArr "json list"
  | JObj "(string \<times> json) list"

record host =
  h_utf8 :: "byte list \<Rightarrow> string"
  h_parse :: "string \<Rightarrow> (js_error, json) result"
  h_message :: "js_error \<Rightarrow> string"

record bootstrap =
  bs_endpoint :: json
  bs_token :: json
  bs_protocol :: int

text \<open>\<open>parsed.name\<close>; the names the code reads are not inherited properties.\<close>

fun json_get :: "json \<Rightarrow> string \<Rightarrow> (js_error, json option) result" where
  "json_get JNull name = Inl (JsTypeError ''Cannot read properties of null'')"
| "json_get (JObj ps) name = Inr (map_of ps name)"
| "json_get _ name = Inr None"

fun json_truthy :: "json option \<Rightarrow> bool" where
  "json_truthy None = False"
| "json_truthy (Some JNull) = False"
| "json_truthy (Some (JBool b)) = b"
| "json_truthy (Some (JNum n)) = (n \<noteq> Fin 0 \<and> n \<noteq> NaN)"
| "json_truthy (Some (JStr s)) = (s \<noteq> '''')"
| "json_truthy (Some _) = True"

text \<open>\<open>typeof p === "number" && Number.isInteger(p)\<close>, with the integer.\<close>

fun json_integer :: "json option \<Rightarrow> int option" where
  "json_integer (Some (JNum (Fin q))) = (if of_int \<lfloor>q\<rfloor> = q then Some \<lfloor>q\<rfloor> else None)"
| "json_integer _ = None"

definition parseBootstrap :: "host \<Rightarrow> string \<Rightarrow> (js_error, bootstrap) result" where
  "parseBootstrap h line =
     bind_result (h_parse h line) (\<lambda>parsed.
     bind_result (json_get parsed ''endpoint'') (\<lambda>endpoint.
     bind_result (json_get parsed ''token'') (\<lambda>token.
     bind_result (json_get parsed ''protocol'') (\<lambda>protocol.
       if \<not> json_truthy endpoint \<or> \<not> json_truthy token \<or> json_integer protocol = None
       then Inl (JsError ''invalid bootstrap fields'')
       else Inr \<lparr>bs_endpoint = the endpoint, bs_token = the token, bs_protocol = the (json_integer protocol)\<rparr>))))"

definition readLine :: "host \<Rightarrow> byte list \<Rightarrow> (js_error, bootstrap) result" where
  "readLine h line = (case parseBootstrap h (js_trim (h_utf8 h line)) of
       Inl e \<Rightarrow> Inl (RuntimeLaunchError ''runtime emitted invalid bootstrap JSON'' (Some e))
     | Inr b \<Rightarrow> Inr b)"

section \<open>Waiting for the bootstrap\<close>

text \<open>
  The state of \<open>start\<close> while it awaits \<open>readBootstrap\<close>: what stdout and stderr delivered, how the
  promise was settled, and whether the child has an exit code or signal.
\<close>

record launch =
  la_data :: "byte list"
  la_stderr :: "byte list"
  la_settled :: "(js_error, bootstrap) result option"
  la_exited :: bool

definition new_launch :: launch where
  "new_launch = \<lparr>la_data = [], la_stderr = [], la_settled = None, la_exited = False\<rparr>"

text \<open>
  \<open>ProcError e b\<close> is the \<open>error\<close> event; \<open>b\<close> tells whether the child has an exit code then, as it has when
  the process could not be started.
\<close>

datatype child_event =
    Stdout "byte list"
  | Stderr "byte list"
  | ProcError js_error bool
  | Exit "int option" "string option"
  | Timer

definition finish :: "(js_error, bootstrap) result \<Rightarrow> launch \<Rightarrow> launch" where
  "finish r st = (if la_settled st \<noteq> None then st else st\<lparr>la_settled := Some r\<rparr>)"

definition onData :: "host \<Rightarrow> byte list \<Rightarrow> launch \<Rightarrow> launch" where
  "onData h chunk st =
     (let st' = st\<lparr>la_data := la_data st @ chunk\<rparr>; data = la_data st' in
      if length data > maxBootstrapBytes
      then finish (Inl (RuntimeLaunchError ''runtime bootstrap line is too large'' None)) st'
      else if 10 \<notin> set data then st'
      else finish (readLine h (takeWhile (\<lambda>b. b \<noteq> 10) data)) st')"

definition onStderr :: "byte list \<Rightarrow> launch \<Rightarrow> launch" where
  "onStderr chunk st = (if length (la_stderr st) \<ge> maxStderrBytes then st
     else st\<lparr>la_stderr := la_stderr st @ take (maxStderrBytes - length (la_stderr st)) chunk\<rparr>)"

definition stderrText :: "host \<Rightarrow> launch \<Rightarrow> string" where
  "stderrText h st = js_trim (h_utf8 h (la_stderr st))"

definition stderrSuffix :: "host \<Rightarrow> launch \<Rightarrow> string" where
  "stderrSuffix h st = (if stderrText h st \<noteq> '''' then '': '' @ stderrText h st else '''')"

fun exit_text :: "int option \<Rightarrow> string option \<Rightarrow> string" where
  "exit_text code (Some signal) = signal"
| "exit_text (Some code) None = string_of_int code"
| "exit_text None None = ''unknown''"

text \<open>Once the promise is settled only the stderr listener is still attached.\<close>

fun launch_step :: "host \<Rightarrow> int \<Rightarrow> launch \<Rightarrow> child_event \<Rightarrow> launch" where
  "launch_step h timeoutMs st (Stdout chunk) = (if la_settled st \<noteq> None then st else onData h chunk st)"
| "launch_step h timeoutMs st (Stderr chunk) = onStderr chunk st"
| "launch_step h timeoutMs st (ProcError e exited) =
     finish (Inl (RuntimeLaunchError (''runtime process failed: '' @ h_message h e) (Some e)))
       (st\<lparr>la_exited := la_exited st \<or> exited\<rparr>)"
| "launch_step h timeoutMs st (Exit code signal) =
     finish (Inl (RuntimeLaunchError (''runtime exited before bootstrap ('' @ exit_text code signal @ '')'' @
       stderrSuffix h st) None)) (st\<lparr>la_exited := la_exited st \<or> code \<noteq> None \<or> signal \<noteq> None\<rparr>)"
| "launch_step h timeoutMs st Timer =
     finish (Inl (RuntimeLaunchError (''runtime bootstrap timed out after '' @ string_of_int timeoutMs @ ''ms'' @
       stderrSuffix h st) None)) st"

text \<open>\<open>readBootstrap\<close> rejects at once when the child has no \<open>stdout\<close>.\<close>

definition readBootstrap :: "bool \<Rightarrow> launch" where
  "readBootstrap has_stdout = (if \<not> has_stdout
     then new_launch\<lparr>la_settled := Some (Inl (RuntimeLaunchError ''runtime stdout is unavailable'' None))\<rparr>
     else new_launch)"

definition launch_run :: "host \<Rightarrow> int \<Rightarrow> child_event list \<Rightarrow> launch" where
  "launch_run h timeoutMs evs = foldl (launch_step h timeoutMs) new_launch evs"

section \<open>Starting\<close>

record managed_options = distribution_options +
  mo_listen :: "string option"
  mo_token :: "string option"
  mo_bootstrapTimeoutMs :: "int option"
  mo_stopTimeoutMs :: "int option"

record spawn_call =
  sp_path :: string
  sp_args :: "string list"
  sp_env :: env

definition spawnCall :: "env \<Rightarrow> managed_options \<Rightarrow> string \<Rightarrow> spawn_call" where
  "spawnCall base options runtimePath = \<lparr>sp_path = runtimePath,
     sp_args = [''--listen'', case mo_listen options of None \<Rightarrow> ''127.0.0.1:0'' | Some l \<Rightarrow> l],
     sp_env = merge_env (merge_env base (do_env options))
       (if truthy_string (mo_token options) then [(''META_RUNTIME_TOKEN'', mo_token options)] else [])\<rparr>"

record managed_runtime =
  mr_endpoint :: json
  mr_token :: json
  mr_protocol :: int
  mr_stopTimeoutMs :: int

datatype signal = SIGTERM | SIGKILL

text \<open>The \<open>catch\<close> clause of \<open>start\<close>: the error it throws and the signals it sends.\<close>

definition startCatch :: "string \<Rightarrow> launch \<Rightarrow> js_error \<Rightarrow> (js_error, managed_runtime) result \<times> signal list" where
  "startCatch base st e =
     (Inl (case e of ProtocolMismatchError _ _ \<Rightarrow> e | RuntimeLaunchError _ _ \<Rightarrow> e
        | _ \<Rightarrow> RuntimeLaunchError (''failed to start '' @ base) (Some e)),
      if la_exited st then [] else [SIGTERM])"

definition startResult :: "string \<Rightarrow> managed_options \<Rightarrow> launch \<Rightarrow>
    ((js_error, managed_runtime) result \<times> signal list) option" where
  "startResult base options st = (case la_settled st of
       None \<Rightarrow> None
     | Some (Inl e) \<Rightarrow> Some (startCatch base st e)
     | Some (Inr b) \<Rightarrow>
         (if bs_protocol b \<noteq> PROTOCOL_MAJOR
          then (let (r, sigs) = startCatch base st (ProtocolMismatchError PROTOCOL_MAJOR (bs_protocol b))
                in Some (r, SIGTERM # sigs))
          else Some (Inr \<lparr>mr_endpoint = bs_endpoint b, mr_token = bs_token b, mr_protocol = bs_protocol b,
            mr_stopTimeoutMs = (case mo_stopTimeoutMs options of None \<Rightarrow> 5000 | Some t \<Rightarrow> t)\<rparr>, [])))"

text \<open>
  \<open>ManagedRuntime.start\<close>: \<open>spawn\<close> throws or gives a child, of which the code asks whether it has a
  \<open>stdout\<close>; \<open>evs\<close> is what the child does until the awaiting code runs; \<open>None\<close> while it still waits.
\<close>

definition managedStart :: "system \<Rightarrow> host \<Rightarrow> (string \<Rightarrow> string) \<Rightarrow> (spawn_call \<Rightarrow> (js_error, bool) result) \<Rightarrow>
    managed_options \<Rightarrow> child_event list \<Rightarrow> ((js_error, managed_runtime) result \<times> signal list) option" where
  "managedStart sys h basename spawn options evs = (case resolveRuntimePath sys options of
       Inl e \<Rightarrow> Some (Inl e, [])
     | Inr runtimePath \<Rightarrow> (case spawn (spawnCall (sy_env sys) options runtimePath) of
           Inl e \<Rightarrow> Some (Inl e, [])
         | Inr has_stdout \<Rightarrow> startResult (basename runtimePath) options
             (foldl (launch_step h (case mo_bootstrapTimeoutMs options of None \<Rightarrow> 10000 | Some t \<Rightarrow> t))
               (readBootstrap has_stdout) evs)))"

section \<open>Stopping\<close>

text \<open>
  \<open>stop_phase\<close> is where the first call of \<open>stop()\<close> stands: waiting for the race between the exit of
  the child and the delay, waiting for the exit after the kill, or returned.
\<close>

datatype stop_phase = NotCalled | Racing | AwaitExit | Returned

record proc =
  pr_stopped :: bool
  pr_exited :: bool
  pr_phase :: stop_phase
  pr_signals :: "signal list"
  pr_later :: nat

definition new_proc :: proc where
  "new_proc = \<lparr>pr_stopped = False, pr_exited = False, pr_phase = NotCalled, pr_signals = [], pr_later = 0\<rparr>"

datatype proc_event = StopCall | ChildExit | DelayOver

definition proc_stop :: "proc \<Rightarrow> proc" where
  "proc_stop p = (if pr_stopped p then p\<lparr>pr_later := Suc (pr_later p)\<rparr>
     else if pr_exited p then p\<lparr>pr_stopped := True, pr_phase := Returned\<rparr>
     else p\<lparr>pr_stopped := True, pr_signals := pr_signals p @ [SIGTERM], pr_phase := Racing\<rparr>)"

fun proc_step :: "proc \<Rightarrow> proc_event \<Rightarrow> proc" where
  "proc_step p StopCall = proc_stop p"
| "proc_step p ChildExit = (if pr_phase p = Racing \<or> pr_phase p = AwaitExit
     then p\<lparr>pr_exited := True, pr_phase := Returned\<rparr> else p\<lparr>pr_exited := True\<rparr>)"
| "proc_step p DelayOver = (if pr_phase p = Racing
     then p\<lparr>pr_signals := pr_signals p @ [SIGKILL], pr_phase := AwaitExit\<rparr> else p)"

definition proc_run :: "proc_event list \<Rightarrow> proc" where
  "proc_run evs = foldl proc_step new_proc evs"

section \<open>Lemmas\<close>

lemma finish_simps [simp]:
  "la_data (finish r st) = la_data st" "la_stderr (finish r st) = la_stderr st"
  "la_exited (finish r st) = la_exited st"
  "la_settled st \<noteq> None \<Longrightarrow> finish r st = st"
  "la_settled st = None \<Longrightarrow> la_settled (finish r st) = Some r"
  by (simp_all add: finish_def)

lemma launch_step_settled:
  "la_settled st \<noteq> None \<Longrightarrow> la_settled (launch_step h t st ev) = la_settled st"
  by (cases ev) (simp_all add: onStderr_def)

lemma launch_run_settled:
  "la_settled st \<noteq> None \<Longrightarrow> la_settled (foldl (launch_step h t) st evs) = la_settled st"
  by (induction evs rule: rev_induct) (simp_all add: launch_step_settled)

lemma launch_run_append: "launch_run h t (evs @ evs') = foldl (launch_step h t) (launch_run h t evs) evs'"
  by (simp add: launch_run_def)

lemma onData_settles_RuntimeLaunchError:
  "la_settled (onData h c st) = Some (Inl e) \<Longrightarrow> la_settled st = None \<Longrightarrow> \<exists>m x. e = RuntimeLaunchError m x"
  by (auto simp: onData_def Let_def readLine_def split: if_splits sum.splits)

lemma launch_error_kind:
  "la_settled (launch_run h t evs) = Some (Inl e) \<Longrightarrow> \<exists>m x. e = RuntimeLaunchError m x"
proof (induction evs rule: rev_induct)
  case Nil
  then show ?case by (simp add: launch_run_def new_launch_def)
next
  case (snoc ev evs)
  show ?case
  proof (cases "la_settled (launch_run h t evs)")
    case None
    then show ?thesis using snoc.prems onData_settles_RuntimeLaunchError
      by (cases ev) (auto simp: launch_run_append onStderr_def finish_def split: if_splits)
  next
    case (Some r)
    then show ?thesis using snoc launch_step_settled by (simp add: launch_run_append)
  qed
qed

text \<open>Before the promise is settled the buffer holds all of stdout and no complete line.\<close>

fun stdout_of :: "child_event list \<Rightarrow> byte list" where
  "stdout_of [] = []"
| "stdout_of (Stdout c # evs) = c @ stdout_of evs"
| "stdout_of (_ # evs) = stdout_of evs"

fun stderr_of :: "child_event list \<Rightarrow> byte list" where
  "stderr_of [] = []"
| "stderr_of (Stderr c # evs) = c @ stderr_of evs"
| "stderr_of (_ # evs) = stderr_of evs"

lemma stdout_of_append [simp]: "stdout_of (a @ b) = stdout_of a @ stdout_of b"
  by (induction a rule: stdout_of.induct) simp_all

lemma stderr_of_append [simp]: "stderr_of (a @ b) = stderr_of a @ stderr_of b"
  by (induction a rule: stderr_of.induct) simp_all

lemma launch_waiting:
  "la_settled (launch_run h t evs) = None \<Longrightarrow>
   la_data (launch_run h t evs) = stdout_of evs \<and> length (stdout_of evs) \<le> maxBootstrapBytes \<and> 10 \<notin> set (stdout_of evs)"
proof (induction evs rule: rev_induct)
  case Nil
  then show ?case by (simp add: launch_run_def new_launch_def)
next
  case (snoc ev evs)
  have none: "la_settled (launch_run h t evs) = None"
  proof (rule ccontr)
    assume "la_settled (launch_run h t evs) \<noteq> None"
    from launch_step_settled [OF this, of h t ev] this snoc.prems show False by (simp add: launch_run_append)
  qed
  with snoc show ?case
    by (cases ev) (auto simp: launch_run_append onStderr_def onData_def finish_def Let_def split: if_splits)
qed

lemma launch_stderr: "la_stderr (launch_run h t evs) = take maxStderrBytes (stderr_of evs)"
proof (induction evs rule: rev_induct)
  case Nil
  then show ?case by (simp add: launch_run_def new_launch_def)
next
  case (snoc ev evs)
  then show ?case
    by (cases ev) (auto simp: launch_run_append onStderr_def onData_def finish_def Let_def min_def not_le)
qed

text \<open>The line that settles the promise is the first line of stdout.\<close>

lemma launch_line:
  "la_settled (launch_run h t evs) = Some (Inr b) \<Longrightarrow>
   10 \<in> set (stdout_of evs) \<and> readLine h (takeWhile (\<lambda>b. b \<noteq> 10) (stdout_of evs)) = Inr b"
proof (induction evs rule: rev_induct)
  case Nil
  then show ?case by (simp add: launch_run_def new_launch_def)
next
  case (snoc ev evs)
  show ?case
  proof (cases "la_settled (launch_run h t evs)")
    case None
    then show ?thesis using snoc.prems launch_waiting [OF None]
      by (cases ev) (auto simp: launch_run_append onStderr_def onData_def Let_def finish_def split: if_splits)
  next
    case (Some r)
    then have "la_settled (launch_run h t evs) = Some (Inr b)"
      using snoc.prems launch_step_settled [of "launch_run h t evs" h t ev] by (simp add: launch_run_append)
    then show ?thesis using snoc.IH by (simp add: takeWhile_append1 [of 10])
  qed
qed

lemma readLine_Inr:
  assumes "readLine h l = Inr b"
  shows "\<exists>parsed. h_parse h (js_trim (h_utf8 h l)) = Inr parsed \<and>
    json_get parsed ''endpoint'' = Inr (Some (bs_endpoint b)) \<and> json_truthy (Some (bs_endpoint b)) \<and>
    json_get parsed ''token'' = Inr (Some (bs_token b)) \<and> json_truthy (Some (bs_token b)) \<and>
    json_get parsed ''protocol'' = Inr (Some (JNum (Fin (of_int (bs_protocol b)))))"
proof -
  have truthy: "x = Some (the x)" if "json_truthy x" for x using that by (cases x) simp_all
  have number: "x = Some (JNum (Fin (of_int i)))" if "json_integer x = Some i" for x i
    using that by (cases x rule: json_integer.cases) (auto split: if_splits)
  show ?thesis using assms truthy number
    by (auto simp: readLine_def parseBootstrap_def split: sum.splits if_splits)
qed

text \<open>While the child only writes, the settlement depends on the bytes of stdout alone.\<close>

definition writes_only :: "child_event list \<Rightarrow> bool" where
  "writes_only evs = (\<forall>ev \<in> set evs. \<exists>c. ev = Stdout c \<or> ev = Stderr c)"

lemma launch_writes:
  assumes "writes_only evs" and "length (stdout_of evs) \<le> maxBootstrapBytes"
  shows "la_settled (launch_run h t evs) = (if 10 \<in> set (stdout_of evs)
      then Some (readLine h (takeWhile (\<lambda>b. b \<noteq> 10) (stdout_of evs))) else None) \<and>
    \<not> la_exited (launch_run h t evs)"
  using assms
proof (induction evs rule: rev_induct)
  case Nil
  then show ?case by (simp add: launch_run_def new_launch_def)
next
  case (snoc ev evs)
  let ?st = "launch_run h t evs"
  have IH: "la_settled ?st = (if 10 \<in> set (stdout_of evs)
      then Some (readLine h (takeWhile (\<lambda>b. b \<noteq> 10) (stdout_of evs))) else None)" "\<not> la_exited ?st"
    using snoc by (simp_all add: writes_only_def)
  obtain c where ev: "ev = Stdout c \<or> ev = Stderr c" using snoc.prems(1) by (auto simp: writes_only_def)
  then show ?case
  proof (elim disjE)
    assume ev: "ev = Stdout c"
    show ?thesis
    proof (cases "10 \<in> set (stdout_of evs)")
      case True
      then show ?thesis using IH by (simp add: launch_run_append ev takeWhile_append1)
    next
      case False
      then have none: "la_settled ?st = None" using IH by simp
      then show ?thesis using launch_waiting [OF none] snoc.prems(2) IH(2) False
        by (simp add: launch_run_append ev onData_def Let_def finish_def)
    qed
  qed (use IH in \<open>simp add: launch_run_append onStderr_def\<close>)
qed

lemma start_on_launch:
  assumes "resolveRuntimePath sys options = Inr path" and "spawn (spawnCall (sy_env sys) options path) = Inr True"
  shows "managedStart sys h basename spawn options evs = startResult (basename path) options
    (launch_run h (case mo_bootstrapTimeoutMs options of None \<Rightarrow> 10000 | Some t \<Rightarrow> t) evs)"
  by (simp add: managedStart_def assms launch_run_def readBootstrap_def)

section \<open>Properties\<close>

text \<open>C12: the bootstrap line does not depend on how stdout is cut into chunks or on what stderr gets in
between: as long as the child only writes, and at most 64 KiB to stdout, the promise is settled by the
bytes before the first newline of stdout, and it is pending before there is one; two runs with the same
bytes on stdout are settled in the same way.\<close>

theorem bootstrap_chunks:
  assumes "writes_only evs" and "length (stdout_of evs) \<le> maxBootstrapBytes"
  shows "la_settled (launch_run h t evs) =
    (if 10 \<in> set (stdout_of evs)
     then Some (readLine h (takeWhile (\<lambda>b. b \<noteq> 10) (stdout_of evs))) else None) \<and>
    (\<forall>evs'. writes_only evs' \<longrightarrow> stdout_of evs' = stdout_of evs \<longrightarrow>
      la_settled (launch_run h t evs') = la_settled (launch_run h t evs))"
  using launch_writes assms by simp

lemma bootstrap_chunks_witness:
  "la_settled (launch_run \<lparr>h_utf8 = map (\<lambda>b. char_of (unat b)), h_parse = (\<lambda>s. Inl (JsSyntaxError s)), h_message = (\<lambda>e. '''')\<rparr>
     100 [Stdout [123], Stderr [65], Stdout [], Stdout [125, 10, 7]]) =
   Some (Inl (RuntimeLaunchError ''runtime emitted invalid bootstrap JSON'' (Some (JsSyntaxError ''{}''))))"
proof -
  let ?evs = "[Stdout [123], Stderr [65], Stdout [], Stdout [125, 10, 7]]"
  have "writes_only ?evs" "length (stdout_of ?evs) \<le> maxBootstrapBytes"
    by (simp_all add: writes_only_def maxBootstrapBytes_def)
  from bootstrap_chunks [OF this, THEN conjunct1] show ?thesis by (rule trans) code_simp
qed

text \<open>C25: reading the bootstrap is bounded and settles once: while the promise is pending stdout has
delivered at most 64 KiB and no newline; the first settlement is final; at most the first 16 KiB of
stderr are kept, whatever the chunks; and a rejection is always a \<open>RuntimeLaunchError\<close>.\<close>

theorem bootstrap_bounded:
  "(la_settled (launch_run h t evs) = None \<longrightarrow>
      length (stdout_of evs) \<le> maxBootstrapBytes \<and> 10 \<notin> set (stdout_of evs)) \<and>
   (\<forall>r. la_settled (launch_run h t evs) = Some r \<longrightarrow> la_settled (launch_run h t (evs @ evs')) = Some r) \<and>
   la_stderr (launch_run h t evs) = take maxStderrBytes (stderr_of evs) \<and>
   (\<forall>e. la_settled (launch_run h t evs) = Some (Inl e) \<longrightarrow> (\<exists>m x. e = RuntimeLaunchError m x))"
  using launch_waiting launch_stderr launch_error_kind launch_run_settled [of "launch_run h t evs" h t evs']
  by (simp add: launch_run_append)

lemma bootstrap_bounded_witness:
  "\<exists>m x. la_settled (launch_run \<lparr>h_utf8 = (\<lambda>b. ''''), h_parse = (\<lambda>s. Inl (JsSyntaxError s)), h_message = (\<lambda>e. '''')\<rparr>
     100 ([Stderr [65], Exit (Some 1) None] @ [Stdout [10]])) = Some (Inl (RuntimeLaunchError m x))"
proof -
  let ?h = "\<lparr>h_utf8 = (\<lambda>b. ''''), h_parse = (\<lambda>s. Inl (JsSyntaxError s)), h_message = (\<lambda>e. '''')\<rparr> :: host"
  obtain e where e: "la_settled (launch_run ?h 100 [Stderr [65], Exit (Some 1) None]) = Some (Inl e)"
    by (simp add: launch_run_def new_launch_def finish_def onStderr_def maxStderrBytes_def)
  note B = bootstrap_bounded [of ?h 100 "[Stderr [65], Exit (Some 1) None]" "[Stdout [10]]"]
  from B [THEN conjunct2, THEN conjunct1, rule_format, OF e]
    B [THEN conjunct2, THEN conjunct2, THEN conjunct2, rule_format, OF e]
  show ?thesis by auto
qed

lemma startResult_error:
  assumes "startResult base options st = Some (Inl e, signals)"
    and "\<And>e. la_settled st = Some (Inl e) \<Longrightarrow> \<exists>m x. e = RuntimeLaunchError m x"
  shows "(\<exists>m x a b. e = RuntimeLaunchError m x \<or> e = ProtocolMismatchError a b) \<and> set signals \<subseteq> {SIGTERM} \<and>
    (\<not> la_exited st \<longrightarrow> SIGTERM \<in> set signals)"
proof (cases "la_settled st")
  case (Some s)
  show ?thesis
  proof (cases s)
    case (Inl e')
    then obtain m x where "e' = RuntimeLaunchError m x" using assms(2) Some by blast
    then show ?thesis using assms(1) Some Inl by (auto simp: startResult_def startCatch_def split: if_splits)
  next
    case (Inr b)
    then show ?thesis using assms(1) Some
      by (auto simp: startResult_def startCatch_def Let_def split: if_splits)
  qed
qed (use assms(1) in \<open>simp add: startResult_def\<close>)

lemma no_stdout_settled:
  "la_settled (foldl (launch_step h t) (readBootstrap False) evs) =
   Some (Inl (RuntimeLaunchError ''runtime stdout is unavailable'' None))"
  using launch_run_settled [of "readBootstrap False" h t evs] by (simp add: readBootstrap_def)

abbreviation launch_of :: "host \<Rightarrow> managed_options \<Rightarrow> bool \<Rightarrow> child_event list \<Rightarrow> launch" where
  "launch_of h options has_stdout evs \<equiv>
     foldl (launch_step h (case mo_bootstrapTimeoutMs options of None \<Rightarrow> 10000 | Some t \<Rightarrow> t)) (readBootstrap has_stdout) evs"

lemma launch_of_error:
  "la_settled (launch_of h options b evs) = Some (Inl e) \<Longrightarrow> \<exists>m x. e = RuntimeLaunchError m x"
proof (cases b)
  case True
  assume "la_settled (launch_of h options b evs) = Some (Inl e)"
  then show ?thesis using True launch_error_kind by (simp add: launch_run_def readBootstrap_def)
qed (auto simp: no_stdout_settled)

text \<open>C13: what \<open>ManagedRuntime.start\<close> returns.  It succeeds only when the first line the spawned process
writes to stdout is JSON with a non-empty endpoint and token and with this SDK's protocol major; the
runtime then has the endpoint and the token of that line, and no signal is sent.  It fails with the
\<open>RuntimeLaunchError\<close> of the path resolution or with what \<open>spawn\<close> throws, before there is a process; and
with a \<open>RuntimeLaunchError\<close> or a \<open>ProtocolMismatchError\<close> after it, when \<open>SIGTERM\<close> has been sent unless the
process had exited.\<close>

theorem start_result:
  assumes "managedStart sys h basename spawn options evs = Some (r, signals)"
  shows "(case r of
      Inr m \<Rightarrow> signals = [] \<and> (\<exists>path parsed.
        resolveRuntimePath sys options = Inr path \<and> spawn (spawnCall (sy_env sys) options path) = Inr True \<and>
        10 \<in> set (stdout_of evs) \<and>
        h_parse h (js_trim (h_utf8 h (takeWhile (\<lambda>b. b \<noteq> 10) (stdout_of evs)))) = Inr parsed \<and>
        json_get parsed ''endpoint'' = Inr (Some (mr_endpoint m)) \<and> json_truthy (Some (mr_endpoint m)) \<and>
        json_get parsed ''token'' = Inr (Some (mr_token m)) \<and> json_truthy (Some (mr_token m)) \<and>
        json_get parsed ''protocol'' = Inr (Some (JNum (Fin (of_int PROTOCOL_MAJOR)))))
    | Inl e \<Rightarrow> (case resolveRuntimePath sys options of
          Inl e' \<Rightarrow> e = e' \<and> (\<exists>m x. e = RuntimeLaunchError m x) \<and> signals = []
        | Inr path \<Rightarrow> (case spawn (spawnCall (sy_env sys) options path) of
            Inl e' \<Rightarrow> e = e' \<and> signals = []
          | Inr b \<Rightarrow> (\<exists>m x a b. e = RuntimeLaunchError m x \<or> e = ProtocolMismatchError a b) \<and>
              set signals \<subseteq> {SIGTERM} \<and> (\<not> la_exited (launch_of h options b evs) \<longrightarrow> SIGTERM \<in> set signals))))"
proof (cases "resolveRuntimePath sys options")
  case (Inl e)
  then show ?thesis using assms resolveRuntimePath_Inl [OF Inl] by (auto simp: managedStart_def)
next
  case path: (Inr path)
  show ?thesis
  proof (cases "spawn (spawnCall (sy_env sys) options path)")
    case (Inl e)
    then show ?thesis using assms path by (auto simp: managedStart_def)
  next
    case has: (Inr b)
    have start: "startResult (basename path) options (launch_of h options b evs) = Some (r, signals)"
      using assms by (simp add: managedStart_def path has)
    show ?thesis
    proof (cases r)
      case (Inl e)
      then show ?thesis using startResult_error [OF start [unfolded Inl] launch_of_error] by (simp add: path has)
    next
      case (Inr m)
      then obtain bs where bs: "la_settled (launch_of h options b evs) = Some (Inr bs)"
          "bs_protocol bs = PROTOCOL_MAJOR" "mr_endpoint m = bs_endpoint bs" "mr_token m = bs_token bs" "signals = []"
        using start by (auto simp: startResult_def startCatch_def Let_def split: option.splits sum.splits if_splits)
      have b: b using bs(1) no_stdout_settled by (cases b) simp_all
      then have "la_settled (launch_run h (case mo_bootstrapTimeoutMs options of None \<Rightarrow> 10000 | Some t \<Rightarrow> t) evs) = Some (Inr bs)"
        using bs(1) by (simp add: launch_run_def readBootstrap_def)
      from launch_line [OF this] show ?thesis
        using readLine_Inr [of h "takeWhile (\<lambda>b. b \<noteq> 10) (stdout_of evs)" bs] bs(2-5) Inr path has b by auto
    qed
  qed
qed

definition demo_system :: system where
  "demo_system = \<lparr>sy_env = Map.empty, sy_platform = ''linux'', sy_arch = ''x64'',
     sy_resolve = (\<lambda>s. Inl (CodedError ''MODULE_NOT_FOUND'')), sy_access = (\<lambda>c. None),
     sy_join = (\<lambda>a b. a @ ''/'' @ b), sy_delimiter = CHR '':''\<rparr>"

definition demo_options :: managed_options where
  "demo_options = \<lparr>do_runtimePath = Some ''/opt/m'', do_env = [], mo_listen = None, mo_token = None,
     mo_bootstrapTimeoutMs = None, mo_stopTimeoutMs = None\<rparr>"

text \<open>A parser that reads every line as the bootstrap of protocol \<open>n\<close>.\<close>

definition demo_host :: "int \<Rightarrow> host" where
  "demo_host n = \<lparr>h_utf8 = (\<lambda>b. ''''), h_parse = (\<lambda>s. Inr (JObj [(''endpoint'', JStr ''h:1''), (''token'', JStr ''t''),
     (''protocol'', JNum (Fin (of_int n)))])), h_message = (\<lambda>e. '''')\<rparr>"

lemma demo_path: "resolveRuntimePath demo_system demo_options = Inr ''/opt/m''"
  by (simp add: resolveRuntimePath_def demo_options_def truthy_string_def)

lemma start_result_witness:
  "\<exists>m. managedStart demo_system (demo_host 1) (\<lambda>p. p) (\<lambda>c. Inr True) demo_options [Stdout [123], Stdout [10]] = Some (Inr m, []) \<and>
     mr_endpoint m = JStr ''h:1'' \<and> mr_token m = JStr ''t''"
proof -
  obtain m where m: "managedStart demo_system (demo_host 1) (\<lambda>p. p) (\<lambda>c. Inr True) demo_options [Stdout [123], Stdout [10]] =
      Some (Inr m, [])"
    by (simp add: managedStart_def demo_path readBootstrap_def new_launch_def onData_def Let_def finish_def readLine_def
        parseBootstrap_def maxBootstrapBytes_def demo_host_def startResult_def PROTOCOL_MAJOR_def)
  from start_result [OF m] m show ?thesis by (auto simp: demo_host_def)
qed

text \<open>C36: how \<open>start\<close> answers the bootstrap line of a process that only writes, at most 64 KiB to stdout, in
whatever chunks: a line with endpoint, token and this SDK's protocol gives a runtime with the stop timeout
of the options or five seconds; another protocol a \<open>ProtocolMismatchError\<close> with both versions, after
\<open>SIGTERM\<close> has been sent (twice); a line that is not JSON or lacks a field the \<open>RuntimeLaunchError\<close> for an
invalid bootstrap, with the cause, after one \<open>SIGTERM\<close>.  Without a newline \<open>start\<close> is still waiting.\<close>

theorem start_on_line:
  assumes "resolveRuntimePath sys options = Inr path" and "spawn (spawnCall (sy_env sys) options path) = Inr True"
    and "writes_only evs" and "length (stdout_of evs) \<le> maxBootstrapBytes"
  shows "managedStart sys h basename spawn options evs =
    (if 10 \<notin> set (stdout_of evs) then None
     else case h_parse h (js_trim (h_utf8 h (takeWhile (\<lambda>b. b \<noteq> 10) (stdout_of evs)))) of
       Inl e \<Rightarrow> Some (Inl (RuntimeLaunchError ''runtime emitted invalid bootstrap JSON'' (Some e)), [SIGTERM])
     | Inr JNull \<Rightarrow> Some (Inl (RuntimeLaunchError ''runtime emitted invalid bootstrap JSON''
           (Some (JsTypeError ''Cannot read properties of null''))), [SIGTERM])
     | Inr (JObj ps) \<Rightarrow> (case (map_of ps ''endpoint'', map_of ps ''token'', json_integer (map_of ps ''protocol'')) of
           (Some endpoint, Some token, Some protocol) \<Rightarrow>
             (if \<not> json_truthy (Some endpoint) \<or> \<not> json_truthy (Some token)
              then Some (Inl (RuntimeLaunchError ''runtime emitted invalid bootstrap JSON''
                (Some (JsError ''invalid bootstrap fields''))), [SIGTERM])
              else if protocol = 1
              then Some (Inr \<lparr>mr_endpoint = endpoint, mr_token = token, mr_protocol = 1,
                mr_stopTimeoutMs = (case mo_stopTimeoutMs options of None \<Rightarrow> 5000 | Some t \<Rightarrow> t)\<rparr>, [])
              else Some (Inl (ProtocolMismatchError 1 protocol), [SIGTERM, SIGTERM]))
         | _ \<Rightarrow> Some (Inl (RuntimeLaunchError ''runtime emitted invalid bootstrap JSON''
             (Some (JsError ''invalid bootstrap fields''))), [SIGTERM]))
     | Inr _ \<Rightarrow> Some (Inl (RuntimeLaunchError ''runtime emitted invalid bootstrap JSON''
         (Some (JsError ''invalid bootstrap fields''))), [SIGTERM]))"
  using launch_writes [OF assms(3,4), of h "case mo_bootstrapTimeoutMs options of None \<Rightarrow> 10000 | Some t \<Rightarrow> t"]
  unfolding start_on_launch [where spawn = spawn and path = path, OF assms(1,2)] startResult_def
  by (auto simp: startCatch_def readLine_def parseBootstrap_def PROTOCOL_MAJOR_def Let_def
      split: sum.split json.split option.split)

lemma start_on_line_witness:
  "managedStart demo_system (demo_host 2) (\<lambda>p. p) (\<lambda>c. Inr True) demo_options [Stdout [123], Stderr [65], Stdout [125, 10]] =
   Some (Inl (ProtocolMismatchError 1 2), [SIGTERM, SIGTERM])"
proof -
  let ?evs = "[Stdout [123], Stderr [65], Stdout [125, 10]]"
  have "writes_only ?evs" "length (stdout_of ?evs) \<le> maxBootstrapBytes"
    by (simp_all add: writes_only_def maxBootstrapBytes_def)
  from start_on_line [where spawn = "\<lambda>c. Inr True" and h = "demo_host 2", OF demo_path refl this] show ?thesis by (simp add: demo_host_def)
qed

lemma proc_before: "StopCall \<notin> set evs \<Longrightarrow>
    proc_run evs = \<lparr>pr_stopped = False, pr_exited = (ChildExit \<in> set evs), pr_phase = NotCalled, pr_signals = [], pr_later = 0\<rparr>"
proof (induction evs rule: rev_induct)
  case (snoc ev evs)
  then show ?case by (cases ev) (auto simp: proc_run_def)
qed (simp add: proc_run_def new_proc_def)

lemma proc_run_append: "proc_run (evs @ evs') = foldl proc_step (proc_run evs) evs'"
  by (simp add: proc_run_def)

lemma proc_returned:
  "pr_stopped p \<Longrightarrow> pr_phase p = Returned \<Longrightarrow> pr_exited p \<Longrightarrow>
   foldl proc_step p evs = p\<lparr>pr_later := pr_later p + count_list evs StopCall\<rparr>"
proof (induction evs arbitrary: p)
  case (Cons ev evs)
  then show ?case by (cases ev) (simp_all add: proc_stop_def)
qed simp

lemma proc_after:
  "foldl proc_step p evs = p\<lparr>pr_exited := pr_exited p \<or> ChildExit \<in> set evs, pr_later := pr_later p + count_list evs StopCall,
     pr_phase := (if ChildExit \<in> set evs then Returned
       else if DelayOver \<in> set evs then AwaitExit else pr_phase p),
     pr_signals := pr_signals p @ (if pr_phase p = Racing \<and> DelayOver \<in> set (takeWhile (\<lambda>e. e \<noteq> ChildExit) evs)
       then [SIGKILL] else [])\<rparr>"
  if "pr_stopped p" "pr_phase p = Racing \<or> pr_phase p = AwaitExit" "\<not> pr_exited p"
  using that
proof (induction evs arbitrary: p)
  case (Cons ev evs)
  show ?case
  proof (cases ev)
    case StopCall
    then show ?thesis using Cons by (simp add: proc_stop_def)
  next
    case ChildExit
    then show ?thesis using Cons.prems by (auto simp: proc_returned)
  next
    case DelayOver
    then show ?thesis using Cons by auto
  qed
qed simp

text \<open>C23: \<open>stop()\<close> on a process that has not exited always sends \<open>SIGTERM\<close>, and then sends \<open>SIGKILL\<close> exactly
when the stop timeout has passed and the process has not exited before; the call returns exactly when the
process has exited, and never before.  A process that had exited gets no signal and \<open>stop()\<close> returns at
once.  Without a call of \<open>stop()\<close> nothing is sent.  Every further call returns at once and sends nothing,
also while the first one still waits and the process is running.\<close>

theorem stop_escalates:
  assumes "StopCall \<notin> set before"
  shows "pr_signals (proc_run before) = [] \<and>
    (ChildExit \<in> set before \<longrightarrow>
      pr_signals (proc_run (before @ StopCall # after)) = [] \<and> pr_phase (proc_run (before @ [StopCall])) = Returned) \<and>
    (ChildExit \<notin> set before \<longrightarrow>
      pr_signals (proc_run (before @ [StopCall])) = [SIGTERM] \<and>
      pr_signals (proc_run (before @ StopCall # after)) =
        SIGTERM # (if DelayOver \<in> set (takeWhile (\<lambda>e. e \<noteq> ChildExit) after) then [SIGKILL] else []) \<and>
      (pr_phase (proc_run (before @ StopCall # after)) = Returned \<longleftrightarrow> ChildExit \<in> set after)) \<and>
    pr_later (proc_run (before @ StopCall # after)) = count_list after StopCall"
proof (cases "ChildExit \<in> set before")
  case True
  then show ?thesis using True by (simp add: proc_run_append proc_before [OF assms] proc_stop_def proc_returned)
next
  case False
  then show ?thesis
    by (auto simp: proc_run_append proc_before [OF assms] proc_stop_def proc_after)
qed

lemma stop_escalates_witness:
  "pr_signals (proc_run ([] @ StopCall # [StopCall, DelayOver, ChildExit])) = [SIGTERM, SIGKILL] \<and>
   pr_signals (proc_run ([] @ StopCall # [ChildExit, DelayOver])) = [SIGTERM] \<and>
   pr_signals (proc_run ([ChildExit] @ StopCall # [])) = []"
  using stop_escalates [of "[]" "[StopCall, DelayOver, ChildExit]"] stop_escalates [of "[]" "[ChildExit, DelayOver]"]
    stop_escalates [of "[ChildExit]" "[]"] by simp

end
