(* ===== verification/Gen_Runtime.thy ===== *)
theory Gen_Runtime
  imports Gen_Common
begin

text \<open>
  Messages of \<open>sdk/node/src/gen/meta/v1/runtime.ts\<close>: the runtime service.
  For every message: its interface as a record (or a datatype without fields), \<open>createBase\<close>,
  \<open>encode\<close> as the sequence of its writer calls, and \<open>decode\<close> as the cases of its
  switch; a union field is a datatype with one constructor per \<open>$case\<close>.  \<open>_ok\<close> holds of
  the values a TypeScript program can build: objects built by assignment and dates in range.
  Then the round trip of the message and the totality of its decoder.
\<close>

subsection \<open>GetInfoRequest\<close>

datatype GetInfoRequest = GetInfoRequest

definition createBaseGetInfoRequest :: GetInfoRequest where
  "createBaseGetInfoRequest = GetInfoRequest"

definition GetInfoRequest_encode :: "('w, 'r) wire \<Rightarrow> GetInfoRequest \<Rightarrow> 'w writer" where
  "GetInfoRequest_encode W m = w_seq []"

definition GetInfoRequest_cases :: "('w, 'r) wire \<Rightarrow> ('r, GetInfoRequest) cases" where
  "GetInfoRequest_cases W = []"

definition GetInfoRequest_decode :: "('w, 'r) wire \<Rightarrow> ('r, GetInfoRequest) decoder" where
  "GetInfoRequest_decode W = d_message W (GetInfoRequest_cases W) createBaseGetInfoRequest"

lemmas GetInfoRequest_defs = GetInfoRequest_cases_def createBaseGetInfoRequest_def

context wire_lib
begin

lemma GetInfoRequest_codec:
  "codec W stk rem 0 (GetInfoRequest_encode W) (GetInfoRequest_cases W) createBaseGetInfoRequest m"
  by (rule codecI [OF GetInfoRequest_encode_def],
      rule matched_Nil, cases m, simp add: GetInfoRequest_defs)

lemma GetInfoRequest_rt: "1 \<le> d \<Longrightarrow> codec_rt W stk rem d (GetInfoRequest_encode W) (GetInfoRequest_decode W) m"
  unfolding GetInfoRequest_decode_def
  by (rule codec_rt_mono [OF codec_rt_of_codec [OF GetInfoRequest_codec]]) simp_all

end

context wire_reader
begin

lemma GetInfoRequest_total [total_rules]: "dec_total W (GetInfoRequest_decode W)"
  unfolding GetInfoRequest_decode_def GetInfoRequest_cases_def by (intro total_rules)

end

subsection \<open>GetInfoResponse\<close>

record GetInfoResponse =
  GetInfoResponse_protocol :: "ProtocolVersion option"
  GetInfoResponse_build :: "BuildInfo option"
  GetInfoResponse_capabilities :: "string list"

definition createBaseGetInfoResponse :: GetInfoResponse where
  "createBaseGetInfoResponse = \<lparr>GetInfoResponse_protocol = None,
     GetInfoResponse_build = None,
     GetInfoResponse_capabilities = []\<rparr>"

definition GetInfoResponse_encode :: "('w, 'r) wire \<Rightarrow> GetInfoResponse \<Rightarrow> 'w writer" where
  "GetInfoResponse_encode W m = w_seq [
     w_some (GetInfoResponse_protocol m) (\<lambda>v. [w_uint32 W 10, w_open W, ProtocolVersion_encode W v, w_join W]),
     w_some (GetInfoResponse_build m) (\<lambda>v. [w_uint32 W 18, w_open W, BuildInfo_encode W v, w_join W]),
     w_for (GetInfoResponse_capabilities m) (\<lambda>v. [w_uint32 W 26, w_string W v])]"

definition GetInfoResponse_cases :: "('w, 'r) wire \<Rightarrow> ('r, GetInfoResponse) cases" where
  "GetInfoResponse_cases W = [
     (1, 10, d_msg W (ProtocolVersion_decode W) (\<lambda>v m. m\<lparr>GetInfoResponse_protocol := Some v\<rparr>)),
     (2, 18, d_msg W (BuildInfo_decode W) (\<lambda>v m. m\<lparr>GetInfoResponse_build := Some v\<rparr>)),
     (3, 26, d_val (r_string W) (\<lambda>v m. m\<lparr>GetInfoResponse_capabilities := GetInfoResponse_capabilities m @ [v]\<rparr>))]"

definition GetInfoResponse_decode :: "('w, 'r) wire \<Rightarrow> ('r, GetInfoResponse) decoder" where
  "GetInfoResponse_decode W = d_message W (GetInfoResponse_cases W) createBaseGetInfoResponse"

lemmas GetInfoResponse_defs = GetInfoResponse_cases_def createBaseGetInfoResponse_def

context wire_lib
begin

lemma GetInfoResponse_codec:
  "codec W stk rem 1 (GetInfoResponse_encode W) (GetInfoResponse_cases W) createBaseGetInfoResponse m"
  by (rule codecI [OF GetInfoResponse_encode_def],
      rule field_msg [where upd = GetInfoResponse_protocol_update], rule ProtocolVersion_rt, simp, simp add: GetInfoResponse_defs, simp add: GetInfoResponse_defs,
      rule field_msg [where upd = GetInfoResponse_build_update], rule BuildInfo_rt, simp, simp add: GetInfoResponse_defs, simp add: GetInfoResponse_defs,
      rule field_push_string [where upd = GetInfoResponse_capabilities_update and sel = GetInfoResponse_capabilities], simp add: GetInfoResponse_defs, simp add: GetInfoResponse_defs, simp add: GetInfoResponse_defs,
      rule matched_Nil, cases m, simp add: GetInfoResponse_defs)

lemma GetInfoResponse_rt: "2 \<le> d \<Longrightarrow> codec_rt W stk rem d (GetInfoResponse_encode W) (GetInfoResponse_decode W) m"
  unfolding GetInfoResponse_decode_def
  by (rule codec_rt_mono [OF codec_rt_of_codec [OF GetInfoResponse_codec]]) simp_all

end

context wire_reader
begin

lemma GetInfoResponse_total [total_rules]: "dec_total W (GetInfoResponse_decode W)"
  unfolding GetInfoResponse_decode_def GetInfoResponse_cases_def by (intro total_rules)

end

end
