(* ===== verification/Client.thy ===== *)
theory Client
  imports Event_Stream_Laws Auth Runtime Gen_Runtime
begin

text \<open>
  \<open>MetaClient\<close> of \<open>sdk/node/src/client.ts\<close>: the handshake, the capability checks in front of the
  session calls, the event streams a client owns, and closing.

  The gRPC stubs are parameters: \<open>services\<close> gives what each call settles with, before the error
  middleware.  An operation returns its result and the new client; the calls it makes, with their
  authorization metadata, and what it does to the channel and the runtime are entries of a log.
\<close>

section \<open>State\<close>

record services =
  sv_getInfo :: "GetInfoRequest \<Rightarrow> (js_error, GetInfoResponse) result"
  sv_createSession :: "CreateSessionRequest \<Rightarrow> (js_error, CreateSessionResponse) result"
  sv_refreshAuth :: "RefreshAuthRequest \<Rightarrow> (js_error, RefreshAuthResponse) result"
  sv_getAuthSnapshot :: "GetAuthSnapshotRequest \<Rightarrow> (js_error, GetAuthSnapshotResponse) result"
  sv_connect :: "ConnectRequest \<Rightarrow> (js_error, ConnectResponse) result"
  sv_getHealth :: "GetHealthRequest \<Rightarrow> (js_error, GetHealthResponse) result"
  sv_closeSession :: "CloseSessionRequest \<Rightarrow> (js_error, CloseSessionResponse) result"

datatype rpc =
    GetInfo GetInfoRequest
  | CreateSession CreateSessionRequest
  | RefreshAuth RefreshAuthRequest
  | GetAuthSnapshot GetAuthSnapshotRequest
  | Connect ConnectRequest
  | GetHealth GetHealthRequest
  | CloseSession CloseSessionRequest
  | Subscribe SubscribeEventsRequest

text \<open>
  The log of a client: \<open>StreamClosed i\<close> is a run of the \<open>onClose\<close> callback of its stream \<open>i\<close>, a call
  carries its authorization metadata.
\<close>

datatype client_eff =
    RuntimeStarted
  | ChannelOpened string
  | Call string rpc
  | StreamClosed nat
  | ChannelClosed
  | RuntimeStopped

record client =
  cl_endpoint :: string
  cl_authorization :: string
  cl_managed :: bool
  cl_capabilities :: "string list"
  cl_eventStreams :: "nat list"
  cl_store :: "stream list"
  cl_runtimeInfo :: "GetInfoResponse option"
  cl_closed :: bool
  cl_log :: "client_eff list"

definition note_eff :: "client_eff \<Rightarrow> client \<Rightarrow> client" where
  "note_eff x c = c\<lparr>cl_log := cl_log c @ [x]\<rparr>"

text \<open>A call of a stub: the metadata of the client, the error middleware around the transport.\<close>

definition rpc_call :: "('q \<Rightarrow> rpc) \<Rightarrow> ('q \<Rightarrow> (js_error, 'a) result) \<Rightarrow> 'q \<Rightarrow> client \<Rightarrow> (js_error, 'a) result \<times> client" where
  "rpc_call tag stub request c =
     (errorMiddleware stub request, note_eff (Call (cl_authorization c) (tag request)) c)"

section \<open>Creation and closing\<close>

definition newClient :: "string \<Rightarrow> string \<Rightarrow> bool \<Rightarrow> client" where
  "newClient endpoint token managed = \<lparr>cl_endpoint = endpoint, cl_authorization = ''Bearer '' @ token,
     cl_managed = managed, cl_capabilities = [], cl_eventStreams = [], cl_store = [],
     cl_runtimeInfo = None, cl_closed = False, cl_log = [ChannelOpened endpoint]\<rparr>"

text \<open>
  An operation on the stream with index \<open>i\<close>.  When it runs the \<open>onClose\<close> callback, the callback removes
  the stream from the client's set.
\<close>

definition runs_onClose :: "stream \<Rightarrow> stream \<Rightarrow> bool" where
  "runs_onClose s s' = (count_list (s_log s) OnClose < count_list (s_log s') OnClose)"

definition on_stream :: "nat \<Rightarrow> (stream \<Rightarrow> stream) \<Rightarrow> client \<Rightarrow> client" where
  "on_stream i f c = (let s = cl_store c ! i; s' = f s; c' = c\<lparr>cl_store := (cl_store c)[i := s']\<rparr> in
     if runs_onClose s s' then note_eff (StreamClosed i) (c'\<lparr>cl_eventStreams := set_delete i (cl_eventStreams c')\<rparr>)
     else c')"

text \<open>\<open>close()\<close>; \<open>stop\<close> is what \<open>managed.stop()\<close> settles with.\<close>

definition closeClient :: "(js_error, unit) result \<Rightarrow> client \<Rightarrow> (js_error, unit) result \<times> client" where
  "closeClient stop c =
     (if cl_closed c then (Inr (), c)
      else (let c1 = c\<lparr>cl_closed := True\<rparr>;
                c2 = fold (\<lambda>i. on_stream i st_close) (cl_eventStreams c1) c1;
                c3 = note_eff ChannelClosed (c2\<lparr>cl_eventStreams := []\<rparr>)
            in if cl_managed c then (stop, note_eff RuntimeStopped c3) else (Inr (), c3)))"

definition handshake :: "services \<Rightarrow> client \<Rightarrow> (js_error, unit) result \<times> client" where
  "handshake sv c = (case rpc_call GetInfo (sv_getInfo sv) GetInfoRequest c of
       (Inl e, c1) \<Rightarrow> (Inl e, c1)
     | (Inr info, c1) \<Rightarrow>
         (let major = (case GetInfoResponse_protocol info of None \<Rightarrow> 0 | Some p \<Rightarrow> ProtocolVersion_major p) in
          if major \<noteq> PROTOCOL_MAJOR then (Inl (ProtocolMismatchError PROTOCOL_MAJOR major), c1)
          else (Inr (), c1\<lparr>cl_runtimeInfo := Some info,
            cl_capabilities := fold set_add (GetInfoResponse_capabilities info) []\<rparr>)))"

datatype 'm runtime_options = External string string | Managed 'm

text \<open>
  \<open>MetaClient.create\<close>: \<open>start\<close> is \<open>ManagedRuntime.start\<close> (endpoint and token on success),
  \<open>channel_error\<close> the exception of \<open>createChannel\<close>, if any.  Besides the result there are the client that
  was constructed, which the caller only gets on success, and everything that was done, in order.
\<close>

definition runtimeFor :: "('m \<Rightarrow> (js_error, string \<times> string) result) \<Rightarrow> 'm runtime_options \<Rightarrow>
    (js_error, string \<times> string \<times> bool) result" where
  "runtimeFor start options = (case options of
       External endpoint token \<Rightarrow> Inr (endpoint, token, False)
     | Managed m \<Rightarrow> (case start m of Inl e \<Rightarrow> Inl e | Inr (endpoint, token) \<Rightarrow> Inr (endpoint, token, True)))"

definition connectClient :: "services \<Rightarrow> (js_error, unit) result \<Rightarrow> client \<Rightarrow> (js_error, client) result \<times> client" where
  "connectClient sv stop client = (case handshake sv client of
       (Inr u, c) \<Rightarrow> (Inr c, c)
     | (Inl e, c) \<Rightarrow> (case closeClient stop c of
           (Inl e', c') \<Rightarrow> (Inl e', c')
         | (Inr u, c') \<Rightarrow> (Inl e, c')))"

definition createClient :: "services \<Rightarrow> (string \<Rightarrow> js_error option) \<Rightarrow> ('m \<Rightarrow> (js_error, string \<times> string) result) \<Rightarrow>
    (js_error, unit) result \<Rightarrow> 'm runtime_options \<Rightarrow> (js_error, client) result \<times> client option \<times> client_eff list" where
  "createClient sv channel_error start stop options = (case runtimeFor start options of
       Inl e \<Rightarrow> (Inl e, None, [])
     | Inr (endpoint, token, managed) \<Rightarrow>
         (let done = (if managed then [RuntimeStarted] else []) in
          case channel_error endpoint of
            Some e \<Rightarrow> (Inl e, None, done)
          | None \<Rightarrow> (case connectClient sv stop (newClient endpoint token managed) of
                (r, c) \<Rightarrow> (r, Some c, done @ cl_log c))))"

section \<open>Capabilities and sessions\<close>

definition hasCapability :: "client \<Rightarrow> string \<Rightarrow> bool" where
  "hasCapability c cap \<longleftrightarrow> cap \<in> set (cl_capabilities c)"

definition requireCapability :: "client \<Rightarrow> string \<Rightarrow> (js_error, unit) result" where
  "requireCapability c cap = (if \<not> hasCapability c cap then Inl (UnsupportedCapabilityError cap) else Inr ())"

definition requireAuthCapability :: "client \<Rightarrow> session_auth \<Rightarrow> (js_error, unit) result" where
  "requireAuthCapability c auth =
     bind_result (if au_appState auth \<noteq> None then requireCapability c ''session.auth.app_state'' else Inr ())
       (\<lambda>u. if au_credentials auth \<noteq> None then requireCapability c ''session.auth.credentials'' else Inr ())"

record create_options =
  co_e2ee :: "bool option"
  co_eventBuffer :: "int option"
  co_timeoutMs :: "js_number option"

text \<open>The request; its properties are evaluated in the order of the object literal.\<close>

definition createSessionRequest :: "session_auth \<Rightarrow> create_options \<Rightarrow> (js_error, CreateSessionRequest) result" where
  "createSessionRequest auth options =
     bind_result (sessionAuthToProto auth) (\<lambda>a.
     bind_result (case co_timeoutMs options of None \<Rightarrow> Inr None
        | Some t \<Rightarrow> bind_result (durationFromMilliseconds t) (\<lambda>d. Inr (Some d))) (\<lambda>timeout.
     Inr \<lparr>CreateSessionRequest_cookies = [], CreateSessionRequest_e2ee = or_else (co_e2ee options) False,
       CreateSessionRequest_eventBuffer = or_else (co_eventBuffer options) 0,
       CreateSessionRequest_timeout = timeout, CreateSessionRequest_auth = Some a\<rparr>))"

definition createSession :: "services \<Rightarrow> session_auth \<Rightarrow> create_options \<Rightarrow> client \<Rightarrow>
    (js_error, CreateSessionResponse) result \<times> client" where
  "createSession sv auth options c = (case requireAuthCapability c auth of
       Inl e \<Rightarrow> (Inl e, c)
     | Inr u \<Rightarrow> (case createSessionRequest auth options of
           Inl e \<Rightarrow> (Inl e, c)
         | Inr request \<Rightarrow> rpc_call CreateSession (sv_createSession sv) request c))"

definition refreshAuth :: "services \<Rightarrow> string \<Rightarrow> session_auth option \<Rightarrow> client \<Rightarrow>
    (js_error, auth_snapshot) result \<times> client" where
  "refreshAuth sv sessionId auth c =
     (case bind_result (requireCapability c ''session.auth.refresh'') (\<lambda>u.
        (case auth of None \<Rightarrow> Inr None
         | Some a \<Rightarrow> bind_result (requireAuthCapability c a) (\<lambda>u.
             bind_result (sessionAuthToProto a) (\<lambda>p. Inr (Some p))))) of
        Inl e \<Rightarrow> (Inl e, c)
      | Inr proto \<Rightarrow>
          (case rpc_call RefreshAuth (sv_refreshAuth sv)
              \<lparr>RefreshAuthRequest_sessionId = sessionId, RefreshAuthRequest_auth = proto\<rparr> c of
             (Inl e, c1) \<Rightarrow> (Inl e, c1)
           | (Inr response, c1) \<Rightarrow> (authSnapshotFromProto (RefreshAuthResponse_snapshot response), c1)))"

definition authSnapshot :: "services \<Rightarrow> string \<Rightarrow> client \<Rightarrow> (js_error, auth_snapshot) result \<times> client" where
  "authSnapshot sv sessionId c = (case requireCapability c ''session.auth.refresh'' of
       Inl e \<Rightarrow> (Inl e, c)
     | Inr u \<Rightarrow> (case rpc_call GetAuthSnapshot (sv_getAuthSnapshot sv)
           \<lparr>GetAuthSnapshotRequest_sessionId = sessionId\<rparr> c of
          (Inl e, c1) \<Rightarrow> (Inl e, c1)
        | (Inr response, c1) \<Rightarrow> (authSnapshotFromProto (GetAuthSnapshotResponse_snapshot response), c1)))"

definition connectSession :: "services \<Rightarrow> string \<Rightarrow> client \<Rightarrow> (js_error, ConnectResponse) result \<times> client" where
  "connectSession sv sessionId c = rpc_call Connect (sv_connect sv) \<lparr>ConnectRequest_sessionId = sessionId\<rparr> c"

definition getSessionHealth :: "services \<Rightarrow> string \<Rightarrow> client \<Rightarrow> (js_error, GetHealthResponse) result \<times> client" where
  "getSessionHealth sv sessionId c = rpc_call GetHealth (sv_getHealth sv) \<lparr>GetHealthRequest_sessionId = sessionId\<rparr> c"

definition closeSession :: "services \<Rightarrow> string \<Rightarrow> client \<Rightarrow> (js_error, unit) result \<times> client" where
  "closeSession sv sessionId c =
     (case rpc_call CloseSession (sv_closeSession sv) \<lparr>CloseSessionRequest_sessionId = sessionId\<rparr> c of
        (Inl e, c1) \<Rightarrow> (Inl e, c1)
      | (Inr response, c1) \<Rightarrow> (Inr (), c1))"

section \<open>Events\<close>

record event_options =
  eo_buffer :: "int option"
  eo_iteratorBuffer :: "int option"

text \<open>\<open>events\<close> returns the index of the new stream.\<close>

definition events :: "string \<Rightarrow> event_options \<Rightarrow> client \<Rightarrow> nat \<times> client" where
  "events sessionId options c =
     (let c1 = note_eff (Call (cl_authorization c) (Subscribe \<lparr>SubscribeEventsRequest_sessionId = sessionId,
                SubscribeEventsRequest_buffer = or_else (eo_buffer options) 0\<rparr>)) c;
          i = length (cl_store c1)
      in (i, c1\<lparr>cl_store := cl_store c1 @ [new_stream (or_else (eo_iteratorBuffer options) 256)],
                cl_eventStreams := set_add i (cl_eventStreams c1)\<rparr>))"

section \<open>Clients over time\<close>

text \<open>
  The steps that change a client after its creation: its own operations and the steps of its streams.
\<close>

inductive client_step :: "behaviour \<Rightarrow> services \<Rightarrow> client \<Rightarrow> client \<Rightarrow> bool" for beh sv where
  step_create: "client_step beh sv c (snd (createSession sv auth opts c))"
| step_refresh: "client_step beh sv c (snd (refreshAuth sv sid a c))"
| step_snapshot: "client_step beh sv c (snd (authSnapshot sv sid c))"
| step_connect: "client_step beh sv c (snd (connectSession sv sid c))"
| step_health: "client_step beh sv c (snd (getSessionHealth sv sid c))"
| step_closeSession: "client_step beh sv c (snd (closeSession sv sid c))"
| step_events: "client_step beh sv c (snd (events sid eopts c))"
| step_close: "client_step beh sv c (snd (closeClient stop c))"
| step_stream: "i < length (cl_store c) \<Longrightarrow> stream_step beh (cl_store c ! i) x s' \<Longrightarrow>
    client_step beh sv c (on_stream i (\<lambda>_. s') c)"

text \<open>The clients that come from \<open>create\<close> with this endpoint and token.\<close>

inductive client_reach :: "behaviour \<Rightarrow> services \<Rightarrow> string \<Rightarrow> string \<Rightarrow> client \<Rightarrow> bool" for beh sv endpoint token where
  created: "connectClient sv stop (newClient endpoint token managed) = (Inr c, c') \<Longrightarrow> client_reach beh sv endpoint token c"
| stepped: "client_reach beh sv endpoint token c \<Longrightarrow> client_step beh sv c c' \<Longrightarrow> client_reach beh sv endpoint token c'"

section \<open>Lemmas\<close>

lemma rpc_call_simps [simp]:
  "fst (rpc_call tag stub q c) = errorMiddleware stub q"
  "snd (rpc_call tag stub q c) = note_eff (Call (cl_authorization c) (tag q)) c"
  by (simp_all add: rpc_call_def)

lemma note_eff_simps [simp]:
  "cl_store (note_eff x c) = cl_store c" "cl_eventStreams (note_eff x c) = cl_eventStreams c"
  "cl_authorization (note_eff x c) = cl_authorization c" "cl_capabilities (note_eff x c) = cl_capabilities c"
  "cl_closed (note_eff x c) = cl_closed c" "cl_managed (note_eff x c) = cl_managed c"
  "cl_log (note_eff x c) = cl_log c @ [x]"
  by (simp_all add: note_eff_def)

lemma on_stream_simps [simp]:
  "cl_authorization (on_stream i f c) = cl_authorization c"
  "cl_log (on_stream i f c) = cl_log c @ (if runs_onClose (cl_store c ! i) (f (cl_store c ! i)) then [StreamClosed i] else [])"
  "cl_managed (on_stream i f c) = cl_managed c" "cl_capabilities (on_stream i f c) = cl_capabilities c"
  "cl_closed (on_stream i f c) = cl_closed c" "cl_store (on_stream i f c) = (cl_store c)[i := f (cl_store c ! i)]"
  "cl_eventStreams (on_stream i f c) = (if runs_onClose (cl_store c ! i) (f (cl_store c ! i))
     then set_delete i (cl_eventStreams c) else cl_eventStreams c)"
  by (simp_all add: on_stream_def Let_def)

lemma st_close_runs_onClose: "\<not> s_closed s \<Longrightarrow> runs_onClose s (st_close s)"
  by (simp add: runs_onClose_def st_close_def emit_def)

lemma errorMiddleware_no_client_error: "errorMiddleware stub q = Inl e \<Longrightarrow> e \<noteq> ClientError p s d"
  by (auto simp: errorMiddleware_def mapRpcError_no_client_error split: sum.splits)

lemma snd_createSession:
  "snd (createSession sv auth opts c) = c \<or>
   (\<exists>q. snd (createSession sv auth opts c) = note_eff (Call (cl_authorization c) (CreateSession q)) c)"
  by (auto simp: createSession_def split: sum.split)

lemma case_call:
  "snd (case rpc_call tag stub q c of (Inl e, c1) \<Rightarrow> (f e, c1) | (Inr r, c1) \<Rightarrow> (g r, c1)) =
   note_eff (Call (cl_authorization c) (tag q)) c"
  by (simp add: rpc_call_def split: sum.split)

lemma snd_refreshAuth:
  "snd (refreshAuth sv sid a c) = c \<or> (\<exists>q. snd (refreshAuth sv sid a c) = note_eff (Call (cl_authorization c) (RefreshAuth q)) c)"
  unfolding refreshAuth_def by (auto simp: case_call split: sum.split)

lemma snd_authSnapshot:
  "snd (authSnapshot sv sid c) = c \<or> (\<exists>q. snd (authSnapshot sv sid c) = note_eff (Call (cl_authorization c) (GetAuthSnapshot q)) c)"
  unfolding authSnapshot_def by (auto simp: case_call split: sum.split)

lemma snd_closeSession:
  "snd (closeSession sv sid c) = note_eff (Call (cl_authorization c) (CloseSession \<lparr>CloseSessionRequest_sessionId = sid\<rparr>)) c"
  unfolding closeSession_def by (simp add: case_call)

lemma closed_kept:
  assumes "stream_step beh s x s'" "s_closed s"
  shows "s_closed s'"
  using assms(1)
proof (cases rule: stream_step.cases)
  case (user a)
  then show ?thesis using assms(2)
    by (cases a) (simp_all add: st_on_def listener_set_def set_put_def st_off_def st_close_def it_defs
        split: option.split list.split phase.split req.split)
next
  case (wake i)
  then show ?thesis using assms(2)
    by (auto simp: it_wake_def it_defs split: if_splits phase.splits option.splits q_result.splits list.splits req.splits)
qed (use assms(2) in \<open>auto simp: pump_response_def pump_end_def pump_catch_def emit_def\<close>)

text \<open>
  The client's set holds exactly the streams that are not closed, and every stream is in a state that
  its own steps reach.
\<close>

definition client_ok :: "behaviour \<Rightarrow> client \<Rightarrow> bool" where
  "client_ok beh c = (distinct (cl_eventStreams c) \<and>
     (\<forall>i. i \<in> set (cl_eventStreams c) \<longleftrightarrow> i < length (cl_store c) \<and> \<not> s_closed (cl_store c ! i)) \<and>
     (\<forall>s \<in> set (cl_store c). \<exists>buffer. stream_reach beh buffer s) \<and>
     (\<forall>a q. Call a q \<in> set (cl_log c) \<longrightarrow> a = cl_authorization c))"

lemma client_ok_note:
  "client_ok beh c \<Longrightarrow> (\<And>a q. x = Call a q \<Longrightarrow> a = cl_authorization c) \<Longrightarrow> client_ok beh (note_eff x c)"
  by (auto simp: client_ok_def)

lemma client_ok_on_stream:
  assumes ok: "client_ok beh c" and i: "i < length (cl_store c)" and st: "stream_step beh (cl_store c ! i) x (f (cl_store c ! i))"
  shows "client_ok beh (on_stream i f c)"
proof -
  let ?s = "cl_store c ! i"
  let ?s' = "f ?s"
  have "?s \<in> set (cl_store c)" using i by simp
  then obtain buffer where r: "stream_reach beh buffer ?s" using ok unfolding client_ok_def by blast
  then have r': "stream_reach beh buffer ?s'" using stream_reach.later st by blast
  have c: "OnClose \<in> set (s_log t) \<longleftrightarrow> s_closed t" if "stream_reach beh buffer t" for t
    using control_ok_reach [OF that] by (simp add: control_ok_def)
  have grow: "\<not> s_closed ?s \<Longrightarrow> runs_onClose ?s ?s' \<longleftrightarrow> s_closed ?s'"
    using c [OF r] c [OF r'] count_list_pos [of "s_log ?s'" OnClose] by (simp add: count_0 runs_onClose_def)
  have set: "set (cl_eventStreams (on_stream i f c)) =
      (if s_closed ?s' then set (cl_eventStreams c) - {i} else set (cl_eventStreams c))"
  proof (cases "s_closed ?s")
    case True
    then have "s_closed ?s'" "i \<notin> set (cl_eventStreams c)" using closed_kept [OF st] ok by (auto simp: client_ok_def)
    then show ?thesis by auto
  next
    case False
    then show ?thesis using grow by simp
  qed
  have mem: "j \<in> set (cl_eventStreams c) \<longleftrightarrow> j < length (cl_store c) \<and> \<not> s_closed (cl_store c ! j)" for j
    using ok by (simp add: client_ok_def)
  show ?thesis unfolding client_ok_def
  proof (intro conjI allI)
    show "distinct (cl_eventStreams (on_stream i f c))"
      using ok by (simp add: client_ok_def)
    show "\<forall>s \<in> set (cl_store (on_stream i f c)). \<exists>buffer. stream_reach beh buffer s"
      using ok r' by (auto simp: client_ok_def dest!: set_update_subset_insert [THEN subsetD])
    show "j \<in> set (cl_eventStreams (on_stream i f c)) \<longleftrightarrow>
        j < length (cl_store (on_stream i f c)) \<and> \<not> s_closed (cl_store (on_stream i f c) ! j)" for j
      unfolding set using mem [of j] i closed_kept [OF st] by (cases "j = i") auto
    show "Call a q \<in> set (cl_log (on_stream i f c)) \<longrightarrow> a = cl_authorization (on_stream i f c)" for a q
      using ok by (auto simp: client_ok_def)
  qed
qed

lemma client_ok_close_streams:
  assumes "client_ok beh c" "\<forall>i \<in> set is. i < length (cl_store c)" "distinct is"
  shows "client_ok beh (fold (\<lambda>i. on_stream i st_close) is c) \<and>
    length (cl_store (fold (\<lambda>i. on_stream i st_close) is c)) = length (cl_store c) \<and>
    (\<forall>i < length (cl_store c). cl_store (fold (\<lambda>i. on_stream i st_close) is c) ! i =
       (if i \<in> set is then st_close (cl_store c ! i) else cl_store c ! i))"
  using assms
proof (induction "is" arbitrary: c)
  case (Cons i "is")
  have "stream_step beh (cl_store c ! i) (User CloseStream) (st_close (cl_store c ! i))"
    using stream_step.user [of beh "cl_store c ! i" CloseStream] by simp
  then have "client_ok beh (on_stream i st_close c)"
    using client_ok_on_stream Cons.prems by simp
  from Cons.IH [OF this] Cons.prems show ?case by (auto simp: nth_list_update)
qed simp

lemma st_close_closed: "s_closed (st_close s)"
  by (simp add: st_close_def emit_def)

lemma fold_on_stream_frame [simp]:
  "cl_authorization (fold (\<lambda>i. on_stream i f) is c) = cl_authorization c"
  "cl_managed (fold (\<lambda>i. on_stream i f) is c) = cl_managed c"
  "cl_closed (fold (\<lambda>i. on_stream i f) is c) = cl_closed c"
  by (induction "is" arbitrary: c) simp_all

text \<open>Closing different open streams runs each callback once, in order.\<close>

lemma fold_close_log:
  "distinct is \<Longrightarrow> \<forall>i \<in> set is. i < length (cl_store c) \<and> \<not> s_closed (cl_store c ! i) \<Longrightarrow>
   cl_log (fold (\<lambda>i. on_stream i st_close) is c) = cl_log c @ map StreamClosed is"
proof (induction "is" arbitrary: c)
  case (Cons i "is")
  have "cl_log (fold (\<lambda>i. on_stream i st_close) is (on_stream i st_close c)) =
      cl_log (on_stream i st_close c) @ map StreamClosed is"
    by (rule Cons.IH) (use Cons.prems in \<open>auto simp: nth_list_update\<close>)
  then show ?case using Cons.prems st_close_runs_onClose by simp
qed simp

lemma client_ok_close:
  assumes ok: "client_ok beh c"
  shows "client_ok beh (snd (closeClient stop c)) \<and>
    (\<not> cl_closed c \<longrightarrow> (\<forall>s \<in> set (cl_store (snd (closeClient stop c))). s_closed s))"
proof (cases "cl_closed c")
  case False
  let ?c2 = "fold (\<lambda>i. on_stream i st_close) (cl_eventStreams c) (c\<lparr>cl_closed := True\<rparr>)"
  have ok1: "client_ok beh (c\<lparr>cl_closed := True\<rparr>)" using ok by (simp add: client_ok_def)
  have F: "client_ok beh ?c2" "length (cl_store ?c2) = length (cl_store c)"
    "\<forall>i < length (cl_store c). cl_store ?c2 ! i = (if i \<in> set (cl_eventStreams c) then st_close (cl_store c ! i) else cl_store c ! i)"
    using client_ok_close_streams [OF ok1, of "cl_eventStreams c"] ok by (auto simp: client_ok_def)
  have closed: "\<forall>s \<in> set (cl_store ?c2). s_closed s"
    using F ok by (auto simp: in_set_conv_nth client_ok_def st_close_closed)
  then have ok3: "client_ok beh (?c2\<lparr>cl_eventStreams := []\<rparr>)"
    using F(1) by (auto simp: client_ok_def)
  then have "client_ok beh (note_eff ChannelClosed (?c2\<lparr>cl_eventStreams := []\<rparr>))"
    by (rule client_ok_note) simp
  moreover from client_ok_note [OF this, of RuntimeStopped]
  have "client_ok beh (note_eff RuntimeStopped (note_eff ChannelClosed (?c2\<lparr>cl_eventStreams := []\<rparr>)))"
    by simp
  ultimately show ?thesis using closed False by (simp add: closeClient_def Let_def)
qed (simp add: closeClient_def ok)

lemma client_ok_info: "client_ok beh c \<Longrightarrow> client_ok beh (c\<lparr>cl_runtimeInfo := x, cl_capabilities := y\<rparr>)"
  by (simp add: client_ok_def)

lemma new_stream_open: "\<not> s_closed (new_stream b)"
  by (simp add: new_stream_def)

lemma client_ok_events: "client_ok beh c \<Longrightarrow> client_ok beh (snd (events sid o' c))"
  using stream_reach.initial [of beh "or_else (eo_iteratorBuffer o') 256"] new_stream_open
  by (auto simp: events_def Let_def client_ok_def nth_append less_Suc_eq)

lemma client_ok_new: "client_ok beh (newClient endpoint token managed)"
  by (auto simp: client_ok_def newClient_def)

lemma handshake_Inr:
  assumes "handshake sv c = (Inr u, c')"
  shows "\<exists>info p. sv_getInfo sv GetInfoRequest = Inr info \<and> GetInfoResponse_protocol info = Some p \<and>
    ProtocolVersion_major p = PROTOCOL_MAJOR \<and>
    c' = (note_eff (Call (cl_authorization c) (GetInfo GetInfoRequest)) c)\<lparr>cl_runtimeInfo := Some info,
      cl_capabilities := fold set_add (GetInfoResponse_capabilities info) []\<rparr>"
  using assms
  by (auto simp: handshake_def rpc_call_def errorMiddleware_def Let_def PROTOCOL_MAJOR_def
      split: sum.splits option.splits if_splits)

lemma handshake_Inl:
  assumes "handshake sv c = (Inl e, c')"
  shows "c' = note_eff (Call (cl_authorization c) (GetInfo GetInfoRequest)) c \<and>
    (\<forall>p s d. e \<noteq> ClientError p s d)"
  using assms errorMiddleware_no_client_error [of "sv_getInfo sv" GetInfoRequest]
  by (auto simp: handshake_def rpc_call_def Let_def split: sum.splits if_splits)

lemma connectClient_Inr: "connectClient sv stop c0 = (Inr c, c') \<Longrightarrow> c' = c \<and> (\<exists>u. handshake sv c0 = (Inr u, c))"
  by (auto simp: connectClient_def split: prod.splits sum.splits)

lemma createClient_Inr:
  assumes "createClient sv channel_error start stop options = (Inr c, x, done)"
    and "runtimeFor start options = Inr (endpoint, token, managed)"
  shows "\<exists>c'. connectClient sv stop (newClient endpoint token managed) = (Inr c, c')"
  using assms by (auto simp: createClient_def Let_def split: option.splits prod.splits)

lemma createClient_reach:
  "createClient sv channel_error start stop options = (Inr c, x, done) \<Longrightarrow>
   runtimeFor start options = Inr (endpoint, token, managed) \<Longrightarrow> client_reach beh sv endpoint token c"
  using createClient_Inr client_reach.created by blast

lemma client_ok_created:
  assumes "handshake sv (newClient endpoint token managed) = (Inr u, c)"
  shows "client_ok beh c" and "cl_authorization c = ''Bearer '' @ token" and "hd (cl_log c) = ChannelOpened endpoint \<and> cl_log c \<noteq> []"
proof -
  let ?c = "newClient endpoint token managed"
  have "client_ok beh (note_eff (Call (cl_authorization ?c) (GetInfo GetInfoRequest)) ?c)"
    by (rule client_ok_note [OF client_ok_new]) simp
  from client_ok_info [OF this] show "client_ok beh c" using handshake_Inr [OF assms] by fast
  show "cl_authorization c = ''Bearer '' @ token" "hd (cl_log c) = ChannelOpened endpoint \<and> cl_log c \<noteq> []"
    using handshake_Inr [OF assms] by (auto simp: newClient_def note_eff_def)
qed

lemma client_step_ok:
  assumes ok: "client_ok beh c" and "client_step beh sv c c'"
  shows "client_ok beh c'"
proof -
  have call: "client_ok beh (note_eff (Call (cl_authorization c) q) c)" for q
    by (rule client_ok_note [OF ok]) simp
  from assms(2) show ?thesis
  proof (cases rule: client_step.cases)
    case step_create
    then show ?thesis using snd_createSession call ok by metis
  next
    case step_refresh
    then show ?thesis using snd_refreshAuth call ok by metis
  next
    case step_snapshot
    then show ?thesis using snd_authSnapshot call ok by metis
  next
    case (step_stream i x s')
    then show ?thesis using client_ok_on_stream [OF ok, of i x "\<lambda>_. s'"] by simp
  qed (simp_all add: connectSession_def getSessionHealth_def snd_closeSession call client_ok_events [OF ok]
      client_ok_close [OF ok])
qed

text \<open>No step changes the metadata of the client, and every step only adds to the log.\<close>

lemma closeClient_frame:
  "cl_authorization (snd (closeClient stop c)) = cl_authorization c"
  "\<exists>xs. cl_log (snd (closeClient stop c)) = cl_log c @ xs"
proof -
  have "\<exists>xs. cl_log (fold (\<lambda>i. on_stream i f) is c) = cl_log c @ xs" for f "is" and c :: client
  proof (induction "is" arbitrary: c)
    case (Cons i "is")
    from Cons [of "on_stream i f c"] show ?case by auto
  qed simp
  from this [of st_close "cl_eventStreams c" "c\<lparr>cl_closed := True\<rparr>"]
  show "cl_authorization (snd (closeClient stop c)) = cl_authorization c"
    "\<exists>xs. cl_log (snd (closeClient stop c)) = cl_log c @ xs"
    by (auto simp: closeClient_def Let_def)
qed

lemma client_step_frame:
  assumes "client_step beh sv c c'"
  shows "cl_authorization c' = cl_authorization c \<and> (\<exists>xs. cl_log c' = cl_log c @ xs)"
  using assms
proof (cases rule: client_step.cases)
  case (step_create auth opts)
  then show ?thesis using snd_createSession [of sv auth opts c] by auto
next
  case (step_refresh sid a)
  then show ?thesis using snd_refreshAuth [of sv sid a c] by auto
next
  case (step_snapshot sid)
  then show ?thesis using snd_authSnapshot [of sv sid c] by auto
qed (simp_all add: connectSession_def getSessionHealth_def snd_closeSession events_def Let_def closeClient_frame)

lemma client_ok_reach:
  "client_reach beh sv endpoint token c \<Longrightarrow> client_ok beh c \<and> cl_authorization c = ''Bearer '' @ token \<and>
   cl_log c \<noteq> [] \<and> hd (cl_log c) = ChannelOpened endpoint"
proof (induction rule: client_reach.induct)
  case (created stop managed c c')
  then show ?case using connectClient_Inr [OF created] client_ok_created by blast
next
  case (stepped c c')
  then show ?case using client_step_ok [of beh c sv c'] client_step_frame [of beh sv c c'] by auto
qed

section \<open>Properties\<close>

text \<open>C16: a client that \<open>create\<close> returned for an endpoint and a token talks to that endpoint, and every call
it ever makes carries the metadata \<open>Bearer \<close> with that token.  The set of streams a client owns is exact: in
every reachable state it holds precisely the streams that are not closed, each once, and each stream is in
a state its own steps can reach.\<close>

theorem client_invariant:
  assumes "client_reach beh sv endpoint token c"
  shows "hd (cl_log c) = ChannelOpened endpoint \<and>
    (\<forall>a q. Call a q \<in> set (cl_log c) \<longrightarrow> a = ''Bearer '' @ token) \<and>
    distinct (cl_eventStreams c) \<and>
    (\<forall>i. i \<in> set (cl_eventStreams c) \<longleftrightarrow> i < length (cl_store c) \<and> \<not> s_closed (cl_store c ! i)) \<and>
    (\<forall>s \<in> set (cl_store c). \<exists>buffer. stream_reach beh buffer s)"
  using client_ok_reach [OF assms] unfolding client_ok_def by metis

definition demo_services :: services where
  "demo_services = \<lparr>sv_getInfo = (\<lambda>q. Inr \<lparr>GetInfoResponse_protocol = Some \<lparr>ProtocolVersion_major = 1, ProtocolVersion_minor = 0\<rparr>,
       GetInfoResponse_build = None, GetInfoResponse_capabilities = [''session.auth.refresh'']\<rparr>),
     sv_createSession = (\<lambda>q. Inr \<lparr>CreateSessionResponse_sessionId = ''s1''\<rparr>),
     sv_refreshAuth = (\<lambda>q. Inl (ClientError ''/refresh'' 7 ''denied'')),
     sv_getAuthSnapshot = (\<lambda>q. Inr \<lparr>GetAuthSnapshotResponse_snapshot = None\<rparr>),
     sv_connect = (\<lambda>q. Inr \<lparr>ConnectResponse_account = None\<rparr>),
     sv_getHealth = (\<lambda>q. Inr \<lparr>GetHealthResponse_health = None\<rparr>),
     sv_closeSession = (\<lambda>q. Inr CloseSessionResponse)\<rparr>"

definition demo_client :: client where
  "demo_client = snd (handshake demo_services (newClient ''h:1'' ''t'' False))"

lemma demo_created:
  "createClient demo_services (\<lambda>e. None) (\<lambda>m. Inl m) (Inr ()) (External ''h:1'' ''t'') =
   (Inr demo_client, Some demo_client, [ChannelOpened ''h:1'', Call ''Bearer t'' (GetInfo GetInfoRequest)])"
  by (simp add: createClient_def runtimeFor_def connectClient_def demo_client_def handshake_def demo_services_def
      rpc_call_def errorMiddleware_def PROTOCOL_MAJOR_def newClient_def note_eff_def)

lemma demo_client_reach: "client_reach beh demo_services ''h:1'' ''t'' demo_client"
  by (rule createClient_reach [OF demo_created, where managed = False]) (simp add: runtimeFor_def)

lemma client_invariant_witness:
  "0 \<in> set (cl_eventStreams (snd (events ''s1'' \<lparr>eo_buffer = None, eo_iteratorBuffer = None\<rparr> demo_client)))"
proof -
  let ?c = "snd (events ''s1'' \<lparr>eo_buffer = None, eo_iteratorBuffer = None\<rparr> demo_client)"
  have "client_reach (\<lambda>l e s. ([], None)) demo_services ''h:1'' ''t'' ?c"
    by (rule client_reach.stepped [OF demo_client_reach client_step.step_events])
  moreover have "0 < length (cl_store ?c) \<and> \<not> s_closed (cl_store ?c ! 0)"
    by (simp add: events_def Let_def demo_client_def nth_append new_stream_open)
      (simp add: handshake_def demo_services_def rpc_call_def errorMiddleware_def PROTOCOL_MAJOR_def newClient_def new_stream_open)
  ultimately show ?thesis using client_invariant by blast
qed

text \<open>C4: \<open>close()\<close> leaves nothing running: it first closes every stream the client owns, in the order
they were opened, and runs their callbacks; then it closes the channel; then it stops the managed runtime;
and a second \<open>close()\<close> does nothing.  Afterwards every stream is closed, and on each an iterator that still
has unanswered requests can be resumed.\<close>

theorem client_close:
  assumes "client_reach beh sv endpoint token c" and "\<not> cl_closed c" and "closeClient stop c = (r, c')"
  shows "(\<forall>s \<in> set (cl_store c'). s_closed s \<and>
      (\<forall>i < length (s_iters s). it_reqs (s_iters s ! i) \<noteq> [] \<longrightarrow> it_wake i s \<noteq> None)) \<and>
    cl_eventStreams c' = [] \<and> cl_closed c' \<and> r = (if cl_managed c then stop else Inr ()) \<and>
    cl_log c' = cl_log c @ map StreamClosed (cl_eventStreams c) @ ChannelClosed # (if cl_managed c then [RuntimeStopped] else []) \<and>
    closeClient stop' c' = (Inr (), c')"
proof -
  have ok: "client_ok beh c" using client_ok_reach [OF assms(1)] by simp
  have c': "c' = snd (closeClient stop c)" using assms(3) by simp
  have closed: "\<forall>s \<in> set (cl_store c'). s_closed s" and ok': "client_ok beh c'"
    using client_ok_close [OF ok, of stop] assms(2) by (simp_all add: c')
  have wake: "it_wake i s \<noteq> None"
    if s: "s \<in> set (cl_store c')" "i < length (s_iters s)" "it_reqs (s_iters s ! i) \<noteq> []" for s i
  proof -
    obtain b where "stream_reach beh b s" using ok' s(1) unfolding client_ok_def by blast
    then show ?thesis
      using closed_wake [of s i] iters_ok_reach [of beh b s] pending_ok_reach [of beh b s] closed s
      by (auto simp: pending_ok_def)
  qed
  have "cl_log (fold (\<lambda>i. on_stream i st_close) (cl_eventStreams c) (c\<lparr>cl_closed := True\<rparr>)) =
      cl_log c @ map StreamClosed (cl_eventStreams c)"
    using fold_close_log [of "cl_eventStreams c" "c\<lparr>cl_closed := True\<rparr>"] ok by (simp add: client_ok_def)
  then show ?thesis using closed wake assms(2,3) by (auto simp: closeClient_def Let_def split: if_splits)
qed

lemma client_close_witness:
  "\<exists>c'. closeClient (Inr ()) (snd (events ''s1'' \<lparr>eo_buffer = None, eo_iteratorBuffer = None\<rparr> demo_client)) = (Inr (), c') \<and>
    cl_closed c' \<and> drop 3 (cl_log c') = [StreamClosed 0, ChannelClosed]"
proof -
  let ?c = "snd (events ''s1'' \<lparr>eo_buffer = None, eo_iteratorBuffer = None\<rparr> demo_client)"
  obtain r c' where close: "closeClient (Inr ()) ?c = (r, c')" by fastforce
  have demo: "\<not> cl_closed ?c \<and> length (cl_log ?c) = 3 \<and> cl_eventStreams ?c = [0] \<and> \<not> cl_managed ?c"
    by (simp add: demo_client_def events_def Let_def note_eff_def set_add_def handshake_def demo_services_def rpc_call_def
        errorMiddleware_def PROTOCOL_MAJOR_def newClient_def)
  have "client_reach (\<lambda>l e s. ([], None)) demo_services ''h:1'' ''t'' ?c"
    by (rule client_reach.stepped [OF demo_client_reach client_step.step_events])
  from client_close [OF this _ close] demo close show ?thesis by auto
qed

text \<open>C11: what \<open>MetaClient.create\<close> guarantees.  A client is returned only after a handshake with this
SDK's protocol major; it then knows exactly the capabilities of the runtime.  When anything after the
construction fails, the channel has been closed and a managed runtime stopped before the error is
thrown, and the error is never a raw gRPC error.\<close>

theorem client_create:
  assumes "\<forall>p s d. stop \<noteq> Inl (ClientError p s d)"
  shows "(case createClient sv chan start stop options of
      (Inr c, _, _) \<Rightarrow> \<exists>info p. sv_getInfo sv GetInfoRequest = Inr info \<and> GetInfoResponse_protocol info = Some p \<and>
        ProtocolVersion_major p = PROTOCOL_MAJOR \<and> cl_runtimeInfo c = Some info \<and> \<not> cl_closed c \<and>
        (\<forall>cap. hasCapability c cap \<longleftrightarrow> cap \<in> set (GetInfoResponse_capabilities info))
    | (Inl e, Some c, _) \<Rightarrow> cl_closed c \<and> ChannelClosed \<in> set (cl_log c) \<and>
        (cl_managed c \<longrightarrow> RuntimeStopped \<in> set (cl_log c)) \<and> (\<forall>p s d. e \<noteq> ClientError p s d)
    | (Inl e, None, _) \<Rightarrow> True)"
proof -
  have fold: "set (fold set_add xs ys) = set xs \<union> set ys" for xs ys :: "string list"
    by (induction xs arbitrary: ys) simp_all
  have good: "\<exists>info p. sv_getInfo sv GetInfoRequest = Inr info \<and> GetInfoResponse_protocol info = Some p \<and>
          ProtocolVersion_major p = PROTOCOL_MAJOR \<and> cl_runtimeInfo c = Some info \<and> \<not> cl_closed c \<and>
          (\<forall>cap. hasCapability c cap \<longleftrightarrow> cap \<in> set (GetInfoResponse_capabilities info))"
    if "handshake sv (newClient ep tok m) = (Inr u, c)" for ep tok m u c
    using handshake_Inr [OF that] by (auto simp: hasCapability_def fold newClient_def note_eff_def)
  have bad: "cl_closed c' \<and> ChannelClosed \<in> set (cl_log c') \<and> (cl_managed c' \<longrightarrow> RuntimeStopped \<in> set (cl_log c')) \<and>
      r \<noteq> Inl (ClientError p s d) \<and> e \<noteq> ClientError p s d"
    if "handshake sv (newClient ep tok m) = (Inl e, c)" "closeClient stop c = (r, c')" for ep tok m e c r c' p s d
    using handshake_Inl [OF that(1)] that(2) assms
    by (auto simp: closeClient_def Let_def newClient_def note_eff_def split: if_splits sum.splits)
  have conn: "case connectClient sv stop (newClient ep tok m) of
      (Inr c, _) \<Rightarrow> \<exists>info p. sv_getInfo sv GetInfoRequest = Inr info \<and> GetInfoResponse_protocol info = Some p \<and>
        ProtocolVersion_major p = PROTOCOL_MAJOR \<and> cl_runtimeInfo c = Some info \<and> \<not> cl_closed c \<and>
        (\<forall>cap. hasCapability c cap \<longleftrightarrow> cap \<in> set (GetInfoResponse_capabilities info))
    | (Inl e, c) \<Rightarrow> cl_closed c \<and> ChannelClosed \<in> set (cl_log c) \<and>
        (cl_managed c \<longrightarrow> RuntimeStopped \<in> set (cl_log c)) \<and> (\<forall>p s d. e \<noteq> ClientError p s d)" for ep tok m
  proof (cases "handshake sv (newClient ep tok m)")
    case (Pair h c)
    show ?thesis
    proof (cases h)
      case (Inr u)
      then show ?thesis using good [of ep tok m u c] Pair by (simp add: connectClient_def)
    next
      case (Inl e)
      obtain r c' where "closeClient stop c = (r, c')" by fastforce
      then show ?thesis using bad [of ep tok m e c r c'] Pair Inl
        by (cases r) (simp_all add: connectClient_def)
    qed
  qed
  show ?thesis
  proof (cases "runtimeFor start options")
    case (Inr x)
    obtain ep tok m where x: "x = (ep, tok, m)" by (cases x)
    obtain r c where r: "connectClient sv stop (newClient ep tok m) = (r, c)" by fastforce
    show ?thesis using conn [of ep tok m] Inr x r
      by (cases r; cases "chan ep") (simp_all add: createClient_def)
  qed (simp add: createClient_def)
qed

lemma client_create_witness:
  "\<exists>c. fst (createClient demo_services (\<lambda>e. None) (\<lambda>m. Inl m) (Inr ()) (External ''h:1'' ''t'')) = Inr c \<and>
    hasCapability c ''session.auth.refresh''"
proof -
  have "sv_getInfo demo_services GetInfoRequest = Inr info \<Longrightarrow> GetInfoResponse_capabilities info = [''session.auth.refresh'']" for info
    by (auto simp: demo_services_def)
  then have "hasCapability demo_client ''session.auth.refresh''"
    using client_create [of "Inr ()" demo_services "\<lambda>e. None" "\<lambda>m. Inl m" "External ''h:1'' ''t''"]
    unfolding demo_created by auto
  then show ?thesis using demo_created by simp
qed

lemma handshake_log:
  "handshake sv (newClient endpoint token managed) = (h, c) \<Longrightarrow>
   cl_log c = [ChannelOpened endpoint, Call (''Bearer '' @ token) (GetInfo GetInfoRequest)] \<and>
   cl_eventStreams c = [] \<and> \<not> cl_closed c \<and> cl_managed c = managed"
  by (cases h) (auto simp: newClient_def note_eff_def dest!: handshake_Inr handshake_Inl)

lemma connectClient_log:
  "\<exists>r c. connectClient sv stop (newClient endpoint token managed) = (r, c) \<and>
     cl_log c = ChannelOpened endpoint # Call (''Bearer '' @ token) (GetInfo GetInfoRequest) #
       (case r of Inr _ \<Rightarrow> [] | Inl _ \<Rightarrow> ChannelClosed # (if managed then [RuntimeStopped] else []))"
proof -
  obtain h c where h: "handshake sv (newClient endpoint token managed) = (h, c)" by fastforce
  note log = handshake_log [OF h]
  show ?thesis
  proof (cases h)
    case (Inr u)
    then show ?thesis using h log by (simp add: connectClient_def)
  next
    case (Inl e)
    then show ?thesis using h log
      by (cases stop; cases managed) (simp_all add: connectClient_def closeClient_def Let_def)
  qed
qed

text \<open>C39: everything \<open>create\<close> does for a managed runtime, in order.  If the runtime does not start nothing
else happens.  Otherwise the channel to its endpoint is opened and one call, with its token, asks for the
protocol; on success nothing follows, and on every failure of the handshake the channel is closed and the
runtime stopped.  But if \<open>createChannel\<close> throws, the runtime that was started is left running: it is not
stopped, and there is no client to stop it with.\<close>

theorem create_trace:
  "(case start m of
      Inl e \<Rightarrow> createClient sv chan start stop (Managed m) = (Inl e, None, [])
    | Inr (endpoint, token) \<Rightarrow> (case chan endpoint of
          Some e \<Rightarrow> createClient sv chan start stop (Managed m) = (Inl e, None, [RuntimeStarted])
        | None \<Rightarrow> (\<exists>r c. createClient sv chan start stop (Managed m) = (r, Some c,
            [RuntimeStarted, ChannelOpened endpoint, Call (''Bearer '' @ token) (GetInfo GetInfoRequest)] @
            (case r of Inr _ \<Rightarrow> [] | Inl _ \<Rightarrow> [ChannelClosed, RuntimeStopped])))))"
proof (cases "start m")
  case (Inr x)
  obtain endpoint token where x: "x = (endpoint, token)" by (cases x)
  show ?thesis
  proof (cases "chan endpoint")
    case None
    obtain r c where "connectClient sv stop (newClient endpoint token True) = (r, c)"
      "cl_log c = ChannelOpened endpoint # Call (''Bearer '' @ token) (GetInfo GetInfoRequest) #
         (case r of Inr _ \<Rightarrow> [] | Inl _ \<Rightarrow> ChannelClosed # (if True then [RuntimeStopped] else []))"
      using connectClient_log by blast
    then show ?thesis by (simp add: createClient_def runtimeFor_def Inr x None)
  qed (simp add: createClient_def runtimeFor_def Inr x)
qed (simp add: createClient_def runtimeFor_def)

lemma create_trace_witness:
  "createClient demo_services (\<lambda>e. Some (JsError e)) (\<lambda>m. Inr (''bad'', ''t'')) (Inr ()) (Managed ()) =
     (Inl (JsError ''bad''), None, [RuntimeStarted]) \<and>
   (\<exists>r c. createClient demo_services (\<lambda>e. None) (\<lambda>m. Inr (''h:1'', ''t'')) (Inr ()) (Managed ()) =
     (r, Some c, [RuntimeStarted, ChannelOpened ''h:1'', Call ''Bearer t'' (GetInfo GetInfoRequest)] @
       (case r of Inr _ \<Rightarrow> [] | Inl _ \<Rightarrow> [ChannelClosed, RuntimeStopped])))"
  using create_trace [where start = "\<lambda>m. Inr (''bad'', ''t'')" and m = "()" and sv = demo_services and chan = "\<lambda>e. Some (JsError e)"]
    create_trace [where start = "\<lambda>m. Inr (''h:1'', ''t'')" and m = "()" and sv = demo_services and chan = "\<lambda>e. None"] by simp

text \<open>C8: \<open>createSession\<close> asks the runtime only for what it supports: a request is sent exactly when the
runtime has the capabilities that each source of the authentication needs, the first source is complete
and the timeout, if given, is positive; the request carries the conversion of the authentication and of
the timeout and the options with their defaults.  Otherwise the client is unchanged, nothing is sent, and an
\<open>UnsupportedCapabilityError\<close> for a missing capability takes precedence over the validation errors.  An
authentication with exactly one source is its own first source; one with several sources, which the
documentation excludes, is not rejected for that.\<close>

theorem create_session_guard:
  "(if (au_appState auth \<noteq> None \<longrightarrow> hasCapability c ''session.auth.app_state'') \<and>
      (au_credentials auth \<noteq> None \<longrightarrow> hasCapability c ''session.auth.credentials'')
    then (if auth_valid (first_source auth) \<and> (\<forall>t. co_timeoutMs opts = Some t \<longrightarrow> (\<exists>q > 0. t = Fin q))
      then (\<exists>q p. createSessionRequest auth opts = Inr q \<and>
        sessionAuthToProto auth = Inr p \<and> CreateSessionRequest_auth q = Some p \<and> CreateSessionRequest_cookies q = [] \<and>
        CreateSessionRequest_e2ee q = (co_e2ee opts = Some True) \<and>
        (case co_eventBuffer opts of None \<Rightarrow> CreateSessionRequest_eventBuffer q = 0
         | Some n \<Rightarrow> CreateSessionRequest_eventBuffer q = n) \<and>
        (case co_timeoutMs opts of None \<Rightarrow> CreateSessionRequest_timeout q = None
         | Some t \<Rightarrow> \<exists>d. durationFromMilliseconds t = Inr d \<and> CreateSessionRequest_timeout q = Some d) \<and>
        createSession sv auth opts c = (errorMiddleware (sv_createSession sv) q, note_eff (Call (cl_authorization c) (CreateSession q)) c))
      else (\<exists>e. createSession sv auth opts c = (Inl e, c) \<and> error_name e \<in> {''TypeError'', ''RangeError''}))
    else (\<exists>cap. \<not> hasCapability c cap \<and> createSession sv auth opts c = (Inl (UnsupportedCapabilityError cap), c))) \<and>
   (auth_valid auth \<longrightarrow> first_source auth = auth)"
proof -
  have cap: "requireAuthCapability c auth =
      (if au_appState auth \<noteq> None \<and> \<not> hasCapability c ''session.auth.app_state''
       then Inl (UnsupportedCapabilityError ''session.auth.app_state'')
       else if au_credentials auth \<noteq> None \<and> \<not> hasCapability c ''session.auth.credentials''
       then Inl (UnsupportedCapabilityError ''session.auth.credentials'') else Inr ())"
    by (simp add: requireAuthCapability_def requireCapability_def)
  have dur: "(\<exists>d. durationFromMilliseconds t = Inr d) \<longleftrightarrow> (\<exists>q > 0. t = Fin q)" for t
    by (cases t) (auto simp: durationFromMilliseconds_def Let_def)
  have dur_e: "error_name e = ''RangeError''" if "durationFromMilliseconds t = Inl e" for t e
    using that by (cases t) (auto simp: durationFromMilliseconds_def Let_def split: if_splits)
  have auth_e: "error_name e = ''TypeError''" if "sessionAuthToProto auth = Inl e" for e
    using session_auth_error [OF that] by auto
  show ?thesis
  proof (cases "sessionAuthToProto auth")
    case (Inl e)
    then have "\<not> auth_valid (first_source auth)" using sessionAuthToProto_ok_iff [of auth] by auto
    then show ?thesis using first_source_valid auth_e [OF Inl]
      by (auto simp: createSession_def cap createSessionRequest_def Inl)
  next
    case (Inr p)
    then have valid: "auth_valid (first_source auth)" using sessionAuthToProto_ok_iff [of auth] by auto
    show ?thesis
    proof (cases "co_timeoutMs opts")
      case None
      then show ?thesis using first_source_valid valid
        by (auto simp: createSession_def cap createSessionRequest_def Inr rpc_call_def or_else_False split: option.split)
    next
      case (Some t)
      show ?thesis
      proof (cases "durationFromMilliseconds t")
        case (Inl e)
        then have "\<not> (\<exists>q > 0. t = Fin q)" using dur [of t] by auto
        then show ?thesis using first_source_valid dur_e [OF Inl]
          by (auto simp: createSession_def cap createSessionRequest_def Inr Some Inl)
      next
        case d: (Inr d)
        then have "\<exists>q > 0. t = Fin q" using dur [of t] by auto
        then show ?thesis using first_source_valid valid
          by (auto simp: createSession_def cap createSessionRequest_def Inr Some d rpc_call_def or_else_False split: option.split)
      qed
    qed
  qed
qed

lemma create_session_guard_witness:
  "\<exists>q. createSession demo_services \<lparr>au_cookies = Some [(''xs'', ''k'')], au_appState = None, au_credentials = None\<rparr>
      \<lparr>co_e2ee = None, co_eventBuffer = None, co_timeoutMs = None\<rparr> demo_client =
    (errorMiddleware (sv_createSession demo_services) q, note_eff (Call (cl_authorization demo_client) (CreateSession q)) demo_client)"
  using create_session_guard [of "\<lparr>au_cookies = Some [(''xs'', ''k'')], au_appState = None, au_credentials = None\<rparr>" demo_client
      "\<lparr>co_e2ee = None, co_eventBuffer = None, co_timeoutMs = None\<rparr>" demo_services]
  by (auto simp: auth_valid_def first_source_def)

lemma bind_result_not: "x \<noteq> Inl e \<Longrightarrow> (\<And>v. f v \<noteq> Inl e) \<Longrightarrow> bind_result x f \<noteq> Inl e"
  by (cases x) simp_all

lemma guarded_call:
  assumes "g \<noteq> Inl e" and "\<And>q. errorMiddleware stub q \<noteq> Inl e" and "\<And>x. k x \<noteq> Inl e"
  shows "fst (case g of Inl e \<Rightarrow> (Inl e, c) | Inr x \<Rightarrow>
      (case rpc_call tag stub (f x) c of (Inl e, c1) \<Rightarrow> (Inl e, c1) | (Inr r, c1) \<Rightarrow> (k (h r), c1))) \<noteq> Inl e"
proof (cases g)
  case (Inr x)
  then show ?thesis using assms(2) [of "f x"] assms(3)
    by (cases "errorMiddleware stub (f x)") (simp_all add: rpc_call_def)
qed (use assms(1) in simp)

text \<open>C30: a caller of the session operations never sees a raw gRPC error: whatever the stubs answer, none of
the six operations fails with nice-grpc's \<open>ClientError\<close>; when the stub of a call that needs no conversion
fails with one, the caller gets the \<open>MetaRpcError\<close> with the same path, code and details.\<close>

theorem no_raw_grpc_error:
  "fst (createSession sv auth opts c) \<noteq> Inl (ClientError p s d) \<and>
   fst (refreshAuth sv sid a c) \<noteq> Inl (ClientError p s d) \<and>
   fst (authSnapshot sv sid c) \<noteq> Inl (ClientError p s d) \<and>
   fst (connectSession sv sid c) \<noteq> Inl (ClientError p s d) \<and>
   fst (getSessionHealth sv sid c) \<noteq> Inl (ClientError p s d) \<and>
   fst (closeSession sv sid c) \<noteq> Inl (ClientError p s d) \<and>
   (sv_connect sv \<lparr>ConnectRequest_sessionId = sid\<rparr> = Inl (ClientError p s d) \<longrightarrow>
      fst (connectSession sv sid c) = Inl (MetaRpcError p s d)) \<and>
   (sv_getHealth sv \<lparr>GetHealthRequest_sessionId = sid\<rparr> = Inl (ClientError p s d) \<longrightarrow>
      fst (getSessionHealth sv sid c) = Inl (MetaRpcError p s d)) \<and>
   (sv_closeSession sv \<lparr>CloseSessionRequest_sessionId = sid\<rparr> = Inl (ClientError p s d) \<longrightarrow>
      fst (closeSession sv sid c) = Inl (MetaRpcError p s d))"
proof -
  have m: "errorMiddleware stub q \<noteq> Inl (ClientError p s d)" for stub :: "'q \<Rightarrow> (js_error, 'r) result" and q
    using errorMiddleware_no_client_error [of stub q "ClientError p s d" p s d] by auto
  have cap2: "requireCapability c y \<noteq> Inl (ClientError p s d)" for y
    by (simp add: requireCapability_def)
  have cap1: "requireAuthCapability c x \<noteq> Inl (ClientError p s d)" for x
    unfolding requireAuthCapability_def by (rule bind_result_not) (simp_all add: cap2)
  note cap = cap1 cap2
  have auth: "sessionAuthToProto x \<noteq> Inl (ClientError p s d)" for x using session_auth_error [of x] by auto
  have dur: "durationFromMilliseconds t \<noteq> Inl (ClientError p s d)" for t
    by (cases t) (auto simp: durationFromMilliseconds_def Let_def split: if_splits)
  have snap: "authSnapshotFromProto x \<noteq> Inl (ClientError p s d)" for x
    by (auto simp: authSnapshotFromProto_def split: option.split)
  have refresh_guard: "bind_result (requireCapability c ''session.auth.refresh'') (\<lambda>u.
        (case a of None \<Rightarrow> Inr None
         | Some a \<Rightarrow> bind_result (requireAuthCapability c a) (\<lambda>u.
             bind_result (sessionAuthToProto a) (\<lambda>p. Inr (Some p))))) \<noteq> Inl (ClientError p s d)"
    using cap auth by (cases a) (simp_all add: bind_result_not)
  have cr: "createSessionRequest auth opts \<noteq> Inl (ClientError p s d)"
    unfolding createSessionRequest_def using auth dur
    by (cases "co_timeoutMs opts") (simp_all add: bind_result_not)
  have "fst (createSession sv auth opts c) \<noteq> Inl (ClientError p s d)"
  proof (cases "requireAuthCapability c auth")
    case (Inl e)
    then show ?thesis using cap(1) [of auth] by (simp add: createSession_def)
  next
    case (Inr u)
    then show ?thesis using cr m by (cases "createSessionRequest auth opts") (simp_all add: createSession_def)
  qed
  moreover have "fst (refreshAuth sv sid a c) \<noteq> Inl (ClientError p s d)"
    unfolding refreshAuth_def by (rule guarded_call [OF refresh_guard m snap])
  moreover have "fst (authSnapshot sv sid c) \<noteq> Inl (ClientError p s d)"
    unfolding authSnapshot_def by (rule guarded_call [OF cap(2) m snap])
  moreover have "fst (connectSession sv sid c) \<noteq> Inl (ClientError p s d)"
    "fst (getSessionHealth sv sid c) \<noteq> Inl (ClientError p s d)"
    by (simp_all add: connectSession_def getSessionHealth_def m)
  moreover have "fst (closeSession sv sid c) =
      (case errorMiddleware (sv_closeSession sv) \<lparr>CloseSessionRequest_sessionId = sid\<rparr> of Inl e \<Rightarrow> Inl e | Inr r \<Rightarrow> Inr ())"
    by (simp add: closeSession_def rpc_call_def split: sum.split)
  moreover from this have "fst (closeSession sv sid c) \<noteq> Inl (ClientError p s d)"
    using m [of "sv_closeSession sv" "\<lparr>CloseSessionRequest_sessionId = sid\<rparr>"] by (auto split: sum.split)
  ultimately show ?thesis
    by (simp add: connectSession_def getSessionHealth_def errorMiddleware_def)
qed

lemma no_raw_grpc_error_witness:
  "fst (getSessionHealth (demo_services\<lparr>sv_getHealth := (\<lambda>q. Inl (ClientError ''/health'' 7 ''denied''))\<rparr>) ''s1'' demo_client) =
   Inl (MetaRpcError ''/health'' 7 ''denied'')"
  using no_raw_grpc_error [where sv = "demo_services\<lparr>sv_getHealth := (\<lambda>q. Inl (ClientError ''/health'' 7 ''denied''))\<rparr>"
      and sid = "''s1''" and c = demo_client and p = "''/health''" and s = 7 and d = "''denied''"] by simp

end
