(* ===== verification/Gen_Facebook.thy ===== *)
theory Gen_Facebook
  imports Gen_Common
begin

text \<open>
  Messages of \<open>sdk/node/src/gen/meta/v1/facebook.ts\<close>: the facebook service.
  For every message: its interface as a record (or a datatype without fields), \<open>createBase\<close>,
  \<open>encode\<close> as the sequence of its writer calls, and \<open>decode\<close> as the cases of its
  switch; a union field is a datatype with one constructor per \<open>$case\<close>.  \<open>_ok\<close> holds of
  the values a TypeScript program can build: objects built by assignment and dates in range.
  Then the round trip of the message and the totality of its decoder.
\<close>

subsection \<open>FacebookUser\<close>

record FacebookUser =
  FacebookUser_id :: string
  FacebookUser_name :: string
  FacebookUser_firstName :: string
  FacebookUser_username :: string
  FacebookUser_profileUrl :: string
  FacebookUser_avatarUrl :: string
  FacebookUser_gender :: string
  FacebookUser_alternateName :: string
  FacebookUser_nonFriend :: bool

definition createBaseFacebookUser :: FacebookUser where
  "createBaseFacebookUser = \<lparr>FacebookUser_id = '''',
     FacebookUser_name = '''',
     FacebookUser_firstName = '''',
     FacebookUser_username = '''',
     FacebookUser_profileUrl = '''',
     FacebookUser_avatarUrl = '''',
     FacebookUser_gender = '''',
     FacebookUser_alternateName = '''',
     FacebookUser_nonFriend = False\<rparr>"

definition FacebookUser_encode :: "('w, 'r) wire \<Rightarrow> FacebookUser \<Rightarrow> 'w writer" where
  "FacebookUser_encode W m = w_seq [
     w_if (FacebookUser_id m \<noteq> '''') [w_uint32 W 10, w_string W (FacebookUser_id m)],
     w_if (FacebookUser_name m \<noteq> '''') [w_uint32 W 18, w_string W (FacebookUser_name m)],
     w_if (FacebookUser_firstName m \<noteq> '''') [w_uint32 W 26, w_string W (FacebookUser_firstName m)],
     w_if (FacebookUser_username m \<noteq> '''') [w_uint32 W 34, w_string W (FacebookUser_username m)],
     w_if (FacebookUser_profileUrl m \<noteq> '''') [w_uint32 W 42, w_string W (FacebookUser_profileUrl m)],
     w_if (FacebookUser_avatarUrl m \<noteq> '''') [w_uint32 W 50, w_string W (FacebookUser_avatarUrl m)],
     w_if (FacebookUser_gender m \<noteq> '''') [w_uint32 W 58, w_string W (FacebookUser_gender m)],
     w_if (FacebookUser_alternateName m \<noteq> '''') [w_uint32 W 66, w_string W (FacebookUser_alternateName m)],
     w_if (FacebookUser_nonFriend m \<noteq> False) [w_uint32 W 72, w_bool W (FacebookUser_nonFriend m)]]"

definition FacebookUser_cases :: "('w, 'r) wire \<Rightarrow> ('r, FacebookUser) cases" where
  "FacebookUser_cases W = [
     (1, 10, d_val (r_string W) (\<lambda>v m. m\<lparr>FacebookUser_id := v\<rparr>)),
     (2, 18, d_val (r_string W) (\<lambda>v m. m\<lparr>FacebookUser_name := v\<rparr>)),
     (3, 26, d_val (r_string W) (\<lambda>v m. m\<lparr>FacebookUser_firstName := v\<rparr>)),
     (4, 34, d_val (r_string W) (\<lambda>v m. m\<lparr>FacebookUser_username := v\<rparr>)),
     (5, 42, d_val (r_string W) (\<lambda>v m. m\<lparr>FacebookUser_profileUrl := v\<rparr>)),
     (6, 50, d_val (r_string W) (\<lambda>v m. m\<lparr>FacebookUser_avatarUrl := v\<rparr>)),
     (7, 58, d_val (r_string W) (\<lambda>v m. m\<lparr>FacebookUser_gender := v\<rparr>)),
     (8, 66, d_val (r_string W) (\<lambda>v m. m\<lparr>FacebookUser_alternateName := v\<rparr>)),
     (9, 72, d_val (r_bool W) (\<lambda>v m. m\<lparr>FacebookUser_nonFriend := v\<rparr>))]"

definition FacebookUser_decode :: "('w, 'r) wire \<Rightarrow> ('r, FacebookUser) decoder" where
  "FacebookUser_decode W = d_message W (FacebookUser_cases W) createBaseFacebookUser"

lemmas FacebookUser_defs = FacebookUser_cases_def createBaseFacebookUser_def

context wire_lib
begin

lemma FacebookUser_codec:
  "codec W stk rem 0 (FacebookUser_encode W) (FacebookUser_cases W) createBaseFacebookUser m"
  by (rule codecI [OF FacebookUser_encode_def],
      rule field_string [where upd = FacebookUser_id_update], simp add: FacebookUser_defs, simp add: FacebookUser_defs,
      rule field_string [where upd = FacebookUser_name_update], simp add: FacebookUser_defs, simp add: FacebookUser_defs,
      rule field_string [where upd = FacebookUser_firstName_update], simp add: FacebookUser_defs, simp add: FacebookUser_defs,
      rule field_string [where upd = FacebookUser_username_update], simp add: FacebookUser_defs, simp add: FacebookUser_defs,
      rule field_string [where upd = FacebookUser_profileUrl_update], simp add: FacebookUser_defs, simp add: FacebookUser_defs,
      rule field_string [where upd = FacebookUser_avatarUrl_update], simp add: FacebookUser_defs, simp add: FacebookUser_defs,
      rule field_string [where upd = FacebookUser_gender_update], simp add: FacebookUser_defs, simp add: FacebookUser_defs,
      rule field_string [where upd = FacebookUser_alternateName_update], simp add: FacebookUser_defs, simp add: FacebookUser_defs,
      rule field_bool [where upd = FacebookUser_nonFriend_update], simp add: FacebookUser_defs, simp add: FacebookUser_defs,
      rule matched_Nil, cases m, simp add: FacebookUser_defs)

lemma FacebookUser_rt: "1 \<le> d \<Longrightarrow> codec_rt W stk rem d (FacebookUser_encode W) (FacebookUser_decode W) m"
  unfolding FacebookUser_decode_def
  by (rule codec_rt_mono [OF codec_rt_of_codec [OF FacebookUser_codec]]) simp_all

end

context wire_reader
begin

lemma FacebookUser_total [total_rules]: "dec_total W (FacebookUser_decode W)"
  unfolding FacebookUser_decode_def FacebookUser_cases_def by (intro total_rules)

end

subsection \<open>FacebookSearchResult\<close>

record FacebookSearchResult =
  FacebookSearchResult_id :: string
  FacebookSearchResult_name :: string
  FacebookSearchResult_url :: string

definition createBaseFacebookSearchResult :: FacebookSearchResult where
  "createBaseFacebookSearchResult = \<lparr>FacebookSearchResult_id = '''',
     FacebookSearchResult_name = '''',
     FacebookSearchResult_url = ''''\<rparr>"

definition FacebookSearchResult_encode :: "('w, 'r) wire \<Rightarrow> FacebookSearchResult \<Rightarrow> 'w writer" where
  "FacebookSearchResult_encode W m = w_seq [
     w_if (FacebookSearchResult_id m \<noteq> '''') [w_uint32 W 10, w_string W (FacebookSearchResult_id m)],
     w_if (FacebookSearchResult_name m \<noteq> '''') [w_uint32 W 18, w_string W (FacebookSearchResult_name m)],
     w_if (FacebookSearchResult_url m \<noteq> '''') [w_uint32 W 26, w_string W (FacebookSearchResult_url m)]]"

definition FacebookSearchResult_cases :: "('w, 'r) wire \<Rightarrow> ('r, FacebookSearchResult) cases" where
  "FacebookSearchResult_cases W = [
     (1, 10, d_val (r_string W) (\<lambda>v m. m\<lparr>FacebookSearchResult_id := v\<rparr>)),
     (2, 18, d_val (r_string W) (\<lambda>v m. m\<lparr>FacebookSearchResult_name := v\<rparr>)),
     (3, 26, d_val (r_string W) (\<lambda>v m. m\<lparr>FacebookSearchResult_url := v\<rparr>))]"

definition FacebookSearchResult_decode :: "('w, 'r) wire \<Rightarrow> ('r, FacebookSearchResult) decoder" where
  "FacebookSearchResult_decode W = d_message W (FacebookSearchResult_cases W) createBaseFacebookSearchResult"

lemmas FacebookSearchResult_defs = FacebookSearchResult_cases_def createBaseFacebookSearchResult_def

context wire_lib
begin

lemma FacebookSearchResult_codec:
  "codec W stk rem 0 (FacebookSearchResult_encode W) (FacebookSearchResult_cases W) createBaseFacebookSearchResult m"
  by (rule codecI [OF FacebookSearchResult_encode_def],
      rule field_string [where upd = FacebookSearchResult_id_update], simp add: FacebookSearchResult_defs, simp add: FacebookSearchResult_defs,
      rule field_string [where upd = FacebookSearchResult_name_update], simp add: FacebookSearchResult_defs, simp add: FacebookSearchResult_defs,
      rule field_string [where upd = FacebookSearchResult_url_update], simp add: FacebookSearchResult_defs, simp add: FacebookSearchResult_defs,
      rule matched_Nil, cases m, simp add: FacebookSearchResult_defs)

lemma FacebookSearchResult_rt: "1 \<le> d \<Longrightarrow> codec_rt W stk rem d (FacebookSearchResult_encode W) (FacebookSearchResult_decode W) m"
  unfolding FacebookSearchResult_decode_def
  by (rule codec_rt_mono [OF codec_rt_of_codec [OF FacebookSearchResult_codec]]) simp_all

end

context wire_reader
begin

lemma FacebookSearchResult_total [total_rules]: "dec_total W (FacebookSearchResult_decode W)"
  unfolding FacebookSearchResult_decode_def FacebookSearchResult_cases_def by (intro total_rules)

end

subsection \<open>FacebookNotification\<close>

record FacebookNotification =
  FacebookNotification_id :: string
  FacebookNotification_text :: string
  FacebookNotification_url :: string
  FacebookNotification_timestamp :: "js_date option"

definition createBaseFacebookNotification :: FacebookNotification where
  "createBaseFacebookNotification = \<lparr>FacebookNotification_id = '''',
     FacebookNotification_text = '''',
     FacebookNotification_url = '''',
     FacebookNotification_timestamp = None\<rparr>"

definition FacebookNotification_encode :: "('w, 'r) wire \<Rightarrow> FacebookNotification \<Rightarrow> 'w writer" where
  "FacebookNotification_encode W m = w_seq [
     w_if (FacebookNotification_id m \<noteq> '''') [w_uint32 W 10, w_string W (FacebookNotification_id m)],
     w_if (FacebookNotification_text m \<noteq> '''') [w_uint32 W 18, w_string W (FacebookNotification_text m)],
     w_if (FacebookNotification_url m \<noteq> '''') [w_uint32 W 26, w_string W (FacebookNotification_url m)],
     w_some (FacebookNotification_timestamp m) (\<lambda>v. [w_try (toTimestamp v) (\<lambda>t. [w_uint32 W 34, w_open W, Timestamp_encode W t, w_join W])])]"

definition FacebookNotification_cases :: "('w, 'r) wire \<Rightarrow> ('r, FacebookNotification) cases" where
  "FacebookNotification_cases W = [
     (1, 10, d_val (r_string W) (\<lambda>v m. m\<lparr>FacebookNotification_id := v\<rparr>)),
     (2, 18, d_val (r_string W) (\<lambda>v m. m\<lparr>FacebookNotification_text := v\<rparr>)),
     (3, 26, d_val (r_string W) (\<lambda>v m. m\<lparr>FacebookNotification_url := v\<rparr>)),
     (4, 34, d_msg W (Timestamp_decode W) (\<lambda>v m. m\<lparr>FacebookNotification_timestamp := Some (fromTimestamp v)\<rparr>))]"

definition FacebookNotification_decode :: "('w, 'r) wire \<Rightarrow> ('r, FacebookNotification) decoder" where
  "FacebookNotification_decode W = d_message W (FacebookNotification_cases W) createBaseFacebookNotification"

definition FacebookNotification_ok :: "FacebookNotification \<Rightarrow> bool" where
  "FacebookNotification_ok m \<longleftrightarrow> pred_option js_date_ok (FacebookNotification_timestamp m)"

lemmas FacebookNotification_defs = FacebookNotification_cases_def createBaseFacebookNotification_def

context wire_lib
begin

lemma FacebookNotification_codec:
  assumes ok: "FacebookNotification_ok m"
  shows "codec W stk rem 1 (FacebookNotification_encode W) (FacebookNotification_cases W) createBaseFacebookNotification m"
  by (rule codecI [OF FacebookNotification_encode_def],
      rule field_string [where upd = FacebookNotification_id_update], simp add: FacebookNotification_defs, simp add: FacebookNotification_defs,
      rule field_string [where upd = FacebookNotification_text_update], simp add: FacebookNotification_defs, simp add: FacebookNotification_defs,
      rule field_string [where upd = FacebookNotification_url_update], simp add: FacebookNotification_defs, simp add: FacebookNotification_defs,
      rule field_conv [where upd = FacebookNotification_timestamp_update and unconv = fromTimestamp], rule date_rt, simp, (use ok in \<open>fastforce simp: FacebookNotification_ok_def list_all_iff\<close>), assumption, simp add: FacebookNotification_defs, simp add: FacebookNotification_defs,
      rule matched_Nil, cases m, simp add: FacebookNotification_defs)

lemma FacebookNotification_rt: "2 \<le> d \<Longrightarrow> FacebookNotification_ok m \<Longrightarrow> codec_rt W stk rem d (FacebookNotification_encode W) (FacebookNotification_decode W) m"
  unfolding FacebookNotification_decode_def
  by (rule codec_rt_mono [OF codec_rt_of_codec [OF FacebookNotification_codec]]) simp_all

end

context wire_reader
begin

lemma FacebookNotification_total [total_rules]: "dec_total W (FacebookNotification_decode W)"
  unfolding FacebookNotification_decode_def FacebookNotification_cases_def by (intro total_rules)

end

subsection \<open>FacebookPost\<close>

record FacebookPost =
  FacebookPost_id :: string
  FacebookPost_url :: string

definition createBaseFacebookPost :: FacebookPost where
  "createBaseFacebookPost = \<lparr>FacebookPost_id = '''',
     FacebookPost_url = ''''\<rparr>"

definition FacebookPost_encode :: "('w, 'r) wire \<Rightarrow> FacebookPost \<Rightarrow> 'w writer" where
  "FacebookPost_encode W m = w_seq [
     w_if (FacebookPost_id m \<noteq> '''') [w_uint32 W 10, w_string W (FacebookPost_id m)],
     w_if (FacebookPost_url m \<noteq> '''') [w_uint32 W 18, w_string W (FacebookPost_url m)]]"

definition FacebookPost_cases :: "('w, 'r) wire \<Rightarrow> ('r, FacebookPost) cases" where
  "FacebookPost_cases W = [
     (1, 10, d_val (r_string W) (\<lambda>v m. m\<lparr>FacebookPost_id := v\<rparr>)),
     (2, 18, d_val (r_string W) (\<lambda>v m. m\<lparr>FacebookPost_url := v\<rparr>))]"

definition FacebookPost_decode :: "('w, 'r) wire \<Rightarrow> ('r, FacebookPost) decoder" where
  "FacebookPost_decode W = d_message W (FacebookPost_cases W) createBaseFacebookPost"

lemmas FacebookPost_defs = FacebookPost_cases_def createBaseFacebookPost_def

context wire_lib
begin

lemma FacebookPost_codec:
  "codec W stk rem 0 (FacebookPost_encode W) (FacebookPost_cases W) createBaseFacebookPost m"
  by (rule codecI [OF FacebookPost_encode_def],
      rule field_string [where upd = FacebookPost_id_update], simp add: FacebookPost_defs, simp add: FacebookPost_defs,
      rule field_string [where upd = FacebookPost_url_update], simp add: FacebookPost_defs, simp add: FacebookPost_defs,
      rule matched_Nil, cases m, simp add: FacebookPost_defs)

lemma FacebookPost_rt: "1 \<le> d \<Longrightarrow> codec_rt W stk rem d (FacebookPost_encode W) (FacebookPost_decode W) m"
  unfolding FacebookPost_decode_def
  by (rule codec_rt_mono [OF codec_rt_of_codec [OF FacebookPost_codec]]) simp_all

end

context wire_reader
begin

lemma FacebookPost_total [total_rules]: "dec_total W (FacebookPost_decode W)"
  unfolding FacebookPost_decode_def FacebookPost_cases_def by (intro total_rules)

end

subsection \<open>MarketplaceLocation\<close>

record MarketplaceLocation =
  MarketplaceLocation_latitude :: double
  MarketplaceLocation_longitude :: double
  MarketplaceLocation_name :: string

definition createBaseMarketplaceLocation :: MarketplaceLocation where
  "createBaseMarketplaceLocation = \<lparr>MarketplaceLocation_latitude = 0,
     MarketplaceLocation_longitude = 0,
     MarketplaceLocation_name = ''''\<rparr>"

definition MarketplaceLocation_encode :: "('w, 'r) wire \<Rightarrow> MarketplaceLocation \<Rightarrow> 'w writer" where
  "MarketplaceLocation_encode W m = w_seq [
     w_if (\<not> double_is_zero (MarketplaceLocation_latitude m)) [w_uint32 W 9, w_double W (MarketplaceLocation_latitude m)],
     w_if (\<not> double_is_zero (MarketplaceLocation_longitude m)) [w_uint32 W 17, w_double W (MarketplaceLocation_longitude m)],
     w_if (MarketplaceLocation_name m \<noteq> '''') [w_uint32 W 26, w_string W (MarketplaceLocation_name m)]]"

definition MarketplaceLocation_cases :: "('w, 'r) wire \<Rightarrow> ('r, MarketplaceLocation) cases" where
  "MarketplaceLocation_cases W = [
     (1, 9, d_val (r_double W) (\<lambda>v m. m\<lparr>MarketplaceLocation_latitude := v\<rparr>)),
     (2, 17, d_val (r_double W) (\<lambda>v m. m\<lparr>MarketplaceLocation_longitude := v\<rparr>)),
     (3, 26, d_val (r_string W) (\<lambda>v m. m\<lparr>MarketplaceLocation_name := v\<rparr>))]"

definition MarketplaceLocation_decode :: "('w, 'r) wire \<Rightarrow> ('r, MarketplaceLocation) decoder" where
  "MarketplaceLocation_decode W = d_message W (MarketplaceLocation_cases W) createBaseMarketplaceLocation"

definition MarketplaceLocation_ok :: "MarketplaceLocation \<Rightarrow> bool" where
  "MarketplaceLocation_ok m \<longleftrightarrow> double_ok (MarketplaceLocation_latitude m) \<and>
     double_ok (MarketplaceLocation_longitude m)"

lemmas MarketplaceLocation_defs = MarketplaceLocation_cases_def createBaseMarketplaceLocation_def

context wire_lib
begin

lemma MarketplaceLocation_codec:
  assumes ok: "MarketplaceLocation_ok m"
  shows "codec W stk rem 0 (MarketplaceLocation_encode W) (MarketplaceLocation_cases W) createBaseMarketplaceLocation m"
  by (rule codecI [OF MarketplaceLocation_encode_def],
      rule field_double [where upd = MarketplaceLocation_latitude_update], (use ok in \<open>fastforce simp: MarketplaceLocation_ok_def list_all_iff\<close>), simp add: MarketplaceLocation_defs, simp add: MarketplaceLocation_defs,
      rule field_double [where upd = MarketplaceLocation_longitude_update], (use ok in \<open>fastforce simp: MarketplaceLocation_ok_def list_all_iff\<close>), simp add: MarketplaceLocation_defs, simp add: MarketplaceLocation_defs,
      rule field_string [where upd = MarketplaceLocation_name_update], simp add: MarketplaceLocation_defs, simp add: MarketplaceLocation_defs,
      rule matched_Nil, cases m, simp add: MarketplaceLocation_defs)

lemma MarketplaceLocation_rt: "1 \<le> d \<Longrightarrow> MarketplaceLocation_ok m \<Longrightarrow> codec_rt W stk rem d (MarketplaceLocation_encode W) (MarketplaceLocation_decode W) m"
  unfolding MarketplaceLocation_decode_def
  by (rule codec_rt_mono [OF codec_rt_of_codec [OF MarketplaceLocation_codec]]) simp_all

end

context wire_reader
begin

lemma MarketplaceLocation_total [total_rules]: "dec_total W (MarketplaceLocation_decode W)"
  unfolding MarketplaceLocation_decode_def MarketplaceLocation_cases_def by (intro total_rules)

end

subsection \<open>MarketplaceListingInput\<close>

record MarketplaceListingInput =
  MarketplaceListingInput_title :: string
  MarketplaceListingInput_brand :: string
  MarketplaceListingInput_price :: string
  MarketplaceListingInput_currency :: string
  MarketplaceListingInput_description :: string
  MarketplaceListingInput_hashtags :: "string list"
  MarketplaceListingInput_category :: string
  MarketplaceListingInput_photoIds :: "string list"
  MarketplaceListingInput_location :: "MarketplaceLocation option"

definition createBaseMarketplaceListingInput :: MarketplaceListingInput where
  "createBaseMarketplaceListingInput = \<lparr>MarketplaceListingInput_title = '''',
     MarketplaceListingInput_brand = '''',
     MarketplaceListingInput_price = '''',
     MarketplaceListingInput_currency = '''',
     MarketplaceListingInput_description = '''',
     MarketplaceListingInput_hashtags = [],
     MarketplaceListingInput_category = '''',
     MarketplaceListingInput_photoIds = [],
     MarketplaceListingInput_location = None\<rparr>"

definition MarketplaceListingInput_encode :: "('w, 'r) wire \<Rightarrow> MarketplaceListingInput \<Rightarrow> 'w writer" where
  "MarketplaceListingInput_encode W m = w_seq [
     w_if (MarketplaceListingInput_title m \<noteq> '''') [w_uint32 W 10, w_string W (MarketplaceListingInput_title m)],
     w_if (MarketplaceListingInput_brand m \<noteq> '''') [w_uint32 W 18, w_string W (MarketplaceListingInput_brand m)],
     w_if (MarketplaceListingInput_price m \<noteq> '''') [w_uint32 W 26, w_string W (MarketplaceListingInput_price m)],
     w_if (MarketplaceListingInput_currency m \<noteq> '''') [w_uint32 W 34, w_string W (MarketplaceListingInput_currency m)],
     w_if (MarketplaceListingInput_description m \<noteq> '''') [w_uint32 W 42, w_string W (MarketplaceListingInput_description m)],
     w_for (MarketplaceListingInput_hashtags m) (\<lambda>v. [w_uint32 W 50, w_string W v]),
     w_if (MarketplaceListingInput_category m \<noteq> '''') [w_uint32 W 58, w_string W (MarketplaceListingInput_category m)],
     w_for (MarketplaceListingInput_photoIds m) (\<lambda>v. [w_uint32 W 66, w_string W v]),
     w_some (MarketplaceListingInput_location m) (\<lambda>v. [w_uint32 W 74, w_open W, MarketplaceLocation_encode W v, w_join W])]"

definition MarketplaceListingInput_cases :: "('w, 'r) wire \<Rightarrow> ('r, MarketplaceListingInput) cases" where
  "MarketplaceListingInput_cases W = [
     (1, 10, d_val (r_string W) (\<lambda>v m. m\<lparr>MarketplaceListingInput_title := v\<rparr>)),
     (2, 18, d_val (r_string W) (\<lambda>v m. m\<lparr>MarketplaceListingInput_brand := v\<rparr>)),
     (3, 26, d_val (r_string W) (\<lambda>v m. m\<lparr>MarketplaceListingInput_price := v\<rparr>)),
     (4, 34, d_val (r_string W) (\<lambda>v m. m\<lparr>MarketplaceListingInput_currency := v\<rparr>)),
     (5, 42, d_val (r_string W) (\<lambda>v m. m\<lparr>MarketplaceListingInput_description := v\<rparr>)),
     (6, 50, d_val (r_string W) (\<lambda>v m. m\<lparr>MarketplaceListingInput_hashtags := MarketplaceListingInput_hashtags m @ [v]\<rparr>)),
     (7, 58, d_val (r_string W) (\<lambda>v m. m\<lparr>MarketplaceListingInput_category := v\<rparr>)),
     (8, 66, d_val (r_string W) (\<lambda>v m. m\<lparr>MarketplaceListingInput_photoIds := MarketplaceListingInput_photoIds m @ [v]\<rparr>)),
     (9, 74, d_msg W (MarketplaceLocation_decode W) (\<lambda>v m. m\<lparr>MarketplaceListingInput_location := Some v\<rparr>))]"

definition MarketplaceListingInput_decode :: "('w, 'r) wire \<Rightarrow> ('r, MarketplaceListingInput) decoder" where
  "MarketplaceListingInput_decode W = d_message W (MarketplaceListingInput_cases W) createBaseMarketplaceListingInput"

definition MarketplaceListingInput_ok :: "MarketplaceListingInput \<Rightarrow> bool" where
  "MarketplaceListingInput_ok m \<longleftrightarrow> pred_option MarketplaceLocation_ok (MarketplaceListingInput_location m)"

lemmas MarketplaceListingInput_defs = MarketplaceListingInput_cases_def createBaseMarketplaceListingInput_def

context wire_lib
begin

lemma MarketplaceListingInput_codec:
  assumes ok: "MarketplaceListingInput_ok m"
  shows "codec W stk rem 1 (MarketplaceListingInput_encode W) (MarketplaceListingInput_cases W) createBaseMarketplaceListingInput m"
  by (rule codecI [OF MarketplaceListingInput_encode_def],
      rule field_string [where upd = MarketplaceListingInput_title_update], simp add: MarketplaceListingInput_defs, simp add: MarketplaceListingInput_defs,
      rule field_string [where upd = MarketplaceListingInput_brand_update], simp add: MarketplaceListingInput_defs, simp add: MarketplaceListingInput_defs,
      rule field_string [where upd = MarketplaceListingInput_price_update], simp add: MarketplaceListingInput_defs, simp add: MarketplaceListingInput_defs,
      rule field_string [where upd = MarketplaceListingInput_currency_update], simp add: MarketplaceListingInput_defs, simp add: MarketplaceListingInput_defs,
      rule field_string [where upd = MarketplaceListingInput_description_update], simp add: MarketplaceListingInput_defs, simp add: MarketplaceListingInput_defs,
      rule field_push_string [where upd = MarketplaceListingInput_hashtags_update and sel = MarketplaceListingInput_hashtags], simp add: MarketplaceListingInput_defs, simp add: MarketplaceListingInput_defs, simp add: MarketplaceListingInput_defs,
      rule field_string [where upd = MarketplaceListingInput_category_update], simp add: MarketplaceListingInput_defs, simp add: MarketplaceListingInput_defs,
      rule field_push_string [where upd = MarketplaceListingInput_photoIds_update and sel = MarketplaceListingInput_photoIds], simp add: MarketplaceListingInput_defs, simp add: MarketplaceListingInput_defs, simp add: MarketplaceListingInput_defs,
      rule field_msg [where upd = MarketplaceListingInput_location_update], rule MarketplaceLocation_rt, simp, (use ok in \<open>fastforce simp: MarketplaceListingInput_ok_def list_all_iff\<close>), simp add: MarketplaceListingInput_defs, simp add: MarketplaceListingInput_defs,
      rule matched_Nil, cases m, simp add: MarketplaceListingInput_defs)

lemma MarketplaceListingInput_rt: "2 \<le> d \<Longrightarrow> MarketplaceListingInput_ok m \<Longrightarrow> codec_rt W stk rem d (MarketplaceListingInput_encode W) (MarketplaceListingInput_decode W) m"
  unfolding MarketplaceListingInput_decode_def
  by (rule codec_rt_mono [OF codec_rt_of_codec [OF MarketplaceListingInput_codec]]) simp_all

end

context wire_reader
begin

lemma MarketplaceListingInput_total [total_rules]: "dec_total W (MarketplaceListingInput_decode W)"
  unfolding MarketplaceListingInput_decode_def MarketplaceListingInput_cases_def by (intro total_rules)

end

subsection \<open>MarketplaceListing\<close>

record MarketplaceListing =
  MarketplaceListing_id :: string
  MarketplaceListing_title :: string
  MarketplaceListing_description :: string
  MarketplaceListing_price :: string
  MarketplaceListing_currency :: string
  MarketplaceListing_seller :: "FacebookUser option"
  MarketplaceListing_location :: "MarketplaceLocation option"
  MarketplaceListing_url :: string
  MarketplaceListing_createdAt :: "js_date option"

definition createBaseMarketplaceListing :: MarketplaceListing where
  "createBaseMarketplaceListing = \<lparr>MarketplaceListing_id = '''',
     MarketplaceListing_title = '''',
     MarketplaceListing_description = '''',
     MarketplaceListing_price = '''',
     MarketplaceListing_currency = '''',
     MarketplaceListing_seller = None,
     MarketplaceListing_location = None,
     MarketplaceListing_url = '''',
     MarketplaceListing_createdAt = None\<rparr>"

definition MarketplaceListing_encode :: "('w, 'r) wire \<Rightarrow> MarketplaceListing \<Rightarrow> 'w writer" where
  "MarketplaceListing_encode W m = w_seq [
     w_if (MarketplaceListing_id m \<noteq> '''') [w_uint32 W 10, w_string W (MarketplaceListing_id m)],
     w_if (MarketplaceListing_title m \<noteq> '''') [w_uint32 W 18, w_string W (MarketplaceListing_title m)],
     w_if (MarketplaceListing_description m \<noteq> '''') [w_uint32 W 26, w_string W (MarketplaceListing_description m)],
     w_if (MarketplaceListing_price m \<noteq> '''') [w_uint32 W 34, w_string W (MarketplaceListing_price m)],
     w_if (MarketplaceListing_currency m \<noteq> '''') [w_uint32 W 42, w_string W (MarketplaceListing_currency m)],
     w_some (MarketplaceListing_seller m) (\<lambda>v. [w_uint32 W 50, w_open W, FacebookUser_encode W v, w_join W]),
     w_some (MarketplaceListing_location m) (\<lambda>v. [w_uint32 W 58, w_open W, MarketplaceLocation_encode W v, w_join W]),
     w_if (MarketplaceListing_url m \<noteq> '''') [w_uint32 W 66, w_string W (MarketplaceListing_url m)],
     w_some (MarketplaceListing_createdAt m) (\<lambda>v. [w_try (toTimestamp v) (\<lambda>t. [w_uint32 W 74, w_open W, Timestamp_encode W t, w_join W])])]"

definition MarketplaceListing_cases :: "('w, 'r) wire \<Rightarrow> ('r, MarketplaceListing) cases" where
  "MarketplaceListing_cases W = [
     (1, 10, d_val (r_string W) (\<lambda>v m. m\<lparr>MarketplaceListing_id := v\<rparr>)),
     (2, 18, d_val (r_string W) (\<lambda>v m. m\<lparr>MarketplaceListing_title := v\<rparr>)),
     (3, 26, d_val (r_string W) (\<lambda>v m. m\<lparr>MarketplaceListing_description := v\<rparr>)),
     (4, 34, d_val (r_string W) (\<lambda>v m. m\<lparr>MarketplaceListing_price := v\<rparr>)),
     (5, 42, d_val (r_string W) (\<lambda>v m. m\<lparr>MarketplaceListing_currency := v\<rparr>)),
     (6, 50, d_msg W (FacebookUser_decode W) (\<lambda>v m. m\<lparr>MarketplaceListing_seller := Some v\<rparr>)),
     (7, 58, d_msg W (MarketplaceLocation_decode W) (\<lambda>v m. m\<lparr>MarketplaceListing_location := Some v\<rparr>)),
     (8, 66, d_val (r_string W) (\<lambda>v m. m\<lparr>MarketplaceListing_url := v\<rparr>)),
     (9, 74, d_msg W (Timestamp_decode W) (\<lambda>v m. m\<lparr>MarketplaceListing_createdAt := Some (fromTimestamp v)\<rparr>))]"

definition MarketplaceListing_decode :: "('w, 'r) wire \<Rightarrow> ('r, MarketplaceListing) decoder" where
  "MarketplaceListing_decode W = d_message W (MarketplaceListing_cases W) createBaseMarketplaceListing"

definition MarketplaceListing_ok :: "MarketplaceListing \<Rightarrow> bool" where
  "MarketplaceListing_ok m \<longleftrightarrow> pred_option MarketplaceLocation_ok (MarketplaceListing_location m) \<and>
     pred_option js_date_ok (MarketplaceListing_createdAt m)"

lemmas MarketplaceListing_defs = MarketplaceListing_cases_def createBaseMarketplaceListing_def

context wire_lib
begin

lemma MarketplaceListing_codec:
  assumes ok: "MarketplaceListing_ok m"
  shows "codec W stk rem 1 (MarketplaceListing_encode W) (MarketplaceListing_cases W) createBaseMarketplaceListing m"
  by (rule codecI [OF MarketplaceListing_encode_def],
      rule field_string [where upd = MarketplaceListing_id_update], simp add: MarketplaceListing_defs, simp add: MarketplaceListing_defs,
      rule field_string [where upd = MarketplaceListing_title_update], simp add: MarketplaceListing_defs, simp add: MarketplaceListing_defs,
      rule field_string [where upd = MarketplaceListing_description_update], simp add: MarketplaceListing_defs, simp add: MarketplaceListing_defs,
      rule field_string [where upd = MarketplaceListing_price_update], simp add: MarketplaceListing_defs, simp add: MarketplaceListing_defs,
      rule field_string [where upd = MarketplaceListing_currency_update], simp add: MarketplaceListing_defs, simp add: MarketplaceListing_defs,
      rule field_msg [where upd = MarketplaceListing_seller_update], rule FacebookUser_rt, simp, simp add: MarketplaceListing_defs, simp add: MarketplaceListing_defs,
      rule field_msg [where upd = MarketplaceListing_location_update], rule MarketplaceLocation_rt, simp, (use ok in \<open>fastforce simp: MarketplaceListing_ok_def list_all_iff\<close>), simp add: MarketplaceListing_defs, simp add: MarketplaceListing_defs,
      rule field_string [where upd = MarketplaceListing_url_update], simp add: MarketplaceListing_defs, simp add: MarketplaceListing_defs,
      rule field_conv [where upd = MarketplaceListing_createdAt_update and unconv = fromTimestamp], rule date_rt, simp, (use ok in \<open>fastforce simp: MarketplaceListing_ok_def list_all_iff\<close>), assumption, simp add: MarketplaceListing_defs, simp add: MarketplaceListing_defs,
      rule matched_Nil, cases m, simp add: MarketplaceListing_defs)

lemma MarketplaceListing_rt: "2 \<le> d \<Longrightarrow> MarketplaceListing_ok m \<Longrightarrow> codec_rt W stk rem d (MarketplaceListing_encode W) (MarketplaceListing_decode W) m"
  unfolding MarketplaceListing_decode_def
  by (rule codec_rt_mono [OF codec_rt_of_codec [OF MarketplaceListing_codec]]) simp_all

end

context wire_reader
begin

lemma MarketplaceListing_total [total_rules]: "dec_total W (MarketplaceListing_decode W)"
  unfolding MarketplaceListing_decode_def MarketplaceListing_cases_def by (intro total_rules)

end

subsection \<open>FacebookServiceGetUserRequest\<close>

record FacebookServiceGetUserRequest =
  FacebookServiceGetUserRequest_sessionId :: string
  FacebookServiceGetUserRequest_userId :: string

definition createBaseFacebookServiceGetUserRequest :: FacebookServiceGetUserRequest where
  "createBaseFacebookServiceGetUserRequest = \<lparr>FacebookServiceGetUserRequest_sessionId = '''',
     FacebookServiceGetUserRequest_userId = ''''\<rparr>"

definition FacebookServiceGetUserRequest_encode :: "('w, 'r) wire \<Rightarrow> FacebookServiceGetUserRequest \<Rightarrow> 'w writer" where
  "FacebookServiceGetUserRequest_encode W m = w_seq [
     w_if (FacebookServiceGetUserRequest_sessionId m \<noteq> '''') [w_uint32 W 10, w_string W (FacebookServiceGetUserRequest_sessionId m)],
     w_if (FacebookServiceGetUserRequest_userId m \<noteq> '''') [w_uint32 W 18, w_string W (FacebookServiceGetUserRequest_userId m)]]"

definition FacebookServiceGetUserRequest_cases :: "('w, 'r) wire \<Rightarrow> ('r, FacebookServiceGetUserRequest) cases" where
  "FacebookServiceGetUserRequest_cases W = [
     (1, 10, d_val (r_string W) (\<lambda>v m. m\<lparr>FacebookServiceGetUserRequest_sessionId := v\<rparr>)),
     (2, 18, d_val (r_string W) (\<lambda>v m. m\<lparr>FacebookServiceGetUserRequest_userId := v\<rparr>))]"

definition FacebookServiceGetUserRequest_decode :: "('w, 'r) wire \<Rightarrow> ('r, FacebookServiceGetUserRequest) decoder" where
  "FacebookServiceGetUserRequest_decode W = d_message W (FacebookServiceGetUserRequest_cases W) createBaseFacebookServiceGetUserRequest"

lemmas FacebookServiceGetUserRequest_defs = FacebookServiceGetUserRequest_cases_def createBaseFacebookServiceGetUserRequest_def

context wire_lib
begin

lemma FacebookServiceGetUserRequest_codec:
  "codec W stk rem 0 (FacebookServiceGetUserRequest_encode W) (FacebookServiceGetUserRequest_cases W) createBaseFacebookServiceGetUserRequest m"
  by (rule codecI [OF FacebookServiceGetUserRequest_encode_def],
      rule field_string [where upd = FacebookServiceGetUserRequest_sessionId_update], simp add: FacebookServiceGetUserRequest_defs, simp add: FacebookServiceGetUserRequest_defs,
      rule field_string [where upd = FacebookServiceGetUserRequest_userId_update], simp add: FacebookServiceGetUserRequest_defs, simp add: FacebookServiceGetUserRequest_defs,
      rule matched_Nil, cases m, simp add: FacebookServiceGetUserRequest_defs)

lemma FacebookServiceGetUserRequest_rt: "1 \<le> d \<Longrightarrow> codec_rt W stk rem d (FacebookServiceGetUserRequest_encode W) (FacebookServiceGetUserRequest_decode W) m"
  unfolding FacebookServiceGetUserRequest_decode_def
  by (rule codec_rt_mono [OF codec_rt_of_codec [OF FacebookServiceGetUserRequest_codec]]) simp_all

end

context wire_reader
begin

lemma FacebookServiceGetUserRequest_total [total_rules]: "dec_total W (FacebookServiceGetUserRequest_decode W)"
  unfolding FacebookServiceGetUserRequest_decode_def FacebookServiceGetUserRequest_cases_def by (intro total_rules)

end

subsection \<open>FacebookServiceGetUserResponse\<close>

record FacebookServiceGetUserResponse =
  FacebookServiceGetUserResponse_user :: "FacebookUser option"

definition createBaseFacebookServiceGetUserResponse :: FacebookServiceGetUserResponse where
  "createBaseFacebookServiceGetUserResponse = \<lparr>FacebookServiceGetUserResponse_user = None\<rparr>"

definition FacebookServiceGetUserResponse_encode :: "('w, 'r) wire \<Rightarrow> FacebookServiceGetUserResponse \<Rightarrow> 'w writer" where
  "FacebookServiceGetUserResponse_encode W m = w_seq [
     w_some (FacebookServiceGetUserResponse_user m) (\<lambda>v. [w_uint32 W 10, w_open W, FacebookUser_encode W v, w_join W])]"

definition FacebookServiceGetUserResponse_cases :: "('w, 'r) wire \<Rightarrow> ('r, FacebookServiceGetUserResponse) cases" where
  "FacebookServiceGetUserResponse_cases W = [
     (1, 10, d_msg W (FacebookUser_decode W) (\<lambda>v m. m\<lparr>FacebookServiceGetUserResponse_user := Some v\<rparr>))]"

definition FacebookServiceGetUserResponse_decode :: "('w, 'r) wire \<Rightarrow> ('r, FacebookServiceGetUserResponse) decoder" where
  "FacebookServiceGetUserResponse_decode W = d_message W (FacebookServiceGetUserResponse_cases W) createBaseFacebookServiceGetUserResponse"

lemmas FacebookServiceGetUserResponse_defs = FacebookServiceGetUserResponse_cases_def createBaseFacebookServiceGetUserResponse_def

context wire_lib
begin

lemma FacebookServiceGetUserResponse_codec:
  "codec W stk rem 1 (FacebookServiceGetUserResponse_encode W) (FacebookServiceGetUserResponse_cases W) createBaseFacebookServiceGetUserResponse m"
  by (rule codecI [OF FacebookServiceGetUserResponse_encode_def],
      rule field_msg [where upd = FacebookServiceGetUserResponse_user_update], rule FacebookUser_rt, simp, simp add: FacebookServiceGetUserResponse_defs, simp add: FacebookServiceGetUserResponse_defs,
      rule matched_Nil, cases m, simp add: FacebookServiceGetUserResponse_defs)

lemma FacebookServiceGetUserResponse_rt: "2 \<le> d \<Longrightarrow> codec_rt W stk rem d (FacebookServiceGetUserResponse_encode W) (FacebookServiceGetUserResponse_decode W) m"
  unfolding FacebookServiceGetUserResponse_decode_def
  by (rule codec_rt_mono [OF codec_rt_of_codec [OF FacebookServiceGetUserResponse_codec]]) simp_all

end

context wire_reader
begin

lemma FacebookServiceGetUserResponse_total [total_rules]: "dec_total W (FacebookServiceGetUserResponse_decode W)"
  unfolding FacebookServiceGetUserResponse_decode_def FacebookServiceGetUserResponse_cases_def by (intro total_rules)

end

subsection \<open>FacebookServiceSearchRequest\<close>

record FacebookServiceSearchRequest =
  FacebookServiceSearchRequest_sessionId :: string
  FacebookServiceSearchRequest_query :: string
  FacebookServiceSearchRequest_limit :: int

definition createBaseFacebookServiceSearchRequest :: FacebookServiceSearchRequest where
  "createBaseFacebookServiceSearchRequest = \<lparr>FacebookServiceSearchRequest_sessionId = '''',
     FacebookServiceSearchRequest_query = '''',
     FacebookServiceSearchRequest_limit = 0\<rparr>"

definition FacebookServiceSearchRequest_encode :: "('w, 'r) wire \<Rightarrow> FacebookServiceSearchRequest \<Rightarrow> 'w writer" where
  "FacebookServiceSearchRequest_encode W m = w_seq [
     w_if (FacebookServiceSearchRequest_sessionId m \<noteq> '''') [w_uint32 W 10, w_string W (FacebookServiceSearchRequest_sessionId m)],
     w_if (FacebookServiceSearchRequest_query m \<noteq> '''') [w_uint32 W 18, w_string W (FacebookServiceSearchRequest_query m)],
     w_if (FacebookServiceSearchRequest_limit m \<noteq> 0) [w_uint32 W 24, w_int32 W (FacebookServiceSearchRequest_limit m)]]"

definition FacebookServiceSearchRequest_cases :: "('w, 'r) wire \<Rightarrow> ('r, FacebookServiceSearchRequest) cases" where
  "FacebookServiceSearchRequest_cases W = [
     (1, 10, d_val (r_string W) (\<lambda>v m. m\<lparr>FacebookServiceSearchRequest_sessionId := v\<rparr>)),
     (2, 18, d_val (r_string W) (\<lambda>v m. m\<lparr>FacebookServiceSearchRequest_query := v\<rparr>)),
     (3, 24, d_val (r_int32 W) (\<lambda>v m. m\<lparr>FacebookServiceSearchRequest_limit := v\<rparr>))]"

definition FacebookServiceSearchRequest_decode :: "('w, 'r) wire \<Rightarrow> ('r, FacebookServiceSearchRequest) decoder" where
  "FacebookServiceSearchRequest_decode W = d_message W (FacebookServiceSearchRequest_cases W) createBaseFacebookServiceSearchRequest"

lemmas FacebookServiceSearchRequest_defs = FacebookServiceSearchRequest_cases_def createBaseFacebookServiceSearchRequest_def

context wire_lib
begin

lemma FacebookServiceSearchRequest_codec:
  "codec W stk rem 0 (FacebookServiceSearchRequest_encode W) (FacebookServiceSearchRequest_cases W) createBaseFacebookServiceSearchRequest m"
  by (rule codecI [OF FacebookServiceSearchRequest_encode_def],
      rule field_string [where upd = FacebookServiceSearchRequest_sessionId_update], simp add: FacebookServiceSearchRequest_defs, simp add: FacebookServiceSearchRequest_defs,
      rule field_string [where upd = FacebookServiceSearchRequest_query_update], simp add: FacebookServiceSearchRequest_defs, simp add: FacebookServiceSearchRequest_defs,
      rule field_int32 [where upd = FacebookServiceSearchRequest_limit_update], simp add: FacebookServiceSearchRequest_defs, simp add: FacebookServiceSearchRequest_defs,
      rule matched_Nil, cases m, simp add: FacebookServiceSearchRequest_defs)

lemma FacebookServiceSearchRequest_rt: "1 \<le> d \<Longrightarrow> codec_rt W stk rem d (FacebookServiceSearchRequest_encode W) (FacebookServiceSearchRequest_decode W) m"
  unfolding FacebookServiceSearchRequest_decode_def
  by (rule codec_rt_mono [OF codec_rt_of_codec [OF FacebookServiceSearchRequest_codec]]) simp_all

end

context wire_reader
begin

lemma FacebookServiceSearchRequest_total [total_rules]: "dec_total W (FacebookServiceSearchRequest_decode W)"
  unfolding FacebookServiceSearchRequest_decode_def FacebookServiceSearchRequest_cases_def by (intro total_rules)

end

subsection \<open>FacebookServiceSearchResponse\<close>

record FacebookServiceSearchResponse =
  FacebookServiceSearchResponse_results :: "FacebookSearchResult list"

definition createBaseFacebookServiceSearchResponse :: FacebookServiceSearchResponse where
  "createBaseFacebookServiceSearchResponse = \<lparr>FacebookServiceSearchResponse_results = []\<rparr>"

definition FacebookServiceSearchResponse_encode :: "('w, 'r) wire \<Rightarrow> FacebookServiceSearchResponse \<Rightarrow> 'w writer" where
  "FacebookServiceSearchResponse_encode W m = w_seq [
     w_for (FacebookServiceSearchResponse_results m) (\<lambda>v. [w_uint32 W 10, w_open W, FacebookSearchResult_encode W v, w_join W])]"

definition FacebookServiceSearchResponse_cases :: "('w, 'r) wire \<Rightarrow> ('r, FacebookServiceSearchResponse) cases" where
  "FacebookServiceSearchResponse_cases W = [
     (1, 10, d_msg W (FacebookSearchResult_decode W) (\<lambda>v m. m\<lparr>FacebookServiceSearchResponse_results := FacebookServiceSearchResponse_results m @ [v]\<rparr>))]"

definition FacebookServiceSearchResponse_decode :: "('w, 'r) wire \<Rightarrow> ('r, FacebookServiceSearchResponse) decoder" where
  "FacebookServiceSearchResponse_decode W = d_message W (FacebookServiceSearchResponse_cases W) createBaseFacebookServiceSearchResponse"

lemmas FacebookServiceSearchResponse_defs = FacebookServiceSearchResponse_cases_def createBaseFacebookServiceSearchResponse_def

context wire_lib
begin

lemma FacebookServiceSearchResponse_codec:
  "codec W stk rem 1 (FacebookServiceSearchResponse_encode W) (FacebookServiceSearchResponse_cases W) createBaseFacebookServiceSearchResponse m"
  by (rule codecI [OF FacebookServiceSearchResponse_encode_def],
      rule field_push_msg [where upd = FacebookServiceSearchResponse_results_update and sel = FacebookServiceSearchResponse_results], rule FacebookSearchResult_rt, simp, simp add: FacebookServiceSearchResponse_defs, simp add: FacebookServiceSearchResponse_defs, simp add: FacebookServiceSearchResponse_defs,
      rule matched_Nil, cases m, simp add: FacebookServiceSearchResponse_defs)

lemma FacebookServiceSearchResponse_rt: "2 \<le> d \<Longrightarrow> codec_rt W stk rem d (FacebookServiceSearchResponse_encode W) (FacebookServiceSearchResponse_decode W) m"
  unfolding FacebookServiceSearchResponse_decode_def
  by (rule codec_rt_mono [OF codec_rt_of_codec [OF FacebookServiceSearchResponse_codec]]) simp_all

end

context wire_reader
begin

lemma FacebookServiceSearchResponse_total [total_rules]: "dec_total W (FacebookServiceSearchResponse_decode W)"
  unfolding FacebookServiceSearchResponse_decode_def FacebookServiceSearchResponse_cases_def by (intro total_rules)

end

subsection \<open>FacebookServiceListNotificationsRequest\<close>

record FacebookServiceListNotificationsRequest =
  FacebookServiceListNotificationsRequest_sessionId :: string
  FacebookServiceListNotificationsRequest_limit :: int

definition createBaseFacebookServiceListNotificationsRequest :: FacebookServiceListNotificationsRequest where
  "createBaseFacebookServiceListNotificationsRequest = \<lparr>FacebookServiceListNotificationsRequest_sessionId = '''',
     FacebookServiceListNotificationsRequest_limit = 0\<rparr>"

definition FacebookServiceListNotificationsRequest_encode :: "('w, 'r) wire \<Rightarrow> FacebookServiceListNotificationsRequest \<Rightarrow> 'w writer" where
  "FacebookServiceListNotificationsRequest_encode W m = w_seq [
     w_if (FacebookServiceListNotificationsRequest_sessionId m \<noteq> '''') [w_uint32 W 10, w_string W (FacebookServiceListNotificationsRequest_sessionId m)],
     w_if (FacebookServiceListNotificationsRequest_limit m \<noteq> 0) [w_uint32 W 16, w_int32 W (FacebookServiceListNotificationsRequest_limit m)]]"

definition FacebookServiceListNotificationsRequest_cases :: "('w, 'r) wire \<Rightarrow> ('r, FacebookServiceListNotificationsRequest) cases" where
  "FacebookServiceListNotificationsRequest_cases W = [
     (1, 10, d_val (r_string W) (\<lambda>v m. m\<lparr>FacebookServiceListNotificationsRequest_sessionId := v\<rparr>)),
     (2, 16, d_val (r_int32 W) (\<lambda>v m. m\<lparr>FacebookServiceListNotificationsRequest_limit := v\<rparr>))]"

definition FacebookServiceListNotificationsRequest_decode :: "('w, 'r) wire \<Rightarrow> ('r, FacebookServiceListNotificationsRequest) decoder" where
  "FacebookServiceListNotificationsRequest_decode W = d_message W (FacebookServiceListNotificationsRequest_cases W) createBaseFacebookServiceListNotificationsRequest"

lemmas FacebookServiceListNotificationsRequest_defs = FacebookServiceListNotificationsRequest_cases_def createBaseFacebookServiceListNotificationsRequest_def

context wire_lib
begin

lemma FacebookServiceListNotificationsRequest_codec:
  "codec W stk rem 0 (FacebookServiceListNotificationsRequest_encode W) (FacebookServiceListNotificationsRequest_cases W) createBaseFacebookServiceListNotificationsRequest m"
  by (rule codecI [OF FacebookServiceListNotificationsRequest_encode_def],
      rule field_string [where upd = FacebookServiceListNotificationsRequest_sessionId_update], simp add: FacebookServiceListNotificationsRequest_defs, simp add: FacebookServiceListNotificationsRequest_defs,
      rule field_int32 [where upd = FacebookServiceListNotificationsRequest_limit_update], simp add: FacebookServiceListNotificationsRequest_defs, simp add: FacebookServiceListNotificationsRequest_defs,
      rule matched_Nil, cases m, simp add: FacebookServiceListNotificationsRequest_defs)

lemma FacebookServiceListNotificationsRequest_rt: "1 \<le> d \<Longrightarrow> codec_rt W stk rem d (FacebookServiceListNotificationsRequest_encode W) (FacebookServiceListNotificationsRequest_decode W) m"
  unfolding FacebookServiceListNotificationsRequest_decode_def
  by (rule codec_rt_mono [OF codec_rt_of_codec [OF FacebookServiceListNotificationsRequest_codec]]) simp_all

end

context wire_reader
begin

lemma FacebookServiceListNotificationsRequest_total [total_rules]: "dec_total W (FacebookServiceListNotificationsRequest_decode W)"
  unfolding FacebookServiceListNotificationsRequest_decode_def FacebookServiceListNotificationsRequest_cases_def by (intro total_rules)

end

subsection \<open>FacebookServiceListNotificationsResponse\<close>

record FacebookServiceListNotificationsResponse =
  FacebookServiceListNotificationsResponse_notifications :: "FacebookNotification list"

definition createBaseFacebookServiceListNotificationsResponse :: FacebookServiceListNotificationsResponse where
  "createBaseFacebookServiceListNotificationsResponse = \<lparr>FacebookServiceListNotificationsResponse_notifications = []\<rparr>"

definition FacebookServiceListNotificationsResponse_encode :: "('w, 'r) wire \<Rightarrow> FacebookServiceListNotificationsResponse \<Rightarrow> 'w writer" where
  "FacebookServiceListNotificationsResponse_encode W m = w_seq [
     w_for (FacebookServiceListNotificationsResponse_notifications m) (\<lambda>v. [w_uint32 W 10, w_open W, FacebookNotification_encode W v, w_join W])]"

definition FacebookServiceListNotificationsResponse_cases :: "('w, 'r) wire \<Rightarrow> ('r, FacebookServiceListNotificationsResponse) cases" where
  "FacebookServiceListNotificationsResponse_cases W = [
     (1, 10, d_msg W (FacebookNotification_decode W) (\<lambda>v m. m\<lparr>FacebookServiceListNotificationsResponse_notifications := FacebookServiceListNotificationsResponse_notifications m @ [v]\<rparr>))]"

definition FacebookServiceListNotificationsResponse_decode :: "('w, 'r) wire \<Rightarrow> ('r, FacebookServiceListNotificationsResponse) decoder" where
  "FacebookServiceListNotificationsResponse_decode W = d_message W (FacebookServiceListNotificationsResponse_cases W) createBaseFacebookServiceListNotificationsResponse"

definition FacebookServiceListNotificationsResponse_ok :: "FacebookServiceListNotificationsResponse \<Rightarrow> bool" where
  "FacebookServiceListNotificationsResponse_ok m \<longleftrightarrow> list_all FacebookNotification_ok (FacebookServiceListNotificationsResponse_notifications m)"

lemmas FacebookServiceListNotificationsResponse_defs = FacebookServiceListNotificationsResponse_cases_def createBaseFacebookServiceListNotificationsResponse_def

context wire_lib
begin

lemma FacebookServiceListNotificationsResponse_codec:
  assumes ok: "FacebookServiceListNotificationsResponse_ok m"
  shows "codec W stk rem 2 (FacebookServiceListNotificationsResponse_encode W) (FacebookServiceListNotificationsResponse_cases W) createBaseFacebookServiceListNotificationsResponse m"
  by (rule codecI [OF FacebookServiceListNotificationsResponse_encode_def],
      rule field_push_msg [where upd = FacebookServiceListNotificationsResponse_notifications_update and sel = FacebookServiceListNotificationsResponse_notifications], rule FacebookNotification_rt, simp, (use ok in \<open>fastforce simp: FacebookServiceListNotificationsResponse_ok_def list_all_iff\<close>), simp add: FacebookServiceListNotificationsResponse_defs, simp add: FacebookServiceListNotificationsResponse_defs, simp add: FacebookServiceListNotificationsResponse_defs,
      rule matched_Nil, cases m, simp add: FacebookServiceListNotificationsResponse_defs)

lemma FacebookServiceListNotificationsResponse_rt: "3 \<le> d \<Longrightarrow> FacebookServiceListNotificationsResponse_ok m \<Longrightarrow> codec_rt W stk rem d (FacebookServiceListNotificationsResponse_encode W) (FacebookServiceListNotificationsResponse_decode W) m"
  unfolding FacebookServiceListNotificationsResponse_decode_def
  by (rule codec_rt_mono [OF codec_rt_of_codec [OF FacebookServiceListNotificationsResponse_codec]]) simp_all

end

context wire_reader
begin

lemma FacebookServiceListNotificationsResponse_total [total_rules]: "dec_total W (FacebookServiceListNotificationsResponse_decode W)"
  unfolding FacebookServiceListNotificationsResponse_decode_def FacebookServiceListNotificationsResponse_cases_def by (intro total_rules)

end

subsection \<open>FacebookServiceSetBioRequest\<close>

record FacebookServiceSetBioRequest =
  FacebookServiceSetBioRequest_sessionId :: string
  FacebookServiceSetBioRequest_bio :: string
  FacebookServiceSetBioRequest_publishFeedStory :: bool

definition createBaseFacebookServiceSetBioRequest :: FacebookServiceSetBioRequest where
  "createBaseFacebookServiceSetBioRequest = \<lparr>FacebookServiceSetBioRequest_sessionId = '''',
     FacebookServiceSetBioRequest_bio = '''',
     FacebookServiceSetBioRequest_publishFeedStory = False\<rparr>"

definition FacebookServiceSetBioRequest_encode :: "('w, 'r) wire \<Rightarrow> FacebookServiceSetBioRequest \<Rightarrow> 'w writer" where
  "FacebookServiceSetBioRequest_encode W m = w_seq [
     w_if (FacebookServiceSetBioRequest_sessionId m \<noteq> '''') [w_uint32 W 10, w_string W (FacebookServiceSetBioRequest_sessionId m)],
     w_if (FacebookServiceSetBioRequest_bio m \<noteq> '''') [w_uint32 W 18, w_string W (FacebookServiceSetBioRequest_bio m)],
     w_if (FacebookServiceSetBioRequest_publishFeedStory m \<noteq> False) [w_uint32 W 24, w_bool W (FacebookServiceSetBioRequest_publishFeedStory m)]]"

definition FacebookServiceSetBioRequest_cases :: "('w, 'r) wire \<Rightarrow> ('r, FacebookServiceSetBioRequest) cases" where
  "FacebookServiceSetBioRequest_cases W = [
     (1, 10, d_val (r_string W) (\<lambda>v m. m\<lparr>FacebookServiceSetBioRequest_sessionId := v\<rparr>)),
     (2, 18, d_val (r_string W) (\<lambda>v m. m\<lparr>FacebookServiceSetBioRequest_bio := v\<rparr>)),
     (3, 24, d_val (r_bool W) (\<lambda>v m. m\<lparr>FacebookServiceSetBioRequest_publishFeedStory := v\<rparr>))]"

definition FacebookServiceSetBioRequest_decode :: "('w, 'r) wire \<Rightarrow> ('r, FacebookServiceSetBioRequest) decoder" where
  "FacebookServiceSetBioRequest_decode W = d_message W (FacebookServiceSetBioRequest_cases W) createBaseFacebookServiceSetBioRequest"

lemmas FacebookServiceSetBioRequest_defs = FacebookServiceSetBioRequest_cases_def createBaseFacebookServiceSetBioRequest_def

context wire_lib
begin

lemma FacebookServiceSetBioRequest_codec:
  "codec W stk rem 0 (FacebookServiceSetBioRequest_encode W) (FacebookServiceSetBioRequest_cases W) createBaseFacebookServiceSetBioRequest m"
  by (rule codecI [OF FacebookServiceSetBioRequest_encode_def],
      rule field_string [where upd = FacebookServiceSetBioRequest_sessionId_update], simp add: FacebookServiceSetBioRequest_defs, simp add: FacebookServiceSetBioRequest_defs,
      rule field_string [where upd = FacebookServiceSetBioRequest_bio_update], simp add: FacebookServiceSetBioRequest_defs, simp add: FacebookServiceSetBioRequest_defs,
      rule field_bool [where upd = FacebookServiceSetBioRequest_publishFeedStory_update], simp add: FacebookServiceSetBioRequest_defs, simp add: FacebookServiceSetBioRequest_defs,
      rule matched_Nil, cases m, simp add: FacebookServiceSetBioRequest_defs)

lemma FacebookServiceSetBioRequest_rt: "1 \<le> d \<Longrightarrow> codec_rt W stk rem d (FacebookServiceSetBioRequest_encode W) (FacebookServiceSetBioRequest_decode W) m"
  unfolding FacebookServiceSetBioRequest_decode_def
  by (rule codec_rt_mono [OF codec_rt_of_codec [OF FacebookServiceSetBioRequest_codec]]) simp_all

end

context wire_reader
begin

lemma FacebookServiceSetBioRequest_total [total_rules]: "dec_total W (FacebookServiceSetBioRequest_decode W)"
  unfolding FacebookServiceSetBioRequest_decode_def FacebookServiceSetBioRequest_cases_def by (intro total_rules)

end

subsection \<open>FacebookServiceSetBioResponse\<close>

datatype FacebookServiceSetBioResponse = FacebookServiceSetBioResponse

definition createBaseFacebookServiceSetBioResponse :: FacebookServiceSetBioResponse where
  "createBaseFacebookServiceSetBioResponse = FacebookServiceSetBioResponse"

definition FacebookServiceSetBioResponse_encode :: "('w, 'r) wire \<Rightarrow> FacebookServiceSetBioResponse \<Rightarrow> 'w writer" where
  "FacebookServiceSetBioResponse_encode W m = w_seq []"

definition FacebookServiceSetBioResponse_cases :: "('w, 'r) wire \<Rightarrow> ('r, FacebookServiceSetBioResponse) cases" where
  "FacebookServiceSetBioResponse_cases W = []"

definition FacebookServiceSetBioResponse_decode :: "('w, 'r) wire \<Rightarrow> ('r, FacebookServiceSetBioResponse) decoder" where
  "FacebookServiceSetBioResponse_decode W = d_message W (FacebookServiceSetBioResponse_cases W) createBaseFacebookServiceSetBioResponse"

lemmas FacebookServiceSetBioResponse_defs = FacebookServiceSetBioResponse_cases_def createBaseFacebookServiceSetBioResponse_def

context wire_lib
begin

lemma FacebookServiceSetBioResponse_codec:
  "codec W stk rem 0 (FacebookServiceSetBioResponse_encode W) (FacebookServiceSetBioResponse_cases W) createBaseFacebookServiceSetBioResponse m"
  by (rule codecI [OF FacebookServiceSetBioResponse_encode_def],
      rule matched_Nil, cases m, simp add: FacebookServiceSetBioResponse_defs)

lemma FacebookServiceSetBioResponse_rt: "1 \<le> d \<Longrightarrow> codec_rt W stk rem d (FacebookServiceSetBioResponse_encode W) (FacebookServiceSetBioResponse_decode W) m"
  unfolding FacebookServiceSetBioResponse_decode_def
  by (rule codec_rt_mono [OF codec_rt_of_codec [OF FacebookServiceSetBioResponse_codec]]) simp_all

end

context wire_reader
begin

lemma FacebookServiceSetBioResponse_total [total_rules]: "dec_total W (FacebookServiceSetBioResponse_decode W)"
  unfolding FacebookServiceSetBioResponse_decode_def FacebookServiceSetBioResponse_cases_def by (intro total_rules)

end

subsection \<open>FacebookServiceCreateAdditionalProfileRequest\<close>

record FacebookServiceCreateAdditionalProfileRequest =
  FacebookServiceCreateAdditionalProfileRequest_sessionId :: string
  FacebookServiceCreateAdditionalProfileRequest_name :: string
  FacebookServiceCreateAdditionalProfileRequest_username :: string

definition createBaseFacebookServiceCreateAdditionalProfileRequest :: FacebookServiceCreateAdditionalProfileRequest where
  "createBaseFacebookServiceCreateAdditionalProfileRequest = \<lparr>FacebookServiceCreateAdditionalProfileRequest_sessionId = '''',
     FacebookServiceCreateAdditionalProfileRequest_name = '''',
     FacebookServiceCreateAdditionalProfileRequest_username = ''''\<rparr>"

definition FacebookServiceCreateAdditionalProfileRequest_encode :: "('w, 'r) wire \<Rightarrow> FacebookServiceCreateAdditionalProfileRequest \<Rightarrow> 'w writer" where
  "FacebookServiceCreateAdditionalProfileRequest_encode W m = w_seq [
     w_if (FacebookServiceCreateAdditionalProfileRequest_sessionId m \<noteq> '''') [w_uint32 W 10, w_string W (FacebookServiceCreateAdditionalProfileRequest_sessionId m)],
     w_if (FacebookServiceCreateAdditionalProfileRequest_name m \<noteq> '''') [w_uint32 W 18, w_string W (FacebookServiceCreateAdditionalProfileRequest_name m)],
     w_if (FacebookServiceCreateAdditionalProfileRequest_username m \<noteq> '''') [w_uint32 W 26, w_string W (FacebookServiceCreateAdditionalProfileRequest_username m)]]"

definition FacebookServiceCreateAdditionalProfileRequest_cases :: "('w, 'r) wire \<Rightarrow> ('r, FacebookServiceCreateAdditionalProfileRequest) cases" where
  "FacebookServiceCreateAdditionalProfileRequest_cases W = [
     (1, 10, d_val (r_string W) (\<lambda>v m. m\<lparr>FacebookServiceCreateAdditionalProfileRequest_sessionId := v\<rparr>)),
     (2, 18, d_val (r_string W) (\<lambda>v m. m\<lparr>FacebookServiceCreateAdditionalProfileRequest_name := v\<rparr>)),
     (3, 26, d_val (r_string W) (\<lambda>v m. m\<lparr>FacebookServiceCreateAdditionalProfileRequest_username := v\<rparr>))]"

definition FacebookServiceCreateAdditionalProfileRequest_decode :: "('w, 'r) wire \<Rightarrow> ('r, FacebookServiceCreateAdditionalProfileRequest) decoder" where
  "FacebookServiceCreateAdditionalProfileRequest_decode W = d_message W (FacebookServiceCreateAdditionalProfileRequest_cases W) createBaseFacebookServiceCreateAdditionalProfileRequest"

lemmas FacebookServiceCreateAdditionalProfileRequest_defs = FacebookServiceCreateAdditionalProfileRequest_cases_def createBaseFacebookServiceCreateAdditionalProfileRequest_def

context wire_lib
begin

lemma FacebookServiceCreateAdditionalProfileRequest_codec:
  "codec W stk rem 0 (FacebookServiceCreateAdditionalProfileRequest_encode W) (FacebookServiceCreateAdditionalProfileRequest_cases W) createBaseFacebookServiceCreateAdditionalProfileRequest m"
  by (rule codecI [OF FacebookServiceCreateAdditionalProfileRequest_encode_def],
      rule field_string [where upd = FacebookServiceCreateAdditionalProfileRequest_sessionId_update], simp add: FacebookServiceCreateAdditionalProfileRequest_defs, simp add: FacebookServiceCreateAdditionalProfileRequest_defs,
      rule field_string [where upd = FacebookServiceCreateAdditionalProfileRequest_name_update], simp add: FacebookServiceCreateAdditionalProfileRequest_defs, simp add: FacebookServiceCreateAdditionalProfileRequest_defs,
      rule field_string [where upd = FacebookServiceCreateAdditionalProfileRequest_username_update], simp add: FacebookServiceCreateAdditionalProfileRequest_defs, simp add: FacebookServiceCreateAdditionalProfileRequest_defs,
      rule matched_Nil, cases m, simp add: FacebookServiceCreateAdditionalProfileRequest_defs)

lemma FacebookServiceCreateAdditionalProfileRequest_rt: "1 \<le> d \<Longrightarrow> codec_rt W stk rem d (FacebookServiceCreateAdditionalProfileRequest_encode W) (FacebookServiceCreateAdditionalProfileRequest_decode W) m"
  unfolding FacebookServiceCreateAdditionalProfileRequest_decode_def
  by (rule codec_rt_mono [OF codec_rt_of_codec [OF FacebookServiceCreateAdditionalProfileRequest_codec]]) simp_all

end

context wire_reader
begin

lemma FacebookServiceCreateAdditionalProfileRequest_total [total_rules]: "dec_total W (FacebookServiceCreateAdditionalProfileRequest_decode W)"
  unfolding FacebookServiceCreateAdditionalProfileRequest_decode_def FacebookServiceCreateAdditionalProfileRequest_cases_def by (intro total_rules)

end

subsection \<open>FacebookServiceCreateAdditionalProfileResponse\<close>

datatype FacebookServiceCreateAdditionalProfileResponse = FacebookServiceCreateAdditionalProfileResponse

definition createBaseFacebookServiceCreateAdditionalProfileResponse :: FacebookServiceCreateAdditionalProfileResponse where
  "createBaseFacebookServiceCreateAdditionalProfileResponse = FacebookServiceCreateAdditionalProfileResponse"

definition FacebookServiceCreateAdditionalProfileResponse_encode :: "('w, 'r) wire \<Rightarrow> FacebookServiceCreateAdditionalProfileResponse \<Rightarrow> 'w writer" where
  "FacebookServiceCreateAdditionalProfileResponse_encode W m = w_seq []"

definition FacebookServiceCreateAdditionalProfileResponse_cases :: "('w, 'r) wire \<Rightarrow> ('r, FacebookServiceCreateAdditionalProfileResponse) cases" where
  "FacebookServiceCreateAdditionalProfileResponse_cases W = []"

definition FacebookServiceCreateAdditionalProfileResponse_decode :: "('w, 'r) wire \<Rightarrow> ('r, FacebookServiceCreateAdditionalProfileResponse) decoder" where
  "FacebookServiceCreateAdditionalProfileResponse_decode W = d_message W (FacebookServiceCreateAdditionalProfileResponse_cases W) createBaseFacebookServiceCreateAdditionalProfileResponse"

lemmas FacebookServiceCreateAdditionalProfileResponse_defs = FacebookServiceCreateAdditionalProfileResponse_cases_def createBaseFacebookServiceCreateAdditionalProfileResponse_def

context wire_lib
begin

lemma FacebookServiceCreateAdditionalProfileResponse_codec:
  "codec W stk rem 0 (FacebookServiceCreateAdditionalProfileResponse_encode W) (FacebookServiceCreateAdditionalProfileResponse_cases W) createBaseFacebookServiceCreateAdditionalProfileResponse m"
  by (rule codecI [OF FacebookServiceCreateAdditionalProfileResponse_encode_def],
      rule matched_Nil, cases m, simp add: FacebookServiceCreateAdditionalProfileResponse_defs)

lemma FacebookServiceCreateAdditionalProfileResponse_rt: "1 \<le> d \<Longrightarrow> codec_rt W stk rem d (FacebookServiceCreateAdditionalProfileResponse_encode W) (FacebookServiceCreateAdditionalProfileResponse_decode W) m"
  unfolding FacebookServiceCreateAdditionalProfileResponse_decode_def
  by (rule codec_rt_mono [OF codec_rt_of_codec [OF FacebookServiceCreateAdditionalProfileResponse_codec]]) simp_all

end

context wire_reader
begin

lemma FacebookServiceCreateAdditionalProfileResponse_total [total_rules]: "dec_total W (FacebookServiceCreateAdditionalProfileResponse_decode W)"
  unfolding FacebookServiceCreateAdditionalProfileResponse_decode_def FacebookServiceCreateAdditionalProfileResponse_cases_def by (intro total_rules)

end

subsection \<open>FacebookServiceUnfriendRequest\<close>

record FacebookServiceUnfriendRequest =
  FacebookServiceUnfriendRequest_sessionId :: string
  FacebookServiceUnfriendRequest_userId :: string

definition createBaseFacebookServiceUnfriendRequest :: FacebookServiceUnfriendRequest where
  "createBaseFacebookServiceUnfriendRequest = \<lparr>FacebookServiceUnfriendRequest_sessionId = '''',
     FacebookServiceUnfriendRequest_userId = ''''\<rparr>"

definition FacebookServiceUnfriendRequest_encode :: "('w, 'r) wire \<Rightarrow> FacebookServiceUnfriendRequest \<Rightarrow> 'w writer" where
  "FacebookServiceUnfriendRequest_encode W m = w_seq [
     w_if (FacebookServiceUnfriendRequest_sessionId m \<noteq> '''') [w_uint32 W 10, w_string W (FacebookServiceUnfriendRequest_sessionId m)],
     w_if (FacebookServiceUnfriendRequest_userId m \<noteq> '''') [w_uint32 W 18, w_string W (FacebookServiceUnfriendRequest_userId m)]]"

definition FacebookServiceUnfriendRequest_cases :: "('w, 'r) wire \<Rightarrow> ('r, FacebookServiceUnfriendRequest) cases" where
  "FacebookServiceUnfriendRequest_cases W = [
     (1, 10, d_val (r_string W) (\<lambda>v m. m\<lparr>FacebookServiceUnfriendRequest_sessionId := v\<rparr>)),
     (2, 18, d_val (r_string W) (\<lambda>v m. m\<lparr>FacebookServiceUnfriendRequest_userId := v\<rparr>))]"

definition FacebookServiceUnfriendRequest_decode :: "('w, 'r) wire \<Rightarrow> ('r, FacebookServiceUnfriendRequest) decoder" where
  "FacebookServiceUnfriendRequest_decode W = d_message W (FacebookServiceUnfriendRequest_cases W) createBaseFacebookServiceUnfriendRequest"

lemmas FacebookServiceUnfriendRequest_defs = FacebookServiceUnfriendRequest_cases_def createBaseFacebookServiceUnfriendRequest_def

context wire_lib
begin

lemma FacebookServiceUnfriendRequest_codec:
  "codec W stk rem 0 (FacebookServiceUnfriendRequest_encode W) (FacebookServiceUnfriendRequest_cases W) createBaseFacebookServiceUnfriendRequest m"
  by (rule codecI [OF FacebookServiceUnfriendRequest_encode_def],
      rule field_string [where upd = FacebookServiceUnfriendRequest_sessionId_update], simp add: FacebookServiceUnfriendRequest_defs, simp add: FacebookServiceUnfriendRequest_defs,
      rule field_string [where upd = FacebookServiceUnfriendRequest_userId_update], simp add: FacebookServiceUnfriendRequest_defs, simp add: FacebookServiceUnfriendRequest_defs,
      rule matched_Nil, cases m, simp add: FacebookServiceUnfriendRequest_defs)

lemma FacebookServiceUnfriendRequest_rt: "1 \<le> d \<Longrightarrow> codec_rt W stk rem d (FacebookServiceUnfriendRequest_encode W) (FacebookServiceUnfriendRequest_decode W) m"
  unfolding FacebookServiceUnfriendRequest_decode_def
  by (rule codec_rt_mono [OF codec_rt_of_codec [OF FacebookServiceUnfriendRequest_codec]]) simp_all

end

context wire_reader
begin

lemma FacebookServiceUnfriendRequest_total [total_rules]: "dec_total W (FacebookServiceUnfriendRequest_decode W)"
  unfolding FacebookServiceUnfriendRequest_decode_def FacebookServiceUnfriendRequest_cases_def by (intro total_rules)

end

subsection \<open>FacebookServiceUnfriendResponse\<close>

datatype FacebookServiceUnfriendResponse = FacebookServiceUnfriendResponse

definition createBaseFacebookServiceUnfriendResponse :: FacebookServiceUnfriendResponse where
  "createBaseFacebookServiceUnfriendResponse = FacebookServiceUnfriendResponse"

definition FacebookServiceUnfriendResponse_encode :: "('w, 'r) wire \<Rightarrow> FacebookServiceUnfriendResponse \<Rightarrow> 'w writer" where
  "FacebookServiceUnfriendResponse_encode W m = w_seq []"

definition FacebookServiceUnfriendResponse_cases :: "('w, 'r) wire \<Rightarrow> ('r, FacebookServiceUnfriendResponse) cases" where
  "FacebookServiceUnfriendResponse_cases W = []"

definition FacebookServiceUnfriendResponse_decode :: "('w, 'r) wire \<Rightarrow> ('r, FacebookServiceUnfriendResponse) decoder" where
  "FacebookServiceUnfriendResponse_decode W = d_message W (FacebookServiceUnfriendResponse_cases W) createBaseFacebookServiceUnfriendResponse"

lemmas FacebookServiceUnfriendResponse_defs = FacebookServiceUnfriendResponse_cases_def createBaseFacebookServiceUnfriendResponse_def

context wire_lib
begin

lemma FacebookServiceUnfriendResponse_codec:
  "codec W stk rem 0 (FacebookServiceUnfriendResponse_encode W) (FacebookServiceUnfriendResponse_cases W) createBaseFacebookServiceUnfriendResponse m"
  by (rule codecI [OF FacebookServiceUnfriendResponse_encode_def],
      rule matched_Nil, cases m, simp add: FacebookServiceUnfriendResponse_defs)

lemma FacebookServiceUnfriendResponse_rt: "1 \<le> d \<Longrightarrow> codec_rt W stk rem d (FacebookServiceUnfriendResponse_encode W) (FacebookServiceUnfriendResponse_decode W) m"
  unfolding FacebookServiceUnfriendResponse_decode_def
  by (rule codec_rt_mono [OF codec_rt_of_codec [OF FacebookServiceUnfriendResponse_codec]]) simp_all

end

context wire_reader
begin

lemma FacebookServiceUnfriendResponse_total [total_rules]: "dec_total W (FacebookServiceUnfriendResponse_decode W)"
  unfolding FacebookServiceUnfriendResponse_decode_def FacebookServiceUnfriendResponse_cases_def by (intro total_rules)

end

subsection \<open>FacebookServiceSetBlockedRequest\<close>

record FacebookServiceSetBlockedRequest =
  FacebookServiceSetBlockedRequest_sessionId :: string
  FacebookServiceSetBlockedRequest_userId :: string
  FacebookServiceSetBlockedRequest_blocked :: bool

definition createBaseFacebookServiceSetBlockedRequest :: FacebookServiceSetBlockedRequest where
  "createBaseFacebookServiceSetBlockedRequest = \<lparr>FacebookServiceSetBlockedRequest_sessionId = '''',
     FacebookServiceSetBlockedRequest_userId = '''',
     FacebookServiceSetBlockedRequest_blocked = False\<rparr>"

definition FacebookServiceSetBlockedRequest_encode :: "('w, 'r) wire \<Rightarrow> FacebookServiceSetBlockedRequest \<Rightarrow> 'w writer" where
  "FacebookServiceSetBlockedRequest_encode W m = w_seq [
     w_if (FacebookServiceSetBlockedRequest_sessionId m \<noteq> '''') [w_uint32 W 10, w_string W (FacebookServiceSetBlockedRequest_sessionId m)],
     w_if (FacebookServiceSetBlockedRequest_userId m \<noteq> '''') [w_uint32 W 18, w_string W (FacebookServiceSetBlockedRequest_userId m)],
     w_if (FacebookServiceSetBlockedRequest_blocked m \<noteq> False) [w_uint32 W 24, w_bool W (FacebookServiceSetBlockedRequest_blocked m)]]"

definition FacebookServiceSetBlockedRequest_cases :: "('w, 'r) wire \<Rightarrow> ('r, FacebookServiceSetBlockedRequest) cases" where
  "FacebookServiceSetBlockedRequest_cases W = [
     (1, 10, d_val (r_string W) (\<lambda>v m. m\<lparr>FacebookServiceSetBlockedRequest_sessionId := v\<rparr>)),
     (2, 18, d_val (r_string W) (\<lambda>v m. m\<lparr>FacebookServiceSetBlockedRequest_userId := v\<rparr>)),
     (3, 24, d_val (r_bool W) (\<lambda>v m. m\<lparr>FacebookServiceSetBlockedRequest_blocked := v\<rparr>))]"

definition FacebookServiceSetBlockedRequest_decode :: "('w, 'r) wire \<Rightarrow> ('r, FacebookServiceSetBlockedRequest) decoder" where
  "FacebookServiceSetBlockedRequest_decode W = d_message W (FacebookServiceSetBlockedRequest_cases W) createBaseFacebookServiceSetBlockedRequest"

lemmas FacebookServiceSetBlockedRequest_defs = FacebookServiceSetBlockedRequest_cases_def createBaseFacebookServiceSetBlockedRequest_def

context wire_lib
begin

lemma FacebookServiceSetBlockedRequest_codec:
  "codec W stk rem 0 (FacebookServiceSetBlockedRequest_encode W) (FacebookServiceSetBlockedRequest_cases W) createBaseFacebookServiceSetBlockedRequest m"
  by (rule codecI [OF FacebookServiceSetBlockedRequest_encode_def],
      rule field_string [where upd = FacebookServiceSetBlockedRequest_sessionId_update], simp add: FacebookServiceSetBlockedRequest_defs, simp add: FacebookServiceSetBlockedRequest_defs,
      rule field_string [where upd = FacebookServiceSetBlockedRequest_userId_update], simp add: FacebookServiceSetBlockedRequest_defs, simp add: FacebookServiceSetBlockedRequest_defs,
      rule field_bool [where upd = FacebookServiceSetBlockedRequest_blocked_update], simp add: FacebookServiceSetBlockedRequest_defs, simp add: FacebookServiceSetBlockedRequest_defs,
      rule matched_Nil, cases m, simp add: FacebookServiceSetBlockedRequest_defs)

lemma FacebookServiceSetBlockedRequest_rt: "1 \<le> d \<Longrightarrow> codec_rt W stk rem d (FacebookServiceSetBlockedRequest_encode W) (FacebookServiceSetBlockedRequest_decode W) m"
  unfolding FacebookServiceSetBlockedRequest_decode_def
  by (rule codec_rt_mono [OF codec_rt_of_codec [OF FacebookServiceSetBlockedRequest_codec]]) simp_all

end

context wire_reader
begin

lemma FacebookServiceSetBlockedRequest_total [total_rules]: "dec_total W (FacebookServiceSetBlockedRequest_decode W)"
  unfolding FacebookServiceSetBlockedRequest_decode_def FacebookServiceSetBlockedRequest_cases_def by (intro total_rules)

end

subsection \<open>FacebookServiceSetBlockedResponse\<close>

datatype FacebookServiceSetBlockedResponse = FacebookServiceSetBlockedResponse

definition createBaseFacebookServiceSetBlockedResponse :: FacebookServiceSetBlockedResponse where
  "createBaseFacebookServiceSetBlockedResponse = FacebookServiceSetBlockedResponse"

definition FacebookServiceSetBlockedResponse_encode :: "('w, 'r) wire \<Rightarrow> FacebookServiceSetBlockedResponse \<Rightarrow> 'w writer" where
  "FacebookServiceSetBlockedResponse_encode W m = w_seq []"

definition FacebookServiceSetBlockedResponse_cases :: "('w, 'r) wire \<Rightarrow> ('r, FacebookServiceSetBlockedResponse) cases" where
  "FacebookServiceSetBlockedResponse_cases W = []"

definition FacebookServiceSetBlockedResponse_decode :: "('w, 'r) wire \<Rightarrow> ('r, FacebookServiceSetBlockedResponse) decoder" where
  "FacebookServiceSetBlockedResponse_decode W = d_message W (FacebookServiceSetBlockedResponse_cases W) createBaseFacebookServiceSetBlockedResponse"

lemmas FacebookServiceSetBlockedResponse_defs = FacebookServiceSetBlockedResponse_cases_def createBaseFacebookServiceSetBlockedResponse_def

context wire_lib
begin

lemma FacebookServiceSetBlockedResponse_codec:
  "codec W stk rem 0 (FacebookServiceSetBlockedResponse_encode W) (FacebookServiceSetBlockedResponse_cases W) createBaseFacebookServiceSetBlockedResponse m"
  by (rule codecI [OF FacebookServiceSetBlockedResponse_encode_def],
      rule matched_Nil, cases m, simp add: FacebookServiceSetBlockedResponse_defs)

lemma FacebookServiceSetBlockedResponse_rt: "1 \<le> d \<Longrightarrow> codec_rt W stk rem d (FacebookServiceSetBlockedResponse_encode W) (FacebookServiceSetBlockedResponse_decode W) m"
  unfolding FacebookServiceSetBlockedResponse_decode_def
  by (rule codec_rt_mono [OF codec_rt_of_codec [OF FacebookServiceSetBlockedResponse_codec]]) simp_all

end

context wire_reader
begin

lemma FacebookServiceSetBlockedResponse_total [total_rules]: "dec_total W (FacebookServiceSetBlockedResponse_decode W)"
  unfolding FacebookServiceSetBlockedResponse_decode_def FacebookServiceSetBlockedResponse_cases_def by (intro total_rules)

end

subsection \<open>FacebookServiceCreatePostRequest\<close>

record FacebookServiceCreatePostRequest =
  FacebookServiceCreatePostRequest_sessionId :: string
  FacebookServiceCreatePostRequest_text :: string

definition createBaseFacebookServiceCreatePostRequest :: FacebookServiceCreatePostRequest where
  "createBaseFacebookServiceCreatePostRequest = \<lparr>FacebookServiceCreatePostRequest_sessionId = '''',
     FacebookServiceCreatePostRequest_text = ''''\<rparr>"

definition FacebookServiceCreatePostRequest_encode :: "('w, 'r) wire \<Rightarrow> FacebookServiceCreatePostRequest \<Rightarrow> 'w writer" where
  "FacebookServiceCreatePostRequest_encode W m = w_seq [
     w_if (FacebookServiceCreatePostRequest_sessionId m \<noteq> '''') [w_uint32 W 10, w_string W (FacebookServiceCreatePostRequest_sessionId m)],
     w_if (FacebookServiceCreatePostRequest_text m \<noteq> '''') [w_uint32 W 18, w_string W (FacebookServiceCreatePostRequest_text m)]]"

definition FacebookServiceCreatePostRequest_cases :: "('w, 'r) wire \<Rightarrow> ('r, FacebookServiceCreatePostRequest) cases" where
  "FacebookServiceCreatePostRequest_cases W = [
     (1, 10, d_val (r_string W) (\<lambda>v m. m\<lparr>FacebookServiceCreatePostRequest_sessionId := v\<rparr>)),
     (2, 18, d_val (r_string W) (\<lambda>v m. m\<lparr>FacebookServiceCreatePostRequest_text := v\<rparr>))]"

definition FacebookServiceCreatePostRequest_decode :: "('w, 'r) wire \<Rightarrow> ('r, FacebookServiceCreatePostRequest) decoder" where
  "FacebookServiceCreatePostRequest_decode W = d_message W (FacebookServiceCreatePostRequest_cases W) createBaseFacebookServiceCreatePostRequest"

lemmas FacebookServiceCreatePostRequest_defs = FacebookServiceCreatePostRequest_cases_def createBaseFacebookServiceCreatePostRequest_def

context wire_lib
begin

lemma FacebookServiceCreatePostRequest_codec:
  "codec W stk rem 0 (FacebookServiceCreatePostRequest_encode W) (FacebookServiceCreatePostRequest_cases W) createBaseFacebookServiceCreatePostRequest m"
  by (rule codecI [OF FacebookServiceCreatePostRequest_encode_def],
      rule field_string [where upd = FacebookServiceCreatePostRequest_sessionId_update], simp add: FacebookServiceCreatePostRequest_defs, simp add: FacebookServiceCreatePostRequest_defs,
      rule field_string [where upd = FacebookServiceCreatePostRequest_text_update], simp add: FacebookServiceCreatePostRequest_defs, simp add: FacebookServiceCreatePostRequest_defs,
      rule matched_Nil, cases m, simp add: FacebookServiceCreatePostRequest_defs)

lemma FacebookServiceCreatePostRequest_rt: "1 \<le> d \<Longrightarrow> codec_rt W stk rem d (FacebookServiceCreatePostRequest_encode W) (FacebookServiceCreatePostRequest_decode W) m"
  unfolding FacebookServiceCreatePostRequest_decode_def
  by (rule codec_rt_mono [OF codec_rt_of_codec [OF FacebookServiceCreatePostRequest_codec]]) simp_all

end

context wire_reader
begin

lemma FacebookServiceCreatePostRequest_total [total_rules]: "dec_total W (FacebookServiceCreatePostRequest_decode W)"
  unfolding FacebookServiceCreatePostRequest_decode_def FacebookServiceCreatePostRequest_cases_def by (intro total_rules)

end

subsection \<open>FacebookServiceCreatePostResponse\<close>

record FacebookServiceCreatePostResponse =
  FacebookServiceCreatePostResponse_post :: "FacebookPost option"

definition createBaseFacebookServiceCreatePostResponse :: FacebookServiceCreatePostResponse where
  "createBaseFacebookServiceCreatePostResponse = \<lparr>FacebookServiceCreatePostResponse_post = None\<rparr>"

definition FacebookServiceCreatePostResponse_encode :: "('w, 'r) wire \<Rightarrow> FacebookServiceCreatePostResponse \<Rightarrow> 'w writer" where
  "FacebookServiceCreatePostResponse_encode W m = w_seq [
     w_some (FacebookServiceCreatePostResponse_post m) (\<lambda>v. [w_uint32 W 10, w_open W, FacebookPost_encode W v, w_join W])]"

definition FacebookServiceCreatePostResponse_cases :: "('w, 'r) wire \<Rightarrow> ('r, FacebookServiceCreatePostResponse) cases" where
  "FacebookServiceCreatePostResponse_cases W = [
     (1, 10, d_msg W (FacebookPost_decode W) (\<lambda>v m. m\<lparr>FacebookServiceCreatePostResponse_post := Some v\<rparr>))]"

definition FacebookServiceCreatePostResponse_decode :: "('w, 'r) wire \<Rightarrow> ('r, FacebookServiceCreatePostResponse) decoder" where
  "FacebookServiceCreatePostResponse_decode W = d_message W (FacebookServiceCreatePostResponse_cases W) createBaseFacebookServiceCreatePostResponse"

lemmas FacebookServiceCreatePostResponse_defs = FacebookServiceCreatePostResponse_cases_def createBaseFacebookServiceCreatePostResponse_def

context wire_lib
begin

lemma FacebookServiceCreatePostResponse_codec:
  "codec W stk rem 1 (FacebookServiceCreatePostResponse_encode W) (FacebookServiceCreatePostResponse_cases W) createBaseFacebookServiceCreatePostResponse m"
  by (rule codecI [OF FacebookServiceCreatePostResponse_encode_def],
      rule field_msg [where upd = FacebookServiceCreatePostResponse_post_update], rule FacebookPost_rt, simp, simp add: FacebookServiceCreatePostResponse_defs, simp add: FacebookServiceCreatePostResponse_defs,
      rule matched_Nil, cases m, simp add: FacebookServiceCreatePostResponse_defs)

lemma FacebookServiceCreatePostResponse_rt: "2 \<le> d \<Longrightarrow> codec_rt W stk rem d (FacebookServiceCreatePostResponse_encode W) (FacebookServiceCreatePostResponse_decode W) m"
  unfolding FacebookServiceCreatePostResponse_decode_def
  by (rule codec_rt_mono [OF codec_rt_of_codec [OF FacebookServiceCreatePostResponse_codec]]) simp_all

end

context wire_reader
begin

lemma FacebookServiceCreatePostResponse_total [total_rules]: "dec_total W (FacebookServiceCreatePostResponse_decode W)"
  unfolding FacebookServiceCreatePostResponse_decode_def FacebookServiceCreatePostResponse_cases_def by (intro total_rules)

end

subsection \<open>FacebookServiceArchivePostRequest\<close>

record FacebookServiceArchivePostRequest =
  FacebookServiceArchivePostRequest_sessionId :: string
  FacebookServiceArchivePostRequest_postId :: string
  FacebookServiceArchivePostRequest_ownership :: int

definition createBaseFacebookServiceArchivePostRequest :: FacebookServiceArchivePostRequest where
  "createBaseFacebookServiceArchivePostRequest = \<lparr>FacebookServiceArchivePostRequest_sessionId = '''',
     FacebookServiceArchivePostRequest_postId = '''',
     FacebookServiceArchivePostRequest_ownership = 0\<rparr>"

definition FacebookServiceArchivePostRequest_encode :: "('w, 'r) wire \<Rightarrow> FacebookServiceArchivePostRequest \<Rightarrow> 'w writer" where
  "FacebookServiceArchivePostRequest_encode W m = w_seq [
     w_if (FacebookServiceArchivePostRequest_sessionId m \<noteq> '''') [w_uint32 W 10, w_string W (FacebookServiceArchivePostRequest_sessionId m)],
     w_if (FacebookServiceArchivePostRequest_postId m \<noteq> '''') [w_uint32 W 18, w_string W (FacebookServiceArchivePostRequest_postId m)],
     w_if (FacebookServiceArchivePostRequest_ownership m \<noteq> 0) [w_uint32 W 24, w_int32 W (FacebookServiceArchivePostRequest_ownership m)]]"

definition FacebookServiceArchivePostRequest_cases :: "('w, 'r) wire \<Rightarrow> ('r, FacebookServiceArchivePostRequest) cases" where
  "FacebookServiceArchivePostRequest_cases W = [
     (1, 10, d_val (r_string W) (\<lambda>v m. m\<lparr>FacebookServiceArchivePostRequest_sessionId := v\<rparr>)),
     (2, 18, d_val (r_string W) (\<lambda>v m. m\<lparr>FacebookServiceArchivePostRequest_postId := v\<rparr>)),
     (3, 24, d_val (r_int32 W) (\<lambda>v m. m\<lparr>FacebookServiceArchivePostRequest_ownership := v\<rparr>))]"

definition FacebookServiceArchivePostRequest_decode :: "('w, 'r) wire \<Rightarrow> ('r, FacebookServiceArchivePostRequest) decoder" where
  "FacebookServiceArchivePostRequest_decode W = d_message W (FacebookServiceArchivePostRequest_cases W) createBaseFacebookServiceArchivePostRequest"

lemmas FacebookServiceArchivePostRequest_defs = FacebookServiceArchivePostRequest_cases_def createBaseFacebookServiceArchivePostRequest_def

context wire_lib
begin

lemma FacebookServiceArchivePostRequest_codec:
  "codec W stk rem 0 (FacebookServiceArchivePostRequest_encode W) (FacebookServiceArchivePostRequest_cases W) createBaseFacebookServiceArchivePostRequest m"
  by (rule codecI [OF FacebookServiceArchivePostRequest_encode_def],
      rule field_string [where upd = FacebookServiceArchivePostRequest_sessionId_update], simp add: FacebookServiceArchivePostRequest_defs, simp add: FacebookServiceArchivePostRequest_defs,
      rule field_string [where upd = FacebookServiceArchivePostRequest_postId_update], simp add: FacebookServiceArchivePostRequest_defs, simp add: FacebookServiceArchivePostRequest_defs,
      rule field_int32 [where upd = FacebookServiceArchivePostRequest_ownership_update], simp add: FacebookServiceArchivePostRequest_defs, simp add: FacebookServiceArchivePostRequest_defs,
      rule matched_Nil, cases m, simp add: FacebookServiceArchivePostRequest_defs)

lemma FacebookServiceArchivePostRequest_rt: "1 \<le> d \<Longrightarrow> codec_rt W stk rem d (FacebookServiceArchivePostRequest_encode W) (FacebookServiceArchivePostRequest_decode W) m"
  unfolding FacebookServiceArchivePostRequest_decode_def
  by (rule codec_rt_mono [OF codec_rt_of_codec [OF FacebookServiceArchivePostRequest_codec]]) simp_all

end

context wire_reader
begin

lemma FacebookServiceArchivePostRequest_total [total_rules]: "dec_total W (FacebookServiceArchivePostRequest_decode W)"
  unfolding FacebookServiceArchivePostRequest_decode_def FacebookServiceArchivePostRequest_cases_def by (intro total_rules)

end

subsection \<open>FacebookServiceArchivePostResponse\<close>

datatype FacebookServiceArchivePostResponse = FacebookServiceArchivePostResponse

definition createBaseFacebookServiceArchivePostResponse :: FacebookServiceArchivePostResponse where
  "createBaseFacebookServiceArchivePostResponse = FacebookServiceArchivePostResponse"

definition FacebookServiceArchivePostResponse_encode :: "('w, 'r) wire \<Rightarrow> FacebookServiceArchivePostResponse \<Rightarrow> 'w writer" where
  "FacebookServiceArchivePostResponse_encode W m = w_seq []"

definition FacebookServiceArchivePostResponse_cases :: "('w, 'r) wire \<Rightarrow> ('r, FacebookServiceArchivePostResponse) cases" where
  "FacebookServiceArchivePostResponse_cases W = []"

definition FacebookServiceArchivePostResponse_decode :: "('w, 'r) wire \<Rightarrow> ('r, FacebookServiceArchivePostResponse) decoder" where
  "FacebookServiceArchivePostResponse_decode W = d_message W (FacebookServiceArchivePostResponse_cases W) createBaseFacebookServiceArchivePostResponse"

lemmas FacebookServiceArchivePostResponse_defs = FacebookServiceArchivePostResponse_cases_def createBaseFacebookServiceArchivePostResponse_def

context wire_lib
begin

lemma FacebookServiceArchivePostResponse_codec:
  "codec W stk rem 0 (FacebookServiceArchivePostResponse_encode W) (FacebookServiceArchivePostResponse_cases W) createBaseFacebookServiceArchivePostResponse m"
  by (rule codecI [OF FacebookServiceArchivePostResponse_encode_def],
      rule matched_Nil, cases m, simp add: FacebookServiceArchivePostResponse_defs)

lemma FacebookServiceArchivePostResponse_rt: "1 \<le> d \<Longrightarrow> codec_rt W stk rem d (FacebookServiceArchivePostResponse_encode W) (FacebookServiceArchivePostResponse_decode W) m"
  unfolding FacebookServiceArchivePostResponse_decode_def
  by (rule codec_rt_mono [OF codec_rt_of_codec [OF FacebookServiceArchivePostResponse_codec]]) simp_all

end

context wire_reader
begin

lemma FacebookServiceArchivePostResponse_total [total_rules]: "dec_total W (FacebookServiceArchivePostResponse_decode W)"
  unfolding FacebookServiceArchivePostResponse_decode_def FacebookServiceArchivePostResponse_cases_def by (intro total_rules)

end

subsection \<open>FacebookServiceDeletePostRequest\<close>

record FacebookServiceDeletePostRequest =
  FacebookServiceDeletePostRequest_sessionId :: string
  FacebookServiceDeletePostRequest_postId :: string
  FacebookServiceDeletePostRequest_ownership :: int

definition createBaseFacebookServiceDeletePostRequest :: FacebookServiceDeletePostRequest where
  "createBaseFacebookServiceDeletePostRequest = \<lparr>FacebookServiceDeletePostRequest_sessionId = '''',
     FacebookServiceDeletePostRequest_postId = '''',
     FacebookServiceDeletePostRequest_ownership = 0\<rparr>"

definition FacebookServiceDeletePostRequest_encode :: "('w, 'r) wire \<Rightarrow> FacebookServiceDeletePostRequest \<Rightarrow> 'w writer" where
  "FacebookServiceDeletePostRequest_encode W m = w_seq [
     w_if (FacebookServiceDeletePostRequest_sessionId m \<noteq> '''') [w_uint32 W 10, w_string W (FacebookServiceDeletePostRequest_sessionId m)],
     w_if (FacebookServiceDeletePostRequest_postId m \<noteq> '''') [w_uint32 W 18, w_string W (FacebookServiceDeletePostRequest_postId m)],
     w_if (FacebookServiceDeletePostRequest_ownership m \<noteq> 0) [w_uint32 W 24, w_int32 W (FacebookServiceDeletePostRequest_ownership m)]]"

definition FacebookServiceDeletePostRequest_cases :: "('w, 'r) wire \<Rightarrow> ('r, FacebookServiceDeletePostRequest) cases" where
  "FacebookServiceDeletePostRequest_cases W = [
     (1, 10, d_val (r_string W) (\<lambda>v m. m\<lparr>FacebookServiceDeletePostRequest_sessionId := v\<rparr>)),
     (2, 18, d_val (r_string W) (\<lambda>v m. m\<lparr>FacebookServiceDeletePostRequest_postId := v\<rparr>)),
     (3, 24, d_val (r_int32 W) (\<lambda>v m. m\<lparr>FacebookServiceDeletePostRequest_ownership := v\<rparr>))]"

definition FacebookServiceDeletePostRequest_decode :: "('w, 'r) wire \<Rightarrow> ('r, FacebookServiceDeletePostRequest) decoder" where
  "FacebookServiceDeletePostRequest_decode W = d_message W (FacebookServiceDeletePostRequest_cases W) createBaseFacebookServiceDeletePostRequest"

lemmas FacebookServiceDeletePostRequest_defs = FacebookServiceDeletePostRequest_cases_def createBaseFacebookServiceDeletePostRequest_def

context wire_lib
begin

lemma FacebookServiceDeletePostRequest_codec:
  "codec W stk rem 0 (FacebookServiceDeletePostRequest_encode W) (FacebookServiceDeletePostRequest_cases W) createBaseFacebookServiceDeletePostRequest m"
  by (rule codecI [OF FacebookServiceDeletePostRequest_encode_def],
      rule field_string [where upd = FacebookServiceDeletePostRequest_sessionId_update], simp add: FacebookServiceDeletePostRequest_defs, simp add: FacebookServiceDeletePostRequest_defs,
      rule field_string [where upd = FacebookServiceDeletePostRequest_postId_update], simp add: FacebookServiceDeletePostRequest_defs, simp add: FacebookServiceDeletePostRequest_defs,
      rule field_int32 [where upd = FacebookServiceDeletePostRequest_ownership_update], simp add: FacebookServiceDeletePostRequest_defs, simp add: FacebookServiceDeletePostRequest_defs,
      rule matched_Nil, cases m, simp add: FacebookServiceDeletePostRequest_defs)

lemma FacebookServiceDeletePostRequest_rt: "1 \<le> d \<Longrightarrow> codec_rt W stk rem d (FacebookServiceDeletePostRequest_encode W) (FacebookServiceDeletePostRequest_decode W) m"
  unfolding FacebookServiceDeletePostRequest_decode_def
  by (rule codec_rt_mono [OF codec_rt_of_codec [OF FacebookServiceDeletePostRequest_codec]]) simp_all

end

context wire_reader
begin

lemma FacebookServiceDeletePostRequest_total [total_rules]: "dec_total W (FacebookServiceDeletePostRequest_decode W)"
  unfolding FacebookServiceDeletePostRequest_decode_def FacebookServiceDeletePostRequest_cases_def by (intro total_rules)

end

subsection \<open>FacebookServiceDeletePostResponse\<close>

datatype FacebookServiceDeletePostResponse = FacebookServiceDeletePostResponse

definition createBaseFacebookServiceDeletePostResponse :: FacebookServiceDeletePostResponse where
  "createBaseFacebookServiceDeletePostResponse = FacebookServiceDeletePostResponse"

definition FacebookServiceDeletePostResponse_encode :: "('w, 'r) wire \<Rightarrow> FacebookServiceDeletePostResponse \<Rightarrow> 'w writer" where
  "FacebookServiceDeletePostResponse_encode W m = w_seq []"

definition FacebookServiceDeletePostResponse_cases :: "('w, 'r) wire \<Rightarrow> ('r, FacebookServiceDeletePostResponse) cases" where
  "FacebookServiceDeletePostResponse_cases W = []"

definition FacebookServiceDeletePostResponse_decode :: "('w, 'r) wire \<Rightarrow> ('r, FacebookServiceDeletePostResponse) decoder" where
  "FacebookServiceDeletePostResponse_decode W = d_message W (FacebookServiceDeletePostResponse_cases W) createBaseFacebookServiceDeletePostResponse"

lemmas FacebookServiceDeletePostResponse_defs = FacebookServiceDeletePostResponse_cases_def createBaseFacebookServiceDeletePostResponse_def

context wire_lib
begin

lemma FacebookServiceDeletePostResponse_codec:
  "codec W stk rem 0 (FacebookServiceDeletePostResponse_encode W) (FacebookServiceDeletePostResponse_cases W) createBaseFacebookServiceDeletePostResponse m"
  by (rule codecI [OF FacebookServiceDeletePostResponse_encode_def],
      rule matched_Nil, cases m, simp add: FacebookServiceDeletePostResponse_defs)

lemma FacebookServiceDeletePostResponse_rt: "1 \<le> d \<Longrightarrow> codec_rt W stk rem d (FacebookServiceDeletePostResponse_encode W) (FacebookServiceDeletePostResponse_decode W) m"
  unfolding FacebookServiceDeletePostResponse_decode_def
  by (rule codec_rt_mono [OF codec_rt_of_codec [OF FacebookServiceDeletePostResponse_codec]]) simp_all

end

context wire_reader
begin

lemma FacebookServiceDeletePostResponse_total [total_rules]: "dec_total W (FacebookServiceDeletePostResponse_decode W)"
  unfolding FacebookServiceDeletePostResponse_decode_def FacebookServiceDeletePostResponse_cases_def by (intro total_rules)

end

subsection \<open>FacebookServiceCreateMarketplaceListingRequest\<close>

record FacebookServiceCreateMarketplaceListingRequest =
  FacebookServiceCreateMarketplaceListingRequest_sessionId :: string
  FacebookServiceCreateMarketplaceListingRequest_listing :: "MarketplaceListingInput option"

definition createBaseFacebookServiceCreateMarketplaceListingRequest :: FacebookServiceCreateMarketplaceListingRequest where
  "createBaseFacebookServiceCreateMarketplaceListingRequest = \<lparr>FacebookServiceCreateMarketplaceListingRequest_sessionId = '''',
     FacebookServiceCreateMarketplaceListingRequest_listing = None\<rparr>"

definition FacebookServiceCreateMarketplaceListingRequest_encode :: "('w, 'r) wire \<Rightarrow> FacebookServiceCreateMarketplaceListingRequest \<Rightarrow> 'w writer" where
  "FacebookServiceCreateMarketplaceListingRequest_encode W m = w_seq [
     w_if (FacebookServiceCreateMarketplaceListingRequest_sessionId m \<noteq> '''') [w_uint32 W 10, w_string W (FacebookServiceCreateMarketplaceListingRequest_sessionId m)],
     w_some (FacebookServiceCreateMarketplaceListingRequest_listing m) (\<lambda>v. [w_uint32 W 18, w_open W, MarketplaceListingInput_encode W v, w_join W])]"

definition FacebookServiceCreateMarketplaceListingRequest_cases :: "('w, 'r) wire \<Rightarrow> ('r, FacebookServiceCreateMarketplaceListingRequest) cases" where
  "FacebookServiceCreateMarketplaceListingRequest_cases W = [
     (1, 10, d_val (r_string W) (\<lambda>v m. m\<lparr>FacebookServiceCreateMarketplaceListingRequest_sessionId := v\<rparr>)),
     (2, 18, d_msg W (MarketplaceListingInput_decode W) (\<lambda>v m. m\<lparr>FacebookServiceCreateMarketplaceListingRequest_listing := Some v\<rparr>))]"

definition FacebookServiceCreateMarketplaceListingRequest_decode :: "('w, 'r) wire \<Rightarrow> ('r, FacebookServiceCreateMarketplaceListingRequest) decoder" where
  "FacebookServiceCreateMarketplaceListingRequest_decode W = d_message W (FacebookServiceCreateMarketplaceListingRequest_cases W) createBaseFacebookServiceCreateMarketplaceListingRequest"

definition FacebookServiceCreateMarketplaceListingRequest_ok :: "FacebookServiceCreateMarketplaceListingRequest \<Rightarrow> bool" where
  "FacebookServiceCreateMarketplaceListingRequest_ok m \<longleftrightarrow> pred_option MarketplaceListingInput_ok (FacebookServiceCreateMarketplaceListingRequest_listing m)"

lemmas FacebookServiceCreateMarketplaceListingRequest_defs = FacebookServiceCreateMarketplaceListingRequest_cases_def createBaseFacebookServiceCreateMarketplaceListingRequest_def

context wire_lib
begin

lemma FacebookServiceCreateMarketplaceListingRequest_codec:
  assumes ok: "FacebookServiceCreateMarketplaceListingRequest_ok m"
  shows "codec W stk rem 2 (FacebookServiceCreateMarketplaceListingRequest_encode W) (FacebookServiceCreateMarketplaceListingRequest_cases W) createBaseFacebookServiceCreateMarketplaceListingRequest m"
  by (rule codecI [OF FacebookServiceCreateMarketplaceListingRequest_encode_def],
      rule field_string [where upd = FacebookServiceCreateMarketplaceListingRequest_sessionId_update], simp add: FacebookServiceCreateMarketplaceListingRequest_defs, simp add: FacebookServiceCreateMarketplaceListingRequest_defs,
      rule field_msg [where upd = FacebookServiceCreateMarketplaceListingRequest_listing_update], rule MarketplaceListingInput_rt, simp, (use ok in \<open>fastforce simp: FacebookServiceCreateMarketplaceListingRequest_ok_def list_all_iff\<close>), simp add: FacebookServiceCreateMarketplaceListingRequest_defs, simp add: FacebookServiceCreateMarketplaceListingRequest_defs,
      rule matched_Nil, cases m, simp add: FacebookServiceCreateMarketplaceListingRequest_defs)

lemma FacebookServiceCreateMarketplaceListingRequest_rt: "3 \<le> d \<Longrightarrow> FacebookServiceCreateMarketplaceListingRequest_ok m \<Longrightarrow> codec_rt W stk rem d (FacebookServiceCreateMarketplaceListingRequest_encode W) (FacebookServiceCreateMarketplaceListingRequest_decode W) m"
  unfolding FacebookServiceCreateMarketplaceListingRequest_decode_def
  by (rule codec_rt_mono [OF codec_rt_of_codec [OF FacebookServiceCreateMarketplaceListingRequest_codec]]) simp_all

end

context wire_reader
begin

lemma FacebookServiceCreateMarketplaceListingRequest_total [total_rules]: "dec_total W (FacebookServiceCreateMarketplaceListingRequest_decode W)"
  unfolding FacebookServiceCreateMarketplaceListingRequest_decode_def FacebookServiceCreateMarketplaceListingRequest_cases_def by (intro total_rules)

end

subsection \<open>FacebookServiceCreateMarketplaceListingResponse\<close>

record FacebookServiceCreateMarketplaceListingResponse =
  FacebookServiceCreateMarketplaceListingResponse_listing :: "MarketplaceListing option"

definition createBaseFacebookServiceCreateMarketplaceListingResponse :: FacebookServiceCreateMarketplaceListingResponse where
  "createBaseFacebookServiceCreateMarketplaceListingResponse = \<lparr>FacebookServiceCreateMarketplaceListingResponse_listing = None\<rparr>"

definition FacebookServiceCreateMarketplaceListingResponse_encode :: "('w, 'r) wire \<Rightarrow> FacebookServiceCreateMarketplaceListingResponse \<Rightarrow> 'w writer" where
  "FacebookServiceCreateMarketplaceListingResponse_encode W m = w_seq [
     w_some (FacebookServiceCreateMarketplaceListingResponse_listing m) (\<lambda>v. [w_uint32 W 10, w_open W, MarketplaceListing_encode W v, w_join W])]"

definition FacebookServiceCreateMarketplaceListingResponse_cases :: "('w, 'r) wire \<Rightarrow> ('r, FacebookServiceCreateMarketplaceListingResponse) cases" where
  "FacebookServiceCreateMarketplaceListingResponse_cases W = [
     (1, 10, d_msg W (MarketplaceListing_decode W) (\<lambda>v m. m\<lparr>FacebookServiceCreateMarketplaceListingResponse_listing := Some v\<rparr>))]"

definition FacebookServiceCreateMarketplaceListingResponse_decode :: "('w, 'r) wire \<Rightarrow> ('r, FacebookServiceCreateMarketplaceListingResponse) decoder" where
  "FacebookServiceCreateMarketplaceListingResponse_decode W = d_message W (FacebookServiceCreateMarketplaceListingResponse_cases W) createBaseFacebookServiceCreateMarketplaceListingResponse"

definition FacebookServiceCreateMarketplaceListingResponse_ok :: "FacebookServiceCreateMarketplaceListingResponse \<Rightarrow> bool" where
  "FacebookServiceCreateMarketplaceListingResponse_ok m \<longleftrightarrow> pred_option MarketplaceListing_ok (FacebookServiceCreateMarketplaceListingResponse_listing m)"

lemmas FacebookServiceCreateMarketplaceListingResponse_defs = FacebookServiceCreateMarketplaceListingResponse_cases_def createBaseFacebookServiceCreateMarketplaceListingResponse_def

context wire_lib
begin

lemma FacebookServiceCreateMarketplaceListingResponse_codec:
  assumes ok: "FacebookServiceCreateMarketplaceListingResponse_ok m"
  shows "codec W stk rem 2 (FacebookServiceCreateMarketplaceListingResponse_encode W) (FacebookServiceCreateMarketplaceListingResponse_cases W) createBaseFacebookServiceCreateMarketplaceListingResponse m"
  by (rule codecI [OF FacebookServiceCreateMarketplaceListingResponse_encode_def],
      rule field_msg [where upd = FacebookServiceCreateMarketplaceListingResponse_listing_update], rule MarketplaceListing_rt, simp, (use ok in \<open>fastforce simp: FacebookServiceCreateMarketplaceListingResponse_ok_def list_all_iff\<close>), simp add: FacebookServiceCreateMarketplaceListingResponse_defs, simp add: FacebookServiceCreateMarketplaceListingResponse_defs,
      rule matched_Nil, cases m, simp add: FacebookServiceCreateMarketplaceListingResponse_defs)

lemma FacebookServiceCreateMarketplaceListingResponse_rt: "3 \<le> d \<Longrightarrow> FacebookServiceCreateMarketplaceListingResponse_ok m \<Longrightarrow> codec_rt W stk rem d (FacebookServiceCreateMarketplaceListingResponse_encode W) (FacebookServiceCreateMarketplaceListingResponse_decode W) m"
  unfolding FacebookServiceCreateMarketplaceListingResponse_decode_def
  by (rule codec_rt_mono [OF codec_rt_of_codec [OF FacebookServiceCreateMarketplaceListingResponse_codec]]) simp_all

end

context wire_reader
begin

lemma FacebookServiceCreateMarketplaceListingResponse_total [total_rules]: "dec_total W (FacebookServiceCreateMarketplaceListingResponse_decode W)"
  unfolding FacebookServiceCreateMarketplaceListingResponse_decode_def FacebookServiceCreateMarketplaceListingResponse_cases_def by (intro total_rules)

end

subsection \<open>FacebookServiceGetMarketplaceListingRequest\<close>

record FacebookServiceGetMarketplaceListingRequest =
  FacebookServiceGetMarketplaceListingRequest_sessionId :: string
  FacebookServiceGetMarketplaceListingRequest_listingId :: string

definition createBaseFacebookServiceGetMarketplaceListingRequest :: FacebookServiceGetMarketplaceListingRequest where
  "createBaseFacebookServiceGetMarketplaceListingRequest = \<lparr>FacebookServiceGetMarketplaceListingRequest_sessionId = '''',
     FacebookServiceGetMarketplaceListingRequest_listingId = ''''\<rparr>"

definition FacebookServiceGetMarketplaceListingRequest_encode :: "('w, 'r) wire \<Rightarrow> FacebookServiceGetMarketplaceListingRequest \<Rightarrow> 'w writer" where
  "FacebookServiceGetMarketplaceListingRequest_encode W m = w_seq [
     w_if (FacebookServiceGetMarketplaceListingRequest_sessionId m \<noteq> '''') [w_uint32 W 10, w_string W (FacebookServiceGetMarketplaceListingRequest_sessionId m)],
     w_if (FacebookServiceGetMarketplaceListingRequest_listingId m \<noteq> '''') [w_uint32 W 18, w_string W (FacebookServiceGetMarketplaceListingRequest_listingId m)]]"

definition FacebookServiceGetMarketplaceListingRequest_cases :: "('w, 'r) wire \<Rightarrow> ('r, FacebookServiceGetMarketplaceListingRequest) cases" where
  "FacebookServiceGetMarketplaceListingRequest_cases W = [
     (1, 10, d_val (r_string W) (\<lambda>v m. m\<lparr>FacebookServiceGetMarketplaceListingRequest_sessionId := v\<rparr>)),
     (2, 18, d_val (r_string W) (\<lambda>v m. m\<lparr>FacebookServiceGetMarketplaceListingRequest_listingId := v\<rparr>))]"

definition FacebookServiceGetMarketplaceListingRequest_decode :: "('w, 'r) wire \<Rightarrow> ('r, FacebookServiceGetMarketplaceListingRequest) decoder" where
  "FacebookServiceGetMarketplaceListingRequest_decode W = d_message W (FacebookServiceGetMarketplaceListingRequest_cases W) createBaseFacebookServiceGetMarketplaceListingRequest"

lemmas FacebookServiceGetMarketplaceListingRequest_defs = FacebookServiceGetMarketplaceListingRequest_cases_def createBaseFacebookServiceGetMarketplaceListingRequest_def

context wire_lib
begin

lemma FacebookServiceGetMarketplaceListingRequest_codec:
  "codec W stk rem 0 (FacebookServiceGetMarketplaceListingRequest_encode W) (FacebookServiceGetMarketplaceListingRequest_cases W) createBaseFacebookServiceGetMarketplaceListingRequest m"
  by (rule codecI [OF FacebookServiceGetMarketplaceListingRequest_encode_def],
      rule field_string [where upd = FacebookServiceGetMarketplaceListingRequest_sessionId_update], simp add: FacebookServiceGetMarketplaceListingRequest_defs, simp add: FacebookServiceGetMarketplaceListingRequest_defs,
      rule field_string [where upd = FacebookServiceGetMarketplaceListingRequest_listingId_update], simp add: FacebookServiceGetMarketplaceListingRequest_defs, simp add: FacebookServiceGetMarketplaceListingRequest_defs,
      rule matched_Nil, cases m, simp add: FacebookServiceGetMarketplaceListingRequest_defs)

lemma FacebookServiceGetMarketplaceListingRequest_rt: "1 \<le> d \<Longrightarrow> codec_rt W stk rem d (FacebookServiceGetMarketplaceListingRequest_encode W) (FacebookServiceGetMarketplaceListingRequest_decode W) m"
  unfolding FacebookServiceGetMarketplaceListingRequest_decode_def
  by (rule codec_rt_mono [OF codec_rt_of_codec [OF FacebookServiceGetMarketplaceListingRequest_codec]]) simp_all

end

context wire_reader
begin

lemma FacebookServiceGetMarketplaceListingRequest_total [total_rules]: "dec_total W (FacebookServiceGetMarketplaceListingRequest_decode W)"
  unfolding FacebookServiceGetMarketplaceListingRequest_decode_def FacebookServiceGetMarketplaceListingRequest_cases_def by (intro total_rules)

end

subsection \<open>FacebookServiceGetMarketplaceListingResponse\<close>

record FacebookServiceGetMarketplaceListingResponse =
  FacebookServiceGetMarketplaceListingResponse_listing :: "MarketplaceListing option"

definition createBaseFacebookServiceGetMarketplaceListingResponse :: FacebookServiceGetMarketplaceListingResponse where
  "createBaseFacebookServiceGetMarketplaceListingResponse = \<lparr>FacebookServiceGetMarketplaceListingResponse_listing = None\<rparr>"

definition FacebookServiceGetMarketplaceListingResponse_encode :: "('w, 'r) wire \<Rightarrow> FacebookServiceGetMarketplaceListingResponse \<Rightarrow> 'w writer" where
  "FacebookServiceGetMarketplaceListingResponse_encode W m = w_seq [
     w_some (FacebookServiceGetMarketplaceListingResponse_listing m) (\<lambda>v. [w_uint32 W 10, w_open W, MarketplaceListing_encode W v, w_join W])]"

definition FacebookServiceGetMarketplaceListingResponse_cases :: "('w, 'r) wire \<Rightarrow> ('r, FacebookServiceGetMarketplaceListingResponse) cases" where
  "FacebookServiceGetMarketplaceListingResponse_cases W = [
     (1, 10, d_msg W (MarketplaceListing_decode W) (\<lambda>v m. m\<lparr>FacebookServiceGetMarketplaceListingResponse_listing := Some v\<rparr>))]"

definition FacebookServiceGetMarketplaceListingResponse_decode :: "('w, 'r) wire \<Rightarrow> ('r, FacebookServiceGetMarketplaceListingResponse) decoder" where
  "FacebookServiceGetMarketplaceListingResponse_decode W = d_message W (FacebookServiceGetMarketplaceListingResponse_cases W) createBaseFacebookServiceGetMarketplaceListingResponse"

definition FacebookServiceGetMarketplaceListingResponse_ok :: "FacebookServiceGetMarketplaceListingResponse \<Rightarrow> bool" where
  "FacebookServiceGetMarketplaceListingResponse_ok m \<longleftrightarrow> pred_option MarketplaceListing_ok (FacebookServiceGetMarketplaceListingResponse_listing m)"

lemmas FacebookServiceGetMarketplaceListingResponse_defs = FacebookServiceGetMarketplaceListingResponse_cases_def createBaseFacebookServiceGetMarketplaceListingResponse_def

context wire_lib
begin

lemma FacebookServiceGetMarketplaceListingResponse_codec:
  assumes ok: "FacebookServiceGetMarketplaceListingResponse_ok m"
  shows "codec W stk rem 2 (FacebookServiceGetMarketplaceListingResponse_encode W) (FacebookServiceGetMarketplaceListingResponse_cases W) createBaseFacebookServiceGetMarketplaceListingResponse m"
  by (rule codecI [OF FacebookServiceGetMarketplaceListingResponse_encode_def],
      rule field_msg [where upd = FacebookServiceGetMarketplaceListingResponse_listing_update], rule MarketplaceListing_rt, simp, (use ok in \<open>fastforce simp: FacebookServiceGetMarketplaceListingResponse_ok_def list_all_iff\<close>), simp add: FacebookServiceGetMarketplaceListingResponse_defs, simp add: FacebookServiceGetMarketplaceListingResponse_defs,
      rule matched_Nil, cases m, simp add: FacebookServiceGetMarketplaceListingResponse_defs)

lemma FacebookServiceGetMarketplaceListingResponse_rt: "3 \<le> d \<Longrightarrow> FacebookServiceGetMarketplaceListingResponse_ok m \<Longrightarrow> codec_rt W stk rem d (FacebookServiceGetMarketplaceListingResponse_encode W) (FacebookServiceGetMarketplaceListingResponse_decode W) m"
  unfolding FacebookServiceGetMarketplaceListingResponse_decode_def
  by (rule codec_rt_mono [OF codec_rt_of_codec [OF FacebookServiceGetMarketplaceListingResponse_codec]]) simp_all

end

context wire_reader
begin

lemma FacebookServiceGetMarketplaceListingResponse_total [total_rules]: "dec_total W (FacebookServiceGetMarketplaceListingResponse_decode W)"
  unfolding FacebookServiceGetMarketplaceListingResponse_decode_def FacebookServiceGetMarketplaceListingResponse_cases_def by (intro total_rules)

end

subsection \<open>FacebookServiceSetProfessionalModeRequest\<close>

record FacebookServiceSetProfessionalModeRequest =
  FacebookServiceSetProfessionalModeRequest_sessionId :: string
  FacebookServiceSetProfessionalModeRequest_enabled :: bool

definition createBaseFacebookServiceSetProfessionalModeRequest :: FacebookServiceSetProfessionalModeRequest where
  "createBaseFacebookServiceSetProfessionalModeRequest = \<lparr>FacebookServiceSetProfessionalModeRequest_sessionId = '''',
     FacebookServiceSetProfessionalModeRequest_enabled = False\<rparr>"

definition FacebookServiceSetProfessionalModeRequest_encode :: "('w, 'r) wire \<Rightarrow> FacebookServiceSetProfessionalModeRequest \<Rightarrow> 'w writer" where
  "FacebookServiceSetProfessionalModeRequest_encode W m = w_seq [
     w_if (FacebookServiceSetProfessionalModeRequest_sessionId m \<noteq> '''') [w_uint32 W 10, w_string W (FacebookServiceSetProfessionalModeRequest_sessionId m)],
     w_if (FacebookServiceSetProfessionalModeRequest_enabled m \<noteq> False) [w_uint32 W 16, w_bool W (FacebookServiceSetProfessionalModeRequest_enabled m)]]"

definition FacebookServiceSetProfessionalModeRequest_cases :: "('w, 'r) wire \<Rightarrow> ('r, FacebookServiceSetProfessionalModeRequest) cases" where
  "FacebookServiceSetProfessionalModeRequest_cases W = [
     (1, 10, d_val (r_string W) (\<lambda>v m. m\<lparr>FacebookServiceSetProfessionalModeRequest_sessionId := v\<rparr>)),
     (2, 16, d_val (r_bool W) (\<lambda>v m. m\<lparr>FacebookServiceSetProfessionalModeRequest_enabled := v\<rparr>))]"

definition FacebookServiceSetProfessionalModeRequest_decode :: "('w, 'r) wire \<Rightarrow> ('r, FacebookServiceSetProfessionalModeRequest) decoder" where
  "FacebookServiceSetProfessionalModeRequest_decode W = d_message W (FacebookServiceSetProfessionalModeRequest_cases W) createBaseFacebookServiceSetProfessionalModeRequest"

lemmas FacebookServiceSetProfessionalModeRequest_defs = FacebookServiceSetProfessionalModeRequest_cases_def createBaseFacebookServiceSetProfessionalModeRequest_def

context wire_lib
begin

lemma FacebookServiceSetProfessionalModeRequest_codec:
  "codec W stk rem 0 (FacebookServiceSetProfessionalModeRequest_encode W) (FacebookServiceSetProfessionalModeRequest_cases W) createBaseFacebookServiceSetProfessionalModeRequest m"
  by (rule codecI [OF FacebookServiceSetProfessionalModeRequest_encode_def],
      rule field_string [where upd = FacebookServiceSetProfessionalModeRequest_sessionId_update], simp add: FacebookServiceSetProfessionalModeRequest_defs, simp add: FacebookServiceSetProfessionalModeRequest_defs,
      rule field_bool [where upd = FacebookServiceSetProfessionalModeRequest_enabled_update], simp add: FacebookServiceSetProfessionalModeRequest_defs, simp add: FacebookServiceSetProfessionalModeRequest_defs,
      rule matched_Nil, cases m, simp add: FacebookServiceSetProfessionalModeRequest_defs)

lemma FacebookServiceSetProfessionalModeRequest_rt: "1 \<le> d \<Longrightarrow> codec_rt W stk rem d (FacebookServiceSetProfessionalModeRequest_encode W) (FacebookServiceSetProfessionalModeRequest_decode W) m"
  unfolding FacebookServiceSetProfessionalModeRequest_decode_def
  by (rule codec_rt_mono [OF codec_rt_of_codec [OF FacebookServiceSetProfessionalModeRequest_codec]]) simp_all

end

context wire_reader
begin

lemma FacebookServiceSetProfessionalModeRequest_total [total_rules]: "dec_total W (FacebookServiceSetProfessionalModeRequest_decode W)"
  unfolding FacebookServiceSetProfessionalModeRequest_decode_def FacebookServiceSetProfessionalModeRequest_cases_def by (intro total_rules)

end

subsection \<open>FacebookServiceSetProfessionalModeResponse\<close>

datatype FacebookServiceSetProfessionalModeResponse = FacebookServiceSetProfessionalModeResponse

definition createBaseFacebookServiceSetProfessionalModeResponse :: FacebookServiceSetProfessionalModeResponse where
  "createBaseFacebookServiceSetProfessionalModeResponse = FacebookServiceSetProfessionalModeResponse"

definition FacebookServiceSetProfessionalModeResponse_encode :: "('w, 'r) wire \<Rightarrow> FacebookServiceSetProfessionalModeResponse \<Rightarrow> 'w writer" where
  "FacebookServiceSetProfessionalModeResponse_encode W m = w_seq []"

definition FacebookServiceSetProfessionalModeResponse_cases :: "('w, 'r) wire \<Rightarrow> ('r, FacebookServiceSetProfessionalModeResponse) cases" where
  "FacebookServiceSetProfessionalModeResponse_cases W = []"

definition FacebookServiceSetProfessionalModeResponse_decode :: "('w, 'r) wire \<Rightarrow> ('r, FacebookServiceSetProfessionalModeResponse) decoder" where
  "FacebookServiceSetProfessionalModeResponse_decode W = d_message W (FacebookServiceSetProfessionalModeResponse_cases W) createBaseFacebookServiceSetProfessionalModeResponse"

lemmas FacebookServiceSetProfessionalModeResponse_defs = FacebookServiceSetProfessionalModeResponse_cases_def createBaseFacebookServiceSetProfessionalModeResponse_def

context wire_lib
begin

lemma FacebookServiceSetProfessionalModeResponse_codec:
  "codec W stk rem 0 (FacebookServiceSetProfessionalModeResponse_encode W) (FacebookServiceSetProfessionalModeResponse_cases W) createBaseFacebookServiceSetProfessionalModeResponse m"
  by (rule codecI [OF FacebookServiceSetProfessionalModeResponse_encode_def],
      rule matched_Nil, cases m, simp add: FacebookServiceSetProfessionalModeResponse_defs)

lemma FacebookServiceSetProfessionalModeResponse_rt: "1 \<le> d \<Longrightarrow> codec_rt W stk rem d (FacebookServiceSetProfessionalModeResponse_encode W) (FacebookServiceSetProfessionalModeResponse_decode W) m"
  unfolding FacebookServiceSetProfessionalModeResponse_decode_def
  by (rule codec_rt_mono [OF codec_rt_of_codec [OF FacebookServiceSetProfessionalModeResponse_codec]]) simp_all

end

context wire_reader
begin

lemma FacebookServiceSetProfessionalModeResponse_total [total_rules]: "dec_total W (FacebookServiceSetProfessionalModeResponse_decode W)"
  unfolding FacebookServiceSetProfessionalModeResponse_decode_def FacebookServiceSetProfessionalModeResponse_cases_def by (intro total_rules)

end

end
