(* ===== verification/Gen_E2ee.thy ===== *)
theory Gen_E2ee
  imports Gen_Common
begin

text \<open>
  Messages of \<open>sdk/node/src/gen/meta/v1/e2ee.ts\<close>: the service of end-to-end encrypted chats.
  For every message: its interface as a record (or a datatype without fields), \<open>createBase\<close>,
  \<open>encode\<close> as the sequence of its writer calls, and \<open>decode\<close> as the cases of its
  switch; a union field is a datatype with one constructor per \<open>$case\<close>.  \<open>_ok\<close> holds of
  the values a TypeScript program can build: objects built by assignment and dates in range.
  Then the round trip of the message and the totality of its decoder.
\<close>

subsection \<open>E2EEServiceSendTextRequest\<close>

record E2EEServiceSendTextRequest =
  E2EEServiceSendTextRequest_sessionId :: string
  E2EEServiceSendTextRequest_chatJid :: string
  E2EEServiceSendTextRequest_facebookUserId :: string
  E2EEServiceSendTextRequest_text :: string
  E2EEServiceSendTextRequest_replyTo :: string
  E2EEServiceSendTextRequest_replySenderJid :: string

definition createBaseE2EEServiceSendTextRequest :: E2EEServiceSendTextRequest where
  "createBaseE2EEServiceSendTextRequest = \<lparr>E2EEServiceSendTextRequest_sessionId = '''',
     E2EEServiceSendTextRequest_chatJid = '''',
     E2EEServiceSendTextRequest_facebookUserId = '''',
     E2EEServiceSendTextRequest_text = '''',
     E2EEServiceSendTextRequest_replyTo = '''',
     E2EEServiceSendTextRequest_replySenderJid = ''''\<rparr>"

definition E2EEServiceSendTextRequest_encode :: "('w, 'r) wire \<Rightarrow> E2EEServiceSendTextRequest \<Rightarrow> 'w writer" where
  "E2EEServiceSendTextRequest_encode W m = w_seq [
     w_if (E2EEServiceSendTextRequest_sessionId m \<noteq> '''') [w_uint32 W 10, w_string W (E2EEServiceSendTextRequest_sessionId m)],
     w_if (E2EEServiceSendTextRequest_chatJid m \<noteq> '''') [w_uint32 W 18, w_string W (E2EEServiceSendTextRequest_chatJid m)],
     w_if (E2EEServiceSendTextRequest_facebookUserId m \<noteq> '''') [w_uint32 W 26, w_string W (E2EEServiceSendTextRequest_facebookUserId m)],
     w_if (E2EEServiceSendTextRequest_text m \<noteq> '''') [w_uint32 W 34, w_string W (E2EEServiceSendTextRequest_text m)],
     w_if (E2EEServiceSendTextRequest_replyTo m \<noteq> '''') [w_uint32 W 42, w_string W (E2EEServiceSendTextRequest_replyTo m)],
     w_if (E2EEServiceSendTextRequest_replySenderJid m \<noteq> '''') [w_uint32 W 50, w_string W (E2EEServiceSendTextRequest_replySenderJid m)]]"

definition E2EEServiceSendTextRequest_cases :: "('w, 'r) wire \<Rightarrow> ('r, E2EEServiceSendTextRequest) cases" where
  "E2EEServiceSendTextRequest_cases W = [
     (1, 10, d_val (r_string W) (\<lambda>v m. m\<lparr>E2EEServiceSendTextRequest_sessionId := v\<rparr>)),
     (2, 18, d_val (r_string W) (\<lambda>v m. m\<lparr>E2EEServiceSendTextRequest_chatJid := v\<rparr>)),
     (3, 26, d_val (r_string W) (\<lambda>v m. m\<lparr>E2EEServiceSendTextRequest_facebookUserId := v\<rparr>)),
     (4, 34, d_val (r_string W) (\<lambda>v m. m\<lparr>E2EEServiceSendTextRequest_text := v\<rparr>)),
     (5, 42, d_val (r_string W) (\<lambda>v m. m\<lparr>E2EEServiceSendTextRequest_replyTo := v\<rparr>)),
     (6, 50, d_val (r_string W) (\<lambda>v m. m\<lparr>E2EEServiceSendTextRequest_replySenderJid := v\<rparr>))]"

definition E2EEServiceSendTextRequest_decode :: "('w, 'r) wire \<Rightarrow> ('r, E2EEServiceSendTextRequest) decoder" where
  "E2EEServiceSendTextRequest_decode W = d_message W (E2EEServiceSendTextRequest_cases W) createBaseE2EEServiceSendTextRequest"

lemmas E2EEServiceSendTextRequest_defs = E2EEServiceSendTextRequest_cases_def createBaseE2EEServiceSendTextRequest_def

context wire_lib
begin

lemma E2EEServiceSendTextRequest_codec:
  "codec W stk rem 0 (E2EEServiceSendTextRequest_encode W) (E2EEServiceSendTextRequest_cases W) createBaseE2EEServiceSendTextRequest m"
  by (rule codecI [OF E2EEServiceSendTextRequest_encode_def],
      rule field_string [where upd = E2EEServiceSendTextRequest_sessionId_update], simp add: E2EEServiceSendTextRequest_defs, simp add: E2EEServiceSendTextRequest_defs,
      rule field_string [where upd = E2EEServiceSendTextRequest_chatJid_update], simp add: E2EEServiceSendTextRequest_defs, simp add: E2EEServiceSendTextRequest_defs,
      rule field_string [where upd = E2EEServiceSendTextRequest_facebookUserId_update], simp add: E2EEServiceSendTextRequest_defs, simp add: E2EEServiceSendTextRequest_defs,
      rule field_string [where upd = E2EEServiceSendTextRequest_text_update], simp add: E2EEServiceSendTextRequest_defs, simp add: E2EEServiceSendTextRequest_defs,
      rule field_string [where upd = E2EEServiceSendTextRequest_replyTo_update], simp add: E2EEServiceSendTextRequest_defs, simp add: E2EEServiceSendTextRequest_defs,
      rule field_string [where upd = E2EEServiceSendTextRequest_replySenderJid_update], simp add: E2EEServiceSendTextRequest_defs, simp add: E2EEServiceSendTextRequest_defs,
      rule matched_Nil, cases m, simp add: E2EEServiceSendTextRequest_defs)

lemma E2EEServiceSendTextRequest_rt: "1 \<le> d \<Longrightarrow> codec_rt W stk rem d (E2EEServiceSendTextRequest_encode W) (E2EEServiceSendTextRequest_decode W) m"
  unfolding E2EEServiceSendTextRequest_decode_def
  by (rule codec_rt_mono [OF codec_rt_of_codec [OF E2EEServiceSendTextRequest_codec]]) simp_all

end

context wire_reader
begin

lemma E2EEServiceSendTextRequest_total [total_rules]: "dec_total W (E2EEServiceSendTextRequest_decode W)"
  unfolding E2EEServiceSendTextRequest_decode_def E2EEServiceSendTextRequest_cases_def by (intro total_rules)

end

subsection \<open>E2EEServiceSendTextResponse\<close>

record E2EEServiceSendTextResponse =
  E2EEServiceSendTextResponse_messageId :: string
  E2EEServiceSendTextResponse_timestamp :: "js_date option"

definition createBaseE2EEServiceSendTextResponse :: E2EEServiceSendTextResponse where
  "createBaseE2EEServiceSendTextResponse = \<lparr>E2EEServiceSendTextResponse_messageId = '''',
     E2EEServiceSendTextResponse_timestamp = None\<rparr>"

definition E2EEServiceSendTextResponse_encode :: "('w, 'r) wire \<Rightarrow> E2EEServiceSendTextResponse \<Rightarrow> 'w writer" where
  "E2EEServiceSendTextResponse_encode W m = w_seq [
     w_if (E2EEServiceSendTextResponse_messageId m \<noteq> '''') [w_uint32 W 10, w_string W (E2EEServiceSendTextResponse_messageId m)],
     w_some (E2EEServiceSendTextResponse_timestamp m) (\<lambda>v. [w_try (toTimestamp v) (\<lambda>t. [w_uint32 W 18, w_open W, Timestamp_encode W t, w_join W])])]"

definition E2EEServiceSendTextResponse_cases :: "('w, 'r) wire \<Rightarrow> ('r, E2EEServiceSendTextResponse) cases" where
  "E2EEServiceSendTextResponse_cases W = [
     (1, 10, d_val (r_string W) (\<lambda>v m. m\<lparr>E2EEServiceSendTextResponse_messageId := v\<rparr>)),
     (2, 18, d_msg W (Timestamp_decode W) (\<lambda>v m. m\<lparr>E2EEServiceSendTextResponse_timestamp := Some (fromTimestamp v)\<rparr>))]"

definition E2EEServiceSendTextResponse_decode :: "('w, 'r) wire \<Rightarrow> ('r, E2EEServiceSendTextResponse) decoder" where
  "E2EEServiceSendTextResponse_decode W = d_message W (E2EEServiceSendTextResponse_cases W) createBaseE2EEServiceSendTextResponse"

definition E2EEServiceSendTextResponse_ok :: "E2EEServiceSendTextResponse \<Rightarrow> bool" where
  "E2EEServiceSendTextResponse_ok m \<longleftrightarrow> pred_option js_date_ok (E2EEServiceSendTextResponse_timestamp m)"

lemmas E2EEServiceSendTextResponse_defs = E2EEServiceSendTextResponse_cases_def createBaseE2EEServiceSendTextResponse_def

context wire_lib
begin

lemma E2EEServiceSendTextResponse_codec:
  assumes ok: "E2EEServiceSendTextResponse_ok m"
  shows "codec W stk rem 1 (E2EEServiceSendTextResponse_encode W) (E2EEServiceSendTextResponse_cases W) createBaseE2EEServiceSendTextResponse m"
  by (rule codecI [OF E2EEServiceSendTextResponse_encode_def],
      rule field_string [where upd = E2EEServiceSendTextResponse_messageId_update], simp add: E2EEServiceSendTextResponse_defs, simp add: E2EEServiceSendTextResponse_defs,
      rule field_conv [where upd = E2EEServiceSendTextResponse_timestamp_update and unconv = fromTimestamp], rule date_rt, simp, (use ok in \<open>fastforce simp: E2EEServiceSendTextResponse_ok_def list_all_iff\<close>), assumption, simp add: E2EEServiceSendTextResponse_defs, simp add: E2EEServiceSendTextResponse_defs,
      rule matched_Nil, cases m, simp add: E2EEServiceSendTextResponse_defs)

lemma E2EEServiceSendTextResponse_rt: "2 \<le> d \<Longrightarrow> E2EEServiceSendTextResponse_ok m \<Longrightarrow> codec_rt W stk rem d (E2EEServiceSendTextResponse_encode W) (E2EEServiceSendTextResponse_decode W) m"
  unfolding E2EEServiceSendTextResponse_decode_def
  by (rule codec_rt_mono [OF codec_rt_of_codec [OF E2EEServiceSendTextResponse_codec]]) simp_all

end

context wire_reader
begin

lemma E2EEServiceSendTextResponse_total [total_rules]: "dec_total W (E2EEServiceSendTextResponse_decode W)"
  unfolding E2EEServiceSendTextResponse_decode_def E2EEServiceSendTextResponse_cases_def by (intro total_rules)

end

subsection \<open>E2EEServiceSendMediaMetadata\<close>

record E2EEServiceSendMediaMetadata =
  E2EEServiceSendMediaMetadata_sessionId :: string
  E2EEServiceSendMediaMetadata_chatJid :: string
  E2EEServiceSendMediaMetadata_facebookUserId :: string
  E2EEServiceSendMediaMetadata_kind :: int
  E2EEServiceSendMediaMetadata_name :: string
  E2EEServiceSendMediaMetadata_contentType :: string
  E2EEServiceSendMediaMetadata_size :: int
  E2EEServiceSendMediaMetadata_caption :: string
  E2EEServiceSendMediaMetadata_width :: int
  E2EEServiceSendMediaMetadata_height :: int
  E2EEServiceSendMediaMetadata_duration :: int
  E2EEServiceSendMediaMetadata_voice :: bool
  E2EEServiceSendMediaMetadata_replyTo :: string
  E2EEServiceSendMediaMetadata_replySenderJid :: string
  E2EEServiceSendMediaMetadata_sha256 :: "byte list"

definition createBaseE2EEServiceSendMediaMetadata :: E2EEServiceSendMediaMetadata where
  "createBaseE2EEServiceSendMediaMetadata = \<lparr>E2EEServiceSendMediaMetadata_sessionId = '''',
     E2EEServiceSendMediaMetadata_chatJid = '''',
     E2EEServiceSendMediaMetadata_facebookUserId = '''',
     E2EEServiceSendMediaMetadata_kind = 0,
     E2EEServiceSendMediaMetadata_name = '''',
     E2EEServiceSendMediaMetadata_contentType = '''',
     E2EEServiceSendMediaMetadata_size = 0,
     E2EEServiceSendMediaMetadata_caption = '''',
     E2EEServiceSendMediaMetadata_width = 0,
     E2EEServiceSendMediaMetadata_height = 0,
     E2EEServiceSendMediaMetadata_duration = 0,
     E2EEServiceSendMediaMetadata_voice = False,
     E2EEServiceSendMediaMetadata_replyTo = '''',
     E2EEServiceSendMediaMetadata_replySenderJid = '''',
     E2EEServiceSendMediaMetadata_sha256 = []\<rparr>"

definition E2EEServiceSendMediaMetadata_encode :: "('w, 'r) wire \<Rightarrow> E2EEServiceSendMediaMetadata \<Rightarrow> 'w writer" where
  "E2EEServiceSendMediaMetadata_encode W m = w_seq [
     w_if (E2EEServiceSendMediaMetadata_sessionId m \<noteq> '''') [w_uint32 W 10, w_string W (E2EEServiceSendMediaMetadata_sessionId m)],
     w_if (E2EEServiceSendMediaMetadata_chatJid m \<noteq> '''') [w_uint32 W 18, w_string W (E2EEServiceSendMediaMetadata_chatJid m)],
     w_if (E2EEServiceSendMediaMetadata_facebookUserId m \<noteq> '''') [w_uint32 W 26, w_string W (E2EEServiceSendMediaMetadata_facebookUserId m)],
     w_if (E2EEServiceSendMediaMetadata_kind m \<noteq> 0) [w_uint32 W 32, w_int32 W (E2EEServiceSendMediaMetadata_kind m)],
     w_if (E2EEServiceSendMediaMetadata_name m \<noteq> '''') [w_uint32 W 42, w_string W (E2EEServiceSendMediaMetadata_name m)],
     w_if (E2EEServiceSendMediaMetadata_contentType m \<noteq> '''') [w_uint32 W 50, w_string W (E2EEServiceSendMediaMetadata_contentType m)],
     w_if (E2EEServiceSendMediaMetadata_size m \<noteq> 0) [w_check (asIntN64 (E2EEServiceSendMediaMetadata_size m) = E2EEServiceSendMediaMetadata_size m) (too_large ''message.size'' ''int64''),
         w_uint32 W 56, w_int64 W (E2EEServiceSendMediaMetadata_size m)],
     w_if (E2EEServiceSendMediaMetadata_caption m \<noteq> '''') [w_uint32 W 66, w_string W (E2EEServiceSendMediaMetadata_caption m)],
     w_if (E2EEServiceSendMediaMetadata_width m \<noteq> 0) [w_uint32 W 72, w_int32 W (E2EEServiceSendMediaMetadata_width m)],
     w_if (E2EEServiceSendMediaMetadata_height m \<noteq> 0) [w_uint32 W 80, w_int32 W (E2EEServiceSendMediaMetadata_height m)],
     w_if (E2EEServiceSendMediaMetadata_duration m \<noteq> 0) [w_uint32 W 88, w_int32 W (E2EEServiceSendMediaMetadata_duration m)],
     w_if (E2EEServiceSendMediaMetadata_voice m \<noteq> False) [w_uint32 W 96, w_bool W (E2EEServiceSendMediaMetadata_voice m)],
     w_if (E2EEServiceSendMediaMetadata_replyTo m \<noteq> '''') [w_uint32 W 106, w_string W (E2EEServiceSendMediaMetadata_replyTo m)],
     w_if (E2EEServiceSendMediaMetadata_replySenderJid m \<noteq> '''') [w_uint32 W 114, w_string W (E2EEServiceSendMediaMetadata_replySenderJid m)],
     w_if (E2EEServiceSendMediaMetadata_sha256 m \<noteq> []) [w_uint32 W 122, w_bytes W (E2EEServiceSendMediaMetadata_sha256 m)]]"

definition E2EEServiceSendMediaMetadata_cases :: "('w, 'r) wire \<Rightarrow> ('r, E2EEServiceSendMediaMetadata) cases" where
  "E2EEServiceSendMediaMetadata_cases W = [
     (1, 10, d_val (r_string W) (\<lambda>v m. m\<lparr>E2EEServiceSendMediaMetadata_sessionId := v\<rparr>)),
     (2, 18, d_val (r_string W) (\<lambda>v m. m\<lparr>E2EEServiceSendMediaMetadata_chatJid := v\<rparr>)),
     (3, 26, d_val (r_string W) (\<lambda>v m. m\<lparr>E2EEServiceSendMediaMetadata_facebookUserId := v\<rparr>)),
     (4, 32, d_val (r_int32 W) (\<lambda>v m. m\<lparr>E2EEServiceSendMediaMetadata_kind := v\<rparr>)),
     (5, 42, d_val (r_string W) (\<lambda>v m. m\<lparr>E2EEServiceSendMediaMetadata_name := v\<rparr>)),
     (6, 50, d_val (r_string W) (\<lambda>v m. m\<lparr>E2EEServiceSendMediaMetadata_contentType := v\<rparr>)),
     (7, 56, d_val (r_int64 W) (\<lambda>v m. m\<lparr>E2EEServiceSendMediaMetadata_size := v\<rparr>)),
     (8, 66, d_val (r_string W) (\<lambda>v m. m\<lparr>E2EEServiceSendMediaMetadata_caption := v\<rparr>)),
     (9, 72, d_val (r_int32 W) (\<lambda>v m. m\<lparr>E2EEServiceSendMediaMetadata_width := v\<rparr>)),
     (10, 80, d_val (r_int32 W) (\<lambda>v m. m\<lparr>E2EEServiceSendMediaMetadata_height := v\<rparr>)),
     (11, 88, d_val (r_int32 W) (\<lambda>v m. m\<lparr>E2EEServiceSendMediaMetadata_duration := v\<rparr>)),
     (12, 96, d_val (r_bool W) (\<lambda>v m. m\<lparr>E2EEServiceSendMediaMetadata_voice := v\<rparr>)),
     (13, 106, d_val (r_string W) (\<lambda>v m. m\<lparr>E2EEServiceSendMediaMetadata_replyTo := v\<rparr>)),
     (14, 114, d_val (r_string W) (\<lambda>v m. m\<lparr>E2EEServiceSendMediaMetadata_replySenderJid := v\<rparr>)),
     (15, 122, d_val (r_bytes W) (\<lambda>v m. m\<lparr>E2EEServiceSendMediaMetadata_sha256 := v\<rparr>))]"

definition E2EEServiceSendMediaMetadata_decode :: "('w, 'r) wire \<Rightarrow> ('r, E2EEServiceSendMediaMetadata) decoder" where
  "E2EEServiceSendMediaMetadata_decode W = d_message W (E2EEServiceSendMediaMetadata_cases W) createBaseE2EEServiceSendMediaMetadata"

lemmas E2EEServiceSendMediaMetadata_defs = E2EEServiceSendMediaMetadata_cases_def createBaseE2EEServiceSendMediaMetadata_def

context wire_lib
begin

lemma E2EEServiceSendMediaMetadata_codec:
  "codec W stk rem 0 (E2EEServiceSendMediaMetadata_encode W) (E2EEServiceSendMediaMetadata_cases W) createBaseE2EEServiceSendMediaMetadata m"
  by (rule codecI [OF E2EEServiceSendMediaMetadata_encode_def],
      rule field_string [where upd = E2EEServiceSendMediaMetadata_sessionId_update], simp add: E2EEServiceSendMediaMetadata_defs, simp add: E2EEServiceSendMediaMetadata_defs,
      rule field_string [where upd = E2EEServiceSendMediaMetadata_chatJid_update], simp add: E2EEServiceSendMediaMetadata_defs, simp add: E2EEServiceSendMediaMetadata_defs,
      rule field_string [where upd = E2EEServiceSendMediaMetadata_facebookUserId_update], simp add: E2EEServiceSendMediaMetadata_defs, simp add: E2EEServiceSendMediaMetadata_defs,
      rule field_int32 [where upd = E2EEServiceSendMediaMetadata_kind_update], simp add: E2EEServiceSendMediaMetadata_defs, simp add: E2EEServiceSendMediaMetadata_defs,
      rule field_string [where upd = E2EEServiceSendMediaMetadata_name_update], simp add: E2EEServiceSendMediaMetadata_defs, simp add: E2EEServiceSendMediaMetadata_defs,
      rule field_string [where upd = E2EEServiceSendMediaMetadata_contentType_update], simp add: E2EEServiceSendMediaMetadata_defs, simp add: E2EEServiceSendMediaMetadata_defs,
      rule field_int64 [where upd = E2EEServiceSendMediaMetadata_size_update], simp add: E2EEServiceSendMediaMetadata_defs, simp add: E2EEServiceSendMediaMetadata_defs,
      rule field_string [where upd = E2EEServiceSendMediaMetadata_caption_update], simp add: E2EEServiceSendMediaMetadata_defs, simp add: E2EEServiceSendMediaMetadata_defs,
      rule field_int32 [where upd = E2EEServiceSendMediaMetadata_width_update], simp add: E2EEServiceSendMediaMetadata_defs, simp add: E2EEServiceSendMediaMetadata_defs,
      rule field_int32 [where upd = E2EEServiceSendMediaMetadata_height_update], simp add: E2EEServiceSendMediaMetadata_defs, simp add: E2EEServiceSendMediaMetadata_defs,
      rule field_int32 [where upd = E2EEServiceSendMediaMetadata_duration_update], simp add: E2EEServiceSendMediaMetadata_defs, simp add: E2EEServiceSendMediaMetadata_defs,
      rule field_bool [where upd = E2EEServiceSendMediaMetadata_voice_update], simp add: E2EEServiceSendMediaMetadata_defs, simp add: E2EEServiceSendMediaMetadata_defs,
      rule field_string [where upd = E2EEServiceSendMediaMetadata_replyTo_update], simp add: E2EEServiceSendMediaMetadata_defs, simp add: E2EEServiceSendMediaMetadata_defs,
      rule field_string [where upd = E2EEServiceSendMediaMetadata_replySenderJid_update], simp add: E2EEServiceSendMediaMetadata_defs, simp add: E2EEServiceSendMediaMetadata_defs,
      rule field_bytes [where upd = E2EEServiceSendMediaMetadata_sha256_update], simp add: E2EEServiceSendMediaMetadata_defs, simp add: E2EEServiceSendMediaMetadata_defs,
      rule matched_Nil, cases m, simp add: E2EEServiceSendMediaMetadata_defs)

lemma E2EEServiceSendMediaMetadata_rt: "1 \<le> d \<Longrightarrow> codec_rt W stk rem d (E2EEServiceSendMediaMetadata_encode W) (E2EEServiceSendMediaMetadata_decode W) m"
  unfolding E2EEServiceSendMediaMetadata_decode_def
  by (rule codec_rt_mono [OF codec_rt_of_codec [OF E2EEServiceSendMediaMetadata_codec]]) simp_all

end

context wire_reader
begin

lemma E2EEServiceSendMediaMetadata_total [total_rules]: "dec_total W (E2EEServiceSendMediaMetadata_decode W)"
  unfolding E2EEServiceSendMediaMetadata_decode_def E2EEServiceSendMediaMetadata_cases_def by (intro total_rules)

end

subsection \<open>E2EEServiceSendMediaRequest\<close>

datatype E2EEServiceSendMediaRequest_payload_case =
    E2EEServiceSendMediaRequest_payload_metadata E2EEServiceSendMediaMetadata
  | E2EEServiceSendMediaRequest_payload_chunk MediaChunk

record E2EEServiceSendMediaRequest =
  E2EEServiceSendMediaRequest_payload :: "E2EEServiceSendMediaRequest_payload_case option"

definition createBaseE2EEServiceSendMediaRequest :: E2EEServiceSendMediaRequest where
  "createBaseE2EEServiceSendMediaRequest = \<lparr>E2EEServiceSendMediaRequest_payload = None\<rparr>"

definition E2EEServiceSendMediaRequest_payload_encode :: "('w, 'r) wire \<Rightarrow> E2EEServiceSendMediaRequest_payload_case \<Rightarrow> 'w writer list" where
  "E2EEServiceSendMediaRequest_payload_encode W c = (case c of
       E2EEServiceSendMediaRequest_payload_metadata v \<Rightarrow> [w_uint32 W 10, w_open W, E2EEServiceSendMediaMetadata_encode W v, w_join W]
     | E2EEServiceSendMediaRequest_payload_chunk v \<Rightarrow> [w_uint32 W 18, w_open W, MediaChunk_encode W v, w_join W])"

definition E2EEServiceSendMediaRequest_encode :: "('w, 'r) wire \<Rightarrow> E2EEServiceSendMediaRequest \<Rightarrow> 'w writer" where
  "E2EEServiceSendMediaRequest_encode W m = w_seq [
     w_some (E2EEServiceSendMediaRequest_payload m) (E2EEServiceSendMediaRequest_payload_encode W)]"

definition E2EEServiceSendMediaRequest_cases :: "('w, 'r) wire \<Rightarrow> ('r, E2EEServiceSendMediaRequest) cases" where
  "E2EEServiceSendMediaRequest_cases W = [
     (1, 10, d_msg W (E2EEServiceSendMediaMetadata_decode W)
        (\<lambda>v m. m\<lparr>E2EEServiceSendMediaRequest_payload := Some (E2EEServiceSendMediaRequest_payload_metadata v)\<rparr>)),
     (2, 18, d_msg W (MediaChunk_decode W)
        (\<lambda>v m. m\<lparr>E2EEServiceSendMediaRequest_payload := Some (E2EEServiceSendMediaRequest_payload_chunk v)\<rparr>))]"

definition E2EEServiceSendMediaRequest_decode :: "('w, 'r) wire \<Rightarrow> ('r, E2EEServiceSendMediaRequest) decoder" where
  "E2EEServiceSendMediaRequest_decode W = d_message W (E2EEServiceSendMediaRequest_cases W) createBaseE2EEServiceSendMediaRequest"

lemmas E2EEServiceSendMediaRequest_defs = E2EEServiceSendMediaRequest_cases_def createBaseE2EEServiceSendMediaRequest_def

context wire_lib
begin

lemma E2EEServiceSendMediaRequest_payload_matched:
  "matched W stk rem 1 (E2EEServiceSendMediaRequest_cases W) (E2EEServiceSendMediaRequest_payload_encode W c) m (m\<lparr>E2EEServiceSendMediaRequest_payload := Some c\<rparr>)"
proof (cases c)
  case (E2EEServiceSendMediaRequest_payload_metadata v)
  show ?thesis
    by (simp add: E2EEServiceSendMediaRequest_payload_metadata E2EEServiceSendMediaRequest_payload_encode_def, rule matched_msg, rule E2EEServiceSendMediaMetadata_rt, simp, simp add: E2EEServiceSendMediaRequest_defs, simp)
next
  case (E2EEServiceSendMediaRequest_payload_chunk v)
  show ?thesis
    by (simp add: E2EEServiceSendMediaRequest_payload_chunk E2EEServiceSendMediaRequest_payload_encode_def, rule matched_msg, rule MediaChunk_rt, simp, simp add: E2EEServiceSendMediaRequest_defs, simp)
qed

lemma E2EEServiceSendMediaRequest_codec:
  "codec W stk rem 1 (E2EEServiceSendMediaRequest_encode W) (E2EEServiceSendMediaRequest_cases W) createBaseE2EEServiceSendMediaRequest m"
  by (rule codecI [OF E2EEServiceSendMediaRequest_encode_def],
      rule field_some [where upd = E2EEServiceSendMediaRequest_payload_update], rule E2EEServiceSendMediaRequest_payload_matched, simp add: E2EEServiceSendMediaRequest_defs,
      rule matched_Nil, cases m, simp add: E2EEServiceSendMediaRequest_defs)

lemma E2EEServiceSendMediaRequest_rt: "2 \<le> d \<Longrightarrow> codec_rt W stk rem d (E2EEServiceSendMediaRequest_encode W) (E2EEServiceSendMediaRequest_decode W) m"
  unfolding E2EEServiceSendMediaRequest_decode_def
  by (rule codec_rt_mono [OF codec_rt_of_codec [OF E2EEServiceSendMediaRequest_codec]]) simp_all

end

context wire_reader
begin

lemma E2EEServiceSendMediaRequest_total [total_rules]: "dec_total W (E2EEServiceSendMediaRequest_decode W)"
  unfolding E2EEServiceSendMediaRequest_decode_def E2EEServiceSendMediaRequest_cases_def by (intro total_rules)

end

subsection \<open>E2EEServiceSendMediaResponse\<close>

record E2EEServiceSendMediaResponse =
  E2EEServiceSendMediaResponse_messageId :: string
  E2EEServiceSendMediaResponse_timestamp :: "js_date option"
  E2EEServiceSendMediaResponse_sha256 :: "byte list"

definition createBaseE2EEServiceSendMediaResponse :: E2EEServiceSendMediaResponse where
  "createBaseE2EEServiceSendMediaResponse = \<lparr>E2EEServiceSendMediaResponse_messageId = '''',
     E2EEServiceSendMediaResponse_timestamp = None,
     E2EEServiceSendMediaResponse_sha256 = []\<rparr>"

definition E2EEServiceSendMediaResponse_encode :: "('w, 'r) wire \<Rightarrow> E2EEServiceSendMediaResponse \<Rightarrow> 'w writer" where
  "E2EEServiceSendMediaResponse_encode W m = w_seq [
     w_if (E2EEServiceSendMediaResponse_messageId m \<noteq> '''') [w_uint32 W 10, w_string W (E2EEServiceSendMediaResponse_messageId m)],
     w_some (E2EEServiceSendMediaResponse_timestamp m) (\<lambda>v. [w_try (toTimestamp v) (\<lambda>t. [w_uint32 W 18, w_open W, Timestamp_encode W t, w_join W])]),
     w_if (E2EEServiceSendMediaResponse_sha256 m \<noteq> []) [w_uint32 W 26, w_bytes W (E2EEServiceSendMediaResponse_sha256 m)]]"

definition E2EEServiceSendMediaResponse_cases :: "('w, 'r) wire \<Rightarrow> ('r, E2EEServiceSendMediaResponse) cases" where
  "E2EEServiceSendMediaResponse_cases W = [
     (1, 10, d_val (r_string W) (\<lambda>v m. m\<lparr>E2EEServiceSendMediaResponse_messageId := v\<rparr>)),
     (2, 18, d_msg W (Timestamp_decode W) (\<lambda>v m. m\<lparr>E2EEServiceSendMediaResponse_timestamp := Some (fromTimestamp v)\<rparr>)),
     (3, 26, d_val (r_bytes W) (\<lambda>v m. m\<lparr>E2EEServiceSendMediaResponse_sha256 := v\<rparr>))]"

definition E2EEServiceSendMediaResponse_decode :: "('w, 'r) wire \<Rightarrow> ('r, E2EEServiceSendMediaResponse) decoder" where
  "E2EEServiceSendMediaResponse_decode W = d_message W (E2EEServiceSendMediaResponse_cases W) createBaseE2EEServiceSendMediaResponse"

definition E2EEServiceSendMediaResponse_ok :: "E2EEServiceSendMediaResponse \<Rightarrow> bool" where
  "E2EEServiceSendMediaResponse_ok m \<longleftrightarrow> pred_option js_date_ok (E2EEServiceSendMediaResponse_timestamp m)"

lemmas E2EEServiceSendMediaResponse_defs = E2EEServiceSendMediaResponse_cases_def createBaseE2EEServiceSendMediaResponse_def

context wire_lib
begin

lemma E2EEServiceSendMediaResponse_codec:
  assumes ok: "E2EEServiceSendMediaResponse_ok m"
  shows "codec W stk rem 1 (E2EEServiceSendMediaResponse_encode W) (E2EEServiceSendMediaResponse_cases W) createBaseE2EEServiceSendMediaResponse m"
  by (rule codecI [OF E2EEServiceSendMediaResponse_encode_def],
      rule field_string [where upd = E2EEServiceSendMediaResponse_messageId_update], simp add: E2EEServiceSendMediaResponse_defs, simp add: E2EEServiceSendMediaResponse_defs,
      rule field_conv [where upd = E2EEServiceSendMediaResponse_timestamp_update and unconv = fromTimestamp], rule date_rt, simp, (use ok in \<open>fastforce simp: E2EEServiceSendMediaResponse_ok_def list_all_iff\<close>), assumption, simp add: E2EEServiceSendMediaResponse_defs, simp add: E2EEServiceSendMediaResponse_defs,
      rule field_bytes [where upd = E2EEServiceSendMediaResponse_sha256_update], simp add: E2EEServiceSendMediaResponse_defs, simp add: E2EEServiceSendMediaResponse_defs,
      rule matched_Nil, cases m, simp add: E2EEServiceSendMediaResponse_defs)

lemma E2EEServiceSendMediaResponse_rt: "2 \<le> d \<Longrightarrow> E2EEServiceSendMediaResponse_ok m \<Longrightarrow> codec_rt W stk rem d (E2EEServiceSendMediaResponse_encode W) (E2EEServiceSendMediaResponse_decode W) m"
  unfolding E2EEServiceSendMediaResponse_decode_def
  by (rule codec_rt_mono [OF codec_rt_of_codec [OF E2EEServiceSendMediaResponse_codec]]) simp_all

end

context wire_reader
begin

lemma E2EEServiceSendMediaResponse_total [total_rules]: "dec_total W (E2EEServiceSendMediaResponse_decode W)"
  unfolding E2EEServiceSendMediaResponse_decode_def E2EEServiceSendMediaResponse_cases_def by (intro total_rules)

end

subsection \<open>E2EEServiceDownloadMediaRequest\<close>

record E2EEServiceDownloadMediaRequest =
  E2EEServiceDownloadMediaRequest_sessionId :: string
  E2EEServiceDownloadMediaRequest_reference :: "E2EEMediaReference option"

definition createBaseE2EEServiceDownloadMediaRequest :: E2EEServiceDownloadMediaRequest where
  "createBaseE2EEServiceDownloadMediaRequest = \<lparr>E2EEServiceDownloadMediaRequest_sessionId = '''',
     E2EEServiceDownloadMediaRequest_reference = None\<rparr>"

definition E2EEServiceDownloadMediaRequest_encode :: "('w, 'r) wire \<Rightarrow> E2EEServiceDownloadMediaRequest \<Rightarrow> 'w writer" where
  "E2EEServiceDownloadMediaRequest_encode W m = w_seq [
     w_if (E2EEServiceDownloadMediaRequest_sessionId m \<noteq> '''') [w_uint32 W 10, w_string W (E2EEServiceDownloadMediaRequest_sessionId m)],
     w_some (E2EEServiceDownloadMediaRequest_reference m) (\<lambda>v. [w_uint32 W 18, w_open W, E2EEMediaReference_encode W v, w_join W])]"

definition E2EEServiceDownloadMediaRequest_cases :: "('w, 'r) wire \<Rightarrow> ('r, E2EEServiceDownloadMediaRequest) cases" where
  "E2EEServiceDownloadMediaRequest_cases W = [
     (1, 10, d_val (r_string W) (\<lambda>v m. m\<lparr>E2EEServiceDownloadMediaRequest_sessionId := v\<rparr>)),
     (2, 18, d_msg W (E2EEMediaReference_decode W) (\<lambda>v m. m\<lparr>E2EEServiceDownloadMediaRequest_reference := Some v\<rparr>))]"

definition E2EEServiceDownloadMediaRequest_decode :: "('w, 'r) wire \<Rightarrow> ('r, E2EEServiceDownloadMediaRequest) decoder" where
  "E2EEServiceDownloadMediaRequest_decode W = d_message W (E2EEServiceDownloadMediaRequest_cases W) createBaseE2EEServiceDownloadMediaRequest"

lemmas E2EEServiceDownloadMediaRequest_defs = E2EEServiceDownloadMediaRequest_cases_def createBaseE2EEServiceDownloadMediaRequest_def

context wire_lib
begin

lemma E2EEServiceDownloadMediaRequest_codec:
  "codec W stk rem 1 (E2EEServiceDownloadMediaRequest_encode W) (E2EEServiceDownloadMediaRequest_cases W) createBaseE2EEServiceDownloadMediaRequest m"
  by (rule codecI [OF E2EEServiceDownloadMediaRequest_encode_def],
      rule field_string [where upd = E2EEServiceDownloadMediaRequest_sessionId_update], simp add: E2EEServiceDownloadMediaRequest_defs, simp add: E2EEServiceDownloadMediaRequest_defs,
      rule field_msg [where upd = E2EEServiceDownloadMediaRequest_reference_update], rule E2EEMediaReference_rt, simp, simp add: E2EEServiceDownloadMediaRequest_defs, simp add: E2EEServiceDownloadMediaRequest_defs,
      rule matched_Nil, cases m, simp add: E2EEServiceDownloadMediaRequest_defs)

lemma E2EEServiceDownloadMediaRequest_rt: "2 \<le> d \<Longrightarrow> codec_rt W stk rem d (E2EEServiceDownloadMediaRequest_encode W) (E2EEServiceDownloadMediaRequest_decode W) m"
  unfolding E2EEServiceDownloadMediaRequest_decode_def
  by (rule codec_rt_mono [OF codec_rt_of_codec [OF E2EEServiceDownloadMediaRequest_codec]]) simp_all

end

context wire_reader
begin

lemma E2EEServiceDownloadMediaRequest_total [total_rules]: "dec_total W (E2EEServiceDownloadMediaRequest_decode W)"
  unfolding E2EEServiceDownloadMediaRequest_decode_def E2EEServiceDownloadMediaRequest_cases_def by (intro total_rules)

end

subsection \<open>E2EEServiceDownloadMediaMetadata\<close>

record E2EEServiceDownloadMediaMetadata =
  E2EEServiceDownloadMediaMetadata_size :: int
  E2EEServiceDownloadMediaMetadata_contentType :: string
  E2EEServiceDownloadMediaMetadata_sha256 :: "byte list"

definition createBaseE2EEServiceDownloadMediaMetadata :: E2EEServiceDownloadMediaMetadata where
  "createBaseE2EEServiceDownloadMediaMetadata = \<lparr>E2EEServiceDownloadMediaMetadata_size = 0,
     E2EEServiceDownloadMediaMetadata_contentType = '''',
     E2EEServiceDownloadMediaMetadata_sha256 = []\<rparr>"

definition E2EEServiceDownloadMediaMetadata_encode :: "('w, 'r) wire \<Rightarrow> E2EEServiceDownloadMediaMetadata \<Rightarrow> 'w writer" where
  "E2EEServiceDownloadMediaMetadata_encode W m = w_seq [
     w_if (E2EEServiceDownloadMediaMetadata_size m \<noteq> 0) [w_check (asIntN64 (E2EEServiceDownloadMediaMetadata_size m) = E2EEServiceDownloadMediaMetadata_size m) (too_large ''message.size'' ''int64''),
         w_uint32 W 8, w_int64 W (E2EEServiceDownloadMediaMetadata_size m)],
     w_if (E2EEServiceDownloadMediaMetadata_contentType m \<noteq> '''') [w_uint32 W 18, w_string W (E2EEServiceDownloadMediaMetadata_contentType m)],
     w_if (E2EEServiceDownloadMediaMetadata_sha256 m \<noteq> []) [w_uint32 W 26, w_bytes W (E2EEServiceDownloadMediaMetadata_sha256 m)]]"

definition E2EEServiceDownloadMediaMetadata_cases :: "('w, 'r) wire \<Rightarrow> ('r, E2EEServiceDownloadMediaMetadata) cases" where
  "E2EEServiceDownloadMediaMetadata_cases W = [
     (1, 8, d_val (r_int64 W) (\<lambda>v m. m\<lparr>E2EEServiceDownloadMediaMetadata_size := v\<rparr>)),
     (2, 18, d_val (r_string W) (\<lambda>v m. m\<lparr>E2EEServiceDownloadMediaMetadata_contentType := v\<rparr>)),
     (3, 26, d_val (r_bytes W) (\<lambda>v m. m\<lparr>E2EEServiceDownloadMediaMetadata_sha256 := v\<rparr>))]"

definition E2EEServiceDownloadMediaMetadata_decode :: "('w, 'r) wire \<Rightarrow> ('r, E2EEServiceDownloadMediaMetadata) decoder" where
  "E2EEServiceDownloadMediaMetadata_decode W = d_message W (E2EEServiceDownloadMediaMetadata_cases W) createBaseE2EEServiceDownloadMediaMetadata"

lemmas E2EEServiceDownloadMediaMetadata_defs = E2EEServiceDownloadMediaMetadata_cases_def createBaseE2EEServiceDownloadMediaMetadata_def

context wire_lib
begin

lemma E2EEServiceDownloadMediaMetadata_codec:
  "codec W stk rem 0 (E2EEServiceDownloadMediaMetadata_encode W) (E2EEServiceDownloadMediaMetadata_cases W) createBaseE2EEServiceDownloadMediaMetadata m"
  by (rule codecI [OF E2EEServiceDownloadMediaMetadata_encode_def],
      rule field_int64 [where upd = E2EEServiceDownloadMediaMetadata_size_update], simp add: E2EEServiceDownloadMediaMetadata_defs, simp add: E2EEServiceDownloadMediaMetadata_defs,
      rule field_string [where upd = E2EEServiceDownloadMediaMetadata_contentType_update], simp add: E2EEServiceDownloadMediaMetadata_defs, simp add: E2EEServiceDownloadMediaMetadata_defs,
      rule field_bytes [where upd = E2EEServiceDownloadMediaMetadata_sha256_update], simp add: E2EEServiceDownloadMediaMetadata_defs, simp add: E2EEServiceDownloadMediaMetadata_defs,
      rule matched_Nil, cases m, simp add: E2EEServiceDownloadMediaMetadata_defs)

lemma E2EEServiceDownloadMediaMetadata_rt: "1 \<le> d \<Longrightarrow> codec_rt W stk rem d (E2EEServiceDownloadMediaMetadata_encode W) (E2EEServiceDownloadMediaMetadata_decode W) m"
  unfolding E2EEServiceDownloadMediaMetadata_decode_def
  by (rule codec_rt_mono [OF codec_rt_of_codec [OF E2EEServiceDownloadMediaMetadata_codec]]) simp_all

end

context wire_reader
begin

lemma E2EEServiceDownloadMediaMetadata_total [total_rules]: "dec_total W (E2EEServiceDownloadMediaMetadata_decode W)"
  unfolding E2EEServiceDownloadMediaMetadata_decode_def E2EEServiceDownloadMediaMetadata_cases_def by (intro total_rules)

end

subsection \<open>E2EEServiceDownloadMediaResponse\<close>

datatype E2EEServiceDownloadMediaResponse_payload_case =
    E2EEServiceDownloadMediaResponse_payload_metadata E2EEServiceDownloadMediaMetadata
  | E2EEServiceDownloadMediaResponse_payload_chunk MediaChunk

record E2EEServiceDownloadMediaResponse =
  E2EEServiceDownloadMediaResponse_payload :: "E2EEServiceDownloadMediaResponse_payload_case option"

definition createBaseE2EEServiceDownloadMediaResponse :: E2EEServiceDownloadMediaResponse where
  "createBaseE2EEServiceDownloadMediaResponse = \<lparr>E2EEServiceDownloadMediaResponse_payload = None\<rparr>"

definition E2EEServiceDownloadMediaResponse_payload_encode :: "('w, 'r) wire \<Rightarrow> E2EEServiceDownloadMediaResponse_payload_case \<Rightarrow> 'w writer list" where
  "E2EEServiceDownloadMediaResponse_payload_encode W c = (case c of
       E2EEServiceDownloadMediaResponse_payload_metadata v \<Rightarrow> [w_uint32 W 10, w_open W, E2EEServiceDownloadMediaMetadata_encode W v, w_join W]
     | E2EEServiceDownloadMediaResponse_payload_chunk v \<Rightarrow> [w_uint32 W 18, w_open W, MediaChunk_encode W v, w_join W])"

definition E2EEServiceDownloadMediaResponse_encode :: "('w, 'r) wire \<Rightarrow> E2EEServiceDownloadMediaResponse \<Rightarrow> 'w writer" where
  "E2EEServiceDownloadMediaResponse_encode W m = w_seq [
     w_some (E2EEServiceDownloadMediaResponse_payload m) (E2EEServiceDownloadMediaResponse_payload_encode W)]"

definition E2EEServiceDownloadMediaResponse_cases :: "('w, 'r) wire \<Rightarrow> ('r, E2EEServiceDownloadMediaResponse) cases" where
  "E2EEServiceDownloadMediaResponse_cases W = [
     (1, 10, d_msg W (E2EEServiceDownloadMediaMetadata_decode W)
        (\<lambda>v m. m\<lparr>E2EEServiceDownloadMediaResponse_payload := Some (E2EEServiceDownloadMediaResponse_payload_metadata v)\<rparr>)),
     (2, 18, d_msg W (MediaChunk_decode W)
        (\<lambda>v m. m\<lparr>E2EEServiceDownloadMediaResponse_payload := Some (E2EEServiceDownloadMediaResponse_payload_chunk v)\<rparr>))]"

definition E2EEServiceDownloadMediaResponse_decode :: "('w, 'r) wire \<Rightarrow> ('r, E2EEServiceDownloadMediaResponse) decoder" where
  "E2EEServiceDownloadMediaResponse_decode W = d_message W (E2EEServiceDownloadMediaResponse_cases W) createBaseE2EEServiceDownloadMediaResponse"

lemmas E2EEServiceDownloadMediaResponse_defs = E2EEServiceDownloadMediaResponse_cases_def createBaseE2EEServiceDownloadMediaResponse_def

context wire_lib
begin

lemma E2EEServiceDownloadMediaResponse_payload_matched:
  "matched W stk rem 1 (E2EEServiceDownloadMediaResponse_cases W) (E2EEServiceDownloadMediaResponse_payload_encode W c) m (m\<lparr>E2EEServiceDownloadMediaResponse_payload := Some c\<rparr>)"
proof (cases c)
  case (E2EEServiceDownloadMediaResponse_payload_metadata v)
  show ?thesis
    by (simp add: E2EEServiceDownloadMediaResponse_payload_metadata E2EEServiceDownloadMediaResponse_payload_encode_def, rule matched_msg, rule E2EEServiceDownloadMediaMetadata_rt, simp, simp add: E2EEServiceDownloadMediaResponse_defs, simp)
next
  case (E2EEServiceDownloadMediaResponse_payload_chunk v)
  show ?thesis
    by (simp add: E2EEServiceDownloadMediaResponse_payload_chunk E2EEServiceDownloadMediaResponse_payload_encode_def, rule matched_msg, rule MediaChunk_rt, simp, simp add: E2EEServiceDownloadMediaResponse_defs, simp)
qed

lemma E2EEServiceDownloadMediaResponse_codec:
  "codec W stk rem 1 (E2EEServiceDownloadMediaResponse_encode W) (E2EEServiceDownloadMediaResponse_cases W) createBaseE2EEServiceDownloadMediaResponse m"
  by (rule codecI [OF E2EEServiceDownloadMediaResponse_encode_def],
      rule field_some [where upd = E2EEServiceDownloadMediaResponse_payload_update], rule E2EEServiceDownloadMediaResponse_payload_matched, simp add: E2EEServiceDownloadMediaResponse_defs,
      rule matched_Nil, cases m, simp add: E2EEServiceDownloadMediaResponse_defs)

lemma E2EEServiceDownloadMediaResponse_rt: "2 \<le> d \<Longrightarrow> codec_rt W stk rem d (E2EEServiceDownloadMediaResponse_encode W) (E2EEServiceDownloadMediaResponse_decode W) m"
  unfolding E2EEServiceDownloadMediaResponse_decode_def
  by (rule codec_rt_mono [OF codec_rt_of_codec [OF E2EEServiceDownloadMediaResponse_codec]]) simp_all

end

context wire_reader
begin

lemma E2EEServiceDownloadMediaResponse_total [total_rules]: "dec_total W (E2EEServiceDownloadMediaResponse_decode W)"
  unfolding E2EEServiceDownloadMediaResponse_decode_def E2EEServiceDownloadMediaResponse_cases_def by (intro total_rules)

end

subsection \<open>E2EEServiceReactRequest\<close>

record E2EEServiceReactRequest =
  E2EEServiceReactRequest_sessionId :: string
  E2EEServiceReactRequest_chatJid :: string
  E2EEServiceReactRequest_messageId :: string
  E2EEServiceReactRequest_senderJid :: string
  E2EEServiceReactRequest_reaction :: string

definition createBaseE2EEServiceReactRequest :: E2EEServiceReactRequest where
  "createBaseE2EEServiceReactRequest = \<lparr>E2EEServiceReactRequest_sessionId = '''',
     E2EEServiceReactRequest_chatJid = '''',
     E2EEServiceReactRequest_messageId = '''',
     E2EEServiceReactRequest_senderJid = '''',
     E2EEServiceReactRequest_reaction = ''''\<rparr>"

definition E2EEServiceReactRequest_encode :: "('w, 'r) wire \<Rightarrow> E2EEServiceReactRequest \<Rightarrow> 'w writer" where
  "E2EEServiceReactRequest_encode W m = w_seq [
     w_if (E2EEServiceReactRequest_sessionId m \<noteq> '''') [w_uint32 W 10, w_string W (E2EEServiceReactRequest_sessionId m)],
     w_if (E2EEServiceReactRequest_chatJid m \<noteq> '''') [w_uint32 W 18, w_string W (E2EEServiceReactRequest_chatJid m)],
     w_if (E2EEServiceReactRequest_messageId m \<noteq> '''') [w_uint32 W 26, w_string W (E2EEServiceReactRequest_messageId m)],
     w_if (E2EEServiceReactRequest_senderJid m \<noteq> '''') [w_uint32 W 34, w_string W (E2EEServiceReactRequest_senderJid m)],
     w_if (E2EEServiceReactRequest_reaction m \<noteq> '''') [w_uint32 W 42, w_string W (E2EEServiceReactRequest_reaction m)]]"

definition E2EEServiceReactRequest_cases :: "('w, 'r) wire \<Rightarrow> ('r, E2EEServiceReactRequest) cases" where
  "E2EEServiceReactRequest_cases W = [
     (1, 10, d_val (r_string W) (\<lambda>v m. m\<lparr>E2EEServiceReactRequest_sessionId := v\<rparr>)),
     (2, 18, d_val (r_string W) (\<lambda>v m. m\<lparr>E2EEServiceReactRequest_chatJid := v\<rparr>)),
     (3, 26, d_val (r_string W) (\<lambda>v m. m\<lparr>E2EEServiceReactRequest_messageId := v\<rparr>)),
     (4, 34, d_val (r_string W) (\<lambda>v m. m\<lparr>E2EEServiceReactRequest_senderJid := v\<rparr>)),
     (5, 42, d_val (r_string W) (\<lambda>v m. m\<lparr>E2EEServiceReactRequest_reaction := v\<rparr>))]"

definition E2EEServiceReactRequest_decode :: "('w, 'r) wire \<Rightarrow> ('r, E2EEServiceReactRequest) decoder" where
  "E2EEServiceReactRequest_decode W = d_message W (E2EEServiceReactRequest_cases W) createBaseE2EEServiceReactRequest"

lemmas E2EEServiceReactRequest_defs = E2EEServiceReactRequest_cases_def createBaseE2EEServiceReactRequest_def

context wire_lib
begin

lemma E2EEServiceReactRequest_codec:
  "codec W stk rem 0 (E2EEServiceReactRequest_encode W) (E2EEServiceReactRequest_cases W) createBaseE2EEServiceReactRequest m"
  by (rule codecI [OF E2EEServiceReactRequest_encode_def],
      rule field_string [where upd = E2EEServiceReactRequest_sessionId_update], simp add: E2EEServiceReactRequest_defs, simp add: E2EEServiceReactRequest_defs,
      rule field_string [where upd = E2EEServiceReactRequest_chatJid_update], simp add: E2EEServiceReactRequest_defs, simp add: E2EEServiceReactRequest_defs,
      rule field_string [where upd = E2EEServiceReactRequest_messageId_update], simp add: E2EEServiceReactRequest_defs, simp add: E2EEServiceReactRequest_defs,
      rule field_string [where upd = E2EEServiceReactRequest_senderJid_update], simp add: E2EEServiceReactRequest_defs, simp add: E2EEServiceReactRequest_defs,
      rule field_string [where upd = E2EEServiceReactRequest_reaction_update], simp add: E2EEServiceReactRequest_defs, simp add: E2EEServiceReactRequest_defs,
      rule matched_Nil, cases m, simp add: E2EEServiceReactRequest_defs)

lemma E2EEServiceReactRequest_rt: "1 \<le> d \<Longrightarrow> codec_rt W stk rem d (E2EEServiceReactRequest_encode W) (E2EEServiceReactRequest_decode W) m"
  unfolding E2EEServiceReactRequest_decode_def
  by (rule codec_rt_mono [OF codec_rt_of_codec [OF E2EEServiceReactRequest_codec]]) simp_all

end

context wire_reader
begin

lemma E2EEServiceReactRequest_total [total_rules]: "dec_total W (E2EEServiceReactRequest_decode W)"
  unfolding E2EEServiceReactRequest_decode_def E2EEServiceReactRequest_cases_def by (intro total_rules)

end

subsection \<open>E2EEServiceReactResponse\<close>

datatype E2EEServiceReactResponse = E2EEServiceReactResponse

definition createBaseE2EEServiceReactResponse :: E2EEServiceReactResponse where
  "createBaseE2EEServiceReactResponse = E2EEServiceReactResponse"

definition E2EEServiceReactResponse_encode :: "('w, 'r) wire \<Rightarrow> E2EEServiceReactResponse \<Rightarrow> 'w writer" where
  "E2EEServiceReactResponse_encode W m = w_seq []"

definition E2EEServiceReactResponse_cases :: "('w, 'r) wire \<Rightarrow> ('r, E2EEServiceReactResponse) cases" where
  "E2EEServiceReactResponse_cases W = []"

definition E2EEServiceReactResponse_decode :: "('w, 'r) wire \<Rightarrow> ('r, E2EEServiceReactResponse) decoder" where
  "E2EEServiceReactResponse_decode W = d_message W (E2EEServiceReactResponse_cases W) createBaseE2EEServiceReactResponse"

lemmas E2EEServiceReactResponse_defs = E2EEServiceReactResponse_cases_def createBaseE2EEServiceReactResponse_def

context wire_lib
begin

lemma E2EEServiceReactResponse_codec:
  "codec W stk rem 0 (E2EEServiceReactResponse_encode W) (E2EEServiceReactResponse_cases W) createBaseE2EEServiceReactResponse m"
  by (rule codecI [OF E2EEServiceReactResponse_encode_def],
      rule matched_Nil, cases m, simp add: E2EEServiceReactResponse_defs)

lemma E2EEServiceReactResponse_rt: "1 \<le> d \<Longrightarrow> codec_rt W stk rem d (E2EEServiceReactResponse_encode W) (E2EEServiceReactResponse_decode W) m"
  unfolding E2EEServiceReactResponse_decode_def
  by (rule codec_rt_mono [OF codec_rt_of_codec [OF E2EEServiceReactResponse_codec]]) simp_all

end

context wire_reader
begin

lemma E2EEServiceReactResponse_total [total_rules]: "dec_total W (E2EEServiceReactResponse_decode W)"
  unfolding E2EEServiceReactResponse_decode_def E2EEServiceReactResponse_cases_def by (intro total_rules)

end

subsection \<open>E2EEServiceEditRequest\<close>

record E2EEServiceEditRequest =
  E2EEServiceEditRequest_sessionId :: string
  E2EEServiceEditRequest_chatJid :: string
  E2EEServiceEditRequest_messageId :: string
  E2EEServiceEditRequest_text :: string

definition createBaseE2EEServiceEditRequest :: E2EEServiceEditRequest where
  "createBaseE2EEServiceEditRequest = \<lparr>E2EEServiceEditRequest_sessionId = '''',
     E2EEServiceEditRequest_chatJid = '''',
     E2EEServiceEditRequest_messageId = '''',
     E2EEServiceEditRequest_text = ''''\<rparr>"

definition E2EEServiceEditRequest_encode :: "('w, 'r) wire \<Rightarrow> E2EEServiceEditRequest \<Rightarrow> 'w writer" where
  "E2EEServiceEditRequest_encode W m = w_seq [
     w_if (E2EEServiceEditRequest_sessionId m \<noteq> '''') [w_uint32 W 10, w_string W (E2EEServiceEditRequest_sessionId m)],
     w_if (E2EEServiceEditRequest_chatJid m \<noteq> '''') [w_uint32 W 18, w_string W (E2EEServiceEditRequest_chatJid m)],
     w_if (E2EEServiceEditRequest_messageId m \<noteq> '''') [w_uint32 W 26, w_string W (E2EEServiceEditRequest_messageId m)],
     w_if (E2EEServiceEditRequest_text m \<noteq> '''') [w_uint32 W 34, w_string W (E2EEServiceEditRequest_text m)]]"

definition E2EEServiceEditRequest_cases :: "('w, 'r) wire \<Rightarrow> ('r, E2EEServiceEditRequest) cases" where
  "E2EEServiceEditRequest_cases W = [
     (1, 10, d_val (r_string W) (\<lambda>v m. m\<lparr>E2EEServiceEditRequest_sessionId := v\<rparr>)),
     (2, 18, d_val (r_string W) (\<lambda>v m. m\<lparr>E2EEServiceEditRequest_chatJid := v\<rparr>)),
     (3, 26, d_val (r_string W) (\<lambda>v m. m\<lparr>E2EEServiceEditRequest_messageId := v\<rparr>)),
     (4, 34, d_val (r_string W) (\<lambda>v m. m\<lparr>E2EEServiceEditRequest_text := v\<rparr>))]"

definition E2EEServiceEditRequest_decode :: "('w, 'r) wire \<Rightarrow> ('r, E2EEServiceEditRequest) decoder" where
  "E2EEServiceEditRequest_decode W = d_message W (E2EEServiceEditRequest_cases W) createBaseE2EEServiceEditRequest"

lemmas E2EEServiceEditRequest_defs = E2EEServiceEditRequest_cases_def createBaseE2EEServiceEditRequest_def

context wire_lib
begin

lemma E2EEServiceEditRequest_codec:
  "codec W stk rem 0 (E2EEServiceEditRequest_encode W) (E2EEServiceEditRequest_cases W) createBaseE2EEServiceEditRequest m"
  by (rule codecI [OF E2EEServiceEditRequest_encode_def],
      rule field_string [where upd = E2EEServiceEditRequest_sessionId_update], simp add: E2EEServiceEditRequest_defs, simp add: E2EEServiceEditRequest_defs,
      rule field_string [where upd = E2EEServiceEditRequest_chatJid_update], simp add: E2EEServiceEditRequest_defs, simp add: E2EEServiceEditRequest_defs,
      rule field_string [where upd = E2EEServiceEditRequest_messageId_update], simp add: E2EEServiceEditRequest_defs, simp add: E2EEServiceEditRequest_defs,
      rule field_string [where upd = E2EEServiceEditRequest_text_update], simp add: E2EEServiceEditRequest_defs, simp add: E2EEServiceEditRequest_defs,
      rule matched_Nil, cases m, simp add: E2EEServiceEditRequest_defs)

lemma E2EEServiceEditRequest_rt: "1 \<le> d \<Longrightarrow> codec_rt W stk rem d (E2EEServiceEditRequest_encode W) (E2EEServiceEditRequest_decode W) m"
  unfolding E2EEServiceEditRequest_decode_def
  by (rule codec_rt_mono [OF codec_rt_of_codec [OF E2EEServiceEditRequest_codec]]) simp_all

end

context wire_reader
begin

lemma E2EEServiceEditRequest_total [total_rules]: "dec_total W (E2EEServiceEditRequest_decode W)"
  unfolding E2EEServiceEditRequest_decode_def E2EEServiceEditRequest_cases_def by (intro total_rules)

end

subsection \<open>E2EEServiceEditResponse\<close>

datatype E2EEServiceEditResponse = E2EEServiceEditResponse

definition createBaseE2EEServiceEditResponse :: E2EEServiceEditResponse where
  "createBaseE2EEServiceEditResponse = E2EEServiceEditResponse"

definition E2EEServiceEditResponse_encode :: "('w, 'r) wire \<Rightarrow> E2EEServiceEditResponse \<Rightarrow> 'w writer" where
  "E2EEServiceEditResponse_encode W m = w_seq []"

definition E2EEServiceEditResponse_cases :: "('w, 'r) wire \<Rightarrow> ('r, E2EEServiceEditResponse) cases" where
  "E2EEServiceEditResponse_cases W = []"

definition E2EEServiceEditResponse_decode :: "('w, 'r) wire \<Rightarrow> ('r, E2EEServiceEditResponse) decoder" where
  "E2EEServiceEditResponse_decode W = d_message W (E2EEServiceEditResponse_cases W) createBaseE2EEServiceEditResponse"

lemmas E2EEServiceEditResponse_defs = E2EEServiceEditResponse_cases_def createBaseE2EEServiceEditResponse_def

context wire_lib
begin

lemma E2EEServiceEditResponse_codec:
  "codec W stk rem 0 (E2EEServiceEditResponse_encode W) (E2EEServiceEditResponse_cases W) createBaseE2EEServiceEditResponse m"
  by (rule codecI [OF E2EEServiceEditResponse_encode_def],
      rule matched_Nil, cases m, simp add: E2EEServiceEditResponse_defs)

lemma E2EEServiceEditResponse_rt: "1 \<le> d \<Longrightarrow> codec_rt W stk rem d (E2EEServiceEditResponse_encode W) (E2EEServiceEditResponse_decode W) m"
  unfolding E2EEServiceEditResponse_decode_def
  by (rule codec_rt_mono [OF codec_rt_of_codec [OF E2EEServiceEditResponse_codec]]) simp_all

end

context wire_reader
begin

lemma E2EEServiceEditResponse_total [total_rules]: "dec_total W (E2EEServiceEditResponse_decode W)"
  unfolding E2EEServiceEditResponse_decode_def E2EEServiceEditResponse_cases_def by (intro total_rules)

end

subsection \<open>E2EEServiceUnsendRequest\<close>

record E2EEServiceUnsendRequest =
  E2EEServiceUnsendRequest_sessionId :: string
  E2EEServiceUnsendRequest_chatJid :: string
  E2EEServiceUnsendRequest_messageId :: string

definition createBaseE2EEServiceUnsendRequest :: E2EEServiceUnsendRequest where
  "createBaseE2EEServiceUnsendRequest = \<lparr>E2EEServiceUnsendRequest_sessionId = '''',
     E2EEServiceUnsendRequest_chatJid = '''',
     E2EEServiceUnsendRequest_messageId = ''''\<rparr>"

definition E2EEServiceUnsendRequest_encode :: "('w, 'r) wire \<Rightarrow> E2EEServiceUnsendRequest \<Rightarrow> 'w writer" where
  "E2EEServiceUnsendRequest_encode W m = w_seq [
     w_if (E2EEServiceUnsendRequest_sessionId m \<noteq> '''') [w_uint32 W 10, w_string W (E2EEServiceUnsendRequest_sessionId m)],
     w_if (E2EEServiceUnsendRequest_chatJid m \<noteq> '''') [w_uint32 W 18, w_string W (E2EEServiceUnsendRequest_chatJid m)],
     w_if (E2EEServiceUnsendRequest_messageId m \<noteq> '''') [w_uint32 W 26, w_string W (E2EEServiceUnsendRequest_messageId m)]]"

definition E2EEServiceUnsendRequest_cases :: "('w, 'r) wire \<Rightarrow> ('r, E2EEServiceUnsendRequest) cases" where
  "E2EEServiceUnsendRequest_cases W = [
     (1, 10, d_val (r_string W) (\<lambda>v m. m\<lparr>E2EEServiceUnsendRequest_sessionId := v\<rparr>)),
     (2, 18, d_val (r_string W) (\<lambda>v m. m\<lparr>E2EEServiceUnsendRequest_chatJid := v\<rparr>)),
     (3, 26, d_val (r_string W) (\<lambda>v m. m\<lparr>E2EEServiceUnsendRequest_messageId := v\<rparr>))]"

definition E2EEServiceUnsendRequest_decode :: "('w, 'r) wire \<Rightarrow> ('r, E2EEServiceUnsendRequest) decoder" where
  "E2EEServiceUnsendRequest_decode W = d_message W (E2EEServiceUnsendRequest_cases W) createBaseE2EEServiceUnsendRequest"

lemmas E2EEServiceUnsendRequest_defs = E2EEServiceUnsendRequest_cases_def createBaseE2EEServiceUnsendRequest_def

context wire_lib
begin

lemma E2EEServiceUnsendRequest_codec:
  "codec W stk rem 0 (E2EEServiceUnsendRequest_encode W) (E2EEServiceUnsendRequest_cases W) createBaseE2EEServiceUnsendRequest m"
  by (rule codecI [OF E2EEServiceUnsendRequest_encode_def],
      rule field_string [where upd = E2EEServiceUnsendRequest_sessionId_update], simp add: E2EEServiceUnsendRequest_defs, simp add: E2EEServiceUnsendRequest_defs,
      rule field_string [where upd = E2EEServiceUnsendRequest_chatJid_update], simp add: E2EEServiceUnsendRequest_defs, simp add: E2EEServiceUnsendRequest_defs,
      rule field_string [where upd = E2EEServiceUnsendRequest_messageId_update], simp add: E2EEServiceUnsendRequest_defs, simp add: E2EEServiceUnsendRequest_defs,
      rule matched_Nil, cases m, simp add: E2EEServiceUnsendRequest_defs)

lemma E2EEServiceUnsendRequest_rt: "1 \<le> d \<Longrightarrow> codec_rt W stk rem d (E2EEServiceUnsendRequest_encode W) (E2EEServiceUnsendRequest_decode W) m"
  unfolding E2EEServiceUnsendRequest_decode_def
  by (rule codec_rt_mono [OF codec_rt_of_codec [OF E2EEServiceUnsendRequest_codec]]) simp_all

end

context wire_reader
begin

lemma E2EEServiceUnsendRequest_total [total_rules]: "dec_total W (E2EEServiceUnsendRequest_decode W)"
  unfolding E2EEServiceUnsendRequest_decode_def E2EEServiceUnsendRequest_cases_def by (intro total_rules)

end

subsection \<open>E2EEServiceUnsendResponse\<close>

datatype E2EEServiceUnsendResponse = E2EEServiceUnsendResponse

definition createBaseE2EEServiceUnsendResponse :: E2EEServiceUnsendResponse where
  "createBaseE2EEServiceUnsendResponse = E2EEServiceUnsendResponse"

definition E2EEServiceUnsendResponse_encode :: "('w, 'r) wire \<Rightarrow> E2EEServiceUnsendResponse \<Rightarrow> 'w writer" where
  "E2EEServiceUnsendResponse_encode W m = w_seq []"

definition E2EEServiceUnsendResponse_cases :: "('w, 'r) wire \<Rightarrow> ('r, E2EEServiceUnsendResponse) cases" where
  "E2EEServiceUnsendResponse_cases W = []"

definition E2EEServiceUnsendResponse_decode :: "('w, 'r) wire \<Rightarrow> ('r, E2EEServiceUnsendResponse) decoder" where
  "E2EEServiceUnsendResponse_decode W = d_message W (E2EEServiceUnsendResponse_cases W) createBaseE2EEServiceUnsendResponse"

lemmas E2EEServiceUnsendResponse_defs = E2EEServiceUnsendResponse_cases_def createBaseE2EEServiceUnsendResponse_def

context wire_lib
begin

lemma E2EEServiceUnsendResponse_codec:
  "codec W stk rem 0 (E2EEServiceUnsendResponse_encode W) (E2EEServiceUnsendResponse_cases W) createBaseE2EEServiceUnsendResponse m"
  by (rule codecI [OF E2EEServiceUnsendResponse_encode_def],
      rule matched_Nil, cases m, simp add: E2EEServiceUnsendResponse_defs)

lemma E2EEServiceUnsendResponse_rt: "1 \<le> d \<Longrightarrow> codec_rt W stk rem d (E2EEServiceUnsendResponse_encode W) (E2EEServiceUnsendResponse_decode W) m"
  unfolding E2EEServiceUnsendResponse_decode_def
  by (rule codec_rt_mono [OF codec_rt_of_codec [OF E2EEServiceUnsendResponse_codec]]) simp_all

end

context wire_reader
begin

lemma E2EEServiceUnsendResponse_total [total_rules]: "dec_total W (E2EEServiceUnsendResponse_decode W)"
  unfolding E2EEServiceUnsendResponse_decode_def E2EEServiceUnsendResponse_cases_def by (intro total_rules)

end

subsection \<open>E2EEServiceSetTypingRequest\<close>

record E2EEServiceSetTypingRequest =
  E2EEServiceSetTypingRequest_sessionId :: string
  E2EEServiceSetTypingRequest_chatJid :: string
  E2EEServiceSetTypingRequest_typing :: bool

definition createBaseE2EEServiceSetTypingRequest :: E2EEServiceSetTypingRequest where
  "createBaseE2EEServiceSetTypingRequest = \<lparr>E2EEServiceSetTypingRequest_sessionId = '''',
     E2EEServiceSetTypingRequest_chatJid = '''',
     E2EEServiceSetTypingRequest_typing = False\<rparr>"

definition E2EEServiceSetTypingRequest_encode :: "('w, 'r) wire \<Rightarrow> E2EEServiceSetTypingRequest \<Rightarrow> 'w writer" where
  "E2EEServiceSetTypingRequest_encode W m = w_seq [
     w_if (E2EEServiceSetTypingRequest_sessionId m \<noteq> '''') [w_uint32 W 10, w_string W (E2EEServiceSetTypingRequest_sessionId m)],
     w_if (E2EEServiceSetTypingRequest_chatJid m \<noteq> '''') [w_uint32 W 18, w_string W (E2EEServiceSetTypingRequest_chatJid m)],
     w_if (E2EEServiceSetTypingRequest_typing m \<noteq> False) [w_uint32 W 24, w_bool W (E2EEServiceSetTypingRequest_typing m)]]"

definition E2EEServiceSetTypingRequest_cases :: "('w, 'r) wire \<Rightarrow> ('r, E2EEServiceSetTypingRequest) cases" where
  "E2EEServiceSetTypingRequest_cases W = [
     (1, 10, d_val (r_string W) (\<lambda>v m. m\<lparr>E2EEServiceSetTypingRequest_sessionId := v\<rparr>)),
     (2, 18, d_val (r_string W) (\<lambda>v m. m\<lparr>E2EEServiceSetTypingRequest_chatJid := v\<rparr>)),
     (3, 24, d_val (r_bool W) (\<lambda>v m. m\<lparr>E2EEServiceSetTypingRequest_typing := v\<rparr>))]"

definition E2EEServiceSetTypingRequest_decode :: "('w, 'r) wire \<Rightarrow> ('r, E2EEServiceSetTypingRequest) decoder" where
  "E2EEServiceSetTypingRequest_decode W = d_message W (E2EEServiceSetTypingRequest_cases W) createBaseE2EEServiceSetTypingRequest"

lemmas E2EEServiceSetTypingRequest_defs = E2EEServiceSetTypingRequest_cases_def createBaseE2EEServiceSetTypingRequest_def

context wire_lib
begin

lemma E2EEServiceSetTypingRequest_codec:
  "codec W stk rem 0 (E2EEServiceSetTypingRequest_encode W) (E2EEServiceSetTypingRequest_cases W) createBaseE2EEServiceSetTypingRequest m"
  by (rule codecI [OF E2EEServiceSetTypingRequest_encode_def],
      rule field_string [where upd = E2EEServiceSetTypingRequest_sessionId_update], simp add: E2EEServiceSetTypingRequest_defs, simp add: E2EEServiceSetTypingRequest_defs,
      rule field_string [where upd = E2EEServiceSetTypingRequest_chatJid_update], simp add: E2EEServiceSetTypingRequest_defs, simp add: E2EEServiceSetTypingRequest_defs,
      rule field_bool [where upd = E2EEServiceSetTypingRequest_typing_update], simp add: E2EEServiceSetTypingRequest_defs, simp add: E2EEServiceSetTypingRequest_defs,
      rule matched_Nil, cases m, simp add: E2EEServiceSetTypingRequest_defs)

lemma E2EEServiceSetTypingRequest_rt: "1 \<le> d \<Longrightarrow> codec_rt W stk rem d (E2EEServiceSetTypingRequest_encode W) (E2EEServiceSetTypingRequest_decode W) m"
  unfolding E2EEServiceSetTypingRequest_decode_def
  by (rule codec_rt_mono [OF codec_rt_of_codec [OF E2EEServiceSetTypingRequest_codec]]) simp_all

end

context wire_reader
begin

lemma E2EEServiceSetTypingRequest_total [total_rules]: "dec_total W (E2EEServiceSetTypingRequest_decode W)"
  unfolding E2EEServiceSetTypingRequest_decode_def E2EEServiceSetTypingRequest_cases_def by (intro total_rules)

end

subsection \<open>E2EEServiceSetTypingResponse\<close>

datatype E2EEServiceSetTypingResponse = E2EEServiceSetTypingResponse

definition createBaseE2EEServiceSetTypingResponse :: E2EEServiceSetTypingResponse where
  "createBaseE2EEServiceSetTypingResponse = E2EEServiceSetTypingResponse"

definition E2EEServiceSetTypingResponse_encode :: "('w, 'r) wire \<Rightarrow> E2EEServiceSetTypingResponse \<Rightarrow> 'w writer" where
  "E2EEServiceSetTypingResponse_encode W m = w_seq []"

definition E2EEServiceSetTypingResponse_cases :: "('w, 'r) wire \<Rightarrow> ('r, E2EEServiceSetTypingResponse) cases" where
  "E2EEServiceSetTypingResponse_cases W = []"

definition E2EEServiceSetTypingResponse_decode :: "('w, 'r) wire \<Rightarrow> ('r, E2EEServiceSetTypingResponse) decoder" where
  "E2EEServiceSetTypingResponse_decode W = d_message W (E2EEServiceSetTypingResponse_cases W) createBaseE2EEServiceSetTypingResponse"

lemmas E2EEServiceSetTypingResponse_defs = E2EEServiceSetTypingResponse_cases_def createBaseE2EEServiceSetTypingResponse_def

context wire_lib
begin

lemma E2EEServiceSetTypingResponse_codec:
  "codec W stk rem 0 (E2EEServiceSetTypingResponse_encode W) (E2EEServiceSetTypingResponse_cases W) createBaseE2EEServiceSetTypingResponse m"
  by (rule codecI [OF E2EEServiceSetTypingResponse_encode_def],
      rule matched_Nil, cases m, simp add: E2EEServiceSetTypingResponse_defs)

lemma E2EEServiceSetTypingResponse_rt: "1 \<le> d \<Longrightarrow> codec_rt W stk rem d (E2EEServiceSetTypingResponse_encode W) (E2EEServiceSetTypingResponse_decode W) m"
  unfolding E2EEServiceSetTypingResponse_decode_def
  by (rule codec_rt_mono [OF codec_rt_of_codec [OF E2EEServiceSetTypingResponse_codec]]) simp_all

end

context wire_reader
begin

lemma E2EEServiceSetTypingResponse_total [total_rules]: "dec_total W (E2EEServiceSetTypingResponse_decode W)"
  unfolding E2EEServiceSetTypingResponse_decode_def E2EEServiceSetTypingResponse_cases_def by (intro total_rules)

end

subsection \<open>E2EEServiceMarkReadRequest\<close>

record E2EEServiceMarkReadRequest =
  E2EEServiceMarkReadRequest_sessionId :: string
  E2EEServiceMarkReadRequest_chatJid :: string
  E2EEServiceMarkReadRequest_senderJid :: string
  E2EEServiceMarkReadRequest_messageIds :: "string list"
  E2EEServiceMarkReadRequest_timestamp :: "js_date option"

definition createBaseE2EEServiceMarkReadRequest :: E2EEServiceMarkReadRequest where
  "createBaseE2EEServiceMarkReadRequest = \<lparr>E2EEServiceMarkReadRequest_sessionId = '''',
     E2EEServiceMarkReadRequest_chatJid = '''',
     E2EEServiceMarkReadRequest_senderJid = '''',
     E2EEServiceMarkReadRequest_messageIds = [],
     E2EEServiceMarkReadRequest_timestamp = None\<rparr>"

definition E2EEServiceMarkReadRequest_encode :: "('w, 'r) wire \<Rightarrow> E2EEServiceMarkReadRequest \<Rightarrow> 'w writer" where
  "E2EEServiceMarkReadRequest_encode W m = w_seq [
     w_if (E2EEServiceMarkReadRequest_sessionId m \<noteq> '''') [w_uint32 W 10, w_string W (E2EEServiceMarkReadRequest_sessionId m)],
     w_if (E2EEServiceMarkReadRequest_chatJid m \<noteq> '''') [w_uint32 W 18, w_string W (E2EEServiceMarkReadRequest_chatJid m)],
     w_if (E2EEServiceMarkReadRequest_senderJid m \<noteq> '''') [w_uint32 W 26, w_string W (E2EEServiceMarkReadRequest_senderJid m)],
     w_for (E2EEServiceMarkReadRequest_messageIds m) (\<lambda>v. [w_uint32 W 34, w_string W v]),
     w_some (E2EEServiceMarkReadRequest_timestamp m) (\<lambda>v. [w_try (toTimestamp v) (\<lambda>t. [w_uint32 W 42, w_open W, Timestamp_encode W t, w_join W])])]"

definition E2EEServiceMarkReadRequest_cases :: "('w, 'r) wire \<Rightarrow> ('r, E2EEServiceMarkReadRequest) cases" where
  "E2EEServiceMarkReadRequest_cases W = [
     (1, 10, d_val (r_string W) (\<lambda>v m. m\<lparr>E2EEServiceMarkReadRequest_sessionId := v\<rparr>)),
     (2, 18, d_val (r_string W) (\<lambda>v m. m\<lparr>E2EEServiceMarkReadRequest_chatJid := v\<rparr>)),
     (3, 26, d_val (r_string W) (\<lambda>v m. m\<lparr>E2EEServiceMarkReadRequest_senderJid := v\<rparr>)),
     (4, 34, d_val (r_string W) (\<lambda>v m. m\<lparr>E2EEServiceMarkReadRequest_messageIds := E2EEServiceMarkReadRequest_messageIds m @ [v]\<rparr>)),
     (5, 42, d_msg W (Timestamp_decode W) (\<lambda>v m. m\<lparr>E2EEServiceMarkReadRequest_timestamp := Some (fromTimestamp v)\<rparr>))]"

definition E2EEServiceMarkReadRequest_decode :: "('w, 'r) wire \<Rightarrow> ('r, E2EEServiceMarkReadRequest) decoder" where
  "E2EEServiceMarkReadRequest_decode W = d_message W (E2EEServiceMarkReadRequest_cases W) createBaseE2EEServiceMarkReadRequest"

definition E2EEServiceMarkReadRequest_ok :: "E2EEServiceMarkReadRequest \<Rightarrow> bool" where
  "E2EEServiceMarkReadRequest_ok m \<longleftrightarrow> pred_option js_date_ok (E2EEServiceMarkReadRequest_timestamp m)"

lemmas E2EEServiceMarkReadRequest_defs = E2EEServiceMarkReadRequest_cases_def createBaseE2EEServiceMarkReadRequest_def

context wire_lib
begin

lemma E2EEServiceMarkReadRequest_codec:
  assumes ok: "E2EEServiceMarkReadRequest_ok m"
  shows "codec W stk rem 1 (E2EEServiceMarkReadRequest_encode W) (E2EEServiceMarkReadRequest_cases W) createBaseE2EEServiceMarkReadRequest m"
  by (rule codecI [OF E2EEServiceMarkReadRequest_encode_def],
      rule field_string [where upd = E2EEServiceMarkReadRequest_sessionId_update], simp add: E2EEServiceMarkReadRequest_defs, simp add: E2EEServiceMarkReadRequest_defs,
      rule field_string [where upd = E2EEServiceMarkReadRequest_chatJid_update], simp add: E2EEServiceMarkReadRequest_defs, simp add: E2EEServiceMarkReadRequest_defs,
      rule field_string [where upd = E2EEServiceMarkReadRequest_senderJid_update], simp add: E2EEServiceMarkReadRequest_defs, simp add: E2EEServiceMarkReadRequest_defs,
      rule field_push_string [where upd = E2EEServiceMarkReadRequest_messageIds_update and sel = E2EEServiceMarkReadRequest_messageIds], simp add: E2EEServiceMarkReadRequest_defs, simp add: E2EEServiceMarkReadRequest_defs, simp add: E2EEServiceMarkReadRequest_defs,
      rule field_conv [where upd = E2EEServiceMarkReadRequest_timestamp_update and unconv = fromTimestamp], rule date_rt, simp, (use ok in \<open>fastforce simp: E2EEServiceMarkReadRequest_ok_def list_all_iff\<close>), assumption, simp add: E2EEServiceMarkReadRequest_defs, simp add: E2EEServiceMarkReadRequest_defs,
      rule matched_Nil, cases m, simp add: E2EEServiceMarkReadRequest_defs)

lemma E2EEServiceMarkReadRequest_rt: "2 \<le> d \<Longrightarrow> E2EEServiceMarkReadRequest_ok m \<Longrightarrow> codec_rt W stk rem d (E2EEServiceMarkReadRequest_encode W) (E2EEServiceMarkReadRequest_decode W) m"
  unfolding E2EEServiceMarkReadRequest_decode_def
  by (rule codec_rt_mono [OF codec_rt_of_codec [OF E2EEServiceMarkReadRequest_codec]]) simp_all

end

context wire_reader
begin

lemma E2EEServiceMarkReadRequest_total [total_rules]: "dec_total W (E2EEServiceMarkReadRequest_decode W)"
  unfolding E2EEServiceMarkReadRequest_decode_def E2EEServiceMarkReadRequest_cases_def by (intro total_rules)

end

subsection \<open>E2EEServiceMarkReadResponse\<close>

datatype E2EEServiceMarkReadResponse = E2EEServiceMarkReadResponse

definition createBaseE2EEServiceMarkReadResponse :: E2EEServiceMarkReadResponse where
  "createBaseE2EEServiceMarkReadResponse = E2EEServiceMarkReadResponse"

definition E2EEServiceMarkReadResponse_encode :: "('w, 'r) wire \<Rightarrow> E2EEServiceMarkReadResponse \<Rightarrow> 'w writer" where
  "E2EEServiceMarkReadResponse_encode W m = w_seq []"

definition E2EEServiceMarkReadResponse_cases :: "('w, 'r) wire \<Rightarrow> ('r, E2EEServiceMarkReadResponse) cases" where
  "E2EEServiceMarkReadResponse_cases W = []"

definition E2EEServiceMarkReadResponse_decode :: "('w, 'r) wire \<Rightarrow> ('r, E2EEServiceMarkReadResponse) decoder" where
  "E2EEServiceMarkReadResponse_decode W = d_message W (E2EEServiceMarkReadResponse_cases W) createBaseE2EEServiceMarkReadResponse"

lemmas E2EEServiceMarkReadResponse_defs = E2EEServiceMarkReadResponse_cases_def createBaseE2EEServiceMarkReadResponse_def

context wire_lib
begin

lemma E2EEServiceMarkReadResponse_codec:
  "codec W stk rem 0 (E2EEServiceMarkReadResponse_encode W) (E2EEServiceMarkReadResponse_cases W) createBaseE2EEServiceMarkReadResponse m"
  by (rule codecI [OF E2EEServiceMarkReadResponse_encode_def],
      rule matched_Nil, cases m, simp add: E2EEServiceMarkReadResponse_defs)

lemma E2EEServiceMarkReadResponse_rt: "1 \<le> d \<Longrightarrow> codec_rt W stk rem d (E2EEServiceMarkReadResponse_encode W) (E2EEServiceMarkReadResponse_decode W) m"
  unfolding E2EEServiceMarkReadResponse_decode_def
  by (rule codec_rt_mono [OF codec_rt_of_codec [OF E2EEServiceMarkReadResponse_codec]]) simp_all

end

context wire_reader
begin

lemma E2EEServiceMarkReadResponse_total [total_rules]: "dec_total W (E2EEServiceMarkReadResponse_decode W)"
  unfolding E2EEServiceMarkReadResponse_decode_def E2EEServiceMarkReadResponse_cases_def by (intro total_rules)

end

end
