(* ===== verification/Gen_Messenger.thy ===== *)
theory Gen_Messenger
  imports Gen_Common
begin

text \<open>
  Messages of \<open>sdk/node/src/gen/meta/v1/messenger.ts\<close>: the messenger service.
  For every message: its interface as a record (or a datatype without fields), \<open>createBase\<close>,
  \<open>encode\<close> as the sequence of its writer calls, and \<open>decode\<close> as the cases of its
  switch; a union field is a datatype with one constructor per \<open>$case\<close>.  \<open>_ok\<close> holds of
  the values a TypeScript program can build: objects built by assignment and dates in range.
  Then the round trip of the message and the totality of its decoder.
\<close>

subsection \<open>User\<close>

record User =
  User_id :: string
  User_name :: string
  User_firstName :: string
  User_username :: string
  User_profileUrl :: string
  User_avatarUrl :: string
  User_gender :: string
  User_isMessengerUser :: bool
  User_isVerified :: bool
  User_canViewerMessage :: bool
  User_messengerRestricted :: bool
  User_messengerBlockStatus :: int

definition createBaseUser :: User where
  "createBaseUser = \<lparr>User_id = '''',
     User_name = '''',
     User_firstName = '''',
     User_username = '''',
     User_profileUrl = '''',
     User_avatarUrl = '''',
     User_gender = '''',
     User_isMessengerUser = False,
     User_isVerified = False,
     User_canViewerMessage = False,
     User_messengerRestricted = False,
     User_messengerBlockStatus = 0\<rparr>"

definition User_encode :: "('w, 'r) wire \<Rightarrow> User \<Rightarrow> 'w writer" where
  "User_encode W m = w_seq [
     w_if (User_id m \<noteq> '''') [w_uint32 W 10, w_string W (User_id m)],
     w_if (User_name m \<noteq> '''') [w_uint32 W 18, w_string W (User_name m)],
     w_if (User_firstName m \<noteq> '''') [w_uint32 W 26, w_string W (User_firstName m)],
     w_if (User_username m \<noteq> '''') [w_uint32 W 34, w_string W (User_username m)],
     w_if (User_profileUrl m \<noteq> '''') [w_uint32 W 42, w_string W (User_profileUrl m)],
     w_if (User_avatarUrl m \<noteq> '''') [w_uint32 W 50, w_string W (User_avatarUrl m)],
     w_if (User_gender m \<noteq> '''') [w_uint32 W 58, w_string W (User_gender m)],
     w_if (User_isMessengerUser m \<noteq> False) [w_uint32 W 64, w_bool W (User_isMessengerUser m)],
     w_if (User_isVerified m \<noteq> False) [w_uint32 W 72, w_bool W (User_isVerified m)],
     w_if (User_canViewerMessage m \<noteq> False) [w_uint32 W 80, w_bool W (User_canViewerMessage m)],
     w_if (User_messengerRestricted m \<noteq> False) [w_uint32 W 88, w_bool W (User_messengerRestricted m)],
     w_if (User_messengerBlockStatus m \<noteq> 0) [w_uint32 W 96, w_int32 W (User_messengerBlockStatus m)]]"

definition User_cases :: "('w, 'r) wire \<Rightarrow> ('r, User) cases" where
  "User_cases W = [
     (1, 10, d_val (r_string W) (\<lambda>v m. m\<lparr>User_id := v\<rparr>)),
     (2, 18, d_val (r_string W) (\<lambda>v m. m\<lparr>User_name := v\<rparr>)),
     (3, 26, d_val (r_string W) (\<lambda>v m. m\<lparr>User_firstName := v\<rparr>)),
     (4, 34, d_val (r_string W) (\<lambda>v m. m\<lparr>User_username := v\<rparr>)),
     (5, 42, d_val (r_string W) (\<lambda>v m. m\<lparr>User_profileUrl := v\<rparr>)),
     (6, 50, d_val (r_string W) (\<lambda>v m. m\<lparr>User_avatarUrl := v\<rparr>)),
     (7, 58, d_val (r_string W) (\<lambda>v m. m\<lparr>User_gender := v\<rparr>)),
     (8, 64, d_val (r_bool W) (\<lambda>v m. m\<lparr>User_isMessengerUser := v\<rparr>)),
     (9, 72, d_val (r_bool W) (\<lambda>v m. m\<lparr>User_isVerified := v\<rparr>)),
     (10, 80, d_val (r_bool W) (\<lambda>v m. m\<lparr>User_canViewerMessage := v\<rparr>)),
     (11, 88, d_val (r_bool W) (\<lambda>v m. m\<lparr>User_messengerRestricted := v\<rparr>)),
     (12, 96, d_val (r_int32 W) (\<lambda>v m. m\<lparr>User_messengerBlockStatus := v\<rparr>))]"

definition User_decode :: "('w, 'r) wire \<Rightarrow> ('r, User) decoder" where
  "User_decode W = d_message W (User_cases W) createBaseUser"

lemmas User_defs = User_cases_def createBaseUser_def

context wire_lib
begin

lemma User_codec:
  "codec W stk rem 0 (User_encode W) (User_cases W) createBaseUser m"
  by (rule codecI [OF User_encode_def],
      rule field_string [where upd = User_id_update], simp add: User_defs, simp add: User_defs,
      rule field_string [where upd = User_name_update], simp add: User_defs, simp add: User_defs,
      rule field_string [where upd = User_firstName_update], simp add: User_defs, simp add: User_defs,
      rule field_string [where upd = User_username_update], simp add: User_defs, simp add: User_defs,
      rule field_string [where upd = User_profileUrl_update], simp add: User_defs, simp add: User_defs,
      rule field_string [where upd = User_avatarUrl_update], simp add: User_defs, simp add: User_defs,
      rule field_string [where upd = User_gender_update], simp add: User_defs, simp add: User_defs,
      rule field_bool [where upd = User_isMessengerUser_update], simp add: User_defs, simp add: User_defs,
      rule field_bool [where upd = User_isVerified_update], simp add: User_defs, simp add: User_defs,
      rule field_bool [where upd = User_canViewerMessage_update], simp add: User_defs, simp add: User_defs,
      rule field_bool [where upd = User_messengerRestricted_update], simp add: User_defs, simp add: User_defs,
      rule field_int32 [where upd = User_messengerBlockStatus_update], simp add: User_defs, simp add: User_defs,
      rule matched_Nil, cases m, simp add: User_defs)

lemma User_rt: "1 \<le> d \<Longrightarrow> codec_rt W stk rem d (User_encode W) (User_decode W) m"
  unfolding User_decode_def
  by (rule codec_rt_mono [OF codec_rt_of_codec [OF User_codec]]) simp_all

end

context wire_reader
begin

lemma User_total [total_rules]: "dec_total W (User_decode W)"
  unfolding User_decode_def User_cases_def by (intro total_rules)

end

subsection \<open>Thread_NicknamesEntry\<close>

record Thread_NicknamesEntry =
  Thread_NicknamesEntry_key :: string
  Thread_NicknamesEntry_value :: string

definition createBaseThread_NicknamesEntry :: Thread_NicknamesEntry where
  "createBaseThread_NicknamesEntry = \<lparr>Thread_NicknamesEntry_key = '''',
     Thread_NicknamesEntry_value = ''''\<rparr>"

definition Thread_NicknamesEntry_encode :: "('w, 'r) wire \<Rightarrow> Thread_NicknamesEntry \<Rightarrow> 'w writer" where
  "Thread_NicknamesEntry_encode W m = w_seq [
     w_if (Thread_NicknamesEntry_key m \<noteq> '''') [w_uint32 W 10, w_string W (Thread_NicknamesEntry_key m)],
     w_if (Thread_NicknamesEntry_value m \<noteq> '''') [w_uint32 W 18, w_string W (Thread_NicknamesEntry_value m)]]"

definition Thread_NicknamesEntry_cases :: "('w, 'r) wire \<Rightarrow> ('r, Thread_NicknamesEntry) cases" where
  "Thread_NicknamesEntry_cases W = [
     (1, 10, d_val (r_string W) (\<lambda>v m. m\<lparr>Thread_NicknamesEntry_key := v\<rparr>)),
     (2, 18, d_val (r_string W) (\<lambda>v m. m\<lparr>Thread_NicknamesEntry_value := v\<rparr>))]"

definition Thread_NicknamesEntry_decode :: "('w, 'r) wire \<Rightarrow> ('r, Thread_NicknamesEntry) decoder" where
  "Thread_NicknamesEntry_decode W = d_message W (Thread_NicknamesEntry_cases W) createBaseThread_NicknamesEntry"

lemmas Thread_NicknamesEntry_defs = Thread_NicknamesEntry_cases_def createBaseThread_NicknamesEntry_def

context wire_lib
begin

lemma Thread_NicknamesEntry_codec:
  "codec W stk rem 0 (Thread_NicknamesEntry_encode W) (Thread_NicknamesEntry_cases W) createBaseThread_NicknamesEntry m"
  by (rule codecI [OF Thread_NicknamesEntry_encode_def],
      rule field_string [where upd = Thread_NicknamesEntry_key_update], simp add: Thread_NicknamesEntry_defs, simp add: Thread_NicknamesEntry_defs,
      rule field_string [where upd = Thread_NicknamesEntry_value_update], simp add: Thread_NicknamesEntry_defs, simp add: Thread_NicknamesEntry_defs,
      rule matched_Nil, cases m, simp add: Thread_NicknamesEntry_defs)

lemma Thread_NicknamesEntry_rt: "1 \<le> d \<Longrightarrow> codec_rt W stk rem d (Thread_NicknamesEntry_encode W) (Thread_NicknamesEntry_decode W) m"
  unfolding Thread_NicknamesEntry_decode_def
  by (rule codec_rt_mono [OF codec_rt_of_codec [OF Thread_NicknamesEntry_codec]]) simp_all

end

context wire_reader
begin

lemma Thread_NicknamesEntry_total [total_rules]: "dec_total W (Thread_NicknamesEntry_decode W)"
  unfolding Thread_NicknamesEntry_decode_def Thread_NicknamesEntry_cases_def by (intro total_rules)

end

subsection \<open>Thread\<close>

record Thread =
  Thread_id :: string
  Thread_name :: string
  Thread_type :: string
  Thread_participants :: "User list"
  Thread_admins :: "string list"
  Thread_nicknames :: js_object
  Thread_emoji :: string
  Thread_messageCount :: int
  Thread_approvalMode :: bool
  Thread_joinable :: bool
  Thread_joinableUrl :: string
  Thread_lastActivity :: "js_date option"

definition createBaseThread :: Thread where
  "createBaseThread = \<lparr>Thread_id = '''',
     Thread_name = '''',
     Thread_type = '''',
     Thread_participants = [],
     Thread_admins = [],
     Thread_nicknames = [],
     Thread_emoji = '''',
     Thread_messageCount = 0,
     Thread_approvalMode = False,
     Thread_joinable = False,
     Thread_joinableUrl = '''',
     Thread_lastActivity = None\<rparr>"

definition Thread_encode :: "('w, 'r) wire \<Rightarrow> Thread \<Rightarrow> 'w writer" where
  "Thread_encode W m = w_seq [
     w_if (Thread_id m \<noteq> '''') [w_uint32 W 10, w_string W (Thread_id m)],
     w_if (Thread_name m \<noteq> '''') [w_uint32 W 18, w_string W (Thread_name m)],
     w_if (Thread_type m \<noteq> '''') [w_uint32 W 26, w_string W (Thread_type m)],
     w_for (Thread_participants m) (\<lambda>v. [w_uint32 W 34, w_open W, User_encode W v, w_join W]),
     w_for (Thread_admins m) (\<lambda>v. [w_uint32 W 42, w_string W v]),
     w_for (Thread_nicknames m) (\<lambda>(key, value). [w_uint32 W 50, w_open W,
         Thread_NicknamesEntry_encode W \<lparr>Thread_NicknamesEntry_key = key, Thread_NicknamesEntry_value = value\<rparr>, w_join W]),
     w_if (Thread_emoji m \<noteq> '''') [w_uint32 W 58, w_string W (Thread_emoji m)],
     w_if (Thread_messageCount m \<noteq> 0) [w_check (asIntN64 (Thread_messageCount m) = Thread_messageCount m) (too_large ''message.messageCount'' ''int64''),
         w_uint32 W 64, w_int64 W (Thread_messageCount m)],
     w_if (Thread_approvalMode m \<noteq> False) [w_uint32 W 72, w_bool W (Thread_approvalMode m)],
     w_if (Thread_joinable m \<noteq> False) [w_uint32 W 80, w_bool W (Thread_joinable m)],
     w_if (Thread_joinableUrl m \<noteq> '''') [w_uint32 W 90, w_string W (Thread_joinableUrl m)],
     w_some (Thread_lastActivity m) (\<lambda>v. [w_try (toTimestamp v) (\<lambda>t. [w_uint32 W 98, w_open W, Timestamp_encode W t, w_join W])])]"

definition Thread_cases :: "('w, 'r) wire \<Rightarrow> ('r, Thread) cases" where
  "Thread_cases W = [
     (1, 10, d_val (r_string W) (\<lambda>v m. m\<lparr>Thread_id := v\<rparr>)),
     (2, 18, d_val (r_string W) (\<lambda>v m. m\<lparr>Thread_name := v\<rparr>)),
     (3, 26, d_val (r_string W) (\<lambda>v m. m\<lparr>Thread_type := v\<rparr>)),
     (4, 34, d_msg W (User_decode W) (\<lambda>v m. m\<lparr>Thread_participants := Thread_participants m @ [v]\<rparr>)),
     (5, 42, d_val (r_string W) (\<lambda>v m. m\<lparr>Thread_admins := Thread_admins m @ [v]\<rparr>)),
     (6, 50, d_msg W (Thread_NicknamesEntry_decode W)
        (\<lambda>e m. m\<lparr>Thread_nicknames := js_set (Thread_nicknames m) (Thread_NicknamesEntry_key e) (Thread_NicknamesEntry_value e)\<rparr>)),
     (7, 58, d_val (r_string W) (\<lambda>v m. m\<lparr>Thread_emoji := v\<rparr>)),
     (8, 64, d_val (r_int64 W) (\<lambda>v m. m\<lparr>Thread_messageCount := v\<rparr>)),
     (9, 72, d_val (r_bool W) (\<lambda>v m. m\<lparr>Thread_approvalMode := v\<rparr>)),
     (10, 80, d_val (r_bool W) (\<lambda>v m. m\<lparr>Thread_joinable := v\<rparr>)),
     (11, 90, d_val (r_string W) (\<lambda>v m. m\<lparr>Thread_joinableUrl := v\<rparr>)),
     (12, 98, d_msg W (Timestamp_decode W) (\<lambda>v m. m\<lparr>Thread_lastActivity := Some (fromTimestamp v)\<rparr>))]"

definition Thread_decode :: "('w, 'r) wire \<Rightarrow> ('r, Thread) decoder" where
  "Thread_decode W = d_message W (Thread_cases W) createBaseThread"

definition Thread_ok :: "Thread \<Rightarrow> bool" where
  "Thread_ok m \<longleftrightarrow> js_object_ok (Thread_nicknames m) \<and>
     pred_option js_date_ok (Thread_lastActivity m)"

lemmas Thread_defs = Thread_cases_def createBaseThread_def

context wire_lib
begin

lemma Thread_codec:
  assumes ok: "Thread_ok m"
  shows "codec W stk rem 1 (Thread_encode W) (Thread_cases W) createBaseThread m"
  by (rule codecI [OF Thread_encode_def],
      rule field_string [where upd = Thread_id_update], simp add: Thread_defs, simp add: Thread_defs,
      rule field_string [where upd = Thread_name_update], simp add: Thread_defs, simp add: Thread_defs,
      rule field_string [where upd = Thread_type_update], simp add: Thread_defs, simp add: Thread_defs,
      rule field_push_msg [where upd = Thread_participants_update and sel = Thread_participants], rule User_rt, simp, simp add: Thread_defs, simp add: Thread_defs, simp add: Thread_defs,
      rule field_push_string [where upd = Thread_admins_update and sel = Thread_admins], simp add: Thread_defs, simp add: Thread_defs, simp add: Thread_defs,
      rule field_entries [where upd = Thread_nicknames_update and sel = Thread_nicknames and key = Thread_NicknamesEntry_key and val = Thread_NicknamesEntry_value],
      rule Thread_NicknamesEntry_rt, simp, simp add: Thread_defs, simp, simp add: Thread_defs, simp add: Thread_defs, (use ok in \<open>fastforce simp: Thread_ok_def list_all_iff\<close>),
      rule field_string [where upd = Thread_emoji_update], simp add: Thread_defs, simp add: Thread_defs,
      rule field_int64 [where upd = Thread_messageCount_update], simp add: Thread_defs, simp add: Thread_defs,
      rule field_bool [where upd = Thread_approvalMode_update], simp add: Thread_defs, simp add: Thread_defs,
      rule field_bool [where upd = Thread_joinable_update], simp add: Thread_defs, simp add: Thread_defs,
      rule field_string [where upd = Thread_joinableUrl_update], simp add: Thread_defs, simp add: Thread_defs,
      rule field_conv [where upd = Thread_lastActivity_update and unconv = fromTimestamp], rule date_rt, simp, (use ok in \<open>fastforce simp: Thread_ok_def list_all_iff\<close>), assumption, simp add: Thread_defs, simp add: Thread_defs,
      rule matched_Nil, cases m, simp add: Thread_defs)

lemma Thread_rt: "2 \<le> d \<Longrightarrow> Thread_ok m \<Longrightarrow> codec_rt W stk rem d (Thread_encode W) (Thread_decode W) m"
  unfolding Thread_decode_def
  by (rule codec_rt_mono [OF codec_rt_of_codec [OF Thread_codec]]) simp_all

end

context wire_reader
begin

lemma Thread_total [total_rules]: "dec_total W (Thread_decode W)"
  unfolding Thread_decode_def Thread_cases_def by (intro total_rules)

end

subsection \<open>PinnedMessage\<close>

record PinnedMessage =
  PinnedMessage_threadId :: string
  PinnedMessage_messageId :: string
  PinnedMessage_pinnedAt :: "js_date option"
  PinnedMessage_authorityLevel :: int

definition createBasePinnedMessage :: PinnedMessage where
  "createBasePinnedMessage = \<lparr>PinnedMessage_threadId = '''',
     PinnedMessage_messageId = '''',
     PinnedMessage_pinnedAt = None,
     PinnedMessage_authorityLevel = 0\<rparr>"

definition PinnedMessage_encode :: "('w, 'r) wire \<Rightarrow> PinnedMessage \<Rightarrow> 'w writer" where
  "PinnedMessage_encode W m = w_seq [
     w_if (PinnedMessage_threadId m \<noteq> '''') [w_uint32 W 10, w_string W (PinnedMessage_threadId m)],
     w_if (PinnedMessage_messageId m \<noteq> '''') [w_uint32 W 18, w_string W (PinnedMessage_messageId m)],
     w_some (PinnedMessage_pinnedAt m) (\<lambda>v. [w_try (toTimestamp v) (\<lambda>t. [w_uint32 W 26, w_open W, Timestamp_encode W t, w_join W])]),
     w_if (PinnedMessage_authorityLevel m \<noteq> 0) [w_check (asIntN64 (PinnedMessage_authorityLevel m) = PinnedMessage_authorityLevel m) (too_large ''message.authorityLevel'' ''int64''),
         w_uint32 W 32, w_int64 W (PinnedMessage_authorityLevel m)]]"

definition PinnedMessage_cases :: "('w, 'r) wire \<Rightarrow> ('r, PinnedMessage) cases" where
  "PinnedMessage_cases W = [
     (1, 10, d_val (r_string W) (\<lambda>v m. m\<lparr>PinnedMessage_threadId := v\<rparr>)),
     (2, 18, d_val (r_string W) (\<lambda>v m. m\<lparr>PinnedMessage_messageId := v\<rparr>)),
     (3, 26, d_msg W (Timestamp_decode W) (\<lambda>v m. m\<lparr>PinnedMessage_pinnedAt := Some (fromTimestamp v)\<rparr>)),
     (4, 32, d_val (r_int64 W) (\<lambda>v m. m\<lparr>PinnedMessage_authorityLevel := v\<rparr>))]"

definition PinnedMessage_decode :: "('w, 'r) wire \<Rightarrow> ('r, PinnedMessage) decoder" where
  "PinnedMessage_decode W = d_message W (PinnedMessage_cases W) createBasePinnedMessage"

definition PinnedMessage_ok :: "PinnedMessage \<Rightarrow> bool" where
  "PinnedMessage_ok m \<longleftrightarrow> pred_option js_date_ok (PinnedMessage_pinnedAt m)"

lemmas PinnedMessage_defs = PinnedMessage_cases_def createBasePinnedMessage_def

context wire_lib
begin

lemma PinnedMessage_codec:
  assumes ok: "PinnedMessage_ok m"
  shows "codec W stk rem 1 (PinnedMessage_encode W) (PinnedMessage_cases W) createBasePinnedMessage m"
  by (rule codecI [OF PinnedMessage_encode_def],
      rule field_string [where upd = PinnedMessage_threadId_update], simp add: PinnedMessage_defs, simp add: PinnedMessage_defs,
      rule field_string [where upd = PinnedMessage_messageId_update], simp add: PinnedMessage_defs, simp add: PinnedMessage_defs,
      rule field_conv [where upd = PinnedMessage_pinnedAt_update and unconv = fromTimestamp], rule date_rt, simp, (use ok in \<open>fastforce simp: PinnedMessage_ok_def list_all_iff\<close>), assumption, simp add: PinnedMessage_defs, simp add: PinnedMessage_defs,
      rule field_int64 [where upd = PinnedMessage_authorityLevel_update], simp add: PinnedMessage_defs, simp add: PinnedMessage_defs,
      rule matched_Nil, cases m, simp add: PinnedMessage_defs)

lemma PinnedMessage_rt: "2 \<le> d \<Longrightarrow> PinnedMessage_ok m \<Longrightarrow> codec_rt W stk rem d (PinnedMessage_encode W) (PinnedMessage_decode W) m"
  unfolding PinnedMessage_decode_def
  by (rule codec_rt_mono [OF codec_rt_of_codec [OF PinnedMessage_codec]]) simp_all

end

context wire_reader
begin

lemma PinnedMessage_total [total_rules]: "dec_total W (PinnedMessage_decode W)"
  unfolding PinnedMessage_decode_def PinnedMessage_cases_def by (intro total_rules)

end

subsection \<open>PollOption\<close>

record PollOption =
  PollOption_id :: string
  PollOption_text :: string
  PollOption_sortKeyVotingTimestamp :: "js_date option"
  PollOption_sortKeyCreationTimestamp :: "js_date option"

definition createBasePollOption :: PollOption where
  "createBasePollOption = \<lparr>PollOption_id = '''',
     PollOption_text = '''',
     PollOption_sortKeyVotingTimestamp = None,
     PollOption_sortKeyCreationTimestamp = None\<rparr>"

definition PollOption_encode :: "('w, 'r) wire \<Rightarrow> PollOption \<Rightarrow> 'w writer" where
  "PollOption_encode W m = w_seq [
     w_if (PollOption_id m \<noteq> '''') [w_uint32 W 10, w_string W (PollOption_id m)],
     w_if (PollOption_text m \<noteq> '''') [w_uint32 W 18, w_string W (PollOption_text m)],
     w_some (PollOption_sortKeyVotingTimestamp m) (\<lambda>v. [w_try (toTimestamp v) (\<lambda>t. [w_uint32 W 26, w_open W, Timestamp_encode W t, w_join W])]),
     w_some (PollOption_sortKeyCreationTimestamp m) (\<lambda>v. [w_try (toTimestamp v) (\<lambda>t. [w_uint32 W 34, w_open W, Timestamp_encode W t, w_join W])])]"

definition PollOption_cases :: "('w, 'r) wire \<Rightarrow> ('r, PollOption) cases" where
  "PollOption_cases W = [
     (1, 10, d_val (r_string W) (\<lambda>v m. m\<lparr>PollOption_id := v\<rparr>)),
     (2, 18, d_val (r_string W) (\<lambda>v m. m\<lparr>PollOption_text := v\<rparr>)),
     (3, 26, d_msg W (Timestamp_decode W) (\<lambda>v m. m\<lparr>PollOption_sortKeyVotingTimestamp := Some (fromTimestamp v)\<rparr>)),
     (4, 34, d_msg W (Timestamp_decode W) (\<lambda>v m. m\<lparr>PollOption_sortKeyCreationTimestamp := Some (fromTimestamp v)\<rparr>))]"

definition PollOption_decode :: "('w, 'r) wire \<Rightarrow> ('r, PollOption) decoder" where
  "PollOption_decode W = d_message W (PollOption_cases W) createBasePollOption"

definition PollOption_ok :: "PollOption \<Rightarrow> bool" where
  "PollOption_ok m \<longleftrightarrow> pred_option js_date_ok (PollOption_sortKeyVotingTimestamp m) \<and>
     pred_option js_date_ok (PollOption_sortKeyCreationTimestamp m)"

lemmas PollOption_defs = PollOption_cases_def createBasePollOption_def

context wire_lib
begin

lemma PollOption_codec:
  assumes ok: "PollOption_ok m"
  shows "codec W stk rem 1 (PollOption_encode W) (PollOption_cases W) createBasePollOption m"
  by (rule codecI [OF PollOption_encode_def],
      rule field_string [where upd = PollOption_id_update], simp add: PollOption_defs, simp add: PollOption_defs,
      rule field_string [where upd = PollOption_text_update], simp add: PollOption_defs, simp add: PollOption_defs,
      rule field_conv [where upd = PollOption_sortKeyVotingTimestamp_update and unconv = fromTimestamp], rule date_rt, simp, (use ok in \<open>fastforce simp: PollOption_ok_def list_all_iff\<close>), assumption, simp add: PollOption_defs, simp add: PollOption_defs,
      rule field_conv [where upd = PollOption_sortKeyCreationTimestamp_update and unconv = fromTimestamp], rule date_rt, simp, (use ok in \<open>fastforce simp: PollOption_ok_def list_all_iff\<close>), assumption, simp add: PollOption_defs, simp add: PollOption_defs,
      rule matched_Nil, cases m, simp add: PollOption_defs)

lemma PollOption_rt: "2 \<le> d \<Longrightarrow> PollOption_ok m \<Longrightarrow> codec_rt W stk rem d (PollOption_encode W) (PollOption_decode W) m"
  unfolding PollOption_decode_def
  by (rule codec_rt_mono [OF codec_rt_of_codec [OF PollOption_codec]]) simp_all

end

context wire_reader
begin

lemma PollOption_total [total_rules]: "dec_total W (PollOption_decode W)"
  unfolding PollOption_decode_def PollOption_cases_def by (intro total_rules)

end

subsection \<open>PollVote\<close>

record PollVote =
  PollVote_optionId :: string
  PollVote_contactId :: string
  PollVote_timestamp :: "js_date option"
  PollVote_voteCount :: int
  PollVote_threadId :: string
  PollVote_messageId :: string

definition createBasePollVote :: PollVote where
  "createBasePollVote = \<lparr>PollVote_optionId = '''',
     PollVote_contactId = '''',
     PollVote_timestamp = None,
     PollVote_voteCount = 0,
     PollVote_threadId = '''',
     PollVote_messageId = ''''\<rparr>"

definition PollVote_encode :: "('w, 'r) wire \<Rightarrow> PollVote \<Rightarrow> 'w writer" where
  "PollVote_encode W m = w_seq [
     w_if (PollVote_optionId m \<noteq> '''') [w_uint32 W 10, w_string W (PollVote_optionId m)],
     w_if (PollVote_contactId m \<noteq> '''') [w_uint32 W 18, w_string W (PollVote_contactId m)],
     w_some (PollVote_timestamp m) (\<lambda>v. [w_try (toTimestamp v) (\<lambda>t. [w_uint32 W 26, w_open W, Timestamp_encode W t, w_join W])]),
     w_if (PollVote_voteCount m \<noteq> 0) [w_check (asIntN64 (PollVote_voteCount m) = PollVote_voteCount m) (too_large ''message.voteCount'' ''int64''),
         w_uint32 W 32, w_int64 W (PollVote_voteCount m)],
     w_if (PollVote_threadId m \<noteq> '''') [w_uint32 W 42, w_string W (PollVote_threadId m)],
     w_if (PollVote_messageId m \<noteq> '''') [w_uint32 W 50, w_string W (PollVote_messageId m)]]"

definition PollVote_cases :: "('w, 'r) wire \<Rightarrow> ('r, PollVote) cases" where
  "PollVote_cases W = [
     (1, 10, d_val (r_string W) (\<lambda>v m. m\<lparr>PollVote_optionId := v\<rparr>)),
     (2, 18, d_val (r_string W) (\<lambda>v m. m\<lparr>PollVote_contactId := v\<rparr>)),
     (3, 26, d_msg W (Timestamp_decode W) (\<lambda>v m. m\<lparr>PollVote_timestamp := Some (fromTimestamp v)\<rparr>)),
     (4, 32, d_val (r_int64 W) (\<lambda>v m. m\<lparr>PollVote_voteCount := v\<rparr>)),
     (5, 42, d_val (r_string W) (\<lambda>v m. m\<lparr>PollVote_threadId := v\<rparr>)),
     (6, 50, d_val (r_string W) (\<lambda>v m. m\<lparr>PollVote_messageId := v\<rparr>))]"

definition PollVote_decode :: "('w, 'r) wire \<Rightarrow> ('r, PollVote) decoder" where
  "PollVote_decode W = d_message W (PollVote_cases W) createBasePollVote"

definition PollVote_ok :: "PollVote \<Rightarrow> bool" where
  "PollVote_ok m \<longleftrightarrow> pred_option js_date_ok (PollVote_timestamp m)"

lemmas PollVote_defs = PollVote_cases_def createBasePollVote_def

context wire_lib
begin

lemma PollVote_codec:
  assumes ok: "PollVote_ok m"
  shows "codec W stk rem 1 (PollVote_encode W) (PollVote_cases W) createBasePollVote m"
  by (rule codecI [OF PollVote_encode_def],
      rule field_string [where upd = PollVote_optionId_update], simp add: PollVote_defs, simp add: PollVote_defs,
      rule field_string [where upd = PollVote_contactId_update], simp add: PollVote_defs, simp add: PollVote_defs,
      rule field_conv [where upd = PollVote_timestamp_update and unconv = fromTimestamp], rule date_rt, simp, (use ok in \<open>fastforce simp: PollVote_ok_def list_all_iff\<close>), assumption, simp add: PollVote_defs, simp add: PollVote_defs,
      rule field_int64 [where upd = PollVote_voteCount_update], simp add: PollVote_defs, simp add: PollVote_defs,
      rule field_string [where upd = PollVote_threadId_update], simp add: PollVote_defs, simp add: PollVote_defs,
      rule field_string [where upd = PollVote_messageId_update], simp add: PollVote_defs, simp add: PollVote_defs,
      rule matched_Nil, cases m, simp add: PollVote_defs)

lemma PollVote_rt: "2 \<le> d \<Longrightarrow> PollVote_ok m \<Longrightarrow> codec_rt W stk rem d (PollVote_encode W) (PollVote_decode W) m"
  unfolding PollVote_decode_def
  by (rule codec_rt_mono [OF codec_rt_of_codec [OF PollVote_codec]]) simp_all

end

context wire_reader
begin

lemma PollVote_total [total_rules]: "dec_total W (PollVote_decode W)"
  unfolding PollVote_decode_def PollVote_cases_def by (intro total_rules)

end

subsection \<open>PollDetails\<close>

record PollDetails =
  PollDetails_id :: string
  PollDetails_threadId :: string
  PollDetails_title :: string
  PollDetails_lastUpdateMessageId :: string
  PollDetails_lastUpdateMessageTimestamp :: "js_date option"
  PollDetails_lastUpdateMessageEventType :: int
  PollDetails_options :: "PollOption list"
  PollDetails_votes :: "PollVote list"

definition createBasePollDetails :: PollDetails where
  "createBasePollDetails = \<lparr>PollDetails_id = '''',
     PollDetails_threadId = '''',
     PollDetails_title = '''',
     PollDetails_lastUpdateMessageId = '''',
     PollDetails_lastUpdateMessageTimestamp = None,
     PollDetails_lastUpdateMessageEventType = 0,
     PollDetails_options = [],
     PollDetails_votes = []\<rparr>"

definition PollDetails_encode :: "('w, 'r) wire \<Rightarrow> PollDetails \<Rightarrow> 'w writer" where
  "PollDetails_encode W m = w_seq [
     w_if (PollDetails_id m \<noteq> '''') [w_uint32 W 10, w_string W (PollDetails_id m)],
     w_if (PollDetails_threadId m \<noteq> '''') [w_uint32 W 18, w_string W (PollDetails_threadId m)],
     w_if (PollDetails_title m \<noteq> '''') [w_uint32 W 26, w_string W (PollDetails_title m)],
     w_if (PollDetails_lastUpdateMessageId m \<noteq> '''') [w_uint32 W 34, w_string W (PollDetails_lastUpdateMessageId m)],
     w_some (PollDetails_lastUpdateMessageTimestamp m) (\<lambda>v. [w_try (toTimestamp v) (\<lambda>t. [w_uint32 W 42, w_open W, Timestamp_encode W t, w_join W])]),
     w_if (PollDetails_lastUpdateMessageEventType m \<noteq> 0) [w_check (asIntN64 (PollDetails_lastUpdateMessageEventType m) = PollDetails_lastUpdateMessageEventType m) (too_large ''message.lastUpdateMessageEventType'' ''int64''),
         w_uint32 W 48, w_int64 W (PollDetails_lastUpdateMessageEventType m)],
     w_for (PollDetails_options m) (\<lambda>v. [w_uint32 W 58, w_open W, PollOption_encode W v, w_join W]),
     w_for (PollDetails_votes m) (\<lambda>v. [w_uint32 W 66, w_open W, PollVote_encode W v, w_join W])]"

definition PollDetails_cases :: "('w, 'r) wire \<Rightarrow> ('r, PollDetails) cases" where
  "PollDetails_cases W = [
     (1, 10, d_val (r_string W) (\<lambda>v m. m\<lparr>PollDetails_id := v\<rparr>)),
     (2, 18, d_val (r_string W) (\<lambda>v m. m\<lparr>PollDetails_threadId := v\<rparr>)),
     (3, 26, d_val (r_string W) (\<lambda>v m. m\<lparr>PollDetails_title := v\<rparr>)),
     (4, 34, d_val (r_string W) (\<lambda>v m. m\<lparr>PollDetails_lastUpdateMessageId := v\<rparr>)),
     (5, 42, d_msg W (Timestamp_decode W) (\<lambda>v m. m\<lparr>PollDetails_lastUpdateMessageTimestamp := Some (fromTimestamp v)\<rparr>)),
     (6, 48, d_val (r_int64 W) (\<lambda>v m. m\<lparr>PollDetails_lastUpdateMessageEventType := v\<rparr>)),
     (7, 58, d_msg W (PollOption_decode W) (\<lambda>v m. m\<lparr>PollDetails_options := PollDetails_options m @ [v]\<rparr>)),
     (8, 66, d_msg W (PollVote_decode W) (\<lambda>v m. m\<lparr>PollDetails_votes := PollDetails_votes m @ [v]\<rparr>))]"

definition PollDetails_decode :: "('w, 'r) wire \<Rightarrow> ('r, PollDetails) decoder" where
  "PollDetails_decode W = d_message W (PollDetails_cases W) createBasePollDetails"

definition PollDetails_ok :: "PollDetails \<Rightarrow> bool" where
  "PollDetails_ok m \<longleftrightarrow> pred_option js_date_ok (PollDetails_lastUpdateMessageTimestamp m) \<and>
     list_all PollOption_ok (PollDetails_options m) \<and>
     list_all PollVote_ok (PollDetails_votes m)"

lemmas PollDetails_defs = PollDetails_cases_def createBasePollDetails_def

context wire_lib
begin

lemma PollDetails_codec:
  assumes ok: "PollDetails_ok m"
  shows "codec W stk rem 2 (PollDetails_encode W) (PollDetails_cases W) createBasePollDetails m"
  by (rule codecI [OF PollDetails_encode_def],
      rule field_string [where upd = PollDetails_id_update], simp add: PollDetails_defs, simp add: PollDetails_defs,
      rule field_string [where upd = PollDetails_threadId_update], simp add: PollDetails_defs, simp add: PollDetails_defs,
      rule field_string [where upd = PollDetails_title_update], simp add: PollDetails_defs, simp add: PollDetails_defs,
      rule field_string [where upd = PollDetails_lastUpdateMessageId_update], simp add: PollDetails_defs, simp add: PollDetails_defs,
      rule field_conv [where upd = PollDetails_lastUpdateMessageTimestamp_update and unconv = fromTimestamp], rule date_rt, simp, (use ok in \<open>fastforce simp: PollDetails_ok_def list_all_iff\<close>), assumption, simp add: PollDetails_defs, simp add: PollDetails_defs,
      rule field_int64 [where upd = PollDetails_lastUpdateMessageEventType_update], simp add: PollDetails_defs, simp add: PollDetails_defs,
      rule field_push_msg [where upd = PollDetails_options_update and sel = PollDetails_options], rule PollOption_rt, simp, (use ok in \<open>fastforce simp: PollDetails_ok_def list_all_iff\<close>), simp add: PollDetails_defs, simp add: PollDetails_defs, simp add: PollDetails_defs,
      rule field_push_msg [where upd = PollDetails_votes_update and sel = PollDetails_votes], rule PollVote_rt, simp, (use ok in \<open>fastforce simp: PollDetails_ok_def list_all_iff\<close>), simp add: PollDetails_defs, simp add: PollDetails_defs, simp add: PollDetails_defs,
      rule matched_Nil, cases m, simp add: PollDetails_defs)

lemma PollDetails_rt: "3 \<le> d \<Longrightarrow> PollDetails_ok m \<Longrightarrow> codec_rt W stk rem d (PollDetails_encode W) (PollDetails_decode W) m"
  unfolding PollDetails_decode_def
  by (rule codec_rt_mono [OF codec_rt_of_codec [OF PollDetails_codec]]) simp_all

end

context wire_reader
begin

lemma PollDetails_total [total_rules]: "dec_total W (PollDetails_decode W)"
  unfolding PollDetails_decode_def PollDetails_cases_def by (intro total_rules)

end

subsection \<open>MessageSearchHighlight\<close>

record MessageSearchHighlight =
  MessageSearchHighlight_offset :: int
  MessageSearchHighlight_length :: int

definition createBaseMessageSearchHighlight :: MessageSearchHighlight where
  "createBaseMessageSearchHighlight = \<lparr>MessageSearchHighlight_offset = 0,
     MessageSearchHighlight_length = 0\<rparr>"

definition MessageSearchHighlight_encode :: "('w, 'r) wire \<Rightarrow> MessageSearchHighlight \<Rightarrow> 'w writer" where
  "MessageSearchHighlight_encode W m = w_seq [
     w_if (MessageSearchHighlight_offset m \<noteq> 0) [w_uint32 W 8, w_int32 W (MessageSearchHighlight_offset m)],
     w_if (MessageSearchHighlight_length m \<noteq> 0) [w_uint32 W 16, w_int32 W (MessageSearchHighlight_length m)]]"

definition MessageSearchHighlight_cases :: "('w, 'r) wire \<Rightarrow> ('r, MessageSearchHighlight) cases" where
  "MessageSearchHighlight_cases W = [
     (1, 8, d_val (r_int32 W) (\<lambda>v m. m\<lparr>MessageSearchHighlight_offset := v\<rparr>)),
     (2, 16, d_val (r_int32 W) (\<lambda>v m. m\<lparr>MessageSearchHighlight_length := v\<rparr>))]"

definition MessageSearchHighlight_decode :: "('w, 'r) wire \<Rightarrow> ('r, MessageSearchHighlight) decoder" where
  "MessageSearchHighlight_decode W = d_message W (MessageSearchHighlight_cases W) createBaseMessageSearchHighlight"

lemmas MessageSearchHighlight_defs = MessageSearchHighlight_cases_def createBaseMessageSearchHighlight_def

context wire_lib
begin

lemma MessageSearchHighlight_codec:
  "codec W stk rem 0 (MessageSearchHighlight_encode W) (MessageSearchHighlight_cases W) createBaseMessageSearchHighlight m"
  by (rule codecI [OF MessageSearchHighlight_encode_def],
      rule field_int32 [where upd = MessageSearchHighlight_offset_update], simp add: MessageSearchHighlight_defs, simp add: MessageSearchHighlight_defs,
      rule field_int32 [where upd = MessageSearchHighlight_length_update], simp add: MessageSearchHighlight_defs, simp add: MessageSearchHighlight_defs,
      rule matched_Nil, cases m, simp add: MessageSearchHighlight_defs)

lemma MessageSearchHighlight_rt: "1 \<le> d \<Longrightarrow> codec_rt W stk rem d (MessageSearchHighlight_encode W) (MessageSearchHighlight_decode W) m"
  unfolding MessageSearchHighlight_decode_def
  by (rule codec_rt_mono [OF codec_rt_of_codec [OF MessageSearchHighlight_codec]]) simp_all

end

context wire_reader
begin

lemma MessageSearchHighlight_total [total_rules]: "dec_total W (MessageSearchHighlight_decode W)"
  unfolding MessageSearchHighlight_decode_def MessageSearchHighlight_cases_def by (intro total_rules)

end

subsection \<open>MessageSearchResult\<close>

record MessageSearchResult =
  MessageSearchResult_messageId :: string
  MessageSearchResult_threadId :: string
  MessageSearchResult_threadType :: string
  MessageSearchResult_globalIndex :: int
  MessageSearchResult_senderName :: string
  MessageSearchResult_senderAvatarUrl :: string
  MessageSearchResult_timestamp :: "js_date option"
  MessageSearchResult_text :: string
  MessageSearchResult_highlights :: "MessageSearchHighlight list"

definition createBaseMessageSearchResult :: MessageSearchResult where
  "createBaseMessageSearchResult = \<lparr>MessageSearchResult_messageId = '''',
     MessageSearchResult_threadId = '''',
     MessageSearchResult_threadType = '''',
     MessageSearchResult_globalIndex = 0,
     MessageSearchResult_senderName = '''',
     MessageSearchResult_senderAvatarUrl = '''',
     MessageSearchResult_timestamp = None,
     MessageSearchResult_text = '''',
     MessageSearchResult_highlights = []\<rparr>"

definition MessageSearchResult_encode :: "('w, 'r) wire \<Rightarrow> MessageSearchResult \<Rightarrow> 'w writer" where
  "MessageSearchResult_encode W m = w_seq [
     w_if (MessageSearchResult_messageId m \<noteq> '''') [w_uint32 W 10, w_string W (MessageSearchResult_messageId m)],
     w_if (MessageSearchResult_threadId m \<noteq> '''') [w_uint32 W 18, w_string W (MessageSearchResult_threadId m)],
     w_if (MessageSearchResult_threadType m \<noteq> '''') [w_uint32 W 26, w_string W (MessageSearchResult_threadType m)],
     w_if (MessageSearchResult_globalIndex m \<noteq> 0) [w_check (asIntN64 (MessageSearchResult_globalIndex m) = MessageSearchResult_globalIndex m) (too_large ''message.globalIndex'' ''int64''),
         w_uint32 W 32, w_int64 W (MessageSearchResult_globalIndex m)],
     w_if (MessageSearchResult_senderName m \<noteq> '''') [w_uint32 W 42, w_string W (MessageSearchResult_senderName m)],
     w_if (MessageSearchResult_senderAvatarUrl m \<noteq> '''') [w_uint32 W 50, w_string W (MessageSearchResult_senderAvatarUrl m)],
     w_some (MessageSearchResult_timestamp m) (\<lambda>v. [w_try (toTimestamp v) (\<lambda>t. [w_uint32 W 58, w_open W, Timestamp_encode W t, w_join W])]),
     w_if (MessageSearchResult_text m \<noteq> '''') [w_uint32 W 66, w_string W (MessageSearchResult_text m)],
     w_for (MessageSearchResult_highlights m) (\<lambda>v. [w_uint32 W 74, w_open W, MessageSearchHighlight_encode W v, w_join W])]"

definition MessageSearchResult_cases :: "('w, 'r) wire \<Rightarrow> ('r, MessageSearchResult) cases" where
  "MessageSearchResult_cases W = [
     (1, 10, d_val (r_string W) (\<lambda>v m. m\<lparr>MessageSearchResult_messageId := v\<rparr>)),
     (2, 18, d_val (r_string W) (\<lambda>v m. m\<lparr>MessageSearchResult_threadId := v\<rparr>)),
     (3, 26, d_val (r_string W) (\<lambda>v m. m\<lparr>MessageSearchResult_threadType := v\<rparr>)),
     (4, 32, d_val (r_int64 W) (\<lambda>v m. m\<lparr>MessageSearchResult_globalIndex := v\<rparr>)),
     (5, 42, d_val (r_string W) (\<lambda>v m. m\<lparr>MessageSearchResult_senderName := v\<rparr>)),
     (6, 50, d_val (r_string W) (\<lambda>v m. m\<lparr>MessageSearchResult_senderAvatarUrl := v\<rparr>)),
     (7, 58, d_msg W (Timestamp_decode W) (\<lambda>v m. m\<lparr>MessageSearchResult_timestamp := Some (fromTimestamp v)\<rparr>)),
     (8, 66, d_val (r_string W) (\<lambda>v m. m\<lparr>MessageSearchResult_text := v\<rparr>)),
     (9, 74, d_msg W (MessageSearchHighlight_decode W) (\<lambda>v m. m\<lparr>MessageSearchResult_highlights := MessageSearchResult_highlights m @ [v]\<rparr>))]"

definition MessageSearchResult_decode :: "('w, 'r) wire \<Rightarrow> ('r, MessageSearchResult) decoder" where
  "MessageSearchResult_decode W = d_message W (MessageSearchResult_cases W) createBaseMessageSearchResult"

definition MessageSearchResult_ok :: "MessageSearchResult \<Rightarrow> bool" where
  "MessageSearchResult_ok m \<longleftrightarrow> pred_option js_date_ok (MessageSearchResult_timestamp m)"

lemmas MessageSearchResult_defs = MessageSearchResult_cases_def createBaseMessageSearchResult_def

context wire_lib
begin

lemma MessageSearchResult_codec:
  assumes ok: "MessageSearchResult_ok m"
  shows "codec W stk rem 1 (MessageSearchResult_encode W) (MessageSearchResult_cases W) createBaseMessageSearchResult m"
  by (rule codecI [OF MessageSearchResult_encode_def],
      rule field_string [where upd = MessageSearchResult_messageId_update], simp add: MessageSearchResult_defs, simp add: MessageSearchResult_defs,
      rule field_string [where upd = MessageSearchResult_threadId_update], simp add: MessageSearchResult_defs, simp add: MessageSearchResult_defs,
      rule field_string [where upd = MessageSearchResult_threadType_update], simp add: MessageSearchResult_defs, simp add: MessageSearchResult_defs,
      rule field_int64 [where upd = MessageSearchResult_globalIndex_update], simp add: MessageSearchResult_defs, simp add: MessageSearchResult_defs,
      rule field_string [where upd = MessageSearchResult_senderName_update], simp add: MessageSearchResult_defs, simp add: MessageSearchResult_defs,
      rule field_string [where upd = MessageSearchResult_senderAvatarUrl_update], simp add: MessageSearchResult_defs, simp add: MessageSearchResult_defs,
      rule field_conv [where upd = MessageSearchResult_timestamp_update and unconv = fromTimestamp], rule date_rt, simp, (use ok in \<open>fastforce simp: MessageSearchResult_ok_def list_all_iff\<close>), assumption, simp add: MessageSearchResult_defs, simp add: MessageSearchResult_defs,
      rule field_string [where upd = MessageSearchResult_text_update], simp add: MessageSearchResult_defs, simp add: MessageSearchResult_defs,
      rule field_push_msg [where upd = MessageSearchResult_highlights_update and sel = MessageSearchResult_highlights], rule MessageSearchHighlight_rt, simp, simp add: MessageSearchResult_defs, simp add: MessageSearchResult_defs, simp add: MessageSearchResult_defs,
      rule matched_Nil, cases m, simp add: MessageSearchResult_defs)

lemma MessageSearchResult_rt: "2 \<le> d \<Longrightarrow> MessageSearchResult_ok m \<Longrightarrow> codec_rt W stk rem d (MessageSearchResult_encode W) (MessageSearchResult_decode W) m"
  unfolding MessageSearchResult_decode_def
  by (rule codec_rt_mono [OF codec_rt_of_codec [OF MessageSearchResult_codec]]) simp_all

end

context wire_reader
begin

lemma MessageSearchResult_total [total_rules]: "dec_total W (MessageSearchResult_decode W)"
  unfolding MessageSearchResult_decode_def MessageSearchResult_cases_def by (intro total_rules)

end

subsection \<open>MessageRequest\<close>

record MessageRequest =
  MessageRequest_senderId :: string
  MessageRequest_snippet :: string
  MessageRequest_timestamp :: "js_date option"

definition createBaseMessageRequest :: MessageRequest where
  "createBaseMessageRequest = \<lparr>MessageRequest_senderId = '''',
     MessageRequest_snippet = '''',
     MessageRequest_timestamp = None\<rparr>"

definition MessageRequest_encode :: "('w, 'r) wire \<Rightarrow> MessageRequest \<Rightarrow> 'w writer" where
  "MessageRequest_encode W m = w_seq [
     w_if (MessageRequest_senderId m \<noteq> '''') [w_uint32 W 10, w_string W (MessageRequest_senderId m)],
     w_if (MessageRequest_snippet m \<noteq> '''') [w_uint32 W 18, w_string W (MessageRequest_snippet m)],
     w_some (MessageRequest_timestamp m) (\<lambda>v. [w_try (toTimestamp v) (\<lambda>t. [w_uint32 W 26, w_open W, Timestamp_encode W t, w_join W])])]"

definition MessageRequest_cases :: "('w, 'r) wire \<Rightarrow> ('r, MessageRequest) cases" where
  "MessageRequest_cases W = [
     (1, 10, d_val (r_string W) (\<lambda>v m. m\<lparr>MessageRequest_senderId := v\<rparr>)),
     (2, 18, d_val (r_string W) (\<lambda>v m. m\<lparr>MessageRequest_snippet := v\<rparr>)),
     (3, 26, d_msg W (Timestamp_decode W) (\<lambda>v m. m\<lparr>MessageRequest_timestamp := Some (fromTimestamp v)\<rparr>))]"

definition MessageRequest_decode :: "('w, 'r) wire \<Rightarrow> ('r, MessageRequest) decoder" where
  "MessageRequest_decode W = d_message W (MessageRequest_cases W) createBaseMessageRequest"

definition MessageRequest_ok :: "MessageRequest \<Rightarrow> bool" where
  "MessageRequest_ok m \<longleftrightarrow> pred_option js_date_ok (MessageRequest_timestamp m)"

lemmas MessageRequest_defs = MessageRequest_cases_def createBaseMessageRequest_def

context wire_lib
begin

lemma MessageRequest_codec:
  assumes ok: "MessageRequest_ok m"
  shows "codec W stk rem 1 (MessageRequest_encode W) (MessageRequest_cases W) createBaseMessageRequest m"
  by (rule codecI [OF MessageRequest_encode_def],
      rule field_string [where upd = MessageRequest_senderId_update], simp add: MessageRequest_defs, simp add: MessageRequest_defs,
      rule field_string [where upd = MessageRequest_snippet_update], simp add: MessageRequest_defs, simp add: MessageRequest_defs,
      rule field_conv [where upd = MessageRequest_timestamp_update and unconv = fromTimestamp], rule date_rt, simp, (use ok in \<open>fastforce simp: MessageRequest_ok_def list_all_iff\<close>), assumption, simp add: MessageRequest_defs, simp add: MessageRequest_defs,
      rule matched_Nil, cases m, simp add: MessageRequest_defs)

lemma MessageRequest_rt: "2 \<le> d \<Longrightarrow> MessageRequest_ok m \<Longrightarrow> codec_rt W stk rem d (MessageRequest_encode W) (MessageRequest_decode W) m"
  unfolding MessageRequest_decode_def
  by (rule codec_rt_mono [OF codec_rt_of_codec [OF MessageRequest_codec]]) simp_all

end

context wire_reader
begin

lemma MessageRequest_total [total_rules]: "dec_total W (MessageRequest_decode W)"
  unfolding MessageRequest_decode_def MessageRequest_cases_def by (intro total_rules)

end

subsection \<open>Theme\<close>

record Theme =
  Theme_id :: string
  Theme_name :: string
  Theme_description :: string
  Theme_appColorMode :: string
  Theme_composerBackgroundColor :: string
  Theme_backgroundGradientColors :: "string list"
  Theme_titleBarButtonTintColor :: string
  Theme_inboundMessageGradientColors :: "string list"
  Theme_titleBarTextColor :: string
  Theme_composerTintColor :: string
  Theme_titleBarAttributionColor :: string
  Theme_composerInputBackgroundColor :: string
  Theme_hotLikeColor :: string
  Theme_backgroundImage :: string
  Theme_messageTextColor :: string
  Theme_inboundMessageTextColor :: string
  Theme_primaryButtonBackgroundColor :: string
  Theme_titleBarBackgroundColor :: string
  Theme_tertiaryTextColor :: string
  Theme_reactionPillBackgroundColor :: string
  Theme_secondaryTextColor :: string
  Theme_fallbackColor :: string
  Theme_gradientColors :: "string list"
  Theme_normalThemeId :: string
  Theme_iconAsset :: string

definition createBaseTheme :: Theme where
  "createBaseTheme = \<lparr>Theme_id = '''',
     Theme_name = '''',
     Theme_description = '''',
     Theme_appColorMode = '''',
     Theme_composerBackgroundColor = '''',
     Theme_backgroundGradientColors = [],
     Theme_titleBarButtonTintColor = '''',
     Theme_inboundMessageGradientColors = [],
     Theme_titleBarTextColor = '''',
     Theme_composerTintColor = '''',
     Theme_titleBarAttributionColor = '''',
     Theme_composerInputBackgroundColor = '''',
     Theme_hotLikeColor = '''',
     Theme_backgroundImage = '''',
     Theme_messageTextColor = '''',
     Theme_inboundMessageTextColor = '''',
     Theme_primaryButtonBackgroundColor = '''',
     Theme_titleBarBackgroundColor = '''',
     Theme_tertiaryTextColor = '''',
     Theme_reactionPillBackgroundColor = '''',
     Theme_secondaryTextColor = '''',
     Theme_fallbackColor = '''',
     Theme_gradientColors = [],
     Theme_normalThemeId = '''',
     Theme_iconAsset = ''''\<rparr>"

definition Theme_encode :: "('w, 'r) wire \<Rightarrow> Theme \<Rightarrow> 'w writer" where
  "Theme_encode W m = w_seq [
     w_if (Theme_id m \<noteq> '''') [w_uint32 W 10, w_string W (Theme_id m)],
     w_if (Theme_name m \<noteq> '''') [w_uint32 W 18, w_string W (Theme_name m)],
     w_if (Theme_description m \<noteq> '''') [w_uint32 W 26, w_string W (Theme_description m)],
     w_if (Theme_appColorMode m \<noteq> '''') [w_uint32 W 34, w_string W (Theme_appColorMode m)],
     w_if (Theme_composerBackgroundColor m \<noteq> '''') [w_uint32 W 42, w_string W (Theme_composerBackgroundColor m)],
     w_for (Theme_backgroundGradientColors m) (\<lambda>v. [w_uint32 W 50, w_string W v]),
     w_if (Theme_titleBarButtonTintColor m \<noteq> '''') [w_uint32 W 58, w_string W (Theme_titleBarButtonTintColor m)],
     w_for (Theme_inboundMessageGradientColors m) (\<lambda>v. [w_uint32 W 66, w_string W v]),
     w_if (Theme_titleBarTextColor m \<noteq> '''') [w_uint32 W 74, w_string W (Theme_titleBarTextColor m)],
     w_if (Theme_composerTintColor m \<noteq> '''') [w_uint32 W 82, w_string W (Theme_composerTintColor m)],
     w_if (Theme_titleBarAttributionColor m \<noteq> '''') [w_uint32 W 90, w_string W (Theme_titleBarAttributionColor m)],
     w_if (Theme_composerInputBackgroundColor m \<noteq> '''') [w_uint32 W 98, w_string W (Theme_composerInputBackgroundColor m)],
     w_if (Theme_hotLikeColor m \<noteq> '''') [w_uint32 W 106, w_string W (Theme_hotLikeColor m)],
     w_if (Theme_backgroundImage m \<noteq> '''') [w_uint32 W 114, w_string W (Theme_backgroundImage m)],
     w_if (Theme_messageTextColor m \<noteq> '''') [w_uint32 W 122, w_string W (Theme_messageTextColor m)],
     w_if (Theme_inboundMessageTextColor m \<noteq> '''') [w_uint32 W 130, w_string W (Theme_inboundMessageTextColor m)],
     w_if (Theme_primaryButtonBackgroundColor m \<noteq> '''') [w_uint32 W 138, w_string W (Theme_primaryButtonBackgroundColor m)],
     w_if (Theme_titleBarBackgroundColor m \<noteq> '''') [w_uint32 W 146, w_string W (Theme_titleBarBackgroundColor m)],
     w_if (Theme_tertiaryTextColor m \<noteq> '''') [w_uint32 W 154, w_string W (Theme_tertiaryTextColor m)],
     w_if (Theme_reactionPillBackgroundColor m \<noteq> '''') [w_uint32 W 162, w_string W (Theme_reactionPillBackgroundColor m)],
     w_if (Theme_secondaryTextColor m \<noteq> '''') [w_uint32 W 170, w_string W (Theme_secondaryTextColor m)],
     w_if (Theme_fallbackColor m \<noteq> '''') [w_uint32 W 178, w_string W (Theme_fallbackColor m)],
     w_for (Theme_gradientColors m) (\<lambda>v. [w_uint32 W 186, w_string W v]),
     w_if (Theme_normalThemeId m \<noteq> '''') [w_uint32 W 194, w_string W (Theme_normalThemeId m)],
     w_if (Theme_iconAsset m \<noteq> '''') [w_uint32 W 202, w_string W (Theme_iconAsset m)]]"

definition Theme_cases :: "('w, 'r) wire \<Rightarrow> ('r, Theme) cases" where
  "Theme_cases W = [
     (1, 10, d_val (r_string W) (\<lambda>v m. m\<lparr>Theme_id := v\<rparr>)),
     (2, 18, d_val (r_string W) (\<lambda>v m. m\<lparr>Theme_name := v\<rparr>)),
     (3, 26, d_val (r_string W) (\<lambda>v m. m\<lparr>Theme_description := v\<rparr>)),
     (4, 34, d_val (r_string W) (\<lambda>v m. m\<lparr>Theme_appColorMode := v\<rparr>)),
     (5, 42, d_val (r_string W) (\<lambda>v m. m\<lparr>Theme_composerBackgroundColor := v\<rparr>)),
     (6, 50, d_val (r_string W) (\<lambda>v m. m\<lparr>Theme_backgroundGradientColors := Theme_backgroundGradientColors m @ [v]\<rparr>)),
     (7, 58, d_val (r_string W) (\<lambda>v m. m\<lparr>Theme_titleBarButtonTintColor := v\<rparr>)),
     (8, 66, d_val (r_string W) (\<lambda>v m. m\<lparr>Theme_inboundMessageGradientColors := Theme_inboundMessageGradientColors m @ [v]\<rparr>)),
     (9, 74, d_val (r_string W) (\<lambda>v m. m\<lparr>Theme_titleBarTextColor := v\<rparr>)),
     (10, 82, d_val (r_string W) (\<lambda>v m. m\<lparr>Theme_composerTintColor := v\<rparr>)),
     (11, 90, d_val (r_string W) (\<lambda>v m. m\<lparr>Theme_titleBarAttributionColor := v\<rparr>)),
     (12, 98, d_val (r_string W) (\<lambda>v m. m\<lparr>Theme_composerInputBackgroundColor := v\<rparr>)),
     (13, 106, d_val (r_string W) (\<lambda>v m. m\<lparr>Theme_hotLikeColor := v\<rparr>)),
     (14, 114, d_val (r_string W) (\<lambda>v m. m\<lparr>Theme_backgroundImage := v\<rparr>)),
     (15, 122, d_val (r_string W) (\<lambda>v m. m\<lparr>Theme_messageTextColor := v\<rparr>)),
     (16, 130, d_val (r_string W) (\<lambda>v m. m\<lparr>Theme_inboundMessageTextColor := v\<rparr>)),
     (17, 138, d_val (r_string W) (\<lambda>v m. m\<lparr>Theme_primaryButtonBackgroundColor := v\<rparr>)),
     (18, 146, d_val (r_string W) (\<lambda>v m. m\<lparr>Theme_titleBarBackgroundColor := v\<rparr>)),
     (19, 154, d_val (r_string W) (\<lambda>v m. m\<lparr>Theme_tertiaryTextColor := v\<rparr>)),
     (20, 162, d_val (r_string W) (\<lambda>v m. m\<lparr>Theme_reactionPillBackgroundColor := v\<rparr>)),
     (21, 170, d_val (r_string W) (\<lambda>v m. m\<lparr>Theme_secondaryTextColor := v\<rparr>)),
     (22, 178, d_val (r_string W) (\<lambda>v m. m\<lparr>Theme_fallbackColor := v\<rparr>)),
     (23, 186, d_val (r_string W) (\<lambda>v m. m\<lparr>Theme_gradientColors := Theme_gradientColors m @ [v]\<rparr>)),
     (24, 194, d_val (r_string W) (\<lambda>v m. m\<lparr>Theme_normalThemeId := v\<rparr>)),
     (25, 202, d_val (r_string W) (\<lambda>v m. m\<lparr>Theme_iconAsset := v\<rparr>))]"

definition Theme_decode :: "('w, 'r) wire \<Rightarrow> ('r, Theme) decoder" where
  "Theme_decode W = d_message W (Theme_cases W) createBaseTheme"

lemmas Theme_defs = Theme_cases_def createBaseTheme_def

context wire_lib
begin

lemma Theme_codec:
  "codec W stk rem 0 (Theme_encode W) (Theme_cases W) createBaseTheme m"
  by (rule codecI [OF Theme_encode_def],
      rule field_string [where upd = Theme_id_update], simp add: Theme_defs, simp add: Theme_defs,
      rule field_string [where upd = Theme_name_update], simp add: Theme_defs, simp add: Theme_defs,
      rule field_string [where upd = Theme_description_update], simp add: Theme_defs, simp add: Theme_defs,
      rule field_string [where upd = Theme_appColorMode_update], simp add: Theme_defs, simp add: Theme_defs,
      rule field_string [where upd = Theme_composerBackgroundColor_update], simp add: Theme_defs, simp add: Theme_defs,
      rule field_push_string [where upd = Theme_backgroundGradientColors_update and sel = Theme_backgroundGradientColors], simp add: Theme_defs, simp add: Theme_defs, simp add: Theme_defs,
      rule field_string [where upd = Theme_titleBarButtonTintColor_update], simp add: Theme_defs, simp add: Theme_defs,
      rule field_push_string [where upd = Theme_inboundMessageGradientColors_update and sel = Theme_inboundMessageGradientColors], simp add: Theme_defs, simp add: Theme_defs, simp add: Theme_defs,
      rule field_string [where upd = Theme_titleBarTextColor_update], simp add: Theme_defs, simp add: Theme_defs,
      rule field_string [where upd = Theme_composerTintColor_update], simp add: Theme_defs, simp add: Theme_defs,
      rule field_string [where upd = Theme_titleBarAttributionColor_update], simp add: Theme_defs, simp add: Theme_defs,
      rule field_string [where upd = Theme_composerInputBackgroundColor_update], simp add: Theme_defs, simp add: Theme_defs,
      rule field_string [where upd = Theme_hotLikeColor_update], simp add: Theme_defs, simp add: Theme_defs,
      rule field_string [where upd = Theme_backgroundImage_update], simp add: Theme_defs, simp add: Theme_defs,
      rule field_string [where upd = Theme_messageTextColor_update], simp add: Theme_defs, simp add: Theme_defs,
      rule field_string [where upd = Theme_inboundMessageTextColor_update], simp add: Theme_defs, simp add: Theme_defs,
      rule field_string [where upd = Theme_primaryButtonBackgroundColor_update], simp add: Theme_defs, simp add: Theme_defs,
      rule field_string [where upd = Theme_titleBarBackgroundColor_update], simp add: Theme_defs, simp add: Theme_defs,
      rule field_string [where upd = Theme_tertiaryTextColor_update], simp add: Theme_defs, simp add: Theme_defs,
      rule field_string [where upd = Theme_reactionPillBackgroundColor_update], simp add: Theme_defs, simp add: Theme_defs,
      rule field_string [where upd = Theme_secondaryTextColor_update], simp add: Theme_defs, simp add: Theme_defs,
      rule field_string [where upd = Theme_fallbackColor_update], simp add: Theme_defs, simp add: Theme_defs,
      rule field_push_string [where upd = Theme_gradientColors_update and sel = Theme_gradientColors], simp add: Theme_defs, simp add: Theme_defs, simp add: Theme_defs,
      rule field_string [where upd = Theme_normalThemeId_update], simp add: Theme_defs, simp add: Theme_defs,
      rule field_string [where upd = Theme_iconAsset_update], simp add: Theme_defs, simp add: Theme_defs,
      rule matched_Nil, cases m, simp add: Theme_defs)

lemma Theme_rt: "1 \<le> d \<Longrightarrow> codec_rt W stk rem d (Theme_encode W) (Theme_decode W) m"
  unfolding Theme_decode_def
  by (rule codec_rt_mono [OF codec_rt_of_codec [OF Theme_codec]]) simp_all

end

context wire_reader
begin

lemma Theme_total [total_rules]: "dec_total W (Theme_decode W)"
  unfolding Theme_decode_def Theme_cases_def by (intro total_rules)

end

subsection \<open>Note\<close>

record Note =
  Note_id :: string
  Note_description :: string

definition createBaseNote :: Note where
  "createBaseNote = \<lparr>Note_id = '''',
     Note_description = ''''\<rparr>"

definition Note_encode :: "('w, 'r) wire \<Rightarrow> Note \<Rightarrow> 'w writer" where
  "Note_encode W m = w_seq [
     w_if (Note_id m \<noteq> '''') [w_uint32 W 10, w_string W (Note_id m)],
     w_if (Note_description m \<noteq> '''') [w_uint32 W 18, w_string W (Note_description m)]]"

definition Note_cases :: "('w, 'r) wire \<Rightarrow> ('r, Note) cases" where
  "Note_cases W = [
     (1, 10, d_val (r_string W) (\<lambda>v m. m\<lparr>Note_id := v\<rparr>)),
     (2, 18, d_val (r_string W) (\<lambda>v m. m\<lparr>Note_description := v\<rparr>))]"

definition Note_decode :: "('w, 'r) wire \<Rightarrow> ('r, Note) decoder" where
  "Note_decode W = d_message W (Note_cases W) createBaseNote"

lemmas Note_defs = Note_cases_def createBaseNote_def

context wire_lib
begin

lemma Note_codec:
  "codec W stk rem 0 (Note_encode W) (Note_cases W) createBaseNote m"
  by (rule codecI [OF Note_encode_def],
      rule field_string [where upd = Note_id_update], simp add: Note_defs, simp add: Note_defs,
      rule field_string [where upd = Note_description_update], simp add: Note_defs, simp add: Note_defs,
      rule matched_Nil, cases m, simp add: Note_defs)

lemma Note_rt: "1 \<le> d \<Longrightarrow> codec_rt W stk rem d (Note_encode W) (Note_decode W) m"
  unfolding Note_decode_def
  by (rule codec_rt_mono [OF codec_rt_of_codec [OF Note_codec]]) simp_all

end

context wire_reader
begin

lemma Note_total [total_rules]: "dec_total W (Note_decode W)"
  unfolding Note_decode_def Note_cases_def by (intro total_rules)

end

subsection \<open>SendRequest\<close>

record SendRequest =
  SendRequest_sessionId :: string
  SendRequest_threadId :: string
  SendRequest_text :: string
  SendRequest_replyTo :: "ReplyReference option"
  SendRequest_mentions :: "Mention list"
  SendRequest_stickerId :: string
  SendRequest_url :: string
  SendRequest_encryption :: int
  SendRequest_attachmentIds :: "string list"

definition createBaseSendRequest :: SendRequest where
  "createBaseSendRequest = \<lparr>SendRequest_sessionId = '''',
     SendRequest_threadId = '''',
     SendRequest_text = '''',
     SendRequest_replyTo = None,
     SendRequest_mentions = [],
     SendRequest_stickerId = '''',
     SendRequest_url = '''',
     SendRequest_encryption = 0,
     SendRequest_attachmentIds = []\<rparr>"

definition SendRequest_encode :: "('w, 'r) wire \<Rightarrow> SendRequest \<Rightarrow> 'w writer" where
  "SendRequest_encode W m = w_seq [
     w_if (SendRequest_sessionId m \<noteq> '''') [w_uint32 W 10, w_string W (SendRequest_sessionId m)],
     w_if (SendRequest_threadId m \<noteq> '''') [w_uint32 W 18, w_string W (SendRequest_threadId m)],
     w_if (SendRequest_text m \<noteq> '''') [w_uint32 W 26, w_string W (SendRequest_text m)],
     w_some (SendRequest_replyTo m) (\<lambda>v. [w_uint32 W 34, w_open W, ReplyReference_encode W v, w_join W]),
     w_for (SendRequest_mentions m) (\<lambda>v. [w_uint32 W 42, w_open W, Mention_encode W v, w_join W]),
     w_if (SendRequest_stickerId m \<noteq> '''') [w_uint32 W 50, w_string W (SendRequest_stickerId m)],
     w_if (SendRequest_url m \<noteq> '''') [w_uint32 W 58, w_string W (SendRequest_url m)],
     w_if (SendRequest_encryption m \<noteq> 0) [w_uint32 W 64, w_int32 W (SendRequest_encryption m)],
     w_for (SendRequest_attachmentIds m) (\<lambda>v. [w_uint32 W 74, w_string W v])]"

definition SendRequest_cases :: "('w, 'r) wire \<Rightarrow> ('r, SendRequest) cases" where
  "SendRequest_cases W = [
     (1, 10, d_val (r_string W) (\<lambda>v m. m\<lparr>SendRequest_sessionId := v\<rparr>)),
     (2, 18, d_val (r_string W) (\<lambda>v m. m\<lparr>SendRequest_threadId := v\<rparr>)),
     (3, 26, d_val (r_string W) (\<lambda>v m. m\<lparr>SendRequest_text := v\<rparr>)),
     (4, 34, d_msg W (ReplyReference_decode W) (\<lambda>v m. m\<lparr>SendRequest_replyTo := Some v\<rparr>)),
     (5, 42, d_msg W (Mention_decode W) (\<lambda>v m. m\<lparr>SendRequest_mentions := SendRequest_mentions m @ [v]\<rparr>)),
     (6, 50, d_val (r_string W) (\<lambda>v m. m\<lparr>SendRequest_stickerId := v\<rparr>)),
     (7, 58, d_val (r_string W) (\<lambda>v m. m\<lparr>SendRequest_url := v\<rparr>)),
     (8, 64, d_val (r_int32 W) (\<lambda>v m. m\<lparr>SendRequest_encryption := v\<rparr>)),
     (9, 74, d_val (r_string W) (\<lambda>v m. m\<lparr>SendRequest_attachmentIds := SendRequest_attachmentIds m @ [v]\<rparr>))]"

definition SendRequest_decode :: "('w, 'r) wire \<Rightarrow> ('r, SendRequest) decoder" where
  "SendRequest_decode W = d_message W (SendRequest_cases W) createBaseSendRequest"

lemmas SendRequest_defs = SendRequest_cases_def createBaseSendRequest_def

context wire_lib
begin

lemma SendRequest_codec:
  "codec W stk rem 1 (SendRequest_encode W) (SendRequest_cases W) createBaseSendRequest m"
  by (rule codecI [OF SendRequest_encode_def],
      rule field_string [where upd = SendRequest_sessionId_update], simp add: SendRequest_defs, simp add: SendRequest_defs,
      rule field_string [where upd = SendRequest_threadId_update], simp add: SendRequest_defs, simp add: SendRequest_defs,
      rule field_string [where upd = SendRequest_text_update], simp add: SendRequest_defs, simp add: SendRequest_defs,
      rule field_msg [where upd = SendRequest_replyTo_update], rule ReplyReference_rt, simp, simp add: SendRequest_defs, simp add: SendRequest_defs,
      rule field_push_msg [where upd = SendRequest_mentions_update and sel = SendRequest_mentions], rule Mention_rt, simp, simp add: SendRequest_defs, simp add: SendRequest_defs, simp add: SendRequest_defs,
      rule field_string [where upd = SendRequest_stickerId_update], simp add: SendRequest_defs, simp add: SendRequest_defs,
      rule field_string [where upd = SendRequest_url_update], simp add: SendRequest_defs, simp add: SendRequest_defs,
      rule field_int32 [where upd = SendRequest_encryption_update], simp add: SendRequest_defs, simp add: SendRequest_defs,
      rule field_push_string [where upd = SendRequest_attachmentIds_update and sel = SendRequest_attachmentIds], simp add: SendRequest_defs, simp add: SendRequest_defs, simp add: SendRequest_defs,
      rule matched_Nil, cases m, simp add: SendRequest_defs)

lemma SendRequest_rt: "2 \<le> d \<Longrightarrow> codec_rt W stk rem d (SendRequest_encode W) (SendRequest_decode W) m"
  unfolding SendRequest_decode_def
  by (rule codec_rt_mono [OF codec_rt_of_codec [OF SendRequest_codec]]) simp_all

end

context wire_reader
begin

lemma SendRequest_total [total_rules]: "dec_total W (SendRequest_decode W)"
  unfolding SendRequest_decode_def SendRequest_cases_def by (intro total_rules)

end

subsection \<open>SendResponse\<close>

record SendResponse =
  SendResponse_messageId :: string
  SendResponse_timestamp :: "js_date option"

definition createBaseSendResponse :: SendResponse where
  "createBaseSendResponse = \<lparr>SendResponse_messageId = '''',
     SendResponse_timestamp = None\<rparr>"

definition SendResponse_encode :: "('w, 'r) wire \<Rightarrow> SendResponse \<Rightarrow> 'w writer" where
  "SendResponse_encode W m = w_seq [
     w_if (SendResponse_messageId m \<noteq> '''') [w_uint32 W 10, w_string W (SendResponse_messageId m)],
     w_some (SendResponse_timestamp m) (\<lambda>v. [w_try (toTimestamp v) (\<lambda>t. [w_uint32 W 18, w_open W, Timestamp_encode W t, w_join W])])]"

definition SendResponse_cases :: "('w, 'r) wire \<Rightarrow> ('r, SendResponse) cases" where
  "SendResponse_cases W = [
     (1, 10, d_val (r_string W) (\<lambda>v m. m\<lparr>SendResponse_messageId := v\<rparr>)),
     (2, 18, d_msg W (Timestamp_decode W) (\<lambda>v m. m\<lparr>SendResponse_timestamp := Some (fromTimestamp v)\<rparr>))]"

definition SendResponse_decode :: "('w, 'r) wire \<Rightarrow> ('r, SendResponse) decoder" where
  "SendResponse_decode W = d_message W (SendResponse_cases W) createBaseSendResponse"

definition SendResponse_ok :: "SendResponse \<Rightarrow> bool" where
  "SendResponse_ok m \<longleftrightarrow> pred_option js_date_ok (SendResponse_timestamp m)"

lemmas SendResponse_defs = SendResponse_cases_def createBaseSendResponse_def

context wire_lib
begin

lemma SendResponse_codec:
  assumes ok: "SendResponse_ok m"
  shows "codec W stk rem 1 (SendResponse_encode W) (SendResponse_cases W) createBaseSendResponse m"
  by (rule codecI [OF SendResponse_encode_def],
      rule field_string [where upd = SendResponse_messageId_update], simp add: SendResponse_defs, simp add: SendResponse_defs,
      rule field_conv [where upd = SendResponse_timestamp_update and unconv = fromTimestamp], rule date_rt, simp, (use ok in \<open>fastforce simp: SendResponse_ok_def list_all_iff\<close>), assumption, simp add: SendResponse_defs, simp add: SendResponse_defs,
      rule matched_Nil, cases m, simp add: SendResponse_defs)

lemma SendResponse_rt: "2 \<le> d \<Longrightarrow> SendResponse_ok m \<Longrightarrow> codec_rt W stk rem d (SendResponse_encode W) (SendResponse_decode W) m"
  unfolding SendResponse_decode_def
  by (rule codec_rt_mono [OF codec_rt_of_codec [OF SendResponse_codec]]) simp_all

end

context wire_reader
begin

lemma SendResponse_total [total_rules]: "dec_total W (SendResponse_decode W)"
  unfolding SendResponse_decode_def SendResponse_cases_def by (intro total_rules)

end

subsection \<open>UploadMetadata\<close>

record UploadMetadata =
  UploadMetadata_sessionId :: string
  UploadMetadata_threadId :: string
  UploadMetadata_name :: string
  UploadMetadata_contentType :: string
  UploadMetadata_size :: int
  UploadMetadata_voice :: bool
  UploadMetadata_sha256 :: "byte list"

definition createBaseUploadMetadata :: UploadMetadata where
  "createBaseUploadMetadata = \<lparr>UploadMetadata_sessionId = '''',
     UploadMetadata_threadId = '''',
     UploadMetadata_name = '''',
     UploadMetadata_contentType = '''',
     UploadMetadata_size = 0,
     UploadMetadata_voice = False,
     UploadMetadata_sha256 = []\<rparr>"

definition UploadMetadata_encode :: "('w, 'r) wire \<Rightarrow> UploadMetadata \<Rightarrow> 'w writer" where
  "UploadMetadata_encode W m = w_seq [
     w_if (UploadMetadata_sessionId m \<noteq> '''') [w_uint32 W 10, w_string W (UploadMetadata_sessionId m)],
     w_if (UploadMetadata_threadId m \<noteq> '''') [w_uint32 W 18, w_string W (UploadMetadata_threadId m)],
     w_if (UploadMetadata_name m \<noteq> '''') [w_uint32 W 26, w_string W (UploadMetadata_name m)],
     w_if (UploadMetadata_contentType m \<noteq> '''') [w_uint32 W 34, w_string W (UploadMetadata_contentType m)],
     w_if (UploadMetadata_size m \<noteq> 0) [w_check (asIntN64 (UploadMetadata_size m) = UploadMetadata_size m) (too_large ''message.size'' ''int64''),
         w_uint32 W 40, w_int64 W (UploadMetadata_size m)],
     w_if (UploadMetadata_voice m \<noteq> False) [w_uint32 W 48, w_bool W (UploadMetadata_voice m)],
     w_if (UploadMetadata_sha256 m \<noteq> []) [w_uint32 W 58, w_bytes W (UploadMetadata_sha256 m)]]"

definition UploadMetadata_cases :: "('w, 'r) wire \<Rightarrow> ('r, UploadMetadata) cases" where
  "UploadMetadata_cases W = [
     (1, 10, d_val (r_string W) (\<lambda>v m. m\<lparr>UploadMetadata_sessionId := v\<rparr>)),
     (2, 18, d_val (r_string W) (\<lambda>v m. m\<lparr>UploadMetadata_threadId := v\<rparr>)),
     (3, 26, d_val (r_string W) (\<lambda>v m. m\<lparr>UploadMetadata_name := v\<rparr>)),
     (4, 34, d_val (r_string W) (\<lambda>v m. m\<lparr>UploadMetadata_contentType := v\<rparr>)),
     (5, 40, d_val (r_int64 W) (\<lambda>v m. m\<lparr>UploadMetadata_size := v\<rparr>)),
     (6, 48, d_val (r_bool W) (\<lambda>v m. m\<lparr>UploadMetadata_voice := v\<rparr>)),
     (7, 58, d_val (r_bytes W) (\<lambda>v m. m\<lparr>UploadMetadata_sha256 := v\<rparr>))]"

definition UploadMetadata_decode :: "('w, 'r) wire \<Rightarrow> ('r, UploadMetadata) decoder" where
  "UploadMetadata_decode W = d_message W (UploadMetadata_cases W) createBaseUploadMetadata"

lemmas UploadMetadata_defs = UploadMetadata_cases_def createBaseUploadMetadata_def

context wire_lib
begin

lemma UploadMetadata_codec:
  "codec W stk rem 0 (UploadMetadata_encode W) (UploadMetadata_cases W) createBaseUploadMetadata m"
  by (rule codecI [OF UploadMetadata_encode_def],
      rule field_string [where upd = UploadMetadata_sessionId_update], simp add: UploadMetadata_defs, simp add: UploadMetadata_defs,
      rule field_string [where upd = UploadMetadata_threadId_update], simp add: UploadMetadata_defs, simp add: UploadMetadata_defs,
      rule field_string [where upd = UploadMetadata_name_update], simp add: UploadMetadata_defs, simp add: UploadMetadata_defs,
      rule field_string [where upd = UploadMetadata_contentType_update], simp add: UploadMetadata_defs, simp add: UploadMetadata_defs,
      rule field_int64 [where upd = UploadMetadata_size_update], simp add: UploadMetadata_defs, simp add: UploadMetadata_defs,
      rule field_bool [where upd = UploadMetadata_voice_update], simp add: UploadMetadata_defs, simp add: UploadMetadata_defs,
      rule field_bytes [where upd = UploadMetadata_sha256_update], simp add: UploadMetadata_defs, simp add: UploadMetadata_defs,
      rule matched_Nil, cases m, simp add: UploadMetadata_defs)

lemma UploadMetadata_rt: "1 \<le> d \<Longrightarrow> codec_rt W stk rem d (UploadMetadata_encode W) (UploadMetadata_decode W) m"
  unfolding UploadMetadata_decode_def
  by (rule codec_rt_mono [OF codec_rt_of_codec [OF UploadMetadata_codec]]) simp_all

end

context wire_reader
begin

lemma UploadMetadata_total [total_rules]: "dec_total W (UploadMetadata_decode W)"
  unfolding UploadMetadata_decode_def UploadMetadata_cases_def by (intro total_rules)

end

subsection \<open>UploadRequest\<close>

datatype UploadRequest_payload_case =
    UploadRequest_payload_metadata UploadMetadata
  | UploadRequest_payload_chunk MediaChunk

record UploadRequest =
  UploadRequest_payload :: "UploadRequest_payload_case option"

definition createBaseUploadRequest :: UploadRequest where
  "createBaseUploadRequest = \<lparr>UploadRequest_payload = None\<rparr>"

definition UploadRequest_payload_encode :: "('w, 'r) wire \<Rightarrow> UploadRequest_payload_case \<Rightarrow> 'w writer list" where
  "UploadRequest_payload_encode W c = (case c of
       UploadRequest_payload_metadata v \<Rightarrow> [w_uint32 W 10, w_open W, UploadMetadata_encode W v, w_join W]
     | UploadRequest_payload_chunk v \<Rightarrow> [w_uint32 W 18, w_open W, MediaChunk_encode W v, w_join W])"

definition UploadRequest_encode :: "('w, 'r) wire \<Rightarrow> UploadRequest \<Rightarrow> 'w writer" where
  "UploadRequest_encode W m = w_seq [
     w_some (UploadRequest_payload m) (UploadRequest_payload_encode W)]"

definition UploadRequest_cases :: "('w, 'r) wire \<Rightarrow> ('r, UploadRequest) cases" where
  "UploadRequest_cases W = [
     (1, 10, d_msg W (UploadMetadata_decode W)
        (\<lambda>v m. m\<lparr>UploadRequest_payload := Some (UploadRequest_payload_metadata v)\<rparr>)),
     (2, 18, d_msg W (MediaChunk_decode W)
        (\<lambda>v m. m\<lparr>UploadRequest_payload := Some (UploadRequest_payload_chunk v)\<rparr>))]"

definition UploadRequest_decode :: "('w, 'r) wire \<Rightarrow> ('r, UploadRequest) decoder" where
  "UploadRequest_decode W = d_message W (UploadRequest_cases W) createBaseUploadRequest"

lemmas UploadRequest_defs = UploadRequest_cases_def createBaseUploadRequest_def

context wire_lib
begin

lemma UploadRequest_payload_matched:
  "matched W stk rem 1 (UploadRequest_cases W) (UploadRequest_payload_encode W c) m (m\<lparr>UploadRequest_payload := Some c\<rparr>)"
proof (cases c)
  case (UploadRequest_payload_metadata v)
  show ?thesis
    by (simp add: UploadRequest_payload_metadata UploadRequest_payload_encode_def, rule matched_msg, rule UploadMetadata_rt, simp, simp add: UploadRequest_defs, simp)
next
  case (UploadRequest_payload_chunk v)
  show ?thesis
    by (simp add: UploadRequest_payload_chunk UploadRequest_payload_encode_def, rule matched_msg, rule MediaChunk_rt, simp, simp add: UploadRequest_defs, simp)
qed

lemma UploadRequest_codec:
  "codec W stk rem 1 (UploadRequest_encode W) (UploadRequest_cases W) createBaseUploadRequest m"
  by (rule codecI [OF UploadRequest_encode_def],
      rule field_some [where upd = UploadRequest_payload_update], rule UploadRequest_payload_matched, simp add: UploadRequest_defs,
      rule matched_Nil, cases m, simp add: UploadRequest_defs)

lemma UploadRequest_rt: "2 \<le> d \<Longrightarrow> codec_rt W stk rem d (UploadRequest_encode W) (UploadRequest_decode W) m"
  unfolding UploadRequest_decode_def
  by (rule codec_rt_mono [OF codec_rt_of_codec [OF UploadRequest_codec]]) simp_all

end

context wire_reader
begin

lemma UploadRequest_total [total_rules]: "dec_total W (UploadRequest_decode W)"
  unfolding UploadRequest_decode_def UploadRequest_cases_def by (intro total_rules)

end

subsection \<open>UploadResponse\<close>

record UploadResponse =
  UploadResponse_id :: string
  UploadResponse_name :: string
  UploadResponse_contentType :: string
  UploadResponse_type :: string
  UploadResponse_sha256 :: "byte list"

definition createBaseUploadResponse :: UploadResponse where
  "createBaseUploadResponse = \<lparr>UploadResponse_id = '''',
     UploadResponse_name = '''',
     UploadResponse_contentType = '''',
     UploadResponse_type = '''',
     UploadResponse_sha256 = []\<rparr>"

definition UploadResponse_encode :: "('w, 'r) wire \<Rightarrow> UploadResponse \<Rightarrow> 'w writer" where
  "UploadResponse_encode W m = w_seq [
     w_if (UploadResponse_id m \<noteq> '''') [w_uint32 W 10, w_string W (UploadResponse_id m)],
     w_if (UploadResponse_name m \<noteq> '''') [w_uint32 W 18, w_string W (UploadResponse_name m)],
     w_if (UploadResponse_contentType m \<noteq> '''') [w_uint32 W 26, w_string W (UploadResponse_contentType m)],
     w_if (UploadResponse_type m \<noteq> '''') [w_uint32 W 34, w_string W (UploadResponse_type m)],
     w_if (UploadResponse_sha256 m \<noteq> []) [w_uint32 W 42, w_bytes W (UploadResponse_sha256 m)]]"

definition UploadResponse_cases :: "('w, 'r) wire \<Rightarrow> ('r, UploadResponse) cases" where
  "UploadResponse_cases W = [
     (1, 10, d_val (r_string W) (\<lambda>v m. m\<lparr>UploadResponse_id := v\<rparr>)),
     (2, 18, d_val (r_string W) (\<lambda>v m. m\<lparr>UploadResponse_name := v\<rparr>)),
     (3, 26, d_val (r_string W) (\<lambda>v m. m\<lparr>UploadResponse_contentType := v\<rparr>)),
     (4, 34, d_val (r_string W) (\<lambda>v m. m\<lparr>UploadResponse_type := v\<rparr>)),
     (5, 42, d_val (r_bytes W) (\<lambda>v m. m\<lparr>UploadResponse_sha256 := v\<rparr>))]"

definition UploadResponse_decode :: "('w, 'r) wire \<Rightarrow> ('r, UploadResponse) decoder" where
  "UploadResponse_decode W = d_message W (UploadResponse_cases W) createBaseUploadResponse"

lemmas UploadResponse_defs = UploadResponse_cases_def createBaseUploadResponse_def

context wire_lib
begin

lemma UploadResponse_codec:
  "codec W stk rem 0 (UploadResponse_encode W) (UploadResponse_cases W) createBaseUploadResponse m"
  by (rule codecI [OF UploadResponse_encode_def],
      rule field_string [where upd = UploadResponse_id_update], simp add: UploadResponse_defs, simp add: UploadResponse_defs,
      rule field_string [where upd = UploadResponse_name_update], simp add: UploadResponse_defs, simp add: UploadResponse_defs,
      rule field_string [where upd = UploadResponse_contentType_update], simp add: UploadResponse_defs, simp add: UploadResponse_defs,
      rule field_string [where upd = UploadResponse_type_update], simp add: UploadResponse_defs, simp add: UploadResponse_defs,
      rule field_bytes [where upd = UploadResponse_sha256_update], simp add: UploadResponse_defs, simp add: UploadResponse_defs,
      rule matched_Nil, cases m, simp add: UploadResponse_defs)

lemma UploadResponse_rt: "1 \<le> d \<Longrightarrow> codec_rt W stk rem d (UploadResponse_encode W) (UploadResponse_decode W) m"
  unfolding UploadResponse_decode_def
  by (rule codec_rt_mono [OF codec_rt_of_codec [OF UploadResponse_codec]]) simp_all

end

context wire_reader
begin

lemma UploadResponse_total [total_rules]: "dec_total W (UploadResponse_decode W)"
  unfolding UploadResponse_decode_def UploadResponse_cases_def by (intro total_rules)

end

subsection \<open>ForwardRequest\<close>

record ForwardRequest =
  ForwardRequest_sessionId :: string
  ForwardRequest_threadId :: string
  ForwardRequest_messageId :: string

definition createBaseForwardRequest :: ForwardRequest where
  "createBaseForwardRequest = \<lparr>ForwardRequest_sessionId = '''',
     ForwardRequest_threadId = '''',
     ForwardRequest_messageId = ''''\<rparr>"

definition ForwardRequest_encode :: "('w, 'r) wire \<Rightarrow> ForwardRequest \<Rightarrow> 'w writer" where
  "ForwardRequest_encode W m = w_seq [
     w_if (ForwardRequest_sessionId m \<noteq> '''') [w_uint32 W 10, w_string W (ForwardRequest_sessionId m)],
     w_if (ForwardRequest_threadId m \<noteq> '''') [w_uint32 W 18, w_string W (ForwardRequest_threadId m)],
     w_if (ForwardRequest_messageId m \<noteq> '''') [w_uint32 W 26, w_string W (ForwardRequest_messageId m)]]"

definition ForwardRequest_cases :: "('w, 'r) wire \<Rightarrow> ('r, ForwardRequest) cases" where
  "ForwardRequest_cases W = [
     (1, 10, d_val (r_string W) (\<lambda>v m. m\<lparr>ForwardRequest_sessionId := v\<rparr>)),
     (2, 18, d_val (r_string W) (\<lambda>v m. m\<lparr>ForwardRequest_threadId := v\<rparr>)),
     (3, 26, d_val (r_string W) (\<lambda>v m. m\<lparr>ForwardRequest_messageId := v\<rparr>))]"

definition ForwardRequest_decode :: "('w, 'r) wire \<Rightarrow> ('r, ForwardRequest) decoder" where
  "ForwardRequest_decode W = d_message W (ForwardRequest_cases W) createBaseForwardRequest"

lemmas ForwardRequest_defs = ForwardRequest_cases_def createBaseForwardRequest_def

context wire_lib
begin

lemma ForwardRequest_codec:
  "codec W stk rem 0 (ForwardRequest_encode W) (ForwardRequest_cases W) createBaseForwardRequest m"
  by (rule codecI [OF ForwardRequest_encode_def],
      rule field_string [where upd = ForwardRequest_sessionId_update], simp add: ForwardRequest_defs, simp add: ForwardRequest_defs,
      rule field_string [where upd = ForwardRequest_threadId_update], simp add: ForwardRequest_defs, simp add: ForwardRequest_defs,
      rule field_string [where upd = ForwardRequest_messageId_update], simp add: ForwardRequest_defs, simp add: ForwardRequest_defs,
      rule matched_Nil, cases m, simp add: ForwardRequest_defs)

lemma ForwardRequest_rt: "1 \<le> d \<Longrightarrow> codec_rt W stk rem d (ForwardRequest_encode W) (ForwardRequest_decode W) m"
  unfolding ForwardRequest_decode_def
  by (rule codec_rt_mono [OF codec_rt_of_codec [OF ForwardRequest_codec]]) simp_all

end

context wire_reader
begin

lemma ForwardRequest_total [total_rules]: "dec_total W (ForwardRequest_decode W)"
  unfolding ForwardRequest_decode_def ForwardRequest_cases_def by (intro total_rules)

end

subsection \<open>ForwardResponse\<close>

record ForwardResponse =
  ForwardResponse_messageId :: string
  ForwardResponse_timestamp :: "js_date option"

definition createBaseForwardResponse :: ForwardResponse where
  "createBaseForwardResponse = \<lparr>ForwardResponse_messageId = '''',
     ForwardResponse_timestamp = None\<rparr>"

definition ForwardResponse_encode :: "('w, 'r) wire \<Rightarrow> ForwardResponse \<Rightarrow> 'w writer" where
  "ForwardResponse_encode W m = w_seq [
     w_if (ForwardResponse_messageId m \<noteq> '''') [w_uint32 W 10, w_string W (ForwardResponse_messageId m)],
     w_some (ForwardResponse_timestamp m) (\<lambda>v. [w_try (toTimestamp v) (\<lambda>t. [w_uint32 W 18, w_open W, Timestamp_encode W t, w_join W])])]"

definition ForwardResponse_cases :: "('w, 'r) wire \<Rightarrow> ('r, ForwardResponse) cases" where
  "ForwardResponse_cases W = [
     (1, 10, d_val (r_string W) (\<lambda>v m. m\<lparr>ForwardResponse_messageId := v\<rparr>)),
     (2, 18, d_msg W (Timestamp_decode W) (\<lambda>v m. m\<lparr>ForwardResponse_timestamp := Some (fromTimestamp v)\<rparr>))]"

definition ForwardResponse_decode :: "('w, 'r) wire \<Rightarrow> ('r, ForwardResponse) decoder" where
  "ForwardResponse_decode W = d_message W (ForwardResponse_cases W) createBaseForwardResponse"

definition ForwardResponse_ok :: "ForwardResponse \<Rightarrow> bool" where
  "ForwardResponse_ok m \<longleftrightarrow> pred_option js_date_ok (ForwardResponse_timestamp m)"

lemmas ForwardResponse_defs = ForwardResponse_cases_def createBaseForwardResponse_def

context wire_lib
begin

lemma ForwardResponse_codec:
  assumes ok: "ForwardResponse_ok m"
  shows "codec W stk rem 1 (ForwardResponse_encode W) (ForwardResponse_cases W) createBaseForwardResponse m"
  by (rule codecI [OF ForwardResponse_encode_def],
      rule field_string [where upd = ForwardResponse_messageId_update], simp add: ForwardResponse_defs, simp add: ForwardResponse_defs,
      rule field_conv [where upd = ForwardResponse_timestamp_update and unconv = fromTimestamp], rule date_rt, simp, (use ok in \<open>fastforce simp: ForwardResponse_ok_def list_all_iff\<close>), assumption, simp add: ForwardResponse_defs, simp add: ForwardResponse_defs,
      rule matched_Nil, cases m, simp add: ForwardResponse_defs)

lemma ForwardResponse_rt: "2 \<le> d \<Longrightarrow> ForwardResponse_ok m \<Longrightarrow> codec_rt W stk rem d (ForwardResponse_encode W) (ForwardResponse_decode W) m"
  unfolding ForwardResponse_decode_def
  by (rule codec_rt_mono [OF codec_rt_of_codec [OF ForwardResponse_codec]]) simp_all

end

context wire_reader
begin

lemma ForwardResponse_total [total_rules]: "dec_total W (ForwardResponse_decode W)"
  unfolding ForwardResponse_decode_def ForwardResponse_cases_def by (intro total_rules)

end

subsection \<open>ShareContactRequest\<close>

record ShareContactRequest =
  ShareContactRequest_sessionId :: string
  ShareContactRequest_threadId :: string
  ShareContactRequest_contactId :: string
  ShareContactRequest_text :: string

definition createBaseShareContactRequest :: ShareContactRequest where
  "createBaseShareContactRequest = \<lparr>ShareContactRequest_sessionId = '''',
     ShareContactRequest_threadId = '''',
     ShareContactRequest_contactId = '''',
     ShareContactRequest_text = ''''\<rparr>"

definition ShareContactRequest_encode :: "('w, 'r) wire \<Rightarrow> ShareContactRequest \<Rightarrow> 'w writer" where
  "ShareContactRequest_encode W m = w_seq [
     w_if (ShareContactRequest_sessionId m \<noteq> '''') [w_uint32 W 10, w_string W (ShareContactRequest_sessionId m)],
     w_if (ShareContactRequest_threadId m \<noteq> '''') [w_uint32 W 18, w_string W (ShareContactRequest_threadId m)],
     w_if (ShareContactRequest_contactId m \<noteq> '''') [w_uint32 W 26, w_string W (ShareContactRequest_contactId m)],
     w_if (ShareContactRequest_text m \<noteq> '''') [w_uint32 W 34, w_string W (ShareContactRequest_text m)]]"

definition ShareContactRequest_cases :: "('w, 'r) wire \<Rightarrow> ('r, ShareContactRequest) cases" where
  "ShareContactRequest_cases W = [
     (1, 10, d_val (r_string W) (\<lambda>v m. m\<lparr>ShareContactRequest_sessionId := v\<rparr>)),
     (2, 18, d_val (r_string W) (\<lambda>v m. m\<lparr>ShareContactRequest_threadId := v\<rparr>)),
     (3, 26, d_val (r_string W) (\<lambda>v m. m\<lparr>ShareContactRequest_contactId := v\<rparr>)),
     (4, 34, d_val (r_string W) (\<lambda>v m. m\<lparr>ShareContactRequest_text := v\<rparr>))]"

definition ShareContactRequest_decode :: "('w, 'r) wire \<Rightarrow> ('r, ShareContactRequest) decoder" where
  "ShareContactRequest_decode W = d_message W (ShareContactRequest_cases W) createBaseShareContactRequest"

lemmas ShareContactRequest_defs = ShareContactRequest_cases_def createBaseShareContactRequest_def

context wire_lib
begin

lemma ShareContactRequest_codec:
  "codec W stk rem 0 (ShareContactRequest_encode W) (ShareContactRequest_cases W) createBaseShareContactRequest m"
  by (rule codecI [OF ShareContactRequest_encode_def],
      rule field_string [where upd = ShareContactRequest_sessionId_update], simp add: ShareContactRequest_defs, simp add: ShareContactRequest_defs,
      rule field_string [where upd = ShareContactRequest_threadId_update], simp add: ShareContactRequest_defs, simp add: ShareContactRequest_defs,
      rule field_string [where upd = ShareContactRequest_contactId_update], simp add: ShareContactRequest_defs, simp add: ShareContactRequest_defs,
      rule field_string [where upd = ShareContactRequest_text_update], simp add: ShareContactRequest_defs, simp add: ShareContactRequest_defs,
      rule matched_Nil, cases m, simp add: ShareContactRequest_defs)

lemma ShareContactRequest_rt: "1 \<le> d \<Longrightarrow> codec_rt W stk rem d (ShareContactRequest_encode W) (ShareContactRequest_decode W) m"
  unfolding ShareContactRequest_decode_def
  by (rule codec_rt_mono [OF codec_rt_of_codec [OF ShareContactRequest_codec]]) simp_all

end

context wire_reader
begin

lemma ShareContactRequest_total [total_rules]: "dec_total W (ShareContactRequest_decode W)"
  unfolding ShareContactRequest_decode_def ShareContactRequest_cases_def by (intro total_rules)

end

subsection \<open>ShareContactResponse\<close>

datatype ShareContactResponse = ShareContactResponse

definition createBaseShareContactResponse :: ShareContactResponse where
  "createBaseShareContactResponse = ShareContactResponse"

definition ShareContactResponse_encode :: "('w, 'r) wire \<Rightarrow> ShareContactResponse \<Rightarrow> 'w writer" where
  "ShareContactResponse_encode W m = w_seq []"

definition ShareContactResponse_cases :: "('w, 'r) wire \<Rightarrow> ('r, ShareContactResponse) cases" where
  "ShareContactResponse_cases W = []"

definition ShareContactResponse_decode :: "('w, 'r) wire \<Rightarrow> ('r, ShareContactResponse) decoder" where
  "ShareContactResponse_decode W = d_message W (ShareContactResponse_cases W) createBaseShareContactResponse"

lemmas ShareContactResponse_defs = ShareContactResponse_cases_def createBaseShareContactResponse_def

context wire_lib
begin

lemma ShareContactResponse_codec:
  "codec W stk rem 0 (ShareContactResponse_encode W) (ShareContactResponse_cases W) createBaseShareContactResponse m"
  by (rule codecI [OF ShareContactResponse_encode_def],
      rule matched_Nil, cases m, simp add: ShareContactResponse_defs)

lemma ShareContactResponse_rt: "1 \<le> d \<Longrightarrow> codec_rt W stk rem d (ShareContactResponse_encode W) (ShareContactResponse_decode W) m"
  unfolding ShareContactResponse_decode_def
  by (rule codec_rt_mono [OF codec_rt_of_codec [OF ShareContactResponse_codec]]) simp_all

end

context wire_reader
begin

lemma ShareContactResponse_total [total_rules]: "dec_total W (ShareContactResponse_decode W)"
  unfolding ShareContactResponse_decode_def ShareContactResponse_cases_def by (intro total_rules)

end

subsection \<open>ReactRequest\<close>

record ReactRequest =
  ReactRequest_sessionId :: string
  ReactRequest_threadId :: string
  ReactRequest_messageId :: string
  ReactRequest_reaction :: string

definition createBaseReactRequest :: ReactRequest where
  "createBaseReactRequest = \<lparr>ReactRequest_sessionId = '''',
     ReactRequest_threadId = '''',
     ReactRequest_messageId = '''',
     ReactRequest_reaction = ''''\<rparr>"

definition ReactRequest_encode :: "('w, 'r) wire \<Rightarrow> ReactRequest \<Rightarrow> 'w writer" where
  "ReactRequest_encode W m = w_seq [
     w_if (ReactRequest_sessionId m \<noteq> '''') [w_uint32 W 10, w_string W (ReactRequest_sessionId m)],
     w_if (ReactRequest_threadId m \<noteq> '''') [w_uint32 W 18, w_string W (ReactRequest_threadId m)],
     w_if (ReactRequest_messageId m \<noteq> '''') [w_uint32 W 26, w_string W (ReactRequest_messageId m)],
     w_if (ReactRequest_reaction m \<noteq> '''') [w_uint32 W 34, w_string W (ReactRequest_reaction m)]]"

definition ReactRequest_cases :: "('w, 'r) wire \<Rightarrow> ('r, ReactRequest) cases" where
  "ReactRequest_cases W = [
     (1, 10, d_val (r_string W) (\<lambda>v m. m\<lparr>ReactRequest_sessionId := v\<rparr>)),
     (2, 18, d_val (r_string W) (\<lambda>v m. m\<lparr>ReactRequest_threadId := v\<rparr>)),
     (3, 26, d_val (r_string W) (\<lambda>v m. m\<lparr>ReactRequest_messageId := v\<rparr>)),
     (4, 34, d_val (r_string W) (\<lambda>v m. m\<lparr>ReactRequest_reaction := v\<rparr>))]"

definition ReactRequest_decode :: "('w, 'r) wire \<Rightarrow> ('r, ReactRequest) decoder" where
  "ReactRequest_decode W = d_message W (ReactRequest_cases W) createBaseReactRequest"

lemmas ReactRequest_defs = ReactRequest_cases_def createBaseReactRequest_def

context wire_lib
begin

lemma ReactRequest_codec:
  "codec W stk rem 0 (ReactRequest_encode W) (ReactRequest_cases W) createBaseReactRequest m"
  by (rule codecI [OF ReactRequest_encode_def],
      rule field_string [where upd = ReactRequest_sessionId_update], simp add: ReactRequest_defs, simp add: ReactRequest_defs,
      rule field_string [where upd = ReactRequest_threadId_update], simp add: ReactRequest_defs, simp add: ReactRequest_defs,
      rule field_string [where upd = ReactRequest_messageId_update], simp add: ReactRequest_defs, simp add: ReactRequest_defs,
      rule field_string [where upd = ReactRequest_reaction_update], simp add: ReactRequest_defs, simp add: ReactRequest_defs,
      rule matched_Nil, cases m, simp add: ReactRequest_defs)

lemma ReactRequest_rt: "1 \<le> d \<Longrightarrow> codec_rt W stk rem d (ReactRequest_encode W) (ReactRequest_decode W) m"
  unfolding ReactRequest_decode_def
  by (rule codec_rt_mono [OF codec_rt_of_codec [OF ReactRequest_codec]]) simp_all

end

context wire_reader
begin

lemma ReactRequest_total [total_rules]: "dec_total W (ReactRequest_decode W)"
  unfolding ReactRequest_decode_def ReactRequest_cases_def by (intro total_rules)

end

subsection \<open>ReactResponse\<close>

datatype ReactResponse = ReactResponse

definition createBaseReactResponse :: ReactResponse where
  "createBaseReactResponse = ReactResponse"

definition ReactResponse_encode :: "('w, 'r) wire \<Rightarrow> ReactResponse \<Rightarrow> 'w writer" where
  "ReactResponse_encode W m = w_seq []"

definition ReactResponse_cases :: "('w, 'r) wire \<Rightarrow> ('r, ReactResponse) cases" where
  "ReactResponse_cases W = []"

definition ReactResponse_decode :: "('w, 'r) wire \<Rightarrow> ('r, ReactResponse) decoder" where
  "ReactResponse_decode W = d_message W (ReactResponse_cases W) createBaseReactResponse"

lemmas ReactResponse_defs = ReactResponse_cases_def createBaseReactResponse_def

context wire_lib
begin

lemma ReactResponse_codec:
  "codec W stk rem 0 (ReactResponse_encode W) (ReactResponse_cases W) createBaseReactResponse m"
  by (rule codecI [OF ReactResponse_encode_def],
      rule matched_Nil, cases m, simp add: ReactResponse_defs)

lemma ReactResponse_rt: "1 \<le> d \<Longrightarrow> codec_rt W stk rem d (ReactResponse_encode W) (ReactResponse_decode W) m"
  unfolding ReactResponse_decode_def
  by (rule codec_rt_mono [OF codec_rt_of_codec [OF ReactResponse_codec]]) simp_all

end

context wire_reader
begin

lemma ReactResponse_total [total_rules]: "dec_total W (ReactResponse_decode W)"
  unfolding ReactResponse_decode_def ReactResponse_cases_def by (intro total_rules)

end

subsection \<open>EditRequest\<close>

record EditRequest =
  EditRequest_sessionId :: string
  EditRequest_messageId :: string
  EditRequest_text :: string

definition createBaseEditRequest :: EditRequest where
  "createBaseEditRequest = \<lparr>EditRequest_sessionId = '''',
     EditRequest_messageId = '''',
     EditRequest_text = ''''\<rparr>"

definition EditRequest_encode :: "('w, 'r) wire \<Rightarrow> EditRequest \<Rightarrow> 'w writer" where
  "EditRequest_encode W m = w_seq [
     w_if (EditRequest_sessionId m \<noteq> '''') [w_uint32 W 10, w_string W (EditRequest_sessionId m)],
     w_if (EditRequest_messageId m \<noteq> '''') [w_uint32 W 18, w_string W (EditRequest_messageId m)],
     w_if (EditRequest_text m \<noteq> '''') [w_uint32 W 26, w_string W (EditRequest_text m)]]"

definition EditRequest_cases :: "('w, 'r) wire \<Rightarrow> ('r, EditRequest) cases" where
  "EditRequest_cases W = [
     (1, 10, d_val (r_string W) (\<lambda>v m. m\<lparr>EditRequest_sessionId := v\<rparr>)),
     (2, 18, d_val (r_string W) (\<lambda>v m. m\<lparr>EditRequest_messageId := v\<rparr>)),
     (3, 26, d_val (r_string W) (\<lambda>v m. m\<lparr>EditRequest_text := v\<rparr>))]"

definition EditRequest_decode :: "('w, 'r) wire \<Rightarrow> ('r, EditRequest) decoder" where
  "EditRequest_decode W = d_message W (EditRequest_cases W) createBaseEditRequest"

lemmas EditRequest_defs = EditRequest_cases_def createBaseEditRequest_def

context wire_lib
begin

lemma EditRequest_codec:
  "codec W stk rem 0 (EditRequest_encode W) (EditRequest_cases W) createBaseEditRequest m"
  by (rule codecI [OF EditRequest_encode_def],
      rule field_string [where upd = EditRequest_sessionId_update], simp add: EditRequest_defs, simp add: EditRequest_defs,
      rule field_string [where upd = EditRequest_messageId_update], simp add: EditRequest_defs, simp add: EditRequest_defs,
      rule field_string [where upd = EditRequest_text_update], simp add: EditRequest_defs, simp add: EditRequest_defs,
      rule matched_Nil, cases m, simp add: EditRequest_defs)

lemma EditRequest_rt: "1 \<le> d \<Longrightarrow> codec_rt W stk rem d (EditRequest_encode W) (EditRequest_decode W) m"
  unfolding EditRequest_decode_def
  by (rule codec_rt_mono [OF codec_rt_of_codec [OF EditRequest_codec]]) simp_all

end

context wire_reader
begin

lemma EditRequest_total [total_rules]: "dec_total W (EditRequest_decode W)"
  unfolding EditRequest_decode_def EditRequest_cases_def by (intro total_rules)

end

subsection \<open>EditResponse\<close>

datatype EditResponse = EditResponse

definition createBaseEditResponse :: EditResponse where
  "createBaseEditResponse = EditResponse"

definition EditResponse_encode :: "('w, 'r) wire \<Rightarrow> EditResponse \<Rightarrow> 'w writer" where
  "EditResponse_encode W m = w_seq []"

definition EditResponse_cases :: "('w, 'r) wire \<Rightarrow> ('r, EditResponse) cases" where
  "EditResponse_cases W = []"

definition EditResponse_decode :: "('w, 'r) wire \<Rightarrow> ('r, EditResponse) decoder" where
  "EditResponse_decode W = d_message W (EditResponse_cases W) createBaseEditResponse"

lemmas EditResponse_defs = EditResponse_cases_def createBaseEditResponse_def

context wire_lib
begin

lemma EditResponse_codec:
  "codec W stk rem 0 (EditResponse_encode W) (EditResponse_cases W) createBaseEditResponse m"
  by (rule codecI [OF EditResponse_encode_def],
      rule matched_Nil, cases m, simp add: EditResponse_defs)

lemma EditResponse_rt: "1 \<le> d \<Longrightarrow> codec_rt W stk rem d (EditResponse_encode W) (EditResponse_decode W) m"
  unfolding EditResponse_decode_def
  by (rule codec_rt_mono [OF codec_rt_of_codec [OF EditResponse_codec]]) simp_all

end

context wire_reader
begin

lemma EditResponse_total [total_rules]: "dec_total W (EditResponse_decode W)"
  unfolding EditResponse_decode_def EditResponse_cases_def by (intro total_rules)

end

subsection \<open>UnsendRequest\<close>

record UnsendRequest =
  UnsendRequest_sessionId :: string
  UnsendRequest_messageId :: string

definition createBaseUnsendRequest :: UnsendRequest where
  "createBaseUnsendRequest = \<lparr>UnsendRequest_sessionId = '''',
     UnsendRequest_messageId = ''''\<rparr>"

definition UnsendRequest_encode :: "('w, 'r) wire \<Rightarrow> UnsendRequest \<Rightarrow> 'w writer" where
  "UnsendRequest_encode W m = w_seq [
     w_if (UnsendRequest_sessionId m \<noteq> '''') [w_uint32 W 10, w_string W (UnsendRequest_sessionId m)],
     w_if (UnsendRequest_messageId m \<noteq> '''') [w_uint32 W 18, w_string W (UnsendRequest_messageId m)]]"

definition UnsendRequest_cases :: "('w, 'r) wire \<Rightarrow> ('r, UnsendRequest) cases" where
  "UnsendRequest_cases W = [
     (1, 10, d_val (r_string W) (\<lambda>v m. m\<lparr>UnsendRequest_sessionId := v\<rparr>)),
     (2, 18, d_val (r_string W) (\<lambda>v m. m\<lparr>UnsendRequest_messageId := v\<rparr>))]"

definition UnsendRequest_decode :: "('w, 'r) wire \<Rightarrow> ('r, UnsendRequest) decoder" where
  "UnsendRequest_decode W = d_message W (UnsendRequest_cases W) createBaseUnsendRequest"

lemmas UnsendRequest_defs = UnsendRequest_cases_def createBaseUnsendRequest_def

context wire_lib
begin

lemma UnsendRequest_codec:
  "codec W stk rem 0 (UnsendRequest_encode W) (UnsendRequest_cases W) createBaseUnsendRequest m"
  by (rule codecI [OF UnsendRequest_encode_def],
      rule field_string [where upd = UnsendRequest_sessionId_update], simp add: UnsendRequest_defs, simp add: UnsendRequest_defs,
      rule field_string [where upd = UnsendRequest_messageId_update], simp add: UnsendRequest_defs, simp add: UnsendRequest_defs,
      rule matched_Nil, cases m, simp add: UnsendRequest_defs)

lemma UnsendRequest_rt: "1 \<le> d \<Longrightarrow> codec_rt W stk rem d (UnsendRequest_encode W) (UnsendRequest_decode W) m"
  unfolding UnsendRequest_decode_def
  by (rule codec_rt_mono [OF codec_rt_of_codec [OF UnsendRequest_codec]]) simp_all

end

context wire_reader
begin

lemma UnsendRequest_total [total_rules]: "dec_total W (UnsendRequest_decode W)"
  unfolding UnsendRequest_decode_def UnsendRequest_cases_def by (intro total_rules)

end

subsection \<open>UnsendResponse\<close>

datatype UnsendResponse = UnsendResponse

definition createBaseUnsendResponse :: UnsendResponse where
  "createBaseUnsendResponse = UnsendResponse"

definition UnsendResponse_encode :: "('w, 'r) wire \<Rightarrow> UnsendResponse \<Rightarrow> 'w writer" where
  "UnsendResponse_encode W m = w_seq []"

definition UnsendResponse_cases :: "('w, 'r) wire \<Rightarrow> ('r, UnsendResponse) cases" where
  "UnsendResponse_cases W = []"

definition UnsendResponse_decode :: "('w, 'r) wire \<Rightarrow> ('r, UnsendResponse) decoder" where
  "UnsendResponse_decode W = d_message W (UnsendResponse_cases W) createBaseUnsendResponse"

lemmas UnsendResponse_defs = UnsendResponse_cases_def createBaseUnsendResponse_def

context wire_lib
begin

lemma UnsendResponse_codec:
  "codec W stk rem 0 (UnsendResponse_encode W) (UnsendResponse_cases W) createBaseUnsendResponse m"
  by (rule codecI [OF UnsendResponse_encode_def],
      rule matched_Nil, cases m, simp add: UnsendResponse_defs)

lemma UnsendResponse_rt: "1 \<le> d \<Longrightarrow> codec_rt W stk rem d (UnsendResponse_encode W) (UnsendResponse_decode W) m"
  unfolding UnsendResponse_decode_def
  by (rule codec_rt_mono [OF codec_rt_of_codec [OF UnsendResponse_codec]]) simp_all

end

context wire_reader
begin

lemma UnsendResponse_total [total_rules]: "dec_total W (UnsendResponse_decode W)"
  unfolding UnsendResponse_decode_def UnsendResponse_cases_def by (intro total_rules)

end

subsection \<open>SetTypingRequest\<close>

record SetTypingRequest =
  SetTypingRequest_sessionId :: string
  SetTypingRequest_threadId :: string
  SetTypingRequest_typing :: bool
  SetTypingRequest_group :: bool
  SetTypingRequest_threadType :: int

definition createBaseSetTypingRequest :: SetTypingRequest where
  "createBaseSetTypingRequest = \<lparr>SetTypingRequest_sessionId = '''',
     SetTypingRequest_threadId = '''',
     SetTypingRequest_typing = False,
     SetTypingRequest_group = False,
     SetTypingRequest_threadType = 0\<rparr>"

definition SetTypingRequest_encode :: "('w, 'r) wire \<Rightarrow> SetTypingRequest \<Rightarrow> 'w writer" where
  "SetTypingRequest_encode W m = w_seq [
     w_if (SetTypingRequest_sessionId m \<noteq> '''') [w_uint32 W 10, w_string W (SetTypingRequest_sessionId m)],
     w_if (SetTypingRequest_threadId m \<noteq> '''') [w_uint32 W 18, w_string W (SetTypingRequest_threadId m)],
     w_if (SetTypingRequest_typing m \<noteq> False) [w_uint32 W 24, w_bool W (SetTypingRequest_typing m)],
     w_if (SetTypingRequest_group m \<noteq> False) [w_uint32 W 32, w_bool W (SetTypingRequest_group m)],
     w_if (SetTypingRequest_threadType m \<noteq> 0) [w_check (asIntN64 (SetTypingRequest_threadType m) = SetTypingRequest_threadType m) (too_large ''message.threadType'' ''int64''),
         w_uint32 W 40, w_int64 W (SetTypingRequest_threadType m)]]"

definition SetTypingRequest_cases :: "('w, 'r) wire \<Rightarrow> ('r, SetTypingRequest) cases" where
  "SetTypingRequest_cases W = [
     (1, 10, d_val (r_string W) (\<lambda>v m. m\<lparr>SetTypingRequest_sessionId := v\<rparr>)),
     (2, 18, d_val (r_string W) (\<lambda>v m. m\<lparr>SetTypingRequest_threadId := v\<rparr>)),
     (3, 24, d_val (r_bool W) (\<lambda>v m. m\<lparr>SetTypingRequest_typing := v\<rparr>)),
     (4, 32, d_val (r_bool W) (\<lambda>v m. m\<lparr>SetTypingRequest_group := v\<rparr>)),
     (5, 40, d_val (r_int64 W) (\<lambda>v m. m\<lparr>SetTypingRequest_threadType := v\<rparr>))]"

definition SetTypingRequest_decode :: "('w, 'r) wire \<Rightarrow> ('r, SetTypingRequest) decoder" where
  "SetTypingRequest_decode W = d_message W (SetTypingRequest_cases W) createBaseSetTypingRequest"

lemmas SetTypingRequest_defs = SetTypingRequest_cases_def createBaseSetTypingRequest_def

context wire_lib
begin

lemma SetTypingRequest_codec:
  "codec W stk rem 0 (SetTypingRequest_encode W) (SetTypingRequest_cases W) createBaseSetTypingRequest m"
  by (rule codecI [OF SetTypingRequest_encode_def],
      rule field_string [where upd = SetTypingRequest_sessionId_update], simp add: SetTypingRequest_defs, simp add: SetTypingRequest_defs,
      rule field_string [where upd = SetTypingRequest_threadId_update], simp add: SetTypingRequest_defs, simp add: SetTypingRequest_defs,
      rule field_bool [where upd = SetTypingRequest_typing_update], simp add: SetTypingRequest_defs, simp add: SetTypingRequest_defs,
      rule field_bool [where upd = SetTypingRequest_group_update], simp add: SetTypingRequest_defs, simp add: SetTypingRequest_defs,
      rule field_int64 [where upd = SetTypingRequest_threadType_update], simp add: SetTypingRequest_defs, simp add: SetTypingRequest_defs,
      rule matched_Nil, cases m, simp add: SetTypingRequest_defs)

lemma SetTypingRequest_rt: "1 \<le> d \<Longrightarrow> codec_rt W stk rem d (SetTypingRequest_encode W) (SetTypingRequest_decode W) m"
  unfolding SetTypingRequest_decode_def
  by (rule codec_rt_mono [OF codec_rt_of_codec [OF SetTypingRequest_codec]]) simp_all

end

context wire_reader
begin

lemma SetTypingRequest_total [total_rules]: "dec_total W (SetTypingRequest_decode W)"
  unfolding SetTypingRequest_decode_def SetTypingRequest_cases_def by (intro total_rules)

end

subsection \<open>SetTypingResponse\<close>

datatype SetTypingResponse = SetTypingResponse

definition createBaseSetTypingResponse :: SetTypingResponse where
  "createBaseSetTypingResponse = SetTypingResponse"

definition SetTypingResponse_encode :: "('w, 'r) wire \<Rightarrow> SetTypingResponse \<Rightarrow> 'w writer" where
  "SetTypingResponse_encode W m = w_seq []"

definition SetTypingResponse_cases :: "('w, 'r) wire \<Rightarrow> ('r, SetTypingResponse) cases" where
  "SetTypingResponse_cases W = []"

definition SetTypingResponse_decode :: "('w, 'r) wire \<Rightarrow> ('r, SetTypingResponse) decoder" where
  "SetTypingResponse_decode W = d_message W (SetTypingResponse_cases W) createBaseSetTypingResponse"

lemmas SetTypingResponse_defs = SetTypingResponse_cases_def createBaseSetTypingResponse_def

context wire_lib
begin

lemma SetTypingResponse_codec:
  "codec W stk rem 0 (SetTypingResponse_encode W) (SetTypingResponse_cases W) createBaseSetTypingResponse m"
  by (rule codecI [OF SetTypingResponse_encode_def],
      rule matched_Nil, cases m, simp add: SetTypingResponse_defs)

lemma SetTypingResponse_rt: "1 \<le> d \<Longrightarrow> codec_rt W stk rem d (SetTypingResponse_encode W) (SetTypingResponse_decode W) m"
  unfolding SetTypingResponse_decode_def
  by (rule codec_rt_mono [OF codec_rt_of_codec [OF SetTypingResponse_codec]]) simp_all

end

context wire_reader
begin

lemma SetTypingResponse_total [total_rules]: "dec_total W (SetTypingResponse_decode W)"
  unfolding SetTypingResponse_decode_def SetTypingResponse_cases_def by (intro total_rules)

end

subsection \<open>MarkReadRequest\<close>

record MarkReadRequest =
  MarkReadRequest_sessionId :: string
  MarkReadRequest_threadId :: string
  MarkReadRequest_watermark :: "js_date option"

definition createBaseMarkReadRequest :: MarkReadRequest where
  "createBaseMarkReadRequest = \<lparr>MarkReadRequest_sessionId = '''',
     MarkReadRequest_threadId = '''',
     MarkReadRequest_watermark = None\<rparr>"

definition MarkReadRequest_encode :: "('w, 'r) wire \<Rightarrow> MarkReadRequest \<Rightarrow> 'w writer" where
  "MarkReadRequest_encode W m = w_seq [
     w_if (MarkReadRequest_sessionId m \<noteq> '''') [w_uint32 W 10, w_string W (MarkReadRequest_sessionId m)],
     w_if (MarkReadRequest_threadId m \<noteq> '''') [w_uint32 W 18, w_string W (MarkReadRequest_threadId m)],
     w_some (MarkReadRequest_watermark m) (\<lambda>v. [w_try (toTimestamp v) (\<lambda>t. [w_uint32 W 26, w_open W, Timestamp_encode W t, w_join W])])]"

definition MarkReadRequest_cases :: "('w, 'r) wire \<Rightarrow> ('r, MarkReadRequest) cases" where
  "MarkReadRequest_cases W = [
     (1, 10, d_val (r_string W) (\<lambda>v m. m\<lparr>MarkReadRequest_sessionId := v\<rparr>)),
     (2, 18, d_val (r_string W) (\<lambda>v m. m\<lparr>MarkReadRequest_threadId := v\<rparr>)),
     (3, 26, d_msg W (Timestamp_decode W) (\<lambda>v m. m\<lparr>MarkReadRequest_watermark := Some (fromTimestamp v)\<rparr>))]"

definition MarkReadRequest_decode :: "('w, 'r) wire \<Rightarrow> ('r, MarkReadRequest) decoder" where
  "MarkReadRequest_decode W = d_message W (MarkReadRequest_cases W) createBaseMarkReadRequest"

definition MarkReadRequest_ok :: "MarkReadRequest \<Rightarrow> bool" where
  "MarkReadRequest_ok m \<longleftrightarrow> pred_option js_date_ok (MarkReadRequest_watermark m)"

lemmas MarkReadRequest_defs = MarkReadRequest_cases_def createBaseMarkReadRequest_def

context wire_lib
begin

lemma MarkReadRequest_codec:
  assumes ok: "MarkReadRequest_ok m"
  shows "codec W stk rem 1 (MarkReadRequest_encode W) (MarkReadRequest_cases W) createBaseMarkReadRequest m"
  by (rule codecI [OF MarkReadRequest_encode_def],
      rule field_string [where upd = MarkReadRequest_sessionId_update], simp add: MarkReadRequest_defs, simp add: MarkReadRequest_defs,
      rule field_string [where upd = MarkReadRequest_threadId_update], simp add: MarkReadRequest_defs, simp add: MarkReadRequest_defs,
      rule field_conv [where upd = MarkReadRequest_watermark_update and unconv = fromTimestamp], rule date_rt, simp, (use ok in \<open>fastforce simp: MarkReadRequest_ok_def list_all_iff\<close>), assumption, simp add: MarkReadRequest_defs, simp add: MarkReadRequest_defs,
      rule matched_Nil, cases m, simp add: MarkReadRequest_defs)

lemma MarkReadRequest_rt: "2 \<le> d \<Longrightarrow> MarkReadRequest_ok m \<Longrightarrow> codec_rt W stk rem d (MarkReadRequest_encode W) (MarkReadRequest_decode W) m"
  unfolding MarkReadRequest_decode_def
  by (rule codec_rt_mono [OF codec_rt_of_codec [OF MarkReadRequest_codec]]) simp_all

end

context wire_reader
begin

lemma MarkReadRequest_total [total_rules]: "dec_total W (MarkReadRequest_decode W)"
  unfolding MarkReadRequest_decode_def MarkReadRequest_cases_def by (intro total_rules)

end

subsection \<open>MarkReadResponse\<close>

datatype MarkReadResponse = MarkReadResponse

definition createBaseMarkReadResponse :: MarkReadResponse where
  "createBaseMarkReadResponse = MarkReadResponse"

definition MarkReadResponse_encode :: "('w, 'r) wire \<Rightarrow> MarkReadResponse \<Rightarrow> 'w writer" where
  "MarkReadResponse_encode W m = w_seq []"

definition MarkReadResponse_cases :: "('w, 'r) wire \<Rightarrow> ('r, MarkReadResponse) cases" where
  "MarkReadResponse_cases W = []"

definition MarkReadResponse_decode :: "('w, 'r) wire \<Rightarrow> ('r, MarkReadResponse) decoder" where
  "MarkReadResponse_decode W = d_message W (MarkReadResponse_cases W) createBaseMarkReadResponse"

lemmas MarkReadResponse_defs = MarkReadResponse_cases_def createBaseMarkReadResponse_def

context wire_lib
begin

lemma MarkReadResponse_codec:
  "codec W stk rem 0 (MarkReadResponse_encode W) (MarkReadResponse_cases W) createBaseMarkReadResponse m"
  by (rule codecI [OF MarkReadResponse_encode_def],
      rule matched_Nil, cases m, simp add: MarkReadResponse_defs)

lemma MarkReadResponse_rt: "1 \<le> d \<Longrightarrow> codec_rt W stk rem d (MarkReadResponse_encode W) (MarkReadResponse_decode W) m"
  unfolding MarkReadResponse_decode_def
  by (rule codec_rt_mono [OF codec_rt_of_codec [OF MarkReadResponse_codec]]) simp_all

end

context wire_reader
begin

lemma MarkReadResponse_total [total_rules]: "dec_total W (MarkReadResponse_decode W)"
  unfolding MarkReadResponse_decode_def MarkReadResponse_cases_def by (intro total_rules)

end

subsection \<open>ListMessageRequestsRequest\<close>

record ListMessageRequestsRequest =
  ListMessageRequestsRequest_sessionId :: string

definition createBaseListMessageRequestsRequest :: ListMessageRequestsRequest where
  "createBaseListMessageRequestsRequest = \<lparr>ListMessageRequestsRequest_sessionId = ''''\<rparr>"

definition ListMessageRequestsRequest_encode :: "('w, 'r) wire \<Rightarrow> ListMessageRequestsRequest \<Rightarrow> 'w writer" where
  "ListMessageRequestsRequest_encode W m = w_seq [
     w_if (ListMessageRequestsRequest_sessionId m \<noteq> '''') [w_uint32 W 10, w_string W (ListMessageRequestsRequest_sessionId m)]]"

definition ListMessageRequestsRequest_cases :: "('w, 'r) wire \<Rightarrow> ('r, ListMessageRequestsRequest) cases" where
  "ListMessageRequestsRequest_cases W = [
     (1, 10, d_val (r_string W) (\<lambda>v m. m\<lparr>ListMessageRequestsRequest_sessionId := v\<rparr>))]"

definition ListMessageRequestsRequest_decode :: "('w, 'r) wire \<Rightarrow> ('r, ListMessageRequestsRequest) decoder" where
  "ListMessageRequestsRequest_decode W = d_message W (ListMessageRequestsRequest_cases W) createBaseListMessageRequestsRequest"

lemmas ListMessageRequestsRequest_defs = ListMessageRequestsRequest_cases_def createBaseListMessageRequestsRequest_def

context wire_lib
begin

lemma ListMessageRequestsRequest_codec:
  "codec W stk rem 0 (ListMessageRequestsRequest_encode W) (ListMessageRequestsRequest_cases W) createBaseListMessageRequestsRequest m"
  by (rule codecI [OF ListMessageRequestsRequest_encode_def],
      rule field_string [where upd = ListMessageRequestsRequest_sessionId_update], simp add: ListMessageRequestsRequest_defs, simp add: ListMessageRequestsRequest_defs,
      rule matched_Nil, cases m, simp add: ListMessageRequestsRequest_defs)

lemma ListMessageRequestsRequest_rt: "1 \<le> d \<Longrightarrow> codec_rt W stk rem d (ListMessageRequestsRequest_encode W) (ListMessageRequestsRequest_decode W) m"
  unfolding ListMessageRequestsRequest_decode_def
  by (rule codec_rt_mono [OF codec_rt_of_codec [OF ListMessageRequestsRequest_codec]]) simp_all

end

context wire_reader
begin

lemma ListMessageRequestsRequest_total [total_rules]: "dec_total W (ListMessageRequestsRequest_decode W)"
  unfolding ListMessageRequestsRequest_decode_def ListMessageRequestsRequest_cases_def by (intro total_rules)

end

subsection \<open>ListMessageRequestsResponse\<close>

record ListMessageRequestsResponse =
  ListMessageRequestsResponse_requests :: "MessageRequest list"

definition createBaseListMessageRequestsResponse :: ListMessageRequestsResponse where
  "createBaseListMessageRequestsResponse = \<lparr>ListMessageRequestsResponse_requests = []\<rparr>"

definition ListMessageRequestsResponse_encode :: "('w, 'r) wire \<Rightarrow> ListMessageRequestsResponse \<Rightarrow> 'w writer" where
  "ListMessageRequestsResponse_encode W m = w_seq [
     w_for (ListMessageRequestsResponse_requests m) (\<lambda>v. [w_uint32 W 10, w_open W, MessageRequest_encode W v, w_join W])]"

definition ListMessageRequestsResponse_cases :: "('w, 'r) wire \<Rightarrow> ('r, ListMessageRequestsResponse) cases" where
  "ListMessageRequestsResponse_cases W = [
     (1, 10, d_msg W (MessageRequest_decode W) (\<lambda>v m. m\<lparr>ListMessageRequestsResponse_requests := ListMessageRequestsResponse_requests m @ [v]\<rparr>))]"

definition ListMessageRequestsResponse_decode :: "('w, 'r) wire \<Rightarrow> ('r, ListMessageRequestsResponse) decoder" where
  "ListMessageRequestsResponse_decode W = d_message W (ListMessageRequestsResponse_cases W) createBaseListMessageRequestsResponse"

definition ListMessageRequestsResponse_ok :: "ListMessageRequestsResponse \<Rightarrow> bool" where
  "ListMessageRequestsResponse_ok m \<longleftrightarrow> list_all MessageRequest_ok (ListMessageRequestsResponse_requests m)"

lemmas ListMessageRequestsResponse_defs = ListMessageRequestsResponse_cases_def createBaseListMessageRequestsResponse_def

context wire_lib
begin

lemma ListMessageRequestsResponse_codec:
  assumes ok: "ListMessageRequestsResponse_ok m"
  shows "codec W stk rem 2 (ListMessageRequestsResponse_encode W) (ListMessageRequestsResponse_cases W) createBaseListMessageRequestsResponse m"
  by (rule codecI [OF ListMessageRequestsResponse_encode_def],
      rule field_push_msg [where upd = ListMessageRequestsResponse_requests_update and sel = ListMessageRequestsResponse_requests], rule MessageRequest_rt, simp, (use ok in \<open>fastforce simp: ListMessageRequestsResponse_ok_def list_all_iff\<close>), simp add: ListMessageRequestsResponse_defs, simp add: ListMessageRequestsResponse_defs, simp add: ListMessageRequestsResponse_defs,
      rule matched_Nil, cases m, simp add: ListMessageRequestsResponse_defs)

lemma ListMessageRequestsResponse_rt: "3 \<le> d \<Longrightarrow> ListMessageRequestsResponse_ok m \<Longrightarrow> codec_rt W stk rem d (ListMessageRequestsResponse_encode W) (ListMessageRequestsResponse_decode W) m"
  unfolding ListMessageRequestsResponse_decode_def
  by (rule codec_rt_mono [OF codec_rt_of_codec [OF ListMessageRequestsResponse_codec]]) simp_all

end

context wire_reader
begin

lemma ListMessageRequestsResponse_total [total_rules]: "dec_total W (ListMessageRequestsResponse_decode W)"
  unfolding ListMessageRequestsResponse_decode_def ListMessageRequestsResponse_cases_def by (intro total_rules)

end

subsection \<open>ListThemesRequest\<close>

record ListThemesRequest =
  ListThemesRequest_sessionId :: string

definition createBaseListThemesRequest :: ListThemesRequest where
  "createBaseListThemesRequest = \<lparr>ListThemesRequest_sessionId = ''''\<rparr>"

definition ListThemesRequest_encode :: "('w, 'r) wire \<Rightarrow> ListThemesRequest \<Rightarrow> 'w writer" where
  "ListThemesRequest_encode W m = w_seq [
     w_if (ListThemesRequest_sessionId m \<noteq> '''') [w_uint32 W 10, w_string W (ListThemesRequest_sessionId m)]]"

definition ListThemesRequest_cases :: "('w, 'r) wire \<Rightarrow> ('r, ListThemesRequest) cases" where
  "ListThemesRequest_cases W = [
     (1, 10, d_val (r_string W) (\<lambda>v m. m\<lparr>ListThemesRequest_sessionId := v\<rparr>))]"

definition ListThemesRequest_decode :: "('w, 'r) wire \<Rightarrow> ('r, ListThemesRequest) decoder" where
  "ListThemesRequest_decode W = d_message W (ListThemesRequest_cases W) createBaseListThemesRequest"

lemmas ListThemesRequest_defs = ListThemesRequest_cases_def createBaseListThemesRequest_def

context wire_lib
begin

lemma ListThemesRequest_codec:
  "codec W stk rem 0 (ListThemesRequest_encode W) (ListThemesRequest_cases W) createBaseListThemesRequest m"
  by (rule codecI [OF ListThemesRequest_encode_def],
      rule field_string [where upd = ListThemesRequest_sessionId_update], simp add: ListThemesRequest_defs, simp add: ListThemesRequest_defs,
      rule matched_Nil, cases m, simp add: ListThemesRequest_defs)

lemma ListThemesRequest_rt: "1 \<le> d \<Longrightarrow> codec_rt W stk rem d (ListThemesRequest_encode W) (ListThemesRequest_decode W) m"
  unfolding ListThemesRequest_decode_def
  by (rule codec_rt_mono [OF codec_rt_of_codec [OF ListThemesRequest_codec]]) simp_all

end

context wire_reader
begin

lemma ListThemesRequest_total [total_rules]: "dec_total W (ListThemesRequest_decode W)"
  unfolding ListThemesRequest_decode_def ListThemesRequest_cases_def by (intro total_rules)

end

subsection \<open>ListThemesResponse\<close>

record ListThemesResponse =
  ListThemesResponse_themes :: "Theme list"

definition createBaseListThemesResponse :: ListThemesResponse where
  "createBaseListThemesResponse = \<lparr>ListThemesResponse_themes = []\<rparr>"

definition ListThemesResponse_encode :: "('w, 'r) wire \<Rightarrow> ListThemesResponse \<Rightarrow> 'w writer" where
  "ListThemesResponse_encode W m = w_seq [
     w_for (ListThemesResponse_themes m) (\<lambda>v. [w_uint32 W 10, w_open W, Theme_encode W v, w_join W])]"

definition ListThemesResponse_cases :: "('w, 'r) wire \<Rightarrow> ('r, ListThemesResponse) cases" where
  "ListThemesResponse_cases W = [
     (1, 10, d_msg W (Theme_decode W) (\<lambda>v m. m\<lparr>ListThemesResponse_themes := ListThemesResponse_themes m @ [v]\<rparr>))]"

definition ListThemesResponse_decode :: "('w, 'r) wire \<Rightarrow> ('r, ListThemesResponse) decoder" where
  "ListThemesResponse_decode W = d_message W (ListThemesResponse_cases W) createBaseListThemesResponse"

lemmas ListThemesResponse_defs = ListThemesResponse_cases_def createBaseListThemesResponse_def

context wire_lib
begin

lemma ListThemesResponse_codec:
  "codec W stk rem 1 (ListThemesResponse_encode W) (ListThemesResponse_cases W) createBaseListThemesResponse m"
  by (rule codecI [OF ListThemesResponse_encode_def],
      rule field_push_msg [where upd = ListThemesResponse_themes_update and sel = ListThemesResponse_themes], rule Theme_rt, simp, simp add: ListThemesResponse_defs, simp add: ListThemesResponse_defs, simp add: ListThemesResponse_defs,
      rule matched_Nil, cases m, simp add: ListThemesResponse_defs)

lemma ListThemesResponse_rt: "2 \<le> d \<Longrightarrow> codec_rt W stk rem d (ListThemesResponse_encode W) (ListThemesResponse_decode W) m"
  unfolding ListThemesResponse_decode_def
  by (rule codec_rt_mono [OF codec_rt_of_codec [OF ListThemesResponse_codec]]) simp_all

end

context wire_reader
begin

lemma ListThemesResponse_total [total_rules]: "dec_total W (ListThemesResponse_decode W)"
  unfolding ListThemesResponse_decode_def ListThemesResponse_cases_def by (intro total_rules)

end

subsection \<open>FindThemeRequest\<close>

record FindThemeRequest =
  FindThemeRequest_sessionId :: string
  FindThemeRequest_query :: string

definition createBaseFindThemeRequest :: FindThemeRequest where
  "createBaseFindThemeRequest = \<lparr>FindThemeRequest_sessionId = '''',
     FindThemeRequest_query = ''''\<rparr>"

definition FindThemeRequest_encode :: "('w, 'r) wire \<Rightarrow> FindThemeRequest \<Rightarrow> 'w writer" where
  "FindThemeRequest_encode W m = w_seq [
     w_if (FindThemeRequest_sessionId m \<noteq> '''') [w_uint32 W 10, w_string W (FindThemeRequest_sessionId m)],
     w_if (FindThemeRequest_query m \<noteq> '''') [w_uint32 W 18, w_string W (FindThemeRequest_query m)]]"

definition FindThemeRequest_cases :: "('w, 'r) wire \<Rightarrow> ('r, FindThemeRequest) cases" where
  "FindThemeRequest_cases W = [
     (1, 10, d_val (r_string W) (\<lambda>v m. m\<lparr>FindThemeRequest_sessionId := v\<rparr>)),
     (2, 18, d_val (r_string W) (\<lambda>v m. m\<lparr>FindThemeRequest_query := v\<rparr>))]"

definition FindThemeRequest_decode :: "('w, 'r) wire \<Rightarrow> ('r, FindThemeRequest) decoder" where
  "FindThemeRequest_decode W = d_message W (FindThemeRequest_cases W) createBaseFindThemeRequest"

lemmas FindThemeRequest_defs = FindThemeRequest_cases_def createBaseFindThemeRequest_def

context wire_lib
begin

lemma FindThemeRequest_codec:
  "codec W stk rem 0 (FindThemeRequest_encode W) (FindThemeRequest_cases W) createBaseFindThemeRequest m"
  by (rule codecI [OF FindThemeRequest_encode_def],
      rule field_string [where upd = FindThemeRequest_sessionId_update], simp add: FindThemeRequest_defs, simp add: FindThemeRequest_defs,
      rule field_string [where upd = FindThemeRequest_query_update], simp add: FindThemeRequest_defs, simp add: FindThemeRequest_defs,
      rule matched_Nil, cases m, simp add: FindThemeRequest_defs)

lemma FindThemeRequest_rt: "1 \<le> d \<Longrightarrow> codec_rt W stk rem d (FindThemeRequest_encode W) (FindThemeRequest_decode W) m"
  unfolding FindThemeRequest_decode_def
  by (rule codec_rt_mono [OF codec_rt_of_codec [OF FindThemeRequest_codec]]) simp_all

end

context wire_reader
begin

lemma FindThemeRequest_total [total_rules]: "dec_total W (FindThemeRequest_decode W)"
  unfolding FindThemeRequest_decode_def FindThemeRequest_cases_def by (intro total_rules)

end

subsection \<open>FindThemeResponse\<close>

record FindThemeResponse =
  FindThemeResponse_theme :: "Theme option"

definition createBaseFindThemeResponse :: FindThemeResponse where
  "createBaseFindThemeResponse = \<lparr>FindThemeResponse_theme = None\<rparr>"

definition FindThemeResponse_encode :: "('w, 'r) wire \<Rightarrow> FindThemeResponse \<Rightarrow> 'w writer" where
  "FindThemeResponse_encode W m = w_seq [
     w_some (FindThemeResponse_theme m) (\<lambda>v. [w_uint32 W 10, w_open W, Theme_encode W v, w_join W])]"

definition FindThemeResponse_cases :: "('w, 'r) wire \<Rightarrow> ('r, FindThemeResponse) cases" where
  "FindThemeResponse_cases W = [
     (1, 10, d_msg W (Theme_decode W) (\<lambda>v m. m\<lparr>FindThemeResponse_theme := Some v\<rparr>))]"

definition FindThemeResponse_decode :: "('w, 'r) wire \<Rightarrow> ('r, FindThemeResponse) decoder" where
  "FindThemeResponse_decode W = d_message W (FindThemeResponse_cases W) createBaseFindThemeResponse"

lemmas FindThemeResponse_defs = FindThemeResponse_cases_def createBaseFindThemeResponse_def

context wire_lib
begin

lemma FindThemeResponse_codec:
  "codec W stk rem 1 (FindThemeResponse_encode W) (FindThemeResponse_cases W) createBaseFindThemeResponse m"
  by (rule codecI [OF FindThemeResponse_encode_def],
      rule field_msg [where upd = FindThemeResponse_theme_update], rule Theme_rt, simp, simp add: FindThemeResponse_defs, simp add: FindThemeResponse_defs,
      rule matched_Nil, cases m, simp add: FindThemeResponse_defs)

lemma FindThemeResponse_rt: "2 \<le> d \<Longrightarrow> codec_rt W stk rem d (FindThemeResponse_encode W) (FindThemeResponse_decode W) m"
  unfolding FindThemeResponse_decode_def
  by (rule codec_rt_mono [OF codec_rt_of_codec [OF FindThemeResponse_codec]]) simp_all

end

context wire_reader
begin

lemma FindThemeResponse_total [total_rules]: "dec_total W (FindThemeResponse_decode W)"
  unfolding FindThemeResponse_decode_def FindThemeResponse_cases_def by (intro total_rules)

end

subsection \<open>SetThemeRequest\<close>

record SetThemeRequest =
  SetThemeRequest_sessionId :: string
  SetThemeRequest_threadId :: string
  SetThemeRequest_themeId :: string

definition createBaseSetThemeRequest :: SetThemeRequest where
  "createBaseSetThemeRequest = \<lparr>SetThemeRequest_sessionId = '''',
     SetThemeRequest_threadId = '''',
     SetThemeRequest_themeId = ''''\<rparr>"

definition SetThemeRequest_encode :: "('w, 'r) wire \<Rightarrow> SetThemeRequest \<Rightarrow> 'w writer" where
  "SetThemeRequest_encode W m = w_seq [
     w_if (SetThemeRequest_sessionId m \<noteq> '''') [w_uint32 W 10, w_string W (SetThemeRequest_sessionId m)],
     w_if (SetThemeRequest_threadId m \<noteq> '''') [w_uint32 W 18, w_string W (SetThemeRequest_threadId m)],
     w_if (SetThemeRequest_themeId m \<noteq> '''') [w_uint32 W 26, w_string W (SetThemeRequest_themeId m)]]"

definition SetThemeRequest_cases :: "('w, 'r) wire \<Rightarrow> ('r, SetThemeRequest) cases" where
  "SetThemeRequest_cases W = [
     (1, 10, d_val (r_string W) (\<lambda>v m. m\<lparr>SetThemeRequest_sessionId := v\<rparr>)),
     (2, 18, d_val (r_string W) (\<lambda>v m. m\<lparr>SetThemeRequest_threadId := v\<rparr>)),
     (3, 26, d_val (r_string W) (\<lambda>v m. m\<lparr>SetThemeRequest_themeId := v\<rparr>))]"

definition SetThemeRequest_decode :: "('w, 'r) wire \<Rightarrow> ('r, SetThemeRequest) decoder" where
  "SetThemeRequest_decode W = d_message W (SetThemeRequest_cases W) createBaseSetThemeRequest"

lemmas SetThemeRequest_defs = SetThemeRequest_cases_def createBaseSetThemeRequest_def

context wire_lib
begin

lemma SetThemeRequest_codec:
  "codec W stk rem 0 (SetThemeRequest_encode W) (SetThemeRequest_cases W) createBaseSetThemeRequest m"
  by (rule codecI [OF SetThemeRequest_encode_def],
      rule field_string [where upd = SetThemeRequest_sessionId_update], simp add: SetThemeRequest_defs, simp add: SetThemeRequest_defs,
      rule field_string [where upd = SetThemeRequest_threadId_update], simp add: SetThemeRequest_defs, simp add: SetThemeRequest_defs,
      rule field_string [where upd = SetThemeRequest_themeId_update], simp add: SetThemeRequest_defs, simp add: SetThemeRequest_defs,
      rule matched_Nil, cases m, simp add: SetThemeRequest_defs)

lemma SetThemeRequest_rt: "1 \<le> d \<Longrightarrow> codec_rt W stk rem d (SetThemeRequest_encode W) (SetThemeRequest_decode W) m"
  unfolding SetThemeRequest_decode_def
  by (rule codec_rt_mono [OF codec_rt_of_codec [OF SetThemeRequest_codec]]) simp_all

end

context wire_reader
begin

lemma SetThemeRequest_total [total_rules]: "dec_total W (SetThemeRequest_decode W)"
  unfolding SetThemeRequest_decode_def SetThemeRequest_cases_def by (intro total_rules)

end

subsection \<open>SetThemeResponse\<close>

datatype SetThemeResponse = SetThemeResponse

definition createBaseSetThemeResponse :: SetThemeResponse where
  "createBaseSetThemeResponse = SetThemeResponse"

definition SetThemeResponse_encode :: "('w, 'r) wire \<Rightarrow> SetThemeResponse \<Rightarrow> 'w writer" where
  "SetThemeResponse_encode W m = w_seq []"

definition SetThemeResponse_cases :: "('w, 'r) wire \<Rightarrow> ('r, SetThemeResponse) cases" where
  "SetThemeResponse_cases W = []"

definition SetThemeResponse_decode :: "('w, 'r) wire \<Rightarrow> ('r, SetThemeResponse) decoder" where
  "SetThemeResponse_decode W = d_message W (SetThemeResponse_cases W) createBaseSetThemeResponse"

lemmas SetThemeResponse_defs = SetThemeResponse_cases_def createBaseSetThemeResponse_def

context wire_lib
begin

lemma SetThemeResponse_codec:
  "codec W stk rem 0 (SetThemeResponse_encode W) (SetThemeResponse_cases W) createBaseSetThemeResponse m"
  by (rule codecI [OF SetThemeResponse_encode_def],
      rule matched_Nil, cases m, simp add: SetThemeResponse_defs)

lemma SetThemeResponse_rt: "1 \<le> d \<Longrightarrow> codec_rt W stk rem d (SetThemeResponse_encode W) (SetThemeResponse_decode W) m"
  unfolding SetThemeResponse_decode_def
  by (rule codec_rt_mono [OF codec_rt_of_codec [OF SetThemeResponse_codec]]) simp_all

end

context wire_reader
begin

lemma SetThemeResponse_total [total_rules]: "dec_total W (SetThemeResponse_decode W)"
  unfolding SetThemeResponse_decode_def SetThemeResponse_cases_def by (intro total_rules)

end

subsection \<open>GetCurrentNoteRequest\<close>

record GetCurrentNoteRequest =
  GetCurrentNoteRequest_sessionId :: string

definition createBaseGetCurrentNoteRequest :: GetCurrentNoteRequest where
  "createBaseGetCurrentNoteRequest = \<lparr>GetCurrentNoteRequest_sessionId = ''''\<rparr>"

definition GetCurrentNoteRequest_encode :: "('w, 'r) wire \<Rightarrow> GetCurrentNoteRequest \<Rightarrow> 'w writer" where
  "GetCurrentNoteRequest_encode W m = w_seq [
     w_if (GetCurrentNoteRequest_sessionId m \<noteq> '''') [w_uint32 W 10, w_string W (GetCurrentNoteRequest_sessionId m)]]"

definition GetCurrentNoteRequest_cases :: "('w, 'r) wire \<Rightarrow> ('r, GetCurrentNoteRequest) cases" where
  "GetCurrentNoteRequest_cases W = [
     (1, 10, d_val (r_string W) (\<lambda>v m. m\<lparr>GetCurrentNoteRequest_sessionId := v\<rparr>))]"

definition GetCurrentNoteRequest_decode :: "('w, 'r) wire \<Rightarrow> ('r, GetCurrentNoteRequest) decoder" where
  "GetCurrentNoteRequest_decode W = d_message W (GetCurrentNoteRequest_cases W) createBaseGetCurrentNoteRequest"

lemmas GetCurrentNoteRequest_defs = GetCurrentNoteRequest_cases_def createBaseGetCurrentNoteRequest_def

context wire_lib
begin

lemma GetCurrentNoteRequest_codec:
  "codec W stk rem 0 (GetCurrentNoteRequest_encode W) (GetCurrentNoteRequest_cases W) createBaseGetCurrentNoteRequest m"
  by (rule codecI [OF GetCurrentNoteRequest_encode_def],
      rule field_string [where upd = GetCurrentNoteRequest_sessionId_update], simp add: GetCurrentNoteRequest_defs, simp add: GetCurrentNoteRequest_defs,
      rule matched_Nil, cases m, simp add: GetCurrentNoteRequest_defs)

lemma GetCurrentNoteRequest_rt: "1 \<le> d \<Longrightarrow> codec_rt W stk rem d (GetCurrentNoteRequest_encode W) (GetCurrentNoteRequest_decode W) m"
  unfolding GetCurrentNoteRequest_decode_def
  by (rule codec_rt_mono [OF codec_rt_of_codec [OF GetCurrentNoteRequest_codec]]) simp_all

end

context wire_reader
begin

lemma GetCurrentNoteRequest_total [total_rules]: "dec_total W (GetCurrentNoteRequest_decode W)"
  unfolding GetCurrentNoteRequest_decode_def GetCurrentNoteRequest_cases_def by (intro total_rules)

end

subsection \<open>GetCurrentNoteResponse\<close>

record GetCurrentNoteResponse =
  GetCurrentNoteResponse_note :: "Note option"

definition createBaseGetCurrentNoteResponse :: GetCurrentNoteResponse where
  "createBaseGetCurrentNoteResponse = \<lparr>GetCurrentNoteResponse_note = None\<rparr>"

definition GetCurrentNoteResponse_encode :: "('w, 'r) wire \<Rightarrow> GetCurrentNoteResponse \<Rightarrow> 'w writer" where
  "GetCurrentNoteResponse_encode W m = w_seq [
     w_some (GetCurrentNoteResponse_note m) (\<lambda>v. [w_uint32 W 10, w_open W, Note_encode W v, w_join W])]"

definition GetCurrentNoteResponse_cases :: "('w, 'r) wire \<Rightarrow> ('r, GetCurrentNoteResponse) cases" where
  "GetCurrentNoteResponse_cases W = [
     (1, 10, d_msg W (Note_decode W) (\<lambda>v m. m\<lparr>GetCurrentNoteResponse_note := Some v\<rparr>))]"

definition GetCurrentNoteResponse_decode :: "('w, 'r) wire \<Rightarrow> ('r, GetCurrentNoteResponse) decoder" where
  "GetCurrentNoteResponse_decode W = d_message W (GetCurrentNoteResponse_cases W) createBaseGetCurrentNoteResponse"

lemmas GetCurrentNoteResponse_defs = GetCurrentNoteResponse_cases_def createBaseGetCurrentNoteResponse_def

context wire_lib
begin

lemma GetCurrentNoteResponse_codec:
  "codec W stk rem 1 (GetCurrentNoteResponse_encode W) (GetCurrentNoteResponse_cases W) createBaseGetCurrentNoteResponse m"
  by (rule codecI [OF GetCurrentNoteResponse_encode_def],
      rule field_msg [where upd = GetCurrentNoteResponse_note_update], rule Note_rt, simp, simp add: GetCurrentNoteResponse_defs, simp add: GetCurrentNoteResponse_defs,
      rule matched_Nil, cases m, simp add: GetCurrentNoteResponse_defs)

lemma GetCurrentNoteResponse_rt: "2 \<le> d \<Longrightarrow> codec_rt W stk rem d (GetCurrentNoteResponse_encode W) (GetCurrentNoteResponse_decode W) m"
  unfolding GetCurrentNoteResponse_decode_def
  by (rule codec_rt_mono [OF codec_rt_of_codec [OF GetCurrentNoteResponse_codec]]) simp_all

end

context wire_reader
begin

lemma GetCurrentNoteResponse_total [total_rules]: "dec_total W (GetCurrentNoteResponse_decode W)"
  unfolding GetCurrentNoteResponse_decode_def GetCurrentNoteResponse_cases_def by (intro total_rules)

end

subsection \<open>CreateNoteRequest\<close>

record CreateNoteRequest =
  CreateNoteRequest_sessionId :: string
  CreateNoteRequest_text :: string
  CreateNoteRequest_privacy :: string

definition createBaseCreateNoteRequest :: CreateNoteRequest where
  "createBaseCreateNoteRequest = \<lparr>CreateNoteRequest_sessionId = '''',
     CreateNoteRequest_text = '''',
     CreateNoteRequest_privacy = ''''\<rparr>"

definition CreateNoteRequest_encode :: "('w, 'r) wire \<Rightarrow> CreateNoteRequest \<Rightarrow> 'w writer" where
  "CreateNoteRequest_encode W m = w_seq [
     w_if (CreateNoteRequest_sessionId m \<noteq> '''') [w_uint32 W 10, w_string W (CreateNoteRequest_sessionId m)],
     w_if (CreateNoteRequest_text m \<noteq> '''') [w_uint32 W 18, w_string W (CreateNoteRequest_text m)],
     w_if (CreateNoteRequest_privacy m \<noteq> '''') [w_uint32 W 26, w_string W (CreateNoteRequest_privacy m)]]"

definition CreateNoteRequest_cases :: "('w, 'r) wire \<Rightarrow> ('r, CreateNoteRequest) cases" where
  "CreateNoteRequest_cases W = [
     (1, 10, d_val (r_string W) (\<lambda>v m. m\<lparr>CreateNoteRequest_sessionId := v\<rparr>)),
     (2, 18, d_val (r_string W) (\<lambda>v m. m\<lparr>CreateNoteRequest_text := v\<rparr>)),
     (3, 26, d_val (r_string W) (\<lambda>v m. m\<lparr>CreateNoteRequest_privacy := v\<rparr>))]"

definition CreateNoteRequest_decode :: "('w, 'r) wire \<Rightarrow> ('r, CreateNoteRequest) decoder" where
  "CreateNoteRequest_decode W = d_message W (CreateNoteRequest_cases W) createBaseCreateNoteRequest"

lemmas CreateNoteRequest_defs = CreateNoteRequest_cases_def createBaseCreateNoteRequest_def

context wire_lib
begin

lemma CreateNoteRequest_codec:
  "codec W stk rem 0 (CreateNoteRequest_encode W) (CreateNoteRequest_cases W) createBaseCreateNoteRequest m"
  by (rule codecI [OF CreateNoteRequest_encode_def],
      rule field_string [where upd = CreateNoteRequest_sessionId_update], simp add: CreateNoteRequest_defs, simp add: CreateNoteRequest_defs,
      rule field_string [where upd = CreateNoteRequest_text_update], simp add: CreateNoteRequest_defs, simp add: CreateNoteRequest_defs,
      rule field_string [where upd = CreateNoteRequest_privacy_update], simp add: CreateNoteRequest_defs, simp add: CreateNoteRequest_defs,
      rule matched_Nil, cases m, simp add: CreateNoteRequest_defs)

lemma CreateNoteRequest_rt: "1 \<le> d \<Longrightarrow> codec_rt W stk rem d (CreateNoteRequest_encode W) (CreateNoteRequest_decode W) m"
  unfolding CreateNoteRequest_decode_def
  by (rule codec_rt_mono [OF codec_rt_of_codec [OF CreateNoteRequest_codec]]) simp_all

end

context wire_reader
begin

lemma CreateNoteRequest_total [total_rules]: "dec_total W (CreateNoteRequest_decode W)"
  unfolding CreateNoteRequest_decode_def CreateNoteRequest_cases_def by (intro total_rules)

end

subsection \<open>CreateNoteResponse\<close>

record CreateNoteResponse =
  CreateNoteResponse_note :: "Note option"

definition createBaseCreateNoteResponse :: CreateNoteResponse where
  "createBaseCreateNoteResponse = \<lparr>CreateNoteResponse_note = None\<rparr>"

definition CreateNoteResponse_encode :: "('w, 'r) wire \<Rightarrow> CreateNoteResponse \<Rightarrow> 'w writer" where
  "CreateNoteResponse_encode W m = w_seq [
     w_some (CreateNoteResponse_note m) (\<lambda>v. [w_uint32 W 10, w_open W, Note_encode W v, w_join W])]"

definition CreateNoteResponse_cases :: "('w, 'r) wire \<Rightarrow> ('r, CreateNoteResponse) cases" where
  "CreateNoteResponse_cases W = [
     (1, 10, d_msg W (Note_decode W) (\<lambda>v m. m\<lparr>CreateNoteResponse_note := Some v\<rparr>))]"

definition CreateNoteResponse_decode :: "('w, 'r) wire \<Rightarrow> ('r, CreateNoteResponse) decoder" where
  "CreateNoteResponse_decode W = d_message W (CreateNoteResponse_cases W) createBaseCreateNoteResponse"

lemmas CreateNoteResponse_defs = CreateNoteResponse_cases_def createBaseCreateNoteResponse_def

context wire_lib
begin

lemma CreateNoteResponse_codec:
  "codec W stk rem 1 (CreateNoteResponse_encode W) (CreateNoteResponse_cases W) createBaseCreateNoteResponse m"
  by (rule codecI [OF CreateNoteResponse_encode_def],
      rule field_msg [where upd = CreateNoteResponse_note_update], rule Note_rt, simp, simp add: CreateNoteResponse_defs, simp add: CreateNoteResponse_defs,
      rule matched_Nil, cases m, simp add: CreateNoteResponse_defs)

lemma CreateNoteResponse_rt: "2 \<le> d \<Longrightarrow> codec_rt W stk rem d (CreateNoteResponse_encode W) (CreateNoteResponse_decode W) m"
  unfolding CreateNoteResponse_decode_def
  by (rule codec_rt_mono [OF codec_rt_of_codec [OF CreateNoteResponse_codec]]) simp_all

end

context wire_reader
begin

lemma CreateNoteResponse_total [total_rules]: "dec_total W (CreateNoteResponse_decode W)"
  unfolding CreateNoteResponse_decode_def CreateNoteResponse_cases_def by (intro total_rules)

end

subsection \<open>DeleteNoteRequest\<close>

record DeleteNoteRequest =
  DeleteNoteRequest_sessionId :: string
  DeleteNoteRequest_noteId :: string

definition createBaseDeleteNoteRequest :: DeleteNoteRequest where
  "createBaseDeleteNoteRequest = \<lparr>DeleteNoteRequest_sessionId = '''',
     DeleteNoteRequest_noteId = ''''\<rparr>"

definition DeleteNoteRequest_encode :: "('w, 'r) wire \<Rightarrow> DeleteNoteRequest \<Rightarrow> 'w writer" where
  "DeleteNoteRequest_encode W m = w_seq [
     w_if (DeleteNoteRequest_sessionId m \<noteq> '''') [w_uint32 W 10, w_string W (DeleteNoteRequest_sessionId m)],
     w_if (DeleteNoteRequest_noteId m \<noteq> '''') [w_uint32 W 18, w_string W (DeleteNoteRequest_noteId m)]]"

definition DeleteNoteRequest_cases :: "('w, 'r) wire \<Rightarrow> ('r, DeleteNoteRequest) cases" where
  "DeleteNoteRequest_cases W = [
     (1, 10, d_val (r_string W) (\<lambda>v m. m\<lparr>DeleteNoteRequest_sessionId := v\<rparr>)),
     (2, 18, d_val (r_string W) (\<lambda>v m. m\<lparr>DeleteNoteRequest_noteId := v\<rparr>))]"

definition DeleteNoteRequest_decode :: "('w, 'r) wire \<Rightarrow> ('r, DeleteNoteRequest) decoder" where
  "DeleteNoteRequest_decode W = d_message W (DeleteNoteRequest_cases W) createBaseDeleteNoteRequest"

lemmas DeleteNoteRequest_defs = DeleteNoteRequest_cases_def createBaseDeleteNoteRequest_def

context wire_lib
begin

lemma DeleteNoteRequest_codec:
  "codec W stk rem 0 (DeleteNoteRequest_encode W) (DeleteNoteRequest_cases W) createBaseDeleteNoteRequest m"
  by (rule codecI [OF DeleteNoteRequest_encode_def],
      rule field_string [where upd = DeleteNoteRequest_sessionId_update], simp add: DeleteNoteRequest_defs, simp add: DeleteNoteRequest_defs,
      rule field_string [where upd = DeleteNoteRequest_noteId_update], simp add: DeleteNoteRequest_defs, simp add: DeleteNoteRequest_defs,
      rule matched_Nil, cases m, simp add: DeleteNoteRequest_defs)

lemma DeleteNoteRequest_rt: "1 \<le> d \<Longrightarrow> codec_rt W stk rem d (DeleteNoteRequest_encode W) (DeleteNoteRequest_decode W) m"
  unfolding DeleteNoteRequest_decode_def
  by (rule codec_rt_mono [OF codec_rt_of_codec [OF DeleteNoteRequest_codec]]) simp_all

end

context wire_reader
begin

lemma DeleteNoteRequest_total [total_rules]: "dec_total W (DeleteNoteRequest_decode W)"
  unfolding DeleteNoteRequest_decode_def DeleteNoteRequest_cases_def by (intro total_rules)

end

subsection \<open>DeleteNoteResponse\<close>

datatype DeleteNoteResponse = DeleteNoteResponse

definition createBaseDeleteNoteResponse :: DeleteNoteResponse where
  "createBaseDeleteNoteResponse = DeleteNoteResponse"

definition DeleteNoteResponse_encode :: "('w, 'r) wire \<Rightarrow> DeleteNoteResponse \<Rightarrow> 'w writer" where
  "DeleteNoteResponse_encode W m = w_seq []"

definition DeleteNoteResponse_cases :: "('w, 'r) wire \<Rightarrow> ('r, DeleteNoteResponse) cases" where
  "DeleteNoteResponse_cases W = []"

definition DeleteNoteResponse_decode :: "('w, 'r) wire \<Rightarrow> ('r, DeleteNoteResponse) decoder" where
  "DeleteNoteResponse_decode W = d_message W (DeleteNoteResponse_cases W) createBaseDeleteNoteResponse"

lemmas DeleteNoteResponse_defs = DeleteNoteResponse_cases_def createBaseDeleteNoteResponse_def

context wire_lib
begin

lemma DeleteNoteResponse_codec:
  "codec W stk rem 0 (DeleteNoteResponse_encode W) (DeleteNoteResponse_cases W) createBaseDeleteNoteResponse m"
  by (rule codecI [OF DeleteNoteResponse_encode_def],
      rule matched_Nil, cases m, simp add: DeleteNoteResponse_defs)

lemma DeleteNoteResponse_rt: "1 \<le> d \<Longrightarrow> codec_rt W stk rem d (DeleteNoteResponse_encode W) (DeleteNoteResponse_decode W) m"
  unfolding DeleteNoteResponse_decode_def
  by (rule codec_rt_mono [OF codec_rt_of_codec [OF DeleteNoteResponse_codec]]) simp_all

end

context wire_reader
begin

lemma DeleteNoteResponse_total [total_rules]: "dec_total W (DeleteNoteResponse_decode W)"
  unfolding DeleteNoteResponse_decode_def DeleteNoteResponse_cases_def by (intro total_rules)

end

subsection \<open>RecreateNoteRequest\<close>

record RecreateNoteRequest =
  RecreateNoteRequest_sessionId :: string
  RecreateNoteRequest_oldNoteId :: string
  RecreateNoteRequest_text :: string
  RecreateNoteRequest_privacy :: string

definition createBaseRecreateNoteRequest :: RecreateNoteRequest where
  "createBaseRecreateNoteRequest = \<lparr>RecreateNoteRequest_sessionId = '''',
     RecreateNoteRequest_oldNoteId = '''',
     RecreateNoteRequest_text = '''',
     RecreateNoteRequest_privacy = ''''\<rparr>"

definition RecreateNoteRequest_encode :: "('w, 'r) wire \<Rightarrow> RecreateNoteRequest \<Rightarrow> 'w writer" where
  "RecreateNoteRequest_encode W m = w_seq [
     w_if (RecreateNoteRequest_sessionId m \<noteq> '''') [w_uint32 W 10, w_string W (RecreateNoteRequest_sessionId m)],
     w_if (RecreateNoteRequest_oldNoteId m \<noteq> '''') [w_uint32 W 18, w_string W (RecreateNoteRequest_oldNoteId m)],
     w_if (RecreateNoteRequest_text m \<noteq> '''') [w_uint32 W 26, w_string W (RecreateNoteRequest_text m)],
     w_if (RecreateNoteRequest_privacy m \<noteq> '''') [w_uint32 W 34, w_string W (RecreateNoteRequest_privacy m)]]"

definition RecreateNoteRequest_cases :: "('w, 'r) wire \<Rightarrow> ('r, RecreateNoteRequest) cases" where
  "RecreateNoteRequest_cases W = [
     (1, 10, d_val (r_string W) (\<lambda>v m. m\<lparr>RecreateNoteRequest_sessionId := v\<rparr>)),
     (2, 18, d_val (r_string W) (\<lambda>v m. m\<lparr>RecreateNoteRequest_oldNoteId := v\<rparr>)),
     (3, 26, d_val (r_string W) (\<lambda>v m. m\<lparr>RecreateNoteRequest_text := v\<rparr>)),
     (4, 34, d_val (r_string W) (\<lambda>v m. m\<lparr>RecreateNoteRequest_privacy := v\<rparr>))]"

definition RecreateNoteRequest_decode :: "('w, 'r) wire \<Rightarrow> ('r, RecreateNoteRequest) decoder" where
  "RecreateNoteRequest_decode W = d_message W (RecreateNoteRequest_cases W) createBaseRecreateNoteRequest"

lemmas RecreateNoteRequest_defs = RecreateNoteRequest_cases_def createBaseRecreateNoteRequest_def

context wire_lib
begin

lemma RecreateNoteRequest_codec:
  "codec W stk rem 0 (RecreateNoteRequest_encode W) (RecreateNoteRequest_cases W) createBaseRecreateNoteRequest m"
  by (rule codecI [OF RecreateNoteRequest_encode_def],
      rule field_string [where upd = RecreateNoteRequest_sessionId_update], simp add: RecreateNoteRequest_defs, simp add: RecreateNoteRequest_defs,
      rule field_string [where upd = RecreateNoteRequest_oldNoteId_update], simp add: RecreateNoteRequest_defs, simp add: RecreateNoteRequest_defs,
      rule field_string [where upd = RecreateNoteRequest_text_update], simp add: RecreateNoteRequest_defs, simp add: RecreateNoteRequest_defs,
      rule field_string [where upd = RecreateNoteRequest_privacy_update], simp add: RecreateNoteRequest_defs, simp add: RecreateNoteRequest_defs,
      rule matched_Nil, cases m, simp add: RecreateNoteRequest_defs)

lemma RecreateNoteRequest_rt: "1 \<le> d \<Longrightarrow> codec_rt W stk rem d (RecreateNoteRequest_encode W) (RecreateNoteRequest_decode W) m"
  unfolding RecreateNoteRequest_decode_def
  by (rule codec_rt_mono [OF codec_rt_of_codec [OF RecreateNoteRequest_codec]]) simp_all

end

context wire_reader
begin

lemma RecreateNoteRequest_total [total_rules]: "dec_total W (RecreateNoteRequest_decode W)"
  unfolding RecreateNoteRequest_decode_def RecreateNoteRequest_cases_def by (intro total_rules)

end

subsection \<open>RecreateNoteResponse\<close>

record RecreateNoteResponse =
  RecreateNoteResponse_note :: "Note option"

definition createBaseRecreateNoteResponse :: RecreateNoteResponse where
  "createBaseRecreateNoteResponse = \<lparr>RecreateNoteResponse_note = None\<rparr>"

definition RecreateNoteResponse_encode :: "('w, 'r) wire \<Rightarrow> RecreateNoteResponse \<Rightarrow> 'w writer" where
  "RecreateNoteResponse_encode W m = w_seq [
     w_some (RecreateNoteResponse_note m) (\<lambda>v. [w_uint32 W 10, w_open W, Note_encode W v, w_join W])]"

definition RecreateNoteResponse_cases :: "('w, 'r) wire \<Rightarrow> ('r, RecreateNoteResponse) cases" where
  "RecreateNoteResponse_cases W = [
     (1, 10, d_msg W (Note_decode W) (\<lambda>v m. m\<lparr>RecreateNoteResponse_note := Some v\<rparr>))]"

definition RecreateNoteResponse_decode :: "('w, 'r) wire \<Rightarrow> ('r, RecreateNoteResponse) decoder" where
  "RecreateNoteResponse_decode W = d_message W (RecreateNoteResponse_cases W) createBaseRecreateNoteResponse"

lemmas RecreateNoteResponse_defs = RecreateNoteResponse_cases_def createBaseRecreateNoteResponse_def

context wire_lib
begin

lemma RecreateNoteResponse_codec:
  "codec W stk rem 1 (RecreateNoteResponse_encode W) (RecreateNoteResponse_cases W) createBaseRecreateNoteResponse m"
  by (rule codecI [OF RecreateNoteResponse_encode_def],
      rule field_msg [where upd = RecreateNoteResponse_note_update], rule Note_rt, simp, simp add: RecreateNoteResponse_defs, simp add: RecreateNoteResponse_defs,
      rule matched_Nil, cases m, simp add: RecreateNoteResponse_defs)

lemma RecreateNoteResponse_rt: "2 \<le> d \<Longrightarrow> codec_rt W stk rem d (RecreateNoteResponse_encode W) (RecreateNoteResponse_decode W) m"
  unfolding RecreateNoteResponse_decode_def
  by (rule codec_rt_mono [OF codec_rt_of_codec [OF RecreateNoteResponse_codec]]) simp_all

end

context wire_reader
begin

lemma RecreateNoteResponse_total [total_rules]: "dec_total W (RecreateNoteResponse_decode W)"
  unfolding RecreateNoteResponse_decode_def RecreateNoteResponse_cases_def by (intro total_rules)

end

subsection \<open>SetRestrictedRequest\<close>

record SetRestrictedRequest =
  SetRestrictedRequest_sessionId :: string
  SetRestrictedRequest_userId :: string
  SetRestrictedRequest_restricted :: bool

definition createBaseSetRestrictedRequest :: SetRestrictedRequest where
  "createBaseSetRestrictedRequest = \<lparr>SetRestrictedRequest_sessionId = '''',
     SetRestrictedRequest_userId = '''',
     SetRestrictedRequest_restricted = False\<rparr>"

definition SetRestrictedRequest_encode :: "('w, 'r) wire \<Rightarrow> SetRestrictedRequest \<Rightarrow> 'w writer" where
  "SetRestrictedRequest_encode W m = w_seq [
     w_if (SetRestrictedRequest_sessionId m \<noteq> '''') [w_uint32 W 10, w_string W (SetRestrictedRequest_sessionId m)],
     w_if (SetRestrictedRequest_userId m \<noteq> '''') [w_uint32 W 18, w_string W (SetRestrictedRequest_userId m)],
     w_if (SetRestrictedRequest_restricted m \<noteq> False) [w_uint32 W 24, w_bool W (SetRestrictedRequest_restricted m)]]"

definition SetRestrictedRequest_cases :: "('w, 'r) wire \<Rightarrow> ('r, SetRestrictedRequest) cases" where
  "SetRestrictedRequest_cases W = [
     (1, 10, d_val (r_string W) (\<lambda>v m. m\<lparr>SetRestrictedRequest_sessionId := v\<rparr>)),
     (2, 18, d_val (r_string W) (\<lambda>v m. m\<lparr>SetRestrictedRequest_userId := v\<rparr>)),
     (3, 24, d_val (r_bool W) (\<lambda>v m. m\<lparr>SetRestrictedRequest_restricted := v\<rparr>))]"

definition SetRestrictedRequest_decode :: "('w, 'r) wire \<Rightarrow> ('r, SetRestrictedRequest) decoder" where
  "SetRestrictedRequest_decode W = d_message W (SetRestrictedRequest_cases W) createBaseSetRestrictedRequest"

lemmas SetRestrictedRequest_defs = SetRestrictedRequest_cases_def createBaseSetRestrictedRequest_def

context wire_lib
begin

lemma SetRestrictedRequest_codec:
  "codec W stk rem 0 (SetRestrictedRequest_encode W) (SetRestrictedRequest_cases W) createBaseSetRestrictedRequest m"
  by (rule codecI [OF SetRestrictedRequest_encode_def],
      rule field_string [where upd = SetRestrictedRequest_sessionId_update], simp add: SetRestrictedRequest_defs, simp add: SetRestrictedRequest_defs,
      rule field_string [where upd = SetRestrictedRequest_userId_update], simp add: SetRestrictedRequest_defs, simp add: SetRestrictedRequest_defs,
      rule field_bool [where upd = SetRestrictedRequest_restricted_update], simp add: SetRestrictedRequest_defs, simp add: SetRestrictedRequest_defs,
      rule matched_Nil, cases m, simp add: SetRestrictedRequest_defs)

lemma SetRestrictedRequest_rt: "1 \<le> d \<Longrightarrow> codec_rt W stk rem d (SetRestrictedRequest_encode W) (SetRestrictedRequest_decode W) m"
  unfolding SetRestrictedRequest_decode_def
  by (rule codec_rt_mono [OF codec_rt_of_codec [OF SetRestrictedRequest_codec]]) simp_all

end

context wire_reader
begin

lemma SetRestrictedRequest_total [total_rules]: "dec_total W (SetRestrictedRequest_decode W)"
  unfolding SetRestrictedRequest_decode_def SetRestrictedRequest_cases_def by (intro total_rules)

end

subsection \<open>SetRestrictedResponse\<close>

datatype SetRestrictedResponse = SetRestrictedResponse

definition createBaseSetRestrictedResponse :: SetRestrictedResponse where
  "createBaseSetRestrictedResponse = SetRestrictedResponse"

definition SetRestrictedResponse_encode :: "('w, 'r) wire \<Rightarrow> SetRestrictedResponse \<Rightarrow> 'w writer" where
  "SetRestrictedResponse_encode W m = w_seq []"

definition SetRestrictedResponse_cases :: "('w, 'r) wire \<Rightarrow> ('r, SetRestrictedResponse) cases" where
  "SetRestrictedResponse_cases W = []"

definition SetRestrictedResponse_decode :: "('w, 'r) wire \<Rightarrow> ('r, SetRestrictedResponse) decoder" where
  "SetRestrictedResponse_decode W = d_message W (SetRestrictedResponse_cases W) createBaseSetRestrictedResponse"

lemmas SetRestrictedResponse_defs = SetRestrictedResponse_cases_def createBaseSetRestrictedResponse_def

context wire_lib
begin

lemma SetRestrictedResponse_codec:
  "codec W stk rem 0 (SetRestrictedResponse_encode W) (SetRestrictedResponse_cases W) createBaseSetRestrictedResponse m"
  by (rule codecI [OF SetRestrictedResponse_encode_def],
      rule matched_Nil, cases m, simp add: SetRestrictedResponse_defs)

lemma SetRestrictedResponse_rt: "1 \<le> d \<Longrightarrow> codec_rt W stk rem d (SetRestrictedResponse_encode W) (SetRestrictedResponse_decode W) m"
  unfolding SetRestrictedResponse_decode_def
  by (rule codec_rt_mono [OF codec_rt_of_codec [OF SetRestrictedResponse_codec]]) simp_all

end

context wire_reader
begin

lemma SetRestrictedResponse_total [total_rules]: "dec_total W (SetRestrictedResponse_decode W)"
  unfolding SetRestrictedResponse_decode_def SetRestrictedResponse_cases_def by (intro total_rules)

end

subsection \<open>SetMessageBlockedRequest\<close>

record SetMessageBlockedRequest =
  SetMessageBlockedRequest_sessionId :: string
  SetMessageBlockedRequest_userId :: string
  SetMessageBlockedRequest_blocked :: bool

definition createBaseSetMessageBlockedRequest :: SetMessageBlockedRequest where
  "createBaseSetMessageBlockedRequest = \<lparr>SetMessageBlockedRequest_sessionId = '''',
     SetMessageBlockedRequest_userId = '''',
     SetMessageBlockedRequest_blocked = False\<rparr>"

definition SetMessageBlockedRequest_encode :: "('w, 'r) wire \<Rightarrow> SetMessageBlockedRequest \<Rightarrow> 'w writer" where
  "SetMessageBlockedRequest_encode W m = w_seq [
     w_if (SetMessageBlockedRequest_sessionId m \<noteq> '''') [w_uint32 W 10, w_string W (SetMessageBlockedRequest_sessionId m)],
     w_if (SetMessageBlockedRequest_userId m \<noteq> '''') [w_uint32 W 18, w_string W (SetMessageBlockedRequest_userId m)],
     w_if (SetMessageBlockedRequest_blocked m \<noteq> False) [w_uint32 W 24, w_bool W (SetMessageBlockedRequest_blocked m)]]"

definition SetMessageBlockedRequest_cases :: "('w, 'r) wire \<Rightarrow> ('r, SetMessageBlockedRequest) cases" where
  "SetMessageBlockedRequest_cases W = [
     (1, 10, d_val (r_string W) (\<lambda>v m. m\<lparr>SetMessageBlockedRequest_sessionId := v\<rparr>)),
     (2, 18, d_val (r_string W) (\<lambda>v m. m\<lparr>SetMessageBlockedRequest_userId := v\<rparr>)),
     (3, 24, d_val (r_bool W) (\<lambda>v m. m\<lparr>SetMessageBlockedRequest_blocked := v\<rparr>))]"

definition SetMessageBlockedRequest_decode :: "('w, 'r) wire \<Rightarrow> ('r, SetMessageBlockedRequest) decoder" where
  "SetMessageBlockedRequest_decode W = d_message W (SetMessageBlockedRequest_cases W) createBaseSetMessageBlockedRequest"

lemmas SetMessageBlockedRequest_defs = SetMessageBlockedRequest_cases_def createBaseSetMessageBlockedRequest_def

context wire_lib
begin

lemma SetMessageBlockedRequest_codec:
  "codec W stk rem 0 (SetMessageBlockedRequest_encode W) (SetMessageBlockedRequest_cases W) createBaseSetMessageBlockedRequest m"
  by (rule codecI [OF SetMessageBlockedRequest_encode_def],
      rule field_string [where upd = SetMessageBlockedRequest_sessionId_update], simp add: SetMessageBlockedRequest_defs, simp add: SetMessageBlockedRequest_defs,
      rule field_string [where upd = SetMessageBlockedRequest_userId_update], simp add: SetMessageBlockedRequest_defs, simp add: SetMessageBlockedRequest_defs,
      rule field_bool [where upd = SetMessageBlockedRequest_blocked_update], simp add: SetMessageBlockedRequest_defs, simp add: SetMessageBlockedRequest_defs,
      rule matched_Nil, cases m, simp add: SetMessageBlockedRequest_defs)

lemma SetMessageBlockedRequest_rt: "1 \<le> d \<Longrightarrow> codec_rt W stk rem d (SetMessageBlockedRequest_encode W) (SetMessageBlockedRequest_decode W) m"
  unfolding SetMessageBlockedRequest_decode_def
  by (rule codec_rt_mono [OF codec_rt_of_codec [OF SetMessageBlockedRequest_codec]]) simp_all

end

context wire_reader
begin

lemma SetMessageBlockedRequest_total [total_rules]: "dec_total W (SetMessageBlockedRequest_decode W)"
  unfolding SetMessageBlockedRequest_decode_def SetMessageBlockedRequest_cases_def by (intro total_rules)

end

subsection \<open>SetMessageBlockedResponse\<close>

datatype SetMessageBlockedResponse = SetMessageBlockedResponse

definition createBaseSetMessageBlockedResponse :: SetMessageBlockedResponse where
  "createBaseSetMessageBlockedResponse = SetMessageBlockedResponse"

definition SetMessageBlockedResponse_encode :: "('w, 'r) wire \<Rightarrow> SetMessageBlockedResponse \<Rightarrow> 'w writer" where
  "SetMessageBlockedResponse_encode W m = w_seq []"

definition SetMessageBlockedResponse_cases :: "('w, 'r) wire \<Rightarrow> ('r, SetMessageBlockedResponse) cases" where
  "SetMessageBlockedResponse_cases W = []"

definition SetMessageBlockedResponse_decode :: "('w, 'r) wire \<Rightarrow> ('r, SetMessageBlockedResponse) decoder" where
  "SetMessageBlockedResponse_decode W = d_message W (SetMessageBlockedResponse_cases W) createBaseSetMessageBlockedResponse"

lemmas SetMessageBlockedResponse_defs = SetMessageBlockedResponse_cases_def createBaseSetMessageBlockedResponse_def

context wire_lib
begin

lemma SetMessageBlockedResponse_codec:
  "codec W stk rem 0 (SetMessageBlockedResponse_encode W) (SetMessageBlockedResponse_cases W) createBaseSetMessageBlockedResponse m"
  by (rule codecI [OF SetMessageBlockedResponse_encode_def],
      rule matched_Nil, cases m, simp add: SetMessageBlockedResponse_defs)

lemma SetMessageBlockedResponse_rt: "1 \<le> d \<Longrightarrow> codec_rt W stk rem d (SetMessageBlockedResponse_encode W) (SetMessageBlockedResponse_decode W) m"
  unfolding SetMessageBlockedResponse_decode_def
  by (rule codec_rt_mono [OF codec_rt_of_codec [OF SetMessageBlockedResponse_codec]]) simp_all

end

context wire_reader
begin

lemma SetMessageBlockedResponse_total [total_rules]: "dec_total W (SetMessageBlockedResponse_decode W)"
  unfolding SetMessageBlockedResponse_decode_def SetMessageBlockedResponse_cases_def by (intro total_rules)

end

subsection \<open>ListThreadsRequest\<close>

record ListThreadsRequest =
  ListThreadsRequest_sessionId :: string
  ListThreadsRequest_limit :: int

definition createBaseListThreadsRequest :: ListThreadsRequest where
  "createBaseListThreadsRequest = \<lparr>ListThreadsRequest_sessionId = '''',
     ListThreadsRequest_limit = 0\<rparr>"

definition ListThreadsRequest_encode :: "('w, 'r) wire \<Rightarrow> ListThreadsRequest \<Rightarrow> 'w writer" where
  "ListThreadsRequest_encode W m = w_seq [
     w_if (ListThreadsRequest_sessionId m \<noteq> '''') [w_uint32 W 10, w_string W (ListThreadsRequest_sessionId m)],
     w_if (ListThreadsRequest_limit m \<noteq> 0) [w_uint32 W 16, w_int32 W (ListThreadsRequest_limit m)]]"

definition ListThreadsRequest_cases :: "('w, 'r) wire \<Rightarrow> ('r, ListThreadsRequest) cases" where
  "ListThreadsRequest_cases W = [
     (1, 10, d_val (r_string W) (\<lambda>v m. m\<lparr>ListThreadsRequest_sessionId := v\<rparr>)),
     (2, 16, d_val (r_int32 W) (\<lambda>v m. m\<lparr>ListThreadsRequest_limit := v\<rparr>))]"

definition ListThreadsRequest_decode :: "('w, 'r) wire \<Rightarrow> ('r, ListThreadsRequest) decoder" where
  "ListThreadsRequest_decode W = d_message W (ListThreadsRequest_cases W) createBaseListThreadsRequest"

lemmas ListThreadsRequest_defs = ListThreadsRequest_cases_def createBaseListThreadsRequest_def

context wire_lib
begin

lemma ListThreadsRequest_codec:
  "codec W stk rem 0 (ListThreadsRequest_encode W) (ListThreadsRequest_cases W) createBaseListThreadsRequest m"
  by (rule codecI [OF ListThreadsRequest_encode_def],
      rule field_string [where upd = ListThreadsRequest_sessionId_update], simp add: ListThreadsRequest_defs, simp add: ListThreadsRequest_defs,
      rule field_int32 [where upd = ListThreadsRequest_limit_update], simp add: ListThreadsRequest_defs, simp add: ListThreadsRequest_defs,
      rule matched_Nil, cases m, simp add: ListThreadsRequest_defs)

lemma ListThreadsRequest_rt: "1 \<le> d \<Longrightarrow> codec_rt W stk rem d (ListThreadsRequest_encode W) (ListThreadsRequest_decode W) m"
  unfolding ListThreadsRequest_decode_def
  by (rule codec_rt_mono [OF codec_rt_of_codec [OF ListThreadsRequest_codec]]) simp_all

end

context wire_reader
begin

lemma ListThreadsRequest_total [total_rules]: "dec_total W (ListThreadsRequest_decode W)"
  unfolding ListThreadsRequest_decode_def ListThreadsRequest_cases_def by (intro total_rules)

end

subsection \<open>ListThreadsResponse\<close>

record ListThreadsResponse =
  ListThreadsResponse_threads :: "Thread list"
  ListThreadsResponse_syncSequenceId :: int

definition createBaseListThreadsResponse :: ListThreadsResponse where
  "createBaseListThreadsResponse = \<lparr>ListThreadsResponse_threads = [],
     ListThreadsResponse_syncSequenceId = 0\<rparr>"

definition ListThreadsResponse_encode :: "('w, 'r) wire \<Rightarrow> ListThreadsResponse \<Rightarrow> 'w writer" where
  "ListThreadsResponse_encode W m = w_seq [
     w_for (ListThreadsResponse_threads m) (\<lambda>v. [w_uint32 W 10, w_open W, Thread_encode W v, w_join W]),
     w_if (ListThreadsResponse_syncSequenceId m \<noteq> 0) [w_check (asIntN64 (ListThreadsResponse_syncSequenceId m) = ListThreadsResponse_syncSequenceId m) (too_large ''message.syncSequenceId'' ''int64''),
         w_uint32 W 16, w_int64 W (ListThreadsResponse_syncSequenceId m)]]"

definition ListThreadsResponse_cases :: "('w, 'r) wire \<Rightarrow> ('r, ListThreadsResponse) cases" where
  "ListThreadsResponse_cases W = [
     (1, 10, d_msg W (Thread_decode W) (\<lambda>v m. m\<lparr>ListThreadsResponse_threads := ListThreadsResponse_threads m @ [v]\<rparr>)),
     (2, 16, d_val (r_int64 W) (\<lambda>v m. m\<lparr>ListThreadsResponse_syncSequenceId := v\<rparr>))]"

definition ListThreadsResponse_decode :: "('w, 'r) wire \<Rightarrow> ('r, ListThreadsResponse) decoder" where
  "ListThreadsResponse_decode W = d_message W (ListThreadsResponse_cases W) createBaseListThreadsResponse"

definition ListThreadsResponse_ok :: "ListThreadsResponse \<Rightarrow> bool" where
  "ListThreadsResponse_ok m \<longleftrightarrow> list_all Thread_ok (ListThreadsResponse_threads m)"

lemmas ListThreadsResponse_defs = ListThreadsResponse_cases_def createBaseListThreadsResponse_def

context wire_lib
begin

lemma ListThreadsResponse_codec:
  assumes ok: "ListThreadsResponse_ok m"
  shows "codec W stk rem 2 (ListThreadsResponse_encode W) (ListThreadsResponse_cases W) createBaseListThreadsResponse m"
  by (rule codecI [OF ListThreadsResponse_encode_def],
      rule field_push_msg [where upd = ListThreadsResponse_threads_update and sel = ListThreadsResponse_threads], rule Thread_rt, simp, (use ok in \<open>fastforce simp: ListThreadsResponse_ok_def list_all_iff\<close>), simp add: ListThreadsResponse_defs, simp add: ListThreadsResponse_defs, simp add: ListThreadsResponse_defs,
      rule field_int64 [where upd = ListThreadsResponse_syncSequenceId_update], simp add: ListThreadsResponse_defs, simp add: ListThreadsResponse_defs,
      rule matched_Nil, cases m, simp add: ListThreadsResponse_defs)

lemma ListThreadsResponse_rt: "3 \<le> d \<Longrightarrow> ListThreadsResponse_ok m \<Longrightarrow> codec_rt W stk rem d (ListThreadsResponse_encode W) (ListThreadsResponse_decode W) m"
  unfolding ListThreadsResponse_decode_def
  by (rule codec_rt_mono [OF codec_rt_of_codec [OF ListThreadsResponse_codec]]) simp_all

end

context wire_reader
begin

lemma ListThreadsResponse_total [total_rules]: "dec_total W (ListThreadsResponse_decode W)"
  unfolding ListThreadsResponse_decode_def ListThreadsResponse_cases_def by (intro total_rules)

end

subsection \<open>GetThreadRequest\<close>

record GetThreadRequest =
  GetThreadRequest_sessionId :: string
  GetThreadRequest_threadId :: string

definition createBaseGetThreadRequest :: GetThreadRequest where
  "createBaseGetThreadRequest = \<lparr>GetThreadRequest_sessionId = '''',
     GetThreadRequest_threadId = ''''\<rparr>"

definition GetThreadRequest_encode :: "('w, 'r) wire \<Rightarrow> GetThreadRequest \<Rightarrow> 'w writer" where
  "GetThreadRequest_encode W m = w_seq [
     w_if (GetThreadRequest_sessionId m \<noteq> '''') [w_uint32 W 10, w_string W (GetThreadRequest_sessionId m)],
     w_if (GetThreadRequest_threadId m \<noteq> '''') [w_uint32 W 18, w_string W (GetThreadRequest_threadId m)]]"

definition GetThreadRequest_cases :: "('w, 'r) wire \<Rightarrow> ('r, GetThreadRequest) cases" where
  "GetThreadRequest_cases W = [
     (1, 10, d_val (r_string W) (\<lambda>v m. m\<lparr>GetThreadRequest_sessionId := v\<rparr>)),
     (2, 18, d_val (r_string W) (\<lambda>v m. m\<lparr>GetThreadRequest_threadId := v\<rparr>))]"

definition GetThreadRequest_decode :: "('w, 'r) wire \<Rightarrow> ('r, GetThreadRequest) decoder" where
  "GetThreadRequest_decode W = d_message W (GetThreadRequest_cases W) createBaseGetThreadRequest"

lemmas GetThreadRequest_defs = GetThreadRequest_cases_def createBaseGetThreadRequest_def

context wire_lib
begin

lemma GetThreadRequest_codec:
  "codec W stk rem 0 (GetThreadRequest_encode W) (GetThreadRequest_cases W) createBaseGetThreadRequest m"
  by (rule codecI [OF GetThreadRequest_encode_def],
      rule field_string [where upd = GetThreadRequest_sessionId_update], simp add: GetThreadRequest_defs, simp add: GetThreadRequest_defs,
      rule field_string [where upd = GetThreadRequest_threadId_update], simp add: GetThreadRequest_defs, simp add: GetThreadRequest_defs,
      rule matched_Nil, cases m, simp add: GetThreadRequest_defs)

lemma GetThreadRequest_rt: "1 \<le> d \<Longrightarrow> codec_rt W stk rem d (GetThreadRequest_encode W) (GetThreadRequest_decode W) m"
  unfolding GetThreadRequest_decode_def
  by (rule codec_rt_mono [OF codec_rt_of_codec [OF GetThreadRequest_codec]]) simp_all

end

context wire_reader
begin

lemma GetThreadRequest_total [total_rules]: "dec_total W (GetThreadRequest_decode W)"
  unfolding GetThreadRequest_decode_def GetThreadRequest_cases_def by (intro total_rules)

end

subsection \<open>GetThreadResponse\<close>

record GetThreadResponse =
  GetThreadResponse_thread :: "Thread option"

definition createBaseGetThreadResponse :: GetThreadResponse where
  "createBaseGetThreadResponse = \<lparr>GetThreadResponse_thread = None\<rparr>"

definition GetThreadResponse_encode :: "('w, 'r) wire \<Rightarrow> GetThreadResponse \<Rightarrow> 'w writer" where
  "GetThreadResponse_encode W m = w_seq [
     w_some (GetThreadResponse_thread m) (\<lambda>v. [w_uint32 W 10, w_open W, Thread_encode W v, w_join W])]"

definition GetThreadResponse_cases :: "('w, 'r) wire \<Rightarrow> ('r, GetThreadResponse) cases" where
  "GetThreadResponse_cases W = [
     (1, 10, d_msg W (Thread_decode W) (\<lambda>v m. m\<lparr>GetThreadResponse_thread := Some v\<rparr>))]"

definition GetThreadResponse_decode :: "('w, 'r) wire \<Rightarrow> ('r, GetThreadResponse) decoder" where
  "GetThreadResponse_decode W = d_message W (GetThreadResponse_cases W) createBaseGetThreadResponse"

definition GetThreadResponse_ok :: "GetThreadResponse \<Rightarrow> bool" where
  "GetThreadResponse_ok m \<longleftrightarrow> pred_option Thread_ok (GetThreadResponse_thread m)"

lemmas GetThreadResponse_defs = GetThreadResponse_cases_def createBaseGetThreadResponse_def

context wire_lib
begin

lemma GetThreadResponse_codec:
  assumes ok: "GetThreadResponse_ok m"
  shows "codec W stk rem 2 (GetThreadResponse_encode W) (GetThreadResponse_cases W) createBaseGetThreadResponse m"
  by (rule codecI [OF GetThreadResponse_encode_def],
      rule field_msg [where upd = GetThreadResponse_thread_update], rule Thread_rt, simp, (use ok in \<open>fastforce simp: GetThreadResponse_ok_def list_all_iff\<close>), simp add: GetThreadResponse_defs, simp add: GetThreadResponse_defs,
      rule matched_Nil, cases m, simp add: GetThreadResponse_defs)

lemma GetThreadResponse_rt: "3 \<le> d \<Longrightarrow> GetThreadResponse_ok m \<Longrightarrow> codec_rt W stk rem d (GetThreadResponse_encode W) (GetThreadResponse_decode W) m"
  unfolding GetThreadResponse_decode_def
  by (rule codec_rt_mono [OF codec_rt_of_codec [OF GetThreadResponse_codec]]) simp_all

end

context wire_reader
begin

lemma GetThreadResponse_total [total_rules]: "dec_total W (GetThreadResponse_decode W)"
  unfolding GetThreadResponse_decode_def GetThreadResponse_cases_def by (intro total_rules)

end

subsection \<open>CreatePollRequest\<close>

record CreatePollRequest =
  CreatePollRequest_sessionId :: string
  CreatePollRequest_threadId :: string
  CreatePollRequest_question :: string
  CreatePollRequest_options :: "string list"

definition createBaseCreatePollRequest :: CreatePollRequest where
  "createBaseCreatePollRequest = \<lparr>CreatePollRequest_sessionId = '''',
     CreatePollRequest_threadId = '''',
     CreatePollRequest_question = '''',
     CreatePollRequest_options = []\<rparr>"

definition CreatePollRequest_encode :: "('w, 'r) wire \<Rightarrow> CreatePollRequest \<Rightarrow> 'w writer" where
  "CreatePollRequest_encode W m = w_seq [
     w_if (CreatePollRequest_sessionId m \<noteq> '''') [w_uint32 W 10, w_string W (CreatePollRequest_sessionId m)],
     w_if (CreatePollRequest_threadId m \<noteq> '''') [w_uint32 W 18, w_string W (CreatePollRequest_threadId m)],
     w_if (CreatePollRequest_question m \<noteq> '''') [w_uint32 W 26, w_string W (CreatePollRequest_question m)],
     w_for (CreatePollRequest_options m) (\<lambda>v. [w_uint32 W 34, w_string W v])]"

definition CreatePollRequest_cases :: "('w, 'r) wire \<Rightarrow> ('r, CreatePollRequest) cases" where
  "CreatePollRequest_cases W = [
     (1, 10, d_val (r_string W) (\<lambda>v m. m\<lparr>CreatePollRequest_sessionId := v\<rparr>)),
     (2, 18, d_val (r_string W) (\<lambda>v m. m\<lparr>CreatePollRequest_threadId := v\<rparr>)),
     (3, 26, d_val (r_string W) (\<lambda>v m. m\<lparr>CreatePollRequest_question := v\<rparr>)),
     (4, 34, d_val (r_string W) (\<lambda>v m. m\<lparr>CreatePollRequest_options := CreatePollRequest_options m @ [v]\<rparr>))]"

definition CreatePollRequest_decode :: "('w, 'r) wire \<Rightarrow> ('r, CreatePollRequest) decoder" where
  "CreatePollRequest_decode W = d_message W (CreatePollRequest_cases W) createBaseCreatePollRequest"

lemmas CreatePollRequest_defs = CreatePollRequest_cases_def createBaseCreatePollRequest_def

context wire_lib
begin

lemma CreatePollRequest_codec:
  "codec W stk rem 0 (CreatePollRequest_encode W) (CreatePollRequest_cases W) createBaseCreatePollRequest m"
  by (rule codecI [OF CreatePollRequest_encode_def],
      rule field_string [where upd = CreatePollRequest_sessionId_update], simp add: CreatePollRequest_defs, simp add: CreatePollRequest_defs,
      rule field_string [where upd = CreatePollRequest_threadId_update], simp add: CreatePollRequest_defs, simp add: CreatePollRequest_defs,
      rule field_string [where upd = CreatePollRequest_question_update], simp add: CreatePollRequest_defs, simp add: CreatePollRequest_defs,
      rule field_push_string [where upd = CreatePollRequest_options_update and sel = CreatePollRequest_options], simp add: CreatePollRequest_defs, simp add: CreatePollRequest_defs, simp add: CreatePollRequest_defs,
      rule matched_Nil, cases m, simp add: CreatePollRequest_defs)

lemma CreatePollRequest_rt: "1 \<le> d \<Longrightarrow> codec_rt W stk rem d (CreatePollRequest_encode W) (CreatePollRequest_decode W) m"
  unfolding CreatePollRequest_decode_def
  by (rule codec_rt_mono [OF codec_rt_of_codec [OF CreatePollRequest_codec]]) simp_all

end

context wire_reader
begin

lemma CreatePollRequest_total [total_rules]: "dec_total W (CreatePollRequest_decode W)"
  unfolding CreatePollRequest_decode_def CreatePollRequest_cases_def by (intro total_rules)

end

subsection \<open>CreatePollResponse\<close>

datatype CreatePollResponse = CreatePollResponse

definition createBaseCreatePollResponse :: CreatePollResponse where
  "createBaseCreatePollResponse = CreatePollResponse"

definition CreatePollResponse_encode :: "('w, 'r) wire \<Rightarrow> CreatePollResponse \<Rightarrow> 'w writer" where
  "CreatePollResponse_encode W m = w_seq []"

definition CreatePollResponse_cases :: "('w, 'r) wire \<Rightarrow> ('r, CreatePollResponse) cases" where
  "CreatePollResponse_cases W = []"

definition CreatePollResponse_decode :: "('w, 'r) wire \<Rightarrow> ('r, CreatePollResponse) decoder" where
  "CreatePollResponse_decode W = d_message W (CreatePollResponse_cases W) createBaseCreatePollResponse"

lemmas CreatePollResponse_defs = CreatePollResponse_cases_def createBaseCreatePollResponse_def

context wire_lib
begin

lemma CreatePollResponse_codec:
  "codec W stk rem 0 (CreatePollResponse_encode W) (CreatePollResponse_cases W) createBaseCreatePollResponse m"
  by (rule codecI [OF CreatePollResponse_encode_def],
      rule matched_Nil, cases m, simp add: CreatePollResponse_defs)

lemma CreatePollResponse_rt: "1 \<le> d \<Longrightarrow> codec_rt W stk rem d (CreatePollResponse_encode W) (CreatePollResponse_decode W) m"
  unfolding CreatePollResponse_decode_def
  by (rule codec_rt_mono [OF codec_rt_of_codec [OF CreatePollResponse_codec]]) simp_all

end

context wire_reader
begin

lemma CreatePollResponse_total [total_rules]: "dec_total W (CreatePollResponse_decode W)"
  unfolding CreatePollResponse_decode_def CreatePollResponse_cases_def by (intro total_rules)

end

subsection \<open>VotePollRequest\<close>

record VotePollRequest =
  VotePollRequest_sessionId :: string
  VotePollRequest_threadId :: string
  VotePollRequest_pollId :: string
  VotePollRequest_optionIds :: "string list"

definition createBaseVotePollRequest :: VotePollRequest where
  "createBaseVotePollRequest = \<lparr>VotePollRequest_sessionId = '''',
     VotePollRequest_threadId = '''',
     VotePollRequest_pollId = '''',
     VotePollRequest_optionIds = []\<rparr>"

definition VotePollRequest_encode :: "('w, 'r) wire \<Rightarrow> VotePollRequest \<Rightarrow> 'w writer" where
  "VotePollRequest_encode W m = w_seq [
     w_if (VotePollRequest_sessionId m \<noteq> '''') [w_uint32 W 10, w_string W (VotePollRequest_sessionId m)],
     w_if (VotePollRequest_threadId m \<noteq> '''') [w_uint32 W 18, w_string W (VotePollRequest_threadId m)],
     w_if (VotePollRequest_pollId m \<noteq> '''') [w_uint32 W 26, w_string W (VotePollRequest_pollId m)],
     w_for (VotePollRequest_optionIds m) (\<lambda>v. [w_uint32 W 34, w_string W v])]"

definition VotePollRequest_cases :: "('w, 'r) wire \<Rightarrow> ('r, VotePollRequest) cases" where
  "VotePollRequest_cases W = [
     (1, 10, d_val (r_string W) (\<lambda>v m. m\<lparr>VotePollRequest_sessionId := v\<rparr>)),
     (2, 18, d_val (r_string W) (\<lambda>v m. m\<lparr>VotePollRequest_threadId := v\<rparr>)),
     (3, 26, d_val (r_string W) (\<lambda>v m. m\<lparr>VotePollRequest_pollId := v\<rparr>)),
     (4, 34, d_val (r_string W) (\<lambda>v m. m\<lparr>VotePollRequest_optionIds := VotePollRequest_optionIds m @ [v]\<rparr>))]"

definition VotePollRequest_decode :: "('w, 'r) wire \<Rightarrow> ('r, VotePollRequest) decoder" where
  "VotePollRequest_decode W = d_message W (VotePollRequest_cases W) createBaseVotePollRequest"

lemmas VotePollRequest_defs = VotePollRequest_cases_def createBaseVotePollRequest_def

context wire_lib
begin

lemma VotePollRequest_codec:
  "codec W stk rem 0 (VotePollRequest_encode W) (VotePollRequest_cases W) createBaseVotePollRequest m"
  by (rule codecI [OF VotePollRequest_encode_def],
      rule field_string [where upd = VotePollRequest_sessionId_update], simp add: VotePollRequest_defs, simp add: VotePollRequest_defs,
      rule field_string [where upd = VotePollRequest_threadId_update], simp add: VotePollRequest_defs, simp add: VotePollRequest_defs,
      rule field_string [where upd = VotePollRequest_pollId_update], simp add: VotePollRequest_defs, simp add: VotePollRequest_defs,
      rule field_push_string [where upd = VotePollRequest_optionIds_update and sel = VotePollRequest_optionIds], simp add: VotePollRequest_defs, simp add: VotePollRequest_defs, simp add: VotePollRequest_defs,
      rule matched_Nil, cases m, simp add: VotePollRequest_defs)

lemma VotePollRequest_rt: "1 \<le> d \<Longrightarrow> codec_rt W stk rem d (VotePollRequest_encode W) (VotePollRequest_decode W) m"
  unfolding VotePollRequest_decode_def
  by (rule codec_rt_mono [OF codec_rt_of_codec [OF VotePollRequest_codec]]) simp_all

end

context wire_reader
begin

lemma VotePollRequest_total [total_rules]: "dec_total W (VotePollRequest_decode W)"
  unfolding VotePollRequest_decode_def VotePollRequest_cases_def by (intro total_rules)

end

subsection \<open>VotePollResponse\<close>

datatype VotePollResponse = VotePollResponse

definition createBaseVotePollResponse :: VotePollResponse where
  "createBaseVotePollResponse = VotePollResponse"

definition VotePollResponse_encode :: "('w, 'r) wire \<Rightarrow> VotePollResponse \<Rightarrow> 'w writer" where
  "VotePollResponse_encode W m = w_seq []"

definition VotePollResponse_cases :: "('w, 'r) wire \<Rightarrow> ('r, VotePollResponse) cases" where
  "VotePollResponse_cases W = []"

definition VotePollResponse_decode :: "('w, 'r) wire \<Rightarrow> ('r, VotePollResponse) decoder" where
  "VotePollResponse_decode W = d_message W (VotePollResponse_cases W) createBaseVotePollResponse"

lemmas VotePollResponse_defs = VotePollResponse_cases_def createBaseVotePollResponse_def

context wire_lib
begin

lemma VotePollResponse_codec:
  "codec W stk rem 0 (VotePollResponse_encode W) (VotePollResponse_cases W) createBaseVotePollResponse m"
  by (rule codecI [OF VotePollResponse_encode_def],
      rule matched_Nil, cases m, simp add: VotePollResponse_defs)

lemma VotePollResponse_rt: "1 \<le> d \<Longrightarrow> codec_rt W stk rem d (VotePollResponse_encode W) (VotePollResponse_decode W) m"
  unfolding VotePollResponse_decode_def
  by (rule codec_rt_mono [OF codec_rt_of_codec [OF VotePollResponse_codec]]) simp_all

end

context wire_reader
begin

lemma VotePollResponse_total [total_rules]: "dec_total W (VotePollResponse_decode W)"
  unfolding VotePollResponse_decode_def VotePollResponse_cases_def by (intro total_rules)

end

subsection \<open>ListPinnedMessagesRequest\<close>

record ListPinnedMessagesRequest =
  ListPinnedMessagesRequest_sessionId :: string
  ListPinnedMessagesRequest_threadId :: string

definition createBaseListPinnedMessagesRequest :: ListPinnedMessagesRequest where
  "createBaseListPinnedMessagesRequest = \<lparr>ListPinnedMessagesRequest_sessionId = '''',
     ListPinnedMessagesRequest_threadId = ''''\<rparr>"

definition ListPinnedMessagesRequest_encode :: "('w, 'r) wire \<Rightarrow> ListPinnedMessagesRequest \<Rightarrow> 'w writer" where
  "ListPinnedMessagesRequest_encode W m = w_seq [
     w_if (ListPinnedMessagesRequest_sessionId m \<noteq> '''') [w_uint32 W 10, w_string W (ListPinnedMessagesRequest_sessionId m)],
     w_if (ListPinnedMessagesRequest_threadId m \<noteq> '''') [w_uint32 W 18, w_string W (ListPinnedMessagesRequest_threadId m)]]"

definition ListPinnedMessagesRequest_cases :: "('w, 'r) wire \<Rightarrow> ('r, ListPinnedMessagesRequest) cases" where
  "ListPinnedMessagesRequest_cases W = [
     (1, 10, d_val (r_string W) (\<lambda>v m. m\<lparr>ListPinnedMessagesRequest_sessionId := v\<rparr>)),
     (2, 18, d_val (r_string W) (\<lambda>v m. m\<lparr>ListPinnedMessagesRequest_threadId := v\<rparr>))]"

definition ListPinnedMessagesRequest_decode :: "('w, 'r) wire \<Rightarrow> ('r, ListPinnedMessagesRequest) decoder" where
  "ListPinnedMessagesRequest_decode W = d_message W (ListPinnedMessagesRequest_cases W) createBaseListPinnedMessagesRequest"

lemmas ListPinnedMessagesRequest_defs = ListPinnedMessagesRequest_cases_def createBaseListPinnedMessagesRequest_def

context wire_lib
begin

lemma ListPinnedMessagesRequest_codec:
  "codec W stk rem 0 (ListPinnedMessagesRequest_encode W) (ListPinnedMessagesRequest_cases W) createBaseListPinnedMessagesRequest m"
  by (rule codecI [OF ListPinnedMessagesRequest_encode_def],
      rule field_string [where upd = ListPinnedMessagesRequest_sessionId_update], simp add: ListPinnedMessagesRequest_defs, simp add: ListPinnedMessagesRequest_defs,
      rule field_string [where upd = ListPinnedMessagesRequest_threadId_update], simp add: ListPinnedMessagesRequest_defs, simp add: ListPinnedMessagesRequest_defs,
      rule matched_Nil, cases m, simp add: ListPinnedMessagesRequest_defs)

lemma ListPinnedMessagesRequest_rt: "1 \<le> d \<Longrightarrow> codec_rt W stk rem d (ListPinnedMessagesRequest_encode W) (ListPinnedMessagesRequest_decode W) m"
  unfolding ListPinnedMessagesRequest_decode_def
  by (rule codec_rt_mono [OF codec_rt_of_codec [OF ListPinnedMessagesRequest_codec]]) simp_all

end

context wire_reader
begin

lemma ListPinnedMessagesRequest_total [total_rules]: "dec_total W (ListPinnedMessagesRequest_decode W)"
  unfolding ListPinnedMessagesRequest_decode_def ListPinnedMessagesRequest_cases_def by (intro total_rules)

end

subsection \<open>ListPinnedMessagesResponse\<close>

record ListPinnedMessagesResponse =
  ListPinnedMessagesResponse_messages :: "PinnedMessage list"

definition createBaseListPinnedMessagesResponse :: ListPinnedMessagesResponse where
  "createBaseListPinnedMessagesResponse = \<lparr>ListPinnedMessagesResponse_messages = []\<rparr>"

definition ListPinnedMessagesResponse_encode :: "('w, 'r) wire \<Rightarrow> ListPinnedMessagesResponse \<Rightarrow> 'w writer" where
  "ListPinnedMessagesResponse_encode W m = w_seq [
     w_for (ListPinnedMessagesResponse_messages m) (\<lambda>v. [w_uint32 W 10, w_open W, PinnedMessage_encode W v, w_join W])]"

definition ListPinnedMessagesResponse_cases :: "('w, 'r) wire \<Rightarrow> ('r, ListPinnedMessagesResponse) cases" where
  "ListPinnedMessagesResponse_cases W = [
     (1, 10, d_msg W (PinnedMessage_decode W) (\<lambda>v m. m\<lparr>ListPinnedMessagesResponse_messages := ListPinnedMessagesResponse_messages m @ [v]\<rparr>))]"

definition ListPinnedMessagesResponse_decode :: "('w, 'r) wire \<Rightarrow> ('r, ListPinnedMessagesResponse) decoder" where
  "ListPinnedMessagesResponse_decode W = d_message W (ListPinnedMessagesResponse_cases W) createBaseListPinnedMessagesResponse"

definition ListPinnedMessagesResponse_ok :: "ListPinnedMessagesResponse \<Rightarrow> bool" where
  "ListPinnedMessagesResponse_ok m \<longleftrightarrow> list_all PinnedMessage_ok (ListPinnedMessagesResponse_messages m)"

lemmas ListPinnedMessagesResponse_defs = ListPinnedMessagesResponse_cases_def createBaseListPinnedMessagesResponse_def

context wire_lib
begin

lemma ListPinnedMessagesResponse_codec:
  assumes ok: "ListPinnedMessagesResponse_ok m"
  shows "codec W stk rem 2 (ListPinnedMessagesResponse_encode W) (ListPinnedMessagesResponse_cases W) createBaseListPinnedMessagesResponse m"
  by (rule codecI [OF ListPinnedMessagesResponse_encode_def],
      rule field_push_msg [where upd = ListPinnedMessagesResponse_messages_update and sel = ListPinnedMessagesResponse_messages], rule PinnedMessage_rt, simp, (use ok in \<open>fastforce simp: ListPinnedMessagesResponse_ok_def list_all_iff\<close>), simp add: ListPinnedMessagesResponse_defs, simp add: ListPinnedMessagesResponse_defs, simp add: ListPinnedMessagesResponse_defs,
      rule matched_Nil, cases m, simp add: ListPinnedMessagesResponse_defs)

lemma ListPinnedMessagesResponse_rt: "3 \<le> d \<Longrightarrow> ListPinnedMessagesResponse_ok m \<Longrightarrow> codec_rt W stk rem d (ListPinnedMessagesResponse_encode W) (ListPinnedMessagesResponse_decode W) m"
  unfolding ListPinnedMessagesResponse_decode_def
  by (rule codec_rt_mono [OF codec_rt_of_codec [OF ListPinnedMessagesResponse_codec]]) simp_all

end

context wire_reader
begin

lemma ListPinnedMessagesResponse_total [total_rules]: "dec_total W (ListPinnedMessagesResponse_decode W)"
  unfolding ListPinnedMessagesResponse_decode_def ListPinnedMessagesResponse_cases_def by (intro total_rules)

end

subsection \<open>GetPollDetailsRequest\<close>

record GetPollDetailsRequest =
  GetPollDetailsRequest_sessionId :: string
  GetPollDetailsRequest_pollId :: string

definition createBaseGetPollDetailsRequest :: GetPollDetailsRequest where
  "createBaseGetPollDetailsRequest = \<lparr>GetPollDetailsRequest_sessionId = '''',
     GetPollDetailsRequest_pollId = ''''\<rparr>"

definition GetPollDetailsRequest_encode :: "('w, 'r) wire \<Rightarrow> GetPollDetailsRequest \<Rightarrow> 'w writer" where
  "GetPollDetailsRequest_encode W m = w_seq [
     w_if (GetPollDetailsRequest_sessionId m \<noteq> '''') [w_uint32 W 10, w_string W (GetPollDetailsRequest_sessionId m)],
     w_if (GetPollDetailsRequest_pollId m \<noteq> '''') [w_uint32 W 18, w_string W (GetPollDetailsRequest_pollId m)]]"

definition GetPollDetailsRequest_cases :: "('w, 'r) wire \<Rightarrow> ('r, GetPollDetailsRequest) cases" where
  "GetPollDetailsRequest_cases W = [
     (1, 10, d_val (r_string W) (\<lambda>v m. m\<lparr>GetPollDetailsRequest_sessionId := v\<rparr>)),
     (2, 18, d_val (r_string W) (\<lambda>v m. m\<lparr>GetPollDetailsRequest_pollId := v\<rparr>))]"

definition GetPollDetailsRequest_decode :: "('w, 'r) wire \<Rightarrow> ('r, GetPollDetailsRequest) decoder" where
  "GetPollDetailsRequest_decode W = d_message W (GetPollDetailsRequest_cases W) createBaseGetPollDetailsRequest"

lemmas GetPollDetailsRequest_defs = GetPollDetailsRequest_cases_def createBaseGetPollDetailsRequest_def

context wire_lib
begin

lemma GetPollDetailsRequest_codec:
  "codec W stk rem 0 (GetPollDetailsRequest_encode W) (GetPollDetailsRequest_cases W) createBaseGetPollDetailsRequest m"
  by (rule codecI [OF GetPollDetailsRequest_encode_def],
      rule field_string [where upd = GetPollDetailsRequest_sessionId_update], simp add: GetPollDetailsRequest_defs, simp add: GetPollDetailsRequest_defs,
      rule field_string [where upd = GetPollDetailsRequest_pollId_update], simp add: GetPollDetailsRequest_defs, simp add: GetPollDetailsRequest_defs,
      rule matched_Nil, cases m, simp add: GetPollDetailsRequest_defs)

lemma GetPollDetailsRequest_rt: "1 \<le> d \<Longrightarrow> codec_rt W stk rem d (GetPollDetailsRequest_encode W) (GetPollDetailsRequest_decode W) m"
  unfolding GetPollDetailsRequest_decode_def
  by (rule codec_rt_mono [OF codec_rt_of_codec [OF GetPollDetailsRequest_codec]]) simp_all

end

context wire_reader
begin

lemma GetPollDetailsRequest_total [total_rules]: "dec_total W (GetPollDetailsRequest_decode W)"
  unfolding GetPollDetailsRequest_decode_def GetPollDetailsRequest_cases_def by (intro total_rules)

end

subsection \<open>GetPollDetailsResponse\<close>

record GetPollDetailsResponse =
  GetPollDetailsResponse_poll :: "PollDetails option"

definition createBaseGetPollDetailsResponse :: GetPollDetailsResponse where
  "createBaseGetPollDetailsResponse = \<lparr>GetPollDetailsResponse_poll = None\<rparr>"

definition GetPollDetailsResponse_encode :: "('w, 'r) wire \<Rightarrow> GetPollDetailsResponse \<Rightarrow> 'w writer" where
  "GetPollDetailsResponse_encode W m = w_seq [
     w_some (GetPollDetailsResponse_poll m) (\<lambda>v. [w_uint32 W 10, w_open W, PollDetails_encode W v, w_join W])]"

definition GetPollDetailsResponse_cases :: "('w, 'r) wire \<Rightarrow> ('r, GetPollDetailsResponse) cases" where
  "GetPollDetailsResponse_cases W = [
     (1, 10, d_msg W (PollDetails_decode W) (\<lambda>v m. m\<lparr>GetPollDetailsResponse_poll := Some v\<rparr>))]"

definition GetPollDetailsResponse_decode :: "('w, 'r) wire \<Rightarrow> ('r, GetPollDetailsResponse) decoder" where
  "GetPollDetailsResponse_decode W = d_message W (GetPollDetailsResponse_cases W) createBaseGetPollDetailsResponse"

definition GetPollDetailsResponse_ok :: "GetPollDetailsResponse \<Rightarrow> bool" where
  "GetPollDetailsResponse_ok m \<longleftrightarrow> pred_option PollDetails_ok (GetPollDetailsResponse_poll m)"

lemmas GetPollDetailsResponse_defs = GetPollDetailsResponse_cases_def createBaseGetPollDetailsResponse_def

context wire_lib
begin

lemma GetPollDetailsResponse_codec:
  assumes ok: "GetPollDetailsResponse_ok m"
  shows "codec W stk rem 3 (GetPollDetailsResponse_encode W) (GetPollDetailsResponse_cases W) createBaseGetPollDetailsResponse m"
  by (rule codecI [OF GetPollDetailsResponse_encode_def],
      rule field_msg [where upd = GetPollDetailsResponse_poll_update], rule PollDetails_rt, simp, (use ok in \<open>fastforce simp: GetPollDetailsResponse_ok_def list_all_iff\<close>), simp add: GetPollDetailsResponse_defs, simp add: GetPollDetailsResponse_defs,
      rule matched_Nil, cases m, simp add: GetPollDetailsResponse_defs)

lemma GetPollDetailsResponse_rt: "4 \<le> d \<Longrightarrow> GetPollDetailsResponse_ok m \<Longrightarrow> codec_rt W stk rem d (GetPollDetailsResponse_encode W) (GetPollDetailsResponse_decode W) m"
  unfolding GetPollDetailsResponse_decode_def
  by (rule codec_rt_mono [OF codec_rt_of_codec [OF GetPollDetailsResponse_codec]]) simp_all

end

context wire_reader
begin

lemma GetPollDetailsResponse_total [total_rules]: "dec_total W (GetPollDetailsResponse_decode W)"
  unfolding GetPollDetailsResponse_decode_def GetPollDetailsResponse_cases_def by (intro total_rules)

end

subsection \<open>SearchMessagesRequest\<close>

record SearchMessagesRequest =
  SearchMessagesRequest_sessionId :: string
  SearchMessagesRequest_threadId :: string
  SearchMessagesRequest_query :: string
  SearchMessagesRequest_cursor :: "string option"

definition createBaseSearchMessagesRequest :: SearchMessagesRequest where
  "createBaseSearchMessagesRequest = \<lparr>SearchMessagesRequest_sessionId = '''',
     SearchMessagesRequest_threadId = '''',
     SearchMessagesRequest_query = '''',
     SearchMessagesRequest_cursor = None\<rparr>"

definition SearchMessagesRequest_encode :: "('w, 'r) wire \<Rightarrow> SearchMessagesRequest \<Rightarrow> 'w writer" where
  "SearchMessagesRequest_encode W m = w_seq [
     w_if (SearchMessagesRequest_sessionId m \<noteq> '''') [w_uint32 W 10, w_string W (SearchMessagesRequest_sessionId m)],
     w_if (SearchMessagesRequest_threadId m \<noteq> '''') [w_uint32 W 18, w_string W (SearchMessagesRequest_threadId m)],
     w_if (SearchMessagesRequest_query m \<noteq> '''') [w_uint32 W 26, w_string W (SearchMessagesRequest_query m)],
     w_some (SearchMessagesRequest_cursor m) (\<lambda>v. [w_uint32 W 34, w_string W v])]"

definition SearchMessagesRequest_cases :: "('w, 'r) wire \<Rightarrow> ('r, SearchMessagesRequest) cases" where
  "SearchMessagesRequest_cases W = [
     (1, 10, d_val (r_string W) (\<lambda>v m. m\<lparr>SearchMessagesRequest_sessionId := v\<rparr>)),
     (2, 18, d_val (r_string W) (\<lambda>v m. m\<lparr>SearchMessagesRequest_threadId := v\<rparr>)),
     (3, 26, d_val (r_string W) (\<lambda>v m. m\<lparr>SearchMessagesRequest_query := v\<rparr>)),
     (4, 34, d_val (r_string W) (\<lambda>v m. m\<lparr>SearchMessagesRequest_cursor := Some v\<rparr>))]"

definition SearchMessagesRequest_decode :: "('w, 'r) wire \<Rightarrow> ('r, SearchMessagesRequest) decoder" where
  "SearchMessagesRequest_decode W = d_message W (SearchMessagesRequest_cases W) createBaseSearchMessagesRequest"

lemmas SearchMessagesRequest_defs = SearchMessagesRequest_cases_def createBaseSearchMessagesRequest_def

context wire_lib
begin

lemma SearchMessagesRequest_codec:
  "codec W stk rem 0 (SearchMessagesRequest_encode W) (SearchMessagesRequest_cases W) createBaseSearchMessagesRequest m"
  by (rule codecI [OF SearchMessagesRequest_encode_def],
      rule field_string [where upd = SearchMessagesRequest_sessionId_update], simp add: SearchMessagesRequest_defs, simp add: SearchMessagesRequest_defs,
      rule field_string [where upd = SearchMessagesRequest_threadId_update], simp add: SearchMessagesRequest_defs, simp add: SearchMessagesRequest_defs,
      rule field_string [where upd = SearchMessagesRequest_query_update], simp add: SearchMessagesRequest_defs, simp add: SearchMessagesRequest_defs,
      rule field_opt_string [where upd = SearchMessagesRequest_cursor_update], simp add: SearchMessagesRequest_defs, simp add: SearchMessagesRequest_defs,
      rule matched_Nil, cases m, simp add: SearchMessagesRequest_defs)

lemma SearchMessagesRequest_rt: "1 \<le> d \<Longrightarrow> codec_rt W stk rem d (SearchMessagesRequest_encode W) (SearchMessagesRequest_decode W) m"
  unfolding SearchMessagesRequest_decode_def
  by (rule codec_rt_mono [OF codec_rt_of_codec [OF SearchMessagesRequest_codec]]) simp_all

end

context wire_reader
begin

lemma SearchMessagesRequest_total [total_rules]: "dec_total W (SearchMessagesRequest_decode W)"
  unfolding SearchMessagesRequest_decode_def SearchMessagesRequest_cases_def by (intro total_rules)

end

subsection \<open>SearchMessagesResponse\<close>

record SearchMessagesResponse =
  SearchMessagesResponse_results :: "MessageSearchResult list"
  SearchMessagesResponse_resultCount :: int
  SearchMessagesResponse_hasNextPage :: bool
  SearchMessagesResponse_nextCursor :: "string option"

definition createBaseSearchMessagesResponse :: SearchMessagesResponse where
  "createBaseSearchMessagesResponse = \<lparr>SearchMessagesResponse_results = [],
     SearchMessagesResponse_resultCount = 0,
     SearchMessagesResponse_hasNextPage = False,
     SearchMessagesResponse_nextCursor = None\<rparr>"

definition SearchMessagesResponse_encode :: "('w, 'r) wire \<Rightarrow> SearchMessagesResponse \<Rightarrow> 'w writer" where
  "SearchMessagesResponse_encode W m = w_seq [
     w_for (SearchMessagesResponse_results m) (\<lambda>v. [w_uint32 W 10, w_open W, MessageSearchResult_encode W v, w_join W]),
     w_if (SearchMessagesResponse_resultCount m \<noteq> 0) [w_check (asIntN64 (SearchMessagesResponse_resultCount m) = SearchMessagesResponse_resultCount m) (too_large ''message.resultCount'' ''int64''),
         w_uint32 W 16, w_int64 W (SearchMessagesResponse_resultCount m)],
     w_if (SearchMessagesResponse_hasNextPage m \<noteq> False) [w_uint32 W 24, w_bool W (SearchMessagesResponse_hasNextPage m)],
     w_some (SearchMessagesResponse_nextCursor m) (\<lambda>v. [w_uint32 W 34, w_string W v])]"

definition SearchMessagesResponse_cases :: "('w, 'r) wire \<Rightarrow> ('r, SearchMessagesResponse) cases" where
  "SearchMessagesResponse_cases W = [
     (1, 10, d_msg W (MessageSearchResult_decode W) (\<lambda>v m. m\<lparr>SearchMessagesResponse_results := SearchMessagesResponse_results m @ [v]\<rparr>)),
     (2, 16, d_val (r_int64 W) (\<lambda>v m. m\<lparr>SearchMessagesResponse_resultCount := v\<rparr>)),
     (3, 24, d_val (r_bool W) (\<lambda>v m. m\<lparr>SearchMessagesResponse_hasNextPage := v\<rparr>)),
     (4, 34, d_val (r_string W) (\<lambda>v m. m\<lparr>SearchMessagesResponse_nextCursor := Some v\<rparr>))]"

definition SearchMessagesResponse_decode :: "('w, 'r) wire \<Rightarrow> ('r, SearchMessagesResponse) decoder" where
  "SearchMessagesResponse_decode W = d_message W (SearchMessagesResponse_cases W) createBaseSearchMessagesResponse"

definition SearchMessagesResponse_ok :: "SearchMessagesResponse \<Rightarrow> bool" where
  "SearchMessagesResponse_ok m \<longleftrightarrow> list_all MessageSearchResult_ok (SearchMessagesResponse_results m)"

lemmas SearchMessagesResponse_defs = SearchMessagesResponse_cases_def createBaseSearchMessagesResponse_def

context wire_lib
begin

lemma SearchMessagesResponse_codec:
  assumes ok: "SearchMessagesResponse_ok m"
  shows "codec W stk rem 2 (SearchMessagesResponse_encode W) (SearchMessagesResponse_cases W) createBaseSearchMessagesResponse m"
  by (rule codecI [OF SearchMessagesResponse_encode_def],
      rule field_push_msg [where upd = SearchMessagesResponse_results_update and sel = SearchMessagesResponse_results], rule MessageSearchResult_rt, simp, (use ok in \<open>fastforce simp: SearchMessagesResponse_ok_def list_all_iff\<close>), simp add: SearchMessagesResponse_defs, simp add: SearchMessagesResponse_defs, simp add: SearchMessagesResponse_defs,
      rule field_int64 [where upd = SearchMessagesResponse_resultCount_update], simp add: SearchMessagesResponse_defs, simp add: SearchMessagesResponse_defs,
      rule field_bool [where upd = SearchMessagesResponse_hasNextPage_update], simp add: SearchMessagesResponse_defs, simp add: SearchMessagesResponse_defs,
      rule field_opt_string [where upd = SearchMessagesResponse_nextCursor_update], simp add: SearchMessagesResponse_defs, simp add: SearchMessagesResponse_defs,
      rule matched_Nil, cases m, simp add: SearchMessagesResponse_defs)

lemma SearchMessagesResponse_rt: "3 \<le> d \<Longrightarrow> SearchMessagesResponse_ok m \<Longrightarrow> codec_rt W stk rem d (SearchMessagesResponse_encode W) (SearchMessagesResponse_decode W) m"
  unfolding SearchMessagesResponse_decode_def
  by (rule codec_rt_mono [OF codec_rt_of_codec [OF SearchMessagesResponse_codec]]) simp_all

end

context wire_reader
begin

lemma SearchMessagesResponse_total [total_rules]: "dec_total W (SearchMessagesResponse_decode W)"
  unfolding SearchMessagesResponse_decode_def SearchMessagesResponse_cases_def by (intro total_rules)

end

subsection \<open>MuteThreadRequest\<close>

record MuteThreadRequest =
  MuteThreadRequest_sessionId :: string
  MuteThreadRequest_threadId :: string
  MuteThreadRequest_duration :: "Duration option"
  MuteThreadRequest_indefinitely :: bool

definition createBaseMuteThreadRequest :: MuteThreadRequest where
  "createBaseMuteThreadRequest = \<lparr>MuteThreadRequest_sessionId = '''',
     MuteThreadRequest_threadId = '''',
     MuteThreadRequest_duration = None,
     MuteThreadRequest_indefinitely = False\<rparr>"

definition MuteThreadRequest_encode :: "('w, 'r) wire \<Rightarrow> MuteThreadRequest \<Rightarrow> 'w writer" where
  "MuteThreadRequest_encode W m = w_seq [
     w_if (MuteThreadRequest_sessionId m \<noteq> '''') [w_uint32 W 10, w_string W (MuteThreadRequest_sessionId m)],
     w_if (MuteThreadRequest_threadId m \<noteq> '''') [w_uint32 W 18, w_string W (MuteThreadRequest_threadId m)],
     w_some (MuteThreadRequest_duration m) (\<lambda>v. [w_uint32 W 26, w_open W, Duration_encode W v, w_join W]),
     w_if (MuteThreadRequest_indefinitely m \<noteq> False) [w_uint32 W 32, w_bool W (MuteThreadRequest_indefinitely m)]]"

definition MuteThreadRequest_cases :: "('w, 'r) wire \<Rightarrow> ('r, MuteThreadRequest) cases" where
  "MuteThreadRequest_cases W = [
     (1, 10, d_val (r_string W) (\<lambda>v m. m\<lparr>MuteThreadRequest_sessionId := v\<rparr>)),
     (2, 18, d_val (r_string W) (\<lambda>v m. m\<lparr>MuteThreadRequest_threadId := v\<rparr>)),
     (3, 26, d_msg W (Duration_decode W) (\<lambda>v m. m\<lparr>MuteThreadRequest_duration := Some v\<rparr>)),
     (4, 32, d_val (r_bool W) (\<lambda>v m. m\<lparr>MuteThreadRequest_indefinitely := v\<rparr>))]"

definition MuteThreadRequest_decode :: "('w, 'r) wire \<Rightarrow> ('r, MuteThreadRequest) decoder" where
  "MuteThreadRequest_decode W = d_message W (MuteThreadRequest_cases W) createBaseMuteThreadRequest"

lemmas MuteThreadRequest_defs = MuteThreadRequest_cases_def createBaseMuteThreadRequest_def

context wire_lib
begin

lemma MuteThreadRequest_codec:
  "codec W stk rem 1 (MuteThreadRequest_encode W) (MuteThreadRequest_cases W) createBaseMuteThreadRequest m"
  by (rule codecI [OF MuteThreadRequest_encode_def],
      rule field_string [where upd = MuteThreadRequest_sessionId_update], simp add: MuteThreadRequest_defs, simp add: MuteThreadRequest_defs,
      rule field_string [where upd = MuteThreadRequest_threadId_update], simp add: MuteThreadRequest_defs, simp add: MuteThreadRequest_defs,
      rule field_msg [where upd = MuteThreadRequest_duration_update], rule Duration_rt, simp, simp add: MuteThreadRequest_defs, simp add: MuteThreadRequest_defs,
      rule field_bool [where upd = MuteThreadRequest_indefinitely_update], simp add: MuteThreadRequest_defs, simp add: MuteThreadRequest_defs,
      rule matched_Nil, cases m, simp add: MuteThreadRequest_defs)

lemma MuteThreadRequest_rt: "2 \<le> d \<Longrightarrow> codec_rt W stk rem d (MuteThreadRequest_encode W) (MuteThreadRequest_decode W) m"
  unfolding MuteThreadRequest_decode_def
  by (rule codec_rt_mono [OF codec_rt_of_codec [OF MuteThreadRequest_codec]]) simp_all

end

context wire_reader
begin

lemma MuteThreadRequest_total [total_rules]: "dec_total W (MuteThreadRequest_decode W)"
  unfolding MuteThreadRequest_decode_def MuteThreadRequest_cases_def by (intro total_rules)

end

subsection \<open>MuteThreadResponse\<close>

datatype MuteThreadResponse = MuteThreadResponse

definition createBaseMuteThreadResponse :: MuteThreadResponse where
  "createBaseMuteThreadResponse = MuteThreadResponse"

definition MuteThreadResponse_encode :: "('w, 'r) wire \<Rightarrow> MuteThreadResponse \<Rightarrow> 'w writer" where
  "MuteThreadResponse_encode W m = w_seq []"

definition MuteThreadResponse_cases :: "('w, 'r) wire \<Rightarrow> ('r, MuteThreadResponse) cases" where
  "MuteThreadResponse_cases W = []"

definition MuteThreadResponse_decode :: "('w, 'r) wire \<Rightarrow> ('r, MuteThreadResponse) decoder" where
  "MuteThreadResponse_decode W = d_message W (MuteThreadResponse_cases W) createBaseMuteThreadResponse"

lemmas MuteThreadResponse_defs = MuteThreadResponse_cases_def createBaseMuteThreadResponse_def

context wire_lib
begin

lemma MuteThreadResponse_codec:
  "codec W stk rem 0 (MuteThreadResponse_encode W) (MuteThreadResponse_cases W) createBaseMuteThreadResponse m"
  by (rule codecI [OF MuteThreadResponse_encode_def],
      rule matched_Nil, cases m, simp add: MuteThreadResponse_defs)

lemma MuteThreadResponse_rt: "1 \<le> d \<Longrightarrow> codec_rt W stk rem d (MuteThreadResponse_encode W) (MuteThreadResponse_decode W) m"
  unfolding MuteThreadResponse_decode_def
  by (rule codec_rt_mono [OF codec_rt_of_codec [OF MuteThreadResponse_codec]]) simp_all

end

context wire_reader
begin

lemma MuteThreadResponse_total [total_rules]: "dec_total W (MuteThreadResponse_decode W)"
  unfolding MuteThreadResponse_decode_def MuteThreadResponse_cases_def by (intro total_rules)

end

subsection \<open>MuteThreadCallsRequest\<close>

record MuteThreadCallsRequest =
  MuteThreadCallsRequest_sessionId :: string
  MuteThreadCallsRequest_threadId :: string
  MuteThreadCallsRequest_duration :: "Duration option"
  MuteThreadCallsRequest_indefinitely :: bool

definition createBaseMuteThreadCallsRequest :: MuteThreadCallsRequest where
  "createBaseMuteThreadCallsRequest = \<lparr>MuteThreadCallsRequest_sessionId = '''',
     MuteThreadCallsRequest_threadId = '''',
     MuteThreadCallsRequest_duration = None,
     MuteThreadCallsRequest_indefinitely = False\<rparr>"

definition MuteThreadCallsRequest_encode :: "('w, 'r) wire \<Rightarrow> MuteThreadCallsRequest \<Rightarrow> 'w writer" where
  "MuteThreadCallsRequest_encode W m = w_seq [
     w_if (MuteThreadCallsRequest_sessionId m \<noteq> '''') [w_uint32 W 10, w_string W (MuteThreadCallsRequest_sessionId m)],
     w_if (MuteThreadCallsRequest_threadId m \<noteq> '''') [w_uint32 W 18, w_string W (MuteThreadCallsRequest_threadId m)],
     w_some (MuteThreadCallsRequest_duration m) (\<lambda>v. [w_uint32 W 26, w_open W, Duration_encode W v, w_join W]),
     w_if (MuteThreadCallsRequest_indefinitely m \<noteq> False) [w_uint32 W 32, w_bool W (MuteThreadCallsRequest_indefinitely m)]]"

definition MuteThreadCallsRequest_cases :: "('w, 'r) wire \<Rightarrow> ('r, MuteThreadCallsRequest) cases" where
  "MuteThreadCallsRequest_cases W = [
     (1, 10, d_val (r_string W) (\<lambda>v m. m\<lparr>MuteThreadCallsRequest_sessionId := v\<rparr>)),
     (2, 18, d_val (r_string W) (\<lambda>v m. m\<lparr>MuteThreadCallsRequest_threadId := v\<rparr>)),
     (3, 26, d_msg W (Duration_decode W) (\<lambda>v m. m\<lparr>MuteThreadCallsRequest_duration := Some v\<rparr>)),
     (4, 32, d_val (r_bool W) (\<lambda>v m. m\<lparr>MuteThreadCallsRequest_indefinitely := v\<rparr>))]"

definition MuteThreadCallsRequest_decode :: "('w, 'r) wire \<Rightarrow> ('r, MuteThreadCallsRequest) decoder" where
  "MuteThreadCallsRequest_decode W = d_message W (MuteThreadCallsRequest_cases W) createBaseMuteThreadCallsRequest"

lemmas MuteThreadCallsRequest_defs = MuteThreadCallsRequest_cases_def createBaseMuteThreadCallsRequest_def

context wire_lib
begin

lemma MuteThreadCallsRequest_codec:
  "codec W stk rem 1 (MuteThreadCallsRequest_encode W) (MuteThreadCallsRequest_cases W) createBaseMuteThreadCallsRequest m"
  by (rule codecI [OF MuteThreadCallsRequest_encode_def],
      rule field_string [where upd = MuteThreadCallsRequest_sessionId_update], simp add: MuteThreadCallsRequest_defs, simp add: MuteThreadCallsRequest_defs,
      rule field_string [where upd = MuteThreadCallsRequest_threadId_update], simp add: MuteThreadCallsRequest_defs, simp add: MuteThreadCallsRequest_defs,
      rule field_msg [where upd = MuteThreadCallsRequest_duration_update], rule Duration_rt, simp, simp add: MuteThreadCallsRequest_defs, simp add: MuteThreadCallsRequest_defs,
      rule field_bool [where upd = MuteThreadCallsRequest_indefinitely_update], simp add: MuteThreadCallsRequest_defs, simp add: MuteThreadCallsRequest_defs,
      rule matched_Nil, cases m, simp add: MuteThreadCallsRequest_defs)

lemma MuteThreadCallsRequest_rt: "2 \<le> d \<Longrightarrow> codec_rt W stk rem d (MuteThreadCallsRequest_encode W) (MuteThreadCallsRequest_decode W) m"
  unfolding MuteThreadCallsRequest_decode_def
  by (rule codec_rt_mono [OF codec_rt_of_codec [OF MuteThreadCallsRequest_codec]]) simp_all

end

context wire_reader
begin

lemma MuteThreadCallsRequest_total [total_rules]: "dec_total W (MuteThreadCallsRequest_decode W)"
  unfolding MuteThreadCallsRequest_decode_def MuteThreadCallsRequest_cases_def by (intro total_rules)

end

subsection \<open>MuteThreadCallsResponse\<close>

datatype MuteThreadCallsResponse = MuteThreadCallsResponse

definition createBaseMuteThreadCallsResponse :: MuteThreadCallsResponse where
  "createBaseMuteThreadCallsResponse = MuteThreadCallsResponse"

definition MuteThreadCallsResponse_encode :: "('w, 'r) wire \<Rightarrow> MuteThreadCallsResponse \<Rightarrow> 'w writer" where
  "MuteThreadCallsResponse_encode W m = w_seq []"

definition MuteThreadCallsResponse_cases :: "('w, 'r) wire \<Rightarrow> ('r, MuteThreadCallsResponse) cases" where
  "MuteThreadCallsResponse_cases W = []"

definition MuteThreadCallsResponse_decode :: "('w, 'r) wire \<Rightarrow> ('r, MuteThreadCallsResponse) decoder" where
  "MuteThreadCallsResponse_decode W = d_message W (MuteThreadCallsResponse_cases W) createBaseMuteThreadCallsResponse"

lemmas MuteThreadCallsResponse_defs = MuteThreadCallsResponse_cases_def createBaseMuteThreadCallsResponse_def

context wire_lib
begin

lemma MuteThreadCallsResponse_codec:
  "codec W stk rem 0 (MuteThreadCallsResponse_encode W) (MuteThreadCallsResponse_cases W) createBaseMuteThreadCallsResponse m"
  by (rule codecI [OF MuteThreadCallsResponse_encode_def],
      rule matched_Nil, cases m, simp add: MuteThreadCallsResponse_defs)

lemma MuteThreadCallsResponse_rt: "1 \<le> d \<Longrightarrow> codec_rt W stk rem d (MuteThreadCallsResponse_encode W) (MuteThreadCallsResponse_decode W) m"
  unfolding MuteThreadCallsResponse_decode_def
  by (rule codec_rt_mono [OF codec_rt_of_codec [OF MuteThreadCallsResponse_codec]]) simp_all

end

context wire_reader
begin

lemma MuteThreadCallsResponse_total [total_rules]: "dec_total W (MuteThreadCallsResponse_decode W)"
  unfolding MuteThreadCallsResponse_decode_def MuteThreadCallsResponse_cases_def by (intro total_rules)

end

subsection \<open>SetApprovalModeRequest\<close>

record SetApprovalModeRequest =
  SetApprovalModeRequest_sessionId :: string
  SetApprovalModeRequest_threadId :: string
  SetApprovalModeRequest_enabled :: bool

definition createBaseSetApprovalModeRequest :: SetApprovalModeRequest where
  "createBaseSetApprovalModeRequest = \<lparr>SetApprovalModeRequest_sessionId = '''',
     SetApprovalModeRequest_threadId = '''',
     SetApprovalModeRequest_enabled = False\<rparr>"

definition SetApprovalModeRequest_encode :: "('w, 'r) wire \<Rightarrow> SetApprovalModeRequest \<Rightarrow> 'w writer" where
  "SetApprovalModeRequest_encode W m = w_seq [
     w_if (SetApprovalModeRequest_sessionId m \<noteq> '''') [w_uint32 W 10, w_string W (SetApprovalModeRequest_sessionId m)],
     w_if (SetApprovalModeRequest_threadId m \<noteq> '''') [w_uint32 W 18, w_string W (SetApprovalModeRequest_threadId m)],
     w_if (SetApprovalModeRequest_enabled m \<noteq> False) [w_uint32 W 24, w_bool W (SetApprovalModeRequest_enabled m)]]"

definition SetApprovalModeRequest_cases :: "('w, 'r) wire \<Rightarrow> ('r, SetApprovalModeRequest) cases" where
  "SetApprovalModeRequest_cases W = [
     (1, 10, d_val (r_string W) (\<lambda>v m. m\<lparr>SetApprovalModeRequest_sessionId := v\<rparr>)),
     (2, 18, d_val (r_string W) (\<lambda>v m. m\<lparr>SetApprovalModeRequest_threadId := v\<rparr>)),
     (3, 24, d_val (r_bool W) (\<lambda>v m. m\<lparr>SetApprovalModeRequest_enabled := v\<rparr>))]"

definition SetApprovalModeRequest_decode :: "('w, 'r) wire \<Rightarrow> ('r, SetApprovalModeRequest) decoder" where
  "SetApprovalModeRequest_decode W = d_message W (SetApprovalModeRequest_cases W) createBaseSetApprovalModeRequest"

lemmas SetApprovalModeRequest_defs = SetApprovalModeRequest_cases_def createBaseSetApprovalModeRequest_def

context wire_lib
begin

lemma SetApprovalModeRequest_codec:
  "codec W stk rem 0 (SetApprovalModeRequest_encode W) (SetApprovalModeRequest_cases W) createBaseSetApprovalModeRequest m"
  by (rule codecI [OF SetApprovalModeRequest_encode_def],
      rule field_string [where upd = SetApprovalModeRequest_sessionId_update], simp add: SetApprovalModeRequest_defs, simp add: SetApprovalModeRequest_defs,
      rule field_string [where upd = SetApprovalModeRequest_threadId_update], simp add: SetApprovalModeRequest_defs, simp add: SetApprovalModeRequest_defs,
      rule field_bool [where upd = SetApprovalModeRequest_enabled_update], simp add: SetApprovalModeRequest_defs, simp add: SetApprovalModeRequest_defs,
      rule matched_Nil, cases m, simp add: SetApprovalModeRequest_defs)

lemma SetApprovalModeRequest_rt: "1 \<le> d \<Longrightarrow> codec_rt W stk rem d (SetApprovalModeRequest_encode W) (SetApprovalModeRequest_decode W) m"
  unfolding SetApprovalModeRequest_decode_def
  by (rule codec_rt_mono [OF codec_rt_of_codec [OF SetApprovalModeRequest_codec]]) simp_all

end

context wire_reader
begin

lemma SetApprovalModeRequest_total [total_rules]: "dec_total W (SetApprovalModeRequest_decode W)"
  unfolding SetApprovalModeRequest_decode_def SetApprovalModeRequest_cases_def by (intro total_rules)

end

subsection \<open>SetApprovalModeResponse\<close>

datatype SetApprovalModeResponse = SetApprovalModeResponse

definition createBaseSetApprovalModeResponse :: SetApprovalModeResponse where
  "createBaseSetApprovalModeResponse = SetApprovalModeResponse"

definition SetApprovalModeResponse_encode :: "('w, 'r) wire \<Rightarrow> SetApprovalModeResponse \<Rightarrow> 'w writer" where
  "SetApprovalModeResponse_encode W m = w_seq []"

definition SetApprovalModeResponse_cases :: "('w, 'r) wire \<Rightarrow> ('r, SetApprovalModeResponse) cases" where
  "SetApprovalModeResponse_cases W = []"

definition SetApprovalModeResponse_decode :: "('w, 'r) wire \<Rightarrow> ('r, SetApprovalModeResponse) decoder" where
  "SetApprovalModeResponse_decode W = d_message W (SetApprovalModeResponse_cases W) createBaseSetApprovalModeResponse"

lemmas SetApprovalModeResponse_defs = SetApprovalModeResponse_cases_def createBaseSetApprovalModeResponse_def

context wire_lib
begin

lemma SetApprovalModeResponse_codec:
  "codec W stk rem 0 (SetApprovalModeResponse_encode W) (SetApprovalModeResponse_cases W) createBaseSetApprovalModeResponse m"
  by (rule codecI [OF SetApprovalModeResponse_encode_def],
      rule matched_Nil, cases m, simp add: SetApprovalModeResponse_defs)

lemma SetApprovalModeResponse_rt: "1 \<le> d \<Longrightarrow> codec_rt W stk rem d (SetApprovalModeResponse_encode W) (SetApprovalModeResponse_decode W) m"
  unfolding SetApprovalModeResponse_decode_def
  by (rule codec_rt_mono [OF codec_rt_of_codec [OF SetApprovalModeResponse_codec]]) simp_all

end

context wire_reader
begin

lemma SetApprovalModeResponse_total [total_rules]: "dec_total W (SetApprovalModeResponse_decode W)"
  unfolding SetApprovalModeResponse_decode_def SetApprovalModeResponse_cases_def by (intro total_rules)

end

subsection \<open>SetArchivedRequest\<close>

record SetArchivedRequest =
  SetArchivedRequest_sessionId :: string
  SetArchivedRequest_threadId :: string
  SetArchivedRequest_archived :: bool

definition createBaseSetArchivedRequest :: SetArchivedRequest where
  "createBaseSetArchivedRequest = \<lparr>SetArchivedRequest_sessionId = '''',
     SetArchivedRequest_threadId = '''',
     SetArchivedRequest_archived = False\<rparr>"

definition SetArchivedRequest_encode :: "('w, 'r) wire \<Rightarrow> SetArchivedRequest \<Rightarrow> 'w writer" where
  "SetArchivedRequest_encode W m = w_seq [
     w_if (SetArchivedRequest_sessionId m \<noteq> '''') [w_uint32 W 10, w_string W (SetArchivedRequest_sessionId m)],
     w_if (SetArchivedRequest_threadId m \<noteq> '''') [w_uint32 W 18, w_string W (SetArchivedRequest_threadId m)],
     w_if (SetArchivedRequest_archived m \<noteq> False) [w_uint32 W 24, w_bool W (SetArchivedRequest_archived m)]]"

definition SetArchivedRequest_cases :: "('w, 'r) wire \<Rightarrow> ('r, SetArchivedRequest) cases" where
  "SetArchivedRequest_cases W = [
     (1, 10, d_val (r_string W) (\<lambda>v m. m\<lparr>SetArchivedRequest_sessionId := v\<rparr>)),
     (2, 18, d_val (r_string W) (\<lambda>v m. m\<lparr>SetArchivedRequest_threadId := v\<rparr>)),
     (3, 24, d_val (r_bool W) (\<lambda>v m. m\<lparr>SetArchivedRequest_archived := v\<rparr>))]"

definition SetArchivedRequest_decode :: "('w, 'r) wire \<Rightarrow> ('r, SetArchivedRequest) decoder" where
  "SetArchivedRequest_decode W = d_message W (SetArchivedRequest_cases W) createBaseSetArchivedRequest"

lemmas SetArchivedRequest_defs = SetArchivedRequest_cases_def createBaseSetArchivedRequest_def

context wire_lib
begin

lemma SetArchivedRequest_codec:
  "codec W stk rem 0 (SetArchivedRequest_encode W) (SetArchivedRequest_cases W) createBaseSetArchivedRequest m"
  by (rule codecI [OF SetArchivedRequest_encode_def],
      rule field_string [where upd = SetArchivedRequest_sessionId_update], simp add: SetArchivedRequest_defs, simp add: SetArchivedRequest_defs,
      rule field_string [where upd = SetArchivedRequest_threadId_update], simp add: SetArchivedRequest_defs, simp add: SetArchivedRequest_defs,
      rule field_bool [where upd = SetArchivedRequest_archived_update], simp add: SetArchivedRequest_defs, simp add: SetArchivedRequest_defs,
      rule matched_Nil, cases m, simp add: SetArchivedRequest_defs)

lemma SetArchivedRequest_rt: "1 \<le> d \<Longrightarrow> codec_rt W stk rem d (SetArchivedRequest_encode W) (SetArchivedRequest_decode W) m"
  unfolding SetArchivedRequest_decode_def
  by (rule codec_rt_mono [OF codec_rt_of_codec [OF SetArchivedRequest_codec]]) simp_all

end

context wire_reader
begin

lemma SetArchivedRequest_total [total_rules]: "dec_total W (SetArchivedRequest_decode W)"
  unfolding SetArchivedRequest_decode_def SetArchivedRequest_cases_def by (intro total_rules)

end

subsection \<open>SetArchivedResponse\<close>

datatype SetArchivedResponse = SetArchivedResponse

definition createBaseSetArchivedResponse :: SetArchivedResponse where
  "createBaseSetArchivedResponse = SetArchivedResponse"

definition SetArchivedResponse_encode :: "('w, 'r) wire \<Rightarrow> SetArchivedResponse \<Rightarrow> 'w writer" where
  "SetArchivedResponse_encode W m = w_seq []"

definition SetArchivedResponse_cases :: "('w, 'r) wire \<Rightarrow> ('r, SetArchivedResponse) cases" where
  "SetArchivedResponse_cases W = []"

definition SetArchivedResponse_decode :: "('w, 'r) wire \<Rightarrow> ('r, SetArchivedResponse) decoder" where
  "SetArchivedResponse_decode W = d_message W (SetArchivedResponse_cases W) createBaseSetArchivedResponse"

lemmas SetArchivedResponse_defs = SetArchivedResponse_cases_def createBaseSetArchivedResponse_def

context wire_lib
begin

lemma SetArchivedResponse_codec:
  "codec W stk rem 0 (SetArchivedResponse_encode W) (SetArchivedResponse_cases W) createBaseSetArchivedResponse m"
  by (rule codecI [OF SetArchivedResponse_encode_def],
      rule matched_Nil, cases m, simp add: SetArchivedResponse_defs)

lemma SetArchivedResponse_rt: "1 \<le> d \<Longrightarrow> codec_rt W stk rem d (SetArchivedResponse_encode W) (SetArchivedResponse_decode W) m"
  unfolding SetArchivedResponse_decode_def
  by (rule codec_rt_mono [OF codec_rt_of_codec [OF SetArchivedResponse_codec]]) simp_all

end

context wire_reader
begin

lemma SetArchivedResponse_total [total_rules]: "dec_total W (SetArchivedResponse_decode W)"
  unfolding SetArchivedResponse_decode_def SetArchivedResponse_cases_def by (intro total_rules)

end

subsection \<open>SetMessagePinnedRequest\<close>

record SetMessagePinnedRequest =
  SetMessagePinnedRequest_sessionId :: string
  SetMessagePinnedRequest_threadId :: string
  SetMessagePinnedRequest_messageId :: string
  SetMessagePinnedRequest_pinned :: bool

definition createBaseSetMessagePinnedRequest :: SetMessagePinnedRequest where
  "createBaseSetMessagePinnedRequest = \<lparr>SetMessagePinnedRequest_sessionId = '''',
     SetMessagePinnedRequest_threadId = '''',
     SetMessagePinnedRequest_messageId = '''',
     SetMessagePinnedRequest_pinned = False\<rparr>"

definition SetMessagePinnedRequest_encode :: "('w, 'r) wire \<Rightarrow> SetMessagePinnedRequest \<Rightarrow> 'w writer" where
  "SetMessagePinnedRequest_encode W m = w_seq [
     w_if (SetMessagePinnedRequest_sessionId m \<noteq> '''') [w_uint32 W 10, w_string W (SetMessagePinnedRequest_sessionId m)],
     w_if (SetMessagePinnedRequest_threadId m \<noteq> '''') [w_uint32 W 18, w_string W (SetMessagePinnedRequest_threadId m)],
     w_if (SetMessagePinnedRequest_messageId m \<noteq> '''') [w_uint32 W 26, w_string W (SetMessagePinnedRequest_messageId m)],
     w_if (SetMessagePinnedRequest_pinned m \<noteq> False) [w_uint32 W 32, w_bool W (SetMessagePinnedRequest_pinned m)]]"

definition SetMessagePinnedRequest_cases :: "('w, 'r) wire \<Rightarrow> ('r, SetMessagePinnedRequest) cases" where
  "SetMessagePinnedRequest_cases W = [
     (1, 10, d_val (r_string W) (\<lambda>v m. m\<lparr>SetMessagePinnedRequest_sessionId := v\<rparr>)),
     (2, 18, d_val (r_string W) (\<lambda>v m. m\<lparr>SetMessagePinnedRequest_threadId := v\<rparr>)),
     (3, 26, d_val (r_string W) (\<lambda>v m. m\<lparr>SetMessagePinnedRequest_messageId := v\<rparr>)),
     (4, 32, d_val (r_bool W) (\<lambda>v m. m\<lparr>SetMessagePinnedRequest_pinned := v\<rparr>))]"

definition SetMessagePinnedRequest_decode :: "('w, 'r) wire \<Rightarrow> ('r, SetMessagePinnedRequest) decoder" where
  "SetMessagePinnedRequest_decode W = d_message W (SetMessagePinnedRequest_cases W) createBaseSetMessagePinnedRequest"

lemmas SetMessagePinnedRequest_defs = SetMessagePinnedRequest_cases_def createBaseSetMessagePinnedRequest_def

context wire_lib
begin

lemma SetMessagePinnedRequest_codec:
  "codec W stk rem 0 (SetMessagePinnedRequest_encode W) (SetMessagePinnedRequest_cases W) createBaseSetMessagePinnedRequest m"
  by (rule codecI [OF SetMessagePinnedRequest_encode_def],
      rule field_string [where upd = SetMessagePinnedRequest_sessionId_update], simp add: SetMessagePinnedRequest_defs, simp add: SetMessagePinnedRequest_defs,
      rule field_string [where upd = SetMessagePinnedRequest_threadId_update], simp add: SetMessagePinnedRequest_defs, simp add: SetMessagePinnedRequest_defs,
      rule field_string [where upd = SetMessagePinnedRequest_messageId_update], simp add: SetMessagePinnedRequest_defs, simp add: SetMessagePinnedRequest_defs,
      rule field_bool [where upd = SetMessagePinnedRequest_pinned_update], simp add: SetMessagePinnedRequest_defs, simp add: SetMessagePinnedRequest_defs,
      rule matched_Nil, cases m, simp add: SetMessagePinnedRequest_defs)

lemma SetMessagePinnedRequest_rt: "1 \<le> d \<Longrightarrow> codec_rt W stk rem d (SetMessagePinnedRequest_encode W) (SetMessagePinnedRequest_decode W) m"
  unfolding SetMessagePinnedRequest_decode_def
  by (rule codec_rt_mono [OF codec_rt_of_codec [OF SetMessagePinnedRequest_codec]]) simp_all

end

context wire_reader
begin

lemma SetMessagePinnedRequest_total [total_rules]: "dec_total W (SetMessagePinnedRequest_decode W)"
  unfolding SetMessagePinnedRequest_decode_def SetMessagePinnedRequest_cases_def by (intro total_rules)

end

subsection \<open>SetMessagePinnedResponse\<close>

datatype SetMessagePinnedResponse = SetMessagePinnedResponse

definition createBaseSetMessagePinnedResponse :: SetMessagePinnedResponse where
  "createBaseSetMessagePinnedResponse = SetMessagePinnedResponse"

definition SetMessagePinnedResponse_encode :: "('w, 'r) wire \<Rightarrow> SetMessagePinnedResponse \<Rightarrow> 'w writer" where
  "SetMessagePinnedResponse_encode W m = w_seq []"

definition SetMessagePinnedResponse_cases :: "('w, 'r) wire \<Rightarrow> ('r, SetMessagePinnedResponse) cases" where
  "SetMessagePinnedResponse_cases W = []"

definition SetMessagePinnedResponse_decode :: "('w, 'r) wire \<Rightarrow> ('r, SetMessagePinnedResponse) decoder" where
  "SetMessagePinnedResponse_decode W = d_message W (SetMessagePinnedResponse_cases W) createBaseSetMessagePinnedResponse"

lemmas SetMessagePinnedResponse_defs = SetMessagePinnedResponse_cases_def createBaseSetMessagePinnedResponse_def

context wire_lib
begin

lemma SetMessagePinnedResponse_codec:
  "codec W stk rem 0 (SetMessagePinnedResponse_encode W) (SetMessagePinnedResponse_cases W) createBaseSetMessagePinnedResponse m"
  by (rule codecI [OF SetMessagePinnedResponse_encode_def],
      rule matched_Nil, cases m, simp add: SetMessagePinnedResponse_defs)

lemma SetMessagePinnedResponse_rt: "1 \<le> d \<Longrightarrow> codec_rt W stk rem d (SetMessagePinnedResponse_encode W) (SetMessagePinnedResponse_decode W) m"
  unfolding SetMessagePinnedResponse_decode_def
  by (rule codec_rt_mono [OF codec_rt_of_codec [OF SetMessagePinnedResponse_codec]]) simp_all

end

context wire_reader
begin

lemma SetMessagePinnedResponse_total [total_rules]: "dec_total W (SetMessagePinnedResponse_decode W)"
  unfolding SetMessagePinnedResponse_decode_def SetMessagePinnedResponse_cases_def by (intro total_rules)

end

subsection \<open>SetThreadPhotoMetadata\<close>

record SetThreadPhotoMetadata =
  SetThreadPhotoMetadata_sessionId :: string
  SetThreadPhotoMetadata_threadId :: string
  SetThreadPhotoMetadata_name :: string
  SetThreadPhotoMetadata_contentType :: string
  SetThreadPhotoMetadata_size :: int
  SetThreadPhotoMetadata_sha256 :: "byte list"

definition createBaseSetThreadPhotoMetadata :: SetThreadPhotoMetadata where
  "createBaseSetThreadPhotoMetadata = \<lparr>SetThreadPhotoMetadata_sessionId = '''',
     SetThreadPhotoMetadata_threadId = '''',
     SetThreadPhotoMetadata_name = '''',
     SetThreadPhotoMetadata_contentType = '''',
     SetThreadPhotoMetadata_size = 0,
     SetThreadPhotoMetadata_sha256 = []\<rparr>"

definition SetThreadPhotoMetadata_encode :: "('w, 'r) wire \<Rightarrow> SetThreadPhotoMetadata \<Rightarrow> 'w writer" where
  "SetThreadPhotoMetadata_encode W m = w_seq [
     w_if (SetThreadPhotoMetadata_sessionId m \<noteq> '''') [w_uint32 W 10, w_string W (SetThreadPhotoMetadata_sessionId m)],
     w_if (SetThreadPhotoMetadata_threadId m \<noteq> '''') [w_uint32 W 18, w_string W (SetThreadPhotoMetadata_threadId m)],
     w_if (SetThreadPhotoMetadata_name m \<noteq> '''') [w_uint32 W 26, w_string W (SetThreadPhotoMetadata_name m)],
     w_if (SetThreadPhotoMetadata_contentType m \<noteq> '''') [w_uint32 W 34, w_string W (SetThreadPhotoMetadata_contentType m)],
     w_if (SetThreadPhotoMetadata_size m \<noteq> 0) [w_check (asIntN64 (SetThreadPhotoMetadata_size m) = SetThreadPhotoMetadata_size m) (too_large ''message.size'' ''int64''),
         w_uint32 W 40, w_int64 W (SetThreadPhotoMetadata_size m)],
     w_if (SetThreadPhotoMetadata_sha256 m \<noteq> []) [w_uint32 W 50, w_bytes W (SetThreadPhotoMetadata_sha256 m)]]"

definition SetThreadPhotoMetadata_cases :: "('w, 'r) wire \<Rightarrow> ('r, SetThreadPhotoMetadata) cases" where
  "SetThreadPhotoMetadata_cases W = [
     (1, 10, d_val (r_string W) (\<lambda>v m. m\<lparr>SetThreadPhotoMetadata_sessionId := v\<rparr>)),
     (2, 18, d_val (r_string W) (\<lambda>v m. m\<lparr>SetThreadPhotoMetadata_threadId := v\<rparr>)),
     (3, 26, d_val (r_string W) (\<lambda>v m. m\<lparr>SetThreadPhotoMetadata_name := v\<rparr>)),
     (4, 34, d_val (r_string W) (\<lambda>v m. m\<lparr>SetThreadPhotoMetadata_contentType := v\<rparr>)),
     (5, 40, d_val (r_int64 W) (\<lambda>v m. m\<lparr>SetThreadPhotoMetadata_size := v\<rparr>)),
     (6, 50, d_val (r_bytes W) (\<lambda>v m. m\<lparr>SetThreadPhotoMetadata_sha256 := v\<rparr>))]"

definition SetThreadPhotoMetadata_decode :: "('w, 'r) wire \<Rightarrow> ('r, SetThreadPhotoMetadata) decoder" where
  "SetThreadPhotoMetadata_decode W = d_message W (SetThreadPhotoMetadata_cases W) createBaseSetThreadPhotoMetadata"

lemmas SetThreadPhotoMetadata_defs = SetThreadPhotoMetadata_cases_def createBaseSetThreadPhotoMetadata_def

context wire_lib
begin

lemma SetThreadPhotoMetadata_codec:
  "codec W stk rem 0 (SetThreadPhotoMetadata_encode W) (SetThreadPhotoMetadata_cases W) createBaseSetThreadPhotoMetadata m"
  by (rule codecI [OF SetThreadPhotoMetadata_encode_def],
      rule field_string [where upd = SetThreadPhotoMetadata_sessionId_update], simp add: SetThreadPhotoMetadata_defs, simp add: SetThreadPhotoMetadata_defs,
      rule field_string [where upd = SetThreadPhotoMetadata_threadId_update], simp add: SetThreadPhotoMetadata_defs, simp add: SetThreadPhotoMetadata_defs,
      rule field_string [where upd = SetThreadPhotoMetadata_name_update], simp add: SetThreadPhotoMetadata_defs, simp add: SetThreadPhotoMetadata_defs,
      rule field_string [where upd = SetThreadPhotoMetadata_contentType_update], simp add: SetThreadPhotoMetadata_defs, simp add: SetThreadPhotoMetadata_defs,
      rule field_int64 [where upd = SetThreadPhotoMetadata_size_update], simp add: SetThreadPhotoMetadata_defs, simp add: SetThreadPhotoMetadata_defs,
      rule field_bytes [where upd = SetThreadPhotoMetadata_sha256_update], simp add: SetThreadPhotoMetadata_defs, simp add: SetThreadPhotoMetadata_defs,
      rule matched_Nil, cases m, simp add: SetThreadPhotoMetadata_defs)

lemma SetThreadPhotoMetadata_rt: "1 \<le> d \<Longrightarrow> codec_rt W stk rem d (SetThreadPhotoMetadata_encode W) (SetThreadPhotoMetadata_decode W) m"
  unfolding SetThreadPhotoMetadata_decode_def
  by (rule codec_rt_mono [OF codec_rt_of_codec [OF SetThreadPhotoMetadata_codec]]) simp_all

end

context wire_reader
begin

lemma SetThreadPhotoMetadata_total [total_rules]: "dec_total W (SetThreadPhotoMetadata_decode W)"
  unfolding SetThreadPhotoMetadata_decode_def SetThreadPhotoMetadata_cases_def by (intro total_rules)

end

subsection \<open>SetThreadPhotoRequest\<close>

datatype SetThreadPhotoRequest_payload_case =
    SetThreadPhotoRequest_payload_metadata SetThreadPhotoMetadata
  | SetThreadPhotoRequest_payload_chunk MediaChunk

record SetThreadPhotoRequest =
  SetThreadPhotoRequest_payload :: "SetThreadPhotoRequest_payload_case option"

definition createBaseSetThreadPhotoRequest :: SetThreadPhotoRequest where
  "createBaseSetThreadPhotoRequest = \<lparr>SetThreadPhotoRequest_payload = None\<rparr>"

definition SetThreadPhotoRequest_payload_encode :: "('w, 'r) wire \<Rightarrow> SetThreadPhotoRequest_payload_case \<Rightarrow> 'w writer list" where
  "SetThreadPhotoRequest_payload_encode W c = (case c of
       SetThreadPhotoRequest_payload_metadata v \<Rightarrow> [w_uint32 W 10, w_open W, SetThreadPhotoMetadata_encode W v, w_join W]
     | SetThreadPhotoRequest_payload_chunk v \<Rightarrow> [w_uint32 W 18, w_open W, MediaChunk_encode W v, w_join W])"

definition SetThreadPhotoRequest_encode :: "('w, 'r) wire \<Rightarrow> SetThreadPhotoRequest \<Rightarrow> 'w writer" where
  "SetThreadPhotoRequest_encode W m = w_seq [
     w_some (SetThreadPhotoRequest_payload m) (SetThreadPhotoRequest_payload_encode W)]"

definition SetThreadPhotoRequest_cases :: "('w, 'r) wire \<Rightarrow> ('r, SetThreadPhotoRequest) cases" where
  "SetThreadPhotoRequest_cases W = [
     (1, 10, d_msg W (SetThreadPhotoMetadata_decode W)
        (\<lambda>v m. m\<lparr>SetThreadPhotoRequest_payload := Some (SetThreadPhotoRequest_payload_metadata v)\<rparr>)),
     (2, 18, d_msg W (MediaChunk_decode W)
        (\<lambda>v m. m\<lparr>SetThreadPhotoRequest_payload := Some (SetThreadPhotoRequest_payload_chunk v)\<rparr>))]"

definition SetThreadPhotoRequest_decode :: "('w, 'r) wire \<Rightarrow> ('r, SetThreadPhotoRequest) decoder" where
  "SetThreadPhotoRequest_decode W = d_message W (SetThreadPhotoRequest_cases W) createBaseSetThreadPhotoRequest"

lemmas SetThreadPhotoRequest_defs = SetThreadPhotoRequest_cases_def createBaseSetThreadPhotoRequest_def

context wire_lib
begin

lemma SetThreadPhotoRequest_payload_matched:
  "matched W stk rem 1 (SetThreadPhotoRequest_cases W) (SetThreadPhotoRequest_payload_encode W c) m (m\<lparr>SetThreadPhotoRequest_payload := Some c\<rparr>)"
proof (cases c)
  case (SetThreadPhotoRequest_payload_metadata v)
  show ?thesis
    by (simp add: SetThreadPhotoRequest_payload_metadata SetThreadPhotoRequest_payload_encode_def, rule matched_msg, rule SetThreadPhotoMetadata_rt, simp, simp add: SetThreadPhotoRequest_defs, simp)
next
  case (SetThreadPhotoRequest_payload_chunk v)
  show ?thesis
    by (simp add: SetThreadPhotoRequest_payload_chunk SetThreadPhotoRequest_payload_encode_def, rule matched_msg, rule MediaChunk_rt, simp, simp add: SetThreadPhotoRequest_defs, simp)
qed

lemma SetThreadPhotoRequest_codec:
  "codec W stk rem 1 (SetThreadPhotoRequest_encode W) (SetThreadPhotoRequest_cases W) createBaseSetThreadPhotoRequest m"
  by (rule codecI [OF SetThreadPhotoRequest_encode_def],
      rule field_some [where upd = SetThreadPhotoRequest_payload_update], rule SetThreadPhotoRequest_payload_matched, simp add: SetThreadPhotoRequest_defs,
      rule matched_Nil, cases m, simp add: SetThreadPhotoRequest_defs)

lemma SetThreadPhotoRequest_rt: "2 \<le> d \<Longrightarrow> codec_rt W stk rem d (SetThreadPhotoRequest_encode W) (SetThreadPhotoRequest_decode W) m"
  unfolding SetThreadPhotoRequest_decode_def
  by (rule codec_rt_mono [OF codec_rt_of_codec [OF SetThreadPhotoRequest_codec]]) simp_all

end

context wire_reader
begin

lemma SetThreadPhotoRequest_total [total_rules]: "dec_total W (SetThreadPhotoRequest_decode W)"
  unfolding SetThreadPhotoRequest_decode_def SetThreadPhotoRequest_cases_def by (intro total_rules)

end

subsection \<open>SetThreadPhotoResponse\<close>

record SetThreadPhotoResponse =
  SetThreadPhotoResponse_sha256 :: "byte list"

definition createBaseSetThreadPhotoResponse :: SetThreadPhotoResponse where
  "createBaseSetThreadPhotoResponse = \<lparr>SetThreadPhotoResponse_sha256 = []\<rparr>"

definition SetThreadPhotoResponse_encode :: "('w, 'r) wire \<Rightarrow> SetThreadPhotoResponse \<Rightarrow> 'w writer" where
  "SetThreadPhotoResponse_encode W m = w_seq [
     w_if (SetThreadPhotoResponse_sha256 m \<noteq> []) [w_uint32 W 10, w_bytes W (SetThreadPhotoResponse_sha256 m)]]"

definition SetThreadPhotoResponse_cases :: "('w, 'r) wire \<Rightarrow> ('r, SetThreadPhotoResponse) cases" where
  "SetThreadPhotoResponse_cases W = [
     (1, 10, d_val (r_bytes W) (\<lambda>v m. m\<lparr>SetThreadPhotoResponse_sha256 := v\<rparr>))]"

definition SetThreadPhotoResponse_decode :: "('w, 'r) wire \<Rightarrow> ('r, SetThreadPhotoResponse) decoder" where
  "SetThreadPhotoResponse_decode W = d_message W (SetThreadPhotoResponse_cases W) createBaseSetThreadPhotoResponse"

lemmas SetThreadPhotoResponse_defs = SetThreadPhotoResponse_cases_def createBaseSetThreadPhotoResponse_def

context wire_lib
begin

lemma SetThreadPhotoResponse_codec:
  "codec W stk rem 0 (SetThreadPhotoResponse_encode W) (SetThreadPhotoResponse_cases W) createBaseSetThreadPhotoResponse m"
  by (rule codecI [OF SetThreadPhotoResponse_encode_def],
      rule field_bytes [where upd = SetThreadPhotoResponse_sha256_update], simp add: SetThreadPhotoResponse_defs, simp add: SetThreadPhotoResponse_defs,
      rule matched_Nil, cases m, simp add: SetThreadPhotoResponse_defs)

lemma SetThreadPhotoResponse_rt: "1 \<le> d \<Longrightarrow> codec_rt W stk rem d (SetThreadPhotoResponse_encode W) (SetThreadPhotoResponse_decode W) m"
  unfolding SetThreadPhotoResponse_decode_def
  by (rule codec_rt_mono [OF codec_rt_of_codec [OF SetThreadPhotoResponse_codec]]) simp_all

end

context wire_reader
begin

lemma SetThreadPhotoResponse_total [total_rules]: "dec_total W (SetThreadPhotoResponse_decode W)"
  unfolding SetThreadPhotoResponse_decode_def SetThreadPhotoResponse_cases_def by (intro total_rules)

end

subsection \<open>DeleteThreadRequest\<close>

record DeleteThreadRequest =
  DeleteThreadRequest_sessionId :: string
  DeleteThreadRequest_threadId :: string

definition createBaseDeleteThreadRequest :: DeleteThreadRequest where
  "createBaseDeleteThreadRequest = \<lparr>DeleteThreadRequest_sessionId = '''',
     DeleteThreadRequest_threadId = ''''\<rparr>"

definition DeleteThreadRequest_encode :: "('w, 'r) wire \<Rightarrow> DeleteThreadRequest \<Rightarrow> 'w writer" where
  "DeleteThreadRequest_encode W m = w_seq [
     w_if (DeleteThreadRequest_sessionId m \<noteq> '''') [w_uint32 W 10, w_string W (DeleteThreadRequest_sessionId m)],
     w_if (DeleteThreadRequest_threadId m \<noteq> '''') [w_uint32 W 18, w_string W (DeleteThreadRequest_threadId m)]]"

definition DeleteThreadRequest_cases :: "('w, 'r) wire \<Rightarrow> ('r, DeleteThreadRequest) cases" where
  "DeleteThreadRequest_cases W = [
     (1, 10, d_val (r_string W) (\<lambda>v m. m\<lparr>DeleteThreadRequest_sessionId := v\<rparr>)),
     (2, 18, d_val (r_string W) (\<lambda>v m. m\<lparr>DeleteThreadRequest_threadId := v\<rparr>))]"

definition DeleteThreadRequest_decode :: "('w, 'r) wire \<Rightarrow> ('r, DeleteThreadRequest) decoder" where
  "DeleteThreadRequest_decode W = d_message W (DeleteThreadRequest_cases W) createBaseDeleteThreadRequest"

lemmas DeleteThreadRequest_defs = DeleteThreadRequest_cases_def createBaseDeleteThreadRequest_def

context wire_lib
begin

lemma DeleteThreadRequest_codec:
  "codec W stk rem 0 (DeleteThreadRequest_encode W) (DeleteThreadRequest_cases W) createBaseDeleteThreadRequest m"
  by (rule codecI [OF DeleteThreadRequest_encode_def],
      rule field_string [where upd = DeleteThreadRequest_sessionId_update], simp add: DeleteThreadRequest_defs, simp add: DeleteThreadRequest_defs,
      rule field_string [where upd = DeleteThreadRequest_threadId_update], simp add: DeleteThreadRequest_defs, simp add: DeleteThreadRequest_defs,
      rule matched_Nil, cases m, simp add: DeleteThreadRequest_defs)

lemma DeleteThreadRequest_rt: "1 \<le> d \<Longrightarrow> codec_rt W stk rem d (DeleteThreadRequest_encode W) (DeleteThreadRequest_decode W) m"
  unfolding DeleteThreadRequest_decode_def
  by (rule codec_rt_mono [OF codec_rt_of_codec [OF DeleteThreadRequest_codec]]) simp_all

end

context wire_reader
begin

lemma DeleteThreadRequest_total [total_rules]: "dec_total W (DeleteThreadRequest_decode W)"
  unfolding DeleteThreadRequest_decode_def DeleteThreadRequest_cases_def by (intro total_rules)

end

subsection \<open>DeleteThreadResponse\<close>

datatype DeleteThreadResponse = DeleteThreadResponse

definition createBaseDeleteThreadResponse :: DeleteThreadResponse where
  "createBaseDeleteThreadResponse = DeleteThreadResponse"

definition DeleteThreadResponse_encode :: "('w, 'r) wire \<Rightarrow> DeleteThreadResponse \<Rightarrow> 'w writer" where
  "DeleteThreadResponse_encode W m = w_seq []"

definition DeleteThreadResponse_cases :: "('w, 'r) wire \<Rightarrow> ('r, DeleteThreadResponse) cases" where
  "DeleteThreadResponse_cases W = []"

definition DeleteThreadResponse_decode :: "('w, 'r) wire \<Rightarrow> ('r, DeleteThreadResponse) decoder" where
  "DeleteThreadResponse_decode W = d_message W (DeleteThreadResponse_cases W) createBaseDeleteThreadResponse"

lemmas DeleteThreadResponse_defs = DeleteThreadResponse_cases_def createBaseDeleteThreadResponse_def

context wire_lib
begin

lemma DeleteThreadResponse_codec:
  "codec W stk rem 0 (DeleteThreadResponse_encode W) (DeleteThreadResponse_cases W) createBaseDeleteThreadResponse m"
  by (rule codecI [OF DeleteThreadResponse_encode_def],
      rule matched_Nil, cases m, simp add: DeleteThreadResponse_defs)

lemma DeleteThreadResponse_rt: "1 \<le> d \<Longrightarrow> codec_rt W stk rem d (DeleteThreadResponse_encode W) (DeleteThreadResponse_decode W) m"
  unfolding DeleteThreadResponse_decode_def
  by (rule codec_rt_mono [OF codec_rt_of_codec [OF DeleteThreadResponse_codec]]) simp_all

end

context wire_reader
begin

lemma DeleteThreadResponse_total [total_rules]: "dec_total W (DeleteThreadResponse_decode W)"
  unfolding DeleteThreadResponse_decode_def DeleteThreadResponse_cases_def by (intro total_rules)

end

subsection \<open>CreateDMRequest\<close>

record CreateDMRequest =
  CreateDMRequest_sessionId :: string
  CreateDMRequest_userId :: string

definition createBaseCreateDMRequest :: CreateDMRequest where
  "createBaseCreateDMRequest = \<lparr>CreateDMRequest_sessionId = '''',
     CreateDMRequest_userId = ''''\<rparr>"

definition CreateDMRequest_encode :: "('w, 'r) wire \<Rightarrow> CreateDMRequest \<Rightarrow> 'w writer" where
  "CreateDMRequest_encode W m = w_seq [
     w_if (CreateDMRequest_sessionId m \<noteq> '''') [w_uint32 W 10, w_string W (CreateDMRequest_sessionId m)],
     w_if (CreateDMRequest_userId m \<noteq> '''') [w_uint32 W 18, w_string W (CreateDMRequest_userId m)]]"

definition CreateDMRequest_cases :: "('w, 'r) wire \<Rightarrow> ('r, CreateDMRequest) cases" where
  "CreateDMRequest_cases W = [
     (1, 10, d_val (r_string W) (\<lambda>v m. m\<lparr>CreateDMRequest_sessionId := v\<rparr>)),
     (2, 18, d_val (r_string W) (\<lambda>v m. m\<lparr>CreateDMRequest_userId := v\<rparr>))]"

definition CreateDMRequest_decode :: "('w, 'r) wire \<Rightarrow> ('r, CreateDMRequest) decoder" where
  "CreateDMRequest_decode W = d_message W (CreateDMRequest_cases W) createBaseCreateDMRequest"

lemmas CreateDMRequest_defs = CreateDMRequest_cases_def createBaseCreateDMRequest_def

context wire_lib
begin

lemma CreateDMRequest_codec:
  "codec W stk rem 0 (CreateDMRequest_encode W) (CreateDMRequest_cases W) createBaseCreateDMRequest m"
  by (rule codecI [OF CreateDMRequest_encode_def],
      rule field_string [where upd = CreateDMRequest_sessionId_update], simp add: CreateDMRequest_defs, simp add: CreateDMRequest_defs,
      rule field_string [where upd = CreateDMRequest_userId_update], simp add: CreateDMRequest_defs, simp add: CreateDMRequest_defs,
      rule matched_Nil, cases m, simp add: CreateDMRequest_defs)

lemma CreateDMRequest_rt: "1 \<le> d \<Longrightarrow> codec_rt W stk rem d (CreateDMRequest_encode W) (CreateDMRequest_decode W) m"
  unfolding CreateDMRequest_decode_def
  by (rule codec_rt_mono [OF codec_rt_of_codec [OF CreateDMRequest_codec]]) simp_all

end

context wire_reader
begin

lemma CreateDMRequest_total [total_rules]: "dec_total W (CreateDMRequest_decode W)"
  unfolding CreateDMRequest_decode_def CreateDMRequest_cases_def by (intro total_rules)

end

subsection \<open>CreateDMResponse\<close>

record CreateDMResponse =
  CreateDMResponse_threadId :: string

definition createBaseCreateDMResponse :: CreateDMResponse where
  "createBaseCreateDMResponse = \<lparr>CreateDMResponse_threadId = ''''\<rparr>"

definition CreateDMResponse_encode :: "('w, 'r) wire \<Rightarrow> CreateDMResponse \<Rightarrow> 'w writer" where
  "CreateDMResponse_encode W m = w_seq [
     w_if (CreateDMResponse_threadId m \<noteq> '''') [w_uint32 W 10, w_string W (CreateDMResponse_threadId m)]]"

definition CreateDMResponse_cases :: "('w, 'r) wire \<Rightarrow> ('r, CreateDMResponse) cases" where
  "CreateDMResponse_cases W = [
     (1, 10, d_val (r_string W) (\<lambda>v m. m\<lparr>CreateDMResponse_threadId := v\<rparr>))]"

definition CreateDMResponse_decode :: "('w, 'r) wire \<Rightarrow> ('r, CreateDMResponse) decoder" where
  "CreateDMResponse_decode W = d_message W (CreateDMResponse_cases W) createBaseCreateDMResponse"

lemmas CreateDMResponse_defs = CreateDMResponse_cases_def createBaseCreateDMResponse_def

context wire_lib
begin

lemma CreateDMResponse_codec:
  "codec W stk rem 0 (CreateDMResponse_encode W) (CreateDMResponse_cases W) createBaseCreateDMResponse m"
  by (rule codecI [OF CreateDMResponse_encode_def],
      rule field_string [where upd = CreateDMResponse_threadId_update], simp add: CreateDMResponse_defs, simp add: CreateDMResponse_defs,
      rule matched_Nil, cases m, simp add: CreateDMResponse_defs)

lemma CreateDMResponse_rt: "1 \<le> d \<Longrightarrow> codec_rt W stk rem d (CreateDMResponse_encode W) (CreateDMResponse_decode W) m"
  unfolding CreateDMResponse_decode_def
  by (rule codec_rt_mono [OF codec_rt_of_codec [OF CreateDMResponse_codec]]) simp_all

end

context wire_reader
begin

lemma CreateDMResponse_total [total_rules]: "dec_total W (CreateDMResponse_decode W)"
  unfolding CreateDMResponse_decode_def CreateDMResponse_cases_def by (intro total_rules)

end

subsection \<open>SearchUsersRequest\<close>

record SearchUsersRequest =
  SearchUsersRequest_sessionId :: string
  SearchUsersRequest_query :: string

definition createBaseSearchUsersRequest :: SearchUsersRequest where
  "createBaseSearchUsersRequest = \<lparr>SearchUsersRequest_sessionId = '''',
     SearchUsersRequest_query = ''''\<rparr>"

definition SearchUsersRequest_encode :: "('w, 'r) wire \<Rightarrow> SearchUsersRequest \<Rightarrow> 'w writer" where
  "SearchUsersRequest_encode W m = w_seq [
     w_if (SearchUsersRequest_sessionId m \<noteq> '''') [w_uint32 W 10, w_string W (SearchUsersRequest_sessionId m)],
     w_if (SearchUsersRequest_query m \<noteq> '''') [w_uint32 W 18, w_string W (SearchUsersRequest_query m)]]"

definition SearchUsersRequest_cases :: "('w, 'r) wire \<Rightarrow> ('r, SearchUsersRequest) cases" where
  "SearchUsersRequest_cases W = [
     (1, 10, d_val (r_string W) (\<lambda>v m. m\<lparr>SearchUsersRequest_sessionId := v\<rparr>)),
     (2, 18, d_val (r_string W) (\<lambda>v m. m\<lparr>SearchUsersRequest_query := v\<rparr>))]"

definition SearchUsersRequest_decode :: "('w, 'r) wire \<Rightarrow> ('r, SearchUsersRequest) decoder" where
  "SearchUsersRequest_decode W = d_message W (SearchUsersRequest_cases W) createBaseSearchUsersRequest"

lemmas SearchUsersRequest_defs = SearchUsersRequest_cases_def createBaseSearchUsersRequest_def

context wire_lib
begin

lemma SearchUsersRequest_codec:
  "codec W stk rem 0 (SearchUsersRequest_encode W) (SearchUsersRequest_cases W) createBaseSearchUsersRequest m"
  by (rule codecI [OF SearchUsersRequest_encode_def],
      rule field_string [where upd = SearchUsersRequest_sessionId_update], simp add: SearchUsersRequest_defs, simp add: SearchUsersRequest_defs,
      rule field_string [where upd = SearchUsersRequest_query_update], simp add: SearchUsersRequest_defs, simp add: SearchUsersRequest_defs,
      rule matched_Nil, cases m, simp add: SearchUsersRequest_defs)

lemma SearchUsersRequest_rt: "1 \<le> d \<Longrightarrow> codec_rt W stk rem d (SearchUsersRequest_encode W) (SearchUsersRequest_decode W) m"
  unfolding SearchUsersRequest_decode_def
  by (rule codec_rt_mono [OF codec_rt_of_codec [OF SearchUsersRequest_codec]]) simp_all

end

context wire_reader
begin

lemma SearchUsersRequest_total [total_rules]: "dec_total W (SearchUsersRequest_decode W)"
  unfolding SearchUsersRequest_decode_def SearchUsersRequest_cases_def by (intro total_rules)

end

subsection \<open>SearchUsersResponse\<close>

record SearchUsersResponse =
  SearchUsersResponse_users :: "User list"

definition createBaseSearchUsersResponse :: SearchUsersResponse where
  "createBaseSearchUsersResponse = \<lparr>SearchUsersResponse_users = []\<rparr>"

definition SearchUsersResponse_encode :: "('w, 'r) wire \<Rightarrow> SearchUsersResponse \<Rightarrow> 'w writer" where
  "SearchUsersResponse_encode W m = w_seq [
     w_for (SearchUsersResponse_users m) (\<lambda>v. [w_uint32 W 10, w_open W, User_encode W v, w_join W])]"

definition SearchUsersResponse_cases :: "('w, 'r) wire \<Rightarrow> ('r, SearchUsersResponse) cases" where
  "SearchUsersResponse_cases W = [
     (1, 10, d_msg W (User_decode W) (\<lambda>v m. m\<lparr>SearchUsersResponse_users := SearchUsersResponse_users m @ [v]\<rparr>))]"

definition SearchUsersResponse_decode :: "('w, 'r) wire \<Rightarrow> ('r, SearchUsersResponse) decoder" where
  "SearchUsersResponse_decode W = d_message W (SearchUsersResponse_cases W) createBaseSearchUsersResponse"

lemmas SearchUsersResponse_defs = SearchUsersResponse_cases_def createBaseSearchUsersResponse_def

context wire_lib
begin

lemma SearchUsersResponse_codec:
  "codec W stk rem 1 (SearchUsersResponse_encode W) (SearchUsersResponse_cases W) createBaseSearchUsersResponse m"
  by (rule codecI [OF SearchUsersResponse_encode_def],
      rule field_push_msg [where upd = SearchUsersResponse_users_update and sel = SearchUsersResponse_users], rule User_rt, simp, simp add: SearchUsersResponse_defs, simp add: SearchUsersResponse_defs, simp add: SearchUsersResponse_defs,
      rule matched_Nil, cases m, simp add: SearchUsersResponse_defs)

lemma SearchUsersResponse_rt: "2 \<le> d \<Longrightarrow> codec_rt W stk rem d (SearchUsersResponse_encode W) (SearchUsersResponse_decode W) m"
  unfolding SearchUsersResponse_decode_def
  by (rule codec_rt_mono [OF codec_rt_of_codec [OF SearchUsersResponse_codec]]) simp_all

end

context wire_reader
begin

lemma SearchUsersResponse_total [total_rules]: "dec_total W (SearchUsersResponse_decode W)"
  unfolding SearchUsersResponse_decode_def SearchUsersResponse_cases_def by (intro total_rules)

end

subsection \<open>GetContactRequest\<close>

record GetContactRequest =
  GetContactRequest_sessionId :: string
  GetContactRequest_userId :: string

definition createBaseGetContactRequest :: GetContactRequest where
  "createBaseGetContactRequest = \<lparr>GetContactRequest_sessionId = '''',
     GetContactRequest_userId = ''''\<rparr>"

definition GetContactRequest_encode :: "('w, 'r) wire \<Rightarrow> GetContactRequest \<Rightarrow> 'w writer" where
  "GetContactRequest_encode W m = w_seq [
     w_if (GetContactRequest_sessionId m \<noteq> '''') [w_uint32 W 10, w_string W (GetContactRequest_sessionId m)],
     w_if (GetContactRequest_userId m \<noteq> '''') [w_uint32 W 18, w_string W (GetContactRequest_userId m)]]"

definition GetContactRequest_cases :: "('w, 'r) wire \<Rightarrow> ('r, GetContactRequest) cases" where
  "GetContactRequest_cases W = [
     (1, 10, d_val (r_string W) (\<lambda>v m. m\<lparr>GetContactRequest_sessionId := v\<rparr>)),
     (2, 18, d_val (r_string W) (\<lambda>v m. m\<lparr>GetContactRequest_userId := v\<rparr>))]"

definition GetContactRequest_decode :: "('w, 'r) wire \<Rightarrow> ('r, GetContactRequest) decoder" where
  "GetContactRequest_decode W = d_message W (GetContactRequest_cases W) createBaseGetContactRequest"

lemmas GetContactRequest_defs = GetContactRequest_cases_def createBaseGetContactRequest_def

context wire_lib
begin

lemma GetContactRequest_codec:
  "codec W stk rem 0 (GetContactRequest_encode W) (GetContactRequest_cases W) createBaseGetContactRequest m"
  by (rule codecI [OF GetContactRequest_encode_def],
      rule field_string [where upd = GetContactRequest_sessionId_update], simp add: GetContactRequest_defs, simp add: GetContactRequest_defs,
      rule field_string [where upd = GetContactRequest_userId_update], simp add: GetContactRequest_defs, simp add: GetContactRequest_defs,
      rule matched_Nil, cases m, simp add: GetContactRequest_defs)

lemma GetContactRequest_rt: "1 \<le> d \<Longrightarrow> codec_rt W stk rem d (GetContactRequest_encode W) (GetContactRequest_decode W) m"
  unfolding GetContactRequest_decode_def
  by (rule codec_rt_mono [OF codec_rt_of_codec [OF GetContactRequest_codec]]) simp_all

end

context wire_reader
begin

lemma GetContactRequest_total [total_rules]: "dec_total W (GetContactRequest_decode W)"
  unfolding GetContactRequest_decode_def GetContactRequest_cases_def by (intro total_rules)

end

subsection \<open>GetContactResponse\<close>

record GetContactResponse =
  GetContactResponse_user :: "User option"

definition createBaseGetContactResponse :: GetContactResponse where
  "createBaseGetContactResponse = \<lparr>GetContactResponse_user = None\<rparr>"

definition GetContactResponse_encode :: "('w, 'r) wire \<Rightarrow> GetContactResponse \<Rightarrow> 'w writer" where
  "GetContactResponse_encode W m = w_seq [
     w_some (GetContactResponse_user m) (\<lambda>v. [w_uint32 W 10, w_open W, User_encode W v, w_join W])]"

definition GetContactResponse_cases :: "('w, 'r) wire \<Rightarrow> ('r, GetContactResponse) cases" where
  "GetContactResponse_cases W = [
     (1, 10, d_msg W (User_decode W) (\<lambda>v m. m\<lparr>GetContactResponse_user := Some v\<rparr>))]"

definition GetContactResponse_decode :: "('w, 'r) wire \<Rightarrow> ('r, GetContactResponse) decoder" where
  "GetContactResponse_decode W = d_message W (GetContactResponse_cases W) createBaseGetContactResponse"

lemmas GetContactResponse_defs = GetContactResponse_cases_def createBaseGetContactResponse_def

context wire_lib
begin

lemma GetContactResponse_codec:
  "codec W stk rem 1 (GetContactResponse_encode W) (GetContactResponse_cases W) createBaseGetContactResponse m"
  by (rule codecI [OF GetContactResponse_encode_def],
      rule field_msg [where upd = GetContactResponse_user_update], rule User_rt, simp, simp add: GetContactResponse_defs, simp add: GetContactResponse_defs,
      rule matched_Nil, cases m, simp add: GetContactResponse_defs)

lemma GetContactResponse_rt: "2 \<le> d \<Longrightarrow> codec_rt W stk rem d (GetContactResponse_encode W) (GetContactResponse_decode W) m"
  unfolding GetContactResponse_decode_def
  by (rule codec_rt_mono [OF codec_rt_of_codec [OF GetContactResponse_codec]]) simp_all

end

context wire_reader
begin

lemma GetContactResponse_total [total_rules]: "dec_total W (GetContactResponse_decode W)"
  unfolding GetContactResponse_decode_def GetContactResponse_cases_def by (intro total_rules)

end

subsection \<open>SetAdminRequest\<close>

record SetAdminRequest =
  SetAdminRequest_sessionId :: string
  SetAdminRequest_threadId :: string
  SetAdminRequest_userId :: string
  SetAdminRequest_admin :: bool

definition createBaseSetAdminRequest :: SetAdminRequest where
  "createBaseSetAdminRequest = \<lparr>SetAdminRequest_sessionId = '''',
     SetAdminRequest_threadId = '''',
     SetAdminRequest_userId = '''',
     SetAdminRequest_admin = False\<rparr>"

definition SetAdminRequest_encode :: "('w, 'r) wire \<Rightarrow> SetAdminRequest \<Rightarrow> 'w writer" where
  "SetAdminRequest_encode W m = w_seq [
     w_if (SetAdminRequest_sessionId m \<noteq> '''') [w_uint32 W 10, w_string W (SetAdminRequest_sessionId m)],
     w_if (SetAdminRequest_threadId m \<noteq> '''') [w_uint32 W 18, w_string W (SetAdminRequest_threadId m)],
     w_if (SetAdminRequest_userId m \<noteq> '''') [w_uint32 W 26, w_string W (SetAdminRequest_userId m)],
     w_if (SetAdminRequest_admin m \<noteq> False) [w_uint32 W 32, w_bool W (SetAdminRequest_admin m)]]"

definition SetAdminRequest_cases :: "('w, 'r) wire \<Rightarrow> ('r, SetAdminRequest) cases" where
  "SetAdminRequest_cases W = [
     (1, 10, d_val (r_string W) (\<lambda>v m. m\<lparr>SetAdminRequest_sessionId := v\<rparr>)),
     (2, 18, d_val (r_string W) (\<lambda>v m. m\<lparr>SetAdminRequest_threadId := v\<rparr>)),
     (3, 26, d_val (r_string W) (\<lambda>v m. m\<lparr>SetAdminRequest_userId := v\<rparr>)),
     (4, 32, d_val (r_bool W) (\<lambda>v m. m\<lparr>SetAdminRequest_admin := v\<rparr>))]"

definition SetAdminRequest_decode :: "('w, 'r) wire \<Rightarrow> ('r, SetAdminRequest) decoder" where
  "SetAdminRequest_decode W = d_message W (SetAdminRequest_cases W) createBaseSetAdminRequest"

lemmas SetAdminRequest_defs = SetAdminRequest_cases_def createBaseSetAdminRequest_def

context wire_lib
begin

lemma SetAdminRequest_codec:
  "codec W stk rem 0 (SetAdminRequest_encode W) (SetAdminRequest_cases W) createBaseSetAdminRequest m"
  by (rule codecI [OF SetAdminRequest_encode_def],
      rule field_string [where upd = SetAdminRequest_sessionId_update], simp add: SetAdminRequest_defs, simp add: SetAdminRequest_defs,
      rule field_string [where upd = SetAdminRequest_threadId_update], simp add: SetAdminRequest_defs, simp add: SetAdminRequest_defs,
      rule field_string [where upd = SetAdminRequest_userId_update], simp add: SetAdminRequest_defs, simp add: SetAdminRequest_defs,
      rule field_bool [where upd = SetAdminRequest_admin_update], simp add: SetAdminRequest_defs, simp add: SetAdminRequest_defs,
      rule matched_Nil, cases m, simp add: SetAdminRequest_defs)

lemma SetAdminRequest_rt: "1 \<le> d \<Longrightarrow> codec_rt W stk rem d (SetAdminRequest_encode W) (SetAdminRequest_decode W) m"
  unfolding SetAdminRequest_decode_def
  by (rule codec_rt_mono [OF codec_rt_of_codec [OF SetAdminRequest_codec]]) simp_all

end

context wire_reader
begin

lemma SetAdminRequest_total [total_rules]: "dec_total W (SetAdminRequest_decode W)"
  unfolding SetAdminRequest_decode_def SetAdminRequest_cases_def by (intro total_rules)

end

subsection \<open>SetAdminResponse\<close>

datatype SetAdminResponse = SetAdminResponse

definition createBaseSetAdminResponse :: SetAdminResponse where
  "createBaseSetAdminResponse = SetAdminResponse"

definition SetAdminResponse_encode :: "('w, 'r) wire \<Rightarrow> SetAdminResponse \<Rightarrow> 'w writer" where
  "SetAdminResponse_encode W m = w_seq []"

definition SetAdminResponse_cases :: "('w, 'r) wire \<Rightarrow> ('r, SetAdminResponse) cases" where
  "SetAdminResponse_cases W = []"

definition SetAdminResponse_decode :: "('w, 'r) wire \<Rightarrow> ('r, SetAdminResponse) decoder" where
  "SetAdminResponse_decode W = d_message W (SetAdminResponse_cases W) createBaseSetAdminResponse"

lemmas SetAdminResponse_defs = SetAdminResponse_cases_def createBaseSetAdminResponse_def

context wire_lib
begin

lemma SetAdminResponse_codec:
  "codec W stk rem 0 (SetAdminResponse_encode W) (SetAdminResponse_cases W) createBaseSetAdminResponse m"
  by (rule codecI [OF SetAdminResponse_encode_def],
      rule matched_Nil, cases m, simp add: SetAdminResponse_defs)

lemma SetAdminResponse_rt: "1 \<le> d \<Longrightarrow> codec_rt W stk rem d (SetAdminResponse_encode W) (SetAdminResponse_decode W) m"
  unfolding SetAdminResponse_decode_def
  by (rule codec_rt_mono [OF codec_rt_of_codec [OF SetAdminResponse_codec]]) simp_all

end

context wire_reader
begin

lemma SetAdminResponse_total [total_rules]: "dec_total W (SetAdminResponse_decode W)"
  unfolding SetAdminResponse_decode_def SetAdminResponse_cases_def by (intro total_rules)

end

subsection \<open>SetThreadNameRequest\<close>

record SetThreadNameRequest =
  SetThreadNameRequest_sessionId :: string
  SetThreadNameRequest_threadId :: string
  SetThreadNameRequest_name :: string

definition createBaseSetThreadNameRequest :: SetThreadNameRequest where
  "createBaseSetThreadNameRequest = \<lparr>SetThreadNameRequest_sessionId = '''',
     SetThreadNameRequest_threadId = '''',
     SetThreadNameRequest_name = ''''\<rparr>"

definition SetThreadNameRequest_encode :: "('w, 'r) wire \<Rightarrow> SetThreadNameRequest \<Rightarrow> 'w writer" where
  "SetThreadNameRequest_encode W m = w_seq [
     w_if (SetThreadNameRequest_sessionId m \<noteq> '''') [w_uint32 W 10, w_string W (SetThreadNameRequest_sessionId m)],
     w_if (SetThreadNameRequest_threadId m \<noteq> '''') [w_uint32 W 18, w_string W (SetThreadNameRequest_threadId m)],
     w_if (SetThreadNameRequest_name m \<noteq> '''') [w_uint32 W 26, w_string W (SetThreadNameRequest_name m)]]"

definition SetThreadNameRequest_cases :: "('w, 'r) wire \<Rightarrow> ('r, SetThreadNameRequest) cases" where
  "SetThreadNameRequest_cases W = [
     (1, 10, d_val (r_string W) (\<lambda>v m. m\<lparr>SetThreadNameRequest_sessionId := v\<rparr>)),
     (2, 18, d_val (r_string W) (\<lambda>v m. m\<lparr>SetThreadNameRequest_threadId := v\<rparr>)),
     (3, 26, d_val (r_string W) (\<lambda>v m. m\<lparr>SetThreadNameRequest_name := v\<rparr>))]"

definition SetThreadNameRequest_decode :: "('w, 'r) wire \<Rightarrow> ('r, SetThreadNameRequest) decoder" where
  "SetThreadNameRequest_decode W = d_message W (SetThreadNameRequest_cases W) createBaseSetThreadNameRequest"

lemmas SetThreadNameRequest_defs = SetThreadNameRequest_cases_def createBaseSetThreadNameRequest_def

context wire_lib
begin

lemma SetThreadNameRequest_codec:
  "codec W stk rem 0 (SetThreadNameRequest_encode W) (SetThreadNameRequest_cases W) createBaseSetThreadNameRequest m"
  by (rule codecI [OF SetThreadNameRequest_encode_def],
      rule field_string [where upd = SetThreadNameRequest_sessionId_update], simp add: SetThreadNameRequest_defs, simp add: SetThreadNameRequest_defs,
      rule field_string [where upd = SetThreadNameRequest_threadId_update], simp add: SetThreadNameRequest_defs, simp add: SetThreadNameRequest_defs,
      rule field_string [where upd = SetThreadNameRequest_name_update], simp add: SetThreadNameRequest_defs, simp add: SetThreadNameRequest_defs,
      rule matched_Nil, cases m, simp add: SetThreadNameRequest_defs)

lemma SetThreadNameRequest_rt: "1 \<le> d \<Longrightarrow> codec_rt W stk rem d (SetThreadNameRequest_encode W) (SetThreadNameRequest_decode W) m"
  unfolding SetThreadNameRequest_decode_def
  by (rule codec_rt_mono [OF codec_rt_of_codec [OF SetThreadNameRequest_codec]]) simp_all

end

context wire_reader
begin

lemma SetThreadNameRequest_total [total_rules]: "dec_total W (SetThreadNameRequest_decode W)"
  unfolding SetThreadNameRequest_decode_def SetThreadNameRequest_cases_def by (intro total_rules)

end

subsection \<open>SetThreadNameResponse\<close>

datatype SetThreadNameResponse = SetThreadNameResponse

definition createBaseSetThreadNameResponse :: SetThreadNameResponse where
  "createBaseSetThreadNameResponse = SetThreadNameResponse"

definition SetThreadNameResponse_encode :: "('w, 'r) wire \<Rightarrow> SetThreadNameResponse \<Rightarrow> 'w writer" where
  "SetThreadNameResponse_encode W m = w_seq []"

definition SetThreadNameResponse_cases :: "('w, 'r) wire \<Rightarrow> ('r, SetThreadNameResponse) cases" where
  "SetThreadNameResponse_cases W = []"

definition SetThreadNameResponse_decode :: "('w, 'r) wire \<Rightarrow> ('r, SetThreadNameResponse) decoder" where
  "SetThreadNameResponse_decode W = d_message W (SetThreadNameResponse_cases W) createBaseSetThreadNameResponse"

lemmas SetThreadNameResponse_defs = SetThreadNameResponse_cases_def createBaseSetThreadNameResponse_def

context wire_lib
begin

lemma SetThreadNameResponse_codec:
  "codec W stk rem 0 (SetThreadNameResponse_encode W) (SetThreadNameResponse_cases W) createBaseSetThreadNameResponse m"
  by (rule codecI [OF SetThreadNameResponse_encode_def],
      rule matched_Nil, cases m, simp add: SetThreadNameResponse_defs)

lemma SetThreadNameResponse_rt: "1 \<le> d \<Longrightarrow> codec_rt W stk rem d (SetThreadNameResponse_encode W) (SetThreadNameResponse_decode W) m"
  unfolding SetThreadNameResponse_decode_def
  by (rule codec_rt_mono [OF codec_rt_of_codec [OF SetThreadNameResponse_codec]]) simp_all

end

context wire_reader
begin

lemma SetThreadNameResponse_total [total_rules]: "dec_total W (SetThreadNameResponse_decode W)"
  unfolding SetThreadNameResponse_decode_def SetThreadNameResponse_cases_def by (intro total_rules)

end

subsection \<open>SetThreadEmojiRequest\<close>

record SetThreadEmojiRequest =
  SetThreadEmojiRequest_sessionId :: string
  SetThreadEmojiRequest_threadId :: string
  SetThreadEmojiRequest_emoji :: string

definition createBaseSetThreadEmojiRequest :: SetThreadEmojiRequest where
  "createBaseSetThreadEmojiRequest = \<lparr>SetThreadEmojiRequest_sessionId = '''',
     SetThreadEmojiRequest_threadId = '''',
     SetThreadEmojiRequest_emoji = ''''\<rparr>"

definition SetThreadEmojiRequest_encode :: "('w, 'r) wire \<Rightarrow> SetThreadEmojiRequest \<Rightarrow> 'w writer" where
  "SetThreadEmojiRequest_encode W m = w_seq [
     w_if (SetThreadEmojiRequest_sessionId m \<noteq> '''') [w_uint32 W 10, w_string W (SetThreadEmojiRequest_sessionId m)],
     w_if (SetThreadEmojiRequest_threadId m \<noteq> '''') [w_uint32 W 18, w_string W (SetThreadEmojiRequest_threadId m)],
     w_if (SetThreadEmojiRequest_emoji m \<noteq> '''') [w_uint32 W 26, w_string W (SetThreadEmojiRequest_emoji m)]]"

definition SetThreadEmojiRequest_cases :: "('w, 'r) wire \<Rightarrow> ('r, SetThreadEmojiRequest) cases" where
  "SetThreadEmojiRequest_cases W = [
     (1, 10, d_val (r_string W) (\<lambda>v m. m\<lparr>SetThreadEmojiRequest_sessionId := v\<rparr>)),
     (2, 18, d_val (r_string W) (\<lambda>v m. m\<lparr>SetThreadEmojiRequest_threadId := v\<rparr>)),
     (3, 26, d_val (r_string W) (\<lambda>v m. m\<lparr>SetThreadEmojiRequest_emoji := v\<rparr>))]"

definition SetThreadEmojiRequest_decode :: "('w, 'r) wire \<Rightarrow> ('r, SetThreadEmojiRequest) decoder" where
  "SetThreadEmojiRequest_decode W = d_message W (SetThreadEmojiRequest_cases W) createBaseSetThreadEmojiRequest"

lemmas SetThreadEmojiRequest_defs = SetThreadEmojiRequest_cases_def createBaseSetThreadEmojiRequest_def

context wire_lib
begin

lemma SetThreadEmojiRequest_codec:
  "codec W stk rem 0 (SetThreadEmojiRequest_encode W) (SetThreadEmojiRequest_cases W) createBaseSetThreadEmojiRequest m"
  by (rule codecI [OF SetThreadEmojiRequest_encode_def],
      rule field_string [where upd = SetThreadEmojiRequest_sessionId_update], simp add: SetThreadEmojiRequest_defs, simp add: SetThreadEmojiRequest_defs,
      rule field_string [where upd = SetThreadEmojiRequest_threadId_update], simp add: SetThreadEmojiRequest_defs, simp add: SetThreadEmojiRequest_defs,
      rule field_string [where upd = SetThreadEmojiRequest_emoji_update], simp add: SetThreadEmojiRequest_defs, simp add: SetThreadEmojiRequest_defs,
      rule matched_Nil, cases m, simp add: SetThreadEmojiRequest_defs)

lemma SetThreadEmojiRequest_rt: "1 \<le> d \<Longrightarrow> codec_rt W stk rem d (SetThreadEmojiRequest_encode W) (SetThreadEmojiRequest_decode W) m"
  unfolding SetThreadEmojiRequest_decode_def
  by (rule codec_rt_mono [OF codec_rt_of_codec [OF SetThreadEmojiRequest_codec]]) simp_all

end

context wire_reader
begin

lemma SetThreadEmojiRequest_total [total_rules]: "dec_total W (SetThreadEmojiRequest_decode W)"
  unfolding SetThreadEmojiRequest_decode_def SetThreadEmojiRequest_cases_def by (intro total_rules)

end

subsection \<open>SetThreadEmojiResponse\<close>

datatype SetThreadEmojiResponse = SetThreadEmojiResponse

definition createBaseSetThreadEmojiResponse :: SetThreadEmojiResponse where
  "createBaseSetThreadEmojiResponse = SetThreadEmojiResponse"

definition SetThreadEmojiResponse_encode :: "('w, 'r) wire \<Rightarrow> SetThreadEmojiResponse \<Rightarrow> 'w writer" where
  "SetThreadEmojiResponse_encode W m = w_seq []"

definition SetThreadEmojiResponse_cases :: "('w, 'r) wire \<Rightarrow> ('r, SetThreadEmojiResponse) cases" where
  "SetThreadEmojiResponse_cases W = []"

definition SetThreadEmojiResponse_decode :: "('w, 'r) wire \<Rightarrow> ('r, SetThreadEmojiResponse) decoder" where
  "SetThreadEmojiResponse_decode W = d_message W (SetThreadEmojiResponse_cases W) createBaseSetThreadEmojiResponse"

lemmas SetThreadEmojiResponse_defs = SetThreadEmojiResponse_cases_def createBaseSetThreadEmojiResponse_def

context wire_lib
begin

lemma SetThreadEmojiResponse_codec:
  "codec W stk rem 0 (SetThreadEmojiResponse_encode W) (SetThreadEmojiResponse_cases W) createBaseSetThreadEmojiResponse m"
  by (rule codecI [OF SetThreadEmojiResponse_encode_def],
      rule matched_Nil, cases m, simp add: SetThreadEmojiResponse_defs)

lemma SetThreadEmojiResponse_rt: "1 \<le> d \<Longrightarrow> codec_rt W stk rem d (SetThreadEmojiResponse_encode W) (SetThreadEmojiResponse_decode W) m"
  unfolding SetThreadEmojiResponse_decode_def
  by (rule codec_rt_mono [OF codec_rt_of_codec [OF SetThreadEmojiResponse_codec]]) simp_all

end

context wire_reader
begin

lemma SetThreadEmojiResponse_total [total_rules]: "dec_total W (SetThreadEmojiResponse_decode W)"
  unfolding SetThreadEmojiResponse_decode_def SetThreadEmojiResponse_cases_def by (intro total_rules)

end

subsection \<open>SetNicknameRequest\<close>

record SetNicknameRequest =
  SetNicknameRequest_sessionId :: string
  SetNicknameRequest_threadId :: string
  SetNicknameRequest_userId :: string
  SetNicknameRequest_nickname :: string

definition createBaseSetNicknameRequest :: SetNicknameRequest where
  "createBaseSetNicknameRequest = \<lparr>SetNicknameRequest_sessionId = '''',
     SetNicknameRequest_threadId = '''',
     SetNicknameRequest_userId = '''',
     SetNicknameRequest_nickname = ''''\<rparr>"

definition SetNicknameRequest_encode :: "('w, 'r) wire \<Rightarrow> SetNicknameRequest \<Rightarrow> 'w writer" where
  "SetNicknameRequest_encode W m = w_seq [
     w_if (SetNicknameRequest_sessionId m \<noteq> '''') [w_uint32 W 10, w_string W (SetNicknameRequest_sessionId m)],
     w_if (SetNicknameRequest_threadId m \<noteq> '''') [w_uint32 W 18, w_string W (SetNicknameRequest_threadId m)],
     w_if (SetNicknameRequest_userId m \<noteq> '''') [w_uint32 W 26, w_string W (SetNicknameRequest_userId m)],
     w_if (SetNicknameRequest_nickname m \<noteq> '''') [w_uint32 W 34, w_string W (SetNicknameRequest_nickname m)]]"

definition SetNicknameRequest_cases :: "('w, 'r) wire \<Rightarrow> ('r, SetNicknameRequest) cases" where
  "SetNicknameRequest_cases W = [
     (1, 10, d_val (r_string W) (\<lambda>v m. m\<lparr>SetNicknameRequest_sessionId := v\<rparr>)),
     (2, 18, d_val (r_string W) (\<lambda>v m. m\<lparr>SetNicknameRequest_threadId := v\<rparr>)),
     (3, 26, d_val (r_string W) (\<lambda>v m. m\<lparr>SetNicknameRequest_userId := v\<rparr>)),
     (4, 34, d_val (r_string W) (\<lambda>v m. m\<lparr>SetNicknameRequest_nickname := v\<rparr>))]"

definition SetNicknameRequest_decode :: "('w, 'r) wire \<Rightarrow> ('r, SetNicknameRequest) decoder" where
  "SetNicknameRequest_decode W = d_message W (SetNicknameRequest_cases W) createBaseSetNicknameRequest"

lemmas SetNicknameRequest_defs = SetNicknameRequest_cases_def createBaseSetNicknameRequest_def

context wire_lib
begin

lemma SetNicknameRequest_codec:
  "codec W stk rem 0 (SetNicknameRequest_encode W) (SetNicknameRequest_cases W) createBaseSetNicknameRequest m"
  by (rule codecI [OF SetNicknameRequest_encode_def],
      rule field_string [where upd = SetNicknameRequest_sessionId_update], simp add: SetNicknameRequest_defs, simp add: SetNicknameRequest_defs,
      rule field_string [where upd = SetNicknameRequest_threadId_update], simp add: SetNicknameRequest_defs, simp add: SetNicknameRequest_defs,
      rule field_string [where upd = SetNicknameRequest_userId_update], simp add: SetNicknameRequest_defs, simp add: SetNicknameRequest_defs,
      rule field_string [where upd = SetNicknameRequest_nickname_update], simp add: SetNicknameRequest_defs, simp add: SetNicknameRequest_defs,
      rule matched_Nil, cases m, simp add: SetNicknameRequest_defs)

lemma SetNicknameRequest_rt: "1 \<le> d \<Longrightarrow> codec_rt W stk rem d (SetNicknameRequest_encode W) (SetNicknameRequest_decode W) m"
  unfolding SetNicknameRequest_decode_def
  by (rule codec_rt_mono [OF codec_rt_of_codec [OF SetNicknameRequest_codec]]) simp_all

end

context wire_reader
begin

lemma SetNicknameRequest_total [total_rules]: "dec_total W (SetNicknameRequest_decode W)"
  unfolding SetNicknameRequest_decode_def SetNicknameRequest_cases_def by (intro total_rules)

end

subsection \<open>SetNicknameResponse\<close>

datatype SetNicknameResponse = SetNicknameResponse

definition createBaseSetNicknameResponse :: SetNicknameResponse where
  "createBaseSetNicknameResponse = SetNicknameResponse"

definition SetNicknameResponse_encode :: "('w, 'r) wire \<Rightarrow> SetNicknameResponse \<Rightarrow> 'w writer" where
  "SetNicknameResponse_encode W m = w_seq []"

definition SetNicknameResponse_cases :: "('w, 'r) wire \<Rightarrow> ('r, SetNicknameResponse) cases" where
  "SetNicknameResponse_cases W = []"

definition SetNicknameResponse_decode :: "('w, 'r) wire \<Rightarrow> ('r, SetNicknameResponse) decoder" where
  "SetNicknameResponse_decode W = d_message W (SetNicknameResponse_cases W) createBaseSetNicknameResponse"

lemmas SetNicknameResponse_defs = SetNicknameResponse_cases_def createBaseSetNicknameResponse_def

context wire_lib
begin

lemma SetNicknameResponse_codec:
  "codec W stk rem 0 (SetNicknameResponse_encode W) (SetNicknameResponse_cases W) createBaseSetNicknameResponse m"
  by (rule codecI [OF SetNicknameResponse_encode_def],
      rule matched_Nil, cases m, simp add: SetNicknameResponse_defs)

lemma SetNicknameResponse_rt: "1 \<le> d \<Longrightarrow> codec_rt W stk rem d (SetNicknameResponse_encode W) (SetNicknameResponse_decode W) m"
  unfolding SetNicknameResponse_decode_def
  by (rule codec_rt_mono [OF codec_rt_of_codec [OF SetNicknameResponse_codec]]) simp_all

end

context wire_reader
begin

lemma SetNicknameResponse_total [total_rules]: "dec_total W (SetNicknameResponse_decode W)"
  unfolding SetNicknameResponse_decode_def SetNicknameResponse_cases_def by (intro total_rules)

end

end
