(* ===== verification/Codec_Properties.thy ===== *)
theory Codec_Properties
  imports Wire_Instance Gen_Session Gen_Health Gen_Runtime Gen_Facebook Gen_E2ee Gen_Messenger
begin

text \<open>
  What the generated codecs guarantee to the SDK, for every implementation of the wire library that
  keeps the protobuf format (\<open>wire_lib\<close>, \<open>wire_format\<close>): round trips of the messages the client
  exchanges, tolerance of fields of later protocol versions, decoders that return on every input,
  range errors, dates, and where the generated code loses information.
\<close>

definition is_Inr :: "('e, 'a) result \<Rightarrow> bool" where
  "is_Inr x = (case x of Inl _ \<Rightarrow> False | Inr _ \<Rightarrow> True)"

lemma encodes: "is_Inr (encode_bytes W enc m) \<Longrightarrow> \<exists>bs. encode_bytes W enc m = Inr bs"
  by (simp add: is_Inr_def split: sum.splits)

section \<open>Round trips\<close>

text \<open>C5: an event that the runtime encodes is decoded by the SDK to the same event, with whichever of
the fifteen payloads it carries.\<close>

theorem event_round_trip:
  assumes "wire_lib W stk rem" and "SubscribeEventsResponse_ok m"
    and "encode_bytes W (SubscribeEventsResponse_encode W) m = Inr bs"
  shows "decode_bytes W (SubscribeEventsResponse_decode W) bs = Some (Inr m)"
  unfolding SubscribeEventsResponse_decode_def
  by (rule wire_lib.roundtrip [OF assms(1) wire_lib.SubscribeEventsResponse_codec [OF assms(1,2)] _ assms(3)])
    (simp add: recursion_limit_def)

definition demo_response :: SubscribeEventsResponse where
  "demo_response = \<lparr>SubscribeEventsResponse_event = Some \<lparr>Event_sessionId = ''s1'', Event_sequence = 2,
     Event_emittedAt = None,
     Event_payload = Some (Event_payload_typing \<lparr>TypingEvent_threadId = ''t1'', TypingEvent_senderId = ''u1'',
       TypingEvent_typing = True\<rparr>)\<rparr>\<rparr>"

lemma is_Inr_demo: "is_Inr (encode_bytes pb_wire (SubscribeEventsResponse_encode pb_wire) demo_response)"
  by code_simp

lemma event_round_trip_witness:
  "\<exists>bs. encode_bytes pb_wire (SubscribeEventsResponse_encode pb_wire) demo_response = Inr bs \<and>
    decode_bytes pb_wire (SubscribeEventsResponse_decode pb_wire) bs = Some (Inr demo_response)"
proof -
  obtain bs where bs: "encode_bytes pb_wire (SubscribeEventsResponse_encode pb_wire) demo_response = Inr bs"
    using encodes [of pb_wire "SubscribeEventsResponse_encode pb_wire" demo_response] by (auto simp: is_Inr_demo)
  moreover have "SubscribeEventsResponse_ok demo_response"
    by (simp add: SubscribeEventsResponse_ok_def demo_response_def Event_ok_def Event_payload_case_ok_def max_time_def)
  ultimately show ?thesis using event_round_trip [OF pb.wire_lib_axioms] by blast
qed

definition demo_request :: CreateSessionRequest where
  "demo_request = \<lparr>CreateSessionRequest_cookies = [], CreateSessionRequest_e2ee = True,
     CreateSessionRequest_eventBuffer = 300,
     CreateSessionRequest_timeout = Some \<lparr>Duration_seconds = 3, Duration_nanos = 0\<rparr>,
     CreateSessionRequest_auth = Some \<lparr>SessionAuth_source = Some (SessionAuth_source_cookies
       \<lparr>CookieMap_values = [(''c_user'', ''7''), (''xs'', ''k'')]\<rparr>)\<rparr>\<rparr>"

lemma demo_request_encodes: "is_Inr (encode_bytes pb_wire (CreateSessionRequest_encode pb_wire) demo_request)"
  by code_simp

lemma demo_request_ok: "CreateSessionRequest_ok demo_request"
  by code_simp

definition demo_snapshot :: GetAuthSnapshotResponse where
  "demo_snapshot = \<lparr>GetAuthSnapshotResponse_snapshot = Some \<lparr>AuthSnapshot_cookies = Some \<lparr>CookieMap_values = [(''xs'', ''k'')]\<rparr>,
     AuthSnapshot_appState = Some \<lparr>AppState_cookies = [createBaseAppStateCookie\<lparr>AppStateCookie_key := ''xs'', AppStateCookie_secure := True\<rparr>]\<rparr>,
     AuthSnapshot_session = Some (createBaseFacebookSession\<lparr>FacebookSession_clientRevision := 1234567\<rparr>)\<rparr>\<rparr>"

lemma demo_snapshot_encodes: "is_Inr (encode_bytes pb_wire (GetAuthSnapshotResponse_encode pb_wire) demo_snapshot)"
  by code_simp

lemma demo_snapshot_ok: "GetAuthSnapshotResponse_ok demo_snapshot"
  by code_simp

text \<open>C21: what the SDK sends to create a session and the snapshot it receives survive the wire: cookies,
options, timeout and the authentication source with every cookie or credential; AppState and session
metadata with its date.  The condition is that the cookie maps have no key \<open>__proto__\<close>, which the decoder
loses, and that the date is one a JavaScript \<open>Date\<close> can hold.\<close>

theorem session_messages_round_trip:
  assumes "wire_lib W stk rem"
  shows "(CreateSessionRequest_ok q \<longrightarrow> encode_bytes W (CreateSessionRequest_encode W) q = Inr bs \<longrightarrow>
      decode_bytes W (CreateSessionRequest_decode W) bs = Some (Inr q)) \<and>
    (GetAuthSnapshotResponse_ok a \<longrightarrow> encode_bytes W (GetAuthSnapshotResponse_encode W) a = Inr bs \<longrightarrow>
      decode_bytes W (GetAuthSnapshotResponse_decode W) bs = Some (Inr a))"
  using wire_lib.roundtrip [OF assms wire_lib.CreateSessionRequest_codec [OF assms], of q bs]
    wire_lib.roundtrip [OF assms wire_lib.GetAuthSnapshotResponse_codec [OF assms], of a bs]
  by (simp add: CreateSessionRequest_decode_def GetAuthSnapshotResponse_decode_def recursion_limit_def)

lemma session_messages_round_trip_witness:
  "\<exists>bs cs. encode_bytes pb_wire (CreateSessionRequest_encode pb_wire) demo_request = Inr bs \<and>
    decode_bytes pb_wire (CreateSessionRequest_decode pb_wire) bs = Some (Inr demo_request) \<and>
    encode_bytes pb_wire (GetAuthSnapshotResponse_encode pb_wire) demo_snapshot = Inr cs \<and>
    decode_bytes pb_wire (GetAuthSnapshotResponse_decode pb_wire) cs = Some (Inr demo_snapshot)"
  using encodes [OF demo_request_encodes] encodes [OF demo_snapshot_encodes] demo_request_ok demo_snapshot_ok
    session_messages_round_trip [OF pb.wire_lib_axioms, of demo_request _ demo_snapshot] by blast

section \<open>Other protocol versions\<close>

text \<open>C14: an SDK tolerates events of a later protocol: unknown fields of any wire type but groups, before
and after the known ones, do not disturb decoding.\<close>

theorem unknown_fields_ignored:
  assumes "wire_lib W stk rem" and "Event_ok m" and "encode_bytes W (Event_encode W) m = Inr bs"
    and "unknown (Event_cases W) us" and "unknown (Event_cases W) vs"
  shows "decode_bytes W (Event_decode W) (us @ bs @ vs) = Some (Inr m)"
  unfolding Event_decode_def
  by (rule wire_lib.roundtrip_unknown [OF assms(1) wire_lib.Event_codec [OF assms(1,2)] _ assms(3-5)])
    (simp add: recursion_limit_def)

text \<open>The bytes of a test of the SDK: an event with session \<open>s1\<close>, sequence 7 and an unknown field 100.\<close>

lemma unknown_fields_ignored_witness:
  "decode_bytes pb_wire (Event_decode pb_wire)
     ([] @ [0x0a, 2, 0x73, 0x31, 0x10, 7] @ [0xa2, 6, 8, 10, 6, 0x66, 0x75, 0x74, 0x75, 0x72, 0x65]) =
   Some (Inr (createBaseEvent\<lparr>Event_sessionId := ''s1'', Event_sequence := 7\<rparr>))"
proof (rule unknown_fields_ignored [OF pb.wire_lib_axioms])
  show "Event_ok (createBaseEvent\<lparr>Event_sessionId := ''s1'', Event_sequence := 7\<rparr>)"
    by (simp add: Event_ok_def createBaseEvent_def)
  show "encode_bytes pb_wire (Event_encode pb_wire) (createBaseEvent\<lparr>Event_sessionId := ''s1'', Event_sequence := 7\<rparr>) =
      Inr [0x0a, 2, 0x73, 0x31, 0x10, 7]" by code_simp
  show "unknown (Event_cases pb_wire) []" by (rule unknown_Nil)
  have "pb_uint32 (int 802) = Some [0xa2, 6]" by code_simp
  moreover have "lenpref [10, 6, 0x66, 0x75, 0x74, 0x75, 0x72, 0x65] = [8, 10, 6, 0x66, 0x75, 0x74, 0x75, 0x72, 0x65]"
    by code_simp
  then have "pb_payload (802 mod 8) [8, 10, 6, 0x66, 0x75, 0x74, 0x75, 0x72, 0x65]"
    by (auto simp: pb_payload_def intro!: exI [of _ "[10, 6, 0x66, 0x75, 0x74, 0x75, 0x72, 0x65]"])
  moreover have "d_switch (Event_cases pb_wire) 802 = None" by (simp add: Event_cases_def)
  ultimately show "unknown (Event_cases pb_wire) [0xa2, 6, 8, 10, 6, 0x66, 0x75, 0x74, 0x75, 0x72, 0x65]"
    using unknown_field [of 802 "[0xa2, 6]" "Event_cases pb_wire" "[8, 10, 6, 0x66, 0x75, 0x74, 0x75, 0x72, 0x65]" "[]"]
      unknown_Nil [of "Event_cases pb_wire"] by simp
qed

section \<open>Arbitrary input\<close>

text \<open>C6: the decoder of every response the SDK client reads returns, with a message or an exception, on
every sequence of bytes: no input makes it loop.\<close>

theorem response_decoders_return:
  assumes "wire_format W stk rem"
  shows "(\<exists>x. decode_bytes W (SubscribeEventsResponse_decode W) bs = Some x) \<and>
    (\<exists>x. decode_bytes W (CreateSessionResponse_decode W) bs = Some x) \<and>
    (\<exists>x. decode_bytes W (ConnectResponse_decode W) bs = Some x) \<and>
    (\<exists>x. decode_bytes W (RefreshAuthResponse_decode W) bs = Some x) \<and>
    (\<exists>x. decode_bytes W (GetAuthSnapshotResponse_decode W) bs = Some x) \<and>
    (\<exists>x. decode_bytes W (GetHealthResponse_decode W) bs = Some x) \<and>
    (\<exists>x. decode_bytes W (CloseSessionResponse_decode W) bs = Some x) \<and>
    (\<exists>x. decode_bytes W (GetInfoResponse_decode W) bs = Some x)"
proof -
  note r = wire_format.axioms(2) [OF assms]
  show ?thesis
    by (intro conjI; rule wire_format.decode_bytes_total [OF assms];
        rule wire_reader.SubscribeEventsResponse_total [OF r] wire_reader.CreateSessionResponse_total [OF r]
          wire_reader.ConnectResponse_total [OF r] wire_reader.RefreshAuthResponse_total [OF r]
          wire_reader.GetAuthSnapshotResponse_total [OF r] wire_reader.GetHealthResponse_total [OF r]
          wire_reader.CloseSessionResponse_total [OF r] wire_reader.GetInfoResponse_total [OF r])
qed

lemma response_decoders_return_witness:
  "\<exists>x. decode_bytes pb_wire (SubscribeEventsResponse_decode pb_wire) [10, 200, 1, 7, 255] = Some x"
  using response_decoders_return [OF pb.wire_format_axioms] by blast

section \<open>Range errors\<close>

lemma string_field_written:
  assumes "wire_lib W stk rem" and "length (utf8 s) < 2 ^ 32"
  shows "\<exists>w. w_if (s \<noteq> '''') [w_uint32 W 10, w_string W s] (w_new W) = Inr w"
proof -
  have new: "stk (w_new W) = [[]]" by (rule wire_lib.stk_new [OF assms(1)])
  have "pb_uint32 10 \<noteq> None" by code_simp
  then obtain b where "pb_uint32 10 = Some b" by auto
  then obtain w1 where w1: "w_uint32 W 10 (w_new W) = Inr w1" "stk w1 = [b]"
    using wire_lib.put_uint32 [OF assms(1), of 10] new unfolding appends_def by fastforce
  have "pb_string s = Some (lenpref (utf8 s))" using assms(2) by (simp add: pb_string_def pb_bytes_def)
  then obtain w2 where "w_string W s w1 = Inr w2"
    using wire_lib.put_string [OF assms(1), of s] w1(2) unfolding appends_def by fastforce
  then show ?thesis using w1(1) by (simp add: w_if_def)
qed

text \<open>C32: an event whose sequence number does not fit an unsigned 64-bit integer is not encoded: \<open>encode\<close>
throws, and the error is the one that names the field and its type, unless already the session id cannot be
written, because it has 4 GiB of UTF-8 or more.\<close>

theorem sequence_out_of_range:
  assumes "wire_lib W stk rem" and "Event_sequence m < 0 \<or> 2 ^ 64 \<le> Event_sequence m"
  shows "(length (utf8 (Event_sessionId m)) < 2 ^ 32 \<longrightarrow> encode_bytes W (Event_encode W) m =
      Inl (JsError ''value provided for field message.sequence of type uint64 too large'')) \<and>
    (\<exists>e. encode_bytes W (Event_encode W) m = Inl e)"
proof -
  have seq: "Event_sequence m \<noteq> 0" "asUintN64 (Event_sequence m) \<noteq> Event_sequence m"
    using assms(2) asUintN64_eq_iff [of "Event_sequence m"] by auto
  have some: "\<exists>e. encode_bytes W (Event_encode W) m = Inl e"
    using seq by (auto simp: encode_bytes_def Event_encode_def w_if_def w_check_def split: sum.split)
  have "encode_bytes W (Event_encode W) m = Inl (too_large ''message.sequence'' ''uint64'')"
    if "length (utf8 (Event_sessionId m)) < 2 ^ 32"
  proof -
    have "\<exists>w. w_if (Event_sessionId m \<noteq> '''') [w_uint32 W 10, w_string W (Event_sessionId m)] (w_new W) = Inr w"
      by (rule string_field_written [OF assms(1) that])
    then obtain w where "w_if (Event_sessionId m \<noteq> '''') [w_uint32 W 10, w_string W (Event_sessionId m)] (w_new W) = Inr w" ..
    then show ?thesis using seq by (simp add: encode_bytes_def Event_encode_def w_if_def [of True] w_check_def)
  qed
  then show ?thesis using some by (simp add: too_large_def)
qed

lemma sequence_out_of_range_witness:
  "encode_bytes pb_wire (Event_encode pb_wire) (createBaseEvent\<lparr>Event_sessionId := ''s1'', Event_sequence := 2 ^ 64\<rparr>) =
   Inl (JsError ''value provided for field message.sequence of type uint64 too large'')"
proof -
  have "length (utf8 ''s1'') = 2" by code_simp
  then show ?thesis
    using sequence_out_of_range [OF pb.wire_lib_axioms, of "createBaseEvent\<lparr>Event_sessionId := ''s1'', Event_sequence := 2 ^ 64\<rparr>"]
    by (simp add: createBaseEvent_def)
qed

section \<open>Dates\<close>

text \<open>C22: a date survives the conversion to a protobuf timestamp and back, to the millisecond, over the
whole range of JavaScript dates; the conversion throws exactly on the invalid date.  The nanoseconds have
the sign of the date: for a date before 1970 that is not a whole second they are negative, although the
protobuf definition of a timestamp requires them to be between 0 and 999,999,999.\<close>

theorem date_round_trip:
  "(case toTimestamp date of
      Inl e \<Rightarrow> date = InvalidDate \<and> error_name e = ''RangeError''
    | Inr t \<Rightarrow> (js_date_ok date \<longrightarrow> fromTimestamp t = date) \<and> \<bar>Timestamp_nanos t\<bar> < 1000000000 \<and>
        (\<forall>ms. date = ValidDate ms \<and> ms < 0 \<and> \<not> 1000 dvd ms \<longrightarrow> Timestamp_nanos t < 0))"
proof (cases date)
  case (ValidDate ms)
  have "\<bar>ms\<bar> mod 1000 < 1000" by simp
  then have "\<bar>rem_int ms 1000 * 1000000\<bar> < 1000000000"
    using rem_int_bounds [of 1000 ms] by (simp add: abs_mult)
  moreover have "rem_int ms 1000 * 1000000 < 0" if "ms < 0" "\<not> 1000 dvd ms"
  proof -
    have "0 < \<bar>ms\<bar> mod 1000"
      using that(2) by (metis dvd_abs_iff mod_0_imp_dvd order_le_less pos_mod_sign zero_less_numeral)
    then show ?thesis using that(1) by (simp add: rem_int_def)
  qed
  ultimately show ?thesis
    using fromTimestamp_toTimestamp [of date] ValidDate by (auto simp: toTimestamp_def)
qed (simp add: toTimestamp_def)

lemma date_round_trip_witness:
  "\<exists>t. toTimestamp (ValidDate (-1)) = Inr t \<and> fromTimestamp t = ValidDate (-1) \<and> Timestamp_nanos t < 0"
  using date_round_trip [of "ValidDate (-1)"] by (simp add: toTimestamp_def max_time_def rem_int_def)

end
