(* ===== verification/Js_Dates.thy ===== *)
theory Js_Dates
  imports Js_Values
begin

text \<open>
  \<open>Date.prototype.toISOString\<close> and the reading of that format by \<open>new Date(text)\<close>: the calendar of
  the language specification (days from the epoch, proleptic Gregorian) and the fixed-width text.
  The JSON form of a date field is this text.  Reading is modelled for the texts that
  \<open>toISOString\<close> writes; the lemma \<open>iso_round_trip\<close> covers every valid date.
\<close>

section \<open>Calendar\<close>

definition day_from_year :: "int \<Rightarrow> int" where
  "day_from_year y = 365 * (y - 1970) + (y - 1969) div 4 - (y - 1901) div 100 + (y - 1601) div 400"

definition leap_year :: "int \<Rightarrow> bool" where
  "leap_year y \<longleftrightarrow> y mod 4 = 0 \<and> (y mod 100 \<noteq> 0 \<or> y mod 400 = 0)"

definition year_from_day :: "int \<Rightarrow> int" where
  "year_from_day d = (let y = 1970 + (400 * d) div 146097 in
     if d < day_from_year y then y - 1 else if day_from_year (y + 1) \<le> d then y + 1 else y)"

text \<open>The day of the year on which each month starts.\<close>

definition month_starts :: "bool \<Rightarrow> int list" where
  "month_starts leap = (let l = of_bool leap in
     [0, 31, 59 + l, 90 + l, 120 + l, 151 + l, 181 + l, 212 + l, 243 + l, 273 + l, 304 + l, 334 + l])"

definition month_of :: "bool \<Rightarrow> int \<Rightarrow> nat" where
  "month_of leap r = length (filter (\<lambda>s. s \<le> r) (month_starts leap)) - 1"

lemma div_succ:
  fixes a k :: int
  assumes "0 < k"
  shows "(a + 1) div k = a div k + of_bool ((a + 1) mod k = 0)"
proof (cases "a mod k + 1 < k")
  case True
  have a: "a + 1 = k * (a div k) + (a mod k + 1)" by simp
  have "0 \<le> a mod k" using assms by simp
  then have r: "0 \<le> a mod k + 1" "a mod k + 1 < k" "a mod k + 1 \<noteq> 0" using True by linarith+
  show ?thesis
    using r(3) int_div_pos_eq [OF a r(1,2)] int_mod_pos_eq [OF a r(1,2)] by (simp only: of_bool_eq add_0_right if_False)
next
  case False
  then have "a mod k = k - 1" using assms pos_mod_bound [of k a] by linarith
  then have a: "a + 1 = k * (a div k + 1) + 0"
    using mult_div_mod_eq [of k a] by (simp add: distrib_left)
  show ?thesis
    using int_div_pos_eq [OF a order.refl assms] int_mod_pos_eq [OF a order.refl assms] by (simp only: of_bool_def simp_thms if_True)
qed

lemma year_length: "day_from_year (y + 1) = day_from_year y + 365 + of_bool (leap_year y)"
proof -
  have m: "(y - c * k) mod k = 0 \<longleftrightarrow> y mod k = 0" for c k :: int
    unfolding mod_eq_0_iff_dvd by (metis dvd_diff dvd_triv_right diff_add_cancel dvd_add)
  have 4: "(y - 1968) div 4 = (y - 1969) div 4 + of_bool (y mod 4 = 0)"
    using div_succ [of 4 "y - 1969"] m [of 492 4] by simp
  have 100: "(y - 1900) div 100 = (y - 1901) div 100 + of_bool (y mod 100 = 0)"
    using div_succ [of 100 "y - 1901"] m [of 19 100] by simp
  have 400: "(y - 1600) div 400 = (y - 1601) div 400 + of_bool (y mod 400 = 0)"
    using div_succ [of 400 "y - 1601"] m [of 4 400] by simp
  have sub: "y mod 400 = 0 \<Longrightarrow> y mod 100 = 0" "y mod 100 = 0 \<Longrightarrow> y mod 4 = 0"
    using dvd_trans [of "100 :: int" 400 y] dvd_trans [of "4 :: int" 100 y] by (simp_all add: mod_eq_0_iff_dvd)
  have "day_from_year (y + 1) = 365 * (y - 1970) + 365 + (y - 1968) div 4 - (y - 1900) div 100 + (y - 1600) div 400"
    by (simp add: day_from_year_def)
  also have "\<dots> = day_from_year y + 365 + (of_bool (y mod 4 = 0) - of_bool (y mod 100 = 0) + of_bool (y mod 400 = 0))"
    unfolding 4 100 400 day_from_year_def by simp
  also have "of_bool (y mod 4 = 0) - of_bool (y mod 100 = 0) + of_bool (y mod 400 = 0) = (of_bool (leap_year y) :: int)"
    using sub unfolding leap_year_def
    by (cases "y mod 4 = 0"; cases "y mod 100 = 0"; cases "y mod 400 = 0") (simp_all only: of_bool_def simp_thms if_True if_False)
  finally show ?thesis .
qed

lemma div_bounds: "0 < k \<Longrightarrow> k * (a div k) \<le> a" "0 < k \<Longrightarrow> a < k * (a div k) + k" for a k :: int
  using mult_div_mod_eq [of k a] pos_mod_sign [of k a] pos_mod_bound [of k a] by linarith+

lemma day_from_year_bounds:
  "400 * day_from_year y \<le> 146097 * (y - 1970) + 800" "146097 * (y - 1970) - 800 \<le> 400 * day_from_year y"
proof -
  define a b c where "a = (y - 1969) div 4" and "b = (y - 1901) div 100" and "c = (y - 1601) div 400"
  have abc: "4 * a \<le> y - 1969" "y - 1969 < 4 * a + 4" "100 * b \<le> y - 1901" "y - 1901 < 100 * b + 100"
    "400 * c \<le> y - 1601" "y - 1601 < 400 * c + 400"
    unfolding a_def b_def c_def by (rule div_bounds, simp)+
  have "day_from_year y = 365 * (y - 1970) + a - b + c"
    by (simp add: day_from_year_def a_def b_def c_def)
  then show "400 * day_from_year y \<le> 146097 * (y - 1970) + 800" "146097 * (y - 1970) - 800 \<le> 400 * day_from_year y"
    using abc by (simp_all add: algebra_simps)
qed

lemma year_from_day_bounds:
  "day_from_year (year_from_day d) \<le> d" "d < day_from_year (year_from_day d + 1)"
proof -
  define q where "q = (400 * d) div 146097"
  have q: "146097 * q \<le> 400 * d" "400 * d < 146097 * q + 146097"
    unfolding q_def by (rule div_bounds, simp)+
  have lo: "day_from_year (1970 + q - 1) \<le> d"
    using q day_from_year_bounds [of "1970 + q - 1"] by (simp add: algebra_simps)
  have hi: "d < day_from_year (1970 + q + 1 + 1)"
    using q day_from_year_bounds [of "1970 + q + 1 + 1"] by (simp add: algebra_simps)
  show "day_from_year (year_from_day d) \<le> d" "d < day_from_year (year_from_day d + 1)"
    using lo hi unfolding year_from_day_def q_def [symmetric] Let_def by auto
qed

lemma month_of_bounds:
  assumes "0 \<le> r" "r < 365 + of_bool leap"
  shows "month_of leap r < 12" "month_starts leap ! month_of leap r \<le> r"
    "r < month_starts leap ! month_of leap r + 31"
  using assms by (cases leap; auto simp: month_of_def month_starts_def nth_Cons')+

section \<open>The text\<close>

fun pad_digits :: "nat \<Rightarrow> nat \<Rightarrow> string" where
  "pad_digits 0 n = []"
| "pad_digits (Suc k) n = pad_digits k (n div 10) @ [digit_char (n mod 10)]"

definition year_text :: "int \<Rightarrow> string" where
  "year_text y = (if 0 \<le> y \<and> y \<le> 9999 then pad_digits 4 (nat y)
     else (if y < 0 then CHR ''-'' else CHR ''+'') # pad_digits 6 (nat \<bar>y\<bar>))"

definition time_text :: "nat \<Rightarrow> nat \<Rightarrow> nat \<Rightarrow> string" where
  "time_text month day t =
     [CHR ''-''] @ pad_digits 2 (month + 1) @ [CHR ''-''] @ pad_digits 2 day @ [CHR ''T''] @
     pad_digits 2 (t div 3600000) @ [CHR '':''] @ pad_digits 2 (t div 60000 mod 60) @ [CHR '':''] @
     pad_digits 2 (t div 1000 mod 60) @ [CHR ''.''] @ pad_digits 3 (t mod 1000) @ [CHR ''Z'']"

definition iso_text :: "int \<Rightarrow> string" where
  "iso_text ms = (let d = ms div 86400000; y = year_from_day d; r = d - day_from_year y;
     m = month_of (leap_year y) r in
     year_text y @ time_text m (nat (r - month_starts (leap_year y) ! m + 1)) (nat (ms mod 86400000)))"

fun toISOString :: "js_date \<Rightarrow> (js_error, string) result" where
  "toISOString (ValidDate ms) = Inr (iso_text ms)"
| "toISOString InvalidDate = Inl (JsRangeError ''Invalid time value'')"

definition is_digit :: "char \<Rightarrow> bool" where
  "is_digit c \<longleftrightarrow> 48 \<le> (of_char c :: nat) \<and> (of_char c :: nat) \<le> 57"

text \<open>The year with its sign and the rest of the text; then month, day and time in the rest.\<close>

definition read_year :: "string \<Rightarrow> (int \<times> string) option" where
  "read_year s = (case s of [] \<Rightarrow> None | c # t \<Rightarrow>
     if c = CHR ''-'' \<or> c = CHR ''+''
     then (if 6 \<le> length t \<and> list_all is_digit (take 6 t)
           then Some ((if c = CHR ''-'' then -1 else 1) * int (nat_of_digits (take 6 t)), drop 6 t) else None)
     else (if 4 \<le> length s \<and> list_all is_digit (take 4 s)
           then Some (int (nat_of_digits (take 4 s)), drop 4 s) else None))"

definition field_at :: "nat \<Rightarrow> nat \<Rightarrow> string \<Rightarrow> nat option" where
  "field_at i k s = (let t = take k (drop i s) in
     if length t = k \<and> list_all is_digit t then Some (nat_of_digits t) else None)"

definition read_time :: "string \<Rightarrow> (nat \<times> nat \<times> nat) option" where
  "read_time s =
     (if length s = 20 \<and> s ! 0 = CHR ''-'' \<and> s ! 3 = CHR ''-'' \<and> s ! 6 = CHR ''T'' \<and> s ! 9 = CHR '':'' \<and>
         s ! 12 = CHR '':'' \<and> s ! 15 = CHR ''.'' \<and> s ! 19 = CHR ''Z''
      then (case (field_at 1 2 s, field_at 4 2 s, field_at 7 2 s, field_at 10 2 s, field_at 13 2 s, field_at 16 3 s) of
          (Some m, Some d, Some h, Some i, Some sec, Some f) \<Rightarrow>
            (if 1 \<le> m \<and> m \<le> 12 \<and> 1 \<le> d \<and> d \<le> 31 \<and> h < 24 \<and> i < 60 \<and> sec < 60
             then Some (m - 1, d, ((h * 60 + i) * 60 + sec) * 1000 + f) else None)
        | _ \<Rightarrow> None)
      else None)"

definition iso_parse :: "string \<Rightarrow> js_date option" where
  "iso_parse s = (case read_year s of None \<Rightarrow> None | Some (y, rest) \<Rightarrow>
     (case read_time rest of None \<Rightarrow> None | Some (m, d, t) \<Rightarrow>
        let ms = (day_from_year y + month_starts (leap_year y) ! m + int d - 1) * 86400000 + int t in
        Some (if \<bar>ms\<bar> \<le> max_time then ValidDate ms else InvalidDate)))"

section \<open>Reading back what was written\<close>

lemma is_digit_char [simp]: "d < 10 \<Longrightarrow> is_digit (digit_char d)"
  by (simp add: is_digit_def of_char_digit_char)

lemma length_pad_digits [simp]: "length (pad_digits k n) = k"
  by (induction k arbitrary: n) simp_all

lemma pad_digits_digits [simp]: "list_all is_digit (pad_digits k n)"
  by (induction k arbitrary: n) simp_all

lemma nat_of_digits_snoc: "nat_of_digits (s @ [c]) = 10 * nat_of_digits s + (of_char c - 48)"
  by (simp add: nat_of_digits_def)

lemma nat_of_pad_digits: "n < 10 ^ k \<Longrightarrow> nat_of_digits (pad_digits k n) = n"
proof (induction k arbitrary: n)
  case 0
  then show ?case by (simp add: nat_of_digits_def)
next
  case (Suc k)
  then have "n div 10 < 10 ^ k" by (simp add: less_mult_imp_div_less mult.commute)
  then show ?case using Suc.IH by (simp add: nat_of_digits_snoc of_char_digit_char)
qed

lemma read_year_text:
  assumes "\<bar>y\<bar> < 10 ^ 6"
  shows "read_year (year_text y @ rest) = Some (y, rest)"
proof (cases "0 \<le> y \<and> y \<le> 9999")
  case True
  then have n: "nat_of_digits (pad_digits 4 (nat y)) = nat y"
    by (intro nat_of_pad_digits) (simp add: nat_less_iff)
  obtain c t where ct: "pad_digits 4 (nat y) = c # t"
    by (cases "pad_digits 4 (nat y)") (simp_all flip: length_0_conv)
  have len: "length (c # t) = 4" and dig: "list_all is_digit (c # t)"
    using ct length_pad_digits pad_digits_digits by metis+
  have "c \<noteq> CHR ''-''" "c \<noteq> CHR ''+''" using dig by (auto simp: is_digit_def)
  then show ?thesis
    using True n len dig by (simp add: read_year_def year_text_def ct)
next
  case False
  then have n: "nat_of_digits (pad_digits 6 (nat \<bar>y\<bar>)) = nat \<bar>y\<bar>"
    using assms by (intro nat_of_pad_digits) simp
  then show ?thesis
    using False by (auto simp: read_year_def year_text_def)
qed

lemma field_at_append: "length a = i \<Longrightarrow> field_at i k (a @ pad_digits k n @ b) = Some (nat_of_digits (pad_digits k n))"
  by (simp add: field_at_def Let_def)

lemma time_parts: "((t div 3600000 * 60 + t div 60000 mod 60) * 60 + t div 1000 mod 60) * 1000 + t mod 1000 = t" for t :: nat
proof -
  have "t div 60000 = t div 1000 div 60" "t div 3600000 = t div 1000 div 60 div 60"
    by (simp_all add: div_mult2_eq [symmetric])
  then show ?thesis by (simp only: div_mult_mod_eq)
qed

lemma pad2: "pad_digits 2 n = [digit_char (n div 10 mod 10), digit_char (n mod 10)]"
  and pad3: "pad_digits 3 n = [digit_char (n div 10 div 10 mod 10), digit_char (n div 10 mod 10), digit_char (n mod 10)]"
  by (simp_all add: numeral_2_eq_2 numeral_3_eq_3)

lemma read_time_text:
  assumes "m < 12" "1 \<le> d" "d \<le> 31" "t < 86400000"
  shows "read_time (time_text m d t) = Some (m, d, t)"
proof -
  let ?s = "time_text m d t"
  have n: "m + 1 < 10 ^ 2" "d < 10 ^ 2" "t div 3600000 < 10 ^ 2" "t div 60000 mod 60 < 10 ^ 2"
    "t div 1000 mod 60 < 10 ^ 2" "t mod 1000 < 10 ^ 3"
    using assms by (simp_all add: less_mult_imp_div_less order_less_trans [OF mod_less_divisor])
  have f: "field_at 1 2 ?s = Some (m + 1)" "field_at 4 2 ?s = Some d" "field_at 7 2 ?s = Some (t div 3600000)"
    "field_at 10 2 ?s = Some (t div 60000 mod 60)" "field_at 13 2 ?s = Some (t div 1000 mod 60)"
    "field_at 16 3 ?s = Some (t mod 1000)"
    by (simp_all add: field_at_def time_text_def del: pad_digits.simps add: nat_of_pad_digits [OF n(1), unfolded Suc_eq_plus1 [symmetric]] nat_of_pad_digits [OF n(2)]
        nat_of_pad_digits [OF n(3)] nat_of_pad_digits [OF n(4)] nat_of_pad_digits [OF n(5)] nat_of_pad_digits [OF n(6)])
  have "length ?s = 20" "?s ! 0 = CHR ''-''" "?s ! 3 = CHR ''-''" "?s ! 6 = CHR ''T''" "?s ! 9 = CHR '':''"
    "?s ! 12 = CHR '':''" "?s ! 15 = CHR ''.''" "?s ! 19 = CHR ''Z''"
    by (simp_all add: time_text_def pad2 pad3)
  then show ?thesis
    using assms(1-3) f n(3) less_mult_imp_div_less [of t 24 3600000] assms(4)
      time_parts [of t]
    by (simp add: read_time_def algebra_simps)
qed

lemma iso_round_trip:
  assumes "\<bar>ms\<bar> \<le> max_time"
  shows "iso_parse (iso_text ms) = Some (ValidDate ms)"
proof -
  define d y r l m t where "d = ms div 86400000" and "y = year_from_day d" and "r = d - day_from_year y"
    and "l = leap_year y" and "m = month_of l r" and "t = nat (ms mod 86400000)"
  have r: "0 \<le> r" "r < 365 + of_bool l"
    using year_from_day_bounds [of d] year_length [of y] by (simp_all add: r_def y_def l_def)
  note mb = month_of_bounds [OF r, folded m_def]
  have d: "\<bar>d\<bar> \<le> 100000000" using assms by (simp add: d_def max_time_def)
  have "\<bar>y\<bar> < 10 ^ 6"
    using d year_from_day_bounds [of d] day_from_year_bounds [of y] day_from_year_bounds [of "y + 1"]
    unfolding y_def [symmetric] by (simp only: abs_less_iff abs_le_iff) auto
  moreover have "read_time (time_text m (nat (r - month_starts l ! m + 1)) t) =
      Some (m, nat (r - month_starts l ! m + 1), t)"
    using mb by (intro read_time_text) (simp_all add: t_def nat_less_iff)
  moreover have "iso_text ms = year_text y @ time_text m (nat (r - month_starts l ! m + 1)) t"
    by (simp add: iso_text_def Let_def d_def y_def r_def l_def m_def t_def)
  moreover have "(day_from_year y + month_starts l ! m + int (nat (r - month_starts l ! m + 1)) - 1) * 86400000 + int t = ms"
    using mb by (simp add: r_def t_def d_def)
  ultimately show ?thesis
    using assms by (simp add: iso_parse_def read_year_text l_def Let_def)
qed

end
