(* ===== verification/Js_Any.thy ===== *)
theory Js_Any
  imports Js_Dates
begin

text \<open>
  Untyped JavaScript values, as \<open>fromJSON\<close> receives and \<open>toJSON\<close> returns them, and the conversions
  of the language that the generated code applies to them: property access, \<open>String\<close>, \<open>Number\<close>,
  \<open>Boolean\<close>, \<open>BigInt\<close>, \<open>Object.entries\<close>, and base64.

  A conversion returns, throws, or is \<open>Unmodelled\<close>: its result depends on the environment (a local
  time zone), or is a value the typed records of the messages do not hold (a \<open>number\<close> field that is
  not an integer).
\<close>

section \<open>Values and outcomes\<close>

datatype js_any =
    AUndef
  | ANull
  | ABool bool
  | ANum js_number
  | ABig int
  | AStr string
  | ADate js_date
  | ABytes "byte list"
  | AArr "js_any list"
  | AObj "(string \<times> js_any) list"

datatype 'a js_out = Returned 'a | Thrown js_error | Unmodelled

definition js_bind :: "'a js_out \<Rightarrow> ('a \<Rightarrow> 'b js_out) \<Rightarrow> 'b js_out" where
  "js_bind x f = (case x of Returned v \<Rightarrow> f v | Thrown e \<Rightarrow> Thrown e | Unmodelled \<Rightarrow> Unmodelled)"

lemma js_bind_simps [simp]:
  "js_bind (Returned v) f = f v"
  "js_bind (Thrown e) f = Thrown e"
  "js_bind Unmodelled f = Unmodelled"
  by (simp_all add: js_bind_def)

lemma js_bind_Returned [simp]: "js_bind x f = Returned z \<longleftrightarrow> (\<exists>v. x = Returned v \<and> f v = Returned z)"
  by (cases x) simp_all

definition js_map :: "('a \<Rightarrow> 'b) \<Rightarrow> 'a js_out \<Rightarrow> 'b js_out" where
  "js_map f x = js_bind x (\<lambda>v. Returned (f v))"

lemma js_map_simps [simp]:
  "js_map f (Returned v) = Returned (f v)"
  "js_map f (Thrown e) = Thrown e"
  "js_map f Unmodelled = Unmodelled"
  by (simp_all add: js_map_def)

lemma js_map_Returned [simp]: "js_map f x = Returned z \<longleftrightarrow> (\<exists>v. x = Returned v \<and> z = f v)"
  by (cases x) auto

text \<open>\<open>xs.map(f)\<close> with an \<open>f\<close> that may throw.\<close>

fun js_mapM :: "('a \<Rightarrow> 'b js_out) \<Rightarrow> 'a list \<Rightarrow> 'b list js_out" where
  "js_mapM f [] = Returned []"
| "js_mapM f (x # xs) = js_bind (f x) (\<lambda>y. js_map (\<lambda>ys. y # ys) (js_mapM f xs))"

lemma js_mapM_inverse:
  "js_mapM f xs = Returned ys \<Longrightarrow> (\<And>x y. x \<in> set xs \<Longrightarrow> f x = Returned y \<Longrightarrow> g y = Returned x) \<Longrightarrow>
   js_mapM g ys = Returned xs"
  by (induction xs arbitrary: ys) auto

lemma js_mapM_pure [simp]: "js_mapM (\<lambda>x. Returned (f x)) xs = Returned (map f xs)"
  by (induction xs) simp_all

definition of_result :: "(js_error, 'a) result \<Rightarrow> 'a js_out" where
  "of_result x = (case x of Inl e \<Rightarrow> Thrown e | Inr v \<Rightarrow> Returned v)"

definition isSet :: "js_any \<Rightarrow> bool" where
  "isSet v \<longleftrightarrow> v \<noteq> ANull \<and> v \<noteq> AUndef"

text \<open>\<open>typeof value === "object" && value !== null\<close>\<close>

fun isObject :: "js_any \<Rightarrow> bool" where
  "isObject (ADate d) = True"
| "isObject (ABytes b) = True"
| "isObject (AArr vs) = True"
| "isObject (AObj ps) = True"
| "isObject _ = False"

section \<open>Properties\<close>

text \<open>
  \<open>v.name\<close> for the names of message fields.  None of them is a member of \<open>Object.prototype\<close>; of the
  members of other prototypes \<open>length\<close> is a number, and \<open>values\<close> and \<open>buffer\<close> are not represented.
\<close>

definition js_int :: "int \<Rightarrow> js_any" where "js_int n = ANum (Fin (of_int n))"

fun js_get :: "js_any \<Rightarrow> string \<Rightarrow> js_any js_out" where
  "js_get AUndef name = Thrown (JsTypeError ''Cannot read properties of undefined'')"
| "js_get ANull name = Thrown (JsTypeError ''Cannot read properties of null'')"
| "js_get (AObj ps) name = Returned (case map_of ps name of None \<Rightarrow> AUndef | Some v \<Rightarrow> v)"
| "js_get (AStr s) name = Returned (if name = ''length'' then js_int (int (length s)) else AUndef)"
| "js_get (AArr vs) name = (if name = ''values'' then Unmodelled
     else Returned (if name = ''length'' then js_int (int (length vs)) else AUndef))"
| "js_get (ABytes bs) name = (if name = ''values'' \<or> name = ''buffer'' then Unmodelled
     else Returned (if name = ''length'' then js_int (int (length bs)) else AUndef))"
| "js_get _ name = Returned AUndef"

text \<open>\<open>v?.name\<close>\<close>

definition js_get_opt :: "js_any \<Rightarrow> string \<Rightarrow> js_any js_out" where
  "js_get_opt v name = (if isSet v then js_get v name else Returned AUndef)"

section \<open>Conversions to strings\<close>

text \<open>Numbers that are not integers below \<open>10^21\<close> have other texts, which are not modelled.\<close>

fun number_text :: "js_number \<Rightarrow> string js_out" where
  "number_text NaN = Returned ''NaN''"
| "number_text PosInf = Returned ''Infinity''"
| "number_text NegInf = Returned ''-Infinity''"
| "number_text (Fin q) = (if of_int \<lfloor>q\<rfloor> = q \<and> \<bar>q\<bar> < 10 ^ 21 then Returned (string_of_int \<lfloor>q\<rfloor>) else Unmodelled)"

fun join_texts :: "string \<Rightarrow> string list \<Rightarrow> string" where
  "join_texts sep [] = []"
| "join_texts sep [s] = s"
| "join_texts sep (s # ss) = s @ sep @ join_texts sep ss"

text \<open>
  \<open>String(v)\<close>.  An object with an own property \<open>toString\<close>, which in these values is never callable, has
  no primitive value.  The text of a date names the local time zone.
\<close>

fun js_String :: "js_any \<Rightarrow> string js_out"
  and js_join :: "js_any list \<Rightarrow> string list js_out" where
  "js_String AUndef = Returned ''undefined''"
| "js_String ANull = Returned ''null''"
| "js_String (ABool b) = Returned (if b then ''true'' else ''false'')"
| "js_String (ANum n) = number_text n"
| "js_String (ABig n) = Returned (string_of_int n)"
| "js_String (AStr s) = Returned s"
| "js_String (ADate d) = (case d of InvalidDate \<Rightarrow> Returned ''Invalid Date'' | ValidDate ms \<Rightarrow> Unmodelled)"
| "js_String (ABytes bs) = Returned (join_texts '','' (map (\<lambda>b. string_of_nat (unat b)) bs))"
| "js_String (AArr vs) = js_map (join_texts '','') (js_join vs)"
| "js_String (AObj ps) = (if ''toString'' \<in> fst ` set ps
     then Thrown (JsTypeError ''Cannot convert object to primitive value'') else Returned ''[object Object]'')"
| "js_join [] = Returned []"
| "js_join (v # vs) = js_bind (if isSet v then js_String v else Returned '''')
     (\<lambda>s. js_map (\<lambda>ss. s # ss) (js_join vs))"

section \<open>Conversions to numbers\<close>

fun signed_digits :: "string \<Rightarrow> int option" where
  "signed_digits [] = None"
| "signed_digits (c # s) =
     (if c = CHR ''-'' \<or> c = CHR ''+''
      then (if s \<noteq> [] \<and> list_all is_digit s
            then Some ((if c = CHR ''-'' then -1 else 1) * int (nat_of_digits s)) else None)
      else (if list_all is_digit (c # s) then Some (int (nat_of_digits (c # s))) else None))"

text \<open>\<open>0x\<close>, \<open>0o\<close> and \<open>0b\<close> literals.\<close>

definition digit_value :: "char \<Rightarrow> nat" where
  "digit_value c = (let n = of_char c in
     if 48 \<le> n \<and> n \<le> 57 then n - 48 else if 97 \<le> n \<and> n \<le> 102 then n - 87
     else if 65 \<le> n \<and> n \<le> 70 then n - 55 else 16)"

definition radix_digits :: "nat \<Rightarrow> string \<Rightarrow> nat option" where
  "radix_digits r s = (if s \<noteq> [] \<and> list_all (\<lambda>c. digit_value c < r) s
     then Some (foldl (\<lambda>n c. r * n + digit_value c) 0 s) else None)"

definition radix_of :: "char \<Rightarrow> nat option" where
  "radix_of x = (if x \<in> set ''xX'' then Some 16 else if x \<in> set ''oO'' then Some 8
     else if x \<in> set ''bB'' then Some 2 else None)"

fun prefixed_digits :: "string \<Rightarrow> nat option" where
  "prefixed_digits (c # x # s) = (if c = CHR ''0''
     then (case radix_of x of None \<Rightarrow> None | Some r \<Rightarrow> radix_digits r s) else None)"
| "prefixed_digits _ = None"

text \<open>An unsigned decimal literal, as an exact rational.\<close>

definition pow10 :: "int \<Rightarrow> rat" where
  "pow10 k = (if 0 \<le> k then 10 ^ nat k else 1 / 10 ^ nat (- k))"

definition decimal_literal :: "string \<Rightarrow> rat option" where
  "decimal_literal s =
     (let ip = takeWhile is_digit s; r1 = dropWhile is_digit s;
          (fp, r2) = (case r1 of [] \<Rightarrow> ([], [])
            | c # r \<Rightarrow> if c = CHR ''.'' then (takeWhile is_digit r, dropWhile is_digit r) else ([], r1));
          q = of_nat (nat_of_digits (ip @ fp)) / 10 ^ length fp in
      if ip @ fp = [] then None
      else (case r2 of [] \<Rightarrow> Some q
        | e # r3 \<Rightarrow> if e = CHR ''e'' \<or> e = CHR ''E''
            then (case signed_digits r3 of None \<Rightarrow> None | Some k \<Rightarrow> Some (q * pow10 k)) else None))"

text \<open>The double nearest to a rational, with subnormal numbers and overflow.\<close>

definition number_of_rat :: "rat \<Rightarrow> js_number" where
  "number_of_rat q =
     (if \<bar>q\<bar> * 2 ^ 1022 < 1 then Fin (of_int (round_even (q * 2 ^ 1074)) / 2 ^ 1074)
      else if 2 ^ 1024 \<le> \<bar>fl q\<bar> then (if q < 0 then NegInf else PosInf)
      else Fin (fl q))"

definition unsigned_number :: "string \<Rightarrow> js_number" where
  "unsigned_number s = (if s = ''Infinity'' then PosInf
     else (case decimal_literal s of None \<Rightarrow> NaN | Some q \<Rightarrow> number_of_rat q))"

fun negate_number :: "js_number \<Rightarrow> js_number" where
  "negate_number NaN = NaN"
| "negate_number PosInf = NegInf"
| "negate_number NegInf = PosInf"
| "negate_number (Fin q) = Fin (- q)"

definition string_to_number :: "string \<Rightarrow> js_number" where
  "string_to_number s = (case js_trim s of [] \<Rightarrow> Fin 0
     | c # t \<Rightarrow> (case prefixed_digits (c # t) of Some n \<Rightarrow> number_of_rat (of_nat n)
       | None \<Rightarrow> if c = CHR ''-'' then negate_number (unsigned_number t)
           else if c = CHR ''+'' then unsigned_number t else unsigned_number (c # t)))"

fun js_Number :: "js_any \<Rightarrow> js_number js_out" where
  "js_Number AUndef = Returned NaN"
| "js_Number ANull = Returned (Fin 0)"
| "js_Number (ABool b) = Returned (Fin (if b then 1 else 0))"
| "js_Number (ANum n) = Returned n"
| "js_Number (ABig n) = Returned (number_of_rat (of_int n))"
| "js_Number (AStr s) = Returned (string_to_number s)"
| "js_Number (ADate d) = Returned (case d of InvalidDate \<Rightarrow> NaN | ValidDate ms \<Rightarrow> Fin (of_int ms))"
| "js_Number v = js_map string_to_number (js_String v)"

text \<open>A \<open>number\<close> stored in a field that the messages hold as an integer.\<close>

fun integer_field :: "js_number \<Rightarrow> int js_out" where
  "integer_field (Fin q) = (if of_int \<lfloor>q\<rfloor> = q then Returned \<lfloor>q\<rfloor> else Unmodelled)"
| "integer_field _ = Unmodelled"

definition js_integer :: "js_any \<Rightarrow> int js_out" where
  "js_integer v = js_bind (js_Number v) integer_field"

section \<open>\<open>BigInt\<close> and \<open>Boolean\<close>\<close>

definition string_to_bigint :: "string \<Rightarrow> int js_out" where
  "string_to_bigint s = (let t = js_trim s in
     if t = [] then Returned 0
     else (case prefixed_digits t of Some n \<Rightarrow> Returned (int n)
       | None \<Rightarrow> (case signed_digits t of Some n \<Rightarrow> Returned n
         | None \<Rightarrow> Thrown (JsSyntaxError (''Cannot convert '' @ s @ '' to a BigInt'')))))"

fun number_to_bigint :: "js_number \<Rightarrow> int js_out" where
  "number_to_bigint (Fin q) = (if of_int \<lfloor>q\<rfloor> = q then Returned \<lfloor>q\<rfloor>
     else Thrown (JsRangeError ''The number cannot be converted to a BigInt because it is not an integer''))"
| "number_to_bigint _ =
     Thrown (JsRangeError ''The number cannot be converted to a BigInt because it is not an integer'')"

fun js_BigInt :: "js_any \<Rightarrow> int js_out" where
  "js_BigInt AUndef = Thrown (JsTypeError ''Cannot convert undefined to a BigInt'')"
| "js_BigInt ANull = Thrown (JsTypeError ''Cannot convert null to a BigInt'')"
| "js_BigInt (ABool b) = Returned (if b then 1 else 0)"
| "js_BigInt (ANum n) = number_to_bigint n"
| "js_BigInt (ABig n) = Returned n"
| "js_BigInt (AStr s) = string_to_bigint s"
| "js_BigInt (ADate d) = (case d of InvalidDate \<Rightarrow> number_to_bigint NaN | ValidDate ms \<Rightarrow> Returned ms)"
| "js_BigInt v = js_bind (js_String v) string_to_bigint"

fun js_Boolean :: "js_any \<Rightarrow> bool" where
  "js_Boolean AUndef = False"
| "js_Boolean ANull = False"
| "js_Boolean (ABool b) = b"
| "js_Boolean (ANum n) = (n \<noteq> Fin 0 \<and> n \<noteq> NaN)"
| "js_Boolean (ABig n) = (n \<noteq> 0)"
| "js_Boolean (AStr s) = (s \<noteq> '''')"
| "js_Boolean _ = True"

section \<open>\<open>Object.entries\<close> and \<open>Object.defineProperty\<close>\<close>

definition indexed :: "'a list \<Rightarrow> (string \<times> 'a) list" where
  "indexed vs = zip (map string_of_nat [0..<length vs]) vs"

fun js_entries :: "js_any \<Rightarrow> (string \<times> js_any) list" where
  "js_entries (AObj ps) = ps"
| "js_entries (AArr vs) = indexed vs"
| "js_entries (ABytes bs) = indexed (map (\<lambda>b. js_int (int (unat b))) bs)"
| "js_entries (AStr s) = indexed (map (\<lambda>c. AStr [c]) s)"
| "js_entries _ = []"

text \<open>\<open>Object.defineProperty(o, k, \<dots>)\<close> with a value: unlike an assignment it does not call a setter.\<close>

definition js_define :: "js_object \<Rightarrow> string \<Rightarrow> string \<Rightarrow> js_object" where
  "js_define o' k v = (if k \<in> fst ` set o' then js_update o' k v else js_insert o' k v)"

section \<open>Base64\<close>

definition b64_alphabet :: string where
  "b64_alphabet = ''ABCDEFGHIJKLMNOPQRSTUVWXYZabcdefghijklmnopqrstuvwxyz0123456789+/''"

definition b64_char :: "nat \<Rightarrow> char" where "b64_char n = b64_alphabet ! n"

definition b64_value :: "char \<Rightarrow> nat option" where
  "b64_value c = (let n = length (takeWhile (\<lambda>d. d \<noteq> c) b64_alphabet) in if n < 64 then Some n else None)"

fun base64FromBytes :: "byte list \<Rightarrow> string" where
  "base64FromBytes [] = []"
| "base64FromBytes [a] = (let m = unat a in
     [b64_char (m div 4), b64_char (m mod 4 * 16), CHR ''='', CHR ''=''])"
| "base64FromBytes [a, b] = (let m = unat a; n = unat b in
     [b64_char (m div 4), b64_char (m mod 4 * 16 + n div 16), b64_char (n mod 16 * 4), CHR ''=''])"
| "base64FromBytes (a # b # c # bs) = (let m = unat a; n = unat b; k = unat c in
     [b64_char (m div 4), b64_char (m mod 4 * 16 + n div 16), b64_char (n mod 16 * 4 + k div 64),
      b64_char (k mod 64)] @ base64FromBytes bs)"

text \<open>Canonical base64 text; \<open>None\<close> on other text, which \<open>Buffer.from\<close> reads leniently.\<close>

fun b64_decode :: "string \<Rightarrow> byte list option" where
  "b64_decode [] = Some []"
| "b64_decode (p # q # r # s # t) =
     (case (b64_value p, b64_value q) of
        (Some i, Some j) \<Rightarrow>
          (let x = of_nat (i * 4 + j div 16) in
           case b64_value r of
             None \<Rightarrow> (if r = CHR ''='' \<and> s = CHR ''='' \<and> t = [] \<and> j mod 16 = 0 then Some [x] else None)
           | Some k \<Rightarrow>
             (let y = of_nat (j mod 16 * 16 + k div 4) in
              case b64_value s of
                None \<Rightarrow> (if s = CHR ''='' \<and> t = [] \<and> k mod 4 = 0 then Some [x, y] else None)
              | Some l \<Rightarrow> map_option (\<lambda>bs. x # y # of_nat (k mod 4 * 64 + l) # bs) (b64_decode t)))
      | _ \<Rightarrow> None)"
| "b64_decode _ = None"

fun bytesFromBase64 :: "js_any \<Rightarrow> byte list js_out" where
  "bytesFromBase64 (AStr s) = (case b64_decode s of None \<Rightarrow> Unmodelled | Some bs \<Rightarrow> Returned bs)"
| "bytesFromBase64 (ANum n) = Thrown (JsTypeError ''The first argument must be of type string'')"
| "bytesFromBase64 (ABool b) = Thrown (JsTypeError ''The first argument must be of type string'')"
| "bytesFromBase64 (ABig n) = Thrown (JsTypeError ''The first argument must be of type string'')"
| "bytesFromBase64 AUndef = Thrown (JsTypeError ''The first argument must be of type string'')"
| "bytesFromBase64 ANull = Thrown (JsTypeError ''The first argument must be of type string'')"
| "bytesFromBase64 _ = Unmodelled"

end
