(* ===== verification/Json_Codec.thy ===== *)
theory Json_Codec
  imports Js_Any
begin

text \<open>
  The statements of the generated \<open>fromJSON\<close>, \<open>toJSON\<close> and \<open>fromPartial\<close> methods, and what is proved about
  them once for all messages: reading back the properties that \<open>toJSON\<close> assigned.
\<close>

section \<open>Statements of \<open>toJSON\<close>\<close>

text \<open>
  \<open>const obj = {}\<close>, then statements that assign at most one property each, \<open>return obj\<close>.  A statement
  is the name of its property and the value assigned, \<open>None\<close> if its condition fails.
\<close>

type_synonym to_stmt = "string \<times> js_any option js_out"

fun t_prop :: "to_stmt \<Rightarrow> (string \<times> js_any) list js_out" where
  "t_prop (n, x) = js_map (\<lambda>v. case v of None \<Rightarrow> [] | Some a \<Rightarrow> [(n, a)]) x"

definition t_obj :: "to_stmt list \<Rightarrow> js_any js_out" where
  "t_obj xs = js_map (\<lambda>ps. AObj (concat ps)) (js_mapM t_prop xs)"

text \<open>\<open>if (c) obj.f = v\<close>\<close>

definition t_if :: "bool \<Rightarrow> js_any \<Rightarrow> js_any option js_out" where
  "t_if c v = Returned (if c then Some v else None)"

text \<open>\<open>if (x !== undefined) obj.f = f(x)\<close>\<close>

definition t_some :: "'a option \<Rightarrow> ('a \<Rightarrow> js_any js_out) \<Rightarrow> js_any option js_out" where
  "t_some x f = (case x of None \<Rightarrow> Returned None | Some v \<Rightarrow> js_map Some (f v))"

text \<open>\<open>if (xs?.length) obj.f = xs.map(f)\<close>\<close>

definition t_list :: "'a list \<Rightarrow> ('a \<Rightarrow> js_any js_out) \<Rightarrow> js_any option js_out" where
  "t_list xs f = (if xs = [] then Returned None else js_map (\<lambda>vs. Some (AArr vs)) (js_mapM f xs))"

text \<open>\<open>obj.f = {}; entries.forEach(([k, v]) => { obj.f[k] = v })\<close> when there are entries.\<close>

definition t_map :: "js_object \<Rightarrow> js_any option js_out" where
  "t_map o' = Returned (if o' = [] then None else
     Some (AObj (map (\<lambda>(k, v). (k, AStr v)) (foldl (\<lambda>acc p. js_set acc (fst p) (snd p)) [] o'))))"

text \<open>\<open>date.toISOString()\<close>\<close>

definition date_json :: "js_date \<Rightarrow> js_any js_out" where
  "date_json d = js_map AStr (of_result (toISOString d))"

section \<open>Statements of \<open>fromJSON\<close> and \<open>fromPartial\<close>\<close>

text \<open>The fields of the object literal are evaluated in order, each set on the default message.\<close>

fun f_obj :: "'m \<Rightarrow> (js_any \<Rightarrow> 'm \<Rightarrow> 'm js_out) list \<Rightarrow> js_any \<Rightarrow> 'm js_out" where
  "f_obj m [] v = Returned m"
| "f_obj m (f # fs) v = js_bind (f v m) (\<lambda>m'. f_obj m' fs v)"

definition f_field :: "(js_any \<Rightarrow> 'a js_out) \<Rightarrow> ('a \<Rightarrow> 'm \<Rightarrow> 'm) \<Rightarrow> js_any \<Rightarrow> 'm \<Rightarrow> 'm js_out" where
  "f_field e k v m = js_map (\<lambda>x. k x m) (e v)"

text \<open>
  \<open>isSet(o.n1) ? c1(o.n1) : isSet(o.n2) ? c2(o.n2) : \<dots> : d\<close>; with one name and a conversion that
  keeps the value it is \<open>o.n ?? d\<close>.
\<close>

fun f_first :: "(string \<times> (js_any \<Rightarrow> 'a js_out)) list \<Rightarrow> 'a \<Rightarrow> js_any \<Rightarrow> 'a js_out" where
  "f_first [] d v = Returned d"
| "f_first ((n, conv) # cs) d v =
     js_bind (js_get v n) (\<lambda>x. if isSet x then conv x else f_first cs d v)"

text \<open>\<open>Array.isArray(o?.n1) ? o.n1.map(conv) : Array.isArray(o?.n2) ? \<dots> : []\<close>\<close>

fun f_array :: "string list \<Rightarrow> (js_any \<Rightarrow> 'a js_out) \<Rightarrow> js_any \<Rightarrow> 'a list js_out" where
  "f_array [] conv v = Returned []"
| "f_array (n # ns) conv v = js_bind (js_get_opt v n)
     (\<lambda>x. case x of AArr xs \<Rightarrow> js_mapM conv xs | _ \<Rightarrow> f_array ns conv v)"

text \<open>\<open>isObject(o.n) ? Object.entries(o.n).reduce(\<dots>) : {}\<close> with \<open>defineProperty(acc, key, String(value))\<close>.\<close>

fun define_all :: "js_object \<Rightarrow> (string \<times> js_any) list \<Rightarrow> js_object js_out" where
  "define_all acc [] = Returned acc"
| "define_all acc ((k, v) # ps) = js_bind (js_String v) (\<lambda>s. define_all (js_define acc k s) ps)"

definition f_map :: "string \<Rightarrow> js_any \<Rightarrow> js_object js_out" where
  "f_map n v = js_bind (js_get v n) (\<lambda>x. if isObject x then define_all [] (js_entries x) else Returned [])"

text \<open>
  \<open>fromPartial\<close> takes a value of type \<open>DeepPartial<T>\<close>; on a value of another type, which TypeScript
  rejects, the field would hold what its type excludes.
\<close>

fun p_string :: "js_any \<Rightarrow> string js_out" where
  "p_string (AStr s) = Returned s" | "p_string _ = Unmodelled"

fun p_bool :: "js_any \<Rightarrow> bool js_out" where
  "p_bool (ABool b) = Returned b" | "p_bool _ = Unmodelled"

fun p_int :: "js_any \<Rightarrow> int js_out" where
  "p_int (ANum n) = integer_field n" | "p_int _ = Unmodelled"

fun p_date :: "js_any \<Rightarrow> js_date js_out" where
  "p_date (ADate d) = Returned d" | "p_date _ = Unmodelled"

fun p_bytes :: "js_any \<Rightarrow> byte list js_out" where
  "p_bytes (ABytes bs) = Returned bs" | "p_bytes _ = Unmodelled"

text \<open>\<open>o.n?.map(conv) || []\<close>\<close>

definition p_array :: "string \<Rightarrow> (js_any \<Rightarrow> 'a js_out) \<Rightarrow> js_any \<Rightarrow> 'a list js_out" where
  "p_array n conv v = js_bind (js_get v n) (\<lambda>x. if isSet x then (case x of AArr xs \<Rightarrow> js_mapM conv xs | _ \<Rightarrow> Unmodelled)
     else Returned [])"

text \<open>\<open>Object.entries(o.n ?? {}).reduce(\<dots>)\<close> with \<open>if (value !== undefined) acc[key] = String(value)\<close>.\<close>

fun assign_all :: "js_object \<Rightarrow> (string \<times> js_any) list \<Rightarrow> js_object js_out" where
  "assign_all acc [] = Returned acc"
| "assign_all acc ((k, v) # ps) = (if v = AUndef then assign_all acc ps
     else js_bind (js_String v) (\<lambda>s. assign_all (js_set acc k s) ps))"

definition p_map :: "string \<Rightarrow> js_any \<Rightarrow> js_object js_out" where
  "p_map n v = js_bind (js_get v n) (\<lambda>x. assign_all [] (if isSet x then js_entries x else []))"

text \<open>\<open>switch (o.n?.$case) { case c: if (isSet(o.n?.value)) message.n = { $case: c, value: conv(o.n.value) } }\<close>\<close>

fun p_cases :: "(string \<times> (js_any \<Rightarrow> 'c js_out)) list \<Rightarrow> js_any \<Rightarrow> js_any \<Rightarrow> 'c option js_out" where
  "p_cases [] tag x = Returned None"
| "p_cases ((c, conv) # cs) tag x =
     (if tag = AStr c
      then js_bind (js_get_opt x ''value'') (\<lambda>v. if isSet v then js_map Some (conv v) else Returned None)
      else p_cases cs tag x)"

definition p_oneof :: "string \<Rightarrow> (string \<times> (js_any \<Rightarrow> 'c js_out)) list \<Rightarrow> js_any \<Rightarrow> 'c option js_out" where
  "p_oneof n cs v = js_bind (js_get v n) (\<lambda>x. js_bind (js_get_opt x ''$case'') (\<lambda>tag. p_cases cs tag x))"

text \<open>\<open>create(base) { return fromPartial(base ?? {}) }\<close>\<close>

definition create_with :: "(js_any \<Rightarrow> 'm js_out) \<Rightarrow> js_any \<Rightarrow> 'm js_out" where
  "create_with from base = from (if isSet base then base else AObj [])"

section \<open>Reading back the properties of \<open>toJSON\<close>\<close>

text \<open>\<open>j_entry J n x\<close>: the statement for property \<open>n\<close> returned, and the object \<open>J\<close> has what it assigned.\<close>

definition j_entry :: "js_any \<Rightarrow> string \<Rightarrow> js_any option js_out \<Rightarrow> bool" where
  "j_entry J n x \<longleftrightarrow> (\<exists>y. x = Returned y \<and> js_get J n = Returned (case y of None \<Rightarrow> AUndef | Some v \<Rightarrow> v))"

definition entries :: "js_any \<Rightarrow> to_stmt list \<Rightarrow> bool" where
  "entries J xs \<longleftrightarrow> isSet J \<and> list_all (\<lambda>(n, x). j_entry J n x) xs"

text \<open>\<open>names J ns\<close>: the object has none of the properties \<open>ns\<close>.\<close>

definition names :: "js_any \<Rightarrow> string list \<Rightarrow> bool" where
  "names J ns \<longleftrightarrow> list_all (\<lambda>n. js_get J n = Returned AUndef) ns"

definition json_rt :: "('m \<Rightarrow> js_any js_out) \<Rightarrow> (js_any \<Rightarrow> 'm js_out) \<Rightarrow> 'm \<Rightarrow> bool" where
  "json_rt to from m \<longleftrightarrow> (\<forall>J. to m = Returned J \<longrightarrow> isSet J \<and> from J = Returned m)"

lemma isSet_simps [simp]:
  "\<not> isSet AUndef" "\<not> isSet ANull" "isSet (ABool b)" "isSet (ANum n)" "isSet (ABig i)" "isSet (AStr s)"
  "isSet (ADate d)" "isSet (ABytes bs)" "isSet (AArr vs)" "isSet (AObj ps)"
  by (simp_all add: isSet_def)

lemma t_props_Cons:
  assumes "js_mapM t_prop ((n, x) # xs) = Returned pss"
  obtains y pss' where "x = Returned y" "js_mapM t_prop xs = Returned pss'"
    "concat pss = (case y of None \<Rightarrow> [] | Some a \<Rightarrow> [(n, a)]) @ concat pss'"
  using assms by auto

lemma t_props_names: "js_mapM t_prop xs = Returned pss \<Longrightarrow> fst ` set (concat pss) \<subseteq> fst ` set xs"
proof (induction xs arbitrary: pss)
  case (Cons a xs)
  obtain n x where a: "a = (n, x)" by (cases a)
  obtain y pss' where p: "js_mapM t_prop xs = Returned pss'"
      "concat pss = (case y of None \<Rightarrow> [] | Some a \<Rightarrow> [(n, a)]) @ concat pss'"
    using Cons.prems unfolding a by (rule t_props_Cons) blast
  have "fst ` set (concat pss') \<subseteq> fst ` set xs" using p(1) by (rule Cons.IH)
  then show ?case unfolding p(2) a by (cases y) auto
qed simp

lemma t_props_values:
  "js_mapM t_prop xs = Returned pss \<Longrightarrow> distinct (map fst xs) \<Longrightarrow> (n, x) \<in> set xs \<Longrightarrow>
   \<exists>y. x = Returned y \<and> map_of (concat pss) n = y"
proof (induction xs arbitrary: pss)
  case (Cons a xs)
  obtain m z where a: "a = (m, z)" by (cases a)
  obtain y pss' where p: "z = Returned y" "js_mapM t_prop xs = Returned pss'"
      "concat pss = (case y of None \<Rightarrow> [] | Some a \<Rightarrow> [(m, a)]) @ concat pss'"
    using Cons.prems(1) unfolding a by (rule t_props_Cons) blast
  have d: "m \<notin> fst ` set xs" "distinct (map fst xs)" using Cons.prems(2) by (simp_all add: a)
  show ?case
  proof (cases "n = m")
    case True
    then have "(n, x) \<notin> set xs" using d(1) by force
    with Cons.prems(3) a have "x = z" by simp
    moreover have "map_of (concat pss') m = None"
      using t_props_names [OF p(2)] d(1) by (metis map_of_eq_None_iff subsetD)
    ultimately show ?thesis using True p(1,3) by (cases y) simp_all
  next
    case False
    then have "(n, x) \<in> set xs" using Cons.prems(3) a by simp
    with Cons.IH [OF p(2) d(2)] False p(3) show ?thesis by (cases y) simp_all
  qed
qed simp

lemma t_objD:
  assumes "t_obj xs = Returned J" "map fst xs = ns" "distinct (ns @ others)"
  shows "entries J xs \<and> names J others"
proof -
  obtain pss where p: "js_mapM t_prop xs = Returned pss"
      "J = AObj (concat pss)"
    using assms(1) by (auto simp: t_obj_def)
  have "list_all (\<lambda>(n, x). j_entry J n x) xs"
    unfolding list_all_iff
  proof (intro ballI)
    fix e assume e: "e \<in> set xs"
    obtain n x where nx: "e = (n, x)" by (cases e)
    have "distinct (map fst xs)" using assms(2,3) by simp
    from t_props_values [OF p(1) this, of n x] e nx obtain y where "x = Returned y" "map_of (concat pss) n = y"
      by blast
    then show "case e of (n, x) \<Rightarrow> j_entry J n x" using p(2) nx by (simp add: j_entry_def)
  qed
  moreover have "list_all (\<lambda>n. js_get J n = Returned AUndef) others"
    unfolding list_all_iff
  proof (intro ballI)
    fix n assume "n \<in> set others"
    then have "n \<notin> set (map fst xs)" using assms(2,3) by (simp only: distinct_append disjoint_iff) blast
    then have "map_of (concat pss) n = None"
      using t_props_names [OF p(1)] by (metis map_of_eq_None_iff subsetD set_map)
    then show "js_get J n = Returned AUndef" using p(2) by simp
  qed
  ultimately show ?thesis using p(2) by (simp add: entries_def names_def)
qed

lemma entries_simps:
  "entries J ((n, x) # xs) \<longleftrightarrow> j_entry J n x \<and> entries J xs"
  "entries J (xs @ ys) \<longleftrightarrow> entries J xs \<and> entries J ys"
  by (auto simp: entries_def)

lemma names_simps: "names J []" "names J (n # ns) \<longleftrightarrow> js_get J n = Returned AUndef \<and> names J ns"
  by (simp_all add: names_def)

lemma f_obj_Cons:
  "e v = Returned x \<Longrightarrow> f_obj (k x m) fs v = Returned z \<Longrightarrow> f_obj m (f_field e k # fs) v = Returned z"
  by (simp add: f_field_def)

lemma f_obj_Nil: "m = z \<Longrightarrow> f_obj m [] v = Returned z"
  by simp

definition absent :: "js_any \<Rightarrow> (string \<times> 'c) list \<Rightarrow> bool" where
  "absent J cs \<longleftrightarrow> list_all (\<lambda>(n, c). js_get J n = Returned AUndef) cs"

lemma absent_simps [simp]:
  "absent J []" "absent J ((n, c) # cs) \<longleftrightarrow> js_get J n = Returned AUndef \<and> absent J cs"
  by (simp_all add: absent_def)

lemma absent_Nil: "absent J []"
  by simp

lemmas t_names = list.map map_append append.simps fst_conv

lemma j_entry_simps [simp]:
  "j_entry J n (Returned None) \<longleftrightarrow> js_get J n = Returned AUndef"
  "j_entry J n (Returned (Some v)) \<longleftrightarrow> js_get J n = Returned v"
  "j_entry J n (js_map Some x) \<longleftrightarrow> (\<exists>v. x = Returned v \<and> js_get J n = Returned v)"
  by (auto simp: j_entry_def)

lemma f_first_absent: "absent J cs \<Longrightarrow> f_first cs d J = Returned d"
  by (induction cs) (auto simp: absent_def)

lemma f_first_entry:
  assumes "j_entry J n x" "absent J cs"
    and "\<And>v. x = Returned (Some v) \<Longrightarrow> isSet v \<and> conv v = Returned y"
    and "x = Returned None \<Longrightarrow> y = d"
  shows "f_first ((n, conv) # cs) d J = Returned y"
proof -
  obtain z where z: "x = Returned z" "js_get J n = Returned (case z of None \<Rightarrow> AUndef | Some v \<Rightarrow> v)"
    using assms(1) by (auto simp: j_entry_def)
  show ?thesis
  proof (cases z)
    case None
    then show ?thesis using z assms(2,4) by (simp add: f_first_absent)
  next
    case (Some v)
    then show ?thesis using z assms(3) by simp
  qed
qed

text \<open>One rule per kind of field.\<close>

lemma jr_string:
  "j_entry J n (t_if (x \<noteq> []) (AStr x)) \<Longrightarrow> absent J cs \<Longrightarrow> f_first ((n, js_String) # cs) [] J = Returned x"
  by (erule f_first_entry) (auto simp: t_if_def split: if_splits)

lemma jr_bool:
  "j_entry J n (t_if (x \<noteq> False) (ABool x)) \<Longrightarrow> absent J cs \<Longrightarrow>
   f_first ((n, \<lambda>v. Returned (js_Boolean v)) # cs) False J = Returned x"
  by (erule f_first_entry) (auto simp: t_if_def split: if_splits)

lemma js_integer_int [simp]: "js_integer (js_int n) = Returned n"
  by (simp add: js_integer_def js_int_def)

lemma isSet_js_int [simp]: "isSet (js_int n)"
  by (simp add: js_int_def)

lemma jr_int:
  "j_entry J n (t_if (x \<noteq> 0) (js_int x)) \<Longrightarrow> absent J cs \<Longrightarrow> f_first ((n, js_integer) # cs) 0 J = Returned x"
  by (erule f_first_entry) (auto simp: t_if_def split: if_splits)

lemma jr_enum:
  "j_entry J n (t_if (x \<noteq> 0) (AStr (to x))) \<Longrightarrow> absent J cs \<Longrightarrow> from (AStr (to x)) = x \<Longrightarrow>
   f_first ((n, \<lambda>v. Returned (from v)) # cs) 0 J = Returned x"
  by (erule f_first_entry) (cases "x = 0"; simp add: t_if_def; metis isSet_simps(6))+

lemma jr_opt_string:
  "j_entry J n (t_some x (\<lambda>v. Returned (AStr v))) \<Longrightarrow> absent J cs \<Longrightarrow>
   f_first ((n, \<lambda>v. js_map Some (js_String v)) # cs) None J = Returned x"
  by (erule f_first_entry) (auto simp: t_some_def split: option.splits)

lemma jr_msg:
  "j_entry J n (t_some x to) \<Longrightarrow> absent J cs \<Longrightarrow> (\<And>v. x = Some v \<Longrightarrow> json_rt to from v) \<Longrightarrow>
   f_first ((n, \<lambda>v. js_map Some (from v)) # cs) None J = Returned x"
  by (erule f_first_entry) (auto simp: t_some_def json_rt_def split: option.splits)

lemma f_array_absent: "isSet J \<Longrightarrow> names J ns \<Longrightarrow> f_array ns conv J = Returned []"
  by (induction ns) (auto simp: js_get_opt_def names_def)

lemma jr_list:
  assumes "j_entry J n (t_list xs to)" "isSet J" "names J ns"
    and "\<And>v. v \<in> set xs \<Longrightarrow> json_rt to from v"
  shows "f_array (n # ns) from J = Returned xs"
proof (cases "xs = []")
  case True
  then show ?thesis
    using assms(1-3) by (simp add: j_entry_def t_list_def js_get_opt_def f_array_absent)
next
  case False
  then obtain vs where "js_mapM to xs = Returned vs" "js_get J n = Returned (AArr vs)"
    using assms(1) by (auto simp: j_entry_def t_list_def)
  moreover have "js_mapM from vs = Returned xs" if vs: "js_mapM to xs = Returned vs"
  proof (rule js_mapM_inverse [OF vs])
    fix x y assume "x \<in> set xs" "to x = Returned y"
    then show "from y = Returned x" using assms(4) by (simp add: json_rt_def)
  qed
  ultimately show ?thesis using assms(2) by (simp add: js_get_opt_def)
qed

lemma jr_strings:
  "j_entry J n (t_list xs (\<lambda>v. Returned (AStr v))) \<Longrightarrow> isSet J \<Longrightarrow>
   names J ns \<Longrightarrow> f_array (n # ns) js_String J = Returned xs"
  by (rule jr_list) (auto simp: json_rt_def)

lemma js_define_set: "k \<noteq> proto_key \<Longrightarrow> js_define o' k v = js_set o' k v"
  by (simp add: js_define_def js_set_def)

lemma define_all_strings:
  "proto_key \<notin> fst ` set ps \<Longrightarrow>
   define_all acc (map (\<lambda>(k, v). (k, AStr v)) ps) = Returned (foldl (\<lambda>acc p. js_set acc (fst p) (snd p)) acc ps)"
  by (induction ps arbitrary: acc) (auto simp: js_define_set)

lemma define_all_own:
  assumes "js_own ps"
  shows "define_all [] (map (\<lambda>(k, v). (k, AStr v)) ps) = Returned ps"
proof -
  have fold: "define_all acc (map (\<lambda>(k, v). (k, AStr v)) ps) = Returned (foldl (\<lambda>acc p. js_define acc (fst p) (snd p)) acc ps)" for acc
    by (induction ps arbitrary: acc) auto
  have "foldl (\<lambda>acc p. js_define acc (fst p) (snd p)) [] ps = ps"
    using assms
  proof (induction ps rule: rev_induct)
    case (snoc p ps)
    then have "js_own ps" "fst p \<notin> fst ` set ps" "\<forall>q \<in> set ps. key_before (fst q) (fst p)"
      by (auto simp: js_own_def sorted_wrt_append)
    then show ?case using snoc.IH by (simp add: js_define_def js_insert_last)
  qed simp
  then show ?thesis by (simp add: fold)
qed

lemma assign_all_strings:
  "assign_all acc (map (\<lambda>(k, v). (k, AStr v)) ps) = Returned (foldl (\<lambda>acc p. js_set acc (fst p) (snd p)) acc ps)"
  by (induction ps arbitrary: acc) auto

lemma jr_map:
  assumes "j_entry J n (t_map o')" "js_object_ok o'"
  shows "f_map n J = Returned o'"
proof -
  have "define_all [] (map (\<lambda>(k, v). (k, AStr v)) o') = Returned o'"
    using assms(2) by (subst define_all_strings) (auto simp: js_object_ok_def js_set_entries [OF assms(2)])
  then show ?thesis
    using assms by (auto simp: f_map_def j_entry_def t_map_def js_set_entries split: if_splits)
qed

section \<open>Big integers, bytes and dates\<close>

lemma string_of_nat_digits: "list_all is_digit (string_of_nat n)"
proof (induction n rule: string_of_nat.induct)
  case (1 n)
  then show ?case by (subst string_of_nat.simps) auto
qed

lemma string_of_nat_not_Nil [simp]: "string_of_nat n \<noteq> []"
  by (subst string_of_nat.simps) simp

lemma is_digit_not [simp]: "\<not> is_digit (CHR ''-'')" "\<not> is_digit (CHR ''+'')"
  by (simp_all add: is_digit_def)

lemma signed_digits_string_of_int: "signed_digits (string_of_int n) = Some n"
proof -
  obtain c s where cs: "string_of_nat (nat \<bar>n\<bar>) = c # s"
    by (cases "string_of_nat (nat \<bar>n\<bar>)") simp_all
  have d: "list_all is_digit (c # s)" "nat_of_digits (c # s) = nat \<bar>n\<bar>"
    using string_of_nat_digits [of "nat \<bar>n\<bar>"] nat_of_digits_string_of_nat [of "nat \<bar>n\<bar>"] cs by simp_all
  then have "c \<noteq> CHR ''-''" "c \<noteq> CHR ''+''" by auto
  then show ?thesis
    using d cs by (cases "n < 0") (simp_all add: string_of_int_def)
qed

lemma is_digit_not_space: "is_digit c \<Longrightarrow> \<not> is_space c"
  by (auto simp: is_digit_def is_space_def Let_def)

lemma js_trim_id: "list_all (\<lambda>c. \<not> is_space c) s \<Longrightarrow> js_trim s = s"
proof -
  assume s: "list_all (\<lambda>c. \<not> is_space c) s"
  then have "dropWhile is_space s = s" by (cases s) simp_all
  moreover have "dropWhile is_space (rev s) = rev s"
    using s by (cases s rule: rev_cases) simp_all
  ultimately show ?thesis by (simp add: js_trim_def)
qed

lemma string_of_int_chars: "c \<in> set (string_of_int n) \<Longrightarrow> c = CHR ''-'' \<or> is_digit c"
  using string_of_nat_digits [of "nat n"] string_of_nat_digits [of "nat (- n)"]
  by (auto simp: string_of_int_def list_all_iff split: if_splits)

lemma radix_of_digit: "c = CHR ''-'' \<or> is_digit c \<Longrightarrow> radix_of c = None"
  by (auto simp: radix_of_def is_digit_def)

lemma prefixed_digits_none: "\<forall>c \<in> set s. c = CHR ''-'' \<or> is_digit c \<Longrightarrow> prefixed_digits s = None"
  by (induction s rule: prefixed_digits.induct) (simp_all add: radix_of_digit)

lemma js_BigInt_text [simp]: "js_BigInt (AStr (string_of_int n)) = Returned n"
proof -
  have "js_trim (string_of_int n) = string_of_int n"
    by (rule js_trim_id) (auto simp: list_all_iff is_space_def dest!: string_of_int_chars is_digit_not_space)
  moreover have "string_of_int n \<noteq> []" by (auto simp: string_of_int_def)
  moreover have "prefixed_digits (string_of_int n) = None"
    using string_of_int_chars by (intro prefixed_digits_none) auto
  ultimately show ?thesis by (simp add: string_to_bigint_def signed_digits_string_of_int)
qed

lemma jr_bigint:
  "j_entry J n (t_if (x \<noteq> 0) (AStr (string_of_int x))) \<Longrightarrow> absent J cs \<Longrightarrow>
   f_first ((n, js_BigInt) # cs) 0 J = Returned x"
  by (erule f_first_entry) (auto simp del: js_BigInt.simps simp: t_if_def split: if_splits)

lemma b64_value_char: "n < 64 \<Longrightarrow> b64_value (b64_char n) = Some n"
proof -
  have "list_all (\<lambda>n. b64_value (b64_char n) = Some n) [0..<64]" by code_simp
  then show "n < 64 \<Longrightarrow> b64_value (b64_char n) = Some n" by (auto simp: list_all_iff)
qed

lemma b64_value_pad: "b64_value (CHR ''='') = None"
  by code_simp

lemma unat_byte_less: "unat (b :: byte) < 256"
  using unsigned_less [of b, where ?'a = nat] by simp

lemma unat_of_byte: "of_nat (unat b) = (b :: byte)"
  by simp

lemma byte_parts:
  "of_nat (unat a div 4 * 4 + unat a mod 4 * 16 div 16) = (a :: byte)"
  "of_nat (unat a div 4 * 4 + (unat a mod 4 * 16 + unat b div 16) div 16) = (a :: byte)"
  "of_nat ((unat a mod 4 * 16 + unat b div 16) mod 16 * 16 + unat b mod 16 * 4 div 4) = (b :: byte)"
  "of_nat ((unat a mod 4 * 16 + unat b div 16) mod 16 * 16 + (unat b mod 16 * 4 + unat c div 64) div 4) = (b :: byte)"
  "of_nat ((unat b mod 16 * 4 + unat c div 64) mod 4 * 64 + unat c mod 64) = (c :: byte)"
proof -
  have "unat a div 4 * 4 + unat a mod 4 * 16 div 16 = unat a" by simp
  then show "of_nat (unat a div 4 * 4 + unat a mod 4 * 16 div 16) = a" by simp
  have b: "unat b div 16 < 16" and c: "unat c div 64 < 4"
    using unat_byte_less [of b] unat_byte_less [of c] by linarith+
  have "unat a div 4 * 4 + (unat a mod 4 * 16 + unat b div 16) div 16 = unat a" using b by simp
  then show "of_nat (unat a div 4 * 4 + (unat a mod 4 * 16 + unat b div 16) div 16) = a" by (simp only: unat_of_byte)
  have "(unat a mod 4 * 16 + unat b div 16) mod 16 * 16 + unat b mod 16 * 4 div 4 = unat b" using b by simp
  then show "of_nat ((unat a mod 4 * 16 + unat b div 16) mod 16 * 16 + unat b mod 16 * 4 div 4) = b"
    by (simp only: unat_of_byte)
  have "(unat a mod 4 * 16 + unat b div 16) mod 16 * 16 + (unat b mod 16 * 4 + unat c div 64) div 4 = unat b"
    using b c by simp
  then show "of_nat ((unat a mod 4 * 16 + unat b div 16) mod 16 * 16 + (unat b mod 16 * 4 + unat c div 64) div 4) = b"
    by (simp only: unat_of_byte)
  have "(unat b mod 16 * 4 + unat c div 64) mod 4 * 64 + unat c mod 64 = unat c" using c by simp
  then show "of_nat ((unat b mod 16 * 4 + unat c div 64) mod 4 * 64 + unat c mod 64) = c" by (simp only: unat_of_byte)
qed

lemmas b64_simps = base64FromBytes.simps Let_def append.simps b64_decode.simps b64_value_pad
  option.case prod.case byte_parts simp_thms if_True

lemma b64_decode_encode: "b64_decode (base64FromBytes bs) = Some bs"
proof (induction bs rule: base64FromBytes.induct)
  case 1
  then show ?case by simp
next
  case (2 a)
  have "unat a div 4 < 64" "unat a mod 4 * 16 < 64" using unat_byte_less [of a] by linarith+
  moreover have "unat a mod 4 * 16 mod 16 = 0" by simp
  ultimately show ?case by (simp only: b64_simps b64_value_char)
next
  case (3 a b)
  have "unat a div 4 < 64" "unat a mod 4 * 16 + unat b div 16 < 64" "unat b mod 16 * 4 < 64"
    using unat_byte_less [of a] unat_byte_less [of b] by linarith+
  moreover have "unat b mod 16 * 4 mod 4 = 0" by simp
  ultimately show ?case by (simp only: b64_simps b64_value_char)
next
  case (4 a b c bs)
  have "unat a div 4 < 64" "unat a mod 4 * 16 + unat b div 16 < 64" "unat b mod 16 * 4 + unat c div 64 < 64"
    "unat c mod 64 < 64"
    using unat_byte_less [of a] unat_byte_less [of b] unat_byte_less [of c] by linarith+
  with 4 show ?case by (simp only: b64_simps b64_value_char option.map)
qed

lemma jr_bytes:
  "j_entry J n (t_if (x \<noteq> []) (AStr (base64FromBytes x))) \<Longrightarrow> absent J cs \<Longrightarrow>
   f_first ((n, bytesFromBase64) # cs) [] J = Returned x"
  by (erule f_first_entry) (auto simp: t_if_def b64_decode_encode split: if_splits)

section \<open>The fields of a message in order\<close>

text \<open>
  Each rule takes the first statement of \<open>toJSON\<close> and the first field of \<open>fromJSON\<close> away.  With these
  the proof that a message survives is the list of its fields.
\<close>

lemma fs_field:
  assumes "entries J ((n, x) # es)" "j_entry J n x \<Longrightarrow> isSet J \<Longrightarrow> e J = Returned y"
    and "entries J es \<Longrightarrow> f_obj (k y m) fs J = Returned z"
  shows "f_obj m (f_field e k # fs) J = Returned z"
  using assms by (auto simp: f_field_def entries_simps) (auto simp: entries_def)

lemma fs_seg:
  assumes "entries J (xs @ es)" "entries J xs \<Longrightarrow> e J = Returned y"
    and "entries J es \<Longrightarrow> f_obj (k y m) fs J = Returned z"
  shows "f_obj m (f_field e k # fs) J = Returned z"
  using assms by (simp add: f_field_def entries_simps)

lemma fs_last:
  assumes "entries J xs" "entries J xs \<Longrightarrow> e J = Returned y" "k y m = z"
  shows "f_obj m [f_field e k] J = Returned z"
  using assms by (simp add: f_field_def)

section \<open>Exceptions of \<open>toJSON\<close>\<close>

text \<open>\<open>to_safe\<close>: the statement returns or throws the error of an invalid date.\<close>

definition to_safe :: "'a js_out \<Rightarrow> bool" where
  "to_safe x \<longleftrightarrow> (case x of Returned v \<Rightarrow> True | Thrown e \<Rightarrow> e = JsRangeError ''Invalid time value''
     | Unmodelled \<Rightarrow> False)"

definition stmts_safe :: "to_stmt list \<Rightarrow> bool" where
  "stmts_safe xs \<longleftrightarrow> list_all (\<lambda>(n, x). to_safe x) xs"

lemma to_safe_Returned [json_rules]: "to_safe (Returned v)"
  by (simp add: to_safe_def)

lemma to_safe_map [json_rules]: "to_safe x \<Longrightarrow> to_safe (js_map f x)"
  by (cases x) (simp_all add: to_safe_def)

lemma to_safe_mapM: "(\<And>x. x \<in> set xs \<Longrightarrow> to_safe (f x)) \<Longrightarrow> to_safe (js_mapM f xs)"
proof (induction xs)
  case (Cons x xs)
  then have "to_safe (f x)" "to_safe (js_mapM f xs)" by simp_all
  then show ?case by (cases "f x"; cases "js_mapM f xs") (simp_all add: to_safe_def)
qed (simp add: to_safe_def)

lemma to_safe_if [json_rules]: "to_safe (t_if c v)"
  by (simp add: t_if_def to_safe_Returned)

lemma to_safe_some [json_rules]: "(\<And>v. to_safe (f v)) \<Longrightarrow> to_safe (t_some x f)"
  by (cases x) (simp_all add: t_some_def to_safe_Returned to_safe_map)

lemma to_safe_list [json_rules]: "(\<And>v. to_safe (f v)) \<Longrightarrow> to_safe (t_list xs f)"
  by (simp add: t_list_def to_safe_Returned to_safe_map to_safe_mapM)

lemma to_safe_t_map [json_rules]: "to_safe (t_map o')"
  by (simp add: t_map_def to_safe_Returned)

lemma to_safe_date [json_rules]: "to_safe (date_json d)"
  by (cases d) (simp_all add: date_json_def of_result_def to_safe_def)

lemma stmts_safe_rules [json_rules]:
  "stmts_safe []"
  "to_safe x \<Longrightarrow> stmts_safe xs \<Longrightarrow> stmts_safe ((n, x) # xs)"
  "stmts_safe xs \<Longrightarrow> stmts_safe ys \<Longrightarrow> stmts_safe (xs @ ys)"
  by (simp_all add: stmts_safe_def)

lemma to_safe_obj [json_rules]: "stmts_safe xs \<Longrightarrow> to_safe (t_obj xs)"
  unfolding t_obj_def by (intro to_safe_map to_safe_mapM) (auto simp: stmts_safe_def list_all_iff intro!: to_safe_map dest!: bspec)

lemma json_rt_safe:
  assumes "json_rt to from m" "to_safe (to m)"
  shows "case to m of Returned J \<Rightarrow> from J = Returned m
    | Thrown e \<Rightarrow> e = JsRangeError ''Invalid time value'' | Unmodelled \<Rightarrow> False"
  using assms by (auto simp: json_rt_def to_safe_def split: js_out.splits)

end
