(* ===== verification/Js_Doubles.thy ===== *)
theory Js_Doubles
  imports Json_Codec Codec_Laws
begin

text \<open>
  The number that the bits of a \<open>double\<close> field stand for, and back.  The JSON form of such a field is
  the number; \<open>number_double_number\<close> shows that the bits of every double but a NaN and the negative
  zero are recovered.
\<close>

definition double_number :: "double \<Rightarrow> js_number" where
  "double_number d = (let n = unat d; e = n div 2 ^ 52 mod 2048; f = n mod 2 ^ 52;
     sg = (if n < 2 ^ 63 then 1 else - 1) in
     if e = 2047 then (if f \<noteq> 0 then NaN else if n < 2 ^ 63 then PosInf else NegInf)
     else if e = 0 then Fin (sg * (of_nat f / 2 ^ 1074))
     else Fin (sg * (of_nat (2 ^ 52 + f) * pow2 (int e - 1075))))"

definition sign_bit :: "rat \<Rightarrow> nat" where
  "sign_bit q = (if q < 0 then 2 ^ 63 else 0)"

fun number_double :: "js_number \<Rightarrow> double" where
  "number_double NaN = of_nat (2047 * 2 ^ 52 + 2 ^ 51)"
| "number_double PosInf = of_nat (2047 * 2 ^ 52)"
| "number_double NegInf = of_nat (2 ^ 63 + 2047 * 2 ^ 52)"
| "number_double (Fin q) =
     (if \<bar>q\<bar> * 2 ^ 1022 < 1 then of_nat (sign_bit q + nat (round_even (\<bar>q\<bar> * 2 ^ 1074)))
      else of_nat (sign_bit q + nat (1075 - fl_exp \<bar>q\<bar>) * 2 ^ 52 +
        nat (round_even (\<bar>q\<bar> * pow2 (fl_exp \<bar>q\<bar>)) - 2 ^ 52)))"

definition js_double :: "js_any \<Rightarrow> double js_out" where
  "js_double v = js_map number_double (js_Number v)"

section \<open>Powers of two\<close>

lemma pow2_0 [simp]: "pow2 0 = 1"
  by (simp add: pow2_def)

lemma pow2_add: "pow2 (i + j) = pow2 i * pow2 j"
proof (cases "0 \<le> j")
  case True
  then show ?thesis using pow2_add_nat [of i "nat j"] by (simp add: pow2_def [of j])
next
  case False
  then have "pow2 i = pow2 (i + j) * 2 ^ nat (- j)" using pow2_add_nat [of "i + j" "nat (- j)"] by simp
  then show ?thesis using False by (simp add: pow2_def [of j])
qed

lemma pow2_inverse: "pow2 i * pow2 (- i) = 1"
  using pow2_add [of i "- i"] by simp

lemma pow2_less: "i < j \<Longrightarrow> 2 * pow2 i \<le> pow2 j"
proof -
  assume "i < j"
  then have "pow2 j = pow2 i * 2 ^ nat (j - i)" using pow2_add_nat [of i "nat (j - i)"] by simp
  moreover have "(2 :: rat) \<le> 2 ^ nat (j - i)"
    using power_increasing [of 1 "nat (j - i)" "2 :: rat"] \<open>i < j\<close> by simp
  ultimately show ?thesis using mult_left_mono [of 2 "2 ^ nat (j - i)" "pow2 i"] by (simp add: mult.commute less_imp_le)
qed

lemma scale_unique:
  assumes "0 < a" "2 ^ 52 \<le> a * pow2 i" "a * pow2 i < 2 ^ 53" "2 ^ 52 \<le> a * pow2 j" "a * pow2 j < 2 ^ 53"
  shows "i = j"
proof -
  have "\<not> i < j" if "2 ^ 52 \<le> a * pow2 i" "a * pow2 j < 2 ^ 53" for i j
  proof
    assume "i < j"
    then have "a * (2 * pow2 i) \<le> a * pow2 j" using pow2_less assms(1) by (intro mult_left_mono) simp_all
    then have "2 * (a * pow2 i) < 2 * 2 ^ 52" using that(2) by simp
    then show False using that(1) by simp
  qed
  with assms show ?thesis by (meson linorder_neqE)
qed

section \<open>The bits are recovered\<close>

lemma normal_scale:
  assumes "m < 2 ^ 52" "0 < e"
  shows "1 \<le> (of_nat (2 ^ 52 + m) * pow2 (int e - 1075) :: rat) * 2 ^ 1022"
    and "fl_exp (of_nat (2 ^ 52 + m) * pow2 (int e - 1075)) = 1075 - int e"
proof -
  let ?a = "of_nat (2 ^ 52 + m) * pow2 (int e - 1075)"
  have lo: "(2 ^ 52 :: rat) \<le> of_nat (2 ^ 52 + m)" by simp
  have hi: "(of_nat (2 ^ 52 + m) :: rat) < 2 ^ 53"
  proof -
    have "2 ^ 52 + m < 2 ^ 53" using assms(1) by simp
    then have "(of_nat (2 ^ 52 + m) :: rat) < of_nat (2 ^ 53)" by (simp only: of_nat_less_iff)
    then show ?thesis by (simp only: of_nat_power of_nat_numeral)
  qed
  have "1 \<le> pow2 (int e - 1)" using assms(2) by (simp add: pow2_def)
  also have "\<dots> = 2 ^ 52 * pow2 (int e - 1075) * 2 ^ 1022"
    using pow2_add_nat [of "int e - 1075" 1074] by (simp add: power_add [symmetric] mult.commute mult.assoc del: power_numeral)
  also have "\<dots> \<le> ?a * 2 ^ 1022"
    using lo by (intro mult_right_mono) (simp_all add: less_imp_le)
  finally show one: "1 \<le> ?a * 2 ^ 1022" .
  have pos: "0 < ?a" using lo by (intro mult_pos_pos) simp_all
  have "(2 ^ 1022 :: rat) \<le> 2 ^ fl_bits" by (intro power_increasing) (simp_all add: fl_bits_def)
  then have "1 \<le> ?a * 2 ^ fl_bits" using one pos mult_left_mono [of "2 ^ 1022" "2 ^ fl_bits" ?a] by linarith
  note rng = fl_exp_range [OF this]
  have eq: "?a * pow2 (1075 - int e) = of_nat (2 ^ 52 + m)"
    using pow2_inverse [of "int e - 1075"] by (simp add: mult.assoc)
  show "fl_exp ?a = 1075 - int e"
    by (rule scale_unique [OF pos rng]) (use lo hi in \<open>simp_all only: eq\<close>)
qed

lemma number_double_number:
  assumes "\<not> double_is_nan d" "double_is_zero d \<longrightarrow> d = 0"
  shows "number_double (double_number d) = d"
proof -
  define n s e f where "n = unat d" and "s = n div 2 ^ 63" and "e = n div 2 ^ 52 mod 2048" and "f = n mod 2 ^ 52"
  have n: "n < 2 ^ 64" using unsigned_less [of d, where ?'a = nat] by (simp add: n_def)
  have f: "f < 2 ^ 52" and e: "e < 2048" by (simp_all add: f_def e_def)
  have "n div 2 ^ 52 div 2048 = s" by (simp add: s_def div_mult2_eq [symmetric])
  then have "n div 2 ^ 52 = s * 2048 + e" by (metis div_mult_mod_eq e_def)
  then have nsef: "n = s * 2 ^ 63 + e * 2 ^ 52 + f"
    using div_mult_mod_eq [of n "2 ^ 52"] by (simp add: f_def)
  have s: "s = (if n < 2 ^ 63 then 0 else 1)"
    using n by (auto simp: s_def div_eq_0_iff intro: le_antisym) 
  have low: "e * 2 ^ 52 + f < 2 ^ 63" using e f by simp
  have "n mod 2 ^ 63 = (e * 2 ^ 52 + f) mod 2 ^ 63" unfolding nsef by (metis add.assoc mod_mult_self3)
  then have md: "n mod 2 ^ 63 = e * 2 ^ 52 + f" using low by simp
  have d: "d = of_nat n" by (simp add: n_def)
  define sg :: rat where "sg = (if n < 2 ^ 63 then 1 else - 1)"
  have dn: "double_number d = (if e = 2047 then (if f \<noteq> 0 then NaN else if n < 2 ^ 63 then PosInf else NegInf)
     else if e = 0 then Fin (sg * (of_nat f / 2 ^ 1074)) else Fin (sg * (of_nat (2 ^ 52 + f) * pow2 (int e - 1075))))"
    by (simp only: double_number_def Let_def n_def [symmetric] e_def [symmetric] f_def [symmetric] sg_def)
  have sgn: "\<bar>sg * a\<bar> = a" "sign_bit (sg * a) = s * 2 ^ 63" if "0 < a" for a
    using that s by (auto simp: sg_def sign_bit_def)
  consider (special) "e = 2047" | (zero) "e = 0" "f = 0" | (subnormal) "e = 0" "0 < f" | (normal) "0 < e" "e < 2047"
    using e by fastforce
  then show ?thesis
  proof cases
    case special
    have "\<not> 2047 * 2 ^ 52 < n mod 2 ^ 63"
      using assms(1) by (simp only: double_is_nan_def n_def [symmetric] simp_thms)
    then have f0: "f = 0" unfolding md special by simp
    then have "double_number d = (if n < 2 ^ 63 then PosInf else NegInf)"
      using special by (simp only: dn simp_thms if_True if_False)
    note dn' = this
    have n': "n = s * 2 ^ 63 + 2047 * 2 ^ 52" using nsef f0 special by (simp only: add_0_right)
    show ?thesis
    proof (cases "n < 2 ^ 63")
      case True
      then have "s = 0" by (simp only: s if_True)
      then have "n = 2047 * 2 ^ 52" using n' by (simp only: mult_zero_left add_0_left)
      moreover have "number_double (double_number d) = of_nat (2047 * 2 ^ 52)"
        using True by (simp only: dn' if_True number_double.simps)
      ultimately show ?thesis using d by (simp only:)
    next
      case False
      then have "s = 1" by (simp only: s if_False)
      then have "n = 2 ^ 63 + 2047 * 2 ^ 52" using n' by (simp only: mult_1_left)
      moreover have "number_double (double_number d) = of_nat (2 ^ 63 + 2047 * 2 ^ 52)"
        using False by (simp only: dn' if_False number_double.simps)
      ultimately show ?thesis using d by (simp only:)
    qed
  next
    case zero
    have "n mod 2 ^ 63 = 0" using md zero by simp
    then have "d = 0" using assms(2) by (simp only: double_is_zero_def n_def simp_thms)
    then show ?thesis using round_even_int [of 0] by (simp add: double_number_def Let_def sign_bit_def)
  next
    case subnormal
    let ?a = "of_nat f / 2 ^ 1074 :: rat"
    have pos: "0 < ?a" using subnormal by simp
    have "?a * 2 ^ 1022 = of_nat f / 2 ^ 52" by (simp add: field_simps power_add [symmetric] del: power_numeral)
    also have "\<dots> < 1"
    proof -
      have "(of_nat f :: rat) < of_nat (2 ^ 52)" using f by (simp only: of_nat_less_iff)
      then show ?thesis by simp
    qed
    finally have small: "?a * 2 ^ 1022 < 1" .
    have "?a * 2 ^ 1074 = of_int (int f)" by simp
    then have "round_even (?a * 2 ^ 1074) = int f" by (simp only: round_even_int)
    then have "number_double (Fin (sg * ?a)) = of_nat (s * 2 ^ 63 + f)"
      using small by (simp only: number_double.simps sgn [OF pos] if_True nat_int)
    moreover have "double_number d = Fin (sg * ?a)" using subnormal by (simp only: dn) simp
    moreover have "n = s * 2 ^ 63 + f" using nsef subnormal(1) by simp
    ultimately show ?thesis using d by simp
  next
    case normal
    let ?a = "of_nat (2 ^ 52 + f) * pow2 (int e - 1075) :: rat"
    note sc = normal_scale [OF f normal(1)]
    have pos: "0 < ?a" by (intro mult_pos_pos) (simp_all add: add_pos_nonneg)
    have "?a * pow2 (1075 - int e) = of_int (int (2 ^ 52 + f))"
      using pow2_inverse [of "int e - 1075"] by (simp add: mult.assoc)
    then have "round_even (?a * pow2 (1075 - int e)) = int (2 ^ 52 + f)" by (simp only: round_even_int)
    moreover have "nat (1075 - (1075 - int e)) = e" "nat (int (2 ^ 52 + f) - 2 ^ 52) = f" by simp_all
    moreover have "\<not> ?a * 2 ^ 1022 < 1" using sc(1) by (simp only: not_less)
    ultimately have "number_double (Fin (sg * ?a)) = of_nat (s * 2 ^ 63 + e * 2 ^ 52 + f)"
      by (simp only: number_double.simps sgn [OF pos] sc(2) if_False)
    moreover have "double_number d = Fin (sg * ?a)" using normal by (simp only: dn) simp
    ultimately show ?thesis using d nsef by simp
  qed
qed

text \<open>\<open>obj.f = message.f\<close> and \<open>Number(object.f)\<close>.\<close>

lemma jr_double:
  assumes "j_entry J n (t_if (\<not> double_is_zero x) (ANum (double_number x)))" "absent J cs" "double_ok x"
  shows "f_first ((n, js_double) # cs) 0 J = Returned x"
  using assms(1,2)
proof (rule f_first_entry)
  show "isSet v \<and> js_double v = Returned x" if "t_if (\<not> double_is_zero x) (ANum (double_number x)) = Returned (Some v)" for v
    using that assms(3) by (auto simp: t_if_def js_double_def double_ok_def number_double_number split: if_splits)
  show "x = 0" if "t_if (\<not> double_is_zero x) (ANum (double_number x)) = Returned None"
    using that assms(3) by (simp add: t_if_def double_ok_def split: if_splits)
qed

fun p_double :: "js_any \<Rightarrow> double js_out" where
  "p_double (ANum n) = Returned (number_double n)" | "p_double _ = Unmodelled"

end
