(* ===== verification/Json_Google.thy ===== *)
theory Json_Google
  imports Gen_Google Js_Doubles
begin

text \<open>
  The JSON side of \<open>sdk/node/src/gen/google/protobuf/timestamp.ts\<close>, \<open>sdk/node/src/gen/google/protobuf/duration.ts\<close>: \<open>toJSON\<close>, \<open>fromJSON\<close>,
  \<open>fromPartial\<close> and \<open>create\<close> of every message and the names of its enums.  \<open>_json_ok\<close> holds of the
  values that survive a round trip: known enum numbers, objects built by assignment, dates in
  range.  For every message: \<open>fromJSON\<close> reads back what \<open>toJSON\<close> returned.
\<close>

subsection \<open>Timestamp\<close>

definition Timestamp_toJSON :: "Timestamp \<Rightarrow> js_any js_out" where
  "Timestamp_toJSON m = t_obj (
    [(''seconds'', t_if (Timestamp_seconds m \<noteq> 0) (AStr (string_of_int (Timestamp_seconds m)))),
     (''nanos'', t_if (Timestamp_nanos m \<noteq> 0) (js_int (Timestamp_nanos m)))])"

definition Timestamp_fromJSON :: "js_any \<Rightarrow> Timestamp js_out" where
  "Timestamp_fromJSON = f_obj createBaseTimestamp
    [f_field (f_first [(''seconds'', js_BigInt)] 0) (\<lambda>v m. m\<lparr>Timestamp_seconds := v\<rparr>),
     f_field (f_first [(''nanos'', js_integer)] 0) (\<lambda>v m. m\<lparr>Timestamp_nanos := v\<rparr>)]"

definition Timestamp_fromPartial :: "js_any \<Rightarrow> Timestamp js_out" where
  "Timestamp_fromPartial = f_obj createBaseTimestamp
    [f_field (f_first [(''seconds'', js_BigInt)] 0) (\<lambda>v m. m\<lparr>Timestamp_seconds := v\<rparr>),
     f_field (f_first [(''nanos'', p_int)] 0) (\<lambda>v m. m\<lparr>Timestamp_nanos := v\<rparr>)]"

definition Timestamp_create :: "js_any \<Rightarrow> Timestamp js_out" where
  "Timestamp_create = create_with Timestamp_fromPartial"

lemma Timestamp_json:
  "json_rt Timestamp_toJSON Timestamp_fromJSON m"
  unfolding json_rt_def
proof (intro allI impI)
  fix J
  assume to: "Timestamp_toJSON m = Returned J"
  have d: "distinct ([''seconds'', ''nanos''] @ [])"
    by code_simp
  note all = t_objD [OF to [unfolded Timestamp_toJSON_def] _ d, unfolded t_names, OF refl]
  have "Timestamp_fromJSON J = Returned m"
    unfolding Timestamp_fromJSON_def
    by (rule fs_field [OF all [THEN conjunct1]], erule jr_bigint, rule absent_Nil,
      erule fs_field, erule jr_int, rule absent_Nil,
      rule f_obj_Nil, cases m, simp add: createBaseTimestamp_def)
  with all show "isSet J \<and> Timestamp_fromJSON J = Returned m"
    by (simp add: entries_def)
qed

lemma Timestamp_toJSON_safe [json_rules]: "to_safe (Timestamp_toJSON m)"
  unfolding Timestamp_toJSON_def by (intro json_rules)

text \<open>\<open>fromJsonTimestamp\<close>, the same function in every file that has dates.\<close>

fun fromJsonTimestamp :: "js_any \<Rightarrow> js_date js_out" where
  "fromJsonTimestamp (ADate d) = Returned d"
| "fromJsonTimestamp (AStr s) = (case iso_parse s of None \<Rightarrow> Unmodelled | Some d \<Rightarrow> Returned d)"
| "fromJsonTimestamp v = js_map fromTimestamp (Timestamp_fromJSON v)"

lemma jr_date:
  "j_entry J n (t_some x date_json) \<Longrightarrow> absent J cs \<Longrightarrow> pred_option js_date_ok x \<Longrightarrow>
   f_first ((n, \<lambda>v. js_map Some (fromJsonTimestamp v)) # cs) None J = Returned x"
proof (erule f_first_entry)
  fix v assume "pred_option js_date_ok x" "t_some x date_json = Returned (Some v)"
  then obtain d where d: "x = Some d" "js_date_ok d" "date_json d = Returned v"
    by (cases x) (auto simp: t_some_def)
  then obtain ms where "d = ValidDate ms" "\<bar>ms\<bar> \<le> max_time" "v = AStr (iso_text ms)"
    by (cases d) (auto simp: date_json_def of_result_def)
  with d(1) show "isSet v \<and> js_map Some (fromJsonTimestamp v) = Returned x"
    by (simp add: iso_round_trip)
qed (auto simp: t_some_def split: option.splits)

subsection \<open>Duration\<close>

definition Duration_toJSON :: "Duration \<Rightarrow> js_any js_out" where
  "Duration_toJSON m = t_obj (
    [(''seconds'', t_if (Duration_seconds m \<noteq> 0) (AStr (string_of_int (Duration_seconds m)))),
     (''nanos'', t_if (Duration_nanos m \<noteq> 0) (js_int (Duration_nanos m)))])"

definition Duration_fromJSON :: "js_any \<Rightarrow> Duration js_out" where
  "Duration_fromJSON = f_obj createBaseDuration
    [f_field (f_first [(''seconds'', js_BigInt)] 0) (\<lambda>v m. m\<lparr>Duration_seconds := v\<rparr>),
     f_field (f_first [(''nanos'', js_integer)] 0) (\<lambda>v m. m\<lparr>Duration_nanos := v\<rparr>)]"

definition Duration_fromPartial :: "js_any \<Rightarrow> Duration js_out" where
  "Duration_fromPartial = f_obj createBaseDuration
    [f_field (f_first [(''seconds'', js_BigInt)] 0) (\<lambda>v m. m\<lparr>Duration_seconds := v\<rparr>),
     f_field (f_first [(''nanos'', p_int)] 0) (\<lambda>v m. m\<lparr>Duration_nanos := v\<rparr>)]"

definition Duration_create :: "js_any \<Rightarrow> Duration js_out" where
  "Duration_create = create_with Duration_fromPartial"

lemma Duration_json:
  "json_rt Duration_toJSON Duration_fromJSON m"
  unfolding json_rt_def
proof (intro allI impI)
  fix J
  assume to: "Duration_toJSON m = Returned J"
  have d: "distinct ([''seconds'', ''nanos''] @ [])"
    by code_simp
  note all = t_objD [OF to [unfolded Duration_toJSON_def] _ d, unfolded t_names, OF refl]
  have "Duration_fromJSON J = Returned m"
    unfolding Duration_fromJSON_def
    by (rule fs_field [OF all [THEN conjunct1]], erule jr_bigint, rule absent_Nil,
      erule fs_field, erule jr_int, rule absent_Nil,
      rule f_obj_Nil, cases m, simp add: createBaseDuration_def)
  with all show "isSet J \<and> Duration_fromJSON J = Returned m"
    by (simp add: entries_def)
qed

lemma Duration_toJSON_safe [json_rules]: "to_safe (Duration_toJSON m)"
  unfolding Duration_toJSON_def by (intro json_rules)

end
