(* ===== verification/Json_Common.thy ===== *)
theory Json_Common
  imports Gen_Common Json_Google
begin

text \<open>
  The JSON side of \<open>sdk/node/src/gen/meta/v1/common.ts\<close>: \<open>toJSON\<close>, \<open>fromJSON\<close>,
  \<open>fromPartial\<close> and \<open>create\<close> of every message and the names of its enums.  \<open>_json_ok\<close> holds of the
  values that survive a round trip: known enum numbers, objects built by assignment, dates in
  range.  For every message: \<open>fromJSON\<close> reads back what \<open>toJSON\<close> returned.
\<close>

section \<open>Enums\<close>

text \<open>The numbers of \<open>enum ErrorCategory\<close> with their names.\<close>

definition ErrorCategory_values :: "(string \<times> int) list" where
  "ErrorCategory_values = [(''ERROR_CATEGORY_UNSPECIFIED'', 0),
     (''ERROR_CATEGORY_UNKNOWN'', 1),
     (''ERROR_CATEGORY_AUTH'', 2),
     (''ERROR_CATEGORY_CHECKPOINT'', 3),
     (''ERROR_CATEGORY_RATE_LIMIT'', 4),
     (''ERROR_CATEGORY_INVALID_INPUT'', 5),
     (''ERROR_CATEGORY_CONNECTION'', 6),
     (''ERROR_CATEGORY_E2EE'', 7),
     (''ERROR_CATEGORY_PROTOCOL'', 8),
     (''ERROR_CATEGORY_PERMISSION'', 9),
     (''ERROR_CATEGORY_NETWORK'', 10),
     (''ERROR_CATEGORY_CANCELED'', 11),
     (''UNRECOGNIZED'', (- 1))]"

definition errorCategoryFromJSON :: "js_any \<Rightarrow> int" where
  "errorCategoryFromJSON v =
    (if v = js_int 0 \<or> v = AStr ''ERROR_CATEGORY_UNSPECIFIED'' then 0
     else if v = js_int 1 \<or> v = AStr ''ERROR_CATEGORY_UNKNOWN'' then 1
     else if v = js_int 2 \<or> v = AStr ''ERROR_CATEGORY_AUTH'' then 2
     else if v = js_int 3 \<or> v = AStr ''ERROR_CATEGORY_CHECKPOINT'' then 3
     else if v = js_int 4 \<or> v = AStr ''ERROR_CATEGORY_RATE_LIMIT'' then 4
     else if v = js_int 5 \<or> v = AStr ''ERROR_CATEGORY_INVALID_INPUT'' then 5
     else if v = js_int 6 \<or> v = AStr ''ERROR_CATEGORY_CONNECTION'' then 6
     else if v = js_int 7 \<or> v = AStr ''ERROR_CATEGORY_E2EE'' then 7
     else if v = js_int 8 \<or> v = AStr ''ERROR_CATEGORY_PROTOCOL'' then 8
     else if v = js_int 9 \<or> v = AStr ''ERROR_CATEGORY_PERMISSION'' then 9
     else if v = js_int 10 \<or> v = AStr ''ERROR_CATEGORY_NETWORK'' then 10
     else if v = js_int 11 \<or> v = AStr ''ERROR_CATEGORY_CANCELED'' then 11
     else - 1)"

definition errorCategoryToJSON :: "int \<Rightarrow> string" where
  "errorCategoryToJSON n =
    (if n = 0 then ''ERROR_CATEGORY_UNSPECIFIED''
     else if n = 1 then ''ERROR_CATEGORY_UNKNOWN''
     else if n = 2 then ''ERROR_CATEGORY_AUTH''
     else if n = 3 then ''ERROR_CATEGORY_CHECKPOINT''
     else if n = 4 then ''ERROR_CATEGORY_RATE_LIMIT''
     else if n = 5 then ''ERROR_CATEGORY_INVALID_INPUT''
     else if n = 6 then ''ERROR_CATEGORY_CONNECTION''
     else if n = 7 then ''ERROR_CATEGORY_E2EE''
     else if n = 8 then ''ERROR_CATEGORY_PROTOCOL''
     else if n = 9 then ''ERROR_CATEGORY_PERMISSION''
     else if n = 10 then ''ERROR_CATEGORY_NETWORK''
     else if n = 11 then ''ERROR_CATEGORY_CANCELED''
     else ''UNRECOGNIZED'')"

definition errorCategory_known :: "int \<Rightarrow> bool" where
  "errorCategory_known n \<longleftrightarrow> n \<in> snd ` set ErrorCategory_values"

lemma errorCategory_table: "list_all (\<lambda>p. errorCategoryFromJSON (AStr (errorCategoryToJSON (snd p))) = snd p) ErrorCategory_values"
  by code_simp

lemma errorCategory_json: "errorCategory_known n \<Longrightarrow> errorCategoryFromJSON (AStr (errorCategoryToJSON n)) = n"
  using errorCategory_table by (auto simp: errorCategory_known_def list_all_iff)

text \<open>The numbers of \<open>enum TransportKind\<close> with their names.\<close>

definition TransportKind_values :: "(string \<times> int) list" where
  "TransportKind_values = [(''TRANSPORT_KIND_UNSPECIFIED'', 0),
     (''TRANSPORT_KIND_MESSENGER'', 1),
     (''TRANSPORT_KIND_E2EE'', 2),
     (''UNRECOGNIZED'', (- 1))]"

definition transportKindFromJSON :: "js_any \<Rightarrow> int" where
  "transportKindFromJSON v =
    (if v = js_int 0 \<or> v = AStr ''TRANSPORT_KIND_UNSPECIFIED'' then 0
     else if v = js_int 1 \<or> v = AStr ''TRANSPORT_KIND_MESSENGER'' then 1
     else if v = js_int 2 \<or> v = AStr ''TRANSPORT_KIND_E2EE'' then 2
     else - 1)"

definition transportKindToJSON :: "int \<Rightarrow> string" where
  "transportKindToJSON n =
    (if n = 0 then ''TRANSPORT_KIND_UNSPECIFIED''
     else if n = 1 then ''TRANSPORT_KIND_MESSENGER''
     else if n = 2 then ''TRANSPORT_KIND_E2EE''
     else ''UNRECOGNIZED'')"

definition transportKind_known :: "int \<Rightarrow> bool" where
  "transportKind_known n \<longleftrightarrow> n \<in> snd ` set TransportKind_values"

lemma transportKind_table: "list_all (\<lambda>p. transportKindFromJSON (AStr (transportKindToJSON (snd p))) = snd p) TransportKind_values"
  by code_simp

lemma transportKind_json: "transportKind_known n \<Longrightarrow> transportKindFromJSON (AStr (transportKindToJSON n)) = n"
  using transportKind_table by (auto simp: transportKind_known_def list_all_iff)

text \<open>The numbers of \<open>enum EncryptionKind\<close> with their names.\<close>

definition EncryptionKind_values :: "(string \<times> int) list" where
  "EncryptionKind_values = [(''ENCRYPTION_KIND_UNSPECIFIED'', 0),
     (''ENCRYPTION_KIND_NONE'', 1),
     (''ENCRYPTION_KIND_E2EE'', 2),
     (''UNRECOGNIZED'', (- 1))]"

definition encryptionKindFromJSON :: "js_any \<Rightarrow> int" where
  "encryptionKindFromJSON v =
    (if v = js_int 0 \<or> v = AStr ''ENCRYPTION_KIND_UNSPECIFIED'' then 0
     else if v = js_int 1 \<or> v = AStr ''ENCRYPTION_KIND_NONE'' then 1
     else if v = js_int 2 \<or> v = AStr ''ENCRYPTION_KIND_E2EE'' then 2
     else - 1)"

definition encryptionKindToJSON :: "int \<Rightarrow> string" where
  "encryptionKindToJSON n =
    (if n = 0 then ''ENCRYPTION_KIND_UNSPECIFIED''
     else if n = 1 then ''ENCRYPTION_KIND_NONE''
     else if n = 2 then ''ENCRYPTION_KIND_E2EE''
     else ''UNRECOGNIZED'')"

definition encryptionKind_known :: "int \<Rightarrow> bool" where
  "encryptionKind_known n \<longleftrightarrow> n \<in> snd ` set EncryptionKind_values"

lemma encryptionKind_table: "list_all (\<lambda>p. encryptionKindFromJSON (AStr (encryptionKindToJSON (snd p))) = snd p) EncryptionKind_values"
  by code_simp

lemma encryptionKind_json: "encryptionKind_known n \<Longrightarrow> encryptionKindFromJSON (AStr (encryptionKindToJSON n)) = n"
  using encryptionKind_table by (auto simp: encryptionKind_known_def list_all_iff)

section \<open>Messages\<close>

subsection \<open>ProtocolVersion\<close>

definition ProtocolVersion_toJSON :: "ProtocolVersion \<Rightarrow> js_any js_out" where
  "ProtocolVersion_toJSON m = t_obj (
    [(''major'', t_if (ProtocolVersion_major m \<noteq> 0) (js_int (ProtocolVersion_major m))),
     (''minor'', t_if (ProtocolVersion_minor m \<noteq> 0) (js_int (ProtocolVersion_minor m)))])"

definition ProtocolVersion_fromJSON :: "js_any \<Rightarrow> ProtocolVersion js_out" where
  "ProtocolVersion_fromJSON = f_obj createBaseProtocolVersion
    [f_field (f_first [(''major'', js_integer)] 0) (\<lambda>v m. m\<lparr>ProtocolVersion_major := v\<rparr>),
     f_field (f_first [(''minor'', js_integer)] 0) (\<lambda>v m. m\<lparr>ProtocolVersion_minor := v\<rparr>)]"

definition ProtocolVersion_fromPartial :: "js_any \<Rightarrow> ProtocolVersion js_out" where
  "ProtocolVersion_fromPartial = f_obj createBaseProtocolVersion
    [f_field (f_first [(''major'', p_int)] 0) (\<lambda>v m. m\<lparr>ProtocolVersion_major := v\<rparr>),
     f_field (f_first [(''minor'', p_int)] 0) (\<lambda>v m. m\<lparr>ProtocolVersion_minor := v\<rparr>)]"

definition ProtocolVersion_create :: "js_any \<Rightarrow> ProtocolVersion js_out" where
  "ProtocolVersion_create = create_with ProtocolVersion_fromPartial"

lemma ProtocolVersion_json:
  "json_rt ProtocolVersion_toJSON ProtocolVersion_fromJSON m"
  unfolding json_rt_def
proof (intro allI impI)
  fix J
  assume to: "ProtocolVersion_toJSON m = Returned J"
  have d: "distinct ([''major'', ''minor''] @ [])"
    by code_simp
  note all = t_objD [OF to [unfolded ProtocolVersion_toJSON_def] _ d, unfolded t_names, OF refl]
  have "ProtocolVersion_fromJSON J = Returned m"
    unfolding ProtocolVersion_fromJSON_def
    by (rule fs_field [OF all [THEN conjunct1]], erule jr_int, rule absent_Nil,
      erule fs_field, erule jr_int, rule absent_Nil,
      rule f_obj_Nil, cases m, simp add: createBaseProtocolVersion_def)
  with all show "isSet J \<and> ProtocolVersion_fromJSON J = Returned m"
    by (simp add: entries_def)
qed

lemma ProtocolVersion_toJSON_safe [json_rules]: "to_safe (ProtocolVersion_toJSON m)"
  unfolding ProtocolVersion_toJSON_def by (intro json_rules)

subsection \<open>BuildInfo\<close>

definition BuildInfo_toJSON :: "BuildInfo \<Rightarrow> js_any js_out" where
  "BuildInfo_toJSON m = t_obj (
    [(''version'', t_if (BuildInfo_version m \<noteq> '''') (AStr (BuildInfo_version m))),
     (''commit'', t_if (BuildInfo_commit m \<noteq> '''') (AStr (BuildInfo_commit m))),
     (''goVersion'', t_if (BuildInfo_goVersion m \<noteq> '''') (AStr (BuildInfo_goVersion m))),
     (''os'', t_if (BuildInfo_os m \<noteq> '''') (AStr (BuildInfo_os m))),
     (''arch'', t_if (BuildInfo_arch m \<noteq> '''') (AStr (BuildInfo_arch m)))])"

definition BuildInfo_fromJSON :: "js_any \<Rightarrow> BuildInfo js_out" where
  "BuildInfo_fromJSON = f_obj createBaseBuildInfo
    [f_field (f_first [(''version'', js_String)] '''') (\<lambda>v m. m\<lparr>BuildInfo_version := v\<rparr>),
     f_field (f_first [(''commit'', js_String)] '''') (\<lambda>v m. m\<lparr>BuildInfo_commit := v\<rparr>),
     f_field (f_first [(''goVersion'', js_String), (''go_version'', js_String)] '''') (\<lambda>v m. m\<lparr>BuildInfo_goVersion := v\<rparr>),
     f_field (f_first [(''os'', js_String)] '''') (\<lambda>v m. m\<lparr>BuildInfo_os := v\<rparr>),
     f_field (f_first [(''arch'', js_String)] '''') (\<lambda>v m. m\<lparr>BuildInfo_arch := v\<rparr>)]"

definition BuildInfo_fromPartial :: "js_any \<Rightarrow> BuildInfo js_out" where
  "BuildInfo_fromPartial = f_obj createBaseBuildInfo
    [f_field (f_first [(''version'', p_string)] '''') (\<lambda>v m. m\<lparr>BuildInfo_version := v\<rparr>),
     f_field (f_first [(''commit'', p_string)] '''') (\<lambda>v m. m\<lparr>BuildInfo_commit := v\<rparr>),
     f_field (f_first [(''goVersion'', p_string)] '''') (\<lambda>v m. m\<lparr>BuildInfo_goVersion := v\<rparr>),
     f_field (f_first [(''os'', p_string)] '''') (\<lambda>v m. m\<lparr>BuildInfo_os := v\<rparr>),
     f_field (f_first [(''arch'', p_string)] '''') (\<lambda>v m. m\<lparr>BuildInfo_arch := v\<rparr>)]"

definition BuildInfo_create :: "js_any \<Rightarrow> BuildInfo js_out" where
  "BuildInfo_create = create_with BuildInfo_fromPartial"

lemma BuildInfo_json:
  "json_rt BuildInfo_toJSON BuildInfo_fromJSON m"
  unfolding json_rt_def
proof (intro allI impI)
  fix J
  assume to: "BuildInfo_toJSON m = Returned J"
  have d: "distinct ([''version'', ''commit'', ''goVersion'', ''os'', ''arch''] @ [''go_version''])"
    by code_simp
  note all = t_objD [OF to [unfolded BuildInfo_toJSON_def] _ d, unfolded t_names, OF refl]
  note N = all [THEN conjunct2, unfolded names_simps]
  have "BuildInfo_fromJSON J = Returned m"
    unfolding BuildInfo_fromJSON_def
    by (rule fs_field [OF all [THEN conjunct1]], erule jr_string, rule absent_Nil,
      erule fs_field, erule jr_string, rule absent_Nil,
      erule fs_field, erule jr_string, simp only: N absent_simps simp_thms,
      erule fs_field, erule jr_string, rule absent_Nil,
      erule fs_field, erule jr_string, rule absent_Nil,
      rule f_obj_Nil, cases m, simp add: createBaseBuildInfo_def)
  with all show "isSet J \<and> BuildInfo_fromJSON J = Returned m"
    by (simp add: entries_def)
qed

lemma BuildInfo_toJSON_safe [json_rules]: "to_safe (BuildInfo_toJSON m)"
  unfolding BuildInfo_toJSON_def by (intro json_rules)

subsection \<open>ErrorDetail_DetailsEntry\<close>

definition ErrorDetail_DetailsEntry_toJSON :: "ErrorDetail_DetailsEntry \<Rightarrow> js_any js_out" where
  "ErrorDetail_DetailsEntry_toJSON m = t_obj (
    [(''key'', t_if (ErrorDetail_DetailsEntry_key m \<noteq> '''') (AStr (ErrorDetail_DetailsEntry_key m))),
     (''value'', t_if (ErrorDetail_DetailsEntry_value m \<noteq> '''') (AStr (ErrorDetail_DetailsEntry_value m)))])"

definition ErrorDetail_DetailsEntry_fromJSON :: "js_any \<Rightarrow> ErrorDetail_DetailsEntry js_out" where
  "ErrorDetail_DetailsEntry_fromJSON = f_obj createBaseErrorDetail_DetailsEntry
    [f_field (f_first [(''key'', js_String)] '''') (\<lambda>v m. m\<lparr>ErrorDetail_DetailsEntry_key := v\<rparr>),
     f_field (f_first [(''value'', js_String)] '''') (\<lambda>v m. m\<lparr>ErrorDetail_DetailsEntry_value := v\<rparr>)]"

definition ErrorDetail_DetailsEntry_fromPartial :: "js_any \<Rightarrow> ErrorDetail_DetailsEntry js_out" where
  "ErrorDetail_DetailsEntry_fromPartial = f_obj createBaseErrorDetail_DetailsEntry
    [f_field (f_first [(''key'', p_string)] '''') (\<lambda>v m. m\<lparr>ErrorDetail_DetailsEntry_key := v\<rparr>),
     f_field (f_first [(''value'', p_string)] '''') (\<lambda>v m. m\<lparr>ErrorDetail_DetailsEntry_value := v\<rparr>)]"

definition ErrorDetail_DetailsEntry_create :: "js_any \<Rightarrow> ErrorDetail_DetailsEntry js_out" where
  "ErrorDetail_DetailsEntry_create = create_with ErrorDetail_DetailsEntry_fromPartial"

lemma ErrorDetail_DetailsEntry_json:
  "json_rt ErrorDetail_DetailsEntry_toJSON ErrorDetail_DetailsEntry_fromJSON m"
  unfolding json_rt_def
proof (intro allI impI)
  fix J
  assume to: "ErrorDetail_DetailsEntry_toJSON m = Returned J"
  have d: "distinct ([''key'', ''value''] @ [])"
    by code_simp
  note all = t_objD [OF to [unfolded ErrorDetail_DetailsEntry_toJSON_def] _ d, unfolded t_names, OF refl]
  have "ErrorDetail_DetailsEntry_fromJSON J = Returned m"
    unfolding ErrorDetail_DetailsEntry_fromJSON_def
    by (rule fs_field [OF all [THEN conjunct1]], erule jr_string, rule absent_Nil,
      erule fs_field, erule jr_string, rule absent_Nil,
      rule f_obj_Nil, cases m, simp add: createBaseErrorDetail_DetailsEntry_def)
  with all show "isSet J \<and> ErrorDetail_DetailsEntry_fromJSON J = Returned m"
    by (simp add: entries_def)
qed

lemma ErrorDetail_DetailsEntry_toJSON_safe [json_rules]: "to_safe (ErrorDetail_DetailsEntry_toJSON m)"
  unfolding ErrorDetail_DetailsEntry_toJSON_def by (intro json_rules)

subsection \<open>ErrorDetail\<close>

definition ErrorDetail_toJSON :: "ErrorDetail \<Rightarrow> js_any js_out" where
  "ErrorDetail_toJSON m = t_obj (
    [(''category'', t_if (ErrorDetail_category m \<noteq> 0) (AStr (errorCategoryToJSON (ErrorDetail_category m)))),
     (''code'', t_if (ErrorDetail_code m \<noteq> '''') (AStr (ErrorDetail_code m))),
     (''message'', t_if (ErrorDetail_message m \<noteq> '''') (AStr (ErrorDetail_message m))),
     (''retryable'', t_if (ErrorDetail_retryable m \<noteq> False) (ABool (ErrorDetail_retryable m))),
     (''details'', t_map (ErrorDetail_details m))])"

definition ErrorDetail_fromJSON :: "js_any \<Rightarrow> ErrorDetail js_out" where
  "ErrorDetail_fromJSON = f_obj createBaseErrorDetail
    [f_field (f_first [(''category'', \<lambda>x. Returned (errorCategoryFromJSON x))] 0) (\<lambda>v m. m\<lparr>ErrorDetail_category := v\<rparr>),
     f_field (f_first [(''code'', js_String)] '''') (\<lambda>v m. m\<lparr>ErrorDetail_code := v\<rparr>),
     f_field (f_first [(''message'', js_String)] '''') (\<lambda>v m. m\<lparr>ErrorDetail_message := v\<rparr>),
     f_field (f_first [(''retryable'', \<lambda>x. Returned (js_Boolean x))] False) (\<lambda>v m. m\<lparr>ErrorDetail_retryable := v\<rparr>),
     f_field (f_map ''details'') (\<lambda>v m. m\<lparr>ErrorDetail_details := v\<rparr>)]"

definition ErrorDetail_fromPartial :: "js_any \<Rightarrow> ErrorDetail js_out" where
  "ErrorDetail_fromPartial = f_obj createBaseErrorDetail
    [f_field (f_first [(''category'', p_int)] 0) (\<lambda>v m. m\<lparr>ErrorDetail_category := v\<rparr>),
     f_field (f_first [(''code'', p_string)] '''') (\<lambda>v m. m\<lparr>ErrorDetail_code := v\<rparr>),
     f_field (f_first [(''message'', p_string)] '''') (\<lambda>v m. m\<lparr>ErrorDetail_message := v\<rparr>),
     f_field (f_first [(''retryable'', p_bool)] False) (\<lambda>v m. m\<lparr>ErrorDetail_retryable := v\<rparr>),
     f_field (p_map ''details'') (\<lambda>v m. m\<lparr>ErrorDetail_details := v\<rparr>)]"

definition ErrorDetail_create :: "js_any \<Rightarrow> ErrorDetail js_out" where
  "ErrorDetail_create = create_with ErrorDetail_fromPartial"

definition ErrorDetail_json_ok :: "ErrorDetail \<Rightarrow> bool" where
  "ErrorDetail_json_ok m \<longleftrightarrow> errorCategory_known (ErrorDetail_category m) \<and>
     js_object_ok (ErrorDetail_details m)"

lemma ErrorDetail_json:
  assumes ok: "ErrorDetail_json_ok m"
  shows "json_rt ErrorDetail_toJSON ErrorDetail_fromJSON m"
  unfolding json_rt_def
proof (intro allI impI)
  fix J
  assume to: "ErrorDetail_toJSON m = Returned J"
  have d: "distinct ([''category'', ''code'', ''message'', ''retryable'', ''details''] @ [])"
    by code_simp
  note all = t_objD [OF to [unfolded ErrorDetail_toJSON_def] _ d, unfolded t_names, OF refl]
  have "ErrorDetail_fromJSON J = Returned m"
    unfolding ErrorDetail_fromJSON_def
    by (rule fs_field [OF all [THEN conjunct1]], erule jr_enum, rule absent_Nil, rule errorCategory_json, (use ok in \<open>fastforce simp: ErrorDetail_json_ok_def list_all_iff\<close>),
      erule fs_field, erule jr_string, rule absent_Nil,
      erule fs_field, erule jr_string, rule absent_Nil,
      erule fs_field, erule jr_bool, rule absent_Nil,
      erule fs_field, erule jr_map, (use ok in \<open>fastforce simp: ErrorDetail_json_ok_def list_all_iff\<close>),
      rule f_obj_Nil, cases m, simp add: createBaseErrorDetail_def)
  with all show "isSet J \<and> ErrorDetail_fromJSON J = Returned m"
    by (simp add: entries_def)
qed

lemma ErrorDetail_toJSON_safe [json_rules]: "to_safe (ErrorDetail_toJSON m)"
  unfolding ErrorDetail_toJSON_def by (intro json_rules)

subsection \<open>Account\<close>

definition Account_toJSON :: "Account \<Rightarrow> js_any js_out" where
  "Account_toJSON m = t_obj (
    [(''id'', t_if (Account_id m \<noteq> '''') (AStr (Account_id m))),
     (''name'', t_if (Account_name m \<noteq> '''') (AStr (Account_name m))),
     (''username'', t_if (Account_username m \<noteq> '''') (AStr (Account_username m)))])"

definition Account_fromJSON :: "js_any \<Rightarrow> Account js_out" where
  "Account_fromJSON = f_obj createBaseAccount
    [f_field (f_first [(''id'', js_String)] '''') (\<lambda>v m. m\<lparr>Account_id := v\<rparr>),
     f_field (f_first [(''name'', js_String)] '''') (\<lambda>v m. m\<lparr>Account_name := v\<rparr>),
     f_field (f_first [(''username'', js_String)] '''') (\<lambda>v m. m\<lparr>Account_username := v\<rparr>)]"

definition Account_fromPartial :: "js_any \<Rightarrow> Account js_out" where
  "Account_fromPartial = f_obj createBaseAccount
    [f_field (f_first [(''id'', p_string)] '''') (\<lambda>v m. m\<lparr>Account_id := v\<rparr>),
     f_field (f_first [(''name'', p_string)] '''') (\<lambda>v m. m\<lparr>Account_name := v\<rparr>),
     f_field (f_first [(''username'', p_string)] '''') (\<lambda>v m. m\<lparr>Account_username := v\<rparr>)]"

definition Account_create :: "js_any \<Rightarrow> Account js_out" where
  "Account_create = create_with Account_fromPartial"

lemma Account_json:
  "json_rt Account_toJSON Account_fromJSON m"
  unfolding json_rt_def
proof (intro allI impI)
  fix J
  assume to: "Account_toJSON m = Returned J"
  have d: "distinct ([''id'', ''name'', ''username''] @ [])"
    by code_simp
  note all = t_objD [OF to [unfolded Account_toJSON_def] _ d, unfolded t_names, OF refl]
  have "Account_fromJSON J = Returned m"
    unfolding Account_fromJSON_def
    by (rule fs_field [OF all [THEN conjunct1]], erule jr_string, rule absent_Nil,
      erule fs_field, erule jr_string, rule absent_Nil,
      erule fs_field, erule jr_string, rule absent_Nil,
      rule f_obj_Nil, cases m, simp add: createBaseAccount_def)
  with all show "isSet J \<and> Account_fromJSON J = Returned m"
    by (simp add: entries_def)
qed

lemma Account_toJSON_safe [json_rules]: "to_safe (Account_toJSON m)"
  unfolding Account_toJSON_def by (intro json_rules)

subsection \<open>ReplyReference\<close>

definition ReplyReference_toJSON :: "ReplyReference \<Rightarrow> js_any js_out" where
  "ReplyReference_toJSON m = t_obj (
    [(''messageId'', t_if (ReplyReference_messageId m \<noteq> '''') (AStr (ReplyReference_messageId m))),
     (''senderId'', t_if (ReplyReference_senderId m \<noteq> '''') (AStr (ReplyReference_senderId m)))])"

definition ReplyReference_fromJSON :: "js_any \<Rightarrow> ReplyReference js_out" where
  "ReplyReference_fromJSON = f_obj createBaseReplyReference
    [f_field (f_first [(''messageId'', js_String), (''message_id'', js_String)] '''') (\<lambda>v m. m\<lparr>ReplyReference_messageId := v\<rparr>),
     f_field (f_first [(''senderId'', js_String), (''sender_id'', js_String)] '''') (\<lambda>v m. m\<lparr>ReplyReference_senderId := v\<rparr>)]"

definition ReplyReference_fromPartial :: "js_any \<Rightarrow> ReplyReference js_out" where
  "ReplyReference_fromPartial = f_obj createBaseReplyReference
    [f_field (f_first [(''messageId'', p_string)] '''') (\<lambda>v m. m\<lparr>ReplyReference_messageId := v\<rparr>),
     f_field (f_first [(''senderId'', p_string)] '''') (\<lambda>v m. m\<lparr>ReplyReference_senderId := v\<rparr>)]"

definition ReplyReference_create :: "js_any \<Rightarrow> ReplyReference js_out" where
  "ReplyReference_create = create_with ReplyReference_fromPartial"

lemma ReplyReference_json:
  "json_rt ReplyReference_toJSON ReplyReference_fromJSON m"
  unfolding json_rt_def
proof (intro allI impI)
  fix J
  assume to: "ReplyReference_toJSON m = Returned J"
  have d: "distinct ([''messageId'', ''senderId''] @ [''message_id'', ''sender_id''])"
    by code_simp
  note all = t_objD [OF to [unfolded ReplyReference_toJSON_def] _ d, unfolded t_names, OF refl]
  note N = all [THEN conjunct2, unfolded names_simps]
  have "ReplyReference_fromJSON J = Returned m"
    unfolding ReplyReference_fromJSON_def
    by (rule fs_field [OF all [THEN conjunct1]], erule jr_string, simp only: N absent_simps simp_thms,
      erule fs_field, erule jr_string, simp only: N absent_simps simp_thms,
      rule f_obj_Nil, cases m, simp add: createBaseReplyReference_def)
  with all show "isSet J \<and> ReplyReference_fromJSON J = Returned m"
    by (simp add: entries_def)
qed

lemma ReplyReference_toJSON_safe [json_rules]: "to_safe (ReplyReference_toJSON m)"
  unfolding ReplyReference_toJSON_def by (intro json_rules)

subsection \<open>Mention\<close>

definition Mention_toJSON :: "Mention \<Rightarrow> js_any js_out" where
  "Mention_toJSON m = t_obj (
    [(''userId'', t_if (Mention_userId m \<noteq> '''') (AStr (Mention_userId m))),
     (''offset'', t_if (Mention_offset m \<noteq> 0) (js_int (Mention_offset m))),
     (''length'', t_if (Mention_length m \<noteq> 0) (js_int (Mention_length m)))])"

definition Mention_fromJSON :: "js_any \<Rightarrow> Mention js_out" where
  "Mention_fromJSON = f_obj createBaseMention
    [f_field (f_first [(''userId'', js_String), (''user_id'', js_String)] '''') (\<lambda>v m. m\<lparr>Mention_userId := v\<rparr>),
     f_field (f_first [(''offset'', js_integer)] 0) (\<lambda>v m. m\<lparr>Mention_offset := v\<rparr>),
     f_field (f_first [(''length'', js_integer)] 0) (\<lambda>v m. m\<lparr>Mention_length := v\<rparr>)]"

definition Mention_fromPartial :: "js_any \<Rightarrow> Mention js_out" where
  "Mention_fromPartial = f_obj createBaseMention
    [f_field (f_first [(''userId'', p_string)] '''') (\<lambda>v m. m\<lparr>Mention_userId := v\<rparr>),
     f_field (f_first [(''offset'', p_int)] 0) (\<lambda>v m. m\<lparr>Mention_offset := v\<rparr>),
     f_field (f_first [(''length'', p_int)] 0) (\<lambda>v m. m\<lparr>Mention_length := v\<rparr>)]"

definition Mention_create :: "js_any \<Rightarrow> Mention js_out" where
  "Mention_create = create_with Mention_fromPartial"

lemma Mention_json:
  "json_rt Mention_toJSON Mention_fromJSON m"
  unfolding json_rt_def
proof (intro allI impI)
  fix J
  assume to: "Mention_toJSON m = Returned J"
  have d: "distinct ([''userId'', ''offset'', ''length''] @ [''user_id''])"
    by code_simp
  note all = t_objD [OF to [unfolded Mention_toJSON_def] _ d, unfolded t_names, OF refl]
  note N = all [THEN conjunct2, unfolded names_simps]
  have "Mention_fromJSON J = Returned m"
    unfolding Mention_fromJSON_def
    by (rule fs_field [OF all [THEN conjunct1]], erule jr_string, simp only: N absent_simps simp_thms,
      erule fs_field, erule jr_int, rule absent_Nil,
      erule fs_field, erule jr_int, rule absent_Nil,
      rule f_obj_Nil, cases m, simp add: createBaseMention_def)
  with all show "isSet J \<and> Mention_fromJSON J = Returned m"
    by (simp add: entries_def)
qed

lemma Mention_toJSON_safe [json_rules]: "to_safe (Mention_toJSON m)"
  unfolding Mention_toJSON_def by (intro json_rules)

subsection \<open>E2EEMediaReference\<close>

definition E2EEMediaReference_toJSON :: "E2EEMediaReference \<Rightarrow> js_any js_out" where
  "E2EEMediaReference_toJSON m = t_obj (
    [(''kind'', t_if (E2EEMediaReference_kind m \<noteq> '''') (AStr (E2EEMediaReference_kind m))),
     (''directPath'', t_if (E2EEMediaReference_directPath m \<noteq> '''') (AStr (E2EEMediaReference_directPath m))),
     (''mediaKey'', t_if (E2EEMediaReference_mediaKey m \<noteq> []) (AStr (base64FromBytes (E2EEMediaReference_mediaKey m)))),
     (''fileSha256'', t_if (E2EEMediaReference_fileSha256 m \<noteq> []) (AStr (base64FromBytes (E2EEMediaReference_fileSha256 m)))),
     (''fileEncSha256'', t_if (E2EEMediaReference_fileEncSha256 m \<noteq> []) (AStr (base64FromBytes (E2EEMediaReference_fileEncSha256 m)))),
     (''contentType'', t_if (E2EEMediaReference_contentType m \<noteq> '''') (AStr (E2EEMediaReference_contentType m))),
     (''size'', t_if (E2EEMediaReference_size m \<noteq> 0) (AStr (string_of_int (E2EEMediaReference_size m))))])"

definition E2EEMediaReference_fromJSON :: "js_any \<Rightarrow> E2EEMediaReference js_out" where
  "E2EEMediaReference_fromJSON = f_obj createBaseE2EEMediaReference
    [f_field (f_first [(''kind'', js_String)] '''') (\<lambda>v m. m\<lparr>E2EEMediaReference_kind := v\<rparr>),
     f_field (f_first [(''directPath'', js_String), (''direct_path'', js_String)] '''') (\<lambda>v m. m\<lparr>E2EEMediaReference_directPath := v\<rparr>),
     f_field (f_first [(''mediaKey'', bytesFromBase64), (''media_key'', bytesFromBase64)] []) (\<lambda>v m. m\<lparr>E2EEMediaReference_mediaKey := v\<rparr>),
     f_field (f_first [(''fileSha256'', bytesFromBase64), (''file_sha256'', bytesFromBase64)] []) (\<lambda>v m. m\<lparr>E2EEMediaReference_fileSha256 := v\<rparr>),
     f_field (f_first [(''fileEncSha256'', bytesFromBase64), (''file_enc_sha256'', bytesFromBase64)] []) (\<lambda>v m. m\<lparr>E2EEMediaReference_fileEncSha256 := v\<rparr>),
     f_field (f_first [(''contentType'', js_String), (''content_type'', js_String)] '''') (\<lambda>v m. m\<lparr>E2EEMediaReference_contentType := v\<rparr>),
     f_field (f_first [(''size'', js_BigInt)] 0) (\<lambda>v m. m\<lparr>E2EEMediaReference_size := v\<rparr>)]"

definition E2EEMediaReference_fromPartial :: "js_any \<Rightarrow> E2EEMediaReference js_out" where
  "E2EEMediaReference_fromPartial = f_obj createBaseE2EEMediaReference
    [f_field (f_first [(''kind'', p_string)] '''') (\<lambda>v m. m\<lparr>E2EEMediaReference_kind := v\<rparr>),
     f_field (f_first [(''directPath'', p_string)] '''') (\<lambda>v m. m\<lparr>E2EEMediaReference_directPath := v\<rparr>),
     f_field (f_first [(''mediaKey'', p_bytes)] []) (\<lambda>v m. m\<lparr>E2EEMediaReference_mediaKey := v\<rparr>),
     f_field (f_first [(''fileSha256'', p_bytes)] []) (\<lambda>v m. m\<lparr>E2EEMediaReference_fileSha256 := v\<rparr>),
     f_field (f_first [(''fileEncSha256'', p_bytes)] []) (\<lambda>v m. m\<lparr>E2EEMediaReference_fileEncSha256 := v\<rparr>),
     f_field (f_first [(''contentType'', p_string)] '''') (\<lambda>v m. m\<lparr>E2EEMediaReference_contentType := v\<rparr>),
     f_field (f_first [(''size'', js_BigInt)] 0) (\<lambda>v m. m\<lparr>E2EEMediaReference_size := v\<rparr>)]"

definition E2EEMediaReference_create :: "js_any \<Rightarrow> E2EEMediaReference js_out" where
  "E2EEMediaReference_create = create_with E2EEMediaReference_fromPartial"

lemma E2EEMediaReference_json:
  "json_rt E2EEMediaReference_toJSON E2EEMediaReference_fromJSON m"
  unfolding json_rt_def
proof (intro allI impI)
  fix J
  assume to: "E2EEMediaReference_toJSON m = Returned J"
  have d: "distinct ([''kind'', ''directPath'', ''mediaKey'', ''fileSha256'', ''fileEncSha256'', ''contentType'', ''size''] @ [''direct_path'', ''media_key'', ''file_sha256'', ''file_enc_sha256'', ''content_type''])"
    by code_simp
  note all = t_objD [OF to [unfolded E2EEMediaReference_toJSON_def] _ d, unfolded t_names, OF refl]
  note N = all [THEN conjunct2, unfolded names_simps]
  have "E2EEMediaReference_fromJSON J = Returned m"
    unfolding E2EEMediaReference_fromJSON_def
    by (rule fs_field [OF all [THEN conjunct1]], erule jr_string, rule absent_Nil,
      erule fs_field, erule jr_string, simp only: N absent_simps simp_thms,
      erule fs_field, erule jr_bytes, simp only: N absent_simps simp_thms,
      erule fs_field, erule jr_bytes, simp only: N absent_simps simp_thms,
      erule fs_field, erule jr_bytes, simp only: N absent_simps simp_thms,
      erule fs_field, erule jr_string, simp only: N absent_simps simp_thms,
      erule fs_field, erule jr_bigint, rule absent_Nil,
      rule f_obj_Nil, cases m, simp add: createBaseE2EEMediaReference_def)
  with all show "isSet J \<and> E2EEMediaReference_fromJSON J = Returned m"
    by (simp add: entries_def)
qed

lemma E2EEMediaReference_toJSON_safe [json_rules]: "to_safe (E2EEMediaReference_toJSON m)"
  unfolding E2EEMediaReference_toJSON_def by (intro json_rules)

subsection \<open>Attachment\<close>

definition Attachment_toJSON :: "Attachment \<Rightarrow> js_any js_out" where
  "Attachment_toJSON m = t_obj (
    [(''id'', t_if (Attachment_id m \<noteq> '''') (AStr (Attachment_id m))),
     (''type'', t_if (Attachment_type m \<noteq> '''') (AStr (Attachment_type m))),
     (''url'', t_if (Attachment_url m \<noteq> '''') (AStr (Attachment_url m))),
     (''previewUrl'', t_if (Attachment_previewUrl m \<noteq> '''') (AStr (Attachment_previewUrl m))),
     (''fileName'', t_if (Attachment_fileName m \<noteq> '''') (AStr (Attachment_fileName m))),
     (''contentType'', t_if (Attachment_contentType m \<noteq> '''') (AStr (Attachment_contentType m))),
     (''size'', t_if (Attachment_size m \<noteq> 0) (AStr (string_of_int (Attachment_size m)))),
     (''width'', t_if (Attachment_width m \<noteq> 0) (js_int (Attachment_width m))),
     (''height'', t_if (Attachment_height m \<noteq> 0) (js_int (Attachment_height m))),
     (''duration'', t_if (Attachment_duration m \<noteq> 0) (js_int (Attachment_duration m))),
     (''e2ee'', t_some (Attachment_e2ee m) E2EEMediaReference_toJSON)])"

definition Attachment_fromJSON :: "js_any \<Rightarrow> Attachment js_out" where
  "Attachment_fromJSON = f_obj createBaseAttachment
    [f_field (f_first [(''id'', js_String)] '''') (\<lambda>v m. m\<lparr>Attachment_id := v\<rparr>),
     f_field (f_first [(''type'', js_String)] '''') (\<lambda>v m. m\<lparr>Attachment_type := v\<rparr>),
     f_field (f_first [(''url'', js_String)] '''') (\<lambda>v m. m\<lparr>Attachment_url := v\<rparr>),
     f_field (f_first [(''previewUrl'', js_String), (''preview_url'', js_String)] '''') (\<lambda>v m. m\<lparr>Attachment_previewUrl := v\<rparr>),
     f_field (f_first [(''fileName'', js_String), (''file_name'', js_String)] '''') (\<lambda>v m. m\<lparr>Attachment_fileName := v\<rparr>),
     f_field (f_first [(''contentType'', js_String), (''content_type'', js_String)] '''') (\<lambda>v m. m\<lparr>Attachment_contentType := v\<rparr>),
     f_field (f_first [(''size'', js_BigInt)] 0) (\<lambda>v m. m\<lparr>Attachment_size := v\<rparr>),
     f_field (f_first [(''width'', js_integer)] 0) (\<lambda>v m. m\<lparr>Attachment_width := v\<rparr>),
     f_field (f_first [(''height'', js_integer)] 0) (\<lambda>v m. m\<lparr>Attachment_height := v\<rparr>),
     f_field (f_first [(''duration'', js_integer)] 0) (\<lambda>v m. m\<lparr>Attachment_duration := v\<rparr>),
     f_field (f_first [(''e2ee'', \<lambda>x. js_map Some (E2EEMediaReference_fromJSON x))] None) (\<lambda>v m. m\<lparr>Attachment_e2ee := v\<rparr>)]"

definition Attachment_fromPartial :: "js_any \<Rightarrow> Attachment js_out" where
  "Attachment_fromPartial = f_obj createBaseAttachment
    [f_field (f_first [(''id'', p_string)] '''') (\<lambda>v m. m\<lparr>Attachment_id := v\<rparr>),
     f_field (f_first [(''type'', p_string)] '''') (\<lambda>v m. m\<lparr>Attachment_type := v\<rparr>),
     f_field (f_first [(''url'', p_string)] '''') (\<lambda>v m. m\<lparr>Attachment_url := v\<rparr>),
     f_field (f_first [(''previewUrl'', p_string)] '''') (\<lambda>v m. m\<lparr>Attachment_previewUrl := v\<rparr>),
     f_field (f_first [(''fileName'', p_string)] '''') (\<lambda>v m. m\<lparr>Attachment_fileName := v\<rparr>),
     f_field (f_first [(''contentType'', p_string)] '''') (\<lambda>v m. m\<lparr>Attachment_contentType := v\<rparr>),
     f_field (f_first [(''size'', js_BigInt)] 0) (\<lambda>v m. m\<lparr>Attachment_size := v\<rparr>),
     f_field (f_first [(''width'', p_int)] 0) (\<lambda>v m. m\<lparr>Attachment_width := v\<rparr>),
     f_field (f_first [(''height'', p_int)] 0) (\<lambda>v m. m\<lparr>Attachment_height := v\<rparr>),
     f_field (f_first [(''duration'', p_int)] 0) (\<lambda>v m. m\<lparr>Attachment_duration := v\<rparr>),
     f_field (f_first [(''e2ee'', \<lambda>x. js_map Some (E2EEMediaReference_fromPartial x))] None) (\<lambda>v m. m\<lparr>Attachment_e2ee := v\<rparr>)]"

definition Attachment_create :: "js_any \<Rightarrow> Attachment js_out" where
  "Attachment_create = create_with Attachment_fromPartial"

lemma Attachment_json:
  "json_rt Attachment_toJSON Attachment_fromJSON m"
  unfolding json_rt_def
proof (intro allI impI)
  fix J
  assume to: "Attachment_toJSON m = Returned J"
  have d: "distinct ([''id'', ''type'', ''url'', ''previewUrl'', ''fileName'', ''contentType'', ''size'', ''width'', ''height'', ''duration'', ''e2ee''] @ [''preview_url'', ''file_name'', ''content_type''])"
    by code_simp
  note all = t_objD [OF to [unfolded Attachment_toJSON_def] _ d, unfolded t_names, OF refl]
  note N = all [THEN conjunct2, unfolded names_simps]
  have "Attachment_fromJSON J = Returned m"
    unfolding Attachment_fromJSON_def
    by (rule fs_field [OF all [THEN conjunct1]], erule jr_string, rule absent_Nil,
      erule fs_field, erule jr_string, rule absent_Nil,
      erule fs_field, erule jr_string, rule absent_Nil,
      erule fs_field, erule jr_string, simp only: N absent_simps simp_thms,
      erule fs_field, erule jr_string, simp only: N absent_simps simp_thms,
      erule fs_field, erule jr_string, simp only: N absent_simps simp_thms,
      erule fs_field, erule jr_bigint, rule absent_Nil,
      erule fs_field, erule jr_int, rule absent_Nil,
      erule fs_field, erule jr_int, rule absent_Nil,
      erule fs_field, erule jr_int, rule absent_Nil,
      erule fs_field, erule jr_msg, rule absent_Nil, rule E2EEMediaReference_json,
      rule f_obj_Nil, cases m, simp add: createBaseAttachment_def)
  with all show "isSet J \<and> Attachment_fromJSON J = Returned m"
    by (simp add: entries_def)
qed

lemma Attachment_toJSON_safe [json_rules]: "to_safe (Attachment_toJSON m)"
  unfolding Attachment_toJSON_def by (intro json_rules)

subsection \<open>Message\<close>

definition Message_toJSON :: "Message \<Rightarrow> js_any js_out" where
  "Message_toJSON m = t_obj (
    [(''id'', t_if (Message_id m \<noteq> '''') (AStr (Message_id m))),
     (''threadId'', t_if (Message_threadId m \<noteq> '''') (AStr (Message_threadId m))),
     (''senderId'', t_if (Message_senderId m \<noteq> '''') (AStr (Message_senderId m))),
     (''text'', t_if (Message_text m \<noteq> '''') (AStr (Message_text m))),
     (''timestamp'', t_some (Message_timestamp m) date_json),
     (''replyTo'', t_some (Message_replyTo m) ReplyReference_toJSON),
     (''mentions'', t_list (Message_mentions m) Mention_toJSON),
     (''attachments'', t_list (Message_attachments m) Attachment_toJSON),
     (''encryption'', t_if (Message_encryption m \<noteq> 0) (AStr (encryptionKindToJSON (Message_encryption m)))),
     (''transport'', t_if (Message_transport m \<noteq> 0) (AStr (transportKindToJSON (Message_transport m))))])"

definition Message_fromJSON :: "js_any \<Rightarrow> Message js_out" where
  "Message_fromJSON = f_obj createBaseMessage
    [f_field (f_first [(''id'', js_String)] '''') (\<lambda>v m. m\<lparr>Message_id := v\<rparr>),
     f_field (f_first [(''threadId'', js_String), (''thread_id'', js_String)] '''') (\<lambda>v m. m\<lparr>Message_threadId := v\<rparr>),
     f_field (f_first [(''senderId'', js_String), (''sender_id'', js_String)] '''') (\<lambda>v m. m\<lparr>Message_senderId := v\<rparr>),
     f_field (f_first [(''text'', js_String)] '''') (\<lambda>v m. m\<lparr>Message_text := v\<rparr>),
     f_field (f_first [(''timestamp'', \<lambda>x. js_map Some (fromJsonTimestamp x))] None) (\<lambda>v m. m\<lparr>Message_timestamp := v\<rparr>),
     f_field (f_first [(''replyTo'', \<lambda>x. js_map Some (ReplyReference_fromJSON x)), (''reply_to'', \<lambda>x. js_map Some (ReplyReference_fromJSON x))] None) (\<lambda>v m. m\<lparr>Message_replyTo := v\<rparr>),
     f_field (f_array [''mentions''] Mention_fromJSON) (\<lambda>v m. m\<lparr>Message_mentions := v\<rparr>),
     f_field (f_array [''attachments''] Attachment_fromJSON) (\<lambda>v m. m\<lparr>Message_attachments := v\<rparr>),
     f_field (f_first [(''encryption'', \<lambda>x. Returned (encryptionKindFromJSON x))] 0) (\<lambda>v m. m\<lparr>Message_encryption := v\<rparr>),
     f_field (f_first [(''transport'', \<lambda>x. Returned (transportKindFromJSON x))] 0) (\<lambda>v m. m\<lparr>Message_transport := v\<rparr>)]"

definition Message_fromPartial :: "js_any \<Rightarrow> Message js_out" where
  "Message_fromPartial = f_obj createBaseMessage
    [f_field (f_first [(''id'', p_string)] '''') (\<lambda>v m. m\<lparr>Message_id := v\<rparr>),
     f_field (f_first [(''threadId'', p_string)] '''') (\<lambda>v m. m\<lparr>Message_threadId := v\<rparr>),
     f_field (f_first [(''senderId'', p_string)] '''') (\<lambda>v m. m\<lparr>Message_senderId := v\<rparr>),
     f_field (f_first [(''text'', p_string)] '''') (\<lambda>v m. m\<lparr>Message_text := v\<rparr>),
     f_field (f_first [(''timestamp'', \<lambda>x. js_map Some (p_date x))] None) (\<lambda>v m. m\<lparr>Message_timestamp := v\<rparr>),
     f_field (f_first [(''replyTo'', \<lambda>x. js_map Some (ReplyReference_fromPartial x))] None) (\<lambda>v m. m\<lparr>Message_replyTo := v\<rparr>),
     f_field (p_array ''mentions'' Mention_fromPartial) (\<lambda>v m. m\<lparr>Message_mentions := v\<rparr>),
     f_field (p_array ''attachments'' Attachment_fromPartial) (\<lambda>v m. m\<lparr>Message_attachments := v\<rparr>),
     f_field (f_first [(''encryption'', p_int)] 0) (\<lambda>v m. m\<lparr>Message_encryption := v\<rparr>),
     f_field (f_first [(''transport'', p_int)] 0) (\<lambda>v m. m\<lparr>Message_transport := v\<rparr>)]"

definition Message_create :: "js_any \<Rightarrow> Message js_out" where
  "Message_create = create_with Message_fromPartial"

definition Message_json_ok :: "Message \<Rightarrow> bool" where
  "Message_json_ok m \<longleftrightarrow> pred_option js_date_ok (Message_timestamp m) \<and>
     encryptionKind_known (Message_encryption m) \<and>
     transportKind_known (Message_transport m)"

lemma Message_json:
  assumes ok: "Message_json_ok m"
  shows "json_rt Message_toJSON Message_fromJSON m"
  unfolding json_rt_def
proof (intro allI impI)
  fix J
  assume to: "Message_toJSON m = Returned J"
  have d: "distinct ([''id'', ''threadId'', ''senderId'', ''text'', ''timestamp'', ''replyTo'', ''mentions'', ''attachments'', ''encryption'', ''transport''] @ [''thread_id'', ''sender_id'', ''reply_to''])"
    by code_simp
  note all = t_objD [OF to [unfolded Message_toJSON_def] _ d, unfolded t_names, OF refl]
  note N = all [THEN conjunct2, unfolded names_simps]
  have "Message_fromJSON J = Returned m"
    unfolding Message_fromJSON_def
    by (rule fs_field [OF all [THEN conjunct1]], erule jr_string, rule absent_Nil,
      erule fs_field, erule jr_string, simp only: N absent_simps simp_thms,
      erule fs_field, erule jr_string, simp only: N absent_simps simp_thms,
      erule fs_field, erule jr_string, rule absent_Nil,
      erule fs_field, erule jr_date, rule absent_Nil, (use ok in \<open>fastforce simp: Message_json_ok_def list_all_iff\<close>),
      erule fs_field, erule jr_msg, simp only: N absent_simps simp_thms, rule ReplyReference_json,
      erule fs_field, erule jr_list, assumption, simp only: names_simps, rule Mention_json,
      erule fs_field, erule jr_list, assumption, simp only: names_simps, rule Attachment_json,
      erule fs_field, erule jr_enum, rule absent_Nil, rule encryptionKind_json, (use ok in \<open>fastforce simp: Message_json_ok_def list_all_iff\<close>),
      erule fs_field, erule jr_enum, rule absent_Nil, rule transportKind_json, (use ok in \<open>fastforce simp: Message_json_ok_def list_all_iff\<close>),
      rule f_obj_Nil, cases m, simp add: createBaseMessage_def)
  with all show "isSet J \<and> Message_fromJSON J = Returned m"
    by (simp add: entries_def)
qed

lemma Message_toJSON_safe [json_rules]: "to_safe (Message_toJSON m)"
  unfolding Message_toJSON_def by (intro json_rules)

subsection \<open>MediaChunk\<close>

definition MediaChunk_toJSON :: "MediaChunk \<Rightarrow> js_any js_out" where
  "MediaChunk_toJSON m = t_obj (
    [(''data'', t_if (MediaChunk_data m \<noteq> []) (AStr (base64FromBytes (MediaChunk_data m))))])"

definition MediaChunk_fromJSON :: "js_any \<Rightarrow> MediaChunk js_out" where
  "MediaChunk_fromJSON = f_obj createBaseMediaChunk
    [f_field (f_first [(''data'', bytesFromBase64)] []) (\<lambda>v m. m\<lparr>MediaChunk_data := v\<rparr>)]"

definition MediaChunk_fromPartial :: "js_any \<Rightarrow> MediaChunk js_out" where
  "MediaChunk_fromPartial = f_obj createBaseMediaChunk
    [f_field (f_first [(''data'', p_bytes)] []) (\<lambda>v m. m\<lparr>MediaChunk_data := v\<rparr>)]"

definition MediaChunk_create :: "js_any \<Rightarrow> MediaChunk js_out" where
  "MediaChunk_create = create_with MediaChunk_fromPartial"

lemma MediaChunk_json:
  "json_rt MediaChunk_toJSON MediaChunk_fromJSON m"
  unfolding json_rt_def
proof (intro allI impI)
  fix J
  assume to: "MediaChunk_toJSON m = Returned J"
  have d: "distinct ([''data''] @ [])"
    by code_simp
  note all = t_objD [OF to [unfolded MediaChunk_toJSON_def] _ d, unfolded t_names, OF refl]
  have "MediaChunk_fromJSON J = Returned m"
    unfolding MediaChunk_fromJSON_def
    by (rule fs_field [OF all [THEN conjunct1]], erule jr_bytes, rule absent_Nil,
      rule f_obj_Nil, cases m, simp add: createBaseMediaChunk_def)
  with all show "isSet J \<and> MediaChunk_fromJSON J = Returned m"
    by (simp add: entries_def)
qed

lemma MediaChunk_toJSON_safe [json_rules]: "to_safe (MediaChunk_toJSON m)"
  unfolding MediaChunk_toJSON_def by (intro json_rules)

end
