(* ===== verification/Json_Health.thy ===== *)
theory Json_Health
  imports Gen_Health Json_Common
begin

text \<open>
  The JSON side of \<open>sdk/node/src/gen/meta/v1/health.ts\<close>: \<open>toJSON\<close>, \<open>fromJSON\<close>,
  \<open>fromPartial\<close> and \<open>create\<close> of every message and the names of its enums.  \<open>_json_ok\<close> holds of the
  values that survive a round trip: known enum numbers, objects built by assignment, dates in
  range.  For every message: \<open>fromJSON\<close> reads back what \<open>toJSON\<close> returned.
\<close>

section \<open>Enums\<close>

text \<open>The numbers of \<open>enum ConnectionState\<close> with their names.\<close>

definition ConnectionState_values :: "(string \<times> int) list" where
  "ConnectionState_values = [(''CONNECTION_STATE_UNSPECIFIED'', 0),
     (''CONNECTION_STATE_DISCONNECTED'', 1),
     (''CONNECTION_STATE_CONNECTING'', 2),
     (''CONNECTION_STATE_CONNECTED'', 3),
     (''CONNECTION_STATE_FAILED'', 4),
     (''UNRECOGNIZED'', (- 1))]"

definition connectionStateFromJSON :: "js_any \<Rightarrow> int" where
  "connectionStateFromJSON v =
    (if v = js_int 0 \<or> v = AStr ''CONNECTION_STATE_UNSPECIFIED'' then 0
     else if v = js_int 1 \<or> v = AStr ''CONNECTION_STATE_DISCONNECTED'' then 1
     else if v = js_int 2 \<or> v = AStr ''CONNECTION_STATE_CONNECTING'' then 2
     else if v = js_int 3 \<or> v = AStr ''CONNECTION_STATE_CONNECTED'' then 3
     else if v = js_int 4 \<or> v = AStr ''CONNECTION_STATE_FAILED'' then 4
     else - 1)"

definition connectionStateToJSON :: "int \<Rightarrow> string" where
  "connectionStateToJSON n =
    (if n = 0 then ''CONNECTION_STATE_UNSPECIFIED''
     else if n = 1 then ''CONNECTION_STATE_DISCONNECTED''
     else if n = 2 then ''CONNECTION_STATE_CONNECTING''
     else if n = 3 then ''CONNECTION_STATE_CONNECTED''
     else if n = 4 then ''CONNECTION_STATE_FAILED''
     else ''UNRECOGNIZED'')"

definition connectionState_known :: "int \<Rightarrow> bool" where
  "connectionState_known n \<longleftrightarrow> n \<in> snd ` set ConnectionState_values"

lemma connectionState_table: "list_all (\<lambda>p. connectionStateFromJSON (AStr (connectionStateToJSON (snd p))) = snd p) ConnectionState_values"
  by code_simp

lemma connectionState_json: "connectionState_known n \<Longrightarrow> connectionStateFromJSON (AStr (connectionStateToJSON n)) = n"
  using connectionState_table by (auto simp: connectionState_known_def list_all_iff)

section \<open>Messages\<close>

subsection \<open>HealthSnapshot\<close>

definition HealthSnapshot_toJSON :: "HealthSnapshot \<Rightarrow> js_any js_out" where
  "HealthSnapshot_toJSON m = t_obj (
    [(''regular'', t_if (HealthSnapshot_regular m \<noteq> 0) (AStr (connectionStateToJSON (HealthSnapshot_regular m)))),
     (''e2ee'', t_if (HealthSnapshot_e2ee m \<noteq> 0) (AStr (connectionStateToJSON (HealthSnapshot_e2ee m)))),
     (''reconnectCount'', t_if (HealthSnapshot_reconnectCount m \<noteq> 0) (AStr (string_of_int (HealthSnapshot_reconnectCount m)))),
     (''engineDroppedEventCount'', t_if (HealthSnapshot_engineDroppedEventCount m \<noteq> 0) (AStr (string_of_int (HealthSnapshot_engineDroppedEventCount m)))),
     (''subscriberDroppedEventCount'', t_if (HealthSnapshot_subscriberDroppedEventCount m \<noteq> 0) (AStr (string_of_int (HealthSnapshot_subscriberDroppedEventCount m)))),
     (''lastSuccessfulSend'', t_some (HealthSnapshot_lastSuccessfulSend m) date_json),
     (''lastReceive'', t_some (HealthSnapshot_lastReceive m) date_json),
     (''lastErrorCategory'', t_if (HealthSnapshot_lastErrorCategory m \<noteq> '''') (AStr (HealthSnapshot_lastErrorCategory m)))])"

definition HealthSnapshot_fromJSON :: "js_any \<Rightarrow> HealthSnapshot js_out" where
  "HealthSnapshot_fromJSON = f_obj createBaseHealthSnapshot
    [f_field (f_first [(''regular'', \<lambda>x. Returned (connectionStateFromJSON x))] 0) (\<lambda>v m. m\<lparr>HealthSnapshot_regular := v\<rparr>),
     f_field (f_first [(''e2ee'', \<lambda>x. Returned (connectionStateFromJSON x))] 0) (\<lambda>v m. m\<lparr>HealthSnapshot_e2ee := v\<rparr>),
     f_field (f_first [(''reconnectCount'', js_BigInt), (''reconnect_count'', js_BigInt)] 0) (\<lambda>v m. m\<lparr>HealthSnapshot_reconnectCount := v\<rparr>),
     f_field (f_first [(''engineDroppedEventCount'', js_BigInt), (''engine_dropped_event_count'', js_BigInt)] 0) (\<lambda>v m. m\<lparr>HealthSnapshot_engineDroppedEventCount := v\<rparr>),
     f_field (f_first [(''subscriberDroppedEventCount'', js_BigInt), (''subscriber_dropped_event_count'', js_BigInt)] 0) (\<lambda>v m. m\<lparr>HealthSnapshot_subscriberDroppedEventCount := v\<rparr>),
     f_field (f_first [(''lastSuccessfulSend'', \<lambda>x. js_map Some (fromJsonTimestamp x)), (''last_successful_send'', \<lambda>x. js_map Some (fromJsonTimestamp x))] None) (\<lambda>v m. m\<lparr>HealthSnapshot_lastSuccessfulSend := v\<rparr>),
     f_field (f_first [(''lastReceive'', \<lambda>x. js_map Some (fromJsonTimestamp x)), (''last_receive'', \<lambda>x. js_map Some (fromJsonTimestamp x))] None) (\<lambda>v m. m\<lparr>HealthSnapshot_lastReceive := v\<rparr>),
     f_field (f_first [(''lastErrorCategory'', js_String), (''last_error_category'', js_String)] '''') (\<lambda>v m. m\<lparr>HealthSnapshot_lastErrorCategory := v\<rparr>)]"

definition HealthSnapshot_fromPartial :: "js_any \<Rightarrow> HealthSnapshot js_out" where
  "HealthSnapshot_fromPartial = f_obj createBaseHealthSnapshot
    [f_field (f_first [(''regular'', p_int)] 0) (\<lambda>v m. m\<lparr>HealthSnapshot_regular := v\<rparr>),
     f_field (f_first [(''e2ee'', p_int)] 0) (\<lambda>v m. m\<lparr>HealthSnapshot_e2ee := v\<rparr>),
     f_field (f_first [(''reconnectCount'', js_BigInt)] 0) (\<lambda>v m. m\<lparr>HealthSnapshot_reconnectCount := v\<rparr>),
     f_field (f_first [(''engineDroppedEventCount'', js_BigInt)] 0) (\<lambda>v m. m\<lparr>HealthSnapshot_engineDroppedEventCount := v\<rparr>),
     f_field (f_first [(''subscriberDroppedEventCount'', js_BigInt)] 0) (\<lambda>v m. m\<lparr>HealthSnapshot_subscriberDroppedEventCount := v\<rparr>),
     f_field (f_first [(''lastSuccessfulSend'', \<lambda>x. js_map Some (p_date x))] None) (\<lambda>v m. m\<lparr>HealthSnapshot_lastSuccessfulSend := v\<rparr>),
     f_field (f_first [(''lastReceive'', \<lambda>x. js_map Some (p_date x))] None) (\<lambda>v m. m\<lparr>HealthSnapshot_lastReceive := v\<rparr>),
     f_field (f_first [(''lastErrorCategory'', p_string)] '''') (\<lambda>v m. m\<lparr>HealthSnapshot_lastErrorCategory := v\<rparr>)]"

definition HealthSnapshot_create :: "js_any \<Rightarrow> HealthSnapshot js_out" where
  "HealthSnapshot_create = create_with HealthSnapshot_fromPartial"

definition HealthSnapshot_json_ok :: "HealthSnapshot \<Rightarrow> bool" where
  "HealthSnapshot_json_ok m \<longleftrightarrow> connectionState_known (HealthSnapshot_regular m) \<and>
     connectionState_known (HealthSnapshot_e2ee m) \<and>
     pred_option js_date_ok (HealthSnapshot_lastSuccessfulSend m) \<and>
     pred_option js_date_ok (HealthSnapshot_lastReceive m)"

lemma HealthSnapshot_json:
  assumes ok: "HealthSnapshot_json_ok m"
  shows "json_rt HealthSnapshot_toJSON HealthSnapshot_fromJSON m"
  unfolding json_rt_def
proof (intro allI impI)
  fix J
  assume to: "HealthSnapshot_toJSON m = Returned J"
  have d: "distinct ([''regular'', ''e2ee'', ''reconnectCount'', ''engineDroppedEventCount'', ''subscriberDroppedEventCount'', ''lastSuccessfulSend'', ''lastReceive'', ''lastErrorCategory''] @ [''reconnect_count'', ''engine_dropped_event_count'', ''subscriber_dropped_event_count'', ''last_successful_send'', ''last_receive'', ''last_error_category''])"
    by code_simp
  note all = t_objD [OF to [unfolded HealthSnapshot_toJSON_def] _ d, unfolded t_names, OF refl]
  note N = all [THEN conjunct2, unfolded names_simps]
  have "HealthSnapshot_fromJSON J = Returned m"
    unfolding HealthSnapshot_fromJSON_def
    by (rule fs_field [OF all [THEN conjunct1]], erule jr_enum, rule absent_Nil, rule connectionState_json, (use ok in \<open>fastforce simp: HealthSnapshot_json_ok_def list_all_iff\<close>),
      erule fs_field, erule jr_enum, rule absent_Nil, rule connectionState_json, (use ok in \<open>fastforce simp: HealthSnapshot_json_ok_def list_all_iff\<close>),
      erule fs_field, erule jr_bigint, simp only: N absent_simps simp_thms,
      erule fs_field, erule jr_bigint, simp only: N absent_simps simp_thms,
      erule fs_field, erule jr_bigint, simp only: N absent_simps simp_thms,
      erule fs_field, erule jr_date, simp only: N absent_simps simp_thms, (use ok in \<open>fastforce simp: HealthSnapshot_json_ok_def list_all_iff\<close>),
      erule fs_field, erule jr_date, simp only: N absent_simps simp_thms, (use ok in \<open>fastforce simp: HealthSnapshot_json_ok_def list_all_iff\<close>),
      erule fs_field, erule jr_string, simp only: N absent_simps simp_thms,
      rule f_obj_Nil, cases m, simp add: createBaseHealthSnapshot_def)
  with all show "isSet J \<and> HealthSnapshot_fromJSON J = Returned m"
    by (simp add: entries_def)
qed

lemma HealthSnapshot_toJSON_safe [json_rules]: "to_safe (HealthSnapshot_toJSON m)"
  unfolding HealthSnapshot_toJSON_def by (intro json_rules)

end
