(* ===== verification/Json_Events.thy ===== *)
theory Json_Events
  imports Gen_Events Json_Common
begin

text \<open>
  The JSON side of \<open>sdk/node/src/gen/meta/v1/events.ts\<close>: \<open>toJSON\<close>, \<open>fromJSON\<close>,
  \<open>fromPartial\<close> and \<open>create\<close> of every message and the names of its enums.  \<open>_json_ok\<close> holds of the
  values that survive a round trip: known enum numbers, objects built by assignment, dates in
  range.  For every message: \<open>fromJSON\<close> reads back what \<open>toJSON\<close> returned.
\<close>

section \<open>Enums\<close>

text \<open>The numbers of \<open>enum ThreadSystemKind\<close> with their names.\<close>

definition ThreadSystemKind_values :: "(string \<times> int) list" where
  "ThreadSystemKind_values = [(''THREAD_SYSTEM_KIND_UNSPECIFIED'', 0),
     (''THREAD_SYSTEM_KIND_NICKNAME_UPDATED'', 1),
     (''THREAD_SYSTEM_KIND_EMOJI_UPDATED'', 2),
     (''THREAD_SYSTEM_KIND_APPROVAL_MODE_UPDATED'', 3),
     (''THREAD_SYSTEM_KIND_THEME_UPDATED'', 4),
     (''THREAD_SYSTEM_KIND_MEMBER_ADDED'', 5),
     (''THREAD_SYSTEM_KIND_MEMBER_REMOVED'', 6),
     (''THREAD_SYSTEM_KIND_PARTICIPANT_ADMIN_UPDATED'', 7),
     (''THREAD_SYSTEM_KIND_MESSAGE_PIN_UPDATED'', 8),
     (''THREAD_SYSTEM_KIND_POLL_UPDATED'', 9),
     (''UNRECOGNIZED'', (- 1))]"

definition threadSystemKindFromJSON :: "js_any \<Rightarrow> int" where
  "threadSystemKindFromJSON v =
    (if v = js_int 0 \<or> v = AStr ''THREAD_SYSTEM_KIND_UNSPECIFIED'' then 0
     else if v = js_int 1 \<or> v = AStr ''THREAD_SYSTEM_KIND_NICKNAME_UPDATED'' then 1
     else if v = js_int 2 \<or> v = AStr ''THREAD_SYSTEM_KIND_EMOJI_UPDATED'' then 2
     else if v = js_int 3 \<or> v = AStr ''THREAD_SYSTEM_KIND_APPROVAL_MODE_UPDATED'' then 3
     else if v = js_int 4 \<or> v = AStr ''THREAD_SYSTEM_KIND_THEME_UPDATED'' then 4
     else if v = js_int 5 \<or> v = AStr ''THREAD_SYSTEM_KIND_MEMBER_ADDED'' then 5
     else if v = js_int 6 \<or> v = AStr ''THREAD_SYSTEM_KIND_MEMBER_REMOVED'' then 6
     else if v = js_int 7 \<or> v = AStr ''THREAD_SYSTEM_KIND_PARTICIPANT_ADMIN_UPDATED'' then 7
     else if v = js_int 8 \<or> v = AStr ''THREAD_SYSTEM_KIND_MESSAGE_PIN_UPDATED'' then 8
     else if v = js_int 9 \<or> v = AStr ''THREAD_SYSTEM_KIND_POLL_UPDATED'' then 9
     else - 1)"

definition threadSystemKindToJSON :: "int \<Rightarrow> string" where
  "threadSystemKindToJSON n =
    (if n = 0 then ''THREAD_SYSTEM_KIND_UNSPECIFIED''
     else if n = 1 then ''THREAD_SYSTEM_KIND_NICKNAME_UPDATED''
     else if n = 2 then ''THREAD_SYSTEM_KIND_EMOJI_UPDATED''
     else if n = 3 then ''THREAD_SYSTEM_KIND_APPROVAL_MODE_UPDATED''
     else if n = 4 then ''THREAD_SYSTEM_KIND_THEME_UPDATED''
     else if n = 5 then ''THREAD_SYSTEM_KIND_MEMBER_ADDED''
     else if n = 6 then ''THREAD_SYSTEM_KIND_MEMBER_REMOVED''
     else if n = 7 then ''THREAD_SYSTEM_KIND_PARTICIPANT_ADMIN_UPDATED''
     else if n = 8 then ''THREAD_SYSTEM_KIND_MESSAGE_PIN_UPDATED''
     else if n = 9 then ''THREAD_SYSTEM_KIND_POLL_UPDATED''
     else ''UNRECOGNIZED'')"

definition threadSystemKind_known :: "int \<Rightarrow> bool" where
  "threadSystemKind_known n \<longleftrightarrow> n \<in> snd ` set ThreadSystemKind_values"

lemma threadSystemKind_table: "list_all (\<lambda>p. threadSystemKindFromJSON (AStr (threadSystemKindToJSON (snd p))) = snd p) ThreadSystemKind_values"
  by code_simp

lemma threadSystemKind_json: "threadSystemKind_known n \<Longrightarrow> threadSystemKindFromJSON (AStr (threadSystemKindToJSON n)) = n"
  using threadSystemKind_table by (auto simp: threadSystemKind_known_def list_all_iff)

section \<open>Messages\<close>

subsection \<open>ReadyEvent\<close>

definition ReadyEvent_toJSON :: "ReadyEvent \<Rightarrow> js_any js_out" where
  "ReadyEvent_toJSON m = t_obj (
    [(''isNewSession'', t_if (ReadyEvent_isNewSession m \<noteq> False) (ABool (ReadyEvent_isNewSession m)))])"

definition ReadyEvent_fromJSON :: "js_any \<Rightarrow> ReadyEvent js_out" where
  "ReadyEvent_fromJSON = f_obj createBaseReadyEvent
    [f_field (f_first [(''isNewSession'', \<lambda>x. Returned (js_Boolean x)), (''is_new_session'', \<lambda>x. Returned (js_Boolean x))] False) (\<lambda>v m. m\<lparr>ReadyEvent_isNewSession := v\<rparr>)]"

definition ReadyEvent_fromPartial :: "js_any \<Rightarrow> ReadyEvent js_out" where
  "ReadyEvent_fromPartial = f_obj createBaseReadyEvent
    [f_field (f_first [(''isNewSession'', p_bool)] False) (\<lambda>v m. m\<lparr>ReadyEvent_isNewSession := v\<rparr>)]"

definition ReadyEvent_create :: "js_any \<Rightarrow> ReadyEvent js_out" where
  "ReadyEvent_create = create_with ReadyEvent_fromPartial"

lemma ReadyEvent_json:
  "json_rt ReadyEvent_toJSON ReadyEvent_fromJSON m"
  unfolding json_rt_def
proof (intro allI impI)
  fix J
  assume to: "ReadyEvent_toJSON m = Returned J"
  have d: "distinct ([''isNewSession''] @ [''is_new_session''])"
    by code_simp
  note all = t_objD [OF to [unfolded ReadyEvent_toJSON_def] _ d, unfolded t_names, OF refl]
  note N = all [THEN conjunct2, unfolded names_simps]
  have "ReadyEvent_fromJSON J = Returned m"
    unfolding ReadyEvent_fromJSON_def
    by (rule fs_field [OF all [THEN conjunct1]], erule jr_bool, simp only: N absent_simps simp_thms,
      rule f_obj_Nil, cases m, simp add: createBaseReadyEvent_def)
  with all show "isSet J \<and> ReadyEvent_fromJSON J = Returned m"
    by (simp add: entries_def)
qed

lemma ReadyEvent_toJSON_safe [json_rules]: "to_safe (ReadyEvent_toJSON m)"
  unfolding ReadyEvent_toJSON_def by (intro json_rules)

subsection \<open>ReconnectedEvent\<close>

definition ReconnectedEvent_toJSON :: "ReconnectedEvent \<Rightarrow> js_any js_out" where
  "ReconnectedEvent_toJSON m = t_obj ([])"

definition ReconnectedEvent_fromJSON :: "js_any \<Rightarrow> ReconnectedEvent js_out" where
  "ReconnectedEvent_fromJSON = f_obj createBaseReconnectedEvent
    []"

definition ReconnectedEvent_fromPartial :: "js_any \<Rightarrow> ReconnectedEvent js_out" where
  "ReconnectedEvent_fromPartial = f_obj createBaseReconnectedEvent
    []"

definition ReconnectedEvent_create :: "js_any \<Rightarrow> ReconnectedEvent js_out" where
  "ReconnectedEvent_create = create_with ReconnectedEvent_fromPartial"

lemma ReconnectedEvent_json:
  "json_rt ReconnectedEvent_toJSON ReconnectedEvent_fromJSON m"
  unfolding json_rt_def
proof (intro allI impI)
  fix J
  assume to: "ReconnectedEvent_toJSON m = Returned J"
  have d: "distinct (([] :: string list) @ [])"
    by simp
  note all = t_objD [OF to [unfolded ReconnectedEvent_toJSON_def] _ d, unfolded t_names, OF refl]
  have "ReconnectedEvent_fromJSON J = Returned m"
    unfolding ReconnectedEvent_fromJSON_def
    by (rule f_obj_Nil, cases m, simp add: createBaseReconnectedEvent_def)
  with all show "isSet J \<and> ReconnectedEvent_fromJSON J = Returned m"
    by (simp add: entries_def)
qed

lemma ReconnectedEvent_toJSON_safe [json_rules]: "to_safe (ReconnectedEvent_toJSON m)"
  unfolding ReconnectedEvent_toJSON_def by (intro json_rules)

subsection \<open>DisconnectedEvent\<close>

definition DisconnectedEvent_toJSON :: "DisconnectedEvent \<Rightarrow> js_any js_out" where
  "DisconnectedEvent_toJSON m = t_obj (
    [(''transport'', t_if (DisconnectedEvent_transport m \<noteq> 0) (AStr (transportKindToJSON (DisconnectedEvent_transport m))))])"

definition DisconnectedEvent_fromJSON :: "js_any \<Rightarrow> DisconnectedEvent js_out" where
  "DisconnectedEvent_fromJSON = f_obj createBaseDisconnectedEvent
    [f_field (f_first [(''transport'', \<lambda>x. Returned (transportKindFromJSON x))] 0) (\<lambda>v m. m\<lparr>DisconnectedEvent_transport := v\<rparr>)]"

definition DisconnectedEvent_fromPartial :: "js_any \<Rightarrow> DisconnectedEvent js_out" where
  "DisconnectedEvent_fromPartial = f_obj createBaseDisconnectedEvent
    [f_field (f_first [(''transport'', p_int)] 0) (\<lambda>v m. m\<lparr>DisconnectedEvent_transport := v\<rparr>)]"

definition DisconnectedEvent_create :: "js_any \<Rightarrow> DisconnectedEvent js_out" where
  "DisconnectedEvent_create = create_with DisconnectedEvent_fromPartial"

definition DisconnectedEvent_json_ok :: "DisconnectedEvent \<Rightarrow> bool" where
  "DisconnectedEvent_json_ok m \<longleftrightarrow> transportKind_known (DisconnectedEvent_transport m)"

lemma DisconnectedEvent_json:
  assumes ok: "DisconnectedEvent_json_ok m"
  shows "json_rt DisconnectedEvent_toJSON DisconnectedEvent_fromJSON m"
  unfolding json_rt_def
proof (intro allI impI)
  fix J
  assume to: "DisconnectedEvent_toJSON m = Returned J"
  have d: "distinct ([''transport''] @ [])"
    by code_simp
  note all = t_objD [OF to [unfolded DisconnectedEvent_toJSON_def] _ d, unfolded t_names, OF refl]
  have "DisconnectedEvent_fromJSON J = Returned m"
    unfolding DisconnectedEvent_fromJSON_def
    by (rule fs_field [OF all [THEN conjunct1]], erule jr_enum, rule absent_Nil, rule transportKind_json, (use ok in \<open>fastforce simp: DisconnectedEvent_json_ok_def list_all_iff\<close>),
      rule f_obj_Nil, cases m, simp add: createBaseDisconnectedEvent_def)
  with all show "isSet J \<and> DisconnectedEvent_fromJSON J = Returned m"
    by (simp add: entries_def)
qed

lemma DisconnectedEvent_toJSON_safe [json_rules]: "to_safe (DisconnectedEvent_toJSON m)"
  unfolding DisconnectedEvent_toJSON_def by (intro json_rules)

subsection \<open>ErrorEvent\<close>

definition ErrorEvent_toJSON :: "ErrorEvent \<Rightarrow> js_any js_out" where
  "ErrorEvent_toJSON m = t_obj (
    [(''error'', t_some (ErrorEvent_error m) ErrorDetail_toJSON)])"

definition ErrorEvent_fromJSON :: "js_any \<Rightarrow> ErrorEvent js_out" where
  "ErrorEvent_fromJSON = f_obj createBaseErrorEvent
    [f_field (f_first [(''error'', \<lambda>x. js_map Some (ErrorDetail_fromJSON x))] None) (\<lambda>v m. m\<lparr>ErrorEvent_error := v\<rparr>)]"

definition ErrorEvent_fromPartial :: "js_any \<Rightarrow> ErrorEvent js_out" where
  "ErrorEvent_fromPartial = f_obj createBaseErrorEvent
    [f_field (f_first [(''error'', \<lambda>x. js_map Some (ErrorDetail_fromPartial x))] None) (\<lambda>v m. m\<lparr>ErrorEvent_error := v\<rparr>)]"

definition ErrorEvent_create :: "js_any \<Rightarrow> ErrorEvent js_out" where
  "ErrorEvent_create = create_with ErrorEvent_fromPartial"

definition ErrorEvent_json_ok :: "ErrorEvent \<Rightarrow> bool" where
  "ErrorEvent_json_ok m \<longleftrightarrow> pred_option ErrorDetail_json_ok (ErrorEvent_error m)"

lemma ErrorEvent_json:
  assumes ok: "ErrorEvent_json_ok m"
  shows "json_rt ErrorEvent_toJSON ErrorEvent_fromJSON m"
  unfolding json_rt_def
proof (intro allI impI)
  fix J
  assume to: "ErrorEvent_toJSON m = Returned J"
  have d: "distinct ([''error''] @ [])"
    by code_simp
  note all = t_objD [OF to [unfolded ErrorEvent_toJSON_def] _ d, unfolded t_names, OF refl]
  have "ErrorEvent_fromJSON J = Returned m"
    unfolding ErrorEvent_fromJSON_def
    by (rule fs_field [OF all [THEN conjunct1]], erule jr_msg, rule absent_Nil, rule ErrorDetail_json, (use ok in \<open>fastforce simp: ErrorEvent_json_ok_def list_all_iff\<close>),
      rule f_obj_Nil, cases m, simp add: createBaseErrorEvent_def)
  with all show "isSet J \<and> ErrorEvent_fromJSON J = Returned m"
    by (simp add: entries_def)
qed

lemma ErrorEvent_toJSON_safe [json_rules]: "to_safe (ErrorEvent_toJSON m)"
  unfolding ErrorEvent_toJSON_def by (intro json_rules)

subsection \<open>MessageEvent\<close>

definition MessageEvent_toJSON :: "MessageEvent \<Rightarrow> js_any js_out" where
  "MessageEvent_toJSON m = t_obj (
    [(''message'', t_some (MessageEvent_message m) Message_toJSON)])"

definition MessageEvent_fromJSON :: "js_any \<Rightarrow> MessageEvent js_out" where
  "MessageEvent_fromJSON = f_obj createBaseMessageEvent
    [f_field (f_first [(''message'', \<lambda>x. js_map Some (Message_fromJSON x))] None) (\<lambda>v m. m\<lparr>MessageEvent_message := v\<rparr>)]"

definition MessageEvent_fromPartial :: "js_any \<Rightarrow> MessageEvent js_out" where
  "MessageEvent_fromPartial = f_obj createBaseMessageEvent
    [f_field (f_first [(''message'', \<lambda>x. js_map Some (Message_fromPartial x))] None) (\<lambda>v m. m\<lparr>MessageEvent_message := v\<rparr>)]"

definition MessageEvent_create :: "js_any \<Rightarrow> MessageEvent js_out" where
  "MessageEvent_create = create_with MessageEvent_fromPartial"

definition MessageEvent_json_ok :: "MessageEvent \<Rightarrow> bool" where
  "MessageEvent_json_ok m \<longleftrightarrow> pred_option Message_json_ok (MessageEvent_message m)"

lemma MessageEvent_json:
  assumes ok: "MessageEvent_json_ok m"
  shows "json_rt MessageEvent_toJSON MessageEvent_fromJSON m"
  unfolding json_rt_def
proof (intro allI impI)
  fix J
  assume to: "MessageEvent_toJSON m = Returned J"
  have d: "distinct ([''message''] @ [])"
    by code_simp
  note all = t_objD [OF to [unfolded MessageEvent_toJSON_def] _ d, unfolded t_names, OF refl]
  have "MessageEvent_fromJSON J = Returned m"
    unfolding MessageEvent_fromJSON_def
    by (rule fs_field [OF all [THEN conjunct1]], erule jr_msg, rule absent_Nil, rule Message_json, (use ok in \<open>fastforce simp: MessageEvent_json_ok_def list_all_iff\<close>),
      rule f_obj_Nil, cases m, simp add: createBaseMessageEvent_def)
  with all show "isSet J \<and> MessageEvent_fromJSON J = Returned m"
    by (simp add: entries_def)
qed

lemma MessageEvent_toJSON_safe [json_rules]: "to_safe (MessageEvent_toJSON m)"
  unfolding MessageEvent_toJSON_def by (intro json_rules)

subsection \<open>ReactionEvent\<close>

definition ReactionEvent_toJSON :: "ReactionEvent \<Rightarrow> js_any js_out" where
  "ReactionEvent_toJSON m = t_obj (
    [(''messageId'', t_if (ReactionEvent_messageId m \<noteq> '''') (AStr (ReactionEvent_messageId m))),
     (''threadId'', t_if (ReactionEvent_threadId m \<noteq> '''') (AStr (ReactionEvent_threadId m))),
     (''actorId'', t_if (ReactionEvent_actorId m \<noteq> '''') (AStr (ReactionEvent_actorId m))),
     (''reaction'', t_if (ReactionEvent_reaction m \<noteq> '''') (AStr (ReactionEvent_reaction m)))])"

definition ReactionEvent_fromJSON :: "js_any \<Rightarrow> ReactionEvent js_out" where
  "ReactionEvent_fromJSON = f_obj createBaseReactionEvent
    [f_field (f_first [(''messageId'', js_String), (''message_id'', js_String)] '''') (\<lambda>v m. m\<lparr>ReactionEvent_messageId := v\<rparr>),
     f_field (f_first [(''threadId'', js_String), (''thread_id'', js_String)] '''') (\<lambda>v m. m\<lparr>ReactionEvent_threadId := v\<rparr>),
     f_field (f_first [(''actorId'', js_String), (''actor_id'', js_String)] '''') (\<lambda>v m. m\<lparr>ReactionEvent_actorId := v\<rparr>),
     f_field (f_first [(''reaction'', js_String)] '''') (\<lambda>v m. m\<lparr>ReactionEvent_reaction := v\<rparr>)]"

definition ReactionEvent_fromPartial :: "js_any \<Rightarrow> ReactionEvent js_out" where
  "ReactionEvent_fromPartial = f_obj createBaseReactionEvent
    [f_field (f_first [(''messageId'', p_string)] '''') (\<lambda>v m. m\<lparr>ReactionEvent_messageId := v\<rparr>),
     f_field (f_first [(''threadId'', p_string)] '''') (\<lambda>v m. m\<lparr>ReactionEvent_threadId := v\<rparr>),
     f_field (f_first [(''actorId'', p_string)] '''') (\<lambda>v m. m\<lparr>ReactionEvent_actorId := v\<rparr>),
     f_field (f_first [(''reaction'', p_string)] '''') (\<lambda>v m. m\<lparr>ReactionEvent_reaction := v\<rparr>)]"

definition ReactionEvent_create :: "js_any \<Rightarrow> ReactionEvent js_out" where
  "ReactionEvent_create = create_with ReactionEvent_fromPartial"

lemma ReactionEvent_json:
  "json_rt ReactionEvent_toJSON ReactionEvent_fromJSON m"
  unfolding json_rt_def
proof (intro allI impI)
  fix J
  assume to: "ReactionEvent_toJSON m = Returned J"
  have d: "distinct ([''messageId'', ''threadId'', ''actorId'', ''reaction''] @ [''message_id'', ''thread_id'', ''actor_id''])"
    by code_simp
  note all = t_objD [OF to [unfolded ReactionEvent_toJSON_def] _ d, unfolded t_names, OF refl]
  note N = all [THEN conjunct2, unfolded names_simps]
  have "ReactionEvent_fromJSON J = Returned m"
    unfolding ReactionEvent_fromJSON_def
    by (rule fs_field [OF all [THEN conjunct1]], erule jr_string, simp only: N absent_simps simp_thms,
      erule fs_field, erule jr_string, simp only: N absent_simps simp_thms,
      erule fs_field, erule jr_string, simp only: N absent_simps simp_thms,
      erule fs_field, erule jr_string, rule absent_Nil,
      rule f_obj_Nil, cases m, simp add: createBaseReactionEvent_def)
  with all show "isSet J \<and> ReactionEvent_fromJSON J = Returned m"
    by (simp add: entries_def)
qed

lemma ReactionEvent_toJSON_safe [json_rules]: "to_safe (ReactionEvent_toJSON m)"
  unfolding ReactionEvent_toJSON_def by (intro json_rules)

subsection \<open>TypingEvent\<close>

definition TypingEvent_toJSON :: "TypingEvent \<Rightarrow> js_any js_out" where
  "TypingEvent_toJSON m = t_obj (
    [(''threadId'', t_if (TypingEvent_threadId m \<noteq> '''') (AStr (TypingEvent_threadId m))),
     (''senderId'', t_if (TypingEvent_senderId m \<noteq> '''') (AStr (TypingEvent_senderId m))),
     (''typing'', t_if (TypingEvent_typing m \<noteq> False) (ABool (TypingEvent_typing m)))])"

definition TypingEvent_fromJSON :: "js_any \<Rightarrow> TypingEvent js_out" where
  "TypingEvent_fromJSON = f_obj createBaseTypingEvent
    [f_field (f_first [(''threadId'', js_String), (''thread_id'', js_String)] '''') (\<lambda>v m. m\<lparr>TypingEvent_threadId := v\<rparr>),
     f_field (f_first [(''senderId'', js_String), (''sender_id'', js_String)] '''') (\<lambda>v m. m\<lparr>TypingEvent_senderId := v\<rparr>),
     f_field (f_first [(''typing'', \<lambda>x. Returned (js_Boolean x))] False) (\<lambda>v m. m\<lparr>TypingEvent_typing := v\<rparr>)]"

definition TypingEvent_fromPartial :: "js_any \<Rightarrow> TypingEvent js_out" where
  "TypingEvent_fromPartial = f_obj createBaseTypingEvent
    [f_field (f_first [(''threadId'', p_string)] '''') (\<lambda>v m. m\<lparr>TypingEvent_threadId := v\<rparr>),
     f_field (f_first [(''senderId'', p_string)] '''') (\<lambda>v m. m\<lparr>TypingEvent_senderId := v\<rparr>),
     f_field (f_first [(''typing'', p_bool)] False) (\<lambda>v m. m\<lparr>TypingEvent_typing := v\<rparr>)]"

definition TypingEvent_create :: "js_any \<Rightarrow> TypingEvent js_out" where
  "TypingEvent_create = create_with TypingEvent_fromPartial"

lemma TypingEvent_json:
  "json_rt TypingEvent_toJSON TypingEvent_fromJSON m"
  unfolding json_rt_def
proof (intro allI impI)
  fix J
  assume to: "TypingEvent_toJSON m = Returned J"
  have d: "distinct ([''threadId'', ''senderId'', ''typing''] @ [''thread_id'', ''sender_id''])"
    by code_simp
  note all = t_objD [OF to [unfolded TypingEvent_toJSON_def] _ d, unfolded t_names, OF refl]
  note N = all [THEN conjunct2, unfolded names_simps]
  have "TypingEvent_fromJSON J = Returned m"
    unfolding TypingEvent_fromJSON_def
    by (rule fs_field [OF all [THEN conjunct1]], erule jr_string, simp only: N absent_simps simp_thms,
      erule fs_field, erule jr_string, simp only: N absent_simps simp_thms,
      erule fs_field, erule jr_bool, rule absent_Nil,
      rule f_obj_Nil, cases m, simp add: createBaseTypingEvent_def)
  with all show "isSet J \<and> TypingEvent_fromJSON J = Returned m"
    by (simp add: entries_def)
qed

lemma TypingEvent_toJSON_safe [json_rules]: "to_safe (TypingEvent_toJSON m)"
  unfolding TypingEvent_toJSON_def by (intro json_rules)

subsection \<open>ReadReceiptEvent\<close>

definition ReadReceiptEvent_toJSON :: "ReadReceiptEvent \<Rightarrow> js_any js_out" where
  "ReadReceiptEvent_toJSON m = t_obj (
    [(''threadId'', t_if (ReadReceiptEvent_threadId m \<noteq> '''') (AStr (ReadReceiptEvent_threadId m))),
     (''readerId'', t_if (ReadReceiptEvent_readerId m \<noteq> '''') (AStr (ReadReceiptEvent_readerId m))),
     (''watermark'', t_some (ReadReceiptEvent_watermark m) date_json)])"

definition ReadReceiptEvent_fromJSON :: "js_any \<Rightarrow> ReadReceiptEvent js_out" where
  "ReadReceiptEvent_fromJSON = f_obj createBaseReadReceiptEvent
    [f_field (f_first [(''threadId'', js_String), (''thread_id'', js_String)] '''') (\<lambda>v m. m\<lparr>ReadReceiptEvent_threadId := v\<rparr>),
     f_field (f_first [(''readerId'', js_String), (''reader_id'', js_String)] '''') (\<lambda>v m. m\<lparr>ReadReceiptEvent_readerId := v\<rparr>),
     f_field (f_first [(''watermark'', \<lambda>x. js_map Some (fromJsonTimestamp x))] None) (\<lambda>v m. m\<lparr>ReadReceiptEvent_watermark := v\<rparr>)]"

definition ReadReceiptEvent_fromPartial :: "js_any \<Rightarrow> ReadReceiptEvent js_out" where
  "ReadReceiptEvent_fromPartial = f_obj createBaseReadReceiptEvent
    [f_field (f_first [(''threadId'', p_string)] '''') (\<lambda>v m. m\<lparr>ReadReceiptEvent_threadId := v\<rparr>),
     f_field (f_first [(''readerId'', p_string)] '''') (\<lambda>v m. m\<lparr>ReadReceiptEvent_readerId := v\<rparr>),
     f_field (f_first [(''watermark'', \<lambda>x. js_map Some (p_date x))] None) (\<lambda>v m. m\<lparr>ReadReceiptEvent_watermark := v\<rparr>)]"

definition ReadReceiptEvent_create :: "js_any \<Rightarrow> ReadReceiptEvent js_out" where
  "ReadReceiptEvent_create = create_with ReadReceiptEvent_fromPartial"

definition ReadReceiptEvent_json_ok :: "ReadReceiptEvent \<Rightarrow> bool" where
  "ReadReceiptEvent_json_ok m \<longleftrightarrow> pred_option js_date_ok (ReadReceiptEvent_watermark m)"

lemma ReadReceiptEvent_json:
  assumes ok: "ReadReceiptEvent_json_ok m"
  shows "json_rt ReadReceiptEvent_toJSON ReadReceiptEvent_fromJSON m"
  unfolding json_rt_def
proof (intro allI impI)
  fix J
  assume to: "ReadReceiptEvent_toJSON m = Returned J"
  have d: "distinct ([''threadId'', ''readerId'', ''watermark''] @ [''thread_id'', ''reader_id''])"
    by code_simp
  note all = t_objD [OF to [unfolded ReadReceiptEvent_toJSON_def] _ d, unfolded t_names, OF refl]
  note N = all [THEN conjunct2, unfolded names_simps]
  have "ReadReceiptEvent_fromJSON J = Returned m"
    unfolding ReadReceiptEvent_fromJSON_def
    by (rule fs_field [OF all [THEN conjunct1]], erule jr_string, simp only: N absent_simps simp_thms,
      erule fs_field, erule jr_string, simp only: N absent_simps simp_thms,
      erule fs_field, erule jr_date, rule absent_Nil, (use ok in \<open>fastforce simp: ReadReceiptEvent_json_ok_def list_all_iff\<close>),
      rule f_obj_Nil, cases m, simp add: createBaseReadReceiptEvent_def)
  with all show "isSet J \<and> ReadReceiptEvent_fromJSON J = Returned m"
    by (simp add: entries_def)
qed

lemma ReadReceiptEvent_toJSON_safe [json_rules]: "to_safe (ReadReceiptEvent_toJSON m)"
  unfolding ReadReceiptEvent_toJSON_def by (intro json_rules)

subsection \<open>DeliveryReceiptEvent\<close>

definition DeliveryReceiptEvent_toJSON :: "DeliveryReceiptEvent \<Rightarrow> js_any js_out" where
  "DeliveryReceiptEvent_toJSON m = t_obj (
    [(''threadId'', t_if (DeliveryReceiptEvent_threadId m \<noteq> '''') (AStr (DeliveryReceiptEvent_threadId m))),
     (''recipientId'', t_if (DeliveryReceiptEvent_recipientId m \<noteq> '''') (AStr (DeliveryReceiptEvent_recipientId m))),
     (''watermark'', t_some (DeliveryReceiptEvent_watermark m) date_json)])"

definition DeliveryReceiptEvent_fromJSON :: "js_any \<Rightarrow> DeliveryReceiptEvent js_out" where
  "DeliveryReceiptEvent_fromJSON = f_obj createBaseDeliveryReceiptEvent
    [f_field (f_first [(''threadId'', js_String), (''thread_id'', js_String)] '''') (\<lambda>v m. m\<lparr>DeliveryReceiptEvent_threadId := v\<rparr>),
     f_field (f_first [(''recipientId'', js_String), (''recipient_id'', js_String)] '''') (\<lambda>v m. m\<lparr>DeliveryReceiptEvent_recipientId := v\<rparr>),
     f_field (f_first [(''watermark'', \<lambda>x. js_map Some (fromJsonTimestamp x))] None) (\<lambda>v m. m\<lparr>DeliveryReceiptEvent_watermark := v\<rparr>)]"

definition DeliveryReceiptEvent_fromPartial :: "js_any \<Rightarrow> DeliveryReceiptEvent js_out" where
  "DeliveryReceiptEvent_fromPartial = f_obj createBaseDeliveryReceiptEvent
    [f_field (f_first [(''threadId'', p_string)] '''') (\<lambda>v m. m\<lparr>DeliveryReceiptEvent_threadId := v\<rparr>),
     f_field (f_first [(''recipientId'', p_string)] '''') (\<lambda>v m. m\<lparr>DeliveryReceiptEvent_recipientId := v\<rparr>),
     f_field (f_first [(''watermark'', \<lambda>x. js_map Some (p_date x))] None) (\<lambda>v m. m\<lparr>DeliveryReceiptEvent_watermark := v\<rparr>)]"

definition DeliveryReceiptEvent_create :: "js_any \<Rightarrow> DeliveryReceiptEvent js_out" where
  "DeliveryReceiptEvent_create = create_with DeliveryReceiptEvent_fromPartial"

definition DeliveryReceiptEvent_json_ok :: "DeliveryReceiptEvent \<Rightarrow> bool" where
  "DeliveryReceiptEvent_json_ok m \<longleftrightarrow> pred_option js_date_ok (DeliveryReceiptEvent_watermark m)"

lemma DeliveryReceiptEvent_json:
  assumes ok: "DeliveryReceiptEvent_json_ok m"
  shows "json_rt DeliveryReceiptEvent_toJSON DeliveryReceiptEvent_fromJSON m"
  unfolding json_rt_def
proof (intro allI impI)
  fix J
  assume to: "DeliveryReceiptEvent_toJSON m = Returned J"
  have d: "distinct ([''threadId'', ''recipientId'', ''watermark''] @ [''thread_id'', ''recipient_id''])"
    by code_simp
  note all = t_objD [OF to [unfolded DeliveryReceiptEvent_toJSON_def] _ d, unfolded t_names, OF refl]
  note N = all [THEN conjunct2, unfolded names_simps]
  have "DeliveryReceiptEvent_fromJSON J = Returned m"
    unfolding DeliveryReceiptEvent_fromJSON_def
    by (rule fs_field [OF all [THEN conjunct1]], erule jr_string, simp only: N absent_simps simp_thms,
      erule fs_field, erule jr_string, simp only: N absent_simps simp_thms,
      erule fs_field, erule jr_date, rule absent_Nil, (use ok in \<open>fastforce simp: DeliveryReceiptEvent_json_ok_def list_all_iff\<close>),
      rule f_obj_Nil, cases m, simp add: createBaseDeliveryReceiptEvent_def)
  with all show "isSet J \<and> DeliveryReceiptEvent_fromJSON J = Returned m"
    by (simp add: entries_def)
qed

lemma DeliveryReceiptEvent_toJSON_safe [json_rules]: "to_safe (DeliveryReceiptEvent_toJSON m)"
  unfolding DeliveryReceiptEvent_toJSON_def by (intro json_rules)

subsection \<open>MessageEditEvent\<close>

definition MessageEditEvent_toJSON :: "MessageEditEvent \<Rightarrow> js_any js_out" where
  "MessageEditEvent_toJSON m = t_obj (
    [(''messageId'', t_if (MessageEditEvent_messageId m \<noteq> '''') (AStr (MessageEditEvent_messageId m))),
     (''text'', t_if (MessageEditEvent_text m \<noteq> '''') (AStr (MessageEditEvent_text m))),
     (''editCount'', t_if (MessageEditEvent_editCount m \<noteq> 0) (AStr (string_of_int (MessageEditEvent_editCount m))))])"

definition MessageEditEvent_fromJSON :: "js_any \<Rightarrow> MessageEditEvent js_out" where
  "MessageEditEvent_fromJSON = f_obj createBaseMessageEditEvent
    [f_field (f_first [(''messageId'', js_String), (''message_id'', js_String)] '''') (\<lambda>v m. m\<lparr>MessageEditEvent_messageId := v\<rparr>),
     f_field (f_first [(''text'', js_String)] '''') (\<lambda>v m. m\<lparr>MessageEditEvent_text := v\<rparr>),
     f_field (f_first [(''editCount'', js_BigInt), (''edit_count'', js_BigInt)] 0) (\<lambda>v m. m\<lparr>MessageEditEvent_editCount := v\<rparr>)]"

definition MessageEditEvent_fromPartial :: "js_any \<Rightarrow> MessageEditEvent js_out" where
  "MessageEditEvent_fromPartial = f_obj createBaseMessageEditEvent
    [f_field (f_first [(''messageId'', p_string)] '''') (\<lambda>v m. m\<lparr>MessageEditEvent_messageId := v\<rparr>),
     f_field (f_first [(''text'', p_string)] '''') (\<lambda>v m. m\<lparr>MessageEditEvent_text := v\<rparr>),
     f_field (f_first [(''editCount'', js_BigInt)] 0) (\<lambda>v m. m\<lparr>MessageEditEvent_editCount := v\<rparr>)]"

definition MessageEditEvent_create :: "js_any \<Rightarrow> MessageEditEvent js_out" where
  "MessageEditEvent_create = create_with MessageEditEvent_fromPartial"

lemma MessageEditEvent_json:
  "json_rt MessageEditEvent_toJSON MessageEditEvent_fromJSON m"
  unfolding json_rt_def
proof (intro allI impI)
  fix J
  assume to: "MessageEditEvent_toJSON m = Returned J"
  have d: "distinct ([''messageId'', ''text'', ''editCount''] @ [''message_id'', ''edit_count''])"
    by code_simp
  note all = t_objD [OF to [unfolded MessageEditEvent_toJSON_def] _ d, unfolded t_names, OF refl]
  note N = all [THEN conjunct2, unfolded names_simps]
  have "MessageEditEvent_fromJSON J = Returned m"
    unfolding MessageEditEvent_fromJSON_def
    by (rule fs_field [OF all [THEN conjunct1]], erule jr_string, simp only: N absent_simps simp_thms,
      erule fs_field, erule jr_string, rule absent_Nil,
      erule fs_field, erule jr_bigint, simp only: N absent_simps simp_thms,
      rule f_obj_Nil, cases m, simp add: createBaseMessageEditEvent_def)
  with all show "isSet J \<and> MessageEditEvent_fromJSON J = Returned m"
    by (simp add: entries_def)
qed

lemma MessageEditEvent_toJSON_safe [json_rules]: "to_safe (MessageEditEvent_toJSON m)"
  unfolding MessageEditEvent_toJSON_def by (intro json_rules)

subsection \<open>MessageUnsendEvent\<close>

definition MessageUnsendEvent_toJSON :: "MessageUnsendEvent \<Rightarrow> js_any js_out" where
  "MessageUnsendEvent_toJSON m = t_obj (
    [(''messageId'', t_if (MessageUnsendEvent_messageId m \<noteq> '''') (AStr (MessageUnsendEvent_messageId m))),
     (''threadId'', t_if (MessageUnsendEvent_threadId m \<noteq> '''') (AStr (MessageUnsendEvent_threadId m)))])"

definition MessageUnsendEvent_fromJSON :: "js_any \<Rightarrow> MessageUnsendEvent js_out" where
  "MessageUnsendEvent_fromJSON = f_obj createBaseMessageUnsendEvent
    [f_field (f_first [(''messageId'', js_String), (''message_id'', js_String)] '''') (\<lambda>v m. m\<lparr>MessageUnsendEvent_messageId := v\<rparr>),
     f_field (f_first [(''threadId'', js_String), (''thread_id'', js_String)] '''') (\<lambda>v m. m\<lparr>MessageUnsendEvent_threadId := v\<rparr>)]"

definition MessageUnsendEvent_fromPartial :: "js_any \<Rightarrow> MessageUnsendEvent js_out" where
  "MessageUnsendEvent_fromPartial = f_obj createBaseMessageUnsendEvent
    [f_field (f_first [(''messageId'', p_string)] '''') (\<lambda>v m. m\<lparr>MessageUnsendEvent_messageId := v\<rparr>),
     f_field (f_first [(''threadId'', p_string)] '''') (\<lambda>v m. m\<lparr>MessageUnsendEvent_threadId := v\<rparr>)]"

definition MessageUnsendEvent_create :: "js_any \<Rightarrow> MessageUnsendEvent js_out" where
  "MessageUnsendEvent_create = create_with MessageUnsendEvent_fromPartial"

lemma MessageUnsendEvent_json:
  "json_rt MessageUnsendEvent_toJSON MessageUnsendEvent_fromJSON m"
  unfolding json_rt_def
proof (intro allI impI)
  fix J
  assume to: "MessageUnsendEvent_toJSON m = Returned J"
  have d: "distinct ([''messageId'', ''threadId''] @ [''message_id'', ''thread_id''])"
    by code_simp
  note all = t_objD [OF to [unfolded MessageUnsendEvent_toJSON_def] _ d, unfolded t_names, OF refl]
  note N = all [THEN conjunct2, unfolded names_simps]
  have "MessageUnsendEvent_fromJSON J = Returned m"
    unfolding MessageUnsendEvent_fromJSON_def
    by (rule fs_field [OF all [THEN conjunct1]], erule jr_string, simp only: N absent_simps simp_thms,
      erule fs_field, erule jr_string, simp only: N absent_simps simp_thms,
      rule f_obj_Nil, cases m, simp add: createBaseMessageUnsendEvent_def)
  with all show "isSet J \<and> MessageUnsendEvent_fromJSON J = Returned m"
    by (simp add: entries_def)
qed

lemma MessageUnsendEvent_toJSON_safe [json_rules]: "to_safe (MessageUnsendEvent_toJSON m)"
  unfolding MessageUnsendEvent_toJSON_def by (intro json_rules)

subsection \<open>ThreadUpdateEvent\<close>

definition ThreadUpdateEvent_toJSON :: "ThreadUpdateEvent \<Rightarrow> js_any js_out" where
  "ThreadUpdateEvent_toJSON m = t_obj (
    [(''threadId'', t_if (ThreadUpdateEvent_threadId m \<noteq> '''') (AStr (ThreadUpdateEvent_threadId m))),
     (''field'', t_if (ThreadUpdateEvent_field m \<noteq> '''') (AStr (ThreadUpdateEvent_field m))),
     (''value'', t_if (ThreadUpdateEvent_value m \<noteq> '''') (AStr (ThreadUpdateEvent_value m)))])"

definition ThreadUpdateEvent_fromJSON :: "js_any \<Rightarrow> ThreadUpdateEvent js_out" where
  "ThreadUpdateEvent_fromJSON = f_obj createBaseThreadUpdateEvent
    [f_field (f_first [(''threadId'', js_String), (''thread_id'', js_String)] '''') (\<lambda>v m. m\<lparr>ThreadUpdateEvent_threadId := v\<rparr>),
     f_field (f_first [(''field'', js_String)] '''') (\<lambda>v m. m\<lparr>ThreadUpdateEvent_field := v\<rparr>),
     f_field (f_first [(''value'', js_String)] '''') (\<lambda>v m. m\<lparr>ThreadUpdateEvent_value := v\<rparr>)]"

definition ThreadUpdateEvent_fromPartial :: "js_any \<Rightarrow> ThreadUpdateEvent js_out" where
  "ThreadUpdateEvent_fromPartial = f_obj createBaseThreadUpdateEvent
    [f_field (f_first [(''threadId'', p_string)] '''') (\<lambda>v m. m\<lparr>ThreadUpdateEvent_threadId := v\<rparr>),
     f_field (f_first [(''field'', p_string)] '''') (\<lambda>v m. m\<lparr>ThreadUpdateEvent_field := v\<rparr>),
     f_field (f_first [(''value'', p_string)] '''') (\<lambda>v m. m\<lparr>ThreadUpdateEvent_value := v\<rparr>)]"

definition ThreadUpdateEvent_create :: "js_any \<Rightarrow> ThreadUpdateEvent js_out" where
  "ThreadUpdateEvent_create = create_with ThreadUpdateEvent_fromPartial"

lemma ThreadUpdateEvent_json:
  "json_rt ThreadUpdateEvent_toJSON ThreadUpdateEvent_fromJSON m"
  unfolding json_rt_def
proof (intro allI impI)
  fix J
  assume to: "ThreadUpdateEvent_toJSON m = Returned J"
  have d: "distinct ([''threadId'', ''field'', ''value''] @ [''thread_id''])"
    by code_simp
  note all = t_objD [OF to [unfolded ThreadUpdateEvent_toJSON_def] _ d, unfolded t_names, OF refl]
  note N = all [THEN conjunct2, unfolded names_simps]
  have "ThreadUpdateEvent_fromJSON J = Returned m"
    unfolding ThreadUpdateEvent_fromJSON_def
    by (rule fs_field [OF all [THEN conjunct1]], erule jr_string, simp only: N absent_simps simp_thms,
      erule fs_field, erule jr_string, rule absent_Nil,
      erule fs_field, erule jr_string, rule absent_Nil,
      rule f_obj_Nil, cases m, simp add: createBaseThreadUpdateEvent_def)
  with all show "isSet J \<and> ThreadUpdateEvent_fromJSON J = Returned m"
    by (simp add: entries_def)
qed

lemma ThreadUpdateEvent_toJSON_safe [json_rules]: "to_safe (ThreadUpdateEvent_toJSON m)"
  unfolding ThreadUpdateEvent_toJSON_def by (intro json_rules)

subsection \<open>E2EEReadyEvent\<close>

definition E2EEReadyEvent_toJSON :: "E2EEReadyEvent \<Rightarrow> js_any js_out" where
  "E2EEReadyEvent_toJSON m = t_obj ([])"

definition E2EEReadyEvent_fromJSON :: "js_any \<Rightarrow> E2EEReadyEvent js_out" where
  "E2EEReadyEvent_fromJSON = f_obj createBaseE2EEReadyEvent
    []"

definition E2EEReadyEvent_fromPartial :: "js_any \<Rightarrow> E2EEReadyEvent js_out" where
  "E2EEReadyEvent_fromPartial = f_obj createBaseE2EEReadyEvent
    []"

definition E2EEReadyEvent_create :: "js_any \<Rightarrow> E2EEReadyEvent js_out" where
  "E2EEReadyEvent_create = create_with E2EEReadyEvent_fromPartial"

lemma E2EEReadyEvent_json:
  "json_rt E2EEReadyEvent_toJSON E2EEReadyEvent_fromJSON m"
  unfolding json_rt_def
proof (intro allI impI)
  fix J
  assume to: "E2EEReadyEvent_toJSON m = Returned J"
  have d: "distinct (([] :: string list) @ [])"
    by simp
  note all = t_objD [OF to [unfolded E2EEReadyEvent_toJSON_def] _ d, unfolded t_names, OF refl]
  have "E2EEReadyEvent_fromJSON J = Returned m"
    unfolding E2EEReadyEvent_fromJSON_def
    by (rule f_obj_Nil, cases m, simp add: createBaseE2EEReadyEvent_def)
  with all show "isSet J \<and> E2EEReadyEvent_fromJSON J = Returned m"
    by (simp add: entries_def)
qed

lemma E2EEReadyEvent_toJSON_safe [json_rules]: "to_safe (E2EEReadyEvent_toJSON m)"
  unfolding E2EEReadyEvent_toJSON_def by (intro json_rules)

subsection \<open>E2EEReceiptEvent\<close>

definition E2EEReceiptEvent_toJSON :: "E2EEReceiptEvent \<Rightarrow> js_any js_out" where
  "E2EEReceiptEvent_toJSON m = t_obj (
    [(''type'', t_if (E2EEReceiptEvent_type m \<noteq> '''') (AStr (E2EEReceiptEvent_type m))),
     (''chatJid'', t_if (E2EEReceiptEvent_chatJid m \<noteq> '''') (AStr (E2EEReceiptEvent_chatJid m))),
     (''senderJid'', t_if (E2EEReceiptEvent_senderJid m \<noteq> '''') (AStr (E2EEReceiptEvent_senderJid m))),
     (''messageIds'', t_list (E2EEReceiptEvent_messageIds m) (\<lambda>x. Returned (AStr x)))])"

definition E2EEReceiptEvent_fromJSON :: "js_any \<Rightarrow> E2EEReceiptEvent js_out" where
  "E2EEReceiptEvent_fromJSON = f_obj createBaseE2EEReceiptEvent
    [f_field (f_first [(''type'', js_String)] '''') (\<lambda>v m. m\<lparr>E2EEReceiptEvent_type := v\<rparr>),
     f_field (f_first [(''chatJid'', js_String), (''chat_jid'', js_String)] '''') (\<lambda>v m. m\<lparr>E2EEReceiptEvent_chatJid := v\<rparr>),
     f_field (f_first [(''senderJid'', js_String), (''sender_jid'', js_String)] '''') (\<lambda>v m. m\<lparr>E2EEReceiptEvent_senderJid := v\<rparr>),
     f_field (f_array [''messageIds'', ''message_ids''] js_String) (\<lambda>v m. m\<lparr>E2EEReceiptEvent_messageIds := v\<rparr>)]"

definition E2EEReceiptEvent_fromPartial :: "js_any \<Rightarrow> E2EEReceiptEvent js_out" where
  "E2EEReceiptEvent_fromPartial = f_obj createBaseE2EEReceiptEvent
    [f_field (f_first [(''type'', p_string)] '''') (\<lambda>v m. m\<lparr>E2EEReceiptEvent_type := v\<rparr>),
     f_field (f_first [(''chatJid'', p_string)] '''') (\<lambda>v m. m\<lparr>E2EEReceiptEvent_chatJid := v\<rparr>),
     f_field (f_first [(''senderJid'', p_string)] '''') (\<lambda>v m. m\<lparr>E2EEReceiptEvent_senderJid := v\<rparr>),
     f_field (p_array ''messageIds'' p_string) (\<lambda>v m. m\<lparr>E2EEReceiptEvent_messageIds := v\<rparr>)]"

definition E2EEReceiptEvent_create :: "js_any \<Rightarrow> E2EEReceiptEvent js_out" where
  "E2EEReceiptEvent_create = create_with E2EEReceiptEvent_fromPartial"

lemma E2EEReceiptEvent_json:
  "json_rt E2EEReceiptEvent_toJSON E2EEReceiptEvent_fromJSON m"
  unfolding json_rt_def
proof (intro allI impI)
  fix J
  assume to: "E2EEReceiptEvent_toJSON m = Returned J"
  have d: "distinct ([''type'', ''chatJid'', ''senderJid'', ''messageIds''] @ [''chat_jid'', ''sender_jid'', ''message_ids''])"
    by code_simp
  note all = t_objD [OF to [unfolded E2EEReceiptEvent_toJSON_def] _ d, unfolded t_names, OF refl]
  note N = all [THEN conjunct2, unfolded names_simps]
  have "E2EEReceiptEvent_fromJSON J = Returned m"
    unfolding E2EEReceiptEvent_fromJSON_def
    by (rule fs_field [OF all [THEN conjunct1]], erule jr_string, rule absent_Nil,
      erule fs_field, erule jr_string, simp only: N absent_simps simp_thms,
      erule fs_field, erule jr_string, simp only: N absent_simps simp_thms,
      erule fs_field, erule jr_strings, assumption, simp only: N names_simps simp_thms,
      rule f_obj_Nil, cases m, simp add: createBaseE2EEReceiptEvent_def)
  with all show "isSet J \<and> E2EEReceiptEvent_fromJSON J = Returned m"
    by (simp add: entries_def)
qed

lemma E2EEReceiptEvent_toJSON_safe [json_rules]: "to_safe (E2EEReceiptEvent_toJSON m)"
  unfolding E2EEReceiptEvent_toJSON_def by (intro json_rules)

subsection \<open>ThreadSystemEvent\<close>

definition ThreadSystemEvent_toJSON :: "ThreadSystemEvent \<Rightarrow> js_any js_out" where
  "ThreadSystemEvent_toJSON m = t_obj (
    [(''kind'', t_if (ThreadSystemEvent_kind m \<noteq> 0) (AStr (threadSystemKindToJSON (ThreadSystemEvent_kind m)))),
     (''threadId'', t_if (ThreadSystemEvent_threadId m \<noteq> '''') (AStr (ThreadSystemEvent_threadId m))),
     (''participantId'', t_if (ThreadSystemEvent_participantId m \<noteq> '''') (AStr (ThreadSystemEvent_participantId m))),
     (''messageId'', t_if (ThreadSystemEvent_messageId m \<noteq> '''') (AStr (ThreadSystemEvent_messageId m))),
     (''pollId'', t_if (ThreadSystemEvent_pollId m \<noteq> '''') (AStr (ThreadSystemEvent_pollId m))),
     (''nickname'', t_if (ThreadSystemEvent_nickname m \<noteq> '''') (AStr (ThreadSystemEvent_nickname m))),
     (''emoji'', t_if (ThreadSystemEvent_emoji m \<noteq> '''') (AStr (ThreadSystemEvent_emoji m))),
     (''enabled'', t_if (ThreadSystemEvent_enabled m \<noteq> False) (ABool (ThreadSystemEvent_enabled m))),
     (''pinned'', t_if (ThreadSystemEvent_pinned m \<noteq> False) (ABool (ThreadSystemEvent_pinned m))),
     (''isAdmin'', t_if (ThreadSystemEvent_isAdmin m \<noteq> False) (ABool (ThreadSystemEvent_isAdmin m)))])"

definition ThreadSystemEvent_fromJSON :: "js_any \<Rightarrow> ThreadSystemEvent js_out" where
  "ThreadSystemEvent_fromJSON = f_obj createBaseThreadSystemEvent
    [f_field (f_first [(''kind'', \<lambda>x. Returned (threadSystemKindFromJSON x))] 0) (\<lambda>v m. m\<lparr>ThreadSystemEvent_kind := v\<rparr>),
     f_field (f_first [(''threadId'', js_String), (''thread_id'', js_String)] '''') (\<lambda>v m. m\<lparr>ThreadSystemEvent_threadId := v\<rparr>),
     f_field (f_first [(''participantId'', js_String), (''participant_id'', js_String)] '''') (\<lambda>v m. m\<lparr>ThreadSystemEvent_participantId := v\<rparr>),
     f_field (f_first [(''messageId'', js_String), (''message_id'', js_String)] '''') (\<lambda>v m. m\<lparr>ThreadSystemEvent_messageId := v\<rparr>),
     f_field (f_first [(''pollId'', js_String), (''poll_id'', js_String)] '''') (\<lambda>v m. m\<lparr>ThreadSystemEvent_pollId := v\<rparr>),
     f_field (f_first [(''nickname'', js_String)] '''') (\<lambda>v m. m\<lparr>ThreadSystemEvent_nickname := v\<rparr>),
     f_field (f_first [(''emoji'', js_String)] '''') (\<lambda>v m. m\<lparr>ThreadSystemEvent_emoji := v\<rparr>),
     f_field (f_first [(''enabled'', \<lambda>x. Returned (js_Boolean x))] False) (\<lambda>v m. m\<lparr>ThreadSystemEvent_enabled := v\<rparr>),
     f_field (f_first [(''pinned'', \<lambda>x. Returned (js_Boolean x))] False) (\<lambda>v m. m\<lparr>ThreadSystemEvent_pinned := v\<rparr>),
     f_field (f_first [(''isAdmin'', \<lambda>x. Returned (js_Boolean x)), (''is_admin'', \<lambda>x. Returned (js_Boolean x))] False) (\<lambda>v m. m\<lparr>ThreadSystemEvent_isAdmin := v\<rparr>)]"

definition ThreadSystemEvent_fromPartial :: "js_any \<Rightarrow> ThreadSystemEvent js_out" where
  "ThreadSystemEvent_fromPartial = f_obj createBaseThreadSystemEvent
    [f_field (f_first [(''kind'', p_int)] 0) (\<lambda>v m. m\<lparr>ThreadSystemEvent_kind := v\<rparr>),
     f_field (f_first [(''threadId'', p_string)] '''') (\<lambda>v m. m\<lparr>ThreadSystemEvent_threadId := v\<rparr>),
     f_field (f_first [(''participantId'', p_string)] '''') (\<lambda>v m. m\<lparr>ThreadSystemEvent_participantId := v\<rparr>),
     f_field (f_first [(''messageId'', p_string)] '''') (\<lambda>v m. m\<lparr>ThreadSystemEvent_messageId := v\<rparr>),
     f_field (f_first [(''pollId'', p_string)] '''') (\<lambda>v m. m\<lparr>ThreadSystemEvent_pollId := v\<rparr>),
     f_field (f_first [(''nickname'', p_string)] '''') (\<lambda>v m. m\<lparr>ThreadSystemEvent_nickname := v\<rparr>),
     f_field (f_first [(''emoji'', p_string)] '''') (\<lambda>v m. m\<lparr>ThreadSystemEvent_emoji := v\<rparr>),
     f_field (f_first [(''enabled'', p_bool)] False) (\<lambda>v m. m\<lparr>ThreadSystemEvent_enabled := v\<rparr>),
     f_field (f_first [(''pinned'', p_bool)] False) (\<lambda>v m. m\<lparr>ThreadSystemEvent_pinned := v\<rparr>),
     f_field (f_first [(''isAdmin'', p_bool)] False) (\<lambda>v m. m\<lparr>ThreadSystemEvent_isAdmin := v\<rparr>)]"

definition ThreadSystemEvent_create :: "js_any \<Rightarrow> ThreadSystemEvent js_out" where
  "ThreadSystemEvent_create = create_with ThreadSystemEvent_fromPartial"

definition ThreadSystemEvent_json_ok :: "ThreadSystemEvent \<Rightarrow> bool" where
  "ThreadSystemEvent_json_ok m \<longleftrightarrow> threadSystemKind_known (ThreadSystemEvent_kind m)"

lemma ThreadSystemEvent_json:
  assumes ok: "ThreadSystemEvent_json_ok m"
  shows "json_rt ThreadSystemEvent_toJSON ThreadSystemEvent_fromJSON m"
  unfolding json_rt_def
proof (intro allI impI)
  fix J
  assume to: "ThreadSystemEvent_toJSON m = Returned J"
  have d: "distinct ([''kind'', ''threadId'', ''participantId'', ''messageId'', ''pollId'', ''nickname'', ''emoji'', ''enabled'', ''pinned'', ''isAdmin''] @ [''thread_id'', ''participant_id'', ''message_id'', ''poll_id'', ''is_admin''])"
    by code_simp
  note all = t_objD [OF to [unfolded ThreadSystemEvent_toJSON_def] _ d, unfolded t_names, OF refl]
  note N = all [THEN conjunct2, unfolded names_simps]
  have "ThreadSystemEvent_fromJSON J = Returned m"
    unfolding ThreadSystemEvent_fromJSON_def
    by (rule fs_field [OF all [THEN conjunct1]], erule jr_enum, rule absent_Nil, rule threadSystemKind_json, (use ok in \<open>fastforce simp: ThreadSystemEvent_json_ok_def list_all_iff\<close>),
      erule fs_field, erule jr_string, simp only: N absent_simps simp_thms,
      erule fs_field, erule jr_string, simp only: N absent_simps simp_thms,
      erule fs_field, erule jr_string, simp only: N absent_simps simp_thms,
      erule fs_field, erule jr_string, simp only: N absent_simps simp_thms,
      erule fs_field, erule jr_string, rule absent_Nil,
      erule fs_field, erule jr_string, rule absent_Nil,
      erule fs_field, erule jr_bool, rule absent_Nil,
      erule fs_field, erule jr_bool, rule absent_Nil,
      erule fs_field, erule jr_bool, simp only: N absent_simps simp_thms,
      rule f_obj_Nil, cases m, simp add: createBaseThreadSystemEvent_def)
  with all show "isSet J \<and> ThreadSystemEvent_fromJSON J = Returned m"
    by (simp add: entries_def)
qed

lemma ThreadSystemEvent_toJSON_safe [json_rules]: "to_safe (ThreadSystemEvent_toJSON m)"
  unfolding ThreadSystemEvent_toJSON_def by (intro json_rules)

subsection \<open>Event\<close>

definition Event_payload_toJSON :: "Event_payload_case option \<Rightarrow> to_stmt list" where
  "Event_payload_toJSON c = [(''ready'', case c of Some (Event_payload_ready x) \<Rightarrow> js_map Some (ReadyEvent_toJSON x) | _ \<Rightarrow> Returned None),
     (''reconnected'', case c of Some (Event_payload_reconnected x) \<Rightarrow> js_map Some (ReconnectedEvent_toJSON x) | _ \<Rightarrow> Returned None),
     (''disconnected'', case c of Some (Event_payload_disconnected x) \<Rightarrow> js_map Some (DisconnectedEvent_toJSON x) | _ \<Rightarrow> Returned None),
     (''error'', case c of Some (Event_payload_error x) \<Rightarrow> js_map Some (ErrorEvent_toJSON x) | _ \<Rightarrow> Returned None),
     (''message'', case c of Some (Event_payload_message x) \<Rightarrow> js_map Some (MessageEvent_toJSON x) | _ \<Rightarrow> Returned None),
     (''reaction'', case c of Some (Event_payload_reaction x) \<Rightarrow> js_map Some (ReactionEvent_toJSON x) | _ \<Rightarrow> Returned None),
     (''typing'', case c of Some (Event_payload_typing x) \<Rightarrow> js_map Some (TypingEvent_toJSON x) | _ \<Rightarrow> Returned None),
     (''readReceipt'', case c of Some (Event_payload_readReceipt x) \<Rightarrow> js_map Some (ReadReceiptEvent_toJSON x) | _ \<Rightarrow> Returned None),
     (''deliveryReceipt'', case c of Some (Event_payload_deliveryReceipt x) \<Rightarrow> js_map Some (DeliveryReceiptEvent_toJSON x) | _ \<Rightarrow> Returned None),
     (''messageEdit'', case c of Some (Event_payload_messageEdit x) \<Rightarrow> js_map Some (MessageEditEvent_toJSON x) | _ \<Rightarrow> Returned None),
     (''messageUnsend'', case c of Some (Event_payload_messageUnsend x) \<Rightarrow> js_map Some (MessageUnsendEvent_toJSON x) | _ \<Rightarrow> Returned None),
     (''threadUpdate'', case c of Some (Event_payload_threadUpdate x) \<Rightarrow> js_map Some (ThreadUpdateEvent_toJSON x) | _ \<Rightarrow> Returned None),
     (''e2eeReady'', case c of Some (Event_payload_e2eeReady x) \<Rightarrow> js_map Some (E2EEReadyEvent_toJSON x) | _ \<Rightarrow> Returned None),
     (''e2eeReceipt'', case c of Some (Event_payload_e2eeReceipt x) \<Rightarrow> js_map Some (E2EEReceiptEvent_toJSON x) | _ \<Rightarrow> Returned None),
     (''threadSystem'', case c of Some (Event_payload_threadSystem x) \<Rightarrow> js_map Some (ThreadSystemEvent_toJSON x) | _ \<Rightarrow> Returned None)]"

definition Event_payload_fromJSON :: "js_any \<Rightarrow> Event_payload_case option js_out" where
  "Event_payload_fromJSON = f_first [(''ready'', \<lambda>x. js_map (\<lambda>y. Some (Event_payload_ready y)) (ReadyEvent_fromJSON x)),
     (''reconnected'', \<lambda>x. js_map (\<lambda>y. Some (Event_payload_reconnected y)) (ReconnectedEvent_fromJSON x)),
     (''disconnected'', \<lambda>x. js_map (\<lambda>y. Some (Event_payload_disconnected y)) (DisconnectedEvent_fromJSON x)),
     (''error'', \<lambda>x. js_map (\<lambda>y. Some (Event_payload_error y)) (ErrorEvent_fromJSON x)),
     (''message'', \<lambda>x. js_map (\<lambda>y. Some (Event_payload_message y)) (MessageEvent_fromJSON x)),
     (''reaction'', \<lambda>x. js_map (\<lambda>y. Some (Event_payload_reaction y)) (ReactionEvent_fromJSON x)),
     (''typing'', \<lambda>x. js_map (\<lambda>y. Some (Event_payload_typing y)) (TypingEvent_fromJSON x)),
     (''readReceipt'', \<lambda>x. js_map (\<lambda>y. Some (Event_payload_readReceipt y)) (ReadReceiptEvent_fromJSON x)),
     (''read_receipt'', \<lambda>x. js_map (\<lambda>y. Some (Event_payload_readReceipt y)) (ReadReceiptEvent_fromJSON x)),
     (''deliveryReceipt'', \<lambda>x. js_map (\<lambda>y. Some (Event_payload_deliveryReceipt y)) (DeliveryReceiptEvent_fromJSON x)),
     (''delivery_receipt'', \<lambda>x. js_map (\<lambda>y. Some (Event_payload_deliveryReceipt y)) (DeliveryReceiptEvent_fromJSON x)),
     (''messageEdit'', \<lambda>x. js_map (\<lambda>y. Some (Event_payload_messageEdit y)) (MessageEditEvent_fromJSON x)),
     (''message_edit'', \<lambda>x. js_map (\<lambda>y. Some (Event_payload_messageEdit y)) (MessageEditEvent_fromJSON x)),
     (''messageUnsend'', \<lambda>x. js_map (\<lambda>y. Some (Event_payload_messageUnsend y)) (MessageUnsendEvent_fromJSON x)),
     (''message_unsend'', \<lambda>x. js_map (\<lambda>y. Some (Event_payload_messageUnsend y)) (MessageUnsendEvent_fromJSON x)),
     (''threadUpdate'', \<lambda>x. js_map (\<lambda>y. Some (Event_payload_threadUpdate y)) (ThreadUpdateEvent_fromJSON x)),
     (''thread_update'', \<lambda>x. js_map (\<lambda>y. Some (Event_payload_threadUpdate y)) (ThreadUpdateEvent_fromJSON x)),
     (''e2eeReady'', \<lambda>x. js_map (\<lambda>y. Some (Event_payload_e2eeReady y)) (E2EEReadyEvent_fromJSON x)),
     (''e2ee_ready'', \<lambda>x. js_map (\<lambda>y. Some (Event_payload_e2eeReady y)) (E2EEReadyEvent_fromJSON x)),
     (''e2eeReceipt'', \<lambda>x. js_map (\<lambda>y. Some (Event_payload_e2eeReceipt y)) (E2EEReceiptEvent_fromJSON x)),
     (''e2ee_receipt'', \<lambda>x. js_map (\<lambda>y. Some (Event_payload_e2eeReceipt y)) (E2EEReceiptEvent_fromJSON x)),
     (''threadSystem'', \<lambda>x. js_map (\<lambda>y. Some (Event_payload_threadSystem y)) (ThreadSystemEvent_fromJSON x)),
     (''thread_system'', \<lambda>x. js_map (\<lambda>y. Some (Event_payload_threadSystem y)) (ThreadSystemEvent_fromJSON x))] None"

definition Event_toJSON :: "Event \<Rightarrow> js_any js_out" where
  "Event_toJSON m = t_obj (
    [(''sessionId'', t_if (Event_sessionId m \<noteq> '''') (AStr (Event_sessionId m))),
     (''sequence'', t_if (Event_sequence m \<noteq> 0) (AStr (string_of_int (Event_sequence m)))),
     (''emittedAt'', t_some (Event_emittedAt m) date_json)] @ Event_payload_toJSON (Event_payload m))"

definition Event_fromJSON :: "js_any \<Rightarrow> Event js_out" where
  "Event_fromJSON = f_obj createBaseEvent
    [f_field (f_first [(''sessionId'', js_String), (''session_id'', js_String)] '''') (\<lambda>v m. m\<lparr>Event_sessionId := v\<rparr>),
     f_field (f_first [(''sequence'', js_BigInt)] 0) (\<lambda>v m. m\<lparr>Event_sequence := v\<rparr>),
     f_field (f_first [(''emittedAt'', \<lambda>x. js_map Some (fromJsonTimestamp x)), (''emitted_at'', \<lambda>x. js_map Some (fromJsonTimestamp x))] None) (\<lambda>v m. m\<lparr>Event_emittedAt := v\<rparr>),
     f_field (Event_payload_fromJSON) (\<lambda>v m. m\<lparr>Event_payload := v\<rparr>)]"

definition Event_fromPartial :: "js_any \<Rightarrow> Event js_out" where
  "Event_fromPartial = f_obj createBaseEvent
    [f_field (f_first [(''sessionId'', p_string)] '''') (\<lambda>v m. m\<lparr>Event_sessionId := v\<rparr>),
     f_field (f_first [(''sequence'', js_BigInt)] 0) (\<lambda>v m. m\<lparr>Event_sequence := v\<rparr>),
     f_field (f_first [(''emittedAt'', \<lambda>x. js_map Some (p_date x))] None) (\<lambda>v m. m\<lparr>Event_emittedAt := v\<rparr>),
     f_field (p_oneof ''payload'' [(''ready'', \<lambda>x. js_map Event_payload_ready (ReadyEvent_fromPartial x)),
         (''reconnected'', \<lambda>x. js_map Event_payload_reconnected (ReconnectedEvent_fromPartial x)),
         (''disconnected'', \<lambda>x. js_map Event_payload_disconnected (DisconnectedEvent_fromPartial x)),
         (''error'', \<lambda>x. js_map Event_payload_error (ErrorEvent_fromPartial x)),
         (''message'', \<lambda>x. js_map Event_payload_message (MessageEvent_fromPartial x)),
         (''reaction'', \<lambda>x. js_map Event_payload_reaction (ReactionEvent_fromPartial x)),
         (''typing'', \<lambda>x. js_map Event_payload_typing (TypingEvent_fromPartial x)),
         (''readReceipt'', \<lambda>x. js_map Event_payload_readReceipt (ReadReceiptEvent_fromPartial x)),
         (''deliveryReceipt'', \<lambda>x. js_map Event_payload_deliveryReceipt (DeliveryReceiptEvent_fromPartial x)),
         (''messageEdit'', \<lambda>x. js_map Event_payload_messageEdit (MessageEditEvent_fromPartial x)),
         (''messageUnsend'', \<lambda>x. js_map Event_payload_messageUnsend (MessageUnsendEvent_fromPartial x)),
         (''threadUpdate'', \<lambda>x. js_map Event_payload_threadUpdate (ThreadUpdateEvent_fromPartial x)),
         (''e2eeReady'', \<lambda>x. js_map Event_payload_e2eeReady (E2EEReadyEvent_fromPartial x)),
         (''e2eeReceipt'', \<lambda>x. js_map Event_payload_e2eeReceipt (E2EEReceiptEvent_fromPartial x)),
         (''threadSystem'', \<lambda>x. js_map Event_payload_threadSystem (ThreadSystemEvent_fromPartial x))]) (\<lambda>v m. m\<lparr>Event_payload := v\<rparr>)]"

definition Event_create :: "js_any \<Rightarrow> Event js_out" where
  "Event_create = create_with Event_fromPartial"

definition Event_payload_case_json_ok :: "Event_payload_case \<Rightarrow> bool" where
  "Event_payload_case_json_ok c = (case c of
       Event_payload_ready v \<Rightarrow> True
     | Event_payload_reconnected v \<Rightarrow> True
     | Event_payload_disconnected v \<Rightarrow> DisconnectedEvent_json_ok v
     | Event_payload_error v \<Rightarrow> ErrorEvent_json_ok v
     | Event_payload_message v \<Rightarrow> MessageEvent_json_ok v
     | Event_payload_reaction v \<Rightarrow> True
     | Event_payload_typing v \<Rightarrow> True
     | Event_payload_readReceipt v \<Rightarrow> ReadReceiptEvent_json_ok v
     | Event_payload_deliveryReceipt v \<Rightarrow> DeliveryReceiptEvent_json_ok v
     | Event_payload_messageEdit v \<Rightarrow> True
     | Event_payload_messageUnsend v \<Rightarrow> True
     | Event_payload_threadUpdate v \<Rightarrow> True
     | Event_payload_e2eeReady v \<Rightarrow> True
     | Event_payload_e2eeReceipt v \<Rightarrow> True
     | Event_payload_threadSystem v \<Rightarrow> ThreadSystemEvent_json_ok v)"

definition Event_json_ok :: "Event \<Rightarrow> bool" where
  "Event_json_ok m \<longleftrightarrow> pred_option js_date_ok (Event_emittedAt m) \<and>
     pred_option Event_payload_case_json_ok (Event_payload m)"

lemma Event_payload_names: "map fst (Event_payload_toJSON c) = [''ready'', ''reconnected'', ''disconnected'', ''error'', ''message'', ''reaction'', ''typing'', ''readReceipt'', ''deliveryReceipt'', ''messageEdit'', ''messageUnsend'', ''threadUpdate'', ''e2eeReady'', ''e2eeReceipt'', ''threadSystem'']"
  by (simp add: Event_payload_toJSON_def)

lemma Event_payload_json:
    assumes e: "entries J (Event_payload_toJSON c)"
      and others: "names J [''read_receipt'', ''delivery_receipt'', ''message_edit'', ''message_unsend'', ''thread_update'', ''e2ee_ready'', ''e2ee_receipt'', ''thread_system'']"
      and ok: "pred_option Event_payload_case_json_ok c"
    shows "Event_payload_fromJSON J = Returned c"
proof (cases c)
  case None
  then show ?thesis using e others by (simp add: Event_payload_toJSON_def Event_payload_fromJSON_def entries_simps names_simps)
next
  case (Some x)
  show ?thesis
  proof (cases x)
    case (Event_payload_ready v)
    then show ?thesis using e others Some ReadyEvent_json [of v] by (auto simp: Event_payload_toJSON_def Event_payload_fromJSON_def entries_simps names_simps json_rt_def)
  next
    case (Event_payload_reconnected v)
    then show ?thesis using e others Some ReconnectedEvent_json [of v] by (auto simp: Event_payload_toJSON_def Event_payload_fromJSON_def entries_simps names_simps json_rt_def)
  next
    case (Event_payload_disconnected v)
    have "json_rt DisconnectedEvent_toJSON DisconnectedEvent_fromJSON v"
      by (rule DisconnectedEvent_json) (use ok Some Event_payload_disconnected in \<open>simp add: Event_payload_case_json_ok_def\<close>)
    then show ?thesis using e others Some Event_payload_disconnected by (auto simp: Event_payload_toJSON_def Event_payload_fromJSON_def entries_simps names_simps json_rt_def)
  next
    case (Event_payload_error v)
    have "json_rt ErrorEvent_toJSON ErrorEvent_fromJSON v"
      by (rule ErrorEvent_json) (use ok Some Event_payload_error in \<open>simp add: Event_payload_case_json_ok_def\<close>)
    then show ?thesis using e others Some Event_payload_error by (auto simp: Event_payload_toJSON_def Event_payload_fromJSON_def entries_simps names_simps json_rt_def)
  next
    case (Event_payload_message v)
    have "json_rt MessageEvent_toJSON MessageEvent_fromJSON v"
      by (rule MessageEvent_json) (use ok Some Event_payload_message in \<open>simp add: Event_payload_case_json_ok_def\<close>)
    then show ?thesis using e others Some Event_payload_message by (auto simp: Event_payload_toJSON_def Event_payload_fromJSON_def entries_simps names_simps json_rt_def)
  next
    case (Event_payload_reaction v)
    then show ?thesis using e others Some ReactionEvent_json [of v] by (auto simp: Event_payload_toJSON_def Event_payload_fromJSON_def entries_simps names_simps json_rt_def)
  next
    case (Event_payload_typing v)
    then show ?thesis using e others Some TypingEvent_json [of v] by (auto simp: Event_payload_toJSON_def Event_payload_fromJSON_def entries_simps names_simps json_rt_def)
  next
    case (Event_payload_readReceipt v)
    have "json_rt ReadReceiptEvent_toJSON ReadReceiptEvent_fromJSON v"
      by (rule ReadReceiptEvent_json) (use ok Some Event_payload_readReceipt in \<open>simp add: Event_payload_case_json_ok_def\<close>)
    then show ?thesis using e others Some Event_payload_readReceipt by (auto simp: Event_payload_toJSON_def Event_payload_fromJSON_def entries_simps names_simps json_rt_def)
  next
    case (Event_payload_deliveryReceipt v)
    have "json_rt DeliveryReceiptEvent_toJSON DeliveryReceiptEvent_fromJSON v"
      by (rule DeliveryReceiptEvent_json) (use ok Some Event_payload_deliveryReceipt in \<open>simp add: Event_payload_case_json_ok_def\<close>)
    then show ?thesis using e others Some Event_payload_deliveryReceipt by (auto simp: Event_payload_toJSON_def Event_payload_fromJSON_def entries_simps names_simps json_rt_def)
  next
    case (Event_payload_messageEdit v)
    then show ?thesis using e others Some MessageEditEvent_json [of v] by (auto simp: Event_payload_toJSON_def Event_payload_fromJSON_def entries_simps names_simps json_rt_def)
  next
    case (Event_payload_messageUnsend v)
    then show ?thesis using e others Some MessageUnsendEvent_json [of v] by (auto simp: Event_payload_toJSON_def Event_payload_fromJSON_def entries_simps names_simps json_rt_def)
  next
    case (Event_payload_threadUpdate v)
    then show ?thesis using e others Some ThreadUpdateEvent_json [of v] by (auto simp: Event_payload_toJSON_def Event_payload_fromJSON_def entries_simps names_simps json_rt_def)
  next
    case (Event_payload_e2eeReady v)
    then show ?thesis using e others Some E2EEReadyEvent_json [of v] by (auto simp: Event_payload_toJSON_def Event_payload_fromJSON_def entries_simps names_simps json_rt_def)
  next
    case (Event_payload_e2eeReceipt v)
    then show ?thesis using e others Some E2EEReceiptEvent_json [of v] by (auto simp: Event_payload_toJSON_def Event_payload_fromJSON_def entries_simps names_simps json_rt_def)
  next
    case (Event_payload_threadSystem v)
    have "json_rt ThreadSystemEvent_toJSON ThreadSystemEvent_fromJSON v"
      by (rule ThreadSystemEvent_json) (use ok Some Event_payload_threadSystem in \<open>simp add: Event_payload_case_json_ok_def\<close>)
    then show ?thesis using e others Some Event_payload_threadSystem by (auto simp: Event_payload_toJSON_def Event_payload_fromJSON_def entries_simps names_simps json_rt_def)
  qed
qed

lemma Event_json:
  assumes ok: "Event_json_ok m"
  shows "json_rt Event_toJSON Event_fromJSON m"
  unfolding json_rt_def
proof (intro allI impI)
  fix J
  assume to: "Event_toJSON m = Returned J"
  have d: "distinct ([''sessionId'', ''sequence'', ''emittedAt'', ''ready'', ''reconnected'', ''disconnected'', ''error'', ''message'', ''reaction'', ''typing'', ''readReceipt'', ''deliveryReceipt'', ''messageEdit'', ''messageUnsend'', ''threadUpdate'', ''e2eeReady'', ''e2eeReceipt'', ''threadSystem''] @ [''session_id'', ''emitted_at'', ''read_receipt'', ''delivery_receipt'', ''message_edit'', ''message_unsend'', ''thread_update'', ''e2ee_ready'', ''e2ee_receipt'', ''thread_system''])"
    by code_simp
  note all = t_objD [OF to [unfolded Event_toJSON_def] _ d, unfolded t_names Event_payload_names, OF refl]
  note N = all [THEN conjunct2, unfolded names_simps]
  have "Event_fromJSON J = Returned m"
    unfolding Event_fromJSON_def
    by (rule fs_field [OF all [THEN conjunct1]], erule jr_string, simp only: N absent_simps simp_thms,
      erule fs_field, erule jr_bigint, rule absent_Nil,
      erule fs_field, erule jr_date, simp only: N absent_simps simp_thms, (use ok in \<open>fastforce simp: Event_json_ok_def list_all_iff\<close>),
      erule fs_last, erule Event_payload_json, simp only: N names_simps simp_thms, (use ok in \<open>fastforce simp: Event_json_ok_def list_all_iff\<close>),
      cases m, simp add: createBaseEvent_def)
  with all show "isSet J \<and> Event_fromJSON J = Returned m"
    by (simp add: entries_def)
qed

lemma Event_payload_safe [json_rules]: "stmts_safe (Event_payload_toJSON c)"
  unfolding Event_payload_toJSON_def by (intro json_rules) (auto split: option.split Event_payload_case.split intro!: json_rules)

lemma Event_toJSON_safe [json_rules]: "to_safe (Event_toJSON m)"
  unfolding Event_toJSON_def by (intro json_rules)

end
