(* ===== verification/Json_Session.thy ===== *)
theory Json_Session
  imports Gen_Session Json_Health Json_Events
begin

text \<open>
  The JSON side of \<open>sdk/node/src/gen/meta/v1/session.ts\<close>: \<open>toJSON\<close>, \<open>fromJSON\<close>,
  \<open>fromPartial\<close> and \<open>create\<close> of every message and the names of its enums.  \<open>_json_ok\<close> holds of the
  values that survive a round trip: known enum numbers, objects built by assignment, dates in
  range.  For every message: \<open>fromJSON\<close> reads back what \<open>toJSON\<close> returned.
\<close>

subsection \<open>CreateSessionRequest_CookiesEntry\<close>

definition CreateSessionRequest_CookiesEntry_toJSON :: "CreateSessionRequest_CookiesEntry \<Rightarrow> js_any js_out" where
  "CreateSessionRequest_CookiesEntry_toJSON m = t_obj (
    [(''key'', t_if (CreateSessionRequest_CookiesEntry_key m \<noteq> '''') (AStr (CreateSessionRequest_CookiesEntry_key m))),
     (''value'', t_if (CreateSessionRequest_CookiesEntry_value m \<noteq> '''') (AStr (CreateSessionRequest_CookiesEntry_value m)))])"

definition CreateSessionRequest_CookiesEntry_fromJSON :: "js_any \<Rightarrow> CreateSessionRequest_CookiesEntry js_out" where
  "CreateSessionRequest_CookiesEntry_fromJSON = f_obj createBaseCreateSessionRequest_CookiesEntry
    [f_field (f_first [(''key'', js_String)] '''') (\<lambda>v m. m\<lparr>CreateSessionRequest_CookiesEntry_key := v\<rparr>),
     f_field (f_first [(''value'', js_String)] '''') (\<lambda>v m. m\<lparr>CreateSessionRequest_CookiesEntry_value := v\<rparr>)]"

definition CreateSessionRequest_CookiesEntry_fromPartial :: "js_any \<Rightarrow> CreateSessionRequest_CookiesEntry js_out" where
  "CreateSessionRequest_CookiesEntry_fromPartial = f_obj createBaseCreateSessionRequest_CookiesEntry
    [f_field (f_first [(''key'', p_string)] '''') (\<lambda>v m. m\<lparr>CreateSessionRequest_CookiesEntry_key := v\<rparr>),
     f_field (f_first [(''value'', p_string)] '''') (\<lambda>v m. m\<lparr>CreateSessionRequest_CookiesEntry_value := v\<rparr>)]"

definition CreateSessionRequest_CookiesEntry_create :: "js_any \<Rightarrow> CreateSessionRequest_CookiesEntry js_out" where
  "CreateSessionRequest_CookiesEntry_create = create_with CreateSessionRequest_CookiesEntry_fromPartial"

lemma CreateSessionRequest_CookiesEntry_json:
  "json_rt CreateSessionRequest_CookiesEntry_toJSON CreateSessionRequest_CookiesEntry_fromJSON m"
  unfolding json_rt_def
proof (intro allI impI)
  fix J
  assume to: "CreateSessionRequest_CookiesEntry_toJSON m = Returned J"
  have d: "distinct ([''key'', ''value''] @ [])"
    by code_simp
  note all = t_objD [OF to [unfolded CreateSessionRequest_CookiesEntry_toJSON_def] _ d, unfolded t_names, OF refl]
  have "CreateSessionRequest_CookiesEntry_fromJSON J = Returned m"
    unfolding CreateSessionRequest_CookiesEntry_fromJSON_def
    by (rule fs_field [OF all [THEN conjunct1]], erule jr_string, rule absent_Nil,
      erule fs_field, erule jr_string, rule absent_Nil,
      rule f_obj_Nil, cases m, simp add: createBaseCreateSessionRequest_CookiesEntry_def)
  with all show "isSet J \<and> CreateSessionRequest_CookiesEntry_fromJSON J = Returned m"
    by (simp add: entries_def)
qed

lemma CreateSessionRequest_CookiesEntry_toJSON_safe [json_rules]: "to_safe (CreateSessionRequest_CookiesEntry_toJSON m)"
  unfolding CreateSessionRequest_CookiesEntry_toJSON_def by (intro json_rules)

subsection \<open>CookieMap_ValuesEntry\<close>

definition CookieMap_ValuesEntry_toJSON :: "CookieMap_ValuesEntry \<Rightarrow> js_any js_out" where
  "CookieMap_ValuesEntry_toJSON m = t_obj (
    [(''key'', t_if (CookieMap_ValuesEntry_key m \<noteq> '''') (AStr (CookieMap_ValuesEntry_key m))),
     (''value'', t_if (CookieMap_ValuesEntry_value m \<noteq> '''') (AStr (CookieMap_ValuesEntry_value m)))])"

definition CookieMap_ValuesEntry_fromJSON :: "js_any \<Rightarrow> CookieMap_ValuesEntry js_out" where
  "CookieMap_ValuesEntry_fromJSON = f_obj createBaseCookieMap_ValuesEntry
    [f_field (f_first [(''key'', js_String)] '''') (\<lambda>v m. m\<lparr>CookieMap_ValuesEntry_key := v\<rparr>),
     f_field (f_first [(''value'', js_String)] '''') (\<lambda>v m. m\<lparr>CookieMap_ValuesEntry_value := v\<rparr>)]"

definition CookieMap_ValuesEntry_fromPartial :: "js_any \<Rightarrow> CookieMap_ValuesEntry js_out" where
  "CookieMap_ValuesEntry_fromPartial = f_obj createBaseCookieMap_ValuesEntry
    [f_field (f_first [(''key'', p_string)] '''') (\<lambda>v m. m\<lparr>CookieMap_ValuesEntry_key := v\<rparr>),
     f_field (f_first [(''value'', p_string)] '''') (\<lambda>v m. m\<lparr>CookieMap_ValuesEntry_value := v\<rparr>)]"

definition CookieMap_ValuesEntry_create :: "js_any \<Rightarrow> CookieMap_ValuesEntry js_out" where
  "CookieMap_ValuesEntry_create = create_with CookieMap_ValuesEntry_fromPartial"

lemma CookieMap_ValuesEntry_json:
  "json_rt CookieMap_ValuesEntry_toJSON CookieMap_ValuesEntry_fromJSON m"
  unfolding json_rt_def
proof (intro allI impI)
  fix J
  assume to: "CookieMap_ValuesEntry_toJSON m = Returned J"
  have d: "distinct ([''key'', ''value''] @ [])"
    by code_simp
  note all = t_objD [OF to [unfolded CookieMap_ValuesEntry_toJSON_def] _ d, unfolded t_names, OF refl]
  have "CookieMap_ValuesEntry_fromJSON J = Returned m"
    unfolding CookieMap_ValuesEntry_fromJSON_def
    by (rule fs_field [OF all [THEN conjunct1]], erule jr_string, rule absent_Nil,
      erule fs_field, erule jr_string, rule absent_Nil,
      rule f_obj_Nil, cases m, simp add: createBaseCookieMap_ValuesEntry_def)
  with all show "isSet J \<and> CookieMap_ValuesEntry_fromJSON J = Returned m"
    by (simp add: entries_def)
qed

lemma CookieMap_ValuesEntry_toJSON_safe [json_rules]: "to_safe (CookieMap_ValuesEntry_toJSON m)"
  unfolding CookieMap_ValuesEntry_toJSON_def by (intro json_rules)

subsection \<open>CookieMap\<close>

definition CookieMap_toJSON :: "CookieMap \<Rightarrow> js_any js_out" where
  "CookieMap_toJSON m = t_obj (
    [(''values'', t_map (CookieMap_values m))])"

definition CookieMap_fromJSON :: "js_any \<Rightarrow> CookieMap js_out" where
  "CookieMap_fromJSON = f_obj createBaseCookieMap
    [f_field (f_map ''values'') (\<lambda>v m. m\<lparr>CookieMap_values := v\<rparr>)]"

definition CookieMap_fromPartial :: "js_any \<Rightarrow> CookieMap js_out" where
  "CookieMap_fromPartial = f_obj createBaseCookieMap
    [f_field (p_map ''values'') (\<lambda>v m. m\<lparr>CookieMap_values := v\<rparr>)]"

definition CookieMap_create :: "js_any \<Rightarrow> CookieMap js_out" where
  "CookieMap_create = create_with CookieMap_fromPartial"

definition CookieMap_json_ok :: "CookieMap \<Rightarrow> bool" where
  "CookieMap_json_ok m \<longleftrightarrow> js_object_ok (CookieMap_values m)"

lemma CookieMap_json:
  assumes ok: "CookieMap_json_ok m"
  shows "json_rt CookieMap_toJSON CookieMap_fromJSON m"
  unfolding json_rt_def
proof (intro allI impI)
  fix J
  assume to: "CookieMap_toJSON m = Returned J"
  have d: "distinct ([''values''] @ [])"
    by code_simp
  note all = t_objD [OF to [unfolded CookieMap_toJSON_def] _ d, unfolded t_names, OF refl]
  have "CookieMap_fromJSON J = Returned m"
    unfolding CookieMap_fromJSON_def
    by (rule fs_field [OF all [THEN conjunct1]], erule jr_map, (use ok in \<open>fastforce simp: CookieMap_json_ok_def list_all_iff\<close>),
      rule f_obj_Nil, cases m, simp add: createBaseCookieMap_def)
  with all show "isSet J \<and> CookieMap_fromJSON J = Returned m"
    by (simp add: entries_def)
qed

lemma CookieMap_toJSON_safe [json_rules]: "to_safe (CookieMap_toJSON m)"
  unfolding CookieMap_toJSON_def by (intro json_rules)

subsection \<open>AppStateCookie\<close>

definition AppStateCookie_toJSON :: "AppStateCookie \<Rightarrow> js_any js_out" where
  "AppStateCookie_toJSON m = t_obj (
    [(''key'', t_if (AppStateCookie_key m \<noteq> '''') (AStr (AppStateCookie_key m))),
     (''value'', t_if (AppStateCookie_value m \<noteq> '''') (AStr (AppStateCookie_value m))),
     (''domain'', t_if (AppStateCookie_domain m \<noteq> '''') (AStr (AppStateCookie_domain m))),
     (''path'', t_if (AppStateCookie_path m \<noteq> '''') (AStr (AppStateCookie_path m))),
     (''hostOnly'', t_if (AppStateCookie_hostOnly m \<noteq> False) (ABool (AppStateCookie_hostOnly m))),
     (''secure'', t_if (AppStateCookie_secure m \<noteq> False) (ABool (AppStateCookie_secure m))),
     (''httpOnly'', t_if (AppStateCookie_httpOnly m \<noteq> False) (ABool (AppStateCookie_httpOnly m)))])"

definition AppStateCookie_fromJSON :: "js_any \<Rightarrow> AppStateCookie js_out" where
  "AppStateCookie_fromJSON = f_obj createBaseAppStateCookie
    [f_field (f_first [(''key'', js_String)] '''') (\<lambda>v m. m\<lparr>AppStateCookie_key := v\<rparr>),
     f_field (f_first [(''value'', js_String)] '''') (\<lambda>v m. m\<lparr>AppStateCookie_value := v\<rparr>),
     f_field (f_first [(''domain'', js_String)] '''') (\<lambda>v m. m\<lparr>AppStateCookie_domain := v\<rparr>),
     f_field (f_first [(''path'', js_String)] '''') (\<lambda>v m. m\<lparr>AppStateCookie_path := v\<rparr>),
     f_field (f_first [(''hostOnly'', \<lambda>x. Returned (js_Boolean x)), (''host_only'', \<lambda>x. Returned (js_Boolean x))] False) (\<lambda>v m. m\<lparr>AppStateCookie_hostOnly := v\<rparr>),
     f_field (f_first [(''secure'', \<lambda>x. Returned (js_Boolean x))] False) (\<lambda>v m. m\<lparr>AppStateCookie_secure := v\<rparr>),
     f_field (f_first [(''httpOnly'', \<lambda>x. Returned (js_Boolean x)), (''http_only'', \<lambda>x. Returned (js_Boolean x))] False) (\<lambda>v m. m\<lparr>AppStateCookie_httpOnly := v\<rparr>)]"

definition AppStateCookie_fromPartial :: "js_any \<Rightarrow> AppStateCookie js_out" where
  "AppStateCookie_fromPartial = f_obj createBaseAppStateCookie
    [f_field (f_first [(''key'', p_string)] '''') (\<lambda>v m. m\<lparr>AppStateCookie_key := v\<rparr>),
     f_field (f_first [(''value'', p_string)] '''') (\<lambda>v m. m\<lparr>AppStateCookie_value := v\<rparr>),
     f_field (f_first [(''domain'', p_string)] '''') (\<lambda>v m. m\<lparr>AppStateCookie_domain := v\<rparr>),
     f_field (f_first [(''path'', p_string)] '''') (\<lambda>v m. m\<lparr>AppStateCookie_path := v\<rparr>),
     f_field (f_first [(''hostOnly'', p_bool)] False) (\<lambda>v m. m\<lparr>AppStateCookie_hostOnly := v\<rparr>),
     f_field (f_first [(''secure'', p_bool)] False) (\<lambda>v m. m\<lparr>AppStateCookie_secure := v\<rparr>),
     f_field (f_first [(''httpOnly'', p_bool)] False) (\<lambda>v m. m\<lparr>AppStateCookie_httpOnly := v\<rparr>)]"

definition AppStateCookie_create :: "js_any \<Rightarrow> AppStateCookie js_out" where
  "AppStateCookie_create = create_with AppStateCookie_fromPartial"

lemma AppStateCookie_json:
  "json_rt AppStateCookie_toJSON AppStateCookie_fromJSON m"
  unfolding json_rt_def
proof (intro allI impI)
  fix J
  assume to: "AppStateCookie_toJSON m = Returned J"
  have d: "distinct ([''key'', ''value'', ''domain'', ''path'', ''hostOnly'', ''secure'', ''httpOnly''] @ [''host_only'', ''http_only''])"
    by code_simp
  note all = t_objD [OF to [unfolded AppStateCookie_toJSON_def] _ d, unfolded t_names, OF refl]
  note N = all [THEN conjunct2, unfolded names_simps]
  have "AppStateCookie_fromJSON J = Returned m"
    unfolding AppStateCookie_fromJSON_def
    by (rule fs_field [OF all [THEN conjunct1]], erule jr_string, rule absent_Nil,
      erule fs_field, erule jr_string, rule absent_Nil,
      erule fs_field, erule jr_string, rule absent_Nil,
      erule fs_field, erule jr_string, rule absent_Nil,
      erule fs_field, erule jr_bool, simp only: N absent_simps simp_thms,
      erule fs_field, erule jr_bool, rule absent_Nil,
      erule fs_field, erule jr_bool, simp only: N absent_simps simp_thms,
      rule f_obj_Nil, cases m, simp add: createBaseAppStateCookie_def)
  with all show "isSet J \<and> AppStateCookie_fromJSON J = Returned m"
    by (simp add: entries_def)
qed

lemma AppStateCookie_toJSON_safe [json_rules]: "to_safe (AppStateCookie_toJSON m)"
  unfolding AppStateCookie_toJSON_def by (intro json_rules)

subsection \<open>AppState\<close>

definition AppState_toJSON :: "AppState \<Rightarrow> js_any js_out" where
  "AppState_toJSON m = t_obj (
    [(''cookies'', t_list (AppState_cookies m) AppStateCookie_toJSON)])"

definition AppState_fromJSON :: "js_any \<Rightarrow> AppState js_out" where
  "AppState_fromJSON = f_obj createBaseAppState
    [f_field (f_array [''cookies''] AppStateCookie_fromJSON) (\<lambda>v m. m\<lparr>AppState_cookies := v\<rparr>)]"

definition AppState_fromPartial :: "js_any \<Rightarrow> AppState js_out" where
  "AppState_fromPartial = f_obj createBaseAppState
    [f_field (p_array ''cookies'' AppStateCookie_fromPartial) (\<lambda>v m. m\<lparr>AppState_cookies := v\<rparr>)]"

definition AppState_create :: "js_any \<Rightarrow> AppState js_out" where
  "AppState_create = create_with AppState_fromPartial"

lemma AppState_json:
  "json_rt AppState_toJSON AppState_fromJSON m"
  unfolding json_rt_def
proof (intro allI impI)
  fix J
  assume to: "AppState_toJSON m = Returned J"
  have d: "distinct ([''cookies''] @ [])"
    by code_simp
  note all = t_objD [OF to [unfolded AppState_toJSON_def] _ d, unfolded t_names, OF refl]
  have "AppState_fromJSON J = Returned m"
    unfolding AppState_fromJSON_def
    by (rule fs_field [OF all [THEN conjunct1]], erule jr_list, assumption, simp only: names_simps, rule AppStateCookie_json,
      rule f_obj_Nil, cases m, simp add: createBaseAppState_def)
  with all show "isSet J \<and> AppState_fromJSON J = Returned m"
    by (simp add: entries_def)
qed

lemma AppState_toJSON_safe [json_rules]: "to_safe (AppState_toJSON m)"
  unfolding AppState_toJSON_def by (intro json_rules)

subsection \<open>Credentials\<close>

definition Credentials_secondFactor_toJSON :: "Credentials_secondFactor_case option \<Rightarrow> to_stmt list" where
  "Credentials_secondFactor_toJSON c = [(''totp'', case c of Some (Credentials_secondFactor_totp x) \<Rightarrow> Returned (Some (AStr x)) | _ \<Rightarrow> Returned None),
     (''otp'', case c of Some (Credentials_secondFactor_otp x) \<Rightarrow> Returned (Some (AStr x)) | _ \<Rightarrow> Returned None)]"

definition Credentials_secondFactor_fromJSON :: "js_any \<Rightarrow> Credentials_secondFactor_case option js_out" where
  "Credentials_secondFactor_fromJSON = f_first [(''totp'', \<lambda>x. js_map (\<lambda>y. Some (Credentials_secondFactor_totp y)) (js_String x)),
     (''otp'', \<lambda>x. js_map (\<lambda>y. Some (Credentials_secondFactor_otp y)) (js_String x))] None"

definition Credentials_toJSON :: "Credentials \<Rightarrow> js_any js_out" where
  "Credentials_toJSON m = t_obj (
    [(''identifier'', t_if (Credentials_identifier m \<noteq> '''') (AStr (Credentials_identifier m))),
     (''password'', t_if (Credentials_password m \<noteq> '''') (AStr (Credentials_password m)))] @ Credentials_secondFactor_toJSON (Credentials_secondFactor m))"

definition Credentials_fromJSON :: "js_any \<Rightarrow> Credentials js_out" where
  "Credentials_fromJSON = f_obj createBaseCredentials
    [f_field (f_first [(''identifier'', js_String)] '''') (\<lambda>v m. m\<lparr>Credentials_identifier := v\<rparr>),
     f_field (f_first [(''password'', js_String)] '''') (\<lambda>v m. m\<lparr>Credentials_password := v\<rparr>),
     f_field (Credentials_secondFactor_fromJSON) (\<lambda>v m. m\<lparr>Credentials_secondFactor := v\<rparr>)]"

definition Credentials_fromPartial :: "js_any \<Rightarrow> Credentials js_out" where
  "Credentials_fromPartial = f_obj createBaseCredentials
    [f_field (f_first [(''identifier'', p_string)] '''') (\<lambda>v m. m\<lparr>Credentials_identifier := v\<rparr>),
     f_field (f_first [(''password'', p_string)] '''') (\<lambda>v m. m\<lparr>Credentials_password := v\<rparr>),
     f_field (p_oneof ''secondFactor'' [(''totp'', \<lambda>x. js_map Credentials_secondFactor_totp (p_string x)),
         (''otp'', \<lambda>x. js_map Credentials_secondFactor_otp (p_string x))]) (\<lambda>v m. m\<lparr>Credentials_secondFactor := v\<rparr>)]"

definition Credentials_create :: "js_any \<Rightarrow> Credentials js_out" where
  "Credentials_create = create_with Credentials_fromPartial"

lemma Credentials_secondFactor_names: "map fst (Credentials_secondFactor_toJSON c) = [''totp'', ''otp'']"
  by (simp add: Credentials_secondFactor_toJSON_def)

lemma Credentials_secondFactor_json:
    assumes e: "entries J (Credentials_secondFactor_toJSON c)"
    shows "Credentials_secondFactor_fromJSON J = Returned c"
proof (cases c)
  case None
  then show ?thesis using e by (simp add: Credentials_secondFactor_toJSON_def Credentials_secondFactor_fromJSON_def entries_simps)
next
  case (Some x)
  show ?thesis
  proof (cases x)
    case (Credentials_secondFactor_totp v)
    then show ?thesis using e Some by (auto simp: Credentials_secondFactor_toJSON_def Credentials_secondFactor_fromJSON_def entries_simps)
  next
    case (Credentials_secondFactor_otp v)
    then show ?thesis using e Some by (auto simp: Credentials_secondFactor_toJSON_def Credentials_secondFactor_fromJSON_def entries_simps)
  qed
qed

lemma Credentials_json:
  "json_rt Credentials_toJSON Credentials_fromJSON m"
  unfolding json_rt_def
proof (intro allI impI)
  fix J
  assume to: "Credentials_toJSON m = Returned J"
  have d: "distinct ([''identifier'', ''password'', ''totp'', ''otp''] @ [])"
    by code_simp
  note all = t_objD [OF to [unfolded Credentials_toJSON_def] _ d, unfolded t_names Credentials_secondFactor_names, OF refl]
  have "Credentials_fromJSON J = Returned m"
    unfolding Credentials_fromJSON_def
    by (rule fs_field [OF all [THEN conjunct1]], erule jr_string, rule absent_Nil,
      erule fs_field, erule jr_string, rule absent_Nil,
      erule fs_last, erule Credentials_secondFactor_json,
      cases m, simp add: createBaseCredentials_def)
  with all show "isSet J \<and> Credentials_fromJSON J = Returned m"
    by (simp add: entries_def)
qed

lemma Credentials_secondFactor_safe [json_rules]: "stmts_safe (Credentials_secondFactor_toJSON c)"
  unfolding Credentials_secondFactor_toJSON_def by (intro json_rules) (auto split: option.split Credentials_secondFactor_case.split intro!: json_rules)

lemma Credentials_toJSON_safe [json_rules]: "to_safe (Credentials_toJSON m)"
  unfolding Credentials_toJSON_def by (intro json_rules)

subsection \<open>SessionAuth\<close>

definition SessionAuth_source_toJSON :: "SessionAuth_source_case option \<Rightarrow> to_stmt list" where
  "SessionAuth_source_toJSON c = [(''cookies'', case c of Some (SessionAuth_source_cookies x) \<Rightarrow> js_map Some (CookieMap_toJSON x) | _ \<Rightarrow> Returned None),
     (''appState'', case c of Some (SessionAuth_source_appState x) \<Rightarrow> js_map Some (AppState_toJSON x) | _ \<Rightarrow> Returned None),
     (''credentials'', case c of Some (SessionAuth_source_credentials x) \<Rightarrow> js_map Some (Credentials_toJSON x) | _ \<Rightarrow> Returned None)]"

definition SessionAuth_source_fromJSON :: "js_any \<Rightarrow> SessionAuth_source_case option js_out" where
  "SessionAuth_source_fromJSON = f_first [(''cookies'', \<lambda>x. js_map (\<lambda>y. Some (SessionAuth_source_cookies y)) (CookieMap_fromJSON x)),
     (''appState'', \<lambda>x. js_map (\<lambda>y. Some (SessionAuth_source_appState y)) (AppState_fromJSON x)),
     (''app_state'', \<lambda>x. js_map (\<lambda>y. Some (SessionAuth_source_appState y)) (AppState_fromJSON x)),
     (''credentials'', \<lambda>x. js_map (\<lambda>y. Some (SessionAuth_source_credentials y)) (Credentials_fromJSON x))] None"

definition SessionAuth_toJSON :: "SessionAuth \<Rightarrow> js_any js_out" where
  "SessionAuth_toJSON m = t_obj (SessionAuth_source_toJSON (SessionAuth_source m))"

definition SessionAuth_fromJSON :: "js_any \<Rightarrow> SessionAuth js_out" where
  "SessionAuth_fromJSON = f_obj createBaseSessionAuth
    [f_field (SessionAuth_source_fromJSON) (\<lambda>v m. m\<lparr>SessionAuth_source := v\<rparr>)]"

definition SessionAuth_fromPartial :: "js_any \<Rightarrow> SessionAuth js_out" where
  "SessionAuth_fromPartial = f_obj createBaseSessionAuth
    [f_field (p_oneof ''source'' [(''cookies'', \<lambda>x. js_map SessionAuth_source_cookies (CookieMap_fromPartial x)),
         (''appState'', \<lambda>x. js_map SessionAuth_source_appState (AppState_fromPartial x)),
         (''credentials'', \<lambda>x. js_map SessionAuth_source_credentials (Credentials_fromPartial x))]) (\<lambda>v m. m\<lparr>SessionAuth_source := v\<rparr>)]"

definition SessionAuth_create :: "js_any \<Rightarrow> SessionAuth js_out" where
  "SessionAuth_create = create_with SessionAuth_fromPartial"

definition SessionAuth_source_case_json_ok :: "SessionAuth_source_case \<Rightarrow> bool" where
  "SessionAuth_source_case_json_ok c = (case c of
       SessionAuth_source_cookies v \<Rightarrow> CookieMap_json_ok v
     | SessionAuth_source_appState v \<Rightarrow> True
     | SessionAuth_source_credentials v \<Rightarrow> True)"

definition SessionAuth_json_ok :: "SessionAuth \<Rightarrow> bool" where
  "SessionAuth_json_ok m \<longleftrightarrow> pred_option SessionAuth_source_case_json_ok (SessionAuth_source m)"

lemma SessionAuth_source_names: "map fst (SessionAuth_source_toJSON c) = [''cookies'', ''appState'', ''credentials'']"
  by (simp add: SessionAuth_source_toJSON_def)

lemma SessionAuth_source_json:
    assumes e: "entries J (SessionAuth_source_toJSON c)"
      and others: "names J [''app_state'']"
      and ok: "pred_option SessionAuth_source_case_json_ok c"
    shows "SessionAuth_source_fromJSON J = Returned c"
proof (cases c)
  case None
  then show ?thesis using e others by (simp add: SessionAuth_source_toJSON_def SessionAuth_source_fromJSON_def entries_simps names_simps)
next
  case (Some x)
  show ?thesis
  proof (cases x)
    case (SessionAuth_source_cookies v)
    have "json_rt CookieMap_toJSON CookieMap_fromJSON v"
      by (rule CookieMap_json) (use ok Some SessionAuth_source_cookies in \<open>simp add: SessionAuth_source_case_json_ok_def\<close>)
    then show ?thesis using e others Some SessionAuth_source_cookies by (auto simp: SessionAuth_source_toJSON_def SessionAuth_source_fromJSON_def entries_simps names_simps json_rt_def)
  next
    case (SessionAuth_source_appState v)
    then show ?thesis using e others Some AppState_json [of v] by (auto simp: SessionAuth_source_toJSON_def SessionAuth_source_fromJSON_def entries_simps names_simps json_rt_def)
  next
    case (SessionAuth_source_credentials v)
    then show ?thesis using e others Some Credentials_json [of v] by (auto simp: SessionAuth_source_toJSON_def SessionAuth_source_fromJSON_def entries_simps names_simps json_rt_def)
  qed
qed

lemma SessionAuth_json:
  assumes ok: "SessionAuth_json_ok m"
  shows "json_rt SessionAuth_toJSON SessionAuth_fromJSON m"
  unfolding json_rt_def
proof (intro allI impI)
  fix J
  assume to: "SessionAuth_toJSON m = Returned J"
  have d: "distinct ([''cookies'', ''appState'', ''credentials''] @ [''app_state''])"
    by code_simp
  note all = t_objD [OF to [unfolded SessionAuth_toJSON_def] _ d, unfolded t_names SessionAuth_source_names, OF refl]
  note N = all [THEN conjunct2, unfolded names_simps]
  have "SessionAuth_fromJSON J = Returned m"
    unfolding SessionAuth_fromJSON_def
    by (rule fs_last [OF all [THEN conjunct1]], erule SessionAuth_source_json, simp only: N names_simps simp_thms, (use ok in \<open>fastforce simp: SessionAuth_json_ok_def list_all_iff\<close>),
      cases m, simp add: createBaseSessionAuth_def)
  with all show "isSet J \<and> SessionAuth_fromJSON J = Returned m"
    by (simp add: entries_def)
qed

lemma SessionAuth_source_safe [json_rules]: "stmts_safe (SessionAuth_source_toJSON c)"
  unfolding SessionAuth_source_toJSON_def by (intro json_rules) (auto split: option.split SessionAuth_source_case.split intro!: json_rules)

lemma SessionAuth_toJSON_safe [json_rules]: "to_safe (SessionAuth_toJSON m)"
  unfolding SessionAuth_toJSON_def by (intro json_rules)

subsection \<open>CreateSessionRequest\<close>

definition CreateSessionRequest_toJSON :: "CreateSessionRequest \<Rightarrow> js_any js_out" where
  "CreateSessionRequest_toJSON m = t_obj (
    [(''cookies'', t_map (CreateSessionRequest_cookies m)),
     (''e2ee'', t_if (CreateSessionRequest_e2ee m \<noteq> False) (ABool (CreateSessionRequest_e2ee m))),
     (''eventBuffer'', t_if (CreateSessionRequest_eventBuffer m \<noteq> 0) (js_int (CreateSessionRequest_eventBuffer m))),
     (''timeout'', t_some (CreateSessionRequest_timeout m) Duration_toJSON),
     (''auth'', t_some (CreateSessionRequest_auth m) SessionAuth_toJSON)])"

definition CreateSessionRequest_fromJSON :: "js_any \<Rightarrow> CreateSessionRequest js_out" where
  "CreateSessionRequest_fromJSON = f_obj createBaseCreateSessionRequest
    [f_field (f_map ''cookies'') (\<lambda>v m. m\<lparr>CreateSessionRequest_cookies := v\<rparr>),
     f_field (f_first [(''e2ee'', \<lambda>x. Returned (js_Boolean x))] False) (\<lambda>v m. m\<lparr>CreateSessionRequest_e2ee := v\<rparr>),
     f_field (f_first [(''eventBuffer'', js_integer), (''event_buffer'', js_integer)] 0) (\<lambda>v m. m\<lparr>CreateSessionRequest_eventBuffer := v\<rparr>),
     f_field (f_first [(''timeout'', \<lambda>x. js_map Some (Duration_fromJSON x))] None) (\<lambda>v m. m\<lparr>CreateSessionRequest_timeout := v\<rparr>),
     f_field (f_first [(''auth'', \<lambda>x. js_map Some (SessionAuth_fromJSON x))] None) (\<lambda>v m. m\<lparr>CreateSessionRequest_auth := v\<rparr>)]"

definition CreateSessionRequest_fromPartial :: "js_any \<Rightarrow> CreateSessionRequest js_out" where
  "CreateSessionRequest_fromPartial = f_obj createBaseCreateSessionRequest
    [f_field (p_map ''cookies'') (\<lambda>v m. m\<lparr>CreateSessionRequest_cookies := v\<rparr>),
     f_field (f_first [(''e2ee'', p_bool)] False) (\<lambda>v m. m\<lparr>CreateSessionRequest_e2ee := v\<rparr>),
     f_field (f_first [(''eventBuffer'', p_int)] 0) (\<lambda>v m. m\<lparr>CreateSessionRequest_eventBuffer := v\<rparr>),
     f_field (f_first [(''timeout'', \<lambda>x. js_map Some (Duration_fromPartial x))] None) (\<lambda>v m. m\<lparr>CreateSessionRequest_timeout := v\<rparr>),
     f_field (f_first [(''auth'', \<lambda>x. js_map Some (SessionAuth_fromPartial x))] None) (\<lambda>v m. m\<lparr>CreateSessionRequest_auth := v\<rparr>)]"

definition CreateSessionRequest_create :: "js_any \<Rightarrow> CreateSessionRequest js_out" where
  "CreateSessionRequest_create = create_with CreateSessionRequest_fromPartial"

definition CreateSessionRequest_json_ok :: "CreateSessionRequest \<Rightarrow> bool" where
  "CreateSessionRequest_json_ok m \<longleftrightarrow> js_object_ok (CreateSessionRequest_cookies m) \<and>
     pred_option SessionAuth_json_ok (CreateSessionRequest_auth m)"

lemma CreateSessionRequest_json:
  assumes ok: "CreateSessionRequest_json_ok m"
  shows "json_rt CreateSessionRequest_toJSON CreateSessionRequest_fromJSON m"
  unfolding json_rt_def
proof (intro allI impI)
  fix J
  assume to: "CreateSessionRequest_toJSON m = Returned J"
  have d: "distinct ([''cookies'', ''e2ee'', ''eventBuffer'', ''timeout'', ''auth''] @ [''event_buffer''])"
    by code_simp
  note all = t_objD [OF to [unfolded CreateSessionRequest_toJSON_def] _ d, unfolded t_names, OF refl]
  note N = all [THEN conjunct2, unfolded names_simps]
  have "CreateSessionRequest_fromJSON J = Returned m"
    unfolding CreateSessionRequest_fromJSON_def
    by (rule fs_field [OF all [THEN conjunct1]], erule jr_map, (use ok in \<open>fastforce simp: CreateSessionRequest_json_ok_def list_all_iff\<close>),
      erule fs_field, erule jr_bool, rule absent_Nil,
      erule fs_field, erule jr_int, simp only: N absent_simps simp_thms,
      erule fs_field, erule jr_msg, rule absent_Nil, rule Duration_json,
      erule fs_field, erule jr_msg, rule absent_Nil, rule SessionAuth_json, (use ok in \<open>fastforce simp: CreateSessionRequest_json_ok_def list_all_iff\<close>),
      rule f_obj_Nil, cases m, simp add: createBaseCreateSessionRequest_def)
  with all show "isSet J \<and> CreateSessionRequest_fromJSON J = Returned m"
    by (simp add: entries_def)
qed

lemma CreateSessionRequest_toJSON_safe [json_rules]: "to_safe (CreateSessionRequest_toJSON m)"
  unfolding CreateSessionRequest_toJSON_def by (intro json_rules)

subsection \<open>CreateSessionResponse\<close>

definition CreateSessionResponse_toJSON :: "CreateSessionResponse \<Rightarrow> js_any js_out" where
  "CreateSessionResponse_toJSON m = t_obj (
    [(''sessionId'', t_if (CreateSessionResponse_sessionId m \<noteq> '''') (AStr (CreateSessionResponse_sessionId m)))])"

definition CreateSessionResponse_fromJSON :: "js_any \<Rightarrow> CreateSessionResponse js_out" where
  "CreateSessionResponse_fromJSON = f_obj createBaseCreateSessionResponse
    [f_field (f_first [(''sessionId'', js_String), (''session_id'', js_String)] '''') (\<lambda>v m. m\<lparr>CreateSessionResponse_sessionId := v\<rparr>)]"

definition CreateSessionResponse_fromPartial :: "js_any \<Rightarrow> CreateSessionResponse js_out" where
  "CreateSessionResponse_fromPartial = f_obj createBaseCreateSessionResponse
    [f_field (f_first [(''sessionId'', p_string)] '''') (\<lambda>v m. m\<lparr>CreateSessionResponse_sessionId := v\<rparr>)]"

definition CreateSessionResponse_create :: "js_any \<Rightarrow> CreateSessionResponse js_out" where
  "CreateSessionResponse_create = create_with CreateSessionResponse_fromPartial"

lemma CreateSessionResponse_json:
  "json_rt CreateSessionResponse_toJSON CreateSessionResponse_fromJSON m"
  unfolding json_rt_def
proof (intro allI impI)
  fix J
  assume to: "CreateSessionResponse_toJSON m = Returned J"
  have d: "distinct ([''sessionId''] @ [''session_id''])"
    by code_simp
  note all = t_objD [OF to [unfolded CreateSessionResponse_toJSON_def] _ d, unfolded t_names, OF refl]
  note N = all [THEN conjunct2, unfolded names_simps]
  have "CreateSessionResponse_fromJSON J = Returned m"
    unfolding CreateSessionResponse_fromJSON_def
    by (rule fs_field [OF all [THEN conjunct1]], erule jr_string, simp only: N absent_simps simp_thms,
      rule f_obj_Nil, cases m, simp add: createBaseCreateSessionResponse_def)
  with all show "isSet J \<and> CreateSessionResponse_fromJSON J = Returned m"
    by (simp add: entries_def)
qed

lemma CreateSessionResponse_toJSON_safe [json_rules]: "to_safe (CreateSessionResponse_toJSON m)"
  unfolding CreateSessionResponse_toJSON_def by (intro json_rules)

subsection \<open>ConnectRequest\<close>

definition ConnectRequest_toJSON :: "ConnectRequest \<Rightarrow> js_any js_out" where
  "ConnectRequest_toJSON m = t_obj (
    [(''sessionId'', t_if (ConnectRequest_sessionId m \<noteq> '''') (AStr (ConnectRequest_sessionId m)))])"

definition ConnectRequest_fromJSON :: "js_any \<Rightarrow> ConnectRequest js_out" where
  "ConnectRequest_fromJSON = f_obj createBaseConnectRequest
    [f_field (f_first [(''sessionId'', js_String), (''session_id'', js_String)] '''') (\<lambda>v m. m\<lparr>ConnectRequest_sessionId := v\<rparr>)]"

definition ConnectRequest_fromPartial :: "js_any \<Rightarrow> ConnectRequest js_out" where
  "ConnectRequest_fromPartial = f_obj createBaseConnectRequest
    [f_field (f_first [(''sessionId'', p_string)] '''') (\<lambda>v m. m\<lparr>ConnectRequest_sessionId := v\<rparr>)]"

definition ConnectRequest_create :: "js_any \<Rightarrow> ConnectRequest js_out" where
  "ConnectRequest_create = create_with ConnectRequest_fromPartial"

lemma ConnectRequest_json:
  "json_rt ConnectRequest_toJSON ConnectRequest_fromJSON m"
  unfolding json_rt_def
proof (intro allI impI)
  fix J
  assume to: "ConnectRequest_toJSON m = Returned J"
  have d: "distinct ([''sessionId''] @ [''session_id''])"
    by code_simp
  note all = t_objD [OF to [unfolded ConnectRequest_toJSON_def] _ d, unfolded t_names, OF refl]
  note N = all [THEN conjunct2, unfolded names_simps]
  have "ConnectRequest_fromJSON J = Returned m"
    unfolding ConnectRequest_fromJSON_def
    by (rule fs_field [OF all [THEN conjunct1]], erule jr_string, simp only: N absent_simps simp_thms,
      rule f_obj_Nil, cases m, simp add: createBaseConnectRequest_def)
  with all show "isSet J \<and> ConnectRequest_fromJSON J = Returned m"
    by (simp add: entries_def)
qed

lemma ConnectRequest_toJSON_safe [json_rules]: "to_safe (ConnectRequest_toJSON m)"
  unfolding ConnectRequest_toJSON_def by (intro json_rules)

subsection \<open>ConnectResponse\<close>

definition ConnectResponse_toJSON :: "ConnectResponse \<Rightarrow> js_any js_out" where
  "ConnectResponse_toJSON m = t_obj (
    [(''account'', t_some (ConnectResponse_account m) Account_toJSON)])"

definition ConnectResponse_fromJSON :: "js_any \<Rightarrow> ConnectResponse js_out" where
  "ConnectResponse_fromJSON = f_obj createBaseConnectResponse
    [f_field (f_first [(''account'', \<lambda>x. js_map Some (Account_fromJSON x))] None) (\<lambda>v m. m\<lparr>ConnectResponse_account := v\<rparr>)]"

definition ConnectResponse_fromPartial :: "js_any \<Rightarrow> ConnectResponse js_out" where
  "ConnectResponse_fromPartial = f_obj createBaseConnectResponse
    [f_field (f_first [(''account'', \<lambda>x. js_map Some (Account_fromPartial x))] None) (\<lambda>v m. m\<lparr>ConnectResponse_account := v\<rparr>)]"

definition ConnectResponse_create :: "js_any \<Rightarrow> ConnectResponse js_out" where
  "ConnectResponse_create = create_with ConnectResponse_fromPartial"

lemma ConnectResponse_json:
  "json_rt ConnectResponse_toJSON ConnectResponse_fromJSON m"
  unfolding json_rt_def
proof (intro allI impI)
  fix J
  assume to: "ConnectResponse_toJSON m = Returned J"
  have d: "distinct ([''account''] @ [])"
    by code_simp
  note all = t_objD [OF to [unfolded ConnectResponse_toJSON_def] _ d, unfolded t_names, OF refl]
  have "ConnectResponse_fromJSON J = Returned m"
    unfolding ConnectResponse_fromJSON_def
    by (rule fs_field [OF all [THEN conjunct1]], erule jr_msg, rule absent_Nil, rule Account_json,
      rule f_obj_Nil, cases m, simp add: createBaseConnectResponse_def)
  with all show "isSet J \<and> ConnectResponse_fromJSON J = Returned m"
    by (simp add: entries_def)
qed

lemma ConnectResponse_toJSON_safe [json_rules]: "to_safe (ConnectResponse_toJSON m)"
  unfolding ConnectResponse_toJSON_def by (intro json_rules)

subsection \<open>FacebookSession\<close>

definition FacebookSession_toJSON :: "FacebookSession \<Rightarrow> js_any js_out" where
  "FacebookSession_toJSON m = t_obj (
    [(''accountId'', t_if (FacebookSession_accountId m \<noteq> '''') (AStr (FacebookSession_accountId m))),
     (''name'', t_if (FacebookSession_name m \<noteq> '''') (AStr (FacebookSession_name m))),
     (''username'', t_if (FacebookSession_username m \<noteq> '''') (AStr (FacebookSession_username m))),
     (''dtsg'', t_if (FacebookSession_dtsg m \<noteq> '''') (AStr (FacebookSession_dtsg m))),
     (''jazoest'', t_if (FacebookSession_jazoest m \<noteq> '''') (AStr (FacebookSession_jazoest m))),
     (''lsd'', t_if (FacebookSession_lsd m \<noteq> '''') (AStr (FacebookSession_lsd m))),
     (''sessionId'', t_if (FacebookSession_sessionId m \<noteq> '''') (AStr (FacebookSession_sessionId m))),
     (''clientRevision'', t_if (FacebookSession_clientRevision m \<noteq> 0) (AStr (string_of_int (FacebookSession_clientRevision m)))),
     (''refreshedAt'', t_some (FacebookSession_refreshedAt m) date_json)])"

definition FacebookSession_fromJSON :: "js_any \<Rightarrow> FacebookSession js_out" where
  "FacebookSession_fromJSON = f_obj createBaseFacebookSession
    [f_field (f_first [(''accountId'', js_String), (''account_id'', js_String)] '''') (\<lambda>v m. m\<lparr>FacebookSession_accountId := v\<rparr>),
     f_field (f_first [(''name'', js_String)] '''') (\<lambda>v m. m\<lparr>FacebookSession_name := v\<rparr>),
     f_field (f_first [(''username'', js_String)] '''') (\<lambda>v m. m\<lparr>FacebookSession_username := v\<rparr>),
     f_field (f_first [(''dtsg'', js_String)] '''') (\<lambda>v m. m\<lparr>FacebookSession_dtsg := v\<rparr>),
     f_field (f_first [(''jazoest'', js_String)] '''') (\<lambda>v m. m\<lparr>FacebookSession_jazoest := v\<rparr>),
     f_field (f_first [(''lsd'', js_String)] '''') (\<lambda>v m. m\<lparr>FacebookSession_lsd := v\<rparr>),
     f_field (f_first [(''sessionId'', js_String), (''session_id'', js_String)] '''') (\<lambda>v m. m\<lparr>FacebookSession_sessionId := v\<rparr>),
     f_field (f_first [(''clientRevision'', js_BigInt), (''client_revision'', js_BigInt)] 0) (\<lambda>v m. m\<lparr>FacebookSession_clientRevision := v\<rparr>),
     f_field (f_first [(''refreshedAt'', \<lambda>x. js_map Some (fromJsonTimestamp x)), (''refreshed_at'', \<lambda>x. js_map Some (fromJsonTimestamp x))] None) (\<lambda>v m. m\<lparr>FacebookSession_refreshedAt := v\<rparr>)]"

definition FacebookSession_fromPartial :: "js_any \<Rightarrow> FacebookSession js_out" where
  "FacebookSession_fromPartial = f_obj createBaseFacebookSession
    [f_field (f_first [(''accountId'', p_string)] '''') (\<lambda>v m. m\<lparr>FacebookSession_accountId := v\<rparr>),
     f_field (f_first [(''name'', p_string)] '''') (\<lambda>v m. m\<lparr>FacebookSession_name := v\<rparr>),
     f_field (f_first [(''username'', p_string)] '''') (\<lambda>v m. m\<lparr>FacebookSession_username := v\<rparr>),
     f_field (f_first [(''dtsg'', p_string)] '''') (\<lambda>v m. m\<lparr>FacebookSession_dtsg := v\<rparr>),
     f_field (f_first [(''jazoest'', p_string)] '''') (\<lambda>v m. m\<lparr>FacebookSession_jazoest := v\<rparr>),
     f_field (f_first [(''lsd'', p_string)] '''') (\<lambda>v m. m\<lparr>FacebookSession_lsd := v\<rparr>),
     f_field (f_first [(''sessionId'', p_string)] '''') (\<lambda>v m. m\<lparr>FacebookSession_sessionId := v\<rparr>),
     f_field (f_first [(''clientRevision'', js_BigInt)] 0) (\<lambda>v m. m\<lparr>FacebookSession_clientRevision := v\<rparr>),
     f_field (f_first [(''refreshedAt'', \<lambda>x. js_map Some (p_date x))] None) (\<lambda>v m. m\<lparr>FacebookSession_refreshedAt := v\<rparr>)]"

definition FacebookSession_create :: "js_any \<Rightarrow> FacebookSession js_out" where
  "FacebookSession_create = create_with FacebookSession_fromPartial"

definition FacebookSession_json_ok :: "FacebookSession \<Rightarrow> bool" where
  "FacebookSession_json_ok m \<longleftrightarrow> pred_option js_date_ok (FacebookSession_refreshedAt m)"

lemma FacebookSession_json:
  assumes ok: "FacebookSession_json_ok m"
  shows "json_rt FacebookSession_toJSON FacebookSession_fromJSON m"
  unfolding json_rt_def
proof (intro allI impI)
  fix J
  assume to: "FacebookSession_toJSON m = Returned J"
  have d: "distinct ([''accountId'', ''name'', ''username'', ''dtsg'', ''jazoest'', ''lsd'', ''sessionId'', ''clientRevision'', ''refreshedAt''] @ [''account_id'', ''session_id'', ''client_revision'', ''refreshed_at''])"
    by code_simp
  note all = t_objD [OF to [unfolded FacebookSession_toJSON_def] _ d, unfolded t_names, OF refl]
  note N = all [THEN conjunct2, unfolded names_simps]
  have "FacebookSession_fromJSON J = Returned m"
    unfolding FacebookSession_fromJSON_def
    by (rule fs_field [OF all [THEN conjunct1]], erule jr_string, simp only: N absent_simps simp_thms,
      erule fs_field, erule jr_string, rule absent_Nil,
      erule fs_field, erule jr_string, rule absent_Nil,
      erule fs_field, erule jr_string, rule absent_Nil,
      erule fs_field, erule jr_string, rule absent_Nil,
      erule fs_field, erule jr_string, rule absent_Nil,
      erule fs_field, erule jr_string, simp only: N absent_simps simp_thms,
      erule fs_field, erule jr_bigint, simp only: N absent_simps simp_thms,
      erule fs_field, erule jr_date, simp only: N absent_simps simp_thms, (use ok in \<open>fastforce simp: FacebookSession_json_ok_def list_all_iff\<close>),
      rule f_obj_Nil, cases m, simp add: createBaseFacebookSession_def)
  with all show "isSet J \<and> FacebookSession_fromJSON J = Returned m"
    by (simp add: entries_def)
qed

lemma FacebookSession_toJSON_safe [json_rules]: "to_safe (FacebookSession_toJSON m)"
  unfolding FacebookSession_toJSON_def by (intro json_rules)

subsection \<open>AuthSnapshot\<close>

definition AuthSnapshot_toJSON :: "AuthSnapshot \<Rightarrow> js_any js_out" where
  "AuthSnapshot_toJSON m = t_obj (
    [(''cookies'', t_some (AuthSnapshot_cookies m) CookieMap_toJSON),
     (''appState'', t_some (AuthSnapshot_appState m) AppState_toJSON),
     (''session'', t_some (AuthSnapshot_session m) FacebookSession_toJSON)])"

definition AuthSnapshot_fromJSON :: "js_any \<Rightarrow> AuthSnapshot js_out" where
  "AuthSnapshot_fromJSON = f_obj createBaseAuthSnapshot
    [f_field (f_first [(''cookies'', \<lambda>x. js_map Some (CookieMap_fromJSON x))] None) (\<lambda>v m. m\<lparr>AuthSnapshot_cookies := v\<rparr>),
     f_field (f_first [(''appState'', \<lambda>x. js_map Some (AppState_fromJSON x)), (''app_state'', \<lambda>x. js_map Some (AppState_fromJSON x))] None) (\<lambda>v m. m\<lparr>AuthSnapshot_appState := v\<rparr>),
     f_field (f_first [(''session'', \<lambda>x. js_map Some (FacebookSession_fromJSON x))] None) (\<lambda>v m. m\<lparr>AuthSnapshot_session := v\<rparr>)]"

definition AuthSnapshot_fromPartial :: "js_any \<Rightarrow> AuthSnapshot js_out" where
  "AuthSnapshot_fromPartial = f_obj createBaseAuthSnapshot
    [f_field (f_first [(''cookies'', \<lambda>x. js_map Some (CookieMap_fromPartial x))] None) (\<lambda>v m. m\<lparr>AuthSnapshot_cookies := v\<rparr>),
     f_field (f_first [(''appState'', \<lambda>x. js_map Some (AppState_fromPartial x))] None) (\<lambda>v m. m\<lparr>AuthSnapshot_appState := v\<rparr>),
     f_field (f_first [(''session'', \<lambda>x. js_map Some (FacebookSession_fromPartial x))] None) (\<lambda>v m. m\<lparr>AuthSnapshot_session := v\<rparr>)]"

definition AuthSnapshot_create :: "js_any \<Rightarrow> AuthSnapshot js_out" where
  "AuthSnapshot_create = create_with AuthSnapshot_fromPartial"

definition AuthSnapshot_json_ok :: "AuthSnapshot \<Rightarrow> bool" where
  "AuthSnapshot_json_ok m \<longleftrightarrow> pred_option CookieMap_json_ok (AuthSnapshot_cookies m) \<and>
     pred_option FacebookSession_json_ok (AuthSnapshot_session m)"

lemma AuthSnapshot_json:
  assumes ok: "AuthSnapshot_json_ok m"
  shows "json_rt AuthSnapshot_toJSON AuthSnapshot_fromJSON m"
  unfolding json_rt_def
proof (intro allI impI)
  fix J
  assume to: "AuthSnapshot_toJSON m = Returned J"
  have d: "distinct ([''cookies'', ''appState'', ''session''] @ [''app_state''])"
    by code_simp
  note all = t_objD [OF to [unfolded AuthSnapshot_toJSON_def] _ d, unfolded t_names, OF refl]
  note N = all [THEN conjunct2, unfolded names_simps]
  have "AuthSnapshot_fromJSON J = Returned m"
    unfolding AuthSnapshot_fromJSON_def
    by (rule fs_field [OF all [THEN conjunct1]], erule jr_msg, rule absent_Nil, rule CookieMap_json, (use ok in \<open>fastforce simp: AuthSnapshot_json_ok_def list_all_iff\<close>),
      erule fs_field, erule jr_msg, simp only: N absent_simps simp_thms, rule AppState_json,
      erule fs_field, erule jr_msg, rule absent_Nil, rule FacebookSession_json, (use ok in \<open>fastforce simp: AuthSnapshot_json_ok_def list_all_iff\<close>),
      rule f_obj_Nil, cases m, simp add: createBaseAuthSnapshot_def)
  with all show "isSet J \<and> AuthSnapshot_fromJSON J = Returned m"
    by (simp add: entries_def)
qed

lemma AuthSnapshot_toJSON_safe [json_rules]: "to_safe (AuthSnapshot_toJSON m)"
  unfolding AuthSnapshot_toJSON_def by (intro json_rules)

subsection \<open>RefreshAuthRequest\<close>

definition RefreshAuthRequest_toJSON :: "RefreshAuthRequest \<Rightarrow> js_any js_out" where
  "RefreshAuthRequest_toJSON m = t_obj (
    [(''sessionId'', t_if (RefreshAuthRequest_sessionId m \<noteq> '''') (AStr (RefreshAuthRequest_sessionId m))),
     (''auth'', t_some (RefreshAuthRequest_auth m) SessionAuth_toJSON)])"

definition RefreshAuthRequest_fromJSON :: "js_any \<Rightarrow> RefreshAuthRequest js_out" where
  "RefreshAuthRequest_fromJSON = f_obj createBaseRefreshAuthRequest
    [f_field (f_first [(''sessionId'', js_String), (''session_id'', js_String)] '''') (\<lambda>v m. m\<lparr>RefreshAuthRequest_sessionId := v\<rparr>),
     f_field (f_first [(''auth'', \<lambda>x. js_map Some (SessionAuth_fromJSON x))] None) (\<lambda>v m. m\<lparr>RefreshAuthRequest_auth := v\<rparr>)]"

definition RefreshAuthRequest_fromPartial :: "js_any \<Rightarrow> RefreshAuthRequest js_out" where
  "RefreshAuthRequest_fromPartial = f_obj createBaseRefreshAuthRequest
    [f_field (f_first [(''sessionId'', p_string)] '''') (\<lambda>v m. m\<lparr>RefreshAuthRequest_sessionId := v\<rparr>),
     f_field (f_first [(''auth'', \<lambda>x. js_map Some (SessionAuth_fromPartial x))] None) (\<lambda>v m. m\<lparr>RefreshAuthRequest_auth := v\<rparr>)]"

definition RefreshAuthRequest_create :: "js_any \<Rightarrow> RefreshAuthRequest js_out" where
  "RefreshAuthRequest_create = create_with RefreshAuthRequest_fromPartial"

definition RefreshAuthRequest_json_ok :: "RefreshAuthRequest \<Rightarrow> bool" where
  "RefreshAuthRequest_json_ok m \<longleftrightarrow> pred_option SessionAuth_json_ok (RefreshAuthRequest_auth m)"

lemma RefreshAuthRequest_json:
  assumes ok: "RefreshAuthRequest_json_ok m"
  shows "json_rt RefreshAuthRequest_toJSON RefreshAuthRequest_fromJSON m"
  unfolding json_rt_def
proof (intro allI impI)
  fix J
  assume to: "RefreshAuthRequest_toJSON m = Returned J"
  have d: "distinct ([''sessionId'', ''auth''] @ [''session_id''])"
    by code_simp
  note all = t_objD [OF to [unfolded RefreshAuthRequest_toJSON_def] _ d, unfolded t_names, OF refl]
  note N = all [THEN conjunct2, unfolded names_simps]
  have "RefreshAuthRequest_fromJSON J = Returned m"
    unfolding RefreshAuthRequest_fromJSON_def
    by (rule fs_field [OF all [THEN conjunct1]], erule jr_string, simp only: N absent_simps simp_thms,
      erule fs_field, erule jr_msg, rule absent_Nil, rule SessionAuth_json, (use ok in \<open>fastforce simp: RefreshAuthRequest_json_ok_def list_all_iff\<close>),
      rule f_obj_Nil, cases m, simp add: createBaseRefreshAuthRequest_def)
  with all show "isSet J \<and> RefreshAuthRequest_fromJSON J = Returned m"
    by (simp add: entries_def)
qed

lemma RefreshAuthRequest_toJSON_safe [json_rules]: "to_safe (RefreshAuthRequest_toJSON m)"
  unfolding RefreshAuthRequest_toJSON_def by (intro json_rules)

subsection \<open>RefreshAuthResponse\<close>

definition RefreshAuthResponse_toJSON :: "RefreshAuthResponse \<Rightarrow> js_any js_out" where
  "RefreshAuthResponse_toJSON m = t_obj (
    [(''snapshot'', t_some (RefreshAuthResponse_snapshot m) AuthSnapshot_toJSON)])"

definition RefreshAuthResponse_fromJSON :: "js_any \<Rightarrow> RefreshAuthResponse js_out" where
  "RefreshAuthResponse_fromJSON = f_obj createBaseRefreshAuthResponse
    [f_field (f_first [(''snapshot'', \<lambda>x. js_map Some (AuthSnapshot_fromJSON x))] None) (\<lambda>v m. m\<lparr>RefreshAuthResponse_snapshot := v\<rparr>)]"

definition RefreshAuthResponse_fromPartial :: "js_any \<Rightarrow> RefreshAuthResponse js_out" where
  "RefreshAuthResponse_fromPartial = f_obj createBaseRefreshAuthResponse
    [f_field (f_first [(''snapshot'', \<lambda>x. js_map Some (AuthSnapshot_fromPartial x))] None) (\<lambda>v m. m\<lparr>RefreshAuthResponse_snapshot := v\<rparr>)]"

definition RefreshAuthResponse_create :: "js_any \<Rightarrow> RefreshAuthResponse js_out" where
  "RefreshAuthResponse_create = create_with RefreshAuthResponse_fromPartial"

definition RefreshAuthResponse_json_ok :: "RefreshAuthResponse \<Rightarrow> bool" where
  "RefreshAuthResponse_json_ok m \<longleftrightarrow> pred_option AuthSnapshot_json_ok (RefreshAuthResponse_snapshot m)"

lemma RefreshAuthResponse_json:
  assumes ok: "RefreshAuthResponse_json_ok m"
  shows "json_rt RefreshAuthResponse_toJSON RefreshAuthResponse_fromJSON m"
  unfolding json_rt_def
proof (intro allI impI)
  fix J
  assume to: "RefreshAuthResponse_toJSON m = Returned J"
  have d: "distinct ([''snapshot''] @ [])"
    by code_simp
  note all = t_objD [OF to [unfolded RefreshAuthResponse_toJSON_def] _ d, unfolded t_names, OF refl]
  have "RefreshAuthResponse_fromJSON J = Returned m"
    unfolding RefreshAuthResponse_fromJSON_def
    by (rule fs_field [OF all [THEN conjunct1]], erule jr_msg, rule absent_Nil, rule AuthSnapshot_json, (use ok in \<open>fastforce simp: RefreshAuthResponse_json_ok_def list_all_iff\<close>),
      rule f_obj_Nil, cases m, simp add: createBaseRefreshAuthResponse_def)
  with all show "isSet J \<and> RefreshAuthResponse_fromJSON J = Returned m"
    by (simp add: entries_def)
qed

lemma RefreshAuthResponse_toJSON_safe [json_rules]: "to_safe (RefreshAuthResponse_toJSON m)"
  unfolding RefreshAuthResponse_toJSON_def by (intro json_rules)

subsection \<open>GetAuthSnapshotRequest\<close>

definition GetAuthSnapshotRequest_toJSON :: "GetAuthSnapshotRequest \<Rightarrow> js_any js_out" where
  "GetAuthSnapshotRequest_toJSON m = t_obj (
    [(''sessionId'', t_if (GetAuthSnapshotRequest_sessionId m \<noteq> '''') (AStr (GetAuthSnapshotRequest_sessionId m)))])"

definition GetAuthSnapshotRequest_fromJSON :: "js_any \<Rightarrow> GetAuthSnapshotRequest js_out" where
  "GetAuthSnapshotRequest_fromJSON = f_obj createBaseGetAuthSnapshotRequest
    [f_field (f_first [(''sessionId'', js_String), (''session_id'', js_String)] '''') (\<lambda>v m. m\<lparr>GetAuthSnapshotRequest_sessionId := v\<rparr>)]"

definition GetAuthSnapshotRequest_fromPartial :: "js_any \<Rightarrow> GetAuthSnapshotRequest js_out" where
  "GetAuthSnapshotRequest_fromPartial = f_obj createBaseGetAuthSnapshotRequest
    [f_field (f_first [(''sessionId'', p_string)] '''') (\<lambda>v m. m\<lparr>GetAuthSnapshotRequest_sessionId := v\<rparr>)]"

definition GetAuthSnapshotRequest_create :: "js_any \<Rightarrow> GetAuthSnapshotRequest js_out" where
  "GetAuthSnapshotRequest_create = create_with GetAuthSnapshotRequest_fromPartial"

lemma GetAuthSnapshotRequest_json:
  "json_rt GetAuthSnapshotRequest_toJSON GetAuthSnapshotRequest_fromJSON m"
  unfolding json_rt_def
proof (intro allI impI)
  fix J
  assume to: "GetAuthSnapshotRequest_toJSON m = Returned J"
  have d: "distinct ([''sessionId''] @ [''session_id''])"
    by code_simp
  note all = t_objD [OF to [unfolded GetAuthSnapshotRequest_toJSON_def] _ d, unfolded t_names, OF refl]
  note N = all [THEN conjunct2, unfolded names_simps]
  have "GetAuthSnapshotRequest_fromJSON J = Returned m"
    unfolding GetAuthSnapshotRequest_fromJSON_def
    by (rule fs_field [OF all [THEN conjunct1]], erule jr_string, simp only: N absent_simps simp_thms,
      rule f_obj_Nil, cases m, simp add: createBaseGetAuthSnapshotRequest_def)
  with all show "isSet J \<and> GetAuthSnapshotRequest_fromJSON J = Returned m"
    by (simp add: entries_def)
qed

lemma GetAuthSnapshotRequest_toJSON_safe [json_rules]: "to_safe (GetAuthSnapshotRequest_toJSON m)"
  unfolding GetAuthSnapshotRequest_toJSON_def by (intro json_rules)

subsection \<open>GetAuthSnapshotResponse\<close>

definition GetAuthSnapshotResponse_toJSON :: "GetAuthSnapshotResponse \<Rightarrow> js_any js_out" where
  "GetAuthSnapshotResponse_toJSON m = t_obj (
    [(''snapshot'', t_some (GetAuthSnapshotResponse_snapshot m) AuthSnapshot_toJSON)])"

definition GetAuthSnapshotResponse_fromJSON :: "js_any \<Rightarrow> GetAuthSnapshotResponse js_out" where
  "GetAuthSnapshotResponse_fromJSON = f_obj createBaseGetAuthSnapshotResponse
    [f_field (f_first [(''snapshot'', \<lambda>x. js_map Some (AuthSnapshot_fromJSON x))] None) (\<lambda>v m. m\<lparr>GetAuthSnapshotResponse_snapshot := v\<rparr>)]"

definition GetAuthSnapshotResponse_fromPartial :: "js_any \<Rightarrow> GetAuthSnapshotResponse js_out" where
  "GetAuthSnapshotResponse_fromPartial = f_obj createBaseGetAuthSnapshotResponse
    [f_field (f_first [(''snapshot'', \<lambda>x. js_map Some (AuthSnapshot_fromPartial x))] None) (\<lambda>v m. m\<lparr>GetAuthSnapshotResponse_snapshot := v\<rparr>)]"

definition GetAuthSnapshotResponse_create :: "js_any \<Rightarrow> GetAuthSnapshotResponse js_out" where
  "GetAuthSnapshotResponse_create = create_with GetAuthSnapshotResponse_fromPartial"

definition GetAuthSnapshotResponse_json_ok :: "GetAuthSnapshotResponse \<Rightarrow> bool" where
  "GetAuthSnapshotResponse_json_ok m \<longleftrightarrow> pred_option AuthSnapshot_json_ok (GetAuthSnapshotResponse_snapshot m)"

lemma GetAuthSnapshotResponse_json:
  assumes ok: "GetAuthSnapshotResponse_json_ok m"
  shows "json_rt GetAuthSnapshotResponse_toJSON GetAuthSnapshotResponse_fromJSON m"
  unfolding json_rt_def
proof (intro allI impI)
  fix J
  assume to: "GetAuthSnapshotResponse_toJSON m = Returned J"
  have d: "distinct ([''snapshot''] @ [])"
    by code_simp
  note all = t_objD [OF to [unfolded GetAuthSnapshotResponse_toJSON_def] _ d, unfolded t_names, OF refl]
  have "GetAuthSnapshotResponse_fromJSON J = Returned m"
    unfolding GetAuthSnapshotResponse_fromJSON_def
    by (rule fs_field [OF all [THEN conjunct1]], erule jr_msg, rule absent_Nil, rule AuthSnapshot_json, (use ok in \<open>fastforce simp: GetAuthSnapshotResponse_json_ok_def list_all_iff\<close>),
      rule f_obj_Nil, cases m, simp add: createBaseGetAuthSnapshotResponse_def)
  with all show "isSet J \<and> GetAuthSnapshotResponse_fromJSON J = Returned m"
    by (simp add: entries_def)
qed

lemma GetAuthSnapshotResponse_toJSON_safe [json_rules]: "to_safe (GetAuthSnapshotResponse_toJSON m)"
  unfolding GetAuthSnapshotResponse_toJSON_def by (intro json_rules)

subsection \<open>CloseSessionRequest\<close>

definition CloseSessionRequest_toJSON :: "CloseSessionRequest \<Rightarrow> js_any js_out" where
  "CloseSessionRequest_toJSON m = t_obj (
    [(''sessionId'', t_if (CloseSessionRequest_sessionId m \<noteq> '''') (AStr (CloseSessionRequest_sessionId m)))])"

definition CloseSessionRequest_fromJSON :: "js_any \<Rightarrow> CloseSessionRequest js_out" where
  "CloseSessionRequest_fromJSON = f_obj createBaseCloseSessionRequest
    [f_field (f_first [(''sessionId'', js_String), (''session_id'', js_String)] '''') (\<lambda>v m. m\<lparr>CloseSessionRequest_sessionId := v\<rparr>)]"

definition CloseSessionRequest_fromPartial :: "js_any \<Rightarrow> CloseSessionRequest js_out" where
  "CloseSessionRequest_fromPartial = f_obj createBaseCloseSessionRequest
    [f_field (f_first [(''sessionId'', p_string)] '''') (\<lambda>v m. m\<lparr>CloseSessionRequest_sessionId := v\<rparr>)]"

definition CloseSessionRequest_create :: "js_any \<Rightarrow> CloseSessionRequest js_out" where
  "CloseSessionRequest_create = create_with CloseSessionRequest_fromPartial"

lemma CloseSessionRequest_json:
  "json_rt CloseSessionRequest_toJSON CloseSessionRequest_fromJSON m"
  unfolding json_rt_def
proof (intro allI impI)
  fix J
  assume to: "CloseSessionRequest_toJSON m = Returned J"
  have d: "distinct ([''sessionId''] @ [''session_id''])"
    by code_simp
  note all = t_objD [OF to [unfolded CloseSessionRequest_toJSON_def] _ d, unfolded t_names, OF refl]
  note N = all [THEN conjunct2, unfolded names_simps]
  have "CloseSessionRequest_fromJSON J = Returned m"
    unfolding CloseSessionRequest_fromJSON_def
    by (rule fs_field [OF all [THEN conjunct1]], erule jr_string, simp only: N absent_simps simp_thms,
      rule f_obj_Nil, cases m, simp add: createBaseCloseSessionRequest_def)
  with all show "isSet J \<and> CloseSessionRequest_fromJSON J = Returned m"
    by (simp add: entries_def)
qed

lemma CloseSessionRequest_toJSON_safe [json_rules]: "to_safe (CloseSessionRequest_toJSON m)"
  unfolding CloseSessionRequest_toJSON_def by (intro json_rules)

subsection \<open>CloseSessionResponse\<close>

definition CloseSessionResponse_toJSON :: "CloseSessionResponse \<Rightarrow> js_any js_out" where
  "CloseSessionResponse_toJSON m = t_obj ([])"

definition CloseSessionResponse_fromJSON :: "js_any \<Rightarrow> CloseSessionResponse js_out" where
  "CloseSessionResponse_fromJSON = f_obj createBaseCloseSessionResponse
    []"

definition CloseSessionResponse_fromPartial :: "js_any \<Rightarrow> CloseSessionResponse js_out" where
  "CloseSessionResponse_fromPartial = f_obj createBaseCloseSessionResponse
    []"

definition CloseSessionResponse_create :: "js_any \<Rightarrow> CloseSessionResponse js_out" where
  "CloseSessionResponse_create = create_with CloseSessionResponse_fromPartial"

lemma CloseSessionResponse_json:
  "json_rt CloseSessionResponse_toJSON CloseSessionResponse_fromJSON m"
  unfolding json_rt_def
proof (intro allI impI)
  fix J
  assume to: "CloseSessionResponse_toJSON m = Returned J"
  have d: "distinct (([] :: string list) @ [])"
    by simp
  note all = t_objD [OF to [unfolded CloseSessionResponse_toJSON_def] _ d, unfolded t_names, OF refl]
  have "CloseSessionResponse_fromJSON J = Returned m"
    unfolding CloseSessionResponse_fromJSON_def
    by (rule f_obj_Nil, cases m, simp add: createBaseCloseSessionResponse_def)
  with all show "isSet J \<and> CloseSessionResponse_fromJSON J = Returned m"
    by (simp add: entries_def)
qed

lemma CloseSessionResponse_toJSON_safe [json_rules]: "to_safe (CloseSessionResponse_toJSON m)"
  unfolding CloseSessionResponse_toJSON_def by (intro json_rules)

subsection \<open>GetHealthRequest\<close>

definition GetHealthRequest_toJSON :: "GetHealthRequest \<Rightarrow> js_any js_out" where
  "GetHealthRequest_toJSON m = t_obj (
    [(''sessionId'', t_if (GetHealthRequest_sessionId m \<noteq> '''') (AStr (GetHealthRequest_sessionId m)))])"

definition GetHealthRequest_fromJSON :: "js_any \<Rightarrow> GetHealthRequest js_out" where
  "GetHealthRequest_fromJSON = f_obj createBaseGetHealthRequest
    [f_field (f_first [(''sessionId'', js_String), (''session_id'', js_String)] '''') (\<lambda>v m. m\<lparr>GetHealthRequest_sessionId := v\<rparr>)]"

definition GetHealthRequest_fromPartial :: "js_any \<Rightarrow> GetHealthRequest js_out" where
  "GetHealthRequest_fromPartial = f_obj createBaseGetHealthRequest
    [f_field (f_first [(''sessionId'', p_string)] '''') (\<lambda>v m. m\<lparr>GetHealthRequest_sessionId := v\<rparr>)]"

definition GetHealthRequest_create :: "js_any \<Rightarrow> GetHealthRequest js_out" where
  "GetHealthRequest_create = create_with GetHealthRequest_fromPartial"

lemma GetHealthRequest_json:
  "json_rt GetHealthRequest_toJSON GetHealthRequest_fromJSON m"
  unfolding json_rt_def
proof (intro allI impI)
  fix J
  assume to: "GetHealthRequest_toJSON m = Returned J"
  have d: "distinct ([''sessionId''] @ [''session_id''])"
    by code_simp
  note all = t_objD [OF to [unfolded GetHealthRequest_toJSON_def] _ d, unfolded t_names, OF refl]
  note N = all [THEN conjunct2, unfolded names_simps]
  have "GetHealthRequest_fromJSON J = Returned m"
    unfolding GetHealthRequest_fromJSON_def
    by (rule fs_field [OF all [THEN conjunct1]], erule jr_string, simp only: N absent_simps simp_thms,
      rule f_obj_Nil, cases m, simp add: createBaseGetHealthRequest_def)
  with all show "isSet J \<and> GetHealthRequest_fromJSON J = Returned m"
    by (simp add: entries_def)
qed

lemma GetHealthRequest_toJSON_safe [json_rules]: "to_safe (GetHealthRequest_toJSON m)"
  unfolding GetHealthRequest_toJSON_def by (intro json_rules)

subsection \<open>GetHealthResponse\<close>

definition GetHealthResponse_toJSON :: "GetHealthResponse \<Rightarrow> js_any js_out" where
  "GetHealthResponse_toJSON m = t_obj (
    [(''health'', t_some (GetHealthResponse_health m) HealthSnapshot_toJSON)])"

definition GetHealthResponse_fromJSON :: "js_any \<Rightarrow> GetHealthResponse js_out" where
  "GetHealthResponse_fromJSON = f_obj createBaseGetHealthResponse
    [f_field (f_first [(''health'', \<lambda>x. js_map Some (HealthSnapshot_fromJSON x))] None) (\<lambda>v m. m\<lparr>GetHealthResponse_health := v\<rparr>)]"

definition GetHealthResponse_fromPartial :: "js_any \<Rightarrow> GetHealthResponse js_out" where
  "GetHealthResponse_fromPartial = f_obj createBaseGetHealthResponse
    [f_field (f_first [(''health'', \<lambda>x. js_map Some (HealthSnapshot_fromPartial x))] None) (\<lambda>v m. m\<lparr>GetHealthResponse_health := v\<rparr>)]"

definition GetHealthResponse_create :: "js_any \<Rightarrow> GetHealthResponse js_out" where
  "GetHealthResponse_create = create_with GetHealthResponse_fromPartial"

definition GetHealthResponse_json_ok :: "GetHealthResponse \<Rightarrow> bool" where
  "GetHealthResponse_json_ok m \<longleftrightarrow> pred_option HealthSnapshot_json_ok (GetHealthResponse_health m)"

lemma GetHealthResponse_json:
  assumes ok: "GetHealthResponse_json_ok m"
  shows "json_rt GetHealthResponse_toJSON GetHealthResponse_fromJSON m"
  unfolding json_rt_def
proof (intro allI impI)
  fix J
  assume to: "GetHealthResponse_toJSON m = Returned J"
  have d: "distinct ([''health''] @ [])"
    by code_simp
  note all = t_objD [OF to [unfolded GetHealthResponse_toJSON_def] _ d, unfolded t_names, OF refl]
  have "GetHealthResponse_fromJSON J = Returned m"
    unfolding GetHealthResponse_fromJSON_def
    by (rule fs_field [OF all [THEN conjunct1]], erule jr_msg, rule absent_Nil, rule HealthSnapshot_json, (use ok in \<open>fastforce simp: GetHealthResponse_json_ok_def list_all_iff\<close>),
      rule f_obj_Nil, cases m, simp add: createBaseGetHealthResponse_def)
  with all show "isSet J \<and> GetHealthResponse_fromJSON J = Returned m"
    by (simp add: entries_def)
qed

lemma GetHealthResponse_toJSON_safe [json_rules]: "to_safe (GetHealthResponse_toJSON m)"
  unfolding GetHealthResponse_toJSON_def by (intro json_rules)

subsection \<open>SubscribeEventsRequest\<close>

definition SubscribeEventsRequest_toJSON :: "SubscribeEventsRequest \<Rightarrow> js_any js_out" where
  "SubscribeEventsRequest_toJSON m = t_obj (
    [(''sessionId'', t_if (SubscribeEventsRequest_sessionId m \<noteq> '''') (AStr (SubscribeEventsRequest_sessionId m))),
     (''buffer'', t_if (SubscribeEventsRequest_buffer m \<noteq> 0) (js_int (SubscribeEventsRequest_buffer m)))])"

definition SubscribeEventsRequest_fromJSON :: "js_any \<Rightarrow> SubscribeEventsRequest js_out" where
  "SubscribeEventsRequest_fromJSON = f_obj createBaseSubscribeEventsRequest
    [f_field (f_first [(''sessionId'', js_String), (''session_id'', js_String)] '''') (\<lambda>v m. m\<lparr>SubscribeEventsRequest_sessionId := v\<rparr>),
     f_field (f_first [(''buffer'', js_integer)] 0) (\<lambda>v m. m\<lparr>SubscribeEventsRequest_buffer := v\<rparr>)]"

definition SubscribeEventsRequest_fromPartial :: "js_any \<Rightarrow> SubscribeEventsRequest js_out" where
  "SubscribeEventsRequest_fromPartial = f_obj createBaseSubscribeEventsRequest
    [f_field (f_first [(''sessionId'', p_string)] '''') (\<lambda>v m. m\<lparr>SubscribeEventsRequest_sessionId := v\<rparr>),
     f_field (f_first [(''buffer'', p_int)] 0) (\<lambda>v m. m\<lparr>SubscribeEventsRequest_buffer := v\<rparr>)]"

definition SubscribeEventsRequest_create :: "js_any \<Rightarrow> SubscribeEventsRequest js_out" where
  "SubscribeEventsRequest_create = create_with SubscribeEventsRequest_fromPartial"

lemma SubscribeEventsRequest_json:
  "json_rt SubscribeEventsRequest_toJSON SubscribeEventsRequest_fromJSON m"
  unfolding json_rt_def
proof (intro allI impI)
  fix J
  assume to: "SubscribeEventsRequest_toJSON m = Returned J"
  have d: "distinct ([''sessionId'', ''buffer''] @ [''session_id''])"
    by code_simp
  note all = t_objD [OF to [unfolded SubscribeEventsRequest_toJSON_def] _ d, unfolded t_names, OF refl]
  note N = all [THEN conjunct2, unfolded names_simps]
  have "SubscribeEventsRequest_fromJSON J = Returned m"
    unfolding SubscribeEventsRequest_fromJSON_def
    by (rule fs_field [OF all [THEN conjunct1]], erule jr_string, simp only: N absent_simps simp_thms,
      erule fs_field, erule jr_int, rule absent_Nil,
      rule f_obj_Nil, cases m, simp add: createBaseSubscribeEventsRequest_def)
  with all show "isSet J \<and> SubscribeEventsRequest_fromJSON J = Returned m"
    by (simp add: entries_def)
qed

lemma SubscribeEventsRequest_toJSON_safe [json_rules]: "to_safe (SubscribeEventsRequest_toJSON m)"
  unfolding SubscribeEventsRequest_toJSON_def by (intro json_rules)

subsection \<open>SubscribeEventsResponse\<close>

definition SubscribeEventsResponse_toJSON :: "SubscribeEventsResponse \<Rightarrow> js_any js_out" where
  "SubscribeEventsResponse_toJSON m = t_obj (
    [(''event'', t_some (SubscribeEventsResponse_event m) Event_toJSON)])"

definition SubscribeEventsResponse_fromJSON :: "js_any \<Rightarrow> SubscribeEventsResponse js_out" where
  "SubscribeEventsResponse_fromJSON = f_obj createBaseSubscribeEventsResponse
    [f_field (f_first [(''event'', \<lambda>x. js_map Some (Event_fromJSON x))] None) (\<lambda>v m. m\<lparr>SubscribeEventsResponse_event := v\<rparr>)]"

definition SubscribeEventsResponse_fromPartial :: "js_any \<Rightarrow> SubscribeEventsResponse js_out" where
  "SubscribeEventsResponse_fromPartial = f_obj createBaseSubscribeEventsResponse
    [f_field (f_first [(''event'', \<lambda>x. js_map Some (Event_fromPartial x))] None) (\<lambda>v m. m\<lparr>SubscribeEventsResponse_event := v\<rparr>)]"

definition SubscribeEventsResponse_create :: "js_any \<Rightarrow> SubscribeEventsResponse js_out" where
  "SubscribeEventsResponse_create = create_with SubscribeEventsResponse_fromPartial"

definition SubscribeEventsResponse_json_ok :: "SubscribeEventsResponse \<Rightarrow> bool" where
  "SubscribeEventsResponse_json_ok m \<longleftrightarrow> pred_option Event_json_ok (SubscribeEventsResponse_event m)"

lemma SubscribeEventsResponse_json:
  assumes ok: "SubscribeEventsResponse_json_ok m"
  shows "json_rt SubscribeEventsResponse_toJSON SubscribeEventsResponse_fromJSON m"
  unfolding json_rt_def
proof (intro allI impI)
  fix J
  assume to: "SubscribeEventsResponse_toJSON m = Returned J"
  have d: "distinct ([''event''] @ [])"
    by code_simp
  note all = t_objD [OF to [unfolded SubscribeEventsResponse_toJSON_def] _ d, unfolded t_names, OF refl]
  have "SubscribeEventsResponse_fromJSON J = Returned m"
    unfolding SubscribeEventsResponse_fromJSON_def
    by (rule fs_field [OF all [THEN conjunct1]], erule jr_msg, rule absent_Nil, rule Event_json, (use ok in \<open>fastforce simp: SubscribeEventsResponse_json_ok_def list_all_iff\<close>),
      rule f_obj_Nil, cases m, simp add: createBaseSubscribeEventsResponse_def)
  with all show "isSet J \<and> SubscribeEventsResponse_fromJSON J = Returned m"
    by (simp add: entries_def)
qed

lemma SubscribeEventsResponse_toJSON_safe [json_rules]: "to_safe (SubscribeEventsResponse_toJSON m)"
  unfolding SubscribeEventsResponse_toJSON_def by (intro json_rules)

end
