(* ===== verification/Json_Runtime.thy ===== *)
theory Json_Runtime
  imports Gen_Runtime Json_Common
begin

text \<open>
  The JSON side of \<open>sdk/node/src/gen/meta/v1/runtime.ts\<close>: \<open>toJSON\<close>, \<open>fromJSON\<close>,
  \<open>fromPartial\<close> and \<open>create\<close> of every message and the names of its enums.  \<open>_json_ok\<close> holds of the
  values that survive a round trip: known enum numbers, objects built by assignment, dates in
  range.  For every message: \<open>fromJSON\<close> reads back what \<open>toJSON\<close> returned.
\<close>

subsection \<open>GetInfoRequest\<close>

definition GetInfoRequest_toJSON :: "GetInfoRequest \<Rightarrow> js_any js_out" where
  "GetInfoRequest_toJSON m = t_obj ([])"

definition GetInfoRequest_fromJSON :: "js_any \<Rightarrow> GetInfoRequest js_out" where
  "GetInfoRequest_fromJSON = f_obj createBaseGetInfoRequest
    []"

definition GetInfoRequest_fromPartial :: "js_any \<Rightarrow> GetInfoRequest js_out" where
  "GetInfoRequest_fromPartial = f_obj createBaseGetInfoRequest
    []"

definition GetInfoRequest_create :: "js_any \<Rightarrow> GetInfoRequest js_out" where
  "GetInfoRequest_create = create_with GetInfoRequest_fromPartial"

lemma GetInfoRequest_json:
  "json_rt GetInfoRequest_toJSON GetInfoRequest_fromJSON m"
  unfolding json_rt_def
proof (intro allI impI)
  fix J
  assume to: "GetInfoRequest_toJSON m = Returned J"
  have d: "distinct (([] :: string list) @ [])"
    by simp
  note all = t_objD [OF to [unfolded GetInfoRequest_toJSON_def] _ d, unfolded t_names, OF refl]
  have "GetInfoRequest_fromJSON J = Returned m"
    unfolding GetInfoRequest_fromJSON_def
    by (rule f_obj_Nil, cases m, simp add: createBaseGetInfoRequest_def)
  with all show "isSet J \<and> GetInfoRequest_fromJSON J = Returned m"
    by (simp add: entries_def)
qed

lemma GetInfoRequest_toJSON_safe [json_rules]: "to_safe (GetInfoRequest_toJSON m)"
  unfolding GetInfoRequest_toJSON_def by (intro json_rules)

subsection \<open>GetInfoResponse\<close>

definition GetInfoResponse_toJSON :: "GetInfoResponse \<Rightarrow> js_any js_out" where
  "GetInfoResponse_toJSON m = t_obj (
    [(''protocol'', t_some (GetInfoResponse_protocol m) ProtocolVersion_toJSON),
     (''build'', t_some (GetInfoResponse_build m) BuildInfo_toJSON),
     (''capabilities'', t_list (GetInfoResponse_capabilities m) (\<lambda>x. Returned (AStr x)))])"

definition GetInfoResponse_fromJSON :: "js_any \<Rightarrow> GetInfoResponse js_out" where
  "GetInfoResponse_fromJSON = f_obj createBaseGetInfoResponse
    [f_field (f_first [(''protocol'', \<lambda>x. js_map Some (ProtocolVersion_fromJSON x))] None) (\<lambda>v m. m\<lparr>GetInfoResponse_protocol := v\<rparr>),
     f_field (f_first [(''build'', \<lambda>x. js_map Some (BuildInfo_fromJSON x))] None) (\<lambda>v m. m\<lparr>GetInfoResponse_build := v\<rparr>),
     f_field (f_array [''capabilities''] js_String) (\<lambda>v m. m\<lparr>GetInfoResponse_capabilities := v\<rparr>)]"

definition GetInfoResponse_fromPartial :: "js_any \<Rightarrow> GetInfoResponse js_out" where
  "GetInfoResponse_fromPartial = f_obj createBaseGetInfoResponse
    [f_field (f_first [(''protocol'', \<lambda>x. js_map Some (ProtocolVersion_fromPartial x))] None) (\<lambda>v m. m\<lparr>GetInfoResponse_protocol := v\<rparr>),
     f_field (f_first [(''build'', \<lambda>x. js_map Some (BuildInfo_fromPartial x))] None) (\<lambda>v m. m\<lparr>GetInfoResponse_build := v\<rparr>),
     f_field (p_array ''capabilities'' p_string) (\<lambda>v m. m\<lparr>GetInfoResponse_capabilities := v\<rparr>)]"

definition GetInfoResponse_create :: "js_any \<Rightarrow> GetInfoResponse js_out" where
  "GetInfoResponse_create = create_with GetInfoResponse_fromPartial"

lemma GetInfoResponse_json:
  "json_rt GetInfoResponse_toJSON GetInfoResponse_fromJSON m"
  unfolding json_rt_def
proof (intro allI impI)
  fix J
  assume to: "GetInfoResponse_toJSON m = Returned J"
  have d: "distinct ([''protocol'', ''build'', ''capabilities''] @ [])"
    by code_simp
  note all = t_objD [OF to [unfolded GetInfoResponse_toJSON_def] _ d, unfolded t_names, OF refl]
  have "GetInfoResponse_fromJSON J = Returned m"
    unfolding GetInfoResponse_fromJSON_def
    by (rule fs_field [OF all [THEN conjunct1]], erule jr_msg, rule absent_Nil, rule ProtocolVersion_json,
      erule fs_field, erule jr_msg, rule absent_Nil, rule BuildInfo_json,
      erule fs_field, erule jr_strings, assumption, simp only: names_simps,
      rule f_obj_Nil, cases m, simp add: createBaseGetInfoResponse_def)
  with all show "isSet J \<and> GetInfoResponse_fromJSON J = Returned m"
    by (simp add: entries_def)
qed

lemma GetInfoResponse_toJSON_safe [json_rules]: "to_safe (GetInfoResponse_toJSON m)"
  unfolding GetInfoResponse_toJSON_def by (intro json_rules)

end
