(* ===== verification/Json_Facebook.thy ===== *)
theory Json_Facebook
  imports Gen_Facebook Json_Common
begin

text \<open>
  The JSON side of \<open>sdk/node/src/gen/meta/v1/facebook.ts\<close>: \<open>toJSON\<close>, \<open>fromJSON\<close>,
  \<open>fromPartial\<close> and \<open>create\<close> of every message and the names of its enums.  \<open>_json_ok\<close> holds of the
  values that survive a round trip: known enum numbers, objects built by assignment, dates in
  range.  For every message: \<open>fromJSON\<close> reads back what \<open>toJSON\<close> returned.
\<close>

section \<open>Enums\<close>

text \<open>The numbers of \<open>enum FacebookPostOwnership\<close> with their names.\<close>

definition FacebookPostOwnership_values :: "(string \<times> int) list" where
  "FacebookPostOwnership_values = [(''FACEBOOK_POST_OWNERSHIP_UNSPECIFIED'', 0),
     (''FACEBOOK_POST_OWNERSHIP_OWNED'', 1),
     (''FACEBOOK_POST_OWNERSHIP_SHARED'', 2),
     (''UNRECOGNIZED'', (- 1))]"

definition facebookPostOwnershipFromJSON :: "js_any \<Rightarrow> int" where
  "facebookPostOwnershipFromJSON v =
    (if v = js_int 0 \<or> v = AStr ''FACEBOOK_POST_OWNERSHIP_UNSPECIFIED'' then 0
     else if v = js_int 1 \<or> v = AStr ''FACEBOOK_POST_OWNERSHIP_OWNED'' then 1
     else if v = js_int 2 \<or> v = AStr ''FACEBOOK_POST_OWNERSHIP_SHARED'' then 2
     else - 1)"

definition facebookPostOwnershipToJSON :: "int \<Rightarrow> string" where
  "facebookPostOwnershipToJSON n =
    (if n = 0 then ''FACEBOOK_POST_OWNERSHIP_UNSPECIFIED''
     else if n = 1 then ''FACEBOOK_POST_OWNERSHIP_OWNED''
     else if n = 2 then ''FACEBOOK_POST_OWNERSHIP_SHARED''
     else ''UNRECOGNIZED'')"

definition facebookPostOwnership_known :: "int \<Rightarrow> bool" where
  "facebookPostOwnership_known n \<longleftrightarrow> n \<in> snd ` set FacebookPostOwnership_values"

lemma facebookPostOwnership_table: "list_all (\<lambda>p. facebookPostOwnershipFromJSON (AStr (facebookPostOwnershipToJSON (snd p))) = snd p) FacebookPostOwnership_values"
  by code_simp

lemma facebookPostOwnership_json: "facebookPostOwnership_known n \<Longrightarrow> facebookPostOwnershipFromJSON (AStr (facebookPostOwnershipToJSON n)) = n"
  using facebookPostOwnership_table by (auto simp: facebookPostOwnership_known_def list_all_iff)

section \<open>Messages\<close>

subsection \<open>FacebookUser\<close>

definition FacebookUser_toJSON :: "FacebookUser \<Rightarrow> js_any js_out" where
  "FacebookUser_toJSON m = t_obj (
    [(''id'', t_if (FacebookUser_id m \<noteq> '''') (AStr (FacebookUser_id m))),
     (''name'', t_if (FacebookUser_name m \<noteq> '''') (AStr (FacebookUser_name m))),
     (''firstName'', t_if (FacebookUser_firstName m \<noteq> '''') (AStr (FacebookUser_firstName m))),
     (''username'', t_if (FacebookUser_username m \<noteq> '''') (AStr (FacebookUser_username m))),
     (''profileUrl'', t_if (FacebookUser_profileUrl m \<noteq> '''') (AStr (FacebookUser_profileUrl m))),
     (''avatarUrl'', t_if (FacebookUser_avatarUrl m \<noteq> '''') (AStr (FacebookUser_avatarUrl m))),
     (''gender'', t_if (FacebookUser_gender m \<noteq> '''') (AStr (FacebookUser_gender m))),
     (''alternateName'', t_if (FacebookUser_alternateName m \<noteq> '''') (AStr (FacebookUser_alternateName m))),
     (''nonFriend'', t_if (FacebookUser_nonFriend m \<noteq> False) (ABool (FacebookUser_nonFriend m)))])"

definition FacebookUser_fromJSON :: "js_any \<Rightarrow> FacebookUser js_out" where
  "FacebookUser_fromJSON = f_obj createBaseFacebookUser
    [f_field (f_first [(''id'', js_String)] '''') (\<lambda>v m. m\<lparr>FacebookUser_id := v\<rparr>),
     f_field (f_first [(''name'', js_String)] '''') (\<lambda>v m. m\<lparr>FacebookUser_name := v\<rparr>),
     f_field (f_first [(''firstName'', js_String), (''first_name'', js_String)] '''') (\<lambda>v m. m\<lparr>FacebookUser_firstName := v\<rparr>),
     f_field (f_first [(''username'', js_String)] '''') (\<lambda>v m. m\<lparr>FacebookUser_username := v\<rparr>),
     f_field (f_first [(''profileUrl'', js_String), (''profile_url'', js_String)] '''') (\<lambda>v m. m\<lparr>FacebookUser_profileUrl := v\<rparr>),
     f_field (f_first [(''avatarUrl'', js_String), (''avatar_url'', js_String)] '''') (\<lambda>v m. m\<lparr>FacebookUser_avatarUrl := v\<rparr>),
     f_field (f_first [(''gender'', js_String)] '''') (\<lambda>v m. m\<lparr>FacebookUser_gender := v\<rparr>),
     f_field (f_first [(''alternateName'', js_String), (''alternate_name'', js_String)] '''') (\<lambda>v m. m\<lparr>FacebookUser_alternateName := v\<rparr>),
     f_field (f_first [(''nonFriend'', \<lambda>x. Returned (js_Boolean x)), (''non_friend'', \<lambda>x. Returned (js_Boolean x))] False) (\<lambda>v m. m\<lparr>FacebookUser_nonFriend := v\<rparr>)]"

definition FacebookUser_fromPartial :: "js_any \<Rightarrow> FacebookUser js_out" where
  "FacebookUser_fromPartial = f_obj createBaseFacebookUser
    [f_field (f_first [(''id'', p_string)] '''') (\<lambda>v m. m\<lparr>FacebookUser_id := v\<rparr>),
     f_field (f_first [(''name'', p_string)] '''') (\<lambda>v m. m\<lparr>FacebookUser_name := v\<rparr>),
     f_field (f_first [(''firstName'', p_string)] '''') (\<lambda>v m. m\<lparr>FacebookUser_firstName := v\<rparr>),
     f_field (f_first [(''username'', p_string)] '''') (\<lambda>v m. m\<lparr>FacebookUser_username := v\<rparr>),
     f_field (f_first [(''profileUrl'', p_string)] '''') (\<lambda>v m. m\<lparr>FacebookUser_profileUrl := v\<rparr>),
     f_field (f_first [(''avatarUrl'', p_string)] '''') (\<lambda>v m. m\<lparr>FacebookUser_avatarUrl := v\<rparr>),
     f_field (f_first [(''gender'', p_string)] '''') (\<lambda>v m. m\<lparr>FacebookUser_gender := v\<rparr>),
     f_field (f_first [(''alternateName'', p_string)] '''') (\<lambda>v m. m\<lparr>FacebookUser_alternateName := v\<rparr>),
     f_field (f_first [(''nonFriend'', p_bool)] False) (\<lambda>v m. m\<lparr>FacebookUser_nonFriend := v\<rparr>)]"

definition FacebookUser_create :: "js_any \<Rightarrow> FacebookUser js_out" where
  "FacebookUser_create = create_with FacebookUser_fromPartial"

lemma FacebookUser_json:
  "json_rt FacebookUser_toJSON FacebookUser_fromJSON m"
  unfolding json_rt_def
proof (intro allI impI)
  fix J
  assume to: "FacebookUser_toJSON m = Returned J"
  have d: "distinct ([''id'', ''name'', ''firstName'', ''username'', ''profileUrl'', ''avatarUrl'', ''gender'', ''alternateName'', ''nonFriend''] @ [''first_name'', ''profile_url'', ''avatar_url'', ''alternate_name'', ''non_friend''])"
    by code_simp
  note all = t_objD [OF to [unfolded FacebookUser_toJSON_def] _ d, unfolded t_names, OF refl]
  note N = all [THEN conjunct2, unfolded names_simps]
  have "FacebookUser_fromJSON J = Returned m"
    unfolding FacebookUser_fromJSON_def
    by (rule fs_field [OF all [THEN conjunct1]], erule jr_string, rule absent_Nil,
      erule fs_field, erule jr_string, rule absent_Nil,
      erule fs_field, erule jr_string, simp only: N absent_simps simp_thms,
      erule fs_field, erule jr_string, rule absent_Nil,
      erule fs_field, erule jr_string, simp only: N absent_simps simp_thms,
      erule fs_field, erule jr_string, simp only: N absent_simps simp_thms,
      erule fs_field, erule jr_string, rule absent_Nil,
      erule fs_field, erule jr_string, simp only: N absent_simps simp_thms,
      erule fs_field, erule jr_bool, simp only: N absent_simps simp_thms,
      rule f_obj_Nil, cases m, simp add: createBaseFacebookUser_def)
  with all show "isSet J \<and> FacebookUser_fromJSON J = Returned m"
    by (simp add: entries_def)
qed

lemma FacebookUser_toJSON_safe [json_rules]: "to_safe (FacebookUser_toJSON m)"
  unfolding FacebookUser_toJSON_def by (intro json_rules)

subsection \<open>FacebookSearchResult\<close>

definition FacebookSearchResult_toJSON :: "FacebookSearchResult \<Rightarrow> js_any js_out" where
  "FacebookSearchResult_toJSON m = t_obj (
    [(''id'', t_if (FacebookSearchResult_id m \<noteq> '''') (AStr (FacebookSearchResult_id m))),
     (''name'', t_if (FacebookSearchResult_name m \<noteq> '''') (AStr (FacebookSearchResult_name m))),
     (''url'', t_if (FacebookSearchResult_url m \<noteq> '''') (AStr (FacebookSearchResult_url m)))])"

definition FacebookSearchResult_fromJSON :: "js_any \<Rightarrow> FacebookSearchResult js_out" where
  "FacebookSearchResult_fromJSON = f_obj createBaseFacebookSearchResult
    [f_field (f_first [(''id'', js_String)] '''') (\<lambda>v m. m\<lparr>FacebookSearchResult_id := v\<rparr>),
     f_field (f_first [(''name'', js_String)] '''') (\<lambda>v m. m\<lparr>FacebookSearchResult_name := v\<rparr>),
     f_field (f_first [(''url'', js_String)] '''') (\<lambda>v m. m\<lparr>FacebookSearchResult_url := v\<rparr>)]"

definition FacebookSearchResult_fromPartial :: "js_any \<Rightarrow> FacebookSearchResult js_out" where
  "FacebookSearchResult_fromPartial = f_obj createBaseFacebookSearchResult
    [f_field (f_first [(''id'', p_string)] '''') (\<lambda>v m. m\<lparr>FacebookSearchResult_id := v\<rparr>),
     f_field (f_first [(''name'', p_string)] '''') (\<lambda>v m. m\<lparr>FacebookSearchResult_name := v\<rparr>),
     f_field (f_first [(''url'', p_string)] '''') (\<lambda>v m. m\<lparr>FacebookSearchResult_url := v\<rparr>)]"

definition FacebookSearchResult_create :: "js_any \<Rightarrow> FacebookSearchResult js_out" where
  "FacebookSearchResult_create = create_with FacebookSearchResult_fromPartial"

lemma FacebookSearchResult_json:
  "json_rt FacebookSearchResult_toJSON FacebookSearchResult_fromJSON m"
  unfolding json_rt_def
proof (intro allI impI)
  fix J
  assume to: "FacebookSearchResult_toJSON m = Returned J"
  have d: "distinct ([''id'', ''name'', ''url''] @ [])"
    by code_simp
  note all = t_objD [OF to [unfolded FacebookSearchResult_toJSON_def] _ d, unfolded t_names, OF refl]
  have "FacebookSearchResult_fromJSON J = Returned m"
    unfolding FacebookSearchResult_fromJSON_def
    by (rule fs_field [OF all [THEN conjunct1]], erule jr_string, rule absent_Nil,
      erule fs_field, erule jr_string, rule absent_Nil,
      erule fs_field, erule jr_string, rule absent_Nil,
      rule f_obj_Nil, cases m, simp add: createBaseFacebookSearchResult_def)
  with all show "isSet J \<and> FacebookSearchResult_fromJSON J = Returned m"
    by (simp add: entries_def)
qed

lemma FacebookSearchResult_toJSON_safe [json_rules]: "to_safe (FacebookSearchResult_toJSON m)"
  unfolding FacebookSearchResult_toJSON_def by (intro json_rules)

subsection \<open>FacebookNotification\<close>

definition FacebookNotification_toJSON :: "FacebookNotification \<Rightarrow> js_any js_out" where
  "FacebookNotification_toJSON m = t_obj (
    [(''id'', t_if (FacebookNotification_id m \<noteq> '''') (AStr (FacebookNotification_id m))),
     (''text'', t_if (FacebookNotification_text m \<noteq> '''') (AStr (FacebookNotification_text m))),
     (''url'', t_if (FacebookNotification_url m \<noteq> '''') (AStr (FacebookNotification_url m))),
     (''timestamp'', t_some (FacebookNotification_timestamp m) date_json)])"

definition FacebookNotification_fromJSON :: "js_any \<Rightarrow> FacebookNotification js_out" where
  "FacebookNotification_fromJSON = f_obj createBaseFacebookNotification
    [f_field (f_first [(''id'', js_String)] '''') (\<lambda>v m. m\<lparr>FacebookNotification_id := v\<rparr>),
     f_field (f_first [(''text'', js_String)] '''') (\<lambda>v m. m\<lparr>FacebookNotification_text := v\<rparr>),
     f_field (f_first [(''url'', js_String)] '''') (\<lambda>v m. m\<lparr>FacebookNotification_url := v\<rparr>),
     f_field (f_first [(''timestamp'', \<lambda>x. js_map Some (fromJsonTimestamp x))] None) (\<lambda>v m. m\<lparr>FacebookNotification_timestamp := v\<rparr>)]"

definition FacebookNotification_fromPartial :: "js_any \<Rightarrow> FacebookNotification js_out" where
  "FacebookNotification_fromPartial = f_obj createBaseFacebookNotification
    [f_field (f_first [(''id'', p_string)] '''') (\<lambda>v m. m\<lparr>FacebookNotification_id := v\<rparr>),
     f_field (f_first [(''text'', p_string)] '''') (\<lambda>v m. m\<lparr>FacebookNotification_text := v\<rparr>),
     f_field (f_first [(''url'', p_string)] '''') (\<lambda>v m. m\<lparr>FacebookNotification_url := v\<rparr>),
     f_field (f_first [(''timestamp'', \<lambda>x. js_map Some (p_date x))] None) (\<lambda>v m. m\<lparr>FacebookNotification_timestamp := v\<rparr>)]"

definition FacebookNotification_create :: "js_any \<Rightarrow> FacebookNotification js_out" where
  "FacebookNotification_create = create_with FacebookNotification_fromPartial"

definition FacebookNotification_json_ok :: "FacebookNotification \<Rightarrow> bool" where
  "FacebookNotification_json_ok m \<longleftrightarrow> pred_option js_date_ok (FacebookNotification_timestamp m)"

lemma FacebookNotification_json:
  assumes ok: "FacebookNotification_json_ok m"
  shows "json_rt FacebookNotification_toJSON FacebookNotification_fromJSON m"
  unfolding json_rt_def
proof (intro allI impI)
  fix J
  assume to: "FacebookNotification_toJSON m = Returned J"
  have d: "distinct ([''id'', ''text'', ''url'', ''timestamp''] @ [])"
    by code_simp
  note all = t_objD [OF to [unfolded FacebookNotification_toJSON_def] _ d, unfolded t_names, OF refl]
  have "FacebookNotification_fromJSON J = Returned m"
    unfolding FacebookNotification_fromJSON_def
    by (rule fs_field [OF all [THEN conjunct1]], erule jr_string, rule absent_Nil,
      erule fs_field, erule jr_string, rule absent_Nil,
      erule fs_field, erule jr_string, rule absent_Nil,
      erule fs_field, erule jr_date, rule absent_Nil, (use ok in \<open>fastforce simp: FacebookNotification_json_ok_def list_all_iff\<close>),
      rule f_obj_Nil, cases m, simp add: createBaseFacebookNotification_def)
  with all show "isSet J \<and> FacebookNotification_fromJSON J = Returned m"
    by (simp add: entries_def)
qed

lemma FacebookNotification_toJSON_safe [json_rules]: "to_safe (FacebookNotification_toJSON m)"
  unfolding FacebookNotification_toJSON_def by (intro json_rules)

subsection \<open>FacebookPost\<close>

definition FacebookPost_toJSON :: "FacebookPost \<Rightarrow> js_any js_out" where
  "FacebookPost_toJSON m = t_obj (
    [(''id'', t_if (FacebookPost_id m \<noteq> '''') (AStr (FacebookPost_id m))),
     (''url'', t_if (FacebookPost_url m \<noteq> '''') (AStr (FacebookPost_url m)))])"

definition FacebookPost_fromJSON :: "js_any \<Rightarrow> FacebookPost js_out" where
  "FacebookPost_fromJSON = f_obj createBaseFacebookPost
    [f_field (f_first [(''id'', js_String)] '''') (\<lambda>v m. m\<lparr>FacebookPost_id := v\<rparr>),
     f_field (f_first [(''url'', js_String)] '''') (\<lambda>v m. m\<lparr>FacebookPost_url := v\<rparr>)]"

definition FacebookPost_fromPartial :: "js_any \<Rightarrow> FacebookPost js_out" where
  "FacebookPost_fromPartial = f_obj createBaseFacebookPost
    [f_field (f_first [(''id'', p_string)] '''') (\<lambda>v m. m\<lparr>FacebookPost_id := v\<rparr>),
     f_field (f_first [(''url'', p_string)] '''') (\<lambda>v m. m\<lparr>FacebookPost_url := v\<rparr>)]"

definition FacebookPost_create :: "js_any \<Rightarrow> FacebookPost js_out" where
  "FacebookPost_create = create_with FacebookPost_fromPartial"

lemma FacebookPost_json:
  "json_rt FacebookPost_toJSON FacebookPost_fromJSON m"
  unfolding json_rt_def
proof (intro allI impI)
  fix J
  assume to: "FacebookPost_toJSON m = Returned J"
  have d: "distinct ([''id'', ''url''] @ [])"
    by code_simp
  note all = t_objD [OF to [unfolded FacebookPost_toJSON_def] _ d, unfolded t_names, OF refl]
  have "FacebookPost_fromJSON J = Returned m"
    unfolding FacebookPost_fromJSON_def
    by (rule fs_field [OF all [THEN conjunct1]], erule jr_string, rule absent_Nil,
      erule fs_field, erule jr_string, rule absent_Nil,
      rule f_obj_Nil, cases m, simp add: createBaseFacebookPost_def)
  with all show "isSet J \<and> FacebookPost_fromJSON J = Returned m"
    by (simp add: entries_def)
qed

lemma FacebookPost_toJSON_safe [json_rules]: "to_safe (FacebookPost_toJSON m)"
  unfolding FacebookPost_toJSON_def by (intro json_rules)

subsection \<open>MarketplaceLocation\<close>

definition MarketplaceLocation_toJSON :: "MarketplaceLocation \<Rightarrow> js_any js_out" where
  "MarketplaceLocation_toJSON m = t_obj (
    [(''latitude'', t_if (\<not> double_is_zero (MarketplaceLocation_latitude m)) (ANum (double_number (MarketplaceLocation_latitude m)))),
     (''longitude'', t_if (\<not> double_is_zero (MarketplaceLocation_longitude m)) (ANum (double_number (MarketplaceLocation_longitude m)))),
     (''name'', t_if (MarketplaceLocation_name m \<noteq> '''') (AStr (MarketplaceLocation_name m)))])"

definition MarketplaceLocation_fromJSON :: "js_any \<Rightarrow> MarketplaceLocation js_out" where
  "MarketplaceLocation_fromJSON = f_obj createBaseMarketplaceLocation
    [f_field (f_first [(''latitude'', js_double)] 0) (\<lambda>v m. m\<lparr>MarketplaceLocation_latitude := v\<rparr>),
     f_field (f_first [(''longitude'', js_double)] 0) (\<lambda>v m. m\<lparr>MarketplaceLocation_longitude := v\<rparr>),
     f_field (f_first [(''name'', js_String)] '''') (\<lambda>v m. m\<lparr>MarketplaceLocation_name := v\<rparr>)]"

definition MarketplaceLocation_fromPartial :: "js_any \<Rightarrow> MarketplaceLocation js_out" where
  "MarketplaceLocation_fromPartial = f_obj createBaseMarketplaceLocation
    [f_field (f_first [(''latitude'', p_double)] 0) (\<lambda>v m. m\<lparr>MarketplaceLocation_latitude := v\<rparr>),
     f_field (f_first [(''longitude'', p_double)] 0) (\<lambda>v m. m\<lparr>MarketplaceLocation_longitude := v\<rparr>),
     f_field (f_first [(''name'', p_string)] '''') (\<lambda>v m. m\<lparr>MarketplaceLocation_name := v\<rparr>)]"

definition MarketplaceLocation_create :: "js_any \<Rightarrow> MarketplaceLocation js_out" where
  "MarketplaceLocation_create = create_with MarketplaceLocation_fromPartial"

definition MarketplaceLocation_json_ok :: "MarketplaceLocation \<Rightarrow> bool" where
  "MarketplaceLocation_json_ok m \<longleftrightarrow> double_ok (MarketplaceLocation_latitude m) \<and>
     double_ok (MarketplaceLocation_longitude m)"

lemma MarketplaceLocation_json:
  assumes ok: "MarketplaceLocation_json_ok m"
  shows "json_rt MarketplaceLocation_toJSON MarketplaceLocation_fromJSON m"
  unfolding json_rt_def
proof (intro allI impI)
  fix J
  assume to: "MarketplaceLocation_toJSON m = Returned J"
  have d: "distinct ([''latitude'', ''longitude'', ''name''] @ [])"
    by code_simp
  note all = t_objD [OF to [unfolded MarketplaceLocation_toJSON_def] _ d, unfolded t_names, OF refl]
  have "MarketplaceLocation_fromJSON J = Returned m"
    unfolding MarketplaceLocation_fromJSON_def
    by (rule fs_field [OF all [THEN conjunct1]], erule jr_double, rule absent_Nil, (use ok in \<open>fastforce simp: MarketplaceLocation_json_ok_def list_all_iff\<close>),
      erule fs_field, erule jr_double, rule absent_Nil, (use ok in \<open>fastforce simp: MarketplaceLocation_json_ok_def list_all_iff\<close>),
      erule fs_field, erule jr_string, rule absent_Nil,
      rule f_obj_Nil, cases m, simp add: createBaseMarketplaceLocation_def)
  with all show "isSet J \<and> MarketplaceLocation_fromJSON J = Returned m"
    by (simp add: entries_def)
qed

lemma MarketplaceLocation_toJSON_safe [json_rules]: "to_safe (MarketplaceLocation_toJSON m)"
  unfolding MarketplaceLocation_toJSON_def by (intro json_rules)

subsection \<open>MarketplaceListingInput\<close>

definition MarketplaceListingInput_toJSON :: "MarketplaceListingInput \<Rightarrow> js_any js_out" where
  "MarketplaceListingInput_toJSON m = t_obj (
    [(''title'', t_if (MarketplaceListingInput_title m \<noteq> '''') (AStr (MarketplaceListingInput_title m))),
     (''brand'', t_if (MarketplaceListingInput_brand m \<noteq> '''') (AStr (MarketplaceListingInput_brand m))),
     (''price'', t_if (MarketplaceListingInput_price m \<noteq> '''') (AStr (MarketplaceListingInput_price m))),
     (''currency'', t_if (MarketplaceListingInput_currency m \<noteq> '''') (AStr (MarketplaceListingInput_currency m))),
     (''description'', t_if (MarketplaceListingInput_description m \<noteq> '''') (AStr (MarketplaceListingInput_description m))),
     (''hashtags'', t_list (MarketplaceListingInput_hashtags m) (\<lambda>x. Returned (AStr x))),
     (''category'', t_if (MarketplaceListingInput_category m \<noteq> '''') (AStr (MarketplaceListingInput_category m))),
     (''photoIds'', t_list (MarketplaceListingInput_photoIds m) (\<lambda>x. Returned (AStr x))),
     (''location'', t_some (MarketplaceListingInput_location m) MarketplaceLocation_toJSON)])"

definition MarketplaceListingInput_fromJSON :: "js_any \<Rightarrow> MarketplaceListingInput js_out" where
  "MarketplaceListingInput_fromJSON = f_obj createBaseMarketplaceListingInput
    [f_field (f_first [(''title'', js_String)] '''') (\<lambda>v m. m\<lparr>MarketplaceListingInput_title := v\<rparr>),
     f_field (f_first [(''brand'', js_String)] '''') (\<lambda>v m. m\<lparr>MarketplaceListingInput_brand := v\<rparr>),
     f_field (f_first [(''price'', js_String)] '''') (\<lambda>v m. m\<lparr>MarketplaceListingInput_price := v\<rparr>),
     f_field (f_first [(''currency'', js_String)] '''') (\<lambda>v m. m\<lparr>MarketplaceListingInput_currency := v\<rparr>),
     f_field (f_first [(''description'', js_String)] '''') (\<lambda>v m. m\<lparr>MarketplaceListingInput_description := v\<rparr>),
     f_field (f_array [''hashtags''] js_String) (\<lambda>v m. m\<lparr>MarketplaceListingInput_hashtags := v\<rparr>),
     f_field (f_first [(''category'', js_String)] '''') (\<lambda>v m. m\<lparr>MarketplaceListingInput_category := v\<rparr>),
     f_field (f_array [''photoIds'', ''photo_ids''] js_String) (\<lambda>v m. m\<lparr>MarketplaceListingInput_photoIds := v\<rparr>),
     f_field (f_first [(''location'', \<lambda>x. js_map Some (MarketplaceLocation_fromJSON x))] None) (\<lambda>v m. m\<lparr>MarketplaceListingInput_location := v\<rparr>)]"

definition MarketplaceListingInput_fromPartial :: "js_any \<Rightarrow> MarketplaceListingInput js_out" where
  "MarketplaceListingInput_fromPartial = f_obj createBaseMarketplaceListingInput
    [f_field (f_first [(''title'', p_string)] '''') (\<lambda>v m. m\<lparr>MarketplaceListingInput_title := v\<rparr>),
     f_field (f_first [(''brand'', p_string)] '''') (\<lambda>v m. m\<lparr>MarketplaceListingInput_brand := v\<rparr>),
     f_field (f_first [(''price'', p_string)] '''') (\<lambda>v m. m\<lparr>MarketplaceListingInput_price := v\<rparr>),
     f_field (f_first [(''currency'', p_string)] '''') (\<lambda>v m. m\<lparr>MarketplaceListingInput_currency := v\<rparr>),
     f_field (f_first [(''description'', p_string)] '''') (\<lambda>v m. m\<lparr>MarketplaceListingInput_description := v\<rparr>),
     f_field (p_array ''hashtags'' p_string) (\<lambda>v m. m\<lparr>MarketplaceListingInput_hashtags := v\<rparr>),
     f_field (f_first [(''category'', p_string)] '''') (\<lambda>v m. m\<lparr>MarketplaceListingInput_category := v\<rparr>),
     f_field (p_array ''photoIds'' p_string) (\<lambda>v m. m\<lparr>MarketplaceListingInput_photoIds := v\<rparr>),
     f_field (f_first [(''location'', \<lambda>x. js_map Some (MarketplaceLocation_fromPartial x))] None) (\<lambda>v m. m\<lparr>MarketplaceListingInput_location := v\<rparr>)]"

definition MarketplaceListingInput_create :: "js_any \<Rightarrow> MarketplaceListingInput js_out" where
  "MarketplaceListingInput_create = create_with MarketplaceListingInput_fromPartial"

definition MarketplaceListingInput_json_ok :: "MarketplaceListingInput \<Rightarrow> bool" where
  "MarketplaceListingInput_json_ok m \<longleftrightarrow> pred_option MarketplaceLocation_json_ok (MarketplaceListingInput_location m)"

lemma MarketplaceListingInput_json:
  assumes ok: "MarketplaceListingInput_json_ok m"
  shows "json_rt MarketplaceListingInput_toJSON MarketplaceListingInput_fromJSON m"
  unfolding json_rt_def
proof (intro allI impI)
  fix J
  assume to: "MarketplaceListingInput_toJSON m = Returned J"
  have d: "distinct ([''title'', ''brand'', ''price'', ''currency'', ''description'', ''hashtags'', ''category'', ''photoIds'', ''location''] @ [''photo_ids''])"
    by code_simp
  note all = t_objD [OF to [unfolded MarketplaceListingInput_toJSON_def] _ d, unfolded t_names, OF refl]
  note N = all [THEN conjunct2, unfolded names_simps]
  have "MarketplaceListingInput_fromJSON J = Returned m"
    unfolding MarketplaceListingInput_fromJSON_def
    by (rule fs_field [OF all [THEN conjunct1]], erule jr_string, rule absent_Nil,
      erule fs_field, erule jr_string, rule absent_Nil,
      erule fs_field, erule jr_string, rule absent_Nil,
      erule fs_field, erule jr_string, rule absent_Nil,
      erule fs_field, erule jr_string, rule absent_Nil,
      erule fs_field, erule jr_strings, assumption, simp only: names_simps,
      erule fs_field, erule jr_string, rule absent_Nil,
      erule fs_field, erule jr_strings, assumption, simp only: N names_simps simp_thms,
      erule fs_field, erule jr_msg, rule absent_Nil, rule MarketplaceLocation_json, (use ok in \<open>fastforce simp: MarketplaceListingInput_json_ok_def list_all_iff\<close>),
      rule f_obj_Nil, cases m, simp add: createBaseMarketplaceListingInput_def)
  with all show "isSet J \<and> MarketplaceListingInput_fromJSON J = Returned m"
    by (simp add: entries_def)
qed

lemma MarketplaceListingInput_toJSON_safe [json_rules]: "to_safe (MarketplaceListingInput_toJSON m)"
  unfolding MarketplaceListingInput_toJSON_def by (intro json_rules)

subsection \<open>MarketplaceListing\<close>

definition MarketplaceListing_toJSON :: "MarketplaceListing \<Rightarrow> js_any js_out" where
  "MarketplaceListing_toJSON m = t_obj (
    [(''id'', t_if (MarketplaceListing_id m \<noteq> '''') (AStr (MarketplaceListing_id m))),
     (''title'', t_if (MarketplaceListing_title m \<noteq> '''') (AStr (MarketplaceListing_title m))),
     (''description'', t_if (MarketplaceListing_description m \<noteq> '''') (AStr (MarketplaceListing_description m))),
     (''price'', t_if (MarketplaceListing_price m \<noteq> '''') (AStr (MarketplaceListing_price m))),
     (''currency'', t_if (MarketplaceListing_currency m \<noteq> '''') (AStr (MarketplaceListing_currency m))),
     (''seller'', t_some (MarketplaceListing_seller m) FacebookUser_toJSON),
     (''location'', t_some (MarketplaceListing_location m) MarketplaceLocation_toJSON),
     (''url'', t_if (MarketplaceListing_url m \<noteq> '''') (AStr (MarketplaceListing_url m))),
     (''createdAt'', t_some (MarketplaceListing_createdAt m) date_json)])"

definition MarketplaceListing_fromJSON :: "js_any \<Rightarrow> MarketplaceListing js_out" where
  "MarketplaceListing_fromJSON = f_obj createBaseMarketplaceListing
    [f_field (f_first [(''id'', js_String)] '''') (\<lambda>v m. m\<lparr>MarketplaceListing_id := v\<rparr>),
     f_field (f_first [(''title'', js_String)] '''') (\<lambda>v m. m\<lparr>MarketplaceListing_title := v\<rparr>),
     f_field (f_first [(''description'', js_String)] '''') (\<lambda>v m. m\<lparr>MarketplaceListing_description := v\<rparr>),
     f_field (f_first [(''price'', js_String)] '''') (\<lambda>v m. m\<lparr>MarketplaceListing_price := v\<rparr>),
     f_field (f_first [(''currency'', js_String)] '''') (\<lambda>v m. m\<lparr>MarketplaceListing_currency := v\<rparr>),
     f_field (f_first [(''seller'', \<lambda>x. js_map Some (FacebookUser_fromJSON x))] None) (\<lambda>v m. m\<lparr>MarketplaceListing_seller := v\<rparr>),
     f_field (f_first [(''location'', \<lambda>x. js_map Some (MarketplaceLocation_fromJSON x))] None) (\<lambda>v m. m\<lparr>MarketplaceListing_location := v\<rparr>),
     f_field (f_first [(''url'', js_String)] '''') (\<lambda>v m. m\<lparr>MarketplaceListing_url := v\<rparr>),
     f_field (f_first [(''createdAt'', \<lambda>x. js_map Some (fromJsonTimestamp x)), (''created_at'', \<lambda>x. js_map Some (fromJsonTimestamp x))] None) (\<lambda>v m. m\<lparr>MarketplaceListing_createdAt := v\<rparr>)]"

definition MarketplaceListing_fromPartial :: "js_any \<Rightarrow> MarketplaceListing js_out" where
  "MarketplaceListing_fromPartial = f_obj createBaseMarketplaceListing
    [f_field (f_first [(''id'', p_string)] '''') (\<lambda>v m. m\<lparr>MarketplaceListing_id := v\<rparr>),
     f_field (f_first [(''title'', p_string)] '''') (\<lambda>v m. m\<lparr>MarketplaceListing_title := v\<rparr>),
     f_field (f_first [(''description'', p_string)] '''') (\<lambda>v m. m\<lparr>MarketplaceListing_description := v\<rparr>),
     f_field (f_first [(''price'', p_string)] '''') (\<lambda>v m. m\<lparr>MarketplaceListing_price := v\<rparr>),
     f_field (f_first [(''currency'', p_string)] '''') (\<lambda>v m. m\<lparr>MarketplaceListing_currency := v\<rparr>),
     f_field (f_first [(''seller'', \<lambda>x. js_map Some (FacebookUser_fromPartial x))] None) (\<lambda>v m. m\<lparr>MarketplaceListing_seller := v\<rparr>),
     f_field (f_first [(''location'', \<lambda>x. js_map Some (MarketplaceLocation_fromPartial x))] None) (\<lambda>v m. m\<lparr>MarketplaceListing_location := v\<rparr>),
     f_field (f_first [(''url'', p_string)] '''') (\<lambda>v m. m\<lparr>MarketplaceListing_url := v\<rparr>),
     f_field (f_first [(''createdAt'', \<lambda>x. js_map Some (p_date x))] None) (\<lambda>v m. m\<lparr>MarketplaceListing_createdAt := v\<rparr>)]"

definition MarketplaceListing_create :: "js_any \<Rightarrow> MarketplaceListing js_out" where
  "MarketplaceListing_create = create_with MarketplaceListing_fromPartial"

definition MarketplaceListing_json_ok :: "MarketplaceListing \<Rightarrow> bool" where
  "MarketplaceListing_json_ok m \<longleftrightarrow> pred_option MarketplaceLocation_json_ok (MarketplaceListing_location m) \<and>
     pred_option js_date_ok (MarketplaceListing_createdAt m)"

lemma MarketplaceListing_json:
  assumes ok: "MarketplaceListing_json_ok m"
  shows "json_rt MarketplaceListing_toJSON MarketplaceListing_fromJSON m"
  unfolding json_rt_def
proof (intro allI impI)
  fix J
  assume to: "MarketplaceListing_toJSON m = Returned J"
  have d: "distinct ([''id'', ''title'', ''description'', ''price'', ''currency'', ''seller'', ''location'', ''url'', ''createdAt''] @ [''created_at''])"
    by code_simp
  note all = t_objD [OF to [unfolded MarketplaceListing_toJSON_def] _ d, unfolded t_names, OF refl]
  note N = all [THEN conjunct2, unfolded names_simps]
  have "MarketplaceListing_fromJSON J = Returned m"
    unfolding MarketplaceListing_fromJSON_def
    by (rule fs_field [OF all [THEN conjunct1]], erule jr_string, rule absent_Nil,
      erule fs_field, erule jr_string, rule absent_Nil,
      erule fs_field, erule jr_string, rule absent_Nil,
      erule fs_field, erule jr_string, rule absent_Nil,
      erule fs_field, erule jr_string, rule absent_Nil,
      erule fs_field, erule jr_msg, rule absent_Nil, rule FacebookUser_json,
      erule fs_field, erule jr_msg, rule absent_Nil, rule MarketplaceLocation_json, (use ok in \<open>fastforce simp: MarketplaceListing_json_ok_def list_all_iff\<close>),
      erule fs_field, erule jr_string, rule absent_Nil,
      erule fs_field, erule jr_date, simp only: N absent_simps simp_thms, (use ok in \<open>fastforce simp: MarketplaceListing_json_ok_def list_all_iff\<close>),
      rule f_obj_Nil, cases m, simp add: createBaseMarketplaceListing_def)
  with all show "isSet J \<and> MarketplaceListing_fromJSON J = Returned m"
    by (simp add: entries_def)
qed

lemma MarketplaceListing_toJSON_safe [json_rules]: "to_safe (MarketplaceListing_toJSON m)"
  unfolding MarketplaceListing_toJSON_def by (intro json_rules)

subsection \<open>FacebookServiceGetUserRequest\<close>

definition FacebookServiceGetUserRequest_toJSON :: "FacebookServiceGetUserRequest \<Rightarrow> js_any js_out" where
  "FacebookServiceGetUserRequest_toJSON m = t_obj (
    [(''sessionId'', t_if (FacebookServiceGetUserRequest_sessionId m \<noteq> '''') (AStr (FacebookServiceGetUserRequest_sessionId m))),
     (''userId'', t_if (FacebookServiceGetUserRequest_userId m \<noteq> '''') (AStr (FacebookServiceGetUserRequest_userId m)))])"

definition FacebookServiceGetUserRequest_fromJSON :: "js_any \<Rightarrow> FacebookServiceGetUserRequest js_out" where
  "FacebookServiceGetUserRequest_fromJSON = f_obj createBaseFacebookServiceGetUserRequest
    [f_field (f_first [(''sessionId'', js_String), (''session_id'', js_String)] '''') (\<lambda>v m. m\<lparr>FacebookServiceGetUserRequest_sessionId := v\<rparr>),
     f_field (f_first [(''userId'', js_String), (''user_id'', js_String)] '''') (\<lambda>v m. m\<lparr>FacebookServiceGetUserRequest_userId := v\<rparr>)]"

definition FacebookServiceGetUserRequest_fromPartial :: "js_any \<Rightarrow> FacebookServiceGetUserRequest js_out" where
  "FacebookServiceGetUserRequest_fromPartial = f_obj createBaseFacebookServiceGetUserRequest
    [f_field (f_first [(''sessionId'', p_string)] '''') (\<lambda>v m. m\<lparr>FacebookServiceGetUserRequest_sessionId := v\<rparr>),
     f_field (f_first [(''userId'', p_string)] '''') (\<lambda>v m. m\<lparr>FacebookServiceGetUserRequest_userId := v\<rparr>)]"

definition FacebookServiceGetUserRequest_create :: "js_any \<Rightarrow> FacebookServiceGetUserRequest js_out" where
  "FacebookServiceGetUserRequest_create = create_with FacebookServiceGetUserRequest_fromPartial"

lemma FacebookServiceGetUserRequest_json:
  "json_rt FacebookServiceGetUserRequest_toJSON FacebookServiceGetUserRequest_fromJSON m"
  unfolding json_rt_def
proof (intro allI impI)
  fix J
  assume to: "FacebookServiceGetUserRequest_toJSON m = Returned J"
  have d: "distinct ([''sessionId'', ''userId''] @ [''session_id'', ''user_id''])"
    by code_simp
  note all = t_objD [OF to [unfolded FacebookServiceGetUserRequest_toJSON_def] _ d, unfolded t_names, OF refl]
  note N = all [THEN conjunct2, unfolded names_simps]
  have "FacebookServiceGetUserRequest_fromJSON J = Returned m"
    unfolding FacebookServiceGetUserRequest_fromJSON_def
    by (rule fs_field [OF all [THEN conjunct1]], erule jr_string, simp only: N absent_simps simp_thms,
      erule fs_field, erule jr_string, simp only: N absent_simps simp_thms,
      rule f_obj_Nil, cases m, simp add: createBaseFacebookServiceGetUserRequest_def)
  with all show "isSet J \<and> FacebookServiceGetUserRequest_fromJSON J = Returned m"
    by (simp add: entries_def)
qed

lemma FacebookServiceGetUserRequest_toJSON_safe [json_rules]: "to_safe (FacebookServiceGetUserRequest_toJSON m)"
  unfolding FacebookServiceGetUserRequest_toJSON_def by (intro json_rules)

subsection \<open>FacebookServiceGetUserResponse\<close>

definition FacebookServiceGetUserResponse_toJSON :: "FacebookServiceGetUserResponse \<Rightarrow> js_any js_out" where
  "FacebookServiceGetUserResponse_toJSON m = t_obj (
    [(''user'', t_some (FacebookServiceGetUserResponse_user m) FacebookUser_toJSON)])"

definition FacebookServiceGetUserResponse_fromJSON :: "js_any \<Rightarrow> FacebookServiceGetUserResponse js_out" where
  "FacebookServiceGetUserResponse_fromJSON = f_obj createBaseFacebookServiceGetUserResponse
    [f_field (f_first [(''user'', \<lambda>x. js_map Some (FacebookUser_fromJSON x))] None) (\<lambda>v m. m\<lparr>FacebookServiceGetUserResponse_user := v\<rparr>)]"

definition FacebookServiceGetUserResponse_fromPartial :: "js_any \<Rightarrow> FacebookServiceGetUserResponse js_out" where
  "FacebookServiceGetUserResponse_fromPartial = f_obj createBaseFacebookServiceGetUserResponse
    [f_field (f_first [(''user'', \<lambda>x. js_map Some (FacebookUser_fromPartial x))] None) (\<lambda>v m. m\<lparr>FacebookServiceGetUserResponse_user := v\<rparr>)]"

definition FacebookServiceGetUserResponse_create :: "js_any \<Rightarrow> FacebookServiceGetUserResponse js_out" where
  "FacebookServiceGetUserResponse_create = create_with FacebookServiceGetUserResponse_fromPartial"

lemma FacebookServiceGetUserResponse_json:
  "json_rt FacebookServiceGetUserResponse_toJSON FacebookServiceGetUserResponse_fromJSON m"
  unfolding json_rt_def
proof (intro allI impI)
  fix J
  assume to: "FacebookServiceGetUserResponse_toJSON m = Returned J"
  have d: "distinct ([''user''] @ [])"
    by code_simp
  note all = t_objD [OF to [unfolded FacebookServiceGetUserResponse_toJSON_def] _ d, unfolded t_names, OF refl]
  have "FacebookServiceGetUserResponse_fromJSON J = Returned m"
    unfolding FacebookServiceGetUserResponse_fromJSON_def
    by (rule fs_field [OF all [THEN conjunct1]], erule jr_msg, rule absent_Nil, rule FacebookUser_json,
      rule f_obj_Nil, cases m, simp add: createBaseFacebookServiceGetUserResponse_def)
  with all show "isSet J \<and> FacebookServiceGetUserResponse_fromJSON J = Returned m"
    by (simp add: entries_def)
qed

lemma FacebookServiceGetUserResponse_toJSON_safe [json_rules]: "to_safe (FacebookServiceGetUserResponse_toJSON m)"
  unfolding FacebookServiceGetUserResponse_toJSON_def by (intro json_rules)

subsection \<open>FacebookServiceSearchRequest\<close>

definition FacebookServiceSearchRequest_toJSON :: "FacebookServiceSearchRequest \<Rightarrow> js_any js_out" where
  "FacebookServiceSearchRequest_toJSON m = t_obj (
    [(''sessionId'', t_if (FacebookServiceSearchRequest_sessionId m \<noteq> '''') (AStr (FacebookServiceSearchRequest_sessionId m))),
     (''query'', t_if (FacebookServiceSearchRequest_query m \<noteq> '''') (AStr (FacebookServiceSearchRequest_query m))),
     (''limit'', t_if (FacebookServiceSearchRequest_limit m \<noteq> 0) (js_int (FacebookServiceSearchRequest_limit m)))])"

definition FacebookServiceSearchRequest_fromJSON :: "js_any \<Rightarrow> FacebookServiceSearchRequest js_out" where
  "FacebookServiceSearchRequest_fromJSON = f_obj createBaseFacebookServiceSearchRequest
    [f_field (f_first [(''sessionId'', js_String), (''session_id'', js_String)] '''') (\<lambda>v m. m\<lparr>FacebookServiceSearchRequest_sessionId := v\<rparr>),
     f_field (f_first [(''query'', js_String)] '''') (\<lambda>v m. m\<lparr>FacebookServiceSearchRequest_query := v\<rparr>),
     f_field (f_first [(''limit'', js_integer)] 0) (\<lambda>v m. m\<lparr>FacebookServiceSearchRequest_limit := v\<rparr>)]"

definition FacebookServiceSearchRequest_fromPartial :: "js_any \<Rightarrow> FacebookServiceSearchRequest js_out" where
  "FacebookServiceSearchRequest_fromPartial = f_obj createBaseFacebookServiceSearchRequest
    [f_field (f_first [(''sessionId'', p_string)] '''') (\<lambda>v m. m\<lparr>FacebookServiceSearchRequest_sessionId := v\<rparr>),
     f_field (f_first [(''query'', p_string)] '''') (\<lambda>v m. m\<lparr>FacebookServiceSearchRequest_query := v\<rparr>),
     f_field (f_first [(''limit'', p_int)] 0) (\<lambda>v m. m\<lparr>FacebookServiceSearchRequest_limit := v\<rparr>)]"

definition FacebookServiceSearchRequest_create :: "js_any \<Rightarrow> FacebookServiceSearchRequest js_out" where
  "FacebookServiceSearchRequest_create = create_with FacebookServiceSearchRequest_fromPartial"

lemma FacebookServiceSearchRequest_json:
  "json_rt FacebookServiceSearchRequest_toJSON FacebookServiceSearchRequest_fromJSON m"
  unfolding json_rt_def
proof (intro allI impI)
  fix J
  assume to: "FacebookServiceSearchRequest_toJSON m = Returned J"
  have d: "distinct ([''sessionId'', ''query'', ''limit''] @ [''session_id''])"
    by code_simp
  note all = t_objD [OF to [unfolded FacebookServiceSearchRequest_toJSON_def] _ d, unfolded t_names, OF refl]
  note N = all [THEN conjunct2, unfolded names_simps]
  have "FacebookServiceSearchRequest_fromJSON J = Returned m"
    unfolding FacebookServiceSearchRequest_fromJSON_def
    by (rule fs_field [OF all [THEN conjunct1]], erule jr_string, simp only: N absent_simps simp_thms,
      erule fs_field, erule jr_string, rule absent_Nil,
      erule fs_field, erule jr_int, rule absent_Nil,
      rule f_obj_Nil, cases m, simp add: createBaseFacebookServiceSearchRequest_def)
  with all show "isSet J \<and> FacebookServiceSearchRequest_fromJSON J = Returned m"
    by (simp add: entries_def)
qed

lemma FacebookServiceSearchRequest_toJSON_safe [json_rules]: "to_safe (FacebookServiceSearchRequest_toJSON m)"
  unfolding FacebookServiceSearchRequest_toJSON_def by (intro json_rules)

subsection \<open>FacebookServiceSearchResponse\<close>

definition FacebookServiceSearchResponse_toJSON :: "FacebookServiceSearchResponse \<Rightarrow> js_any js_out" where
  "FacebookServiceSearchResponse_toJSON m = t_obj (
    [(''results'', t_list (FacebookServiceSearchResponse_results m) FacebookSearchResult_toJSON)])"

definition FacebookServiceSearchResponse_fromJSON :: "js_any \<Rightarrow> FacebookServiceSearchResponse js_out" where
  "FacebookServiceSearchResponse_fromJSON = f_obj createBaseFacebookServiceSearchResponse
    [f_field (f_array [''results''] FacebookSearchResult_fromJSON) (\<lambda>v m. m\<lparr>FacebookServiceSearchResponse_results := v\<rparr>)]"

definition FacebookServiceSearchResponse_fromPartial :: "js_any \<Rightarrow> FacebookServiceSearchResponse js_out" where
  "FacebookServiceSearchResponse_fromPartial = f_obj createBaseFacebookServiceSearchResponse
    [f_field (p_array ''results'' FacebookSearchResult_fromPartial) (\<lambda>v m. m\<lparr>FacebookServiceSearchResponse_results := v\<rparr>)]"

definition FacebookServiceSearchResponse_create :: "js_any \<Rightarrow> FacebookServiceSearchResponse js_out" where
  "FacebookServiceSearchResponse_create = create_with FacebookServiceSearchResponse_fromPartial"

lemma FacebookServiceSearchResponse_json:
  "json_rt FacebookServiceSearchResponse_toJSON FacebookServiceSearchResponse_fromJSON m"
  unfolding json_rt_def
proof (intro allI impI)
  fix J
  assume to: "FacebookServiceSearchResponse_toJSON m = Returned J"
  have d: "distinct ([''results''] @ [])"
    by code_simp
  note all = t_objD [OF to [unfolded FacebookServiceSearchResponse_toJSON_def] _ d, unfolded t_names, OF refl]
  have "FacebookServiceSearchResponse_fromJSON J = Returned m"
    unfolding FacebookServiceSearchResponse_fromJSON_def
    by (rule fs_field [OF all [THEN conjunct1]], erule jr_list, assumption, simp only: names_simps, rule FacebookSearchResult_json,
      rule f_obj_Nil, cases m, simp add: createBaseFacebookServiceSearchResponse_def)
  with all show "isSet J \<and> FacebookServiceSearchResponse_fromJSON J = Returned m"
    by (simp add: entries_def)
qed

lemma FacebookServiceSearchResponse_toJSON_safe [json_rules]: "to_safe (FacebookServiceSearchResponse_toJSON m)"
  unfolding FacebookServiceSearchResponse_toJSON_def by (intro json_rules)

subsection \<open>FacebookServiceListNotificationsRequest\<close>

definition FacebookServiceListNotificationsRequest_toJSON :: "FacebookServiceListNotificationsRequest \<Rightarrow> js_any js_out" where
  "FacebookServiceListNotificationsRequest_toJSON m = t_obj (
    [(''sessionId'', t_if (FacebookServiceListNotificationsRequest_sessionId m \<noteq> '''') (AStr (FacebookServiceListNotificationsRequest_sessionId m))),
     (''limit'', t_if (FacebookServiceListNotificationsRequest_limit m \<noteq> 0) (js_int (FacebookServiceListNotificationsRequest_limit m)))])"

definition FacebookServiceListNotificationsRequest_fromJSON :: "js_any \<Rightarrow> FacebookServiceListNotificationsRequest js_out" where
  "FacebookServiceListNotificationsRequest_fromJSON = f_obj createBaseFacebookServiceListNotificationsRequest
    [f_field (f_first [(''sessionId'', js_String), (''session_id'', js_String)] '''') (\<lambda>v m. m\<lparr>FacebookServiceListNotificationsRequest_sessionId := v\<rparr>),
     f_field (f_first [(''limit'', js_integer)] 0) (\<lambda>v m. m\<lparr>FacebookServiceListNotificationsRequest_limit := v\<rparr>)]"

definition FacebookServiceListNotificationsRequest_fromPartial :: "js_any \<Rightarrow> FacebookServiceListNotificationsRequest js_out" where
  "FacebookServiceListNotificationsRequest_fromPartial = f_obj createBaseFacebookServiceListNotificationsRequest
    [f_field (f_first [(''sessionId'', p_string)] '''') (\<lambda>v m. m\<lparr>FacebookServiceListNotificationsRequest_sessionId := v\<rparr>),
     f_field (f_first [(''limit'', p_int)] 0) (\<lambda>v m. m\<lparr>FacebookServiceListNotificationsRequest_limit := v\<rparr>)]"

definition FacebookServiceListNotificationsRequest_create :: "js_any \<Rightarrow> FacebookServiceListNotificationsRequest js_out" where
  "FacebookServiceListNotificationsRequest_create = create_with FacebookServiceListNotificationsRequest_fromPartial"

lemma FacebookServiceListNotificationsRequest_json:
  "json_rt FacebookServiceListNotificationsRequest_toJSON FacebookServiceListNotificationsRequest_fromJSON m"
  unfolding json_rt_def
proof (intro allI impI)
  fix J
  assume to: "FacebookServiceListNotificationsRequest_toJSON m = Returned J"
  have d: "distinct ([''sessionId'', ''limit''] @ [''session_id''])"
    by code_simp
  note all = t_objD [OF to [unfolded FacebookServiceListNotificationsRequest_toJSON_def] _ d, unfolded t_names, OF refl]
  note N = all [THEN conjunct2, unfolded names_simps]
  have "FacebookServiceListNotificationsRequest_fromJSON J = Returned m"
    unfolding FacebookServiceListNotificationsRequest_fromJSON_def
    by (rule fs_field [OF all [THEN conjunct1]], erule jr_string, simp only: N absent_simps simp_thms,
      erule fs_field, erule jr_int, rule absent_Nil,
      rule f_obj_Nil, cases m, simp add: createBaseFacebookServiceListNotificationsRequest_def)
  with all show "isSet J \<and> FacebookServiceListNotificationsRequest_fromJSON J = Returned m"
    by (simp add: entries_def)
qed

lemma FacebookServiceListNotificationsRequest_toJSON_safe [json_rules]: "to_safe (FacebookServiceListNotificationsRequest_toJSON m)"
  unfolding FacebookServiceListNotificationsRequest_toJSON_def by (intro json_rules)

subsection \<open>FacebookServiceListNotificationsResponse\<close>

definition FacebookServiceListNotificationsResponse_toJSON :: "FacebookServiceListNotificationsResponse \<Rightarrow> js_any js_out" where
  "FacebookServiceListNotificationsResponse_toJSON m = t_obj (
    [(''notifications'', t_list (FacebookServiceListNotificationsResponse_notifications m) FacebookNotification_toJSON)])"

definition FacebookServiceListNotificationsResponse_fromJSON :: "js_any \<Rightarrow> FacebookServiceListNotificationsResponse js_out" where
  "FacebookServiceListNotificationsResponse_fromJSON = f_obj createBaseFacebookServiceListNotificationsResponse
    [f_field (f_array [''notifications''] FacebookNotification_fromJSON) (\<lambda>v m. m\<lparr>FacebookServiceListNotificationsResponse_notifications := v\<rparr>)]"

definition FacebookServiceListNotificationsResponse_fromPartial :: "js_any \<Rightarrow> FacebookServiceListNotificationsResponse js_out" where
  "FacebookServiceListNotificationsResponse_fromPartial = f_obj createBaseFacebookServiceListNotificationsResponse
    [f_field (p_array ''notifications'' FacebookNotification_fromPartial) (\<lambda>v m. m\<lparr>FacebookServiceListNotificationsResponse_notifications := v\<rparr>)]"

definition FacebookServiceListNotificationsResponse_create :: "js_any \<Rightarrow> FacebookServiceListNotificationsResponse js_out" where
  "FacebookServiceListNotificationsResponse_create = create_with FacebookServiceListNotificationsResponse_fromPartial"

definition FacebookServiceListNotificationsResponse_json_ok :: "FacebookServiceListNotificationsResponse \<Rightarrow> bool" where
  "FacebookServiceListNotificationsResponse_json_ok m \<longleftrightarrow> list_all FacebookNotification_json_ok (FacebookServiceListNotificationsResponse_notifications m)"

lemma FacebookServiceListNotificationsResponse_json:
  assumes ok: "FacebookServiceListNotificationsResponse_json_ok m"
  shows "json_rt FacebookServiceListNotificationsResponse_toJSON FacebookServiceListNotificationsResponse_fromJSON m"
  unfolding json_rt_def
proof (intro allI impI)
  fix J
  assume to: "FacebookServiceListNotificationsResponse_toJSON m = Returned J"
  have d: "distinct ([''notifications''] @ [])"
    by code_simp
  note all = t_objD [OF to [unfolded FacebookServiceListNotificationsResponse_toJSON_def] _ d, unfolded t_names, OF refl]
  have "FacebookServiceListNotificationsResponse_fromJSON J = Returned m"
    unfolding FacebookServiceListNotificationsResponse_fromJSON_def
    by (rule fs_field [OF all [THEN conjunct1]], erule jr_list, assumption, simp only: names_simps, rule FacebookNotification_json, (use ok in \<open>fastforce simp: FacebookServiceListNotificationsResponse_json_ok_def list_all_iff\<close>),
      rule f_obj_Nil, cases m, simp add: createBaseFacebookServiceListNotificationsResponse_def)
  with all show "isSet J \<and> FacebookServiceListNotificationsResponse_fromJSON J = Returned m"
    by (simp add: entries_def)
qed

lemma FacebookServiceListNotificationsResponse_toJSON_safe [json_rules]: "to_safe (FacebookServiceListNotificationsResponse_toJSON m)"
  unfolding FacebookServiceListNotificationsResponse_toJSON_def by (intro json_rules)

subsection \<open>FacebookServiceSetBioRequest\<close>

definition FacebookServiceSetBioRequest_toJSON :: "FacebookServiceSetBioRequest \<Rightarrow> js_any js_out" where
  "FacebookServiceSetBioRequest_toJSON m = t_obj (
    [(''sessionId'', t_if (FacebookServiceSetBioRequest_sessionId m \<noteq> '''') (AStr (FacebookServiceSetBioRequest_sessionId m))),
     (''bio'', t_if (FacebookServiceSetBioRequest_bio m \<noteq> '''') (AStr (FacebookServiceSetBioRequest_bio m))),
     (''publishFeedStory'', t_if (FacebookServiceSetBioRequest_publishFeedStory m \<noteq> False) (ABool (FacebookServiceSetBioRequest_publishFeedStory m)))])"

definition FacebookServiceSetBioRequest_fromJSON :: "js_any \<Rightarrow> FacebookServiceSetBioRequest js_out" where
  "FacebookServiceSetBioRequest_fromJSON = f_obj createBaseFacebookServiceSetBioRequest
    [f_field (f_first [(''sessionId'', js_String), (''session_id'', js_String)] '''') (\<lambda>v m. m\<lparr>FacebookServiceSetBioRequest_sessionId := v\<rparr>),
     f_field (f_first [(''bio'', js_String)] '''') (\<lambda>v m. m\<lparr>FacebookServiceSetBioRequest_bio := v\<rparr>),
     f_field (f_first [(''publishFeedStory'', \<lambda>x. Returned (js_Boolean x)), (''publish_feed_story'', \<lambda>x. Returned (js_Boolean x))] False) (\<lambda>v m. m\<lparr>FacebookServiceSetBioRequest_publishFeedStory := v\<rparr>)]"

definition FacebookServiceSetBioRequest_fromPartial :: "js_any \<Rightarrow> FacebookServiceSetBioRequest js_out" where
  "FacebookServiceSetBioRequest_fromPartial = f_obj createBaseFacebookServiceSetBioRequest
    [f_field (f_first [(''sessionId'', p_string)] '''') (\<lambda>v m. m\<lparr>FacebookServiceSetBioRequest_sessionId := v\<rparr>),
     f_field (f_first [(''bio'', p_string)] '''') (\<lambda>v m. m\<lparr>FacebookServiceSetBioRequest_bio := v\<rparr>),
     f_field (f_first [(''publishFeedStory'', p_bool)] False) (\<lambda>v m. m\<lparr>FacebookServiceSetBioRequest_publishFeedStory := v\<rparr>)]"

definition FacebookServiceSetBioRequest_create :: "js_any \<Rightarrow> FacebookServiceSetBioRequest js_out" where
  "FacebookServiceSetBioRequest_create = create_with FacebookServiceSetBioRequest_fromPartial"

lemma FacebookServiceSetBioRequest_json:
  "json_rt FacebookServiceSetBioRequest_toJSON FacebookServiceSetBioRequest_fromJSON m"
  unfolding json_rt_def
proof (intro allI impI)
  fix J
  assume to: "FacebookServiceSetBioRequest_toJSON m = Returned J"
  have d: "distinct ([''sessionId'', ''bio'', ''publishFeedStory''] @ [''session_id'', ''publish_feed_story''])"
    by code_simp
  note all = t_objD [OF to [unfolded FacebookServiceSetBioRequest_toJSON_def] _ d, unfolded t_names, OF refl]
  note N = all [THEN conjunct2, unfolded names_simps]
  have "FacebookServiceSetBioRequest_fromJSON J = Returned m"
    unfolding FacebookServiceSetBioRequest_fromJSON_def
    by (rule fs_field [OF all [THEN conjunct1]], erule jr_string, simp only: N absent_simps simp_thms,
      erule fs_field, erule jr_string, rule absent_Nil,
      erule fs_field, erule jr_bool, simp only: N absent_simps simp_thms,
      rule f_obj_Nil, cases m, simp add: createBaseFacebookServiceSetBioRequest_def)
  with all show "isSet J \<and> FacebookServiceSetBioRequest_fromJSON J = Returned m"
    by (simp add: entries_def)
qed

lemma FacebookServiceSetBioRequest_toJSON_safe [json_rules]: "to_safe (FacebookServiceSetBioRequest_toJSON m)"
  unfolding FacebookServiceSetBioRequest_toJSON_def by (intro json_rules)

subsection \<open>FacebookServiceSetBioResponse\<close>

definition FacebookServiceSetBioResponse_toJSON :: "FacebookServiceSetBioResponse \<Rightarrow> js_any js_out" where
  "FacebookServiceSetBioResponse_toJSON m = t_obj ([])"

definition FacebookServiceSetBioResponse_fromJSON :: "js_any \<Rightarrow> FacebookServiceSetBioResponse js_out" where
  "FacebookServiceSetBioResponse_fromJSON = f_obj createBaseFacebookServiceSetBioResponse
    []"

definition FacebookServiceSetBioResponse_fromPartial :: "js_any \<Rightarrow> FacebookServiceSetBioResponse js_out" where
  "FacebookServiceSetBioResponse_fromPartial = f_obj createBaseFacebookServiceSetBioResponse
    []"

definition FacebookServiceSetBioResponse_create :: "js_any \<Rightarrow> FacebookServiceSetBioResponse js_out" where
  "FacebookServiceSetBioResponse_create = create_with FacebookServiceSetBioResponse_fromPartial"

lemma FacebookServiceSetBioResponse_json:
  "json_rt FacebookServiceSetBioResponse_toJSON FacebookServiceSetBioResponse_fromJSON m"
  unfolding json_rt_def
proof (intro allI impI)
  fix J
  assume to: "FacebookServiceSetBioResponse_toJSON m = Returned J"
  have d: "distinct (([] :: string list) @ [])"
    by simp
  note all = t_objD [OF to [unfolded FacebookServiceSetBioResponse_toJSON_def] _ d, unfolded t_names, OF refl]
  have "FacebookServiceSetBioResponse_fromJSON J = Returned m"
    unfolding FacebookServiceSetBioResponse_fromJSON_def
    by (rule f_obj_Nil, cases m, simp add: createBaseFacebookServiceSetBioResponse_def)
  with all show "isSet J \<and> FacebookServiceSetBioResponse_fromJSON J = Returned m"
    by (simp add: entries_def)
qed

lemma FacebookServiceSetBioResponse_toJSON_safe [json_rules]: "to_safe (FacebookServiceSetBioResponse_toJSON m)"
  unfolding FacebookServiceSetBioResponse_toJSON_def by (intro json_rules)

subsection \<open>FacebookServiceCreateAdditionalProfileRequest\<close>

definition FacebookServiceCreateAdditionalProfileRequest_toJSON :: "FacebookServiceCreateAdditionalProfileRequest \<Rightarrow> js_any js_out" where
  "FacebookServiceCreateAdditionalProfileRequest_toJSON m = t_obj (
    [(''sessionId'', t_if (FacebookServiceCreateAdditionalProfileRequest_sessionId m \<noteq> '''') (AStr (FacebookServiceCreateAdditionalProfileRequest_sessionId m))),
     (''name'', t_if (FacebookServiceCreateAdditionalProfileRequest_name m \<noteq> '''') (AStr (FacebookServiceCreateAdditionalProfileRequest_name m))),
     (''username'', t_if (FacebookServiceCreateAdditionalProfileRequest_username m \<noteq> '''') (AStr (FacebookServiceCreateAdditionalProfileRequest_username m)))])"

definition FacebookServiceCreateAdditionalProfileRequest_fromJSON :: "js_any \<Rightarrow> FacebookServiceCreateAdditionalProfileRequest js_out" where
  "FacebookServiceCreateAdditionalProfileRequest_fromJSON = f_obj createBaseFacebookServiceCreateAdditionalProfileRequest
    [f_field (f_first [(''sessionId'', js_String), (''session_id'', js_String)] '''') (\<lambda>v m. m\<lparr>FacebookServiceCreateAdditionalProfileRequest_sessionId := v\<rparr>),
     f_field (f_first [(''name'', js_String)] '''') (\<lambda>v m. m\<lparr>FacebookServiceCreateAdditionalProfileRequest_name := v\<rparr>),
     f_field (f_first [(''username'', js_String)] '''') (\<lambda>v m. m\<lparr>FacebookServiceCreateAdditionalProfileRequest_username := v\<rparr>)]"

definition FacebookServiceCreateAdditionalProfileRequest_fromPartial :: "js_any \<Rightarrow> FacebookServiceCreateAdditionalProfileRequest js_out" where
  "FacebookServiceCreateAdditionalProfileRequest_fromPartial = f_obj createBaseFacebookServiceCreateAdditionalProfileRequest
    [f_field (f_first [(''sessionId'', p_string)] '''') (\<lambda>v m. m\<lparr>FacebookServiceCreateAdditionalProfileRequest_sessionId := v\<rparr>),
     f_field (f_first [(''name'', p_string)] '''') (\<lambda>v m. m\<lparr>FacebookServiceCreateAdditionalProfileRequest_name := v\<rparr>),
     f_field (f_first [(''username'', p_string)] '''') (\<lambda>v m. m\<lparr>FacebookServiceCreateAdditionalProfileRequest_username := v\<rparr>)]"

definition FacebookServiceCreateAdditionalProfileRequest_create :: "js_any \<Rightarrow> FacebookServiceCreateAdditionalProfileRequest js_out" where
  "FacebookServiceCreateAdditionalProfileRequest_create = create_with FacebookServiceCreateAdditionalProfileRequest_fromPartial"

lemma FacebookServiceCreateAdditionalProfileRequest_json:
  "json_rt FacebookServiceCreateAdditionalProfileRequest_toJSON FacebookServiceCreateAdditionalProfileRequest_fromJSON m"
  unfolding json_rt_def
proof (intro allI impI)
  fix J
  assume to: "FacebookServiceCreateAdditionalProfileRequest_toJSON m = Returned J"
  have d: "distinct ([''sessionId'', ''name'', ''username''] @ [''session_id''])"
    by code_simp
  note all = t_objD [OF to [unfolded FacebookServiceCreateAdditionalProfileRequest_toJSON_def] _ d, unfolded t_names, OF refl]
  note N = all [THEN conjunct2, unfolded names_simps]
  have "FacebookServiceCreateAdditionalProfileRequest_fromJSON J = Returned m"
    unfolding FacebookServiceCreateAdditionalProfileRequest_fromJSON_def
    by (rule fs_field [OF all [THEN conjunct1]], erule jr_string, simp only: N absent_simps simp_thms,
      erule fs_field, erule jr_string, rule absent_Nil,
      erule fs_field, erule jr_string, rule absent_Nil,
      rule f_obj_Nil, cases m, simp add: createBaseFacebookServiceCreateAdditionalProfileRequest_def)
  with all show "isSet J \<and> FacebookServiceCreateAdditionalProfileRequest_fromJSON J = Returned m"
    by (simp add: entries_def)
qed

lemma FacebookServiceCreateAdditionalProfileRequest_toJSON_safe [json_rules]: "to_safe (FacebookServiceCreateAdditionalProfileRequest_toJSON m)"
  unfolding FacebookServiceCreateAdditionalProfileRequest_toJSON_def by (intro json_rules)

subsection \<open>FacebookServiceCreateAdditionalProfileResponse\<close>

definition FacebookServiceCreateAdditionalProfileResponse_toJSON :: "FacebookServiceCreateAdditionalProfileResponse \<Rightarrow> js_any js_out" where
  "FacebookServiceCreateAdditionalProfileResponse_toJSON m = t_obj ([])"

definition FacebookServiceCreateAdditionalProfileResponse_fromJSON :: "js_any \<Rightarrow> FacebookServiceCreateAdditionalProfileResponse js_out" where
  "FacebookServiceCreateAdditionalProfileResponse_fromJSON = f_obj createBaseFacebookServiceCreateAdditionalProfileResponse
    []"

definition FacebookServiceCreateAdditionalProfileResponse_fromPartial :: "js_any \<Rightarrow> FacebookServiceCreateAdditionalProfileResponse js_out" where
  "FacebookServiceCreateAdditionalProfileResponse_fromPartial = f_obj createBaseFacebookServiceCreateAdditionalProfileResponse
    []"

definition FacebookServiceCreateAdditionalProfileResponse_create :: "js_any \<Rightarrow> FacebookServiceCreateAdditionalProfileResponse js_out" where
  "FacebookServiceCreateAdditionalProfileResponse_create = create_with FacebookServiceCreateAdditionalProfileResponse_fromPartial"

lemma FacebookServiceCreateAdditionalProfileResponse_json:
  "json_rt FacebookServiceCreateAdditionalProfileResponse_toJSON FacebookServiceCreateAdditionalProfileResponse_fromJSON m"
  unfolding json_rt_def
proof (intro allI impI)
  fix J
  assume to: "FacebookServiceCreateAdditionalProfileResponse_toJSON m = Returned J"
  have d: "distinct (([] :: string list) @ [])"
    by simp
  note all = t_objD [OF to [unfolded FacebookServiceCreateAdditionalProfileResponse_toJSON_def] _ d, unfolded t_names, OF refl]
  have "FacebookServiceCreateAdditionalProfileResponse_fromJSON J = Returned m"
    unfolding FacebookServiceCreateAdditionalProfileResponse_fromJSON_def
    by (rule f_obj_Nil, cases m, simp add: createBaseFacebookServiceCreateAdditionalProfileResponse_def)
  with all show "isSet J \<and> FacebookServiceCreateAdditionalProfileResponse_fromJSON J = Returned m"
    by (simp add: entries_def)
qed

lemma FacebookServiceCreateAdditionalProfileResponse_toJSON_safe [json_rules]: "to_safe (FacebookServiceCreateAdditionalProfileResponse_toJSON m)"
  unfolding FacebookServiceCreateAdditionalProfileResponse_toJSON_def by (intro json_rules)

subsection \<open>FacebookServiceUnfriendRequest\<close>

definition FacebookServiceUnfriendRequest_toJSON :: "FacebookServiceUnfriendRequest \<Rightarrow> js_any js_out" where
  "FacebookServiceUnfriendRequest_toJSON m = t_obj (
    [(''sessionId'', t_if (FacebookServiceUnfriendRequest_sessionId m \<noteq> '''') (AStr (FacebookServiceUnfriendRequest_sessionId m))),
     (''userId'', t_if (FacebookServiceUnfriendRequest_userId m \<noteq> '''') (AStr (FacebookServiceUnfriendRequest_userId m)))])"

definition FacebookServiceUnfriendRequest_fromJSON :: "js_any \<Rightarrow> FacebookServiceUnfriendRequest js_out" where
  "FacebookServiceUnfriendRequest_fromJSON = f_obj createBaseFacebookServiceUnfriendRequest
    [f_field (f_first [(''sessionId'', js_String), (''session_id'', js_String)] '''') (\<lambda>v m. m\<lparr>FacebookServiceUnfriendRequest_sessionId := v\<rparr>),
     f_field (f_first [(''userId'', js_String), (''user_id'', js_String)] '''') (\<lambda>v m. m\<lparr>FacebookServiceUnfriendRequest_userId := v\<rparr>)]"

definition FacebookServiceUnfriendRequest_fromPartial :: "js_any \<Rightarrow> FacebookServiceUnfriendRequest js_out" where
  "FacebookServiceUnfriendRequest_fromPartial = f_obj createBaseFacebookServiceUnfriendRequest
    [f_field (f_first [(''sessionId'', p_string)] '''') (\<lambda>v m. m\<lparr>FacebookServiceUnfriendRequest_sessionId := v\<rparr>),
     f_field (f_first [(''userId'', p_string)] '''') (\<lambda>v m. m\<lparr>FacebookServiceUnfriendRequest_userId := v\<rparr>)]"

definition FacebookServiceUnfriendRequest_create :: "js_any \<Rightarrow> FacebookServiceUnfriendRequest js_out" where
  "FacebookServiceUnfriendRequest_create = create_with FacebookServiceUnfriendRequest_fromPartial"

lemma FacebookServiceUnfriendRequest_json:
  "json_rt FacebookServiceUnfriendRequest_toJSON FacebookServiceUnfriendRequest_fromJSON m"
  unfolding json_rt_def
proof (intro allI impI)
  fix J
  assume to: "FacebookServiceUnfriendRequest_toJSON m = Returned J"
  have d: "distinct ([''sessionId'', ''userId''] @ [''session_id'', ''user_id''])"
    by code_simp
  note all = t_objD [OF to [unfolded FacebookServiceUnfriendRequest_toJSON_def] _ d, unfolded t_names, OF refl]
  note N = all [THEN conjunct2, unfolded names_simps]
  have "FacebookServiceUnfriendRequest_fromJSON J = Returned m"
    unfolding FacebookServiceUnfriendRequest_fromJSON_def
    by (rule fs_field [OF all [THEN conjunct1]], erule jr_string, simp only: N absent_simps simp_thms,
      erule fs_field, erule jr_string, simp only: N absent_simps simp_thms,
      rule f_obj_Nil, cases m, simp add: createBaseFacebookServiceUnfriendRequest_def)
  with all show "isSet J \<and> FacebookServiceUnfriendRequest_fromJSON J = Returned m"
    by (simp add: entries_def)
qed

lemma FacebookServiceUnfriendRequest_toJSON_safe [json_rules]: "to_safe (FacebookServiceUnfriendRequest_toJSON m)"
  unfolding FacebookServiceUnfriendRequest_toJSON_def by (intro json_rules)

subsection \<open>FacebookServiceUnfriendResponse\<close>

definition FacebookServiceUnfriendResponse_toJSON :: "FacebookServiceUnfriendResponse \<Rightarrow> js_any js_out" where
  "FacebookServiceUnfriendResponse_toJSON m = t_obj ([])"

definition FacebookServiceUnfriendResponse_fromJSON :: "js_any \<Rightarrow> FacebookServiceUnfriendResponse js_out" where
  "FacebookServiceUnfriendResponse_fromJSON = f_obj createBaseFacebookServiceUnfriendResponse
    []"

definition FacebookServiceUnfriendResponse_fromPartial :: "js_any \<Rightarrow> FacebookServiceUnfriendResponse js_out" where
  "FacebookServiceUnfriendResponse_fromPartial = f_obj createBaseFacebookServiceUnfriendResponse
    []"

definition FacebookServiceUnfriendResponse_create :: "js_any \<Rightarrow> FacebookServiceUnfriendResponse js_out" where
  "FacebookServiceUnfriendResponse_create = create_with FacebookServiceUnfriendResponse_fromPartial"

lemma FacebookServiceUnfriendResponse_json:
  "json_rt FacebookServiceUnfriendResponse_toJSON FacebookServiceUnfriendResponse_fromJSON m"
  unfolding json_rt_def
proof (intro allI impI)
  fix J
  assume to: "FacebookServiceUnfriendResponse_toJSON m = Returned J"
  have d: "distinct (([] :: string list) @ [])"
    by simp
  note all = t_objD [OF to [unfolded FacebookServiceUnfriendResponse_toJSON_def] _ d, unfolded t_names, OF refl]
  have "FacebookServiceUnfriendResponse_fromJSON J = Returned m"
    unfolding FacebookServiceUnfriendResponse_fromJSON_def
    by (rule f_obj_Nil, cases m, simp add: createBaseFacebookServiceUnfriendResponse_def)
  with all show "isSet J \<and> FacebookServiceUnfriendResponse_fromJSON J = Returned m"
    by (simp add: entries_def)
qed

lemma FacebookServiceUnfriendResponse_toJSON_safe [json_rules]: "to_safe (FacebookServiceUnfriendResponse_toJSON m)"
  unfolding FacebookServiceUnfriendResponse_toJSON_def by (intro json_rules)

subsection \<open>FacebookServiceSetBlockedRequest\<close>

definition FacebookServiceSetBlockedRequest_toJSON :: "FacebookServiceSetBlockedRequest \<Rightarrow> js_any js_out" where
  "FacebookServiceSetBlockedRequest_toJSON m = t_obj (
    [(''sessionId'', t_if (FacebookServiceSetBlockedRequest_sessionId m \<noteq> '''') (AStr (FacebookServiceSetBlockedRequest_sessionId m))),
     (''userId'', t_if (FacebookServiceSetBlockedRequest_userId m \<noteq> '''') (AStr (FacebookServiceSetBlockedRequest_userId m))),
     (''blocked'', t_if (FacebookServiceSetBlockedRequest_blocked m \<noteq> False) (ABool (FacebookServiceSetBlockedRequest_blocked m)))])"

definition FacebookServiceSetBlockedRequest_fromJSON :: "js_any \<Rightarrow> FacebookServiceSetBlockedRequest js_out" where
  "FacebookServiceSetBlockedRequest_fromJSON = f_obj createBaseFacebookServiceSetBlockedRequest
    [f_field (f_first [(''sessionId'', js_String), (''session_id'', js_String)] '''') (\<lambda>v m. m\<lparr>FacebookServiceSetBlockedRequest_sessionId := v\<rparr>),
     f_field (f_first [(''userId'', js_String), (''user_id'', js_String)] '''') (\<lambda>v m. m\<lparr>FacebookServiceSetBlockedRequest_userId := v\<rparr>),
     f_field (f_first [(''blocked'', \<lambda>x. Returned (js_Boolean x))] False) (\<lambda>v m. m\<lparr>FacebookServiceSetBlockedRequest_blocked := v\<rparr>)]"

definition FacebookServiceSetBlockedRequest_fromPartial :: "js_any \<Rightarrow> FacebookServiceSetBlockedRequest js_out" where
  "FacebookServiceSetBlockedRequest_fromPartial = f_obj createBaseFacebookServiceSetBlockedRequest
    [f_field (f_first [(''sessionId'', p_string)] '''') (\<lambda>v m. m\<lparr>FacebookServiceSetBlockedRequest_sessionId := v\<rparr>),
     f_field (f_first [(''userId'', p_string)] '''') (\<lambda>v m. m\<lparr>FacebookServiceSetBlockedRequest_userId := v\<rparr>),
     f_field (f_first [(''blocked'', p_bool)] False) (\<lambda>v m. m\<lparr>FacebookServiceSetBlockedRequest_blocked := v\<rparr>)]"

definition FacebookServiceSetBlockedRequest_create :: "js_any \<Rightarrow> FacebookServiceSetBlockedRequest js_out" where
  "FacebookServiceSetBlockedRequest_create = create_with FacebookServiceSetBlockedRequest_fromPartial"

lemma FacebookServiceSetBlockedRequest_json:
  "json_rt FacebookServiceSetBlockedRequest_toJSON FacebookServiceSetBlockedRequest_fromJSON m"
  unfolding json_rt_def
proof (intro allI impI)
  fix J
  assume to: "FacebookServiceSetBlockedRequest_toJSON m = Returned J"
  have d: "distinct ([''sessionId'', ''userId'', ''blocked''] @ [''session_id'', ''user_id''])"
    by code_simp
  note all = t_objD [OF to [unfolded FacebookServiceSetBlockedRequest_toJSON_def] _ d, unfolded t_names, OF refl]
  note N = all [THEN conjunct2, unfolded names_simps]
  have "FacebookServiceSetBlockedRequest_fromJSON J = Returned m"
    unfolding FacebookServiceSetBlockedRequest_fromJSON_def
    by (rule fs_field [OF all [THEN conjunct1]], erule jr_string, simp only: N absent_simps simp_thms,
      erule fs_field, erule jr_string, simp only: N absent_simps simp_thms,
      erule fs_field, erule jr_bool, rule absent_Nil,
      rule f_obj_Nil, cases m, simp add: createBaseFacebookServiceSetBlockedRequest_def)
  with all show "isSet J \<and> FacebookServiceSetBlockedRequest_fromJSON J = Returned m"
    by (simp add: entries_def)
qed

lemma FacebookServiceSetBlockedRequest_toJSON_safe [json_rules]: "to_safe (FacebookServiceSetBlockedRequest_toJSON m)"
  unfolding FacebookServiceSetBlockedRequest_toJSON_def by (intro json_rules)

subsection \<open>FacebookServiceSetBlockedResponse\<close>

definition FacebookServiceSetBlockedResponse_toJSON :: "FacebookServiceSetBlockedResponse \<Rightarrow> js_any js_out" where
  "FacebookServiceSetBlockedResponse_toJSON m = t_obj ([])"

definition FacebookServiceSetBlockedResponse_fromJSON :: "js_any \<Rightarrow> FacebookServiceSetBlockedResponse js_out" where
  "FacebookServiceSetBlockedResponse_fromJSON = f_obj createBaseFacebookServiceSetBlockedResponse
    []"

definition FacebookServiceSetBlockedResponse_fromPartial :: "js_any \<Rightarrow> FacebookServiceSetBlockedResponse js_out" where
  "FacebookServiceSetBlockedResponse_fromPartial = f_obj createBaseFacebookServiceSetBlockedResponse
    []"

definition FacebookServiceSetBlockedResponse_create :: "js_any \<Rightarrow> FacebookServiceSetBlockedResponse js_out" where
  "FacebookServiceSetBlockedResponse_create = create_with FacebookServiceSetBlockedResponse_fromPartial"

lemma FacebookServiceSetBlockedResponse_json:
  "json_rt FacebookServiceSetBlockedResponse_toJSON FacebookServiceSetBlockedResponse_fromJSON m"
  unfolding json_rt_def
proof (intro allI impI)
  fix J
  assume to: "FacebookServiceSetBlockedResponse_toJSON m = Returned J"
  have d: "distinct (([] :: string list) @ [])"
    by simp
  note all = t_objD [OF to [unfolded FacebookServiceSetBlockedResponse_toJSON_def] _ d, unfolded t_names, OF refl]
  have "FacebookServiceSetBlockedResponse_fromJSON J = Returned m"
    unfolding FacebookServiceSetBlockedResponse_fromJSON_def
    by (rule f_obj_Nil, cases m, simp add: createBaseFacebookServiceSetBlockedResponse_def)
  with all show "isSet J \<and> FacebookServiceSetBlockedResponse_fromJSON J = Returned m"
    by (simp add: entries_def)
qed

lemma FacebookServiceSetBlockedResponse_toJSON_safe [json_rules]: "to_safe (FacebookServiceSetBlockedResponse_toJSON m)"
  unfolding FacebookServiceSetBlockedResponse_toJSON_def by (intro json_rules)

subsection \<open>FacebookServiceCreatePostRequest\<close>

definition FacebookServiceCreatePostRequest_toJSON :: "FacebookServiceCreatePostRequest \<Rightarrow> js_any js_out" where
  "FacebookServiceCreatePostRequest_toJSON m = t_obj (
    [(''sessionId'', t_if (FacebookServiceCreatePostRequest_sessionId m \<noteq> '''') (AStr (FacebookServiceCreatePostRequest_sessionId m))),
     (''text'', t_if (FacebookServiceCreatePostRequest_text m \<noteq> '''') (AStr (FacebookServiceCreatePostRequest_text m)))])"

definition FacebookServiceCreatePostRequest_fromJSON :: "js_any \<Rightarrow> FacebookServiceCreatePostRequest js_out" where
  "FacebookServiceCreatePostRequest_fromJSON = f_obj createBaseFacebookServiceCreatePostRequest
    [f_field (f_first [(''sessionId'', js_String), (''session_id'', js_String)] '''') (\<lambda>v m. m\<lparr>FacebookServiceCreatePostRequest_sessionId := v\<rparr>),
     f_field (f_first [(''text'', js_String)] '''') (\<lambda>v m. m\<lparr>FacebookServiceCreatePostRequest_text := v\<rparr>)]"

definition FacebookServiceCreatePostRequest_fromPartial :: "js_any \<Rightarrow> FacebookServiceCreatePostRequest js_out" where
  "FacebookServiceCreatePostRequest_fromPartial = f_obj createBaseFacebookServiceCreatePostRequest
    [f_field (f_first [(''sessionId'', p_string)] '''') (\<lambda>v m. m\<lparr>FacebookServiceCreatePostRequest_sessionId := v\<rparr>),
     f_field (f_first [(''text'', p_string)] '''') (\<lambda>v m. m\<lparr>FacebookServiceCreatePostRequest_text := v\<rparr>)]"

definition FacebookServiceCreatePostRequest_create :: "js_any \<Rightarrow> FacebookServiceCreatePostRequest js_out" where
  "FacebookServiceCreatePostRequest_create = create_with FacebookServiceCreatePostRequest_fromPartial"

lemma FacebookServiceCreatePostRequest_json:
  "json_rt FacebookServiceCreatePostRequest_toJSON FacebookServiceCreatePostRequest_fromJSON m"
  unfolding json_rt_def
proof (intro allI impI)
  fix J
  assume to: "FacebookServiceCreatePostRequest_toJSON m = Returned J"
  have d: "distinct ([''sessionId'', ''text''] @ [''session_id''])"
    by code_simp
  note all = t_objD [OF to [unfolded FacebookServiceCreatePostRequest_toJSON_def] _ d, unfolded t_names, OF refl]
  note N = all [THEN conjunct2, unfolded names_simps]
  have "FacebookServiceCreatePostRequest_fromJSON J = Returned m"
    unfolding FacebookServiceCreatePostRequest_fromJSON_def
    by (rule fs_field [OF all [THEN conjunct1]], erule jr_string, simp only: N absent_simps simp_thms,
      erule fs_field, erule jr_string, rule absent_Nil,
      rule f_obj_Nil, cases m, simp add: createBaseFacebookServiceCreatePostRequest_def)
  with all show "isSet J \<and> FacebookServiceCreatePostRequest_fromJSON J = Returned m"
    by (simp add: entries_def)
qed

lemma FacebookServiceCreatePostRequest_toJSON_safe [json_rules]: "to_safe (FacebookServiceCreatePostRequest_toJSON m)"
  unfolding FacebookServiceCreatePostRequest_toJSON_def by (intro json_rules)

subsection \<open>FacebookServiceCreatePostResponse\<close>

definition FacebookServiceCreatePostResponse_toJSON :: "FacebookServiceCreatePostResponse \<Rightarrow> js_any js_out" where
  "FacebookServiceCreatePostResponse_toJSON m = t_obj (
    [(''post'', t_some (FacebookServiceCreatePostResponse_post m) FacebookPost_toJSON)])"

definition FacebookServiceCreatePostResponse_fromJSON :: "js_any \<Rightarrow> FacebookServiceCreatePostResponse js_out" where
  "FacebookServiceCreatePostResponse_fromJSON = f_obj createBaseFacebookServiceCreatePostResponse
    [f_field (f_first [(''post'', \<lambda>x. js_map Some (FacebookPost_fromJSON x))] None) (\<lambda>v m. m\<lparr>FacebookServiceCreatePostResponse_post := v\<rparr>)]"

definition FacebookServiceCreatePostResponse_fromPartial :: "js_any \<Rightarrow> FacebookServiceCreatePostResponse js_out" where
  "FacebookServiceCreatePostResponse_fromPartial = f_obj createBaseFacebookServiceCreatePostResponse
    [f_field (f_first [(''post'', \<lambda>x. js_map Some (FacebookPost_fromPartial x))] None) (\<lambda>v m. m\<lparr>FacebookServiceCreatePostResponse_post := v\<rparr>)]"

definition FacebookServiceCreatePostResponse_create :: "js_any \<Rightarrow> FacebookServiceCreatePostResponse js_out" where
  "FacebookServiceCreatePostResponse_create = create_with FacebookServiceCreatePostResponse_fromPartial"

lemma FacebookServiceCreatePostResponse_json:
  "json_rt FacebookServiceCreatePostResponse_toJSON FacebookServiceCreatePostResponse_fromJSON m"
  unfolding json_rt_def
proof (intro allI impI)
  fix J
  assume to: "FacebookServiceCreatePostResponse_toJSON m = Returned J"
  have d: "distinct ([''post''] @ [])"
    by code_simp
  note all = t_objD [OF to [unfolded FacebookServiceCreatePostResponse_toJSON_def] _ d, unfolded t_names, OF refl]
  have "FacebookServiceCreatePostResponse_fromJSON J = Returned m"
    unfolding FacebookServiceCreatePostResponse_fromJSON_def
    by (rule fs_field [OF all [THEN conjunct1]], erule jr_msg, rule absent_Nil, rule FacebookPost_json,
      rule f_obj_Nil, cases m, simp add: createBaseFacebookServiceCreatePostResponse_def)
  with all show "isSet J \<and> FacebookServiceCreatePostResponse_fromJSON J = Returned m"
    by (simp add: entries_def)
qed

lemma FacebookServiceCreatePostResponse_toJSON_safe [json_rules]: "to_safe (FacebookServiceCreatePostResponse_toJSON m)"
  unfolding FacebookServiceCreatePostResponse_toJSON_def by (intro json_rules)

subsection \<open>FacebookServiceArchivePostRequest\<close>

definition FacebookServiceArchivePostRequest_toJSON :: "FacebookServiceArchivePostRequest \<Rightarrow> js_any js_out" where
  "FacebookServiceArchivePostRequest_toJSON m = t_obj (
    [(''sessionId'', t_if (FacebookServiceArchivePostRequest_sessionId m \<noteq> '''') (AStr (FacebookServiceArchivePostRequest_sessionId m))),
     (''postId'', t_if (FacebookServiceArchivePostRequest_postId m \<noteq> '''') (AStr (FacebookServiceArchivePostRequest_postId m))),
     (''ownership'', t_if (FacebookServiceArchivePostRequest_ownership m \<noteq> 0) (AStr (facebookPostOwnershipToJSON (FacebookServiceArchivePostRequest_ownership m))))])"

definition FacebookServiceArchivePostRequest_fromJSON :: "js_any \<Rightarrow> FacebookServiceArchivePostRequest js_out" where
  "FacebookServiceArchivePostRequest_fromJSON = f_obj createBaseFacebookServiceArchivePostRequest
    [f_field (f_first [(''sessionId'', js_String), (''session_id'', js_String)] '''') (\<lambda>v m. m\<lparr>FacebookServiceArchivePostRequest_sessionId := v\<rparr>),
     f_field (f_first [(''postId'', js_String), (''post_id'', js_String)] '''') (\<lambda>v m. m\<lparr>FacebookServiceArchivePostRequest_postId := v\<rparr>),
     f_field (f_first [(''ownership'', \<lambda>x. Returned (facebookPostOwnershipFromJSON x))] 0) (\<lambda>v m. m\<lparr>FacebookServiceArchivePostRequest_ownership := v\<rparr>)]"

definition FacebookServiceArchivePostRequest_fromPartial :: "js_any \<Rightarrow> FacebookServiceArchivePostRequest js_out" where
  "FacebookServiceArchivePostRequest_fromPartial = f_obj createBaseFacebookServiceArchivePostRequest
    [f_field (f_first [(''sessionId'', p_string)] '''') (\<lambda>v m. m\<lparr>FacebookServiceArchivePostRequest_sessionId := v\<rparr>),
     f_field (f_first [(''postId'', p_string)] '''') (\<lambda>v m. m\<lparr>FacebookServiceArchivePostRequest_postId := v\<rparr>),
     f_field (f_first [(''ownership'', p_int)] 0) (\<lambda>v m. m\<lparr>FacebookServiceArchivePostRequest_ownership := v\<rparr>)]"

definition FacebookServiceArchivePostRequest_create :: "js_any \<Rightarrow> FacebookServiceArchivePostRequest js_out" where
  "FacebookServiceArchivePostRequest_create = create_with FacebookServiceArchivePostRequest_fromPartial"

definition FacebookServiceArchivePostRequest_json_ok :: "FacebookServiceArchivePostRequest \<Rightarrow> bool" where
  "FacebookServiceArchivePostRequest_json_ok m \<longleftrightarrow> facebookPostOwnership_known (FacebookServiceArchivePostRequest_ownership m)"

lemma FacebookServiceArchivePostRequest_json:
  assumes ok: "FacebookServiceArchivePostRequest_json_ok m"
  shows "json_rt FacebookServiceArchivePostRequest_toJSON FacebookServiceArchivePostRequest_fromJSON m"
  unfolding json_rt_def
proof (intro allI impI)
  fix J
  assume to: "FacebookServiceArchivePostRequest_toJSON m = Returned J"
  have d: "distinct ([''sessionId'', ''postId'', ''ownership''] @ [''session_id'', ''post_id''])"
    by code_simp
  note all = t_objD [OF to [unfolded FacebookServiceArchivePostRequest_toJSON_def] _ d, unfolded t_names, OF refl]
  note N = all [THEN conjunct2, unfolded names_simps]
  have "FacebookServiceArchivePostRequest_fromJSON J = Returned m"
    unfolding FacebookServiceArchivePostRequest_fromJSON_def
    by (rule fs_field [OF all [THEN conjunct1]], erule jr_string, simp only: N absent_simps simp_thms,
      erule fs_field, erule jr_string, simp only: N absent_simps simp_thms,
      erule fs_field, erule jr_enum, rule absent_Nil, rule facebookPostOwnership_json, (use ok in \<open>fastforce simp: FacebookServiceArchivePostRequest_json_ok_def list_all_iff\<close>),
      rule f_obj_Nil, cases m, simp add: createBaseFacebookServiceArchivePostRequest_def)
  with all show "isSet J \<and> FacebookServiceArchivePostRequest_fromJSON J = Returned m"
    by (simp add: entries_def)
qed

lemma FacebookServiceArchivePostRequest_toJSON_safe [json_rules]: "to_safe (FacebookServiceArchivePostRequest_toJSON m)"
  unfolding FacebookServiceArchivePostRequest_toJSON_def by (intro json_rules)

subsection \<open>FacebookServiceArchivePostResponse\<close>

definition FacebookServiceArchivePostResponse_toJSON :: "FacebookServiceArchivePostResponse \<Rightarrow> js_any js_out" where
  "FacebookServiceArchivePostResponse_toJSON m = t_obj ([])"

definition FacebookServiceArchivePostResponse_fromJSON :: "js_any \<Rightarrow> FacebookServiceArchivePostResponse js_out" where
  "FacebookServiceArchivePostResponse_fromJSON = f_obj createBaseFacebookServiceArchivePostResponse
    []"

definition FacebookServiceArchivePostResponse_fromPartial :: "js_any \<Rightarrow> FacebookServiceArchivePostResponse js_out" where
  "FacebookServiceArchivePostResponse_fromPartial = f_obj createBaseFacebookServiceArchivePostResponse
    []"

definition FacebookServiceArchivePostResponse_create :: "js_any \<Rightarrow> FacebookServiceArchivePostResponse js_out" where
  "FacebookServiceArchivePostResponse_create = create_with FacebookServiceArchivePostResponse_fromPartial"

lemma FacebookServiceArchivePostResponse_json:
  "json_rt FacebookServiceArchivePostResponse_toJSON FacebookServiceArchivePostResponse_fromJSON m"
  unfolding json_rt_def
proof (intro allI impI)
  fix J
  assume to: "FacebookServiceArchivePostResponse_toJSON m = Returned J"
  have d: "distinct (([] :: string list) @ [])"
    by simp
  note all = t_objD [OF to [unfolded FacebookServiceArchivePostResponse_toJSON_def] _ d, unfolded t_names, OF refl]
  have "FacebookServiceArchivePostResponse_fromJSON J = Returned m"
    unfolding FacebookServiceArchivePostResponse_fromJSON_def
    by (rule f_obj_Nil, cases m, simp add: createBaseFacebookServiceArchivePostResponse_def)
  with all show "isSet J \<and> FacebookServiceArchivePostResponse_fromJSON J = Returned m"
    by (simp add: entries_def)
qed

lemma FacebookServiceArchivePostResponse_toJSON_safe [json_rules]: "to_safe (FacebookServiceArchivePostResponse_toJSON m)"
  unfolding FacebookServiceArchivePostResponse_toJSON_def by (intro json_rules)

subsection \<open>FacebookServiceDeletePostRequest\<close>

definition FacebookServiceDeletePostRequest_toJSON :: "FacebookServiceDeletePostRequest \<Rightarrow> js_any js_out" where
  "FacebookServiceDeletePostRequest_toJSON m = t_obj (
    [(''sessionId'', t_if (FacebookServiceDeletePostRequest_sessionId m \<noteq> '''') (AStr (FacebookServiceDeletePostRequest_sessionId m))),
     (''postId'', t_if (FacebookServiceDeletePostRequest_postId m \<noteq> '''') (AStr (FacebookServiceDeletePostRequest_postId m))),
     (''ownership'', t_if (FacebookServiceDeletePostRequest_ownership m \<noteq> 0) (AStr (facebookPostOwnershipToJSON (FacebookServiceDeletePostRequest_ownership m))))])"

definition FacebookServiceDeletePostRequest_fromJSON :: "js_any \<Rightarrow> FacebookServiceDeletePostRequest js_out" where
  "FacebookServiceDeletePostRequest_fromJSON = f_obj createBaseFacebookServiceDeletePostRequest
    [f_field (f_first [(''sessionId'', js_String), (''session_id'', js_String)] '''') (\<lambda>v m. m\<lparr>FacebookServiceDeletePostRequest_sessionId := v\<rparr>),
     f_field (f_first [(''postId'', js_String), (''post_id'', js_String)] '''') (\<lambda>v m. m\<lparr>FacebookServiceDeletePostRequest_postId := v\<rparr>),
     f_field (f_first [(''ownership'', \<lambda>x. Returned (facebookPostOwnershipFromJSON x))] 0) (\<lambda>v m. m\<lparr>FacebookServiceDeletePostRequest_ownership := v\<rparr>)]"

definition FacebookServiceDeletePostRequest_fromPartial :: "js_any \<Rightarrow> FacebookServiceDeletePostRequest js_out" where
  "FacebookServiceDeletePostRequest_fromPartial = f_obj createBaseFacebookServiceDeletePostRequest
    [f_field (f_first [(''sessionId'', p_string)] '''') (\<lambda>v m. m\<lparr>FacebookServiceDeletePostRequest_sessionId := v\<rparr>),
     f_field (f_first [(''postId'', p_string)] '''') (\<lambda>v m. m\<lparr>FacebookServiceDeletePostRequest_postId := v\<rparr>),
     f_field (f_first [(''ownership'', p_int)] 0) (\<lambda>v m. m\<lparr>FacebookServiceDeletePostRequest_ownership := v\<rparr>)]"

definition FacebookServiceDeletePostRequest_create :: "js_any \<Rightarrow> FacebookServiceDeletePostRequest js_out" where
  "FacebookServiceDeletePostRequest_create = create_with FacebookServiceDeletePostRequest_fromPartial"

definition FacebookServiceDeletePostRequest_json_ok :: "FacebookServiceDeletePostRequest \<Rightarrow> bool" where
  "FacebookServiceDeletePostRequest_json_ok m \<longleftrightarrow> facebookPostOwnership_known (FacebookServiceDeletePostRequest_ownership m)"

lemma FacebookServiceDeletePostRequest_json:
  assumes ok: "FacebookServiceDeletePostRequest_json_ok m"
  shows "json_rt FacebookServiceDeletePostRequest_toJSON FacebookServiceDeletePostRequest_fromJSON m"
  unfolding json_rt_def
proof (intro allI impI)
  fix J
  assume to: "FacebookServiceDeletePostRequest_toJSON m = Returned J"
  have d: "distinct ([''sessionId'', ''postId'', ''ownership''] @ [''session_id'', ''post_id''])"
    by code_simp
  note all = t_objD [OF to [unfolded FacebookServiceDeletePostRequest_toJSON_def] _ d, unfolded t_names, OF refl]
  note N = all [THEN conjunct2, unfolded names_simps]
  have "FacebookServiceDeletePostRequest_fromJSON J = Returned m"
    unfolding FacebookServiceDeletePostRequest_fromJSON_def
    by (rule fs_field [OF all [THEN conjunct1]], erule jr_string, simp only: N absent_simps simp_thms,
      erule fs_field, erule jr_string, simp only: N absent_simps simp_thms,
      erule fs_field, erule jr_enum, rule absent_Nil, rule facebookPostOwnership_json, (use ok in \<open>fastforce simp: FacebookServiceDeletePostRequest_json_ok_def list_all_iff\<close>),
      rule f_obj_Nil, cases m, simp add: createBaseFacebookServiceDeletePostRequest_def)
  with all show "isSet J \<and> FacebookServiceDeletePostRequest_fromJSON J = Returned m"
    by (simp add: entries_def)
qed

lemma FacebookServiceDeletePostRequest_toJSON_safe [json_rules]: "to_safe (FacebookServiceDeletePostRequest_toJSON m)"
  unfolding FacebookServiceDeletePostRequest_toJSON_def by (intro json_rules)

subsection \<open>FacebookServiceDeletePostResponse\<close>

definition FacebookServiceDeletePostResponse_toJSON :: "FacebookServiceDeletePostResponse \<Rightarrow> js_any js_out" where
  "FacebookServiceDeletePostResponse_toJSON m = t_obj ([])"

definition FacebookServiceDeletePostResponse_fromJSON :: "js_any \<Rightarrow> FacebookServiceDeletePostResponse js_out" where
  "FacebookServiceDeletePostResponse_fromJSON = f_obj createBaseFacebookServiceDeletePostResponse
    []"

definition FacebookServiceDeletePostResponse_fromPartial :: "js_any \<Rightarrow> FacebookServiceDeletePostResponse js_out" where
  "FacebookServiceDeletePostResponse_fromPartial = f_obj createBaseFacebookServiceDeletePostResponse
    []"

definition FacebookServiceDeletePostResponse_create :: "js_any \<Rightarrow> FacebookServiceDeletePostResponse js_out" where
  "FacebookServiceDeletePostResponse_create = create_with FacebookServiceDeletePostResponse_fromPartial"

lemma FacebookServiceDeletePostResponse_json:
  "json_rt FacebookServiceDeletePostResponse_toJSON FacebookServiceDeletePostResponse_fromJSON m"
  unfolding json_rt_def
proof (intro allI impI)
  fix J
  assume to: "FacebookServiceDeletePostResponse_toJSON m = Returned J"
  have d: "distinct (([] :: string list) @ [])"
    by simp
  note all = t_objD [OF to [unfolded FacebookServiceDeletePostResponse_toJSON_def] _ d, unfolded t_names, OF refl]
  have "FacebookServiceDeletePostResponse_fromJSON J = Returned m"
    unfolding FacebookServiceDeletePostResponse_fromJSON_def
    by (rule f_obj_Nil, cases m, simp add: createBaseFacebookServiceDeletePostResponse_def)
  with all show "isSet J \<and> FacebookServiceDeletePostResponse_fromJSON J = Returned m"
    by (simp add: entries_def)
qed

lemma FacebookServiceDeletePostResponse_toJSON_safe [json_rules]: "to_safe (FacebookServiceDeletePostResponse_toJSON m)"
  unfolding FacebookServiceDeletePostResponse_toJSON_def by (intro json_rules)

subsection \<open>FacebookServiceCreateMarketplaceListingRequest\<close>

definition FacebookServiceCreateMarketplaceListingRequest_toJSON :: "FacebookServiceCreateMarketplaceListingRequest \<Rightarrow> js_any js_out" where
  "FacebookServiceCreateMarketplaceListingRequest_toJSON m = t_obj (
    [(''sessionId'', t_if (FacebookServiceCreateMarketplaceListingRequest_sessionId m \<noteq> '''') (AStr (FacebookServiceCreateMarketplaceListingRequest_sessionId m))),
     (''listing'', t_some (FacebookServiceCreateMarketplaceListingRequest_listing m) MarketplaceListingInput_toJSON)])"

definition FacebookServiceCreateMarketplaceListingRequest_fromJSON :: "js_any \<Rightarrow> FacebookServiceCreateMarketplaceListingRequest js_out" where
  "FacebookServiceCreateMarketplaceListingRequest_fromJSON = f_obj createBaseFacebookServiceCreateMarketplaceListingRequest
    [f_field (f_first [(''sessionId'', js_String), (''session_id'', js_String)] '''') (\<lambda>v m. m\<lparr>FacebookServiceCreateMarketplaceListingRequest_sessionId := v\<rparr>),
     f_field (f_first [(''listing'', \<lambda>x. js_map Some (MarketplaceListingInput_fromJSON x))] None) (\<lambda>v m. m\<lparr>FacebookServiceCreateMarketplaceListingRequest_listing := v\<rparr>)]"

definition FacebookServiceCreateMarketplaceListingRequest_fromPartial :: "js_any \<Rightarrow> FacebookServiceCreateMarketplaceListingRequest js_out" where
  "FacebookServiceCreateMarketplaceListingRequest_fromPartial = f_obj createBaseFacebookServiceCreateMarketplaceListingRequest
    [f_field (f_first [(''sessionId'', p_string)] '''') (\<lambda>v m. m\<lparr>FacebookServiceCreateMarketplaceListingRequest_sessionId := v\<rparr>),
     f_field (f_first [(''listing'', \<lambda>x. js_map Some (MarketplaceListingInput_fromPartial x))] None) (\<lambda>v m. m\<lparr>FacebookServiceCreateMarketplaceListingRequest_listing := v\<rparr>)]"

definition FacebookServiceCreateMarketplaceListingRequest_create :: "js_any \<Rightarrow> FacebookServiceCreateMarketplaceListingRequest js_out" where
  "FacebookServiceCreateMarketplaceListingRequest_create = create_with FacebookServiceCreateMarketplaceListingRequest_fromPartial"

definition FacebookServiceCreateMarketplaceListingRequest_json_ok :: "FacebookServiceCreateMarketplaceListingRequest \<Rightarrow> bool" where
  "FacebookServiceCreateMarketplaceListingRequest_json_ok m \<longleftrightarrow> pred_option MarketplaceListingInput_json_ok (FacebookServiceCreateMarketplaceListingRequest_listing m)"

lemma FacebookServiceCreateMarketplaceListingRequest_json:
  assumes ok: "FacebookServiceCreateMarketplaceListingRequest_json_ok m"
  shows "json_rt FacebookServiceCreateMarketplaceListingRequest_toJSON FacebookServiceCreateMarketplaceListingRequest_fromJSON m"
  unfolding json_rt_def
proof (intro allI impI)
  fix J
  assume to: "FacebookServiceCreateMarketplaceListingRequest_toJSON m = Returned J"
  have d: "distinct ([''sessionId'', ''listing''] @ [''session_id''])"
    by code_simp
  note all = t_objD [OF to [unfolded FacebookServiceCreateMarketplaceListingRequest_toJSON_def] _ d, unfolded t_names, OF refl]
  note N = all [THEN conjunct2, unfolded names_simps]
  have "FacebookServiceCreateMarketplaceListingRequest_fromJSON J = Returned m"
    unfolding FacebookServiceCreateMarketplaceListingRequest_fromJSON_def
    by (rule fs_field [OF all [THEN conjunct1]], erule jr_string, simp only: N absent_simps simp_thms,
      erule fs_field, erule jr_msg, rule absent_Nil, rule MarketplaceListingInput_json, (use ok in \<open>fastforce simp: FacebookServiceCreateMarketplaceListingRequest_json_ok_def list_all_iff\<close>),
      rule f_obj_Nil, cases m, simp add: createBaseFacebookServiceCreateMarketplaceListingRequest_def)
  with all show "isSet J \<and> FacebookServiceCreateMarketplaceListingRequest_fromJSON J = Returned m"
    by (simp add: entries_def)
qed

lemma FacebookServiceCreateMarketplaceListingRequest_toJSON_safe [json_rules]: "to_safe (FacebookServiceCreateMarketplaceListingRequest_toJSON m)"
  unfolding FacebookServiceCreateMarketplaceListingRequest_toJSON_def by (intro json_rules)

subsection \<open>FacebookServiceCreateMarketplaceListingResponse\<close>

definition FacebookServiceCreateMarketplaceListingResponse_toJSON :: "FacebookServiceCreateMarketplaceListingResponse \<Rightarrow> js_any js_out" where
  "FacebookServiceCreateMarketplaceListingResponse_toJSON m = t_obj (
    [(''listing'', t_some (FacebookServiceCreateMarketplaceListingResponse_listing m) MarketplaceListing_toJSON)])"

definition FacebookServiceCreateMarketplaceListingResponse_fromJSON :: "js_any \<Rightarrow> FacebookServiceCreateMarketplaceListingResponse js_out" where
  "FacebookServiceCreateMarketplaceListingResponse_fromJSON = f_obj createBaseFacebookServiceCreateMarketplaceListingResponse
    [f_field (f_first [(''listing'', \<lambda>x. js_map Some (MarketplaceListing_fromJSON x))] None) (\<lambda>v m. m\<lparr>FacebookServiceCreateMarketplaceListingResponse_listing := v\<rparr>)]"

definition FacebookServiceCreateMarketplaceListingResponse_fromPartial :: "js_any \<Rightarrow> FacebookServiceCreateMarketplaceListingResponse js_out" where
  "FacebookServiceCreateMarketplaceListingResponse_fromPartial = f_obj createBaseFacebookServiceCreateMarketplaceListingResponse
    [f_field (f_first [(''listing'', \<lambda>x. js_map Some (MarketplaceListing_fromPartial x))] None) (\<lambda>v m. m\<lparr>FacebookServiceCreateMarketplaceListingResponse_listing := v\<rparr>)]"

definition FacebookServiceCreateMarketplaceListingResponse_create :: "js_any \<Rightarrow> FacebookServiceCreateMarketplaceListingResponse js_out" where
  "FacebookServiceCreateMarketplaceListingResponse_create = create_with FacebookServiceCreateMarketplaceListingResponse_fromPartial"

definition FacebookServiceCreateMarketplaceListingResponse_json_ok :: "FacebookServiceCreateMarketplaceListingResponse \<Rightarrow> bool" where
  "FacebookServiceCreateMarketplaceListingResponse_json_ok m \<longleftrightarrow> pred_option MarketplaceListing_json_ok (FacebookServiceCreateMarketplaceListingResponse_listing m)"

lemma FacebookServiceCreateMarketplaceListingResponse_json:
  assumes ok: "FacebookServiceCreateMarketplaceListingResponse_json_ok m"
  shows "json_rt FacebookServiceCreateMarketplaceListingResponse_toJSON FacebookServiceCreateMarketplaceListingResponse_fromJSON m"
  unfolding json_rt_def
proof (intro allI impI)
  fix J
  assume to: "FacebookServiceCreateMarketplaceListingResponse_toJSON m = Returned J"
  have d: "distinct ([''listing''] @ [])"
    by code_simp
  note all = t_objD [OF to [unfolded FacebookServiceCreateMarketplaceListingResponse_toJSON_def] _ d, unfolded t_names, OF refl]
  have "FacebookServiceCreateMarketplaceListingResponse_fromJSON J = Returned m"
    unfolding FacebookServiceCreateMarketplaceListingResponse_fromJSON_def
    by (rule fs_field [OF all [THEN conjunct1]], erule jr_msg, rule absent_Nil, rule MarketplaceListing_json, (use ok in \<open>fastforce simp: FacebookServiceCreateMarketplaceListingResponse_json_ok_def list_all_iff\<close>),
      rule f_obj_Nil, cases m, simp add: createBaseFacebookServiceCreateMarketplaceListingResponse_def)
  with all show "isSet J \<and> FacebookServiceCreateMarketplaceListingResponse_fromJSON J = Returned m"
    by (simp add: entries_def)
qed

lemma FacebookServiceCreateMarketplaceListingResponse_toJSON_safe [json_rules]: "to_safe (FacebookServiceCreateMarketplaceListingResponse_toJSON m)"
  unfolding FacebookServiceCreateMarketplaceListingResponse_toJSON_def by (intro json_rules)

subsection \<open>FacebookServiceGetMarketplaceListingRequest\<close>

definition FacebookServiceGetMarketplaceListingRequest_toJSON :: "FacebookServiceGetMarketplaceListingRequest \<Rightarrow> js_any js_out" where
  "FacebookServiceGetMarketplaceListingRequest_toJSON m = t_obj (
    [(''sessionId'', t_if (FacebookServiceGetMarketplaceListingRequest_sessionId m \<noteq> '''') (AStr (FacebookServiceGetMarketplaceListingRequest_sessionId m))),
     (''listingId'', t_if (FacebookServiceGetMarketplaceListingRequest_listingId m \<noteq> '''') (AStr (FacebookServiceGetMarketplaceListingRequest_listingId m)))])"

definition FacebookServiceGetMarketplaceListingRequest_fromJSON :: "js_any \<Rightarrow> FacebookServiceGetMarketplaceListingRequest js_out" where
  "FacebookServiceGetMarketplaceListingRequest_fromJSON = f_obj createBaseFacebookServiceGetMarketplaceListingRequest
    [f_field (f_first [(''sessionId'', js_String), (''session_id'', js_String)] '''') (\<lambda>v m. m\<lparr>FacebookServiceGetMarketplaceListingRequest_sessionId := v\<rparr>),
     f_field (f_first [(''listingId'', js_String), (''listing_id'', js_String)] '''') (\<lambda>v m. m\<lparr>FacebookServiceGetMarketplaceListingRequest_listingId := v\<rparr>)]"

definition FacebookServiceGetMarketplaceListingRequest_fromPartial :: "js_any \<Rightarrow> FacebookServiceGetMarketplaceListingRequest js_out" where
  "FacebookServiceGetMarketplaceListingRequest_fromPartial = f_obj createBaseFacebookServiceGetMarketplaceListingRequest
    [f_field (f_first [(''sessionId'', p_string)] '''') (\<lambda>v m. m\<lparr>FacebookServiceGetMarketplaceListingRequest_sessionId := v\<rparr>),
     f_field (f_first [(''listingId'', p_string)] '''') (\<lambda>v m. m\<lparr>FacebookServiceGetMarketplaceListingRequest_listingId := v\<rparr>)]"

definition FacebookServiceGetMarketplaceListingRequest_create :: "js_any \<Rightarrow> FacebookServiceGetMarketplaceListingRequest js_out" where
  "FacebookServiceGetMarketplaceListingRequest_create = create_with FacebookServiceGetMarketplaceListingRequest_fromPartial"

lemma FacebookServiceGetMarketplaceListingRequest_json:
  "json_rt FacebookServiceGetMarketplaceListingRequest_toJSON FacebookServiceGetMarketplaceListingRequest_fromJSON m"
  unfolding json_rt_def
proof (intro allI impI)
  fix J
  assume to: "FacebookServiceGetMarketplaceListingRequest_toJSON m = Returned J"
  have d: "distinct ([''sessionId'', ''listingId''] @ [''session_id'', ''listing_id''])"
    by code_simp
  note all = t_objD [OF to [unfolded FacebookServiceGetMarketplaceListingRequest_toJSON_def] _ d, unfolded t_names, OF refl]
  note N = all [THEN conjunct2, unfolded names_simps]
  have "FacebookServiceGetMarketplaceListingRequest_fromJSON J = Returned m"
    unfolding FacebookServiceGetMarketplaceListingRequest_fromJSON_def
    by (rule fs_field [OF all [THEN conjunct1]], erule jr_string, simp only: N absent_simps simp_thms,
      erule fs_field, erule jr_string, simp only: N absent_simps simp_thms,
      rule f_obj_Nil, cases m, simp add: createBaseFacebookServiceGetMarketplaceListingRequest_def)
  with all show "isSet J \<and> FacebookServiceGetMarketplaceListingRequest_fromJSON J = Returned m"
    by (simp add: entries_def)
qed

lemma FacebookServiceGetMarketplaceListingRequest_toJSON_safe [json_rules]: "to_safe (FacebookServiceGetMarketplaceListingRequest_toJSON m)"
  unfolding FacebookServiceGetMarketplaceListingRequest_toJSON_def by (intro json_rules)

subsection \<open>FacebookServiceGetMarketplaceListingResponse\<close>

definition FacebookServiceGetMarketplaceListingResponse_toJSON :: "FacebookServiceGetMarketplaceListingResponse \<Rightarrow> js_any js_out" where
  "FacebookServiceGetMarketplaceListingResponse_toJSON m = t_obj (
    [(''listing'', t_some (FacebookServiceGetMarketplaceListingResponse_listing m) MarketplaceListing_toJSON)])"

definition FacebookServiceGetMarketplaceListingResponse_fromJSON :: "js_any \<Rightarrow> FacebookServiceGetMarketplaceListingResponse js_out" where
  "FacebookServiceGetMarketplaceListingResponse_fromJSON = f_obj createBaseFacebookServiceGetMarketplaceListingResponse
    [f_field (f_first [(''listing'', \<lambda>x. js_map Some (MarketplaceListing_fromJSON x))] None) (\<lambda>v m. m\<lparr>FacebookServiceGetMarketplaceListingResponse_listing := v\<rparr>)]"

definition FacebookServiceGetMarketplaceListingResponse_fromPartial :: "js_any \<Rightarrow> FacebookServiceGetMarketplaceListingResponse js_out" where
  "FacebookServiceGetMarketplaceListingResponse_fromPartial = f_obj createBaseFacebookServiceGetMarketplaceListingResponse
    [f_field (f_first [(''listing'', \<lambda>x. js_map Some (MarketplaceListing_fromPartial x))] None) (\<lambda>v m. m\<lparr>FacebookServiceGetMarketplaceListingResponse_listing := v\<rparr>)]"

definition FacebookServiceGetMarketplaceListingResponse_create :: "js_any \<Rightarrow> FacebookServiceGetMarketplaceListingResponse js_out" where
  "FacebookServiceGetMarketplaceListingResponse_create = create_with FacebookServiceGetMarketplaceListingResponse_fromPartial"

definition FacebookServiceGetMarketplaceListingResponse_json_ok :: "FacebookServiceGetMarketplaceListingResponse \<Rightarrow> bool" where
  "FacebookServiceGetMarketplaceListingResponse_json_ok m \<longleftrightarrow> pred_option MarketplaceListing_json_ok (FacebookServiceGetMarketplaceListingResponse_listing m)"

lemma FacebookServiceGetMarketplaceListingResponse_json:
  assumes ok: "FacebookServiceGetMarketplaceListingResponse_json_ok m"
  shows "json_rt FacebookServiceGetMarketplaceListingResponse_toJSON FacebookServiceGetMarketplaceListingResponse_fromJSON m"
  unfolding json_rt_def
proof (intro allI impI)
  fix J
  assume to: "FacebookServiceGetMarketplaceListingResponse_toJSON m = Returned J"
  have d: "distinct ([''listing''] @ [])"
    by code_simp
  note all = t_objD [OF to [unfolded FacebookServiceGetMarketplaceListingResponse_toJSON_def] _ d, unfolded t_names, OF refl]
  have "FacebookServiceGetMarketplaceListingResponse_fromJSON J = Returned m"
    unfolding FacebookServiceGetMarketplaceListingResponse_fromJSON_def
    by (rule fs_field [OF all [THEN conjunct1]], erule jr_msg, rule absent_Nil, rule MarketplaceListing_json, (use ok in \<open>fastforce simp: FacebookServiceGetMarketplaceListingResponse_json_ok_def list_all_iff\<close>),
      rule f_obj_Nil, cases m, simp add: createBaseFacebookServiceGetMarketplaceListingResponse_def)
  with all show "isSet J \<and> FacebookServiceGetMarketplaceListingResponse_fromJSON J = Returned m"
    by (simp add: entries_def)
qed

lemma FacebookServiceGetMarketplaceListingResponse_toJSON_safe [json_rules]: "to_safe (FacebookServiceGetMarketplaceListingResponse_toJSON m)"
  unfolding FacebookServiceGetMarketplaceListingResponse_toJSON_def by (intro json_rules)

subsection \<open>FacebookServiceSetProfessionalModeRequest\<close>

definition FacebookServiceSetProfessionalModeRequest_toJSON :: "FacebookServiceSetProfessionalModeRequest \<Rightarrow> js_any js_out" where
  "FacebookServiceSetProfessionalModeRequest_toJSON m = t_obj (
    [(''sessionId'', t_if (FacebookServiceSetProfessionalModeRequest_sessionId m \<noteq> '''') (AStr (FacebookServiceSetProfessionalModeRequest_sessionId m))),
     (''enabled'', t_if (FacebookServiceSetProfessionalModeRequest_enabled m \<noteq> False) (ABool (FacebookServiceSetProfessionalModeRequest_enabled m)))])"

definition FacebookServiceSetProfessionalModeRequest_fromJSON :: "js_any \<Rightarrow> FacebookServiceSetProfessionalModeRequest js_out" where
  "FacebookServiceSetProfessionalModeRequest_fromJSON = f_obj createBaseFacebookServiceSetProfessionalModeRequest
    [f_field (f_first [(''sessionId'', js_String), (''session_id'', js_String)] '''') (\<lambda>v m. m\<lparr>FacebookServiceSetProfessionalModeRequest_sessionId := v\<rparr>),
     f_field (f_first [(''enabled'', \<lambda>x. Returned (js_Boolean x))] False) (\<lambda>v m. m\<lparr>FacebookServiceSetProfessionalModeRequest_enabled := v\<rparr>)]"

definition FacebookServiceSetProfessionalModeRequest_fromPartial :: "js_any \<Rightarrow> FacebookServiceSetProfessionalModeRequest js_out" where
  "FacebookServiceSetProfessionalModeRequest_fromPartial = f_obj createBaseFacebookServiceSetProfessionalModeRequest
    [f_field (f_first [(''sessionId'', p_string)] '''') (\<lambda>v m. m\<lparr>FacebookServiceSetProfessionalModeRequest_sessionId := v\<rparr>),
     f_field (f_first [(''enabled'', p_bool)] False) (\<lambda>v m. m\<lparr>FacebookServiceSetProfessionalModeRequest_enabled := v\<rparr>)]"

definition FacebookServiceSetProfessionalModeRequest_create :: "js_any \<Rightarrow> FacebookServiceSetProfessionalModeRequest js_out" where
  "FacebookServiceSetProfessionalModeRequest_create = create_with FacebookServiceSetProfessionalModeRequest_fromPartial"

lemma FacebookServiceSetProfessionalModeRequest_json:
  "json_rt FacebookServiceSetProfessionalModeRequest_toJSON FacebookServiceSetProfessionalModeRequest_fromJSON m"
  unfolding json_rt_def
proof (intro allI impI)
  fix J
  assume to: "FacebookServiceSetProfessionalModeRequest_toJSON m = Returned J"
  have d: "distinct ([''sessionId'', ''enabled''] @ [''session_id''])"
    by code_simp
  note all = t_objD [OF to [unfolded FacebookServiceSetProfessionalModeRequest_toJSON_def] _ d, unfolded t_names, OF refl]
  note N = all [THEN conjunct2, unfolded names_simps]
  have "FacebookServiceSetProfessionalModeRequest_fromJSON J = Returned m"
    unfolding FacebookServiceSetProfessionalModeRequest_fromJSON_def
    by (rule fs_field [OF all [THEN conjunct1]], erule jr_string, simp only: N absent_simps simp_thms,
      erule fs_field, erule jr_bool, rule absent_Nil,
      rule f_obj_Nil, cases m, simp add: createBaseFacebookServiceSetProfessionalModeRequest_def)
  with all show "isSet J \<and> FacebookServiceSetProfessionalModeRequest_fromJSON J = Returned m"
    by (simp add: entries_def)
qed

lemma FacebookServiceSetProfessionalModeRequest_toJSON_safe [json_rules]: "to_safe (FacebookServiceSetProfessionalModeRequest_toJSON m)"
  unfolding FacebookServiceSetProfessionalModeRequest_toJSON_def by (intro json_rules)

subsection \<open>FacebookServiceSetProfessionalModeResponse\<close>

definition FacebookServiceSetProfessionalModeResponse_toJSON :: "FacebookServiceSetProfessionalModeResponse \<Rightarrow> js_any js_out" where
  "FacebookServiceSetProfessionalModeResponse_toJSON m = t_obj ([])"

definition FacebookServiceSetProfessionalModeResponse_fromJSON :: "js_any \<Rightarrow> FacebookServiceSetProfessionalModeResponse js_out" where
  "FacebookServiceSetProfessionalModeResponse_fromJSON = f_obj createBaseFacebookServiceSetProfessionalModeResponse
    []"

definition FacebookServiceSetProfessionalModeResponse_fromPartial :: "js_any \<Rightarrow> FacebookServiceSetProfessionalModeResponse js_out" where
  "FacebookServiceSetProfessionalModeResponse_fromPartial = f_obj createBaseFacebookServiceSetProfessionalModeResponse
    []"

definition FacebookServiceSetProfessionalModeResponse_create :: "js_any \<Rightarrow> FacebookServiceSetProfessionalModeResponse js_out" where
  "FacebookServiceSetProfessionalModeResponse_create = create_with FacebookServiceSetProfessionalModeResponse_fromPartial"

lemma FacebookServiceSetProfessionalModeResponse_json:
  "json_rt FacebookServiceSetProfessionalModeResponse_toJSON FacebookServiceSetProfessionalModeResponse_fromJSON m"
  unfolding json_rt_def
proof (intro allI impI)
  fix J
  assume to: "FacebookServiceSetProfessionalModeResponse_toJSON m = Returned J"
  have d: "distinct (([] :: string list) @ [])"
    by simp
  note all = t_objD [OF to [unfolded FacebookServiceSetProfessionalModeResponse_toJSON_def] _ d, unfolded t_names, OF refl]
  have "FacebookServiceSetProfessionalModeResponse_fromJSON J = Returned m"
    unfolding FacebookServiceSetProfessionalModeResponse_fromJSON_def
    by (rule f_obj_Nil, cases m, simp add: createBaseFacebookServiceSetProfessionalModeResponse_def)
  with all show "isSet J \<and> FacebookServiceSetProfessionalModeResponse_fromJSON J = Returned m"
    by (simp add: entries_def)
qed

lemma FacebookServiceSetProfessionalModeResponse_toJSON_safe [json_rules]: "to_safe (FacebookServiceSetProfessionalModeResponse_toJSON m)"
  unfolding FacebookServiceSetProfessionalModeResponse_toJSON_def by (intro json_rules)

end
