(* ===== verification/Json_E2ee.thy ===== *)
theory Json_E2ee
  imports Gen_E2ee Json_Common
begin

text \<open>
  The JSON side of \<open>sdk/node/src/gen/meta/v1/e2ee.ts\<close>: \<open>toJSON\<close>, \<open>fromJSON\<close>,
  \<open>fromPartial\<close> and \<open>create\<close> of every message and the names of its enums.  \<open>_json_ok\<close> holds of the
  values that survive a round trip: known enum numbers, objects built by assignment, dates in
  range.  For every message: \<open>fromJSON\<close> reads back what \<open>toJSON\<close> returned.
\<close>

section \<open>Enums\<close>

text \<open>The numbers of \<open>enum E2EEMediaKind\<close> with their names.\<close>

definition E2EEMediaKind_values :: "(string \<times> int) list" where
  "E2EEMediaKind_values = [(''E2EE_MEDIA_KIND_UNSPECIFIED'', 0),
     (''E2EE_MEDIA_KIND_IMAGE'', 1),
     (''E2EE_MEDIA_KIND_VIDEO'', 2),
     (''E2EE_MEDIA_KIND_AUDIO'', 3),
     (''E2EE_MEDIA_KIND_DOCUMENT'', 4),
     (''E2EE_MEDIA_KIND_STICKER'', 5),
     (''UNRECOGNIZED'', (- 1))]"

definition e2EEMediaKindFromJSON :: "js_any \<Rightarrow> int" where
  "e2EEMediaKindFromJSON v =
    (if v = js_int 0 \<or> v = AStr ''E2EE_MEDIA_KIND_UNSPECIFIED'' then 0
     else if v = js_int 1 \<or> v = AStr ''E2EE_MEDIA_KIND_IMAGE'' then 1
     else if v = js_int 2 \<or> v = AStr ''E2EE_MEDIA_KIND_VIDEO'' then 2
     else if v = js_int 3 \<or> v = AStr ''E2EE_MEDIA_KIND_AUDIO'' then 3
     else if v = js_int 4 \<or> v = AStr ''E2EE_MEDIA_KIND_DOCUMENT'' then 4
     else if v = js_int 5 \<or> v = AStr ''E2EE_MEDIA_KIND_STICKER'' then 5
     else - 1)"

definition e2EEMediaKindToJSON :: "int \<Rightarrow> string" where
  "e2EEMediaKindToJSON n =
    (if n = 0 then ''E2EE_MEDIA_KIND_UNSPECIFIED''
     else if n = 1 then ''E2EE_MEDIA_KIND_IMAGE''
     else if n = 2 then ''E2EE_MEDIA_KIND_VIDEO''
     else if n = 3 then ''E2EE_MEDIA_KIND_AUDIO''
     else if n = 4 then ''E2EE_MEDIA_KIND_DOCUMENT''
     else if n = 5 then ''E2EE_MEDIA_KIND_STICKER''
     else ''UNRECOGNIZED'')"

definition e2EEMediaKind_known :: "int \<Rightarrow> bool" where
  "e2EEMediaKind_known n \<longleftrightarrow> n \<in> snd ` set E2EEMediaKind_values"

lemma e2EEMediaKind_table: "list_all (\<lambda>p. e2EEMediaKindFromJSON (AStr (e2EEMediaKindToJSON (snd p))) = snd p) E2EEMediaKind_values"
  by code_simp

lemma e2EEMediaKind_json: "e2EEMediaKind_known n \<Longrightarrow> e2EEMediaKindFromJSON (AStr (e2EEMediaKindToJSON n)) = n"
  using e2EEMediaKind_table by (auto simp: e2EEMediaKind_known_def list_all_iff)

section \<open>Messages\<close>

subsection \<open>E2EEServiceSendTextRequest\<close>

definition E2EEServiceSendTextRequest_toJSON :: "E2EEServiceSendTextRequest \<Rightarrow> js_any js_out" where
  "E2EEServiceSendTextRequest_toJSON m = t_obj (
    [(''sessionId'', t_if (E2EEServiceSendTextRequest_sessionId m \<noteq> '''') (AStr (E2EEServiceSendTextRequest_sessionId m))),
     (''chatJid'', t_if (E2EEServiceSendTextRequest_chatJid m \<noteq> '''') (AStr (E2EEServiceSendTextRequest_chatJid m))),
     (''facebookUserId'', t_if (E2EEServiceSendTextRequest_facebookUserId m \<noteq> '''') (AStr (E2EEServiceSendTextRequest_facebookUserId m))),
     (''text'', t_if (E2EEServiceSendTextRequest_text m \<noteq> '''') (AStr (E2EEServiceSendTextRequest_text m))),
     (''replyTo'', t_if (E2EEServiceSendTextRequest_replyTo m \<noteq> '''') (AStr (E2EEServiceSendTextRequest_replyTo m))),
     (''replySenderJid'', t_if (E2EEServiceSendTextRequest_replySenderJid m \<noteq> '''') (AStr (E2EEServiceSendTextRequest_replySenderJid m)))])"

definition E2EEServiceSendTextRequest_fromJSON :: "js_any \<Rightarrow> E2EEServiceSendTextRequest js_out" where
  "E2EEServiceSendTextRequest_fromJSON = f_obj createBaseE2EEServiceSendTextRequest
    [f_field (f_first [(''sessionId'', js_String), (''session_id'', js_String)] '''') (\<lambda>v m. m\<lparr>E2EEServiceSendTextRequest_sessionId := v\<rparr>),
     f_field (f_first [(''chatJid'', js_String), (''chat_jid'', js_String)] '''') (\<lambda>v m. m\<lparr>E2EEServiceSendTextRequest_chatJid := v\<rparr>),
     f_field (f_first [(''facebookUserId'', js_String), (''facebook_user_id'', js_String)] '''') (\<lambda>v m. m\<lparr>E2EEServiceSendTextRequest_facebookUserId := v\<rparr>),
     f_field (f_first [(''text'', js_String)] '''') (\<lambda>v m. m\<lparr>E2EEServiceSendTextRequest_text := v\<rparr>),
     f_field (f_first [(''replyTo'', js_String), (''reply_to'', js_String)] '''') (\<lambda>v m. m\<lparr>E2EEServiceSendTextRequest_replyTo := v\<rparr>),
     f_field (f_first [(''replySenderJid'', js_String), (''reply_sender_jid'', js_String)] '''') (\<lambda>v m. m\<lparr>E2EEServiceSendTextRequest_replySenderJid := v\<rparr>)]"

definition E2EEServiceSendTextRequest_fromPartial :: "js_any \<Rightarrow> E2EEServiceSendTextRequest js_out" where
  "E2EEServiceSendTextRequest_fromPartial = f_obj createBaseE2EEServiceSendTextRequest
    [f_field (f_first [(''sessionId'', p_string)] '''') (\<lambda>v m. m\<lparr>E2EEServiceSendTextRequest_sessionId := v\<rparr>),
     f_field (f_first [(''chatJid'', p_string)] '''') (\<lambda>v m. m\<lparr>E2EEServiceSendTextRequest_chatJid := v\<rparr>),
     f_field (f_first [(''facebookUserId'', p_string)] '''') (\<lambda>v m. m\<lparr>E2EEServiceSendTextRequest_facebookUserId := v\<rparr>),
     f_field (f_first [(''text'', p_string)] '''') (\<lambda>v m. m\<lparr>E2EEServiceSendTextRequest_text := v\<rparr>),
     f_field (f_first [(''replyTo'', p_string)] '''') (\<lambda>v m. m\<lparr>E2EEServiceSendTextRequest_replyTo := v\<rparr>),
     f_field (f_first [(''replySenderJid'', p_string)] '''') (\<lambda>v m. m\<lparr>E2EEServiceSendTextRequest_replySenderJid := v\<rparr>)]"

definition E2EEServiceSendTextRequest_create :: "js_any \<Rightarrow> E2EEServiceSendTextRequest js_out" where
  "E2EEServiceSendTextRequest_create = create_with E2EEServiceSendTextRequest_fromPartial"

lemma E2EEServiceSendTextRequest_json:
  "json_rt E2EEServiceSendTextRequest_toJSON E2EEServiceSendTextRequest_fromJSON m"
  unfolding json_rt_def
proof (intro allI impI)
  fix J
  assume to: "E2EEServiceSendTextRequest_toJSON m = Returned J"
  have d: "distinct ([''sessionId'', ''chatJid'', ''facebookUserId'', ''text'', ''replyTo'', ''replySenderJid''] @ [''session_id'', ''chat_jid'', ''facebook_user_id'', ''reply_to'', ''reply_sender_jid''])"
    by code_simp
  note all = t_objD [OF to [unfolded E2EEServiceSendTextRequest_toJSON_def] _ d, unfolded t_names, OF refl]
  note N = all [THEN conjunct2, unfolded names_simps]
  have "E2EEServiceSendTextRequest_fromJSON J = Returned m"
    unfolding E2EEServiceSendTextRequest_fromJSON_def
    by (rule fs_field [OF all [THEN conjunct1]], erule jr_string, simp only: N absent_simps simp_thms,
      erule fs_field, erule jr_string, simp only: N absent_simps simp_thms,
      erule fs_field, erule jr_string, simp only: N absent_simps simp_thms,
      erule fs_field, erule jr_string, rule absent_Nil,
      erule fs_field, erule jr_string, simp only: N absent_simps simp_thms,
      erule fs_field, erule jr_string, simp only: N absent_simps simp_thms,
      rule f_obj_Nil, cases m, simp add: createBaseE2EEServiceSendTextRequest_def)
  with all show "isSet J \<and> E2EEServiceSendTextRequest_fromJSON J = Returned m"
    by (simp add: entries_def)
qed

lemma E2EEServiceSendTextRequest_toJSON_safe [json_rules]: "to_safe (E2EEServiceSendTextRequest_toJSON m)"
  unfolding E2EEServiceSendTextRequest_toJSON_def by (intro json_rules)

subsection \<open>E2EEServiceSendTextResponse\<close>

definition E2EEServiceSendTextResponse_toJSON :: "E2EEServiceSendTextResponse \<Rightarrow> js_any js_out" where
  "E2EEServiceSendTextResponse_toJSON m = t_obj (
    [(''messageId'', t_if (E2EEServiceSendTextResponse_messageId m \<noteq> '''') (AStr (E2EEServiceSendTextResponse_messageId m))),
     (''timestamp'', t_some (E2EEServiceSendTextResponse_timestamp m) date_json)])"

definition E2EEServiceSendTextResponse_fromJSON :: "js_any \<Rightarrow> E2EEServiceSendTextResponse js_out" where
  "E2EEServiceSendTextResponse_fromJSON = f_obj createBaseE2EEServiceSendTextResponse
    [f_field (f_first [(''messageId'', js_String), (''message_id'', js_String)] '''') (\<lambda>v m. m\<lparr>E2EEServiceSendTextResponse_messageId := v\<rparr>),
     f_field (f_first [(''timestamp'', \<lambda>x. js_map Some (fromJsonTimestamp x))] None) (\<lambda>v m. m\<lparr>E2EEServiceSendTextResponse_timestamp := v\<rparr>)]"

definition E2EEServiceSendTextResponse_fromPartial :: "js_any \<Rightarrow> E2EEServiceSendTextResponse js_out" where
  "E2EEServiceSendTextResponse_fromPartial = f_obj createBaseE2EEServiceSendTextResponse
    [f_field (f_first [(''messageId'', p_string)] '''') (\<lambda>v m. m\<lparr>E2EEServiceSendTextResponse_messageId := v\<rparr>),
     f_field (f_first [(''timestamp'', \<lambda>x. js_map Some (p_date x))] None) (\<lambda>v m. m\<lparr>E2EEServiceSendTextResponse_timestamp := v\<rparr>)]"

definition E2EEServiceSendTextResponse_create :: "js_any \<Rightarrow> E2EEServiceSendTextResponse js_out" where
  "E2EEServiceSendTextResponse_create = create_with E2EEServiceSendTextResponse_fromPartial"

definition E2EEServiceSendTextResponse_json_ok :: "E2EEServiceSendTextResponse \<Rightarrow> bool" where
  "E2EEServiceSendTextResponse_json_ok m \<longleftrightarrow> pred_option js_date_ok (E2EEServiceSendTextResponse_timestamp m)"

lemma E2EEServiceSendTextResponse_json:
  assumes ok: "E2EEServiceSendTextResponse_json_ok m"
  shows "json_rt E2EEServiceSendTextResponse_toJSON E2EEServiceSendTextResponse_fromJSON m"
  unfolding json_rt_def
proof (intro allI impI)
  fix J
  assume to: "E2EEServiceSendTextResponse_toJSON m = Returned J"
  have d: "distinct ([''messageId'', ''timestamp''] @ [''message_id''])"
    by code_simp
  note all = t_objD [OF to [unfolded E2EEServiceSendTextResponse_toJSON_def] _ d, unfolded t_names, OF refl]
  note N = all [THEN conjunct2, unfolded names_simps]
  have "E2EEServiceSendTextResponse_fromJSON J = Returned m"
    unfolding E2EEServiceSendTextResponse_fromJSON_def
    by (rule fs_field [OF all [THEN conjunct1]], erule jr_string, simp only: N absent_simps simp_thms,
      erule fs_field, erule jr_date, rule absent_Nil, (use ok in \<open>fastforce simp: E2EEServiceSendTextResponse_json_ok_def list_all_iff\<close>),
      rule f_obj_Nil, cases m, simp add: createBaseE2EEServiceSendTextResponse_def)
  with all show "isSet J \<and> E2EEServiceSendTextResponse_fromJSON J = Returned m"
    by (simp add: entries_def)
qed

lemma E2EEServiceSendTextResponse_toJSON_safe [json_rules]: "to_safe (E2EEServiceSendTextResponse_toJSON m)"
  unfolding E2EEServiceSendTextResponse_toJSON_def by (intro json_rules)

subsection \<open>E2EEServiceSendMediaMetadata\<close>

definition E2EEServiceSendMediaMetadata_toJSON :: "E2EEServiceSendMediaMetadata \<Rightarrow> js_any js_out" where
  "E2EEServiceSendMediaMetadata_toJSON m = t_obj (
    [(''sessionId'', t_if (E2EEServiceSendMediaMetadata_sessionId m \<noteq> '''') (AStr (E2EEServiceSendMediaMetadata_sessionId m))),
     (''chatJid'', t_if (E2EEServiceSendMediaMetadata_chatJid m \<noteq> '''') (AStr (E2EEServiceSendMediaMetadata_chatJid m))),
     (''facebookUserId'', t_if (E2EEServiceSendMediaMetadata_facebookUserId m \<noteq> '''') (AStr (E2EEServiceSendMediaMetadata_facebookUserId m))),
     (''kind'', t_if (E2EEServiceSendMediaMetadata_kind m \<noteq> 0) (AStr (e2EEMediaKindToJSON (E2EEServiceSendMediaMetadata_kind m)))),
     (''name'', t_if (E2EEServiceSendMediaMetadata_name m \<noteq> '''') (AStr (E2EEServiceSendMediaMetadata_name m))),
     (''contentType'', t_if (E2EEServiceSendMediaMetadata_contentType m \<noteq> '''') (AStr (E2EEServiceSendMediaMetadata_contentType m))),
     (''size'', t_if (E2EEServiceSendMediaMetadata_size m \<noteq> 0) (AStr (string_of_int (E2EEServiceSendMediaMetadata_size m)))),
     (''caption'', t_if (E2EEServiceSendMediaMetadata_caption m \<noteq> '''') (AStr (E2EEServiceSendMediaMetadata_caption m))),
     (''width'', t_if (E2EEServiceSendMediaMetadata_width m \<noteq> 0) (js_int (E2EEServiceSendMediaMetadata_width m))),
     (''height'', t_if (E2EEServiceSendMediaMetadata_height m \<noteq> 0) (js_int (E2EEServiceSendMediaMetadata_height m))),
     (''duration'', t_if (E2EEServiceSendMediaMetadata_duration m \<noteq> 0) (js_int (E2EEServiceSendMediaMetadata_duration m))),
     (''voice'', t_if (E2EEServiceSendMediaMetadata_voice m \<noteq> False) (ABool (E2EEServiceSendMediaMetadata_voice m))),
     (''replyTo'', t_if (E2EEServiceSendMediaMetadata_replyTo m \<noteq> '''') (AStr (E2EEServiceSendMediaMetadata_replyTo m))),
     (''replySenderJid'', t_if (E2EEServiceSendMediaMetadata_replySenderJid m \<noteq> '''') (AStr (E2EEServiceSendMediaMetadata_replySenderJid m))),
     (''sha256'', t_if (E2EEServiceSendMediaMetadata_sha256 m \<noteq> []) (AStr (base64FromBytes (E2EEServiceSendMediaMetadata_sha256 m))))])"

definition E2EEServiceSendMediaMetadata_fromJSON :: "js_any \<Rightarrow> E2EEServiceSendMediaMetadata js_out" where
  "E2EEServiceSendMediaMetadata_fromJSON = f_obj createBaseE2EEServiceSendMediaMetadata
    [f_field (f_first [(''sessionId'', js_String), (''session_id'', js_String)] '''') (\<lambda>v m. m\<lparr>E2EEServiceSendMediaMetadata_sessionId := v\<rparr>),
     f_field (f_first [(''chatJid'', js_String), (''chat_jid'', js_String)] '''') (\<lambda>v m. m\<lparr>E2EEServiceSendMediaMetadata_chatJid := v\<rparr>),
     f_field (f_first [(''facebookUserId'', js_String), (''facebook_user_id'', js_String)] '''') (\<lambda>v m. m\<lparr>E2EEServiceSendMediaMetadata_facebookUserId := v\<rparr>),
     f_field (f_first [(''kind'', \<lambda>x. Returned (e2EEMediaKindFromJSON x))] 0) (\<lambda>v m. m\<lparr>E2EEServiceSendMediaMetadata_kind := v\<rparr>),
     f_field (f_first [(''name'', js_String)] '''') (\<lambda>v m. m\<lparr>E2EEServiceSendMediaMetadata_name := v\<rparr>),
     f_field (f_first [(''contentType'', js_String), (''content_type'', js_String)] '''') (\<lambda>v m. m\<lparr>E2EEServiceSendMediaMetadata_contentType := v\<rparr>),
     f_field (f_first [(''size'', js_BigInt)] 0) (\<lambda>v m. m\<lparr>E2EEServiceSendMediaMetadata_size := v\<rparr>),
     f_field (f_first [(''caption'', js_String)] '''') (\<lambda>v m. m\<lparr>E2EEServiceSendMediaMetadata_caption := v\<rparr>),
     f_field (f_first [(''width'', js_integer)] 0) (\<lambda>v m. m\<lparr>E2EEServiceSendMediaMetadata_width := v\<rparr>),
     f_field (f_first [(''height'', js_integer)] 0) (\<lambda>v m. m\<lparr>E2EEServiceSendMediaMetadata_height := v\<rparr>),
     f_field (f_first [(''duration'', js_integer)] 0) (\<lambda>v m. m\<lparr>E2EEServiceSendMediaMetadata_duration := v\<rparr>),
     f_field (f_first [(''voice'', \<lambda>x. Returned (js_Boolean x))] False) (\<lambda>v m. m\<lparr>E2EEServiceSendMediaMetadata_voice := v\<rparr>),
     f_field (f_first [(''replyTo'', js_String), (''reply_to'', js_String)] '''') (\<lambda>v m. m\<lparr>E2EEServiceSendMediaMetadata_replyTo := v\<rparr>),
     f_field (f_first [(''replySenderJid'', js_String), (''reply_sender_jid'', js_String)] '''') (\<lambda>v m. m\<lparr>E2EEServiceSendMediaMetadata_replySenderJid := v\<rparr>),
     f_field (f_first [(''sha256'', bytesFromBase64)] []) (\<lambda>v m. m\<lparr>E2EEServiceSendMediaMetadata_sha256 := v\<rparr>)]"

definition E2EEServiceSendMediaMetadata_fromPartial :: "js_any \<Rightarrow> E2EEServiceSendMediaMetadata js_out" where
  "E2EEServiceSendMediaMetadata_fromPartial = f_obj createBaseE2EEServiceSendMediaMetadata
    [f_field (f_first [(''sessionId'', p_string)] '''') (\<lambda>v m. m\<lparr>E2EEServiceSendMediaMetadata_sessionId := v\<rparr>),
     f_field (f_first [(''chatJid'', p_string)] '''') (\<lambda>v m. m\<lparr>E2EEServiceSendMediaMetadata_chatJid := v\<rparr>),
     f_field (f_first [(''facebookUserId'', p_string)] '''') (\<lambda>v m. m\<lparr>E2EEServiceSendMediaMetadata_facebookUserId := v\<rparr>),
     f_field (f_first [(''kind'', p_int)] 0) (\<lambda>v m. m\<lparr>E2EEServiceSendMediaMetadata_kind := v\<rparr>),
     f_field (f_first [(''name'', p_string)] '''') (\<lambda>v m. m\<lparr>E2EEServiceSendMediaMetadata_name := v\<rparr>),
     f_field (f_first [(''contentType'', p_string)] '''') (\<lambda>v m. m\<lparr>E2EEServiceSendMediaMetadata_contentType := v\<rparr>),
     f_field (f_first [(''size'', js_BigInt)] 0) (\<lambda>v m. m\<lparr>E2EEServiceSendMediaMetadata_size := v\<rparr>),
     f_field (f_first [(''caption'', p_string)] '''') (\<lambda>v m. m\<lparr>E2EEServiceSendMediaMetadata_caption := v\<rparr>),
     f_field (f_first [(''width'', p_int)] 0) (\<lambda>v m. m\<lparr>E2EEServiceSendMediaMetadata_width := v\<rparr>),
     f_field (f_first [(''height'', p_int)] 0) (\<lambda>v m. m\<lparr>E2EEServiceSendMediaMetadata_height := v\<rparr>),
     f_field (f_first [(''duration'', p_int)] 0) (\<lambda>v m. m\<lparr>E2EEServiceSendMediaMetadata_duration := v\<rparr>),
     f_field (f_first [(''voice'', p_bool)] False) (\<lambda>v m. m\<lparr>E2EEServiceSendMediaMetadata_voice := v\<rparr>),
     f_field (f_first [(''replyTo'', p_string)] '''') (\<lambda>v m. m\<lparr>E2EEServiceSendMediaMetadata_replyTo := v\<rparr>),
     f_field (f_first [(''replySenderJid'', p_string)] '''') (\<lambda>v m. m\<lparr>E2EEServiceSendMediaMetadata_replySenderJid := v\<rparr>),
     f_field (f_first [(''sha256'', p_bytes)] []) (\<lambda>v m. m\<lparr>E2EEServiceSendMediaMetadata_sha256 := v\<rparr>)]"

definition E2EEServiceSendMediaMetadata_create :: "js_any \<Rightarrow> E2EEServiceSendMediaMetadata js_out" where
  "E2EEServiceSendMediaMetadata_create = create_with E2EEServiceSendMediaMetadata_fromPartial"

definition E2EEServiceSendMediaMetadata_json_ok :: "E2EEServiceSendMediaMetadata \<Rightarrow> bool" where
  "E2EEServiceSendMediaMetadata_json_ok m \<longleftrightarrow> e2EEMediaKind_known (E2EEServiceSendMediaMetadata_kind m)"

lemma E2EEServiceSendMediaMetadata_json:
  assumes ok: "E2EEServiceSendMediaMetadata_json_ok m"
  shows "json_rt E2EEServiceSendMediaMetadata_toJSON E2EEServiceSendMediaMetadata_fromJSON m"
  unfolding json_rt_def
proof (intro allI impI)
  fix J
  assume to: "E2EEServiceSendMediaMetadata_toJSON m = Returned J"
  have d: "distinct ([''sessionId'', ''chatJid'', ''facebookUserId'', ''kind'', ''name'', ''contentType'', ''size'', ''caption'', ''width'', ''height'', ''duration'', ''voice'', ''replyTo'', ''replySenderJid'', ''sha256''] @ [''session_id'', ''chat_jid'', ''facebook_user_id'', ''content_type'', ''reply_to'', ''reply_sender_jid''])"
    by code_simp
  note all = t_objD [OF to [unfolded E2EEServiceSendMediaMetadata_toJSON_def] _ d, unfolded t_names, OF refl]
  note N = all [THEN conjunct2, unfolded names_simps]
  have "E2EEServiceSendMediaMetadata_fromJSON J = Returned m"
    unfolding E2EEServiceSendMediaMetadata_fromJSON_def
    by (rule fs_field [OF all [THEN conjunct1]], erule jr_string, simp only: N absent_simps simp_thms,
      erule fs_field, erule jr_string, simp only: N absent_simps simp_thms,
      erule fs_field, erule jr_string, simp only: N absent_simps simp_thms,
      erule fs_field, erule jr_enum, rule absent_Nil, rule e2EEMediaKind_json, (use ok in \<open>fastforce simp: E2EEServiceSendMediaMetadata_json_ok_def list_all_iff\<close>),
      erule fs_field, erule jr_string, rule absent_Nil,
      erule fs_field, erule jr_string, simp only: N absent_simps simp_thms,
      erule fs_field, erule jr_bigint, rule absent_Nil,
      erule fs_field, erule jr_string, rule absent_Nil,
      erule fs_field, erule jr_int, rule absent_Nil,
      erule fs_field, erule jr_int, rule absent_Nil,
      erule fs_field, erule jr_int, rule absent_Nil,
      erule fs_field, erule jr_bool, rule absent_Nil,
      erule fs_field, erule jr_string, simp only: N absent_simps simp_thms,
      erule fs_field, erule jr_string, simp only: N absent_simps simp_thms,
      erule fs_field, erule jr_bytes, rule absent_Nil,
      rule f_obj_Nil, cases m, simp add: createBaseE2EEServiceSendMediaMetadata_def)
  with all show "isSet J \<and> E2EEServiceSendMediaMetadata_fromJSON J = Returned m"
    by (simp add: entries_def)
qed

lemma E2EEServiceSendMediaMetadata_toJSON_safe [json_rules]: "to_safe (E2EEServiceSendMediaMetadata_toJSON m)"
  unfolding E2EEServiceSendMediaMetadata_toJSON_def by (intro json_rules)

subsection \<open>E2EEServiceSendMediaRequest\<close>

definition E2EEServiceSendMediaRequest_payload_toJSON :: "E2EEServiceSendMediaRequest_payload_case option \<Rightarrow> to_stmt list" where
  "E2EEServiceSendMediaRequest_payload_toJSON c = [(''metadata'', case c of Some (E2EEServiceSendMediaRequest_payload_metadata x) \<Rightarrow> js_map Some (E2EEServiceSendMediaMetadata_toJSON x) | _ \<Rightarrow> Returned None),
     (''chunk'', case c of Some (E2EEServiceSendMediaRequest_payload_chunk x) \<Rightarrow> js_map Some (MediaChunk_toJSON x) | _ \<Rightarrow> Returned None)]"

definition E2EEServiceSendMediaRequest_payload_fromJSON :: "js_any \<Rightarrow> E2EEServiceSendMediaRequest_payload_case option js_out" where
  "E2EEServiceSendMediaRequest_payload_fromJSON = f_first [(''metadata'', \<lambda>x. js_map (\<lambda>y. Some (E2EEServiceSendMediaRequest_payload_metadata y)) (E2EEServiceSendMediaMetadata_fromJSON x)),
     (''chunk'', \<lambda>x. js_map (\<lambda>y. Some (E2EEServiceSendMediaRequest_payload_chunk y)) (MediaChunk_fromJSON x))] None"

definition E2EEServiceSendMediaRequest_toJSON :: "E2EEServiceSendMediaRequest \<Rightarrow> js_any js_out" where
  "E2EEServiceSendMediaRequest_toJSON m = t_obj (E2EEServiceSendMediaRequest_payload_toJSON (E2EEServiceSendMediaRequest_payload m))"

definition E2EEServiceSendMediaRequest_fromJSON :: "js_any \<Rightarrow> E2EEServiceSendMediaRequest js_out" where
  "E2EEServiceSendMediaRequest_fromJSON = f_obj createBaseE2EEServiceSendMediaRequest
    [f_field (E2EEServiceSendMediaRequest_payload_fromJSON) (\<lambda>v m. m\<lparr>E2EEServiceSendMediaRequest_payload := v\<rparr>)]"

definition E2EEServiceSendMediaRequest_fromPartial :: "js_any \<Rightarrow> E2EEServiceSendMediaRequest js_out" where
  "E2EEServiceSendMediaRequest_fromPartial = f_obj createBaseE2EEServiceSendMediaRequest
    [f_field (p_oneof ''payload'' [(''metadata'', \<lambda>x. js_map E2EEServiceSendMediaRequest_payload_metadata (E2EEServiceSendMediaMetadata_fromPartial x)),
         (''chunk'', \<lambda>x. js_map E2EEServiceSendMediaRequest_payload_chunk (MediaChunk_fromPartial x))]) (\<lambda>v m. m\<lparr>E2EEServiceSendMediaRequest_payload := v\<rparr>)]"

definition E2EEServiceSendMediaRequest_create :: "js_any \<Rightarrow> E2EEServiceSendMediaRequest js_out" where
  "E2EEServiceSendMediaRequest_create = create_with E2EEServiceSendMediaRequest_fromPartial"

definition E2EEServiceSendMediaRequest_payload_case_json_ok :: "E2EEServiceSendMediaRequest_payload_case \<Rightarrow> bool" where
  "E2EEServiceSendMediaRequest_payload_case_json_ok c = (case c of
       E2EEServiceSendMediaRequest_payload_metadata v \<Rightarrow> E2EEServiceSendMediaMetadata_json_ok v
     | E2EEServiceSendMediaRequest_payload_chunk v \<Rightarrow> True)"

definition E2EEServiceSendMediaRequest_json_ok :: "E2EEServiceSendMediaRequest \<Rightarrow> bool" where
  "E2EEServiceSendMediaRequest_json_ok m \<longleftrightarrow> pred_option E2EEServiceSendMediaRequest_payload_case_json_ok (E2EEServiceSendMediaRequest_payload m)"

lemma E2EEServiceSendMediaRequest_payload_names: "map fst (E2EEServiceSendMediaRequest_payload_toJSON c) = [''metadata'', ''chunk'']"
  by (simp add: E2EEServiceSendMediaRequest_payload_toJSON_def)

lemma E2EEServiceSendMediaRequest_payload_json:
    assumes e: "entries J (E2EEServiceSendMediaRequest_payload_toJSON c)"
      and ok: "pred_option E2EEServiceSendMediaRequest_payload_case_json_ok c"
    shows "E2EEServiceSendMediaRequest_payload_fromJSON J = Returned c"
proof (cases c)
  case None
  then show ?thesis using e by (simp add: E2EEServiceSendMediaRequest_payload_toJSON_def E2EEServiceSendMediaRequest_payload_fromJSON_def entries_simps)
next
  case (Some x)
  show ?thesis
  proof (cases x)
    case (E2EEServiceSendMediaRequest_payload_metadata v)
    have "json_rt E2EEServiceSendMediaMetadata_toJSON E2EEServiceSendMediaMetadata_fromJSON v"
      by (rule E2EEServiceSendMediaMetadata_json) (use ok Some E2EEServiceSendMediaRequest_payload_metadata in \<open>simp add: E2EEServiceSendMediaRequest_payload_case_json_ok_def\<close>)
    then show ?thesis using e Some E2EEServiceSendMediaRequest_payload_metadata by (auto simp: E2EEServiceSendMediaRequest_payload_toJSON_def E2EEServiceSendMediaRequest_payload_fromJSON_def entries_simps json_rt_def)
  next
    case (E2EEServiceSendMediaRequest_payload_chunk v)
    then show ?thesis using e Some MediaChunk_json [of v] by (auto simp: E2EEServiceSendMediaRequest_payload_toJSON_def E2EEServiceSendMediaRequest_payload_fromJSON_def entries_simps json_rt_def)
  qed
qed

lemma E2EEServiceSendMediaRequest_json:
  assumes ok: "E2EEServiceSendMediaRequest_json_ok m"
  shows "json_rt E2EEServiceSendMediaRequest_toJSON E2EEServiceSendMediaRequest_fromJSON m"
  unfolding json_rt_def
proof (intro allI impI)
  fix J
  assume to: "E2EEServiceSendMediaRequest_toJSON m = Returned J"
  have d: "distinct ([''metadata'', ''chunk''] @ [])"
    by code_simp
  note all = t_objD [OF to [unfolded E2EEServiceSendMediaRequest_toJSON_def] _ d, unfolded t_names E2EEServiceSendMediaRequest_payload_names, OF refl]
  have "E2EEServiceSendMediaRequest_fromJSON J = Returned m"
    unfolding E2EEServiceSendMediaRequest_fromJSON_def
    by (rule fs_last [OF all [THEN conjunct1]], erule E2EEServiceSendMediaRequest_payload_json, (use ok in \<open>fastforce simp: E2EEServiceSendMediaRequest_json_ok_def list_all_iff\<close>),
      cases m, simp add: createBaseE2EEServiceSendMediaRequest_def)
  with all show "isSet J \<and> E2EEServiceSendMediaRequest_fromJSON J = Returned m"
    by (simp add: entries_def)
qed

lemma E2EEServiceSendMediaRequest_payload_safe [json_rules]: "stmts_safe (E2EEServiceSendMediaRequest_payload_toJSON c)"
  unfolding E2EEServiceSendMediaRequest_payload_toJSON_def by (intro json_rules) (auto split: option.split E2EEServiceSendMediaRequest_payload_case.split intro!: json_rules)

lemma E2EEServiceSendMediaRequest_toJSON_safe [json_rules]: "to_safe (E2EEServiceSendMediaRequest_toJSON m)"
  unfolding E2EEServiceSendMediaRequest_toJSON_def by (intro json_rules)

subsection \<open>E2EEServiceSendMediaResponse\<close>

definition E2EEServiceSendMediaResponse_toJSON :: "E2EEServiceSendMediaResponse \<Rightarrow> js_any js_out" where
  "E2EEServiceSendMediaResponse_toJSON m = t_obj (
    [(''messageId'', t_if (E2EEServiceSendMediaResponse_messageId m \<noteq> '''') (AStr (E2EEServiceSendMediaResponse_messageId m))),
     (''timestamp'', t_some (E2EEServiceSendMediaResponse_timestamp m) date_json),
     (''sha256'', t_if (E2EEServiceSendMediaResponse_sha256 m \<noteq> []) (AStr (base64FromBytes (E2EEServiceSendMediaResponse_sha256 m))))])"

definition E2EEServiceSendMediaResponse_fromJSON :: "js_any \<Rightarrow> E2EEServiceSendMediaResponse js_out" where
  "E2EEServiceSendMediaResponse_fromJSON = f_obj createBaseE2EEServiceSendMediaResponse
    [f_field (f_first [(''messageId'', js_String), (''message_id'', js_String)] '''') (\<lambda>v m. m\<lparr>E2EEServiceSendMediaResponse_messageId := v\<rparr>),
     f_field (f_first [(''timestamp'', \<lambda>x. js_map Some (fromJsonTimestamp x))] None) (\<lambda>v m. m\<lparr>E2EEServiceSendMediaResponse_timestamp := v\<rparr>),
     f_field (f_first [(''sha256'', bytesFromBase64)] []) (\<lambda>v m. m\<lparr>E2EEServiceSendMediaResponse_sha256 := v\<rparr>)]"

definition E2EEServiceSendMediaResponse_fromPartial :: "js_any \<Rightarrow> E2EEServiceSendMediaResponse js_out" where
  "E2EEServiceSendMediaResponse_fromPartial = f_obj createBaseE2EEServiceSendMediaResponse
    [f_field (f_first [(''messageId'', p_string)] '''') (\<lambda>v m. m\<lparr>E2EEServiceSendMediaResponse_messageId := v\<rparr>),
     f_field (f_first [(''timestamp'', \<lambda>x. js_map Some (p_date x))] None) (\<lambda>v m. m\<lparr>E2EEServiceSendMediaResponse_timestamp := v\<rparr>),
     f_field (f_first [(''sha256'', p_bytes)] []) (\<lambda>v m. m\<lparr>E2EEServiceSendMediaResponse_sha256 := v\<rparr>)]"

definition E2EEServiceSendMediaResponse_create :: "js_any \<Rightarrow> E2EEServiceSendMediaResponse js_out" where
  "E2EEServiceSendMediaResponse_create = create_with E2EEServiceSendMediaResponse_fromPartial"

definition E2EEServiceSendMediaResponse_json_ok :: "E2EEServiceSendMediaResponse \<Rightarrow> bool" where
  "E2EEServiceSendMediaResponse_json_ok m \<longleftrightarrow> pred_option js_date_ok (E2EEServiceSendMediaResponse_timestamp m)"

lemma E2EEServiceSendMediaResponse_json:
  assumes ok: "E2EEServiceSendMediaResponse_json_ok m"
  shows "json_rt E2EEServiceSendMediaResponse_toJSON E2EEServiceSendMediaResponse_fromJSON m"
  unfolding json_rt_def
proof (intro allI impI)
  fix J
  assume to: "E2EEServiceSendMediaResponse_toJSON m = Returned J"
  have d: "distinct ([''messageId'', ''timestamp'', ''sha256''] @ [''message_id''])"
    by code_simp
  note all = t_objD [OF to [unfolded E2EEServiceSendMediaResponse_toJSON_def] _ d, unfolded t_names, OF refl]
  note N = all [THEN conjunct2, unfolded names_simps]
  have "E2EEServiceSendMediaResponse_fromJSON J = Returned m"
    unfolding E2EEServiceSendMediaResponse_fromJSON_def
    by (rule fs_field [OF all [THEN conjunct1]], erule jr_string, simp only: N absent_simps simp_thms,
      erule fs_field, erule jr_date, rule absent_Nil, (use ok in \<open>fastforce simp: E2EEServiceSendMediaResponse_json_ok_def list_all_iff\<close>),
      erule fs_field, erule jr_bytes, rule absent_Nil,
      rule f_obj_Nil, cases m, simp add: createBaseE2EEServiceSendMediaResponse_def)
  with all show "isSet J \<and> E2EEServiceSendMediaResponse_fromJSON J = Returned m"
    by (simp add: entries_def)
qed

lemma E2EEServiceSendMediaResponse_toJSON_safe [json_rules]: "to_safe (E2EEServiceSendMediaResponse_toJSON m)"
  unfolding E2EEServiceSendMediaResponse_toJSON_def by (intro json_rules)

subsection \<open>E2EEServiceDownloadMediaRequest\<close>

definition E2EEServiceDownloadMediaRequest_toJSON :: "E2EEServiceDownloadMediaRequest \<Rightarrow> js_any js_out" where
  "E2EEServiceDownloadMediaRequest_toJSON m = t_obj (
    [(''sessionId'', t_if (E2EEServiceDownloadMediaRequest_sessionId m \<noteq> '''') (AStr (E2EEServiceDownloadMediaRequest_sessionId m))),
     (''reference'', t_some (E2EEServiceDownloadMediaRequest_reference m) E2EEMediaReference_toJSON)])"

definition E2EEServiceDownloadMediaRequest_fromJSON :: "js_any \<Rightarrow> E2EEServiceDownloadMediaRequest js_out" where
  "E2EEServiceDownloadMediaRequest_fromJSON = f_obj createBaseE2EEServiceDownloadMediaRequest
    [f_field (f_first [(''sessionId'', js_String), (''session_id'', js_String)] '''') (\<lambda>v m. m\<lparr>E2EEServiceDownloadMediaRequest_sessionId := v\<rparr>),
     f_field (f_first [(''reference'', \<lambda>x. js_map Some (E2EEMediaReference_fromJSON x))] None) (\<lambda>v m. m\<lparr>E2EEServiceDownloadMediaRequest_reference := v\<rparr>)]"

definition E2EEServiceDownloadMediaRequest_fromPartial :: "js_any \<Rightarrow> E2EEServiceDownloadMediaRequest js_out" where
  "E2EEServiceDownloadMediaRequest_fromPartial = f_obj createBaseE2EEServiceDownloadMediaRequest
    [f_field (f_first [(''sessionId'', p_string)] '''') (\<lambda>v m. m\<lparr>E2EEServiceDownloadMediaRequest_sessionId := v\<rparr>),
     f_field (f_first [(''reference'', \<lambda>x. js_map Some (E2EEMediaReference_fromPartial x))] None) (\<lambda>v m. m\<lparr>E2EEServiceDownloadMediaRequest_reference := v\<rparr>)]"

definition E2EEServiceDownloadMediaRequest_create :: "js_any \<Rightarrow> E2EEServiceDownloadMediaRequest js_out" where
  "E2EEServiceDownloadMediaRequest_create = create_with E2EEServiceDownloadMediaRequest_fromPartial"

lemma E2EEServiceDownloadMediaRequest_json:
  "json_rt E2EEServiceDownloadMediaRequest_toJSON E2EEServiceDownloadMediaRequest_fromJSON m"
  unfolding json_rt_def
proof (intro allI impI)
  fix J
  assume to: "E2EEServiceDownloadMediaRequest_toJSON m = Returned J"
  have d: "distinct ([''sessionId'', ''reference''] @ [''session_id''])"
    by code_simp
  note all = t_objD [OF to [unfolded E2EEServiceDownloadMediaRequest_toJSON_def] _ d, unfolded t_names, OF refl]
  note N = all [THEN conjunct2, unfolded names_simps]
  have "E2EEServiceDownloadMediaRequest_fromJSON J = Returned m"
    unfolding E2EEServiceDownloadMediaRequest_fromJSON_def
    by (rule fs_field [OF all [THEN conjunct1]], erule jr_string, simp only: N absent_simps simp_thms,
      erule fs_field, erule jr_msg, rule absent_Nil, rule E2EEMediaReference_json,
      rule f_obj_Nil, cases m, simp add: createBaseE2EEServiceDownloadMediaRequest_def)
  with all show "isSet J \<and> E2EEServiceDownloadMediaRequest_fromJSON J = Returned m"
    by (simp add: entries_def)
qed

lemma E2EEServiceDownloadMediaRequest_toJSON_safe [json_rules]: "to_safe (E2EEServiceDownloadMediaRequest_toJSON m)"
  unfolding E2EEServiceDownloadMediaRequest_toJSON_def by (intro json_rules)

subsection \<open>E2EEServiceDownloadMediaMetadata\<close>

definition E2EEServiceDownloadMediaMetadata_toJSON :: "E2EEServiceDownloadMediaMetadata \<Rightarrow> js_any js_out" where
  "E2EEServiceDownloadMediaMetadata_toJSON m = t_obj (
    [(''size'', t_if (E2EEServiceDownloadMediaMetadata_size m \<noteq> 0) (AStr (string_of_int (E2EEServiceDownloadMediaMetadata_size m)))),
     (''contentType'', t_if (E2EEServiceDownloadMediaMetadata_contentType m \<noteq> '''') (AStr (E2EEServiceDownloadMediaMetadata_contentType m))),
     (''sha256'', t_if (E2EEServiceDownloadMediaMetadata_sha256 m \<noteq> []) (AStr (base64FromBytes (E2EEServiceDownloadMediaMetadata_sha256 m))))])"

definition E2EEServiceDownloadMediaMetadata_fromJSON :: "js_any \<Rightarrow> E2EEServiceDownloadMediaMetadata js_out" where
  "E2EEServiceDownloadMediaMetadata_fromJSON = f_obj createBaseE2EEServiceDownloadMediaMetadata
    [f_field (f_first [(''size'', js_BigInt)] 0) (\<lambda>v m. m\<lparr>E2EEServiceDownloadMediaMetadata_size := v\<rparr>),
     f_field (f_first [(''contentType'', js_String), (''content_type'', js_String)] '''') (\<lambda>v m. m\<lparr>E2EEServiceDownloadMediaMetadata_contentType := v\<rparr>),
     f_field (f_first [(''sha256'', bytesFromBase64)] []) (\<lambda>v m. m\<lparr>E2EEServiceDownloadMediaMetadata_sha256 := v\<rparr>)]"

definition E2EEServiceDownloadMediaMetadata_fromPartial :: "js_any \<Rightarrow> E2EEServiceDownloadMediaMetadata js_out" where
  "E2EEServiceDownloadMediaMetadata_fromPartial = f_obj createBaseE2EEServiceDownloadMediaMetadata
    [f_field (f_first [(''size'', js_BigInt)] 0) (\<lambda>v m. m\<lparr>E2EEServiceDownloadMediaMetadata_size := v\<rparr>),
     f_field (f_first [(''contentType'', p_string)] '''') (\<lambda>v m. m\<lparr>E2EEServiceDownloadMediaMetadata_contentType := v\<rparr>),
     f_field (f_first [(''sha256'', p_bytes)] []) (\<lambda>v m. m\<lparr>E2EEServiceDownloadMediaMetadata_sha256 := v\<rparr>)]"

definition E2EEServiceDownloadMediaMetadata_create :: "js_any \<Rightarrow> E2EEServiceDownloadMediaMetadata js_out" where
  "E2EEServiceDownloadMediaMetadata_create = create_with E2EEServiceDownloadMediaMetadata_fromPartial"

lemma E2EEServiceDownloadMediaMetadata_json:
  "json_rt E2EEServiceDownloadMediaMetadata_toJSON E2EEServiceDownloadMediaMetadata_fromJSON m"
  unfolding json_rt_def
proof (intro allI impI)
  fix J
  assume to: "E2EEServiceDownloadMediaMetadata_toJSON m = Returned J"
  have d: "distinct ([''size'', ''contentType'', ''sha256''] @ [''content_type''])"
    by code_simp
  note all = t_objD [OF to [unfolded E2EEServiceDownloadMediaMetadata_toJSON_def] _ d, unfolded t_names, OF refl]
  note N = all [THEN conjunct2, unfolded names_simps]
  have "E2EEServiceDownloadMediaMetadata_fromJSON J = Returned m"
    unfolding E2EEServiceDownloadMediaMetadata_fromJSON_def
    by (rule fs_field [OF all [THEN conjunct1]], erule jr_bigint, rule absent_Nil,
      erule fs_field, erule jr_string, simp only: N absent_simps simp_thms,
      erule fs_field, erule jr_bytes, rule absent_Nil,
      rule f_obj_Nil, cases m, simp add: createBaseE2EEServiceDownloadMediaMetadata_def)
  with all show "isSet J \<and> E2EEServiceDownloadMediaMetadata_fromJSON J = Returned m"
    by (simp add: entries_def)
qed

lemma E2EEServiceDownloadMediaMetadata_toJSON_safe [json_rules]: "to_safe (E2EEServiceDownloadMediaMetadata_toJSON m)"
  unfolding E2EEServiceDownloadMediaMetadata_toJSON_def by (intro json_rules)

subsection \<open>E2EEServiceDownloadMediaResponse\<close>

definition E2EEServiceDownloadMediaResponse_payload_toJSON :: "E2EEServiceDownloadMediaResponse_payload_case option \<Rightarrow> to_stmt list" where
  "E2EEServiceDownloadMediaResponse_payload_toJSON c = [(''metadata'', case c of Some (E2EEServiceDownloadMediaResponse_payload_metadata x) \<Rightarrow> js_map Some (E2EEServiceDownloadMediaMetadata_toJSON x) | _ \<Rightarrow> Returned None),
     (''chunk'', case c of Some (E2EEServiceDownloadMediaResponse_payload_chunk x) \<Rightarrow> js_map Some (MediaChunk_toJSON x) | _ \<Rightarrow> Returned None)]"

definition E2EEServiceDownloadMediaResponse_payload_fromJSON :: "js_any \<Rightarrow> E2EEServiceDownloadMediaResponse_payload_case option js_out" where
  "E2EEServiceDownloadMediaResponse_payload_fromJSON = f_first [(''metadata'', \<lambda>x. js_map (\<lambda>y. Some (E2EEServiceDownloadMediaResponse_payload_metadata y)) (E2EEServiceDownloadMediaMetadata_fromJSON x)),
     (''chunk'', \<lambda>x. js_map (\<lambda>y. Some (E2EEServiceDownloadMediaResponse_payload_chunk y)) (MediaChunk_fromJSON x))] None"

definition E2EEServiceDownloadMediaResponse_toJSON :: "E2EEServiceDownloadMediaResponse \<Rightarrow> js_any js_out" where
  "E2EEServiceDownloadMediaResponse_toJSON m = t_obj (E2EEServiceDownloadMediaResponse_payload_toJSON (E2EEServiceDownloadMediaResponse_payload m))"

definition E2EEServiceDownloadMediaResponse_fromJSON :: "js_any \<Rightarrow> E2EEServiceDownloadMediaResponse js_out" where
  "E2EEServiceDownloadMediaResponse_fromJSON = f_obj createBaseE2EEServiceDownloadMediaResponse
    [f_field (E2EEServiceDownloadMediaResponse_payload_fromJSON) (\<lambda>v m. m\<lparr>E2EEServiceDownloadMediaResponse_payload := v\<rparr>)]"

definition E2EEServiceDownloadMediaResponse_fromPartial :: "js_any \<Rightarrow> E2EEServiceDownloadMediaResponse js_out" where
  "E2EEServiceDownloadMediaResponse_fromPartial = f_obj createBaseE2EEServiceDownloadMediaResponse
    [f_field (p_oneof ''payload'' [(''metadata'', \<lambda>x. js_map E2EEServiceDownloadMediaResponse_payload_metadata (E2EEServiceDownloadMediaMetadata_fromPartial x)),
         (''chunk'', \<lambda>x. js_map E2EEServiceDownloadMediaResponse_payload_chunk (MediaChunk_fromPartial x))]) (\<lambda>v m. m\<lparr>E2EEServiceDownloadMediaResponse_payload := v\<rparr>)]"

definition E2EEServiceDownloadMediaResponse_create :: "js_any \<Rightarrow> E2EEServiceDownloadMediaResponse js_out" where
  "E2EEServiceDownloadMediaResponse_create = create_with E2EEServiceDownloadMediaResponse_fromPartial"

lemma E2EEServiceDownloadMediaResponse_payload_names: "map fst (E2EEServiceDownloadMediaResponse_payload_toJSON c) = [''metadata'', ''chunk'']"
  by (simp add: E2EEServiceDownloadMediaResponse_payload_toJSON_def)

lemma E2EEServiceDownloadMediaResponse_payload_json:
    assumes e: "entries J (E2EEServiceDownloadMediaResponse_payload_toJSON c)"
    shows "E2EEServiceDownloadMediaResponse_payload_fromJSON J = Returned c"
proof (cases c)
  case None
  then show ?thesis using e by (simp add: E2EEServiceDownloadMediaResponse_payload_toJSON_def E2EEServiceDownloadMediaResponse_payload_fromJSON_def entries_simps)
next
  case (Some x)
  show ?thesis
  proof (cases x)
    case (E2EEServiceDownloadMediaResponse_payload_metadata v)
    then show ?thesis using e Some E2EEServiceDownloadMediaMetadata_json [of v] by (auto simp: E2EEServiceDownloadMediaResponse_payload_toJSON_def E2EEServiceDownloadMediaResponse_payload_fromJSON_def entries_simps json_rt_def)
  next
    case (E2EEServiceDownloadMediaResponse_payload_chunk v)
    then show ?thesis using e Some MediaChunk_json [of v] by (auto simp: E2EEServiceDownloadMediaResponse_payload_toJSON_def E2EEServiceDownloadMediaResponse_payload_fromJSON_def entries_simps json_rt_def)
  qed
qed

lemma E2EEServiceDownloadMediaResponse_json:
  "json_rt E2EEServiceDownloadMediaResponse_toJSON E2EEServiceDownloadMediaResponse_fromJSON m"
  unfolding json_rt_def
proof (intro allI impI)
  fix J
  assume to: "E2EEServiceDownloadMediaResponse_toJSON m = Returned J"
  have d: "distinct ([''metadata'', ''chunk''] @ [])"
    by code_simp
  note all = t_objD [OF to [unfolded E2EEServiceDownloadMediaResponse_toJSON_def] _ d, unfolded t_names E2EEServiceDownloadMediaResponse_payload_names, OF refl]
  have "E2EEServiceDownloadMediaResponse_fromJSON J = Returned m"
    unfolding E2EEServiceDownloadMediaResponse_fromJSON_def
    by (rule fs_last [OF all [THEN conjunct1]], erule E2EEServiceDownloadMediaResponse_payload_json,
      cases m, simp add: createBaseE2EEServiceDownloadMediaResponse_def)
  with all show "isSet J \<and> E2EEServiceDownloadMediaResponse_fromJSON J = Returned m"
    by (simp add: entries_def)
qed

lemma E2EEServiceDownloadMediaResponse_payload_safe [json_rules]: "stmts_safe (E2EEServiceDownloadMediaResponse_payload_toJSON c)"
  unfolding E2EEServiceDownloadMediaResponse_payload_toJSON_def by (intro json_rules) (auto split: option.split E2EEServiceDownloadMediaResponse_payload_case.split intro!: json_rules)

lemma E2EEServiceDownloadMediaResponse_toJSON_safe [json_rules]: "to_safe (E2EEServiceDownloadMediaResponse_toJSON m)"
  unfolding E2EEServiceDownloadMediaResponse_toJSON_def by (intro json_rules)

subsection \<open>E2EEServiceReactRequest\<close>

definition E2EEServiceReactRequest_toJSON :: "E2EEServiceReactRequest \<Rightarrow> js_any js_out" where
  "E2EEServiceReactRequest_toJSON m = t_obj (
    [(''sessionId'', t_if (E2EEServiceReactRequest_sessionId m \<noteq> '''') (AStr (E2EEServiceReactRequest_sessionId m))),
     (''chatJid'', t_if (E2EEServiceReactRequest_chatJid m \<noteq> '''') (AStr (E2EEServiceReactRequest_chatJid m))),
     (''messageId'', t_if (E2EEServiceReactRequest_messageId m \<noteq> '''') (AStr (E2EEServiceReactRequest_messageId m))),
     (''senderJid'', t_if (E2EEServiceReactRequest_senderJid m \<noteq> '''') (AStr (E2EEServiceReactRequest_senderJid m))),
     (''reaction'', t_if (E2EEServiceReactRequest_reaction m \<noteq> '''') (AStr (E2EEServiceReactRequest_reaction m)))])"

definition E2EEServiceReactRequest_fromJSON :: "js_any \<Rightarrow> E2EEServiceReactRequest js_out" where
  "E2EEServiceReactRequest_fromJSON = f_obj createBaseE2EEServiceReactRequest
    [f_field (f_first [(''sessionId'', js_String), (''session_id'', js_String)] '''') (\<lambda>v m. m\<lparr>E2EEServiceReactRequest_sessionId := v\<rparr>),
     f_field (f_first [(''chatJid'', js_String), (''chat_jid'', js_String)] '''') (\<lambda>v m. m\<lparr>E2EEServiceReactRequest_chatJid := v\<rparr>),
     f_field (f_first [(''messageId'', js_String), (''message_id'', js_String)] '''') (\<lambda>v m. m\<lparr>E2EEServiceReactRequest_messageId := v\<rparr>),
     f_field (f_first [(''senderJid'', js_String), (''sender_jid'', js_String)] '''') (\<lambda>v m. m\<lparr>E2EEServiceReactRequest_senderJid := v\<rparr>),
     f_field (f_first [(''reaction'', js_String)] '''') (\<lambda>v m. m\<lparr>E2EEServiceReactRequest_reaction := v\<rparr>)]"

definition E2EEServiceReactRequest_fromPartial :: "js_any \<Rightarrow> E2EEServiceReactRequest js_out" where
  "E2EEServiceReactRequest_fromPartial = f_obj createBaseE2EEServiceReactRequest
    [f_field (f_first [(''sessionId'', p_string)] '''') (\<lambda>v m. m\<lparr>E2EEServiceReactRequest_sessionId := v\<rparr>),
     f_field (f_first [(''chatJid'', p_string)] '''') (\<lambda>v m. m\<lparr>E2EEServiceReactRequest_chatJid := v\<rparr>),
     f_field (f_first [(''messageId'', p_string)] '''') (\<lambda>v m. m\<lparr>E2EEServiceReactRequest_messageId := v\<rparr>),
     f_field (f_first [(''senderJid'', p_string)] '''') (\<lambda>v m. m\<lparr>E2EEServiceReactRequest_senderJid := v\<rparr>),
     f_field (f_first [(''reaction'', p_string)] '''') (\<lambda>v m. m\<lparr>E2EEServiceReactRequest_reaction := v\<rparr>)]"

definition E2EEServiceReactRequest_create :: "js_any \<Rightarrow> E2EEServiceReactRequest js_out" where
  "E2EEServiceReactRequest_create = create_with E2EEServiceReactRequest_fromPartial"

lemma E2EEServiceReactRequest_json:
  "json_rt E2EEServiceReactRequest_toJSON E2EEServiceReactRequest_fromJSON m"
  unfolding json_rt_def
proof (intro allI impI)
  fix J
  assume to: "E2EEServiceReactRequest_toJSON m = Returned J"
  have d: "distinct ([''sessionId'', ''chatJid'', ''messageId'', ''senderJid'', ''reaction''] @ [''session_id'', ''chat_jid'', ''message_id'', ''sender_jid''])"
    by code_simp
  note all = t_objD [OF to [unfolded E2EEServiceReactRequest_toJSON_def] _ d, unfolded t_names, OF refl]
  note N = all [THEN conjunct2, unfolded names_simps]
  have "E2EEServiceReactRequest_fromJSON J = Returned m"
    unfolding E2EEServiceReactRequest_fromJSON_def
    by (rule fs_field [OF all [THEN conjunct1]], erule jr_string, simp only: N absent_simps simp_thms,
      erule fs_field, erule jr_string, simp only: N absent_simps simp_thms,
      erule fs_field, erule jr_string, simp only: N absent_simps simp_thms,
      erule fs_field, erule jr_string, simp only: N absent_simps simp_thms,
      erule fs_field, erule jr_string, rule absent_Nil,
      rule f_obj_Nil, cases m, simp add: createBaseE2EEServiceReactRequest_def)
  with all show "isSet J \<and> E2EEServiceReactRequest_fromJSON J = Returned m"
    by (simp add: entries_def)
qed

lemma E2EEServiceReactRequest_toJSON_safe [json_rules]: "to_safe (E2EEServiceReactRequest_toJSON m)"
  unfolding E2EEServiceReactRequest_toJSON_def by (intro json_rules)

subsection \<open>E2EEServiceReactResponse\<close>

definition E2EEServiceReactResponse_toJSON :: "E2EEServiceReactResponse \<Rightarrow> js_any js_out" where
  "E2EEServiceReactResponse_toJSON m = t_obj ([])"

definition E2EEServiceReactResponse_fromJSON :: "js_any \<Rightarrow> E2EEServiceReactResponse js_out" where
  "E2EEServiceReactResponse_fromJSON = f_obj createBaseE2EEServiceReactResponse
    []"

definition E2EEServiceReactResponse_fromPartial :: "js_any \<Rightarrow> E2EEServiceReactResponse js_out" where
  "E2EEServiceReactResponse_fromPartial = f_obj createBaseE2EEServiceReactResponse
    []"

definition E2EEServiceReactResponse_create :: "js_any \<Rightarrow> E2EEServiceReactResponse js_out" where
  "E2EEServiceReactResponse_create = create_with E2EEServiceReactResponse_fromPartial"

lemma E2EEServiceReactResponse_json:
  "json_rt E2EEServiceReactResponse_toJSON E2EEServiceReactResponse_fromJSON m"
  unfolding json_rt_def
proof (intro allI impI)
  fix J
  assume to: "E2EEServiceReactResponse_toJSON m = Returned J"
  have d: "distinct (([] :: string list) @ [])"
    by simp
  note all = t_objD [OF to [unfolded E2EEServiceReactResponse_toJSON_def] _ d, unfolded t_names, OF refl]
  have "E2EEServiceReactResponse_fromJSON J = Returned m"
    unfolding E2EEServiceReactResponse_fromJSON_def
    by (rule f_obj_Nil, cases m, simp add: createBaseE2EEServiceReactResponse_def)
  with all show "isSet J \<and> E2EEServiceReactResponse_fromJSON J = Returned m"
    by (simp add: entries_def)
qed

lemma E2EEServiceReactResponse_toJSON_safe [json_rules]: "to_safe (E2EEServiceReactResponse_toJSON m)"
  unfolding E2EEServiceReactResponse_toJSON_def by (intro json_rules)

subsection \<open>E2EEServiceEditRequest\<close>

definition E2EEServiceEditRequest_toJSON :: "E2EEServiceEditRequest \<Rightarrow> js_any js_out" where
  "E2EEServiceEditRequest_toJSON m = t_obj (
    [(''sessionId'', t_if (E2EEServiceEditRequest_sessionId m \<noteq> '''') (AStr (E2EEServiceEditRequest_sessionId m))),
     (''chatJid'', t_if (E2EEServiceEditRequest_chatJid m \<noteq> '''') (AStr (E2EEServiceEditRequest_chatJid m))),
     (''messageId'', t_if (E2EEServiceEditRequest_messageId m \<noteq> '''') (AStr (E2EEServiceEditRequest_messageId m))),
     (''text'', t_if (E2EEServiceEditRequest_text m \<noteq> '''') (AStr (E2EEServiceEditRequest_text m)))])"

definition E2EEServiceEditRequest_fromJSON :: "js_any \<Rightarrow> E2EEServiceEditRequest js_out" where
  "E2EEServiceEditRequest_fromJSON = f_obj createBaseE2EEServiceEditRequest
    [f_field (f_first [(''sessionId'', js_String), (''session_id'', js_String)] '''') (\<lambda>v m. m\<lparr>E2EEServiceEditRequest_sessionId := v\<rparr>),
     f_field (f_first [(''chatJid'', js_String), (''chat_jid'', js_String)] '''') (\<lambda>v m. m\<lparr>E2EEServiceEditRequest_chatJid := v\<rparr>),
     f_field (f_first [(''messageId'', js_String), (''message_id'', js_String)] '''') (\<lambda>v m. m\<lparr>E2EEServiceEditRequest_messageId := v\<rparr>),
     f_field (f_first [(''text'', js_String)] '''') (\<lambda>v m. m\<lparr>E2EEServiceEditRequest_text := v\<rparr>)]"

definition E2EEServiceEditRequest_fromPartial :: "js_any \<Rightarrow> E2EEServiceEditRequest js_out" where
  "E2EEServiceEditRequest_fromPartial = f_obj createBaseE2EEServiceEditRequest
    [f_field (f_first [(''sessionId'', p_string)] '''') (\<lambda>v m. m\<lparr>E2EEServiceEditRequest_sessionId := v\<rparr>),
     f_field (f_first [(''chatJid'', p_string)] '''') (\<lambda>v m. m\<lparr>E2EEServiceEditRequest_chatJid := v\<rparr>),
     f_field (f_first [(''messageId'', p_string)] '''') (\<lambda>v m. m\<lparr>E2EEServiceEditRequest_messageId := v\<rparr>),
     f_field (f_first [(''text'', p_string)] '''') (\<lambda>v m. m\<lparr>E2EEServiceEditRequest_text := v\<rparr>)]"

definition E2EEServiceEditRequest_create :: "js_any \<Rightarrow> E2EEServiceEditRequest js_out" where
  "E2EEServiceEditRequest_create = create_with E2EEServiceEditRequest_fromPartial"

lemma E2EEServiceEditRequest_json:
  "json_rt E2EEServiceEditRequest_toJSON E2EEServiceEditRequest_fromJSON m"
  unfolding json_rt_def
proof (intro allI impI)
  fix J
  assume to: "E2EEServiceEditRequest_toJSON m = Returned J"
  have d: "distinct ([''sessionId'', ''chatJid'', ''messageId'', ''text''] @ [''session_id'', ''chat_jid'', ''message_id''])"
    by code_simp
  note all = t_objD [OF to [unfolded E2EEServiceEditRequest_toJSON_def] _ d, unfolded t_names, OF refl]
  note N = all [THEN conjunct2, unfolded names_simps]
  have "E2EEServiceEditRequest_fromJSON J = Returned m"
    unfolding E2EEServiceEditRequest_fromJSON_def
    by (rule fs_field [OF all [THEN conjunct1]], erule jr_string, simp only: N absent_simps simp_thms,
      erule fs_field, erule jr_string, simp only: N absent_simps simp_thms,
      erule fs_field, erule jr_string, simp only: N absent_simps simp_thms,
      erule fs_field, erule jr_string, rule absent_Nil,
      rule f_obj_Nil, cases m, simp add: createBaseE2EEServiceEditRequest_def)
  with all show "isSet J \<and> E2EEServiceEditRequest_fromJSON J = Returned m"
    by (simp add: entries_def)
qed

lemma E2EEServiceEditRequest_toJSON_safe [json_rules]: "to_safe (E2EEServiceEditRequest_toJSON m)"
  unfolding E2EEServiceEditRequest_toJSON_def by (intro json_rules)

subsection \<open>E2EEServiceEditResponse\<close>

definition E2EEServiceEditResponse_toJSON :: "E2EEServiceEditResponse \<Rightarrow> js_any js_out" where
  "E2EEServiceEditResponse_toJSON m = t_obj ([])"

definition E2EEServiceEditResponse_fromJSON :: "js_any \<Rightarrow> E2EEServiceEditResponse js_out" where
  "E2EEServiceEditResponse_fromJSON = f_obj createBaseE2EEServiceEditResponse
    []"

definition E2EEServiceEditResponse_fromPartial :: "js_any \<Rightarrow> E2EEServiceEditResponse js_out" where
  "E2EEServiceEditResponse_fromPartial = f_obj createBaseE2EEServiceEditResponse
    []"

definition E2EEServiceEditResponse_create :: "js_any \<Rightarrow> E2EEServiceEditResponse js_out" where
  "E2EEServiceEditResponse_create = create_with E2EEServiceEditResponse_fromPartial"

lemma E2EEServiceEditResponse_json:
  "json_rt E2EEServiceEditResponse_toJSON E2EEServiceEditResponse_fromJSON m"
  unfolding json_rt_def
proof (intro allI impI)
  fix J
  assume to: "E2EEServiceEditResponse_toJSON m = Returned J"
  have d: "distinct (([] :: string list) @ [])"
    by simp
  note all = t_objD [OF to [unfolded E2EEServiceEditResponse_toJSON_def] _ d, unfolded t_names, OF refl]
  have "E2EEServiceEditResponse_fromJSON J = Returned m"
    unfolding E2EEServiceEditResponse_fromJSON_def
    by (rule f_obj_Nil, cases m, simp add: createBaseE2EEServiceEditResponse_def)
  with all show "isSet J \<and> E2EEServiceEditResponse_fromJSON J = Returned m"
    by (simp add: entries_def)
qed

lemma E2EEServiceEditResponse_toJSON_safe [json_rules]: "to_safe (E2EEServiceEditResponse_toJSON m)"
  unfolding E2EEServiceEditResponse_toJSON_def by (intro json_rules)

subsection \<open>E2EEServiceUnsendRequest\<close>

definition E2EEServiceUnsendRequest_toJSON :: "E2EEServiceUnsendRequest \<Rightarrow> js_any js_out" where
  "E2EEServiceUnsendRequest_toJSON m = t_obj (
    [(''sessionId'', t_if (E2EEServiceUnsendRequest_sessionId m \<noteq> '''') (AStr (E2EEServiceUnsendRequest_sessionId m))),
     (''chatJid'', t_if (E2EEServiceUnsendRequest_chatJid m \<noteq> '''') (AStr (E2EEServiceUnsendRequest_chatJid m))),
     (''messageId'', t_if (E2EEServiceUnsendRequest_messageId m \<noteq> '''') (AStr (E2EEServiceUnsendRequest_messageId m)))])"

definition E2EEServiceUnsendRequest_fromJSON :: "js_any \<Rightarrow> E2EEServiceUnsendRequest js_out" where
  "E2EEServiceUnsendRequest_fromJSON = f_obj createBaseE2EEServiceUnsendRequest
    [f_field (f_first [(''sessionId'', js_String), (''session_id'', js_String)] '''') (\<lambda>v m. m\<lparr>E2EEServiceUnsendRequest_sessionId := v\<rparr>),
     f_field (f_first [(''chatJid'', js_String), (''chat_jid'', js_String)] '''') (\<lambda>v m. m\<lparr>E2EEServiceUnsendRequest_chatJid := v\<rparr>),
     f_field (f_first [(''messageId'', js_String), (''message_id'', js_String)] '''') (\<lambda>v m. m\<lparr>E2EEServiceUnsendRequest_messageId := v\<rparr>)]"

definition E2EEServiceUnsendRequest_fromPartial :: "js_any \<Rightarrow> E2EEServiceUnsendRequest js_out" where
  "E2EEServiceUnsendRequest_fromPartial = f_obj createBaseE2EEServiceUnsendRequest
    [f_field (f_first [(''sessionId'', p_string)] '''') (\<lambda>v m. m\<lparr>E2EEServiceUnsendRequest_sessionId := v\<rparr>),
     f_field (f_first [(''chatJid'', p_string)] '''') (\<lambda>v m. m\<lparr>E2EEServiceUnsendRequest_chatJid := v\<rparr>),
     f_field (f_first [(''messageId'', p_string)] '''') (\<lambda>v m. m\<lparr>E2EEServiceUnsendRequest_messageId := v\<rparr>)]"

definition E2EEServiceUnsendRequest_create :: "js_any \<Rightarrow> E2EEServiceUnsendRequest js_out" where
  "E2EEServiceUnsendRequest_create = create_with E2EEServiceUnsendRequest_fromPartial"

lemma E2EEServiceUnsendRequest_json:
  "json_rt E2EEServiceUnsendRequest_toJSON E2EEServiceUnsendRequest_fromJSON m"
  unfolding json_rt_def
proof (intro allI impI)
  fix J
  assume to: "E2EEServiceUnsendRequest_toJSON m = Returned J"
  have d: "distinct ([''sessionId'', ''chatJid'', ''messageId''] @ [''session_id'', ''chat_jid'', ''message_id''])"
    by code_simp
  note all = t_objD [OF to [unfolded E2EEServiceUnsendRequest_toJSON_def] _ d, unfolded t_names, OF refl]
  note N = all [THEN conjunct2, unfolded names_simps]
  have "E2EEServiceUnsendRequest_fromJSON J = Returned m"
    unfolding E2EEServiceUnsendRequest_fromJSON_def
    by (rule fs_field [OF all [THEN conjunct1]], erule jr_string, simp only: N absent_simps simp_thms,
      erule fs_field, erule jr_string, simp only: N absent_simps simp_thms,
      erule fs_field, erule jr_string, simp only: N absent_simps simp_thms,
      rule f_obj_Nil, cases m, simp add: createBaseE2EEServiceUnsendRequest_def)
  with all show "isSet J \<and> E2EEServiceUnsendRequest_fromJSON J = Returned m"
    by (simp add: entries_def)
qed

lemma E2EEServiceUnsendRequest_toJSON_safe [json_rules]: "to_safe (E2EEServiceUnsendRequest_toJSON m)"
  unfolding E2EEServiceUnsendRequest_toJSON_def by (intro json_rules)

subsection \<open>E2EEServiceUnsendResponse\<close>

definition E2EEServiceUnsendResponse_toJSON :: "E2EEServiceUnsendResponse \<Rightarrow> js_any js_out" where
  "E2EEServiceUnsendResponse_toJSON m = t_obj ([])"

definition E2EEServiceUnsendResponse_fromJSON :: "js_any \<Rightarrow> E2EEServiceUnsendResponse js_out" where
  "E2EEServiceUnsendResponse_fromJSON = f_obj createBaseE2EEServiceUnsendResponse
    []"

definition E2EEServiceUnsendResponse_fromPartial :: "js_any \<Rightarrow> E2EEServiceUnsendResponse js_out" where
  "E2EEServiceUnsendResponse_fromPartial = f_obj createBaseE2EEServiceUnsendResponse
    []"

definition E2EEServiceUnsendResponse_create :: "js_any \<Rightarrow> E2EEServiceUnsendResponse js_out" where
  "E2EEServiceUnsendResponse_create = create_with E2EEServiceUnsendResponse_fromPartial"

lemma E2EEServiceUnsendResponse_json:
  "json_rt E2EEServiceUnsendResponse_toJSON E2EEServiceUnsendResponse_fromJSON m"
  unfolding json_rt_def
proof (intro allI impI)
  fix J
  assume to: "E2EEServiceUnsendResponse_toJSON m = Returned J"
  have d: "distinct (([] :: string list) @ [])"
    by simp
  note all = t_objD [OF to [unfolded E2EEServiceUnsendResponse_toJSON_def] _ d, unfolded t_names, OF refl]
  have "E2EEServiceUnsendResponse_fromJSON J = Returned m"
    unfolding E2EEServiceUnsendResponse_fromJSON_def
    by (rule f_obj_Nil, cases m, simp add: createBaseE2EEServiceUnsendResponse_def)
  with all show "isSet J \<and> E2EEServiceUnsendResponse_fromJSON J = Returned m"
    by (simp add: entries_def)
qed

lemma E2EEServiceUnsendResponse_toJSON_safe [json_rules]: "to_safe (E2EEServiceUnsendResponse_toJSON m)"
  unfolding E2EEServiceUnsendResponse_toJSON_def by (intro json_rules)

subsection \<open>E2EEServiceSetTypingRequest\<close>

definition E2EEServiceSetTypingRequest_toJSON :: "E2EEServiceSetTypingRequest \<Rightarrow> js_any js_out" where
  "E2EEServiceSetTypingRequest_toJSON m = t_obj (
    [(''sessionId'', t_if (E2EEServiceSetTypingRequest_sessionId m \<noteq> '''') (AStr (E2EEServiceSetTypingRequest_sessionId m))),
     (''chatJid'', t_if (E2EEServiceSetTypingRequest_chatJid m \<noteq> '''') (AStr (E2EEServiceSetTypingRequest_chatJid m))),
     (''typing'', t_if (E2EEServiceSetTypingRequest_typing m \<noteq> False) (ABool (E2EEServiceSetTypingRequest_typing m)))])"

definition E2EEServiceSetTypingRequest_fromJSON :: "js_any \<Rightarrow> E2EEServiceSetTypingRequest js_out" where
  "E2EEServiceSetTypingRequest_fromJSON = f_obj createBaseE2EEServiceSetTypingRequest
    [f_field (f_first [(''sessionId'', js_String), (''session_id'', js_String)] '''') (\<lambda>v m. m\<lparr>E2EEServiceSetTypingRequest_sessionId := v\<rparr>),
     f_field (f_first [(''chatJid'', js_String), (''chat_jid'', js_String)] '''') (\<lambda>v m. m\<lparr>E2EEServiceSetTypingRequest_chatJid := v\<rparr>),
     f_field (f_first [(''typing'', \<lambda>x. Returned (js_Boolean x))] False) (\<lambda>v m. m\<lparr>E2EEServiceSetTypingRequest_typing := v\<rparr>)]"

definition E2EEServiceSetTypingRequest_fromPartial :: "js_any \<Rightarrow> E2EEServiceSetTypingRequest js_out" where
  "E2EEServiceSetTypingRequest_fromPartial = f_obj createBaseE2EEServiceSetTypingRequest
    [f_field (f_first [(''sessionId'', p_string)] '''') (\<lambda>v m. m\<lparr>E2EEServiceSetTypingRequest_sessionId := v\<rparr>),
     f_field (f_first [(''chatJid'', p_string)] '''') (\<lambda>v m. m\<lparr>E2EEServiceSetTypingRequest_chatJid := v\<rparr>),
     f_field (f_first [(''typing'', p_bool)] False) (\<lambda>v m. m\<lparr>E2EEServiceSetTypingRequest_typing := v\<rparr>)]"

definition E2EEServiceSetTypingRequest_create :: "js_any \<Rightarrow> E2EEServiceSetTypingRequest js_out" where
  "E2EEServiceSetTypingRequest_create = create_with E2EEServiceSetTypingRequest_fromPartial"

lemma E2EEServiceSetTypingRequest_json:
  "json_rt E2EEServiceSetTypingRequest_toJSON E2EEServiceSetTypingRequest_fromJSON m"
  unfolding json_rt_def
proof (intro allI impI)
  fix J
  assume to: "E2EEServiceSetTypingRequest_toJSON m = Returned J"
  have d: "distinct ([''sessionId'', ''chatJid'', ''typing''] @ [''session_id'', ''chat_jid''])"
    by code_simp
  note all = t_objD [OF to [unfolded E2EEServiceSetTypingRequest_toJSON_def] _ d, unfolded t_names, OF refl]
  note N = all [THEN conjunct2, unfolded names_simps]
  have "E2EEServiceSetTypingRequest_fromJSON J = Returned m"
    unfolding E2EEServiceSetTypingRequest_fromJSON_def
    by (rule fs_field [OF all [THEN conjunct1]], erule jr_string, simp only: N absent_simps simp_thms,
      erule fs_field, erule jr_string, simp only: N absent_simps simp_thms,
      erule fs_field, erule jr_bool, rule absent_Nil,
      rule f_obj_Nil, cases m, simp add: createBaseE2EEServiceSetTypingRequest_def)
  with all show "isSet J \<and> E2EEServiceSetTypingRequest_fromJSON J = Returned m"
    by (simp add: entries_def)
qed

lemma E2EEServiceSetTypingRequest_toJSON_safe [json_rules]: "to_safe (E2EEServiceSetTypingRequest_toJSON m)"
  unfolding E2EEServiceSetTypingRequest_toJSON_def by (intro json_rules)

subsection \<open>E2EEServiceSetTypingResponse\<close>

definition E2EEServiceSetTypingResponse_toJSON :: "E2EEServiceSetTypingResponse \<Rightarrow> js_any js_out" where
  "E2EEServiceSetTypingResponse_toJSON m = t_obj ([])"

definition E2EEServiceSetTypingResponse_fromJSON :: "js_any \<Rightarrow> E2EEServiceSetTypingResponse js_out" where
  "E2EEServiceSetTypingResponse_fromJSON = f_obj createBaseE2EEServiceSetTypingResponse
    []"

definition E2EEServiceSetTypingResponse_fromPartial :: "js_any \<Rightarrow> E2EEServiceSetTypingResponse js_out" where
  "E2EEServiceSetTypingResponse_fromPartial = f_obj createBaseE2EEServiceSetTypingResponse
    []"

definition E2EEServiceSetTypingResponse_create :: "js_any \<Rightarrow> E2EEServiceSetTypingResponse js_out" where
  "E2EEServiceSetTypingResponse_create = create_with E2EEServiceSetTypingResponse_fromPartial"

lemma E2EEServiceSetTypingResponse_json:
  "json_rt E2EEServiceSetTypingResponse_toJSON E2EEServiceSetTypingResponse_fromJSON m"
  unfolding json_rt_def
proof (intro allI impI)
  fix J
  assume to: "E2EEServiceSetTypingResponse_toJSON m = Returned J"
  have d: "distinct (([] :: string list) @ [])"
    by simp
  note all = t_objD [OF to [unfolded E2EEServiceSetTypingResponse_toJSON_def] _ d, unfolded t_names, OF refl]
  have "E2EEServiceSetTypingResponse_fromJSON J = Returned m"
    unfolding E2EEServiceSetTypingResponse_fromJSON_def
    by (rule f_obj_Nil, cases m, simp add: createBaseE2EEServiceSetTypingResponse_def)
  with all show "isSet J \<and> E2EEServiceSetTypingResponse_fromJSON J = Returned m"
    by (simp add: entries_def)
qed

lemma E2EEServiceSetTypingResponse_toJSON_safe [json_rules]: "to_safe (E2EEServiceSetTypingResponse_toJSON m)"
  unfolding E2EEServiceSetTypingResponse_toJSON_def by (intro json_rules)

subsection \<open>E2EEServiceMarkReadRequest\<close>

definition E2EEServiceMarkReadRequest_toJSON :: "E2EEServiceMarkReadRequest \<Rightarrow> js_any js_out" where
  "E2EEServiceMarkReadRequest_toJSON m = t_obj (
    [(''sessionId'', t_if (E2EEServiceMarkReadRequest_sessionId m \<noteq> '''') (AStr (E2EEServiceMarkReadRequest_sessionId m))),
     (''chatJid'', t_if (E2EEServiceMarkReadRequest_chatJid m \<noteq> '''') (AStr (E2EEServiceMarkReadRequest_chatJid m))),
     (''senderJid'', t_if (E2EEServiceMarkReadRequest_senderJid m \<noteq> '''') (AStr (E2EEServiceMarkReadRequest_senderJid m))),
     (''messageIds'', t_list (E2EEServiceMarkReadRequest_messageIds m) (\<lambda>x. Returned (AStr x))),
     (''timestamp'', t_some (E2EEServiceMarkReadRequest_timestamp m) date_json)])"

definition E2EEServiceMarkReadRequest_fromJSON :: "js_any \<Rightarrow> E2EEServiceMarkReadRequest js_out" where
  "E2EEServiceMarkReadRequest_fromJSON = f_obj createBaseE2EEServiceMarkReadRequest
    [f_field (f_first [(''sessionId'', js_String), (''session_id'', js_String)] '''') (\<lambda>v m. m\<lparr>E2EEServiceMarkReadRequest_sessionId := v\<rparr>),
     f_field (f_first [(''chatJid'', js_String), (''chat_jid'', js_String)] '''') (\<lambda>v m. m\<lparr>E2EEServiceMarkReadRequest_chatJid := v\<rparr>),
     f_field (f_first [(''senderJid'', js_String), (''sender_jid'', js_String)] '''') (\<lambda>v m. m\<lparr>E2EEServiceMarkReadRequest_senderJid := v\<rparr>),
     f_field (f_array [''messageIds'', ''message_ids''] js_String) (\<lambda>v m. m\<lparr>E2EEServiceMarkReadRequest_messageIds := v\<rparr>),
     f_field (f_first [(''timestamp'', \<lambda>x. js_map Some (fromJsonTimestamp x))] None) (\<lambda>v m. m\<lparr>E2EEServiceMarkReadRequest_timestamp := v\<rparr>)]"

definition E2EEServiceMarkReadRequest_fromPartial :: "js_any \<Rightarrow> E2EEServiceMarkReadRequest js_out" where
  "E2EEServiceMarkReadRequest_fromPartial = f_obj createBaseE2EEServiceMarkReadRequest
    [f_field (f_first [(''sessionId'', p_string)] '''') (\<lambda>v m. m\<lparr>E2EEServiceMarkReadRequest_sessionId := v\<rparr>),
     f_field (f_first [(''chatJid'', p_string)] '''') (\<lambda>v m. m\<lparr>E2EEServiceMarkReadRequest_chatJid := v\<rparr>),
     f_field (f_first [(''senderJid'', p_string)] '''') (\<lambda>v m. m\<lparr>E2EEServiceMarkReadRequest_senderJid := v\<rparr>),
     f_field (p_array ''messageIds'' p_string) (\<lambda>v m. m\<lparr>E2EEServiceMarkReadRequest_messageIds := v\<rparr>),
     f_field (f_first [(''timestamp'', \<lambda>x. js_map Some (p_date x))] None) (\<lambda>v m. m\<lparr>E2EEServiceMarkReadRequest_timestamp := v\<rparr>)]"

definition E2EEServiceMarkReadRequest_create :: "js_any \<Rightarrow> E2EEServiceMarkReadRequest js_out" where
  "E2EEServiceMarkReadRequest_create = create_with E2EEServiceMarkReadRequest_fromPartial"

definition E2EEServiceMarkReadRequest_json_ok :: "E2EEServiceMarkReadRequest \<Rightarrow> bool" where
  "E2EEServiceMarkReadRequest_json_ok m \<longleftrightarrow> pred_option js_date_ok (E2EEServiceMarkReadRequest_timestamp m)"

lemma E2EEServiceMarkReadRequest_json:
  assumes ok: "E2EEServiceMarkReadRequest_json_ok m"
  shows "json_rt E2EEServiceMarkReadRequest_toJSON E2EEServiceMarkReadRequest_fromJSON m"
  unfolding json_rt_def
proof (intro allI impI)
  fix J
  assume to: "E2EEServiceMarkReadRequest_toJSON m = Returned J"
  have d: "distinct ([''sessionId'', ''chatJid'', ''senderJid'', ''messageIds'', ''timestamp''] @ [''session_id'', ''chat_jid'', ''sender_jid'', ''message_ids''])"
    by code_simp
  note all = t_objD [OF to [unfolded E2EEServiceMarkReadRequest_toJSON_def] _ d, unfolded t_names, OF refl]
  note N = all [THEN conjunct2, unfolded names_simps]
  have "E2EEServiceMarkReadRequest_fromJSON J = Returned m"
    unfolding E2EEServiceMarkReadRequest_fromJSON_def
    by (rule fs_field [OF all [THEN conjunct1]], erule jr_string, simp only: N absent_simps simp_thms,
      erule fs_field, erule jr_string, simp only: N absent_simps simp_thms,
      erule fs_field, erule jr_string, simp only: N absent_simps simp_thms,
      erule fs_field, erule jr_strings, assumption, simp only: N names_simps simp_thms,
      erule fs_field, erule jr_date, rule absent_Nil, (use ok in \<open>fastforce simp: E2EEServiceMarkReadRequest_json_ok_def list_all_iff\<close>),
      rule f_obj_Nil, cases m, simp add: createBaseE2EEServiceMarkReadRequest_def)
  with all show "isSet J \<and> E2EEServiceMarkReadRequest_fromJSON J = Returned m"
    by (simp add: entries_def)
qed

lemma E2EEServiceMarkReadRequest_toJSON_safe [json_rules]: "to_safe (E2EEServiceMarkReadRequest_toJSON m)"
  unfolding E2EEServiceMarkReadRequest_toJSON_def by (intro json_rules)

subsection \<open>E2EEServiceMarkReadResponse\<close>

definition E2EEServiceMarkReadResponse_toJSON :: "E2EEServiceMarkReadResponse \<Rightarrow> js_any js_out" where
  "E2EEServiceMarkReadResponse_toJSON m = t_obj ([])"

definition E2EEServiceMarkReadResponse_fromJSON :: "js_any \<Rightarrow> E2EEServiceMarkReadResponse js_out" where
  "E2EEServiceMarkReadResponse_fromJSON = f_obj createBaseE2EEServiceMarkReadResponse
    []"

definition E2EEServiceMarkReadResponse_fromPartial :: "js_any \<Rightarrow> E2EEServiceMarkReadResponse js_out" where
  "E2EEServiceMarkReadResponse_fromPartial = f_obj createBaseE2EEServiceMarkReadResponse
    []"

definition E2EEServiceMarkReadResponse_create :: "js_any \<Rightarrow> E2EEServiceMarkReadResponse js_out" where
  "E2EEServiceMarkReadResponse_create = create_with E2EEServiceMarkReadResponse_fromPartial"

lemma E2EEServiceMarkReadResponse_json:
  "json_rt E2EEServiceMarkReadResponse_toJSON E2EEServiceMarkReadResponse_fromJSON m"
  unfolding json_rt_def
proof (intro allI impI)
  fix J
  assume to: "E2EEServiceMarkReadResponse_toJSON m = Returned J"
  have d: "distinct (([] :: string list) @ [])"
    by simp
  note all = t_objD [OF to [unfolded E2EEServiceMarkReadResponse_toJSON_def] _ d, unfolded t_names, OF refl]
  have "E2EEServiceMarkReadResponse_fromJSON J = Returned m"
    unfolding E2EEServiceMarkReadResponse_fromJSON_def
    by (rule f_obj_Nil, cases m, simp add: createBaseE2EEServiceMarkReadResponse_def)
  with all show "isSet J \<and> E2EEServiceMarkReadResponse_fromJSON J = Returned m"
    by (simp add: entries_def)
qed

lemma E2EEServiceMarkReadResponse_toJSON_safe [json_rules]: "to_safe (E2EEServiceMarkReadResponse_toJSON m)"
  unfolding E2EEServiceMarkReadResponse_toJSON_def by (intro json_rules)

end
