(* ===== verification/Json_Messenger.thy ===== *)
theory Json_Messenger
  imports Gen_Messenger Json_Common
begin

text \<open>
  The JSON side of \<open>sdk/node/src/gen/meta/v1/messenger.ts\<close>: \<open>toJSON\<close>, \<open>fromJSON\<close>,
  \<open>fromPartial\<close> and \<open>create\<close> of every message and the names of its enums.  \<open>_json_ok\<close> holds of the
  values that survive a round trip: known enum numbers, objects built by assignment, dates in
  range.  For every message: \<open>fromJSON\<close> reads back what \<open>toJSON\<close> returned.
\<close>

section \<open>Enums\<close>

text \<open>The numbers of \<open>enum EncryptionPolicy\<close> with their names.\<close>

definition EncryptionPolicy_values :: "(string \<times> int) list" where
  "EncryptionPolicy_values = [(''ENCRYPTION_POLICY_UNSPECIFIED'', 0),
     (''ENCRYPTION_POLICY_AUTO'', 1),
     (''ENCRYPTION_POLICY_REQUIRED'', 2),
     (''ENCRYPTION_POLICY_DISABLED'', 3),
     (''UNRECOGNIZED'', (- 1))]"

definition encryptionPolicyFromJSON :: "js_any \<Rightarrow> int" where
  "encryptionPolicyFromJSON v =
    (if v = js_int 0 \<or> v = AStr ''ENCRYPTION_POLICY_UNSPECIFIED'' then 0
     else if v = js_int 1 \<or> v = AStr ''ENCRYPTION_POLICY_AUTO'' then 1
     else if v = js_int 2 \<or> v = AStr ''ENCRYPTION_POLICY_REQUIRED'' then 2
     else if v = js_int 3 \<or> v = AStr ''ENCRYPTION_POLICY_DISABLED'' then 3
     else - 1)"

definition encryptionPolicyToJSON :: "int \<Rightarrow> string" where
  "encryptionPolicyToJSON n =
    (if n = 0 then ''ENCRYPTION_POLICY_UNSPECIFIED''
     else if n = 1 then ''ENCRYPTION_POLICY_AUTO''
     else if n = 2 then ''ENCRYPTION_POLICY_REQUIRED''
     else if n = 3 then ''ENCRYPTION_POLICY_DISABLED''
     else ''UNRECOGNIZED'')"

definition encryptionPolicy_known :: "int \<Rightarrow> bool" where
  "encryptionPolicy_known n \<longleftrightarrow> n \<in> snd ` set EncryptionPolicy_values"

lemma encryptionPolicy_table: "list_all (\<lambda>p. encryptionPolicyFromJSON (AStr (encryptionPolicyToJSON (snd p))) = snd p) EncryptionPolicy_values"
  by code_simp

lemma encryptionPolicy_json: "encryptionPolicy_known n \<Longrightarrow> encryptionPolicyFromJSON (AStr (encryptionPolicyToJSON n)) = n"
  using encryptionPolicy_table by (auto simp: encryptionPolicy_known_def list_all_iff)

text \<open>The numbers of \<open>enum MessengerBlockStatus\<close> with their names.\<close>

definition MessengerBlockStatus_values :: "(string \<times> int) list" where
  "MessengerBlockStatus_values = [(''MESSENGER_BLOCK_STATUS_UNSPECIFIED'', 0),
     (''MESSENGER_BLOCK_STATUS_UNKNOWN'', 1),
     (''MESSENGER_BLOCK_STATUS_UNBLOCKED'', 2),
     (''MESSENGER_BLOCK_STATUS_MESSAGE_BLOCKED'', 3),
     (''MESSENGER_BLOCK_STATUS_FULLY_BLOCKED'', 4),
     (''UNRECOGNIZED'', (- 1))]"

definition messengerBlockStatusFromJSON :: "js_any \<Rightarrow> int" where
  "messengerBlockStatusFromJSON v =
    (if v = js_int 0 \<or> v = AStr ''MESSENGER_BLOCK_STATUS_UNSPECIFIED'' then 0
     else if v = js_int 1 \<or> v = AStr ''MESSENGER_BLOCK_STATUS_UNKNOWN'' then 1
     else if v = js_int 2 \<or> v = AStr ''MESSENGER_BLOCK_STATUS_UNBLOCKED'' then 2
     else if v = js_int 3 \<or> v = AStr ''MESSENGER_BLOCK_STATUS_MESSAGE_BLOCKED'' then 3
     else if v = js_int 4 \<or> v = AStr ''MESSENGER_BLOCK_STATUS_FULLY_BLOCKED'' then 4
     else - 1)"

definition messengerBlockStatusToJSON :: "int \<Rightarrow> string" where
  "messengerBlockStatusToJSON n =
    (if n = 0 then ''MESSENGER_BLOCK_STATUS_UNSPECIFIED''
     else if n = 1 then ''MESSENGER_BLOCK_STATUS_UNKNOWN''
     else if n = 2 then ''MESSENGER_BLOCK_STATUS_UNBLOCKED''
     else if n = 3 then ''MESSENGER_BLOCK_STATUS_MESSAGE_BLOCKED''
     else if n = 4 then ''MESSENGER_BLOCK_STATUS_FULLY_BLOCKED''
     else ''UNRECOGNIZED'')"

definition messengerBlockStatus_known :: "int \<Rightarrow> bool" where
  "messengerBlockStatus_known n \<longleftrightarrow> n \<in> snd ` set MessengerBlockStatus_values"

lemma messengerBlockStatus_table: "list_all (\<lambda>p. messengerBlockStatusFromJSON (AStr (messengerBlockStatusToJSON (snd p))) = snd p) MessengerBlockStatus_values"
  by code_simp

lemma messengerBlockStatus_json: "messengerBlockStatus_known n \<Longrightarrow> messengerBlockStatusFromJSON (AStr (messengerBlockStatusToJSON n)) = n"
  using messengerBlockStatus_table by (auto simp: messengerBlockStatus_known_def list_all_iff)

section \<open>Messages\<close>

subsection \<open>User\<close>

definition User_toJSON :: "User \<Rightarrow> js_any js_out" where
  "User_toJSON m = t_obj (
    [(''id'', t_if (User_id m \<noteq> '''') (AStr (User_id m))),
     (''name'', t_if (User_name m \<noteq> '''') (AStr (User_name m))),
     (''firstName'', t_if (User_firstName m \<noteq> '''') (AStr (User_firstName m))),
     (''username'', t_if (User_username m \<noteq> '''') (AStr (User_username m))),
     (''profileUrl'', t_if (User_profileUrl m \<noteq> '''') (AStr (User_profileUrl m))),
     (''avatarUrl'', t_if (User_avatarUrl m \<noteq> '''') (AStr (User_avatarUrl m))),
     (''gender'', t_if (User_gender m \<noteq> '''') (AStr (User_gender m))),
     (''isMessengerUser'', t_if (User_isMessengerUser m \<noteq> False) (ABool (User_isMessengerUser m))),
     (''isVerified'', t_if (User_isVerified m \<noteq> False) (ABool (User_isVerified m))),
     (''canViewerMessage'', t_if (User_canViewerMessage m \<noteq> False) (ABool (User_canViewerMessage m))),
     (''messengerRestricted'', t_if (User_messengerRestricted m \<noteq> False) (ABool (User_messengerRestricted m))),
     (''messengerBlockStatus'', t_if (User_messengerBlockStatus m \<noteq> 0) (AStr (messengerBlockStatusToJSON (User_messengerBlockStatus m))))])"

definition User_fromJSON :: "js_any \<Rightarrow> User js_out" where
  "User_fromJSON = f_obj createBaseUser
    [f_field (f_first [(''id'', js_String)] '''') (\<lambda>v m. m\<lparr>User_id := v\<rparr>),
     f_field (f_first [(''name'', js_String)] '''') (\<lambda>v m. m\<lparr>User_name := v\<rparr>),
     f_field (f_first [(''firstName'', js_String), (''first_name'', js_String)] '''') (\<lambda>v m. m\<lparr>User_firstName := v\<rparr>),
     f_field (f_first [(''username'', js_String)] '''') (\<lambda>v m. m\<lparr>User_username := v\<rparr>),
     f_field (f_first [(''profileUrl'', js_String), (''profile_url'', js_String)] '''') (\<lambda>v m. m\<lparr>User_profileUrl := v\<rparr>),
     f_field (f_first [(''avatarUrl'', js_String), (''avatar_url'', js_String)] '''') (\<lambda>v m. m\<lparr>User_avatarUrl := v\<rparr>),
     f_field (f_first [(''gender'', js_String)] '''') (\<lambda>v m. m\<lparr>User_gender := v\<rparr>),
     f_field (f_first [(''isMessengerUser'', \<lambda>x. Returned (js_Boolean x)), (''is_messenger_user'', \<lambda>x. Returned (js_Boolean x))] False) (\<lambda>v m. m\<lparr>User_isMessengerUser := v\<rparr>),
     f_field (f_first [(''isVerified'', \<lambda>x. Returned (js_Boolean x)), (''is_verified'', \<lambda>x. Returned (js_Boolean x))] False) (\<lambda>v m. m\<lparr>User_isVerified := v\<rparr>),
     f_field (f_first [(''canViewerMessage'', \<lambda>x. Returned (js_Boolean x)), (''can_viewer_message'', \<lambda>x. Returned (js_Boolean x))] False) (\<lambda>v m. m\<lparr>User_canViewerMessage := v\<rparr>),
     f_field (f_first [(''messengerRestricted'', \<lambda>x. Returned (js_Boolean x)), (''messenger_restricted'', \<lambda>x. Returned (js_Boolean x))] False) (\<lambda>v m. m\<lparr>User_messengerRestricted := v\<rparr>),
     f_field (f_first [(''messengerBlockStatus'', \<lambda>x. Returned (messengerBlockStatusFromJSON x)), (''messenger_block_status'', \<lambda>x. Returned (messengerBlockStatusFromJSON x))] 0) (\<lambda>v m. m\<lparr>User_messengerBlockStatus := v\<rparr>)]"

definition User_fromPartial :: "js_any \<Rightarrow> User js_out" where
  "User_fromPartial = f_obj createBaseUser
    [f_field (f_first [(''id'', p_string)] '''') (\<lambda>v m. m\<lparr>User_id := v\<rparr>),
     f_field (f_first [(''name'', p_string)] '''') (\<lambda>v m. m\<lparr>User_name := v\<rparr>),
     f_field (f_first [(''firstName'', p_string)] '''') (\<lambda>v m. m\<lparr>User_firstName := v\<rparr>),
     f_field (f_first [(''username'', p_string)] '''') (\<lambda>v m. m\<lparr>User_username := v\<rparr>),
     f_field (f_first [(''profileUrl'', p_string)] '''') (\<lambda>v m. m\<lparr>User_profileUrl := v\<rparr>),
     f_field (f_first [(''avatarUrl'', p_string)] '''') (\<lambda>v m. m\<lparr>User_avatarUrl := v\<rparr>),
     f_field (f_first [(''gender'', p_string)] '''') (\<lambda>v m. m\<lparr>User_gender := v\<rparr>),
     f_field (f_first [(''isMessengerUser'', p_bool)] False) (\<lambda>v m. m\<lparr>User_isMessengerUser := v\<rparr>),
     f_field (f_first [(''isVerified'', p_bool)] False) (\<lambda>v m. m\<lparr>User_isVerified := v\<rparr>),
     f_field (f_first [(''canViewerMessage'', p_bool)] False) (\<lambda>v m. m\<lparr>User_canViewerMessage := v\<rparr>),
     f_field (f_first [(''messengerRestricted'', p_bool)] False) (\<lambda>v m. m\<lparr>User_messengerRestricted := v\<rparr>),
     f_field (f_first [(''messengerBlockStatus'', p_int)] 0) (\<lambda>v m. m\<lparr>User_messengerBlockStatus := v\<rparr>)]"

definition User_create :: "js_any \<Rightarrow> User js_out" where
  "User_create = create_with User_fromPartial"

definition User_json_ok :: "User \<Rightarrow> bool" where
  "User_json_ok m \<longleftrightarrow> messengerBlockStatus_known (User_messengerBlockStatus m)"

lemma User_json:
  assumes ok: "User_json_ok m"
  shows "json_rt User_toJSON User_fromJSON m"
  unfolding json_rt_def
proof (intro allI impI)
  fix J
  assume to: "User_toJSON m = Returned J"
  have d: "distinct ([''id'', ''name'', ''firstName'', ''username'', ''profileUrl'', ''avatarUrl'', ''gender'', ''isMessengerUser'', ''isVerified'', ''canViewerMessage'', ''messengerRestricted'', ''messengerBlockStatus''] @ [''first_name'', ''profile_url'', ''avatar_url'', ''is_messenger_user'', ''is_verified'', ''can_viewer_message'', ''messenger_restricted'', ''messenger_block_status''])"
    by code_simp
  note all = t_objD [OF to [unfolded User_toJSON_def] _ d, unfolded t_names, OF refl]
  note N = all [THEN conjunct2, unfolded names_simps]
  have "User_fromJSON J = Returned m"
    unfolding User_fromJSON_def
    by (rule fs_field [OF all [THEN conjunct1]], erule jr_string, rule absent_Nil,
      erule fs_field, erule jr_string, rule absent_Nil,
      erule fs_field, erule jr_string, simp only: N absent_simps simp_thms,
      erule fs_field, erule jr_string, rule absent_Nil,
      erule fs_field, erule jr_string, simp only: N absent_simps simp_thms,
      erule fs_field, erule jr_string, simp only: N absent_simps simp_thms,
      erule fs_field, erule jr_string, rule absent_Nil,
      erule fs_field, erule jr_bool, simp only: N absent_simps simp_thms,
      erule fs_field, erule jr_bool, simp only: N absent_simps simp_thms,
      erule fs_field, erule jr_bool, simp only: N absent_simps simp_thms,
      erule fs_field, erule jr_bool, simp only: N absent_simps simp_thms,
      erule fs_field, erule jr_enum, simp only: N absent_simps simp_thms, rule messengerBlockStatus_json, (use ok in \<open>fastforce simp: User_json_ok_def list_all_iff\<close>),
      rule f_obj_Nil, cases m, simp add: createBaseUser_def)
  with all show "isSet J \<and> User_fromJSON J = Returned m"
    by (simp add: entries_def)
qed

lemma User_toJSON_safe [json_rules]: "to_safe (User_toJSON m)"
  unfolding User_toJSON_def by (intro json_rules)

subsection \<open>Thread_NicknamesEntry\<close>

definition Thread_NicknamesEntry_toJSON :: "Thread_NicknamesEntry \<Rightarrow> js_any js_out" where
  "Thread_NicknamesEntry_toJSON m = t_obj (
    [(''key'', t_if (Thread_NicknamesEntry_key m \<noteq> '''') (AStr (Thread_NicknamesEntry_key m))),
     (''value'', t_if (Thread_NicknamesEntry_value m \<noteq> '''') (AStr (Thread_NicknamesEntry_value m)))])"

definition Thread_NicknamesEntry_fromJSON :: "js_any \<Rightarrow> Thread_NicknamesEntry js_out" where
  "Thread_NicknamesEntry_fromJSON = f_obj createBaseThread_NicknamesEntry
    [f_field (f_first [(''key'', js_String)] '''') (\<lambda>v m. m\<lparr>Thread_NicknamesEntry_key := v\<rparr>),
     f_field (f_first [(''value'', js_String)] '''') (\<lambda>v m. m\<lparr>Thread_NicknamesEntry_value := v\<rparr>)]"

definition Thread_NicknamesEntry_fromPartial :: "js_any \<Rightarrow> Thread_NicknamesEntry js_out" where
  "Thread_NicknamesEntry_fromPartial = f_obj createBaseThread_NicknamesEntry
    [f_field (f_first [(''key'', p_string)] '''') (\<lambda>v m. m\<lparr>Thread_NicknamesEntry_key := v\<rparr>),
     f_field (f_first [(''value'', p_string)] '''') (\<lambda>v m. m\<lparr>Thread_NicknamesEntry_value := v\<rparr>)]"

definition Thread_NicknamesEntry_create :: "js_any \<Rightarrow> Thread_NicknamesEntry js_out" where
  "Thread_NicknamesEntry_create = create_with Thread_NicknamesEntry_fromPartial"

lemma Thread_NicknamesEntry_json:
  "json_rt Thread_NicknamesEntry_toJSON Thread_NicknamesEntry_fromJSON m"
  unfolding json_rt_def
proof (intro allI impI)
  fix J
  assume to: "Thread_NicknamesEntry_toJSON m = Returned J"
  have d: "distinct ([''key'', ''value''] @ [])"
    by code_simp
  note all = t_objD [OF to [unfolded Thread_NicknamesEntry_toJSON_def] _ d, unfolded t_names, OF refl]
  have "Thread_NicknamesEntry_fromJSON J = Returned m"
    unfolding Thread_NicknamesEntry_fromJSON_def
    by (rule fs_field [OF all [THEN conjunct1]], erule jr_string, rule absent_Nil,
      erule fs_field, erule jr_string, rule absent_Nil,
      rule f_obj_Nil, cases m, simp add: createBaseThread_NicknamesEntry_def)
  with all show "isSet J \<and> Thread_NicknamesEntry_fromJSON J = Returned m"
    by (simp add: entries_def)
qed

lemma Thread_NicknamesEntry_toJSON_safe [json_rules]: "to_safe (Thread_NicknamesEntry_toJSON m)"
  unfolding Thread_NicknamesEntry_toJSON_def by (intro json_rules)

subsection \<open>Thread\<close>

definition Thread_toJSON :: "Thread \<Rightarrow> js_any js_out" where
  "Thread_toJSON m = t_obj (
    [(''id'', t_if (Thread_id m \<noteq> '''') (AStr (Thread_id m))),
     (''name'', t_if (Thread_name m \<noteq> '''') (AStr (Thread_name m))),
     (''type'', t_if (Thread_type m \<noteq> '''') (AStr (Thread_type m))),
     (''participants'', t_list (Thread_participants m) User_toJSON),
     (''admins'', t_list (Thread_admins m) (\<lambda>x. Returned (AStr x))),
     (''nicknames'', t_map (Thread_nicknames m)),
     (''emoji'', t_if (Thread_emoji m \<noteq> '''') (AStr (Thread_emoji m))),
     (''messageCount'', t_if (Thread_messageCount m \<noteq> 0) (AStr (string_of_int (Thread_messageCount m)))),
     (''approvalMode'', t_if (Thread_approvalMode m \<noteq> False) (ABool (Thread_approvalMode m))),
     (''joinable'', t_if (Thread_joinable m \<noteq> False) (ABool (Thread_joinable m))),
     (''joinableUrl'', t_if (Thread_joinableUrl m \<noteq> '''') (AStr (Thread_joinableUrl m))),
     (''lastActivity'', t_some (Thread_lastActivity m) date_json)])"

definition Thread_fromJSON :: "js_any \<Rightarrow> Thread js_out" where
  "Thread_fromJSON = f_obj createBaseThread
    [f_field (f_first [(''id'', js_String)] '''') (\<lambda>v m. m\<lparr>Thread_id := v\<rparr>),
     f_field (f_first [(''name'', js_String)] '''') (\<lambda>v m. m\<lparr>Thread_name := v\<rparr>),
     f_field (f_first [(''type'', js_String)] '''') (\<lambda>v m. m\<lparr>Thread_type := v\<rparr>),
     f_field (f_array [''participants''] User_fromJSON) (\<lambda>v m. m\<lparr>Thread_participants := v\<rparr>),
     f_field (f_array [''admins''] js_String) (\<lambda>v m. m\<lparr>Thread_admins := v\<rparr>),
     f_field (f_map ''nicknames'') (\<lambda>v m. m\<lparr>Thread_nicknames := v\<rparr>),
     f_field (f_first [(''emoji'', js_String)] '''') (\<lambda>v m. m\<lparr>Thread_emoji := v\<rparr>),
     f_field (f_first [(''messageCount'', js_BigInt), (''message_count'', js_BigInt)] 0) (\<lambda>v m. m\<lparr>Thread_messageCount := v\<rparr>),
     f_field (f_first [(''approvalMode'', \<lambda>x. Returned (js_Boolean x)), (''approval_mode'', \<lambda>x. Returned (js_Boolean x))] False) (\<lambda>v m. m\<lparr>Thread_approvalMode := v\<rparr>),
     f_field (f_first [(''joinable'', \<lambda>x. Returned (js_Boolean x))] False) (\<lambda>v m. m\<lparr>Thread_joinable := v\<rparr>),
     f_field (f_first [(''joinableUrl'', js_String), (''joinable_url'', js_String)] '''') (\<lambda>v m. m\<lparr>Thread_joinableUrl := v\<rparr>),
     f_field (f_first [(''lastActivity'', \<lambda>x. js_map Some (fromJsonTimestamp x)), (''last_activity'', \<lambda>x. js_map Some (fromJsonTimestamp x))] None) (\<lambda>v m. m\<lparr>Thread_lastActivity := v\<rparr>)]"

definition Thread_fromPartial :: "js_any \<Rightarrow> Thread js_out" where
  "Thread_fromPartial = f_obj createBaseThread
    [f_field (f_first [(''id'', p_string)] '''') (\<lambda>v m. m\<lparr>Thread_id := v\<rparr>),
     f_field (f_first [(''name'', p_string)] '''') (\<lambda>v m. m\<lparr>Thread_name := v\<rparr>),
     f_field (f_first [(''type'', p_string)] '''') (\<lambda>v m. m\<lparr>Thread_type := v\<rparr>),
     f_field (p_array ''participants'' User_fromPartial) (\<lambda>v m. m\<lparr>Thread_participants := v\<rparr>),
     f_field (p_array ''admins'' p_string) (\<lambda>v m. m\<lparr>Thread_admins := v\<rparr>),
     f_field (p_map ''nicknames'') (\<lambda>v m. m\<lparr>Thread_nicknames := v\<rparr>),
     f_field (f_first [(''emoji'', p_string)] '''') (\<lambda>v m. m\<lparr>Thread_emoji := v\<rparr>),
     f_field (f_first [(''messageCount'', js_BigInt)] 0) (\<lambda>v m. m\<lparr>Thread_messageCount := v\<rparr>),
     f_field (f_first [(''approvalMode'', p_bool)] False) (\<lambda>v m. m\<lparr>Thread_approvalMode := v\<rparr>),
     f_field (f_first [(''joinable'', p_bool)] False) (\<lambda>v m. m\<lparr>Thread_joinable := v\<rparr>),
     f_field (f_first [(''joinableUrl'', p_string)] '''') (\<lambda>v m. m\<lparr>Thread_joinableUrl := v\<rparr>),
     f_field (f_first [(''lastActivity'', \<lambda>x. js_map Some (p_date x))] None) (\<lambda>v m. m\<lparr>Thread_lastActivity := v\<rparr>)]"

definition Thread_create :: "js_any \<Rightarrow> Thread js_out" where
  "Thread_create = create_with Thread_fromPartial"

definition Thread_json_ok :: "Thread \<Rightarrow> bool" where
  "Thread_json_ok m \<longleftrightarrow> list_all User_json_ok (Thread_participants m) \<and>
     js_object_ok (Thread_nicknames m) \<and>
     pred_option js_date_ok (Thread_lastActivity m)"

lemma Thread_json:
  assumes ok: "Thread_json_ok m"
  shows "json_rt Thread_toJSON Thread_fromJSON m"
  unfolding json_rt_def
proof (intro allI impI)
  fix J
  assume to: "Thread_toJSON m = Returned J"
  have d: "distinct ([''id'', ''name'', ''type'', ''participants'', ''admins'', ''nicknames'', ''emoji'', ''messageCount'', ''approvalMode'', ''joinable'', ''joinableUrl'', ''lastActivity''] @ [''message_count'', ''approval_mode'', ''joinable_url'', ''last_activity''])"
    by code_simp
  note all = t_objD [OF to [unfolded Thread_toJSON_def] _ d, unfolded t_names, OF refl]
  note N = all [THEN conjunct2, unfolded names_simps]
  have "Thread_fromJSON J = Returned m"
    unfolding Thread_fromJSON_def
    by (rule fs_field [OF all [THEN conjunct1]], erule jr_string, rule absent_Nil,
      erule fs_field, erule jr_string, rule absent_Nil,
      erule fs_field, erule jr_string, rule absent_Nil,
      erule fs_field, erule jr_list, assumption, simp only: names_simps, rule User_json, (use ok in \<open>fastforce simp: Thread_json_ok_def list_all_iff\<close>),
      erule fs_field, erule jr_strings, assumption, simp only: names_simps,
      erule fs_field, erule jr_map, (use ok in \<open>fastforce simp: Thread_json_ok_def list_all_iff\<close>),
      erule fs_field, erule jr_string, rule absent_Nil,
      erule fs_field, erule jr_bigint, simp only: N absent_simps simp_thms,
      erule fs_field, erule jr_bool, simp only: N absent_simps simp_thms,
      erule fs_field, erule jr_bool, rule absent_Nil,
      erule fs_field, erule jr_string, simp only: N absent_simps simp_thms,
      erule fs_field, erule jr_date, simp only: N absent_simps simp_thms, (use ok in \<open>fastforce simp: Thread_json_ok_def list_all_iff\<close>),
      rule f_obj_Nil, cases m, simp add: createBaseThread_def)
  with all show "isSet J \<and> Thread_fromJSON J = Returned m"
    by (simp add: entries_def)
qed

lemma Thread_toJSON_safe [json_rules]: "to_safe (Thread_toJSON m)"
  unfolding Thread_toJSON_def by (intro json_rules)

subsection \<open>PinnedMessage\<close>

definition PinnedMessage_toJSON :: "PinnedMessage \<Rightarrow> js_any js_out" where
  "PinnedMessage_toJSON m = t_obj (
    [(''threadId'', t_if (PinnedMessage_threadId m \<noteq> '''') (AStr (PinnedMessage_threadId m))),
     (''messageId'', t_if (PinnedMessage_messageId m \<noteq> '''') (AStr (PinnedMessage_messageId m))),
     (''pinnedAt'', t_some (PinnedMessage_pinnedAt m) date_json),
     (''authorityLevel'', t_if (PinnedMessage_authorityLevel m \<noteq> 0) (AStr (string_of_int (PinnedMessage_authorityLevel m))))])"

definition PinnedMessage_fromJSON :: "js_any \<Rightarrow> PinnedMessage js_out" where
  "PinnedMessage_fromJSON = f_obj createBasePinnedMessage
    [f_field (f_first [(''threadId'', js_String), (''thread_id'', js_String)] '''') (\<lambda>v m. m\<lparr>PinnedMessage_threadId := v\<rparr>),
     f_field (f_first [(''messageId'', js_String), (''message_id'', js_String)] '''') (\<lambda>v m. m\<lparr>PinnedMessage_messageId := v\<rparr>),
     f_field (f_first [(''pinnedAt'', \<lambda>x. js_map Some (fromJsonTimestamp x)), (''pinned_at'', \<lambda>x. js_map Some (fromJsonTimestamp x))] None) (\<lambda>v m. m\<lparr>PinnedMessage_pinnedAt := v\<rparr>),
     f_field (f_first [(''authorityLevel'', js_BigInt), (''authority_level'', js_BigInt)] 0) (\<lambda>v m. m\<lparr>PinnedMessage_authorityLevel := v\<rparr>)]"

definition PinnedMessage_fromPartial :: "js_any \<Rightarrow> PinnedMessage js_out" where
  "PinnedMessage_fromPartial = f_obj createBasePinnedMessage
    [f_field (f_first [(''threadId'', p_string)] '''') (\<lambda>v m. m\<lparr>PinnedMessage_threadId := v\<rparr>),
     f_field (f_first [(''messageId'', p_string)] '''') (\<lambda>v m. m\<lparr>PinnedMessage_messageId := v\<rparr>),
     f_field (f_first [(''pinnedAt'', \<lambda>x. js_map Some (p_date x))] None) (\<lambda>v m. m\<lparr>PinnedMessage_pinnedAt := v\<rparr>),
     f_field (f_first [(''authorityLevel'', js_BigInt)] 0) (\<lambda>v m. m\<lparr>PinnedMessage_authorityLevel := v\<rparr>)]"

definition PinnedMessage_create :: "js_any \<Rightarrow> PinnedMessage js_out" where
  "PinnedMessage_create = create_with PinnedMessage_fromPartial"

definition PinnedMessage_json_ok :: "PinnedMessage \<Rightarrow> bool" where
  "PinnedMessage_json_ok m \<longleftrightarrow> pred_option js_date_ok (PinnedMessage_pinnedAt m)"

lemma PinnedMessage_json:
  assumes ok: "PinnedMessage_json_ok m"
  shows "json_rt PinnedMessage_toJSON PinnedMessage_fromJSON m"
  unfolding json_rt_def
proof (intro allI impI)
  fix J
  assume to: "PinnedMessage_toJSON m = Returned J"
  have d: "distinct ([''threadId'', ''messageId'', ''pinnedAt'', ''authorityLevel''] @ [''thread_id'', ''message_id'', ''pinned_at'', ''authority_level''])"
    by code_simp
  note all = t_objD [OF to [unfolded PinnedMessage_toJSON_def] _ d, unfolded t_names, OF refl]
  note N = all [THEN conjunct2, unfolded names_simps]
  have "PinnedMessage_fromJSON J = Returned m"
    unfolding PinnedMessage_fromJSON_def
    by (rule fs_field [OF all [THEN conjunct1]], erule jr_string, simp only: N absent_simps simp_thms,
      erule fs_field, erule jr_string, simp only: N absent_simps simp_thms,
      erule fs_field, erule jr_date, simp only: N absent_simps simp_thms, (use ok in \<open>fastforce simp: PinnedMessage_json_ok_def list_all_iff\<close>),
      erule fs_field, erule jr_bigint, simp only: N absent_simps simp_thms,
      rule f_obj_Nil, cases m, simp add: createBasePinnedMessage_def)
  with all show "isSet J \<and> PinnedMessage_fromJSON J = Returned m"
    by (simp add: entries_def)
qed

lemma PinnedMessage_toJSON_safe [json_rules]: "to_safe (PinnedMessage_toJSON m)"
  unfolding PinnedMessage_toJSON_def by (intro json_rules)

subsection \<open>PollOption\<close>

definition PollOption_toJSON :: "PollOption \<Rightarrow> js_any js_out" where
  "PollOption_toJSON m = t_obj (
    [(''id'', t_if (PollOption_id m \<noteq> '''') (AStr (PollOption_id m))),
     (''text'', t_if (PollOption_text m \<noteq> '''') (AStr (PollOption_text m))),
     (''sortKeyVotingTimestamp'', t_some (PollOption_sortKeyVotingTimestamp m) date_json),
     (''sortKeyCreationTimestamp'', t_some (PollOption_sortKeyCreationTimestamp m) date_json)])"

definition PollOption_fromJSON :: "js_any \<Rightarrow> PollOption js_out" where
  "PollOption_fromJSON = f_obj createBasePollOption
    [f_field (f_first [(''id'', js_String)] '''') (\<lambda>v m. m\<lparr>PollOption_id := v\<rparr>),
     f_field (f_first [(''text'', js_String)] '''') (\<lambda>v m. m\<lparr>PollOption_text := v\<rparr>),
     f_field (f_first [(''sortKeyVotingTimestamp'', \<lambda>x. js_map Some (fromJsonTimestamp x)), (''sort_key_voting_timestamp'', \<lambda>x. js_map Some (fromJsonTimestamp x))] None) (\<lambda>v m. m\<lparr>PollOption_sortKeyVotingTimestamp := v\<rparr>),
     f_field (f_first [(''sortKeyCreationTimestamp'', \<lambda>x. js_map Some (fromJsonTimestamp x)), (''sort_key_creation_timestamp'', \<lambda>x. js_map Some (fromJsonTimestamp x))] None) (\<lambda>v m. m\<lparr>PollOption_sortKeyCreationTimestamp := v\<rparr>)]"

definition PollOption_fromPartial :: "js_any \<Rightarrow> PollOption js_out" where
  "PollOption_fromPartial = f_obj createBasePollOption
    [f_field (f_first [(''id'', p_string)] '''') (\<lambda>v m. m\<lparr>PollOption_id := v\<rparr>),
     f_field (f_first [(''text'', p_string)] '''') (\<lambda>v m. m\<lparr>PollOption_text := v\<rparr>),
     f_field (f_first [(''sortKeyVotingTimestamp'', \<lambda>x. js_map Some (p_date x))] None) (\<lambda>v m. m\<lparr>PollOption_sortKeyVotingTimestamp := v\<rparr>),
     f_field (f_first [(''sortKeyCreationTimestamp'', \<lambda>x. js_map Some (p_date x))] None) (\<lambda>v m. m\<lparr>PollOption_sortKeyCreationTimestamp := v\<rparr>)]"

definition PollOption_create :: "js_any \<Rightarrow> PollOption js_out" where
  "PollOption_create = create_with PollOption_fromPartial"

definition PollOption_json_ok :: "PollOption \<Rightarrow> bool" where
  "PollOption_json_ok m \<longleftrightarrow> pred_option js_date_ok (PollOption_sortKeyVotingTimestamp m) \<and>
     pred_option js_date_ok (PollOption_sortKeyCreationTimestamp m)"

lemma PollOption_json:
  assumes ok: "PollOption_json_ok m"
  shows "json_rt PollOption_toJSON PollOption_fromJSON m"
  unfolding json_rt_def
proof (intro allI impI)
  fix J
  assume to: "PollOption_toJSON m = Returned J"
  have d: "distinct ([''id'', ''text'', ''sortKeyVotingTimestamp'', ''sortKeyCreationTimestamp''] @ [''sort_key_voting_timestamp'', ''sort_key_creation_timestamp''])"
    by code_simp
  note all = t_objD [OF to [unfolded PollOption_toJSON_def] _ d, unfolded t_names, OF refl]
  note N = all [THEN conjunct2, unfolded names_simps]
  have "PollOption_fromJSON J = Returned m"
    unfolding PollOption_fromJSON_def
    by (rule fs_field [OF all [THEN conjunct1]], erule jr_string, rule absent_Nil,
      erule fs_field, erule jr_string, rule absent_Nil,
      erule fs_field, erule jr_date, simp only: N absent_simps simp_thms, (use ok in \<open>fastforce simp: PollOption_json_ok_def list_all_iff\<close>),
      erule fs_field, erule jr_date, simp only: N absent_simps simp_thms, (use ok in \<open>fastforce simp: PollOption_json_ok_def list_all_iff\<close>),
      rule f_obj_Nil, cases m, simp add: createBasePollOption_def)
  with all show "isSet J \<and> PollOption_fromJSON J = Returned m"
    by (simp add: entries_def)
qed

lemma PollOption_toJSON_safe [json_rules]: "to_safe (PollOption_toJSON m)"
  unfolding PollOption_toJSON_def by (intro json_rules)

subsection \<open>PollVote\<close>

definition PollVote_toJSON :: "PollVote \<Rightarrow> js_any js_out" where
  "PollVote_toJSON m = t_obj (
    [(''optionId'', t_if (PollVote_optionId m \<noteq> '''') (AStr (PollVote_optionId m))),
     (''contactId'', t_if (PollVote_contactId m \<noteq> '''') (AStr (PollVote_contactId m))),
     (''timestamp'', t_some (PollVote_timestamp m) date_json),
     (''voteCount'', t_if (PollVote_voteCount m \<noteq> 0) (AStr (string_of_int (PollVote_voteCount m)))),
     (''threadId'', t_if (PollVote_threadId m \<noteq> '''') (AStr (PollVote_threadId m))),
     (''messageId'', t_if (PollVote_messageId m \<noteq> '''') (AStr (PollVote_messageId m)))])"

definition PollVote_fromJSON :: "js_any \<Rightarrow> PollVote js_out" where
  "PollVote_fromJSON = f_obj createBasePollVote
    [f_field (f_first [(''optionId'', js_String), (''option_id'', js_String)] '''') (\<lambda>v m. m\<lparr>PollVote_optionId := v\<rparr>),
     f_field (f_first [(''contactId'', js_String), (''contact_id'', js_String)] '''') (\<lambda>v m. m\<lparr>PollVote_contactId := v\<rparr>),
     f_field (f_first [(''timestamp'', \<lambda>x. js_map Some (fromJsonTimestamp x))] None) (\<lambda>v m. m\<lparr>PollVote_timestamp := v\<rparr>),
     f_field (f_first [(''voteCount'', js_BigInt), (''vote_count'', js_BigInt)] 0) (\<lambda>v m. m\<lparr>PollVote_voteCount := v\<rparr>),
     f_field (f_first [(''threadId'', js_String), (''thread_id'', js_String)] '''') (\<lambda>v m. m\<lparr>PollVote_threadId := v\<rparr>),
     f_field (f_first [(''messageId'', js_String), (''message_id'', js_String)] '''') (\<lambda>v m. m\<lparr>PollVote_messageId := v\<rparr>)]"

definition PollVote_fromPartial :: "js_any \<Rightarrow> PollVote js_out" where
  "PollVote_fromPartial = f_obj createBasePollVote
    [f_field (f_first [(''optionId'', p_string)] '''') (\<lambda>v m. m\<lparr>PollVote_optionId := v\<rparr>),
     f_field (f_first [(''contactId'', p_string)] '''') (\<lambda>v m. m\<lparr>PollVote_contactId := v\<rparr>),
     f_field (f_first [(''timestamp'', \<lambda>x. js_map Some (p_date x))] None) (\<lambda>v m. m\<lparr>PollVote_timestamp := v\<rparr>),
     f_field (f_first [(''voteCount'', js_BigInt)] 0) (\<lambda>v m. m\<lparr>PollVote_voteCount := v\<rparr>),
     f_field (f_first [(''threadId'', p_string)] '''') (\<lambda>v m. m\<lparr>PollVote_threadId := v\<rparr>),
     f_field (f_first [(''messageId'', p_string)] '''') (\<lambda>v m. m\<lparr>PollVote_messageId := v\<rparr>)]"

definition PollVote_create :: "js_any \<Rightarrow> PollVote js_out" where
  "PollVote_create = create_with PollVote_fromPartial"

definition PollVote_json_ok :: "PollVote \<Rightarrow> bool" where
  "PollVote_json_ok m \<longleftrightarrow> pred_option js_date_ok (PollVote_timestamp m)"

lemma PollVote_json:
  assumes ok: "PollVote_json_ok m"
  shows "json_rt PollVote_toJSON PollVote_fromJSON m"
  unfolding json_rt_def
proof (intro allI impI)
  fix J
  assume to: "PollVote_toJSON m = Returned J"
  have d: "distinct ([''optionId'', ''contactId'', ''timestamp'', ''voteCount'', ''threadId'', ''messageId''] @ [''option_id'', ''contact_id'', ''vote_count'', ''thread_id'', ''message_id''])"
    by code_simp
  note all = t_objD [OF to [unfolded PollVote_toJSON_def] _ d, unfolded t_names, OF refl]
  note N = all [THEN conjunct2, unfolded names_simps]
  have "PollVote_fromJSON J = Returned m"
    unfolding PollVote_fromJSON_def
    by (rule fs_field [OF all [THEN conjunct1]], erule jr_string, simp only: N absent_simps simp_thms,
      erule fs_field, erule jr_string, simp only: N absent_simps simp_thms,
      erule fs_field, erule jr_date, rule absent_Nil, (use ok in \<open>fastforce simp: PollVote_json_ok_def list_all_iff\<close>),
      erule fs_field, erule jr_bigint, simp only: N absent_simps simp_thms,
      erule fs_field, erule jr_string, simp only: N absent_simps simp_thms,
      erule fs_field, erule jr_string, simp only: N absent_simps simp_thms,
      rule f_obj_Nil, cases m, simp add: createBasePollVote_def)
  with all show "isSet J \<and> PollVote_fromJSON J = Returned m"
    by (simp add: entries_def)
qed

lemma PollVote_toJSON_safe [json_rules]: "to_safe (PollVote_toJSON m)"
  unfolding PollVote_toJSON_def by (intro json_rules)

subsection \<open>PollDetails\<close>

definition PollDetails_toJSON :: "PollDetails \<Rightarrow> js_any js_out" where
  "PollDetails_toJSON m = t_obj (
    [(''id'', t_if (PollDetails_id m \<noteq> '''') (AStr (PollDetails_id m))),
     (''threadId'', t_if (PollDetails_threadId m \<noteq> '''') (AStr (PollDetails_threadId m))),
     (''title'', t_if (PollDetails_title m \<noteq> '''') (AStr (PollDetails_title m))),
     (''lastUpdateMessageId'', t_if (PollDetails_lastUpdateMessageId m \<noteq> '''') (AStr (PollDetails_lastUpdateMessageId m))),
     (''lastUpdateMessageTimestamp'', t_some (PollDetails_lastUpdateMessageTimestamp m) date_json),
     (''lastUpdateMessageEventType'', t_if (PollDetails_lastUpdateMessageEventType m \<noteq> 0) (AStr (string_of_int (PollDetails_lastUpdateMessageEventType m)))),
     (''options'', t_list (PollDetails_options m) PollOption_toJSON),
     (''votes'', t_list (PollDetails_votes m) PollVote_toJSON)])"

definition PollDetails_fromJSON :: "js_any \<Rightarrow> PollDetails js_out" where
  "PollDetails_fromJSON = f_obj createBasePollDetails
    [f_field (f_first [(''id'', js_String)] '''') (\<lambda>v m. m\<lparr>PollDetails_id := v\<rparr>),
     f_field (f_first [(''threadId'', js_String), (''thread_id'', js_String)] '''') (\<lambda>v m. m\<lparr>PollDetails_threadId := v\<rparr>),
     f_field (f_first [(''title'', js_String)] '''') (\<lambda>v m. m\<lparr>PollDetails_title := v\<rparr>),
     f_field (f_first [(''lastUpdateMessageId'', js_String), (''last_update_message_id'', js_String)] '''') (\<lambda>v m. m\<lparr>PollDetails_lastUpdateMessageId := v\<rparr>),
     f_field (f_first [(''lastUpdateMessageTimestamp'', \<lambda>x. js_map Some (fromJsonTimestamp x)), (''last_update_message_timestamp'', \<lambda>x. js_map Some (fromJsonTimestamp x))] None) (\<lambda>v m. m\<lparr>PollDetails_lastUpdateMessageTimestamp := v\<rparr>),
     f_field (f_first [(''lastUpdateMessageEventType'', js_BigInt), (''last_update_message_event_type'', js_BigInt)] 0) (\<lambda>v m. m\<lparr>PollDetails_lastUpdateMessageEventType := v\<rparr>),
     f_field (f_array [''options''] PollOption_fromJSON) (\<lambda>v m. m\<lparr>PollDetails_options := v\<rparr>),
     f_field (f_array [''votes''] PollVote_fromJSON) (\<lambda>v m. m\<lparr>PollDetails_votes := v\<rparr>)]"

definition PollDetails_fromPartial :: "js_any \<Rightarrow> PollDetails js_out" where
  "PollDetails_fromPartial = f_obj createBasePollDetails
    [f_field (f_first [(''id'', p_string)] '''') (\<lambda>v m. m\<lparr>PollDetails_id := v\<rparr>),
     f_field (f_first [(''threadId'', p_string)] '''') (\<lambda>v m. m\<lparr>PollDetails_threadId := v\<rparr>),
     f_field (f_first [(''title'', p_string)] '''') (\<lambda>v m. m\<lparr>PollDetails_title := v\<rparr>),
     f_field (f_first [(''lastUpdateMessageId'', p_string)] '''') (\<lambda>v m. m\<lparr>PollDetails_lastUpdateMessageId := v\<rparr>),
     f_field (f_first [(''lastUpdateMessageTimestamp'', \<lambda>x. js_map Some (p_date x))] None) (\<lambda>v m. m\<lparr>PollDetails_lastUpdateMessageTimestamp := v\<rparr>),
     f_field (f_first [(''lastUpdateMessageEventType'', js_BigInt)] 0) (\<lambda>v m. m\<lparr>PollDetails_lastUpdateMessageEventType := v\<rparr>),
     f_field (p_array ''options'' PollOption_fromPartial) (\<lambda>v m. m\<lparr>PollDetails_options := v\<rparr>),
     f_field (p_array ''votes'' PollVote_fromPartial) (\<lambda>v m. m\<lparr>PollDetails_votes := v\<rparr>)]"

definition PollDetails_create :: "js_any \<Rightarrow> PollDetails js_out" where
  "PollDetails_create = create_with PollDetails_fromPartial"

definition PollDetails_json_ok :: "PollDetails \<Rightarrow> bool" where
  "PollDetails_json_ok m \<longleftrightarrow> pred_option js_date_ok (PollDetails_lastUpdateMessageTimestamp m) \<and>
     list_all PollOption_json_ok (PollDetails_options m) \<and>
     list_all PollVote_json_ok (PollDetails_votes m)"

lemma PollDetails_json:
  assumes ok: "PollDetails_json_ok m"
  shows "json_rt PollDetails_toJSON PollDetails_fromJSON m"
  unfolding json_rt_def
proof (intro allI impI)
  fix J
  assume to: "PollDetails_toJSON m = Returned J"
  have d: "distinct ([''id'', ''threadId'', ''title'', ''lastUpdateMessageId'', ''lastUpdateMessageTimestamp'', ''lastUpdateMessageEventType'', ''options'', ''votes''] @ [''thread_id'', ''last_update_message_id'', ''last_update_message_timestamp'', ''last_update_message_event_type''])"
    by code_simp
  note all = t_objD [OF to [unfolded PollDetails_toJSON_def] _ d, unfolded t_names, OF refl]
  note N = all [THEN conjunct2, unfolded names_simps]
  have "PollDetails_fromJSON J = Returned m"
    unfolding PollDetails_fromJSON_def
    by (rule fs_field [OF all [THEN conjunct1]], erule jr_string, rule absent_Nil,
      erule fs_field, erule jr_string, simp only: N absent_simps simp_thms,
      erule fs_field, erule jr_string, rule absent_Nil,
      erule fs_field, erule jr_string, simp only: N absent_simps simp_thms,
      erule fs_field, erule jr_date, simp only: N absent_simps simp_thms, (use ok in \<open>fastforce simp: PollDetails_json_ok_def list_all_iff\<close>),
      erule fs_field, erule jr_bigint, simp only: N absent_simps simp_thms,
      erule fs_field, erule jr_list, assumption, simp only: names_simps, rule PollOption_json, (use ok in \<open>fastforce simp: PollDetails_json_ok_def list_all_iff\<close>),
      erule fs_field, erule jr_list, assumption, simp only: names_simps, rule PollVote_json, (use ok in \<open>fastforce simp: PollDetails_json_ok_def list_all_iff\<close>),
      rule f_obj_Nil, cases m, simp add: createBasePollDetails_def)
  with all show "isSet J \<and> PollDetails_fromJSON J = Returned m"
    by (simp add: entries_def)
qed

lemma PollDetails_toJSON_safe [json_rules]: "to_safe (PollDetails_toJSON m)"
  unfolding PollDetails_toJSON_def by (intro json_rules)

subsection \<open>MessageSearchHighlight\<close>

definition MessageSearchHighlight_toJSON :: "MessageSearchHighlight \<Rightarrow> js_any js_out" where
  "MessageSearchHighlight_toJSON m = t_obj (
    [(''offset'', t_if (MessageSearchHighlight_offset m \<noteq> 0) (js_int (MessageSearchHighlight_offset m))),
     (''length'', t_if (MessageSearchHighlight_length m \<noteq> 0) (js_int (MessageSearchHighlight_length m)))])"

definition MessageSearchHighlight_fromJSON :: "js_any \<Rightarrow> MessageSearchHighlight js_out" where
  "MessageSearchHighlight_fromJSON = f_obj createBaseMessageSearchHighlight
    [f_field (f_first [(''offset'', js_integer)] 0) (\<lambda>v m. m\<lparr>MessageSearchHighlight_offset := v\<rparr>),
     f_field (f_first [(''length'', js_integer)] 0) (\<lambda>v m. m\<lparr>MessageSearchHighlight_length := v\<rparr>)]"

definition MessageSearchHighlight_fromPartial :: "js_any \<Rightarrow> MessageSearchHighlight js_out" where
  "MessageSearchHighlight_fromPartial = f_obj createBaseMessageSearchHighlight
    [f_field (f_first [(''offset'', p_int)] 0) (\<lambda>v m. m\<lparr>MessageSearchHighlight_offset := v\<rparr>),
     f_field (f_first [(''length'', p_int)] 0) (\<lambda>v m. m\<lparr>MessageSearchHighlight_length := v\<rparr>)]"

definition MessageSearchHighlight_create :: "js_any \<Rightarrow> MessageSearchHighlight js_out" where
  "MessageSearchHighlight_create = create_with MessageSearchHighlight_fromPartial"

lemma MessageSearchHighlight_json:
  "json_rt MessageSearchHighlight_toJSON MessageSearchHighlight_fromJSON m"
  unfolding json_rt_def
proof (intro allI impI)
  fix J
  assume to: "MessageSearchHighlight_toJSON m = Returned J"
  have d: "distinct ([''offset'', ''length''] @ [])"
    by code_simp
  note all = t_objD [OF to [unfolded MessageSearchHighlight_toJSON_def] _ d, unfolded t_names, OF refl]
  have "MessageSearchHighlight_fromJSON J = Returned m"
    unfolding MessageSearchHighlight_fromJSON_def
    by (rule fs_field [OF all [THEN conjunct1]], erule jr_int, rule absent_Nil,
      erule fs_field, erule jr_int, rule absent_Nil,
      rule f_obj_Nil, cases m, simp add: createBaseMessageSearchHighlight_def)
  with all show "isSet J \<and> MessageSearchHighlight_fromJSON J = Returned m"
    by (simp add: entries_def)
qed

lemma MessageSearchHighlight_toJSON_safe [json_rules]: "to_safe (MessageSearchHighlight_toJSON m)"
  unfolding MessageSearchHighlight_toJSON_def by (intro json_rules)

subsection \<open>MessageSearchResult\<close>

definition MessageSearchResult_toJSON :: "MessageSearchResult \<Rightarrow> js_any js_out" where
  "MessageSearchResult_toJSON m = t_obj (
    [(''messageId'', t_if (MessageSearchResult_messageId m \<noteq> '''') (AStr (MessageSearchResult_messageId m))),
     (''threadId'', t_if (MessageSearchResult_threadId m \<noteq> '''') (AStr (MessageSearchResult_threadId m))),
     (''threadType'', t_if (MessageSearchResult_threadType m \<noteq> '''') (AStr (MessageSearchResult_threadType m))),
     (''globalIndex'', t_if (MessageSearchResult_globalIndex m \<noteq> 0) (AStr (string_of_int (MessageSearchResult_globalIndex m)))),
     (''senderName'', t_if (MessageSearchResult_senderName m \<noteq> '''') (AStr (MessageSearchResult_senderName m))),
     (''senderAvatarUrl'', t_if (MessageSearchResult_senderAvatarUrl m \<noteq> '''') (AStr (MessageSearchResult_senderAvatarUrl m))),
     (''timestamp'', t_some (MessageSearchResult_timestamp m) date_json),
     (''text'', t_if (MessageSearchResult_text m \<noteq> '''') (AStr (MessageSearchResult_text m))),
     (''highlights'', t_list (MessageSearchResult_highlights m) MessageSearchHighlight_toJSON)])"

definition MessageSearchResult_fromJSON :: "js_any \<Rightarrow> MessageSearchResult js_out" where
  "MessageSearchResult_fromJSON = f_obj createBaseMessageSearchResult
    [f_field (f_first [(''messageId'', js_String), (''message_id'', js_String)] '''') (\<lambda>v m. m\<lparr>MessageSearchResult_messageId := v\<rparr>),
     f_field (f_first [(''threadId'', js_String), (''thread_id'', js_String)] '''') (\<lambda>v m. m\<lparr>MessageSearchResult_threadId := v\<rparr>),
     f_field (f_first [(''threadType'', js_String), (''thread_type'', js_String)] '''') (\<lambda>v m. m\<lparr>MessageSearchResult_threadType := v\<rparr>),
     f_field (f_first [(''globalIndex'', js_BigInt), (''global_index'', js_BigInt)] 0) (\<lambda>v m. m\<lparr>MessageSearchResult_globalIndex := v\<rparr>),
     f_field (f_first [(''senderName'', js_String), (''sender_name'', js_String)] '''') (\<lambda>v m. m\<lparr>MessageSearchResult_senderName := v\<rparr>),
     f_field (f_first [(''senderAvatarUrl'', js_String), (''sender_avatar_url'', js_String)] '''') (\<lambda>v m. m\<lparr>MessageSearchResult_senderAvatarUrl := v\<rparr>),
     f_field (f_first [(''timestamp'', \<lambda>x. js_map Some (fromJsonTimestamp x))] None) (\<lambda>v m. m\<lparr>MessageSearchResult_timestamp := v\<rparr>),
     f_field (f_first [(''text'', js_String)] '''') (\<lambda>v m. m\<lparr>MessageSearchResult_text := v\<rparr>),
     f_field (f_array [''highlights''] MessageSearchHighlight_fromJSON) (\<lambda>v m. m\<lparr>MessageSearchResult_highlights := v\<rparr>)]"

definition MessageSearchResult_fromPartial :: "js_any \<Rightarrow> MessageSearchResult js_out" where
  "MessageSearchResult_fromPartial = f_obj createBaseMessageSearchResult
    [f_field (f_first [(''messageId'', p_string)] '''') (\<lambda>v m. m\<lparr>MessageSearchResult_messageId := v\<rparr>),
     f_field (f_first [(''threadId'', p_string)] '''') (\<lambda>v m. m\<lparr>MessageSearchResult_threadId := v\<rparr>),
     f_field (f_first [(''threadType'', p_string)] '''') (\<lambda>v m. m\<lparr>MessageSearchResult_threadType := v\<rparr>),
     f_field (f_first [(''globalIndex'', js_BigInt)] 0) (\<lambda>v m. m\<lparr>MessageSearchResult_globalIndex := v\<rparr>),
     f_field (f_first [(''senderName'', p_string)] '''') (\<lambda>v m. m\<lparr>MessageSearchResult_senderName := v\<rparr>),
     f_field (f_first [(''senderAvatarUrl'', p_string)] '''') (\<lambda>v m. m\<lparr>MessageSearchResult_senderAvatarUrl := v\<rparr>),
     f_field (f_first [(''timestamp'', \<lambda>x. js_map Some (p_date x))] None) (\<lambda>v m. m\<lparr>MessageSearchResult_timestamp := v\<rparr>),
     f_field (f_first [(''text'', p_string)] '''') (\<lambda>v m. m\<lparr>MessageSearchResult_text := v\<rparr>),
     f_field (p_array ''highlights'' MessageSearchHighlight_fromPartial) (\<lambda>v m. m\<lparr>MessageSearchResult_highlights := v\<rparr>)]"

definition MessageSearchResult_create :: "js_any \<Rightarrow> MessageSearchResult js_out" where
  "MessageSearchResult_create = create_with MessageSearchResult_fromPartial"

definition MessageSearchResult_json_ok :: "MessageSearchResult \<Rightarrow> bool" where
  "MessageSearchResult_json_ok m \<longleftrightarrow> pred_option js_date_ok (MessageSearchResult_timestamp m)"

lemma MessageSearchResult_json:
  assumes ok: "MessageSearchResult_json_ok m"
  shows "json_rt MessageSearchResult_toJSON MessageSearchResult_fromJSON m"
  unfolding json_rt_def
proof (intro allI impI)
  fix J
  assume to: "MessageSearchResult_toJSON m = Returned J"
  have d: "distinct ([''messageId'', ''threadId'', ''threadType'', ''globalIndex'', ''senderName'', ''senderAvatarUrl'', ''timestamp'', ''text'', ''highlights''] @ [''message_id'', ''thread_id'', ''thread_type'', ''global_index'', ''sender_name'', ''sender_avatar_url''])"
    by code_simp
  note all = t_objD [OF to [unfolded MessageSearchResult_toJSON_def] _ d, unfolded t_names, OF refl]
  note N = all [THEN conjunct2, unfolded names_simps]
  have "MessageSearchResult_fromJSON J = Returned m"
    unfolding MessageSearchResult_fromJSON_def
    by (rule fs_field [OF all [THEN conjunct1]], erule jr_string, simp only: N absent_simps simp_thms,
      erule fs_field, erule jr_string, simp only: N absent_simps simp_thms,
      erule fs_field, erule jr_string, simp only: N absent_simps simp_thms,
      erule fs_field, erule jr_bigint, simp only: N absent_simps simp_thms,
      erule fs_field, erule jr_string, simp only: N absent_simps simp_thms,
      erule fs_field, erule jr_string, simp only: N absent_simps simp_thms,
      erule fs_field, erule jr_date, rule absent_Nil, (use ok in \<open>fastforce simp: MessageSearchResult_json_ok_def list_all_iff\<close>),
      erule fs_field, erule jr_string, rule absent_Nil,
      erule fs_field, erule jr_list, assumption, simp only: names_simps, rule MessageSearchHighlight_json,
      rule f_obj_Nil, cases m, simp add: createBaseMessageSearchResult_def)
  with all show "isSet J \<and> MessageSearchResult_fromJSON J = Returned m"
    by (simp add: entries_def)
qed

lemma MessageSearchResult_toJSON_safe [json_rules]: "to_safe (MessageSearchResult_toJSON m)"
  unfolding MessageSearchResult_toJSON_def by (intro json_rules)

subsection \<open>MessageRequest\<close>

definition MessageRequest_toJSON :: "MessageRequest \<Rightarrow> js_any js_out" where
  "MessageRequest_toJSON m = t_obj (
    [(''senderId'', t_if (MessageRequest_senderId m \<noteq> '''') (AStr (MessageRequest_senderId m))),
     (''snippet'', t_if (MessageRequest_snippet m \<noteq> '''') (AStr (MessageRequest_snippet m))),
     (''timestamp'', t_some (MessageRequest_timestamp m) date_json)])"

definition MessageRequest_fromJSON :: "js_any \<Rightarrow> MessageRequest js_out" where
  "MessageRequest_fromJSON = f_obj createBaseMessageRequest
    [f_field (f_first [(''senderId'', js_String), (''sender_id'', js_String)] '''') (\<lambda>v m. m\<lparr>MessageRequest_senderId := v\<rparr>),
     f_field (f_first [(''snippet'', js_String)] '''') (\<lambda>v m. m\<lparr>MessageRequest_snippet := v\<rparr>),
     f_field (f_first [(''timestamp'', \<lambda>x. js_map Some (fromJsonTimestamp x))] None) (\<lambda>v m. m\<lparr>MessageRequest_timestamp := v\<rparr>)]"

definition MessageRequest_fromPartial :: "js_any \<Rightarrow> MessageRequest js_out" where
  "MessageRequest_fromPartial = f_obj createBaseMessageRequest
    [f_field (f_first [(''senderId'', p_string)] '''') (\<lambda>v m. m\<lparr>MessageRequest_senderId := v\<rparr>),
     f_field (f_first [(''snippet'', p_string)] '''') (\<lambda>v m. m\<lparr>MessageRequest_snippet := v\<rparr>),
     f_field (f_first [(''timestamp'', \<lambda>x. js_map Some (p_date x))] None) (\<lambda>v m. m\<lparr>MessageRequest_timestamp := v\<rparr>)]"

definition MessageRequest_create :: "js_any \<Rightarrow> MessageRequest js_out" where
  "MessageRequest_create = create_with MessageRequest_fromPartial"

definition MessageRequest_json_ok :: "MessageRequest \<Rightarrow> bool" where
  "MessageRequest_json_ok m \<longleftrightarrow> pred_option js_date_ok (MessageRequest_timestamp m)"

lemma MessageRequest_json:
  assumes ok: "MessageRequest_json_ok m"
  shows "json_rt MessageRequest_toJSON MessageRequest_fromJSON m"
  unfolding json_rt_def
proof (intro allI impI)
  fix J
  assume to: "MessageRequest_toJSON m = Returned J"
  have d: "distinct ([''senderId'', ''snippet'', ''timestamp''] @ [''sender_id''])"
    by code_simp
  note all = t_objD [OF to [unfolded MessageRequest_toJSON_def] _ d, unfolded t_names, OF refl]
  note N = all [THEN conjunct2, unfolded names_simps]
  have "MessageRequest_fromJSON J = Returned m"
    unfolding MessageRequest_fromJSON_def
    by (rule fs_field [OF all [THEN conjunct1]], erule jr_string, simp only: N absent_simps simp_thms,
      erule fs_field, erule jr_string, rule absent_Nil,
      erule fs_field, erule jr_date, rule absent_Nil, (use ok in \<open>fastforce simp: MessageRequest_json_ok_def list_all_iff\<close>),
      rule f_obj_Nil, cases m, simp add: createBaseMessageRequest_def)
  with all show "isSet J \<and> MessageRequest_fromJSON J = Returned m"
    by (simp add: entries_def)
qed

lemma MessageRequest_toJSON_safe [json_rules]: "to_safe (MessageRequest_toJSON m)"
  unfolding MessageRequest_toJSON_def by (intro json_rules)

subsection \<open>Theme\<close>

definition Theme_toJSON :: "Theme \<Rightarrow> js_any js_out" where
  "Theme_toJSON m = t_obj (
    [(''id'', t_if (Theme_id m \<noteq> '''') (AStr (Theme_id m))),
     (''name'', t_if (Theme_name m \<noteq> '''') (AStr (Theme_name m))),
     (''description'', t_if (Theme_description m \<noteq> '''') (AStr (Theme_description m))),
     (''appColorMode'', t_if (Theme_appColorMode m \<noteq> '''') (AStr (Theme_appColorMode m))),
     (''composerBackgroundColor'', t_if (Theme_composerBackgroundColor m \<noteq> '''') (AStr (Theme_composerBackgroundColor m))),
     (''backgroundGradientColors'', t_list (Theme_backgroundGradientColors m) (\<lambda>x. Returned (AStr x))),
     (''titleBarButtonTintColor'', t_if (Theme_titleBarButtonTintColor m \<noteq> '''') (AStr (Theme_titleBarButtonTintColor m))),
     (''inboundMessageGradientColors'', t_list (Theme_inboundMessageGradientColors m) (\<lambda>x. Returned (AStr x))),
     (''titleBarTextColor'', t_if (Theme_titleBarTextColor m \<noteq> '''') (AStr (Theme_titleBarTextColor m))),
     (''composerTintColor'', t_if (Theme_composerTintColor m \<noteq> '''') (AStr (Theme_composerTintColor m))),
     (''titleBarAttributionColor'', t_if (Theme_titleBarAttributionColor m \<noteq> '''') (AStr (Theme_titleBarAttributionColor m))),
     (''composerInputBackgroundColor'', t_if (Theme_composerInputBackgroundColor m \<noteq> '''') (AStr (Theme_composerInputBackgroundColor m))),
     (''hotLikeColor'', t_if (Theme_hotLikeColor m \<noteq> '''') (AStr (Theme_hotLikeColor m))),
     (''backgroundImage'', t_if (Theme_backgroundImage m \<noteq> '''') (AStr (Theme_backgroundImage m))),
     (''messageTextColor'', t_if (Theme_messageTextColor m \<noteq> '''') (AStr (Theme_messageTextColor m))),
     (''inboundMessageTextColor'', t_if (Theme_inboundMessageTextColor m \<noteq> '''') (AStr (Theme_inboundMessageTextColor m))),
     (''primaryButtonBackgroundColor'', t_if (Theme_primaryButtonBackgroundColor m \<noteq> '''') (AStr (Theme_primaryButtonBackgroundColor m))),
     (''titleBarBackgroundColor'', t_if (Theme_titleBarBackgroundColor m \<noteq> '''') (AStr (Theme_titleBarBackgroundColor m))),
     (''tertiaryTextColor'', t_if (Theme_tertiaryTextColor m \<noteq> '''') (AStr (Theme_tertiaryTextColor m))),
     (''reactionPillBackgroundColor'', t_if (Theme_reactionPillBackgroundColor m \<noteq> '''') (AStr (Theme_reactionPillBackgroundColor m))),
     (''secondaryTextColor'', t_if (Theme_secondaryTextColor m \<noteq> '''') (AStr (Theme_secondaryTextColor m))),
     (''fallbackColor'', t_if (Theme_fallbackColor m \<noteq> '''') (AStr (Theme_fallbackColor m))),
     (''gradientColors'', t_list (Theme_gradientColors m) (\<lambda>x. Returned (AStr x))),
     (''normalThemeId'', t_if (Theme_normalThemeId m \<noteq> '''') (AStr (Theme_normalThemeId m))),
     (''iconAsset'', t_if (Theme_iconAsset m \<noteq> '''') (AStr (Theme_iconAsset m)))])"

definition Theme_fromJSON :: "js_any \<Rightarrow> Theme js_out" where
  "Theme_fromJSON = f_obj createBaseTheme
    [f_field (f_first [(''id'', js_String)] '''') (\<lambda>v m. m\<lparr>Theme_id := v\<rparr>),
     f_field (f_first [(''name'', js_String)] '''') (\<lambda>v m. m\<lparr>Theme_name := v\<rparr>),
     f_field (f_first [(''description'', js_String)] '''') (\<lambda>v m. m\<lparr>Theme_description := v\<rparr>),
     f_field (f_first [(''appColorMode'', js_String), (''app_color_mode'', js_String)] '''') (\<lambda>v m. m\<lparr>Theme_appColorMode := v\<rparr>),
     f_field (f_first [(''composerBackgroundColor'', js_String), (''composer_background_color'', js_String)] '''') (\<lambda>v m. m\<lparr>Theme_composerBackgroundColor := v\<rparr>),
     f_field (f_array [''backgroundGradientColors'', ''background_gradient_colors''] js_String) (\<lambda>v m. m\<lparr>Theme_backgroundGradientColors := v\<rparr>),
     f_field (f_first [(''titleBarButtonTintColor'', js_String), (''title_bar_button_tint_color'', js_String)] '''') (\<lambda>v m. m\<lparr>Theme_titleBarButtonTintColor := v\<rparr>),
     f_field (f_array [''inboundMessageGradientColors'', ''inbound_message_gradient_colors''] js_String) (\<lambda>v m. m\<lparr>Theme_inboundMessageGradientColors := v\<rparr>),
     f_field (f_first [(''titleBarTextColor'', js_String), (''title_bar_text_color'', js_String)] '''') (\<lambda>v m. m\<lparr>Theme_titleBarTextColor := v\<rparr>),
     f_field (f_first [(''composerTintColor'', js_String), (''composer_tint_color'', js_String)] '''') (\<lambda>v m. m\<lparr>Theme_composerTintColor := v\<rparr>),
     f_field (f_first [(''titleBarAttributionColor'', js_String), (''title_bar_attribution_color'', js_String)] '''') (\<lambda>v m. m\<lparr>Theme_titleBarAttributionColor := v\<rparr>),
     f_field (f_first [(''composerInputBackgroundColor'', js_String), (''composer_input_background_color'', js_String)] '''') (\<lambda>v m. m\<lparr>Theme_composerInputBackgroundColor := v\<rparr>),
     f_field (f_first [(''hotLikeColor'', js_String), (''hot_like_color'', js_String)] '''') (\<lambda>v m. m\<lparr>Theme_hotLikeColor := v\<rparr>),
     f_field (f_first [(''backgroundImage'', js_String), (''background_image'', js_String)] '''') (\<lambda>v m. m\<lparr>Theme_backgroundImage := v\<rparr>),
     f_field (f_first [(''messageTextColor'', js_String), (''message_text_color'', js_String)] '''') (\<lambda>v m. m\<lparr>Theme_messageTextColor := v\<rparr>),
     f_field (f_first [(''inboundMessageTextColor'', js_String), (''inbound_message_text_color'', js_String)] '''') (\<lambda>v m. m\<lparr>Theme_inboundMessageTextColor := v\<rparr>),
     f_field (f_first [(''primaryButtonBackgroundColor'', js_String), (''primary_button_background_color'', js_String)] '''') (\<lambda>v m. m\<lparr>Theme_primaryButtonBackgroundColor := v\<rparr>),
     f_field (f_first [(''titleBarBackgroundColor'', js_String), (''title_bar_background_color'', js_String)] '''') (\<lambda>v m. m\<lparr>Theme_titleBarBackgroundColor := v\<rparr>),
     f_field (f_first [(''tertiaryTextColor'', js_String), (''tertiary_text_color'', js_String)] '''') (\<lambda>v m. m\<lparr>Theme_tertiaryTextColor := v\<rparr>),
     f_field (f_first [(''reactionPillBackgroundColor'', js_String), (''reaction_pill_background_color'', js_String)] '''') (\<lambda>v m. m\<lparr>Theme_reactionPillBackgroundColor := v\<rparr>),
     f_field (f_first [(''secondaryTextColor'', js_String), (''secondary_text_color'', js_String)] '''') (\<lambda>v m. m\<lparr>Theme_secondaryTextColor := v\<rparr>),
     f_field (f_first [(''fallbackColor'', js_String), (''fallback_color'', js_String)] '''') (\<lambda>v m. m\<lparr>Theme_fallbackColor := v\<rparr>),
     f_field (f_array [''gradientColors'', ''gradient_colors''] js_String) (\<lambda>v m. m\<lparr>Theme_gradientColors := v\<rparr>),
     f_field (f_first [(''normalThemeId'', js_String), (''normal_theme_id'', js_String)] '''') (\<lambda>v m. m\<lparr>Theme_normalThemeId := v\<rparr>),
     f_field (f_first [(''iconAsset'', js_String), (''icon_asset'', js_String)] '''') (\<lambda>v m. m\<lparr>Theme_iconAsset := v\<rparr>)]"

definition Theme_fromPartial :: "js_any \<Rightarrow> Theme js_out" where
  "Theme_fromPartial = f_obj createBaseTheme
    [f_field (f_first [(''id'', p_string)] '''') (\<lambda>v m. m\<lparr>Theme_id := v\<rparr>),
     f_field (f_first [(''name'', p_string)] '''') (\<lambda>v m. m\<lparr>Theme_name := v\<rparr>),
     f_field (f_first [(''description'', p_string)] '''') (\<lambda>v m. m\<lparr>Theme_description := v\<rparr>),
     f_field (f_first [(''appColorMode'', p_string)] '''') (\<lambda>v m. m\<lparr>Theme_appColorMode := v\<rparr>),
     f_field (f_first [(''composerBackgroundColor'', p_string)] '''') (\<lambda>v m. m\<lparr>Theme_composerBackgroundColor := v\<rparr>),
     f_field (p_array ''backgroundGradientColors'' p_string) (\<lambda>v m. m\<lparr>Theme_backgroundGradientColors := v\<rparr>),
     f_field (f_first [(''titleBarButtonTintColor'', p_string)] '''') (\<lambda>v m. m\<lparr>Theme_titleBarButtonTintColor := v\<rparr>),
     f_field (p_array ''inboundMessageGradientColors'' p_string) (\<lambda>v m. m\<lparr>Theme_inboundMessageGradientColors := v\<rparr>),
     f_field (f_first [(''titleBarTextColor'', p_string)] '''') (\<lambda>v m. m\<lparr>Theme_titleBarTextColor := v\<rparr>),
     f_field (f_first [(''composerTintColor'', p_string)] '''') (\<lambda>v m. m\<lparr>Theme_composerTintColor := v\<rparr>),
     f_field (f_first [(''titleBarAttributionColor'', p_string)] '''') (\<lambda>v m. m\<lparr>Theme_titleBarAttributionColor := v\<rparr>),
     f_field (f_first [(''composerInputBackgroundColor'', p_string)] '''') (\<lambda>v m. m\<lparr>Theme_composerInputBackgroundColor := v\<rparr>),
     f_field (f_first [(''hotLikeColor'', p_string)] '''') (\<lambda>v m. m\<lparr>Theme_hotLikeColor := v\<rparr>),
     f_field (f_first [(''backgroundImage'', p_string)] '''') (\<lambda>v m. m\<lparr>Theme_backgroundImage := v\<rparr>),
     f_field (f_first [(''messageTextColor'', p_string)] '''') (\<lambda>v m. m\<lparr>Theme_messageTextColor := v\<rparr>),
     f_field (f_first [(''inboundMessageTextColor'', p_string)] '''') (\<lambda>v m. m\<lparr>Theme_inboundMessageTextColor := v\<rparr>),
     f_field (f_first [(''primaryButtonBackgroundColor'', p_string)] '''') (\<lambda>v m. m\<lparr>Theme_primaryButtonBackgroundColor := v\<rparr>),
     f_field (f_first [(''titleBarBackgroundColor'', p_string)] '''') (\<lambda>v m. m\<lparr>Theme_titleBarBackgroundColor := v\<rparr>),
     f_field (f_first [(''tertiaryTextColor'', p_string)] '''') (\<lambda>v m. m\<lparr>Theme_tertiaryTextColor := v\<rparr>),
     f_field (f_first [(''reactionPillBackgroundColor'', p_string)] '''') (\<lambda>v m. m\<lparr>Theme_reactionPillBackgroundColor := v\<rparr>),
     f_field (f_first [(''secondaryTextColor'', p_string)] '''') (\<lambda>v m. m\<lparr>Theme_secondaryTextColor := v\<rparr>),
     f_field (f_first [(''fallbackColor'', p_string)] '''') (\<lambda>v m. m\<lparr>Theme_fallbackColor := v\<rparr>),
     f_field (p_array ''gradientColors'' p_string) (\<lambda>v m. m\<lparr>Theme_gradientColors := v\<rparr>),
     f_field (f_first [(''normalThemeId'', p_string)] '''') (\<lambda>v m. m\<lparr>Theme_normalThemeId := v\<rparr>),
     f_field (f_first [(''iconAsset'', p_string)] '''') (\<lambda>v m. m\<lparr>Theme_iconAsset := v\<rparr>)]"

definition Theme_create :: "js_any \<Rightarrow> Theme js_out" where
  "Theme_create = create_with Theme_fromPartial"

lemma Theme_json:
  "json_rt Theme_toJSON Theme_fromJSON m"
  unfolding json_rt_def
proof (intro allI impI)
  fix J
  assume to: "Theme_toJSON m = Returned J"
  have d: "distinct ([''id'', ''name'', ''description'', ''appColorMode'', ''composerBackgroundColor'', ''backgroundGradientColors'', ''titleBarButtonTintColor'', ''inboundMessageGradientColors'', ''titleBarTextColor'', ''composerTintColor'', ''titleBarAttributionColor'', ''composerInputBackgroundColor'', ''hotLikeColor'', ''backgroundImage'', ''messageTextColor'', ''inboundMessageTextColor'', ''primaryButtonBackgroundColor'', ''titleBarBackgroundColor'', ''tertiaryTextColor'', ''reactionPillBackgroundColor'', ''secondaryTextColor'', ''fallbackColor'', ''gradientColors'', ''normalThemeId'', ''iconAsset''] @ [''app_color_mode'', ''composer_background_color'', ''background_gradient_colors'', ''title_bar_button_tint_color'', ''inbound_message_gradient_colors'', ''title_bar_text_color'', ''composer_tint_color'', ''title_bar_attribution_color'', ''composer_input_background_color'', ''hot_like_color'', ''background_image'', ''message_text_color'', ''inbound_message_text_color'', ''primary_button_background_color'', ''title_bar_background_color'', ''tertiary_text_color'', ''reaction_pill_background_color'', ''secondary_text_color'', ''fallback_color'', ''gradient_colors'', ''normal_theme_id'', ''icon_asset''])"
    by code_simp
  note all = t_objD [OF to [unfolded Theme_toJSON_def] _ d, unfolded t_names, OF refl]
  note N = all [THEN conjunct2, unfolded names_simps]
  have "Theme_fromJSON J = Returned m"
    unfolding Theme_fromJSON_def
    by (rule fs_field [OF all [THEN conjunct1]], erule jr_string, rule absent_Nil,
      erule fs_field, erule jr_string, rule absent_Nil,
      erule fs_field, erule jr_string, rule absent_Nil,
      erule fs_field, erule jr_string, simp only: N absent_simps simp_thms,
      erule fs_field, erule jr_string, simp only: N absent_simps simp_thms,
      erule fs_field, erule jr_strings, assumption, simp only: N names_simps simp_thms,
      erule fs_field, erule jr_string, simp only: N absent_simps simp_thms,
      erule fs_field, erule jr_strings, assumption, simp only: N names_simps simp_thms,
      erule fs_field, erule jr_string, simp only: N absent_simps simp_thms,
      erule fs_field, erule jr_string, simp only: N absent_simps simp_thms,
      erule fs_field, erule jr_string, simp only: N absent_simps simp_thms,
      erule fs_field, erule jr_string, simp only: N absent_simps simp_thms,
      erule fs_field, erule jr_string, simp only: N absent_simps simp_thms,
      erule fs_field, erule jr_string, simp only: N absent_simps simp_thms,
      erule fs_field, erule jr_string, simp only: N absent_simps simp_thms,
      erule fs_field, erule jr_string, simp only: N absent_simps simp_thms,
      erule fs_field, erule jr_string, simp only: N absent_simps simp_thms,
      erule fs_field, erule jr_string, simp only: N absent_simps simp_thms,
      erule fs_field, erule jr_string, simp only: N absent_simps simp_thms,
      erule fs_field, erule jr_string, simp only: N absent_simps simp_thms,
      erule fs_field, erule jr_string, simp only: N absent_simps simp_thms,
      erule fs_field, erule jr_string, simp only: N absent_simps simp_thms,
      erule fs_field, erule jr_strings, assumption, simp only: N names_simps simp_thms,
      erule fs_field, erule jr_string, simp only: N absent_simps simp_thms,
      erule fs_field, erule jr_string, simp only: N absent_simps simp_thms,
      rule f_obj_Nil, cases m, simp add: createBaseTheme_def)
  with all show "isSet J \<and> Theme_fromJSON J = Returned m"
    by (simp add: entries_def)
qed

lemma Theme_toJSON_safe [json_rules]: "to_safe (Theme_toJSON m)"
  unfolding Theme_toJSON_def by (intro json_rules)

subsection \<open>Note\<close>

definition Note_toJSON :: "Note \<Rightarrow> js_any js_out" where
  "Note_toJSON m = t_obj (
    [(''id'', t_if (Note_id m \<noteq> '''') (AStr (Note_id m))),
     (''description'', t_if (Note_description m \<noteq> '''') (AStr (Note_description m)))])"

definition Note_fromJSON :: "js_any \<Rightarrow> Note js_out" where
  "Note_fromJSON = f_obj createBaseNote
    [f_field (f_first [(''id'', js_String)] '''') (\<lambda>v m. m\<lparr>Note_id := v\<rparr>),
     f_field (f_first [(''description'', js_String)] '''') (\<lambda>v m. m\<lparr>Note_description := v\<rparr>)]"

definition Note_fromPartial :: "js_any \<Rightarrow> Note js_out" where
  "Note_fromPartial = f_obj createBaseNote
    [f_field (f_first [(''id'', p_string)] '''') (\<lambda>v m. m\<lparr>Note_id := v\<rparr>),
     f_field (f_first [(''description'', p_string)] '''') (\<lambda>v m. m\<lparr>Note_description := v\<rparr>)]"

definition Note_create :: "js_any \<Rightarrow> Note js_out" where
  "Note_create = create_with Note_fromPartial"

lemma Note_json:
  "json_rt Note_toJSON Note_fromJSON m"
  unfolding json_rt_def
proof (intro allI impI)
  fix J
  assume to: "Note_toJSON m = Returned J"
  have d: "distinct ([''id'', ''description''] @ [])"
    by code_simp
  note all = t_objD [OF to [unfolded Note_toJSON_def] _ d, unfolded t_names, OF refl]
  have "Note_fromJSON J = Returned m"
    unfolding Note_fromJSON_def
    by (rule fs_field [OF all [THEN conjunct1]], erule jr_string, rule absent_Nil,
      erule fs_field, erule jr_string, rule absent_Nil,
      rule f_obj_Nil, cases m, simp add: createBaseNote_def)
  with all show "isSet J \<and> Note_fromJSON J = Returned m"
    by (simp add: entries_def)
qed

lemma Note_toJSON_safe [json_rules]: "to_safe (Note_toJSON m)"
  unfolding Note_toJSON_def by (intro json_rules)

subsection \<open>SendRequest\<close>

definition SendRequest_toJSON :: "SendRequest \<Rightarrow> js_any js_out" where
  "SendRequest_toJSON m = t_obj (
    [(''sessionId'', t_if (SendRequest_sessionId m \<noteq> '''') (AStr (SendRequest_sessionId m))),
     (''threadId'', t_if (SendRequest_threadId m \<noteq> '''') (AStr (SendRequest_threadId m))),
     (''text'', t_if (SendRequest_text m \<noteq> '''') (AStr (SendRequest_text m))),
     (''replyTo'', t_some (SendRequest_replyTo m) ReplyReference_toJSON),
     (''mentions'', t_list (SendRequest_mentions m) Mention_toJSON),
     (''stickerId'', t_if (SendRequest_stickerId m \<noteq> '''') (AStr (SendRequest_stickerId m))),
     (''url'', t_if (SendRequest_url m \<noteq> '''') (AStr (SendRequest_url m))),
     (''encryption'', t_if (SendRequest_encryption m \<noteq> 0) (AStr (encryptionPolicyToJSON (SendRequest_encryption m)))),
     (''attachmentIds'', t_list (SendRequest_attachmentIds m) (\<lambda>x. Returned (AStr x)))])"

definition SendRequest_fromJSON :: "js_any \<Rightarrow> SendRequest js_out" where
  "SendRequest_fromJSON = f_obj createBaseSendRequest
    [f_field (f_first [(''sessionId'', js_String), (''session_id'', js_String)] '''') (\<lambda>v m. m\<lparr>SendRequest_sessionId := v\<rparr>),
     f_field (f_first [(''threadId'', js_String), (''thread_id'', js_String)] '''') (\<lambda>v m. m\<lparr>SendRequest_threadId := v\<rparr>),
     f_field (f_first [(''text'', js_String)] '''') (\<lambda>v m. m\<lparr>SendRequest_text := v\<rparr>),
     f_field (f_first [(''replyTo'', \<lambda>x. js_map Some (ReplyReference_fromJSON x)), (''reply_to'', \<lambda>x. js_map Some (ReplyReference_fromJSON x))] None) (\<lambda>v m. m\<lparr>SendRequest_replyTo := v\<rparr>),
     f_field (f_array [''mentions''] Mention_fromJSON) (\<lambda>v m. m\<lparr>SendRequest_mentions := v\<rparr>),
     f_field (f_first [(''stickerId'', js_String), (''sticker_id'', js_String)] '''') (\<lambda>v m. m\<lparr>SendRequest_stickerId := v\<rparr>),
     f_field (f_first [(''url'', js_String)] '''') (\<lambda>v m. m\<lparr>SendRequest_url := v\<rparr>),
     f_field (f_first [(''encryption'', \<lambda>x. Returned (encryptionPolicyFromJSON x))] 0) (\<lambda>v m. m\<lparr>SendRequest_encryption := v\<rparr>),
     f_field (f_array [''attachmentIds'', ''attachment_ids''] js_String) (\<lambda>v m. m\<lparr>SendRequest_attachmentIds := v\<rparr>)]"

definition SendRequest_fromPartial :: "js_any \<Rightarrow> SendRequest js_out" where
  "SendRequest_fromPartial = f_obj createBaseSendRequest
    [f_field (f_first [(''sessionId'', p_string)] '''') (\<lambda>v m. m\<lparr>SendRequest_sessionId := v\<rparr>),
     f_field (f_first [(''threadId'', p_string)] '''') (\<lambda>v m. m\<lparr>SendRequest_threadId := v\<rparr>),
     f_field (f_first [(''text'', p_string)] '''') (\<lambda>v m. m\<lparr>SendRequest_text := v\<rparr>),
     f_field (f_first [(''replyTo'', \<lambda>x. js_map Some (ReplyReference_fromPartial x))] None) (\<lambda>v m. m\<lparr>SendRequest_replyTo := v\<rparr>),
     f_field (p_array ''mentions'' Mention_fromPartial) (\<lambda>v m. m\<lparr>SendRequest_mentions := v\<rparr>),
     f_field (f_first [(''stickerId'', p_string)] '''') (\<lambda>v m. m\<lparr>SendRequest_stickerId := v\<rparr>),
     f_field (f_first [(''url'', p_string)] '''') (\<lambda>v m. m\<lparr>SendRequest_url := v\<rparr>),
     f_field (f_first [(''encryption'', p_int)] 0) (\<lambda>v m. m\<lparr>SendRequest_encryption := v\<rparr>),
     f_field (p_array ''attachmentIds'' p_string) (\<lambda>v m. m\<lparr>SendRequest_attachmentIds := v\<rparr>)]"

definition SendRequest_create :: "js_any \<Rightarrow> SendRequest js_out" where
  "SendRequest_create = create_with SendRequest_fromPartial"

definition SendRequest_json_ok :: "SendRequest \<Rightarrow> bool" where
  "SendRequest_json_ok m \<longleftrightarrow> encryptionPolicy_known (SendRequest_encryption m)"

lemma SendRequest_json:
  assumes ok: "SendRequest_json_ok m"
  shows "json_rt SendRequest_toJSON SendRequest_fromJSON m"
  unfolding json_rt_def
proof (intro allI impI)
  fix J
  assume to: "SendRequest_toJSON m = Returned J"
  have d: "distinct ([''sessionId'', ''threadId'', ''text'', ''replyTo'', ''mentions'', ''stickerId'', ''url'', ''encryption'', ''attachmentIds''] @ [''session_id'', ''thread_id'', ''reply_to'', ''sticker_id'', ''attachment_ids''])"
    by code_simp
  note all = t_objD [OF to [unfolded SendRequest_toJSON_def] _ d, unfolded t_names, OF refl]
  note N = all [THEN conjunct2, unfolded names_simps]
  have "SendRequest_fromJSON J = Returned m"
    unfolding SendRequest_fromJSON_def
    by (rule fs_field [OF all [THEN conjunct1]], erule jr_string, simp only: N absent_simps simp_thms,
      erule fs_field, erule jr_string, simp only: N absent_simps simp_thms,
      erule fs_field, erule jr_string, rule absent_Nil,
      erule fs_field, erule jr_msg, simp only: N absent_simps simp_thms, rule ReplyReference_json,
      erule fs_field, erule jr_list, assumption, simp only: names_simps, rule Mention_json,
      erule fs_field, erule jr_string, simp only: N absent_simps simp_thms,
      erule fs_field, erule jr_string, rule absent_Nil,
      erule fs_field, erule jr_enum, rule absent_Nil, rule encryptionPolicy_json, (use ok in \<open>fastforce simp: SendRequest_json_ok_def list_all_iff\<close>),
      erule fs_field, erule jr_strings, assumption, simp only: N names_simps simp_thms,
      rule f_obj_Nil, cases m, simp add: createBaseSendRequest_def)
  with all show "isSet J \<and> SendRequest_fromJSON J = Returned m"
    by (simp add: entries_def)
qed

lemma SendRequest_toJSON_safe [json_rules]: "to_safe (SendRequest_toJSON m)"
  unfolding SendRequest_toJSON_def by (intro json_rules)

subsection \<open>SendResponse\<close>

definition SendResponse_toJSON :: "SendResponse \<Rightarrow> js_any js_out" where
  "SendResponse_toJSON m = t_obj (
    [(''messageId'', t_if (SendResponse_messageId m \<noteq> '''') (AStr (SendResponse_messageId m))),
     (''timestamp'', t_some (SendResponse_timestamp m) date_json)])"

definition SendResponse_fromJSON :: "js_any \<Rightarrow> SendResponse js_out" where
  "SendResponse_fromJSON = f_obj createBaseSendResponse
    [f_field (f_first [(''messageId'', js_String), (''message_id'', js_String)] '''') (\<lambda>v m. m\<lparr>SendResponse_messageId := v\<rparr>),
     f_field (f_first [(''timestamp'', \<lambda>x. js_map Some (fromJsonTimestamp x))] None) (\<lambda>v m. m\<lparr>SendResponse_timestamp := v\<rparr>)]"

definition SendResponse_fromPartial :: "js_any \<Rightarrow> SendResponse js_out" where
  "SendResponse_fromPartial = f_obj createBaseSendResponse
    [f_field (f_first [(''messageId'', p_string)] '''') (\<lambda>v m. m\<lparr>SendResponse_messageId := v\<rparr>),
     f_field (f_first [(''timestamp'', \<lambda>x. js_map Some (p_date x))] None) (\<lambda>v m. m\<lparr>SendResponse_timestamp := v\<rparr>)]"

definition SendResponse_create :: "js_any \<Rightarrow> SendResponse js_out" where
  "SendResponse_create = create_with SendResponse_fromPartial"

definition SendResponse_json_ok :: "SendResponse \<Rightarrow> bool" where
  "SendResponse_json_ok m \<longleftrightarrow> pred_option js_date_ok (SendResponse_timestamp m)"

lemma SendResponse_json:
  assumes ok: "SendResponse_json_ok m"
  shows "json_rt SendResponse_toJSON SendResponse_fromJSON m"
  unfolding json_rt_def
proof (intro allI impI)
  fix J
  assume to: "SendResponse_toJSON m = Returned J"
  have d: "distinct ([''messageId'', ''timestamp''] @ [''message_id''])"
    by code_simp
  note all = t_objD [OF to [unfolded SendResponse_toJSON_def] _ d, unfolded t_names, OF refl]
  note N = all [THEN conjunct2, unfolded names_simps]
  have "SendResponse_fromJSON J = Returned m"
    unfolding SendResponse_fromJSON_def
    by (rule fs_field [OF all [THEN conjunct1]], erule jr_string, simp only: N absent_simps simp_thms,
      erule fs_field, erule jr_date, rule absent_Nil, (use ok in \<open>fastforce simp: SendResponse_json_ok_def list_all_iff\<close>),
      rule f_obj_Nil, cases m, simp add: createBaseSendResponse_def)
  with all show "isSet J \<and> SendResponse_fromJSON J = Returned m"
    by (simp add: entries_def)
qed

lemma SendResponse_toJSON_safe [json_rules]: "to_safe (SendResponse_toJSON m)"
  unfolding SendResponse_toJSON_def by (intro json_rules)

subsection \<open>UploadMetadata\<close>

definition UploadMetadata_toJSON :: "UploadMetadata \<Rightarrow> js_any js_out" where
  "UploadMetadata_toJSON m = t_obj (
    [(''sessionId'', t_if (UploadMetadata_sessionId m \<noteq> '''') (AStr (UploadMetadata_sessionId m))),
     (''threadId'', t_if (UploadMetadata_threadId m \<noteq> '''') (AStr (UploadMetadata_threadId m))),
     (''name'', t_if (UploadMetadata_name m \<noteq> '''') (AStr (UploadMetadata_name m))),
     (''contentType'', t_if (UploadMetadata_contentType m \<noteq> '''') (AStr (UploadMetadata_contentType m))),
     (''size'', t_if (UploadMetadata_size m \<noteq> 0) (AStr (string_of_int (UploadMetadata_size m)))),
     (''voice'', t_if (UploadMetadata_voice m \<noteq> False) (ABool (UploadMetadata_voice m))),
     (''sha256'', t_if (UploadMetadata_sha256 m \<noteq> []) (AStr (base64FromBytes (UploadMetadata_sha256 m))))])"

definition UploadMetadata_fromJSON :: "js_any \<Rightarrow> UploadMetadata js_out" where
  "UploadMetadata_fromJSON = f_obj createBaseUploadMetadata
    [f_field (f_first [(''sessionId'', js_String), (''session_id'', js_String)] '''') (\<lambda>v m. m\<lparr>UploadMetadata_sessionId := v\<rparr>),
     f_field (f_first [(''threadId'', js_String), (''thread_id'', js_String)] '''') (\<lambda>v m. m\<lparr>UploadMetadata_threadId := v\<rparr>),
     f_field (f_first [(''name'', js_String)] '''') (\<lambda>v m. m\<lparr>UploadMetadata_name := v\<rparr>),
     f_field (f_first [(''contentType'', js_String), (''content_type'', js_String)] '''') (\<lambda>v m. m\<lparr>UploadMetadata_contentType := v\<rparr>),
     f_field (f_first [(''size'', js_BigInt)] 0) (\<lambda>v m. m\<lparr>UploadMetadata_size := v\<rparr>),
     f_field (f_first [(''voice'', \<lambda>x. Returned (js_Boolean x))] False) (\<lambda>v m. m\<lparr>UploadMetadata_voice := v\<rparr>),
     f_field (f_first [(''sha256'', bytesFromBase64)] []) (\<lambda>v m. m\<lparr>UploadMetadata_sha256 := v\<rparr>)]"

definition UploadMetadata_fromPartial :: "js_any \<Rightarrow> UploadMetadata js_out" where
  "UploadMetadata_fromPartial = f_obj createBaseUploadMetadata
    [f_field (f_first [(''sessionId'', p_string)] '''') (\<lambda>v m. m\<lparr>UploadMetadata_sessionId := v\<rparr>),
     f_field (f_first [(''threadId'', p_string)] '''') (\<lambda>v m. m\<lparr>UploadMetadata_threadId := v\<rparr>),
     f_field (f_first [(''name'', p_string)] '''') (\<lambda>v m. m\<lparr>UploadMetadata_name := v\<rparr>),
     f_field (f_first [(''contentType'', p_string)] '''') (\<lambda>v m. m\<lparr>UploadMetadata_contentType := v\<rparr>),
     f_field (f_first [(''size'', js_BigInt)] 0) (\<lambda>v m. m\<lparr>UploadMetadata_size := v\<rparr>),
     f_field (f_first [(''voice'', p_bool)] False) (\<lambda>v m. m\<lparr>UploadMetadata_voice := v\<rparr>),
     f_field (f_first [(''sha256'', p_bytes)] []) (\<lambda>v m. m\<lparr>UploadMetadata_sha256 := v\<rparr>)]"

definition UploadMetadata_create :: "js_any \<Rightarrow> UploadMetadata js_out" where
  "UploadMetadata_create = create_with UploadMetadata_fromPartial"

lemma UploadMetadata_json:
  "json_rt UploadMetadata_toJSON UploadMetadata_fromJSON m"
  unfolding json_rt_def
proof (intro allI impI)
  fix J
  assume to: "UploadMetadata_toJSON m = Returned J"
  have d: "distinct ([''sessionId'', ''threadId'', ''name'', ''contentType'', ''size'', ''voice'', ''sha256''] @ [''session_id'', ''thread_id'', ''content_type''])"
    by code_simp
  note all = t_objD [OF to [unfolded UploadMetadata_toJSON_def] _ d, unfolded t_names, OF refl]
  note N = all [THEN conjunct2, unfolded names_simps]
  have "UploadMetadata_fromJSON J = Returned m"
    unfolding UploadMetadata_fromJSON_def
    by (rule fs_field [OF all [THEN conjunct1]], erule jr_string, simp only: N absent_simps simp_thms,
      erule fs_field, erule jr_string, simp only: N absent_simps simp_thms,
      erule fs_field, erule jr_string, rule absent_Nil,
      erule fs_field, erule jr_string, simp only: N absent_simps simp_thms,
      erule fs_field, erule jr_bigint, rule absent_Nil,
      erule fs_field, erule jr_bool, rule absent_Nil,
      erule fs_field, erule jr_bytes, rule absent_Nil,
      rule f_obj_Nil, cases m, simp add: createBaseUploadMetadata_def)
  with all show "isSet J \<and> UploadMetadata_fromJSON J = Returned m"
    by (simp add: entries_def)
qed

lemma UploadMetadata_toJSON_safe [json_rules]: "to_safe (UploadMetadata_toJSON m)"
  unfolding UploadMetadata_toJSON_def by (intro json_rules)

subsection \<open>UploadRequest\<close>

definition UploadRequest_payload_toJSON :: "UploadRequest_payload_case option \<Rightarrow> to_stmt list" where
  "UploadRequest_payload_toJSON c = [(''metadata'', case c of Some (UploadRequest_payload_metadata x) \<Rightarrow> js_map Some (UploadMetadata_toJSON x) | _ \<Rightarrow> Returned None),
     (''chunk'', case c of Some (UploadRequest_payload_chunk x) \<Rightarrow> js_map Some (MediaChunk_toJSON x) | _ \<Rightarrow> Returned None)]"

definition UploadRequest_payload_fromJSON :: "js_any \<Rightarrow> UploadRequest_payload_case option js_out" where
  "UploadRequest_payload_fromJSON = f_first [(''metadata'', \<lambda>x. js_map (\<lambda>y. Some (UploadRequest_payload_metadata y)) (UploadMetadata_fromJSON x)),
     (''chunk'', \<lambda>x. js_map (\<lambda>y. Some (UploadRequest_payload_chunk y)) (MediaChunk_fromJSON x))] None"

definition UploadRequest_toJSON :: "UploadRequest \<Rightarrow> js_any js_out" where
  "UploadRequest_toJSON m = t_obj (UploadRequest_payload_toJSON (UploadRequest_payload m))"

definition UploadRequest_fromJSON :: "js_any \<Rightarrow> UploadRequest js_out" where
  "UploadRequest_fromJSON = f_obj createBaseUploadRequest
    [f_field (UploadRequest_payload_fromJSON) (\<lambda>v m. m\<lparr>UploadRequest_payload := v\<rparr>)]"

definition UploadRequest_fromPartial :: "js_any \<Rightarrow> UploadRequest js_out" where
  "UploadRequest_fromPartial = f_obj createBaseUploadRequest
    [f_field (p_oneof ''payload'' [(''metadata'', \<lambda>x. js_map UploadRequest_payload_metadata (UploadMetadata_fromPartial x)),
         (''chunk'', \<lambda>x. js_map UploadRequest_payload_chunk (MediaChunk_fromPartial x))]) (\<lambda>v m. m\<lparr>UploadRequest_payload := v\<rparr>)]"

definition UploadRequest_create :: "js_any \<Rightarrow> UploadRequest js_out" where
  "UploadRequest_create = create_with UploadRequest_fromPartial"

lemma UploadRequest_payload_names: "map fst (UploadRequest_payload_toJSON c) = [''metadata'', ''chunk'']"
  by (simp add: UploadRequest_payload_toJSON_def)

lemma UploadRequest_payload_json:
    assumes e: "entries J (UploadRequest_payload_toJSON c)"
    shows "UploadRequest_payload_fromJSON J = Returned c"
proof (cases c)
  case None
  then show ?thesis using e by (simp add: UploadRequest_payload_toJSON_def UploadRequest_payload_fromJSON_def entries_simps)
next
  case (Some x)
  show ?thesis
  proof (cases x)
    case (UploadRequest_payload_metadata v)
    then show ?thesis using e Some UploadMetadata_json [of v] by (auto simp: UploadRequest_payload_toJSON_def UploadRequest_payload_fromJSON_def entries_simps json_rt_def)
  next
    case (UploadRequest_payload_chunk v)
    then show ?thesis using e Some MediaChunk_json [of v] by (auto simp: UploadRequest_payload_toJSON_def UploadRequest_payload_fromJSON_def entries_simps json_rt_def)
  qed
qed

lemma UploadRequest_json:
  "json_rt UploadRequest_toJSON UploadRequest_fromJSON m"
  unfolding json_rt_def
proof (intro allI impI)
  fix J
  assume to: "UploadRequest_toJSON m = Returned J"
  have d: "distinct ([''metadata'', ''chunk''] @ [])"
    by code_simp
  note all = t_objD [OF to [unfolded UploadRequest_toJSON_def] _ d, unfolded t_names UploadRequest_payload_names, OF refl]
  have "UploadRequest_fromJSON J = Returned m"
    unfolding UploadRequest_fromJSON_def
    by (rule fs_last [OF all [THEN conjunct1]], erule UploadRequest_payload_json,
      cases m, simp add: createBaseUploadRequest_def)
  with all show "isSet J \<and> UploadRequest_fromJSON J = Returned m"
    by (simp add: entries_def)
qed

lemma UploadRequest_payload_safe [json_rules]: "stmts_safe (UploadRequest_payload_toJSON c)"
  unfolding UploadRequest_payload_toJSON_def by (intro json_rules) (auto split: option.split UploadRequest_payload_case.split intro!: json_rules)

lemma UploadRequest_toJSON_safe [json_rules]: "to_safe (UploadRequest_toJSON m)"
  unfolding UploadRequest_toJSON_def by (intro json_rules)

subsection \<open>UploadResponse\<close>

definition UploadResponse_toJSON :: "UploadResponse \<Rightarrow> js_any js_out" where
  "UploadResponse_toJSON m = t_obj (
    [(''id'', t_if (UploadResponse_id m \<noteq> '''') (AStr (UploadResponse_id m))),
     (''name'', t_if (UploadResponse_name m \<noteq> '''') (AStr (UploadResponse_name m))),
     (''contentType'', t_if (UploadResponse_contentType m \<noteq> '''') (AStr (UploadResponse_contentType m))),
     (''type'', t_if (UploadResponse_type m \<noteq> '''') (AStr (UploadResponse_type m))),
     (''sha256'', t_if (UploadResponse_sha256 m \<noteq> []) (AStr (base64FromBytes (UploadResponse_sha256 m))))])"

definition UploadResponse_fromJSON :: "js_any \<Rightarrow> UploadResponse js_out" where
  "UploadResponse_fromJSON = f_obj createBaseUploadResponse
    [f_field (f_first [(''id'', js_String)] '''') (\<lambda>v m. m\<lparr>UploadResponse_id := v\<rparr>),
     f_field (f_first [(''name'', js_String)] '''') (\<lambda>v m. m\<lparr>UploadResponse_name := v\<rparr>),
     f_field (f_first [(''contentType'', js_String), (''content_type'', js_String)] '''') (\<lambda>v m. m\<lparr>UploadResponse_contentType := v\<rparr>),
     f_field (f_first [(''type'', js_String)] '''') (\<lambda>v m. m\<lparr>UploadResponse_type := v\<rparr>),
     f_field (f_first [(''sha256'', bytesFromBase64)] []) (\<lambda>v m. m\<lparr>UploadResponse_sha256 := v\<rparr>)]"

definition UploadResponse_fromPartial :: "js_any \<Rightarrow> UploadResponse js_out" where
  "UploadResponse_fromPartial = f_obj createBaseUploadResponse
    [f_field (f_first [(''id'', p_string)] '''') (\<lambda>v m. m\<lparr>UploadResponse_id := v\<rparr>),
     f_field (f_first [(''name'', p_string)] '''') (\<lambda>v m. m\<lparr>UploadResponse_name := v\<rparr>),
     f_field (f_first [(''contentType'', p_string)] '''') (\<lambda>v m. m\<lparr>UploadResponse_contentType := v\<rparr>),
     f_field (f_first [(''type'', p_string)] '''') (\<lambda>v m. m\<lparr>UploadResponse_type := v\<rparr>),
     f_field (f_first [(''sha256'', p_bytes)] []) (\<lambda>v m. m\<lparr>UploadResponse_sha256 := v\<rparr>)]"

definition UploadResponse_create :: "js_any \<Rightarrow> UploadResponse js_out" where
  "UploadResponse_create = create_with UploadResponse_fromPartial"

lemma UploadResponse_json:
  "json_rt UploadResponse_toJSON UploadResponse_fromJSON m"
  unfolding json_rt_def
proof (intro allI impI)
  fix J
  assume to: "UploadResponse_toJSON m = Returned J"
  have d: "distinct ([''id'', ''name'', ''contentType'', ''type'', ''sha256''] @ [''content_type''])"
    by code_simp
  note all = t_objD [OF to [unfolded UploadResponse_toJSON_def] _ d, unfolded t_names, OF refl]
  note N = all [THEN conjunct2, unfolded names_simps]
  have "UploadResponse_fromJSON J = Returned m"
    unfolding UploadResponse_fromJSON_def
    by (rule fs_field [OF all [THEN conjunct1]], erule jr_string, rule absent_Nil,
      erule fs_field, erule jr_string, rule absent_Nil,
      erule fs_field, erule jr_string, simp only: N absent_simps simp_thms,
      erule fs_field, erule jr_string, rule absent_Nil,
      erule fs_field, erule jr_bytes, rule absent_Nil,
      rule f_obj_Nil, cases m, simp add: createBaseUploadResponse_def)
  with all show "isSet J \<and> UploadResponse_fromJSON J = Returned m"
    by (simp add: entries_def)
qed

lemma UploadResponse_toJSON_safe [json_rules]: "to_safe (UploadResponse_toJSON m)"
  unfolding UploadResponse_toJSON_def by (intro json_rules)

subsection \<open>ForwardRequest\<close>

definition ForwardRequest_toJSON :: "ForwardRequest \<Rightarrow> js_any js_out" where
  "ForwardRequest_toJSON m = t_obj (
    [(''sessionId'', t_if (ForwardRequest_sessionId m \<noteq> '''') (AStr (ForwardRequest_sessionId m))),
     (''threadId'', t_if (ForwardRequest_threadId m \<noteq> '''') (AStr (ForwardRequest_threadId m))),
     (''messageId'', t_if (ForwardRequest_messageId m \<noteq> '''') (AStr (ForwardRequest_messageId m)))])"

definition ForwardRequest_fromJSON :: "js_any \<Rightarrow> ForwardRequest js_out" where
  "ForwardRequest_fromJSON = f_obj createBaseForwardRequest
    [f_field (f_first [(''sessionId'', js_String), (''session_id'', js_String)] '''') (\<lambda>v m. m\<lparr>ForwardRequest_sessionId := v\<rparr>),
     f_field (f_first [(''threadId'', js_String), (''thread_id'', js_String)] '''') (\<lambda>v m. m\<lparr>ForwardRequest_threadId := v\<rparr>),
     f_field (f_first [(''messageId'', js_String), (''message_id'', js_String)] '''') (\<lambda>v m. m\<lparr>ForwardRequest_messageId := v\<rparr>)]"

definition ForwardRequest_fromPartial :: "js_any \<Rightarrow> ForwardRequest js_out" where
  "ForwardRequest_fromPartial = f_obj createBaseForwardRequest
    [f_field (f_first [(''sessionId'', p_string)] '''') (\<lambda>v m. m\<lparr>ForwardRequest_sessionId := v\<rparr>),
     f_field (f_first [(''threadId'', p_string)] '''') (\<lambda>v m. m\<lparr>ForwardRequest_threadId := v\<rparr>),
     f_field (f_first [(''messageId'', p_string)] '''') (\<lambda>v m. m\<lparr>ForwardRequest_messageId := v\<rparr>)]"

definition ForwardRequest_create :: "js_any \<Rightarrow> ForwardRequest js_out" where
  "ForwardRequest_create = create_with ForwardRequest_fromPartial"

lemma ForwardRequest_json:
  "json_rt ForwardRequest_toJSON ForwardRequest_fromJSON m"
  unfolding json_rt_def
proof (intro allI impI)
  fix J
  assume to: "ForwardRequest_toJSON m = Returned J"
  have d: "distinct ([''sessionId'', ''threadId'', ''messageId''] @ [''session_id'', ''thread_id'', ''message_id''])"
    by code_simp
  note all = t_objD [OF to [unfolded ForwardRequest_toJSON_def] _ d, unfolded t_names, OF refl]
  note N = all [THEN conjunct2, unfolded names_simps]
  have "ForwardRequest_fromJSON J = Returned m"
    unfolding ForwardRequest_fromJSON_def
    by (rule fs_field [OF all [THEN conjunct1]], erule jr_string, simp only: N absent_simps simp_thms,
      erule fs_field, erule jr_string, simp only: N absent_simps simp_thms,
      erule fs_field, erule jr_string, simp only: N absent_simps simp_thms,
      rule f_obj_Nil, cases m, simp add: createBaseForwardRequest_def)
  with all show "isSet J \<and> ForwardRequest_fromJSON J = Returned m"
    by (simp add: entries_def)
qed

lemma ForwardRequest_toJSON_safe [json_rules]: "to_safe (ForwardRequest_toJSON m)"
  unfolding ForwardRequest_toJSON_def by (intro json_rules)

subsection \<open>ForwardResponse\<close>

definition ForwardResponse_toJSON :: "ForwardResponse \<Rightarrow> js_any js_out" where
  "ForwardResponse_toJSON m = t_obj (
    [(''messageId'', t_if (ForwardResponse_messageId m \<noteq> '''') (AStr (ForwardResponse_messageId m))),
     (''timestamp'', t_some (ForwardResponse_timestamp m) date_json)])"

definition ForwardResponse_fromJSON :: "js_any \<Rightarrow> ForwardResponse js_out" where
  "ForwardResponse_fromJSON = f_obj createBaseForwardResponse
    [f_field (f_first [(''messageId'', js_String), (''message_id'', js_String)] '''') (\<lambda>v m. m\<lparr>ForwardResponse_messageId := v\<rparr>),
     f_field (f_first [(''timestamp'', \<lambda>x. js_map Some (fromJsonTimestamp x))] None) (\<lambda>v m. m\<lparr>ForwardResponse_timestamp := v\<rparr>)]"

definition ForwardResponse_fromPartial :: "js_any \<Rightarrow> ForwardResponse js_out" where
  "ForwardResponse_fromPartial = f_obj createBaseForwardResponse
    [f_field (f_first [(''messageId'', p_string)] '''') (\<lambda>v m. m\<lparr>ForwardResponse_messageId := v\<rparr>),
     f_field (f_first [(''timestamp'', \<lambda>x. js_map Some (p_date x))] None) (\<lambda>v m. m\<lparr>ForwardResponse_timestamp := v\<rparr>)]"

definition ForwardResponse_create :: "js_any \<Rightarrow> ForwardResponse js_out" where
  "ForwardResponse_create = create_with ForwardResponse_fromPartial"

definition ForwardResponse_json_ok :: "ForwardResponse \<Rightarrow> bool" where
  "ForwardResponse_json_ok m \<longleftrightarrow> pred_option js_date_ok (ForwardResponse_timestamp m)"

lemma ForwardResponse_json:
  assumes ok: "ForwardResponse_json_ok m"
  shows "json_rt ForwardResponse_toJSON ForwardResponse_fromJSON m"
  unfolding json_rt_def
proof (intro allI impI)
  fix J
  assume to: "ForwardResponse_toJSON m = Returned J"
  have d: "distinct ([''messageId'', ''timestamp''] @ [''message_id''])"
    by code_simp
  note all = t_objD [OF to [unfolded ForwardResponse_toJSON_def] _ d, unfolded t_names, OF refl]
  note N = all [THEN conjunct2, unfolded names_simps]
  have "ForwardResponse_fromJSON J = Returned m"
    unfolding ForwardResponse_fromJSON_def
    by (rule fs_field [OF all [THEN conjunct1]], erule jr_string, simp only: N absent_simps simp_thms,
      erule fs_field, erule jr_date, rule absent_Nil, (use ok in \<open>fastforce simp: ForwardResponse_json_ok_def list_all_iff\<close>),
      rule f_obj_Nil, cases m, simp add: createBaseForwardResponse_def)
  with all show "isSet J \<and> ForwardResponse_fromJSON J = Returned m"
    by (simp add: entries_def)
qed

lemma ForwardResponse_toJSON_safe [json_rules]: "to_safe (ForwardResponse_toJSON m)"
  unfolding ForwardResponse_toJSON_def by (intro json_rules)

subsection \<open>ShareContactRequest\<close>

definition ShareContactRequest_toJSON :: "ShareContactRequest \<Rightarrow> js_any js_out" where
  "ShareContactRequest_toJSON m = t_obj (
    [(''sessionId'', t_if (ShareContactRequest_sessionId m \<noteq> '''') (AStr (ShareContactRequest_sessionId m))),
     (''threadId'', t_if (ShareContactRequest_threadId m \<noteq> '''') (AStr (ShareContactRequest_threadId m))),
     (''contactId'', t_if (ShareContactRequest_contactId m \<noteq> '''') (AStr (ShareContactRequest_contactId m))),
     (''text'', t_if (ShareContactRequest_text m \<noteq> '''') (AStr (ShareContactRequest_text m)))])"

definition ShareContactRequest_fromJSON :: "js_any \<Rightarrow> ShareContactRequest js_out" where
  "ShareContactRequest_fromJSON = f_obj createBaseShareContactRequest
    [f_field (f_first [(''sessionId'', js_String), (''session_id'', js_String)] '''') (\<lambda>v m. m\<lparr>ShareContactRequest_sessionId := v\<rparr>),
     f_field (f_first [(''threadId'', js_String), (''thread_id'', js_String)] '''') (\<lambda>v m. m\<lparr>ShareContactRequest_threadId := v\<rparr>),
     f_field (f_first [(''contactId'', js_String), (''contact_id'', js_String)] '''') (\<lambda>v m. m\<lparr>ShareContactRequest_contactId := v\<rparr>),
     f_field (f_first [(''text'', js_String)] '''') (\<lambda>v m. m\<lparr>ShareContactRequest_text := v\<rparr>)]"

definition ShareContactRequest_fromPartial :: "js_any \<Rightarrow> ShareContactRequest js_out" where
  "ShareContactRequest_fromPartial = f_obj createBaseShareContactRequest
    [f_field (f_first [(''sessionId'', p_string)] '''') (\<lambda>v m. m\<lparr>ShareContactRequest_sessionId := v\<rparr>),
     f_field (f_first [(''threadId'', p_string)] '''') (\<lambda>v m. m\<lparr>ShareContactRequest_threadId := v\<rparr>),
     f_field (f_first [(''contactId'', p_string)] '''') (\<lambda>v m. m\<lparr>ShareContactRequest_contactId := v\<rparr>),
     f_field (f_first [(''text'', p_string)] '''') (\<lambda>v m. m\<lparr>ShareContactRequest_text := v\<rparr>)]"

definition ShareContactRequest_create :: "js_any \<Rightarrow> ShareContactRequest js_out" where
  "ShareContactRequest_create = create_with ShareContactRequest_fromPartial"

lemma ShareContactRequest_json:
  "json_rt ShareContactRequest_toJSON ShareContactRequest_fromJSON m"
  unfolding json_rt_def
proof (intro allI impI)
  fix J
  assume to: "ShareContactRequest_toJSON m = Returned J"
  have d: "distinct ([''sessionId'', ''threadId'', ''contactId'', ''text''] @ [''session_id'', ''thread_id'', ''contact_id''])"
    by code_simp
  note all = t_objD [OF to [unfolded ShareContactRequest_toJSON_def] _ d, unfolded t_names, OF refl]
  note N = all [THEN conjunct2, unfolded names_simps]
  have "ShareContactRequest_fromJSON J = Returned m"
    unfolding ShareContactRequest_fromJSON_def
    by (rule fs_field [OF all [THEN conjunct1]], erule jr_string, simp only: N absent_simps simp_thms,
      erule fs_field, erule jr_string, simp only: N absent_simps simp_thms,
      erule fs_field, erule jr_string, simp only: N absent_simps simp_thms,
      erule fs_field, erule jr_string, rule absent_Nil,
      rule f_obj_Nil, cases m, simp add: createBaseShareContactRequest_def)
  with all show "isSet J \<and> ShareContactRequest_fromJSON J = Returned m"
    by (simp add: entries_def)
qed

lemma ShareContactRequest_toJSON_safe [json_rules]: "to_safe (ShareContactRequest_toJSON m)"
  unfolding ShareContactRequest_toJSON_def by (intro json_rules)

subsection \<open>ShareContactResponse\<close>

definition ShareContactResponse_toJSON :: "ShareContactResponse \<Rightarrow> js_any js_out" where
  "ShareContactResponse_toJSON m = t_obj ([])"

definition ShareContactResponse_fromJSON :: "js_any \<Rightarrow> ShareContactResponse js_out" where
  "ShareContactResponse_fromJSON = f_obj createBaseShareContactResponse
    []"

definition ShareContactResponse_fromPartial :: "js_any \<Rightarrow> ShareContactResponse js_out" where
  "ShareContactResponse_fromPartial = f_obj createBaseShareContactResponse
    []"

definition ShareContactResponse_create :: "js_any \<Rightarrow> ShareContactResponse js_out" where
  "ShareContactResponse_create = create_with ShareContactResponse_fromPartial"

lemma ShareContactResponse_json:
  "json_rt ShareContactResponse_toJSON ShareContactResponse_fromJSON m"
  unfolding json_rt_def
proof (intro allI impI)
  fix J
  assume to: "ShareContactResponse_toJSON m = Returned J"
  have d: "distinct (([] :: string list) @ [])"
    by simp
  note all = t_objD [OF to [unfolded ShareContactResponse_toJSON_def] _ d, unfolded t_names, OF refl]
  have "ShareContactResponse_fromJSON J = Returned m"
    unfolding ShareContactResponse_fromJSON_def
    by (rule f_obj_Nil, cases m, simp add: createBaseShareContactResponse_def)
  with all show "isSet J \<and> ShareContactResponse_fromJSON J = Returned m"
    by (simp add: entries_def)
qed

lemma ShareContactResponse_toJSON_safe [json_rules]: "to_safe (ShareContactResponse_toJSON m)"
  unfolding ShareContactResponse_toJSON_def by (intro json_rules)

subsection \<open>ReactRequest\<close>

definition ReactRequest_toJSON :: "ReactRequest \<Rightarrow> js_any js_out" where
  "ReactRequest_toJSON m = t_obj (
    [(''sessionId'', t_if (ReactRequest_sessionId m \<noteq> '''') (AStr (ReactRequest_sessionId m))),
     (''threadId'', t_if (ReactRequest_threadId m \<noteq> '''') (AStr (ReactRequest_threadId m))),
     (''messageId'', t_if (ReactRequest_messageId m \<noteq> '''') (AStr (ReactRequest_messageId m))),
     (''reaction'', t_if (ReactRequest_reaction m \<noteq> '''') (AStr (ReactRequest_reaction m)))])"

definition ReactRequest_fromJSON :: "js_any \<Rightarrow> ReactRequest js_out" where
  "ReactRequest_fromJSON = f_obj createBaseReactRequest
    [f_field (f_first [(''sessionId'', js_String), (''session_id'', js_String)] '''') (\<lambda>v m. m\<lparr>ReactRequest_sessionId := v\<rparr>),
     f_field (f_first [(''threadId'', js_String), (''thread_id'', js_String)] '''') (\<lambda>v m. m\<lparr>ReactRequest_threadId := v\<rparr>),
     f_field (f_first [(''messageId'', js_String), (''message_id'', js_String)] '''') (\<lambda>v m. m\<lparr>ReactRequest_messageId := v\<rparr>),
     f_field (f_first [(''reaction'', js_String)] '''') (\<lambda>v m. m\<lparr>ReactRequest_reaction := v\<rparr>)]"

definition ReactRequest_fromPartial :: "js_any \<Rightarrow> ReactRequest js_out" where
  "ReactRequest_fromPartial = f_obj createBaseReactRequest
    [f_field (f_first [(''sessionId'', p_string)] '''') (\<lambda>v m. m\<lparr>ReactRequest_sessionId := v\<rparr>),
     f_field (f_first [(''threadId'', p_string)] '''') (\<lambda>v m. m\<lparr>ReactRequest_threadId := v\<rparr>),
     f_field (f_first [(''messageId'', p_string)] '''') (\<lambda>v m. m\<lparr>ReactRequest_messageId := v\<rparr>),
     f_field (f_first [(''reaction'', p_string)] '''') (\<lambda>v m. m\<lparr>ReactRequest_reaction := v\<rparr>)]"

definition ReactRequest_create :: "js_any \<Rightarrow> ReactRequest js_out" where
  "ReactRequest_create = create_with ReactRequest_fromPartial"

lemma ReactRequest_json:
  "json_rt ReactRequest_toJSON ReactRequest_fromJSON m"
  unfolding json_rt_def
proof (intro allI impI)
  fix J
  assume to: "ReactRequest_toJSON m = Returned J"
  have d: "distinct ([''sessionId'', ''threadId'', ''messageId'', ''reaction''] @ [''session_id'', ''thread_id'', ''message_id''])"
    by code_simp
  note all = t_objD [OF to [unfolded ReactRequest_toJSON_def] _ d, unfolded t_names, OF refl]
  note N = all [THEN conjunct2, unfolded names_simps]
  have "ReactRequest_fromJSON J = Returned m"
    unfolding ReactRequest_fromJSON_def
    by (rule fs_field [OF all [THEN conjunct1]], erule jr_string, simp only: N absent_simps simp_thms,
      erule fs_field, erule jr_string, simp only: N absent_simps simp_thms,
      erule fs_field, erule jr_string, simp only: N absent_simps simp_thms,
      erule fs_field, erule jr_string, rule absent_Nil,
      rule f_obj_Nil, cases m, simp add: createBaseReactRequest_def)
  with all show "isSet J \<and> ReactRequest_fromJSON J = Returned m"
    by (simp add: entries_def)
qed

lemma ReactRequest_toJSON_safe [json_rules]: "to_safe (ReactRequest_toJSON m)"
  unfolding ReactRequest_toJSON_def by (intro json_rules)

subsection \<open>ReactResponse\<close>

definition ReactResponse_toJSON :: "ReactResponse \<Rightarrow> js_any js_out" where
  "ReactResponse_toJSON m = t_obj ([])"

definition ReactResponse_fromJSON :: "js_any \<Rightarrow> ReactResponse js_out" where
  "ReactResponse_fromJSON = f_obj createBaseReactResponse
    []"

definition ReactResponse_fromPartial :: "js_any \<Rightarrow> ReactResponse js_out" where
  "ReactResponse_fromPartial = f_obj createBaseReactResponse
    []"

definition ReactResponse_create :: "js_any \<Rightarrow> ReactResponse js_out" where
  "ReactResponse_create = create_with ReactResponse_fromPartial"

lemma ReactResponse_json:
  "json_rt ReactResponse_toJSON ReactResponse_fromJSON m"
  unfolding json_rt_def
proof (intro allI impI)
  fix J
  assume to: "ReactResponse_toJSON m = Returned J"
  have d: "distinct (([] :: string list) @ [])"
    by simp
  note all = t_objD [OF to [unfolded ReactResponse_toJSON_def] _ d, unfolded t_names, OF refl]
  have "ReactResponse_fromJSON J = Returned m"
    unfolding ReactResponse_fromJSON_def
    by (rule f_obj_Nil, cases m, simp add: createBaseReactResponse_def)
  with all show "isSet J \<and> ReactResponse_fromJSON J = Returned m"
    by (simp add: entries_def)
qed

lemma ReactResponse_toJSON_safe [json_rules]: "to_safe (ReactResponse_toJSON m)"
  unfolding ReactResponse_toJSON_def by (intro json_rules)

subsection \<open>EditRequest\<close>

definition EditRequest_toJSON :: "EditRequest \<Rightarrow> js_any js_out" where
  "EditRequest_toJSON m = t_obj (
    [(''sessionId'', t_if (EditRequest_sessionId m \<noteq> '''') (AStr (EditRequest_sessionId m))),
     (''messageId'', t_if (EditRequest_messageId m \<noteq> '''') (AStr (EditRequest_messageId m))),
     (''text'', t_if (EditRequest_text m \<noteq> '''') (AStr (EditRequest_text m)))])"

definition EditRequest_fromJSON :: "js_any \<Rightarrow> EditRequest js_out" where
  "EditRequest_fromJSON = f_obj createBaseEditRequest
    [f_field (f_first [(''sessionId'', js_String), (''session_id'', js_String)] '''') (\<lambda>v m. m\<lparr>EditRequest_sessionId := v\<rparr>),
     f_field (f_first [(''messageId'', js_String), (''message_id'', js_String)] '''') (\<lambda>v m. m\<lparr>EditRequest_messageId := v\<rparr>),
     f_field (f_first [(''text'', js_String)] '''') (\<lambda>v m. m\<lparr>EditRequest_text := v\<rparr>)]"

definition EditRequest_fromPartial :: "js_any \<Rightarrow> EditRequest js_out" where
  "EditRequest_fromPartial = f_obj createBaseEditRequest
    [f_field (f_first [(''sessionId'', p_string)] '''') (\<lambda>v m. m\<lparr>EditRequest_sessionId := v\<rparr>),
     f_field (f_first [(''messageId'', p_string)] '''') (\<lambda>v m. m\<lparr>EditRequest_messageId := v\<rparr>),
     f_field (f_first [(''text'', p_string)] '''') (\<lambda>v m. m\<lparr>EditRequest_text := v\<rparr>)]"

definition EditRequest_create :: "js_any \<Rightarrow> EditRequest js_out" where
  "EditRequest_create = create_with EditRequest_fromPartial"

lemma EditRequest_json:
  "json_rt EditRequest_toJSON EditRequest_fromJSON m"
  unfolding json_rt_def
proof (intro allI impI)
  fix J
  assume to: "EditRequest_toJSON m = Returned J"
  have d: "distinct ([''sessionId'', ''messageId'', ''text''] @ [''session_id'', ''message_id''])"
    by code_simp
  note all = t_objD [OF to [unfolded EditRequest_toJSON_def] _ d, unfolded t_names, OF refl]
  note N = all [THEN conjunct2, unfolded names_simps]
  have "EditRequest_fromJSON J = Returned m"
    unfolding EditRequest_fromJSON_def
    by (rule fs_field [OF all [THEN conjunct1]], erule jr_string, simp only: N absent_simps simp_thms,
      erule fs_field, erule jr_string, simp only: N absent_simps simp_thms,
      erule fs_field, erule jr_string, rule absent_Nil,
      rule f_obj_Nil, cases m, simp add: createBaseEditRequest_def)
  with all show "isSet J \<and> EditRequest_fromJSON J = Returned m"
    by (simp add: entries_def)
qed

lemma EditRequest_toJSON_safe [json_rules]: "to_safe (EditRequest_toJSON m)"
  unfolding EditRequest_toJSON_def by (intro json_rules)

subsection \<open>EditResponse\<close>

definition EditResponse_toJSON :: "EditResponse \<Rightarrow> js_any js_out" where
  "EditResponse_toJSON m = t_obj ([])"

definition EditResponse_fromJSON :: "js_any \<Rightarrow> EditResponse js_out" where
  "EditResponse_fromJSON = f_obj createBaseEditResponse
    []"

definition EditResponse_fromPartial :: "js_any \<Rightarrow> EditResponse js_out" where
  "EditResponse_fromPartial = f_obj createBaseEditResponse
    []"

definition EditResponse_create :: "js_any \<Rightarrow> EditResponse js_out" where
  "EditResponse_create = create_with EditResponse_fromPartial"

lemma EditResponse_json:
  "json_rt EditResponse_toJSON EditResponse_fromJSON m"
  unfolding json_rt_def
proof (intro allI impI)
  fix J
  assume to: "EditResponse_toJSON m = Returned J"
  have d: "distinct (([] :: string list) @ [])"
    by simp
  note all = t_objD [OF to [unfolded EditResponse_toJSON_def] _ d, unfolded t_names, OF refl]
  have "EditResponse_fromJSON J = Returned m"
    unfolding EditResponse_fromJSON_def
    by (rule f_obj_Nil, cases m, simp add: createBaseEditResponse_def)
  with all show "isSet J \<and> EditResponse_fromJSON J = Returned m"
    by (simp add: entries_def)
qed

lemma EditResponse_toJSON_safe [json_rules]: "to_safe (EditResponse_toJSON m)"
  unfolding EditResponse_toJSON_def by (intro json_rules)

subsection \<open>UnsendRequest\<close>

definition UnsendRequest_toJSON :: "UnsendRequest \<Rightarrow> js_any js_out" where
  "UnsendRequest_toJSON m = t_obj (
    [(''sessionId'', t_if (UnsendRequest_sessionId m \<noteq> '''') (AStr (UnsendRequest_sessionId m))),
     (''messageId'', t_if (UnsendRequest_messageId m \<noteq> '''') (AStr (UnsendRequest_messageId m)))])"

definition UnsendRequest_fromJSON :: "js_any \<Rightarrow> UnsendRequest js_out" where
  "UnsendRequest_fromJSON = f_obj createBaseUnsendRequest
    [f_field (f_first [(''sessionId'', js_String), (''session_id'', js_String)] '''') (\<lambda>v m. m\<lparr>UnsendRequest_sessionId := v\<rparr>),
     f_field (f_first [(''messageId'', js_String), (''message_id'', js_String)] '''') (\<lambda>v m. m\<lparr>UnsendRequest_messageId := v\<rparr>)]"

definition UnsendRequest_fromPartial :: "js_any \<Rightarrow> UnsendRequest js_out" where
  "UnsendRequest_fromPartial = f_obj createBaseUnsendRequest
    [f_field (f_first [(''sessionId'', p_string)] '''') (\<lambda>v m. m\<lparr>UnsendRequest_sessionId := v\<rparr>),
     f_field (f_first [(''messageId'', p_string)] '''') (\<lambda>v m. m\<lparr>UnsendRequest_messageId := v\<rparr>)]"

definition UnsendRequest_create :: "js_any \<Rightarrow> UnsendRequest js_out" where
  "UnsendRequest_create = create_with UnsendRequest_fromPartial"

lemma UnsendRequest_json:
  "json_rt UnsendRequest_toJSON UnsendRequest_fromJSON m"
  unfolding json_rt_def
proof (intro allI impI)
  fix J
  assume to: "UnsendRequest_toJSON m = Returned J"
  have d: "distinct ([''sessionId'', ''messageId''] @ [''session_id'', ''message_id''])"
    by code_simp
  note all = t_objD [OF to [unfolded UnsendRequest_toJSON_def] _ d, unfolded t_names, OF refl]
  note N = all [THEN conjunct2, unfolded names_simps]
  have "UnsendRequest_fromJSON J = Returned m"
    unfolding UnsendRequest_fromJSON_def
    by (rule fs_field [OF all [THEN conjunct1]], erule jr_string, simp only: N absent_simps simp_thms,
      erule fs_field, erule jr_string, simp only: N absent_simps simp_thms,
      rule f_obj_Nil, cases m, simp add: createBaseUnsendRequest_def)
  with all show "isSet J \<and> UnsendRequest_fromJSON J = Returned m"
    by (simp add: entries_def)
qed

lemma UnsendRequest_toJSON_safe [json_rules]: "to_safe (UnsendRequest_toJSON m)"
  unfolding UnsendRequest_toJSON_def by (intro json_rules)

subsection \<open>UnsendResponse\<close>

definition UnsendResponse_toJSON :: "UnsendResponse \<Rightarrow> js_any js_out" where
  "UnsendResponse_toJSON m = t_obj ([])"

definition UnsendResponse_fromJSON :: "js_any \<Rightarrow> UnsendResponse js_out" where
  "UnsendResponse_fromJSON = f_obj createBaseUnsendResponse
    []"

definition UnsendResponse_fromPartial :: "js_any \<Rightarrow> UnsendResponse js_out" where
  "UnsendResponse_fromPartial = f_obj createBaseUnsendResponse
    []"

definition UnsendResponse_create :: "js_any \<Rightarrow> UnsendResponse js_out" where
  "UnsendResponse_create = create_with UnsendResponse_fromPartial"

lemma UnsendResponse_json:
  "json_rt UnsendResponse_toJSON UnsendResponse_fromJSON m"
  unfolding json_rt_def
proof (intro allI impI)
  fix J
  assume to: "UnsendResponse_toJSON m = Returned J"
  have d: "distinct (([] :: string list) @ [])"
    by simp
  note all = t_objD [OF to [unfolded UnsendResponse_toJSON_def] _ d, unfolded t_names, OF refl]
  have "UnsendResponse_fromJSON J = Returned m"
    unfolding UnsendResponse_fromJSON_def
    by (rule f_obj_Nil, cases m, simp add: createBaseUnsendResponse_def)
  with all show "isSet J \<and> UnsendResponse_fromJSON J = Returned m"
    by (simp add: entries_def)
qed

lemma UnsendResponse_toJSON_safe [json_rules]: "to_safe (UnsendResponse_toJSON m)"
  unfolding UnsendResponse_toJSON_def by (intro json_rules)

subsection \<open>SetTypingRequest\<close>

definition SetTypingRequest_toJSON :: "SetTypingRequest \<Rightarrow> js_any js_out" where
  "SetTypingRequest_toJSON m = t_obj (
    [(''sessionId'', t_if (SetTypingRequest_sessionId m \<noteq> '''') (AStr (SetTypingRequest_sessionId m))),
     (''threadId'', t_if (SetTypingRequest_threadId m \<noteq> '''') (AStr (SetTypingRequest_threadId m))),
     (''typing'', t_if (SetTypingRequest_typing m \<noteq> False) (ABool (SetTypingRequest_typing m))),
     (''group'', t_if (SetTypingRequest_group m \<noteq> False) (ABool (SetTypingRequest_group m))),
     (''threadType'', t_if (SetTypingRequest_threadType m \<noteq> 0) (AStr (string_of_int (SetTypingRequest_threadType m))))])"

definition SetTypingRequest_fromJSON :: "js_any \<Rightarrow> SetTypingRequest js_out" where
  "SetTypingRequest_fromJSON = f_obj createBaseSetTypingRequest
    [f_field (f_first [(''sessionId'', js_String), (''session_id'', js_String)] '''') (\<lambda>v m. m\<lparr>SetTypingRequest_sessionId := v\<rparr>),
     f_field (f_first [(''threadId'', js_String), (''thread_id'', js_String)] '''') (\<lambda>v m. m\<lparr>SetTypingRequest_threadId := v\<rparr>),
     f_field (f_first [(''typing'', \<lambda>x. Returned (js_Boolean x))] False) (\<lambda>v m. m\<lparr>SetTypingRequest_typing := v\<rparr>),
     f_field (f_first [(''group'', \<lambda>x. Returned (js_Boolean x))] False) (\<lambda>v m. m\<lparr>SetTypingRequest_group := v\<rparr>),
     f_field (f_first [(''threadType'', js_BigInt), (''thread_type'', js_BigInt)] 0) (\<lambda>v m. m\<lparr>SetTypingRequest_threadType := v\<rparr>)]"

definition SetTypingRequest_fromPartial :: "js_any \<Rightarrow> SetTypingRequest js_out" where
  "SetTypingRequest_fromPartial = f_obj createBaseSetTypingRequest
    [f_field (f_first [(''sessionId'', p_string)] '''') (\<lambda>v m. m\<lparr>SetTypingRequest_sessionId := v\<rparr>),
     f_field (f_first [(''threadId'', p_string)] '''') (\<lambda>v m. m\<lparr>SetTypingRequest_threadId := v\<rparr>),
     f_field (f_first [(''typing'', p_bool)] False) (\<lambda>v m. m\<lparr>SetTypingRequest_typing := v\<rparr>),
     f_field (f_first [(''group'', p_bool)] False) (\<lambda>v m. m\<lparr>SetTypingRequest_group := v\<rparr>),
     f_field (f_first [(''threadType'', js_BigInt)] 0) (\<lambda>v m. m\<lparr>SetTypingRequest_threadType := v\<rparr>)]"

definition SetTypingRequest_create :: "js_any \<Rightarrow> SetTypingRequest js_out" where
  "SetTypingRequest_create = create_with SetTypingRequest_fromPartial"

lemma SetTypingRequest_json:
  "json_rt SetTypingRequest_toJSON SetTypingRequest_fromJSON m"
  unfolding json_rt_def
proof (intro allI impI)
  fix J
  assume to: "SetTypingRequest_toJSON m = Returned J"
  have d: "distinct ([''sessionId'', ''threadId'', ''typing'', ''group'', ''threadType''] @ [''session_id'', ''thread_id'', ''thread_type''])"
    by code_simp
  note all = t_objD [OF to [unfolded SetTypingRequest_toJSON_def] _ d, unfolded t_names, OF refl]
  note N = all [THEN conjunct2, unfolded names_simps]
  have "SetTypingRequest_fromJSON J = Returned m"
    unfolding SetTypingRequest_fromJSON_def
    by (rule fs_field [OF all [THEN conjunct1]], erule jr_string, simp only: N absent_simps simp_thms,
      erule fs_field, erule jr_string, simp only: N absent_simps simp_thms,
      erule fs_field, erule jr_bool, rule absent_Nil,
      erule fs_field, erule jr_bool, rule absent_Nil,
      erule fs_field, erule jr_bigint, simp only: N absent_simps simp_thms,
      rule f_obj_Nil, cases m, simp add: createBaseSetTypingRequest_def)
  with all show "isSet J \<and> SetTypingRequest_fromJSON J = Returned m"
    by (simp add: entries_def)
qed

lemma SetTypingRequest_toJSON_safe [json_rules]: "to_safe (SetTypingRequest_toJSON m)"
  unfolding SetTypingRequest_toJSON_def by (intro json_rules)

subsection \<open>SetTypingResponse\<close>

definition SetTypingResponse_toJSON :: "SetTypingResponse \<Rightarrow> js_any js_out" where
  "SetTypingResponse_toJSON m = t_obj ([])"

definition SetTypingResponse_fromJSON :: "js_any \<Rightarrow> SetTypingResponse js_out" where
  "SetTypingResponse_fromJSON = f_obj createBaseSetTypingResponse
    []"

definition SetTypingResponse_fromPartial :: "js_any \<Rightarrow> SetTypingResponse js_out" where
  "SetTypingResponse_fromPartial = f_obj createBaseSetTypingResponse
    []"

definition SetTypingResponse_create :: "js_any \<Rightarrow> SetTypingResponse js_out" where
  "SetTypingResponse_create = create_with SetTypingResponse_fromPartial"

lemma SetTypingResponse_json:
  "json_rt SetTypingResponse_toJSON SetTypingResponse_fromJSON m"
  unfolding json_rt_def
proof (intro allI impI)
  fix J
  assume to: "SetTypingResponse_toJSON m = Returned J"
  have d: "distinct (([] :: string list) @ [])"
    by simp
  note all = t_objD [OF to [unfolded SetTypingResponse_toJSON_def] _ d, unfolded t_names, OF refl]
  have "SetTypingResponse_fromJSON J = Returned m"
    unfolding SetTypingResponse_fromJSON_def
    by (rule f_obj_Nil, cases m, simp add: createBaseSetTypingResponse_def)
  with all show "isSet J \<and> SetTypingResponse_fromJSON J = Returned m"
    by (simp add: entries_def)
qed

lemma SetTypingResponse_toJSON_safe [json_rules]: "to_safe (SetTypingResponse_toJSON m)"
  unfolding SetTypingResponse_toJSON_def by (intro json_rules)

subsection \<open>MarkReadRequest\<close>

definition MarkReadRequest_toJSON :: "MarkReadRequest \<Rightarrow> js_any js_out" where
  "MarkReadRequest_toJSON m = t_obj (
    [(''sessionId'', t_if (MarkReadRequest_sessionId m \<noteq> '''') (AStr (MarkReadRequest_sessionId m))),
     (''threadId'', t_if (MarkReadRequest_threadId m \<noteq> '''') (AStr (MarkReadRequest_threadId m))),
     (''watermark'', t_some (MarkReadRequest_watermark m) date_json)])"

definition MarkReadRequest_fromJSON :: "js_any \<Rightarrow> MarkReadRequest js_out" where
  "MarkReadRequest_fromJSON = f_obj createBaseMarkReadRequest
    [f_field (f_first [(''sessionId'', js_String), (''session_id'', js_String)] '''') (\<lambda>v m. m\<lparr>MarkReadRequest_sessionId := v\<rparr>),
     f_field (f_first [(''threadId'', js_String), (''thread_id'', js_String)] '''') (\<lambda>v m. m\<lparr>MarkReadRequest_threadId := v\<rparr>),
     f_field (f_first [(''watermark'', \<lambda>x. js_map Some (fromJsonTimestamp x))] None) (\<lambda>v m. m\<lparr>MarkReadRequest_watermark := v\<rparr>)]"

definition MarkReadRequest_fromPartial :: "js_any \<Rightarrow> MarkReadRequest js_out" where
  "MarkReadRequest_fromPartial = f_obj createBaseMarkReadRequest
    [f_field (f_first [(''sessionId'', p_string)] '''') (\<lambda>v m. m\<lparr>MarkReadRequest_sessionId := v\<rparr>),
     f_field (f_first [(''threadId'', p_string)] '''') (\<lambda>v m. m\<lparr>MarkReadRequest_threadId := v\<rparr>),
     f_field (f_first [(''watermark'', \<lambda>x. js_map Some (p_date x))] None) (\<lambda>v m. m\<lparr>MarkReadRequest_watermark := v\<rparr>)]"

definition MarkReadRequest_create :: "js_any \<Rightarrow> MarkReadRequest js_out" where
  "MarkReadRequest_create = create_with MarkReadRequest_fromPartial"

definition MarkReadRequest_json_ok :: "MarkReadRequest \<Rightarrow> bool" where
  "MarkReadRequest_json_ok m \<longleftrightarrow> pred_option js_date_ok (MarkReadRequest_watermark m)"

lemma MarkReadRequest_json:
  assumes ok: "MarkReadRequest_json_ok m"
  shows "json_rt MarkReadRequest_toJSON MarkReadRequest_fromJSON m"
  unfolding json_rt_def
proof (intro allI impI)
  fix J
  assume to: "MarkReadRequest_toJSON m = Returned J"
  have d: "distinct ([''sessionId'', ''threadId'', ''watermark''] @ [''session_id'', ''thread_id''])"
    by code_simp
  note all = t_objD [OF to [unfolded MarkReadRequest_toJSON_def] _ d, unfolded t_names, OF refl]
  note N = all [THEN conjunct2, unfolded names_simps]
  have "MarkReadRequest_fromJSON J = Returned m"
    unfolding MarkReadRequest_fromJSON_def
    by (rule fs_field [OF all [THEN conjunct1]], erule jr_string, simp only: N absent_simps simp_thms,
      erule fs_field, erule jr_string, simp only: N absent_simps simp_thms,
      erule fs_field, erule jr_date, rule absent_Nil, (use ok in \<open>fastforce simp: MarkReadRequest_json_ok_def list_all_iff\<close>),
      rule f_obj_Nil, cases m, simp add: createBaseMarkReadRequest_def)
  with all show "isSet J \<and> MarkReadRequest_fromJSON J = Returned m"
    by (simp add: entries_def)
qed

lemma MarkReadRequest_toJSON_safe [json_rules]: "to_safe (MarkReadRequest_toJSON m)"
  unfolding MarkReadRequest_toJSON_def by (intro json_rules)

subsection \<open>MarkReadResponse\<close>

definition MarkReadResponse_toJSON :: "MarkReadResponse \<Rightarrow> js_any js_out" where
  "MarkReadResponse_toJSON m = t_obj ([])"

definition MarkReadResponse_fromJSON :: "js_any \<Rightarrow> MarkReadResponse js_out" where
  "MarkReadResponse_fromJSON = f_obj createBaseMarkReadResponse
    []"

definition MarkReadResponse_fromPartial :: "js_any \<Rightarrow> MarkReadResponse js_out" where
  "MarkReadResponse_fromPartial = f_obj createBaseMarkReadResponse
    []"

definition MarkReadResponse_create :: "js_any \<Rightarrow> MarkReadResponse js_out" where
  "MarkReadResponse_create = create_with MarkReadResponse_fromPartial"

lemma MarkReadResponse_json:
  "json_rt MarkReadResponse_toJSON MarkReadResponse_fromJSON m"
  unfolding json_rt_def
proof (intro allI impI)
  fix J
  assume to: "MarkReadResponse_toJSON m = Returned J"
  have d: "distinct (([] :: string list) @ [])"
    by simp
  note all = t_objD [OF to [unfolded MarkReadResponse_toJSON_def] _ d, unfolded t_names, OF refl]
  have "MarkReadResponse_fromJSON J = Returned m"
    unfolding MarkReadResponse_fromJSON_def
    by (rule f_obj_Nil, cases m, simp add: createBaseMarkReadResponse_def)
  with all show "isSet J \<and> MarkReadResponse_fromJSON J = Returned m"
    by (simp add: entries_def)
qed

lemma MarkReadResponse_toJSON_safe [json_rules]: "to_safe (MarkReadResponse_toJSON m)"
  unfolding MarkReadResponse_toJSON_def by (intro json_rules)

subsection \<open>ListMessageRequestsRequest\<close>

definition ListMessageRequestsRequest_toJSON :: "ListMessageRequestsRequest \<Rightarrow> js_any js_out" where
  "ListMessageRequestsRequest_toJSON m = t_obj (
    [(''sessionId'', t_if (ListMessageRequestsRequest_sessionId m \<noteq> '''') (AStr (ListMessageRequestsRequest_sessionId m)))])"

definition ListMessageRequestsRequest_fromJSON :: "js_any \<Rightarrow> ListMessageRequestsRequest js_out" where
  "ListMessageRequestsRequest_fromJSON = f_obj createBaseListMessageRequestsRequest
    [f_field (f_first [(''sessionId'', js_String), (''session_id'', js_String)] '''') (\<lambda>v m. m\<lparr>ListMessageRequestsRequest_sessionId := v\<rparr>)]"

definition ListMessageRequestsRequest_fromPartial :: "js_any \<Rightarrow> ListMessageRequestsRequest js_out" where
  "ListMessageRequestsRequest_fromPartial = f_obj createBaseListMessageRequestsRequest
    [f_field (f_first [(''sessionId'', p_string)] '''') (\<lambda>v m. m\<lparr>ListMessageRequestsRequest_sessionId := v\<rparr>)]"

definition ListMessageRequestsRequest_create :: "js_any \<Rightarrow> ListMessageRequestsRequest js_out" where
  "ListMessageRequestsRequest_create = create_with ListMessageRequestsRequest_fromPartial"

lemma ListMessageRequestsRequest_json:
  "json_rt ListMessageRequestsRequest_toJSON ListMessageRequestsRequest_fromJSON m"
  unfolding json_rt_def
proof (intro allI impI)
  fix J
  assume to: "ListMessageRequestsRequest_toJSON m = Returned J"
  have d: "distinct ([''sessionId''] @ [''session_id''])"
    by code_simp
  note all = t_objD [OF to [unfolded ListMessageRequestsRequest_toJSON_def] _ d, unfolded t_names, OF refl]
  note N = all [THEN conjunct2, unfolded names_simps]
  have "ListMessageRequestsRequest_fromJSON J = Returned m"
    unfolding ListMessageRequestsRequest_fromJSON_def
    by (rule fs_field [OF all [THEN conjunct1]], erule jr_string, simp only: N absent_simps simp_thms,
      rule f_obj_Nil, cases m, simp add: createBaseListMessageRequestsRequest_def)
  with all show "isSet J \<and> ListMessageRequestsRequest_fromJSON J = Returned m"
    by (simp add: entries_def)
qed

lemma ListMessageRequestsRequest_toJSON_safe [json_rules]: "to_safe (ListMessageRequestsRequest_toJSON m)"
  unfolding ListMessageRequestsRequest_toJSON_def by (intro json_rules)

subsection \<open>ListMessageRequestsResponse\<close>

definition ListMessageRequestsResponse_toJSON :: "ListMessageRequestsResponse \<Rightarrow> js_any js_out" where
  "ListMessageRequestsResponse_toJSON m = t_obj (
    [(''requests'', t_list (ListMessageRequestsResponse_requests m) MessageRequest_toJSON)])"

definition ListMessageRequestsResponse_fromJSON :: "js_any \<Rightarrow> ListMessageRequestsResponse js_out" where
  "ListMessageRequestsResponse_fromJSON = f_obj createBaseListMessageRequestsResponse
    [f_field (f_array [''requests''] MessageRequest_fromJSON) (\<lambda>v m. m\<lparr>ListMessageRequestsResponse_requests := v\<rparr>)]"

definition ListMessageRequestsResponse_fromPartial :: "js_any \<Rightarrow> ListMessageRequestsResponse js_out" where
  "ListMessageRequestsResponse_fromPartial = f_obj createBaseListMessageRequestsResponse
    [f_field (p_array ''requests'' MessageRequest_fromPartial) (\<lambda>v m. m\<lparr>ListMessageRequestsResponse_requests := v\<rparr>)]"

definition ListMessageRequestsResponse_create :: "js_any \<Rightarrow> ListMessageRequestsResponse js_out" where
  "ListMessageRequestsResponse_create = create_with ListMessageRequestsResponse_fromPartial"

definition ListMessageRequestsResponse_json_ok :: "ListMessageRequestsResponse \<Rightarrow> bool" where
  "ListMessageRequestsResponse_json_ok m \<longleftrightarrow> list_all MessageRequest_json_ok (ListMessageRequestsResponse_requests m)"

lemma ListMessageRequestsResponse_json:
  assumes ok: "ListMessageRequestsResponse_json_ok m"
  shows "json_rt ListMessageRequestsResponse_toJSON ListMessageRequestsResponse_fromJSON m"
  unfolding json_rt_def
proof (intro allI impI)
  fix J
  assume to: "ListMessageRequestsResponse_toJSON m = Returned J"
  have d: "distinct ([''requests''] @ [])"
    by code_simp
  note all = t_objD [OF to [unfolded ListMessageRequestsResponse_toJSON_def] _ d, unfolded t_names, OF refl]
  have "ListMessageRequestsResponse_fromJSON J = Returned m"
    unfolding ListMessageRequestsResponse_fromJSON_def
    by (rule fs_field [OF all [THEN conjunct1]], erule jr_list, assumption, simp only: names_simps, rule MessageRequest_json, (use ok in \<open>fastforce simp: ListMessageRequestsResponse_json_ok_def list_all_iff\<close>),
      rule f_obj_Nil, cases m, simp add: createBaseListMessageRequestsResponse_def)
  with all show "isSet J \<and> ListMessageRequestsResponse_fromJSON J = Returned m"
    by (simp add: entries_def)
qed

lemma ListMessageRequestsResponse_toJSON_safe [json_rules]: "to_safe (ListMessageRequestsResponse_toJSON m)"
  unfolding ListMessageRequestsResponse_toJSON_def by (intro json_rules)

subsection \<open>ListThemesRequest\<close>

definition ListThemesRequest_toJSON :: "ListThemesRequest \<Rightarrow> js_any js_out" where
  "ListThemesRequest_toJSON m = t_obj (
    [(''sessionId'', t_if (ListThemesRequest_sessionId m \<noteq> '''') (AStr (ListThemesRequest_sessionId m)))])"

definition ListThemesRequest_fromJSON :: "js_any \<Rightarrow> ListThemesRequest js_out" where
  "ListThemesRequest_fromJSON = f_obj createBaseListThemesRequest
    [f_field (f_first [(''sessionId'', js_String), (''session_id'', js_String)] '''') (\<lambda>v m. m\<lparr>ListThemesRequest_sessionId := v\<rparr>)]"

definition ListThemesRequest_fromPartial :: "js_any \<Rightarrow> ListThemesRequest js_out" where
  "ListThemesRequest_fromPartial = f_obj createBaseListThemesRequest
    [f_field (f_first [(''sessionId'', p_string)] '''') (\<lambda>v m. m\<lparr>ListThemesRequest_sessionId := v\<rparr>)]"

definition ListThemesRequest_create :: "js_any \<Rightarrow> ListThemesRequest js_out" where
  "ListThemesRequest_create = create_with ListThemesRequest_fromPartial"

lemma ListThemesRequest_json:
  "json_rt ListThemesRequest_toJSON ListThemesRequest_fromJSON m"
  unfolding json_rt_def
proof (intro allI impI)
  fix J
  assume to: "ListThemesRequest_toJSON m = Returned J"
  have d: "distinct ([''sessionId''] @ [''session_id''])"
    by code_simp
  note all = t_objD [OF to [unfolded ListThemesRequest_toJSON_def] _ d, unfolded t_names, OF refl]
  note N = all [THEN conjunct2, unfolded names_simps]
  have "ListThemesRequest_fromJSON J = Returned m"
    unfolding ListThemesRequest_fromJSON_def
    by (rule fs_field [OF all [THEN conjunct1]], erule jr_string, simp only: N absent_simps simp_thms,
      rule f_obj_Nil, cases m, simp add: createBaseListThemesRequest_def)
  with all show "isSet J \<and> ListThemesRequest_fromJSON J = Returned m"
    by (simp add: entries_def)
qed

lemma ListThemesRequest_toJSON_safe [json_rules]: "to_safe (ListThemesRequest_toJSON m)"
  unfolding ListThemesRequest_toJSON_def by (intro json_rules)

subsection \<open>ListThemesResponse\<close>

definition ListThemesResponse_toJSON :: "ListThemesResponse \<Rightarrow> js_any js_out" where
  "ListThemesResponse_toJSON m = t_obj (
    [(''themes'', t_list (ListThemesResponse_themes m) Theme_toJSON)])"

definition ListThemesResponse_fromJSON :: "js_any \<Rightarrow> ListThemesResponse js_out" where
  "ListThemesResponse_fromJSON = f_obj createBaseListThemesResponse
    [f_field (f_array [''themes''] Theme_fromJSON) (\<lambda>v m. m\<lparr>ListThemesResponse_themes := v\<rparr>)]"

definition ListThemesResponse_fromPartial :: "js_any \<Rightarrow> ListThemesResponse js_out" where
  "ListThemesResponse_fromPartial = f_obj createBaseListThemesResponse
    [f_field (p_array ''themes'' Theme_fromPartial) (\<lambda>v m. m\<lparr>ListThemesResponse_themes := v\<rparr>)]"

definition ListThemesResponse_create :: "js_any \<Rightarrow> ListThemesResponse js_out" where
  "ListThemesResponse_create = create_with ListThemesResponse_fromPartial"

lemma ListThemesResponse_json:
  "json_rt ListThemesResponse_toJSON ListThemesResponse_fromJSON m"
  unfolding json_rt_def
proof (intro allI impI)
  fix J
  assume to: "ListThemesResponse_toJSON m = Returned J"
  have d: "distinct ([''themes''] @ [])"
    by code_simp
  note all = t_objD [OF to [unfolded ListThemesResponse_toJSON_def] _ d, unfolded t_names, OF refl]
  have "ListThemesResponse_fromJSON J = Returned m"
    unfolding ListThemesResponse_fromJSON_def
    by (rule fs_field [OF all [THEN conjunct1]], erule jr_list, assumption, simp only: names_simps, rule Theme_json,
      rule f_obj_Nil, cases m, simp add: createBaseListThemesResponse_def)
  with all show "isSet J \<and> ListThemesResponse_fromJSON J = Returned m"
    by (simp add: entries_def)
qed

lemma ListThemesResponse_toJSON_safe [json_rules]: "to_safe (ListThemesResponse_toJSON m)"
  unfolding ListThemesResponse_toJSON_def by (intro json_rules)

subsection \<open>FindThemeRequest\<close>

definition FindThemeRequest_toJSON :: "FindThemeRequest \<Rightarrow> js_any js_out" where
  "FindThemeRequest_toJSON m = t_obj (
    [(''sessionId'', t_if (FindThemeRequest_sessionId m \<noteq> '''') (AStr (FindThemeRequest_sessionId m))),
     (''query'', t_if (FindThemeRequest_query m \<noteq> '''') (AStr (FindThemeRequest_query m)))])"

definition FindThemeRequest_fromJSON :: "js_any \<Rightarrow> FindThemeRequest js_out" where
  "FindThemeRequest_fromJSON = f_obj createBaseFindThemeRequest
    [f_field (f_first [(''sessionId'', js_String), (''session_id'', js_String)] '''') (\<lambda>v m. m\<lparr>FindThemeRequest_sessionId := v\<rparr>),
     f_field (f_first [(''query'', js_String)] '''') (\<lambda>v m. m\<lparr>FindThemeRequest_query := v\<rparr>)]"

definition FindThemeRequest_fromPartial :: "js_any \<Rightarrow> FindThemeRequest js_out" where
  "FindThemeRequest_fromPartial = f_obj createBaseFindThemeRequest
    [f_field (f_first [(''sessionId'', p_string)] '''') (\<lambda>v m. m\<lparr>FindThemeRequest_sessionId := v\<rparr>),
     f_field (f_first [(''query'', p_string)] '''') (\<lambda>v m. m\<lparr>FindThemeRequest_query := v\<rparr>)]"

definition FindThemeRequest_create :: "js_any \<Rightarrow> FindThemeRequest js_out" where
  "FindThemeRequest_create = create_with FindThemeRequest_fromPartial"

lemma FindThemeRequest_json:
  "json_rt FindThemeRequest_toJSON FindThemeRequest_fromJSON m"
  unfolding json_rt_def
proof (intro allI impI)
  fix J
  assume to: "FindThemeRequest_toJSON m = Returned J"
  have d: "distinct ([''sessionId'', ''query''] @ [''session_id''])"
    by code_simp
  note all = t_objD [OF to [unfolded FindThemeRequest_toJSON_def] _ d, unfolded t_names, OF refl]
  note N = all [THEN conjunct2, unfolded names_simps]
  have "FindThemeRequest_fromJSON J = Returned m"
    unfolding FindThemeRequest_fromJSON_def
    by (rule fs_field [OF all [THEN conjunct1]], erule jr_string, simp only: N absent_simps simp_thms,
      erule fs_field, erule jr_string, rule absent_Nil,
      rule f_obj_Nil, cases m, simp add: createBaseFindThemeRequest_def)
  with all show "isSet J \<and> FindThemeRequest_fromJSON J = Returned m"
    by (simp add: entries_def)
qed

lemma FindThemeRequest_toJSON_safe [json_rules]: "to_safe (FindThemeRequest_toJSON m)"
  unfolding FindThemeRequest_toJSON_def by (intro json_rules)

subsection \<open>FindThemeResponse\<close>

definition FindThemeResponse_toJSON :: "FindThemeResponse \<Rightarrow> js_any js_out" where
  "FindThemeResponse_toJSON m = t_obj (
    [(''theme'', t_some (FindThemeResponse_theme m) Theme_toJSON)])"

definition FindThemeResponse_fromJSON :: "js_any \<Rightarrow> FindThemeResponse js_out" where
  "FindThemeResponse_fromJSON = f_obj createBaseFindThemeResponse
    [f_field (f_first [(''theme'', \<lambda>x. js_map Some (Theme_fromJSON x))] None) (\<lambda>v m. m\<lparr>FindThemeResponse_theme := v\<rparr>)]"

definition FindThemeResponse_fromPartial :: "js_any \<Rightarrow> FindThemeResponse js_out" where
  "FindThemeResponse_fromPartial = f_obj createBaseFindThemeResponse
    [f_field (f_first [(''theme'', \<lambda>x. js_map Some (Theme_fromPartial x))] None) (\<lambda>v m. m\<lparr>FindThemeResponse_theme := v\<rparr>)]"

definition FindThemeResponse_create :: "js_any \<Rightarrow> FindThemeResponse js_out" where
  "FindThemeResponse_create = create_with FindThemeResponse_fromPartial"

lemma FindThemeResponse_json:
  "json_rt FindThemeResponse_toJSON FindThemeResponse_fromJSON m"
  unfolding json_rt_def
proof (intro allI impI)
  fix J
  assume to: "FindThemeResponse_toJSON m = Returned J"
  have d: "distinct ([''theme''] @ [])"
    by code_simp
  note all = t_objD [OF to [unfolded FindThemeResponse_toJSON_def] _ d, unfolded t_names, OF refl]
  have "FindThemeResponse_fromJSON J = Returned m"
    unfolding FindThemeResponse_fromJSON_def
    by (rule fs_field [OF all [THEN conjunct1]], erule jr_msg, rule absent_Nil, rule Theme_json,
      rule f_obj_Nil, cases m, simp add: createBaseFindThemeResponse_def)
  with all show "isSet J \<and> FindThemeResponse_fromJSON J = Returned m"
    by (simp add: entries_def)
qed

lemma FindThemeResponse_toJSON_safe [json_rules]: "to_safe (FindThemeResponse_toJSON m)"
  unfolding FindThemeResponse_toJSON_def by (intro json_rules)

subsection \<open>SetThemeRequest\<close>

definition SetThemeRequest_toJSON :: "SetThemeRequest \<Rightarrow> js_any js_out" where
  "SetThemeRequest_toJSON m = t_obj (
    [(''sessionId'', t_if (SetThemeRequest_sessionId m \<noteq> '''') (AStr (SetThemeRequest_sessionId m))),
     (''threadId'', t_if (SetThemeRequest_threadId m \<noteq> '''') (AStr (SetThemeRequest_threadId m))),
     (''themeId'', t_if (SetThemeRequest_themeId m \<noteq> '''') (AStr (SetThemeRequest_themeId m)))])"

definition SetThemeRequest_fromJSON :: "js_any \<Rightarrow> SetThemeRequest js_out" where
  "SetThemeRequest_fromJSON = f_obj createBaseSetThemeRequest
    [f_field (f_first [(''sessionId'', js_String), (''session_id'', js_String)] '''') (\<lambda>v m. m\<lparr>SetThemeRequest_sessionId := v\<rparr>),
     f_field (f_first [(''threadId'', js_String), (''thread_id'', js_String)] '''') (\<lambda>v m. m\<lparr>SetThemeRequest_threadId := v\<rparr>),
     f_field (f_first [(''themeId'', js_String), (''theme_id'', js_String)] '''') (\<lambda>v m. m\<lparr>SetThemeRequest_themeId := v\<rparr>)]"

definition SetThemeRequest_fromPartial :: "js_any \<Rightarrow> SetThemeRequest js_out" where
  "SetThemeRequest_fromPartial = f_obj createBaseSetThemeRequest
    [f_field (f_first [(''sessionId'', p_string)] '''') (\<lambda>v m. m\<lparr>SetThemeRequest_sessionId := v\<rparr>),
     f_field (f_first [(''threadId'', p_string)] '''') (\<lambda>v m. m\<lparr>SetThemeRequest_threadId := v\<rparr>),
     f_field (f_first [(''themeId'', p_string)] '''') (\<lambda>v m. m\<lparr>SetThemeRequest_themeId := v\<rparr>)]"

definition SetThemeRequest_create :: "js_any \<Rightarrow> SetThemeRequest js_out" where
  "SetThemeRequest_create = create_with SetThemeRequest_fromPartial"

lemma SetThemeRequest_json:
  "json_rt SetThemeRequest_toJSON SetThemeRequest_fromJSON m"
  unfolding json_rt_def
proof (intro allI impI)
  fix J
  assume to: "SetThemeRequest_toJSON m = Returned J"
  have d: "distinct ([''sessionId'', ''threadId'', ''themeId''] @ [''session_id'', ''thread_id'', ''theme_id''])"
    by code_simp
  note all = t_objD [OF to [unfolded SetThemeRequest_toJSON_def] _ d, unfolded t_names, OF refl]
  note N = all [THEN conjunct2, unfolded names_simps]
  have "SetThemeRequest_fromJSON J = Returned m"
    unfolding SetThemeRequest_fromJSON_def
    by (rule fs_field [OF all [THEN conjunct1]], erule jr_string, simp only: N absent_simps simp_thms,
      erule fs_field, erule jr_string, simp only: N absent_simps simp_thms,
      erule fs_field, erule jr_string, simp only: N absent_simps simp_thms,
      rule f_obj_Nil, cases m, simp add: createBaseSetThemeRequest_def)
  with all show "isSet J \<and> SetThemeRequest_fromJSON J = Returned m"
    by (simp add: entries_def)
qed

lemma SetThemeRequest_toJSON_safe [json_rules]: "to_safe (SetThemeRequest_toJSON m)"
  unfolding SetThemeRequest_toJSON_def by (intro json_rules)

subsection \<open>SetThemeResponse\<close>

definition SetThemeResponse_toJSON :: "SetThemeResponse \<Rightarrow> js_any js_out" where
  "SetThemeResponse_toJSON m = t_obj ([])"

definition SetThemeResponse_fromJSON :: "js_any \<Rightarrow> SetThemeResponse js_out" where
  "SetThemeResponse_fromJSON = f_obj createBaseSetThemeResponse
    []"

definition SetThemeResponse_fromPartial :: "js_any \<Rightarrow> SetThemeResponse js_out" where
  "SetThemeResponse_fromPartial = f_obj createBaseSetThemeResponse
    []"

definition SetThemeResponse_create :: "js_any \<Rightarrow> SetThemeResponse js_out" where
  "SetThemeResponse_create = create_with SetThemeResponse_fromPartial"

lemma SetThemeResponse_json:
  "json_rt SetThemeResponse_toJSON SetThemeResponse_fromJSON m"
  unfolding json_rt_def
proof (intro allI impI)
  fix J
  assume to: "SetThemeResponse_toJSON m = Returned J"
  have d: "distinct (([] :: string list) @ [])"
    by simp
  note all = t_objD [OF to [unfolded SetThemeResponse_toJSON_def] _ d, unfolded t_names, OF refl]
  have "SetThemeResponse_fromJSON J = Returned m"
    unfolding SetThemeResponse_fromJSON_def
    by (rule f_obj_Nil, cases m, simp add: createBaseSetThemeResponse_def)
  with all show "isSet J \<and> SetThemeResponse_fromJSON J = Returned m"
    by (simp add: entries_def)
qed

lemma SetThemeResponse_toJSON_safe [json_rules]: "to_safe (SetThemeResponse_toJSON m)"
  unfolding SetThemeResponse_toJSON_def by (intro json_rules)

subsection \<open>GetCurrentNoteRequest\<close>

definition GetCurrentNoteRequest_toJSON :: "GetCurrentNoteRequest \<Rightarrow> js_any js_out" where
  "GetCurrentNoteRequest_toJSON m = t_obj (
    [(''sessionId'', t_if (GetCurrentNoteRequest_sessionId m \<noteq> '''') (AStr (GetCurrentNoteRequest_sessionId m)))])"

definition GetCurrentNoteRequest_fromJSON :: "js_any \<Rightarrow> GetCurrentNoteRequest js_out" where
  "GetCurrentNoteRequest_fromJSON = f_obj createBaseGetCurrentNoteRequest
    [f_field (f_first [(''sessionId'', js_String), (''session_id'', js_String)] '''') (\<lambda>v m. m\<lparr>GetCurrentNoteRequest_sessionId := v\<rparr>)]"

definition GetCurrentNoteRequest_fromPartial :: "js_any \<Rightarrow> GetCurrentNoteRequest js_out" where
  "GetCurrentNoteRequest_fromPartial = f_obj createBaseGetCurrentNoteRequest
    [f_field (f_first [(''sessionId'', p_string)] '''') (\<lambda>v m. m\<lparr>GetCurrentNoteRequest_sessionId := v\<rparr>)]"

definition GetCurrentNoteRequest_create :: "js_any \<Rightarrow> GetCurrentNoteRequest js_out" where
  "GetCurrentNoteRequest_create = create_with GetCurrentNoteRequest_fromPartial"

lemma GetCurrentNoteRequest_json:
  "json_rt GetCurrentNoteRequest_toJSON GetCurrentNoteRequest_fromJSON m"
  unfolding json_rt_def
proof (intro allI impI)
  fix J
  assume to: "GetCurrentNoteRequest_toJSON m = Returned J"
  have d: "distinct ([''sessionId''] @ [''session_id''])"
    by code_simp
  note all = t_objD [OF to [unfolded GetCurrentNoteRequest_toJSON_def] _ d, unfolded t_names, OF refl]
  note N = all [THEN conjunct2, unfolded names_simps]
  have "GetCurrentNoteRequest_fromJSON J = Returned m"
    unfolding GetCurrentNoteRequest_fromJSON_def
    by (rule fs_field [OF all [THEN conjunct1]], erule jr_string, simp only: N absent_simps simp_thms,
      rule f_obj_Nil, cases m, simp add: createBaseGetCurrentNoteRequest_def)
  with all show "isSet J \<and> GetCurrentNoteRequest_fromJSON J = Returned m"
    by (simp add: entries_def)
qed

lemma GetCurrentNoteRequest_toJSON_safe [json_rules]: "to_safe (GetCurrentNoteRequest_toJSON m)"
  unfolding GetCurrentNoteRequest_toJSON_def by (intro json_rules)

subsection \<open>GetCurrentNoteResponse\<close>

definition GetCurrentNoteResponse_toJSON :: "GetCurrentNoteResponse \<Rightarrow> js_any js_out" where
  "GetCurrentNoteResponse_toJSON m = t_obj (
    [(''note'', t_some (GetCurrentNoteResponse_note m) Note_toJSON)])"

definition GetCurrentNoteResponse_fromJSON :: "js_any \<Rightarrow> GetCurrentNoteResponse js_out" where
  "GetCurrentNoteResponse_fromJSON = f_obj createBaseGetCurrentNoteResponse
    [f_field (f_first [(''note'', \<lambda>x. js_map Some (Note_fromJSON x))] None) (\<lambda>v m. m\<lparr>GetCurrentNoteResponse_note := v\<rparr>)]"

definition GetCurrentNoteResponse_fromPartial :: "js_any \<Rightarrow> GetCurrentNoteResponse js_out" where
  "GetCurrentNoteResponse_fromPartial = f_obj createBaseGetCurrentNoteResponse
    [f_field (f_first [(''note'', \<lambda>x. js_map Some (Note_fromPartial x))] None) (\<lambda>v m. m\<lparr>GetCurrentNoteResponse_note := v\<rparr>)]"

definition GetCurrentNoteResponse_create :: "js_any \<Rightarrow> GetCurrentNoteResponse js_out" where
  "GetCurrentNoteResponse_create = create_with GetCurrentNoteResponse_fromPartial"

lemma GetCurrentNoteResponse_json:
  "json_rt GetCurrentNoteResponse_toJSON GetCurrentNoteResponse_fromJSON m"
  unfolding json_rt_def
proof (intro allI impI)
  fix J
  assume to: "GetCurrentNoteResponse_toJSON m = Returned J"
  have d: "distinct ([''note''] @ [])"
    by code_simp
  note all = t_objD [OF to [unfolded GetCurrentNoteResponse_toJSON_def] _ d, unfolded t_names, OF refl]
  have "GetCurrentNoteResponse_fromJSON J = Returned m"
    unfolding GetCurrentNoteResponse_fromJSON_def
    by (rule fs_field [OF all [THEN conjunct1]], erule jr_msg, rule absent_Nil, rule Note_json,
      rule f_obj_Nil, cases m, simp add: createBaseGetCurrentNoteResponse_def)
  with all show "isSet J \<and> GetCurrentNoteResponse_fromJSON J = Returned m"
    by (simp add: entries_def)
qed

lemma GetCurrentNoteResponse_toJSON_safe [json_rules]: "to_safe (GetCurrentNoteResponse_toJSON m)"
  unfolding GetCurrentNoteResponse_toJSON_def by (intro json_rules)

subsection \<open>CreateNoteRequest\<close>

definition CreateNoteRequest_toJSON :: "CreateNoteRequest \<Rightarrow> js_any js_out" where
  "CreateNoteRequest_toJSON m = t_obj (
    [(''sessionId'', t_if (CreateNoteRequest_sessionId m \<noteq> '''') (AStr (CreateNoteRequest_sessionId m))),
     (''text'', t_if (CreateNoteRequest_text m \<noteq> '''') (AStr (CreateNoteRequest_text m))),
     (''privacy'', t_if (CreateNoteRequest_privacy m \<noteq> '''') (AStr (CreateNoteRequest_privacy m)))])"

definition CreateNoteRequest_fromJSON :: "js_any \<Rightarrow> CreateNoteRequest js_out" where
  "CreateNoteRequest_fromJSON = f_obj createBaseCreateNoteRequest
    [f_field (f_first [(''sessionId'', js_String), (''session_id'', js_String)] '''') (\<lambda>v m. m\<lparr>CreateNoteRequest_sessionId := v\<rparr>),
     f_field (f_first [(''text'', js_String)] '''') (\<lambda>v m. m\<lparr>CreateNoteRequest_text := v\<rparr>),
     f_field (f_first [(''privacy'', js_String)] '''') (\<lambda>v m. m\<lparr>CreateNoteRequest_privacy := v\<rparr>)]"

definition CreateNoteRequest_fromPartial :: "js_any \<Rightarrow> CreateNoteRequest js_out" where
  "CreateNoteRequest_fromPartial = f_obj createBaseCreateNoteRequest
    [f_field (f_first [(''sessionId'', p_string)] '''') (\<lambda>v m. m\<lparr>CreateNoteRequest_sessionId := v\<rparr>),
     f_field (f_first [(''text'', p_string)] '''') (\<lambda>v m. m\<lparr>CreateNoteRequest_text := v\<rparr>),
     f_field (f_first [(''privacy'', p_string)] '''') (\<lambda>v m. m\<lparr>CreateNoteRequest_privacy := v\<rparr>)]"

definition CreateNoteRequest_create :: "js_any \<Rightarrow> CreateNoteRequest js_out" where
  "CreateNoteRequest_create = create_with CreateNoteRequest_fromPartial"

lemma CreateNoteRequest_json:
  "json_rt CreateNoteRequest_toJSON CreateNoteRequest_fromJSON m"
  unfolding json_rt_def
proof (intro allI impI)
  fix J
  assume to: "CreateNoteRequest_toJSON m = Returned J"
  have d: "distinct ([''sessionId'', ''text'', ''privacy''] @ [''session_id''])"
    by code_simp
  note all = t_objD [OF to [unfolded CreateNoteRequest_toJSON_def] _ d, unfolded t_names, OF refl]
  note N = all [THEN conjunct2, unfolded names_simps]
  have "CreateNoteRequest_fromJSON J = Returned m"
    unfolding CreateNoteRequest_fromJSON_def
    by (rule fs_field [OF all [THEN conjunct1]], erule jr_string, simp only: N absent_simps simp_thms,
      erule fs_field, erule jr_string, rule absent_Nil,
      erule fs_field, erule jr_string, rule absent_Nil,
      rule f_obj_Nil, cases m, simp add: createBaseCreateNoteRequest_def)
  with all show "isSet J \<and> CreateNoteRequest_fromJSON J = Returned m"
    by (simp add: entries_def)
qed

lemma CreateNoteRequest_toJSON_safe [json_rules]: "to_safe (CreateNoteRequest_toJSON m)"
  unfolding CreateNoteRequest_toJSON_def by (intro json_rules)

subsection \<open>CreateNoteResponse\<close>

definition CreateNoteResponse_toJSON :: "CreateNoteResponse \<Rightarrow> js_any js_out" where
  "CreateNoteResponse_toJSON m = t_obj (
    [(''note'', t_some (CreateNoteResponse_note m) Note_toJSON)])"

definition CreateNoteResponse_fromJSON :: "js_any \<Rightarrow> CreateNoteResponse js_out" where
  "CreateNoteResponse_fromJSON = f_obj createBaseCreateNoteResponse
    [f_field (f_first [(''note'', \<lambda>x. js_map Some (Note_fromJSON x))] None) (\<lambda>v m. m\<lparr>CreateNoteResponse_note := v\<rparr>)]"

definition CreateNoteResponse_fromPartial :: "js_any \<Rightarrow> CreateNoteResponse js_out" where
  "CreateNoteResponse_fromPartial = f_obj createBaseCreateNoteResponse
    [f_field (f_first [(''note'', \<lambda>x. js_map Some (Note_fromPartial x))] None) (\<lambda>v m. m\<lparr>CreateNoteResponse_note := v\<rparr>)]"

definition CreateNoteResponse_create :: "js_any \<Rightarrow> CreateNoteResponse js_out" where
  "CreateNoteResponse_create = create_with CreateNoteResponse_fromPartial"

lemma CreateNoteResponse_json:
  "json_rt CreateNoteResponse_toJSON CreateNoteResponse_fromJSON m"
  unfolding json_rt_def
proof (intro allI impI)
  fix J
  assume to: "CreateNoteResponse_toJSON m = Returned J"
  have d: "distinct ([''note''] @ [])"
    by code_simp
  note all = t_objD [OF to [unfolded CreateNoteResponse_toJSON_def] _ d, unfolded t_names, OF refl]
  have "CreateNoteResponse_fromJSON J = Returned m"
    unfolding CreateNoteResponse_fromJSON_def
    by (rule fs_field [OF all [THEN conjunct1]], erule jr_msg, rule absent_Nil, rule Note_json,
      rule f_obj_Nil, cases m, simp add: createBaseCreateNoteResponse_def)
  with all show "isSet J \<and> CreateNoteResponse_fromJSON J = Returned m"
    by (simp add: entries_def)
qed

lemma CreateNoteResponse_toJSON_safe [json_rules]: "to_safe (CreateNoteResponse_toJSON m)"
  unfolding CreateNoteResponse_toJSON_def by (intro json_rules)

subsection \<open>DeleteNoteRequest\<close>

definition DeleteNoteRequest_toJSON :: "DeleteNoteRequest \<Rightarrow> js_any js_out" where
  "DeleteNoteRequest_toJSON m = t_obj (
    [(''sessionId'', t_if (DeleteNoteRequest_sessionId m \<noteq> '''') (AStr (DeleteNoteRequest_sessionId m))),
     (''noteId'', t_if (DeleteNoteRequest_noteId m \<noteq> '''') (AStr (DeleteNoteRequest_noteId m)))])"

definition DeleteNoteRequest_fromJSON :: "js_any \<Rightarrow> DeleteNoteRequest js_out" where
  "DeleteNoteRequest_fromJSON = f_obj createBaseDeleteNoteRequest
    [f_field (f_first [(''sessionId'', js_String), (''session_id'', js_String)] '''') (\<lambda>v m. m\<lparr>DeleteNoteRequest_sessionId := v\<rparr>),
     f_field (f_first [(''noteId'', js_String), (''note_id'', js_String)] '''') (\<lambda>v m. m\<lparr>DeleteNoteRequest_noteId := v\<rparr>)]"

definition DeleteNoteRequest_fromPartial :: "js_any \<Rightarrow> DeleteNoteRequest js_out" where
  "DeleteNoteRequest_fromPartial = f_obj createBaseDeleteNoteRequest
    [f_field (f_first [(''sessionId'', p_string)] '''') (\<lambda>v m. m\<lparr>DeleteNoteRequest_sessionId := v\<rparr>),
     f_field (f_first [(''noteId'', p_string)] '''') (\<lambda>v m. m\<lparr>DeleteNoteRequest_noteId := v\<rparr>)]"

definition DeleteNoteRequest_create :: "js_any \<Rightarrow> DeleteNoteRequest js_out" where
  "DeleteNoteRequest_create = create_with DeleteNoteRequest_fromPartial"

lemma DeleteNoteRequest_json:
  "json_rt DeleteNoteRequest_toJSON DeleteNoteRequest_fromJSON m"
  unfolding json_rt_def
proof (intro allI impI)
  fix J
  assume to: "DeleteNoteRequest_toJSON m = Returned J"
  have d: "distinct ([''sessionId'', ''noteId''] @ [''session_id'', ''note_id''])"
    by code_simp
  note all = t_objD [OF to [unfolded DeleteNoteRequest_toJSON_def] _ d, unfolded t_names, OF refl]
  note N = all [THEN conjunct2, unfolded names_simps]
  have "DeleteNoteRequest_fromJSON J = Returned m"
    unfolding DeleteNoteRequest_fromJSON_def
    by (rule fs_field [OF all [THEN conjunct1]], erule jr_string, simp only: N absent_simps simp_thms,
      erule fs_field, erule jr_string, simp only: N absent_simps simp_thms,
      rule f_obj_Nil, cases m, simp add: createBaseDeleteNoteRequest_def)
  with all show "isSet J \<and> DeleteNoteRequest_fromJSON J = Returned m"
    by (simp add: entries_def)
qed

lemma DeleteNoteRequest_toJSON_safe [json_rules]: "to_safe (DeleteNoteRequest_toJSON m)"
  unfolding DeleteNoteRequest_toJSON_def by (intro json_rules)

subsection \<open>DeleteNoteResponse\<close>

definition DeleteNoteResponse_toJSON :: "DeleteNoteResponse \<Rightarrow> js_any js_out" where
  "DeleteNoteResponse_toJSON m = t_obj ([])"

definition DeleteNoteResponse_fromJSON :: "js_any \<Rightarrow> DeleteNoteResponse js_out" where
  "DeleteNoteResponse_fromJSON = f_obj createBaseDeleteNoteResponse
    []"

definition DeleteNoteResponse_fromPartial :: "js_any \<Rightarrow> DeleteNoteResponse js_out" where
  "DeleteNoteResponse_fromPartial = f_obj createBaseDeleteNoteResponse
    []"

definition DeleteNoteResponse_create :: "js_any \<Rightarrow> DeleteNoteResponse js_out" where
  "DeleteNoteResponse_create = create_with DeleteNoteResponse_fromPartial"

lemma DeleteNoteResponse_json:
  "json_rt DeleteNoteResponse_toJSON DeleteNoteResponse_fromJSON m"
  unfolding json_rt_def
proof (intro allI impI)
  fix J
  assume to: "DeleteNoteResponse_toJSON m = Returned J"
  have d: "distinct (([] :: string list) @ [])"
    by simp
  note all = t_objD [OF to [unfolded DeleteNoteResponse_toJSON_def] _ d, unfolded t_names, OF refl]
  have "DeleteNoteResponse_fromJSON J = Returned m"
    unfolding DeleteNoteResponse_fromJSON_def
    by (rule f_obj_Nil, cases m, simp add: createBaseDeleteNoteResponse_def)
  with all show "isSet J \<and> DeleteNoteResponse_fromJSON J = Returned m"
    by (simp add: entries_def)
qed

lemma DeleteNoteResponse_toJSON_safe [json_rules]: "to_safe (DeleteNoteResponse_toJSON m)"
  unfolding DeleteNoteResponse_toJSON_def by (intro json_rules)

subsection \<open>RecreateNoteRequest\<close>

definition RecreateNoteRequest_toJSON :: "RecreateNoteRequest \<Rightarrow> js_any js_out" where
  "RecreateNoteRequest_toJSON m = t_obj (
    [(''sessionId'', t_if (RecreateNoteRequest_sessionId m \<noteq> '''') (AStr (RecreateNoteRequest_sessionId m))),
     (''oldNoteId'', t_if (RecreateNoteRequest_oldNoteId m \<noteq> '''') (AStr (RecreateNoteRequest_oldNoteId m))),
     (''text'', t_if (RecreateNoteRequest_text m \<noteq> '''') (AStr (RecreateNoteRequest_text m))),
     (''privacy'', t_if (RecreateNoteRequest_privacy m \<noteq> '''') (AStr (RecreateNoteRequest_privacy m)))])"

definition RecreateNoteRequest_fromJSON :: "js_any \<Rightarrow> RecreateNoteRequest js_out" where
  "RecreateNoteRequest_fromJSON = f_obj createBaseRecreateNoteRequest
    [f_field (f_first [(''sessionId'', js_String), (''session_id'', js_String)] '''') (\<lambda>v m. m\<lparr>RecreateNoteRequest_sessionId := v\<rparr>),
     f_field (f_first [(''oldNoteId'', js_String), (''old_note_id'', js_String)] '''') (\<lambda>v m. m\<lparr>RecreateNoteRequest_oldNoteId := v\<rparr>),
     f_field (f_first [(''text'', js_String)] '''') (\<lambda>v m. m\<lparr>RecreateNoteRequest_text := v\<rparr>),
     f_field (f_first [(''privacy'', js_String)] '''') (\<lambda>v m. m\<lparr>RecreateNoteRequest_privacy := v\<rparr>)]"

definition RecreateNoteRequest_fromPartial :: "js_any \<Rightarrow> RecreateNoteRequest js_out" where
  "RecreateNoteRequest_fromPartial = f_obj createBaseRecreateNoteRequest
    [f_field (f_first [(''sessionId'', p_string)] '''') (\<lambda>v m. m\<lparr>RecreateNoteRequest_sessionId := v\<rparr>),
     f_field (f_first [(''oldNoteId'', p_string)] '''') (\<lambda>v m. m\<lparr>RecreateNoteRequest_oldNoteId := v\<rparr>),
     f_field (f_first [(''text'', p_string)] '''') (\<lambda>v m. m\<lparr>RecreateNoteRequest_text := v\<rparr>),
     f_field (f_first [(''privacy'', p_string)] '''') (\<lambda>v m. m\<lparr>RecreateNoteRequest_privacy := v\<rparr>)]"

definition RecreateNoteRequest_create :: "js_any \<Rightarrow> RecreateNoteRequest js_out" where
  "RecreateNoteRequest_create = create_with RecreateNoteRequest_fromPartial"

lemma RecreateNoteRequest_json:
  "json_rt RecreateNoteRequest_toJSON RecreateNoteRequest_fromJSON m"
  unfolding json_rt_def
proof (intro allI impI)
  fix J
  assume to: "RecreateNoteRequest_toJSON m = Returned J"
  have d: "distinct ([''sessionId'', ''oldNoteId'', ''text'', ''privacy''] @ [''session_id'', ''old_note_id''])"
    by code_simp
  note all = t_objD [OF to [unfolded RecreateNoteRequest_toJSON_def] _ d, unfolded t_names, OF refl]
  note N = all [THEN conjunct2, unfolded names_simps]
  have "RecreateNoteRequest_fromJSON J = Returned m"
    unfolding RecreateNoteRequest_fromJSON_def
    by (rule fs_field [OF all [THEN conjunct1]], erule jr_string, simp only: N absent_simps simp_thms,
      erule fs_field, erule jr_string, simp only: N absent_simps simp_thms,
      erule fs_field, erule jr_string, rule absent_Nil,
      erule fs_field, erule jr_string, rule absent_Nil,
      rule f_obj_Nil, cases m, simp add: createBaseRecreateNoteRequest_def)
  with all show "isSet J \<and> RecreateNoteRequest_fromJSON J = Returned m"
    by (simp add: entries_def)
qed

lemma RecreateNoteRequest_toJSON_safe [json_rules]: "to_safe (RecreateNoteRequest_toJSON m)"
  unfolding RecreateNoteRequest_toJSON_def by (intro json_rules)

subsection \<open>RecreateNoteResponse\<close>

definition RecreateNoteResponse_toJSON :: "RecreateNoteResponse \<Rightarrow> js_any js_out" where
  "RecreateNoteResponse_toJSON m = t_obj (
    [(''note'', t_some (RecreateNoteResponse_note m) Note_toJSON)])"

definition RecreateNoteResponse_fromJSON :: "js_any \<Rightarrow> RecreateNoteResponse js_out" where
  "RecreateNoteResponse_fromJSON = f_obj createBaseRecreateNoteResponse
    [f_field (f_first [(''note'', \<lambda>x. js_map Some (Note_fromJSON x))] None) (\<lambda>v m. m\<lparr>RecreateNoteResponse_note := v\<rparr>)]"

definition RecreateNoteResponse_fromPartial :: "js_any \<Rightarrow> RecreateNoteResponse js_out" where
  "RecreateNoteResponse_fromPartial = f_obj createBaseRecreateNoteResponse
    [f_field (f_first [(''note'', \<lambda>x. js_map Some (Note_fromPartial x))] None) (\<lambda>v m. m\<lparr>RecreateNoteResponse_note := v\<rparr>)]"

definition RecreateNoteResponse_create :: "js_any \<Rightarrow> RecreateNoteResponse js_out" where
  "RecreateNoteResponse_create = create_with RecreateNoteResponse_fromPartial"

lemma RecreateNoteResponse_json:
  "json_rt RecreateNoteResponse_toJSON RecreateNoteResponse_fromJSON m"
  unfolding json_rt_def
proof (intro allI impI)
  fix J
  assume to: "RecreateNoteResponse_toJSON m = Returned J"
  have d: "distinct ([''note''] @ [])"
    by code_simp
  note all = t_objD [OF to [unfolded RecreateNoteResponse_toJSON_def] _ d, unfolded t_names, OF refl]
  have "RecreateNoteResponse_fromJSON J = Returned m"
    unfolding RecreateNoteResponse_fromJSON_def
    by (rule fs_field [OF all [THEN conjunct1]], erule jr_msg, rule absent_Nil, rule Note_json,
      rule f_obj_Nil, cases m, simp add: createBaseRecreateNoteResponse_def)
  with all show "isSet J \<and> RecreateNoteResponse_fromJSON J = Returned m"
    by (simp add: entries_def)
qed

lemma RecreateNoteResponse_toJSON_safe [json_rules]: "to_safe (RecreateNoteResponse_toJSON m)"
  unfolding RecreateNoteResponse_toJSON_def by (intro json_rules)

subsection \<open>SetRestrictedRequest\<close>

definition SetRestrictedRequest_toJSON :: "SetRestrictedRequest \<Rightarrow> js_any js_out" where
  "SetRestrictedRequest_toJSON m = t_obj (
    [(''sessionId'', t_if (SetRestrictedRequest_sessionId m \<noteq> '''') (AStr (SetRestrictedRequest_sessionId m))),
     (''userId'', t_if (SetRestrictedRequest_userId m \<noteq> '''') (AStr (SetRestrictedRequest_userId m))),
     (''restricted'', t_if (SetRestrictedRequest_restricted m \<noteq> False) (ABool (SetRestrictedRequest_restricted m)))])"

definition SetRestrictedRequest_fromJSON :: "js_any \<Rightarrow> SetRestrictedRequest js_out" where
  "SetRestrictedRequest_fromJSON = f_obj createBaseSetRestrictedRequest
    [f_field (f_first [(''sessionId'', js_String), (''session_id'', js_String)] '''') (\<lambda>v m. m\<lparr>SetRestrictedRequest_sessionId := v\<rparr>),
     f_field (f_first [(''userId'', js_String), (''user_id'', js_String)] '''') (\<lambda>v m. m\<lparr>SetRestrictedRequest_userId := v\<rparr>),
     f_field (f_first [(''restricted'', \<lambda>x. Returned (js_Boolean x))] False) (\<lambda>v m. m\<lparr>SetRestrictedRequest_restricted := v\<rparr>)]"

definition SetRestrictedRequest_fromPartial :: "js_any \<Rightarrow> SetRestrictedRequest js_out" where
  "SetRestrictedRequest_fromPartial = f_obj createBaseSetRestrictedRequest
    [f_field (f_first [(''sessionId'', p_string)] '''') (\<lambda>v m. m\<lparr>SetRestrictedRequest_sessionId := v\<rparr>),
     f_field (f_first [(''userId'', p_string)] '''') (\<lambda>v m. m\<lparr>SetRestrictedRequest_userId := v\<rparr>),
     f_field (f_first [(''restricted'', p_bool)] False) (\<lambda>v m. m\<lparr>SetRestrictedRequest_restricted := v\<rparr>)]"

definition SetRestrictedRequest_create :: "js_any \<Rightarrow> SetRestrictedRequest js_out" where
  "SetRestrictedRequest_create = create_with SetRestrictedRequest_fromPartial"

lemma SetRestrictedRequest_json:
  "json_rt SetRestrictedRequest_toJSON SetRestrictedRequest_fromJSON m"
  unfolding json_rt_def
proof (intro allI impI)
  fix J
  assume to: "SetRestrictedRequest_toJSON m = Returned J"
  have d: "distinct ([''sessionId'', ''userId'', ''restricted''] @ [''session_id'', ''user_id''])"
    by code_simp
  note all = t_objD [OF to [unfolded SetRestrictedRequest_toJSON_def] _ d, unfolded t_names, OF refl]
  note N = all [THEN conjunct2, unfolded names_simps]
  have "SetRestrictedRequest_fromJSON J = Returned m"
    unfolding SetRestrictedRequest_fromJSON_def
    by (rule fs_field [OF all [THEN conjunct1]], erule jr_string, simp only: N absent_simps simp_thms,
      erule fs_field, erule jr_string, simp only: N absent_simps simp_thms,
      erule fs_field, erule jr_bool, rule absent_Nil,
      rule f_obj_Nil, cases m, simp add: createBaseSetRestrictedRequest_def)
  with all show "isSet J \<and> SetRestrictedRequest_fromJSON J = Returned m"
    by (simp add: entries_def)
qed

lemma SetRestrictedRequest_toJSON_safe [json_rules]: "to_safe (SetRestrictedRequest_toJSON m)"
  unfolding SetRestrictedRequest_toJSON_def by (intro json_rules)

subsection \<open>SetRestrictedResponse\<close>

definition SetRestrictedResponse_toJSON :: "SetRestrictedResponse \<Rightarrow> js_any js_out" where
  "SetRestrictedResponse_toJSON m = t_obj ([])"

definition SetRestrictedResponse_fromJSON :: "js_any \<Rightarrow> SetRestrictedResponse js_out" where
  "SetRestrictedResponse_fromJSON = f_obj createBaseSetRestrictedResponse
    []"

definition SetRestrictedResponse_fromPartial :: "js_any \<Rightarrow> SetRestrictedResponse js_out" where
  "SetRestrictedResponse_fromPartial = f_obj createBaseSetRestrictedResponse
    []"

definition SetRestrictedResponse_create :: "js_any \<Rightarrow> SetRestrictedResponse js_out" where
  "SetRestrictedResponse_create = create_with SetRestrictedResponse_fromPartial"

lemma SetRestrictedResponse_json:
  "json_rt SetRestrictedResponse_toJSON SetRestrictedResponse_fromJSON m"
  unfolding json_rt_def
proof (intro allI impI)
  fix J
  assume to: "SetRestrictedResponse_toJSON m = Returned J"
  have d: "distinct (([] :: string list) @ [])"
    by simp
  note all = t_objD [OF to [unfolded SetRestrictedResponse_toJSON_def] _ d, unfolded t_names, OF refl]
  have "SetRestrictedResponse_fromJSON J = Returned m"
    unfolding SetRestrictedResponse_fromJSON_def
    by (rule f_obj_Nil, cases m, simp add: createBaseSetRestrictedResponse_def)
  with all show "isSet J \<and> SetRestrictedResponse_fromJSON J = Returned m"
    by (simp add: entries_def)
qed

lemma SetRestrictedResponse_toJSON_safe [json_rules]: "to_safe (SetRestrictedResponse_toJSON m)"
  unfolding SetRestrictedResponse_toJSON_def by (intro json_rules)

subsection \<open>SetMessageBlockedRequest\<close>

definition SetMessageBlockedRequest_toJSON :: "SetMessageBlockedRequest \<Rightarrow> js_any js_out" where
  "SetMessageBlockedRequest_toJSON m = t_obj (
    [(''sessionId'', t_if (SetMessageBlockedRequest_sessionId m \<noteq> '''') (AStr (SetMessageBlockedRequest_sessionId m))),
     (''userId'', t_if (SetMessageBlockedRequest_userId m \<noteq> '''') (AStr (SetMessageBlockedRequest_userId m))),
     (''blocked'', t_if (SetMessageBlockedRequest_blocked m \<noteq> False) (ABool (SetMessageBlockedRequest_blocked m)))])"

definition SetMessageBlockedRequest_fromJSON :: "js_any \<Rightarrow> SetMessageBlockedRequest js_out" where
  "SetMessageBlockedRequest_fromJSON = f_obj createBaseSetMessageBlockedRequest
    [f_field (f_first [(''sessionId'', js_String), (''session_id'', js_String)] '''') (\<lambda>v m. m\<lparr>SetMessageBlockedRequest_sessionId := v\<rparr>),
     f_field (f_first [(''userId'', js_String), (''user_id'', js_String)] '''') (\<lambda>v m. m\<lparr>SetMessageBlockedRequest_userId := v\<rparr>),
     f_field (f_first [(''blocked'', \<lambda>x. Returned (js_Boolean x))] False) (\<lambda>v m. m\<lparr>SetMessageBlockedRequest_blocked := v\<rparr>)]"

definition SetMessageBlockedRequest_fromPartial :: "js_any \<Rightarrow> SetMessageBlockedRequest js_out" where
  "SetMessageBlockedRequest_fromPartial = f_obj createBaseSetMessageBlockedRequest
    [f_field (f_first [(''sessionId'', p_string)] '''') (\<lambda>v m. m\<lparr>SetMessageBlockedRequest_sessionId := v\<rparr>),
     f_field (f_first [(''userId'', p_string)] '''') (\<lambda>v m. m\<lparr>SetMessageBlockedRequest_userId := v\<rparr>),
     f_field (f_first [(''blocked'', p_bool)] False) (\<lambda>v m. m\<lparr>SetMessageBlockedRequest_blocked := v\<rparr>)]"

definition SetMessageBlockedRequest_create :: "js_any \<Rightarrow> SetMessageBlockedRequest js_out" where
  "SetMessageBlockedRequest_create = create_with SetMessageBlockedRequest_fromPartial"

lemma SetMessageBlockedRequest_json:
  "json_rt SetMessageBlockedRequest_toJSON SetMessageBlockedRequest_fromJSON m"
  unfolding json_rt_def
proof (intro allI impI)
  fix J
  assume to: "SetMessageBlockedRequest_toJSON m = Returned J"
  have d: "distinct ([''sessionId'', ''userId'', ''blocked''] @ [''session_id'', ''user_id''])"
    by code_simp
  note all = t_objD [OF to [unfolded SetMessageBlockedRequest_toJSON_def] _ d, unfolded t_names, OF refl]
  note N = all [THEN conjunct2, unfolded names_simps]
  have "SetMessageBlockedRequest_fromJSON J = Returned m"
    unfolding SetMessageBlockedRequest_fromJSON_def
    by (rule fs_field [OF all [THEN conjunct1]], erule jr_string, simp only: N absent_simps simp_thms,
      erule fs_field, erule jr_string, simp only: N absent_simps simp_thms,
      erule fs_field, erule jr_bool, rule absent_Nil,
      rule f_obj_Nil, cases m, simp add: createBaseSetMessageBlockedRequest_def)
  with all show "isSet J \<and> SetMessageBlockedRequest_fromJSON J = Returned m"
    by (simp add: entries_def)
qed

lemma SetMessageBlockedRequest_toJSON_safe [json_rules]: "to_safe (SetMessageBlockedRequest_toJSON m)"
  unfolding SetMessageBlockedRequest_toJSON_def by (intro json_rules)

subsection \<open>SetMessageBlockedResponse\<close>

definition SetMessageBlockedResponse_toJSON :: "SetMessageBlockedResponse \<Rightarrow> js_any js_out" where
  "SetMessageBlockedResponse_toJSON m = t_obj ([])"

definition SetMessageBlockedResponse_fromJSON :: "js_any \<Rightarrow> SetMessageBlockedResponse js_out" where
  "SetMessageBlockedResponse_fromJSON = f_obj createBaseSetMessageBlockedResponse
    []"

definition SetMessageBlockedResponse_fromPartial :: "js_any \<Rightarrow> SetMessageBlockedResponse js_out" where
  "SetMessageBlockedResponse_fromPartial = f_obj createBaseSetMessageBlockedResponse
    []"

definition SetMessageBlockedResponse_create :: "js_any \<Rightarrow> SetMessageBlockedResponse js_out" where
  "SetMessageBlockedResponse_create = create_with SetMessageBlockedResponse_fromPartial"

lemma SetMessageBlockedResponse_json:
  "json_rt SetMessageBlockedResponse_toJSON SetMessageBlockedResponse_fromJSON m"
  unfolding json_rt_def
proof (intro allI impI)
  fix J
  assume to: "SetMessageBlockedResponse_toJSON m = Returned J"
  have d: "distinct (([] :: string list) @ [])"
    by simp
  note all = t_objD [OF to [unfolded SetMessageBlockedResponse_toJSON_def] _ d, unfolded t_names, OF refl]
  have "SetMessageBlockedResponse_fromJSON J = Returned m"
    unfolding SetMessageBlockedResponse_fromJSON_def
    by (rule f_obj_Nil, cases m, simp add: createBaseSetMessageBlockedResponse_def)
  with all show "isSet J \<and> SetMessageBlockedResponse_fromJSON J = Returned m"
    by (simp add: entries_def)
qed

lemma SetMessageBlockedResponse_toJSON_safe [json_rules]: "to_safe (SetMessageBlockedResponse_toJSON m)"
  unfolding SetMessageBlockedResponse_toJSON_def by (intro json_rules)

subsection \<open>ListThreadsRequest\<close>

definition ListThreadsRequest_toJSON :: "ListThreadsRequest \<Rightarrow> js_any js_out" where
  "ListThreadsRequest_toJSON m = t_obj (
    [(''sessionId'', t_if (ListThreadsRequest_sessionId m \<noteq> '''') (AStr (ListThreadsRequest_sessionId m))),
     (''limit'', t_if (ListThreadsRequest_limit m \<noteq> 0) (js_int (ListThreadsRequest_limit m)))])"

definition ListThreadsRequest_fromJSON :: "js_any \<Rightarrow> ListThreadsRequest js_out" where
  "ListThreadsRequest_fromJSON = f_obj createBaseListThreadsRequest
    [f_field (f_first [(''sessionId'', js_String), (''session_id'', js_String)] '''') (\<lambda>v m. m\<lparr>ListThreadsRequest_sessionId := v\<rparr>),
     f_field (f_first [(''limit'', js_integer)] 0) (\<lambda>v m. m\<lparr>ListThreadsRequest_limit := v\<rparr>)]"

definition ListThreadsRequest_fromPartial :: "js_any \<Rightarrow> ListThreadsRequest js_out" where
  "ListThreadsRequest_fromPartial = f_obj createBaseListThreadsRequest
    [f_field (f_first [(''sessionId'', p_string)] '''') (\<lambda>v m. m\<lparr>ListThreadsRequest_sessionId := v\<rparr>),
     f_field (f_first [(''limit'', p_int)] 0) (\<lambda>v m. m\<lparr>ListThreadsRequest_limit := v\<rparr>)]"

definition ListThreadsRequest_create :: "js_any \<Rightarrow> ListThreadsRequest js_out" where
  "ListThreadsRequest_create = create_with ListThreadsRequest_fromPartial"

lemma ListThreadsRequest_json:
  "json_rt ListThreadsRequest_toJSON ListThreadsRequest_fromJSON m"
  unfolding json_rt_def
proof (intro allI impI)
  fix J
  assume to: "ListThreadsRequest_toJSON m = Returned J"
  have d: "distinct ([''sessionId'', ''limit''] @ [''session_id''])"
    by code_simp
  note all = t_objD [OF to [unfolded ListThreadsRequest_toJSON_def] _ d, unfolded t_names, OF refl]
  note N = all [THEN conjunct2, unfolded names_simps]
  have "ListThreadsRequest_fromJSON J = Returned m"
    unfolding ListThreadsRequest_fromJSON_def
    by (rule fs_field [OF all [THEN conjunct1]], erule jr_string, simp only: N absent_simps simp_thms,
      erule fs_field, erule jr_int, rule absent_Nil,
      rule f_obj_Nil, cases m, simp add: createBaseListThreadsRequest_def)
  with all show "isSet J \<and> ListThreadsRequest_fromJSON J = Returned m"
    by (simp add: entries_def)
qed

lemma ListThreadsRequest_toJSON_safe [json_rules]: "to_safe (ListThreadsRequest_toJSON m)"
  unfolding ListThreadsRequest_toJSON_def by (intro json_rules)

subsection \<open>ListThreadsResponse\<close>

definition ListThreadsResponse_toJSON :: "ListThreadsResponse \<Rightarrow> js_any js_out" where
  "ListThreadsResponse_toJSON m = t_obj (
    [(''threads'', t_list (ListThreadsResponse_threads m) Thread_toJSON),
     (''syncSequenceId'', t_if (ListThreadsResponse_syncSequenceId m \<noteq> 0) (AStr (string_of_int (ListThreadsResponse_syncSequenceId m))))])"

definition ListThreadsResponse_fromJSON :: "js_any \<Rightarrow> ListThreadsResponse js_out" where
  "ListThreadsResponse_fromJSON = f_obj createBaseListThreadsResponse
    [f_field (f_array [''threads''] Thread_fromJSON) (\<lambda>v m. m\<lparr>ListThreadsResponse_threads := v\<rparr>),
     f_field (f_first [(''syncSequenceId'', js_BigInt), (''sync_sequence_id'', js_BigInt)] 0) (\<lambda>v m. m\<lparr>ListThreadsResponse_syncSequenceId := v\<rparr>)]"

definition ListThreadsResponse_fromPartial :: "js_any \<Rightarrow> ListThreadsResponse js_out" where
  "ListThreadsResponse_fromPartial = f_obj createBaseListThreadsResponse
    [f_field (p_array ''threads'' Thread_fromPartial) (\<lambda>v m. m\<lparr>ListThreadsResponse_threads := v\<rparr>),
     f_field (f_first [(''syncSequenceId'', js_BigInt)] 0) (\<lambda>v m. m\<lparr>ListThreadsResponse_syncSequenceId := v\<rparr>)]"

definition ListThreadsResponse_create :: "js_any \<Rightarrow> ListThreadsResponse js_out" where
  "ListThreadsResponse_create = create_with ListThreadsResponse_fromPartial"

definition ListThreadsResponse_json_ok :: "ListThreadsResponse \<Rightarrow> bool" where
  "ListThreadsResponse_json_ok m \<longleftrightarrow> list_all Thread_json_ok (ListThreadsResponse_threads m)"

lemma ListThreadsResponse_json:
  assumes ok: "ListThreadsResponse_json_ok m"
  shows "json_rt ListThreadsResponse_toJSON ListThreadsResponse_fromJSON m"
  unfolding json_rt_def
proof (intro allI impI)
  fix J
  assume to: "ListThreadsResponse_toJSON m = Returned J"
  have d: "distinct ([''threads'', ''syncSequenceId''] @ [''sync_sequence_id''])"
    by code_simp
  note all = t_objD [OF to [unfolded ListThreadsResponse_toJSON_def] _ d, unfolded t_names, OF refl]
  note N = all [THEN conjunct2, unfolded names_simps]
  have "ListThreadsResponse_fromJSON J = Returned m"
    unfolding ListThreadsResponse_fromJSON_def
    by (rule fs_field [OF all [THEN conjunct1]], erule jr_list, assumption, simp only: names_simps, rule Thread_json, (use ok in \<open>fastforce simp: ListThreadsResponse_json_ok_def list_all_iff\<close>),
      erule fs_field, erule jr_bigint, simp only: N absent_simps simp_thms,
      rule f_obj_Nil, cases m, simp add: createBaseListThreadsResponse_def)
  with all show "isSet J \<and> ListThreadsResponse_fromJSON J = Returned m"
    by (simp add: entries_def)
qed

lemma ListThreadsResponse_toJSON_safe [json_rules]: "to_safe (ListThreadsResponse_toJSON m)"
  unfolding ListThreadsResponse_toJSON_def by (intro json_rules)

subsection \<open>GetThreadRequest\<close>

definition GetThreadRequest_toJSON :: "GetThreadRequest \<Rightarrow> js_any js_out" where
  "GetThreadRequest_toJSON m = t_obj (
    [(''sessionId'', t_if (GetThreadRequest_sessionId m \<noteq> '''') (AStr (GetThreadRequest_sessionId m))),
     (''threadId'', t_if (GetThreadRequest_threadId m \<noteq> '''') (AStr (GetThreadRequest_threadId m)))])"

definition GetThreadRequest_fromJSON :: "js_any \<Rightarrow> GetThreadRequest js_out" where
  "GetThreadRequest_fromJSON = f_obj createBaseGetThreadRequest
    [f_field (f_first [(''sessionId'', js_String), (''session_id'', js_String)] '''') (\<lambda>v m. m\<lparr>GetThreadRequest_sessionId := v\<rparr>),
     f_field (f_first [(''threadId'', js_String), (''thread_id'', js_String)] '''') (\<lambda>v m. m\<lparr>GetThreadRequest_threadId := v\<rparr>)]"

definition GetThreadRequest_fromPartial :: "js_any \<Rightarrow> GetThreadRequest js_out" where
  "GetThreadRequest_fromPartial = f_obj createBaseGetThreadRequest
    [f_field (f_first [(''sessionId'', p_string)] '''') (\<lambda>v m. m\<lparr>GetThreadRequest_sessionId := v\<rparr>),
     f_field (f_first [(''threadId'', p_string)] '''') (\<lambda>v m. m\<lparr>GetThreadRequest_threadId := v\<rparr>)]"

definition GetThreadRequest_create :: "js_any \<Rightarrow> GetThreadRequest js_out" where
  "GetThreadRequest_create = create_with GetThreadRequest_fromPartial"

lemma GetThreadRequest_json:
  "json_rt GetThreadRequest_toJSON GetThreadRequest_fromJSON m"
  unfolding json_rt_def
proof (intro allI impI)
  fix J
  assume to: "GetThreadRequest_toJSON m = Returned J"
  have d: "distinct ([''sessionId'', ''threadId''] @ [''session_id'', ''thread_id''])"
    by code_simp
  note all = t_objD [OF to [unfolded GetThreadRequest_toJSON_def] _ d, unfolded t_names, OF refl]
  note N = all [THEN conjunct2, unfolded names_simps]
  have "GetThreadRequest_fromJSON J = Returned m"
    unfolding GetThreadRequest_fromJSON_def
    by (rule fs_field [OF all [THEN conjunct1]], erule jr_string, simp only: N absent_simps simp_thms,
      erule fs_field, erule jr_string, simp only: N absent_simps simp_thms,
      rule f_obj_Nil, cases m, simp add: createBaseGetThreadRequest_def)
  with all show "isSet J \<and> GetThreadRequest_fromJSON J = Returned m"
    by (simp add: entries_def)
qed

lemma GetThreadRequest_toJSON_safe [json_rules]: "to_safe (GetThreadRequest_toJSON m)"
  unfolding GetThreadRequest_toJSON_def by (intro json_rules)

subsection \<open>GetThreadResponse\<close>

definition GetThreadResponse_toJSON :: "GetThreadResponse \<Rightarrow> js_any js_out" where
  "GetThreadResponse_toJSON m = t_obj (
    [(''thread'', t_some (GetThreadResponse_thread m) Thread_toJSON)])"

definition GetThreadResponse_fromJSON :: "js_any \<Rightarrow> GetThreadResponse js_out" where
  "GetThreadResponse_fromJSON = f_obj createBaseGetThreadResponse
    [f_field (f_first [(''thread'', \<lambda>x. js_map Some (Thread_fromJSON x))] None) (\<lambda>v m. m\<lparr>GetThreadResponse_thread := v\<rparr>)]"

definition GetThreadResponse_fromPartial :: "js_any \<Rightarrow> GetThreadResponse js_out" where
  "GetThreadResponse_fromPartial = f_obj createBaseGetThreadResponse
    [f_field (f_first [(''thread'', \<lambda>x. js_map Some (Thread_fromPartial x))] None) (\<lambda>v m. m\<lparr>GetThreadResponse_thread := v\<rparr>)]"

definition GetThreadResponse_create :: "js_any \<Rightarrow> GetThreadResponse js_out" where
  "GetThreadResponse_create = create_with GetThreadResponse_fromPartial"

definition GetThreadResponse_json_ok :: "GetThreadResponse \<Rightarrow> bool" where
  "GetThreadResponse_json_ok m \<longleftrightarrow> pred_option Thread_json_ok (GetThreadResponse_thread m)"

lemma GetThreadResponse_json:
  assumes ok: "GetThreadResponse_json_ok m"
  shows "json_rt GetThreadResponse_toJSON GetThreadResponse_fromJSON m"
  unfolding json_rt_def
proof (intro allI impI)
  fix J
  assume to: "GetThreadResponse_toJSON m = Returned J"
  have d: "distinct ([''thread''] @ [])"
    by code_simp
  note all = t_objD [OF to [unfolded GetThreadResponse_toJSON_def] _ d, unfolded t_names, OF refl]
  have "GetThreadResponse_fromJSON J = Returned m"
    unfolding GetThreadResponse_fromJSON_def
    by (rule fs_field [OF all [THEN conjunct1]], erule jr_msg, rule absent_Nil, rule Thread_json, (use ok in \<open>fastforce simp: GetThreadResponse_json_ok_def list_all_iff\<close>),
      rule f_obj_Nil, cases m, simp add: createBaseGetThreadResponse_def)
  with all show "isSet J \<and> GetThreadResponse_fromJSON J = Returned m"
    by (simp add: entries_def)
qed

lemma GetThreadResponse_toJSON_safe [json_rules]: "to_safe (GetThreadResponse_toJSON m)"
  unfolding GetThreadResponse_toJSON_def by (intro json_rules)

subsection \<open>CreatePollRequest\<close>

definition CreatePollRequest_toJSON :: "CreatePollRequest \<Rightarrow> js_any js_out" where
  "CreatePollRequest_toJSON m = t_obj (
    [(''sessionId'', t_if (CreatePollRequest_sessionId m \<noteq> '''') (AStr (CreatePollRequest_sessionId m))),
     (''threadId'', t_if (CreatePollRequest_threadId m \<noteq> '''') (AStr (CreatePollRequest_threadId m))),
     (''question'', t_if (CreatePollRequest_question m \<noteq> '''') (AStr (CreatePollRequest_question m))),
     (''options'', t_list (CreatePollRequest_options m) (\<lambda>x. Returned (AStr x)))])"

definition CreatePollRequest_fromJSON :: "js_any \<Rightarrow> CreatePollRequest js_out" where
  "CreatePollRequest_fromJSON = f_obj createBaseCreatePollRequest
    [f_field (f_first [(''sessionId'', js_String), (''session_id'', js_String)] '''') (\<lambda>v m. m\<lparr>CreatePollRequest_sessionId := v\<rparr>),
     f_field (f_first [(''threadId'', js_String), (''thread_id'', js_String)] '''') (\<lambda>v m. m\<lparr>CreatePollRequest_threadId := v\<rparr>),
     f_field (f_first [(''question'', js_String)] '''') (\<lambda>v m. m\<lparr>CreatePollRequest_question := v\<rparr>),
     f_field (f_array [''options''] js_String) (\<lambda>v m. m\<lparr>CreatePollRequest_options := v\<rparr>)]"

definition CreatePollRequest_fromPartial :: "js_any \<Rightarrow> CreatePollRequest js_out" where
  "CreatePollRequest_fromPartial = f_obj createBaseCreatePollRequest
    [f_field (f_first [(''sessionId'', p_string)] '''') (\<lambda>v m. m\<lparr>CreatePollRequest_sessionId := v\<rparr>),
     f_field (f_first [(''threadId'', p_string)] '''') (\<lambda>v m. m\<lparr>CreatePollRequest_threadId := v\<rparr>),
     f_field (f_first [(''question'', p_string)] '''') (\<lambda>v m. m\<lparr>CreatePollRequest_question := v\<rparr>),
     f_field (p_array ''options'' p_string) (\<lambda>v m. m\<lparr>CreatePollRequest_options := v\<rparr>)]"

definition CreatePollRequest_create :: "js_any \<Rightarrow> CreatePollRequest js_out" where
  "CreatePollRequest_create = create_with CreatePollRequest_fromPartial"

lemma CreatePollRequest_json:
  "json_rt CreatePollRequest_toJSON CreatePollRequest_fromJSON m"
  unfolding json_rt_def
proof (intro allI impI)
  fix J
  assume to: "CreatePollRequest_toJSON m = Returned J"
  have d: "distinct ([''sessionId'', ''threadId'', ''question'', ''options''] @ [''session_id'', ''thread_id''])"
    by code_simp
  note all = t_objD [OF to [unfolded CreatePollRequest_toJSON_def] _ d, unfolded t_names, OF refl]
  note N = all [THEN conjunct2, unfolded names_simps]
  have "CreatePollRequest_fromJSON J = Returned m"
    unfolding CreatePollRequest_fromJSON_def
    by (rule fs_field [OF all [THEN conjunct1]], erule jr_string, simp only: N absent_simps simp_thms,
      erule fs_field, erule jr_string, simp only: N absent_simps simp_thms,
      erule fs_field, erule jr_string, rule absent_Nil,
      erule fs_field, erule jr_strings, assumption, simp only: names_simps,
      rule f_obj_Nil, cases m, simp add: createBaseCreatePollRequest_def)
  with all show "isSet J \<and> CreatePollRequest_fromJSON J = Returned m"
    by (simp add: entries_def)
qed

lemma CreatePollRequest_toJSON_safe [json_rules]: "to_safe (CreatePollRequest_toJSON m)"
  unfolding CreatePollRequest_toJSON_def by (intro json_rules)

subsection \<open>CreatePollResponse\<close>

definition CreatePollResponse_toJSON :: "CreatePollResponse \<Rightarrow> js_any js_out" where
  "CreatePollResponse_toJSON m = t_obj ([])"

definition CreatePollResponse_fromJSON :: "js_any \<Rightarrow> CreatePollResponse js_out" where
  "CreatePollResponse_fromJSON = f_obj createBaseCreatePollResponse
    []"

definition CreatePollResponse_fromPartial :: "js_any \<Rightarrow> CreatePollResponse js_out" where
  "CreatePollResponse_fromPartial = f_obj createBaseCreatePollResponse
    []"

definition CreatePollResponse_create :: "js_any \<Rightarrow> CreatePollResponse js_out" where
  "CreatePollResponse_create = create_with CreatePollResponse_fromPartial"

lemma CreatePollResponse_json:
  "json_rt CreatePollResponse_toJSON CreatePollResponse_fromJSON m"
  unfolding json_rt_def
proof (intro allI impI)
  fix J
  assume to: "CreatePollResponse_toJSON m = Returned J"
  have d: "distinct (([] :: string list) @ [])"
    by simp
  note all = t_objD [OF to [unfolded CreatePollResponse_toJSON_def] _ d, unfolded t_names, OF refl]
  have "CreatePollResponse_fromJSON J = Returned m"
    unfolding CreatePollResponse_fromJSON_def
    by (rule f_obj_Nil, cases m, simp add: createBaseCreatePollResponse_def)
  with all show "isSet J \<and> CreatePollResponse_fromJSON J = Returned m"
    by (simp add: entries_def)
qed

lemma CreatePollResponse_toJSON_safe [json_rules]: "to_safe (CreatePollResponse_toJSON m)"
  unfolding CreatePollResponse_toJSON_def by (intro json_rules)

subsection \<open>VotePollRequest\<close>

definition VotePollRequest_toJSON :: "VotePollRequest \<Rightarrow> js_any js_out" where
  "VotePollRequest_toJSON m = t_obj (
    [(''sessionId'', t_if (VotePollRequest_sessionId m \<noteq> '''') (AStr (VotePollRequest_sessionId m))),
     (''threadId'', t_if (VotePollRequest_threadId m \<noteq> '''') (AStr (VotePollRequest_threadId m))),
     (''pollId'', t_if (VotePollRequest_pollId m \<noteq> '''') (AStr (VotePollRequest_pollId m))),
     (''optionIds'', t_list (VotePollRequest_optionIds m) (\<lambda>x. Returned (AStr x)))])"

definition VotePollRequest_fromJSON :: "js_any \<Rightarrow> VotePollRequest js_out" where
  "VotePollRequest_fromJSON = f_obj createBaseVotePollRequest
    [f_field (f_first [(''sessionId'', js_String), (''session_id'', js_String)] '''') (\<lambda>v m. m\<lparr>VotePollRequest_sessionId := v\<rparr>),
     f_field (f_first [(''threadId'', js_String), (''thread_id'', js_String)] '''') (\<lambda>v m. m\<lparr>VotePollRequest_threadId := v\<rparr>),
     f_field (f_first [(''pollId'', js_String), (''poll_id'', js_String)] '''') (\<lambda>v m. m\<lparr>VotePollRequest_pollId := v\<rparr>),
     f_field (f_array [''optionIds'', ''option_ids''] js_String) (\<lambda>v m. m\<lparr>VotePollRequest_optionIds := v\<rparr>)]"

definition VotePollRequest_fromPartial :: "js_any \<Rightarrow> VotePollRequest js_out" where
  "VotePollRequest_fromPartial = f_obj createBaseVotePollRequest
    [f_field (f_first [(''sessionId'', p_string)] '''') (\<lambda>v m. m\<lparr>VotePollRequest_sessionId := v\<rparr>),
     f_field (f_first [(''threadId'', p_string)] '''') (\<lambda>v m. m\<lparr>VotePollRequest_threadId := v\<rparr>),
     f_field (f_first [(''pollId'', p_string)] '''') (\<lambda>v m. m\<lparr>VotePollRequest_pollId := v\<rparr>),
     f_field (p_array ''optionIds'' p_string) (\<lambda>v m. m\<lparr>VotePollRequest_optionIds := v\<rparr>)]"

definition VotePollRequest_create :: "js_any \<Rightarrow> VotePollRequest js_out" where
  "VotePollRequest_create = create_with VotePollRequest_fromPartial"

lemma VotePollRequest_json:
  "json_rt VotePollRequest_toJSON VotePollRequest_fromJSON m"
  unfolding json_rt_def
proof (intro allI impI)
  fix J
  assume to: "VotePollRequest_toJSON m = Returned J"
  have d: "distinct ([''sessionId'', ''threadId'', ''pollId'', ''optionIds''] @ [''session_id'', ''thread_id'', ''poll_id'', ''option_ids''])"
    by code_simp
  note all = t_objD [OF to [unfolded VotePollRequest_toJSON_def] _ d, unfolded t_names, OF refl]
  note N = all [THEN conjunct2, unfolded names_simps]
  have "VotePollRequest_fromJSON J = Returned m"
    unfolding VotePollRequest_fromJSON_def
    by (rule fs_field [OF all [THEN conjunct1]], erule jr_string, simp only: N absent_simps simp_thms,
      erule fs_field, erule jr_string, simp only: N absent_simps simp_thms,
      erule fs_field, erule jr_string, simp only: N absent_simps simp_thms,
      erule fs_field, erule jr_strings, assumption, simp only: N names_simps simp_thms,
      rule f_obj_Nil, cases m, simp add: createBaseVotePollRequest_def)
  with all show "isSet J \<and> VotePollRequest_fromJSON J = Returned m"
    by (simp add: entries_def)
qed

lemma VotePollRequest_toJSON_safe [json_rules]: "to_safe (VotePollRequest_toJSON m)"
  unfolding VotePollRequest_toJSON_def by (intro json_rules)

subsection \<open>VotePollResponse\<close>

definition VotePollResponse_toJSON :: "VotePollResponse \<Rightarrow> js_any js_out" where
  "VotePollResponse_toJSON m = t_obj ([])"

definition VotePollResponse_fromJSON :: "js_any \<Rightarrow> VotePollResponse js_out" where
  "VotePollResponse_fromJSON = f_obj createBaseVotePollResponse
    []"

definition VotePollResponse_fromPartial :: "js_any \<Rightarrow> VotePollResponse js_out" where
  "VotePollResponse_fromPartial = f_obj createBaseVotePollResponse
    []"

definition VotePollResponse_create :: "js_any \<Rightarrow> VotePollResponse js_out" where
  "VotePollResponse_create = create_with VotePollResponse_fromPartial"

lemma VotePollResponse_json:
  "json_rt VotePollResponse_toJSON VotePollResponse_fromJSON m"
  unfolding json_rt_def
proof (intro allI impI)
  fix J
  assume to: "VotePollResponse_toJSON m = Returned J"
  have d: "distinct (([] :: string list) @ [])"
    by simp
  note all = t_objD [OF to [unfolded VotePollResponse_toJSON_def] _ d, unfolded t_names, OF refl]
  have "VotePollResponse_fromJSON J = Returned m"
    unfolding VotePollResponse_fromJSON_def
    by (rule f_obj_Nil, cases m, simp add: createBaseVotePollResponse_def)
  with all show "isSet J \<and> VotePollResponse_fromJSON J = Returned m"
    by (simp add: entries_def)
qed

lemma VotePollResponse_toJSON_safe [json_rules]: "to_safe (VotePollResponse_toJSON m)"
  unfolding VotePollResponse_toJSON_def by (intro json_rules)

subsection \<open>ListPinnedMessagesRequest\<close>

definition ListPinnedMessagesRequest_toJSON :: "ListPinnedMessagesRequest \<Rightarrow> js_any js_out" where
  "ListPinnedMessagesRequest_toJSON m = t_obj (
    [(''sessionId'', t_if (ListPinnedMessagesRequest_sessionId m \<noteq> '''') (AStr (ListPinnedMessagesRequest_sessionId m))),
     (''threadId'', t_if (ListPinnedMessagesRequest_threadId m \<noteq> '''') (AStr (ListPinnedMessagesRequest_threadId m)))])"

definition ListPinnedMessagesRequest_fromJSON :: "js_any \<Rightarrow> ListPinnedMessagesRequest js_out" where
  "ListPinnedMessagesRequest_fromJSON = f_obj createBaseListPinnedMessagesRequest
    [f_field (f_first [(''sessionId'', js_String), (''session_id'', js_String)] '''') (\<lambda>v m. m\<lparr>ListPinnedMessagesRequest_sessionId := v\<rparr>),
     f_field (f_first [(''threadId'', js_String), (''thread_id'', js_String)] '''') (\<lambda>v m. m\<lparr>ListPinnedMessagesRequest_threadId := v\<rparr>)]"

definition ListPinnedMessagesRequest_fromPartial :: "js_any \<Rightarrow> ListPinnedMessagesRequest js_out" where
  "ListPinnedMessagesRequest_fromPartial = f_obj createBaseListPinnedMessagesRequest
    [f_field (f_first [(''sessionId'', p_string)] '''') (\<lambda>v m. m\<lparr>ListPinnedMessagesRequest_sessionId := v\<rparr>),
     f_field (f_first [(''threadId'', p_string)] '''') (\<lambda>v m. m\<lparr>ListPinnedMessagesRequest_threadId := v\<rparr>)]"

definition ListPinnedMessagesRequest_create :: "js_any \<Rightarrow> ListPinnedMessagesRequest js_out" where
  "ListPinnedMessagesRequest_create = create_with ListPinnedMessagesRequest_fromPartial"

lemma ListPinnedMessagesRequest_json:
  "json_rt ListPinnedMessagesRequest_toJSON ListPinnedMessagesRequest_fromJSON m"
  unfolding json_rt_def
proof (intro allI impI)
  fix J
  assume to: "ListPinnedMessagesRequest_toJSON m = Returned J"
  have d: "distinct ([''sessionId'', ''threadId''] @ [''session_id'', ''thread_id''])"
    by code_simp
  note all = t_objD [OF to [unfolded ListPinnedMessagesRequest_toJSON_def] _ d, unfolded t_names, OF refl]
  note N = all [THEN conjunct2, unfolded names_simps]
  have "ListPinnedMessagesRequest_fromJSON J = Returned m"
    unfolding ListPinnedMessagesRequest_fromJSON_def
    by (rule fs_field [OF all [THEN conjunct1]], erule jr_string, simp only: N absent_simps simp_thms,
      erule fs_field, erule jr_string, simp only: N absent_simps simp_thms,
      rule f_obj_Nil, cases m, simp add: createBaseListPinnedMessagesRequest_def)
  with all show "isSet J \<and> ListPinnedMessagesRequest_fromJSON J = Returned m"
    by (simp add: entries_def)
qed

lemma ListPinnedMessagesRequest_toJSON_safe [json_rules]: "to_safe (ListPinnedMessagesRequest_toJSON m)"
  unfolding ListPinnedMessagesRequest_toJSON_def by (intro json_rules)

subsection \<open>ListPinnedMessagesResponse\<close>

definition ListPinnedMessagesResponse_toJSON :: "ListPinnedMessagesResponse \<Rightarrow> js_any js_out" where
  "ListPinnedMessagesResponse_toJSON m = t_obj (
    [(''messages'', t_list (ListPinnedMessagesResponse_messages m) PinnedMessage_toJSON)])"

definition ListPinnedMessagesResponse_fromJSON :: "js_any \<Rightarrow> ListPinnedMessagesResponse js_out" where
  "ListPinnedMessagesResponse_fromJSON = f_obj createBaseListPinnedMessagesResponse
    [f_field (f_array [''messages''] PinnedMessage_fromJSON) (\<lambda>v m. m\<lparr>ListPinnedMessagesResponse_messages := v\<rparr>)]"

definition ListPinnedMessagesResponse_fromPartial :: "js_any \<Rightarrow> ListPinnedMessagesResponse js_out" where
  "ListPinnedMessagesResponse_fromPartial = f_obj createBaseListPinnedMessagesResponse
    [f_field (p_array ''messages'' PinnedMessage_fromPartial) (\<lambda>v m. m\<lparr>ListPinnedMessagesResponse_messages := v\<rparr>)]"

definition ListPinnedMessagesResponse_create :: "js_any \<Rightarrow> ListPinnedMessagesResponse js_out" where
  "ListPinnedMessagesResponse_create = create_with ListPinnedMessagesResponse_fromPartial"

definition ListPinnedMessagesResponse_json_ok :: "ListPinnedMessagesResponse \<Rightarrow> bool" where
  "ListPinnedMessagesResponse_json_ok m \<longleftrightarrow> list_all PinnedMessage_json_ok (ListPinnedMessagesResponse_messages m)"

lemma ListPinnedMessagesResponse_json:
  assumes ok: "ListPinnedMessagesResponse_json_ok m"
  shows "json_rt ListPinnedMessagesResponse_toJSON ListPinnedMessagesResponse_fromJSON m"
  unfolding json_rt_def
proof (intro allI impI)
  fix J
  assume to: "ListPinnedMessagesResponse_toJSON m = Returned J"
  have d: "distinct ([''messages''] @ [])"
    by code_simp
  note all = t_objD [OF to [unfolded ListPinnedMessagesResponse_toJSON_def] _ d, unfolded t_names, OF refl]
  have "ListPinnedMessagesResponse_fromJSON J = Returned m"
    unfolding ListPinnedMessagesResponse_fromJSON_def
    by (rule fs_field [OF all [THEN conjunct1]], erule jr_list, assumption, simp only: names_simps, rule PinnedMessage_json, (use ok in \<open>fastforce simp: ListPinnedMessagesResponse_json_ok_def list_all_iff\<close>),
      rule f_obj_Nil, cases m, simp add: createBaseListPinnedMessagesResponse_def)
  with all show "isSet J \<and> ListPinnedMessagesResponse_fromJSON J = Returned m"
    by (simp add: entries_def)
qed

lemma ListPinnedMessagesResponse_toJSON_safe [json_rules]: "to_safe (ListPinnedMessagesResponse_toJSON m)"
  unfolding ListPinnedMessagesResponse_toJSON_def by (intro json_rules)

subsection \<open>GetPollDetailsRequest\<close>

definition GetPollDetailsRequest_toJSON :: "GetPollDetailsRequest \<Rightarrow> js_any js_out" where
  "GetPollDetailsRequest_toJSON m = t_obj (
    [(''sessionId'', t_if (GetPollDetailsRequest_sessionId m \<noteq> '''') (AStr (GetPollDetailsRequest_sessionId m))),
     (''pollId'', t_if (GetPollDetailsRequest_pollId m \<noteq> '''') (AStr (GetPollDetailsRequest_pollId m)))])"

definition GetPollDetailsRequest_fromJSON :: "js_any \<Rightarrow> GetPollDetailsRequest js_out" where
  "GetPollDetailsRequest_fromJSON = f_obj createBaseGetPollDetailsRequest
    [f_field (f_first [(''sessionId'', js_String), (''session_id'', js_String)] '''') (\<lambda>v m. m\<lparr>GetPollDetailsRequest_sessionId := v\<rparr>),
     f_field (f_first [(''pollId'', js_String), (''poll_id'', js_String)] '''') (\<lambda>v m. m\<lparr>GetPollDetailsRequest_pollId := v\<rparr>)]"

definition GetPollDetailsRequest_fromPartial :: "js_any \<Rightarrow> GetPollDetailsRequest js_out" where
  "GetPollDetailsRequest_fromPartial = f_obj createBaseGetPollDetailsRequest
    [f_field (f_first [(''sessionId'', p_string)] '''') (\<lambda>v m. m\<lparr>GetPollDetailsRequest_sessionId := v\<rparr>),
     f_field (f_first [(''pollId'', p_string)] '''') (\<lambda>v m. m\<lparr>GetPollDetailsRequest_pollId := v\<rparr>)]"

definition GetPollDetailsRequest_create :: "js_any \<Rightarrow> GetPollDetailsRequest js_out" where
  "GetPollDetailsRequest_create = create_with GetPollDetailsRequest_fromPartial"

lemma GetPollDetailsRequest_json:
  "json_rt GetPollDetailsRequest_toJSON GetPollDetailsRequest_fromJSON m"
  unfolding json_rt_def
proof (intro allI impI)
  fix J
  assume to: "GetPollDetailsRequest_toJSON m = Returned J"
  have d: "distinct ([''sessionId'', ''pollId''] @ [''session_id'', ''poll_id''])"
    by code_simp
  note all = t_objD [OF to [unfolded GetPollDetailsRequest_toJSON_def] _ d, unfolded t_names, OF refl]
  note N = all [THEN conjunct2, unfolded names_simps]
  have "GetPollDetailsRequest_fromJSON J = Returned m"
    unfolding GetPollDetailsRequest_fromJSON_def
    by (rule fs_field [OF all [THEN conjunct1]], erule jr_string, simp only: N absent_simps simp_thms,
      erule fs_field, erule jr_string, simp only: N absent_simps simp_thms,
      rule f_obj_Nil, cases m, simp add: createBaseGetPollDetailsRequest_def)
  with all show "isSet J \<and> GetPollDetailsRequest_fromJSON J = Returned m"
    by (simp add: entries_def)
qed

lemma GetPollDetailsRequest_toJSON_safe [json_rules]: "to_safe (GetPollDetailsRequest_toJSON m)"
  unfolding GetPollDetailsRequest_toJSON_def by (intro json_rules)

subsection \<open>GetPollDetailsResponse\<close>

definition GetPollDetailsResponse_toJSON :: "GetPollDetailsResponse \<Rightarrow> js_any js_out" where
  "GetPollDetailsResponse_toJSON m = t_obj (
    [(''poll'', t_some (GetPollDetailsResponse_poll m) PollDetails_toJSON)])"

definition GetPollDetailsResponse_fromJSON :: "js_any \<Rightarrow> GetPollDetailsResponse js_out" where
  "GetPollDetailsResponse_fromJSON = f_obj createBaseGetPollDetailsResponse
    [f_field (f_first [(''poll'', \<lambda>x. js_map Some (PollDetails_fromJSON x))] None) (\<lambda>v m. m\<lparr>GetPollDetailsResponse_poll := v\<rparr>)]"

definition GetPollDetailsResponse_fromPartial :: "js_any \<Rightarrow> GetPollDetailsResponse js_out" where
  "GetPollDetailsResponse_fromPartial = f_obj createBaseGetPollDetailsResponse
    [f_field (f_first [(''poll'', \<lambda>x. js_map Some (PollDetails_fromPartial x))] None) (\<lambda>v m. m\<lparr>GetPollDetailsResponse_poll := v\<rparr>)]"

definition GetPollDetailsResponse_create :: "js_any \<Rightarrow> GetPollDetailsResponse js_out" where
  "GetPollDetailsResponse_create = create_with GetPollDetailsResponse_fromPartial"

definition GetPollDetailsResponse_json_ok :: "GetPollDetailsResponse \<Rightarrow> bool" where
  "GetPollDetailsResponse_json_ok m \<longleftrightarrow> pred_option PollDetails_json_ok (GetPollDetailsResponse_poll m)"

lemma GetPollDetailsResponse_json:
  assumes ok: "GetPollDetailsResponse_json_ok m"
  shows "json_rt GetPollDetailsResponse_toJSON GetPollDetailsResponse_fromJSON m"
  unfolding json_rt_def
proof (intro allI impI)
  fix J
  assume to: "GetPollDetailsResponse_toJSON m = Returned J"
  have d: "distinct ([''poll''] @ [])"
    by code_simp
  note all = t_objD [OF to [unfolded GetPollDetailsResponse_toJSON_def] _ d, unfolded t_names, OF refl]
  have "GetPollDetailsResponse_fromJSON J = Returned m"
    unfolding GetPollDetailsResponse_fromJSON_def
    by (rule fs_field [OF all [THEN conjunct1]], erule jr_msg, rule absent_Nil, rule PollDetails_json, (use ok in \<open>fastforce simp: GetPollDetailsResponse_json_ok_def list_all_iff\<close>),
      rule f_obj_Nil, cases m, simp add: createBaseGetPollDetailsResponse_def)
  with all show "isSet J \<and> GetPollDetailsResponse_fromJSON J = Returned m"
    by (simp add: entries_def)
qed

lemma GetPollDetailsResponse_toJSON_safe [json_rules]: "to_safe (GetPollDetailsResponse_toJSON m)"
  unfolding GetPollDetailsResponse_toJSON_def by (intro json_rules)

subsection \<open>SearchMessagesRequest\<close>

definition SearchMessagesRequest_toJSON :: "SearchMessagesRequest \<Rightarrow> js_any js_out" where
  "SearchMessagesRequest_toJSON m = t_obj (
    [(''sessionId'', t_if (SearchMessagesRequest_sessionId m \<noteq> '''') (AStr (SearchMessagesRequest_sessionId m))),
     (''threadId'', t_if (SearchMessagesRequest_threadId m \<noteq> '''') (AStr (SearchMessagesRequest_threadId m))),
     (''query'', t_if (SearchMessagesRequest_query m \<noteq> '''') (AStr (SearchMessagesRequest_query m))),
     (''cursor'', t_some (SearchMessagesRequest_cursor m) (\<lambda>x. Returned (AStr x)))])"

definition SearchMessagesRequest_fromJSON :: "js_any \<Rightarrow> SearchMessagesRequest js_out" where
  "SearchMessagesRequest_fromJSON = f_obj createBaseSearchMessagesRequest
    [f_field (f_first [(''sessionId'', js_String), (''session_id'', js_String)] '''') (\<lambda>v m. m\<lparr>SearchMessagesRequest_sessionId := v\<rparr>),
     f_field (f_first [(''threadId'', js_String), (''thread_id'', js_String)] '''') (\<lambda>v m. m\<lparr>SearchMessagesRequest_threadId := v\<rparr>),
     f_field (f_first [(''query'', js_String)] '''') (\<lambda>v m. m\<lparr>SearchMessagesRequest_query := v\<rparr>),
     f_field (f_first [(''cursor'', \<lambda>x. js_map Some (js_String x))] None) (\<lambda>v m. m\<lparr>SearchMessagesRequest_cursor := v\<rparr>)]"

definition SearchMessagesRequest_fromPartial :: "js_any \<Rightarrow> SearchMessagesRequest js_out" where
  "SearchMessagesRequest_fromPartial = f_obj createBaseSearchMessagesRequest
    [f_field (f_first [(''sessionId'', p_string)] '''') (\<lambda>v m. m\<lparr>SearchMessagesRequest_sessionId := v\<rparr>),
     f_field (f_first [(''threadId'', p_string)] '''') (\<lambda>v m. m\<lparr>SearchMessagesRequest_threadId := v\<rparr>),
     f_field (f_first [(''query'', p_string)] '''') (\<lambda>v m. m\<lparr>SearchMessagesRequest_query := v\<rparr>),
     f_field (f_first [(''cursor'', \<lambda>x. js_map Some (p_string x))] None) (\<lambda>v m. m\<lparr>SearchMessagesRequest_cursor := v\<rparr>)]"

definition SearchMessagesRequest_create :: "js_any \<Rightarrow> SearchMessagesRequest js_out" where
  "SearchMessagesRequest_create = create_with SearchMessagesRequest_fromPartial"

lemma SearchMessagesRequest_json:
  "json_rt SearchMessagesRequest_toJSON SearchMessagesRequest_fromJSON m"
  unfolding json_rt_def
proof (intro allI impI)
  fix J
  assume to: "SearchMessagesRequest_toJSON m = Returned J"
  have d: "distinct ([''sessionId'', ''threadId'', ''query'', ''cursor''] @ [''session_id'', ''thread_id''])"
    by code_simp
  note all = t_objD [OF to [unfolded SearchMessagesRequest_toJSON_def] _ d, unfolded t_names, OF refl]
  note N = all [THEN conjunct2, unfolded names_simps]
  have "SearchMessagesRequest_fromJSON J = Returned m"
    unfolding SearchMessagesRequest_fromJSON_def
    by (rule fs_field [OF all [THEN conjunct1]], erule jr_string, simp only: N absent_simps simp_thms,
      erule fs_field, erule jr_string, simp only: N absent_simps simp_thms,
      erule fs_field, erule jr_string, rule absent_Nil,
      erule fs_field, erule jr_opt_string, rule absent_Nil,
      rule f_obj_Nil, cases m, simp add: createBaseSearchMessagesRequest_def)
  with all show "isSet J \<and> SearchMessagesRequest_fromJSON J = Returned m"
    by (simp add: entries_def)
qed

lemma SearchMessagesRequest_toJSON_safe [json_rules]: "to_safe (SearchMessagesRequest_toJSON m)"
  unfolding SearchMessagesRequest_toJSON_def by (intro json_rules)

subsection \<open>SearchMessagesResponse\<close>

definition SearchMessagesResponse_toJSON :: "SearchMessagesResponse \<Rightarrow> js_any js_out" where
  "SearchMessagesResponse_toJSON m = t_obj (
    [(''results'', t_list (SearchMessagesResponse_results m) MessageSearchResult_toJSON),
     (''resultCount'', t_if (SearchMessagesResponse_resultCount m \<noteq> 0) (AStr (string_of_int (SearchMessagesResponse_resultCount m)))),
     (''hasNextPage'', t_if (SearchMessagesResponse_hasNextPage m \<noteq> False) (ABool (SearchMessagesResponse_hasNextPage m))),
     (''nextCursor'', t_some (SearchMessagesResponse_nextCursor m) (\<lambda>x. Returned (AStr x)))])"

definition SearchMessagesResponse_fromJSON :: "js_any \<Rightarrow> SearchMessagesResponse js_out" where
  "SearchMessagesResponse_fromJSON = f_obj createBaseSearchMessagesResponse
    [f_field (f_array [''results''] MessageSearchResult_fromJSON) (\<lambda>v m. m\<lparr>SearchMessagesResponse_results := v\<rparr>),
     f_field (f_first [(''resultCount'', js_BigInt), (''result_count'', js_BigInt)] 0) (\<lambda>v m. m\<lparr>SearchMessagesResponse_resultCount := v\<rparr>),
     f_field (f_first [(''hasNextPage'', \<lambda>x. Returned (js_Boolean x)), (''has_next_page'', \<lambda>x. Returned (js_Boolean x))] False) (\<lambda>v m. m\<lparr>SearchMessagesResponse_hasNextPage := v\<rparr>),
     f_field (f_first [(''nextCursor'', \<lambda>x. js_map Some (js_String x)), (''next_cursor'', \<lambda>x. js_map Some (js_String x))] None) (\<lambda>v m. m\<lparr>SearchMessagesResponse_nextCursor := v\<rparr>)]"

definition SearchMessagesResponse_fromPartial :: "js_any \<Rightarrow> SearchMessagesResponse js_out" where
  "SearchMessagesResponse_fromPartial = f_obj createBaseSearchMessagesResponse
    [f_field (p_array ''results'' MessageSearchResult_fromPartial) (\<lambda>v m. m\<lparr>SearchMessagesResponse_results := v\<rparr>),
     f_field (f_first [(''resultCount'', js_BigInt)] 0) (\<lambda>v m. m\<lparr>SearchMessagesResponse_resultCount := v\<rparr>),
     f_field (f_first [(''hasNextPage'', p_bool)] False) (\<lambda>v m. m\<lparr>SearchMessagesResponse_hasNextPage := v\<rparr>),
     f_field (f_first [(''nextCursor'', \<lambda>x. js_map Some (p_string x))] None) (\<lambda>v m. m\<lparr>SearchMessagesResponse_nextCursor := v\<rparr>)]"

definition SearchMessagesResponse_create :: "js_any \<Rightarrow> SearchMessagesResponse js_out" where
  "SearchMessagesResponse_create = create_with SearchMessagesResponse_fromPartial"

definition SearchMessagesResponse_json_ok :: "SearchMessagesResponse \<Rightarrow> bool" where
  "SearchMessagesResponse_json_ok m \<longleftrightarrow> list_all MessageSearchResult_json_ok (SearchMessagesResponse_results m)"

lemma SearchMessagesResponse_json:
  assumes ok: "SearchMessagesResponse_json_ok m"
  shows "json_rt SearchMessagesResponse_toJSON SearchMessagesResponse_fromJSON m"
  unfolding json_rt_def
proof (intro allI impI)
  fix J
  assume to: "SearchMessagesResponse_toJSON m = Returned J"
  have d: "distinct ([''results'', ''resultCount'', ''hasNextPage'', ''nextCursor''] @ [''result_count'', ''has_next_page'', ''next_cursor''])"
    by code_simp
  note all = t_objD [OF to [unfolded SearchMessagesResponse_toJSON_def] _ d, unfolded t_names, OF refl]
  note N = all [THEN conjunct2, unfolded names_simps]
  have "SearchMessagesResponse_fromJSON J = Returned m"
    unfolding SearchMessagesResponse_fromJSON_def
    by (rule fs_field [OF all [THEN conjunct1]], erule jr_list, assumption, simp only: names_simps, rule MessageSearchResult_json, (use ok in \<open>fastforce simp: SearchMessagesResponse_json_ok_def list_all_iff\<close>),
      erule fs_field, erule jr_bigint, simp only: N absent_simps simp_thms,
      erule fs_field, erule jr_bool, simp only: N absent_simps simp_thms,
      erule fs_field, erule jr_opt_string, simp only: N absent_simps simp_thms,
      rule f_obj_Nil, cases m, simp add: createBaseSearchMessagesResponse_def)
  with all show "isSet J \<and> SearchMessagesResponse_fromJSON J = Returned m"
    by (simp add: entries_def)
qed

lemma SearchMessagesResponse_toJSON_safe [json_rules]: "to_safe (SearchMessagesResponse_toJSON m)"
  unfolding SearchMessagesResponse_toJSON_def by (intro json_rules)

subsection \<open>MuteThreadRequest\<close>

definition MuteThreadRequest_toJSON :: "MuteThreadRequest \<Rightarrow> js_any js_out" where
  "MuteThreadRequest_toJSON m = t_obj (
    [(''sessionId'', t_if (MuteThreadRequest_sessionId m \<noteq> '''') (AStr (MuteThreadRequest_sessionId m))),
     (''threadId'', t_if (MuteThreadRequest_threadId m \<noteq> '''') (AStr (MuteThreadRequest_threadId m))),
     (''duration'', t_some (MuteThreadRequest_duration m) Duration_toJSON),
     (''indefinitely'', t_if (MuteThreadRequest_indefinitely m \<noteq> False) (ABool (MuteThreadRequest_indefinitely m)))])"

definition MuteThreadRequest_fromJSON :: "js_any \<Rightarrow> MuteThreadRequest js_out" where
  "MuteThreadRequest_fromJSON = f_obj createBaseMuteThreadRequest
    [f_field (f_first [(''sessionId'', js_String), (''session_id'', js_String)] '''') (\<lambda>v m. m\<lparr>MuteThreadRequest_sessionId := v\<rparr>),
     f_field (f_first [(''threadId'', js_String), (''thread_id'', js_String)] '''') (\<lambda>v m. m\<lparr>MuteThreadRequest_threadId := v\<rparr>),
     f_field (f_first [(''duration'', \<lambda>x. js_map Some (Duration_fromJSON x))] None) (\<lambda>v m. m\<lparr>MuteThreadRequest_duration := v\<rparr>),
     f_field (f_first [(''indefinitely'', \<lambda>x. Returned (js_Boolean x))] False) (\<lambda>v m. m\<lparr>MuteThreadRequest_indefinitely := v\<rparr>)]"

definition MuteThreadRequest_fromPartial :: "js_any \<Rightarrow> MuteThreadRequest js_out" where
  "MuteThreadRequest_fromPartial = f_obj createBaseMuteThreadRequest
    [f_field (f_first [(''sessionId'', p_string)] '''') (\<lambda>v m. m\<lparr>MuteThreadRequest_sessionId := v\<rparr>),
     f_field (f_first [(''threadId'', p_string)] '''') (\<lambda>v m. m\<lparr>MuteThreadRequest_threadId := v\<rparr>),
     f_field (f_first [(''duration'', \<lambda>x. js_map Some (Duration_fromPartial x))] None) (\<lambda>v m. m\<lparr>MuteThreadRequest_duration := v\<rparr>),
     f_field (f_first [(''indefinitely'', p_bool)] False) (\<lambda>v m. m\<lparr>MuteThreadRequest_indefinitely := v\<rparr>)]"

definition MuteThreadRequest_create :: "js_any \<Rightarrow> MuteThreadRequest js_out" where
  "MuteThreadRequest_create = create_with MuteThreadRequest_fromPartial"

lemma MuteThreadRequest_json:
  "json_rt MuteThreadRequest_toJSON MuteThreadRequest_fromJSON m"
  unfolding json_rt_def
proof (intro allI impI)
  fix J
  assume to: "MuteThreadRequest_toJSON m = Returned J"
  have d: "distinct ([''sessionId'', ''threadId'', ''duration'', ''indefinitely''] @ [''session_id'', ''thread_id''])"
    by code_simp
  note all = t_objD [OF to [unfolded MuteThreadRequest_toJSON_def] _ d, unfolded t_names, OF refl]
  note N = all [THEN conjunct2, unfolded names_simps]
  have "MuteThreadRequest_fromJSON J = Returned m"
    unfolding MuteThreadRequest_fromJSON_def
    by (rule fs_field [OF all [THEN conjunct1]], erule jr_string, simp only: N absent_simps simp_thms,
      erule fs_field, erule jr_string, simp only: N absent_simps simp_thms,
      erule fs_field, erule jr_msg, rule absent_Nil, rule Duration_json,
      erule fs_field, erule jr_bool, rule absent_Nil,
      rule f_obj_Nil, cases m, simp add: createBaseMuteThreadRequest_def)
  with all show "isSet J \<and> MuteThreadRequest_fromJSON J = Returned m"
    by (simp add: entries_def)
qed

lemma MuteThreadRequest_toJSON_safe [json_rules]: "to_safe (MuteThreadRequest_toJSON m)"
  unfolding MuteThreadRequest_toJSON_def by (intro json_rules)

subsection \<open>MuteThreadResponse\<close>

definition MuteThreadResponse_toJSON :: "MuteThreadResponse \<Rightarrow> js_any js_out" where
  "MuteThreadResponse_toJSON m = t_obj ([])"

definition MuteThreadResponse_fromJSON :: "js_any \<Rightarrow> MuteThreadResponse js_out" where
  "MuteThreadResponse_fromJSON = f_obj createBaseMuteThreadResponse
    []"

definition MuteThreadResponse_fromPartial :: "js_any \<Rightarrow> MuteThreadResponse js_out" where
  "MuteThreadResponse_fromPartial = f_obj createBaseMuteThreadResponse
    []"

definition MuteThreadResponse_create :: "js_any \<Rightarrow> MuteThreadResponse js_out" where
  "MuteThreadResponse_create = create_with MuteThreadResponse_fromPartial"

lemma MuteThreadResponse_json:
  "json_rt MuteThreadResponse_toJSON MuteThreadResponse_fromJSON m"
  unfolding json_rt_def
proof (intro allI impI)
  fix J
  assume to: "MuteThreadResponse_toJSON m = Returned J"
  have d: "distinct (([] :: string list) @ [])"
    by simp
  note all = t_objD [OF to [unfolded MuteThreadResponse_toJSON_def] _ d, unfolded t_names, OF refl]
  have "MuteThreadResponse_fromJSON J = Returned m"
    unfolding MuteThreadResponse_fromJSON_def
    by (rule f_obj_Nil, cases m, simp add: createBaseMuteThreadResponse_def)
  with all show "isSet J \<and> MuteThreadResponse_fromJSON J = Returned m"
    by (simp add: entries_def)
qed

lemma MuteThreadResponse_toJSON_safe [json_rules]: "to_safe (MuteThreadResponse_toJSON m)"
  unfolding MuteThreadResponse_toJSON_def by (intro json_rules)

subsection \<open>MuteThreadCallsRequest\<close>

definition MuteThreadCallsRequest_toJSON :: "MuteThreadCallsRequest \<Rightarrow> js_any js_out" where
  "MuteThreadCallsRequest_toJSON m = t_obj (
    [(''sessionId'', t_if (MuteThreadCallsRequest_sessionId m \<noteq> '''') (AStr (MuteThreadCallsRequest_sessionId m))),
     (''threadId'', t_if (MuteThreadCallsRequest_threadId m \<noteq> '''') (AStr (MuteThreadCallsRequest_threadId m))),
     (''duration'', t_some (MuteThreadCallsRequest_duration m) Duration_toJSON),
     (''indefinitely'', t_if (MuteThreadCallsRequest_indefinitely m \<noteq> False) (ABool (MuteThreadCallsRequest_indefinitely m)))])"

definition MuteThreadCallsRequest_fromJSON :: "js_any \<Rightarrow> MuteThreadCallsRequest js_out" where
  "MuteThreadCallsRequest_fromJSON = f_obj createBaseMuteThreadCallsRequest
    [f_field (f_first [(''sessionId'', js_String), (''session_id'', js_String)] '''') (\<lambda>v m. m\<lparr>MuteThreadCallsRequest_sessionId := v\<rparr>),
     f_field (f_first [(''threadId'', js_String), (''thread_id'', js_String)] '''') (\<lambda>v m. m\<lparr>MuteThreadCallsRequest_threadId := v\<rparr>),
     f_field (f_first [(''duration'', \<lambda>x. js_map Some (Duration_fromJSON x))] None) (\<lambda>v m. m\<lparr>MuteThreadCallsRequest_duration := v\<rparr>),
     f_field (f_first [(''indefinitely'', \<lambda>x. Returned (js_Boolean x))] False) (\<lambda>v m. m\<lparr>MuteThreadCallsRequest_indefinitely := v\<rparr>)]"

definition MuteThreadCallsRequest_fromPartial :: "js_any \<Rightarrow> MuteThreadCallsRequest js_out" where
  "MuteThreadCallsRequest_fromPartial = f_obj createBaseMuteThreadCallsRequest
    [f_field (f_first [(''sessionId'', p_string)] '''') (\<lambda>v m. m\<lparr>MuteThreadCallsRequest_sessionId := v\<rparr>),
     f_field (f_first [(''threadId'', p_string)] '''') (\<lambda>v m. m\<lparr>MuteThreadCallsRequest_threadId := v\<rparr>),
     f_field (f_first [(''duration'', \<lambda>x. js_map Some (Duration_fromPartial x))] None) (\<lambda>v m. m\<lparr>MuteThreadCallsRequest_duration := v\<rparr>),
     f_field (f_first [(''indefinitely'', p_bool)] False) (\<lambda>v m. m\<lparr>MuteThreadCallsRequest_indefinitely := v\<rparr>)]"

definition MuteThreadCallsRequest_create :: "js_any \<Rightarrow> MuteThreadCallsRequest js_out" where
  "MuteThreadCallsRequest_create = create_with MuteThreadCallsRequest_fromPartial"

lemma MuteThreadCallsRequest_json:
  "json_rt MuteThreadCallsRequest_toJSON MuteThreadCallsRequest_fromJSON m"
  unfolding json_rt_def
proof (intro allI impI)
  fix J
  assume to: "MuteThreadCallsRequest_toJSON m = Returned J"
  have d: "distinct ([''sessionId'', ''threadId'', ''duration'', ''indefinitely''] @ [''session_id'', ''thread_id''])"
    by code_simp
  note all = t_objD [OF to [unfolded MuteThreadCallsRequest_toJSON_def] _ d, unfolded t_names, OF refl]
  note N = all [THEN conjunct2, unfolded names_simps]
  have "MuteThreadCallsRequest_fromJSON J = Returned m"
    unfolding MuteThreadCallsRequest_fromJSON_def
    by (rule fs_field [OF all [THEN conjunct1]], erule jr_string, simp only: N absent_simps simp_thms,
      erule fs_field, erule jr_string, simp only: N absent_simps simp_thms,
      erule fs_field, erule jr_msg, rule absent_Nil, rule Duration_json,
      erule fs_field, erule jr_bool, rule absent_Nil,
      rule f_obj_Nil, cases m, simp add: createBaseMuteThreadCallsRequest_def)
  with all show "isSet J \<and> MuteThreadCallsRequest_fromJSON J = Returned m"
    by (simp add: entries_def)
qed

lemma MuteThreadCallsRequest_toJSON_safe [json_rules]: "to_safe (MuteThreadCallsRequest_toJSON m)"
  unfolding MuteThreadCallsRequest_toJSON_def by (intro json_rules)

subsection \<open>MuteThreadCallsResponse\<close>

definition MuteThreadCallsResponse_toJSON :: "MuteThreadCallsResponse \<Rightarrow> js_any js_out" where
  "MuteThreadCallsResponse_toJSON m = t_obj ([])"

definition MuteThreadCallsResponse_fromJSON :: "js_any \<Rightarrow> MuteThreadCallsResponse js_out" where
  "MuteThreadCallsResponse_fromJSON = f_obj createBaseMuteThreadCallsResponse
    []"

definition MuteThreadCallsResponse_fromPartial :: "js_any \<Rightarrow> MuteThreadCallsResponse js_out" where
  "MuteThreadCallsResponse_fromPartial = f_obj createBaseMuteThreadCallsResponse
    []"

definition MuteThreadCallsResponse_create :: "js_any \<Rightarrow> MuteThreadCallsResponse js_out" where
  "MuteThreadCallsResponse_create = create_with MuteThreadCallsResponse_fromPartial"

lemma MuteThreadCallsResponse_json:
  "json_rt MuteThreadCallsResponse_toJSON MuteThreadCallsResponse_fromJSON m"
  unfolding json_rt_def
proof (intro allI impI)
  fix J
  assume to: "MuteThreadCallsResponse_toJSON m = Returned J"
  have d: "distinct (([] :: string list) @ [])"
    by simp
  note all = t_objD [OF to [unfolded MuteThreadCallsResponse_toJSON_def] _ d, unfolded t_names, OF refl]
  have "MuteThreadCallsResponse_fromJSON J = Returned m"
    unfolding MuteThreadCallsResponse_fromJSON_def
    by (rule f_obj_Nil, cases m, simp add: createBaseMuteThreadCallsResponse_def)
  with all show "isSet J \<and> MuteThreadCallsResponse_fromJSON J = Returned m"
    by (simp add: entries_def)
qed

lemma MuteThreadCallsResponse_toJSON_safe [json_rules]: "to_safe (MuteThreadCallsResponse_toJSON m)"
  unfolding MuteThreadCallsResponse_toJSON_def by (intro json_rules)

subsection \<open>SetApprovalModeRequest\<close>

definition SetApprovalModeRequest_toJSON :: "SetApprovalModeRequest \<Rightarrow> js_any js_out" where
  "SetApprovalModeRequest_toJSON m = t_obj (
    [(''sessionId'', t_if (SetApprovalModeRequest_sessionId m \<noteq> '''') (AStr (SetApprovalModeRequest_sessionId m))),
     (''threadId'', t_if (SetApprovalModeRequest_threadId m \<noteq> '''') (AStr (SetApprovalModeRequest_threadId m))),
     (''enabled'', t_if (SetApprovalModeRequest_enabled m \<noteq> False) (ABool (SetApprovalModeRequest_enabled m)))])"

definition SetApprovalModeRequest_fromJSON :: "js_any \<Rightarrow> SetApprovalModeRequest js_out" where
  "SetApprovalModeRequest_fromJSON = f_obj createBaseSetApprovalModeRequest
    [f_field (f_first [(''sessionId'', js_String), (''session_id'', js_String)] '''') (\<lambda>v m. m\<lparr>SetApprovalModeRequest_sessionId := v\<rparr>),
     f_field (f_first [(''threadId'', js_String), (''thread_id'', js_String)] '''') (\<lambda>v m. m\<lparr>SetApprovalModeRequest_threadId := v\<rparr>),
     f_field (f_first [(''enabled'', \<lambda>x. Returned (js_Boolean x))] False) (\<lambda>v m. m\<lparr>SetApprovalModeRequest_enabled := v\<rparr>)]"

definition SetApprovalModeRequest_fromPartial :: "js_any \<Rightarrow> SetApprovalModeRequest js_out" where
  "SetApprovalModeRequest_fromPartial = f_obj createBaseSetApprovalModeRequest
    [f_field (f_first [(''sessionId'', p_string)] '''') (\<lambda>v m. m\<lparr>SetApprovalModeRequest_sessionId := v\<rparr>),
     f_field (f_first [(''threadId'', p_string)] '''') (\<lambda>v m. m\<lparr>SetApprovalModeRequest_threadId := v\<rparr>),
     f_field (f_first [(''enabled'', p_bool)] False) (\<lambda>v m. m\<lparr>SetApprovalModeRequest_enabled := v\<rparr>)]"

definition SetApprovalModeRequest_create :: "js_any \<Rightarrow> SetApprovalModeRequest js_out" where
  "SetApprovalModeRequest_create = create_with SetApprovalModeRequest_fromPartial"

lemma SetApprovalModeRequest_json:
  "json_rt SetApprovalModeRequest_toJSON SetApprovalModeRequest_fromJSON m"
  unfolding json_rt_def
proof (intro allI impI)
  fix J
  assume to: "SetApprovalModeRequest_toJSON m = Returned J"
  have d: "distinct ([''sessionId'', ''threadId'', ''enabled''] @ [''session_id'', ''thread_id''])"
    by code_simp
  note all = t_objD [OF to [unfolded SetApprovalModeRequest_toJSON_def] _ d, unfolded t_names, OF refl]
  note N = all [THEN conjunct2, unfolded names_simps]
  have "SetApprovalModeRequest_fromJSON J = Returned m"
    unfolding SetApprovalModeRequest_fromJSON_def
    by (rule fs_field [OF all [THEN conjunct1]], erule jr_string, simp only: N absent_simps simp_thms,
      erule fs_field, erule jr_string, simp only: N absent_simps simp_thms,
      erule fs_field, erule jr_bool, rule absent_Nil,
      rule f_obj_Nil, cases m, simp add: createBaseSetApprovalModeRequest_def)
  with all show "isSet J \<and> SetApprovalModeRequest_fromJSON J = Returned m"
    by (simp add: entries_def)
qed

lemma SetApprovalModeRequest_toJSON_safe [json_rules]: "to_safe (SetApprovalModeRequest_toJSON m)"
  unfolding SetApprovalModeRequest_toJSON_def by (intro json_rules)

subsection \<open>SetApprovalModeResponse\<close>

definition SetApprovalModeResponse_toJSON :: "SetApprovalModeResponse \<Rightarrow> js_any js_out" where
  "SetApprovalModeResponse_toJSON m = t_obj ([])"

definition SetApprovalModeResponse_fromJSON :: "js_any \<Rightarrow> SetApprovalModeResponse js_out" where
  "SetApprovalModeResponse_fromJSON = f_obj createBaseSetApprovalModeResponse
    []"

definition SetApprovalModeResponse_fromPartial :: "js_any \<Rightarrow> SetApprovalModeResponse js_out" where
  "SetApprovalModeResponse_fromPartial = f_obj createBaseSetApprovalModeResponse
    []"

definition SetApprovalModeResponse_create :: "js_any \<Rightarrow> SetApprovalModeResponse js_out" where
  "SetApprovalModeResponse_create = create_with SetApprovalModeResponse_fromPartial"

lemma SetApprovalModeResponse_json:
  "json_rt SetApprovalModeResponse_toJSON SetApprovalModeResponse_fromJSON m"
  unfolding json_rt_def
proof (intro allI impI)
  fix J
  assume to: "SetApprovalModeResponse_toJSON m = Returned J"
  have d: "distinct (([] :: string list) @ [])"
    by simp
  note all = t_objD [OF to [unfolded SetApprovalModeResponse_toJSON_def] _ d, unfolded t_names, OF refl]
  have "SetApprovalModeResponse_fromJSON J = Returned m"
    unfolding SetApprovalModeResponse_fromJSON_def
    by (rule f_obj_Nil, cases m, simp add: createBaseSetApprovalModeResponse_def)
  with all show "isSet J \<and> SetApprovalModeResponse_fromJSON J = Returned m"
    by (simp add: entries_def)
qed

lemma SetApprovalModeResponse_toJSON_safe [json_rules]: "to_safe (SetApprovalModeResponse_toJSON m)"
  unfolding SetApprovalModeResponse_toJSON_def by (intro json_rules)

subsection \<open>SetArchivedRequest\<close>

definition SetArchivedRequest_toJSON :: "SetArchivedRequest \<Rightarrow> js_any js_out" where
  "SetArchivedRequest_toJSON m = t_obj (
    [(''sessionId'', t_if (SetArchivedRequest_sessionId m \<noteq> '''') (AStr (SetArchivedRequest_sessionId m))),
     (''threadId'', t_if (SetArchivedRequest_threadId m \<noteq> '''') (AStr (SetArchivedRequest_threadId m))),
     (''archived'', t_if (SetArchivedRequest_archived m \<noteq> False) (ABool (SetArchivedRequest_archived m)))])"

definition SetArchivedRequest_fromJSON :: "js_any \<Rightarrow> SetArchivedRequest js_out" where
  "SetArchivedRequest_fromJSON = f_obj createBaseSetArchivedRequest
    [f_field (f_first [(''sessionId'', js_String), (''session_id'', js_String)] '''') (\<lambda>v m. m\<lparr>SetArchivedRequest_sessionId := v\<rparr>),
     f_field (f_first [(''threadId'', js_String), (''thread_id'', js_String)] '''') (\<lambda>v m. m\<lparr>SetArchivedRequest_threadId := v\<rparr>),
     f_field (f_first [(''archived'', \<lambda>x. Returned (js_Boolean x))] False) (\<lambda>v m. m\<lparr>SetArchivedRequest_archived := v\<rparr>)]"

definition SetArchivedRequest_fromPartial :: "js_any \<Rightarrow> SetArchivedRequest js_out" where
  "SetArchivedRequest_fromPartial = f_obj createBaseSetArchivedRequest
    [f_field (f_first [(''sessionId'', p_string)] '''') (\<lambda>v m. m\<lparr>SetArchivedRequest_sessionId := v\<rparr>),
     f_field (f_first [(''threadId'', p_string)] '''') (\<lambda>v m. m\<lparr>SetArchivedRequest_threadId := v\<rparr>),
     f_field (f_first [(''archived'', p_bool)] False) (\<lambda>v m. m\<lparr>SetArchivedRequest_archived := v\<rparr>)]"

definition SetArchivedRequest_create :: "js_any \<Rightarrow> SetArchivedRequest js_out" where
  "SetArchivedRequest_create = create_with SetArchivedRequest_fromPartial"

lemma SetArchivedRequest_json:
  "json_rt SetArchivedRequest_toJSON SetArchivedRequest_fromJSON m"
  unfolding json_rt_def
proof (intro allI impI)
  fix J
  assume to: "SetArchivedRequest_toJSON m = Returned J"
  have d: "distinct ([''sessionId'', ''threadId'', ''archived''] @ [''session_id'', ''thread_id''])"
    by code_simp
  note all = t_objD [OF to [unfolded SetArchivedRequest_toJSON_def] _ d, unfolded t_names, OF refl]
  note N = all [THEN conjunct2, unfolded names_simps]
  have "SetArchivedRequest_fromJSON J = Returned m"
    unfolding SetArchivedRequest_fromJSON_def
    by (rule fs_field [OF all [THEN conjunct1]], erule jr_string, simp only: N absent_simps simp_thms,
      erule fs_field, erule jr_string, simp only: N absent_simps simp_thms,
      erule fs_field, erule jr_bool, rule absent_Nil,
      rule f_obj_Nil, cases m, simp add: createBaseSetArchivedRequest_def)
  with all show "isSet J \<and> SetArchivedRequest_fromJSON J = Returned m"
    by (simp add: entries_def)
qed

lemma SetArchivedRequest_toJSON_safe [json_rules]: "to_safe (SetArchivedRequest_toJSON m)"
  unfolding SetArchivedRequest_toJSON_def by (intro json_rules)

subsection \<open>SetArchivedResponse\<close>

definition SetArchivedResponse_toJSON :: "SetArchivedResponse \<Rightarrow> js_any js_out" where
  "SetArchivedResponse_toJSON m = t_obj ([])"

definition SetArchivedResponse_fromJSON :: "js_any \<Rightarrow> SetArchivedResponse js_out" where
  "SetArchivedResponse_fromJSON = f_obj createBaseSetArchivedResponse
    []"

definition SetArchivedResponse_fromPartial :: "js_any \<Rightarrow> SetArchivedResponse js_out" where
  "SetArchivedResponse_fromPartial = f_obj createBaseSetArchivedResponse
    []"

definition SetArchivedResponse_create :: "js_any \<Rightarrow> SetArchivedResponse js_out" where
  "SetArchivedResponse_create = create_with SetArchivedResponse_fromPartial"

lemma SetArchivedResponse_json:
  "json_rt SetArchivedResponse_toJSON SetArchivedResponse_fromJSON m"
  unfolding json_rt_def
proof (intro allI impI)
  fix J
  assume to: "SetArchivedResponse_toJSON m = Returned J"
  have d: "distinct (([] :: string list) @ [])"
    by simp
  note all = t_objD [OF to [unfolded SetArchivedResponse_toJSON_def] _ d, unfolded t_names, OF refl]
  have "SetArchivedResponse_fromJSON J = Returned m"
    unfolding SetArchivedResponse_fromJSON_def
    by (rule f_obj_Nil, cases m, simp add: createBaseSetArchivedResponse_def)
  with all show "isSet J \<and> SetArchivedResponse_fromJSON J = Returned m"
    by (simp add: entries_def)
qed

lemma SetArchivedResponse_toJSON_safe [json_rules]: "to_safe (SetArchivedResponse_toJSON m)"
  unfolding SetArchivedResponse_toJSON_def by (intro json_rules)

subsection \<open>SetMessagePinnedRequest\<close>

definition SetMessagePinnedRequest_toJSON :: "SetMessagePinnedRequest \<Rightarrow> js_any js_out" where
  "SetMessagePinnedRequest_toJSON m = t_obj (
    [(''sessionId'', t_if (SetMessagePinnedRequest_sessionId m \<noteq> '''') (AStr (SetMessagePinnedRequest_sessionId m))),
     (''threadId'', t_if (SetMessagePinnedRequest_threadId m \<noteq> '''') (AStr (SetMessagePinnedRequest_threadId m))),
     (''messageId'', t_if (SetMessagePinnedRequest_messageId m \<noteq> '''') (AStr (SetMessagePinnedRequest_messageId m))),
     (''pinned'', t_if (SetMessagePinnedRequest_pinned m \<noteq> False) (ABool (SetMessagePinnedRequest_pinned m)))])"

definition SetMessagePinnedRequest_fromJSON :: "js_any \<Rightarrow> SetMessagePinnedRequest js_out" where
  "SetMessagePinnedRequest_fromJSON = f_obj createBaseSetMessagePinnedRequest
    [f_field (f_first [(''sessionId'', js_String), (''session_id'', js_String)] '''') (\<lambda>v m. m\<lparr>SetMessagePinnedRequest_sessionId := v\<rparr>),
     f_field (f_first [(''threadId'', js_String), (''thread_id'', js_String)] '''') (\<lambda>v m. m\<lparr>SetMessagePinnedRequest_threadId := v\<rparr>),
     f_field (f_first [(''messageId'', js_String), (''message_id'', js_String)] '''') (\<lambda>v m. m\<lparr>SetMessagePinnedRequest_messageId := v\<rparr>),
     f_field (f_first [(''pinned'', \<lambda>x. Returned (js_Boolean x))] False) (\<lambda>v m. m\<lparr>SetMessagePinnedRequest_pinned := v\<rparr>)]"

definition SetMessagePinnedRequest_fromPartial :: "js_any \<Rightarrow> SetMessagePinnedRequest js_out" where
  "SetMessagePinnedRequest_fromPartial = f_obj createBaseSetMessagePinnedRequest
    [f_field (f_first [(''sessionId'', p_string)] '''') (\<lambda>v m. m\<lparr>SetMessagePinnedRequest_sessionId := v\<rparr>),
     f_field (f_first [(''threadId'', p_string)] '''') (\<lambda>v m. m\<lparr>SetMessagePinnedRequest_threadId := v\<rparr>),
     f_field (f_first [(''messageId'', p_string)] '''') (\<lambda>v m. m\<lparr>SetMessagePinnedRequest_messageId := v\<rparr>),
     f_field (f_first [(''pinned'', p_bool)] False) (\<lambda>v m. m\<lparr>SetMessagePinnedRequest_pinned := v\<rparr>)]"

definition SetMessagePinnedRequest_create :: "js_any \<Rightarrow> SetMessagePinnedRequest js_out" where
  "SetMessagePinnedRequest_create = create_with SetMessagePinnedRequest_fromPartial"

lemma SetMessagePinnedRequest_json:
  "json_rt SetMessagePinnedRequest_toJSON SetMessagePinnedRequest_fromJSON m"
  unfolding json_rt_def
proof (intro allI impI)
  fix J
  assume to: "SetMessagePinnedRequest_toJSON m = Returned J"
  have d: "distinct ([''sessionId'', ''threadId'', ''messageId'', ''pinned''] @ [''session_id'', ''thread_id'', ''message_id''])"
    by code_simp
  note all = t_objD [OF to [unfolded SetMessagePinnedRequest_toJSON_def] _ d, unfolded t_names, OF refl]
  note N = all [THEN conjunct2, unfolded names_simps]
  have "SetMessagePinnedRequest_fromJSON J = Returned m"
    unfolding SetMessagePinnedRequest_fromJSON_def
    by (rule fs_field [OF all [THEN conjunct1]], erule jr_string, simp only: N absent_simps simp_thms,
      erule fs_field, erule jr_string, simp only: N absent_simps simp_thms,
      erule fs_field, erule jr_string, simp only: N absent_simps simp_thms,
      erule fs_field, erule jr_bool, rule absent_Nil,
      rule f_obj_Nil, cases m, simp add: createBaseSetMessagePinnedRequest_def)
  with all show "isSet J \<and> SetMessagePinnedRequest_fromJSON J = Returned m"
    by (simp add: entries_def)
qed

lemma SetMessagePinnedRequest_toJSON_safe [json_rules]: "to_safe (SetMessagePinnedRequest_toJSON m)"
  unfolding SetMessagePinnedRequest_toJSON_def by (intro json_rules)

subsection \<open>SetMessagePinnedResponse\<close>

definition SetMessagePinnedResponse_toJSON :: "SetMessagePinnedResponse \<Rightarrow> js_any js_out" where
  "SetMessagePinnedResponse_toJSON m = t_obj ([])"

definition SetMessagePinnedResponse_fromJSON :: "js_any \<Rightarrow> SetMessagePinnedResponse js_out" where
  "SetMessagePinnedResponse_fromJSON = f_obj createBaseSetMessagePinnedResponse
    []"

definition SetMessagePinnedResponse_fromPartial :: "js_any \<Rightarrow> SetMessagePinnedResponse js_out" where
  "SetMessagePinnedResponse_fromPartial = f_obj createBaseSetMessagePinnedResponse
    []"

definition SetMessagePinnedResponse_create :: "js_any \<Rightarrow> SetMessagePinnedResponse js_out" where
  "SetMessagePinnedResponse_create = create_with SetMessagePinnedResponse_fromPartial"

lemma SetMessagePinnedResponse_json:
  "json_rt SetMessagePinnedResponse_toJSON SetMessagePinnedResponse_fromJSON m"
  unfolding json_rt_def
proof (intro allI impI)
  fix J
  assume to: "SetMessagePinnedResponse_toJSON m = Returned J"
  have d: "distinct (([] :: string list) @ [])"
    by simp
  note all = t_objD [OF to [unfolded SetMessagePinnedResponse_toJSON_def] _ d, unfolded t_names, OF refl]
  have "SetMessagePinnedResponse_fromJSON J = Returned m"
    unfolding SetMessagePinnedResponse_fromJSON_def
    by (rule f_obj_Nil, cases m, simp add: createBaseSetMessagePinnedResponse_def)
  with all show "isSet J \<and> SetMessagePinnedResponse_fromJSON J = Returned m"
    by (simp add: entries_def)
qed

lemma SetMessagePinnedResponse_toJSON_safe [json_rules]: "to_safe (SetMessagePinnedResponse_toJSON m)"
  unfolding SetMessagePinnedResponse_toJSON_def by (intro json_rules)

subsection \<open>SetThreadPhotoMetadata\<close>

definition SetThreadPhotoMetadata_toJSON :: "SetThreadPhotoMetadata \<Rightarrow> js_any js_out" where
  "SetThreadPhotoMetadata_toJSON m = t_obj (
    [(''sessionId'', t_if (SetThreadPhotoMetadata_sessionId m \<noteq> '''') (AStr (SetThreadPhotoMetadata_sessionId m))),
     (''threadId'', t_if (SetThreadPhotoMetadata_threadId m \<noteq> '''') (AStr (SetThreadPhotoMetadata_threadId m))),
     (''name'', t_if (SetThreadPhotoMetadata_name m \<noteq> '''') (AStr (SetThreadPhotoMetadata_name m))),
     (''contentType'', t_if (SetThreadPhotoMetadata_contentType m \<noteq> '''') (AStr (SetThreadPhotoMetadata_contentType m))),
     (''size'', t_if (SetThreadPhotoMetadata_size m \<noteq> 0) (AStr (string_of_int (SetThreadPhotoMetadata_size m)))),
     (''sha256'', t_if (SetThreadPhotoMetadata_sha256 m \<noteq> []) (AStr (base64FromBytes (SetThreadPhotoMetadata_sha256 m))))])"

definition SetThreadPhotoMetadata_fromJSON :: "js_any \<Rightarrow> SetThreadPhotoMetadata js_out" where
  "SetThreadPhotoMetadata_fromJSON = f_obj createBaseSetThreadPhotoMetadata
    [f_field (f_first [(''sessionId'', js_String), (''session_id'', js_String)] '''') (\<lambda>v m. m\<lparr>SetThreadPhotoMetadata_sessionId := v\<rparr>),
     f_field (f_first [(''threadId'', js_String), (''thread_id'', js_String)] '''') (\<lambda>v m. m\<lparr>SetThreadPhotoMetadata_threadId := v\<rparr>),
     f_field (f_first [(''name'', js_String)] '''') (\<lambda>v m. m\<lparr>SetThreadPhotoMetadata_name := v\<rparr>),
     f_field (f_first [(''contentType'', js_String), (''content_type'', js_String)] '''') (\<lambda>v m. m\<lparr>SetThreadPhotoMetadata_contentType := v\<rparr>),
     f_field (f_first [(''size'', js_BigInt)] 0) (\<lambda>v m. m\<lparr>SetThreadPhotoMetadata_size := v\<rparr>),
     f_field (f_first [(''sha256'', bytesFromBase64)] []) (\<lambda>v m. m\<lparr>SetThreadPhotoMetadata_sha256 := v\<rparr>)]"

definition SetThreadPhotoMetadata_fromPartial :: "js_any \<Rightarrow> SetThreadPhotoMetadata js_out" where
  "SetThreadPhotoMetadata_fromPartial = f_obj createBaseSetThreadPhotoMetadata
    [f_field (f_first [(''sessionId'', p_string)] '''') (\<lambda>v m. m\<lparr>SetThreadPhotoMetadata_sessionId := v\<rparr>),
     f_field (f_first [(''threadId'', p_string)] '''') (\<lambda>v m. m\<lparr>SetThreadPhotoMetadata_threadId := v\<rparr>),
     f_field (f_first [(''name'', p_string)] '''') (\<lambda>v m. m\<lparr>SetThreadPhotoMetadata_name := v\<rparr>),
     f_field (f_first [(''contentType'', p_string)] '''') (\<lambda>v m. m\<lparr>SetThreadPhotoMetadata_contentType := v\<rparr>),
     f_field (f_first [(''size'', js_BigInt)] 0) (\<lambda>v m. m\<lparr>SetThreadPhotoMetadata_size := v\<rparr>),
     f_field (f_first [(''sha256'', p_bytes)] []) (\<lambda>v m. m\<lparr>SetThreadPhotoMetadata_sha256 := v\<rparr>)]"

definition SetThreadPhotoMetadata_create :: "js_any \<Rightarrow> SetThreadPhotoMetadata js_out" where
  "SetThreadPhotoMetadata_create = create_with SetThreadPhotoMetadata_fromPartial"

lemma SetThreadPhotoMetadata_json:
  "json_rt SetThreadPhotoMetadata_toJSON SetThreadPhotoMetadata_fromJSON m"
  unfolding json_rt_def
proof (intro allI impI)
  fix J
  assume to: "SetThreadPhotoMetadata_toJSON m = Returned J"
  have d: "distinct ([''sessionId'', ''threadId'', ''name'', ''contentType'', ''size'', ''sha256''] @ [''session_id'', ''thread_id'', ''content_type''])"
    by code_simp
  note all = t_objD [OF to [unfolded SetThreadPhotoMetadata_toJSON_def] _ d, unfolded t_names, OF refl]
  note N = all [THEN conjunct2, unfolded names_simps]
  have "SetThreadPhotoMetadata_fromJSON J = Returned m"
    unfolding SetThreadPhotoMetadata_fromJSON_def
    by (rule fs_field [OF all [THEN conjunct1]], erule jr_string, simp only: N absent_simps simp_thms,
      erule fs_field, erule jr_string, simp only: N absent_simps simp_thms,
      erule fs_field, erule jr_string, rule absent_Nil,
      erule fs_field, erule jr_string, simp only: N absent_simps simp_thms,
      erule fs_field, erule jr_bigint, rule absent_Nil,
      erule fs_field, erule jr_bytes, rule absent_Nil,
      rule f_obj_Nil, cases m, simp add: createBaseSetThreadPhotoMetadata_def)
  with all show "isSet J \<and> SetThreadPhotoMetadata_fromJSON J = Returned m"
    by (simp add: entries_def)
qed

lemma SetThreadPhotoMetadata_toJSON_safe [json_rules]: "to_safe (SetThreadPhotoMetadata_toJSON m)"
  unfolding SetThreadPhotoMetadata_toJSON_def by (intro json_rules)

subsection \<open>SetThreadPhotoRequest\<close>

definition SetThreadPhotoRequest_payload_toJSON :: "SetThreadPhotoRequest_payload_case option \<Rightarrow> to_stmt list" where
  "SetThreadPhotoRequest_payload_toJSON c = [(''metadata'', case c of Some (SetThreadPhotoRequest_payload_metadata x) \<Rightarrow> js_map Some (SetThreadPhotoMetadata_toJSON x) | _ \<Rightarrow> Returned None),
     (''chunk'', case c of Some (SetThreadPhotoRequest_payload_chunk x) \<Rightarrow> js_map Some (MediaChunk_toJSON x) | _ \<Rightarrow> Returned None)]"

definition SetThreadPhotoRequest_payload_fromJSON :: "js_any \<Rightarrow> SetThreadPhotoRequest_payload_case option js_out" where
  "SetThreadPhotoRequest_payload_fromJSON = f_first [(''metadata'', \<lambda>x. js_map (\<lambda>y. Some (SetThreadPhotoRequest_payload_metadata y)) (SetThreadPhotoMetadata_fromJSON x)),
     (''chunk'', \<lambda>x. js_map (\<lambda>y. Some (SetThreadPhotoRequest_payload_chunk y)) (MediaChunk_fromJSON x))] None"

definition SetThreadPhotoRequest_toJSON :: "SetThreadPhotoRequest \<Rightarrow> js_any js_out" where
  "SetThreadPhotoRequest_toJSON m = t_obj (SetThreadPhotoRequest_payload_toJSON (SetThreadPhotoRequest_payload m))"

definition SetThreadPhotoRequest_fromJSON :: "js_any \<Rightarrow> SetThreadPhotoRequest js_out" where
  "SetThreadPhotoRequest_fromJSON = f_obj createBaseSetThreadPhotoRequest
    [f_field (SetThreadPhotoRequest_payload_fromJSON) (\<lambda>v m. m\<lparr>SetThreadPhotoRequest_payload := v\<rparr>)]"

definition SetThreadPhotoRequest_fromPartial :: "js_any \<Rightarrow> SetThreadPhotoRequest js_out" where
  "SetThreadPhotoRequest_fromPartial = f_obj createBaseSetThreadPhotoRequest
    [f_field (p_oneof ''payload'' [(''metadata'', \<lambda>x. js_map SetThreadPhotoRequest_payload_metadata (SetThreadPhotoMetadata_fromPartial x)),
         (''chunk'', \<lambda>x. js_map SetThreadPhotoRequest_payload_chunk (MediaChunk_fromPartial x))]) (\<lambda>v m. m\<lparr>SetThreadPhotoRequest_payload := v\<rparr>)]"

definition SetThreadPhotoRequest_create :: "js_any \<Rightarrow> SetThreadPhotoRequest js_out" where
  "SetThreadPhotoRequest_create = create_with SetThreadPhotoRequest_fromPartial"

lemma SetThreadPhotoRequest_payload_names: "map fst (SetThreadPhotoRequest_payload_toJSON c) = [''metadata'', ''chunk'']"
  by (simp add: SetThreadPhotoRequest_payload_toJSON_def)

lemma SetThreadPhotoRequest_payload_json:
    assumes e: "entries J (SetThreadPhotoRequest_payload_toJSON c)"
    shows "SetThreadPhotoRequest_payload_fromJSON J = Returned c"
proof (cases c)
  case None
  then show ?thesis using e by (simp add: SetThreadPhotoRequest_payload_toJSON_def SetThreadPhotoRequest_payload_fromJSON_def entries_simps)
next
  case (Some x)
  show ?thesis
  proof (cases x)
    case (SetThreadPhotoRequest_payload_metadata v)
    then show ?thesis using e Some SetThreadPhotoMetadata_json [of v] by (auto simp: SetThreadPhotoRequest_payload_toJSON_def SetThreadPhotoRequest_payload_fromJSON_def entries_simps json_rt_def)
  next
    case (SetThreadPhotoRequest_payload_chunk v)
    then show ?thesis using e Some MediaChunk_json [of v] by (auto simp: SetThreadPhotoRequest_payload_toJSON_def SetThreadPhotoRequest_payload_fromJSON_def entries_simps json_rt_def)
  qed
qed

lemma SetThreadPhotoRequest_json:
  "json_rt SetThreadPhotoRequest_toJSON SetThreadPhotoRequest_fromJSON m"
  unfolding json_rt_def
proof (intro allI impI)
  fix J
  assume to: "SetThreadPhotoRequest_toJSON m = Returned J"
  have d: "distinct ([''metadata'', ''chunk''] @ [])"
    by code_simp
  note all = t_objD [OF to [unfolded SetThreadPhotoRequest_toJSON_def] _ d, unfolded t_names SetThreadPhotoRequest_payload_names, OF refl]
  have "SetThreadPhotoRequest_fromJSON J = Returned m"
    unfolding SetThreadPhotoRequest_fromJSON_def
    by (rule fs_last [OF all [THEN conjunct1]], erule SetThreadPhotoRequest_payload_json,
      cases m, simp add: createBaseSetThreadPhotoRequest_def)
  with all show "isSet J \<and> SetThreadPhotoRequest_fromJSON J = Returned m"
    by (simp add: entries_def)
qed

lemma SetThreadPhotoRequest_payload_safe [json_rules]: "stmts_safe (SetThreadPhotoRequest_payload_toJSON c)"
  unfolding SetThreadPhotoRequest_payload_toJSON_def by (intro json_rules) (auto split: option.split SetThreadPhotoRequest_payload_case.split intro!: json_rules)

lemma SetThreadPhotoRequest_toJSON_safe [json_rules]: "to_safe (SetThreadPhotoRequest_toJSON m)"
  unfolding SetThreadPhotoRequest_toJSON_def by (intro json_rules)

subsection \<open>SetThreadPhotoResponse\<close>

definition SetThreadPhotoResponse_toJSON :: "SetThreadPhotoResponse \<Rightarrow> js_any js_out" where
  "SetThreadPhotoResponse_toJSON m = t_obj (
    [(''sha256'', t_if (SetThreadPhotoResponse_sha256 m \<noteq> []) (AStr (base64FromBytes (SetThreadPhotoResponse_sha256 m))))])"

definition SetThreadPhotoResponse_fromJSON :: "js_any \<Rightarrow> SetThreadPhotoResponse js_out" where
  "SetThreadPhotoResponse_fromJSON = f_obj createBaseSetThreadPhotoResponse
    [f_field (f_first [(''sha256'', bytesFromBase64)] []) (\<lambda>v m. m\<lparr>SetThreadPhotoResponse_sha256 := v\<rparr>)]"

definition SetThreadPhotoResponse_fromPartial :: "js_any \<Rightarrow> SetThreadPhotoResponse js_out" where
  "SetThreadPhotoResponse_fromPartial = f_obj createBaseSetThreadPhotoResponse
    [f_field (f_first [(''sha256'', p_bytes)] []) (\<lambda>v m. m\<lparr>SetThreadPhotoResponse_sha256 := v\<rparr>)]"

definition SetThreadPhotoResponse_create :: "js_any \<Rightarrow> SetThreadPhotoResponse js_out" where
  "SetThreadPhotoResponse_create = create_with SetThreadPhotoResponse_fromPartial"

lemma SetThreadPhotoResponse_json:
  "json_rt SetThreadPhotoResponse_toJSON SetThreadPhotoResponse_fromJSON m"
  unfolding json_rt_def
proof (intro allI impI)
  fix J
  assume to: "SetThreadPhotoResponse_toJSON m = Returned J"
  have d: "distinct ([''sha256''] @ [])"
    by code_simp
  note all = t_objD [OF to [unfolded SetThreadPhotoResponse_toJSON_def] _ d, unfolded t_names, OF refl]
  have "SetThreadPhotoResponse_fromJSON J = Returned m"
    unfolding SetThreadPhotoResponse_fromJSON_def
    by (rule fs_field [OF all [THEN conjunct1]], erule jr_bytes, rule absent_Nil,
      rule f_obj_Nil, cases m, simp add: createBaseSetThreadPhotoResponse_def)
  with all show "isSet J \<and> SetThreadPhotoResponse_fromJSON J = Returned m"
    by (simp add: entries_def)
qed

lemma SetThreadPhotoResponse_toJSON_safe [json_rules]: "to_safe (SetThreadPhotoResponse_toJSON m)"
  unfolding SetThreadPhotoResponse_toJSON_def by (intro json_rules)

subsection \<open>DeleteThreadRequest\<close>

definition DeleteThreadRequest_toJSON :: "DeleteThreadRequest \<Rightarrow> js_any js_out" where
  "DeleteThreadRequest_toJSON m = t_obj (
    [(''sessionId'', t_if (DeleteThreadRequest_sessionId m \<noteq> '''') (AStr (DeleteThreadRequest_sessionId m))),
     (''threadId'', t_if (DeleteThreadRequest_threadId m \<noteq> '''') (AStr (DeleteThreadRequest_threadId m)))])"

definition DeleteThreadRequest_fromJSON :: "js_any \<Rightarrow> DeleteThreadRequest js_out" where
  "DeleteThreadRequest_fromJSON = f_obj createBaseDeleteThreadRequest
    [f_field (f_first [(''sessionId'', js_String), (''session_id'', js_String)] '''') (\<lambda>v m. m\<lparr>DeleteThreadRequest_sessionId := v\<rparr>),
     f_field (f_first [(''threadId'', js_String), (''thread_id'', js_String)] '''') (\<lambda>v m. m\<lparr>DeleteThreadRequest_threadId := v\<rparr>)]"

definition DeleteThreadRequest_fromPartial :: "js_any \<Rightarrow> DeleteThreadRequest js_out" where
  "DeleteThreadRequest_fromPartial = f_obj createBaseDeleteThreadRequest
    [f_field (f_first [(''sessionId'', p_string)] '''') (\<lambda>v m. m\<lparr>DeleteThreadRequest_sessionId := v\<rparr>),
     f_field (f_first [(''threadId'', p_string)] '''') (\<lambda>v m. m\<lparr>DeleteThreadRequest_threadId := v\<rparr>)]"

definition DeleteThreadRequest_create :: "js_any \<Rightarrow> DeleteThreadRequest js_out" where
  "DeleteThreadRequest_create = create_with DeleteThreadRequest_fromPartial"

lemma DeleteThreadRequest_json:
  "json_rt DeleteThreadRequest_toJSON DeleteThreadRequest_fromJSON m"
  unfolding json_rt_def
proof (intro allI impI)
  fix J
  assume to: "DeleteThreadRequest_toJSON m = Returned J"
  have d: "distinct ([''sessionId'', ''threadId''] @ [''session_id'', ''thread_id''])"
    by code_simp
  note all = t_objD [OF to [unfolded DeleteThreadRequest_toJSON_def] _ d, unfolded t_names, OF refl]
  note N = all [THEN conjunct2, unfolded names_simps]
  have "DeleteThreadRequest_fromJSON J = Returned m"
    unfolding DeleteThreadRequest_fromJSON_def
    by (rule fs_field [OF all [THEN conjunct1]], erule jr_string, simp only: N absent_simps simp_thms,
      erule fs_field, erule jr_string, simp only: N absent_simps simp_thms,
      rule f_obj_Nil, cases m, simp add: createBaseDeleteThreadRequest_def)
  with all show "isSet J \<and> DeleteThreadRequest_fromJSON J = Returned m"
    by (simp add: entries_def)
qed

lemma DeleteThreadRequest_toJSON_safe [json_rules]: "to_safe (DeleteThreadRequest_toJSON m)"
  unfolding DeleteThreadRequest_toJSON_def by (intro json_rules)

subsection \<open>DeleteThreadResponse\<close>

definition DeleteThreadResponse_toJSON :: "DeleteThreadResponse \<Rightarrow> js_any js_out" where
  "DeleteThreadResponse_toJSON m = t_obj ([])"

definition DeleteThreadResponse_fromJSON :: "js_any \<Rightarrow> DeleteThreadResponse js_out" where
  "DeleteThreadResponse_fromJSON = f_obj createBaseDeleteThreadResponse
    []"

definition DeleteThreadResponse_fromPartial :: "js_any \<Rightarrow> DeleteThreadResponse js_out" where
  "DeleteThreadResponse_fromPartial = f_obj createBaseDeleteThreadResponse
    []"

definition DeleteThreadResponse_create :: "js_any \<Rightarrow> DeleteThreadResponse js_out" where
  "DeleteThreadResponse_create = create_with DeleteThreadResponse_fromPartial"

lemma DeleteThreadResponse_json:
  "json_rt DeleteThreadResponse_toJSON DeleteThreadResponse_fromJSON m"
  unfolding json_rt_def
proof (intro allI impI)
  fix J
  assume to: "DeleteThreadResponse_toJSON m = Returned J"
  have d: "distinct (([] :: string list) @ [])"
    by simp
  note all = t_objD [OF to [unfolded DeleteThreadResponse_toJSON_def] _ d, unfolded t_names, OF refl]
  have "DeleteThreadResponse_fromJSON J = Returned m"
    unfolding DeleteThreadResponse_fromJSON_def
    by (rule f_obj_Nil, cases m, simp add: createBaseDeleteThreadResponse_def)
  with all show "isSet J \<and> DeleteThreadResponse_fromJSON J = Returned m"
    by (simp add: entries_def)
qed

lemma DeleteThreadResponse_toJSON_safe [json_rules]: "to_safe (DeleteThreadResponse_toJSON m)"
  unfolding DeleteThreadResponse_toJSON_def by (intro json_rules)

subsection \<open>CreateDMRequest\<close>

definition CreateDMRequest_toJSON :: "CreateDMRequest \<Rightarrow> js_any js_out" where
  "CreateDMRequest_toJSON m = t_obj (
    [(''sessionId'', t_if (CreateDMRequest_sessionId m \<noteq> '''') (AStr (CreateDMRequest_sessionId m))),
     (''userId'', t_if (CreateDMRequest_userId m \<noteq> '''') (AStr (CreateDMRequest_userId m)))])"

definition CreateDMRequest_fromJSON :: "js_any \<Rightarrow> CreateDMRequest js_out" where
  "CreateDMRequest_fromJSON = f_obj createBaseCreateDMRequest
    [f_field (f_first [(''sessionId'', js_String), (''session_id'', js_String)] '''') (\<lambda>v m. m\<lparr>CreateDMRequest_sessionId := v\<rparr>),
     f_field (f_first [(''userId'', js_String), (''user_id'', js_String)] '''') (\<lambda>v m. m\<lparr>CreateDMRequest_userId := v\<rparr>)]"

definition CreateDMRequest_fromPartial :: "js_any \<Rightarrow> CreateDMRequest js_out" where
  "CreateDMRequest_fromPartial = f_obj createBaseCreateDMRequest
    [f_field (f_first [(''sessionId'', p_string)] '''') (\<lambda>v m. m\<lparr>CreateDMRequest_sessionId := v\<rparr>),
     f_field (f_first [(''userId'', p_string)] '''') (\<lambda>v m. m\<lparr>CreateDMRequest_userId := v\<rparr>)]"

definition CreateDMRequest_create :: "js_any \<Rightarrow> CreateDMRequest js_out" where
  "CreateDMRequest_create = create_with CreateDMRequest_fromPartial"

lemma CreateDMRequest_json:
  "json_rt CreateDMRequest_toJSON CreateDMRequest_fromJSON m"
  unfolding json_rt_def
proof (intro allI impI)
  fix J
  assume to: "CreateDMRequest_toJSON m = Returned J"
  have d: "distinct ([''sessionId'', ''userId''] @ [''session_id'', ''user_id''])"
    by code_simp
  note all = t_objD [OF to [unfolded CreateDMRequest_toJSON_def] _ d, unfolded t_names, OF refl]
  note N = all [THEN conjunct2, unfolded names_simps]
  have "CreateDMRequest_fromJSON J = Returned m"
    unfolding CreateDMRequest_fromJSON_def
    by (rule fs_field [OF all [THEN conjunct1]], erule jr_string, simp only: N absent_simps simp_thms,
      erule fs_field, erule jr_string, simp only: N absent_simps simp_thms,
      rule f_obj_Nil, cases m, simp add: createBaseCreateDMRequest_def)
  with all show "isSet J \<and> CreateDMRequest_fromJSON J = Returned m"
    by (simp add: entries_def)
qed

lemma CreateDMRequest_toJSON_safe [json_rules]: "to_safe (CreateDMRequest_toJSON m)"
  unfolding CreateDMRequest_toJSON_def by (intro json_rules)

subsection \<open>CreateDMResponse\<close>

definition CreateDMResponse_toJSON :: "CreateDMResponse \<Rightarrow> js_any js_out" where
  "CreateDMResponse_toJSON m = t_obj (
    [(''threadId'', t_if (CreateDMResponse_threadId m \<noteq> '''') (AStr (CreateDMResponse_threadId m)))])"

definition CreateDMResponse_fromJSON :: "js_any \<Rightarrow> CreateDMResponse js_out" where
  "CreateDMResponse_fromJSON = f_obj createBaseCreateDMResponse
    [f_field (f_first [(''threadId'', js_String), (''thread_id'', js_String)] '''') (\<lambda>v m. m\<lparr>CreateDMResponse_threadId := v\<rparr>)]"

definition CreateDMResponse_fromPartial :: "js_any \<Rightarrow> CreateDMResponse js_out" where
  "CreateDMResponse_fromPartial = f_obj createBaseCreateDMResponse
    [f_field (f_first [(''threadId'', p_string)] '''') (\<lambda>v m. m\<lparr>CreateDMResponse_threadId := v\<rparr>)]"

definition CreateDMResponse_create :: "js_any \<Rightarrow> CreateDMResponse js_out" where
  "CreateDMResponse_create = create_with CreateDMResponse_fromPartial"

lemma CreateDMResponse_json:
  "json_rt CreateDMResponse_toJSON CreateDMResponse_fromJSON m"
  unfolding json_rt_def
proof (intro allI impI)
  fix J
  assume to: "CreateDMResponse_toJSON m = Returned J"
  have d: "distinct ([''threadId''] @ [''thread_id''])"
    by code_simp
  note all = t_objD [OF to [unfolded CreateDMResponse_toJSON_def] _ d, unfolded t_names, OF refl]
  note N = all [THEN conjunct2, unfolded names_simps]
  have "CreateDMResponse_fromJSON J = Returned m"
    unfolding CreateDMResponse_fromJSON_def
    by (rule fs_field [OF all [THEN conjunct1]], erule jr_string, simp only: N absent_simps simp_thms,
      rule f_obj_Nil, cases m, simp add: createBaseCreateDMResponse_def)
  with all show "isSet J \<and> CreateDMResponse_fromJSON J = Returned m"
    by (simp add: entries_def)
qed

lemma CreateDMResponse_toJSON_safe [json_rules]: "to_safe (CreateDMResponse_toJSON m)"
  unfolding CreateDMResponse_toJSON_def by (intro json_rules)

subsection \<open>SearchUsersRequest\<close>

definition SearchUsersRequest_toJSON :: "SearchUsersRequest \<Rightarrow> js_any js_out" where
  "SearchUsersRequest_toJSON m = t_obj (
    [(''sessionId'', t_if (SearchUsersRequest_sessionId m \<noteq> '''') (AStr (SearchUsersRequest_sessionId m))),
     (''query'', t_if (SearchUsersRequest_query m \<noteq> '''') (AStr (SearchUsersRequest_query m)))])"

definition SearchUsersRequest_fromJSON :: "js_any \<Rightarrow> SearchUsersRequest js_out" where
  "SearchUsersRequest_fromJSON = f_obj createBaseSearchUsersRequest
    [f_field (f_first [(''sessionId'', js_String), (''session_id'', js_String)] '''') (\<lambda>v m. m\<lparr>SearchUsersRequest_sessionId := v\<rparr>),
     f_field (f_first [(''query'', js_String)] '''') (\<lambda>v m. m\<lparr>SearchUsersRequest_query := v\<rparr>)]"

definition SearchUsersRequest_fromPartial :: "js_any \<Rightarrow> SearchUsersRequest js_out" where
  "SearchUsersRequest_fromPartial = f_obj createBaseSearchUsersRequest
    [f_field (f_first [(''sessionId'', p_string)] '''') (\<lambda>v m. m\<lparr>SearchUsersRequest_sessionId := v\<rparr>),
     f_field (f_first [(''query'', p_string)] '''') (\<lambda>v m. m\<lparr>SearchUsersRequest_query := v\<rparr>)]"

definition SearchUsersRequest_create :: "js_any \<Rightarrow> SearchUsersRequest js_out" where
  "SearchUsersRequest_create = create_with SearchUsersRequest_fromPartial"

lemma SearchUsersRequest_json:
  "json_rt SearchUsersRequest_toJSON SearchUsersRequest_fromJSON m"
  unfolding json_rt_def
proof (intro allI impI)
  fix J
  assume to: "SearchUsersRequest_toJSON m = Returned J"
  have d: "distinct ([''sessionId'', ''query''] @ [''session_id''])"
    by code_simp
  note all = t_objD [OF to [unfolded SearchUsersRequest_toJSON_def] _ d, unfolded t_names, OF refl]
  note N = all [THEN conjunct2, unfolded names_simps]
  have "SearchUsersRequest_fromJSON J = Returned m"
    unfolding SearchUsersRequest_fromJSON_def
    by (rule fs_field [OF all [THEN conjunct1]], erule jr_string, simp only: N absent_simps simp_thms,
      erule fs_field, erule jr_string, rule absent_Nil,
      rule f_obj_Nil, cases m, simp add: createBaseSearchUsersRequest_def)
  with all show "isSet J \<and> SearchUsersRequest_fromJSON J = Returned m"
    by (simp add: entries_def)
qed

lemma SearchUsersRequest_toJSON_safe [json_rules]: "to_safe (SearchUsersRequest_toJSON m)"
  unfolding SearchUsersRequest_toJSON_def by (intro json_rules)

subsection \<open>SearchUsersResponse\<close>

definition SearchUsersResponse_toJSON :: "SearchUsersResponse \<Rightarrow> js_any js_out" where
  "SearchUsersResponse_toJSON m = t_obj (
    [(''users'', t_list (SearchUsersResponse_users m) User_toJSON)])"

definition SearchUsersResponse_fromJSON :: "js_any \<Rightarrow> SearchUsersResponse js_out" where
  "SearchUsersResponse_fromJSON = f_obj createBaseSearchUsersResponse
    [f_field (f_array [''users''] User_fromJSON) (\<lambda>v m. m\<lparr>SearchUsersResponse_users := v\<rparr>)]"

definition SearchUsersResponse_fromPartial :: "js_any \<Rightarrow> SearchUsersResponse js_out" where
  "SearchUsersResponse_fromPartial = f_obj createBaseSearchUsersResponse
    [f_field (p_array ''users'' User_fromPartial) (\<lambda>v m. m\<lparr>SearchUsersResponse_users := v\<rparr>)]"

definition SearchUsersResponse_create :: "js_any \<Rightarrow> SearchUsersResponse js_out" where
  "SearchUsersResponse_create = create_with SearchUsersResponse_fromPartial"

definition SearchUsersResponse_json_ok :: "SearchUsersResponse \<Rightarrow> bool" where
  "SearchUsersResponse_json_ok m \<longleftrightarrow> list_all User_json_ok (SearchUsersResponse_users m)"

lemma SearchUsersResponse_json:
  assumes ok: "SearchUsersResponse_json_ok m"
  shows "json_rt SearchUsersResponse_toJSON SearchUsersResponse_fromJSON m"
  unfolding json_rt_def
proof (intro allI impI)
  fix J
  assume to: "SearchUsersResponse_toJSON m = Returned J"
  have d: "distinct ([''users''] @ [])"
    by code_simp
  note all = t_objD [OF to [unfolded SearchUsersResponse_toJSON_def] _ d, unfolded t_names, OF refl]
  have "SearchUsersResponse_fromJSON J = Returned m"
    unfolding SearchUsersResponse_fromJSON_def
    by (rule fs_field [OF all [THEN conjunct1]], erule jr_list, assumption, simp only: names_simps, rule User_json, (use ok in \<open>fastforce simp: SearchUsersResponse_json_ok_def list_all_iff\<close>),
      rule f_obj_Nil, cases m, simp add: createBaseSearchUsersResponse_def)
  with all show "isSet J \<and> SearchUsersResponse_fromJSON J = Returned m"
    by (simp add: entries_def)
qed

lemma SearchUsersResponse_toJSON_safe [json_rules]: "to_safe (SearchUsersResponse_toJSON m)"
  unfolding SearchUsersResponse_toJSON_def by (intro json_rules)

subsection \<open>GetContactRequest\<close>

definition GetContactRequest_toJSON :: "GetContactRequest \<Rightarrow> js_any js_out" where
  "GetContactRequest_toJSON m = t_obj (
    [(''sessionId'', t_if (GetContactRequest_sessionId m \<noteq> '''') (AStr (GetContactRequest_sessionId m))),
     (''userId'', t_if (GetContactRequest_userId m \<noteq> '''') (AStr (GetContactRequest_userId m)))])"

definition GetContactRequest_fromJSON :: "js_any \<Rightarrow> GetContactRequest js_out" where
  "GetContactRequest_fromJSON = f_obj createBaseGetContactRequest
    [f_field (f_first [(''sessionId'', js_String), (''session_id'', js_String)] '''') (\<lambda>v m. m\<lparr>GetContactRequest_sessionId := v\<rparr>),
     f_field (f_first [(''userId'', js_String), (''user_id'', js_String)] '''') (\<lambda>v m. m\<lparr>GetContactRequest_userId := v\<rparr>)]"

definition GetContactRequest_fromPartial :: "js_any \<Rightarrow> GetContactRequest js_out" where
  "GetContactRequest_fromPartial = f_obj createBaseGetContactRequest
    [f_field (f_first [(''sessionId'', p_string)] '''') (\<lambda>v m. m\<lparr>GetContactRequest_sessionId := v\<rparr>),
     f_field (f_first [(''userId'', p_string)] '''') (\<lambda>v m. m\<lparr>GetContactRequest_userId := v\<rparr>)]"

definition GetContactRequest_create :: "js_any \<Rightarrow> GetContactRequest js_out" where
  "GetContactRequest_create = create_with GetContactRequest_fromPartial"

lemma GetContactRequest_json:
  "json_rt GetContactRequest_toJSON GetContactRequest_fromJSON m"
  unfolding json_rt_def
proof (intro allI impI)
  fix J
  assume to: "GetContactRequest_toJSON m = Returned J"
  have d: "distinct ([''sessionId'', ''userId''] @ [''session_id'', ''user_id''])"
    by code_simp
  note all = t_objD [OF to [unfolded GetContactRequest_toJSON_def] _ d, unfolded t_names, OF refl]
  note N = all [THEN conjunct2, unfolded names_simps]
  have "GetContactRequest_fromJSON J = Returned m"
    unfolding GetContactRequest_fromJSON_def
    by (rule fs_field [OF all [THEN conjunct1]], erule jr_string, simp only: N absent_simps simp_thms,
      erule fs_field, erule jr_string, simp only: N absent_simps simp_thms,
      rule f_obj_Nil, cases m, simp add: createBaseGetContactRequest_def)
  with all show "isSet J \<and> GetContactRequest_fromJSON J = Returned m"
    by (simp add: entries_def)
qed

lemma GetContactRequest_toJSON_safe [json_rules]: "to_safe (GetContactRequest_toJSON m)"
  unfolding GetContactRequest_toJSON_def by (intro json_rules)

subsection \<open>GetContactResponse\<close>

definition GetContactResponse_toJSON :: "GetContactResponse \<Rightarrow> js_any js_out" where
  "GetContactResponse_toJSON m = t_obj (
    [(''user'', t_some (GetContactResponse_user m) User_toJSON)])"

definition GetContactResponse_fromJSON :: "js_any \<Rightarrow> GetContactResponse js_out" where
  "GetContactResponse_fromJSON = f_obj createBaseGetContactResponse
    [f_field (f_first [(''user'', \<lambda>x. js_map Some (User_fromJSON x))] None) (\<lambda>v m. m\<lparr>GetContactResponse_user := v\<rparr>)]"

definition GetContactResponse_fromPartial :: "js_any \<Rightarrow> GetContactResponse js_out" where
  "GetContactResponse_fromPartial = f_obj createBaseGetContactResponse
    [f_field (f_first [(''user'', \<lambda>x. js_map Some (User_fromPartial x))] None) (\<lambda>v m. m\<lparr>GetContactResponse_user := v\<rparr>)]"

definition GetContactResponse_create :: "js_any \<Rightarrow> GetContactResponse js_out" where
  "GetContactResponse_create = create_with GetContactResponse_fromPartial"

definition GetContactResponse_json_ok :: "GetContactResponse \<Rightarrow> bool" where
  "GetContactResponse_json_ok m \<longleftrightarrow> pred_option User_json_ok (GetContactResponse_user m)"

lemma GetContactResponse_json:
  assumes ok: "GetContactResponse_json_ok m"
  shows "json_rt GetContactResponse_toJSON GetContactResponse_fromJSON m"
  unfolding json_rt_def
proof (intro allI impI)
  fix J
  assume to: "GetContactResponse_toJSON m = Returned J"
  have d: "distinct ([''user''] @ [])"
    by code_simp
  note all = t_objD [OF to [unfolded GetContactResponse_toJSON_def] _ d, unfolded t_names, OF refl]
  have "GetContactResponse_fromJSON J = Returned m"
    unfolding GetContactResponse_fromJSON_def
    by (rule fs_field [OF all [THEN conjunct1]], erule jr_msg, rule absent_Nil, rule User_json, (use ok in \<open>fastforce simp: GetContactResponse_json_ok_def list_all_iff\<close>),
      rule f_obj_Nil, cases m, simp add: createBaseGetContactResponse_def)
  with all show "isSet J \<and> GetContactResponse_fromJSON J = Returned m"
    by (simp add: entries_def)
qed

lemma GetContactResponse_toJSON_safe [json_rules]: "to_safe (GetContactResponse_toJSON m)"
  unfolding GetContactResponse_toJSON_def by (intro json_rules)

subsection \<open>SetAdminRequest\<close>

definition SetAdminRequest_toJSON :: "SetAdminRequest \<Rightarrow> js_any js_out" where
  "SetAdminRequest_toJSON m = t_obj (
    [(''sessionId'', t_if (SetAdminRequest_sessionId m \<noteq> '''') (AStr (SetAdminRequest_sessionId m))),
     (''threadId'', t_if (SetAdminRequest_threadId m \<noteq> '''') (AStr (SetAdminRequest_threadId m))),
     (''userId'', t_if (SetAdminRequest_userId m \<noteq> '''') (AStr (SetAdminRequest_userId m))),
     (''admin'', t_if (SetAdminRequest_admin m \<noteq> False) (ABool (SetAdminRequest_admin m)))])"

definition SetAdminRequest_fromJSON :: "js_any \<Rightarrow> SetAdminRequest js_out" where
  "SetAdminRequest_fromJSON = f_obj createBaseSetAdminRequest
    [f_field (f_first [(''sessionId'', js_String), (''session_id'', js_String)] '''') (\<lambda>v m. m\<lparr>SetAdminRequest_sessionId := v\<rparr>),
     f_field (f_first [(''threadId'', js_String), (''thread_id'', js_String)] '''') (\<lambda>v m. m\<lparr>SetAdminRequest_threadId := v\<rparr>),
     f_field (f_first [(''userId'', js_String), (''user_id'', js_String)] '''') (\<lambda>v m. m\<lparr>SetAdminRequest_userId := v\<rparr>),
     f_field (f_first [(''admin'', \<lambda>x. Returned (js_Boolean x))] False) (\<lambda>v m. m\<lparr>SetAdminRequest_admin := v\<rparr>)]"

definition SetAdminRequest_fromPartial :: "js_any \<Rightarrow> SetAdminRequest js_out" where
  "SetAdminRequest_fromPartial = f_obj createBaseSetAdminRequest
    [f_field (f_first [(''sessionId'', p_string)] '''') (\<lambda>v m. m\<lparr>SetAdminRequest_sessionId := v\<rparr>),
     f_field (f_first [(''threadId'', p_string)] '''') (\<lambda>v m. m\<lparr>SetAdminRequest_threadId := v\<rparr>),
     f_field (f_first [(''userId'', p_string)] '''') (\<lambda>v m. m\<lparr>SetAdminRequest_userId := v\<rparr>),
     f_field (f_first [(''admin'', p_bool)] False) (\<lambda>v m. m\<lparr>SetAdminRequest_admin := v\<rparr>)]"

definition SetAdminRequest_create :: "js_any \<Rightarrow> SetAdminRequest js_out" where
  "SetAdminRequest_create = create_with SetAdminRequest_fromPartial"

lemma SetAdminRequest_json:
  "json_rt SetAdminRequest_toJSON SetAdminRequest_fromJSON m"
  unfolding json_rt_def
proof (intro allI impI)
  fix J
  assume to: "SetAdminRequest_toJSON m = Returned J"
  have d: "distinct ([''sessionId'', ''threadId'', ''userId'', ''admin''] @ [''session_id'', ''thread_id'', ''user_id''])"
    by code_simp
  note all = t_objD [OF to [unfolded SetAdminRequest_toJSON_def] _ d, unfolded t_names, OF refl]
  note N = all [THEN conjunct2, unfolded names_simps]
  have "SetAdminRequest_fromJSON J = Returned m"
    unfolding SetAdminRequest_fromJSON_def
    by (rule fs_field [OF all [THEN conjunct1]], erule jr_string, simp only: N absent_simps simp_thms,
      erule fs_field, erule jr_string, simp only: N absent_simps simp_thms,
      erule fs_field, erule jr_string, simp only: N absent_simps simp_thms,
      erule fs_field, erule jr_bool, rule absent_Nil,
      rule f_obj_Nil, cases m, simp add: createBaseSetAdminRequest_def)
  with all show "isSet J \<and> SetAdminRequest_fromJSON J = Returned m"
    by (simp add: entries_def)
qed

lemma SetAdminRequest_toJSON_safe [json_rules]: "to_safe (SetAdminRequest_toJSON m)"
  unfolding SetAdminRequest_toJSON_def by (intro json_rules)

subsection \<open>SetAdminResponse\<close>

definition SetAdminResponse_toJSON :: "SetAdminResponse \<Rightarrow> js_any js_out" where
  "SetAdminResponse_toJSON m = t_obj ([])"

definition SetAdminResponse_fromJSON :: "js_any \<Rightarrow> SetAdminResponse js_out" where
  "SetAdminResponse_fromJSON = f_obj createBaseSetAdminResponse
    []"

definition SetAdminResponse_fromPartial :: "js_any \<Rightarrow> SetAdminResponse js_out" where
  "SetAdminResponse_fromPartial = f_obj createBaseSetAdminResponse
    []"

definition SetAdminResponse_create :: "js_any \<Rightarrow> SetAdminResponse js_out" where
  "SetAdminResponse_create = create_with SetAdminResponse_fromPartial"

lemma SetAdminResponse_json:
  "json_rt SetAdminResponse_toJSON SetAdminResponse_fromJSON m"
  unfolding json_rt_def
proof (intro allI impI)
  fix J
  assume to: "SetAdminResponse_toJSON m = Returned J"
  have d: "distinct (([] :: string list) @ [])"
    by simp
  note all = t_objD [OF to [unfolded SetAdminResponse_toJSON_def] _ d, unfolded t_names, OF refl]
  have "SetAdminResponse_fromJSON J = Returned m"
    unfolding SetAdminResponse_fromJSON_def
    by (rule f_obj_Nil, cases m, simp add: createBaseSetAdminResponse_def)
  with all show "isSet J \<and> SetAdminResponse_fromJSON J = Returned m"
    by (simp add: entries_def)
qed

lemma SetAdminResponse_toJSON_safe [json_rules]: "to_safe (SetAdminResponse_toJSON m)"
  unfolding SetAdminResponse_toJSON_def by (intro json_rules)

subsection \<open>SetThreadNameRequest\<close>

definition SetThreadNameRequest_toJSON :: "SetThreadNameRequest \<Rightarrow> js_any js_out" where
  "SetThreadNameRequest_toJSON m = t_obj (
    [(''sessionId'', t_if (SetThreadNameRequest_sessionId m \<noteq> '''') (AStr (SetThreadNameRequest_sessionId m))),
     (''threadId'', t_if (SetThreadNameRequest_threadId m \<noteq> '''') (AStr (SetThreadNameRequest_threadId m))),
     (''name'', t_if (SetThreadNameRequest_name m \<noteq> '''') (AStr (SetThreadNameRequest_name m)))])"

definition SetThreadNameRequest_fromJSON :: "js_any \<Rightarrow> SetThreadNameRequest js_out" where
  "SetThreadNameRequest_fromJSON = f_obj createBaseSetThreadNameRequest
    [f_field (f_first [(''sessionId'', js_String), (''session_id'', js_String)] '''') (\<lambda>v m. m\<lparr>SetThreadNameRequest_sessionId := v\<rparr>),
     f_field (f_first [(''threadId'', js_String), (''thread_id'', js_String)] '''') (\<lambda>v m. m\<lparr>SetThreadNameRequest_threadId := v\<rparr>),
     f_field (f_first [(''name'', js_String)] '''') (\<lambda>v m. m\<lparr>SetThreadNameRequest_name := v\<rparr>)]"

definition SetThreadNameRequest_fromPartial :: "js_any \<Rightarrow> SetThreadNameRequest js_out" where
  "SetThreadNameRequest_fromPartial = f_obj createBaseSetThreadNameRequest
    [f_field (f_first [(''sessionId'', p_string)] '''') (\<lambda>v m. m\<lparr>SetThreadNameRequest_sessionId := v\<rparr>),
     f_field (f_first [(''threadId'', p_string)] '''') (\<lambda>v m. m\<lparr>SetThreadNameRequest_threadId := v\<rparr>),
     f_field (f_first [(''name'', p_string)] '''') (\<lambda>v m. m\<lparr>SetThreadNameRequest_name := v\<rparr>)]"

definition SetThreadNameRequest_create :: "js_any \<Rightarrow> SetThreadNameRequest js_out" where
  "SetThreadNameRequest_create = create_with SetThreadNameRequest_fromPartial"

lemma SetThreadNameRequest_json:
  "json_rt SetThreadNameRequest_toJSON SetThreadNameRequest_fromJSON m"
  unfolding json_rt_def
proof (intro allI impI)
  fix J
  assume to: "SetThreadNameRequest_toJSON m = Returned J"
  have d: "distinct ([''sessionId'', ''threadId'', ''name''] @ [''session_id'', ''thread_id''])"
    by code_simp
  note all = t_objD [OF to [unfolded SetThreadNameRequest_toJSON_def] _ d, unfolded t_names, OF refl]
  note N = all [THEN conjunct2, unfolded names_simps]
  have "SetThreadNameRequest_fromJSON J = Returned m"
    unfolding SetThreadNameRequest_fromJSON_def
    by (rule fs_field [OF all [THEN conjunct1]], erule jr_string, simp only: N absent_simps simp_thms,
      erule fs_field, erule jr_string, simp only: N absent_simps simp_thms,
      erule fs_field, erule jr_string, rule absent_Nil,
      rule f_obj_Nil, cases m, simp add: createBaseSetThreadNameRequest_def)
  with all show "isSet J \<and> SetThreadNameRequest_fromJSON J = Returned m"
    by (simp add: entries_def)
qed

lemma SetThreadNameRequest_toJSON_safe [json_rules]: "to_safe (SetThreadNameRequest_toJSON m)"
  unfolding SetThreadNameRequest_toJSON_def by (intro json_rules)

subsection \<open>SetThreadNameResponse\<close>

definition SetThreadNameResponse_toJSON :: "SetThreadNameResponse \<Rightarrow> js_any js_out" where
  "SetThreadNameResponse_toJSON m = t_obj ([])"

definition SetThreadNameResponse_fromJSON :: "js_any \<Rightarrow> SetThreadNameResponse js_out" where
  "SetThreadNameResponse_fromJSON = f_obj createBaseSetThreadNameResponse
    []"

definition SetThreadNameResponse_fromPartial :: "js_any \<Rightarrow> SetThreadNameResponse js_out" where
  "SetThreadNameResponse_fromPartial = f_obj createBaseSetThreadNameResponse
    []"

definition SetThreadNameResponse_create :: "js_any \<Rightarrow> SetThreadNameResponse js_out" where
  "SetThreadNameResponse_create = create_with SetThreadNameResponse_fromPartial"

lemma SetThreadNameResponse_json:
  "json_rt SetThreadNameResponse_toJSON SetThreadNameResponse_fromJSON m"
  unfolding json_rt_def
proof (intro allI impI)
  fix J
  assume to: "SetThreadNameResponse_toJSON m = Returned J"
  have d: "distinct (([] :: string list) @ [])"
    by simp
  note all = t_objD [OF to [unfolded SetThreadNameResponse_toJSON_def] _ d, unfolded t_names, OF refl]
  have "SetThreadNameResponse_fromJSON J = Returned m"
    unfolding SetThreadNameResponse_fromJSON_def
    by (rule f_obj_Nil, cases m, simp add: createBaseSetThreadNameResponse_def)
  with all show "isSet J \<and> SetThreadNameResponse_fromJSON J = Returned m"
    by (simp add: entries_def)
qed

lemma SetThreadNameResponse_toJSON_safe [json_rules]: "to_safe (SetThreadNameResponse_toJSON m)"
  unfolding SetThreadNameResponse_toJSON_def by (intro json_rules)

subsection \<open>SetThreadEmojiRequest\<close>

definition SetThreadEmojiRequest_toJSON :: "SetThreadEmojiRequest \<Rightarrow> js_any js_out" where
  "SetThreadEmojiRequest_toJSON m = t_obj (
    [(''sessionId'', t_if (SetThreadEmojiRequest_sessionId m \<noteq> '''') (AStr (SetThreadEmojiRequest_sessionId m))),
     (''threadId'', t_if (SetThreadEmojiRequest_threadId m \<noteq> '''') (AStr (SetThreadEmojiRequest_threadId m))),
     (''emoji'', t_if (SetThreadEmojiRequest_emoji m \<noteq> '''') (AStr (SetThreadEmojiRequest_emoji m)))])"

definition SetThreadEmojiRequest_fromJSON :: "js_any \<Rightarrow> SetThreadEmojiRequest js_out" where
  "SetThreadEmojiRequest_fromJSON = f_obj createBaseSetThreadEmojiRequest
    [f_field (f_first [(''sessionId'', js_String), (''session_id'', js_String)] '''') (\<lambda>v m. m\<lparr>SetThreadEmojiRequest_sessionId := v\<rparr>),
     f_field (f_first [(''threadId'', js_String), (''thread_id'', js_String)] '''') (\<lambda>v m. m\<lparr>SetThreadEmojiRequest_threadId := v\<rparr>),
     f_field (f_first [(''emoji'', js_String)] '''') (\<lambda>v m. m\<lparr>SetThreadEmojiRequest_emoji := v\<rparr>)]"

definition SetThreadEmojiRequest_fromPartial :: "js_any \<Rightarrow> SetThreadEmojiRequest js_out" where
  "SetThreadEmojiRequest_fromPartial = f_obj createBaseSetThreadEmojiRequest
    [f_field (f_first [(''sessionId'', p_string)] '''') (\<lambda>v m. m\<lparr>SetThreadEmojiRequest_sessionId := v\<rparr>),
     f_field (f_first [(''threadId'', p_string)] '''') (\<lambda>v m. m\<lparr>SetThreadEmojiRequest_threadId := v\<rparr>),
     f_field (f_first [(''emoji'', p_string)] '''') (\<lambda>v m. m\<lparr>SetThreadEmojiRequest_emoji := v\<rparr>)]"

definition SetThreadEmojiRequest_create :: "js_any \<Rightarrow> SetThreadEmojiRequest js_out" where
  "SetThreadEmojiRequest_create = create_with SetThreadEmojiRequest_fromPartial"

lemma SetThreadEmojiRequest_json:
  "json_rt SetThreadEmojiRequest_toJSON SetThreadEmojiRequest_fromJSON m"
  unfolding json_rt_def
proof (intro allI impI)
  fix J
  assume to: "SetThreadEmojiRequest_toJSON m = Returned J"
  have d: "distinct ([''sessionId'', ''threadId'', ''emoji''] @ [''session_id'', ''thread_id''])"
    by code_simp
  note all = t_objD [OF to [unfolded SetThreadEmojiRequest_toJSON_def] _ d, unfolded t_names, OF refl]
  note N = all [THEN conjunct2, unfolded names_simps]
  have "SetThreadEmojiRequest_fromJSON J = Returned m"
    unfolding SetThreadEmojiRequest_fromJSON_def
    by (rule fs_field [OF all [THEN conjunct1]], erule jr_string, simp only: N absent_simps simp_thms,
      erule fs_field, erule jr_string, simp only: N absent_simps simp_thms,
      erule fs_field, erule jr_string, rule absent_Nil,
      rule f_obj_Nil, cases m, simp add: createBaseSetThreadEmojiRequest_def)
  with all show "isSet J \<and> SetThreadEmojiRequest_fromJSON J = Returned m"
    by (simp add: entries_def)
qed

lemma SetThreadEmojiRequest_toJSON_safe [json_rules]: "to_safe (SetThreadEmojiRequest_toJSON m)"
  unfolding SetThreadEmojiRequest_toJSON_def by (intro json_rules)

subsection \<open>SetThreadEmojiResponse\<close>

definition SetThreadEmojiResponse_toJSON :: "SetThreadEmojiResponse \<Rightarrow> js_any js_out" where
  "SetThreadEmojiResponse_toJSON m = t_obj ([])"

definition SetThreadEmojiResponse_fromJSON :: "js_any \<Rightarrow> SetThreadEmojiResponse js_out" where
  "SetThreadEmojiResponse_fromJSON = f_obj createBaseSetThreadEmojiResponse
    []"

definition SetThreadEmojiResponse_fromPartial :: "js_any \<Rightarrow> SetThreadEmojiResponse js_out" where
  "SetThreadEmojiResponse_fromPartial = f_obj createBaseSetThreadEmojiResponse
    []"

definition SetThreadEmojiResponse_create :: "js_any \<Rightarrow> SetThreadEmojiResponse js_out" where
  "SetThreadEmojiResponse_create = create_with SetThreadEmojiResponse_fromPartial"

lemma SetThreadEmojiResponse_json:
  "json_rt SetThreadEmojiResponse_toJSON SetThreadEmojiResponse_fromJSON m"
  unfolding json_rt_def
proof (intro allI impI)
  fix J
  assume to: "SetThreadEmojiResponse_toJSON m = Returned J"
  have d: "distinct (([] :: string list) @ [])"
    by simp
  note all = t_objD [OF to [unfolded SetThreadEmojiResponse_toJSON_def] _ d, unfolded t_names, OF refl]
  have "SetThreadEmojiResponse_fromJSON J = Returned m"
    unfolding SetThreadEmojiResponse_fromJSON_def
    by (rule f_obj_Nil, cases m, simp add: createBaseSetThreadEmojiResponse_def)
  with all show "isSet J \<and> SetThreadEmojiResponse_fromJSON J = Returned m"
    by (simp add: entries_def)
qed

lemma SetThreadEmojiResponse_toJSON_safe [json_rules]: "to_safe (SetThreadEmojiResponse_toJSON m)"
  unfolding SetThreadEmojiResponse_toJSON_def by (intro json_rules)

subsection \<open>SetNicknameRequest\<close>

definition SetNicknameRequest_toJSON :: "SetNicknameRequest \<Rightarrow> js_any js_out" where
  "SetNicknameRequest_toJSON m = t_obj (
    [(''sessionId'', t_if (SetNicknameRequest_sessionId m \<noteq> '''') (AStr (SetNicknameRequest_sessionId m))),
     (''threadId'', t_if (SetNicknameRequest_threadId m \<noteq> '''') (AStr (SetNicknameRequest_threadId m))),
     (''userId'', t_if (SetNicknameRequest_userId m \<noteq> '''') (AStr (SetNicknameRequest_userId m))),
     (''nickname'', t_if (SetNicknameRequest_nickname m \<noteq> '''') (AStr (SetNicknameRequest_nickname m)))])"

definition SetNicknameRequest_fromJSON :: "js_any \<Rightarrow> SetNicknameRequest js_out" where
  "SetNicknameRequest_fromJSON = f_obj createBaseSetNicknameRequest
    [f_field (f_first [(''sessionId'', js_String), (''session_id'', js_String)] '''') (\<lambda>v m. m\<lparr>SetNicknameRequest_sessionId := v\<rparr>),
     f_field (f_first [(''threadId'', js_String), (''thread_id'', js_String)] '''') (\<lambda>v m. m\<lparr>SetNicknameRequest_threadId := v\<rparr>),
     f_field (f_first [(''userId'', js_String), (''user_id'', js_String)] '''') (\<lambda>v m. m\<lparr>SetNicknameRequest_userId := v\<rparr>),
     f_field (f_first [(''nickname'', js_String)] '''') (\<lambda>v m. m\<lparr>SetNicknameRequest_nickname := v\<rparr>)]"

definition SetNicknameRequest_fromPartial :: "js_any \<Rightarrow> SetNicknameRequest js_out" where
  "SetNicknameRequest_fromPartial = f_obj createBaseSetNicknameRequest
    [f_field (f_first [(''sessionId'', p_string)] '''') (\<lambda>v m. m\<lparr>SetNicknameRequest_sessionId := v\<rparr>),
     f_field (f_first [(''threadId'', p_string)] '''') (\<lambda>v m. m\<lparr>SetNicknameRequest_threadId := v\<rparr>),
     f_field (f_first [(''userId'', p_string)] '''') (\<lambda>v m. m\<lparr>SetNicknameRequest_userId := v\<rparr>),
     f_field (f_first [(''nickname'', p_string)] '''') (\<lambda>v m. m\<lparr>SetNicknameRequest_nickname := v\<rparr>)]"

definition SetNicknameRequest_create :: "js_any \<Rightarrow> SetNicknameRequest js_out" where
  "SetNicknameRequest_create = create_with SetNicknameRequest_fromPartial"

lemma SetNicknameRequest_json:
  "json_rt SetNicknameRequest_toJSON SetNicknameRequest_fromJSON m"
  unfolding json_rt_def
proof (intro allI impI)
  fix J
  assume to: "SetNicknameRequest_toJSON m = Returned J"
  have d: "distinct ([''sessionId'', ''threadId'', ''userId'', ''nickname''] @ [''session_id'', ''thread_id'', ''user_id''])"
    by code_simp
  note all = t_objD [OF to [unfolded SetNicknameRequest_toJSON_def] _ d, unfolded t_names, OF refl]
  note N = all [THEN conjunct2, unfolded names_simps]
  have "SetNicknameRequest_fromJSON J = Returned m"
    unfolding SetNicknameRequest_fromJSON_def
    by (rule fs_field [OF all [THEN conjunct1]], erule jr_string, simp only: N absent_simps simp_thms,
      erule fs_field, erule jr_string, simp only: N absent_simps simp_thms,
      erule fs_field, erule jr_string, simp only: N absent_simps simp_thms,
      erule fs_field, erule jr_string, rule absent_Nil,
      rule f_obj_Nil, cases m, simp add: createBaseSetNicknameRequest_def)
  with all show "isSet J \<and> SetNicknameRequest_fromJSON J = Returned m"
    by (simp add: entries_def)
qed

lemma SetNicknameRequest_toJSON_safe [json_rules]: "to_safe (SetNicknameRequest_toJSON m)"
  unfolding SetNicknameRequest_toJSON_def by (intro json_rules)

subsection \<open>SetNicknameResponse\<close>

definition SetNicknameResponse_toJSON :: "SetNicknameResponse \<Rightarrow> js_any js_out" where
  "SetNicknameResponse_toJSON m = t_obj ([])"

definition SetNicknameResponse_fromJSON :: "js_any \<Rightarrow> SetNicknameResponse js_out" where
  "SetNicknameResponse_fromJSON = f_obj createBaseSetNicknameResponse
    []"

definition SetNicknameResponse_fromPartial :: "js_any \<Rightarrow> SetNicknameResponse js_out" where
  "SetNicknameResponse_fromPartial = f_obj createBaseSetNicknameResponse
    []"

definition SetNicknameResponse_create :: "js_any \<Rightarrow> SetNicknameResponse js_out" where
  "SetNicknameResponse_create = create_with SetNicknameResponse_fromPartial"

lemma SetNicknameResponse_json:
  "json_rt SetNicknameResponse_toJSON SetNicknameResponse_fromJSON m"
  unfolding json_rt_def
proof (intro allI impI)
  fix J
  assume to: "SetNicknameResponse_toJSON m = Returned J"
  have d: "distinct (([] :: string list) @ [])"
    by simp
  note all = t_objD [OF to [unfolded SetNicknameResponse_toJSON_def] _ d, unfolded t_names, OF refl]
  have "SetNicknameResponse_fromJSON J = Returned m"
    unfolding SetNicknameResponse_fromJSON_def
    by (rule f_obj_Nil, cases m, simp add: createBaseSetNicknameResponse_def)
  with all show "isSet J \<and> SetNicknameResponse_fromJSON J = Returned m"
    by (simp add: entries_def)
qed

lemma SetNicknameResponse_toJSON_safe [json_rules]: "to_safe (SetNicknameResponse_toJSON m)"
  unfolding SetNicknameResponse_toJSON_def by (intro json_rules)

end
