(* ===== verification/Json_Properties.thy ===== *)
theory Json_Properties
  imports Codec_Properties Json_Session Json_Health Json_Runtime Json_Facebook Json_E2ee Json_Messenger
begin

text \<open>
  What the JSON methods of the generated messages guarantee, together with the wire format where both
  matter: round trips, the enum tables, where a round trip loses information, and the services besides
  the session service.
\<close>

section \<open>Round trips\<close>

text \<open>C7: \<open>toJSON\<close> of an event response either returns a value from which \<open>fromJSON\<close> rebuilds the response,
with whichever payload, or throws the \<open>RangeError\<close> of an invalid date; nothing else happens.  The condition
is that the enum numbers in the event are declared ones (another number comes back as -1), that the details of
an error have no key \<open>__proto__\<close>, and that its dates are ones a JavaScript \<open>Date\<close> can hold.\<close>

theorem event_json_round_trip:
  assumes "SubscribeEventsResponse_json_ok m"
  shows "case SubscribeEventsResponse_toJSON m of
      Returned J \<Rightarrow> SubscribeEventsResponse_fromJSON J = Returned m
    | Thrown e \<Rightarrow> e = JsRangeError ''Invalid time value''
    | Unmodelled \<Rightarrow> False"
  by (rule json_rt_safe [OF SubscribeEventsResponse_json [OF assms] SubscribeEventsResponse_toJSON_safe])

definition demo_event :: SubscribeEventsResponse where
  "demo_event = \<lparr>SubscribeEventsResponse_event = Some \<lparr>Event_sessionId = ''s1'', Event_sequence = 9007199254740993,
     Event_emittedAt = Some (ValidDate (- 1)),
     Event_payload = Some (Event_payload_typing \<lparr>TypingEvent_threadId = ''t1'', TypingEvent_senderId = '''',
       TypingEvent_typing = True\<rparr>)\<rparr>\<rparr>"

definition demo_event_json :: js_any where
  "demo_event_json = AObj [(''event'', AObj [(''sessionId'', AStr ''s1''), (''sequence'', AStr ''9007199254740993''),
     (''emittedAt'', AStr ''1969-12-31T23:59:59.999Z''),
     (''typing'', AObj [(''threadId'', AStr ''t1''), (''typing'', ABool True)])])]"

lemma demo_event_toJSON: "SubscribeEventsResponse_toJSON demo_event = Returned demo_event_json"
  by code_simp

lemma event_json_round_trip_witness:
  "SubscribeEventsResponse_toJSON demo_event = Returned demo_event_json \<and>
   SubscribeEventsResponse_fromJSON demo_event_json = Returned demo_event"
proof -
  have "SubscribeEventsResponse_json_ok demo_event" by code_simp
  from event_json_round_trip [OF this] demo_event_toJSON show ?thesis by simp
qed

text \<open>C20: requests of the three services besides the session service, which between them carry bytes, an
enum, a choice, repeated strings and messages, and doubles: a message to send and a part of an upload in the
messenger, a part of an end-to-end encrypted media upload, and a marketplace listing to create on Facebook.
Each survives the wire and JSON.  The conditions: for the listing, coordinates that are neither NaN nor the
negative zero; for JSON also declared enum numbers.\<close>

theorem service_requests_round_trip:
  assumes "wire_lib W stk rem"
  shows "(encode_bytes W (SendRequest_encode W) s = Inr bs \<longrightarrow>
      decode_bytes W (SendRequest_decode W) bs = Some (Inr s)) \<and>
    (encode_bytes W (UploadRequest_encode W) u = Inr bs \<longrightarrow>
      decode_bytes W (UploadRequest_decode W) bs = Some (Inr u)) \<and>
    (encode_bytes W (E2EEServiceSendMediaRequest_encode W) e = Inr bs \<longrightarrow>
      decode_bytes W (E2EEServiceSendMediaRequest_decode W) bs = Some (Inr e)) \<and>
    (FacebookServiceCreateMarketplaceListingRequest_ok l \<longrightarrow>
      encode_bytes W (FacebookServiceCreateMarketplaceListingRequest_encode W) l = Inr bs \<longrightarrow>
      decode_bytes W (FacebookServiceCreateMarketplaceListingRequest_decode W) bs = Some (Inr l)) \<and>
    (SendRequest_json_ok s \<longrightarrow> SendRequest_toJSON s = Returned J \<longrightarrow> SendRequest_fromJSON J = Returned s) \<and>
    (UploadRequest_toJSON u = Returned J \<longrightarrow> UploadRequest_fromJSON J = Returned u) \<and>
    (E2EEServiceSendMediaRequest_json_ok e \<longrightarrow> E2EEServiceSendMediaRequest_toJSON e = Returned J \<longrightarrow>
      E2EEServiceSendMediaRequest_fromJSON J = Returned e) \<and>
    (FacebookServiceCreateMarketplaceListingRequest_json_ok l \<longrightarrow>
      FacebookServiceCreateMarketplaceListingRequest_toJSON l = Returned J \<longrightarrow>
      FacebookServiceCreateMarketplaceListingRequest_fromJSON J = Returned l)"
proof -
  note rt = wire_lib.roundtrip [OF assms]
  have "encode_bytes W (SendRequest_encode W) s = Inr bs \<longrightarrow> decode_bytes W (SendRequest_decode W) bs = Some (Inr s)"
    using rt [OF wire_lib.SendRequest_codec [OF assms]] by (simp add: SendRequest_decode_def recursion_limit_def)
  moreover have "encode_bytes W (UploadRequest_encode W) u = Inr bs \<longrightarrow>
      decode_bytes W (UploadRequest_decode W) bs = Some (Inr u)"
    using rt [OF wire_lib.UploadRequest_codec [OF assms]] by (simp add: UploadRequest_decode_def recursion_limit_def)
  moreover have "encode_bytes W (E2EEServiceSendMediaRequest_encode W) e = Inr bs \<longrightarrow>
      decode_bytes W (E2EEServiceSendMediaRequest_decode W) bs = Some (Inr e)"
    using rt [OF wire_lib.E2EEServiceSendMediaRequest_codec [OF assms]]
    by (simp add: E2EEServiceSendMediaRequest_decode_def recursion_limit_def)
  moreover have "FacebookServiceCreateMarketplaceListingRequest_ok l \<longrightarrow>
      encode_bytes W (FacebookServiceCreateMarketplaceListingRequest_encode W) l = Inr bs \<longrightarrow>
      decode_bytes W (FacebookServiceCreateMarketplaceListingRequest_decode W) bs = Some (Inr l)"
    using rt [OF wire_lib.FacebookServiceCreateMarketplaceListingRequest_codec [OF assms]]
    by (simp add: FacebookServiceCreateMarketplaceListingRequest_decode_def recursion_limit_def)
  ultimately show ?thesis
    using SendRequest_json [of s] UploadRequest_json [of u] E2EEServiceSendMediaRequest_json [of e]
      FacebookServiceCreateMarketplaceListingRequest_json [of l]
    unfolding json_rt_def by blast
qed

definition demo_listing :: FacebookServiceCreateMarketplaceListingRequest where
  "demo_listing = \<lparr>FacebookServiceCreateMarketplaceListingRequest_sessionId = ''s1'',
     FacebookServiceCreateMarketplaceListingRequest_listing = Some (createBaseMarketplaceListingInput\<lparr>
       MarketplaceListingInput_title := ''bike'', MarketplaceListingInput_hashtags := [''a'', ''''],
       MarketplaceListingInput_location := Some \<lparr>MarketplaceLocation_latitude = 0x4024800000000000,
         MarketplaceLocation_longitude = 0xC024800000000000, MarketplaceLocation_name = ''home''\<rparr>\<rparr>)\<rparr>"

definition demo_listing_json :: js_any where
  "demo_listing_json = AObj [(''sessionId'', AStr ''s1''), (''listing'', AObj [(''title'', AStr ''bike''),
     (''hashtags'', AArr [AStr ''a'', AStr '''']),
     (''location'', AObj [(''latitude'', ANum (Fin (41 / 4))), (''longitude'', ANum (Fin (- (41 / 4)))),
       (''name'', AStr ''home'')])])]"

lemma demo_listing_facts:
  "FacebookServiceCreateMarketplaceListingRequest_toJSON demo_listing = Returned demo_listing_json"
  "FacebookServiceCreateMarketplaceListingRequest_json_ok demo_listing"
  "FacebookServiceCreateMarketplaceListingRequest_ok demo_listing"
  "is_Inr (encode_bytes pb_wire (FacebookServiceCreateMarketplaceListingRequest_encode pb_wire) demo_listing)"
  by code_simp+

lemma service_requests_round_trip_witness:
  "FacebookServiceCreateMarketplaceListingRequest_fromJSON demo_listing_json = Returned demo_listing \<and>
   (\<exists>bs. encode_bytes pb_wire (FacebookServiceCreateMarketplaceListingRequest_encode pb_wire) demo_listing = Inr bs \<and>
     decode_bytes pb_wire (FacebookServiceCreateMarketplaceListingRequest_decode pb_wire) bs = Some (Inr demo_listing))"
  using service_requests_round_trip [OF pb.wire_lib_axioms, where l = demo_listing and J = demo_listing_json]
    demo_listing_facts encodes [OF demo_listing_facts(4)] by blast

section \<open>Enums\<close>

text \<open>C33: the JSON names of the connection states: every known number has a name that reads back as the number,
and the number itself is read as well; a number of a later protocol is written as \<open>UNRECOGNIZED\<close> and
comes back as -1, so that JSON, unlike the wire format, loses it.\<close>

theorem connection_state_json:
  "(connectionState_known n \<longrightarrow> connectionStateFromJSON (AStr (connectionStateToJSON n)) = n) \<and>
   connectionStateFromJSON (js_int n) = (if connectionState_known n then n else - 1) \<and>
   (\<not> connectionState_known n \<longrightarrow> connectionStateToJSON n = ''UNRECOGNIZED'' \<and>
      connectionStateFromJSON (AStr (connectionStateToJSON n)) = - 1)"
proof -
  have known: "connectionState_known n \<longleftrightarrow> n \<in> {0, 1, 2, 3, 4, - 1}"
    by (auto simp: connectionState_known_def ConnectionState_values_def)
  have u: "connectionStateFromJSON (AStr ''UNRECOGNIZED'') = - 1" by code_simp
  have "connectionStateToJSON n = ''UNRECOGNIZED''" if "\<not> connectionState_known n"
    using that by (simp add: known connectionStateToJSON_def)
  moreover have "connectionStateFromJSON (js_int n) = (if connectionState_known n then n else - 1)"
    by (auto simp: known connectionStateFromJSON_def js_int_def)
  ultimately show ?thesis using connectionState_json u by auto
qed

lemma connection_state_json_witness:
  "connectionStateFromJSON (AStr (connectionStateToJSON 3)) = 3 \<and>
   connectionStateFromJSON (AStr (connectionStateToJSON 9)) = - 1"
proof -
  have "connectionState_known 3" "\<not> connectionState_known 9" by code_simp+
  then show ?thesis using connection_state_json [of 3] connection_state_json [of 9] by blast
qed

section \<open>Lost information\<close>

text \<open>C34: the doubles of a location survive the wire except that the negative zero, which compares equal to the
default, is not written and comes back as zero.\<close>

theorem location_round_trip:
  assumes "wire_lib W stk rem" and "\<not> double_is_nan x" and "\<not> double_is_nan y"
    and "encode_bytes W (MarketplaceLocation_encode W)
      \<lparr>MarketplaceLocation_latitude = x, MarketplaceLocation_longitude = y, MarketplaceLocation_name = s\<rparr> = Inr bs"
  shows "decode_bytes W (MarketplaceLocation_decode W) bs = Some (Inr
      \<lparr>MarketplaceLocation_latitude = (if double_is_zero x then 0 else x),
       MarketplaceLocation_longitude = (if double_is_zero y then 0 else y), MarketplaceLocation_name = s\<rparr>)"
proof -
  let ?m = "\<lparr>MarketplaceLocation_latitude = (if double_is_zero x then 0 else x),
       MarketplaceLocation_longitude = (if double_is_zero y then 0 else y), MarketplaceLocation_name = s\<rparr>"
  have z: "double_is_zero 0" "\<not> double_is_nan 0" by (simp_all add: double_is_zero_def double_is_nan_def)
  then have "MarketplaceLocation_ok ?m"
    using assms(2,3) by (simp add: MarketplaceLocation_ok_def double_ok_def)
  moreover have "encode_bytes W (MarketplaceLocation_encode W) ?m = Inr bs"
    using assms(4) z by (cases "double_is_zero x"; cases "double_is_zero y")
      (simp_all add: encode_bytes_def MarketplaceLocation_encode_def w_if_def)
  ultimately show ?thesis
    using wire_lib.roundtrip [OF assms(1) wire_lib.MarketplaceLocation_codec [OF assms(1)], of ?m bs]
    by (simp add: MarketplaceLocation_decode_def recursion_limit_def)
qed

lemma location_round_trip_witness:
  "decode_bytes pb_wire (MarketplaceLocation_decode pb_wire) [17, 0, 0, 0, 0, 0, 0, 0xF0, 0x3F] = Some (Inr
     \<lparr>MarketplaceLocation_latitude = 0, MarketplaceLocation_longitude = 0x3FF0000000000000, MarketplaceLocation_name = ''''\<rparr>)"
proof -
  have "encode_bytes pb_wire (MarketplaceLocation_encode pb_wire)
      \<lparr>MarketplaceLocation_latitude = 0x8000000000000000, MarketplaceLocation_longitude = 0x3FF0000000000000,
       MarketplaceLocation_name = ''''\<rparr> = Inr [17, 0, 0, 0, 0, 0, 0, 0xF0, 0x3F]"
    by code_simp
  moreover have "\<not> double_is_nan 0x8000000000000000" "\<not> double_is_nan 0x3FF0000000000000"
    "double_is_zero 0x8000000000000000" "\<not> double_is_zero 0x3FF0000000000000"
    by code_simp+
  ultimately show ?thesis using location_round_trip [OF pb.wire_lib_axioms] by fastforce
qed

lemma CookieMap_codec_own:
  assumes "wire_lib W stk rem" and "js_own ps"
  shows "codec W stk rem 1 (\<lambda>_. CookieMap_encode W \<lparr>CookieMap_values = ps\<rparr>) (CookieMap_cases W) createBaseCookieMap
    \<lparr>CookieMap_values = without_proto ps\<rparr>"
  by (rule codecI [OF CookieMap_encode_def],
      rule wire_lib.field_entries_assigned [OF assms(1), where upd = CookieMap_values_update and sel = CookieMap_values
        and key = CookieMap_ValuesEntry_key and val = CookieMap_ValuesEntry_value],
      rule wire_lib.CookieMap_ValuesEntry_rt [OF assms(1)], simp, simp add: CookieMap_defs, simp, simp add: CookieMap_defs,
      simp add: CookieMap_defs, rule matched_Nil, simp add: CookieMap_defs js_set_own [OF assms(2)])

text \<open>C40: cookies whose map has an entry with the key \<open>__proto__\<close>, as \<open>fromJSON\<close> builds it from JSON, lose
that entry, and no other, on the wire, in \<open>toJSON\<close> and in \<open>fromPartial\<close>: these assign the entries to a plain
object, which for this key calls the inherited setter.  Only \<open>fromJSON\<close>, which defines the property, keeps
every entry.  This holds for every map and every wire library that keeps the format.\<close>

theorem proto_key_dropped:
  assumes "wire_lib W stk rem" and "js_own ps"
  shows "(encode_bytes W (CookieMap_encode W) \<lparr>CookieMap_values = ps\<rparr> = Inr bs \<longrightarrow>
      decode_bytes W (CookieMap_decode W) bs = Some (Inr \<lparr>CookieMap_values = without_proto ps\<rparr>)) \<and>
    CookieMap_toJSON \<lparr>CookieMap_values = ps\<rparr> = Returned (AObj (if ps = [] then []
      else [(''values'', AObj (map (\<lambda>(k, v). (k, AStr v)) (without_proto ps)))])) \<and>
    CookieMap_fromPartial (AObj [(''values'', AObj (map (\<lambda>(k, v). (k, AStr v)) ps))]) =
      Returned \<lparr>CookieMap_values = without_proto ps\<rparr> \<and>
    CookieMap_fromJSON (AObj [(''values'', AObj (map (\<lambda>(k, v). (k, AStr v)) ps))]) = Returned \<lparr>CookieMap_values = ps\<rparr>"
proof (intro conjI impI)
  assume "encode_bytes W (CookieMap_encode W) \<lparr>CookieMap_values = ps\<rparr> = Inr bs"
  then have "encode_bytes W (\<lambda>_. CookieMap_encode W \<lparr>CookieMap_values = ps\<rparr>) \<lparr>CookieMap_values = without_proto ps\<rparr> = Inr bs"
    by (simp add: encode_bytes_def)
  from wire_lib.roundtrip [OF assms(1) CookieMap_codec_own [OF assms] _ this]
  show "decode_bytes W (CookieMap_decode W) bs = Some (Inr \<lparr>CookieMap_values = without_proto ps\<rparr>)"
    by (simp add: CookieMap_decode_def recursion_limit_def)
qed (simp_all add: CookieMap_toJSON_def t_obj_def t_map_def js_set_own [OF assms(2)] CookieMap_fromPartial_def p_map_def
    isSet_def assign_all_strings CookieMap_fromJSON_def f_map_def define_all_own [OF assms(2)] f_field_def
    createBaseCookieMap_def)

text \<open>A cookie \<open>__proto__\<close> beside another: the bytes hold both, the decoded map one.\<close>

lemma proto_key_dropped_witness:
  "(\<exists>bs. encode_bytes pb_wire (CookieMap_encode pb_wire) \<lparr>CookieMap_values = [(''__proto__'', ''x''), (''xs'', ''k'')]\<rparr> = Inr bs \<and>
      length bs = 25 \<and> decode_bytes pb_wire (CookieMap_decode pb_wire) bs = Some (Inr \<lparr>CookieMap_values = [(''xs'', ''k'')]\<rparr>)) \<and>
   CookieMap_fromJSON (AObj [(''values'', AObj [(''__proto__'', AStr ''x''), (''xs'', AStr ''k'')])]) =
     Returned \<lparr>CookieMap_values = [(''__proto__'', ''x''), (''xs'', ''k'')]\<rparr>"
proof -
  let ?ps = "[(''__proto__'', ''x''), (''xs'', ''k'')]"
  obtain bs where bs: "encode_bytes pb_wire (CookieMap_encode pb_wire) \<lparr>CookieMap_values = ?ps\<rparr> = Inr bs" "length bs = 25"
  proof -
    have "(case encode_bytes pb_wire (CookieMap_encode pb_wire) \<lparr>CookieMap_values = ?ps\<rparr> of Inl e \<Rightarrow> False | Inr bs \<Rightarrow> length bs = 25)"
      by code_simp
    then show ?thesis using that by (simp split: sum.splits)
  qed
  have own: "js_own ?ps" "without_proto ?ps = [(''xs'', ''k'')]" by code_simp+
  from proto_key_dropped [OF pb.wire_lib_axioms own(1), of bs] bs own(2) show ?thesis by simp
qed

end
