(* ===== verification/Spec2Isabelle.thy ===== *)
theory Spec2Isabelle
  imports Client Json_Properties
begin

text \<open>
  A verification development for the Node.js SDK of \<open>meta.go\<close> (\<open>src/sdk/node/src\<close>), the client of
  the project's gRPC runtime.

  The program.  A \<open>MetaClient\<close> (\<open>client.ts\<close>) talks to a runtime process through gRPC stubs.  In
  managed mode it starts the process itself: \<open>distribution.ts\<close> and \<open>runtime-package.ts\<close> find the
  binary, \<open>runtime.ts\<close> spawns it, reads one bootstrap line from its stdout and stops it at the end.
  Each call passes through the error middleware of \<open>errors.ts\<close>.  Events of a session arrive as a
  response stream, which an \<open>EventStream\<close> (\<open>events.ts\<close>) distributes to callbacks and to iterators with a
  bounded \<open>EventQueue\<close> each.  Messages are serialised by the ts-proto codecs in \<open>gen\<close>.

  Theories, in the order of their imports.

  \<open>Prelude\<close>: bytes, results of code that may throw, decimal numerals, insertion-ordered sets, and the
  theorem collections the other theories fill.
  \<open>Errors\<close> (\<open>errors.ts\<close>): the exceptions as one datatype, their names and messages, \<open>mapRpcError\<close> and
  \<open>errorMiddleware\<close>.
  \<open>Js_Values\<close>: the parts of the language the results depend on: double arithmetic, property order and
  the key \<open>__proto__\<close> of plain objects, dates, \<open>trim\<close>.
  \<open>Wire\<close>: the interface of the package \<open>@bufbuild/protobuf/wire\<close>, whose code is not part of the
  repository, as a record of operations; the locales \<open>wire_lib\<close>, \<open>wire_reader\<close> and \<open>wire_format\<close> state
  the protobuf format it implements.
  \<open>Codec\<close>: the skeleton that every generated codec shares, with the decoder loop, the recursion limit
  and the 64-bit range checks.  \<open>Codec_Laws\<close>: round trip, unknown fields and termination, proved once
  for all messages.  \<open>Wire_Instance\<close>: a byte-level interpretation of the locales.
  \<open>Gen_Google\<close>, \<open>Gen_Common\<close>, \<open>Gen_Health\<close>, \<open>Gen_Runtime\<close>, \<open>Gen_Events\<close>, \<open>Gen_Session\<close>,
  \<open>Gen_Facebook\<close>, \<open>Gen_E2ee\<close>, \<open>Gen_Messenger\<close>: for every message of the generated files of these
  names its interface, \<open>createBase\<close>, \<open>encode\<close> and \<open>decode\<close>, its round trip and the totality of its decoder.
  \<open>Codec_Properties\<close>: what the codecs guarantee to the SDK.
  \<open>Js_Dates\<close>, \<open>Js_Any\<close>, \<open>Js_Doubles\<close>: the ISO text of dates, untyped values with the conversions of the
  language, base64, and the bits of doubles.
  \<open>Json_Codec\<close>: the statements of the generated \<open>fromJSON\<close>, \<open>toJSON\<close> and \<open>fromPartial\<close>, one rule per kind of
  field for reading back what \<open>toJSON\<close> wrote, and what \<open>toJSON\<close> may throw.
  \<open>Json_Google\<close>, \<open>Json_Common\<close>, \<open>Json_Health\<close>, \<open>Json_Runtime\<close>, \<open>Json_Events\<close>, \<open>Json_Session\<close>,
  \<open>Json_Facebook\<close>, \<open>Json_E2ee\<close>, \<open>Json_Messenger\<close>: these methods and \<open>create\<close> for every message, and the
  enums with their JSON names.
  \<open>Json_Properties\<close>: JSON round trips, and where JSON or the wire loses information.
  \<open>Event_Queue\<close> (class \<open>EventQueue\<close>): the queue, an abstract queue that keeps the whole history, the
  simulation between them, and the locale \<open>delivery\<close> with what a consumer may rely on.
  \<open>Event_Stream\<close> (class \<open>EventStream\<close>): state, operations and the step relation; \<open>Event_Stream_Laws\<close>: its
  invariants and what users observe.
  \<open>Auth\<close>: the conversions of \<open>client.ts\<close>.  \<open>Distribution\<close>, \<open>Runtime\<close>: locating, starting and stopping
  the runtime.  \<open>Client\<close>: \<open>MetaClient\<close>.

  Correspondence.  Objects are records with one field per property; a \<open>Promise\<close> is a number whose
  settlement is an entry of a list; an exception is the left value of a sum; a mutable \<open>Set\<close> that
  several places hold is an entry of a heap.  One JavaScript turn is one step; what happens between
  turns (responses, the end or failure of the source, process events, timers) is an input.  What the code does
to the outside (calls with their metadata, the channel, the managed runtime, callbacks) is a log, so that the
order of effects can be stated.  Code that
  is not in the repository is a parameter: the gRPC stubs (\<open>services\<close>), the listeners (\<open>behaviour\<close>), the
  wire library, the file system and module resolver (\<open>system\<close>), and text conversion with \<open>JSON.parse\<close>
  (\<open>host\<close>).

  Loops.  The decoder loop and the loop over the members of a live \<open>Set\<close> may run for ever in principle
  and are partial functions whose result \<open>None\<close> is divergence.  Decoders are shown to return on every
  input; the listener loop returns when listeners do not keep adding listeners.  No fuel is used.

  Bounds.  A \<open>char\<close> is a code unit up to 255, so strings outside that alphabet are not represented.
  Numbers the code uses as integers are unbounded integers with the range checks of the code; the
  timeout is a double.

  Untyped values.  A conversion in \<open>fromJSON\<close> or \<open>fromPartial\<close> returns, throws, or is \<open>Unmodelled\<close>: the text
  of a number that is not an integer, the local time zone, text that is not canonical base64 or not in
  the format of \<open>toISOString\<close>, and values of a type the field does not have.  No theorem takes such an
  outcome for a success.

  Documentation and code.  The README lets a session accept exactly one authentication source; \<open>auth_valid\<close> is
  that contract, \<open>first_source\<close> what the code looks at when a caller gives several, and the theorems on
  authentication say what happens in either case.

  Not modelled.  The service definition objects and type declarations of the generated files; the Go
  runtime, the Python SDK and the release scripts; the \<open>cause\<close> of the errors other than
  \<open>RuntimeLaunchError\<close>; the extra microtasks between the settlement of a promise and the
  continuation that awaits it, which only delay a step.
\<close>

end
